(* ===== verification/Relay_Prelude.thy ===== *)
theory Relay_Prelude
  imports
    Main
    "HOL-Library.AList"
    "HOL-Library.Sublist"
    "HOL-Library.List_Lexorder"
    "HOL-Library.Char_ord"
begin

text \<open>
  Shared vocabulary of the development: the errors Python raises, the part of
  \<^verbatim>\<open>datetime\<close> and \<^verbatim>\<open>json\<close> the sources use, insertion-ordered dictionaries,
  JSON-lines files, a few \<^verbatim>\<open>str\<close> methods, and the generic lemmas the component
  theories rest on.  The interfaces between components are in
  \<open>Relay_Interfaces\<close>.
\<close>

named_theorems dict_simps \<open>lookup and membership after a dictionary operation\<close>
named_theorems time_simps \<open>parsing and comparing timestamps\<close>

section \<open>Errors\<close>

text \<open>
  The exceptions that leave a modelled function.  A call that may raise returns
  \<open>py_error + 'a\<close>, with \<open>Inl\<close> for the exception.
\<close>

datatype py_error =
    ValueError string
  | TypeError
  | ValidationError
  | OverflowError
  | OSError
  | InvalidTransition
  | AttributeError
  | SchemaError

type_synonym 'a result = "py_error + 'a"

fun is_ok :: "'a result \<Rightarrow> bool" where
  "is_ok (Inl _) = False"
| "is_ok (Inr _) = True"

lemma is_ok_iff: "is_ok r \<longleftrightarrow> (\<exists>v. r = Inr v)"
  by (cases r) auto

text \<open>Sequencing of calls that may raise: the first exception wins.\<close>

fun and_then :: "'a result \<Rightarrow> ('a \<Rightarrow> 'b result) \<Rightarrow> 'b result" where
  "and_then (Inl e) f = Inl e"
| "and_then (Inr v) f = f v"

lemma and_then_Inr_iff: "and_then r f = Inr w \<longleftrightarrow> (\<exists>v. r = Inr v \<and> f v = Inr w)"
  by (cases r) auto

section \<open>Timestamps\<close>

text \<open>
  \<^verbatim>\<open>datetime.isoformat\<close> strings are kept as what \<^verbatim>\<open>datetime.fromisoformat\<close> reads from
  them: an instant with a UTC offset (microseconds since the epoch), a naive date
  and time, or a string the parser rejects.  \<^verbatim>\<open>.replace("Z", "+00:00")\<close> does not change
  what is read.  The empty string is \<open>NotIso ''''\<close>.
\<close>

datatype timestamp = Aware int | Naive int | NotIso string

datatype py_datetime = AwareDT int | NaiveDT int

fun fromisoformat :: "timestamp \<Rightarrow> py_datetime result" where
  "fromisoformat (Aware t) = Inr (AwareDT t)"
| "fromisoformat (Naive t) = Inr (NaiveDT t)"
| "fromisoformat (NotIso s) = Inl (ValueError ''Invalid isoformat string'')"

fun isoformat :: "py_datetime \<Rightarrow> timestamp" where
  "isoformat (AwareDT t) = Aware t"
| "isoformat (NaiveDT t) = Naive t"

lemma fromisoformat_isoformat [simp]: "fromisoformat (isoformat d) = Inr d"
  by (cases d) auto

text \<open>
  \<^verbatim>\<open>timedelta(seconds=n)\<close> in microseconds, and adding it to a datetime.  A result
  outside the years 1 to 9999 raises \<^verbatim>\<open>OverflowError\<close> (so does a \<^verbatim>\<open>timedelta\<close> of more than
  999999999 days, which could not give a result inside those years).
\<close>

definition seconds :: "int \<Rightarrow> int" where
  "seconds n = n * 1000000"

definition datetime_min :: int where
  "datetime_min = - 62135596800000000"

definition datetime_max :: int where
  "datetime_max = 253402300799999999"

definition in_range :: "int \<Rightarrow> bool" where
  "in_range t \<longleftrightarrow> datetime_min \<le> t \<and> t \<le> datetime_max"

fun add_seconds :: "py_datetime \<Rightarrow> int \<Rightarrow> py_datetime result" where
  "add_seconds (AwareDT t) n =
    (if in_range (t + seconds n) then Inr (AwareDT (t + seconds n)) else Inl OverflowError)"
| "add_seconds (NaiveDT t) n =
    (if in_range (t + seconds n) then Inr (NaiveDT (t + seconds n)) else Inl OverflowError)"

text \<open>
  \<^verbatim>\<open>d <= now\<close> where \<^verbatim>\<open>now = datetime.now(UTC)\<close>: comparing a naive datetime with an
  aware one raises \<^verbatim>\<open>TypeError\<close>.
\<close>

fun at_or_before :: "py_datetime \<Rightarrow> int \<Rightarrow> bool result" where
  "at_or_before (AwareDT t) now = Inr (t \<le> now)"
| "at_or_before (NaiveDT t) now = Inl TypeError"

text \<open>\<^verbatim>\<open>datetime.fromisoformat(ts) <= now\<close>, with the exceptions of both steps.\<close>

definition stamp_expired :: "timestamp \<Rightarrow> int \<Rightarrow> bool result" where
  "stamp_expired ts now = and_then (fromisoformat ts) (\<lambda>d. at_or_before d now)"

lemma stamp_expired_simps [simp, time_simps]:
  "stamp_expired (Aware t) now = Inr (t \<le> now)"
  "stamp_expired (Naive t) now = Inl TypeError"
  "stamp_expired (NotIso s) now = Inl (ValueError ''Invalid isoformat string'')"
  by (simp_all add: stamp_expired_def)

lemma stamp_expired_later:
  "stamp_expired ts now = Inr True \<Longrightarrow> now \<le> now' \<Longrightarrow> stamp_expired ts now' = Inr True"
  by (cases ts) auto

lemma stamp_not_expired_earlier:
  "stamp_expired ts now' = Inr False \<Longrightarrow> now \<le> now' \<Longrightarrow> stamp_expired ts now = Inr False"
  by (cases ts) auto

lemma seconds_mono: "m \<le> n \<Longrightarrow> seconds m \<le> seconds n"
  by (simp add: seconds_def)

lemma seconds_pos [simp]: "0 < seconds n \<longleftrightarrow> 0 < n"
  by (simp add: seconds_def)

section \<open>JSON values and JSON-lines files\<close>

text \<open>
  A number with a fraction is kept as its literal, which fixes the double it denotes; only the
  arguments of inline calls hold any (\<open>Recovery_Intake\<close>), the documents of the other components
  hold none.
\<close>

datatype json =
    JNull
  | JBool bool
  | JInt int
  | JStr string
  | JTime timestamp
  | JList "json list"
  | JObj "(string \<times> json) list"
  | JFloat string

text \<open>An optional Python value as JSON.\<close>

definition jopt :: "('a \<Rightarrow> json) \<Rightarrow> 'a option \<Rightarrow> json" where
  "jopt f x = (case x of None \<Rightarrow> JNull | Some v \<Rightarrow> f v)"

text \<open>
  A line of a JSON-lines file as its readers see it: blank, not JSON, or an object
  of the ledger's schema.
\<close>

datatype 'e jsonl = Blank | BadJson | Entry 'e

fun entry_of :: "'e jsonl \<Rightarrow> 'e option" where
  "entry_of (Entry e) = Some e"
| "entry_of _ = None"

definition entries :: "'e jsonl list \<Rightarrow> 'e list" where
  "entries ls = List.map_filter entry_of ls"

lemma entries_simps [simp]:
  "entries [] = []"
  "entries (Blank # ls) = entries ls"
  "entries (BadJson # ls) = entries ls"
  "entries (Entry e # ls) = e # entries ls"
  by (simp_all add: entries_def List.map_filter_def)

lemma entries_append [simp]: "entries (xs @ ys) = entries xs @ entries ys"
  by (simp add: entries_def List.map_filter_def)

lemma set_entries: "set (entries ls) = {e. Entry e \<in> set ls}"
proof (induction ls)
  case (Cons l ls)
  then show ?case by (cases l) auto
qed simp

text \<open>
  What becomes of a line appended to such a file: it is written; nothing is written and the call
  raises; it is written and then the call raises, as when \<^verbatim>\<open>fsync\<close> fails; or the write is torn,
  a part of the line is in the file, without its newline, and the call raises.  The part of a torn
  line is at best the whole object.
\<close>

datatype write_fate = Written | Not_written | Unsynced | Torn bool

text \<open>
  The lines of a file and whether the last one lacks its newline.  What is written after a torn
  line continues that line, and two objects on one line are no JSON.
\<close>

type_synonym 'e line_file = "'e jsonl list \<times> bool"

definition add_line :: "'e jsonl \<Rightarrow> 'e line_file \<Rightarrow> 'e jsonl list" where
  "add_line l f = (if snd f then butlast (fst f) @ [BadJson] else fst f @ [l])"

definition write_line :: "write_fate \<Rightarrow> 'e \<Rightarrow> 'e line_file \<Rightarrow> 'e line_file \<times> bool" where
  "write_line fate e f =
    (case fate of
       Written \<Rightarrow> ((add_line (Entry e) f, False), True)
     | Not_written \<Rightarrow> (f, False)
     | Unsynced \<Rightarrow> ((add_line (Entry e) f, False), False)
     | Torn whole \<Rightarrow> ((add_line (if whole then Entry e else BadJson) f, True), False))"

text \<open>A property of a file that survives the loss of its torn line.\<close>

definition holds_of_file :: "('e jsonl list \<Rightarrow> bool) \<Rightarrow> 'e line_file \<Rightarrow> bool" where
  "holds_of_file P f \<longleftrightarrow> P (fst f) \<and> (snd f \<longrightarrow> P (butlast (fst f)))"

lemma add_line_holds:
  assumes "holds_of_file P f" and "\<And>ls. P ls \<Longrightarrow> P (ls @ [BadJson])" and "\<not> snd f \<Longrightarrow> P (fst f) \<Longrightarrow> P (fst f @ [l])"
  shows "holds_of_file P (add_line l f, b)"
  using assms by (auto simp: holds_of_file_def add_line_def)

lemma write_line_holds:
  assumes "holds_of_file P f" and "\<And>ls. P ls \<Longrightarrow> P (ls @ [BadJson])" and "\<not> snd f \<Longrightarrow> P (fst f) \<Longrightarrow> P (fst f @ [Entry e])"
  shows "holds_of_file P (fst (write_line fate e f))"
  using assms add_line_holds [OF assms(1,2)] by (cases fate) (auto simp: write_line_def)

lemma write_line_done: "write_line fate e f = (f', True) \<Longrightarrow> f' = (add_line (Entry e) f, False) \<and> fate = Written"
  by (cases fate) (auto simp: write_line_def)

text \<open>\<^verbatim>\<open>max_seq = max(max_seq, seq)\<close> over the ledger, from 0, plus one.\<close>

definition next_seq :: "('e \<Rightarrow> int) \<Rightarrow> 'e jsonl list \<Rightarrow> int" where
  "next_seq sq ls = foldl (\<lambda>m e. max m (sq e)) 0 (entries ls) + 1"

lemma foldl_max_ge_init: "m \<le> foldl (\<lambda>m e. max m (sq e)) (m :: int) es"
proof (induction es arbitrary: m)
  case (Cons e es)
  from Cons [of "max m (sq e)"] show ?case by simp
qed simp

lemma foldl_max_ge: "e \<in> set es \<Longrightarrow> sq e \<le> foldl (\<lambda>m e. max m (sq e)) (m :: int) es"
proof (induction es arbitrary: m)
  case (Cons d es)
  show ?case
  proof (cases "e = d")
    case True
    then show ?thesis using foldl_max_ge_init [of "max m (sq d)" sq es] by simp
  next
    case False
    with Cons show ?thesis by simp
  qed
qed simp

lemma next_seq_fresh: "e \<in> set (entries ls) \<Longrightarrow> sq e < next_seq sq ls"
  using foldl_max_ge [of e "entries ls" sq 0] by (simp add: next_seq_def)

lemma next_seq_pos: "0 < next_seq sq ls"
  using foldl_max_ge_init [of 0 sq "entries ls"] by (simp add: next_seq_def)

text \<open>Sequence numbers that strictly increase along a ledger.\<close>

definition seq_increasing :: "('e \<Rightarrow> int) \<Rightarrow> 'e jsonl list \<Rightarrow> bool" where
  "seq_increasing sq ls \<longleftrightarrow> sorted_wrt (\<lambda>a b. sq a < sq b) (entries ls)"

lemma seq_increasing_Nil [simp]: "seq_increasing sq []"
  by (simp add: seq_increasing_def)

lemma seq_increasing_snoc:
  assumes "seq_increasing sq ls" and "sq e = next_seq sq ls"
  shows "seq_increasing sq (ls @ [Entry e])"
  using assms next_seq_fresh [of _ ls sq]
  by (auto simp: seq_increasing_def sorted_wrt_append)

section \<open>Dictionaries with insertion order\<close>

text \<open>
  A Python dict iterates in insertion order and keeps a key's position when its
  value is replaced: the association lists of \<open>HOL-Library.AList\<close>, whose
  \<open>update\<close> and \<open>delete\<close> do the same.
\<close>

type_synonym ('k, 'v) dict = "('k \<times> 'v) list"

definition wf_dict :: "('k, 'v) dict \<Rightarrow> bool" where
  "wf_dict d \<longleftrightarrow> distinct (map fst d)"

definition dict_get :: "('k, 'v) dict \<Rightarrow> 'k \<Rightarrow> 'v option" where
  "dict_get d k = map_of d k"

definition dict_set :: "'k \<Rightarrow> 'v \<Rightarrow> ('k, 'v) dict \<Rightarrow> ('k, 'v) dict" where
  "dict_set k v d = AList.update k v d"

definition dict_pop :: "'k \<Rightarrow> ('k, 'v) dict \<Rightarrow> ('k, 'v) dict" where
  "dict_pop k d = AList.delete k d"

definition dict_values :: "('k, 'v) dict \<Rightarrow> 'v list" where
  "dict_values d = map snd d"

lemma wf_dict_Nil [simp]: "wf_dict []"
  by (simp add: wf_dict_def)

lemma wf_dict_set [simp]: "wf_dict d \<Longrightarrow> wf_dict (dict_set k v d)"
  by (simp add: wf_dict_def dict_set_def distinct_update)

lemma wf_dict_pop [simp]: "wf_dict d \<Longrightarrow> wf_dict (dict_pop k d)"
  by (simp add: wf_dict_def dict_pop_def distinct_delete)

lemma dict_get_Nil [simp]: "dict_get [] k = None"
  by (simp add: dict_get_def)

lemma dict_get_set [dict_simps]:
  "dict_get (dict_set k v d) k' = (if k' = k then Some v else dict_get d k')"
  by (simp add: dict_get_def dict_set_def update_conv)

lemma dict_get_pop [dict_simps]:
  "dict_get (dict_pop k d) k' = (if k' = k then None else dict_get d k')"
  by (simp add: dict_get_def dict_pop_def delete_conv)

lemma dict_item_get: "wf_dict d \<Longrightarrow> (k, v) \<in> set d \<longleftrightarrow> dict_get d k = Some v"
  by (auto simp: wf_dict_def dict_get_def map_of_eq_Some_iff)

lemma set_dict_values: "wf_dict d \<Longrightarrow> set (dict_values d) = {v. \<exists>k. dict_get d k = Some v}"
  by (force simp: dict_values_def dict_item_get [symmetric])

lemma dict_get_in_values: "dict_get d k = Some v \<Longrightarrow> v \<in> set (dict_values d)"
  by (force simp: dict_get_def dict_values_def dest: map_of_SomeD)

lemma dict_split:
  assumes "wf_dict d" and "dict_get d k = Some v"
  obtains xs ys where "d = xs @ (k, v) # ys" and "dict_pop k d = xs @ ys"
proof -
  from assms have "(k, v) \<in> set d" by (simp add: dict_item_get)
  then obtain xs ys where d: "d = xs @ (k, v) # ys" by (auto dest: split_list)
  with assms(1) have "k \<notin> fst ` set xs" and "k \<notin> fst ` set ys" by (auto simp: wf_dict_def)
  then have "filter (\<lambda>(k', _). k \<noteq> k') xs = xs" and "filter (\<lambda>(k', _). k \<noteq> k') ys = ys"
    by (force intro!: filter_True)+
  then have "dict_pop k d = xs @ ys" by (simp add: d dict_pop_def AList.delete_eq)
  with d show thesis by (rule that)
qed

lemma dict_set_new: "dict_get d k = None \<Longrightarrow> dict_set k v d = d @ [(k, v)]"
  unfolding dict_get_def dict_set_def by (induction d) (auto split: if_splits)

lemma length_dict_set: "length (dict_set k v d) = (if dict_get d k = None then Suc (length d) else length d)"
proof (cases "dict_get d k")
  case None
  then show ?thesis by (simp add: dict_set_new)
next
  case (Some w)
  have "length (AList.update k v d) = length d" if "map_of d k = Some w"
    using that by (induction d) (auto split: if_splits)
  with Some show ?thesis by (simp add: dict_set_def dict_get_def)
qed

lemma length_dict_pop:
  assumes "wf_dict d" and "dict_get d k = Some v"
  shows "Suc (length (dict_pop k d)) = length d"
proof -
  obtain xs ys where "d = xs @ (k, v) # ys" and "dict_pop k d = xs @ ys" by (rule dict_split [OF assms])
  then show ?thesis by simp
qed

section \<open>Strings\<close>

text \<open>\<^verbatim>\<open>s.startswith(p)\<close>, \<^verbatim>\<open>s.rstrip("/")\<close>, \<^verbatim>\<open>p in s\<close> and \<^verbatim>\<open>sep.join(xs)\<close>.\<close>

definition startswith :: "string \<Rightarrow> string \<Rightarrow> bool" where
  "startswith s p \<longleftrightarrow> take (length p) s = p"

lemma startswith_prefix: "startswith s p \<longleftrightarrow> prefix p s"
  by (auto simp: startswith_def prefix_def) (metis append_take_drop_id)

definition rstrip_slash :: "string \<Rightarrow> string" where
  "rstrip_slash s = rev (dropWhile (\<lambda>c. c = CHR ''/'') (rev s))"

fun str_contains :: "string \<Rightarrow> string \<Rightarrow> bool" where
  "str_contains [] p = (p = [])"
| "str_contains (c # s) p = (startswith (c # s) p \<or> str_contains s p)"

lemma str_contains_sublist: "str_contains s p \<longleftrightarrow> sublist p s"
proof (induction s)
  case (Cons c s)
  then show ?case by (simp add: startswith_prefix sublist_Cons_right)
qed simp

fun str_join :: "string \<Rightarrow> string list \<Rightarrow> string" where
  "str_join sep [] = []"
| "str_join sep [x] = x"
| "str_join sep (x # y # zs) = x @ sep @ str_join sep (y # zs)"

section \<open>Searching a list\<close>

text \<open>\<^verbatim>\<open>next((x for x in xs if P(x)), None)\<close>.\<close>

definition next_or_none :: "('a \<Rightarrow> bool) \<Rightarrow> 'a list \<Rightarrow> 'a option" where
  "next_or_none P xs = List.find P xs"

lemma next_or_none_Some: "next_or_none P xs = Some x \<Longrightarrow> x \<in> set xs \<and> P x"
  by (auto simp: next_or_none_def find_Some_iff)

lemma next_or_none_None: "next_or_none P xs = None \<longleftrightarrow> (\<forall>x \<in> set xs. \<not> P x)"
  by (auto simp: next_or_none_def find_None_iff)

text \<open>The first non-\<open>None\<close> value of a function over a list: a loop with an early return.\<close>

lemma next_or_none_append: "next_or_none P xs = Some x \<Longrightarrow> next_or_none P (xs @ ys) = Some x"
  by (induction xs) (auto simp: next_or_none_def)

lemma next_or_none_append_None: "next_or_none P xs = None \<Longrightarrow> next_or_none P (xs @ ys) = next_or_none P ys"
  by (induction xs) (auto simp: next_or_none_def split: if_splits)

fun first_some :: "('a \<Rightarrow> 'b option) \<Rightarrow> 'a list \<Rightarrow> 'b option" where
  "first_some f [] = None"
| "first_some f (x # xs) = (case f x of Some y \<Rightarrow> Some y | None \<Rightarrow> first_some f xs)"

lemma first_some_None: "first_some f xs = None \<longleftrightarrow> (\<forall>x \<in> set xs. f x = None)"
  by (induction xs) (auto split: option.splits)

lemma first_some_Some: "first_some f xs = Some y \<Longrightarrow> \<exists>x \<in> set xs. f x = Some y"
  by (induction xs) (auto split: option.splits)

lemma first_some_cong: "(\<And>x. x \<in> set xs \<Longrightarrow> f x = g x) \<Longrightarrow> first_some f xs = first_some g xs"
  by (induction xs) (auto split: option.splits)

lemma foldl_invariant:
  assumes "P s" and "\<And>s x. P s \<Longrightarrow> x \<in> set xs \<Longrightarrow> P (f s x)"
  shows "P (foldl f s xs)"
  using assms by (induction xs arbitrary: s) auto

end
