(* ===== verification/Relay_Interfaces.thy ===== *)
theory Relay_Interfaces
  imports Relay_Prelude
begin

text \<open>
  The contracts the components share, as locales.  Each is interpreted on the
  definitions of the components that provide it:
  \<^item> \<open>exclusive_registry\<close>: a store of time-limited grants in which two clashing
    grants are never live together (fleet claims, path leases, execution leases);
  \<^item> \<open>projected_log\<close>: a state rebuilt by replaying an append-only log, with an
    invariant that every event keeps (fleet claims, fleet queue);
  \<^item> \<open>hash_chain\<close>: a log whose entries carry the digest of the entry before
    (fleet claim ledger, lane and receipt lifecycle ledgers);
  \<^item> \<open>absorbing_machine\<close>: a deterministic machine that accepts no event in its
    terminal states (runtime supervisor, lane lifecycle);
  \<^item> \<open>metered_calls\<close>: calls that pay for each success from a credit of the store (remote
    action and disclosure authorizations).
\<close>

section \<open>Registries of exclusive, time-limited grants\<close>

locale exclusive_registry =
  fixes live :: "'s \<Rightarrow> int \<Rightarrow> 'h set"
    and clash :: "'h \<Rightarrow> 'h \<Rightarrow> bool"
  assumes clash_sym: "clash x y \<Longrightarrow> clash y x"
    and live_antimono: "t \<le> t' \<Longrightarrow> live s t' \<subseteq> live s t"
begin

definition excl :: "'s \<Rightarrow> int \<Rightarrow> bool" where
  "excl s t \<longleftrightarrow> pairwise (\<lambda>x y. \<not> clash x y) (live s t)"

lemma exclD: "excl s t \<Longrightarrow> x \<in> live s t \<Longrightarrow> y \<in> live s t \<Longrightarrow> x \<noteq> y \<Longrightarrow> \<not> clash x y"
  by (auto simp: excl_def pairwise_def)

lemma excl_shrink: "excl s t \<Longrightarrow> live s' t' \<subseteq> live s t \<Longrightarrow> excl s' t'"
  by (auto simp: excl_def intro: pairwise_subset)

lemma excl_later: "excl s t \<Longrightarrow> t \<le> t' \<Longrightarrow> excl s t'"
  by (rule excl_shrink [OF _ live_antimono])

lemma excl_grant:
  assumes "excl s t" and "live s' t' \<subseteq> insert h (live s t)"
    and free: "\<And>d. d \<in> live s t \<Longrightarrow> d \<noteq> h \<Longrightarrow> \<not> clash h d"
  shows "excl s' t'"
proof -
  have "pairwise (\<lambda>x y. \<not> clash x y) (insert h (live s t))"
    using assms(1) free by (auto simp: excl_def pairwise_insert dest: clash_sym)
  then show ?thesis
    using assms(2) by (auto simp: excl_def intro: pairwise_subset)
qed

end

section \<open>State rebuilt from an append-only log\<close>

locale projected_log =
  fixes apply_ev :: "'s \<Rightarrow> 'e \<Rightarrow> 's"
    and init :: "'s"
    and inv :: "'s \<Rightarrow> bool"
  assumes inv_init: "inv init"
    and inv_apply: "inv s \<Longrightarrow> inv (apply_ev s e)"
begin

lemma inv_replay: "inv (foldl apply_ev init es)"
  by (rule foldl_invariant [where P = inv]) (auto intro: inv_init inv_apply)

lemma replay_snoc: "foldl apply_ev init (es @ [e]) = apply_ev (foldl apply_ev init es) e"
  by simp

end

section \<open>Hash-chained logs\<close>

locale hash_chain =
  fixes digest :: "'e \<Rightarrow> string"
    and prior :: "'e \<Rightarrow> string option"
    and seal :: "string option \<Rightarrow> 'e \<Rightarrow> 'e"
  assumes prior_seal: "prior (seal d e) = d"
begin

fun linked :: "string option \<Rightarrow> 'e list \<Rightarrow> bool" where
  "linked d [] = True"
| "linked d (e # es) = (prior e = d \<and> linked (Some (digest e)) es)"

fun tip :: "string option \<Rightarrow> 'e list \<Rightarrow> string option" where
  "tip d [] = d"
| "tip d (e # es) = tip (Some (digest e)) es"

lemma tip_append: "tip d (xs @ ys) = tip (tip d xs) ys"
  by (induction xs arbitrary: d) auto

lemma tip_eq: "tip d es = (if es = [] then d else Some (digest (last es)))"
  by (induction es arbitrary: d) auto

lemma linked_append: "linked d (xs @ ys) \<longleftrightarrow> linked d xs \<and> linked (tip d xs) ys"
  by (induction xs arbitrary: d) auto

lemma linked_seal: "linked d es \<Longrightarrow> linked d (es @ [seal (tip d es) e])"
  by (simp add: linked_append prior_seal)

lemma linked_nth:
  "linked d es \<Longrightarrow> Suc i < length es \<Longrightarrow> prior (es ! Suc i) = Some (digest (es ! i))"
proof (induction es arbitrary: d i)
  case (Cons e es)
  then show ?case by (cases i; cases es) auto
qed simp

text \<open>
  Tamper evidence: where the digest separates the entries concerned, two linked
  logs of the same length that end in the same digest are the same log.
\<close>

lemma linked_determined:
  assumes "linked d xs" and "linked d ys" and "length xs = length ys"
    and "xs \<noteq> [] \<Longrightarrow> digest (last xs) = digest (last ys)"
    and "inj_on digest (set xs \<union> set ys)"
  shows "xs = ys"
  using assms
proof (induction xs arbitrary: ys rule: rev_induct)
  case Nil
  then show ?case by simp
next
  case (snoc x xs)
  from snoc.prems(3) obtain ys' y where ys: "ys = ys' @ [y]"
    by (cases ys rule: rev_cases) auto
  have "digest x = digest y"
    using snoc.prems(4) by (simp add: ys)
  then have xy: "x = y"
    using inj_onD [OF snoc.prems(5), of x y] by (simp add: ys)
  have tips: "tip d xs = tip d ys'"
    using snoc.prems(1,2) xy by (simp add: ys linked_append)
  have "xs = ys'"
  proof (rule snoc.IH)
    show "linked d xs" and "linked d ys'" and "length xs = length ys'"
      using snoc.prems(1,2,3) by (simp_all add: ys linked_append)
    show "xs \<noteq> [] \<Longrightarrow> digest (last xs) = digest (last ys')"
      using tips snoc.prems(3) by (auto simp: tip_eq ys split: if_splits)
    show "inj_on digest (set xs \<union> set ys')"
      using snoc.prems(5) by (auto simp: ys intro: inj_on_subset)
  qed
  with xy show ?case by (simp add: ys)
qed

end

section \<open>Machines with terminal states\<close>

text \<open>A run of a partial step function over a list of events; \<open>None\<close> once one is refused.\<close>

fun run :: "('s \<Rightarrow> 'e \<Rightarrow> 's option) \<Rightarrow> 's \<Rightarrow> 'e list \<Rightarrow> 's option" where
  "run step s [] = Some s"
| "run step s (e # es) = (case step s e of None \<Rightarrow> None | Some s' \<Rightarrow> run step s' es)"

lemma run_append: "run step s (xs @ ys) = Option.bind (run step s xs) (\<lambda>s'. run step s' ys)"
  by (induction xs arbitrary: s) (auto split: option.splits)

locale absorbing_machine =
  fixes step :: "'s \<Rightarrow> 'e \<Rightarrow> 's option"
    and terminal :: "'s \<Rightarrow> bool"
  assumes terminal_stuck: "terminal s \<Longrightarrow> step s e = None"
begin

lemma run_from_terminal: "terminal s \<Longrightarrow> run step s es = Some s' \<Longrightarrow> es = [] \<and> s' = s"
  by (cases es) (auto simp: terminal_stuck)

text \<open>A run that passes a terminal state ends there.\<close>

lemma run_through_terminal:
  assumes "run step s (xs @ ys) = Some s'" and "run step s xs = Some u" and "terminal u"
  shows "ys = [] \<and> s' = u"
  using assms run_from_terminal [of u ys s'] by (simp add: run_append)

end

section \<open>Calls that spend a credit\<close>

fun call_trace :: "('c \<Rightarrow> 's \<Rightarrow> 's \<times> 'o) \<Rightarrow> 'c list \<Rightarrow> 's \<Rightarrow> 'o list" where
  "call_trace exec [] s = []"
| "call_trace exec (c # cs) s = (let (s', out) = exec c s in out # call_trace exec cs s')"

locale metered_calls =
  fixes exec :: "'c \<Rightarrow> 's \<Rightarrow> 's \<times> 'o"
    and admitted :: "'c \<Rightarrow> bool"
    and inv :: "'s \<Rightarrow> bool"
    and credit :: "'s \<Rightarrow> nat"
    and spends :: "'o \<Rightarrow> bool"
  assumes pays: "inv s \<Longrightarrow> admitted c \<Longrightarrow> exec c s = (s', out) \<Longrightarrow>
    inv s' \<and> (if spends out then 1 else 0) + credit s' \<le> credit s"
begin

lemma spent_within_credit: "inv s \<Longrightarrow> \<forall>c \<in> set cs. admitted c \<Longrightarrow> length (filter spends (call_trace exec cs s)) \<le> credit s"
proof (induction cs arbitrary: s)
  case (Cons c cs)
  obtain s' out where e: "exec c s = (s', out)" by fastforce
  from pays [OF Cons.prems(1) _ e] Cons.prems(2)
  have "inv s'" and cost: "(if spends out then 1 else 0) + credit s' \<le> credit s" by simp_all
  with Cons.IH [of s'] Cons.prems(2) have "length (filter spends (call_trace exec cs s')) \<le> credit s'" by simp
  with cost e show ?case by (simp split: if_splits)
qed simp

end

end
