(* ===== verification/Supervisor_Machine.thy ===== *)
theory Supervisor_Machine
  imports Complex_Main Relay_Interfaces
begin

text \<open>
  The supervision state machine of \<^verbatim>\<open>rig_relay/runtime/supervisor_state_machine.py\<close>:
  states, events, the transition table, the mutable machine object and its
  operations.  The machine's attributes are a record; an operation returns the new
  record beside its result, so that what an operation changes before it raises is
  visible.  The \<^verbatim>\<open>attributes\<close> dictionary is reduced to the three keys the machine
  reads; wall-clock floats are rationals.  The transition callback and the
  \<^verbatim>\<open>timestamp\<close> field (a clock reading no operation inspects) are left out.
\<close>

section \<open>States, events and the transition table\<close>

datatype SupervisorState =
    IDLE | SPAWNING | RUNNING | HEARTBEATING | STALL_DETECTED | RECOVERING
  | TERMINATING | KILLED | COMPLETED | FAILED

datatype SupervisorEvent =
    SPAWN_STARTED | SPAWN_SUCCEEDED | SPAWN_FAILED | PROCESS_EXITED | OUTPUT_CHUNK
  | HEARTBEAT_TIMER | STALL_TIMER | STALL_RECOVERED | HARD_STALL | TIMEOUT
  | BUDGET_EXCEEDED | KILL_SENT | CANCELLED | ERROR

definition TERMINAL_STATES :: "SupervisorState list" where
  "TERMINAL_STATES = [KILLED, COMPLETED, FAILED]"

definition PROCESS_ALIVE_STATES :: "SupervisorState list" where
  "PROCESS_ALIVE_STATES = [RUNNING, HEARTBEATING, STALL_DETECTED, RECOVERING]"

fun TRANSITIONS :: "SupervisorState \<Rightarrow> (SupervisorEvent, SupervisorState) dict" where
  "TRANSITIONS IDLE = [(SPAWN_STARTED, SPAWNING)]"
| "TRANSITIONS SPAWNING =
    [(SPAWN_SUCCEEDED, RUNNING), (SPAWN_FAILED, FAILED), (ERROR, FAILED)]"
| "TRANSITIONS RUNNING =
    [(HEARTBEAT_TIMER, HEARTBEATING), (STALL_TIMER, STALL_DETECTED),
     (TIMEOUT, TERMINATING), (BUDGET_EXCEEDED, TERMINATING), (CANCELLED, TERMINATING)]"
| "TRANSITIONS HEARTBEATING =
    [(HEARTBEAT_TIMER, HEARTBEATING), (OUTPUT_CHUNK, RUNNING),
     (STALL_TIMER, STALL_DETECTED), (TIMEOUT, TERMINATING),
     (BUDGET_EXCEEDED, TERMINATING), (CANCELLED, TERMINATING)]"
| "TRANSITIONS STALL_DETECTED =
    [(HEARTBEAT_TIMER, STALL_DETECTED), (OUTPUT_CHUNK, RECOVERING),
     (HARD_STALL, TERMINATING), (TIMEOUT, TERMINATING),
     (BUDGET_EXCEEDED, TERMINATING), (CANCELLED, TERMINATING)]"
| "TRANSITIONS RECOVERING =
    [(HEARTBEAT_TIMER, HEARTBEATING), (STALL_TIMER, STALL_DETECTED),
     (TIMEOUT, TERMINATING), (BUDGET_EXCEEDED, TERMINATING), (CANCELLED, TERMINATING)]"
| "TRANSITIONS TERMINATING = [(KILL_SENT, KILLED)]"
| "TRANSITIONS KILLED = []"
| "TRANSITIONS COMPLETED = []"
| "TRANSITIONS FAILED = []"

section \<open>The machine object\<close>

text \<open>
  \<open>att_exit_code\<close> is \<open>None\<close> when the key is absent and \<open>Some None\<close> when its value is
  Python's \<^verbatim>\<open>None\<close>.
\<close>

record attrs =
  att_exit_code :: "int option option"
  att_stdout_bytes :: "int option"
  att_stderr_bytes :: "int option"

definition no_attrs :: attrs where
  "no_attrs = \<lparr>att_exit_code = None, att_stdout_bytes = None, att_stderr_bytes = None\<rparr>"

record SupervisorTransition =
  from_state :: SupervisorState
  to_state :: SupervisorState
  tr_event :: SupervisorEvent
  tr_reason :: "string option"
  tr_attributes :: attrs

record machine =
  sm_state :: SupervisorState
  sm_previous_state :: "SupervisorState option"
  sm_last_event :: "SupervisorEvent option"
  sm_transition_count :: nat
  sm_exit_code :: "int option"
  sm_timed_out :: bool
  sm_killed :: bool
  sm_stdout_bytes :: int
  sm_stderr_bytes :: int

definition new_machine :: machine where
  "new_machine =
    \<lparr>sm_state = IDLE, sm_previous_state = None, sm_last_event = None,
     sm_transition_count = 0, sm_exit_code = None, sm_timed_out = False,
     sm_killed = False, sm_stdout_bytes = 0, sm_stderr_bytes = 0\<rparr>"

definition is_terminal :: "machine \<Rightarrow> bool" where
  "is_terminal m \<longleftrightarrow> sm_state m \<in> set TERMINAL_STATES"

definition resolve_target :: "machine \<Rightarrow> SupervisorEvent \<Rightarrow> attrs \<Rightarrow> SupervisorState result" where
  "resolve_target m ev a =
    (if ev = PROCESS_EXITED then
       if sm_state m \<in> set TERMINAL_STATES then Inl InvalidTransition
       else if sm_state m \<notin> set PROCESS_ALIVE_STATES then Inl InvalidTransition
       else (case att_exit_code a of
               Some (Some c) \<Rightarrow> if c \<noteq> 0 then Inr FAILED else Inr COMPLETED
             | _ \<Rightarrow> Inr COMPLETED)
     else (case dict_get (TRANSITIONS (sm_state m)) ev of
             Some target \<Rightarrow> Inr target
           | None \<Rightarrow> Inl InvalidTransition))"

text \<open>The attribute writes \<^verbatim>\<open>transition\<close> makes before it resolves the target.\<close>

definition record_observations :: "machine \<Rightarrow> SupervisorEvent \<Rightarrow> attrs \<Rightarrow> machine" where
  "record_observations m ev a =
    (let m1 = (if ev = TIMEOUT then m\<lparr>sm_timed_out := True\<rparr> else m);
         m2 = (if ev = KILL_SENT then m1\<lparr>sm_killed := True\<rparr> else m1);
         m3 = (case att_exit_code a of
                 Some (Some c) \<Rightarrow> m2\<lparr>sm_exit_code := Some c\<rparr> | _ \<Rightarrow> m2);
         m4 = (case att_stdout_bytes a of
                 Some n \<Rightarrow> m3\<lparr>sm_stdout_bytes := n\<rparr> | None \<Rightarrow> m3)
     in (case att_stderr_bytes a of
           Some n \<Rightarrow> m4\<lparr>sm_stderr_bytes := n\<rparr> | None \<Rightarrow> m4))"

definition transition ::
  "machine \<Rightarrow> SupervisorEvent \<Rightarrow> string option \<Rightarrow> attrs \<Rightarrow> machine \<times> SupervisorTransition result" where
  "transition m ev reason a =
    (let m1 = record_observations m ev a in
     case resolve_target m1 ev a of
       Inl e \<Rightarrow> (m1, Inl e)
     | Inr target \<Rightarrow>
         if is_terminal m1 \<and> target \<noteq> sm_state m1 then (m1, Inl InvalidTransition)
         else
           let previous = sm_state m1;
               m2 = m1\<lparr>sm_previous_state := Some previous, sm_state := target,
                       sm_last_event := Some ev,
                       sm_transition_count := Suc (sm_transition_count m1)\<rparr>
           in (m2, Inr \<lparr>from_state = previous, to_state = target, tr_event = ev,
                        tr_reason = reason, tr_attributes = a\<rparr>))"

definition next_wait_seconds :: "machine \<Rightarrow> rat \<Rightarrow> rat \<Rightarrow> rat \<Rightarrow> rat \<Rightarrow> rat" where
  "next_wait_seconds m now deadline_ts heartbeat_s stall_check_s =
    (let remaining = deadline_ts - now in
     if remaining \<le> 0 then 0
     else if sm_state m = TERMINATING then min 5 remaining
     else
       let check = remaining;
           check = (if heartbeat_s > 0 then min check heartbeat_s else check);
           check = (if stall_check_s > 0 \<and>
                       sm_state m \<in> {RUNNING, HEARTBEATING, STALL_DETECTED, RECOVERING}
                    then min check stall_check_s else check)
       in max (1 / 100) check)"

definition export_projection :: "machine \<Rightarrow>
    SupervisorState \<times> SupervisorState option \<times> SupervisorEvent option \<times> nat \<times>
    int option \<times> bool \<times> bool \<times> int \<times> int" where
  "export_projection m =
    (sm_state m, sm_previous_state m, sm_last_event m, sm_transition_count m,
     sm_exit_code m, sm_timed_out m, sm_killed m, sm_stdout_bytes m, sm_stderr_bytes m)"

section \<open>Single transitions\<close>

lemma record_observations_state [simp]:
  "sm_state (record_observations m ev a) = sm_state m"
  "sm_previous_state (record_observations m ev a) = sm_previous_state m"
  "sm_last_event (record_observations m ev a) = sm_last_event m"
  "sm_transition_count (record_observations m ev a) = sm_transition_count m"
  by (auto simp: record_observations_def Let_def split: option.splits)

lemma resolve_target_observations [simp]:
  "resolve_target (record_observations m ev a) ev' a' = resolve_target m ev' a'"
  by (simp add: resolve_target_def)

lemma is_terminal_observations [simp]:
  "is_terminal (record_observations m ev a) = is_terminal m"
  by (simp add: is_terminal_def)

lemma terminal_refuses: "is_terminal m \<Longrightarrow> resolve_target m ev a = Inl InvalidTransition"
  by (cases "sm_state m")
    (auto simp: is_terminal_def TERMINAL_STATES_def resolve_target_def)

lemma transition_refused:
  "resolve_target m ev a = Inl e \<Longrightarrow> transition m ev r a = (record_observations m ev a, Inl e)"
  by (simp add: transition_def)

lemma transition_accepted:
  assumes "resolve_target m ev a = Inr s"
  shows "transition m ev r a =
    ((record_observations m ev a)\<lparr>sm_previous_state := Some (sm_state m), sm_state := s,
        sm_last_event := Some ev, sm_transition_count := Suc (sm_transition_count m)\<rparr>,
     Inr \<lparr>from_state = sm_state m, to_state = s, tr_event = ev, tr_reason = r, tr_attributes = a\<rparr>)"
proof -
  have "\<not> is_terminal m"
    using assms terminal_refuses [of m ev a] by auto
  with assms show ?thesis by (simp add: transition_def Let_def)
qed

text \<open>What a successful transition leaves behind.\<close>

lemma transition_Inr_state:
  assumes "transition m ev r a = (m', Inr tr)"
  shows "resolve_target m ev a = Inr (sm_state m')"
    and "sm_previous_state m' = Some (sm_state m)"
    and "sm_transition_count m' = Suc (sm_transition_count m)"
    and "sm_last_event m' = Some ev"
proof -
  from assms obtain s where "resolve_target m ev a = Inr s"
    by (cases "resolve_target m ev a") (auto simp: transition_refused)
  with assms show "resolve_target m ev a = Inr (sm_state m')"
    and "sm_previous_state m' = Some (sm_state m)"
    and "sm_transition_count m' = Suc (sm_transition_count m)"
    and "sm_last_event m' = Some ev"
    by (auto simp: transition_accepted)
qed

section \<open>Runs of the machine\<close>

text \<open>The machine as a partial step function on (event, attributes) pairs.\<close>

definition sm_step :: "machine \<Rightarrow> SupervisorEvent \<times> attrs \<Rightarrow> machine option" where
  "sm_step m x = (case transition m (fst x) None (snd x) of
      (m', Inr _) \<Rightarrow> Some m' | (_, Inl _) \<Rightarrow> None)"

lemma sm_step_iff:
  "sm_step m (ev, a) = Some m' \<longleftrightarrow> (\<exists>tr. transition m ev None a = (m', Inr tr))"
  by (auto simp: sm_step_def split: prod.splits sum.splits)

lemma sm_step_Some:
  assumes "sm_step m (ev, a) = Some m'"
  shows "resolve_target m ev a = Inr (sm_state m')"
    and "sm_previous_state m' = Some (sm_state m)"
    and "sm_transition_count m' = Suc (sm_transition_count m)"
  using assms by (auto simp: sm_step_iff dest: transition_Inr_state)

lemma sm_step_enabled: "resolve_target m ev a = Inr s \<Longrightarrow> \<exists>m'. sm_step m (ev, a) = Some m' \<and> sm_state m' = s"
  by (simp add: sm_step_def transition_accepted)

interpretation sup: absorbing_machine sm_step is_terminal
proof
  fix m and x :: "SupervisorEvent \<times> attrs"
  assume "is_terminal m"
  then show "sm_step m x = None"
    by (simp add: sm_step_def transition_refused terminal_refuses)
qed

lemma run_counts: "run sm_step m es = Some m' \<Longrightarrow>
    sm_transition_count m' = sm_transition_count m + length es"
proof (induction es arbitrary: m)
  case (Cons x es)
  obtain ev a where "x = (ev, a)" by (cases x)
  with Cons.prems obtain m1 where m1: "sm_step m (ev, a) = Some m1" "run sm_step m1 es = Some m'"
    by (auto split: option.splits)
  from sm_step_Some(3) [OF m1(1)] Cons.IH [OF m1(2)] show ?case by simp
qed simp

text \<open>Which states can be entered, and from where.\<close>

lemma resolve_killed: "resolve_target m ev a = Inr KILLED \<Longrightarrow> sm_state m = TERMINATING \<and> ev = KILL_SENT"
  by (cases "sm_state m"; cases ev)
    (auto simp: resolve_target_def dict_get_def split: option.splits if_splits)

lemma resolve_completed: "resolve_target m ev a = Inr COMPLETED \<Longrightarrow>
    ev = PROCESS_EXITED \<and> sm_state m \<in> set PROCESS_ALIVE_STATES \<and> att_exit_code a \<in> {None, Some None, Some (Some 0)}"
  by (cases "sm_state m"; cases ev)
    (auto simp: resolve_target_def dict_get_def split: option.splits if_splits)

text \<open>The states from which the spawned process is supervised can only be left towards an end.\<close>

lemma run_snoc_cases:
  assumes "run sm_step m (es @ [(ev, a)]) = Some m'"
  obtains m1 where "run sm_step m es = Some m1" and "sm_step m1 (ev, a) = Some m'"
  using assms by (auto simp: run_append split: Option.bind_splits option.splits)

section \<open>Properties of the machine\<close>

text \<open>
  Terminal states are final.  A run from the initial machine that passes a
  terminal state (KILLED, COMPLETED or FAILED) has no further accepted event.
\<close>

theorem terminal_states_final:
  assumes "run sm_step new_machine (es @ fs) = Some m" and "run sm_step new_machine es = Some u"
    and "is_terminal u"
  shows "fs = [] \<and> m = u"
  using sup.run_through_terminal [OF assms] .

definition exit_run :: "int \<Rightarrow> (SupervisorEvent \<times> attrs) list" where
  "exit_run c = [(SPAWN_STARTED, no_attrs), (SPAWN_SUCCEEDED, no_attrs), (HEARTBEAT_TIMER, no_attrs),
     (PROCESS_EXITED, no_attrs\<lparr>att_exit_code := Some (Some c)\<rparr>)]"

lemmas machine_evaluation =
  sm_step_def transition_def record_observations_def resolve_target_def is_terminal_def
  TERMINAL_STATES_def PROCESS_ALIVE_STATES_def dict_get_def new_machine_def no_attrs_def exit_run_def

theorem terminal_states_final_witness:
  "\<exists>u. run sm_step new_machine (exit_run 0) = Some u \<and> is_terminal u \<and> sm_state u = COMPLETED
     \<and> (\<forall>fs m. fs \<noteq> [] \<or> m \<noteq> u \<longrightarrow> run sm_step new_machine (exit_run 0 @ fs) \<noteq> Some m)"
proof -
  obtain u where u: "run sm_step new_machine (exit_run 0) = Some u" "is_terminal u" "sm_state u = COMPLETED"
    by (simp add: machine_evaluation)
  with terminal_states_final [OF _ u(1,2)] show ?thesis by blast
qed

text \<open>
  How an end state is reached.  In any run from the initial machine, KILLED is
  entered only from TERMINATING by KILL_SENT, with the killed flag set, and COMPLETED
  only from a state with a live process by PROCESS_EXITED with exit code 0 or none.
\<close>

theorem end_states_provenance:
  assumes "run sm_step new_machine (es @ [(ev, a)]) = Some m"
  shows "(sm_state m = KILLED \<longrightarrow> ev = KILL_SENT \<and> sm_previous_state m = Some TERMINATING \<and> sm_killed m) \<and>
    (sm_state m = COMPLETED \<longrightarrow> ev = PROCESS_EXITED \<and>
      sm_previous_state m \<in> Some ` set PROCESS_ALIVE_STATES \<and> att_exit_code a \<in> {None, Some None, Some (Some 0)})"
proof -
  obtain m1 where m1: "sm_step m1 (ev, a) = Some m"
    using assms by (rule run_snoc_cases)
  note step = sm_step_Some [OF m1]
  have "ev = KILL_SENT \<and> sm_previous_state m = Some TERMINATING \<and> sm_killed m" if "sm_state m = KILLED"
  proof -
    from step(1) that have "resolve_target m1 ev a = Inr KILLED" by simp
    with resolve_killed [OF this] step(2) m1 show ?thesis
      by (auto simp: sm_step_def transition_accepted record_observations_def Let_def split: option.splits)
  qed
  moreover have "ev = PROCESS_EXITED \<and> sm_previous_state m \<in> Some ` set PROCESS_ALIVE_STATES \<and>
      att_exit_code a \<in> {None, Some None, Some (Some 0)}" if "sm_state m = COMPLETED"
    using resolve_completed [of m1 ev a] step(1,2) that by simp
  ultimately show ?thesis by blast
qed

theorem end_states_provenance_witness:
  "\<exists>m. run sm_step new_machine (exit_run 0) = Some m \<and> sm_previous_state m = Some HEARTBEATING
     \<and> sm_state m = COMPLETED \<and> sm_previous_state m \<in> Some ` set PROCESS_ALIVE_STATES"
proof -
  obtain m where m: "run sm_step new_machine (exit_run 0) = Some m" "sm_state m = COMPLETED"
      "sm_previous_state m = Some HEARTBEATING"
    by (simp add: machine_evaluation)
  have "run sm_step new_machine
      ([(SPAWN_STARTED, no_attrs), (SPAWN_SUCCEEDED, no_attrs), (HEARTBEAT_TIMER, no_attrs)] @
       [(PROCESS_EXITED, no_attrs\<lparr>att_exit_code := Some (Some 0)\<rparr>)]) = Some m"
    using m(1) by (simp add: exit_run_def)
  from end_states_provenance [OF this] m show ?thesis by blast
qed

text \<open>
  No machine is stuck before its end.  From every machine whose state is not
  terminal, some sequence of at most two events leads to a terminal state.
\<close>

theorem machine_can_always_end:
  "is_terminal m \<or> (\<exists>es m'. length es \<le> 2 \<and> run sm_step m es = Some m' \<and> is_terminal m')"
proof (cases "is_terminal m")
  case False
  define es where "es = (case sm_state m of
      IDLE \<Rightarrow> [(SPAWN_STARTED, no_attrs), (SPAWN_FAILED, no_attrs)]
    | SPAWNING \<Rightarrow> [(SPAWN_FAILED, no_attrs)]
    | TERMINATING \<Rightarrow> [(KILL_SENT, no_attrs)]
    | _ \<Rightarrow> [(PROCESS_EXITED, no_attrs)])"
  have "length es \<le> 2 \<and> (\<exists>m'. run sm_step m es = Some m' \<and> is_terminal m')"
    using False by (cases "sm_state m") (simp_all add: machine_evaluation es_def)
  then show ?thesis by blast
qed simp

text \<open>
  A refused event is not without effect.  It leaves the control state, the
  previous state, the last event and the transition count alone, but TIMEOUT and
  KILL_SENT set their flags, and the exit code and byte counts are taken over, even
  when the event is refused.
\<close>

theorem refused_event_effect:
  assumes "transition m ev r a = (m', Inl e)"
  shows "e = InvalidTransition \<and> sm_state m' = sm_state m \<and> sm_previous_state m' = sm_previous_state m \<and>
    sm_last_event m' = sm_last_event m \<and> sm_transition_count m' = sm_transition_count m \<and>
    sm_timed_out m' = (sm_timed_out m \<or> ev = TIMEOUT) \<and> sm_killed m' = (sm_killed m \<or> ev = KILL_SENT) \<and>
    sm_exit_code m' = (case att_exit_code a of Some (Some c) \<Rightarrow> Some c | _ \<Rightarrow> sm_exit_code m) \<and>
    sm_stdout_bytes m' = (case att_stdout_bytes a of Some n \<Rightarrow> n | None \<Rightarrow> sm_stdout_bytes m)"
proof -
  have r: "resolve_target m ev a = Inl e"
    using assms by (cases "resolve_target m ev a") (auto simp: transition_refused transition_accepted)
  then have "e = InvalidTransition"
    by (auto simp: resolve_target_def split: if_splits option.splits)
  moreover have "m' = record_observations m ev a"
    using assms r by (simp add: transition_refused)
  ultimately show ?thesis
    by (auto simp: record_observations_def Let_def split: option.splits)
qed

theorem refused_event_effect_witness:
  "snd (transition new_machine KILL_SENT None no_attrs) = Inl InvalidTransition
   \<and> sm_killed (fst (transition new_machine KILL_SENT None no_attrs))
   \<and> sm_state (fst (transition new_machine KILL_SENT None no_attrs)) = IDLE"
proof -
  have "transition new_machine KILL_SENT None no_attrs =
      (fst (transition new_machine KILL_SENT None no_attrs), Inl InvalidTransition)"
    by (simp add: machine_evaluation)
  from refused_event_effect [OF this] show ?thesis
    by (simp add: machine_evaluation)
qed

text \<open>
  C36: bounds of the supervisor's wait.  Past the deadline the wait is zero; before it
  the wait is positive, at most the remaining time (or 10 ms if less remains), at most
  5 s while terminating, and otherwise at most the heartbeat interval when heartbeats
  are enabled (or 10 ms if that is larger).
\<close>

theorem next_wait_seconds_bounds:
  fixes m now dl hb st
  defines "w \<equiv> next_wait_seconds m now dl hb st"
  shows "(dl \<le> now \<longrightarrow> w = 0) \<and>
    (now < dl \<longrightarrow> 0 < w \<and> w \<le> max (1 / 100) (dl - now)) \<and>
    (now < dl \<and> sm_state m = TERMINATING \<longrightarrow> w \<le> 5) \<and>
    (now < dl \<and> sm_state m \<noteq> TERMINATING \<and> 0 < hb \<longrightarrow> w \<le> max (1 / 100) hb)"
  unfolding w_def next_wait_seconds_def Let_def by (auto simp: min_def max_def)

theorem next_wait_seconds_bounds_witness:
  "next_wait_seconds new_machine 10 12 (1/2) 0 = 1/2
   \<and> 0 < next_wait_seconds new_machine 10 12 (1/2) 0 \<and> next_wait_seconds new_machine 10 12 (1/2) 0 \<le> max (1/100) (1/2)"
proof -
  have "next_wait_seconds new_machine 10 12 (1/2) 0 = 1/2"
    by (simp add: next_wait_seconds_def new_machine_def)
  with next_wait_seconds_bounds [of 12 10 new_machine "1/2" 0]
  show ?thesis by (simp add: new_machine_def)
qed

end
