(* ===== verification/Supervisor_Loop.thy ===== *)
theory Supervisor_Loop
  imports Supervisor_Machine
begin

text \<open>
  The supervision loop of \<^verbatim>\<open>RuntimeSupervisor.execute\<close> in
  \<^verbatim>\<open>rig_relay/runtime/supervisor.py\<close>: what it feeds to the state machine, in which
  order, and how it ends.  What the loop observes in one iteration (clock readings,
  the process's return code, whether the wait ended, silence of the output, bytes
  drained, a cancellation) is a record \<open>tick\<close>; the loop is a recursion over the
  ticks.  Leaving the loop by \<^verbatim>\<open>break\<close>, going on, and an exception are three values
  of \<open>flow\<close>.  Signals to the process, tracing and the drained output itself are not
  modelled.
\<close>

section \<open>Configuration\<close>

record sup_settings =
  set_timeout_ms :: int
  set_cpu_budget_s :: rat
  set_heartbeat_interval_ms :: int
  set_stall_warning_after_ms :: "int option"
  set_stall_check_interval_ms :: int
  set_terminate_on_stall :: bool
  set_stall_terminate_after_ms :: "int option"
  set_io_budget_bytes :: int

record sup_config =
  cfg_deadline_ts :: rat
  cfg_budget_capped :: bool
  cfg_heartbeat_s :: rat
  cfg_stall_warning_s :: "rat option"
  cfg_stall_check_s :: rat
  cfg_terminate_on_stall :: bool
  cfg_stall_terminate_s :: "rat option"
  cfg_io_budget :: int

definition ms_to_s :: "int \<Rightarrow> rat" where
  "ms_to_s n = of_int n / 1000"

definition loop_config :: "sup_settings \<Rightarrow> rat \<Rightarrow> sup_config" where
  "loop_config st start_ts =
    (let timeout_s = ms_to_s (set_timeout_ms st);
         effective_timeout_s = min timeout_s (set_cpu_budget_s st)
     in \<lparr>cfg_deadline_ts = start_ts + effective_timeout_s,
         cfg_budget_capped = (effective_timeout_s < timeout_s),
         cfg_heartbeat_s =
           (if set_heartbeat_interval_ms st > 0
            then ms_to_s (set_heartbeat_interval_ms st) else 0),
         cfg_stall_warning_s = map_option ms_to_s (set_stall_warning_after_ms st),
         cfg_stall_check_s = ms_to_s (set_stall_check_interval_ms st),
         cfg_terminate_on_stall = set_terminate_on_stall st,
         cfg_stall_terminate_s = map_option ms_to_s (set_stall_terminate_after_ms st),
         cfg_io_budget = set_io_budget_bytes st\<rparr>)"

section \<open>One iteration\<close>

datatype wait_outcome = WaitExited int | WaitTimeout | WaitCancelled

record tick =
  tk_now_ts :: rat
  tk_now_mono :: rat
  tk_returncode :: "int option"
  tk_wait :: wait_outcome
  tk_stall_elapsed :: rat
  tk_output_bytes :: int
  tk_cancel_in_stop :: bool

datatype loop_event = HeartbeatEvent nat | StallWarning

record loop_state =
  lp_sm :: machine
  lp_timed_out :: bool
  lp_cancelled :: bool
  lp_budget_killed :: bool
  lp_exit_code :: "int option"
  lp_last_heartbeat_t :: rat
  lp_last_stall_warning_t :: rat
  lp_heartbeat_counter :: nat
  lp_emitted :: "loop_event list"

datatype flow = Continue loop_state | Break loop_state | Raise py_error loop_state

text \<open>\<^verbatim>\<open>sm.transition(event, attributes=...)\<close>, then the statements that follow it.\<close>

definition feed :: "loop_state \<Rightarrow> SupervisorEvent \<Rightarrow> attrs \<Rightarrow> (loop_state \<Rightarrow> flow) \<Rightarrow> flow" where
  "feed s ev a k =
    (case transition (lp_sm s) ev None a of
       (m, Inr _) \<Rightarrow> k (s\<lparr>lp_sm := m\<rparr>)
     | (m, Inl e) \<Rightarrow> Raise e (s\<lparr>lp_sm := m\<rparr>))"

text \<open>The handler of \<^verbatim>\<open>asyncio.CancelledError\<close> around the loop.\<close>

definition on_cancelled :: "loop_state \<Rightarrow> flow" where
  "on_cancelled s = feed (s\<lparr>lp_cancelled := True\<rparr>) CANCELLED no_attrs Break"

text \<open>
  Terminate, wait, kill, and leave the loop; the wait is an \<^verbatim>\<open>await\<close>, where a
  cancellation can arrive.
\<close>

definition stop_process :: "tick \<Rightarrow> loop_state \<Rightarrow> flow" where
  "stop_process tk s = (if tk_cancel_in_stop tk then on_cancelled s else Break s)"

definition process_exited :: "int \<Rightarrow> loop_state \<Rightarrow> flow" where
  "process_exited c s =
    feed (s\<lparr>lp_exit_code := Some c\<rparr>) PROCESS_EXITED
      (no_attrs\<lparr>att_exit_code := Some (Some c)\<rparr>) Break"

definition heartbeat_part :: "sup_config \<Rightarrow> tick \<Rightarrow> loop_state \<Rightarrow> (loop_state \<Rightarrow> flow) \<Rightarrow> flow" where
  "heartbeat_part cfg tk s k =
    (if cfg_heartbeat_s cfg > 0 \<and> tk_now_mono tk - lp_last_heartbeat_t s \<ge> cfg_heartbeat_s cfg
     then
       let n = Suc (lp_heartbeat_counter s)
       in feed (s\<lparr>lp_heartbeat_counter := n, lp_emitted := lp_emitted s @ [HeartbeatEvent n],
                 lp_last_heartbeat_t := tk_now_mono tk\<rparr>) HEARTBEAT_TIMER no_attrs k
     else k s)"

definition enter_stall :: "loop_state \<Rightarrow> (loop_state \<Rightarrow> flow) \<Rightarrow> flow" where
  "enter_stall s k =
    (if sm_state (lp_sm s) \<in> {RUNNING, HEARTBEATING}
     then feed s STALL_TIMER no_attrs k else k s)"

definition warn_stall :: "rat \<Rightarrow> tick \<Rightarrow> loop_state \<Rightarrow> loop_state" where
  "warn_stall w tk s =
    (if tk_now_mono tk - lp_last_stall_warning_t s \<ge> w
     then s\<lparr>lp_emitted := lp_emitted s @ [StallWarning],
            lp_last_stall_warning_t := tk_now_mono tk\<rparr>
     else s)"

definition hard_stall :: "sup_config \<Rightarrow> tick \<Rightarrow> loop_state \<Rightarrow> (loop_state \<Rightarrow> flow) \<Rightarrow> flow" where
  "hard_stall cfg tk s k =
    (case cfg_stall_terminate_s cfg of
       Some terminate_s \<Rightarrow>
         if cfg_terminate_on_stall cfg \<and> tk_stall_elapsed tk \<ge> terminate_s
         then feed (s\<lparr>lp_timed_out := True\<rparr>) HARD_STALL no_attrs (stop_process tk)
         else k s
     | None \<Rightarrow> k s)"

definition stall_part :: "sup_config \<Rightarrow> tick \<Rightarrow> loop_state \<Rightarrow> (loop_state \<Rightarrow> flow) \<Rightarrow> flow" where
  "stall_part cfg tk s k =
    (case cfg_stall_warning_s cfg of
       None \<Rightarrow> k s
     | Some w \<Rightarrow>
         if tk_stall_elapsed tk \<ge> w
         then enter_stall s (\<lambda>s1. hard_stall cfg tk (warn_stall w tk s1) k)
         else if sm_state (lp_sm s) = HEARTBEATING then feed s OUTPUT_CHUNK no_attrs k
         else if sm_state (lp_sm s) = STALL_DETECTED then feed s OUTPUT_CHUNK no_attrs k
         else k s)"

definition budget_part :: "sup_config \<Rightarrow> tick \<Rightarrow> loop_state \<Rightarrow> flow" where
  "budget_part cfg tk s =
    (if tk_output_bytes tk > cfg_io_budget cfg
     then feed (s\<lparr>lp_budget_killed := True\<rparr>) BUDGET_EXCEEDED no_attrs (stop_process tk)
     else Continue s)"

definition loop_tick :: "sup_config \<Rightarrow> tick \<Rightarrow> loop_state \<Rightarrow> flow" where
  "loop_tick cfg tk s =
    (let remaining = cfg_deadline_ts cfg - tk_now_ts tk in
     if remaining \<le> 0
     then feed (s\<lparr>lp_timed_out := True\<rparr>) TIMEOUT no_attrs (stop_process tk)
     else case tk_returncode tk of
       Some c \<Rightarrow> process_exited c s
     | None \<Rightarrow>
        (case tk_wait tk of
           WaitExited c \<Rightarrow> process_exited c s
         | WaitCancelled \<Rightarrow> on_cancelled s
         | WaitTimeout \<Rightarrow>
             heartbeat_part cfg tk s (\<lambda>s1. stall_part cfg tk s1 (budget_part cfg tk))))"

section \<open>The loop\<close>

datatype outcome = Ended loop_state | Waiting loop_state | Crashed py_error loop_state

fun supervise :: "sup_config \<Rightarrow> tick list \<Rightarrow> loop_state \<Rightarrow> outcome" where
  "supervise cfg tks s =
    (if is_terminal (lp_sm s) then Ended s
     else case tks of
       [] \<Rightarrow> Waiting s
     | tk # rest \<Rightarrow>
        (case loop_tick cfg tk s of
           Continue s' \<Rightarrow> supervise cfg rest s'
         | Break s' \<Rightarrow> Ended s'
         | Raise e s' \<Rightarrow> Crashed e s'))"

text \<open>The loop's variables when it starts: the process has been spawned.\<close>

definition spawned_machine :: machine where
  "spawned_machine =
    fst (transition (fst (transition new_machine SPAWN_STARTED None no_attrs))
           SPAWN_SUCCEEDED None no_attrs)"

definition loop_start :: loop_state where
  "loop_start =
    \<lparr>lp_sm = spawned_machine, lp_timed_out = False, lp_cancelled = False,
     lp_budget_killed = False, lp_exit_code = None, lp_last_heartbeat_t = 0,
     lp_last_stall_warning_t = 0, lp_heartbeat_counter = 0, lp_emitted = []\<rparr>"

section \<open>Invariants of an iteration\<close>

definition alive :: "loop_state \<Rightarrow> bool" where
  "alive s \<longleftrightarrow> sm_state (lp_sm s) \<in> set PROCESS_ALIVE_STATES"

definition undecided :: "loop_state \<Rightarrow> bool" where
  "undecided s \<longleftrightarrow> \<not> lp_timed_out s \<and> \<not> lp_cancelled s \<and> \<not> lp_budget_killed s \<and> lp_exit_code s = None"

lemma alive_cases:
  assumes "alive s"
  obtains "sm_state (lp_sm s) = RUNNING" | "sm_state (lp_sm s) = HEARTBEATING"
    | "sm_state (lp_sm s) = STALL_DETECTED" | "sm_state (lp_sm s) = RECOVERING"
  using assms by (auto simp: alive_def PROCESS_ALIVE_STATES_def)

lemma alive_not_terminal: "alive s \<Longrightarrow> \<not> is_terminal (lp_sm s)"
  by (auto simp: alive_def is_terminal_def PROCESS_ALIVE_STATES_def TERMINAL_STATES_def)

text \<open>Feeding an event the current state accepts.\<close>

lemma feed_accepted:
  assumes "resolve_target (lp_sm s) ev a = Inr t"
  obtains m where "\<And>k. feed s ev a k = k (s\<lparr>lp_sm := m\<rparr>)" and "sm_state m = t"
  using assms by (simp add: feed_def transition_accepted)

lemma feed_refused:
  assumes "resolve_target (lp_sm s) ev a = Inl e"
  obtains m where "\<And>k. feed s ev a k = Raise e (s\<lparr>lp_sm := m\<rparr>)" and "sm_state m = sm_state (lp_sm s)"
  using assms by (simp add: feed_def transition_refused)

text \<open>
  What one iteration may do, as a condition on each of its three exits: it goes on
  with a live process and nothing decided; it leaves the loop with a decision; or
  it raises in one of two situations.
\<close>

definition decided :: "loop_state \<Rightarrow> bool" where
  "decided s \<longleftrightarrow>
    (case lp_exit_code s of
       Some c \<Rightarrow> sm_state (lp_sm s) = (if c = 0 then COMPLETED else FAILED)
                 \<and> \<not> lp_timed_out s \<and> \<not> lp_cancelled s \<and> \<not> lp_budget_killed s
     | None \<Rightarrow> sm_state (lp_sm s) = TERMINATING
                 \<and> (lp_timed_out s \<or> lp_cancelled s \<or> lp_budget_killed s))"

definition crash_site :: "sup_config \<Rightarrow> tick \<Rightarrow> loop_state \<Rightarrow> bool" where
  "crash_site cfg tk s \<longleftrightarrow>
    (tk_cancel_in_stop tk \<and> sm_state (lp_sm s) = TERMINATING) \<or>
    (cfg_terminate_on_stall cfg \<and> sm_state (lp_sm s) = RECOVERING)"

fun flow_ok :: "sup_config \<Rightarrow> tick \<Rightarrow> flow \<Rightarrow> bool" where
  "flow_ok cfg tk (Continue s) = (alive s \<and> undecided s)"
| "flow_ok cfg tk (Break s) = decided s"
| "flow_ok cfg tk (Raise e s) = (e = InvalidTransition \<and> crash_site cfg tk s)"

lemmas resolve_defs = resolve_target_def dict_get_def TERMINAL_STATES_def PROCESS_ALIVE_STATES_def

lemma alive_resolves:
  assumes "alive s"
  shows "resolve_target (lp_sm s) TIMEOUT a = Inr TERMINATING"
    and "resolve_target (lp_sm s) BUDGET_EXCEEDED a = Inr TERMINATING"
    and "resolve_target (lp_sm s) CANCELLED a = Inr TERMINATING"
    and "\<exists>t \<in> set PROCESS_ALIVE_STATES. resolve_target (lp_sm s) HEARTBEAT_TIMER a = Inr t"
    and "resolve_target (lp_sm s) PROCESS_EXITED (no_attrs\<lparr>att_exit_code := Some (Some c)\<rparr>)
           = Inr (if c = 0 then COMPLETED else FAILED)"
  using assms by (cases rule: alive_cases; simp add: resolve_defs no_attrs_def)+

lemma cancelled_ok:
  assumes "alive s" and "undecided s"
  shows "flow_ok cfg tk (on_cancelled s)"
proof -
  from alive_resolves(3) [OF assms(1)]
  have "resolve_target (lp_sm (s\<lparr>lp_cancelled := True\<rparr>)) CANCELLED no_attrs = Inr TERMINATING"
    by simp
  then obtain m where "on_cancelled s = Break (s\<lparr>lp_cancelled := True, lp_sm := m\<rparr>)" "sm_state m = TERMINATING"
    unfolding on_cancelled_def by (rule feed_accepted) blast
  with assms(2) show ?thesis by (simp add: decided_def undecided_def)
qed

lemma stop_ok:
  assumes "sm_state (lp_sm s) = TERMINATING" and "decided s"
  shows "flow_ok cfg tk (stop_process tk s)"
proof (cases "tk_cancel_in_stop tk")
  case True
  have "resolve_target (lp_sm (s\<lparr>lp_cancelled := True\<rparr>)) CANCELLED no_attrs = Inl InvalidTransition"
    using assms(1) by (simp add: resolve_defs)
  then obtain m where "on_cancelled s = Raise InvalidTransition (s\<lparr>lp_cancelled := True, lp_sm := m\<rparr>)"
      "sm_state m = TERMINATING"
    unfolding on_cancelled_def by (rule feed_refused) (use assms(1) in auto)
  with True show ?thesis by (simp add: stop_process_def crash_site_def)
qed (use assms in \<open>simp add: stop_process_def\<close>)

text \<open>An accepted event that stops the process: the three ways the loop decides to stop it.\<close>

lemma feed_stop_ok:
  assumes "resolve_target (lp_sm s) ev no_attrs = Inr TERMINATING"
    and "lp_timed_out s \<or> lp_cancelled s \<or> lp_budget_killed s" and "lp_exit_code s = None"
  shows "flow_ok cfg tk (feed s ev no_attrs (stop_process tk))"
proof -
  obtain m where "feed s ev no_attrs (stop_process tk) = stop_process tk (s\<lparr>lp_sm := m\<rparr>)"
      "sm_state m = TERMINATING"
    using assms(1) by (rule feed_accepted) blast
  with assms(2,3) show ?thesis by (simp add: stop_ok decided_def)
qed

lemma exited_ok:
  assumes "alive s" and "undecided s"
  shows "flow_ok cfg tk (process_exited c s)"
proof -
  have "resolve_target (lp_sm (s\<lparr>lp_exit_code := Some c\<rparr>)) PROCESS_EXITED
      (no_attrs\<lparr>att_exit_code := Some (Some c)\<rparr>) = Inr (if c = 0 then COMPLETED else FAILED)"
    using alive_resolves(5) [OF assms(1)] by simp
  then obtain m where "process_exited c s = Break (s\<lparr>lp_exit_code := Some c, lp_sm := m\<rparr>)"
      "sm_state m = (if c = 0 then COMPLETED else FAILED)"
    unfolding process_exited_def by (rule feed_accepted) blast
  with assms(2) show ?thesis by (simp add: decided_def undecided_def)
qed

text \<open>Feeding an event that keeps the process alive, then the rest of the iteration.\<close>

lemma feed_alive_ok:
  assumes "resolve_target (lp_sm s) ev no_attrs = Inr t" and "t \<in> set PROCESS_ALIVE_STATES"
    and "undecided s"
    and k: "\<And>m. sm_state m = t \<Longrightarrow> alive (s\<lparr>lp_sm := m\<rparr>) \<Longrightarrow> undecided (s\<lparr>lp_sm := m\<rparr>) \<Longrightarrow>
                 flow_ok cfg tk (k (s\<lparr>lp_sm := m\<rparr>))"
  shows "flow_ok cfg tk (feed s ev no_attrs k)"
proof -
  obtain m where m: "feed s ev no_attrs k = k (s\<lparr>lp_sm := m\<rparr>)" "sm_state m = t"
    using assms(1) by (rule feed_accepted) blast
  have "alive (s\<lparr>lp_sm := m\<rparr>)" and "undecided (s\<lparr>lp_sm := m\<rparr>)"
    using m(2) assms(2,3) by (simp_all add: alive_def undecided_def)
  with k [OF m(2)] m(1) show ?thesis by simp
qed

lemma budget_ok:
  assumes "alive s" and "undecided s"
  shows "flow_ok cfg tk (budget_part cfg tk s)"
proof (cases "tk_output_bytes tk > cfg_io_budget cfg")
  case True
  have "flow_ok cfg tk (feed (s\<lparr>lp_budget_killed := True\<rparr>) BUDGET_EXCEEDED no_attrs (stop_process tk))"
    by (rule feed_stop_ok) (use assms alive_resolves(2) [OF assms(1)] in \<open>simp_all add: undecided_def\<close>)
  with True show ?thesis by (simp add: budget_part_def)
qed (use assms in \<open>simp add: budget_part_def\<close>)

lemma hard_stall_ok:
  assumes "alive s" and "undecided s" and "sm_state (lp_sm s) \<in> {STALL_DETECTED, RECOVERING}"
    and k: "flow_ok cfg tk (k s)"
  shows "flow_ok cfg tk (hard_stall cfg tk s k)"
proof (cases "\<exists>t. cfg_stall_terminate_s cfg = Some t \<and> cfg_terminate_on_stall cfg \<and> tk_stall_elapsed tk \<ge> t")
  case True
  let ?s = "s\<lparr>lp_timed_out := True\<rparr>"
  have "flow_ok cfg tk (feed ?s HARD_STALL no_attrs (stop_process tk))"
  proof (cases "sm_state (lp_sm s) = STALL_DETECTED")
    case True
    then show ?thesis
      using assms(2) by (intro feed_stop_ok) (simp_all add: resolve_defs undecided_def)
  next
    case False
    with assms(3) have rec: "sm_state (lp_sm s) = RECOVERING" by simp
    then have "resolve_target (lp_sm ?s) HARD_STALL no_attrs = Inl InvalidTransition"
      by (simp add: resolve_defs)
    then obtain m where "feed ?s HARD_STALL no_attrs (stop_process tk) = Raise InvalidTransition (?s\<lparr>lp_sm := m\<rparr>)"
        "sm_state m = RECOVERING"
      by (rule feed_refused) (use rec in auto)
    with True show ?thesis by (auto simp: crash_site_def)
  qed
  with True show ?thesis by (auto simp: hard_stall_def)
qed (use k in \<open>auto simp: hard_stall_def split: option.splits\<close>)

lemma warn_stall_simps [simp]:
  "lp_sm (warn_stall w tk s) = lp_sm s"
  "alive (warn_stall w tk s) = alive s"
  "undecided (warn_stall w tk s) = undecided s"
  by (simp_all add: warn_stall_def alive_def undecided_def)

lemma stall_ok:
  assumes "alive s" and "undecided s"
    and k: "\<And>s'. alive s' \<Longrightarrow> undecided s' \<Longrightarrow> flow_ok cfg tk (k s')"
  shows "flow_ok cfg tk (stall_part cfg tk s k)"
proof -
  have calm: "flow_ok cfg tk (feed s OUTPUT_CHUNK no_attrs k)"
    if "sm_state (lp_sm s) \<in> {HEARTBEATING, STALL_DETECTED}"
  proof -
    obtain t where "resolve_target (lp_sm s) OUTPUT_CHUNK no_attrs = Inr t" "t \<in> set PROCESS_ALIVE_STATES"
      using \<open>sm_state (lp_sm s) \<in> _\<close> by (auto simp: resolve_defs)
    then show ?thesis using assms(2) k by (blast intro: feed_alive_ok)
  qed
  have stalled: "flow_ok cfg tk (enter_stall s (\<lambda>s1. hard_stall cfg tk (warn_stall w tk s1) k))" for w
  proof (cases "sm_state (lp_sm s) \<in> {RUNNING, HEARTBEATING}")
    case True
    then have "resolve_target (lp_sm s) STALL_TIMER no_attrs = Inr STALL_DETECTED"
      by (auto simp: resolve_defs)
    then show ?thesis using True assms(2) k
      by (auto simp: enter_stall_def PROCESS_ALIVE_STATES_def intro!: feed_alive_ok hard_stall_ok)
  next
    case False
    with assms(1) have "sm_state (lp_sm s) \<in> {STALL_DETECTED, RECOVERING}"
      by (auto elim: alive_cases)
    with False assms k show ?thesis by (simp add: enter_stall_def hard_stall_ok)
  qed
  show ?thesis
    using calm stalled k [OF assms(1,2)] by (auto simp: stall_part_def split: option.splits)
qed

lemma heartbeat_ok:
  assumes "alive s" and "undecided s"
    and k: "\<And>s'. alive s' \<Longrightarrow> undecided s' \<Longrightarrow> flow_ok cfg tk (k s')"
  shows "flow_ok cfg tk (heartbeat_part cfg tk s k)"
proof -
  let ?s = "s\<lparr>lp_heartbeat_counter := Suc (lp_heartbeat_counter s),
      lp_emitted := lp_emitted s @ [HeartbeatEvent (Suc (lp_heartbeat_counter s))],
      lp_last_heartbeat_t := tk_now_mono tk\<rparr>"
  obtain t where t: "resolve_target (lp_sm ?s) HEARTBEAT_TIMER no_attrs = Inr t" "t \<in> set PROCESS_ALIVE_STATES"
    using alive_resolves(4) [OF assms(1), of no_attrs] by auto
  have "flow_ok cfg tk (feed ?s HEARTBEAT_TIMER no_attrs k)"
    by (rule feed_alive_ok [OF t]) (use assms(2) k in \<open>simp_all add: undecided_def\<close>)
  then show ?thesis
    using k [OF assms(1,2)] by (simp add: heartbeat_part_def Let_def)
qed

lemma loop_tick_ok:
  assumes "alive s" and "undecided s"
  shows "flow_ok cfg tk (loop_tick cfg tk s)"
proof -
  have dead: "flow_ok cfg tk (feed (s\<lparr>lp_timed_out := True\<rparr>) TIMEOUT no_attrs (stop_process tk))"
    by (rule feed_stop_ok) (use assms alive_resolves(1) [OF assms(1)] in \<open>simp_all add: undecided_def\<close>)
  have "flow_ok cfg tk (heartbeat_part cfg tk s (\<lambda>s1. stall_part cfg tk s1 (budget_part cfg tk)))"
    by (rule heartbeat_ok [OF assms], rule stall_ok) (auto intro: budget_ok)
  with dead exited_ok [OF assms] cancelled_ok [OF assms] show ?thesis
    by (simp add: loop_tick_def split: option.splits wait_outcome.splits)
qed

lemma supervise_ok:
  assumes "alive s" and "undecided s"
  shows "case supervise cfg tks s of
      Ended s' \<Rightarrow> decided s'
    | Waiting s' \<Rightarrow> alive s' \<and> undecided s'
    | Crashed e s' \<Rightarrow> e = InvalidTransition \<and> (\<exists>tk \<in> set tks. crash_site cfg tk s')"
  using assms
proof (induction tks arbitrary: s)
  case Nil
  then show ?case by (simp add: alive_not_terminal)
next
  case (Cons tk tks)
  note tick = loop_tick_ok [OF Cons.prems, of cfg tk]
  show ?case
  proof (cases "loop_tick cfg tk s")
    case (Continue s')
    with tick have "alive s'" and "undecided s'" by simp_all
    from Cons.IH [OF this] Continue Cons.prems show ?thesis
      by (auto simp: alive_not_terminal split: outcome.splits)
  qed (use tick Cons.prems in \<open>auto simp: alive_not_terminal\<close>)
qed

lemma loop_start_ok: "alive loop_start" "undecided loop_start"
  by (simp_all add: loop_start_def spawned_machine_def new_machine_def transition_def
      record_observations_def alive_def undecided_def is_terminal_def resolve_defs no_attrs_def)

declare supervise.simps [simp del]

section \<open>Properties of the loop\<close>


definition demo_settings :: sup_settings where
  "demo_settings =
    \<lparr>set_timeout_ms = 60000, set_cpu_budget_s = 120, set_heartbeat_interval_ms = 0,
     set_stall_warning_after_ms = Some 5000, set_stall_check_interval_ms = 1000,
     set_terminate_on_stall = True, set_stall_terminate_after_ms = Some 10000,
     set_io_budget_bytes = 65536\<rparr>"

definition quiet_tick :: "rat \<Rightarrow> rat \<Rightarrow> tick" where
  "quiet_tick t elapsed =
    \<lparr>tk_now_ts = t, tk_now_mono = t, tk_returncode = None, tk_wait = WaitTimeout,
     tk_stall_elapsed = elapsed, tk_output_bytes = 0, tk_cancel_in_stop = False\<rparr>"

lemmas loop_evaluation =
  supervise.simps loop_tick_def heartbeat_part_def stall_part_def enter_stall_def warn_stall_def
  hard_stall_def budget_part_def process_exited_def on_cancelled_def stop_process_def feed_def
  transition_def record_observations_def resolve_defs is_terminal_def loop_start_def
  spawned_machine_def new_machine_def no_attrs_def demo_settings_def quiet_tick_def
  loop_config_def ms_to_s_def


text \<open>
  The loop can only fail with an invalid transition in two situations: a
  cancellation that arrives while the process is being stopped, or a hard stall
  (terminate-on-stall enabled) while the machine is RECOVERING.
\<close>

theorem supervise_crash_sites:
  assumes "supervise cfg tks loop_start = Crashed e s"
  shows "e = InvalidTransition \<and>
    ((\<exists>tk \<in> set tks. tk_cancel_in_stop tk) \<and> sm_state (lp_sm s) = TERMINATING \<or>
     cfg_terminate_on_stall cfg \<and> sm_state (lp_sm s) = RECOVERING)"
  using supervise_ok [OF loop_start_ok, of tks cfg] assms by (auto simp: crash_site_def)

theorem supervise_crash_sites_witness:
  "\<exists>s. supervise (loop_config demo_settings 0)
        [quiet_tick 6 6, quiet_tick 7 1, quiet_tick 20 12] loop_start = Crashed InvalidTransition s
       \<and> sm_state (lp_sm s) = RECOVERING"
proof -
  obtain e s where s: "supervise (loop_config demo_settings 0)
      [quiet_tick 6 6, quiet_tick 7 1, quiet_tick 20 12] loop_start = Crashed e s"
    by (simp add: loop_evaluation)
  from supervise_crash_sites [OF s] s show ?thesis
    by (auto simp: quiet_tick_def)
qed

text \<open>
  A second hard stall crashes the supervisor.  With heartbeats disabled, output
  after a stall moves the machine to RECOVERING, the loop does not feed STALL_TIMER
  in that state, and the next hard stall feeds HARD_STALL, which RECOVERING refuses:
  whatever the io budget and check interval, a stalled, recovered and hard-stalled
  process makes the loop raise instead of terminating the process.
\<close>

theorem second_hard_stall_raises:
  "\<exists>s. supervise
        (loop_config (demo_settings\<lparr>set_stall_check_interval_ms := chk,
                                    set_io_budget_bytes := abs budget\<rparr>) 0)
        [quiet_tick 6 6, quiet_tick 7 1, quiet_tick 20 12] loop_start
      = Crashed InvalidTransition s \<and> lp_timed_out s"
  by (simp add: loop_evaluation)

lemma deadline_stops:
  assumes "cfg_deadline_ts cfg \<le> tk_now_ts tk"
  shows "loop_tick cfg tk s \<noteq> Continue s'"
  using assms
  by (auto simp: loop_tick_def feed_def stop_process_def on_cancelled_def
      split: prod.splits sum.splits)

text \<open>
  The loop cannot outlive its deadline.  If some observed iteration begins at or
  after the deadline (start plus the smaller of the request's timeout and the cpu
  budget), the loop has ended by then: it is not still waiting.
\<close>

theorem supervise_respects_deadline:
  assumes "tk \<in> set tks" and "start_ts + min (ms_to_s (set_timeout_ms st)) (set_cpu_budget_s st) \<le> tk_now_ts tk"
  shows "supervise (loop_config st start_ts) tks s \<noteq> Waiting s'"
  using assms(1)
proof (induction tks arbitrary: s)
  case (Cons t tks)
  have late: "cfg_deadline_ts (loop_config st start_ts) \<le> tk_now_ts tk"
    using assms(2) by (simp add: loop_config_def Let_def)
  show ?case
  proof (cases "t = tk")
    case True
    with deadline_stops [OF late] show ?thesis
      by (auto simp: supervise.simps [of _ "tk # tks"] split: flow.splits)
  next
    case False
    with Cons show ?thesis
      by (auto simp: supervise.simps [of _ "t # tks"] split: flow.splits)
  qed
qed simp

theorem supervise_respects_deadline_witness:
  "supervise (loop_config demo_settings 0) [quiet_tick 1 0, quiet_tick 61 1] loop_start \<noteq> Waiting loop_start
   \<and> (\<exists>s. supervise (loop_config demo_settings 0) [quiet_tick 1 0, quiet_tick 61 1] loop_start = Ended s \<and> lp_timed_out s)"
proof -
  have "supervise (loop_config demo_settings 0) [quiet_tick 1 0, quiet_tick 61 1] loop_start \<noteq> Waiting loop_start"
    by (rule supervise_respects_deadline [of "quiet_tick 61 1"])
      (simp_all add: quiet_tick_def demo_settings_def ms_to_s_def)
  then show ?thesis by (simp add: loop_evaluation)
qed

end
