(* ===== verification/Lane_Lifecycle.thy ===== *)
theory Lane_Lifecycle
  imports Relay_Interfaces
begin

text \<open>
  The lane lifecycle authority of \<^verbatim>\<open>rig_relay/governance/lane_lifecycle.py\<close>: lane
  states, the table of valid transitions, sealed and chained lifecycle events, the
  per-lane ledger file with its integrity checks, and \<^verbatim>\<open>transition_lane\<close> with all its
  gates in source order.  \<open>sha\<close> stands for the digest of an event's canonical JSON;
  every statement holds for any such function.  A lane's ledger file is absent,
  unreadable, or a list of lines of which the last may be torn; taking the lock may fail, and the
  write may fail before, in or after it.  A torn line is cut between two characters.
\<close>

section \<open>States, events and outcomes\<close>

datatype LaneLifecycleState =
    CLAIMED | READY_REQUESTED | READY_REFUSED | VALIDATED | ACCEPTED | REFUSED
  | PROMOTED | PROMOTION_REFUSED | CONSUMED | LANE_FAILED | PARKED

definition LANE_TERMINAL_STATES :: "LaneLifecycleState list" where
  "LANE_TERMINAL_STATES = [CONSUMED, REFUSED, LANE_FAILED, PARKED]"

fun VALID_TRANSITIONS :: "LaneLifecycleState \<Rightarrow> LaneLifecycleState list" where
  "VALID_TRANSITIONS CLAIMED = [READY_REQUESTED, LANE_FAILED, PARKED, REFUSED]"
| "VALID_TRANSITIONS READY_REQUESTED = [READY_REFUSED, VALIDATED, PARKED]"
| "VALID_TRANSITIONS READY_REFUSED = [READY_REQUESTED, PARKED]"
| "VALID_TRANSITIONS VALIDATED = [ACCEPTED, REFUSED, PARKED]"
| "VALID_TRANSITIONS ACCEPTED = [PROMOTED, PROMOTION_REFUSED, LANE_FAILED, PARKED]"
| "VALID_TRANSITIONS PROMOTED = [CONSUMED, PARKED]"
| "VALID_TRANSITIONS PROMOTION_REFUSED = [ACCEPTED, PARKED]"
| "VALID_TRANSITIONS _ = []"

datatype LaneLifecycleEventKind =
    Ev_LANE_CLAIMED | Ev_READY_REQUESTED | Ev_READY_REFUSED | Ev_VALIDATION_PASSED
  | Ev_VALIDATION_FAILED | Ev_ACCEPTED | Ev_REFUSED | Ev_PROMOTED | Ev_PROMOTION_REFUSED
  | Ev_CONSUMED | Ev_FAILED | Ev_PARKED

fun event_kind_to_state :: "LaneLifecycleEventKind \<Rightarrow> LaneLifecycleState" where
  "event_kind_to_state Ev_LANE_CLAIMED = CLAIMED"
| "event_kind_to_state Ev_READY_REQUESTED = READY_REQUESTED"
| "event_kind_to_state Ev_READY_REFUSED = READY_REFUSED"
| "event_kind_to_state Ev_VALIDATION_PASSED = VALIDATED"
| "event_kind_to_state Ev_VALIDATION_FAILED = LANE_FAILED"
| "event_kind_to_state Ev_ACCEPTED = ACCEPTED"
| "event_kind_to_state Ev_REFUSED = REFUSED"
| "event_kind_to_state Ev_PROMOTED = PROMOTED"
| "event_kind_to_state Ev_PROMOTION_REFUSED = PROMOTION_REFUSED"
| "event_kind_to_state Ev_CONSUMED = CONSUMED"
| "event_kind_to_state Ev_FAILED = LANE_FAILED"
| "event_kind_to_state Ev_PARKED = PARKED"

record lane_event =
  le_event_id :: string
  le_event_kind :: LaneLifecycleEventKind
  le_lane_id :: string
  le_mission_id :: string
  le_base_revision :: string
  le_branch_identity :: string
  le_worktree_identity :: string
  le_created_at :: timestamp
  le_producer :: string
  le_prior_event_digest :: "string option"
  le_integrity_digest :: string
  le_claimed_path_evidence_sha256 :: "string option"
  le_readiness_request_id :: "string option"
  le_proof_bundle_sha256 :: "string option"
  le_validation_decision_sha256 :: "string option"
  le_acceptance_reason :: "string option"
  le_refusal_reason :: "string option"
  le_promotion_target :: "string option"
  le_promotion_source_sha256 :: "string option"

type_synonym lane_hash = "lane_event \<Rightarrow> string"

definition recompute_integrity :: "lane_hash \<Rightarrow> lane_event \<Rightarrow> string" where
  "recompute_integrity sha e = sha (e\<lparr>le_integrity_digest := ''''\<rparr>)"

definition seal :: "lane_hash \<Rightarrow> lane_event \<Rightarrow> lane_event" where
  "seal sha e = e\<lparr>le_integrity_digest := recompute_integrity sha e\<rparr>"

definition verify_integrity :: "lane_hash \<Rightarrow> lane_event \<Rightarrow> bool" where
  "verify_integrity sha e \<longleftrightarrow> le_integrity_digest e = recompute_integrity sha e"

datatype LaneTransitionOutcome =
    Out_ACCEPTED | INVALID_TRANSITION | ALREADY_TERMINAL | DUPLICATE_ALREADY_CURRENT
  | MISSING_REQUIRED_EVIDENCE | LEDGER_WRITE_FAILED | STALE_BASE | CORRUPT_LEDGER
  | CONFLICTING_TERMINAL | PROMOTED_WITHOUT_ACCEPTANCE | CONSUMED_WITHOUT_PROMOTION
  | PARKED_LANE_PRESERVED

record LaneTransitionResult =
  lr_outcome :: LaneTransitionOutcome
  lr_event_id :: "string option"

definition succeeded :: "LaneTransitionResult \<Rightarrow> bool" where
  "succeeded r \<longleftrightarrow> lr_outcome r = Out_ACCEPTED"

section \<open>The ledger of a lane\<close>

datatype lane_file = Absent | Unreadable | Lines "lane_event line_file"

fun load_lines :: "lane_hash \<Rightarrow> lane_event list \<Rightarrow> lane_event jsonl list \<Rightarrow> lane_event list option" where
  "load_lines sha evs [] = Some evs"
| "load_lines sha evs (Blank # ls) = load_lines sha evs ls"
| "load_lines sha evs (BadJson # ls) = None"
| "load_lines sha evs (Entry e # ls) =
    (if \<not> verify_integrity sha e then None
     else if evs \<noteq> [] \<and> le_prior_event_digest e \<noteq> Some (le_integrity_digest (last evs)) then None
     else load_lines sha (evs @ [e]) ls)"

fun load_events :: "lane_hash \<Rightarrow> lane_file \<Rightarrow> lane_event list option" where
  "load_events sha Absent = Some []"
| "load_events sha Unreadable = None"
| "load_events sha (Lines lf) = load_lines sha [] (fst lf)"

definition last_event :: "lane_hash \<Rightarrow> lane_file \<Rightarrow> lane_event option" where
  "last_event sha f =
    (case load_events sha f of
       None \<Rightarrow> None
     | Some es \<Rightarrow> if es = [] then None else Some (last es))"

definition current_state :: "lane_hash \<Rightarrow> lane_file \<Rightarrow> LaneLifecycleState option" where
  "current_state sha f =
    (case load_events sha f of
       None \<Rightarrow> None
     | Some es \<Rightarrow> if es = [] then None else Some (event_kind_to_state (le_event_kind (last es))))"

text \<open>
  What the operating system does to an append: creating the directory or the file fails, the lock
  fails, or the line meets one of the fates of a write.
\<close>

datatype append_io = Io_touch_fails | Io_lock_fails | Io_write write_fate

abbreviation Io_ok :: append_io where
  "Io_ok \<equiv> Io_write Written"

text \<open>Taking the lock touches the ledger file, so an absent file becomes an empty one.\<close>

fun touch :: "lane_file \<Rightarrow> lane_file" where
  "touch Absent = Lines ([], False)"
| "touch f = f"

definition chain_event :: "lane_hash \<Rightarrow> lane_file \<Rightarrow> lane_event \<Rightarrow> lane_event" where
  "chain_event sha f e =
    (case last_event sha f of
       Some p \<Rightarrow> e\<lparr>le_prior_event_digest := Some (le_integrity_digest p)\<rparr>
     | None \<Rightarrow> e)"

definition append_event ::
  "lane_hash \<Rightarrow> append_io \<Rightarrow> lane_event \<Rightarrow> lane_file \<Rightarrow> lane_file \<times> string option" where
  "append_event sha io e f =
    (case io of
       Io_touch_fails \<Rightarrow> (f, None)
     | Io_lock_fails \<Rightarrow> (touch f, None)
     | Io_write fate \<Rightarrow>
         (case touch f of
            Lines lf \<Rightarrow>
              (let (lf', written) = write_line fate (seal sha (chain_event sha (touch f) e)) lf
               in (Lines lf', if written then Some (le_event_id e) else None))
          | f1 \<Rightarrow> (f1, None)))"

section \<open>The transition authority\<close>

record lane_request =
  rq_event :: lane_event
  require_proof :: bool
  require_acceptance_before_promotion :: bool
  require_promotion_before_consumption :: bool
  preserve_parked :: bool

abbreviation rq_kind :: "lane_request \<Rightarrow> LaneLifecycleEventKind" where
  "rq_kind q \<equiv> le_event_kind (rq_event q)"

text \<open>The first guard that holds gives the early return.\<close>

definition first_gate :: "(bool \<times> LaneTransitionOutcome) list \<Rightarrow> LaneTransitionOutcome option" where
  "first_gate gs = map_option snd (List.find fst gs)"

lemma first_gate_simps [simp]:
  "first_gate [] = None"
  "first_gate ((b, o') # gs) = (if b then Some o' else first_gate gs)"
  by (simp_all add: first_gate_def)

text \<open>
  The guards that come last: the evidence a readiness request needs, acceptance before
  promotion, promotion before consumption, and the stale-base check.
\<close>

definition evidence_gates ::
  "lane_hash \<Rightarrow> lane_file \<Rightarrow> lane_request \<Rightarrow> (bool \<times> LaneTransitionOutcome) list" where
  "evidence_gates sha f q =
    (let kind = rq_kind q;
         cur = current_state sha f;
         base = le_base_revision (rq_event q)
     in [(kind = Ev_READY_REQUESTED \<and> require_proof q \<and>
            le_proof_bundle_sha256 (rq_event q) \<in> {None, Some ''''}, MISSING_REQUIRED_EVIDENCE),
         (kind = Ev_PROMOTED \<and> require_acceptance_before_promotion q \<and> cur \<noteq> Some ACCEPTED,
            PROMOTED_WITHOUT_ACCEPTANCE),
         (kind = Ev_CONSUMED \<and> require_promotion_before_consumption q \<and> cur \<noteq> Some PROMOTED,
            CONSUMED_WITHOUT_PROMOTION),
         (cur \<noteq> None \<and> base \<noteq> '''' \<and> kind \<notin> {Ev_FAILED, Ev_REFUSED} \<and>
            (case load_events sha f of
               Some (e # es) \<Rightarrow> le_base_revision e \<noteq> '''' \<and> base \<noteq> le_base_revision e
             | _ \<Rightarrow> False), STALE_BASE)])"

text \<open>
  All the guards of \<^verbatim>\<open>transition_lane\<close> before the append, in source order: the corrupt
  ledger, the lane's first event, the guards on a lane with events, the same guards a
  second and third time (the source repeats them), and then the evidence guards.
\<close>

definition transition_gates ::
  "lane_hash \<Rightarrow> lane_file \<Rightarrow> lane_request \<Rightarrow> (bool \<times> LaneTransitionOutcome) list" where
  "transition_gates sha f q =
    (let kind = rq_kind q;
         cur = current_state sha f;
         target = event_kind_to_state kind;
         has = (cur \<noteq> None);
         c = the cur;
         invalid = (has \<and> target \<notin> set (VALID_TRANSITIONS c));
         duplicate = (has \<and> Some target = cur);
         first_bad = (cur = None \<and> kind \<noteq> Ev_LANE_CLAIMED);
         parked = (has \<and> preserve_parked q \<and> cur = Some PARKED);
         ended = (has \<and> c \<in> set LANE_TERMINAL_STATES)
     in [(load_events sha f = None, CORRUPT_LEDGER),
         (first_bad, INVALID_TRANSITION),
         (parked, PARKED_LANE_PRESERVED),
         (ended, ALREADY_TERMINAL),
         (duplicate, DUPLICATE_ALREADY_CURRENT),
         (has \<and> kind = Ev_PROMOTED \<and> require_acceptance_before_promotion q \<and> cur \<noteq> Some ACCEPTED,
            PROMOTED_WITHOUT_ACCEPTANCE),
         (has \<and> kind = Ev_CONSUMED \<and> require_promotion_before_consumption q \<and> cur \<noteq> Some PROMOTED,
            CONSUMED_WITHOUT_PROMOTION),
         (invalid, INVALID_TRANSITION),
         (invalid, INVALID_TRANSITION),
         (duplicate, DUPLICATE_ALREADY_CURRENT),
         (first_bad, INVALID_TRANSITION),
         (ended, ALREADY_TERMINAL),
         (parked, PARKED_LANE_PRESERVED),
         (invalid, INVALID_TRANSITION),
         (duplicate, DUPLICATE_ALREADY_CURRENT)] @ evidence_gates sha f q)"

text \<open>The part of \<^verbatim>\<open>transition_lane\<close> before the append, which runs without the lane's lock.\<close>

definition lane_check :: "lane_hash \<Rightarrow> lane_file \<Rightarrow> lane_request \<Rightarrow> LaneTransitionOutcome option" where
  "lane_check sha f q = first_gate (transition_gates sha f q)"

text \<open>
  The event the function builds from its arguments: chain and integrity fields are
  still at their defaults.
\<close>

definition new_event :: "lane_request \<Rightarrow> lane_event" where
  "new_event q = (rq_event q)\<lparr>le_prior_event_digest := None, le_integrity_digest := ''''\<rparr>"

text \<open>The append and the verification after it.\<close>

definition lane_commit ::
  "lane_hash \<Rightarrow> append_io \<Rightarrow> lane_file \<Rightarrow> lane_request \<Rightarrow> lane_file \<times> LaneTransitionResult" where
  "lane_commit sha io f q =
    (case append_event sha io (new_event q) f of
       (f', None) \<Rightarrow> (f', \<lparr>lr_outcome = LEDGER_WRITE_FAILED, lr_event_id = None\<rparr>)
     | (f', Some eid) \<Rightarrow>
         if current_state sha f' \<noteq> Some (event_kind_to_state (rq_kind q))
         then (f', \<lparr>lr_outcome = CONFLICTING_TERMINAL, lr_event_id = None\<rparr>)
         else (f', \<lparr>lr_outcome = Out_ACCEPTED, lr_event_id = Some eid\<rparr>))"

definition transition_lane ::
  "lane_hash \<Rightarrow> append_io \<Rightarrow> lane_file \<Rightarrow> lane_request \<Rightarrow> lane_file \<times> LaneTransitionResult" where
  "transition_lane sha io f q =
    (case lane_check sha f q of
       Some out \<Rightarrow> (f, \<lparr>lr_outcome = out, lr_event_id = None\<rparr>)
     | None \<Rightarrow> lane_commit sha io f q)"

section \<open>Loading what was appended\<close>

lemma verify_seal [simp]: "verify_integrity sha (seal sha e)"
  by (simp add: verify_integrity_def seal_def recompute_integrity_def)

lemma seal_simps [simp]:
  "le_event_kind (seal sha e) = le_event_kind e"
  "le_prior_event_digest (seal sha e) = le_prior_event_digest e"
  by (simp_all add: seal_def)

lemma chain_event_simps [simp]: "le_event_kind (chain_event sha f e) = le_event_kind e"
  by (simp add: chain_event_def split: option.splits)

lemma new_event_simps [simp]:
  "le_event_kind (new_event q) = rq_kind q" "le_prior_event_digest (new_event q) = None"
  "le_event_id (new_event q) = le_event_id (rq_event q)"
  by (simp_all add: new_event_def)

lemma new_event_prior: "(new_event q)\<lparr>le_prior_event_digest := None\<rparr> = new_event q"
  by (rule lane_event.equality) (simp_all add: new_event_def)

lemma load_lines_snoc:
  "load_lines sha acc (ls @ [Entry e]) =
    Option.bind (load_lines sha acc ls) (\<lambda>es.
      if verify_integrity sha e \<and> (es = [] \<or> le_prior_event_digest e = Some (le_integrity_digest (last es)))
      then Some (es @ [e]) else None)"
  by (induction sha acc ls rule: load_lines.induct) auto

lemma load_touch [simp]: "load_events sha (touch f) = load_events sha f"
  by (cases f) auto

fun lane_torn :: "lane_file \<Rightarrow> bool" where
  "lane_torn (Lines lf) = snd lf"
| "lane_torn _ = False"

lemma append_ok:
  assumes "load_events sha f = Some es" and "\<not> lane_torn f" and "append_event sha Io_ok (new_event q) f = (f', eid)"
  defines "e \<equiv> seal sha ((new_event q)\<lparr>le_prior_event_digest :=
           (if es = [] then None else Some (le_integrity_digest (last es)))\<rparr>)"
  shows "load_events sha f' = Some (es @ [e]) \<and> \<not> lane_torn f' \<and> eid = Some (le_event_id (rq_event q))"
proof -
  obtain ls where ls: "touch f = Lines (ls, False)" "load_lines sha [] ls = Some es"
    using assms(1,2) by (cases f) auto
  have e: "e = seal sha (chain_event sha (touch f) (new_event q))"
    using ls by (simp add: e_def chain_event_def last_event_def new_event_prior)
  have "load_lines sha [] (ls @ [Entry e]) = Some (es @ [e])"
    by (simp add: load_lines_snoc ls(2)) (auto simp: e_def)
  then show ?thesis
    using assms(3) ls(1) e by (auto simp: append_event_def write_line_def add_line_def)
qed

section \<open>The guards without their repetitions\<close>

definition stale_base :: "lane_event list \<Rightarrow> lane_request \<Rightarrow> bool" where
  "stale_base es q \<longleftrightarrow>
    le_base_revision (rq_event q) \<noteq> '''' \<and> rq_kind q \<notin> {Ev_FAILED, Ev_REFUSED} \<and>
    le_base_revision (hd es) \<noteq> '''' \<and> le_base_revision (rq_event q) \<noteq> le_base_revision (hd es)"

definition lane_check_spec :: "lane_event list option \<Rightarrow> lane_request \<Rightarrow> LaneTransitionOutcome option" where
  "lane_check_spec loaded q =
    (case loaded of
       None \<Rightarrow> Some CORRUPT_LEDGER
     | Some [] \<Rightarrow> if rq_kind q = Ev_LANE_CLAIMED then None else Some INVALID_TRANSITION
     | Some es \<Rightarrow>
         let c = event_kind_to_state (le_event_kind (last es));
             t = event_kind_to_state (rq_kind q)
         in if c = PARKED \<and> preserve_parked q then Some PARKED_LANE_PRESERVED
            else if c \<in> set LANE_TERMINAL_STATES then Some ALREADY_TERMINAL
            else if t = c then Some DUPLICATE_ALREADY_CURRENT
            else if t = PROMOTED \<and> c \<noteq> ACCEPTED \<and> require_acceptance_before_promotion q
              then Some PROMOTED_WITHOUT_ACCEPTANCE
            else if t = CONSUMED \<and> c \<noteq> PROMOTED \<and> require_promotion_before_consumption q
              then Some CONSUMED_WITHOUT_PROMOTION
            else if t \<notin> set (VALID_TRANSITIONS c) then Some INVALID_TRANSITION
            else if t = READY_REQUESTED \<and> require_proof q \<and>
                    le_proof_bundle_sha256 (rq_event q) \<in> {None, Some ''''}
              then Some MISSING_REQUIRED_EVIDENCE
            else if stale_base es q then Some STALE_BASE
            else None)"

lemma kind_of_state:
  "event_kind_to_state k = PROMOTED \<longleftrightarrow> k = Ev_PROMOTED"
  "event_kind_to_state k = CONSUMED \<longleftrightarrow> k = Ev_CONSUMED"
  "event_kind_to_state k = READY_REQUESTED \<longleftrightarrow> k = Ev_READY_REQUESTED"
  "event_kind_to_state k = CLAIMED \<longleftrightarrow> k = Ev_LANE_CLAIMED"
  "event_kind_to_state k = ACCEPTED \<longleftrightarrow> k = Ev_ACCEPTED"
  "event_kind_to_state k = VALIDATED \<longleftrightarrow> k = Ev_VALIDATION_PASSED"
  by (cases k; simp)+

lemma terminal_no_transition: "c \<in> set LANE_TERMINAL_STATES \<Longrightarrow> VALID_TRANSITIONS c = []"
  by (auto simp: LANE_TERMINAL_STATES_def)

text \<open>The lane as a machine on its state, \<open>None\<close> before the first event.\<close>

fun lane_step :: "LaneLifecycleState option \<Rightarrow> LaneLifecycleEventKind \<Rightarrow> LaneLifecycleState option option" where
  "lane_step None k = (if k = Ev_LANE_CLAIMED then Some (Some CLAIMED) else None)"
| "lane_step (Some s) k =
    (if event_kind_to_state k \<in> set (VALID_TRANSITIONS s) then Some (Some (event_kind_to_state k)) else None)"

definition lane_terminal :: "LaneLifecycleState option \<Rightarrow> bool" where
  "lane_terminal s \<longleftrightarrow> s \<in> Some ` set LANE_TERMINAL_STATES"

interpretation lane: absorbing_machine lane_step lane_terminal
  by unfold_locales (auto simp: lane_terminal_def terminal_no_transition)

lemma lane_check_step:
  assumes "load_events sha f = Some es" and "lane_check sha f q = None"
  shows "lane_step (current_state sha f) (rq_kind q) = Some (Some (event_kind_to_state (rq_kind q)))"
  using assms
  by (cases "current_state sha f")
    (auto simp: lane_check_def transition_gates_def evidence_gates_def Let_def split: if_splits)

definition kinds :: "lane_event list \<Rightarrow> LaneLifecycleEventKind list" where
  "kinds es = map le_event_kind es"

interpretation lch: hash_chain le_integrity_digest le_prior_event_digest
  "\<lambda>d e. seal sha (e\<lparr>le_prior_event_digest := d\<rparr>)" for sha
  by unfold_locales simp

section \<open>Lanes driven one transition at a time\<close>

text \<open>The flag says whether one of the writes was torn.\<close>

fun tears :: "append_io \<Rightarrow> bool" where
  "tears (Io_write (Torn _)) = True"
| "tears _ = False"

inductive lane_reachable :: "lane_hash \<Rightarrow> bool \<Rightarrow> lane_file \<Rightarrow> bool" for sha where
  fresh: "lane_reachable sha False Absent"
| trans: "lane_reachable sha t f \<Longrightarrow> lane_reachable sha (t \<or> tears io) (fst (transition_lane sha io f q))"

definition lane_ok :: "lane_hash \<Rightarrow> lane_file \<Rightarrow> bool" where
  "lane_ok sha f \<longleftrightarrow> (\<exists>es. load_events sha f = Some es \<and>
     run lane_step None (kinds es) = Some (current_state sha f) \<and> lch.linked None es)"

lemma current_state_loaded:
  "load_events sha f = Some es \<Longrightarrow>
   current_state sha f = (if es = [] then None else Some (event_kind_to_state (le_event_kind (last es))))"
  by (simp add: current_state_def)

text \<open>What a commit does to a ledger that loads.\<close>

lemma lane_commit_ok:
  assumes "load_events sha f = Some es" and "\<not> lane_torn f"
  obtains f' e where "lane_commit sha Io_ok f q =
      (f', \<lparr>lr_outcome = Out_ACCEPTED, lr_event_id = Some (le_event_id (rq_event q))\<rparr>)"
    and "load_events sha f' = Some (es @ [e])" and "le_event_kind e = rq_kind q" and "\<not> lane_torn f'"
    and "e = seal sha ((new_event q)\<lparr>le_prior_event_digest := lch.tip None es\<rparr>)"
proof -
  obtain f' eid where ap: "append_event sha Io_ok (new_event q) f = (f', eid)" by fastforce
  define e where "e = seal sha ((new_event q)\<lparr>le_prior_event_digest := lch.tip None es\<rparr>)"
  have l: "load_events sha f' = Some (es @ [e])" "eid = Some (le_event_id (rq_event q))" "\<not> lane_torn f'"
    using append_ok [OF assms ap] by (simp_all add: e_def lch.tip_eq)
  have k: "le_event_kind e = rq_kind q" by (simp add: e_def)
  then have "lane_commit sha Io_ok f q =
      (f', \<lparr>lr_outcome = Out_ACCEPTED, lr_event_id = Some (le_event_id (rq_event q))\<rparr>)"
    using ap l by (simp add: lane_commit_def current_state_loaded)
  then show thesis using that l(1,3) k e_def by blast
qed

text \<open>
  A ledger that calls leave: its lines are a history of the table, or a line that is no JSON follows
  such lines; and what is left of it without its torn line is again such a ledger.
\<close>

definition sound_lines :: "lane_hash \<Rightarrow> lane_event jsonl list \<Rightarrow> bool" where
  "sound_lines sha ls \<longleftrightarrow> (\<exists>pre. lane_ok sha (Lines (pre, False)) \<and> (ls = pre \<or> ls = pre @ [BadJson]))"

lemma lane_ok_lines: "lane_ok sha (Lines (ls, b)) \<longleftrightarrow> lane_ok sha (Lines (ls, False))"
  by (simp add: lane_ok_def current_state_def)

lemma load_lines_bad: "BadJson \<in> set ls \<Longrightarrow> load_lines sha acc ls = None"
  by (induction sha acc ls rule: load_lines.induct) auto

lemma sound_lines_loaded:
  assumes "sound_lines sha ls" and "load_lines sha acc (ls @ ls') = Some es"
  shows "lane_ok sha (Lines (ls, False))"
  using assms load_lines_bad [of "ls @ ls'" sha acc] by (auto simp: sound_lines_def)

lemma lane_ok_snoc:
  assumes "lane_ok sha (Lines (ls, False))" and "lane_check sha (Lines (ls, b)) q = None"
  shows "lane_ok sha (Lines (ls @ [Entry (seal sha (chain_event sha (Lines (ls, b)) (new_event q)))], b'))"
proof -
  obtain es where es: "load_events sha (Lines (ls, b)) = Some es"
      "run lane_step None (kinds es) = Some (current_state sha (Lines (ls, b)))" "lch.linked None es"
    using assms(1) by (auto simp: lane_ok_def current_state_def)
  define e where "e = seal sha ((new_event q)\<lparr>le_prior_event_digest := lch.tip None es\<rparr>)"
  have e: "seal sha (chain_event sha (Lines (ls, b)) (new_event q)) = e"
    using es(1) by (auto simp: e_def chain_event_def last_event_def new_event_prior lch.tip_eq)
  have l: "load_events sha (Lines (ls @ [Entry e], b')) = Some (es @ [e])"
    using es(1) by (simp add: load_lines_snoc) (auto simp: e_def lch.tip_eq)
  have "run lane_step None (kinds (es @ [e])) = Some (current_state sha (Lines (ls @ [Entry e], b')))"
    using es(2) lane_check_step [OF es(1) assms(2)] current_state_loaded [OF l]
    by (simp add: kinds_def run_append e_def)
  moreover have "lch.linked None (es @ [e])"
    using lch.linked_seal [OF es(3)] by (simp add: e_def)
  ultimately show ?thesis using l unfolding e lane_ok_def by blast
qed

lemma sound_commit:
  assumes "holds_of_file (sound_lines sha) lf" and "lane_check sha (Lines lf) q = None"
  shows "holds_of_file (sound_lines sha)
    (fst (write_line fate (seal sha (chain_event sha (Lines lf) (new_event q))) lf))"
proof -
  define e where "e = seal sha (chain_event sha (Lines lf) (new_event q))"
  obtain es where es: "load_lines sha [] (fst lf) = Some es"
    using assms(2) by (cases "load_lines sha [] (fst lf)") (auto simp: lane_check_def transition_gates_def Let_def)
  have ok: "lane_ok sha (Lines (fst lf, False))"
    using assms(1) es sound_lines_loaded [of sha "fst lf" "[]" "[]"] by (simp add: holds_of_file_def)
  have before: "sound_lines sha (butlast (fst lf) @ [BadJson])" if "snd lf" and "fst lf \<noteq> []"
    using that assms(1) es sound_lines_loaded [of sha "butlast (fst lf)" "[]" "[last (fst lf)]"]
    by (auto simp: holds_of_file_def sound_lines_def)
  have "lane_ok sha (Lines (fst lf @ [Entry e], False))"
    using lane_ok_snoc [of sha "fst lf" "snd lf" q False] ok assms(2) by (simp add: e_def)
  then have now: "sound_lines sha (fst lf @ [Entry e])" "sound_lines sha (fst lf @ [BadJson])" "sound_lines sha (fst lf)"
    using ok by (auto simp: sound_lines_def)
  have none: "sound_lines sha [BadJson]" "sound_lines sha []"
    by (auto simp: sound_lines_def lane_ok_def kinds_def current_state_def intro: exI [of _ "[]"])
  show ?thesis
    unfolding e_def [symmetric] using assms(1) before now none
    by (cases fate; cases "fst lf = []") (auto simp: write_line_def add_line_def holds_of_file_def)
qed
fun lane_inv :: "lane_hash \<Rightarrow> bool \<Rightarrow> lane_file \<Rightarrow> bool" where
  "lane_inv sha t Absent = True"
| "lane_inv sha t Unreadable = False"
| "lane_inv sha t (Lines lf) = (holds_of_file (sound_lines sha) lf \<and> (\<not> t \<longrightarrow> \<not> snd lf \<and> lane_ok sha (Lines lf)))"

lemma lane_ok_empty: "lane_ok sha (Lines ([], b))" "lane_ok sha Absent"
  by (simp_all add: lane_ok_def kinds_def current_state_def)

lemma lane_inv_touch: "lane_inv sha t f \<Longrightarrow> lane_inv sha t (touch f) \<and> (\<exists>lf. touch f = Lines lf)"
  by (cases f) (auto simp: holds_of_file_def sound_lines_def lane_ok_empty intro: exI [of _ "[]"])

lemma lane_check_touch [simp]: "lane_check sha (touch f) q = lane_check sha f q"
  by (simp add: lane_check_def transition_gates_def evidence_gates_def current_state_def)

lemma lane_inv_commit:
  assumes "lane_inv sha t f" and "lane_check sha f q = None"
  shows "lane_inv sha (t \<or> tears io) (fst (lane_commit sha io f q))"
proof -
  obtain lf where lf: "touch f = Lines lf" "holds_of_file (sound_lines sha) lf" "\<not> t \<longrightarrow> \<not> snd lf \<and> lane_ok sha (Lines lf)"
    using lane_inv_touch [OF assms(1)] by auto
  have left: "fst (lane_commit sha io f q) = fst (append_event sha io (new_event q) f)"
    by (simp add: lane_commit_def split: prod.splits option.splits)
  show ?thesis
  proof (cases io)
    case (Io_write fate)
    define e where "e = seal sha (chain_event sha (Lines lf) (new_event q))"
    have checked: "lane_check sha (Lines lf) q = None" using assms(2) lane_check_touch [of sha f q] lf(1) by simp
    have same: "fst (lane_commit sha io f q) = Lines (fst (write_line fate e lf))"
      unfolding left using lf(1) Io_write by (simp add: append_event_def e_def split: prod.split)
    have "\<not> snd (fst (write_line fate e lf)) \<and> lane_ok sha (Lines (fst (write_line fate e lf)))" if "\<not> t" and "\<not> tears io"
      using that lf(3) lane_ok_snoc [of sha "fst lf" "snd lf" q "False"] checked Io_write
      by (cases fate; cases lf) (auto simp: write_line_def add_line_def e_def)
    with sound_commit [OF lf(2) checked, of fate] show ?thesis unfolding same by (simp add: e_def)
  next
    case Io_lock_fails
    with lane_inv_touch [OF assms(1)] show ?thesis unfolding left by (auto simp: append_event_def)
  next
    case Io_touch_fails
    with assms(1) show ?thesis unfolding left by (cases f) (auto simp: append_event_def)
  qed
qed

lemma reachable_lane_inv: "lane_reachable sha t f \<Longrightarrow> lane_inv sha t f"
proof (induction rule: lane_reachable.induct)
  case (trans t f io q)
  show ?case
  proof (cases "lane_check sha f q")
    case None
    with lane_inv_commit [OF trans.IH] show ?thesis by (simp add: transition_lane_def)
  next
    case (Some out)
    with trans.IH show ?thesis by (cases f) (auto simp: transition_lane_def)
  qed
qed simp

lemma reachable_lane_ok:
  assumes "lane_reachable sha t f" and "load_events sha f \<noteq> None"
  shows "lane_ok sha f"
proof (cases f)
  case (Lines lf)
  with reachable_lane_inv [OF assms(1)] assms(2) sound_lines_loaded [of sha "fst lf" "[]" "[]"] lane_ok_lines [of sha "fst lf" "snd lf"]
  show ?thesis by (auto simp: holds_of_file_def)
qed (use assms(2) lane_ok_empty in auto)

text \<open>A ledger that does not load stays as it is.\<close>

lemma corrupt_refused:
  "load_events sha f = None \<Longrightarrow> transition_lane sha io f q = (f, \<lparr>lr_outcome = CORRUPT_LEDGER, lr_event_id = None\<rparr>)"
  by (simp add: transition_lane_def lane_check_def transition_gates_def Let_def)

text \<open>What the history of a lane in a given state must contain.\<close>

definition history_contains :: "LaneLifecycleState \<Rightarrow> LaneLifecycleEventKind list" where
  "history_contains s =
    (case s of
       READY_REQUESTED \<Rightarrow> [Ev_LANE_CLAIMED, Ev_READY_REQUESTED]
     | READY_REFUSED \<Rightarrow> [Ev_LANE_CLAIMED, Ev_READY_REQUESTED]
     | VALIDATED \<Rightarrow> [Ev_LANE_CLAIMED, Ev_READY_REQUESTED, Ev_VALIDATION_PASSED]
     | ACCEPTED \<Rightarrow> [Ev_LANE_CLAIMED, Ev_READY_REQUESTED, Ev_VALIDATION_PASSED, Ev_ACCEPTED]
     | PROMOTION_REFUSED \<Rightarrow> [Ev_LANE_CLAIMED, Ev_READY_REQUESTED, Ev_VALIDATION_PASSED, Ev_ACCEPTED]
     | PROMOTED \<Rightarrow> [Ev_LANE_CLAIMED, Ev_READY_REQUESTED, Ev_VALIDATION_PASSED, Ev_ACCEPTED, Ev_PROMOTED]
     | CONSUMED \<Rightarrow> [Ev_LANE_CLAIMED, Ev_READY_REQUESTED, Ev_VALIDATION_PASSED, Ev_ACCEPTED, Ev_PROMOTED, Ev_CONSUMED]
     | _ \<Rightarrow> [Ev_LANE_CLAIMED])"

lemma history_step:
  assumes "lane_step (Some u) k = Some (Some s)"
  shows "set (history_contains s) \<subseteq> insert k (set (history_contains u))"
  using assms by (cases u; cases k) (auto simp: history_contains_def split: if_splits)

lemma run_history:
  "run lane_step None ks = Some (Some s) \<Longrightarrow> set (history_contains s) \<subseteq> set ks"
proof (induction ks arbitrary: s rule: rev_induct)
  case (snoc k ks)
  then obtain u where u: "run lane_step None ks = Some u" "lane_step u k = Some (Some s)"
    by (auto simp: run_append split: Option.bind_splits option.splits)
  show ?case
  proof (cases u)
    case None
    with u(2) show ?thesis by (auto simp: history_contains_def split: if_splits)
  next
    case (Some v)
    with u snoc.IH [of v] history_step [of v k s] show ?thesis by auto
  qed
qed simp

text \<open>A ledger that loads is chained from its first event on.\<close>

lemma load_lines_linked:
  "load_lines sha acc ls = Some es \<Longrightarrow> lch.linked d acc \<Longrightarrow> (\<forall>e \<in> set acc. verify_integrity sha e) \<Longrightarrow>
   (\<exists>d'. lch.linked d' es) \<and> (\<forall>e \<in> set es. verify_integrity sha e)"
proof (induction sha acc ls arbitrary: d rule: load_lines.induct)
  case (4 sha evs e ls)
  then have e: "verify_integrity sha e" "evs = [] \<or> le_prior_event_digest e = Some (le_integrity_digest (last evs))"
    "load_lines sha (evs @ [e]) ls = Some es"
    by (auto split: if_splits)
  have "lch.linked (if evs = [] then le_prior_event_digest e else d) (evs @ [e])"
    using e(2) "4.prems"(2) by (auto simp: lch.linked_append lch.tip_eq)
  then show ?case
    using "4.IH" [OF _ _ e(3)] e(1,2) "4.prems"(3) by auto
qed auto

lemma load_events_linked:
  assumes "load_events sha f = Some es"
  shows "(\<exists>d. lch.linked d es) \<and> (\<forall>e \<in> set es. verify_integrity sha e)"
  using assms load_lines_linked [of sha "[]" _ es None] by (cases f) auto

lemma linked_first: "lch.linked d es \<Longrightarrow> es \<noteq> [] \<Longrightarrow> d = le_prior_event_digest (hd es)"
  by (cases es) auto

section \<open>Properties\<close>

text \<open>
  C4: the lane ledgers that \<^verbatim>\<open>transition_lane\<close> builds, one call at a time, from no file, whatever
  the arguments and whatever becomes of lock and writes, as long as the ledger can be read.  When no
  write was torn, the ledger loads without corruption; its event kinds are a run of the table of
  valid transitions that starts with LANE_CLAIMED and ends in the reported current state; and each
  event carries the digest of the event before it.  When a write was torn this holds too, or the
  ledger is such a history followed by one line that is no JSON: then every further call answers
  that the ledger is corrupt and changes nothing.
\<close>

theorem lane_history_valid:
  assumes "lane_reachable sha torn f"
  shows "\<exists>g es. load_events sha g = Some es \<and> run lane_step None (kinds es) = Some (current_state sha g) \<and>
    (\<forall>i. Suc i < length es \<longrightarrow> le_prior_event_digest (es ! Suc i) = Some (le_integrity_digest (es ! i))) \<and>
    (g = f \<or> torn \<and> (\<exists>ls b. g = Lines (ls, False) \<and> f = Lines (ls @ [BadJson], b)) \<and>
       (\<forall>io q. transition_lane sha io f q = (f, \<lparr>lr_outcome = CORRUPT_LEDGER, lr_event_id = None\<rparr>)))"
proof -
  have "\<exists>g. lane_ok sha g \<and> (g = f \<or> torn \<and> (\<exists>ls b. g = Lines (ls, False) \<and> f = Lines (ls @ [BadJson], b)))"
  proof (cases f)
    case (Lines lf)
    obtain pre where pre: "lane_ok sha (Lines (pre, False))" "fst lf = pre \<or> fst lf = pre @ [BadJson]" "torn \<or> lane_ok sha f"
      using reachable_lane_inv [OF assms] Lines by (auto simp: holds_of_file_def sound_lines_def)
    then have "lane_ok sha f \<or> torn \<and> f = Lines (pre @ [BadJson], snd lf)"
      using Lines lane_ok_lines [of sha "fst lf" "snd lf"] by (cases lf) auto
    with pre(1) show ?thesis by blast
  qed (use reachable_lane_inv [OF assms] lane_ok_empty in auto)
  moreover have "load_events sha (Lines (ls @ [BadJson], b)) = None" for ls b
    using load_lines_bad [of "ls @ [BadJson]"] by simp
  ultimately obtain g where g: "lane_ok sha g" "g = f \<or> torn \<and>
      (\<exists>ls b. g = Lines (ls, False) \<and> f = Lines (ls @ [BadJson], b)) \<and> load_events sha f = None" by blast
  from g(1) obtain es where es: "load_events sha g = Some es" "run lane_step None (kinds es) = Some (current_state sha g)"
      "\<forall>i. Suc i < length es \<longrightarrow> le_prior_event_digest (es ! Suc i) = Some (le_integrity_digest (es ! i))"
    using lch.linked_nth unfolding lane_ok_def by blast
  moreover have "g = f \<or> torn \<and> (\<exists>ls b. g = Lines (ls, False) \<and> f = Lines (ls @ [BadJson], b)) \<and>
       (\<forall>io q. transition_lane sha io f q = (f, \<lparr>lr_outcome = CORRUPT_LEDGER, lr_event_id = None\<rparr>))"
    using g(2) corrupt_refused [of sha f] by auto
  ultimately show ?thesis by blast
qed

definition demo_event :: "LaneLifecycleEventKind \<Rightarrow> lane_event" where
  "demo_event k =
    \<lparr>le_event_id = ''e'', le_event_kind = k, le_lane_id = ''lane-1'', le_mission_id = ''m'',
     le_base_revision = '''', le_branch_identity = '''', le_worktree_identity = '''',
     le_created_at = Aware 0, le_producer = '''', le_prior_event_digest = None,
     le_integrity_digest = '''', le_claimed_path_evidence_sha256 = None,
     le_readiness_request_id = None, le_proof_bundle_sha256 = Some ''p'',
     le_validation_decision_sha256 = None, le_acceptance_reason = None,
     le_refusal_reason = None, le_promotion_target = None, le_promotion_source_sha256 = None\<rparr>"

definition demo_request :: "LaneLifecycleEventKind \<Rightarrow> lane_request" where
  "demo_request k =
    \<lparr>rq_event = demo_event k, require_proof = True, require_acceptance_before_promotion = True,
     require_promotion_before_consumption = True, preserve_parked = True\<rparr>"

text \<open>A digest good enough to run the model: it separates events by kind and predecessor.\<close>

definition demo_sha :: lane_hash where
  "demo_sha e = (case le_prior_event_digest e of None \<Rightarrow> ''0'' | Some d \<Rightarrow> CHR ''1'' # d)"

definition drive :: "lane_hash \<Rightarrow> LaneLifecycleEventKind list \<Rightarrow> lane_file" where
  "drive sha ks = foldl (\<lambda>f k. fst (transition_lane sha Io_ok f (demo_request k))) Absent ks"

lemma drive_reachable: "lane_reachable sha False (drive sha ks)"
  unfolding drive_def
  by (rule foldl_invariant [where P = "lane_reachable sha False"])
    (use lane_reachable.trans [of sha False _ Io_ok] in \<open>auto intro: lane_reachable.fresh\<close>)

lemmas lane_evaluation =
  drive_def demo_request_def demo_event_def demo_sha_def transition_lane_def lane_check_def
  transition_gates_def evidence_gates_def lane_commit_def append_event_def chain_event_def last_event_def
  new_event_def seal_def recompute_integrity_def verify_integrity_def current_state_def write_line_def add_line_def
  LANE_TERMINAL_STATES_def kinds_def Let_def

definition full_life :: "LaneLifecycleEventKind list" where
  "full_life = [Ev_LANE_CLAIMED, Ev_READY_REQUESTED, Ev_VALIDATION_PASSED, Ev_ACCEPTED, Ev_PROMOTED, Ev_CONSUMED]"

definition full_life4 :: "LaneLifecycleEventKind list" where
  "full_life4 = [Ev_LANE_CLAIMED, Ev_READY_REQUESTED, Ev_VALIDATION_PASSED, Ev_ACCEPTED]"

lemma full_life_state: "current_state demo_sha (drive demo_sha full_life) = Some CONSUMED"
  by (simp add: full_life_def lane_evaluation)

definition torn_life :: lane_file where
  "torn_life = fst (transition_lane demo_sha (Io_write (Torn False)) (drive demo_sha full_life4) (demo_request Ev_PROMOTED))"

theorem lane_history_valid_witness:
  "current_state demo_sha (drive demo_sha full_life) = Some CONSUMED \<and>
   (\<exists>es. load_events demo_sha (drive demo_sha full_life) = Some es \<and>
      run lane_step None (kinds es) = Some (Some CONSUMED)) \<and>
   load_events demo_sha torn_life = None \<and>
   (\<exists>ls b es. torn_life = Lines (ls @ [BadJson], b) \<and> load_events demo_sha (Lines (ls, False)) = Some es)"
proof (intro conjI)
  show "current_state demo_sha (drive demo_sha full_life) = Some CONSUMED" by (rule full_life_state)
  show "\<exists>es. load_events demo_sha (drive demo_sha full_life) = Some es \<and> run lane_step None (kinds es) = Some (Some CONSUMED)"
    using lane_history_valid [OF drive_reachable, of demo_sha full_life] full_life_state by auto
  show torn: "load_events demo_sha torn_life = None"
    by (simp add: torn_life_def full_life4_def lane_evaluation)
  have "lane_reachable demo_sha True torn_life"
    using lane_reachable.trans [OF drive_reachable [of demo_sha full_life4], of "Io_write (Torn False)" "demo_request Ev_PROMOTED"]
    by (simp add: torn_life_def)
  from lane_history_valid [OF this] torn
  show "\<exists>ls b es. torn_life = Lines (ls @ [BadJson], b) \<and> load_events demo_sha (Lines (ls, False)) = Some es" by auto
qed

text \<open>
  What a lane's state certifies.  A lane reported CONSUMED was claimed, requested
  readiness, passed validation, was accepted and was promoted; and likewise, for every
  other state, the events that state presupposes are in the lane's ledger.
\<close>

theorem lane_state_certifies_history:
  assumes "lane_reachable sha torn f" and "current_state sha f = Some s"
  shows "\<exists>es. load_events sha f = Some es \<and> set (history_contains s) \<subseteq> set (kinds es)"
proof -
  have "load_events sha f \<noteq> None" using assms(2) by (auto simp: current_state_def split: option.splits)
  with reachable_lane_ok [OF assms(1)] assms(2) run_history show ?thesis unfolding lane_ok_def by metis
qed

theorem lane_state_certifies_history_witness:
  "\<exists>es. load_events demo_sha (drive demo_sha full_life) = Some es \<and>
     {Ev_VALIDATION_PASSED, Ev_ACCEPTED, Ev_PROMOTED} \<subseteq> set (kinds es)"
  using lane_state_certifies_history [OF drive_reachable full_life_state]
  by (auto simp: history_contains_def)

text \<open>
  The guards of \<^verbatim>\<open>transition_lane\<close>, written three times over in the source, decide
  the same outcome as each guard written once: the repetitions never fire.
\<close>

theorem lane_check_equals_spec: "lane_check sha f q = lane_check_spec (load_events sha f) q"
proof (cases "load_events sha f")
  case None
  then show ?thesis by (simp add: lane_check_def lane_check_spec_def transition_gates_def evidence_gates_def Let_def)
next
  case (Some es)
  show ?thesis
  proof (cases es)
    case Nil
    with Some show ?thesis
      by (auto simp: lane_check_def lane_check_spec_def transition_gates_def evidence_gates_def current_state_def Let_def)
  next
    case (Cons e es')
    with Some show ?thesis
      by (simp add: lane_check_def lane_check_spec_def transition_gates_def evidence_gates_def current_state_def
          kind_of_state stale_base_def Let_def del: last.simps cong: if_cong)
  qed
qed

text \<open>
  The three switches that look as if they relaxed the lifecycle
  (require-acceptance-before-promotion, require-promotion-before-consumption and
  preserve-parked) never change whether a transition is admitted, only which refusal
  is reported: the transition table already forbids what they would allow.
\<close>

theorem relaxation_switches_ineffective:
  "lane_check sha f (q\<lparr>require_acceptance_before_promotion := a,
      require_promotion_before_consumption := b, preserve_parked := c\<rparr>) = None
   \<longleftrightarrow> lane_check sha f q = None"
proof (cases "current_state sha f")
  case None
  then show ?thesis by (auto simp: lane_check_def transition_gates_def evidence_gates_def Let_def)
next
  case (Some s)
  then show ?thesis
    by (cases s) (auto simp: lane_check_def transition_gates_def evidence_gates_def Let_def LANE_TERMINAL_STATES_def)
qed

text \<open>
  A failed validation cannot be recorded while the lane waits for validation.  In
  READY_REQUESTED, VALIDATION_FAILED is refused as an invalid transition whatever the
  other arguments (it maps to FAILED, which the table does not allow there).
\<close>

theorem validation_failure_unrecordable:
  assumes "current_state sha f = Some READY_REQUESTED" and "rq_kind q = Ev_VALIDATION_FAILED"
  shows "transition_lane sha io f q = (f, \<lparr>lr_outcome = INVALID_TRANSITION, lr_event_id = None\<rparr>)"
proof -
  from assms(1) obtain es where "load_events sha f = Some es"
    by (auto simp: current_state_def split: option.splits)
  with assms show ?thesis
    by (simp add: transition_lane_def lane_check_def transition_gates_def evidence_gates_def LANE_TERMINAL_STATES_def Let_def)
qed

theorem validation_failure_unrecordable_witness:
  "lr_outcome (snd (transition_lane demo_sha Io_ok (drive demo_sha [Ev_LANE_CLAIMED, Ev_READY_REQUESTED])
      (demo_request Ev_VALIDATION_FAILED))) = INVALID_TRANSITION"
proof -
  have "current_state demo_sha (drive demo_sha [Ev_LANE_CLAIMED, Ev_READY_REQUESTED]) = Some READY_REQUESTED"
    by (simp add: lane_evaluation)
  from validation_failure_unrecordable [OF this, of "demo_request Ev_VALIDATION_FAILED"] show ?thesis
    by (simp add: demo_request_def demo_event_def)
qed

text \<open>
  Check and append are not atomic.  The lane's lock covers the append only, so two
  callers can both pass the guards on the same ledger: from ACCEPTED, one parks the
  lane and the other's promotion is then still appended, verified and reported as
  accepted, although the lane had reached a terminal state and the resulting history
  is no run of the transition table.
\<close>

theorem interleaved_transition_leaves_terminal_state:
  assumes "current_state sha f = Some ACCEPTED" and "load_events sha f = Some es"
    and "run lane_step None (kinds es) = Some (Some ACCEPTED)"
    and "rq_kind qa = Ev_PROMOTED" and "rq_kind qb = Ev_PARKED"
    and "le_base_revision (rq_event qa) = ''''" and "le_base_revision (rq_event qb) = ''''"
    and "lane_commit sha Io_ok f qb = (f1, rb)" and "lane_commit sha Io_ok f1 qa = (f2, ra)"
    and "\<not> lane_torn f"
  shows "lane_check sha f qa = None \<and> lane_check sha f qb = None \<and>
    current_state sha f1 = Some PARKED \<and> succeeded rb \<and>
    current_state sha f2 = Some PROMOTED \<and> succeeded ra \<and>
    (\<exists>es2. load_events sha f2 = Some es2 \<and> run lane_step None (kinds es2) = None)"
proof -
  have checks: "lane_check sha f qa = None" "lane_check sha f qb = None"
    using assms(1,2,4-7) by (simp_all add: lane_check_def transition_gates_def evidence_gates_def LANE_TERMINAL_STATES_def Let_def)
  obtain eb where eb: "load_events sha f1 = Some (es @ [eb])" "le_event_kind eb = Ev_PARKED" "lr_outcome rb = Out_ACCEPTED" "\<not> lane_torn f1"
    using lane_commit_ok [OF assms(2,10), of qb] assms(5,8) by (metis LaneTransitionResult.select_convs(1) prod.inject)
  obtain ea where ea: "load_events sha f2 = Some ((es @ [eb]) @ [ea])" "le_event_kind ea = Ev_PROMOTED" "lr_outcome ra = Out_ACCEPTED"
    using lane_commit_ok [OF eb(1,4), of qa] assms(4,9) by (metis LaneTransitionResult.select_convs(1) prod.inject)
  have "run lane_step None (kinds ((es @ [eb]) @ [ea])) = None"
    using assms(3) eb(2) ea(2) by (simp add: kinds_def run_append)
  with checks eb ea show ?thesis
    by (simp add: current_state_loaded succeeded_def)
qed

theorem interleaved_transition_leaves_terminal_state_witness:
  "\<exists>f2 ra. lane_commit demo_sha Io_ok (fst (lane_commit demo_sha Io_ok
        (drive demo_sha [Ev_LANE_CLAIMED, Ev_READY_REQUESTED, Ev_VALIDATION_PASSED, Ev_ACCEPTED])
        (demo_request Ev_PARKED))) (demo_request Ev_PROMOTED) = (f2, ra) \<and>
     succeeded ra \<and> current_state demo_sha f2 = Some PROMOTED"
proof -
  let ?f = "drive demo_sha [Ev_LANE_CLAIMED, Ev_READY_REQUESTED, Ev_VALIDATION_PASSED, Ev_ACCEPTED]"
  have cur: "current_state demo_sha ?f = Some ACCEPTED"
    by (simp add: lane_evaluation)
  have loaded: "load_events demo_sha ?f \<noteq> None" using cur by (auto simp: current_state_def split: option.splits)
  then obtain es where es: "load_events demo_sha ?f = Some es" "run lane_step None (kinds es) = Some (Some ACCEPTED)"
    using reachable_lane_ok [OF drive_reachable loaded] cur by (auto simp: lane_ok_def)
  obtain f1 rb where b: "lane_commit demo_sha Io_ok ?f (demo_request Ev_PARKED) = (f1, rb)" by fastforce
  obtain f2 ra where a: "lane_commit demo_sha Io_ok f1 (demo_request Ev_PROMOTED) = (f2, ra)" by fastforce
  have "lane_inv demo_sha False ?f" by (rule reachable_lane_inv [OF drive_reachable])
  then have "\<not> lane_torn ?f" by (cases ?f) auto
  from interleaved_transition_leaves_terminal_state [OF cur es _ _ _ _ b a this] a b show ?thesis
    by (simp add: demo_request_def demo_event_def)
qed

text \<open>
  Tamper evidence of the lane ledger.  Where the digest does not collide on the
  events concerned, two ledgers that load, have the same number of events, start from
  the same predecessor digest and end in the same integrity digest hold the same events.
\<close>

theorem lane_ledger_tamper_evident:
  assumes "load_events sha f = Some xs" and "load_events sha g = Some ys" and "length xs = length ys"
    and "xs \<noteq> []" and "le_prior_event_digest (hd xs) = le_prior_event_digest (hd ys)"
    and "le_integrity_digest (last xs) = le_integrity_digest (last ys)"
    and no_collision: "inj_on sha ((\<lambda>e. e\<lparr>le_integrity_digest := ''''\<rparr>) ` (set xs \<union> set ys))"
  shows "xs = ys"
proof -
  have "ys \<noteq> []" using assms(3,4) by auto
  obtain d d' where "lch.linked d xs" and "lch.linked d' ys"
    using load_events_linked [OF assms(1)] load_events_linked [OF assms(2)] by blast
  with assms(4,5) \<open>ys \<noteq> []\<close> have linked: "lch.linked d xs" "lch.linked d ys"
    using linked_first by metis+
  have "inj_on le_integrity_digest (set xs \<union> set ys)"
  proof (rule inj_onI)
    fix a b assume ab: "a \<in> set xs \<union> set ys" "b \<in> set xs \<union> set ys" "le_integrity_digest a = le_integrity_digest b"
    then have "sha (a\<lparr>le_integrity_digest := ''''\<rparr>) = sha (b\<lparr>le_integrity_digest := ''''\<rparr>)"
      using load_events_linked [OF assms(1)] load_events_linked [OF assms(2)]
      by (auto simp: verify_integrity_def recompute_integrity_def)
    then have "a\<lparr>le_integrity_digest := ''''\<rparr> = b\<lparr>le_integrity_digest := ''''\<rparr>"
      using ab(1,2) by (intro inj_onD [OF no_collision]) auto
    with ab(3) show "a = b" by (cases a; cases b) simp
  qed
  with linked assms(3,6) show ?thesis by (intro lch.linked_determined) auto
qed

theorem lane_ledger_tamper_evident_witness:
  "\<exists>xs ys. load_events demo_sha (drive demo_sha [Ev_LANE_CLAIMED]) = Some xs \<and>
     load_events demo_sha (Lines (Blank # map Entry xs, False)) = Some ys \<and> xs = ys"
proof -
  obtain x where x: "load_events demo_sha (drive demo_sha [Ev_LANE_CLAIMED]) = Some [x]"
      "load_events demo_sha (Lines ([Blank, Entry x], False)) = Some [x]"
    by (simp add: lane_evaluation)
  have "[x] = [x]"
    by (rule lane_ledger_tamper_evident [OF x]) auto
  with x show ?thesis by auto
qed

end
