(* ===== verification/Path_Model.thy ===== *)
theory Path_Model
  imports Relay_Prelude
begin

text \<open>
  Paths as the coordination stores compare them: \<^verbatim>\<open>normalize_path\<close> of
  \<^verbatim>\<open>coordination/models.py\<close> (that is \<^verbatim>\<open>pathlib.Path(p).as_posix()\<close>, purely textual),
  \<^verbatim>\<open>_paths_conflict\<close> of \<^verbatim>\<open>coordination/fleet_claims.py\<close> and \<^verbatim>\<open>_is_prefix\<close> of
  \<^verbatim>\<open>coordination/store.py\<close>, and the reading of both tests as containment of
  component lists, which is what they are meant to decide.
\<close>

section \<open>Normalisation\<close>

text \<open>\<^verbatim>\<open>s.split("/")\<close>.\<close>

fun split_slash :: "string \<Rightarrow> string list" where
  "split_slash [] = [[]]"
| "split_slash (c # s) =
    (if c = CHR ''/'' then [] # split_slash s
     else case split_slash s of
            [] \<Rightarrow> [[c]]
          | p # ps \<Rightarrow> (c # p) # ps)"

text \<open>
  \<^verbatim>\<open>posixpath.splitroot\<close>: one leading slash, exactly two leading slashes (kept as they
  are), or none; three or more count as one.
\<close>

definition splitroot :: "string \<Rightarrow> string \<times> string" where
  "splitroot p =
    (if take 1 p \<noteq> ''/'' then ([], p)
     else if take 1 (drop 1 p) \<noteq> ''/'' \<or> take 1 (drop 2 p) = ''/'' then (''/'', drop 1 p)
     else (take 2 p, drop 2 p))"

text \<open>The components \<^verbatim>\<open>pathlib\<close> keeps: not empty, not a single dot.\<close>

definition path_parts :: "string \<Rightarrow> string list" where
  "path_parts p = filter (\<lambda>c. c \<noteq> [] \<and> c \<noteq> ''.'') (split_slash (snd (splitroot p)))"

definition normalize_path :: "string \<Rightarrow> string" where
  "normalize_path p =
    (let s = fst (splitroot p) @ str_join ''/'' (path_parts p)
     in if s = [] then ''.'' else s)"

definition normalized_paths :: "string list \<Rightarrow> string list" where
  "normalized_paths ps = map normalize_path ps"

section \<open>The conflict tests of the sources\<close>

datatype conflict_reason = conflict_exact_path | conflict_descendant_path | conflict_ancestor_path

definition path_pair_conflict :: "string \<Rightarrow> string \<Rightarrow> conflict_reason option" where
  "path_pair_conflict p e =
    (if p = e then Some conflict_exact_path
     else if startswith p (rstrip_slash e @ ''/'') then Some conflict_descendant_path
     else if startswith e (rstrip_slash p @ ''/'') then Some conflict_ancestor_path
     else None)"

definition paths_conflict :: "string list \<Rightarrow> string list \<Rightarrow> conflict_reason option" where
  "paths_conflict proposed existing =
    first_some (\<lambda>p. first_some (path_pair_conflict p) existing) proposed"

definition is_prefix :: "string \<Rightarrow> string \<Rightarrow> bool" where
  "is_prefix parent child \<longleftrightarrow> parent = child \<or> startswith child (rstrip_slash parent @ ''/'')"

lemma paths_conflict_None:
  "paths_conflict ps es = None \<longleftrightarrow> (\<forall>p \<in> set ps. \<forall>e \<in> set es. path_pair_conflict p e = None)"
  by (simp add: paths_conflict_def first_some_None)

lemma path_pair_conflict_is_prefix:
  "path_pair_conflict p e \<noteq> None \<longleftrightarrow> is_prefix p e \<or> is_prefix e p"
  by (auto simp: path_pair_conflict_def is_prefix_def)

lemma path_pair_conflict_sym: "path_pair_conflict p e = None \<longleftrightarrow> path_pair_conflict e p = None"
  using path_pair_conflict_is_prefix [of p e] path_pair_conflict_is_prefix [of e p] by blast

lemma paths_conflict_sym: "paths_conflict ps es = None \<longleftrightarrow> paths_conflict es ps = None"
  by (metis paths_conflict_None path_pair_conflict_sym)

section \<open>Components\<close>

definition plain_part :: "string \<Rightarrow> bool" where
  "plain_part c \<longleftrightarrow> c \<noteq> [] \<and> c \<noteq> ''.'' \<and> CHR ''/'' \<notin> set c"

lemma split_slash_not_Nil [simp]: "split_slash s \<noteq> []"
  by (induction s) (auto split: list.splits)

lemma split_slash_no_slash: "c \<in> set (split_slash s) \<Longrightarrow> CHR ''/'' \<notin> set c"
  by (induction s arbitrary: c) (auto split: if_splits list.splits)

lemma split_slash_plain: "CHR ''/'' \<notin> set c \<Longrightarrow> split_slash c = [c]"
  by (induction c) auto

lemma split_slash_append:
  "CHR ''/'' \<notin> set c \<Longrightarrow> split_slash (c @ CHR ''/'' # s) = c # split_slash s"
  by (induction c) auto

lemma split_slash_join:
  "\<forall>c \<in> set cs. CHR ''/'' \<notin> set c \<Longrightarrow> cs \<noteq> [] \<Longrightarrow> split_slash (str_join ''/'' cs) = cs"
  by (induction cs rule: induct_list012) (auto simp: split_slash_plain split_slash_append)

lemma path_parts_plain: "c \<in> set (path_parts p) \<Longrightarrow> plain_part c"
  by (auto simp: path_parts_def plain_part_def dest: split_slash_no_slash)

lemma filter_plain: "\<forall>c \<in> set cs. plain_part c \<Longrightarrow> filter (\<lambda>c. c \<noteq> [] \<and> c \<noteq> ''.'') cs = cs"
  by (induction cs) (auto simp: plain_part_def)

lemma splitroot_root: "fst (splitroot p) \<in> {[], ''/'', ''//''}"
  by (cases p; cases "tl p") (auto simp: splitroot_def split: if_splits)

lemma splitroot_rebuild:
  assumes "s = [] \<or> hd s \<noteq> CHR ''/''" and "r \<in> {[], ''/'', ''//''}"
  shows "splitroot (r @ s) = (r, s)"
  using assms by (cases s) (auto simp: splitroot_def)

lemma join_head:
  "\<forall>c \<in> set cs. plain_part c \<Longrightarrow> str_join ''/'' cs = [] \<or> hd (str_join ''/'' cs) \<noteq> CHR ''/''"
proof (induction cs rule: induct_list012)
  case (2 x)
  then show ?case by (cases x) (auto simp: plain_part_def)
next
  case (3 x y zs)
  then show ?case by (cases x) (auto simp: plain_part_def)
qed simp

lemma join_eq_Nil: "\<forall>c \<in> set cs. plain_part c \<Longrightarrow> str_join ''/'' cs = [] \<longleftrightarrow> cs = []"
  by (induction cs rule: induct_list012) (auto simp: plain_part_def)

text \<open>Splitting a rebuilt path gives its root and parts back.\<close>

lemma parts_rebuild:
  assumes "\<forall>c \<in> set cs. plain_part c" and "r \<in> {[], ''/'', ''//''}"
  shows "splitroot (r @ str_join ''/'' cs) = (r, str_join ''/'' cs)"
    and "path_parts (r @ str_join ''/'' cs) = cs"
proof -
  show split: "splitroot (r @ str_join ''/'' cs) = (r, str_join ''/'' cs)"
    using assms by (intro splitroot_rebuild join_head)
  show "path_parts (r @ str_join ''/'' cs) = cs"
  proof (cases "cs = []")
    case False
    then have "split_slash (str_join ''/'' cs) = cs"
      using assms(1) by (intro split_slash_join) (auto simp: plain_part_def)
    with split show ?thesis using assms(1) by (simp add: path_parts_def filter_plain)
  qed (use split in \<open>simp add: path_parts_def\<close>)
qed

lemma dot_parts [simp]: "splitroot ''.'' = ([], ''.'')" "path_parts ''.'' = []"
  by (simp_all add: splitroot_def path_parts_def)

definition normal :: "string \<Rightarrow> bool" where
  "normal p \<longleftrightarrow> normalize_path p = p"

lemma normalize_parts: "path_parts (normalize_path p) = path_parts p"
proof (cases "fst (splitroot p) @ str_join ''/'' (path_parts p) = []")
  case True
  then have "path_parts p = []"
    using join_eq_Nil [of "path_parts p"] path_parts_plain by auto
  with True show ?thesis by (simp add: normalize_path_def)
next
  case False
  then have "normalize_path p = fst (splitroot p) @ str_join ''/'' (path_parts p)"
    by (auto simp: normalize_path_def)
  then show ?thesis
    using parts_rebuild(2) [of "path_parts p" "fst (splitroot p)"] path_parts_plain splitroot_root [of p]
    by simp
qed

lemma normalize_root: "fst (splitroot (normalize_path p)) = fst (splitroot p)"
proof (cases "fst (splitroot p) @ str_join ''/'' (path_parts p) = []")
  case False
  then have "normalize_path p = fst (splitroot p) @ str_join ''/'' (path_parts p)"
    by (auto simp: normalize_path_def)
  then show ?thesis
    using parts_rebuild(1) [of "path_parts p" "fst (splitroot p)"] path_parts_plain splitroot_root [of p]
    by simp
qed (simp add: normalize_path_def)

lemma normal_normalize [simp]: "normal (normalize_path p)"
  by (simp add: normal_def normalize_path_def [of "normalize_path p"] normalize_parts normalize_root)
    (simp add: normalize_path_def)

section \<open>The tests decide containment of components\<close>

definition covers :: "string \<Rightarrow> string \<Rightarrow> bool" where
  "covers e p \<longleftrightarrow> fst (splitroot e) = fst (splitroot p) \<and> prefix (path_parts e) (path_parts p)"

lemma split_join_slash:
  assumes "\<forall>c \<in> set cs. CHR ''/'' \<notin> set c" and "cs \<noteq> []"
  shows "split_slash (str_join ''/'' cs @ CHR ''/'' # s) = cs @ split_slash s"
  using assms
proof (induction cs rule: induct_list012)
  case (3 x y zs)
  then show ?case using split_slash_append [of x "str_join ''/'' (y # zs) @ CHR ''/'' # s"] by simp
qed (auto simp: split_slash_append)

lemma join_append:
  "xs \<noteq> [] \<Longrightarrow> ys \<noteq> [] \<Longrightarrow> str_join sep (xs @ ys) = str_join sep xs @ sep @ str_join sep ys"
proof (induction xs rule: induct_list012)
  case (2 x)
  then show ?case by (cases ys) auto
qed auto

lemma join_strict_prefix:
  assumes "\<forall>c \<in> set xs \<union> set ys. plain_part c" and "xs \<noteq> []"
  shows "prefix (str_join ''/'' xs @ ''/'') (str_join ''/'' ys) \<longleftrightarrow> strict_prefix xs ys"
proof
  assume "prefix (str_join ''/'' xs @ ''/'') (str_join ''/'' ys)"
  then obtain s where s: "str_join ''/'' ys = str_join ''/'' xs @ CHR ''/'' # s"
    by (auto simp: prefix_def)
  then have "ys \<noteq> []" by auto
  have "ys = split_slash (str_join ''/'' ys)"
    using assms(1) \<open>ys \<noteq> []\<close> by (simp add: split_slash_join plain_part_def)
  also have "\<dots> = xs @ split_slash s"
    using assms by (simp add: s split_join_slash plain_part_def)
  finally show "strict_prefix xs ys" by (auto simp: strict_prefix_def prefix_def)
next
  assume "strict_prefix xs ys"
  then obtain zs where "ys = xs @ zs" "zs \<noteq> []"
    by (auto simp: strict_prefix_def prefix_def)
  with assms(2) show "prefix (str_join ''/'' xs @ ''/'') (str_join ''/'' ys)"
    by (simp add: join_append)
qed

lemma join_no_trailing_slash:
  "\<forall>c \<in> set cs. plain_part c \<Longrightarrow> cs \<noteq> [] \<Longrightarrow> str_join ''/'' cs \<noteq> [] \<and> last (str_join ''/'' cs) \<noteq> CHR ''/''"
proof (induction cs rule: induct_list012)
  case (2 x)
  then show ?case by (auto simp: plain_part_def) (metis last_in_set)
qed auto

lemma rstrip_no_slash: "s = [] \<or> last s \<noteq> CHR ''/'' \<Longrightarrow> rstrip_slash s = s"
  by (cases s rule: rev_cases) (auto simp: rstrip_slash_def)

lemma normal_decompose:
  assumes "path_parts p \<noteq> []"
  shows "normalize_path p = fst (splitroot p) @ str_join ''/'' (path_parts p)"
    and "rstrip_slash (normalize_path p) = normalize_path p"
proof -
  have j: "str_join ''/'' (path_parts p) \<noteq> []" "last (str_join ''/'' (path_parts p)) \<noteq> CHR ''/''"
    using join_no_trailing_slash [of "path_parts p"] path_parts_plain assms by auto
  then show eq: "normalize_path p = fst (splitroot p) @ str_join ''/'' (path_parts p)"
    by (simp add: normalize_path_def Let_def)
  show "rstrip_slash (normalize_path p) = normalize_path p"
    using j by (intro rstrip_no_slash) (simp add: eq)
qed

lemma root_prefix:
  assumes "r \<in> {[], ''/'', ''//''}" and "r' \<in> {[], ''/'', ''//''}"
    and "s = [] \<or> hd s \<noteq> CHR ''/''" and "s' = [] \<or> hd s' \<noteq> CHR ''/''" and "s \<noteq> []"
    and "prefix (r @ s @ t) (r' @ s')"
  shows "r = r' \<and> prefix (s @ t) s'"
  using assms by (cases s; cases s') auto

text \<open>\<^verbatim>\<open>_is_prefix\<close> on normalised paths with at least one component.\<close>

lemma is_prefix_covers:
  assumes "path_parts p \<noteq> []" and "path_parts e \<noteq> []"
  shows "is_prefix (normalize_path e) (normalize_path p) \<longleftrightarrow> covers e p"
proof -
  let ?re = "fst (splitroot e)" and ?rp = "fst (splitroot p)"
  let ?je = "str_join ''/'' (path_parts e)" and ?jp = "str_join ''/'' (path_parts p)"
  note decomp = normal_decompose [OF assms(1)] normal_decompose [OF assms(2)]
  have plain: "\<forall>c \<in> set (path_parts e) \<union> set (path_parts p). plain_part c"
    using path_parts_plain by auto
  have heads: "?je \<noteq> []" "hd ?je \<noteq> CHR ''/''" "?jp \<noteq> []" "hd ?jp \<noteq> CHR ''/''"
    using join_head [of "path_parts e"] join_head [of "path_parts p"] plain assms
      join_eq_Nil [of "path_parts e"] join_eq_Nil [of "path_parts p"] by auto
  have "prefix (?re @ ?je @ ''/'') (?rp @ ?jp) \<longleftrightarrow> ?re = ?rp \<and> prefix (?je @ ''/'') ?jp"
    using root_prefix [OF splitroot_root splitroot_root _ _ heads(1), of ?jp e "''/''" p] heads by auto
  also have "\<dots> \<longleftrightarrow> ?re = ?rp \<and> strict_prefix (path_parts e) (path_parts p)"
    using join_strict_prefix [OF plain assms(2)] by simp
  finally have below: "startswith (normalize_path p) (rstrip_slash (normalize_path e) @ ''/'') \<longleftrightarrow>
      ?re = ?rp \<and> strict_prefix (path_parts e) (path_parts p)"
    unfolding decomp(4) by (simp add: startswith_prefix decomp(1,3))
  have same: "normalize_path e = normalize_path p \<longleftrightarrow> ?re = ?rp \<and> path_parts e = path_parts p"
    using normalize_parts [of e] normalize_parts [of p] normalize_root [of e] normalize_root [of p]
    by (auto simp: decomp(1,3))
  show ?thesis
    unfolding is_prefix_def covers_def below same by (auto simp: strict_prefix_def)
qed

text \<open>
  C35: the conflict test of fleet claims decides containment.  For any two paths whose
  normalised forms have at least one component, the string comparison of
  \<^verbatim>\<open>_paths_conflict\<close> on the normalised paths reports a conflict exactly when they have
  the same root and one's components are a prefix of the other's.
\<close>

theorem path_conflict_iff_containment:
  assumes "path_parts p \<noteq> []" and "path_parts e \<noteq> []"
  shows "path_pair_conflict (normalize_path p) (normalize_path e) \<noteq> None \<longleftrightarrow> covers e p \<or> covers p e"
  unfolding path_pair_conflict_is_prefix
  using is_prefix_covers [OF assms] is_prefix_covers [OF assms(2,1)] by blast

theorem path_conflict_iff_containment_witness:
  "path_pair_conflict (normalize_path ''./src//app/main.py'') (normalize_path ''src/app/'') \<noteq> None
   \<and> covers ''src/app/'' ''./src//app/main.py'' \<and> \<not> covers ''src/app/'' ''src/apple''"
proof -
  have parts: "path_parts ''./src//app/main.py'' = [''src'', ''app'', ''main.py'']"
    "path_parts ''src/app/'' = [''src'', ''app'']" "path_parts ''src/apple'' = [''src'', ''apple'']"
    by (simp_all add: path_parts_def splitroot_def)
  have c: "covers ''src/app/'' ''./src//app/main.py''" "\<not> covers ''src/app/'' ''src/apple''"
    by (simp_all add: covers_def parts) (simp_all add: splitroot_def)
  with path_conflict_iff_containment [of "''./src//app/main.py''" "''src/app/''"] parts
  show ?thesis by simp
qed

text \<open>
  Normalising a path is idempotent and does not change what the path denotes: its
  root and its components stay the same.
\<close>

theorem normalize_path_idempotent:
  "normalize_path (normalize_path p) = normalize_path p \<and>
   path_parts (normalize_path p) = path_parts p \<and> fst (splitroot (normalize_path p)) = fst (splitroot p)"
  using normal_normalize [of p] by (simp add: normal_def normalize_parts normalize_root)

lemma normal_relative_head:
  assumes "path_parts p \<noteq> []" and "fst (splitroot p) = []"
  shows "\<not> startswith (normalize_path p) ''./''"
proof -
  obtain c cs where cs: "path_parts p = c # cs"
    using assms(1) by (cases "path_parts p") auto
  then have c: "plain_part c" using path_parts_plain [of c p] by simp
  have "\<exists>s. normalize_path p = c @ s \<and> (s = [] \<or> hd s = CHR ''/'')"
    using normal_decompose(1) [OF assms(1)] assms(2) cs by (cases cs) auto
  then obtain s where s: "normalize_path p = c @ s" by blast
  show ?thesis
  proof
    assume "startswith (normalize_path p) ''./''"
    with s have "take 2 (c @ s) = ''./''" by (simp add: startswith_def numeral_2_eq_2)
    then show False using c
      by (cases c; cases "tl c") (auto simp: plain_part_def numeral_2_eq_2)
  qed
qed

text \<open>
  A claim on the repository root conflicts with nothing below it.  The normalised
  root is a single dot, no normalised relative path starts with dot-slash, so the
  conflict test finds no overlap between the root and any relative path with at least
  one component, although the root contains it.
\<close>

theorem root_claim_conflicts_with_nothing:
  assumes "path_parts p \<noteq> []" and "fst (splitroot p) = []"
  shows "normalize_path ''./'' = ''.'' \<and> paths_conflict [normalize_path ''./''] [normalize_path p] = None"
proof -
  have dot: "normalize_path ''./'' = ''.''"
    by (simp add: normalize_path_def path_parts_def splitroot_def)
  have np: "normalize_path p \<noteq> ''.''"
    using normalize_parts [of p] assms(1) by auto
  have "normalize_path p \<noteq> []"
    by (simp add: normalize_path_def Let_def)
  then have "\<not> startswith ''.'' (rstrip_slash (normalize_path p) @ ''/'')"
    using normal_decompose(2) [OF assms(1)] by (cases "normalize_path p") (auto simp: startswith_def)
  moreover have "rstrip_slash ''.'' = ''.''"
    by (simp add: rstrip_slash_def)
  ultimately have "path_pair_conflict ''.'' (normalize_path p) = None"
    using np normal_relative_head [OF assms] by (simp add: path_pair_conflict_def)
  with dot show ?thesis by (simp add: paths_conflict_def)
qed

theorem root_claim_conflicts_with_nothing_witness:
  "paths_conflict [normalize_path ''./''] [normalize_path ''src/main.py''] = None"
proof -
  have "path_parts ''src/main.py'' \<noteq> []" and "fst (splitroot ''src/main.py'') = []"
    by (simp_all add: path_parts_def splitroot_def)
  then show ?thesis by (rule root_claim_conflicts_with_nothing [THEN conjunct2])
qed

end
