(* ===== verification/Fleet_Ledger.thy ===== *)
theory Fleet_Ledger
  imports Relay_Interfaces Path_Model
begin

text \<open>
  The event-sourced ledger of fleet claims, first half of
  \<^verbatim>\<open>rig_relay/coordination/fleet_claims.py\<close>: the event envelope, the append with its
  schema check, event id, sequence number and hash chain, and the projection of the
  ledger to the active claims.  JSON-schema validation and SHA-256 are parameters
  (record \<open>fleet_env\<close>); a ledger is a list of JSON lines, empty when the file does not
  exist.  Dictionaries from paths to hashes are association lists in key order, the
  order the canonical JSON of the ledger gives them back in.
\<close>

section \<open>Claims and events\<close>

datatype ClaimState =
    claimed | editing | tests_running | ready_for_integration | blocked | released | parked

datatype ClaimMode = exclusive_write

datatype claim_event_kind =
    K_claim_requested | K_claim_acquired | K_claim_refused_conflict | K_claim_renewed
  | K_edit_started | K_tests_completed | K_ready_for_integration | K_integration_accepted
  | K_integration_refused_stale_base | K_claim_released | K_work_parked
  | K_workspace_claim_acquired | K_workspace_claim_released

type_synonym path_hashes = "(string, string) dict"

record FleetClaimEvent =
  ev_event_id :: string
  ev_claim_id :: string
  ev_event_kind :: claim_event_kind
  ev_mission_id :: string
  ev_lane_id :: string
  ev_agent_id :: string
  ev_workspace_authority_id :: string
  ev_claimed_paths :: "string list"
  ev_base_sha256_by_path :: path_hashes
  ev_lane_output_sha256_by_path :: "path_hashes option"
  ev_timestamp :: timestamp
  ev_event_sequence :: int
  ev_prior_event_digest :: "string option"
  ev_event_digest :: string
  ev_reason_code :: "string option"
  ev_details :: "(string, json) dict"

record ActiveClaim =
  ac_claim_id :: string
  ac_mission_id :: string
  ac_lane_id :: string
  ac_agent_id :: string
  ac_mode :: ClaimMode
  ac_claimed_paths :: "string list"
  ac_workspace_authority_id :: string
  ac_base_sha256_by_path :: path_hashes
  ac_lane_output_sha256_by_path :: "path_hashes option"
  ac_acquired_at :: timestamp
  ac_expires_at :: timestamp
  ac_state :: ClaimState
  ac_last_event_id :: string
  ac_last_event_kind :: claim_event_kind
  ac_reason_code :: "string option"

record ClaimResult =
  cr_acquired :: bool
  cr_claim :: "ActiveClaim option"
  cr_event_id :: "string option"
  cr_event_digest :: "string option"
  cr_refusal_reason :: "string option"
  cr_conflict_claim_id :: "string option"

type_synonym claim_ledger = "FleetClaimEvent jsonl list"

section \<open>Appending an event\<close>

text \<open>
  What the append takes from outside: whether the event's dictionary satisfies the JSON
  schema, and the two hashes of canonical JSON (the truncated one for event ids, the
  full one for the chain).
\<close>

record fleet_env =
  schema_ok :: "FleetClaimEvent \<Rightarrow> bool"
  id_hash :: "FleetClaimEvent \<Rightarrow> string"
  sha256 :: "FleetClaimEvent \<Rightarrow> string"

text \<open>
  What the file system does to one call: how many lines of the ledger the replay reads before an error, if
  there is one; whether the reads for the sequence number and for the last digest succeed; the
  append; and whether the pointer file can be written.
\<close>

record fleet_io =
  io_replay_read :: "nat option"
  io_sequence_read :: bool
  io_digest_read :: bool
  io_append :: write_fate
  io_pointer_ok :: bool

definition next_sequence :: "fleet_io \<Rightarrow> claim_ledger \<Rightarrow> int" where
  "next_sequence io led = (if io_sequence_read io then next_seq ev_event_sequence led else 1)"

text \<open>The digest of the last non-blank line, \<open>None\<close> if it is not JSON or cannot be read.\<close>

definition last_event_digest :: "fleet_io \<Rightarrow> claim_ledger \<Rightarrow> string option" where
  "last_event_digest io led =
    (if \<not> io_digest_read io then None
     else case filter (\<lambda>l. l \<noteq> Blank) led of
       [] \<Rightarrow> None
     | ls \<Rightarrow> map_option ev_event_digest (entry_of (last ls)))"

definition compute_event_digest :: "fleet_env \<Rightarrow> FleetClaimEvent \<Rightarrow> string" where
  "compute_event_digest env e = sha256 env (e\<lparr>ev_event_digest := ''''\<rparr>)"

text \<open>The event as it is written: id, sequence number, predecessor digest, own digest.\<close>

definition stamp_event :: "fleet_env \<Rightarrow> fleet_io \<Rightarrow> claim_ledger \<Rightarrow> FleetClaimEvent \<Rightarrow> FleetClaimEvent" where
  "stamp_event env io led e =
    (let e1 = e\<lparr>ev_event_id := id_hash env (e\<lparr>ev_event_digest := ''''\<rparr>)\<rparr>;
         e2 = e1\<lparr>ev_event_sequence := next_sequence io led\<rparr>;
         e3 = e2\<lparr>ev_prior_event_digest := last_event_digest io led\<rparr>
     in e3\<lparr>ev_event_digest := compute_event_digest env e3\<rparr>)"

definition append_claim_event ::
  "fleet_env \<Rightarrow> fleet_io \<Rightarrow> FleetClaimEvent \<Rightarrow> FleetClaimEvent line_file \<Rightarrow> FleetClaimEvent line_file \<times> FleetClaimEvent result" where
  "append_claim_event env io e f =
    (if \<not> schema_ok env e then (f, Inl (ValueError ''Event validation failed''))
     else
       let e' = stamp_event env io (fst f) e; (f', ok) = write_line (io_append io) e' f
       in (f', if ok then Inr e' else Inl OSError))"

section \<open>Projection to active claims\<close>

text \<open>
  \<^verbatim>\<open>timedelta(seconds=event["details"].get("ttl_seconds", 3600))\<close>: an int, a bool (which
  Python counts as 0 or 1), or a \<^verbatim>\<open>TypeError\<close>.
\<close>

definition event_ttl :: "FleetClaimEvent \<Rightarrow> int result" where
  "event_ttl e =
    (case dict_get (ev_details e) ''ttl_seconds'' of
       None \<Rightarrow> Inr 3600
     | Some (JInt n) \<Rightarrow> Inr n
     | Some (JBool b) \<Rightarrow> Inr (if b then 1 else 0)
     | Some _ \<Rightarrow> Inl TypeError)"

definition event_expiry :: "FleetClaimEvent \<Rightarrow> timestamp result" where
  "event_expiry e =
    and_then (fromisoformat (ev_timestamp e)) (\<lambda>d.
    and_then (event_ttl e) (\<lambda>n.
    and_then (add_seconds d n) (\<lambda>x. Inr (isoformat x))))"

text \<open>\<^verbatim>\<open>except (ValueError, TypeError)\<close>: \<^verbatim>\<open>OverflowError\<close> is neither and goes on up.\<close>

fun caught :: "py_error \<Rightarrow> bool" where
  "caught (ValueError _) = True"
| "caught TypeError = True"
| "caught _ = False"

definition event_to_active_claim :: "FleetClaimEvent \<Rightarrow> ActiveClaim result" where
  "event_to_active_claim e =
    and_then
      (case event_expiry e of
         Inr x \<Rightarrow> Inr x
       | Inl err \<Rightarrow> if caught err then Inr (ev_timestamp e) else Inl err)
      (\<lambda>expires_at. Inr
        \<lparr>ac_claim_id = ev_claim_id e, ac_mission_id = ev_mission_id e, ac_lane_id = ev_lane_id e,
         ac_agent_id = ev_agent_id e, ac_mode = exclusive_write, ac_claimed_paths = ev_claimed_paths e,
         ac_workspace_authority_id = ev_workspace_authority_id e,
         ac_base_sha256_by_path = ev_base_sha256_by_path e,
         ac_lane_output_sha256_by_path = ev_lane_output_sha256_by_path e,
         ac_acquired_at = ev_timestamp e, ac_expires_at = expires_at, ac_state = claimed,
         ac_last_event_id = ev_event_id e, ac_last_event_kind = ev_event_kind e,
         ac_reason_code = ev_reason_code e\<rparr>)"

record replay_state =
  claims_by_id :: "(string, ActiveClaim) dict"
  terminal_ids :: "string set"

definition replay_init :: replay_state where
  "replay_init = \<lparr>claims_by_id = [], terminal_ids = {}\<rparr>"

definition TERMINAL_KINDS :: "claim_event_kind list" where
  "TERMINAL_KINDS = [K_claim_released, K_work_parked, K_workspace_claim_released]"

text \<open>A claim rebuilt from its predecessor with the event's id and kind; the reason is dropped.\<close>

definition touch_claim :: "FleetClaimEvent \<Rightarrow> ClaimState \<Rightarrow> ActiveClaim \<Rightarrow> ActiveClaim" where
  "touch_claim e st c =
    c\<lparr>ac_state := st, ac_last_event_id := ev_event_id e, ac_last_event_kind := ev_event_kind e,
      ac_reason_code := None\<rparr>"

definition update_claim ::
  "replay_state \<Rightarrow> string \<Rightarrow> (ActiveClaim \<Rightarrow> ActiveClaim result) \<Rightarrow> replay_state result" where
  "update_claim s cid f =
    (case dict_get (claims_by_id s) cid of
       None \<Rightarrow> Inr s
     | Some c \<Rightarrow> and_then (f c) (\<lambda>c'. Inr (s\<lparr>claims_by_id := dict_set cid c' (claims_by_id s)\<rparr>)))"

definition end_claim :: "replay_state \<Rightarrow> string \<Rightarrow> replay_state" where
  "end_claim s cid = s\<lparr>terminal_ids := insert cid (terminal_ids s), claims_by_id := dict_pop cid (claims_by_id s)\<rparr>"

definition renew_in_replay :: "FleetClaimEvent \<Rightarrow> ActiveClaim \<Rightarrow> ActiveClaim result" where
  "renew_in_replay e c =
    (case event_expiry e of
       Inr x \<Rightarrow> Inr ((touch_claim e claimed c)\<lparr>ac_expires_at := x\<rparr>)
     | Inl err \<Rightarrow> if caught err then Inr c else Inl err)"

text \<open>\<^verbatim>\<open>lane_output or previous\<close>: an absent or empty dictionary is falsy.\<close>

definition output_or :: "path_hashes option \<Rightarrow> path_hashes option \<Rightarrow> path_hashes option" where
  "output_or new old = (case new of None \<Rightarrow> old | Some [] \<Rightarrow> old | Some h \<Rightarrow> Some h)"

definition apply_event :: "string option \<Rightarrow> replay_state \<Rightarrow> FleetClaimEvent \<Rightarrow> replay_state result" where
  "apply_event authority s e =
    (let cid = ev_claim_id e; kind = ev_event_kind e in
     if cid = '''' then Inr s
     else if authority \<noteq> None \<and> Some (ev_workspace_authority_id e) \<noteq> authority then Inr s
     else case kind of
       K_claim_acquired \<Rightarrow>
         and_then (event_to_active_claim e) (\<lambda>c. Inr (s\<lparr>claims_by_id := dict_set cid c (claims_by_id s)\<rparr>))
     | K_workspace_claim_acquired \<Rightarrow>
         and_then (event_to_active_claim e) (\<lambda>c. Inr (s\<lparr>claims_by_id := dict_set cid c (claims_by_id s)\<rparr>))
     | K_claim_renewed \<Rightarrow> update_claim s cid (renew_in_replay e)
     | K_edit_started \<Rightarrow> update_claim s cid (\<lambda>c. Inr (touch_claim e editing c))
     | K_tests_completed \<Rightarrow> update_claim s cid (\<lambda>c. Inr (touch_claim e tests_running c))
     | K_ready_for_integration \<Rightarrow>
         update_claim s cid (\<lambda>c. Inr ((touch_claim e ready_for_integration c)
           \<lparr>ac_lane_output_sha256_by_path :=
              output_or (ev_lane_output_sha256_by_path e) (ac_lane_output_sha256_by_path c)\<rparr>))
     | K_integration_accepted \<Rightarrow> Inr (end_claim s cid)
     | K_integration_refused_stale_base \<Rightarrow>
         update_claim s cid (\<lambda>c. Inr ((touch_claim e blocked c)\<lparr>ac_reason_code := ev_reason_code e\<rparr>))
     | K_claim_refused_conflict \<Rightarrow> Inr (end_claim s cid)
     | K_claim_requested \<Rightarrow> Inr s
     | _ \<Rightarrow> if kind \<in> set TERMINAL_KINDS then Inr (end_claim s cid) else Inr s)"

text \<open>Blank and malformed lines are skipped; an exception ends the replay.\<close>

definition replay_step :: "string option \<Rightarrow> replay_state result \<Rightarrow> FleetClaimEvent \<Rightarrow> replay_state result" where
  "replay_step authority r e = and_then r (\<lambda>s. apply_event authority s e)"

definition replay_ledger :: "string option \<Rightarrow> claim_ledger \<Rightarrow> replay_state result" where
  "replay_ledger authority led = foldl (replay_step authority) (Inr replay_init) (entries led)"

text \<open>Claims that expired, or whose expiry cannot be read or compared, are left out.\<close>

definition unexpired :: "int \<Rightarrow> ActiveClaim \<Rightarrow> bool" where
  "unexpired now c \<longleftrightarrow> stamp_expired (ac_expires_at c) now = Inr False"

text \<open>\<^verbatim>\<open>except OSError: pass\<close>: after a read error the lines before it are all the ledger there is.\<close>

definition lines_read :: "nat option \<Rightarrow> claim_ledger \<Rightarrow> claim_ledger" where
  "lines_read fate led = (case fate of None \<Rightarrow> led | Some n \<Rightarrow> take n led)"

lemma lines_read_None [simp]: "lines_read None led = led"
  by (simp add: lines_read_def)

definition replay_active_claims :: "nat option \<Rightarrow> claim_ledger \<Rightarrow> string option \<Rightarrow> int \<Rightarrow> ActiveClaim list result" where
  "replay_active_claims fate led authority now =
    and_then (replay_ledger authority (lines_read fate led))
      (\<lambda>s. Inr (filter (unexpired now) (dict_values (claims_by_id s))))"

text \<open>The active claims of a ledger, as a replay shows that reads all of it.\<close>

abbreviation active_claims :: "claim_ledger \<Rightarrow> string option \<Rightarrow> int \<Rightarrow> ActiveClaim list result" where
  "active_claims \<equiv> replay_active_claims None"

end
