(* ===== verification/Fleet_Claims.thy ===== *)
theory Fleet_Claims
  imports Fleet_Ledger
begin

text \<open>
  The operations on fleet claims, second half of
  \<^verbatim>\<open>rig_relay/coordination/fleet_claims.py\<close>.  Each runs under the store's lock, so it is
  one step on the store: a ledger and the pointer files of \<^verbatim>\<open>claims/\<close>.  The three clock
  readings of a call (replay, event timestamp, expiry of the returned claim) and the
  fresh uuid are arguments; so is what the file system does to the reads of the ledger, to the
  append and to the pointer file.  An exception leaves the store as it was at that point.
\<close>

section \<open>The store\<close>

record claim_pointer =
  pt_claim_id :: string
  pt_mission_id :: string
  pt_lane_id :: string
  pt_agent_id :: string
  pt_state :: ClaimState
  pt_claimed_paths_count :: nat
  pt_workspace_authority_id :: string
  pt_acquired_at :: timestamp
  pt_expires_at :: timestamp
  pt_coordination_event_id :: string
  pt_base_sha256_by_path_count :: nat

text \<open>\<open>fs_torn\<close>: the last line of the ledger has no newline.\<close>

record FleetClaimStore =
  fs_ledger :: claim_ledger
  fs_torn :: bool
  fs_pointers :: "string \<Rightarrow> claim_pointer option"

record fleet_clock =
  now_replay :: int
  now_event :: int
  now_result :: int

text \<open>The world of one call: parameters, file system, clock and uuid.\<close>

record call =
  c_env :: fleet_env
  c_io :: fleet_io
  c_clock :: fleet_clock
  c_uuid :: string

type_synonym 'a fleet_op = "FleetClaimStore \<Rightarrow> FleetClaimStore \<times> 'a result"

definition write_pointer_artifact ::
  "ActiveClaim \<Rightarrow> string \<Rightarrow> FleetClaimStore \<Rightarrow> FleetClaimStore" where
  "write_pointer_artifact active eid st =
    st\<lparr>fs_pointers := (fs_pointers st)(ac_claim_id active \<mapsto>
      \<lparr>pt_claim_id = ac_claim_id active, pt_mission_id = ac_mission_id active,
       pt_lane_id = ac_lane_id active, pt_agent_id = ac_agent_id active,
       pt_state = ac_state active, pt_claimed_paths_count = length (ac_claimed_paths active),
       pt_workspace_authority_id = ac_workspace_authority_id active,
       pt_acquired_at = ac_acquired_at active, pt_expires_at = ac_expires_at active,
       pt_coordination_event_id = eid,
       pt_base_sha256_by_path_count = length (ac_base_sha256_by_path active)\<rparr>)\<rparr>"

definition unlink_pointer :: "string \<Rightarrow> FleetClaimStore \<Rightarrow> FleetClaimStore" where
  "unlink_pointer cid st = st\<lparr>fs_pointers := (fs_pointers st)(cid := None)\<rparr>"

text \<open>\<^verbatim>\<open>self._append_event(e)\<close>, then the statements that follow it.\<close>

definition append_then ::
  "call \<Rightarrow> FleetClaimEvent \<Rightarrow> (FleetClaimEvent \<Rightarrow> 'a fleet_op) \<Rightarrow> 'a fleet_op" where
  "append_then c e k st =
    (case append_claim_event (c_env c) (c_io c) e (fs_ledger st, fs_torn st) of
       ((led, torn), Inl err) \<Rightarrow> (st\<lparr>fs_ledger := led, fs_torn := torn\<rparr>, Inl err)
     | ((led, torn), Inr e') \<Rightarrow> k e' (st\<lparr>fs_ledger := led, fs_torn := torn\<rparr>))"

text \<open>An event with the defaults of its constructor.\<close>

definition blank_event :: "call \<Rightarrow> claim_event_kind \<Rightarrow> string \<Rightarrow> FleetClaimEvent" where
  "blank_event c kind cid =
    \<lparr>ev_event_id = '''', ev_claim_id = cid, ev_event_kind = kind, ev_mission_id = '''',
     ev_lane_id = '''', ev_agent_id = '''', ev_workspace_authority_id = '''',
     ev_claimed_paths = [], ev_base_sha256_by_path = [], ev_lane_output_sha256_by_path = None,
     ev_timestamp = Aware (now_event (c_clock c)), ev_event_sequence = 0,
     ev_prior_event_digest = None, ev_event_digest = '''', ev_reason_code = None, ev_details = []\<rparr>"

text \<open>An event on an existing claim, whose identity fields it repeats.\<close>

definition event_on :: "call \<Rightarrow> claim_event_kind \<Rightarrow> ActiveClaim \<Rightarrow> FleetClaimEvent" where
  "event_on c kind existing =
    (blank_event c kind (ac_claim_id existing))
      \<lparr>ev_mission_id := ac_mission_id existing, ev_lane_id := ac_lane_id existing,
       ev_agent_id := ac_agent_id existing,
       ev_workspace_authority_id := ac_workspace_authority_id existing,
       ev_claimed_paths := ac_claimed_paths existing,
       ev_base_sha256_by_path := ac_base_sha256_by_path existing\<rparr>"

definition claim_result :: "bool \<Rightarrow> ActiveClaim option \<Rightarrow> FleetClaimEvent \<Rightarrow> ClaimResult" where
  "claim_result acquired claim e =
    \<lparr>cr_acquired = acquired, cr_claim = claim, cr_event_id = Some (ev_event_id e),
     cr_event_digest = Some (ev_event_digest e), cr_refusal_reason = None, cr_conflict_claim_id = None\<rparr>"

definition refused :: "string \<Rightarrow> ClaimResult" where
  "refused reason =
    \<lparr>cr_acquired = False, cr_claim = None, cr_event_id = None, cr_event_digest = None,
     cr_refusal_reason = Some reason, cr_conflict_claim_id = None\<rparr>"

definition reason_text :: "conflict_reason \<Rightarrow> string" where
  "reason_text r =
    (case r of conflict_exact_path \<Rightarrow> ''conflict_exact_path''
             | conflict_descendant_path \<Rightarrow> ''conflict_descendant_path''
             | conflict_ancestor_path \<Rightarrow> ''conflict_ancestor_path'')"

section \<open>Acquiring\<close>

record claim_request =
  q_mission_id :: string
  q_lane_id :: string
  q_agent_id :: string
  q_mode :: ClaimMode
  q_claimed_paths :: "string list"
  q_base_sha256_by_path :: path_hashes
  q_workspace_authority_id :: string
  q_ttl_seconds :: int

text \<open>The first active claim whose paths conflict, with the reason.\<close>

definition first_conflict ::
  "string list \<Rightarrow> ActiveClaim list \<Rightarrow> (ActiveClaim \<times> conflict_reason) option" where
  "first_conflict paths active =
    first_some (\<lambda>c. map_option (Pair c) (paths_conflict paths (ac_claimed_paths c))) active"

definition event_of_request ::
  "call \<Rightarrow> claim_event_kind \<Rightarrow> claim_request \<Rightarrow> FleetClaimEvent" where
  "event_of_request c kind q =
    (blank_event c kind (c_uuid c))
      \<lparr>ev_mission_id := q_mission_id q, ev_lane_id := q_lane_id q, ev_agent_id := q_agent_id q,
       ev_workspace_authority_id := q_workspace_authority_id q,
       ev_claimed_paths := normalized_paths (q_claimed_paths q),
       ev_base_sha256_by_path := q_base_sha256_by_path q\<rparr>"

text \<open>The refusal event and its result.\<close>

definition refuse_conflict ::
  "call \<Rightarrow> claim_request \<Rightarrow> (string, json) dict \<Rightarrow> ActiveClaim \<Rightarrow> conflict_reason \<Rightarrow> ClaimResult fleet_op" where
  "refuse_conflict c q details existing reason =
    append_then c
      ((event_of_request c K_claim_refused_conflict q)
         \<lparr>ev_reason_code := Some (reason_text reason), ev_details := details\<rparr>)
      (\<lambda>e st. (st, Inr ((claim_result False None e)
         \<lparr>cr_refusal_reason := Some (reason_text reason),
          cr_conflict_claim_id := Some (ac_claim_id existing)\<rparr>)))"

text \<open>After the append: the expiry of the returned claim, the pointer file, the result.\<close>

definition grant_claim ::
  "call \<Rightarrow> claim_event_kind \<Rightarrow> claim_request \<Rightarrow> (string, json) dict \<Rightarrow> ClaimResult fleet_op" where
  "grant_claim c kind q details =
    append_then c ((event_of_request c kind q)\<lparr>ev_details := details\<rparr>)
      (\<lambda>e st.
        case add_seconds (AwareDT (now_result (c_clock c))) (q_ttl_seconds q) of
          Inl err \<Rightarrow> (st, Inl err)
        | Inr x \<Rightarrow>
            let active =
              \<lparr>ac_claim_id = c_uuid c, ac_mission_id = q_mission_id q, ac_lane_id = q_lane_id q,
               ac_agent_id = q_agent_id q, ac_mode = q_mode q,
               ac_claimed_paths = normalized_paths (q_claimed_paths q),
               ac_workspace_authority_id = q_workspace_authority_id q,
               ac_base_sha256_by_path = q_base_sha256_by_path q,
               ac_lane_output_sha256_by_path = None, ac_acquired_at = ev_timestamp e,
               ac_expires_at = isoformat x, ac_state = claimed,
               ac_last_event_id = ev_event_id e, ac_last_event_kind = kind, ac_reason_code = None\<rparr>;
              st' = (if io_pointer_ok (c_io c) then write_pointer_artifact active (ev_event_id e) st else st)
            in (st', Inr (claim_result True (Some active) e)))"

definition acquire_claim :: "call \<Rightarrow> claim_request \<Rightarrow> ClaimResult fleet_op" where
  "acquire_claim c q st =
    (let normalized = normalized_paths (q_claimed_paths q);
         authority = q_workspace_authority_id q
     in case replay_active_claims (io_replay_read (c_io c)) (fs_ledger st) (Some authority) (now_replay (c_clock c)) of
          Inl err \<Rightarrow> (st, Inl err)
        | Inr active \<Rightarrow>
           (case first_conflict normalized (filter (\<lambda>x. ac_workspace_authority_id x = authority) active) of
              Some (existing, reason) \<Rightarrow>
                refuse_conflict c q
                  [(''ttl_seconds'', JInt (q_ttl_seconds q)), (''conflict_with'', JStr (ac_claim_id existing))]
                  existing reason st
            | None \<Rightarrow>
                grant_claim c K_claim_acquired q
                  [(''ttl_seconds'', JInt (q_ttl_seconds q)), (''mode'', JStr ''exclusive_write'')] st))"

text \<open>\<^verbatim>\<open>workspace_authority_id or f"workspace:{workspace_id}"\<close>.\<close>

definition workspace_authority :: "string option \<Rightarrow> string \<Rightarrow> string" where
  "workspace_authority authority ws =
    (case authority of
       Some a \<Rightarrow> if a = '''' then ''workspace:'' @ ws else a
     | None \<Rightarrow> ''workspace:'' @ ws)"

definition acquire_workspace_claim ::
  "call \<Rightarrow> string \<Rightarrow> string option \<Rightarrow> claim_request \<Rightarrow> ClaimResult fleet_op" where
  "acquire_workspace_claim c ws authority q0 st =
    (let q = q0\<lparr>q_workspace_authority_id := workspace_authority authority ws, q_mode := exclusive_write\<rparr>;
         normalized = normalized_paths (q_claimed_paths q)
     in case replay_active_claims (io_replay_read (c_io c)) (fs_ledger st) None (now_replay (c_clock c)) of
          Inl err \<Rightarrow> (st, Inl err)
        | Inr all_active \<Rightarrow>
           (case first_conflict normalized all_active of
              Some (existing, reason) \<Rightarrow>
                refuse_conflict c q
                  [(''ttl_seconds'', JInt (q_ttl_seconds q)), (''conflict_with'', JStr (ac_claim_id existing)),
                   (''conflict_workspace'', JStr (ac_workspace_authority_id existing)),
                   (''workspace_id'', JStr ws)]
                  existing reason st
            | None \<Rightarrow>
                grant_claim c K_workspace_claim_acquired q
                  [(''ttl_seconds'', JInt (q_ttl_seconds q)), (''mode'', JStr ''exclusive_write''),
                   (''workspace_id'', JStr ws)] st))"

section \<open>Operations on an existing claim\<close>

text \<open>Replay, look the claim up, refuse with \<^verbatim>\<open>claim_not_found\<close> when it is not active.\<close>

definition with_claim ::
  "call \<Rightarrow> string \<Rightarrow> (ActiveClaim \<Rightarrow> ClaimResult fleet_op) \<Rightarrow> ClaimResult fleet_op" where
  "with_claim c cid k st =
    (case replay_active_claims (io_replay_read (c_io c)) (fs_ledger st) None (now_replay (c_clock c)) of
       Inl err \<Rightarrow> (st, Inl err)
     | Inr active \<Rightarrow>
        (case next_or_none (\<lambda>x. ac_claim_id x = cid) active of
           None \<Rightarrow> (st, Inr (refused ''claim_not_found''))
         | Some existing \<Rightarrow> k existing st))"

text \<open>The claim as returned after an event on it.\<close>

definition returned_claim :: "ActiveClaim \<Rightarrow> ClaimState \<Rightarrow> FleetClaimEvent \<Rightarrow> ActiveClaim" where
  "returned_claim existing s e =
    existing\<lparr>ac_state := s, ac_last_event_id := ev_event_id e, ac_last_event_kind := ev_event_kind e,
             ac_reason_code := None\<rparr>"

definition renew_claim :: "call \<Rightarrow> string \<Rightarrow> int \<Rightarrow> ClaimResult fleet_op" where
  "renew_claim c cid ttl =
    with_claim c cid (\<lambda>existing.
      append_then c ((event_on c K_claim_renewed existing)\<lparr>ev_details := [(''ttl_seconds'', JInt ttl)]\<rparr>)
        (\<lambda>e st.
          case add_seconds (AwareDT (now_result (c_clock c))) ttl of
            Inl err \<Rightarrow> (st, Inl err)
          | Inr x \<Rightarrow>
              (st, Inr (claim_result True
                 (Some ((returned_claim existing claimed e)\<lparr>ac_expires_at := isoformat x\<rparr>)) e))))"

definition state_name :: "ClaimState \<Rightarrow> string" where
  "state_name s =
    (case s of claimed \<Rightarrow> ''claimed'' | editing \<Rightarrow> ''editing'' | tests_running \<Rightarrow> ''tests_running''
     | ready_for_integration \<Rightarrow> ''ready_for_integration'' | blocked \<Rightarrow> ''blocked''
     | released \<Rightarrow> ''released'' | parked \<Rightarrow> ''parked'')"

definition start_editing :: "call \<Rightarrow> string \<Rightarrow> ClaimResult fleet_op" where
  "start_editing c cid =
    with_claim c cid (\<lambda>existing st.
      if ac_state existing \<noteq> claimed
      then (st, Inr (refused (''invalid_state: expected claimed, got '' @ state_name (ac_state existing))))
      else append_then c (event_on c K_edit_started existing)
        (\<lambda>e st. (st, Inr (claim_result True (Some (returned_claim existing editing e)) e))) st)"

definition record_tests_completed :: "call \<Rightarrow> string \<Rightarrow> ClaimResult fleet_op" where
  "record_tests_completed c cid =
    with_claim c cid (\<lambda>existing.
      append_then c (event_on c K_tests_completed existing)
        (\<lambda>e st. (st, Inr (claim_result True (Some (returned_claim existing tests_running e)) e))))"

definition mark_ready_for_integration :: "call \<Rightarrow> string \<Rightarrow> path_hashes \<Rightarrow> ClaimResult fleet_op" where
  "mark_ready_for_integration c cid lane_output =
    with_claim c cid (\<lambda>existing.
      append_then c
        ((event_on c K_ready_for_integration existing)\<lparr>ev_lane_output_sha256_by_path := Some lane_output\<rparr>)
        (\<lambda>e st. (st, Inr (claim_result True
           (Some ((returned_claim existing ready_for_integration e)
              \<lparr>ac_lane_output_sha256_by_path := Some lane_output\<rparr>)) e))))"

text \<open>The first path whose base hash is not the current one.\<close>

definition stale_path :: "path_hashes \<Rightarrow> path_hashes \<Rightarrow> (string \<times> string \<times> string option) option" where
  "stale_path base current =
    first_some (\<lambda>(path, acq_hash).
      let current_hash = dict_get current path in
      if current_hash \<noteq> Some acq_hash then Some (path, acq_hash, current_hash) else None) base"

definition accept_integration :: "call \<Rightarrow> string \<Rightarrow> path_hashes \<Rightarrow> ClaimResult fleet_op" where
  "accept_integration c cid current =
    with_claim c cid (\<lambda>existing.
      case stale_path (ac_base_sha256_by_path existing) current of
        Some (path, expected, actual) \<Rightarrow>
          append_then c
            ((event_on c K_integration_refused_stale_base existing)
               \<lparr>ev_lane_output_sha256_by_path := ac_lane_output_sha256_by_path existing,
                ev_reason_code := Some ''stale_base'',
                ev_details := [(''stale_path'', JStr path), (''expected'', JStr expected),
                               (''actual'', jopt JStr actual)]\<rparr>)
            (\<lambda>e st. (st, Inr ((claim_result False None e)\<lparr>cr_refusal_reason := Some ''stale_base''\<rparr>)))
      | None \<Rightarrow>
          append_then c
            ((event_on c K_integration_accepted existing)
               \<lparr>ev_lane_output_sha256_by_path := ac_lane_output_sha256_by_path existing\<rparr>)
            (\<lambda>e st. (st, Inr (claim_result True None e))))"

text \<open>The three operations that end a claim and remove its pointer file.\<close>

definition end_with ::
  "call \<Rightarrow> string \<Rightarrow> claim_event_kind \<Rightarrow> string \<Rightarrow> (string, json) dict \<Rightarrow> ClaimResult fleet_op" where
  "end_with c cid kind reason details =
    with_claim c cid (\<lambda>existing.
      append_then c
        ((event_on c kind existing)
           \<lparr>ev_lane_output_sha256_by_path := ac_lane_output_sha256_by_path existing,
            ev_reason_code := Some reason, ev_details := details\<rparr>)
        (\<lambda>e st. (if io_pointer_ok (c_io c) then unlink_pointer cid st else st,
                 Inr (claim_result True None e))))"

definition release_claim :: "call \<Rightarrow> string \<Rightarrow> ClaimResult fleet_op" where
  "release_claim c cid = end_with c cid K_claim_released ''explicit_release'' []"

definition park_work :: "call \<Rightarrow> string \<Rightarrow> string \<Rightarrow> ClaimResult fleet_op" where
  "park_work c cid reason = end_with c cid K_work_parked ''work_parked'' [(''reason'', JStr reason)]"

definition release_workspace_claim :: "call \<Rightarrow> string \<Rightarrow> ClaimResult fleet_op" where
  "release_workspace_claim c cid = end_with c cid K_workspace_claim_released ''explicit_release'' []"

section \<open>Queries\<close>

text \<open>A query reads the ledger once, with a fate of its own and at a time.\<close>

type_synonym ledger_read = "nat option \<times> int"

definition get_active_claims :: "string option \<Rightarrow> ledger_read \<Rightarrow> FleetClaimStore \<Rightarrow> ActiveClaim list result" where
  "get_active_claims authority read st = replay_active_claims (fst read) (fs_ledger st) authority (snd read)"

definition get_workspace_claims :: "string \<Rightarrow> ledger_read \<Rightarrow> FleetClaimStore \<Rightarrow> ActiveClaim list result" where
  "get_workspace_claims ws read st = replay_active_claims (fst read) (fs_ledger st) (Some (''workspace:'' @ ws)) (snd read)"

definition get_claim_conflicts ::
  "string list \<Rightarrow> string \<Rightarrow> ledger_read \<Rightarrow> FleetClaimStore \<Rightarrow> ActiveClaim list result" where
  "get_claim_conflicts paths authority read st =
    and_then (replay_active_claims (fst read) (fs_ledger st) (Some authority) (snd read)) (\<lambda>active.
      Inr (filter (\<lambda>c. paths_conflict (normalized_paths paths) (ac_claimed_paths c) \<noteq> None) active))"

definition is_workspace_boundary_claimed ::
  "string \<Rightarrow> string \<Rightarrow> ledger_read \<Rightarrow> FleetClaimStore \<Rightarrow> (bool \<times> string) result" where
  "is_workspace_boundary_claimed ws boundary read st =
    and_then (replay_active_claims (fst read) (fs_ledger st) None (snd read)) (\<lambda>active.
      Inr (case next_or_none (\<lambda>c. ac_workspace_authority_id c \<noteq> ''workspace:'' @ ws \<and>
                  (\<exists>p \<in> set (ac_claimed_paths c). str_contains p boundary)) active of
             Some c \<Rightarrow> (True, ac_claim_id c)
           | None \<Rightarrow> (False, '''')))"

definition INTEGRATION_PATH_PREFIXES :: "string list" where
  "INTEGRATION_PATH_PREFIXES = [''docs/schemas/'', ''etc/'', ''rig_relay/desktop/'']"

definition list_integration_boundary_claims :: "ledger_read \<Rightarrow> FleetClaimStore \<Rightarrow> ActiveClaim list result" where
  "list_integration_boundary_claims read st =
    and_then (replay_active_claims (fst read) (fs_ledger st) None (snd read)) (\<lambda>active.
      Inr (filter (\<lambda>c. \<exists>p \<in> set (ac_claimed_paths c).
                     \<exists>x \<in> set INTEGRATION_PATH_PREFIXES. startswith p x) active))"

definition detect_integration_conflict ::
  "string \<Rightarrow> string list \<Rightarrow> ledger_read \<Rightarrow> FleetClaimStore \<Rightarrow> (bool \<times> string \<times> string list) result" where
  "detect_integration_conflict ws paths read st =
    and_then (replay_active_claims (fst read) (fs_ledger st) None (snd read)) (\<lambda>active.
      Inr (case next_or_none (\<lambda>c. ac_workspace_authority_id c \<noteq> ''workspace:'' @ ws \<and>
                  paths_conflict (normalized_paths paths) (ac_claimed_paths c) \<noteq> None) active of
             Some c \<Rightarrow> (True, ac_workspace_authority_id c, ac_claimed_paths c)
           | None \<Rightarrow> (False, '''', [])))"

section \<open>All the operations that change the store\<close>

datatype fleet_command =
    AcquireClaim claim_request
  | AcquireWorkspaceClaim string "string option" claim_request
  | RenewClaim string int
  | StartEditing string
  | RecordTestsCompleted string
  | MarkReadyForIntegration string path_hashes
  | AcceptIntegration string path_hashes
  | ReleaseClaim string
  | ParkWork string string
  | ReleaseWorkspaceClaim string

fun exec :: "call \<Rightarrow> fleet_command \<Rightarrow> ClaimResult fleet_op" where
  "exec c (AcquireClaim q) = acquire_claim c q"
| "exec c (AcquireWorkspaceClaim ws a q) = acquire_workspace_claim c ws a q"
| "exec c (RenewClaim cid ttl) = renew_claim c cid ttl"
| "exec c (StartEditing cid) = start_editing c cid"
| "exec c (RecordTestsCompleted cid) = record_tests_completed c cid"
| "exec c (MarkReadyForIntegration cid h) = mark_ready_for_integration c cid h"
| "exec c (AcceptIntegration cid h) = accept_integration c cid h"
| "exec c (ReleaseClaim cid) = release_claim c cid"
| "exec c (ParkWork cid r) = park_work c cid r"
| "exec c (ReleaseWorkspaceClaim cid) = release_workspace_claim c cid"

end
