(* ===== verification/Fleet_Replay.thy ===== *)
theory Fleet_Replay
  imports Fleet_Claims
begin

text \<open>
  Facts about the replay of the fleet claim ledger: well-formedness of the replayed
  dictionary (as a projected log), what one event does to it, and the relation between
  the view of one workspace authority and the view of the whole ledger.
\<close>

section \<open>Well-formed replays\<close>

definition replay_wf :: "replay_state \<Rightarrow> bool" where
  "replay_wf s \<longleftrightarrow> wf_dict (claims_by_id s) \<and>
     (\<forall>k c. dict_get (claims_by_id s) k = Some c \<longrightarrow> ac_claim_id c = k)"

fun wf_result :: "replay_state result \<Rightarrow> bool" where
  "wf_result (Inl e) = True"
| "wf_result (Inr s) = replay_wf s"

lemma touch_claim_simps [simp]:
  "ac_claim_id (touch_claim e s c) = ac_claim_id c"
  "ac_workspace_authority_id (touch_claim e s c) = ac_workspace_authority_id c"
  "ac_claimed_paths (touch_claim e s c) = ac_claimed_paths c"
  "ac_expires_at (touch_claim e s c) = ac_expires_at c"
  "ac_state (touch_claim e s c) = s"
  by (simp_all add: touch_claim_def)

text \<open>What one event does to the dictionary, by kind.\<close>

datatype claim_change = Put ActiveClaim | Drop | Keep

definition same_holding :: "ActiveClaim \<Rightarrow> ActiveClaim \<Rightarrow> bool" where
  "same_holding c c' \<longleftrightarrow> ac_claim_id c' = ac_claim_id c \<and>
     ac_workspace_authority_id c' = ac_workspace_authority_id c \<and> ac_claimed_paths c' = ac_claimed_paths c"

fun change_dict :: "claim_change \<Rightarrow> string \<Rightarrow> (string, ActiveClaim) dict \<Rightarrow> (string, ActiveClaim) dict" where
  "change_dict (Put c) k d = dict_set k c d"
| "change_dict Drop k d = dict_pop k d"
| "change_dict Keep k d = d"

definition granting :: "FleetClaimEvent \<Rightarrow> bool" where
  "granting e \<longleftrightarrow> ev_event_kind e \<in> {K_claim_acquired, K_workspace_claim_acquired}"

definition skipped :: "string option \<Rightarrow> FleetClaimEvent \<Rightarrow> bool" where
  "skipped v e \<longleftrightarrow> ev_claim_id e = '''' \<or> v \<noteq> None \<and> Some (ev_workspace_authority_id e) \<noteq> v"

lemma event_to_active_claim_simps:
  assumes "event_to_active_claim e = Inr c"
  shows "ac_claim_id c = ev_claim_id e" "ac_workspace_authority_id c = ev_workspace_authority_id e"
    "ac_claimed_paths c = ev_claimed_paths e" "ac_state c = claimed"
  using assms by (auto simp: event_to_active_claim_def and_then_Inr_iff)

lemma renew_in_replay_holding: "renew_in_replay e c = Inr c' \<Longrightarrow> same_holding c c'"
  by (auto simp: renew_in_replay_def same_holding_def split: sum.splits if_splits)

definition ending :: "claim_event_kind list" where
  "ending = [K_integration_accepted, K_claim_refused_conflict, K_claim_released,
     K_work_parked, K_workspace_claim_released]"

definition following :: "claim_event_kind list" where
  "following = [K_claim_renewed, K_edit_started, K_tests_completed, K_ready_for_integration,
     K_integration_refused_stale_base]"

lemma event_kind_cases:
  obtains "granting e" | "\<not> granting e" "ev_event_kind e \<in> set ending"
  | "\<not> granting e" "ev_event_kind e \<in> set following" | "\<not> granting e" "ev_event_kind e = K_claim_requested"
  by (cases "ev_event_kind e") (auto simp: granting_def ending_def following_def)

lemma apply_skipped: "skipped v e \<Longrightarrow> apply_event v s e = Inr s"
  by (cases v) (auto simp: apply_event_def skipped_def Let_def)

lemma apply_granting:
  assumes "granting e" and "\<not> skipped v e"
  shows "apply_event v s e = and_then (event_to_active_claim e)
    (\<lambda>c. Inr (s\<lparr>claims_by_id := dict_set (ev_claim_id e) c (claims_by_id s)\<rparr>))"
  using assms by (cases v) (auto simp: apply_event_def skipped_def granting_def Let_def)

lemma apply_ending:
  assumes "ev_event_kind e \<in> set ending" and "\<not> skipped v e"
  shows "apply_event v s e = Inr (end_claim s (ev_claim_id e))"
  using assms by (cases v) (auto simp: apply_event_def skipped_def ending_def TERMINAL_KINDS_def Let_def)

lemma apply_following:
  assumes "ev_event_kind e \<in> set following" and "\<not> skipped v e"
  obtains f where "\<And>s. apply_event v s e = update_claim s (ev_claim_id e) f"
    and "\<And>c c'. f c = Inr c' \<Longrightarrow> same_holding c c'"
proof -
  define f where "f = (\<lambda>c. case ev_event_kind e of
      K_claim_renewed \<Rightarrow> renew_in_replay e c
    | K_edit_started \<Rightarrow> Inr (touch_claim e editing c)
    | K_tests_completed \<Rightarrow> Inr (touch_claim e tests_running c)
    | K_ready_for_integration \<Rightarrow> Inr ((touch_claim e ready_for_integration c)\<lparr>ac_lane_output_sha256_by_path :=
        output_or (ev_lane_output_sha256_by_path e) (ac_lane_output_sha256_by_path c)\<rparr>)
    | _ \<Rightarrow> Inr ((touch_claim e blocked c)\<lparr>ac_reason_code := ev_reason_code e\<rparr>))"
  have "apply_event v s e = update_claim s (ev_claim_id e) f" for s
    using assms by (cases v) (auto simp: apply_event_def skipped_def following_def Let_def f_def)
  moreover have "same_holding c c'" if "f c = Inr c'" for c c'
    using that assms(1)
    by (auto simp: f_def following_def renew_in_replay_holding) (auto simp: same_holding_def)
  ultimately show thesis using that by blast
qed

lemma apply_requested: "ev_event_kind e = K_claim_requested \<Longrightarrow> apply_event v s e = Inr s"
  by (cases v) (auto simp: apply_event_def Let_def)

text \<open>
  One event changes at most the entry of its own claim: it puts the claim it grants,
  replaces a present claim by one with the same holding, drops the claim, or does
  nothing.
\<close>

definition allowed_change :: "replay_state \<Rightarrow> FleetClaimEvent \<Rightarrow> claim_change \<Rightarrow> bool" where
  "allowed_change s e ch \<longleftrightarrow>
    (case ch of
       Put c \<Rightarrow> granting e \<and> event_to_active_claim e = Inr c \<or>
                \<not> granting e \<and> (\<exists>c0. dict_get (claims_by_id s) (ev_claim_id e) = Some c0 \<and> same_holding c0 c)
     | Drop \<Rightarrow> \<not> granting e
     | Keep \<Rightarrow> \<not> granting e)"

text \<open>Two states with the same entry for the event's claim are changed alike.\<close>

lemma apply_event_alike:
  assumes "apply_event v s e = Inr s'" and "\<not> skipped v e"
    and "dict_get (claims_by_id r) (ev_claim_id e) = dict_get (claims_by_id s) (ev_claim_id e)"
  obtains r' ch where "apply_event v r e = Inr r'" and "allowed_change s e ch"
    and "claims_by_id r' = change_dict ch (ev_claim_id e) (claims_by_id r)"
    and "claims_by_id s' = change_dict ch (ev_claim_id e) (claims_by_id s)"
proof (rule event_kind_cases [of e])
  assume g: "granting e"
  with assms obtain c where "event_to_active_claim e = Inr c"
      "claims_by_id s' = dict_set (ev_claim_id e) c (claims_by_id s)"
    by (auto simp: apply_granting and_then_Inr_iff)
  with g assms(2) show thesis
    using that [of _ "Put c"] by (simp add: apply_granting allowed_change_def)
next
  assume "\<not> granting e" "ev_event_kind e \<in> set ending"
  with assms show thesis
    using that [of _ Drop] by (auto simp: apply_ending end_claim_def allowed_change_def)
next
  assume ng: "\<not> granting e" and k: "ev_event_kind e \<in> set following"
  obtain f where f: "\<And>s. apply_event v s e = update_claim s (ev_claim_id e) f"
      "\<And>c c'. f c = Inr c' \<Longrightarrow> same_holding c c'"
    using k assms(2) by (rule apply_following) blast
  show thesis
  proof (cases "dict_get (claims_by_id s) (ev_claim_id e)")
    case None
    then have "s' = s" and "apply_event v r e = Inr r"
      using f(1) [of s] f(1) [of r] assms(1,3) by (simp_all add: update_claim_def)
    with ng show thesis by (intro that [of r Keep]) (simp_all add: allowed_change_def)
  next
    case (Some c)
    then obtain c' where c': "f c = Inr c'" "claims_by_id s' = dict_set (ev_claim_id e) c' (claims_by_id s)"
      using assms(1) [unfolded f(1)] by (auto simp: update_claim_def and_then_Inr_iff)
    have "apply_event v r e = Inr (r\<lparr>claims_by_id := dict_set (ev_claim_id e) c' (claims_by_id r)\<rparr>)"
      using f(1) [of r] Some c'(1) assms(3) by (simp add: update_claim_def)
    then show thesis
      using c' f(2) [OF c'(1)] Some ng
      by (intro that [of "r\<lparr>claims_by_id := dict_set (ev_claim_id e) c' (claims_by_id r)\<rparr>" "Put c'"])
        (simp_all add: allowed_change_def)
  qed
next
  assume "\<not> granting e" "ev_event_kind e = K_claim_requested"
  with assms show thesis using that [of r Keep] by (simp add: apply_requested allowed_change_def)
qed

lemma apply_event_change:
  assumes "apply_event v s e = Inr s'" and "\<not> skipped v e"
  obtains ch where "claims_by_id s' = change_dict ch (ev_claim_id e) (claims_by_id s)"
    and "allowed_change s e ch"
  using apply_event_alike [OF assms refl] that by metis

lemma change_dict_get [dict_simps]:
  "dict_get (change_dict ch k d) k' =
    (if k' = k then (case ch of Put c \<Rightarrow> Some c | Drop \<Rightarrow> None | Keep \<Rightarrow> dict_get d k) else dict_get d k')"
  by (cases ch) (simp_all add: dict_simps)

lemma change_dict_wf: "wf_dict d \<Longrightarrow> wf_dict (change_dict ch k d)"
  by (cases ch) simp_all

lemma apply_event_wf:
  assumes "replay_wf s" and "apply_event v s e = Inr s'"
  shows "replay_wf s'"
proof (cases "skipped v e")
  case False
  with assms(2) obtain ch where ch: "claims_by_id s' = change_dict ch (ev_claim_id e) (claims_by_id s)"
      "allowed_change s e ch" by (rule apply_event_change)
  then have "ac_claim_id c = k" if "dict_get (claims_by_id s') k = Some c" for k c
    using that assms(1) event_to_active_claim_simps(1) [of e]
    by (auto simp: dict_simps replay_wf_def allowed_change_def same_holding_def
        split: if_splits claim_change.splits)
  with ch(1) assms(1) show ?thesis by (simp add: replay_wf_def change_dict_wf)
qed (use assms in \<open>simp add: apply_skipped\<close>)

lemma replay_wf_init: "replay_wf replay_init"
  by (simp add: replay_wf_def replay_init_def)

interpretation replayed: projected_log "replay_step v" "Inr replay_init" wf_result for v
proof unfold_locales
  show "wf_result (Inr replay_init)" by (simp add: replay_wf_init)
next
  fix r e assume "wf_result r"
  then show "wf_result (replay_step v r e)"
    by (cases r; cases "replay_step v r e") (auto simp: replay_step_def intro: apply_event_wf)
qed

lemma replay_ledger_wf: "replay_ledger v led = Inr s \<Longrightarrow> replay_wf s"
  using replayed.inv_replay [of v "entries led"] by (simp add: replay_ledger_def)

lemma replay_ledger_snoc:
  "replay_ledger v (led @ [Entry e]) = and_then (replay_ledger v led) (\<lambda>s. apply_event v s e)"
  unfolding replay_ledger_def entries_append entries_simps replayed.replay_snoc
  by (simp add: replay_step_def)

lemma replay_ledger_Nil [simp]: "replay_ledger v [] = Inr replay_init"
  by (simp add: replay_ledger_def)

text \<open>Only the entries of a ledger matter to its replay.\<close>

lemma entries_map_Entry [simp]: "entries (map Entry es) = es"
  by (induction es) auto

lemma replay_ledger_entries: "replay_ledger v led = replay_ledger v (map Entry (entries led))"
  by (simp add: replay_ledger_def)

section \<open>Claims and their events\<close>

text \<open>Every replayed claim has an event in the ledger with its id and authority.\<close>

lemma replayed_claim_event:
  assumes "replay_ledger v led = Inr s" and "dict_get (claims_by_id s) k = Some c"
  shows "\<exists>e \<in> set (entries led). ev_claim_id e = k \<and>
    ev_workspace_authority_id e = ac_workspace_authority_id c \<and> \<not> skipped v e"
proof -
  have "replay_ledger v (map Entry es) = Inr s \<Longrightarrow> dict_get (claims_by_id s) k = Some c \<Longrightarrow>
    \<exists>e \<in> set es. ev_claim_id e = k \<and> ev_workspace_authority_id e = ac_workspace_authority_id c \<and> \<not> skipped v e" for es
  proof (induction es arbitrary: s c rule: rev_induct)
    case Nil
    then show ?case by (auto simp: replay_init_def)
  next
    case (snoc e es)
    from snoc.prems(1) obtain s0 where s0: "replay_ledger v (map Entry es) = Inr s0" "apply_event v s0 e = Inr s"
      by (auto simp: replay_ledger_snoc and_then_Inr_iff)
    show ?case
    proof (cases "skipped v e")
      case True
      with s0 snoc.prems(2) snoc.IH [OF s0(1)] show ?thesis by (auto simp: apply_skipped)
    next
      case False
      with s0(2) obtain ch where "claims_by_id s = change_dict ch (ev_claim_id e) (claims_by_id s0)"
          "allowed_change s0 e ch" by (rule apply_event_change)
      with snoc.prems(2) snoc.IH [OF s0(1)] event_to_active_claim_simps(2) [of e] False show ?thesis
        by (fastforce simp: dict_simps allowed_change_def same_holding_def
            split: if_splits claim_change.splits)
    qed
  qed
  from this [of "entries led"] assms show ?thesis by (simp add: replay_ledger_entries [symmetric])
qed

section \<open>The view of one authority\<close>

text \<open>A claim never changes its workspace authority along the ledger.\<close>

definition coherent :: "claim_ledger \<Rightarrow> bool" where
  "coherent led \<longleftrightarrow> (\<forall>d \<in> set (entries led). \<forall>e \<in> set (entries led).
     ev_claim_id d = ev_claim_id e \<longrightarrow> ev_workspace_authority_id d = ev_workspace_authority_id e)"

lemma coherentD:
  "coherent led \<Longrightarrow> d \<in> set (entries led) \<Longrightarrow> e \<in> set (entries led) \<Longrightarrow> ev_claim_id d = ev_claim_id e \<Longrightarrow>
   ev_workspace_authority_id d = ev_workspace_authority_id e"
  unfolding coherent_def by blast

definition owned :: "string \<Rightarrow> (string, ActiveClaim) dict \<Rightarrow> (string, ActiveClaim) dict" where
  "owned a d = filter (\<lambda>(k, c). ac_workspace_authority_id c = a) d"

text \<open>Changing the entry of a claim of authority \<open>b\<close> changes the view of \<open>b\<close> in the same way, and no other.\<close>

lemma owned_set:
  assumes "wf_dict d" and "\<And>c0. dict_get d k = Some c0 \<Longrightarrow> ac_workspace_authority_id c0 = ac_workspace_authority_id c"
  shows "owned a (dict_set k c d) = (if ac_workspace_authority_id c = a then dict_set k c (owned a d) else owned a d)"
  using assms
proof (induction d)
  case (Cons x d)
  obtain j c0 where x: "x = (j, c0)" by fastforce
  show ?case
  proof (cases "j = k")
    case True
    have "ac_workspace_authority_id c0 = ac_workspace_authority_id c"
      using Cons.prems(2) [of c0] x True by (simp add: dict_get_def)
    then show ?thesis using x True by (simp add: owned_def dict_set_def)
  next
    case False
    have "owned a (dict_set k c d) = (if ac_workspace_authority_id c = a then dict_set k c (owned a d) else owned a d)"
      using Cons False x by (auto simp: wf_dict_def dict_get_def)
    then show ?thesis using x False by (auto simp: owned_def dict_set_def)
  qed
qed (simp add: owned_def dict_set_def)

lemma owned_pop: "owned a (dict_pop k d) = dict_pop k (owned a d)"
  by (simp add: owned_def dict_pop_def AList.delete_eq conj_commute)

lemma owned_pop_other:
  assumes "wf_dict d" and "\<And>c0. dict_get d k = Some c0 \<Longrightarrow> ac_workspace_authority_id c0 \<noteq> a"
  shows "dict_pop k (owned a d) = owned a d"
proof -
  have "x \<noteq> k" if "(x, c) \<in> set (owned a d)" for x c
    using that assms dict_item_get [OF assms(1), of x c] by (auto simp: owned_def)
  then show ?thesis by (auto simp: dict_pop_def AList.delete_eq filter_id_conv)
qed

lemma owned_change:
  assumes "replay_wf s" and "allowed_change s e ch" and "\<not> granting e \<or> ev_claim_id e \<noteq> ''''"
    and auth: "\<And>c. dict_get (claims_by_id s) (ev_claim_id e) = Some c \<Longrightarrow>
      ac_workspace_authority_id c = ev_workspace_authority_id e"
  shows "owned a (change_dict ch (ev_claim_id e) (claims_by_id s)) =
    (if ev_workspace_authority_id e = a then change_dict ch (ev_claim_id e) (owned a (claims_by_id s))
     else owned a (claims_by_id s))"
proof (cases ch)
  case (Put c)
  have "ac_workspace_authority_id c = ev_workspace_authority_id e"
    using assms(2) Put auth event_to_active_claim_simps(2) [of e c]
    by (auto simp: allowed_change_def same_holding_def)
  with Put auth assms(1) show ?thesis by (simp add: owned_set replay_wf_def)
next
  case Drop
  with auth assms(1) owned_pop_other [of "claims_by_id s" "ev_claim_id e" a] show ?thesis
    by (auto simp: owned_pop replay_wf_def)
qed simp

lemma apply_event_own_view:
  assumes "\<not> skipped None e"
  shows "apply_event (Some a) s e = (if ev_workspace_authority_id e = a then apply_event None s e else Inr s)"
  using assms by (auto simp: apply_event_def skipped_def Let_def)

text \<open>
  The replay restricted to an authority is the full replay with the other authorities'
  claims filtered out.
\<close>

lemma owned_get: "wf_dict d \<Longrightarrow> dict_get d k = Some c \<Longrightarrow> ac_workspace_authority_id c = a \<Longrightarrow> dict_get (owned a d) k = Some c"
  "wf_dict d \<Longrightarrow> dict_get d k = None \<Longrightarrow> dict_get (owned a d) k = None"
proof -
  have wf: "wf_dict (owned a d)" if "wf_dict d"
    using that by (auto simp: wf_dict_def owned_def intro: distinct_map_filter)
  show "wf_dict d \<Longrightarrow> dict_get d k = Some c \<Longrightarrow> ac_workspace_authority_id c = a \<Longrightarrow> dict_get (owned a d) k = Some c"
    using wf by (auto simp: dict_item_get [symmetric] owned_def)
  show "wf_dict d \<Longrightarrow> dict_get d k = None \<Longrightarrow> dict_get (owned a d) k = None"
    by (force simp: dict_get_def map_of_eq_None_iff owned_def)
qed

lemma coherent_claim_authority:
  assumes "coherent (map Entry (es @ [e]))" and "replay_ledger None (map Entry es) = Inr s"
    and "dict_get (claims_by_id s) (ev_claim_id e) = Some c"
  shows "ac_workspace_authority_id c = ev_workspace_authority_id e"
  using replayed_claim_event [OF assms(2,3)] coherentD [OF assms(1), of _ e] by fastforce

lemma coherent_subset: "coherent led' \<Longrightarrow> set (entries led) \<subseteq> set (entries led') \<Longrightarrow> coherent led"
  unfolding coherent_def by blast

lemma owned_step:
  assumes wf: "replay_wf s0" and step: "apply_event None s0 e = Inr s"
    and r: "claims_by_id r = owned a (claims_by_id s0)"
    and auth: "\<And>c. dict_get (claims_by_id s0) (ev_claim_id e) = Some c \<Longrightarrow>
      ac_workspace_authority_id c = ev_workspace_authority_id e"
  shows "\<exists>r'. apply_event (Some a) r e = Inr r' \<and> claims_by_id r' = owned a (claims_by_id s)"
proof (cases "skipped None e")
  case True
  then have "skipped (Some a) e" by (auto simp: skipped_def)
  with True step r show ?thesis by (simp add: apply_skipped)
next
  case False
  then have ne: "ev_claim_id e \<noteq> ''''" by (simp add: skipped_def)
  show ?thesis
  proof (cases "ev_workspace_authority_id e = a")
    case True
    have "dict_get (claims_by_id r) (ev_claim_id e) = dict_get (claims_by_id s0) (ev_claim_id e)"
      using wf auth True r
      by (cases "dict_get (claims_by_id s0) (ev_claim_id e)") (auto simp: replay_wf_def owned_get)
    with step False obtain r' ch where "apply_event None r e = Inr r'" "allowed_change s0 e ch"
        "claims_by_id r' = change_dict ch (ev_claim_id e) (claims_by_id r)"
        "claims_by_id s = change_dict ch (ev_claim_id e) (claims_by_id s0)"
      by (rule apply_event_alike)
    with r True False ne auth wf show ?thesis
      by (simp add: apply_event_own_view owned_change)
  next
    case other: False
    from step False obtain ch where "claims_by_id s = change_dict ch (ev_claim_id e) (claims_by_id s0)"
      "allowed_change s0 e ch" by (rule apply_event_change)
    with r other False ne auth wf show ?thesis
      by (simp add: apply_event_own_view owned_change)
  qed
qed

lemma owned_replay:
  assumes "coherent led" and "replay_ledger None led = Inr s"
  shows "\<exists>s'. replay_ledger (Some a) led = Inr s' \<and> claims_by_id s' = owned a (claims_by_id s)"
proof -
  have "coherent (map Entry es) \<Longrightarrow> replay_ledger None (map Entry es) = Inr s \<Longrightarrow>
    \<exists>s'. replay_ledger (Some a) (map Entry es) = Inr s' \<and> claims_by_id s' = owned a (claims_by_id s)" for es
  proof (induction es arbitrary: s rule: rev_induct)
    case Nil
    then show ?case by (auto simp: replay_init_def owned_def)
  next
    case (snoc e es)
    from snoc.prems(2) obtain s0 where s0: "replay_ledger None (map Entry es) = Inr s0" "apply_event None s0 e = Inr s"
      by (auto simp: replay_ledger_snoc and_then_Inr_iff)
    have "coherent (map Entry es)"
      by (rule coherent_subset [OF snoc.prems(1)]) auto
    from snoc.IH [OF this s0(1)] obtain r where
      r: "replay_ledger (Some a) (map Entry es) = Inr r" "claims_by_id r = owned a (claims_by_id s0)" by blast
    from owned_step [OF replay_ledger_wf [OF s0(1)] s0(2) r(2) coherent_claim_authority [OF snoc.prems(1) s0(1)]] r(1)
    show ?case by (simp add: replay_ledger_snoc)
  qed
  moreover have "coherent (map Entry (entries led))"
    by (rule coherent_subset [OF assms(1)]) simp
  ultimately show ?thesis using assms(2) by (metis replay_ledger_entries)
qed

text \<open>The same for the active claims.\<close>

lemma active_owned:
  assumes "coherent led" and "active_claims led None t = Inr cs"
  shows "active_claims led (Some a) t = Inr (filter (\<lambda>c. ac_workspace_authority_id c = a) cs)"
proof -
  obtain s where s: "replay_ledger None led = Inr s" "cs = filter (unexpired t) (dict_values (claims_by_id s))"
    using assms(2) by (auto simp: replay_active_claims_def and_then_Inr_iff)
  obtain s' where "replay_ledger (Some a) led = Inr s'" "claims_by_id s' = owned a (claims_by_id s)"
    using owned_replay [OF assms(1) s(1)] by blast
  moreover have "dict_values (owned a d) = filter (\<lambda>c. ac_workspace_authority_id c = a) (dict_values d)" for d
    by (simp add: dict_values_def owned_def filter_map comp_def split_def)
  ultimately show ?thesis
    using s(2) by (simp add: replay_active_claims_def filter_filter conj_commute)
qed

end
