(* ===== verification/Fleet_Safety.thy ===== *)
theory Fleet_Safety
  imports Fleet_Replay
begin

text \<open>
  Safety of the fleet claim store: every operation appends at most one event, and an
  event of one of three kinds (a grant that was checked, a refusal, an event on an active
  claim); from this, exclusion of conflicting claims, the hash chain and the sequence
  numbers of the ledger, and the agreement of what a caller is told with what the
  ledger says.
\<close>

section \<open>What an operation appends\<close>

definition legit :: "call \<Rightarrow> claim_ledger \<Rightarrow> FleetClaimEvent \<Rightarrow> bool" where
  "legit c led e \<longleftrightarrow>
    granting e \<and> ev_claim_id e = c_uuid c \<and>
      (\<exists>v cs. v \<in> {None, Some (ev_workspace_authority_id e)} \<and>
         active_claims led v (now_replay (c_clock c)) = Inr cs \<and>
         (\<forall>x \<in> set cs. ac_workspace_authority_id x = ev_workspace_authority_id e \<longrightarrow>
            paths_conflict (ev_claimed_paths e) (ac_claimed_paths x) = None)) \<or>
    ev_event_kind e = K_claim_refused_conflict \<and> ev_claim_id e = c_uuid c \<or>
    \<not> granting e \<and> (\<exists>cs. active_claims led None (now_replay (c_clock c)) = Inr cs \<and>
      (\<exists>x \<in> set cs. ev_claim_id e = ac_claim_id x \<and>
         ev_workspace_authority_id e = ac_workspace_authority_id x))"

text \<open>
  The event as written by a call; a call whose replay reads the whole ledger; and a call whose
  other reads succeed too and whose write is not torn.
\<close>

abbreviation stamped :: "call \<Rightarrow> claim_ledger \<Rightarrow> FleetClaimEvent \<Rightarrow> FleetClaimEvent" where
  "stamped c \<equiv> stamp_event (c_env c) (c_io c)"

definition reads_ledger :: "call \<Rightarrow> bool" where
  "reads_ledger c \<longleftrightarrow> io_replay_read (c_io c) = None"

definition undamaging :: "call \<Rightarrow> bool" where
  "undamaging c \<longleftrightarrow> io_sequence_read (c_io c) \<and> io_digest_read (c_io c) \<and> (\<forall>w. io_append (c_io c) \<noteq> Torn w)"

definition extends :: "call \<Rightarrow> FleetClaimStore \<Rightarrow> FleetClaimStore \<Rightarrow> bool" where
  "extends c st st' \<longleftrightarrow> fs_ledger st' = fs_ledger st \<and> fs_torn st' = fs_torn st \<or>
    (\<exists>e l. legit c (fs_ledger st) e \<and> l \<in> {Entry (stamped c (fs_ledger st) e), BadJson} \<and>
       fs_ledger st' = add_line l (fs_ledger st, fs_torn st) \<and> (undamaging c \<longrightarrow> l \<noteq> BadJson \<and> \<not> fs_torn st'))"

lemma extendsI:
  "legit c (fs_ledger st) e \<Longrightarrow> l \<in> {Entry (stamped c (fs_ledger st) e), BadJson} \<Longrightarrow>
   fs_ledger st' = add_line l (fs_ledger st, fs_torn st) \<Longrightarrow> (undamaging c \<Longrightarrow> l \<noteq> BadJson \<and> \<not> fs_torn st') \<Longrightarrow>
   extends c st st'"
  unfolding extends_def by blast

lemma extends_refl: "extends c st st"
  by (simp add: extends_def)

lemma append_then_extends:
  assumes "legit c (fs_ledger st) e"
    and "\<And>e' s. fs_ledger (fst (k e' s)) = fs_ledger s \<and> fs_torn (fst (k e' s)) = fs_torn s"
  shows "extends c st (fst (append_then c e k st))"
proof (cases "schema_ok (c_env c) e")
  case True
  let ?e = "Entry (stamped c (fs_ledger st) e)"
  show ?thesis
  proof (cases "io_append (c_io c)")
    case (Torn whole)
    with True show ?thesis
      by (intro extendsI [OF assms(1), where l = "if whole then ?e else BadJson"])
        (auto simp: append_then_def append_claim_event_def write_line_def undamaging_def Let_def)
  qed (use True assms(2) in \<open>auto simp: append_then_def append_claim_event_def write_line_def Let_def extends_refl
      intro!: extendsI [OF assms(1), where l = ?e]\<close>)
qed (simp add: append_then_def append_claim_event_def write_line_def extends_refl)

lemma with_claim_extends:
  assumes "reads_ledger c"
    and "\<And>cs x. active_claims (fs_ledger st) None (now_replay (c_clock c)) = Inr cs \<Longrightarrow>
      x \<in> set cs \<Longrightarrow> extends c st (fst (k x st))"
  shows "extends c st (fst (with_claim c cid k st))"
  using assms extends_refl
  by (auto simp: with_claim_def reads_ledger_def split: sum.splits option.splits dest!: next_or_none_Some)

lemma event_on_simps [simp]:
  "ev_claim_id (event_on c k x) = ac_claim_id x"
  "ev_workspace_authority_id (event_on c k x) = ac_workspace_authority_id x"
  "ev_event_kind (event_on c k x) = k"
  "ev_timestamp (event_on c k x) = Aware (now_event (c_clock c))"
  "ev_base_sha256_by_path (event_on c k x) = ac_base_sha256_by_path x"
  by (simp_all add: event_on_def blank_event_def)

lemma event_of_request_simps [simp]:
  "ev_claim_id (event_of_request c k q) = c_uuid c"
  "ev_workspace_authority_id (event_of_request c k q) = q_workspace_authority_id q"
  "ev_event_kind (event_of_request c k q) = k"
  "ev_claimed_paths (event_of_request c k q) = normalized_paths (q_claimed_paths q)"
  "ev_timestamp (event_of_request c k q) = Aware (now_event (c_clock c))"
  "ev_mission_id (event_of_request c k q) = q_mission_id q"
  "ev_lane_id (event_of_request c k q) = q_lane_id q"
  "ev_agent_id (event_of_request c k q) = q_agent_id q"
  "ev_base_sha256_by_path (event_of_request c k q) = q_base_sha256_by_path q"
  "ev_lane_output_sha256_by_path (event_of_request c k q) = None"
  "ev_reason_code (event_of_request c k q) = None"
  by (simp_all add: event_of_request_def blank_event_def)

lemma legit_event_on:
  assumes "active_claims led None (now_replay (c_clock c)) = Inr cs" and "x \<in> set cs"
    and "\<not> granting e" and "ev_claim_id e = ac_claim_id x"
    and "ev_workspace_authority_id e = ac_workspace_authority_id x"
  shows "legit c led e"
  using assms by (auto simp: legit_def)

lemma pointer_ledger [simp]:
  "fs_ledger (write_pointer_artifact a i st) = fs_ledger st" "fs_ledger (unlink_pointer cid st) = fs_ledger st"
  "fs_torn (write_pointer_artifact a i st) = fs_torn st" "fs_torn (unlink_pointer cid st) = fs_torn st"
  by (simp_all add: write_pointer_artifact_def unlink_pointer_def)

lemma first_conflict_None:
  "first_conflict ps cs = None \<longleftrightarrow> (\<forall>x \<in> set cs. paths_conflict ps (ac_claimed_paths x) = None)"
  by (simp add: first_conflict_def first_some_None)

lemma grant_claim_extends:
  assumes "v \<in> {None, Some (q_workspace_authority_id q)}" and "k \<in> {K_claim_acquired, K_workspace_claim_acquired}"
    and "active_claims (fs_ledger st) v (now_replay (c_clock c)) = Inr cs"
    and "\<forall>x \<in> set cs. ac_workspace_authority_id x = q_workspace_authority_id q \<longrightarrow>
      paths_conflict (normalized_paths (q_claimed_paths q)) (ac_claimed_paths x) = None"
  shows "extends c st (fst (grant_claim c k q d st))"
  unfolding grant_claim_def
proof (rule append_then_extends)
  show "legit c (fs_ledger st) (event_of_request c k q\<lparr>ev_details := d\<rparr>)"
    using assms unfolding legit_def granting_def by auto
qed (auto simp: Let_def split: sum.splits)

lemma refuse_conflict_extends: "extends c st (fst (refuse_conflict c q d x r st))"
  unfolding refuse_conflict_def
  by (rule append_then_extends) (auto simp: legit_def)

lemma acquire_claim_extends: "reads_ledger c \<Longrightarrow> extends c st (fst (acquire_claim c q st))"
  using extends_refl
  by (auto simp: acquire_claim_def reads_ledger_def Let_def first_conflict_None refuse_conflict_extends
      intro!: grant_claim_extends [of "Some (q_workspace_authority_id q)"] split: sum.splits option.splits)

lemma acquire_workspace_claim_extends: "reads_ledger c \<Longrightarrow> extends c st (fst (acquire_workspace_claim c ws a q st))"
  using extends_refl
  by (auto simp: acquire_workspace_claim_def reads_ledger_def Let_def first_conflict_None refuse_conflict_extends
      intro!: grant_claim_extends [of None] split: sum.splits option.splits)

text \<open>Every command that reads the ledger appends at most one event, and a legitimate one.\<close>

lemma exec_extends: "reads_ledger c \<Longrightarrow> extends c st (fst (exec c cmd st))"
proof (cases cmd)
  case (AcquireClaim q)
  then show "reads_ledger c \<Longrightarrow> ?thesis" by (simp add: acquire_claim_extends)
next
  case (AcquireWorkspaceClaim ws a q)
  then show "reads_ledger c \<Longrightarrow> ?thesis" by (simp add: acquire_workspace_claim_extends)
qed (auto simp: renew_claim_def start_editing_def record_tests_completed_def
    mark_ready_for_integration_def accept_integration_def release_claim_def park_work_def
    release_workspace_claim_def end_with_def granting_def extends_refl
    intro!: with_claim_extends append_then_extends legit_event_on
    split: sum.splits option.splits if_splits)

section \<open>Runs of the store\<close>

text \<open>
  Calls follow each other on a clock that does not go back; each has a uuid that no
  event of the ledger uses yet, and its replay reads the ledger to the end.  Its other reads may
  fail, and its write may be torn.
\<close>

definition fresh_uuid :: "call \<Rightarrow> FleetClaimStore \<Rightarrow> bool" where
  "fresh_uuid c st \<longleftrightarrow> c_uuid c \<noteq> '''' \<and> (\<forall>e \<in> set (entries (fs_ledger st)). ev_claim_id e \<noteq> c_uuid c)"

definition clock_ok :: "int \<Rightarrow> call \<Rightarrow> bool" where
  "clock_ok t c \<longleftrightarrow> t \<le> now_replay (c_clock c) \<and> now_replay (c_clock c) \<le> now_event (c_clock c) \<and>
     now_event (c_clock c) \<le> now_result (c_clock c)"

definition empty_store :: FleetClaimStore where
  "empty_store = \<lparr>fs_ledger = [], fs_torn = False, fs_pointers = (\<lambda>_. None)\<rparr>"

inductive fleet_reachable :: "FleetClaimStore \<Rightarrow> int \<Rightarrow> bool" where
  start: "fleet_reachable empty_store t"
| call: "fleet_reachable st t \<Longrightarrow> clock_ok t c \<Longrightarrow> fresh_uuid c st \<Longrightarrow> reads_ledger c \<Longrightarrow>
    fleet_reachable (fst (exec c cmd st)) (now_result (c_clock c))"

lemma stamp_event_simps [simp]:
  "ev_claim_id (stamp_event env io led e) = ev_claim_id e"
  "ev_workspace_authority_id (stamp_event env io led e) = ev_workspace_authority_id e"
  "ev_event_kind (stamp_event env io led e) = ev_event_kind e"
  "ev_claimed_paths (stamp_event env io led e) = ev_claimed_paths e"
  "ev_timestamp (stamp_event env io led e) = ev_timestamp e"
  "ev_details (stamp_event env io led e) = ev_details e"
  "ev_event_sequence (stamp_event env io led e) = next_sequence io led"
  "ev_prior_event_digest (stamp_event env io led e) = last_event_digest io led"
  "ev_mission_id (stamp_event env io led e) = ev_mission_id e"
  "ev_lane_id (stamp_event env io led e) = ev_lane_id e"
  "ev_agent_id (stamp_event env io led e) = ev_agent_id e"
  "ev_base_sha256_by_path (stamp_event env io led e) = ev_base_sha256_by_path e"
  "ev_lane_output_sha256_by_path (stamp_event env io led e) = ev_lane_output_sha256_by_path e"
  "ev_reason_code (stamp_event env io led e) = ev_reason_code e"
  "granting (stamp_event env io led e) = granting e"
  by (simp_all add: stamp_event_def Let_def granting_def)

text \<open>
  Invariants of the ledger are shown on legitimate appends and on lines that are no JSON.  When
  the last line is torn, the next append turns it into such a line, so the ledger before it has
  the invariant too.
\<close>

lemma fleet_reachable_file:
  assumes "fleet_reachable st t" and init: "\<And>t. P t []"
    and later: "\<And>led t t'. P t led \<Longrightarrow> t \<le> t' \<Longrightarrow> P t' led"
    and junk: "\<And>led t. P t led \<Longrightarrow> P t (led @ [BadJson])"
    and grow: "\<And>c led e. P (now_replay (c_clock c)) led \<Longrightarrow> legit c led e \<Longrightarrow>
      c_uuid c \<noteq> '''' \<Longrightarrow> (\<forall>d \<in> set (entries led). ev_claim_id d \<noteq> c_uuid c) \<Longrightarrow>
      P (now_replay (c_clock c)) (led @ [Entry (stamped c led e)])"
  shows "holds_of_file (P t) (fs_ledger st, fs_torn st)"
  using assms(1)
proof (induction rule: fleet_reachable.induct)
  case (start t)
  show ?case by (simp add: init empty_store_def holds_of_file_def)
next
  case (call st t c cmd)
  let ?t = "now_replay (c_clock c)" and ?st = "fst (exec c cmd st)"
  have later': "t \<le> ?t" "?t \<le> now_result (c_clock c)" using call(2) by (auto simp: clock_ok_def)
  have old: "P ?t (fs_ledger st)" "fs_torn st \<Longrightarrow> P ?t (butlast (fs_ledger st))"
    using call.IH later later'(1) by (auto simp: holds_of_file_def)
  have "holds_of_file (P ?t) (fs_ledger ?st, fs_torn ?st)"
    using exec_extends [OF call(4), of st cmd] unfolding extends_def
  proof (elim disjE exE conjE)
    assume "fs_ledger ?st = fs_ledger st" "fs_torn ?st = fs_torn st"
    with old show ?thesis by (simp add: holds_of_file_def)
  next
    fix e l
    assume e: "legit c (fs_ledger st) e" "l \<in> {Entry (stamped c (fs_ledger st) e), BadJson}"
      "fs_ledger ?st = add_line l (fs_ledger st, fs_torn st)"
    have "P ?t (fs_ledger st @ [l])" if "\<not> fs_torn st"
      using e(2) grow [OF old(1) e(1)] junk [OF old(1)] call(3) by (auto simp: fresh_uuid_def)
    with e(3) old junk show ?thesis by (auto simp: holds_of_file_def add_line_def)
  qed
  with later later'(2) show ?case by (auto simp: holds_of_file_def)
qed

lemma fleet_reachable_ledger:
  assumes "fleet_reachable st t" and "\<And>t. P [] t"
    and "\<And>led t t'. P led t \<Longrightarrow> t \<le> t' \<Longrightarrow> P led t'"
    and "\<And>led t. P led t \<Longrightarrow> P (led @ [BadJson]) t"
    and "\<And>c led e. P led (now_replay (c_clock c)) \<Longrightarrow> legit c led e \<Longrightarrow>
      c_uuid c \<noteq> '''' \<Longrightarrow> (\<forall>d \<in> set (entries led). ev_claim_id d \<noteq> c_uuid c) \<Longrightarrow>
      P (led @ [Entry (stamped c led e)]) (now_replay (c_clock c))"
  shows "P (fs_ledger st) t"
proof -
  have "holds_of_file (\<lambda>led. P led t) (fs_ledger st, fs_torn st)"
    by (rule fleet_reachable_file [where P = "\<lambda>t led. P led t", OF assms(1)]) (fact assms)+
  then show ?thesis by (simp add: holds_of_file_def)
qed

lemma replay_ledger_junk [simp]: "replay_ledger v (led @ [BadJson]) = replay_ledger v led"
  by (simp add: replay_ledger_def)

lemma coherent_junk [simp]: "coherent (led @ [BadJson]) = coherent led"
  by (simp add: coherent_def)

lemma active_claims_junk [simp]: "active_claims (led @ [BadJson]) v t = active_claims led v t"
  by (simp add: replay_active_claims_def)

section \<open>Coherence\<close>
section \<open>Coherence\<close>

lemma replayed_active_get:
  assumes "active_claims led v t = Inr cs" and "x \<in> set cs"
  obtains s where "replay_ledger v led = Inr s" and "dict_get (claims_by_id s) (ac_claim_id x) = Some x"
    and "unexpired t x"
proof -
  from assms obtain s where s: "replay_ledger v led = Inr s" "x \<in> set (dict_values (claims_by_id s))" "unexpired t x"
    by (auto simp: replay_active_claims_def and_then_Inr_iff)
  moreover have "dict_get (claims_by_id s) (ac_claim_id x) = Some x"
    using s(2) replay_ledger_wf [OF s(1)] by (auto simp: replay_wf_def set_dict_values)
  ultimately show thesis using that by blast
qed

lemma active_claim_event:
  assumes "active_claims led v t = Inr cs" and "x \<in> set cs"
  shows "\<exists>e \<in> set (entries led). ev_claim_id e = ac_claim_id x \<and>
    ev_workspace_authority_id e = ac_workspace_authority_id x"
  using replayed_active_get [OF assms] replayed_claim_event by metis

lemma coherent_snoc:
  assumes "coherent led" and "\<And>d. d \<in> set (entries led) \<Longrightarrow> ev_claim_id d = ev_claim_id e \<Longrightarrow>
    ev_workspace_authority_id d = ev_workspace_authority_id e"
  shows "coherent (led @ [Entry e])"
  unfolding coherent_def
proof (intro ballI impI)
  fix d f
  assume "d \<in> set (entries (led @ [Entry e]))" "f \<in> set (entries (led @ [Entry e]))" "ev_claim_id d = ev_claim_id f"
  then consider "d \<in> set (entries led)" "f \<in> set (entries led)" | "d = e" "f \<in> set (entries led)"
    | "d \<in> set (entries led)" "f = e" | "d = e" "f = e" by auto
  then show "ev_workspace_authority_id d = ev_workspace_authority_id f"
    using assms(2) [of d] assms(2) [of f] coherentD [OF assms(1), of d f] \<open>ev_claim_id d = ev_claim_id f\<close>
    by cases simp_all
qed

lemma legit_coherent:
  assumes "coherent led" and "legit c led e" and "\<forall>d \<in> set (entries led). ev_claim_id d \<noteq> c_uuid c"
  shows "coherent (led @ [Entry (stamped c led e)])"
proof (rule coherent_snoc [OF assms(1)], simp)
  fix d assume d: "d \<in> set (entries led)" "ev_claim_id d = ev_claim_id e"
  from d assms(2,3) obtain cs x where x: "active_claims led None (now_replay (c_clock c)) = Inr cs"
      "x \<in> set cs" "ev_claim_id e = ac_claim_id x" "ev_workspace_authority_id e = ac_workspace_authority_id x"
    by (auto simp: legit_def)
  obtain f where "f \<in> set (entries led)" "ev_claim_id f = ac_claim_id x"
      "ev_workspace_authority_id f = ac_workspace_authority_id x"
    using active_claim_event [OF x(1,2)] by blast
  with d x coherentD [OF assms(1) d(1), of f] show "ev_workspace_authority_id d = ev_workspace_authority_id e"
    by simp
qed

lemma reachable_coherent: "fleet_reachable st t \<Longrightarrow> coherent (fs_ledger st)"
  by (rule fleet_reachable_ledger [where P = "\<lambda>led t. coherent led"])
    (auto intro: legit_coherent simp: coherent_def [of "[]"])

section \<open>Exclusion\<close>

type_synonym claim_holding = "string \<times> string \<times> string list"

definition holding :: "ActiveClaim \<Rightarrow> claim_holding" where
  "holding x = (ac_claim_id x, ac_workspace_authority_id x, ac_claimed_paths x)"

text \<open>What the authorities' views show as held at a time.\<close>

definition live_holdings :: "claim_ledger \<Rightarrow> int \<Rightarrow> claim_holding set" where
  "live_holdings led t =
    {h. \<exists>a cs x. active_claims led (Some a) t = Inr cs \<and> x \<in> set cs \<and> h = holding x}"

fun clashing :: "claim_holding \<Rightarrow> claim_holding \<Rightarrow> bool" where
  "clashing (i, a, ps) (j, b, qs) \<longleftrightarrow> a = b \<and> paths_conflict ps qs \<noteq> None"

lemma active_later:
  assumes "active_claims led v t' = Inr cs'" and "t \<le> t'"
  obtains cs where "active_claims led v t = Inr cs" and "set cs' \<subseteq> set cs"
proof -
  from assms(1) obtain s where s: "replay_ledger v led = Inr s" "cs' = filter (unexpired t') (dict_values (claims_by_id s))"
    by (auto simp: replay_active_claims_def and_then_Inr_iff)
  have "unexpired t x" if "unexpired t' x" for x
    using that assms(2) stamp_not_expired_earlier unfolding unexpired_def by blast
  with s that [of "filter (unexpired t) (dict_values (claims_by_id s))"] show thesis
    by (auto simp: replay_active_claims_def)
qed

interpretation claims: exclusive_registry live_holdings clashing
proof unfold_locales
  fix x y assume "clashing x y"
  then show "clashing y x" by (cases x; cases y) (auto simp: paths_conflict_sym)
next
  fix t t' :: int and led assume le: "t \<le> t'"
  show "live_holdings led t' \<subseteq> live_holdings led t"
  proof
    fix h assume "h \<in> live_holdings led t'"
    then obtain a cs' x where h: "active_claims led (Some a) t' = Inr cs'" "x \<in> set cs'" "h = holding x"
      by (auto simp: live_holdings_def)
    from h(1) le obtain cs where "active_claims led (Some a) t = Inr cs" "set cs' \<subseteq> set cs"
      by (rule active_later)
    with h(2,3) show "h \<in> live_holdings led t" by (auto simp: live_holdings_def)
  qed
qed

lemma view_authority:
  assumes "active_claims led (Some a) t = Inr cs" and "x \<in> set cs"
  shows "ac_workspace_authority_id x = a"
proof -
  obtain s where "replay_ledger (Some a) led = Inr s" "dict_get (claims_by_id s) (ac_claim_id x) = Some x"
    using assms by (rule replayed_active_get)
  from replayed_claim_event [OF this] show ?thesis by (auto simp: skipped_def)
qed

lemma live_in_any_view:
  assumes "coherent led" and "active_claims led v t = Inr cs" and "x \<in> set cs"
  shows "holding x \<in> live_holdings led t"
proof (cases v)
  case None
  with active_owned [OF assms(1), of t cs "ac_workspace_authority_id x"] assms(2,3) show ?thesis
    by (force simp: live_holdings_def)
next
  case (Some a)
  with assms(2,3) show ?thesis by (auto simp: live_holdings_def)
qed

text \<open>A claim an event continues is one that was active when the event was made.\<close>

lemma legit_continues:
  assumes "coherent led" and "legit c led e" and "\<not> granting e"
    and "\<forall>d \<in> set (entries led). ev_claim_id d \<noteq> c_uuid c"
    and "replay_ledger (Some (ev_workspace_authority_id e)) led = Inr s"
    and "dict_get (claims_by_id s) (ev_claim_id e) = Some c0"
  shows "holding c0 \<in> live_holdings led (now_replay (c_clock c))"
proof -
  let ?a = "ev_workspace_authority_id e" and ?t = "now_replay (c_clock c)"
  have "ev_claim_id e \<noteq> c_uuid c"
    using replayed_claim_event [OF assms(5,6)] assms(4) by auto
  with assms(2,3) obtain cs y where y: "active_claims led None ?t = Inr cs" "y \<in> set cs"
      "ev_claim_id e = ac_claim_id y" "?a = ac_workspace_authority_id y"
    by (auto simp: legit_def)
  then have view: "active_claims led (Some ?a) ?t = Inr (filter (\<lambda>x. ac_workspace_authority_id x = ?a) cs)"
    and "y \<in> set (filter (\<lambda>x. ac_workspace_authority_id x = ?a) cs)"
    using active_owned [OF assms(1) y(1)] by auto
  then obtain s' where "replay_ledger (Some ?a) led = Inr s'" "dict_get (claims_by_id s') (ac_claim_id y) = Some y"
    by (rule replayed_active_get)
  with assms(5,6) y(3) have "c0 = y" by simp
  with y live_in_any_view [OF assms(1) y(1)] show ?thesis by simp
qed

text \<open>The entry of the event's own claim after the event: granted by it, or held before it.\<close>

lemma changed_entry:
  fixes c e led defines "t \<equiv> now_replay (c_clock c)" and "e' \<equiv> stamped c led e"
  assumes "coherent led" and "legit c led e" and "\<forall>d \<in> set (entries led). ev_claim_id d \<noteq> c_uuid c"
    and s: "replay_ledger (Some (ev_workspace_authority_id e)) led = Inr s" and ch: "allowed_change s e' ch"
    and x: "dict_get (change_dict ch (ev_claim_id e) (claims_by_id s)) (ev_claim_id e) = Some x"
    and old: "dict_get (claims_by_id s) (ev_claim_id e) = Some x \<Longrightarrow> holding x \<in> live_holdings led t"
  shows "holding x \<in> live_holdings led t \<or>
    granting e \<and> holding x = (ev_claim_id e, ev_workspace_authority_id e, ev_claimed_paths e)"
proof (cases ch)
  case (Put z)
  with x ch consider "granting e" "event_to_active_claim e' = Inr x"
    | c0 where "\<not> granting e" "dict_get (claims_by_id s) (ev_claim_id e) = Some c0" "same_holding c0 x"
    by (auto simp: allowed_change_def e'_def dict_simps)
  then show ?thesis
  proof cases
    case 1
    with event_to_active_claim_simps [OF 1(2)] show ?thesis by (simp add: holding_def e'_def)
  next
    case (2 c0)
    then have "holding c0 \<in> live_holdings led t"
      using legit_continues [OF assms(3,4) 2(1) assms(5) _ 2(2)] s by (simp add: t_def)
    with 2(3) show ?thesis by (simp add: holding_def same_holding_def)
  qed
qed (use x old in \<open>simp_all add: dict_simps\<close>)

lemma live_snoc:
  assumes "coherent led" and "legit c led e" and "\<forall>d \<in> set (entries led). ev_claim_id d \<noteq> c_uuid c"
    and h: "h \<in> live_holdings (led @ [Entry (stamped c led e)]) (now_replay (c_clock c))"
  shows "h \<in> live_holdings led (now_replay (c_clock c)) \<or>
    granting e \<and> h = (ev_claim_id e, ev_workspace_authority_id e, ev_claimed_paths e)"
proof -
  let ?t = "now_replay (c_clock c)" and ?e = "stamped c led e"
  obtain a cs x where x: "active_claims (led @ [Entry ?e]) (Some a) ?t = Inr cs" "x \<in> set cs" "h = holding x"
    using h by (auto simp: live_holdings_def)
  then obtain s' where s': "replay_ledger (Some a) (led @ [Entry ?e]) = Inr s'"
      "dict_get (claims_by_id s') (ac_claim_id x) = Some x" "unexpired ?t x"
    by (metis replayed_active_get)
  then obtain s where s: "replay_ledger (Some a) led = Inr s" "apply_event (Some a) s ?e = Inr s'"
    by (auto simp: replay_ledger_snoc and_then_Inr_iff)
  have old: "h \<in> live_holdings led ?t" if "dict_get (claims_by_id s) (ac_claim_id x) = Some x"
    using that s(1) s'(3) x(3) dict_get_in_values [OF that]
    by (auto simp: live_holdings_def replay_active_claims_def intro!: exI [of _ a])
  show ?thesis
  proof (cases "skipped (Some a) ?e")
    case True
    with s(2) s'(2) old show ?thesis by (simp add: apply_skipped)
  next
    case False
    then have a: "a = ev_workspace_authority_id e" by (simp add: skipped_def)
    from s(2) False obtain ch where ch: "claims_by_id s' = change_dict ch (ev_claim_id ?e) (claims_by_id s)"
      "allowed_change s ?e ch" by (rule apply_event_change)
    show ?thesis
    proof (cases "ac_claim_id x = ev_claim_id e")
      case False
      with ch(1) s'(2) old show ?thesis by (simp add: dict_simps)
    next
      case True
      with changed_entry [OF assms(1-3) s(1) [unfolded a] ch(2), of x] ch(1) s'(2) old x(3) show ?thesis by simp
    qed
  qed
qed

lemma grant_free:
  assumes "coherent led" and "legit c led e" and "granting e"
    and "d \<in> live_holdings led (now_replay (c_clock c))"
  shows "\<not> clashing (ev_claim_id e, ev_workspace_authority_id e, ev_claimed_paths e) d"
proof
  let ?t = "now_replay (c_clock c)" and ?a = "ev_workspace_authority_id e"
  assume clash: "clashing (ev_claim_id e, ?a, ev_claimed_paths e) d"
  obtain a cs x where x: "active_claims led (Some a) ?t = Inr cs" "x \<in> set cs" "d = holding x"
    using assms(4) by (auto simp: live_holdings_def)
  with clash view_authority [OF x(1,2)] have a: "a = ?a" "ac_workspace_authority_id x = ?a"
    "paths_conflict (ev_claimed_paths e) (ac_claimed_paths x) \<noteq> None"
    by (auto simp: holding_def)
  from assms(2,3) obtain v vs where v: "v = None \<or> v = Some ?a" "active_claims led v ?t = Inr vs"
    "\<And>y. y \<in> set vs \<Longrightarrow> ac_workspace_authority_id y = ?a \<Longrightarrow>
      paths_conflict (ev_claimed_paths e) (ac_claimed_paths y) = None"
    unfolding legit_def by (auto simp: granting_def)
  have "x \<in> set vs"
    using v(1,2) x(1,2) a(1) active_owned [OF assms(1), of ?t vs ?a] by auto
  with v(3) a(2,3) show False by simp
qed

definition claims_inv :: "claim_ledger \<Rightarrow> int \<Rightarrow> bool" where
  "claims_inv led t \<longleftrightarrow> coherent led \<and> claims.excl led t"

lemma legit_claims_inv:
  assumes "claims_inv led (now_replay (c_clock c))" and "legit c led e"
    and "\<forall>d \<in> set (entries led). ev_claim_id d \<noteq> c_uuid c"
  shows "claims_inv (led @ [Entry (stamped c led e)]) (now_replay (c_clock c))"
proof -
  let ?h = "(ev_claim_id e, ev_workspace_authority_id e, ev_claimed_paths e)"
  have co: "coherent led" and ex: "claims.excl led (now_replay (c_clock c))"
    using assms(1) by (auto simp: claims_inv_def)
  note snoc = live_snoc [OF co assms(2,3)]
  have "claims.excl (led @ [Entry (stamped c led e)]) (now_replay (c_clock c))"
  proof (cases "granting e")
    case True
    show ?thesis
      by (rule claims.excl_grant [OF ex, where h = ?h]) (use snoc grant_free [OF co assms(2) True] in auto)
  next
    case False
    show ?thesis by (rule claims.excl_shrink [OF ex]) (use snoc False in auto)
  qed
  with legit_coherent [OF co assms(2,3)] show ?thesis by (simp add: claims_inv_def)
qed

lemma reachable_claims_inv: "fleet_reachable st t \<Longrightarrow> claims_inv (fs_ledger st) t"
proof (rule fleet_reachable_ledger [where P = claims_inv])
  show "claims_inv [] t" for t
    by (auto simp: claims_inv_def coherent_def claims.excl_def live_holdings_def
        replay_active_claims_def replay_init_def dict_values_def)
  show "claims_inv led t \<Longrightarrow> t \<le> t' \<Longrightarrow> claims_inv led t'" for led t t'
    using claims.excl_later by (auto simp: claims_inv_def)
  show "claims_inv led t \<Longrightarrow> claims_inv (led @ [BadJson]) t" for led t
    by (simp add: claims_inv_def claims.excl_def live_holdings_def)
qed (auto intro: legit_claims_inv)

section \<open>Chain and sequence numbers\<close>

definition seal_claim_event :: "fleet_env \<Rightarrow> string option \<Rightarrow> FleetClaimEvent \<Rightarrow> FleetClaimEvent" where
  "seal_claim_event env d e =
    (let e' = e\<lparr>ev_prior_event_digest := d\<rparr> in e'\<lparr>ev_event_digest := compute_event_digest env e'\<rparr>)"

interpretation fch: hash_chain ev_event_digest ev_prior_event_digest "seal_claim_event env" for env
  by unfold_locales (simp add: seal_claim_event_def Let_def)

definition chain_inv :: "claim_ledger \<Rightarrow> bool" where
  "chain_inv led \<longleftrightarrow> led = map Entry (entries led) \<and> fch.linked None (entries led) \<and>
     seq_increasing ev_event_sequence led"

lemma last_event_digest_tip:
  assumes "led = map Entry (entries led)" and "io_digest_read io"
  shows "last_event_digest io led = fch.tip None (entries led)"
proof -
  have lines: "filter (\<lambda>l. l \<noteq> Blank) (map Entry es) = map Entry es" for es :: "FleetClaimEvent list"
    by (induction es) auto
  have "last_event_digest io (map Entry es) = fch.tip None es" for es
    unfolding last_event_digest_def lines fch.tip_eq
    using assms(2) by (cases es) (simp_all add: last_map)
  then show ?thesis by (subst assms)
qed

lemma chain_inv_append:
  assumes "chain_inv led" and "io_sequence_read io" and "io_digest_read io"
  shows "chain_inv (led @ [Entry (stamp_event env io led e)])"
proof -
  let ?e = "stamp_event env io led e"
  have plain: "led = map Entry (entries led)" using assms by (simp add: chain_inv_def)
  have "ev_prior_event_digest ?e = fch.tip None (entries led)"
    by (simp add: last_event_digest_tip [OF plain assms(3)])
  with assms(1) have "fch.linked None (entries led @ [?e])"
    by (simp add: chain_inv_def fch.linked_append)
  moreover have "seq_increasing ev_event_sequence (led @ [Entry ?e])"
    using assms by (intro seq_increasing_snoc) (simp_all add: chain_inv_def next_sequence_def)
  ultimately show ?thesis
    using plain by (auto simp: chain_inv_def)
qed

text \<open>Stores whose calls all read what they read and tore no line.\<close>

inductive fleet_undamaged :: "FleetClaimStore \<Rightarrow> int \<Rightarrow> bool" where
  start: "fleet_undamaged empty_store t"
| call: "fleet_undamaged st t \<Longrightarrow> clock_ok t c \<Longrightarrow> fresh_uuid c st \<Longrightarrow> reads_ledger c \<Longrightarrow> undamaging c \<Longrightarrow>
    fleet_undamaged (fst (exec c cmd st)) (now_result (c_clock c))"

lemma undamaged_reachable: "fleet_undamaged st t \<Longrightarrow> fleet_reachable st t"
  by (induction rule: fleet_undamaged.induct) (auto intro: fleet_reachable.intros)

lemma undamaged_chain_inv: "fleet_undamaged st t \<Longrightarrow> chain_inv (fs_ledger st) \<and> \<not> fs_torn st"
proof (induction rule: fleet_undamaged.induct)
  case (start t)
  show ?case by (simp add: empty_store_def chain_inv_def)
next
  case (call st t c cmd)
  then have "io_sequence_read (c_io c)" "io_digest_read (c_io c)" by (simp_all add: undamaging_def)
  then show ?case
    using exec_extends [OF call(4), of st cmd] call(5,6) chain_inv_append [of "fs_ledger st" "c_io c" "c_env c"]
    unfolding extends_def add_line_def by auto
qed

section \<open>Ended claims\<close>

definition ended_inv :: "claim_ledger \<Rightarrow> bool" where
  "ended_inv led \<longleftrightarrow> (\<forall>e \<in> set (entries led). \<forall>v s. ev_event_kind e \<in> set ending \<longrightarrow> \<not> skipped v e \<longrightarrow>
     replay_ledger v led = Inr s \<longrightarrow> dict_get (claims_by_id s) (ev_claim_id e) = None)"

lemma ended_junk [simp]: "ended_inv (led @ [BadJson]) = ended_inv led"
  by (simp add: ended_inv_def)

lemma legit_granting_uuid: "legit c led e \<Longrightarrow> granting e \<Longrightarrow> ev_claim_id e = c_uuid c"
  by (auto simp: legit_def granting_def)

lemma absent_stays_absent:
  assumes "apply_event v s e = Inr s'" and "dict_get (claims_by_id s) k = None"
    and "granting e \<Longrightarrow> ev_claim_id e \<noteq> k"
  shows "dict_get (claims_by_id s') k = None"
proof (cases "skipped v e")
  case False
  with assms(1) obtain ch where "claims_by_id s' = change_dict ch (ev_claim_id e) (claims_by_id s)"
    "allowed_change s e ch" by (rule apply_event_change)
  with assms(2,3) show ?thesis
    by (auto simp: dict_simps allowed_change_def split: claim_change.splits)
qed (use assms in \<open>simp add: apply_skipped\<close>)

lemma legit_ended_inv:
  assumes "ended_inv led" and "legit c led e" and fresh: "\<forall>d \<in> set (entries led). ev_claim_id d \<noteq> c_uuid c"
  shows "ended_inv (led @ [Entry (stamped c led e)])"
  unfolding ended_inv_def
proof (intro ballI allI impI)
  let ?e = "stamped c led e"
  fix d v s'
  assume d: "d \<in> set (entries (led @ [Entry ?e]))" "ev_event_kind d \<in> set ending" "\<not> skipped v d"
    and s': "replay_ledger v (led @ [Entry ?e]) = Inr s'"
  from s' obtain s where s: "replay_ledger v led = Inr s" "apply_event v s ?e = Inr s'"
    by (auto simp: replay_ledger_snoc and_then_Inr_iff)
  show "dict_get (claims_by_id s') (ev_claim_id d) = None"
  proof (cases "d = ?e")
    case True
    with d s(2) show ?thesis by (auto simp: apply_ending end_claim_def dict_simps)
  next
    case False
    with d(1) have old: "d \<in> set (entries led)" by simp
    with assms(1) d(2,3) s(1) have "dict_get (claims_by_id s) (ev_claim_id d) = None"
      by (auto simp: ended_inv_def)
    moreover have "ev_claim_id ?e \<noteq> ev_claim_id d" if "granting ?e"
      using legit_granting_uuid [OF assms(2)] that old fresh by auto
    ultimately show ?thesis using absent_stays_absent [OF s(2)] by blast
  qed
qed

lemma reachable_ended_inv: "fleet_reachable st t \<Longrightarrow> ended_inv (fs_ledger st)"
  by (rule fleet_reachable_ledger [where P = "\<lambda>led t. ended_inv led"])
    (auto intro: legit_ended_inv simp: ended_inv_def [of "[]"])

end
