(* ===== verification/Fleet_Properties.thy ===== *)
theory Fleet_Properties
  imports Fleet_Safety
begin

text \<open>
  The properties of the fleet claim store, each with a run of the store that satisfies
  its hypotheses.
\<close>

section \<open>A concrete store\<close>

definition demo_env :: fleet_env where
  "demo_env = \<lparr>schema_ok = (\<lambda>_. True), id_hash = (\<lambda>_. ''id''), sha256 = (\<lambda>e. ev_claim_id e)\<rparr>"

definition demo_call :: "int \<Rightarrow> string \<Rightarrow> call" where
  "demo_call t u =
    \<lparr>c_env = demo_env, c_io = \<lparr>io_replay_read = None, io_sequence_read = True, io_digest_read = True,
       io_append = Written, io_pointer_ok = True\<rparr>,
     c_clock = \<lparr>now_replay = t, now_event = t, now_result = t\<rparr>, c_uuid = u\<rparr>"

definition demo_claim :: "string \<Rightarrow> string \<Rightarrow> claim_request" where
  "demo_claim a p =
    \<lparr>q_mission_id = ''m'', q_lane_id = ''l'', q_agent_id = ''g'', q_mode = exclusive_write,
     q_claimed_paths = [p], q_base_sha256_by_path = [(p, ''h0'')],
     q_workspace_authority_id = a, q_ttl_seconds = 60\<rparr>"

text \<open>Two claims of one authority, and one of another.\<close>

definition demo_store1 :: FleetClaimStore where
  "demo_store1 = fst (exec (demo_call 0 ''u1'') (AcquireClaim (demo_claim ''A'' ''src'')) empty_store)"

definition demo_store2 :: FleetClaimStore where
  "demo_store2 = fst (exec (demo_call 1 ''u2'') (AcquireClaim (demo_claim ''A'' ''docs'')) demo_store1)"

lemmas fleet_evaluation =
  demo_env_def demo_call_def demo_claim_def empty_store_def
  acquire_claim_def acquire_workspace_claim_def workspace_authority_def first_conflict_def
  paths_conflict_def path_pair_conflict_def startswith_def rstrip_slash_def
  grant_claim_def refuse_conflict_def append_then_def append_claim_event_def write_line_def add_line_def
  event_of_request_def event_on_def blank_event_def stamp_event_def next_sequence_def next_seq_def
  last_event_digest_def compute_event_digest_def claim_result_def write_pointer_artifact_def
  replay_active_claims_def replay_ledger_def replay_step_def replay_init_def apply_event_def
  event_to_active_claim_def event_expiry_def event_ttl_def unexpired_def dict_values_def
  dict_set_def dict_get_def dict_pop_def seconds_def in_range_def datetime_min_def datetime_max_def
  normalized_paths_def normalize_path_def path_parts_def splitroot_def Let_def

lemma demo_active:
  "\<exists>x y. active_claims (fs_ledger demo_store2) None 2 = Inr [x, y] \<and>
     ac_claim_id x = ''u1'' \<and> ac_claim_id y = ''u2'' \<and> ac_workspace_authority_id x = ''A'' \<and>
     ac_workspace_authority_id y = ''A'' \<and> ac_claimed_paths x = [''src''] \<and> ac_claimed_paths y = [''docs'']"
  by (simp add: demo_store2_def demo_store1_def fleet_evaluation)

lemma demo_call_fates [simp]: "reads_ledger (demo_call t u)" "undamaging (demo_call t u)"
  by (simp_all add: reads_ledger_def undamaging_def demo_call_def)

lemma demo_call_undamaged:
  assumes "fleet_undamaged st t" and "t \<le> t'" and "fresh_uuid (demo_call t' u) st"
  shows "fleet_undamaged (fst (exec (demo_call t' u) cmd st)) t'"
  using fleet_undamaged.call [OF assms(1) _ assms(3), of cmd] assms(2)
  by (simp add: clock_ok_def) (simp add: demo_call_def)

lemma demo_undamaged: "fleet_undamaged demo_store1 0" "fleet_undamaged demo_store2 1"
proof -
  show 1: "fleet_undamaged demo_store1 0"
    unfolding demo_store1_def
    by (rule demo_call_undamaged [OF fleet_undamaged.start [of 0]])
      (simp_all add: fresh_uuid_def empty_store_def demo_call_def)
  show "fleet_undamaged demo_store2 1"
    unfolding demo_store2_def
    by (rule demo_call_undamaged [OF 1]) (simp_all add: demo_store1_def fleet_evaluation fresh_uuid_def)
qed

lemmas demo_reachable = demo_undamaged [THEN undamaged_reachable]

section \<open>Exclusion\<close>

text \<open>
  C1: claims exclude each other as long as the ledger can be read.  In every store that calls of
  the ten operations can produce, on a clock that does not go back, with fresh uuids and with
  every replay reading the whole ledger, and at every later time, two different active claims of
  the same workspace authority never have conflicting paths, in the view of the whole ledger as
  in the view of one authority.  Writes may fail, be recorded and then reported as failed, or be
  torn, and the reads for sequence numbers and digests may fail.  A replay that cannot read the
  ledger grants whatever is asked (\<open>unread_ledger_grants\<close>).
\<close>

theorem claims_exclusive:
  assumes "fleet_reachable st t" and "t \<le> t'" and "active_claims (fs_ledger st) v t' = Inr cs"
    and "x \<in> set cs" and "y \<in> set cs" and "ac_claim_id x \<noteq> ac_claim_id y"
    and "ac_workspace_authority_id x = ac_workspace_authority_id y"
  shows "paths_conflict (ac_claimed_paths x) (ac_claimed_paths y) = None"
proof -
  have co: "coherent (fs_ledger st)" and "claims.excl (fs_ledger st) t'"
    using reachable_claims_inv [OF assms(1)] claims.excl_later [OF _ assms(2)] by (auto simp: claims_inv_def)
  then have "\<not> clashing (holding x) (holding y)"
    using live_in_any_view [OF co assms(3)] assms(4-6) by (intro claims.exclD) (auto simp: holding_def)
  with assms(7) show ?thesis by (simp add: holding_def)
qed

theorem claims_exclusive_witness:
  "\<exists>x y. active_claims (fs_ledger demo_store2) None 2 = Inr [x, y] \<and>
     paths_conflict (ac_claimed_paths x) (ac_claimed_paths y) = None"
proof -
  obtain x y where xy: "active_claims (fs_ledger demo_store2) None 2 = Inr [x, y]"
      "ac_claim_id x \<noteq> ac_claim_id y" "ac_workspace_authority_id x = ac_workspace_authority_id y"
    using demo_active by auto
  have "paths_conflict (ac_claimed_paths x) (ac_claimed_paths y) = None"
    by (rule claims_exclusive [OF demo_reachable(2) _ xy(1)]) (use xy in auto)
  with xy(1) show ?thesis by blast
qed

lemma append_then_Inr:
  assumes "append_then c e k st = (st', Inr r)"
  shows "schema_ok (c_env c) e \<and> io_append (c_io c) = Written \<and>
    k (stamped c (fs_ledger st) e)
      (st\<lparr>fs_ledger := add_line (Entry (stamped c (fs_ledger st) e)) (fs_ledger st, fs_torn st), fs_torn := False\<rparr>) = (st', Inr r)"
  using assms
  by (auto simp: append_then_def append_claim_event_def write_line_def Let_def split: if_splits write_fate.splits)

lemma first_conflict_Some:
  assumes "first_conflict ps cs = Some (x, r)"
  shows "x \<in> set cs \<and> paths_conflict ps (ac_claimed_paths x) = Some r"
  using first_some_Some [OF assms [unfolded first_conflict_def]] by auto

lemma grant_claim_Inr:
  assumes "grant_claim c k q d st = (st', Inr r)"
  shows "cr_acquired r"
  using assms unfolding grant_claim_def
  by (auto dest!: append_then_Inr simp: Let_def claim_result_def split: sum.splits)

lemma refuse_conflict_Inr:
  assumes "refuse_conflict c q d x why st = (st', Inr r)"
  shows "\<not> cr_acquired r \<and> cr_conflict_claim_id r = Some (ac_claim_id x)"
  using assms unfolding refuse_conflict_def
  by (auto dest!: append_then_Inr simp: claim_result_def)

text \<open>
  A workspace claim is granted exactly when it is free of conflicts with every
  active claim, of whatever authority; and a refusal names an active claim that
  conflicts.
\<close>

theorem workspace_acquire_iff_free:
  assumes "acquire_workspace_claim c ws a q st = (st', Inr r)"
    and "replay_active_claims (io_replay_read (c_io c)) (fs_ledger st) None (now_replay (c_clock c)) = Inr cs"
  shows "(cr_acquired r \<longleftrightarrow> (\<forall>x \<in> set cs. paths_conflict (normalized_paths (q_claimed_paths q)) (ac_claimed_paths x) = None)) \<and>
    (cr_acquired r \<or> (\<exists>x \<in> set cs. cr_conflict_claim_id r = Some (ac_claim_id x) \<and>
       paths_conflict (normalized_paths (q_claimed_paths q)) (ac_claimed_paths x) \<noteq> None))"
proof (cases "first_conflict (normalized_paths (q_claimed_paths q)) cs")
  case None
  with assms show ?thesis
    using first_conflict_None [of _ cs] grant_claim_Inr by (auto simp: acquire_workspace_claim_def Let_def)
next
  case (Some xr)
  obtain x why where xr: "xr = (x, why)" by fastforce
  with Some first_conflict_Some have x: "x \<in> set cs"
      "paths_conflict (normalized_paths (q_claimed_paths q)) (ac_claimed_paths x) = Some why" by blast+
  from assms Some xr have "\<not> cr_acquired r \<and> cr_conflict_claim_id r = Some (ac_claim_id x)"
    by (auto simp: acquire_workspace_claim_def Let_def dest: refuse_conflict_Inr)
  with x show ?thesis by auto
qed

theorem workspace_acquire_iff_free_witness:
  "\<exists>st' r x y. acquire_workspace_claim (demo_call 2 ''u3'') ''w'' None (demo_claim '''' ''src/app'') demo_store2 = (st', Inr r) \<and>
     active_claims (fs_ledger demo_store2) None 2 = Inr [x, y] \<and> \<not> cr_acquired r \<and>
     cr_conflict_claim_id r = Some (ac_claim_id x)"
proof -
  obtain x y where xy: "active_claims (fs_ledger demo_store2) None 2 = Inr [x, y]"
      "ac_claimed_paths x = [''src'']" "ac_claimed_paths y = [''docs'']"
    using demo_active by auto
  obtain st' r where r: "acquire_workspace_claim (demo_call 2 ''u3'') ''w'' None (demo_claim '''' ''src/app'') demo_store2 = (st', Inr r)"
    by (simp add: demo_store2_def demo_store1_def fleet_evaluation)
  have now: "now_replay (c_clock (demo_call 2 ''u3'')) = 2" by (simp add: demo_call_def)
  have "normalized_paths (q_claimed_paths (demo_claim '''' ''src/app'')) = [''src/app'']"
    by (simp add: fleet_evaluation)
  then have conflicts: "paths_conflict (normalized_paths (q_claimed_paths (demo_claim '''' ''src/app''))) (ac_claimed_paths x) \<noteq> None"
    "paths_conflict (normalized_paths (q_claimed_paths (demo_claim '''' ''src/app''))) (ac_claimed_paths y) = None"
    using xy(2,3) by (simp_all add: paths_conflict_def path_pair_conflict_def startswith_def rstrip_slash_def)
  have "io_replay_read (c_io (demo_call 2 ''u3'')) = None" by (simp add: demo_call_def)
  with workspace_acquire_iff_free [OF r, unfolded now] xy(1)
  have "\<not> cr_acquired r" "cr_conflict_claim_id r = Some (ac_claim_id x)"
    using conflicts by auto
  with r xy(1) show ?thesis
    by (auto intro!: exI [of _ st'] exI [of _ r])
qed

text \<open>
  The view of one workspace authority is the part of the whole view that belongs to
  it, in the same order: nothing that another authority writes to the ledger shows in it
  or hides anything from it.
\<close>

theorem authority_view_is_filter:
  assumes "fleet_reachable st t" and "active_claims (fs_ledger st) None t' = Inr cs"
  shows "active_claims (fs_ledger st) (Some a) t' =
    Inr (filter (\<lambda>x. ac_workspace_authority_id x = a) cs)"
  using active_owned [OF reachable_coherent [OF assms(1)] assms(2)] .

theorem authority_view_is_filter_witness:
  "\<exists>x y. active_claims (fs_ledger demo_store2) (Some ''A'') 2 = Inr [x, y] \<and>
     active_claims (fs_ledger demo_store2) (Some ''B'') 2 = Inr []"
proof -
  obtain x y where xy: "active_claims (fs_ledger demo_store2) None 2 = Inr [x, y]"
      "ac_workspace_authority_id x = ''A''" "ac_workspace_authority_id y = ''A''"
    using demo_active by auto
  from authority_view_is_filter [OF demo_reachable(2) xy(1)] xy show ?thesis by auto
qed

section \<open>The ledger\<close>

text \<open>
  The ledger of every store whose calls could read it and tore no line is chained and numbered.
  Each event carries the digest of the event before it, the first carries none, and the sequence
  numbers strictly increase.
\<close>

theorem fleet_ledger_chained:
  assumes "fleet_undamaged st t"
  defines "es \<equiv> entries (fs_ledger st)"
  shows "sorted_wrt (<) (map ev_event_sequence es) \<and>
    (\<forall>i < length es. ev_prior_event_digest (es ! i) = (if i = 0 then None else Some (ev_event_digest (es ! (i - 1)))))"
proof -
  have inv: "fch.linked None es" "seq_increasing ev_event_sequence (fs_ledger st)"
    using undamaged_chain_inv [OF assms(1)] by (simp_all add: chain_inv_def es_def)
  have "ev_prior_event_digest (es ! i) = (if i = 0 then None else Some (ev_event_digest (es ! (i - 1))))"
    if "i < length es" for i
    using that inv(1) fch.linked_nth [OF inv(1), of "i - 1"] by (cases i; cases es) auto
  with inv(2) show ?thesis by (simp add: seq_increasing_def es_def sorted_wrt_map)
qed

theorem fleet_ledger_chained_witness:
  "\<exists>d e. entries (fs_ledger demo_store2) = [d, e] \<and> ev_prior_event_digest d = None \<and>
     ev_prior_event_digest e = Some (ev_event_digest d) \<and> ev_event_sequence d < ev_event_sequence e"
proof -
  obtain d e where de: "entries (fs_ledger demo_store2) = [d, e]"
    by (simp add: demo_store2_def demo_store1_def fleet_evaluation)
  from fleet_ledger_chained [OF demo_undamaged(2), unfolded de] de show ?thesis
    by (auto simp: All_less_Suc numeral_2_eq_2)
qed

section \<open>What the caller is told\<close>

lemma grant_event_claim:
  assumes "q_ttl_seconds q \<ge> 0" and "datetime_min \<le> now_event (c_clock c)"
    and "now_event (c_clock c) \<le> now_result (c_clock c)"
    and "in_range (now_result (c_clock c) + seconds (q_ttl_seconds q))"
    and "dict_get d ''ttl_seconds'' = Some (JInt (q_ttl_seconds q))"
    and "e = stamp_event env io led ((event_of_request c k q)\<lparr>ev_details := d\<rparr>)"
  shows "event_to_active_claim e = Inr
    \<lparr>ac_claim_id = c_uuid c, ac_mission_id = q_mission_id q, ac_lane_id = q_lane_id q,
     ac_agent_id = q_agent_id q, ac_mode = exclusive_write,
     ac_claimed_paths = normalized_paths (q_claimed_paths q),
     ac_workspace_authority_id = q_workspace_authority_id q,
     ac_base_sha256_by_path = q_base_sha256_by_path q, ac_lane_output_sha256_by_path = None,
     ac_acquired_at = Aware (now_event (c_clock c)),
     ac_expires_at = Aware (now_event (c_clock c) + seconds (q_ttl_seconds q)), ac_state = claimed,
     ac_last_event_id = ev_event_id e, ac_last_event_kind = k, ac_reason_code = None\<rparr>"
proof -
  have "in_range (now_event (c_clock c) + seconds (q_ttl_seconds q))"
    using assms(1-4) by (simp add: in_range_def seconds_def)
  then have "event_expiry e = Inr (Aware (now_event (c_clock c) + seconds (q_ttl_seconds q)))"
    using assms(5,6) by (simp add: event_expiry_def event_ttl_def)
  then show ?thesis
    using assms(6) by (simp add: event_to_active_claim_def)
qed

definition grant_details :: "claim_request \<Rightarrow> (string, json) dict" where
  "grant_details q = [(''ttl_seconds'', JInt (q_ttl_seconds q)), (''mode'', JStr ''exclusive_write'')]"

text \<open>What a successful \<^verbatim>\<open>acquire_claim\<close> has done.\<close>

lemma acquire_granted:
  assumes "acquire_claim c q st = (st', Inr r)" and "cr_acquired r" and "reads_ledger c" and "\<not> fs_torn st"
  defines "e \<equiv> stamped c (fs_ledger st) ((event_of_request c K_claim_acquired q)\<lparr>ev_details := grant_details q\<rparr>)"
  obtains cs x where "active_claims (fs_ledger st) (Some (q_workspace_authority_id q)) (now_replay (c_clock c)) = Inr cs"
    and "fs_ledger st' = fs_ledger st @ [Entry e]"
    and "in_range (now_result (c_clock c) + seconds (q_ttl_seconds q))" and "cr_claim r = Some x"
    and "x = \<lparr>ac_claim_id = c_uuid c, ac_mission_id = q_mission_id q, ac_lane_id = q_lane_id q,
      ac_agent_id = q_agent_id q, ac_mode = exclusive_write,
      ac_claimed_paths = normalized_paths (q_claimed_paths q),
      ac_workspace_authority_id = q_workspace_authority_id q,
      ac_base_sha256_by_path = q_base_sha256_by_path q, ac_lane_output_sha256_by_path = None,
      ac_acquired_at = Aware (now_event (c_clock c)),
      ac_expires_at = Aware (now_result (c_clock c) + seconds (q_ttl_seconds q)), ac_state = claimed,
      ac_last_event_id = ev_event_id e, ac_last_event_kind = K_claim_acquired, ac_reason_code = None\<rparr>"
proof -
  have mode: "q_mode q = exclusive_write" by (cases "q_mode q") simp
  obtain cs where cs: "active_claims (fs_ledger st) (Some (q_workspace_authority_id q)) (now_replay (c_clock c)) = Inr cs"
      "grant_claim c K_claim_acquired q (grant_details q) st = (st', Inr r)"
    using assms(1-3)
    by (auto simp: acquire_claim_def reads_ledger_def Let_def grant_details_def dest!: refuse_conflict_Inr split: sum.splits option.splits)
  from append_then_Inr [OF cs(2) [unfolded grant_claim_def]] mode assms(4) that [OF cs(1)] show thesis
    by (auto simp: e_def Let_def claim_result_def add_line_def split: if_splits)
qed

text \<open>
  What a granted claim is worth.  When \<^verbatim>\<open>acquire_claim\<close> reports a claim, having read the ledger
  and found no torn line at its end, the ledger shows
  that claim as active to its authority from then on until the event's timestamp plus
  the ttl; the expiry the caller is told is computed from a later clock reading, so the
  caller may believe to hold the claim a little longer than the ledger says.
\<close>

theorem granted_claim_recorded:
  assumes "acquire_claim c q st = (st', Inr r)" and "cr_acquired r" and "c_uuid c \<noteq> ''''"
    and "0 \<le> q_ttl_seconds q" and "datetime_min \<le> now_event (c_clock c)"
    and "now_event (c_clock c) \<le> now_result (c_clock c)"
    and "t < now_event (c_clock c) + seconds (q_ttl_seconds q)"
    and "reads_ledger c" and "\<not> fs_torn st"
  shows "\<exists>x cs. cr_claim r = Some x \<and>
    ac_expires_at x = Aware (now_result (c_clock c) + seconds (q_ttl_seconds q)) \<and>
    active_claims (fs_ledger st') (Some (q_workspace_authority_id q)) t = Inr cs \<and>
    x\<lparr>ac_expires_at := Aware (now_event (c_clock c) + seconds (q_ttl_seconds q))\<rparr> \<in> set cs"
proof -
  let ?a = "q_workspace_authority_id q" and ?x' = "\<lambda>x. x\<lparr>ac_expires_at := Aware (now_event (c_clock c) + seconds (q_ttl_seconds q))\<rparr>"
  define e where "e = stamped c (fs_ledger st) ((event_of_request c K_claim_acquired q)\<lparr>ev_details := grant_details q\<rparr>)"
  obtain cs x where x: "active_claims (fs_ledger st) (Some ?a) (now_replay (c_clock c)) = Inr cs"
      "fs_ledger st' = fs_ledger st @ [Entry e]" "in_range (now_result (c_clock c) + seconds (q_ttl_seconds q))"
      "cr_claim r = Some x"
    and x_def: "x = \<lparr>ac_claim_id = c_uuid c, ac_mission_id = q_mission_id q, ac_lane_id = q_lane_id q,
      ac_agent_id = q_agent_id q, ac_mode = exclusive_write,
      ac_claimed_paths = normalized_paths (q_claimed_paths q), ac_workspace_authority_id = ?a,
      ac_base_sha256_by_path = q_base_sha256_by_path q, ac_lane_output_sha256_by_path = None,
      ac_acquired_at = Aware (now_event (c_clock c)),
      ac_expires_at = Aware (now_result (c_clock c) + seconds (q_ttl_seconds q)), ac_state = claimed,
      ac_last_event_id = ev_event_id e, ac_last_event_kind = K_claim_acquired, ac_reason_code = None\<rparr>"
    by (rule acquire_granted [OF assms(1,2,8,9), folded e_def])
  have granted: "event_to_active_claim e = Inr (?x' x)"
    using grant_event_claim [OF assms(4-6) x(3) _ e_def] by (simp add: x_def grant_details_def dict_get_def)
  obtain s where s: "replay_ledger (Some ?a) (fs_ledger st) = Inr s"
    using x(1) by (auto simp: replay_active_claims_def and_then_Inr_iff)
  have "apply_event (Some ?a) s e = Inr (s\<lparr>claims_by_id := dict_set (c_uuid c) (?x' x) (claims_by_id s)\<rparr>)"
    using granted assms(3) by (subst apply_granting) (simp_all add: granting_def skipped_def e_def)
  then show ?thesis
    using x(2,4) x_def s assms(7) dict_get_in_values [of "dict_set (c_uuid c) (?x' x) (claims_by_id s)" "c_uuid c"]
    by (simp add: replay_active_claims_def replay_ledger_snoc dict_simps unexpired_def)
qed

theorem granted_claim_recorded_witness:
  "\<exists>st' r x cs. acquire_claim (demo_call 2 ''u3'') (demo_claim ''A'' ''etc'') demo_store2 = (st', Inr r) \<and>
     cr_claim r = Some x \<and> active_claims (fs_ledger st') (Some ''A'') 50 = Inr cs \<and>
     x\<lparr>ac_expires_at := Aware 60000002\<rparr> \<in> set cs"
proof -
  let ?c = "demo_call 2 ''u3''" and ?q = "demo_claim ''A'' ''etc''"
  obtain st' r where r: "acquire_claim ?c ?q demo_store2 = (st', Inr r)" "cr_acquired r"
    by (simp add: demo_store2_def demo_store1_def fleet_evaluation)
  have facts: "c_uuid ?c = ''u3''" "now_event (c_clock ?c) = 2" "now_result (c_clock ?c) = 2"
    "q_ttl_seconds ?q = 60" "q_workspace_authority_id ?q = ''A''" "seconds 60 = 60000000"
    by (simp_all add: demo_call_def demo_claim_def seconds_def)
  have "\<not> fs_torn demo_store2" using undamaged_chain_inv [OF demo_undamaged(2)] by simp
  with granted_claim_recorded [OF r, of 50] r(1) show ?thesis
    by (auto simp: facts datetime_min_def)
qed

section \<open>An expiry out of range\<close>

lemma replay_Inl_append: "replay_ledger v led = Inl err \<Longrightarrow> replay_ledger v (led @ rest) = Inl err"
proof -
  have "foldl (replay_step v) (Inl err) es = Inl err" for es
    by (induction es) (simp_all add: replay_step_def)
  then show "replay_ledger v led = Inl err \<Longrightarrow> ?thesis" by (simp add: replay_ledger_def)
qed

text \<open>
  A claim whose expiry is out of the range of \<^verbatim>\<open>datetime\<close> disables the store.  If the
  requested ttl takes the expiry beyond the year 9999, \<^verbatim>\<open>acquire_claim\<close> appends its event
  and only then raises \<^verbatim>\<open>OverflowError\<close>; from then on, whatever is appended later, every
  replay of the whole ledger raises it too, and so does every operation on an existing
  claim, releases included.
\<close>

theorem ttl_overflow_disables_store:
  assumes "datetime_max < now_event (c_clock c) + seconds (q_ttl_seconds q)"
    and "now_event (c_clock c) \<le> now_result (c_clock c)" and "c_uuid c \<noteq> ''''"
    and "\<And>e. schema_ok (c_env c) e" and "io_append (c_io c) = Written"
    and "active_claims (fs_ledger st) (Some (q_workspace_authority_id q)) (now_replay (c_clock c)) = Inr cs"
    and "\<And>x. x \<in> set cs \<Longrightarrow> paths_conflict (normalized_paths (q_claimed_paths q)) (ac_claimed_paths x) = None"
    and "replay_ledger None (fs_ledger st) = Inr s" and "acquire_claim c q st = (st', r)"
    and "reads_ledger c" and "\<not> fs_torn st"
  shows "r = Inl OverflowError \<and> length (fs_ledger st') = Suc (length (fs_ledger st)) \<and>
    (\<forall>rest now. active_claims (fs_ledger st' @ rest) None now = Inl OverflowError) \<and>
    (\<forall>c' cid. reads_ledger c' \<longrightarrow> release_claim c' cid st' = (st', Inl OverflowError))"
proof -
  define e where "e = stamped c (fs_ledger st) ((event_of_request c K_claim_acquired q)\<lparr>ev_details := grant_details q\<rparr>)"
  have out: "\<not> in_range (now_event (c_clock c) + seconds (q_ttl_seconds q))"
    "\<not> in_range (now_result (c_clock c) + seconds (q_ttl_seconds q))"
    using assms(1,2) by (simp_all add: in_range_def)
  have "first_conflict (normalized_paths (q_claimed_paths q))
      (filter (\<lambda>x. ac_workspace_authority_id x = q_workspace_authority_id q) cs) = None"
    using assms(7) by (simp add: first_conflict_None)
  then have st': "r = Inl OverflowError" "fs_ledger st' = fs_ledger st @ [Entry e]"
    using assms(4,5,6,9-11) out(2)
    by (auto simp: acquire_claim_def reads_ledger_def add_line_def Let_def grant_claim_def append_then_def append_claim_event_def write_line_def
        e_def grant_details_def)
  have "event_expiry e = Inl OverflowError"
    using out(1) by (simp add: event_expiry_def event_ttl_def e_def grant_details_def dict_get_def)
  then have "event_to_active_claim e = Inl OverflowError"
    by (simp add: event_to_active_claim_def)
  then have "apply_event None s e = Inl OverflowError"
    using assms(3) by (subst apply_granting) (simp_all add: granting_def skipped_def e_def)
  with assms(8) st' have "replay_ledger None (fs_ledger st') = Inl OverflowError"
    by (simp add: replay_ledger_snoc)
  with st' replay_Inl_append [OF this] show ?thesis
    by (simp add: replay_active_claims_def release_claim_def end_with_def with_claim_def reads_ledger_def)
qed

theorem ttl_overflow_disables_store_witness:
  "\<exists>st'. acquire_claim (demo_call 0 ''u1'') ((demo_claim ''A'' ''src'')\<lparr>q_ttl_seconds := 10 ^ 12\<rparr>) empty_store
       = (st', Inl OverflowError) \<and>
     release_claim (demo_call 1 ''u2'') ''u1'' st' = (st', Inl OverflowError)"
proof -
  let ?q = "(demo_claim ''A'' ''src'')\<lparr>q_ttl_seconds := 10 ^ 12\<rparr>"
  obtain st' r where st': "acquire_claim (demo_call 0 ''u1'') ?q empty_store = (st', r)" by fastforce
  have "r = Inl OverflowError \<and> length (fs_ledger st') = Suc (length (fs_ledger empty_store)) \<and>
    (\<forall>rest now. active_claims (fs_ledger st' @ rest) None now = Inl OverflowError) \<and>
    (\<forall>c' cid. reads_ledger c' \<longrightarrow> release_claim c' cid st' = (st', Inl OverflowError))"
    by (rule ttl_overflow_disables_store [OF _ _ _ _ _ _ _ _ st' demo_call_fates(1), where cs = "[]" and s = replay_init])
      (simp_all add: demo_call_def demo_env_def empty_store_def datetime_max_def seconds_def
        replay_active_claims_def replay_init_def dict_values_def)
  with st' demo_call_fates(1) [of 1 "''u2''"] show ?thesis by blast
qed

section \<open>Integration and the end of a claim\<close>

lemma stale_path_None: "stale_path base cur = None \<longleftrightarrow> (\<forall>(p, h) \<in> set base. dict_get cur p = Some h)"
  unfolding stale_path_def first_some_None Let_def by (fastforce split: if_splits)

text \<open>An operation on an active claim finds that claim.\<close>

lemma with_claim_active:
  assumes "active_claims (fs_ledger st) None (now_replay (c_clock c)) = Inr cs" and "x \<in> set cs" and "reads_ledger c"
  shows "with_claim c (ac_claim_id x) k st = k x st"
proof -
  have "next_or_none (\<lambda>y. ac_claim_id y = ac_claim_id x) cs = Some x"
  proof (cases "next_or_none (\<lambda>y. ac_claim_id y = ac_claim_id x) cs")
    case None
    with assms(2) show ?thesis by (auto simp: next_or_none_None)
  next
    case (Some y)
    then have "y \<in> set cs" "ac_claim_id y = ac_claim_id x" by (auto dest: next_or_none_Some)
    with Some replayed_active_get [OF assms(1,2)] replayed_active_get [OF assms(1), of y] show ?thesis
      by (metis sum.inject(2) option.inject)
  qed
  with assms(1,3) show ?thesis by (simp add: with_claim_def reads_ledger_def)
qed

lemma append_then_ledger:
  assumes "append_then c e k st = (st', Inr r)" and "\<not> fs_torn st" and "\<And>e s. k e s = (s, Inr (f e))"
  shows "r = f (stamped c (fs_ledger st) e) \<and> fs_ledger st' = fs_ledger st @ [Entry (stamped c (fs_ledger st) e)]"
  using append_then_Inr [OF assms(1)] assms(2,3) by (auto simp: add_line_def)

text \<open>
  Integration is accepted exactly when no file changed under the claim.  For an
  active claim, \<^verbatim>\<open>accept_integration\<close> (when it does not fail to write) accepts if and only if
  every path has its base hash in the current hashes; the claim's state is not asked, so
  a claim that never became ready for integration is accepted just as well.  A refusal
  leaves the claim active and blocked.
\<close>

theorem accept_integration_iff_base_current:
  assumes "active_claims (fs_ledger st) None (now_replay (c_clock c)) = Inr cs"
    and "x \<in> set cs" and "ac_claim_id x = cid" and "cid \<noteq> ''''"
    and "accept_integration c cid cur st = (st', Inr r)" and "reads_ledger c" and "\<not> fs_torn st"
  shows "(cr_acquired r \<longleftrightarrow> (\<forall>(p, h) \<in> set (ac_base_sha256_by_path x). dict_get cur p = Some h)) \<and>
    (\<exists>s'. replay_ledger None (fs_ledger st') = Inr s' \<and>
       map_option ac_state (dict_get (claims_by_id s') cid) = (if cr_acquired r then None else Some blocked))"
proof -
  obtain s where s: "replay_ledger None (fs_ledger st) = Inr s" "dict_get (claims_by_id s) cid = Some x"
    using replayed_active_get [OF assms(1,2)] assms(3) by metis
  note call = assms(5) [unfolded accept_integration_def assms(3) [symmetric] with_claim_active [OF assms(1,2,6)]]
  show ?thesis
  proof (cases "stale_path (ac_base_sha256_by_path x) cur")
    case None
    from append_then_ledger [OF call [unfolded None option.case] assms(7)] have "cr_acquired r"
      "\<exists>e. fs_ledger st' = fs_ledger st @ [Entry (stamped c (fs_ledger st) e)] \<and>
         ev_event_kind e = K_integration_accepted \<and> ev_claim_id e = ac_claim_id x"
      by (auto simp: claim_result_def)
    with None s assms(3,4) show ?thesis
      by (auto simp: stale_path_None replay_ledger_snoc apply_event_def end_claim_def dict_simps Let_def)
  next
    case (Some p)
    obtain path expected actual where p: "p = (path, expected, actual)" by (cases p)
    from append_then_ledger [OF call [unfolded Some p option.case prod.case] assms(7)] have r: "\<not> cr_acquired r"
      "\<exists>e. fs_ledger st' = fs_ledger st @ [Entry (stamped c (fs_ledger st) e)] \<and>
         ev_event_kind e = K_integration_refused_stale_base \<and> ev_claim_id e = ac_claim_id x"
      by (auto simp: claim_result_def)
    with Some s assms(3,4) stale_path_None [of "ac_base_sha256_by_path x" cur] show ?thesis
      by (auto simp: replay_ledger_snoc apply_event_def update_claim_def dict_simps Let_def)
  qed
qed

theorem accept_integration_iff_base_current_witness:
  "\<exists>st' r st'' r'. accept_integration (demo_call 2 ''u3'') ''u1'' [(''src'', ''h0'')] demo_store2 = (st', Inr r) \<and> cr_acquired r \<and>
     accept_integration (demo_call 2 ''u3'') ''u1'' [(''src'', ''h1'')] demo_store2 = (st'', Inr r') \<and> \<not> cr_acquired r'"
proof -
  obtain x y where x: "active_claims (fs_ledger demo_store2) None 2 = Inr [x, y]" "ac_claim_id x = ''u1''"
      "ac_base_sha256_by_path x = [(''src'', ''h0'')]"
    by (simp add: demo_store2_def demo_store1_def fleet_evaluation)
  have now: "now_replay (c_clock (demo_call 2 ''u3'')) = 2" by (simp add: demo_call_def)
  obtain st' r st'' r' where r: "accept_integration (demo_call 2 ''u3'') ''u1'' [(''src'', ''h0'')] demo_store2 = (st', Inr r)"
      "accept_integration (demo_call 2 ''u3'') ''u1'' [(''src'', ''h1'')] demo_store2 = (st'', Inr r')"
    using with_claim_active [of demo_store2 "demo_call 2 ''u3''" "[x, y]" x] x demo_call_fates(1) [of 2 "''u3''"]
    by (simp add: now accept_integration_def stale_path_def append_then_def append_claim_event_def write_line_def)
      (simp add: append_then_def append_claim_event_def write_line_def demo_call_def demo_env_def dict_get_def Let_def)
  have "\<not> fs_torn demo_store2" using undamaged_chain_inv [OF demo_undamaged(2)] by simp
  with accept_integration_iff_base_current [OF _ _ x(2) _ r(1) demo_call_fates(1), unfolded now, OF x(1)]
    accept_integration_iff_base_current [OF _ _ x(2) _ r(2) demo_call_fates(1), unfolded now, OF x(1)] r x(3)
  show ?thesis by (auto simp: dict_get_def)
qed

text \<open>
  An ended claim does not come back.  As long as the ledger of a reachable store has an
  event that ends a claim (integration accepted, released, parked, workspace claim
  released, refused), no full replay of it shows the claim, whatever operations are called
  with its id.
\<close>

theorem ended_claim_never_active:
  assumes "fleet_reachable st t" and "e \<in> set (entries (fs_ledger st))"
    and "ev_event_kind e \<in> {K_integration_accepted, K_claim_refused_conflict, K_claim_released,
      K_work_parked, K_workspace_claim_released}"
    and "v = None \<or> v = Some (ev_workspace_authority_id e)" and "ev_claim_id e \<noteq> ''''"
    and "active_claims (fs_ledger st) v t' = Inr cs"
  shows "ev_claim_id e \<notin> ac_claim_id ` set cs"
proof
  assume "ev_claim_id e \<in> ac_claim_id ` set cs"
  then obtain x where x: "x \<in> set cs" "ac_claim_id x = ev_claim_id e" by auto
  obtain s where "replay_ledger v (fs_ledger st) = Inr s" "dict_get (claims_by_id s) (ac_claim_id x) = Some x"
    using assms(6) x(1) by (rule replayed_active_get)
  moreover have "\<not> skipped v e" "ev_event_kind e \<in> set ending"
    using assms(3,4,5) by (auto simp: skipped_def ending_def)
  ultimately show False
    using reachable_ended_inv [OF assms(1)] assms(2) x(2) by (auto simp: ended_inv_def)
qed

definition demo_store3 :: FleetClaimStore where
  "demo_store3 = fst (exec (demo_call 2 ''u3'') (ReleaseClaim ''u1'') demo_store2)"

theorem ended_claim_never_active_witness:
  "\<exists>e cs. e \<in> set (entries (fs_ledger demo_store3)) \<and> ev_event_kind e = K_claim_released \<and> ev_claim_id e = ''u1'' \<and>
     active_claims (fs_ledger demo_store3) None 3 = Inr cs \<and> ''u1'' \<notin> ac_claim_id ` set cs"
proof -
  obtain x y where x: "active_claims (fs_ledger demo_store2) None 2 = Inr [x, y]" "ac_claim_id x = ''u1''"
    using demo_active by auto
  have step: "fleet_reachable demo_store3 2"
    unfolding demo_store3_def
    by (rule undamaged_reachable, rule demo_call_undamaged [OF demo_undamaged(2)])
      (simp_all add: demo_store2_def demo_store1_def fleet_evaluation fresh_uuid_def)
  have intact: "\<not> fs_torn demo_store2" using undamaged_chain_inv [OF demo_undamaged(2)] by simp
  have "\<exists>e. fs_ledger demo_store3 = fs_ledger demo_store2 @ [Entry e] \<and> ev_event_kind e = K_claim_released \<and> ev_claim_id e = ''u1''"
    using with_claim_active [of demo_store2 "demo_call 2 ''u3''" "[x, y]" x] x intact demo_call_fates(1) [of 2 "''u3''"]
    by (simp add: demo_store3_def release_claim_def end_with_def append_then_def append_claim_event_def write_line_def add_line_def)
      (simp add: append_then_def append_claim_event_def write_line_def add_line_def demo_call_def demo_env_def Let_def)
  then obtain e where e: "fs_ledger demo_store3 = fs_ledger demo_store2 @ [Entry e]" "ev_event_kind e = K_claim_released"
      "ev_claim_id e = ''u1''" by blast
  obtain s where "replay_ledger None (fs_ledger demo_store2) = Inr s"
    using x(1) by (rule replayed_active_get) auto
  with e(2,3) have "\<exists>cs. active_claims (fs_ledger demo_store3) None 3 = Inr cs"
    by (simp add: e(1) replay_active_claims_def replay_ledger_snoc apply_event_def TERMINAL_KINDS_def Let_def)
  then obtain cs where cs: "active_claims (fs_ledger demo_store3) None 3 = Inr cs" by blast
  from ended_claim_never_active [OF step _ _ _ _ cs, of e] e cs show ?thesis by auto
qed

section \<open>What a failing file system costs\<close>

text \<open>
  A ledger that cannot be read counts as empty: then every request is granted, whatever claims are
  active, and the ledger records both claims.
\<close>

theorem unread_ledger_grants:
  assumes "io_replay_read (c_io c) = Some 0" and "io_append (c_io c) = Written" and "\<And>e. schema_ok (c_env c) e"
    and "in_range (now_result (c_clock c) + seconds (q_ttl_seconds q))"
  shows "\<exists>st' r. acquire_claim c q st = (st', Inr r) \<and> cr_acquired r \<and>
    (\<not> fs_torn st \<longrightarrow> (\<exists>e. fs_ledger st' = fs_ledger st @ [Entry e] \<and> ev_claim_id e = c_uuid c))"
  using assms
  by (auto simp: acquire_claim_def replay_active_claims_def lines_read_def replay_init_def dict_values_def first_conflict_def
      grant_claim_def append_then_def append_claim_event_def write_line_def add_line_def claim_result_def Let_def)

definition unread_call :: call where
  "unread_call = (demo_call 2 ''u3'')\<lparr>c_io := (c_io (demo_call 2 ''u3''))\<lparr>io_replay_read := Some 0\<rparr>\<rparr>"

theorem unread_ledger_grants_witness:
  "\<exists>x y st' r. active_claims (fs_ledger demo_store2) None 2 = Inr [x, y] \<and> ac_claimed_paths x = [''src''] \<and>
     acquire_claim unread_call (demo_claim ''A'' ''src'') demo_store2 = (st', Inr r) \<and> cr_acquired r"
proof -
  have "\<exists>st' r. acquire_claim unread_call (demo_claim ''A'' ''src'') demo_store2 = (st', Inr r) \<and> cr_acquired r \<and>
    (\<not> fs_torn demo_store2 \<longrightarrow> (\<exists>e. fs_ledger st' = fs_ledger demo_store2 @ [Entry e] \<and> ev_claim_id e = c_uuid unread_call))"
    by (rule unread_ledger_grants)
      (simp_all add: unread_call_def demo_call_def demo_env_def demo_claim_def in_range_def datetime_min_def datetime_max_def seconds_def)
  with demo_active show ?thesis by blast
qed

text \<open>
  After a torn write the next event is lost: a claim granted by a call that finds the last line
  torn is not on the ledger, and neither is the event the torn line may have held.
\<close>

theorem torn_line_swallows_grant:
  assumes "fs_torn st" and "acquire_claim c q st = (st', Inr r)"
  shows "fs_ledger st' = butlast (fs_ledger st) @ [BadJson] \<and> \<not> fs_torn st'"
proof -
  have appended: "fs_ledger st' = butlast (fs_ledger st) @ [BadJson] \<and> \<not> fs_torn st'"
    if "append_then c e k st = (st', Inr r)" and "\<And>e s. fs_ledger (fst (k e s)) = fs_ledger s \<and> fs_torn (fst (k e s)) = fs_torn s" for e k
    using append_then_Inr [OF that(1)] that(2) [of "stamped c (fs_ledger st) e" "st\<lparr>fs_ledger := add_line (Entry (stamped c (fs_ledger st) e)) (fs_ledger st, fs_torn st), fs_torn := False\<rparr>"] assms(1)
    by (auto simp: add_line_def)
  from assms(2) show ?thesis
    by (auto simp: acquire_claim_def grant_claim_def refuse_conflict_def Let_def split: sum.splits option.splits if_splits
        elim!: appended)
qed

text \<open>The first event was torn after it was whole; the second call is told that it holds the claim.\<close>

definition torn_store :: FleetClaimStore where
  "torn_store = fst (acquire_claim ((demo_call 0 ''u1'')\<lparr>c_io := (c_io (demo_call 0 ''u1''))\<lparr>io_append := Torn True\<rparr>\<rparr>)
     (demo_claim ''A'' ''docs'') empty_store)"

theorem torn_line_swallows_grant_witness:
  "\<exists>st' r x. length (entries (fs_ledger torn_store)) = 1 \<and>
     acquire_claim (demo_call 1 ''u2'') (demo_claim ''A'' ''src'') torn_store = (st', Inr r) \<and>
     cr_acquired r \<and> entries (fs_ledger st') = []"
proof -
  have torn: "fs_torn torn_store" "length (entries (fs_ledger torn_store)) = 1" "butlast (fs_ledger torn_store) = []"
    by (simp_all add: torn_store_def fleet_evaluation)
  obtain st' r where r: "acquire_claim (demo_call 1 ''u2'') (demo_claim ''A'' ''src'') torn_store = (st', Inr r)" "cr_acquired r"
    by (simp add: torn_store_def fleet_evaluation)
  from torn_line_swallows_grant [OF torn(1) r(1)] torn r show ?thesis by auto
qed

end
