(* ===== verification/Coordination_Models.thy ===== *)
theory Coordination_Models
  imports Relay_Interfaces Path_Model
begin

text \<open>
  The models and payload builders of \<^verbatim>\<open>rig_relay/coordination/models.py\<close> that the
  coordination store uses.  Hashes are parameters (record \<open>coord_env\<close>); constant schema
  version fields and warning texts are left out.
\<close>

section \<open>Models\<close>

datatype claim_status = Cl_active | Cl_stale | Cl_released

datatype reservation_status = Rs_active | Rs_stale | Rs_released | Rs_conflicted

datatype reservation_mode = Mode_read | Mode_write

record CoordinationSession =
  se_session_id :: string
  se_task_id :: "string option"
  se_agent_profile :: "string option"
  se_status :: string
  se_created_at :: timestamp
  se_updated_at :: timestamp
  se_reserved_paths :: "string list"
  se_warnings :: "string list"
  se_state_sha256 :: "string option"

record CoordinationHeartbeat =
  hb_session_id :: string
  hb_task_id :: "string option"
  hb_status :: string
  hb_current_step :: "string option"
  hb_reserved_paths :: "string list"
  hb_last_artifact_sha256 :: "string option"
  hb_created_at :: timestamp

record CoordinationTaskClaim =
  tc_session_id :: string
  tc_task_id :: string
  tc_claim_kind :: string
  tc_ttl_seconds :: int
  tc_scope_allowed_paths :: "string list"
  tc_status :: claim_status
  tc_created_at :: timestamp
  tc_expires_at :: "timestamp option"
  tc_state_sha256 :: "string option"

record CoordinationPathReservation =
  pr_session_id :: string
  pr_task_id :: string
  pr_mode :: reservation_mode
  pr_paths :: "string list"
  pr_ttl_seconds :: int
  pr_status :: reservation_status
  pr_created_at :: timestamp
  pr_expires_at :: "timestamp option"
  pr_state_sha256 :: "string option"

record CoordinationArtifactRef =
  ar_session_id :: string
  ar_task_id :: "string option"
  ar_artifact_kind :: string
  ar_artifact_uri :: string
  ar_artifact_sha256 :: string
  ar_schema_id :: "string option"
  ar_created_at :: timestamp

record CoordinationConflict =
  cf_conflict_id :: string
  cf_kind :: string
  cf_session_id :: string
  cf_other_session_id :: "string option"
  cf_task_id :: "string option"
  cf_paths :: "string list"
  cf_recommended_resolution :: "string option"
  cf_created_at :: timestamp

record CoordinationClaimResult =
  clr_allowed :: bool
  clr_claim :: "CoordinationTaskClaim option"
  clr_conflict :: "CoordinationConflict option"

record CoordinationReservationResult =
  rr_allowed :: bool
  rr_reservation :: "CoordinationPathReservation option"
  rr_conflict :: "CoordinationConflict option"

type_synonym payload = "(string, json) dict"

record CoordinationEvent =
  ce_event_id :: string
  ce_session_id :: "string option"
  ce_task_id :: "string option"
  ce_sequence :: int
  ce_created_at :: timestamp
  ce_event_name :: string
  ce_payload :: payload
  ce_event_hash :: string

record CoordinationStateProjection =
  sp_active_sessions :: "(string, CoordinationSession) dict"
  sp_active_task_claims :: "(string, CoordinationTaskClaim) dict"
  sp_active_path_reservations :: "(string, CoordinationPathReservation) dict"
  sp_recent_artifacts :: "CoordinationArtifactRef list"
  sp_conflicts :: "CoordinationConflict list"
  sp_projection_sha256 :: "string option"

text \<open>The hashes: of a string, of a payload's canonical JSON (id and digest), of a path with
  the salt, of a task and session (Python's \<^verbatim>\<open>hash\<close>), of a projection.\<close>

record coord_env =
  path_key :: "string \<Rightarrow> string"
  payload_key :: "payload \<Rightarrow> string"
  payload_hash :: "payload \<Rightarrow> string"
  salted_path_hash :: "string \<Rightarrow> string"
  task_conflict_hash :: "string \<Rightarrow> string"
  projection_hash :: "CoordinationStateProjection \<Rightarrow> string"

definition with_hash :: "coord_env \<Rightarrow> CoordinationStateProjection \<Rightarrow> CoordinationStateProjection" where
  "with_hash env p = p\<lparr>sp_projection_sha256 := Some (projection_hash env (p\<lparr>sp_projection_sha256 := None\<rparr>))\<rparr>"

section \<open>Payload builders\<close>

abbreviation jstr_opt :: "string option \<Rightarrow> json" where
  "jstr_opt \<equiv> jopt JStr"

definition path_hashes_from_list :: "coord_env \<Rightarrow> string list \<Rightarrow> json" where
  "path_hashes_from_list env ps = JList (map JStr (sort (map (salted_path_hash env) ps)))"

definition jcount :: "'a list \<Rightarrow> json" where
  "jcount xs = JInt (int (length xs))"

definition reservation_status_name :: "reservation_status \<Rightarrow> string" where
  "reservation_status_name s =
    (case s of Rs_active \<Rightarrow> ''active'' | Rs_stale \<Rightarrow> ''stale'' | Rs_released \<Rightarrow> ''released''
             | Rs_conflicted \<Rightarrow> ''conflicted'')"

definition claim_status_name :: "claim_status \<Rightarrow> string" where
  "claim_status_name s = (case s of Cl_active \<Rightarrow> ''active'' | Cl_stale \<Rightarrow> ''stale'' | Cl_released \<Rightarrow> ''released'')"

definition mode_name :: "reservation_mode \<Rightarrow> string" where
  "mode_name m = (case m of Mode_read \<Rightarrow> ''read'' | Mode_write \<Rightarrow> ''write'')"

definition build_session_registered_payload :: "coord_env \<Rightarrow> CoordinationSession \<Rightarrow> payload" where
  "build_session_registered_payload env s =
    [(''session_id'', JStr (se_session_id s)), (''task_id'', jstr_opt (se_task_id s)),
     (''agent_profile_name'', jstr_opt (se_agent_profile s)), (''event_kind'', JStr ''session_registered''),
     (''status'', JStr (se_status s)), (''path_hashes'', path_hashes_from_list env (se_reserved_paths s)),
     (''path_count'', jcount (se_reserved_paths s)),
     (''warnings'', if se_warnings s = [] then JNull else JList (map JStr (se_warnings s)))]"

definition build_heartbeat_payload :: "coord_env \<Rightarrow> CoordinationHeartbeat \<Rightarrow> payload" where
  "build_heartbeat_payload env h =
    [(''session_id'', JStr (hb_session_id h)), (''task_id'', jstr_opt (hb_task_id h)),
     (''event_kind'', JStr ''heartbeat''), (''status'', JStr (hb_status h)),
     (''current_step'', jstr_opt (hb_current_step h)),
     (''path_hashes'', path_hashes_from_list env (hb_reserved_paths h)),
     (''path_count'', jcount (hb_reserved_paths h)),
     (''last_artifact_sha256'', jstr_opt (hb_last_artifact_sha256 h))]"

definition build_task_claim_payload :: "coord_env \<Rightarrow> CoordinationTaskClaim \<Rightarrow> payload" where
  "build_task_claim_payload env c =
    [(''session_id'', JStr (tc_session_id c)), (''task_id'', JStr (tc_task_id c)),
     (''event_kind'', JStr ''task_claimed''), (''claim_kind'', JStr (tc_claim_kind c)),
     (''status'', JStr (claim_status_name (tc_status c))), (''ttl_seconds'', JInt (tc_ttl_seconds c)),
     (''scope_path_hashes'', path_hashes_from_list env (tc_scope_allowed_paths c)),
     (''scope_path_count'', jcount (tc_scope_allowed_paths c)),
     (''expires_at'', jopt JTime (tc_expires_at c))]"

definition build_task_released_payload :: "string \<Rightarrow> string \<Rightarrow> payload" where
  "build_task_released_payload sid tid =
    [(''session_id'', JStr sid), (''task_id'', JStr tid), (''event_kind'', JStr ''task_released''),
     (''status'', JStr ''released'')]"

definition build_path_reserved_payload :: "coord_env \<Rightarrow> CoordinationPathReservation \<Rightarrow> payload" where
  "build_path_reserved_payload env r =
    [(''session_id'', JStr (pr_session_id r)), (''task_id'', JStr (pr_task_id r)),
     (''event_kind'', JStr ''path_reserved''), (''reservation_mode'', JStr (mode_name (pr_mode r))),
     (''reservation_status'', JStr (reservation_status_name (pr_status r))),
     (''path_hashes'', path_hashes_from_list env (pr_paths r)), (''path_count'', jcount (pr_paths r)),
     (''ttl_seconds'', JInt (pr_ttl_seconds r)), (''expires_at'', jopt JTime (pr_expires_at r))]"

definition build_path_released_payload :: "coord_env \<Rightarrow> string \<Rightarrow> string \<Rightarrow> string list \<Rightarrow> payload" where
  "build_path_released_payload env sid tid ps =
    [(''session_id'', JStr sid), (''task_id'', JStr tid), (''event_kind'', JStr ''path_released''),
     (''reservation_status'', JStr ''released''), (''path_hashes'', path_hashes_from_list env ps),
     (''path_count'', jcount ps)]"

definition build_reservation_refused_payload :: "coord_env \<Rightarrow> CoordinationConflict \<Rightarrow> payload" where
  "build_reservation_refused_payload env c =
    [(''session_id'', JStr (cf_session_id c)), (''task_id'', jstr_opt (cf_task_id c)),
     (''event_kind'', JStr ''reservation_refused''), (''reservation_status'', JStr ''refused''),
     (''conflict_kind'', JStr (cf_kind c)), (''conflict_id'', JStr (cf_conflict_id c)),
     (''other_session_id'', jstr_opt (cf_other_session_id c)),
     (''resolution_kind'', jstr_opt (cf_recommended_resolution c)),
     (''path_hashes'', path_hashes_from_list env (cf_paths c)), (''path_count'', jcount (cf_paths c))]"

definition build_artifact_published_payload :: "CoordinationArtifactRef \<Rightarrow> payload" where
  "build_artifact_published_payload a =
    [(''session_id'', JStr (ar_session_id a)), (''task_id'', jstr_opt (ar_task_id a)),
     (''event_kind'', JStr ''artifact_published''), (''artifact_kind'', JStr (ar_artifact_kind a)),
     (''artifact_sha256'', JStr (ar_artifact_sha256 a)), (''artifact_uri'', JStr (ar_artifact_uri a)),
     (''schema_id'', jstr_opt (ar_schema_id a))]"

definition build_conflict_reported_payload :: "coord_env \<Rightarrow> CoordinationConflict \<Rightarrow> payload" where
  "build_conflict_reported_payload env c =
    [(''conflict_id'', JStr (cf_conflict_id c)), (''session_id'', JStr (cf_session_id c)),
     (''task_id'', jstr_opt (cf_task_id c)), (''event_kind'', JStr ''conflict_reported''),
     (''conflict_kind'', JStr (cf_kind c)), (''other_session_id'', jstr_opt (cf_other_session_id c)),
     (''resolution_kind'', jstr_opt (cf_recommended_resolution c)),
     (''path_hashes'', path_hashes_from_list env (cf_paths c)), (''path_count'', jcount (cf_paths c))]"

definition build_handoff_requested_payload :: "string \<Rightarrow> string \<Rightarrow> string option \<Rightarrow> payload" where
  "build_handoff_requested_payload sid target tid =
    [(''session_id'', JStr sid), (''task_id'', jstr_opt tid), (''event_kind'', JStr ''handoff_requested''),
     (''handoff_from_session_id'', JStr sid), (''handoff_to_session_id'', JStr target),
     (''status'', JStr ''requested'')]"

definition build_task_claim_refused_payload :: "CoordinationConflict \<Rightarrow> payload" where
  "build_task_claim_refused_payload c =
    [(''session_id'', JStr (cf_session_id c)), (''task_id'', jstr_opt (cf_task_id c)),
     (''event_kind'', JStr ''task_claim_refused''), (''conflict_kind'', JStr (cf_kind c)),
     (''conflict_id'', JStr (cf_conflict_id c)), (''other_session_id'', jstr_opt (cf_other_session_id c)),
     (''resolution_kind'', jstr_opt (cf_recommended_resolution c))]"

definition build_lease_expired_payload :: "string \<Rightarrow> string \<Rightarrow> string list \<Rightarrow> payload" where
  "build_lease_expired_payload sid tid hashes =
    [(''session_id'', JStr sid), (''task_id'', JStr tid), (''event_kind'', JStr ''lease_expired''),
     (''reservation_status'', JStr ''expired''), (''path_hashes'', JList (map JStr (sort hashes))),
     (''path_count'', jcount hashes)]"

definition build_lease_marked_stale_payload :: "string \<Rightarrow> string \<Rightarrow> string \<Rightarrow> payload" where
  "build_lease_marked_stale_payload sid tid reason =
    [(''session_id'', JStr sid), (''task_id'', JStr tid), (''event_kind'', JStr ''lease_marked_stale''),
     (''reservation_status'', JStr ''stale''), (''status'', JStr reason)]"

end
