(* ===== verification/Coordination_Store.thy ===== *)
theory Coordination_Store
  imports Coordination_Models
begin

text \<open>
  The file-backed coordination store of \<^verbatim>\<open>rig_relay/coordination/store.py\<close>: sessions, task
  claims, path reservations, artifacts, conflicts and the event ledger.  A directory is
  an association list from file stems to contents, \<open>None\<close> for a file that does not
  validate; iteration is in the order of the file names.  Every operation runs under the
  store's lock, so it is one step.  Session and task ids are taken as file-name safe, and
  writes succeed.  The clock readings of a call are the fields of \<open>coord_clock\<close>.
\<close>

section \<open>State\<close>

type_synonym 'a directory = "(string, 'a option) dict"

record CoordinationStore =
  cs_sessions :: "CoordinationSession directory"
  cs_tasks :: "CoordinationTaskClaim directory"
  cs_leases :: "CoordinationPathReservation directory"
  cs_artifacts :: "CoordinationArtifactRef directory"
  cs_conflicts :: "CoordinationConflict directory"
  cs_events :: "CoordinationEvent jsonl list"

type_synonym 'a coord_op = "CoordinationStore \<Rightarrow> CoordinationStore \<times> 'a result"

record coord_clock =
  ck_expires :: int
  ck_now :: int
  ck_created :: int
  ck_event :: int
  ck_projection :: int

text \<open>\<^verbatim>\<open>sorted(dir.glob("*.json"))\<close>.\<close>

definition sorted_files :: "'a directory \<Rightarrow> (string \<times> 'a option) list" where
  "sorted_files d = sort_key (\<lambda>(stem, c). stem @ ''.json'') d"

definition now_plus :: "int \<Rightarrow> int \<Rightarrow> timestamp result" where
  "now_plus now s = and_then (add_seconds (AwareDT now) s) (\<lambda>x. Inr (isoformat x))"

section \<open>The event ledger\<close>

definition json_string :: "json option \<Rightarrow> string option" where
  "json_string j = (case j of Some (JStr s) \<Rightarrow> Some s | _ \<Rightarrow> None)"

definition coord_next_sequence :: "CoordinationEvent jsonl list \<Rightarrow> int" where
  "coord_next_sequence evs = next_seq ce_sequence evs"

definition append_coord_event ::
  "coord_env \<Rightarrow> coord_clock \<Rightarrow> string \<Rightarrow> payload \<Rightarrow> CoordinationStore \<Rightarrow> CoordinationStore" where
  "append_coord_event env ck name p st =
    st\<lparr>cs_events := cs_events st @ [Entry
      \<lparr>ce_event_id = payload_key env p, ce_session_id = json_string (dict_get p ''session_id''),
       ce_task_id = json_string (dict_get p ''task_id''), ce_sequence = coord_next_sequence (cs_events st),
       ce_created_at = Aware (ck_event ck), ce_event_name = name, ce_payload = p,
       ce_event_hash = payload_hash env p\<rparr>]\<rparr>"

section \<open>Sessions\<close>

definition register_session ::
  "coord_env \<Rightarrow> coord_clock \<Rightarrow> CoordinationSession \<Rightarrow> CoordinationSession coord_op" where
  "register_session env ck s st =
    (append_coord_event env ck ''coord.session.registered'' (build_session_registered_payload env s)
       (st\<lparr>cs_sessions := dict_set (se_session_id s) (Some s) (cs_sessions st)\<rparr>), Inr s)"

definition heartbeat ::
  "coord_env \<Rightarrow> coord_clock \<Rightarrow> string \<Rightarrow> string option \<Rightarrow> string \<Rightarrow> string list option \<Rightarrow> string option \<Rightarrow>
   CoordinationHeartbeat coord_op" where
  "heartbeat env ck sid tid status paths step st =
    (let ps = (case paths of None \<Rightarrow> [] | Some ps \<Rightarrow> ps);
         hb = \<lparr>hb_session_id = sid, hb_task_id = tid, hb_status = status, hb_current_step = step,
               hb_reserved_paths = ps, hb_last_artifact_sha256 = None, hb_created_at = Aware (ck_created ck)\<rparr>;
         done = append_coord_event env ck ''coord.session.heartbeat'' (build_heartbeat_payload env hb)
     in case dict_get (cs_sessions st) sid of
          None \<Rightarrow> (done st, Inr hb)
        | Some None \<Rightarrow> (st, Inl ValidationError)
        | Some (Some s) \<Rightarrow>
            (done (st\<lparr>cs_sessions := dict_set sid
               (Some (s\<lparr>se_status := status, se_updated_at := hb_created_at hb, se_reserved_paths := ps\<rparr>))
               (cs_sessions st)\<rparr>), Inr hb))"

section \<open>Task claims\<close>

definition claim_expiry :: "timestamp option \<Rightarrow> timestamp" where
  "claim_expiry e = (case e of None \<Rightarrow> Aware 0 | Some ts \<Rightarrow> if ts = NotIso '''' then Aware 0 else ts)"

definition grant_task ::
  "coord_env \<Rightarrow> coord_clock \<Rightarrow> string \<Rightarrow> string \<Rightarrow> string \<Rightarrow> int \<Rightarrow> string list \<Rightarrow> timestamp \<Rightarrow>
   CoordinationClaimResult coord_op" where
  "grant_task env ck sid tid kind ttl scope expires st =
    (let claim = \<lparr>tc_session_id = sid, tc_task_id = tid, tc_claim_kind = kind, tc_ttl_seconds = ttl,
                  tc_scope_allowed_paths = scope, tc_status = Cl_active, tc_created_at = Aware (ck_now ck),
                  tc_expires_at = Some expires, tc_state_sha256 = None\<rparr>
     in (append_coord_event env ck ''coord.task.claimed'' (build_task_claim_payload env claim)
           (st\<lparr>cs_tasks := dict_set tid (Some claim) (cs_tasks st)\<rparr>),
         Inr \<lparr>clr_allowed = True, clr_claim = Some claim, clr_conflict = None\<rparr>))"

definition refuse_task ::
  "coord_env \<Rightarrow> coord_clock \<Rightarrow> string \<Rightarrow> string \<Rightarrow> CoordinationTaskClaim \<Rightarrow> CoordinationClaimResult coord_op" where
  "refuse_task env ck sid tid existing st =
    (let conflict = \<lparr>cf_conflict_id = task_conflict_hash env (tid @ sid), cf_kind = ''task_already_claimed'',
                     cf_session_id = sid, cf_other_session_id = Some (tc_session_id existing),
                     cf_task_id = Some tid, cf_paths = [],
                     cf_recommended_resolution = Some ''serialize_or_split_scope'',
                     cf_created_at = Aware (ck_created ck)\<rparr>
     in (append_coord_event env ck ''coord.task.claim_refused'' (build_task_claim_refused_payload conflict)
           (st\<lparr>cs_conflicts := dict_set (cf_conflict_id conflict) (Some conflict) (cs_conflicts st)\<rparr>),
         Inr \<lparr>clr_allowed = False, clr_claim = None, clr_conflict = Some conflict\<rparr>))"

text \<open>\<open>scope\<close> is the list of the scope's allowed paths, empty when there is no scope.\<close>

definition claim_task ::
  "coord_env \<Rightarrow> coord_clock \<Rightarrow> string \<Rightarrow> string \<Rightarrow> string \<Rightarrow> int \<Rightarrow> string list \<Rightarrow> CoordinationClaimResult coord_op" where
  "claim_task env ck sid tid kind ttl scope st =
    (case now_plus (ck_expires ck) ttl of
       Inl err \<Rightarrow> (st, Inl err)
     | Inr expires \<Rightarrow>
        (case dict_get (cs_tasks st) tid of
           None \<Rightarrow> grant_task env ck sid tid kind ttl scope expires st
         | Some None \<Rightarrow> (st, Inl ValidationError)
         | Some (Some existing) \<Rightarrow>
             if tc_status existing \<noteq> Cl_active then grant_task env ck sid tid kind ttl scope expires st
             else case stamp_expired (claim_expiry (tc_expires_at existing)) (ck_now ck) of
               Inl err \<Rightarrow> (st, Inl err)
             | Inr True \<Rightarrow> grant_task env ck sid tid kind ttl scope expires st
             | Inr False \<Rightarrow>
                 if tc_session_id existing = sid \<and> tc_task_id existing = tid
                 then (append_coord_event env ck ''coord.task.claimed''
                         (build_task_claim_payload env existing @ [(''renewal'', JBool True)]) st,
                       Inr \<lparr>clr_allowed = True, clr_claim = Some existing, clr_conflict = None\<rparr>)
                 else refuse_task env ck sid tid existing st))"

definition release_task :: "coord_env \<Rightarrow> coord_clock \<Rightarrow> string \<Rightarrow> string \<Rightarrow> unit coord_op" where
  "release_task env ck sid tid st =
    (let done = append_coord_event env ck ''coord.task.released'' (build_task_released_payload sid tid)
     in case dict_get (cs_tasks st) tid of
          None \<Rightarrow> (done st, Inr ())
        | Some None \<Rightarrow> (st, Inl ValidationError)
        | Some (Some c) \<Rightarrow>
            (done (st\<lparr>cs_tasks := dict_set tid (Some (c\<lparr>tc_status := Cl_released\<rparr>)) (cs_tasks st)\<rparr>), Inr ()))"

section \<open>Projections\<close>

fun map_result :: "('a \<Rightarrow> 'b result) \<Rightarrow> 'a list \<Rightarrow> 'b list result" where
  "map_result f [] = Inr []"
| "map_result f (x # xs) = and_then (f x) (\<lambda>y. and_then (map_result f xs) (\<lambda>ys. Inr (y # ys)))"

text \<open>\<^verbatim>\<open>model_validate_json\<close> of a file's text.\<close>

definition validate_json :: "'a option \<Rightarrow> 'a result" where
  "validate_json c = (case c of None \<Rightarrow> Inl ValidationError | Some x \<Rightarrow> Inr x)"

definition read_dir :: "'a directory \<Rightarrow> 'a list result" where
  "read_dir d = map_result validate_json (map snd (sorted_files d))"

definition is_expired :: "timestamp option \<Rightarrow> int \<Rightarrow> bool result" where
  "is_expired e now = (case e of None \<Rightarrow> Inr False | Some ts \<Rightarrow> stamp_expired ts now)"

definition project_claim :: "int \<Rightarrow> CoordinationTaskClaim option \<Rightarrow> CoordinationTaskClaim result" where
  "project_claim now content =
    and_then (validate_json content) (\<lambda>c.
    and_then (is_expired (tc_expires_at c) now) (\<lambda>x.
      Inr (if x \<and> tc_status c = Cl_active then c\<lparr>tc_status := Cl_stale\<rparr> else c)))"

definition project_reservation :: "int \<Rightarrow> CoordinationPathReservation \<Rightarrow> CoordinationPathReservation result" where
  "project_reservation now r =
    and_then (is_expired (pr_expires_at r) now) (\<lambda>x.
      Inr (if x \<and> pr_status r = Rs_active then r\<lparr>pr_status := Rs_stale\<rparr> else r))"

definition reservation_keys :: "CoordinationPathReservation \<Rightarrow> string list" where
  "reservation_keys r = map (\<lambda>p. pr_session_id r @ '':'' @ pr_task_id r @ '':'' @ p) (pr_paths r)"

definition projection :: "coord_env \<Rightarrow> coord_clock \<Rightarrow> CoordinationStore \<Rightarrow> CoordinationStateProjection result" where
  "projection env ck st =
    and_then (read_dir (cs_sessions st)) (\<lambda>sessions.
    and_then (map_result (project_claim (ck_projection ck)) (map snd (sorted_files (cs_tasks st)))) (\<lambda>claims.
    and_then (read_dir (cs_leases st)) (\<lambda>leases.
    and_then (map_result (project_reservation (ck_projection ck)) leases) (\<lambda>reservations.
    and_then (read_dir (cs_artifacts st)) (\<lambda>artifacts.
    and_then (read_dir (cs_conflicts st)) (\<lambda>conflicts.
      Inr (with_hash env
        \<lparr>sp_active_sessions = foldl (\<lambda>d s. dict_set (se_session_id s) s d) [] sessions,
         sp_active_task_claims = foldl (\<lambda>d c. dict_set (tc_task_id c) c d) [] claims,
         sp_active_path_reservations =
           foldl (\<lambda>d r. foldl (\<lambda>d k. dict_set k r d) d (reservation_keys r)) []
             (filter (\<lambda>r. pr_status r = Rs_active) reservations),
         sp_recent_artifacts = artifacts, sp_conflicts = conflicts, sp_projection_sha256 = None\<rparr>)))))))"

text \<open>The public projection: active claims, active leases that have not expired, the last artifacts.\<close>

definition read_lease ::
  "int \<Rightarrow> string \<times> CoordinationPathReservation option \<Rightarrow> (string \<times> CoordinationPathReservation \<times> bool) result" where
  "read_lease now f =
    and_then (validate_json (snd f)) (\<lambda>r.
      if pr_status r \<noteq> Rs_active then Inr (fst f, r, False)
      else and_then (is_expired (pr_expires_at r) now) (\<lambda>x. Inr (fst f, r, \<not> x)))"

definition read_state_projection ::
  "coord_env \<Rightarrow> coord_clock \<Rightarrow> CoordinationStore \<Rightarrow> CoordinationStateProjection result" where
  "read_state_projection env ck st =
    and_then (read_dir (cs_sessions st)) (\<lambda>sessions.
    and_then (read_dir (cs_tasks st)) (\<lambda>tasks.
    and_then (map_result (read_lease (ck_projection ck)) (sorted_files (cs_leases st))) (\<lambda>leases.
    and_then (map_result validate_json (take 50 (map snd (rev (sorted_files (cs_artifacts st)))))) (\<lambda>artifacts.
    and_then (read_dir (cs_conflicts st)) (\<lambda>conflicts.
      Inr (with_hash env
        \<lparr>sp_active_sessions = foldl (\<lambda>d s. dict_set (se_session_id s) s d) [] sessions,
         sp_active_task_claims =
           foldl (\<lambda>d c. dict_set (tc_task_id c) c d) [] (filter (\<lambda>c. tc_status c = Cl_active) tasks),
         sp_active_path_reservations =
           foldl (\<lambda>d (k, r, live). if live then dict_set k r d else d) [] leases,
         sp_recent_artifacts = artifacts, sp_conflicts = conflicts, sp_projection_sha256 = None\<rparr>))))))"

section \<open>Path reservations\<close>

definition lease_expired :: "int \<Rightarrow> CoordinationPathReservation \<Rightarrow> bool" where
  "lease_expired now r \<longleftrightarrow>
    (case pr_expires_at r of None \<Rightarrow> False | Some e \<Rightarrow> stamp_expired e now = Inr True)"

text \<open>
  One file of \<^verbatim>\<open>_iter_active_reservations_locked\<close>: skipped if it does not validate, written
  back as stale with an event if active and expired, collected if active.
\<close>

definition visit_lease ::
  "coord_env \<Rightarrow> coord_clock \<Rightarrow> CoordinationStore \<times> CoordinationPathReservation list \<Rightarrow>
   string \<times> CoordinationPathReservation option \<Rightarrow> CoordinationStore \<times> CoordinationPathReservation list" where
  "visit_lease env ck acc f =
    (case (acc, f) of
       ((st, active), (stem, None)) \<Rightarrow> (st, active)
     | ((st, active), (stem, Some r)) \<Rightarrow>
         if pr_status r = Rs_active \<and> lease_expired (ck_now ck) r
         then (append_coord_event env ck ''coord.lease.expired''
                 (build_lease_expired_payload (pr_session_id r) (pr_task_id r)
                    (map (salted_path_hash env) (pr_paths r)))
                 (st\<lparr>cs_leases := dict_set stem (Some (r\<lparr>pr_status := Rs_stale\<rparr>)) (cs_leases st)\<rparr>), active)
         else if pr_status r = Rs_active then (st, active @ [r])
         else (st, active))"

definition iter_active_reservations ::
  "coord_env \<Rightarrow> coord_clock \<Rightarrow> CoordinationStore \<Rightarrow> CoordinationStore \<times> CoordinationPathReservation list" where
  "iter_active_reservations env ck st = foldl (visit_lease env ck) (st, []) (sorted_files (cs_leases st))"

definition same_owner :: "string \<Rightarrow> string \<Rightarrow> CoordinationPathReservation \<Rightarrow> bool" where
  "same_owner sid tid r \<longleftrightarrow> pr_session_id r = sid \<and> pr_task_id r = tid"

text \<open>The first raw path that overlaps an active reservation of another owner.\<close>

definition reservation_overlap ::
  "string \<Rightarrow> string \<Rightarrow> reservation_mode \<Rightarrow> string list \<Rightarrow> CoordinationPathReservation \<Rightarrow>
   (CoordinationPathReservation \<times> string) option" where
  "reservation_overlap sid tid mode paths existing =
    (if same_owner sid tid existing then None
     else if mode = Mode_read \<and> pr_mode existing = Mode_read then None
     else first_some (\<lambda>ep. first_some (\<lambda>raw.
            if is_prefix ep raw \<or> is_prefix raw ep then Some (existing, raw) else None) paths)
          (pr_paths existing))"

definition lease_key :: "coord_env \<Rightarrow> string \<Rightarrow> string \<Rightarrow> string list \<Rightarrow> string" where
  "lease_key env sid tid normalized = path_key env (sid @ tid @ str_join ''|'' normalized)"

definition refuse_reservation ::
  "coord_env \<Rightarrow> coord_clock \<Rightarrow> string \<Rightarrow> string \<Rightarrow> reservation_mode \<Rightarrow> string list \<Rightarrow>
   CoordinationPathReservation \<times> string \<Rightarrow> CoordinationReservationResult coord_op" where
  "refuse_reservation env ck sid tid mode normalized hit st =
    (let conflict = \<lparr>cf_conflict_id = path_key env (str_join ''|'' normalized),
                     cf_kind = (if mode = Mode_write then ''path_write_overlap'' else ''read_blocked_by_write''),
                     cf_session_id = sid, cf_other_session_id = Some (pr_session_id (fst hit)),
                     cf_task_id = Some tid, cf_paths = [snd hit],
                     cf_recommended_resolution = Some ''serialize_or_split_scope'',
                     cf_created_at = Aware (ck_created ck)\<rparr>
     in (append_coord_event env ck ''coord.path.reservation_refused'' (build_reservation_refused_payload env conflict)
           (st\<lparr>cs_conflicts := dict_set (cf_conflict_id conflict) (Some conflict) (cs_conflicts st)\<rparr>),
         Inr \<lparr>rr_allowed = False, rr_reservation = None, rr_conflict = Some conflict\<rparr>))"

definition grant_reservation ::
  "coord_env \<Rightarrow> coord_clock \<Rightarrow> string \<Rightarrow> string \<Rightarrow> reservation_mode \<Rightarrow> string list \<Rightarrow> int \<Rightarrow> timestamp \<Rightarrow> bool \<Rightarrow>
   CoordinationReservationResult coord_op" where
  "grant_reservation env ck sid tid mode normalized ttl expires renewal st =
    (case projection env ck st of
       Inl err \<Rightarrow> (st, Inl err)
     | Inr p \<Rightarrow>
        let r = \<lparr>pr_session_id = sid, pr_task_id = tid, pr_mode = mode, pr_paths = normalized,
                 pr_ttl_seconds = ttl, pr_status = Rs_active, pr_created_at = Aware (ck_created ck),
                 pr_expires_at = Some expires, pr_state_sha256 = sp_projection_sha256 p\<rparr>;
            reserved = build_path_reserved_payload env r @ (if renewal then [(''renewal'', JBool True)] else [])
        in (append_coord_event env ck ''coord.path.reserved'' reserved
              (st\<lparr>cs_leases := dict_set (lease_key env sid tid normalized) (Some r) (cs_leases st)\<rparr>),
            Inr \<lparr>rr_allowed = True, rr_reservation = Some r, rr_conflict = None\<rparr>))"

definition reserve_paths ::
  "coord_env \<Rightarrow> coord_clock \<Rightarrow> string \<Rightarrow> string \<Rightarrow> reservation_mode \<Rightarrow> string list \<Rightarrow> int \<Rightarrow>
   CoordinationReservationResult coord_op" where
  "reserve_paths env ck sid tid mode paths ttl st =
    (case now_plus (ck_expires ck) ttl of
       Inl err \<Rightarrow> (st, Inl err)
     | Inr expires \<Rightarrow>
        let normalized = map normalize_path paths;
            (st1, active) = iter_active_reservations env ck st
        in case first_some (reservation_overlap sid tid mode paths) active of
             Some hit \<Rightarrow> refuse_reservation env ck sid tid mode normalized hit st1
           | None \<Rightarrow>
               grant_reservation env ck sid tid mode normalized ttl expires
                 (\<exists>r \<in> set active. same_owner sid tid r) st1)"

definition release_denied_payload ::
  "coord_env \<Rightarrow> string \<Rightarrow> string \<Rightarrow> string list \<Rightarrow> payload \<Rightarrow> payload" where
  "release_denied_payload env sid tid normalized reason =
    [(''session_id'', JStr sid), (''task_id'', JStr tid), (''event_kind'', JStr ''release_denied''),
     (''path_hashes'', JList (map (JStr \<circ> salted_path_hash env) normalized)),
     (''path_count'', jcount normalized)] @ reason"

definition release_paths ::
  "coord_env \<Rightarrow> coord_clock \<Rightarrow> string \<Rightarrow> string \<Rightarrow> string list \<Rightarrow> unit coord_op" where
  "release_paths env ck sid tid paths st =
    (let normalized = map normalize_path paths;
         key = lease_key env sid tid normalized
     in case dict_get (cs_leases st) key of
          None \<Rightarrow>
            (append_coord_event env ck ''coord.path.release_denied''
               (release_denied_payload env sid tid normalized [(''reason'', JStr ''lease_not_found'')]) st, Inr ())
        | Some None \<Rightarrow> (st, Inl ValidationError)
        | Some (Some r) \<Rightarrow>
            if pr_session_id r = sid
            then
              let st1 = st\<lparr>cs_leases := dict_set key (Some (r\<lparr>pr_status := Rs_released\<rparr>)) (cs_leases st)\<rparr>
              in (if normalized = [] then st1
                  else append_coord_event env ck ''coord.path.released''
                         (build_path_released_payload env sid tid normalized) st1, Inr ())
            else
              (append_coord_event env ck ''coord.path.release_denied''
                 (release_denied_payload env sid tid normalized
                    [(''reason'', JStr ''not_owner''), (''owner_session_id'', JStr (pr_session_id r))]) st, Inr ()))"

text \<open>
  \<^verbatim>\<open>mark_lease_stale\<close> writes each matching file back as stale; a file that does not
  validate ends it, with the files before it already written.
\<close>

fun mark_files_stale ::
  "string \<Rightarrow> string \<Rightarrow> (string \<times> CoordinationPathReservation option) list \<Rightarrow> unit coord_op" where
  "mark_files_stale sid tid [] st = (st, Inr ())"
| "mark_files_stale sid tid ((stem, None) # fs) st = (st, Inl ValidationError)"
| "mark_files_stale sid tid ((stem, Some r) # fs) st =
    mark_files_stale sid tid fs
      (if same_owner sid tid r
       then st\<lparr>cs_leases := dict_set stem (Some (r\<lparr>pr_status := Rs_stale\<rparr>)) (cs_leases st)\<rparr> else st)"

definition mark_lease_stale :: "coord_env \<Rightarrow> coord_clock \<Rightarrow> string \<Rightarrow> string \<Rightarrow> string \<Rightarrow> unit coord_op" where
  "mark_lease_stale env ck sid tid reason st =
    (case mark_files_stale sid tid (sorted_files (cs_leases st)) st of
       (st1, Inl err) \<Rightarrow> (st1, Inl err)
     | (st1, Inr u) \<Rightarrow>
         (append_coord_event env ck ''coord.lease.marked_stale''
            (build_lease_marked_stale_payload sid tid reason) st1, Inr ()))"

section \<open>Artifacts, conflicts, handoffs, other events\<close>

text \<open>\<^verbatim>\<open>artifact_sha256.replace(":", "_")\<close>.\<close>

definition artifact_stem :: "string \<Rightarrow> string" where
  "artifact_stem h = map (\<lambda>c. if c = CHR '':'' then CHR ''_'' else c) h"

definition publish_artifact ::
  "coord_env \<Rightarrow> coord_clock \<Rightarrow> string \<Rightarrow> string option \<Rightarrow> string \<Rightarrow> string \<Rightarrow> string \<Rightarrow> string option \<Rightarrow>
   CoordinationArtifactRef coord_op" where
  "publish_artifact env ck sid tid kind uri sha schema st =
    (let a = \<lparr>ar_session_id = sid, ar_task_id = tid, ar_artifact_kind = kind, ar_artifact_uri = uri,
              ar_artifact_sha256 = sha, ar_schema_id = schema, ar_created_at = Aware (ck_created ck)\<rparr>
     in (append_coord_event env ck ''coord.artifact.published'' (build_artifact_published_payload a)
           (st\<lparr>cs_artifacts := dict_set (artifact_stem sha) (Some a) (cs_artifacts st)\<rparr>), Inr a))"

definition report_conflict ::
  "coord_env \<Rightarrow> coord_clock \<Rightarrow> CoordinationConflict \<Rightarrow> CoordinationConflict coord_op" where
  "report_conflict env ck c st =
    (append_coord_event env ck ''coord.conflict.reported'' (build_conflict_reported_payload env c)
       (st\<lparr>cs_conflicts := dict_set (cf_conflict_id c) (Some c) (cs_conflicts st)\<rparr>), Inr c)"

definition record_event ::
  "coord_env \<Rightarrow> coord_clock \<Rightarrow> string \<Rightarrow> string option \<Rightarrow> string option \<Rightarrow> payload \<Rightarrow> unit coord_op" where
  "record_event env ck name sid tid p st =
    (append_coord_event env ck name
       (dict_set ''task_id'' (jstr_opt tid) (dict_set ''session_id'' (jstr_opt sid) p)) st, Inr ())"

definition request_handoff ::
  "coord_env \<Rightarrow> coord_clock \<Rightarrow> string \<Rightarrow> string \<Rightarrow> string option \<Rightarrow> payload coord_op" where
  "request_handoff env ck sid target tid st =
    (let p = build_handoff_requested_payload sid target tid
     in (append_coord_event env ck ''coord.handoff.requested'' p st,
         Inr ((''status'', JStr ''requested'') # filter (\<lambda>(k, v). k \<noteq> ''status'') p)))"

section \<open>Ledger integrity check\<close>

datatype integrity_finding =
    Malformed_json nat
  | Missing_field nat string
  | Duplicate_sequence nat int
  | Duplicate_event_id nat string

text \<open>The four fields that must be present and truthy.\<close>

definition missing_fields :: "CoordinationEvent \<Rightarrow> string list" where
  "missing_fields e =
    (if ce_event_id e = '''' then [''event_id''] else []) @
    (if ce_event_name e = '''' then [''event_name''] else []) @
    (if ce_sequence e = 0 then [''sequence''] else []) @
    (if ce_created_at e = NotIso '''' then [''created_at''] else [])"

fun check_lines ::
  "nat \<Rightarrow> int set \<Rightarrow> string set \<Rightarrow> CoordinationEvent jsonl list \<Rightarrow> integrity_finding list" where
  "check_lines n seqs ids [] = []"
| "check_lines n seqs ids (Blank # ls) = check_lines (Suc n) seqs ids ls"
| "check_lines n seqs ids (BadJson # ls) = Malformed_json n # check_lines (Suc n) seqs ids ls"
| "check_lines n seqs ids (Entry e # ls) =
    map (Missing_field n) (missing_fields e) @
    (if ce_sequence e \<in> seqs then [Duplicate_sequence n (ce_sequence e)] else []) @
    (if ce_event_id e \<noteq> '''' \<and> ce_event_id e \<in> ids then [Duplicate_event_id n (ce_event_id e)] else []) @
    check_lines (Suc n) (insert (ce_sequence e) seqs)
      (if ce_event_id e = '''' then ids else insert (ce_event_id e) ids) ls"

definition check_ledger_integrity :: "CoordinationEvent jsonl list \<Rightarrow> integrity_finding list" where
  "check_ledger_integrity ls = check_lines 1 {} {} ls"

end
