(* ===== verification/Coordination_Properties.thy ===== *)
theory Coordination_Properties
  imports Coordination_Store
begin

text \<open>
  Properties of the coordination store: exclusion of path reservations, the decision of
  task claims, the event ledger's sequence numbers, and where the store does not do what
  it is meant to.
\<close>

section \<open>Commands and runs\<close>

datatype coord_command =
    RegisterSession CoordinationSession
  | Heartbeat string "string option" string "string list option" "string option"
  | ClaimTask string string string int "string list"
  | ReservePaths string string reservation_mode "string list" int
  | ReleasePaths string string "string list"
  | PublishArtifact string "string option" string string string "string option"
  | ReportConflict CoordinationConflict
  | ReleaseTask string string
  | RecordEvent string "string option" "string option" payload
  | RequestHandoff string string "string option"
  | MarkLeaseStale string string string

fun coord_exec :: "coord_env \<Rightarrow> coord_clock \<Rightarrow> coord_command \<Rightarrow> CoordinationStore \<Rightarrow> CoordinationStore" where
  "coord_exec env ck (RegisterSession s) st = fst (register_session env ck s st)"
| "coord_exec env ck (Heartbeat sid tid status ps step) st = fst (heartbeat env ck sid tid status ps step st)"
| "coord_exec env ck (ClaimTask sid tid kind ttl scope) st = fst (claim_task env ck sid tid kind ttl scope st)"
| "coord_exec env ck (ReservePaths sid tid mode ps ttl) st = fst (reserve_paths env ck sid tid mode ps ttl st)"
| "coord_exec env ck (ReleasePaths sid tid ps) st = fst (release_paths env ck sid tid ps st)"
| "coord_exec env ck (PublishArtifact sid tid kind uri sha schema) st =
    fst (publish_artifact env ck sid tid kind uri sha schema st)"
| "coord_exec env ck (ReportConflict c) st = fst (report_conflict env ck c st)"
| "coord_exec env ck (ReleaseTask sid tid) st = fst (release_task env ck sid tid st)"
| "coord_exec env ck (RecordEvent name sid tid p) st = fst (record_event env ck name sid tid p st)"
| "coord_exec env ck (RequestHandoff sid target tid) st = fst (request_handoff env ck sid target tid st)"
| "coord_exec env ck (MarkLeaseStale sid tid reason) st = fst (mark_lease_stale env ck sid tid reason st)"

text \<open>Callers that normalise the paths they reserve.\<close>

fun normal_request :: "coord_command \<Rightarrow> bool" where
  "normal_request (ReservePaths sid tid mode ps ttl) \<longleftrightarrow> map normalize_path ps = ps"
| "normal_request _ \<longleftrightarrow> True"

definition empty_coord :: CoordinationStore where
  "empty_coord = \<lparr>cs_sessions = [], cs_tasks = [], cs_leases = [], cs_artifacts = [], cs_conflicts = [], cs_events = []\<rparr>"

inductive coord_reachable :: "CoordinationStore \<Rightarrow> int \<Rightarrow> bool" where
  start: "coord_reachable empty_coord t"
| call: "coord_reachable st t \<Longrightarrow> t \<le> ck_now ck \<Longrightarrow> normal_request cmd \<Longrightarrow>
    coord_reachable (coord_exec env ck cmd st) (ck_now ck)"

section \<open>Leases of a store\<close>

lemma append_coord_event_simps [simp]:
  "cs_sessions (append_coord_event env ck n p st) = cs_sessions st"
  "cs_tasks (append_coord_event env ck n p st) = cs_tasks st"
  "cs_leases (append_coord_event env ck n p st) = cs_leases st"
  "cs_artifacts (append_coord_event env ck n p st) = cs_artifacts st"
  "cs_conflicts (append_coord_event env ck n p st) = cs_conflicts st"
  by (simp_all add: append_coord_event_def)

definition lease_live :: "int \<Rightarrow> CoordinationPathReservation \<Rightarrow> bool" where
  "lease_live t r \<longleftrightarrow> pr_status r = Rs_active \<and> \<not> lease_expired t r"

text \<open>A change of the lease directory after which no lease is active that was not before.\<close>

definition shrinks :: "CoordinationPathReservation directory \<Rightarrow> CoordinationPathReservation directory \<Rightarrow> bool" where
  "shrinks d d' \<longleftrightarrow> (wf_dict d \<longrightarrow> wf_dict d') \<and>
     (\<forall>k r. dict_get d' k = Some (Some r) \<longrightarrow> pr_status r = Rs_active \<longrightarrow> dict_get d k = Some (Some r))"

lemma shrinks_refl [simp]: "shrinks d d"
  by (simp add: shrinks_def)

lemma shrinks_trans: "shrinks d d' \<Longrightarrow> shrinks d' d'' \<Longrightarrow> shrinks d d''"
  by (simp add: shrinks_def)

lemma shrinks_set: "pr_status r \<noteq> Rs_active \<Longrightarrow> shrinks d (dict_set k (Some r) d)"
  by (simp add: shrinks_def dict_simps)

lemma set_sorted_files [simp]: "set (sorted_files d) = set d"
  by (simp add: sorted_files_def)

lemma visit_lease_shrinks: "shrinks (cs_leases (fst acc)) (cs_leases (fst (visit_lease env ck acc f)))"
  by (auto simp: visit_lease_def shrinks_set split: prod.splits option.splits)

lemma iter_active_shrinks: "shrinks (cs_leases st) (cs_leases (fst (iter_active_reservations env ck st)))"
  unfolding iter_active_reservations_def
  by (rule foldl_invariant [where P = "\<lambda>acc. shrinks (cs_leases st) (cs_leases (fst acc))"])
    (auto intro: shrinks_trans visit_lease_shrinks)

lemma visit_lease_active:
  "snd (visit_lease env ck acc f) = snd acc @
    (case snd f of Some r \<Rightarrow> if lease_live (ck_now ck) r then [r] else [] | None \<Rightarrow> [])"
  by (auto simp: visit_lease_def lease_live_def split: prod.splits option.splits)

text \<open>The active reservations are those that are live at the call's clock reading.\<close>

lemma iter_active_set:
  assumes "wf_dict (cs_leases st)"
  shows "set (snd (iter_active_reservations env ck st)) =
    {r. lease_live (ck_now ck) r \<and> (\<exists>k. dict_get (cs_leases st) k = Some (Some r))}"
proof -
  have "set (snd (foldl (visit_lease env ck) acc fs)) =
      set (snd acc) \<union> {r. lease_live (ck_now ck) r \<and> (\<exists>k. (k, Some r) \<in> set fs)}" for acc fs
    by (induction fs arbitrary: acc) (auto simp: visit_lease_active split: option.splits)
  then show ?thesis
    by (simp add: iter_active_reservations_def dict_item_get [OF assms, symmetric])
qed

lemma mark_files_shrinks: "shrinks (cs_leases st) (cs_leases (fst (mark_files_stale sid tid fs st)))"
proof (induction sid tid fs st rule: mark_files_stale.induct)
  case (3 sid tid stem r fs st)
  from shrinks_trans [OF shrinks_set [of "r\<lparr>pr_status := Rs_stale\<rparr>" "cs_leases st" stem]] 3
  show ?case by (auto split: if_splits)
qed auto

lemma mark_lease_stale_shrinks: "shrinks (cs_leases st) (cs_leases (fst (mark_lease_stale env ck sid tid reason st)))"
  using mark_files_shrinks [of st sid tid "sorted_files (cs_leases st)"]
  by (auto simp: mark_lease_stale_def split: prod.splits sum.splits)

lemma release_paths_shrinks: "shrinks (cs_leases st) (cs_leases (fst (release_paths env ck sid tid ps st)))"
  by (auto simp: release_paths_def Let_def shrinks_set split: option.splits)

text \<open>Every command but a reservation only shrinks the leases.\<close>

lemma coord_exec_shrinks:
  assumes "\<nexists>sid tid mode ps ttl. cmd = ReservePaths sid tid mode ps ttl"
  shows "shrinks (cs_leases st) (cs_leases (coord_exec env ck cmd st))"
  using assms
  by (cases cmd)
    (auto simp: register_session_def heartbeat_def claim_task_def grant_task_def refuse_task_def Let_def
      publish_artifact_def report_conflict_def release_task_def record_event_def request_handoff_def
      mark_lease_stale_shrinks release_paths_shrinks split: option.splits sum.splits bool.splits)

section \<open>Exclusion of reservations\<close>

type_synonym lease_holding = "(string \<times> string) \<times> reservation_mode \<times> string list"

definition lease_holding :: "CoordinationPathReservation \<Rightarrow> lease_holding" where
  "lease_holding r = ((pr_session_id r, pr_task_id r), pr_mode r, pr_paths r)"

definition live_leases :: "CoordinationPathReservation directory \<Rightarrow> int \<Rightarrow> lease_holding set" where
  "live_leases d t = {lease_holding r | r. lease_live t r \<and> (\<exists>k. dict_get d k = Some (Some r))}"

definition overlapping :: "string list \<Rightarrow> string list \<Rightarrow> bool" where
  "overlapping ps qs \<longleftrightarrow> (\<exists>p \<in> set ps. \<exists>q \<in> set qs. is_prefix p q \<or> is_prefix q p)"

fun lease_clash :: "lease_holding \<Rightarrow> lease_holding \<Rightarrow> bool" where
  "lease_clash (o1, m1, ps) (o2, m2, qs) \<longleftrightarrow>
    o1 \<noteq> o2 \<and> (m1 = Mode_write \<or> m2 = Mode_write) \<and> overlapping ps qs"

lemma lease_live_earlier: "lease_live t' r \<Longrightarrow> t \<le> t' \<Longrightarrow> lease_live t r"
  using stamp_expired_later by (auto simp: lease_live_def lease_expired_def split: option.splits)

interpretation leases: exclusive_registry live_leases lease_clash
proof unfold_locales
  fix x y assume "lease_clash x y"
  then show "lease_clash y x" by (cases x; cases y) (auto simp: overlapping_def)
next
  fix t t' :: int and d assume "t \<le> t'"
  then show "live_leases d t' \<subseteq> live_leases d t"
    by (auto simp: live_leases_def intro: lease_live_earlier)
qed

lemma shrinks_live: "shrinks d d' \<Longrightarrow> live_leases d' t \<subseteq> live_leases d t"
  by (fastforce simp: shrinks_def live_leases_def lease_live_def)

lemma no_overlap_free:
  assumes "reservation_overlap sid tid mode ps r = None"
  shows "\<not> lease_clash ((sid, tid), mode, ps) (lease_holding r)"
proof
  assume clash: "lease_clash ((sid, tid), mode, ps) (lease_holding r)"
  then have "\<not> same_owner sid tid r" "\<not> (mode = Mode_read \<and> pr_mode r = Mode_read)"
    by (auto simp: lease_holding_def same_owner_def)
  with assms have "\<forall>ep \<in> set (pr_paths r). \<forall>p \<in> set ps. \<not> (is_prefix ep p \<or> is_prefix p ep)"
    by (auto simp: reservation_overlap_def first_some_None split: if_splits)
  with clash show False by (auto simp: lease_holding_def overlapping_def)
qed

lemma lease_pair_free:
  assumes "leases.excl d t" and "dict_get d k1 = Some (Some r1)" and "dict_get d k2 = Some (Some r2)"
    and "lease_live t r1" and "lease_live t r2"
    and "(pr_session_id r1, pr_task_id r1) \<noteq> (pr_session_id r2, pr_task_id r2)"
    and "pr_mode r1 = Mode_write \<or> pr_mode r2 = Mode_write"
  shows "\<not> overlapping (pr_paths r1) (pr_paths r2)"
proof -
  have "\<not> lease_clash (lease_holding r1) (lease_holding r2)"
    using assms(2-6) by (intro leases.exclD [OF assms(1)]) (auto simp: live_leases_def lease_holding_def)
  with assms(6,7) show ?thesis by (auto simp: lease_holding_def)
qed

definition leases_inv :: "CoordinationStore \<Rightarrow> int \<Rightarrow> bool" where
  "leases_inv st t \<longleftrightarrow> wf_dict (cs_leases st) \<and> leases.excl (cs_leases st) t"

lemma reserve_leases_inv:
  assumes inv: "leases_inv st (ck_now ck)" and normal: "map normalize_path ps = ps"
  shows "leases_inv (fst (reserve_paths env ck sid tid mode ps ttl st)) (ck_now ck)"
proof -
  obtain st1 active where it: "iter_active_reservations env ck st = (st1, active)" by fastforce
  have sh: "shrinks (cs_leases st) (cs_leases st1)"
    using iter_active_shrinks [of st env ck] it by simp
  have inv1: "leases_inv st1 (ck_now ck)"
    using inv sh leases.excl_shrink [OF _ shrinks_live [OF sh]] by (auto simp: leases_inv_def shrinks_def)
  have grant: "leases_inv (fst (grant_reservation env ck sid tid mode ps ttl e b st1)) (ck_now ck)"
    if free: "first_some (reservation_overlap sid tid mode ps) active = None" for e b
  proof (cases "projection env ck st1")
    case (Inr p)
    then obtain r where r: "cs_leases (fst (grant_reservation env ck sid tid mode ps ttl e b st1)) =
        dict_set (lease_key env sid tid ps) (Some r) (cs_leases st1)" "lease_holding r = ((sid, tid), mode, ps)"
      by (simp add: grant_reservation_def Let_def lease_holding_def)
    have "leases.excl (dict_set (lease_key env sid tid ps) (Some r) (cs_leases st1)) (ck_now ck)"
    proof (rule leases.excl_grant [where h = "lease_holding r"])
      show "leases.excl (cs_leases st) (ck_now ck)" using inv by (simp add: leases_inv_def)
      show "live_leases (dict_set (lease_key env sid tid ps) (Some r) (cs_leases st1)) (ck_now ck)
          \<subseteq> insert (lease_holding r) (live_leases (cs_leases st) (ck_now ck))"
        using shrinks_live [OF sh] by (fastforce simp: live_leases_def dict_simps split: if_splits)
      show "\<not> lease_clash (lease_holding r) d" if "d \<in> live_leases (cs_leases st) (ck_now ck)" for d
      proof -
        from that obtain x where "x \<in> set active" "d = lease_holding x"
          using iter_active_set [of st env ck] inv it by (auto simp: live_leases_def leases_inv_def)
        with free r(2) no_overlap_free show ?thesis by (simp add: first_some_None)
      qed
    qed
    with inv1 r(1) show ?thesis by (simp add: leases_inv_def)
  qed (use inv1 in \<open>simp add: grant_reservation_def\<close>)
  show ?thesis
    using inv inv1 grant normal
    by (auto simp: reserve_paths_def refuse_reservation_def it Let_def leases_inv_def split: sum.splits option.splits)
qed

lemma reachable_leases_inv: "coord_reachable st t \<Longrightarrow> leases_inv st t"
proof (induction rule: coord_reachable.induct)
  case (start t)
  show ?case by (simp add: leases_inv_def empty_coord_def leases.excl_def live_leases_def)
next
  case (call st t ck cmd env)
  then have inv: "leases_inv st (ck_now ck)" by (auto simp: leases_inv_def intro: leases.excl_later)
  show ?case
  proof (cases "\<exists>sid tid mode ps ttl. cmd = ReservePaths sid tid mode ps ttl")
    case True
    with call.hyps(3) inv show ?thesis by (auto intro: reserve_leases_inv)
  next
    case False
    then have "shrinks (cs_leases st) (cs_leases (coord_exec env ck cmd st))"
      by (intro coord_exec_shrinks) auto
    with inv leases.excl_shrink [OF _ shrinks_live] show ?thesis by (auto simp: leases_inv_def shrinks_def)
  qed
qed

section \<open>The event ledger\<close>

definition events_ok :: "CoordinationStore \<Rightarrow> bool" where
  "events_ok st \<longleftrightarrow> seq_increasing ce_sequence (cs_events st) \<and>
     (\<forall>l \<in> set (cs_events st). \<exists>e. l = Entry e \<and> 0 < ce_sequence e \<and> ce_created_at e \<noteq> NotIso '''')"

lemma events_ok_append [simp]: "events_ok st \<Longrightarrow> events_ok (append_coord_event env ck n p st)"
  by (auto simp: events_ok_def append_coord_event_def coord_next_sequence_def next_seq_pos
      intro!: seq_increasing_snoc)

lemma events_ok_files [simp]:
  "events_ok (st\<lparr>cs_sessions := a\<rparr>) = events_ok st" "events_ok (st\<lparr>cs_tasks := b\<rparr>) = events_ok st"
  "events_ok (st\<lparr>cs_leases := c\<rparr>) = events_ok st" "events_ok (st\<lparr>cs_artifacts := d\<rparr>) = events_ok st"
  "events_ok (st\<lparr>cs_conflicts := e\<rparr>) = events_ok st"
  by (simp_all add: events_ok_def)

lemma iter_active_events_ok: "events_ok st \<Longrightarrow> events_ok (fst (iter_active_reservations env ck st))"
  unfolding iter_active_reservations_def
  by (rule foldl_invariant [where P = "\<lambda>acc. events_ok (fst acc)"])
    (auto simp: visit_lease_def split: prod.splits option.splits)

lemma mark_files_events_ok: "events_ok st \<Longrightarrow> events_ok (fst (mark_files_stale sid tid fs st))"
  by (induction sid tid fs st rule: mark_files_stale.induct) auto

lemma reserve_events_ok: "events_ok st \<Longrightarrow> events_ok (fst (reserve_paths env ck sid tid mode ps ttl st))"
  using iter_active_events_ok [of st env ck]
  by (auto simp: reserve_paths_def grant_reservation_def refuse_reservation_def Let_def
      split: sum.splits option.splits prod.splits)

lemma mark_lease_events_ok: "events_ok st \<Longrightarrow> events_ok (fst (mark_lease_stale env ck sid tid reason st))"
  using mark_files_events_ok [of st sid tid "sorted_files (cs_leases st)"]
  by (auto simp: mark_lease_stale_def split: prod.splits sum.splits)

lemma coord_exec_events_ok: "events_ok st \<Longrightarrow> events_ok (coord_exec env ck cmd st)"
  by (cases cmd)
    (auto simp: register_session_def heartbeat_def claim_task_def grant_task_def refuse_task_def Let_def
      publish_artifact_def report_conflict_def release_task_def record_event_def request_handoff_def
      release_paths_def mark_lease_events_ok reserve_events_ok split: option.splits sum.splits bool.splits)

lemma reachable_events_ok: "coord_reachable st t \<Longrightarrow> events_ok st"
  by (induction rule: coord_reachable.induct)
    (auto simp: coord_exec_events_ok, simp add: events_ok_def empty_coord_def)

text \<open>What the integrity check can find in a ledger the store wrote.\<close>

lemma check_lines_healthy:
  assumes "sorted_wrt (\<lambda>a b. ce_sequence a < ce_sequence b) (entries ls)"
    and "\<forall>l \<in> set ls. \<exists>e. l = Entry e \<and> 0 < ce_sequence e \<and> ce_created_at e \<noteq> NotIso ''''"
    and "\<forall>e \<in> set (entries ls). ce_sequence e \<notin> seqs"
    and "f \<in> set (check_lines n seqs ids ls)"
  shows "(\<exists>m i. f = Duplicate_event_id m i) \<or> (\<exists>m. f \<in> {Missing_field m ''event_id'', Missing_field m ''event_name''})"
  using assms
proof (induction n seqs ids ls rule: check_lines.induct)
  case (4 n seqs ids e ls)
  have later: "\<forall>d \<in> set (entries ls). ce_sequence d \<notin> insert (ce_sequence e) seqs"
    using "4.prems"(1,3) by auto
  from "4.prems" consider "f \<in> set (map (Missing_field n) (missing_fields e))"
    | "f = Duplicate_event_id n (ce_event_id e)"
    | "f \<in> set (check_lines (Suc n) (insert (ce_sequence e) seqs)
        (if ce_event_id e = '''' then ids else insert (ce_event_id e) ids) ls)"
    by (auto split: if_splits)
  then show ?case
  proof cases
    case 1
    with "4.prems"(2) show ?thesis by (auto simp: missing_fields_def split: if_splits)
  next
    case 3
    with "4.IH" [OF _ _ later] "4.prems"(1,2) show ?thesis by auto
  qed auto
qed auto

section \<open>Properties\<close>

definition demo_coord_env :: coord_env where
  "demo_coord_env =
    \<lparr>path_key = (\<lambda>s. s), payload_key = (\<lambda>p. ''k''), payload_hash = (\<lambda>p. ''h''), salted_path_hash = (\<lambda>p. p),
     task_conflict_hash = (\<lambda>s. s), projection_hash = (\<lambda>p. ''p'')\<rparr>"

definition demo_clock :: "int \<Rightarrow> coord_clock" where
  "demo_clock t = \<lparr>ck_expires = t, ck_now = t, ck_created = t, ck_event = t, ck_projection = t\<rparr>"

lemmas coord_evaluation =
  demo_clock_def reserve_paths_def now_plus_def in_range_def datetime_min_def
  datetime_max_def seconds_def iter_active_reservations_def visit_lease_def grant_reservation_def
  projection_def read_dir_def sorted_files_def validate_json_def project_reservation_def is_expired_def
  with_hash_def reservation_overlap_def same_owner_def lease_expired_def Let_def empty_coord_def
  append_coord_event_def

text \<open>Two sessions hold write reservations on different directories.\<close>

definition demo_coord1 :: CoordinationStore where
  "demo_coord1 = coord_exec demo_coord_env (demo_clock 0) (ReservePaths ''s1'' ''t1'' Mode_write [''src''] 60) empty_coord"

definition demo_coord2 :: CoordinationStore where
  "demo_coord2 = coord_exec demo_coord_env (demo_clock 1) (ReservePaths ''s2'' ''t2'' Mode_write [''docs''] 60) demo_coord1"

lemma normalize_demo: "normalize_path ''src'' = ''src''" "normalize_path ''docs'' = ''docs''"
  by (simp_all add: normalize_path_def path_parts_def splitroot_def)

lemma demo_coord_reachable: "coord_reachable demo_coord2 1"
proof -
  have "coord_reachable demo_coord1 0"
    using coord_reachable.call [OF coord_reachable.start [of 0], of "demo_clock 0"
      "ReservePaths ''s1'' ''t1'' Mode_write [''src''] 60" demo_coord_env]
    by (simp add: demo_coord1_def demo_clock_def normalize_demo)
  from coord_reachable.call [OF this, of "demo_clock 1"
      "ReservePaths ''s2'' ''t2'' Mode_write [''docs''] 60" demo_coord_env]
  show ?thesis by (simp add: demo_coord2_def demo_clock_def normalize_demo)
qed

lemma demo_coord_leases:
  "\<exists>r1 r2. dict_get (cs_leases demo_coord2) ''s1t1src'' = Some (Some r1) \<and>
     dict_get (cs_leases demo_coord2) ''s2t2docs'' = Some (Some r2) \<and>
     lease_live 2 r1 \<and> lease_live 2 r2 \<and> pr_session_id r1 = ''s1'' \<and> pr_session_id r2 = ''s2'' \<and>
     pr_mode r1 = Mode_write \<and> pr_paths r1 = [''src''] \<and> pr_paths r2 = [''docs'']"
  by (simp add: demo_coord2_def demo_coord1_def coord_evaluation demo_coord_env_def normalize_demo lease_key_def
      dict_set_def dict_get_def is_prefix_def startswith_def rstrip_slash_def lease_live_def)

text \<open>
  C3: write reservations exclude others.  In every store that calls can produce whose
  reserved paths are given in normal form (on a clock that does not go back), two
  active, unexpired reservations of different owners, one of them for writing, have no
  overlapping paths.
\<close>

theorem reservations_exclusive:
  assumes "coord_reachable st t" and "t \<le> t'"
    and "dict_get (cs_leases st) k1 = Some (Some r1)" and "dict_get (cs_leases st) k2 = Some (Some r2)"
    and "lease_live t' r1" and "lease_live t' r2"
    and "(pr_session_id r1, pr_task_id r1) \<noteq> (pr_session_id r2, pr_task_id r2)"
    and "pr_mode r1 = Mode_write \<or> pr_mode r2 = Mode_write"
  shows "\<not> overlapping (pr_paths r1) (pr_paths r2)"
proof -
  have "leases.excl (cs_leases st) t'"
    using reachable_leases_inv [OF assms(1)] leases.excl_later [OF _ assms(2)] by (simp add: leases_inv_def)
  then show ?thesis using assms(3-8) by (rule lease_pair_free)
qed

theorem reservations_exclusive_witness:
  "\<exists>r1 r2. dict_get (cs_leases demo_coord2) ''s1t1src'' = Some (Some r1) \<and>
     dict_get (cs_leases demo_coord2) ''s2t2docs'' = Some (Some r2) \<and> \<not> overlapping (pr_paths r1) (pr_paths r2)"
proof -
  obtain r1 r2 where r: "dict_get (cs_leases demo_coord2) ''s1t1src'' = Some (Some r1)"
     "dict_get (cs_leases demo_coord2) ''s2t2docs'' = Some (Some r2)"
     "lease_live 2 r1" "lease_live 2 r2" "pr_session_id r1 = ''s1''" "pr_session_id r2 = ''s2''" "pr_mode r1 = Mode_write"
    using demo_coord_leases by blast
  from reservations_exclusive [OF demo_coord_reachable _ r(1-4)] r show ?thesis by auto
qed

lemma dot_slash_parts: "path_parts (CHR ''.'' # CHR ''/'' # p) = filter (\<lambda>c. c \<noteq> [] \<and> c \<noteq> ''.'') (split_slash p)"
  by (simp add: path_parts_def splitroot_def)

lemma normalize_dot_slash:
  assumes "fst (splitroot p) = []"
  shows "normalize_path (''./'' @ p) = normalize_path p"
proof -
  have "snd (splitroot p) = p" using assms by (auto simp: splitroot_def split: if_splits)
  then have "path_parts p = path_parts (''./'' @ p)" by (simp add: path_parts_def [of p] dot_slash_parts)
  moreover have "fst (splitroot (''./'' @ p)) = []" by (simp add: splitroot_def)
  ultimately show ?thesis using assms by (simp add: normalize_path_def)
qed

lemma rstrip_slash_snoc: "rstrip_slash (s @ [c]) = (if c = CHR ''/'' then rstrip_slash s else s @ [c])"
  by (simp add: rstrip_slash_def)

lemma rstrip_slash_length: "length (rstrip_slash s) \<le> length s"
  using length_dropWhile_le [of _ "rev s"] by (simp add: rstrip_slash_def)

lemma rstrip_slash_fixed:
  assumes "rstrip_slash p = p" and "p \<noteq> []"
  shows "rstrip_slash (x @ p) = x @ p"
proof -
  obtain q c where p: "p = q @ [c]" using assms(2) by (cases p rule: rev_cases) auto
  with assms(1) rstrip_slash_length [of q] have "c \<noteq> CHR ''/''"
    by (auto simp: rstrip_slash_snoc dest: arg_cong [of _ _ length] split: if_splits)
  then show ?thesis using rstrip_slash_snoc [of "x @ q" c] by (simp add: p)
qed

lemma dot_slash_no_prefix:
  assumes "path_parts p \<noteq> []" and "fst (splitroot p) = []" and "normalize_path p = p"
  shows "\<not> is_prefix p (''./'' @ p) \<and> \<not> is_prefix (''./'' @ p) p"
proof -
  have head: "\<not> startswith p ''./''" using normal_relative_head [OF assms(1,2)] assms(3) by simp
  have strip: "rstrip_slash p = p"
    using normal_decompose(2) [OF assms(1)] assms(3) by simp
  have dot: "p \<noteq> ''.''" "p \<noteq> []" using assms(1) by (auto simp: path_parts_def splitroot_def)
  have "\<not> startswith (''./'' @ p) (p @ ''/'')"
  proof
    assume "startswith (''./'' @ p) (p @ ''/'')"
    then have "prefix (p @ ''/'') (''./'' @ p)" by (simp add: startswith_prefix)
    with dot head show False
      by (cases p; cases "tl p") (auto simp: startswith_prefix)
  qed
  moreover have "length p < length (rstrip_slash (''./'' @ p) @ ''/'')"
  proof -
    have "rstrip_slash (''./'' @ p) = ''./'' @ p" by (rule rstrip_slash_fixed [OF strip dot(2)])
    then show ?thesis by simp
  qed
  then have "\<not> startswith p (rstrip_slash (''./'' @ p) @ ''/'')"
    by (auto simp: startswith_prefix dest: prefix_length_le)
  ultimately show ?thesis by (simp add: is_prefix_def strip)
qed

text \<open>
  An unnormalised path slips past the exclusion.  The store keeps normalised paths
  but compares them with the raw paths of the request.  Whatever relative path one
  session has reserved for writing, another session gets a write reservation of the same
  path by asking for it with a leading dot-slash.
\<close>

theorem raw_path_bypasses_exclusion:
  assumes "path_parts p \<noteq> []" and "fst (splitroot p) = []" and "normalize_path p = p"
  shows "\<exists>st1 r1 st2 r2 l1 l2.
    reserve_paths env (demo_clock 0) ''s1'' ''t1'' Mode_write [p] 60 empty_coord = (st1, Inr r1) \<and>
    reserve_paths env (demo_clock 1) ''s2'' ''t2'' Mode_write [''./'' @ p] 60 st1 = (st2, Inr r2) \<and>
    rr_allowed r1 \<and> rr_allowed r2 \<and> rr_reservation r1 = Some l1 \<and> rr_reservation r2 = Some l2 \<and>
    pr_paths l1 = [p] \<and> pr_paths l2 = [p] \<and> lease_live 1 l1 \<and> lease_live 1 l2"
  using dot_slash_no_prefix [OF assms] normalize_dot_slash [OF assms(2)] assms(3)
  by (simp add: coord_evaluation dict_set_def lease_live_def)

theorem raw_path_bypasses_exclusion_witness:
  "\<exists>st1 r1 st2 r2. reserve_paths demo_coord_env (demo_clock 0) ''s1'' ''t1'' Mode_write [''src/a.py''] 60 empty_coord = (st1, Inr r1) \<and>
     reserve_paths demo_coord_env (demo_clock 1) ''s2'' ''t2'' Mode_write [''./src/a.py''] 60 st1 = (st2, Inr r2) \<and>
     rr_allowed r1 \<and> rr_allowed r2"
proof -
  have "path_parts ''src/a.py'' \<noteq> []" "fst (splitroot ''src/a.py'') = []" "normalize_path ''src/a.py'' = ''src/a.py''"
    by (simp_all add: normalize_path_def path_parts_def splitroot_def)
  from raw_path_bypasses_exclusion [OF this, of demo_coord_env] show ?thesis by auto
qed

definition held_by_other :: "CoordinationStore \<Rightarrow> int \<Rightarrow> string \<Rightarrow> string \<Rightarrow> bool" where
  "held_by_other st now sid tid \<longleftrightarrow>
    (case dict_get (cs_tasks st) tid of
       Some (Some c) \<Rightarrow> tc_status c = Cl_active \<and>
         stamp_expired (claim_expiry (tc_expires_at c)) now = Inr False \<and>
         \<not> (tc_session_id c = sid \<and> tc_task_id c = tid)
     | _ \<Rightarrow> False)"

text \<open>
  What decides a task claim.  A claim is refused exactly when the task's file holds
  an active, unexpired claim of another session; a refusal leaves the task files as they
  are, and after an allowed claim the task's file holds an active claim of the caller.
\<close>

theorem claim_task_decides:
  assumes "claim_task env ck sid tid kind ttl scope st = (st', Inr r)"
  shows "(clr_allowed r \<longleftrightarrow> \<not> held_by_other st (ck_now ck) sid tid) \<and>
    (if clr_allowed r
     then \<exists>c. dict_get (cs_tasks st') tid = Some (Some c) \<and> tc_session_id c = sid \<and> tc_task_id c = tid \<and> tc_status c = Cl_active
     else cs_tasks st' = cs_tasks st)"
  using assms
  by (auto simp: claim_task_def grant_task_def refuse_task_def held_by_other_def Let_def dict_simps
      split: sum.splits option.splits if_splits bool.splits)

definition demo_tasks :: CoordinationStore where
  "demo_tasks = fst (claim_task demo_coord_env (demo_clock 0) ''s1'' ''t'' ''impl'' 60 [] empty_coord)"

theorem claim_task_decides_witness:
  "\<exists>st' r. claim_task demo_coord_env (demo_clock 1) ''s2'' ''t'' ''impl'' 60 [] demo_tasks = (st', Inr r) \<and>
     held_by_other demo_tasks 1 ''s2'' ''t'' \<and> \<not> clr_allowed r \<and> cs_tasks st' = cs_tasks demo_tasks"
proof -
  obtain st' r where r: "claim_task demo_coord_env (demo_clock 1) ''s2'' ''t'' ''impl'' 60 [] demo_tasks = (st', Inr r)"
    and held: "held_by_other demo_tasks 1 ''s2'' ''t''"
    by (simp add: demo_tasks_def claim_task_def grant_task_def refuse_task_def held_by_other_def coord_evaluation
        dict_set_def dict_get_def claim_expiry_def)
  from claim_task_decides [OF r] r held show ?thesis by (simp add: demo_clock_def)
qed

text \<open>
  A task claim is not safe from other sessions.  \<^verbatim>\<open>release_task\<close> does not compare the
  caller with the owner, so any session can release an active claim of another and then
  be granted the task itself.
\<close>

theorem task_claim_can_be_taken_over:
  assumes "dict_get (cs_tasks st) tid = Some (Some c)"
    and "release_task env ck other tid st = (st1, r1)"
    and "claim_task env ck other tid kind ttl scope st1 = (st2, Inr r2)"
  shows "clr_allowed r2 \<and> (\<exists>c'. dict_get (cs_tasks st2) tid = Some (Some c') \<and> tc_session_id c' = other)"
  using assms
  by (auto simp: release_task_def claim_task_def grant_task_def Let_def dict_simps split: sum.splits)

theorem task_claim_can_be_taken_over_witness:
  "\<exists>st1 st2 r2. release_task demo_coord_env (demo_clock 1) ''s2'' ''t'' demo_tasks = (st1, Inr ()) \<and>
     claim_task demo_coord_env (demo_clock 1) ''s2'' ''t'' ''impl'' 60 [] st1 = (st2, Inr r2) \<and> clr_allowed r2"
proof -
  obtain c st1 where st1: "release_task demo_coord_env (demo_clock 1) ''s2'' ''t'' demo_tasks = (st1, Inr ())"
      "dict_get (cs_tasks demo_tasks) ''t'' = Some (Some c)"
    by (simp add: demo_tasks_def claim_task_def grant_task_def release_task_def coord_evaluation dict_set_def dict_get_def)
  then obtain st2 r2 where st2: "claim_task demo_coord_env (demo_clock 1) ''s2'' ''t'' ''impl'' 60 [] st1 = (st2, Inr r2)"
    by (auto simp: demo_tasks_def claim_task_def grant_task_def release_task_def coord_evaluation dict_set_def dict_get_def)
  from task_claim_can_be_taken_over [OF st1(2,1) st2] st1(1) st2 show ?thesis by auto
qed

text \<open>
  What a ledger written by the store looks like to \<^verbatim>\<open>check_ledger_integrity\<close>.  Sequence
  numbers strictly increase, so no line is malformed, repeats a sequence number or lacks
  one; the only findings possible are an empty event id or name, or a repeated event id.
\<close>

theorem coordination_ledger_healthy:
  assumes "coord_reachable st t"
  shows "sorted_wrt (<) (map ce_sequence (entries (cs_events st))) \<and>
    (\<forall>f \<in> set (check_ledger_integrity (cs_events st)).
       (\<exists>m i. f = Duplicate_event_id m i) \<or> (\<exists>m. f \<in> {Missing_field m ''event_id'', Missing_field m ''event_name''}))"
  using reachable_events_ok [OF assms] check_lines_healthy [of "cs_events st" "{}"]
  by (auto simp: events_ok_def seq_increasing_def sorted_wrt_map check_ledger_integrity_def)

theorem coordination_ledger_healthy_witness:
  "sorted_wrt (<) (map ce_sequence (entries (cs_events demo_coord2))) \<and> length (cs_events demo_coord2) = 2"
  using coordination_ledger_healthy [OF demo_coord_reachable]
  by (simp add: demo_coord2_def demo_coord1_def coord_evaluation demo_coord_env_def normalize_demo lease_key_def
      dict_set_def dict_get_def is_prefix_def startswith_def rstrip_slash_def)

lemma check_lines_seen:
  assumes "e \<in> set (entries ls)" and "ce_event_id e \<noteq> ''''" and "ce_event_id e \<in> ids"
  shows "\<exists>m. Duplicate_event_id m (ce_event_id e) \<in> set (check_lines n seqs ids ls)"
  using assms
proof (induction n seqs ids ls rule: check_lines.induct)
  case (4 n seqs ids d ls)
  show ?case
  proof (cases "e = d")
    case False
    with "4.IH" "4.prems" show ?thesis by (auto split: if_splits)
  qed (use "4.prems" in auto)
qed auto

lemma check_lines_repeated:
  assumes "d \<in> set (entries xs)" and "e \<in> set (entries ys)" and "ce_event_id d = ce_event_id e" and "ce_event_id e \<noteq> ''''"
  shows "\<exists>m. Duplicate_event_id m (ce_event_id e) \<in> set (check_lines n seqs ids (xs @ ys))"
  using assms(1)
proof (induction n seqs ids xs rule: check_lines.induct)
  case (4 n seqs ids c ls)
  show ?case
  proof (cases "d = c")
    case True
    with check_lines_seen [of e "ls @ ys" "insert (ce_event_id e) ids" "Suc n" "insert (ce_sequence c) seqs"] assms(2-4)
    show ?thesis by auto
  next
    case False
    with "4" show ?thesis by auto
  qed
qed auto

text \<open>
  The integrity check reports corruption in a sound ledger.  An event's id is the hash
  of its payload alone, so two calls with the same arguments give the same id: after
  releasing the same task twice the check reports a repeated event id, whatever the store
  and the hash.
\<close>

theorem integrity_check_flags_repeated_call:
  assumes "release_task env ck sid tid st = (st1, Inr u)" and "release_task env ck' sid tid st1 = (st2, Inr v)"
    and "payload_key env (build_task_released_payload sid tid) \<noteq> ''''"
  shows "\<exists>m. Duplicate_event_id m (payload_key env (build_task_released_payload sid tid))
    \<in> set (check_ledger_integrity (cs_events st2))"
proof -
  have "\<exists>e. cs_events (fst (release_task env ck sid tid st)) = cs_events st @ [Entry e] \<and>
      ce_event_id e = payload_key env (build_task_released_payload sid tid)"
    if "release_task env ck sid tid st = (s', Inr u)" for ck st s' u
    using that by (auto simp: release_task_def append_coord_event_def Let_def split: option.splits)
  from this [OF assms(1)] this [OF assms(2)] assms(1,2) obtain d e where
    "cs_events st2 = (cs_events st @ [Entry d]) @ [Entry e]"
    "ce_event_id d = payload_key env (build_task_released_payload sid tid)"
    "ce_event_id e = payload_key env (build_task_released_payload sid tid)" by auto
  with check_lines_repeated [of d "cs_events st @ [Entry d]" e "[Entry e]"] assms(3) show ?thesis
    by (simp add: check_ledger_integrity_def)
qed

theorem integrity_check_flags_repeated_call_witness:
  "\<exists>st1 st2 m. release_task demo_coord_env (demo_clock 0) ''s'' ''t'' empty_coord = (st1, Inr ()) \<and>
     release_task demo_coord_env (demo_clock 1) ''s'' ''t'' st1 = (st2, Inr ()) \<and>
     Duplicate_event_id m ''k'' \<in> set (check_ledger_integrity (cs_events st2))"
proof -
  obtain st1 st2 where r: "release_task demo_coord_env (demo_clock 0) ''s'' ''t'' empty_coord = (st1, Inr ())"
      "release_task demo_coord_env (demo_clock 1) ''s'' ''t'' st1 = (st2, Inr ())"
    by (simp add: release_task_def coord_evaluation)
  have "payload_key demo_coord_env p = ''k''" for p by (simp add: demo_coord_env_def)
  with integrity_check_flags_repeated_call [OF r] r show ?thesis by auto
qed

end
