(* ===== verification/Path_Leases.thy ===== *)
theory Path_Leases
  imports Coordination_Properties
begin

text \<open>
  The runtime's path leases on top of the coordination store:
  \<^verbatim>\<open>rig_relay/coordination/lease_manager.py\<close> (claim, release, renew, query) and the lease
  gate for mutation tools of \<^verbatim>\<open>rig_relay/runtime/_lease_gate.py\<close>.  An exception of the
  store leaves the manager unless the source catches it.
\<close>

section \<open>The lease manager\<close>

definition DEFAULT_LEASE_TTL_SECONDS :: int where
  "DEFAULT_LEASE_TTL_SECONDS = 120"

datatype lease_mode = exclusive_write_lease | shared_read_lease

record PathLease =
  pl_session_id :: string
  pl_task_id :: string
  pl_mode :: reservation_mode
  pl_paths :: "string list"
  pl_expires_at :: timestamp
  pl_status :: reservation_status
  pl_created_at :: timestamp

record LeaseClaimResult =
  lcr_status :: string
  lcr_lease :: "PathLease option"
  lcr_error_kind :: "string option"
  lcr_refusal_reason :: "string option"

definition lease_error :: "string \<Rightarrow> string \<Rightarrow> string \<Rightarrow> LeaseClaimResult" where
  "lease_error status kind reason =
    \<lparr>lcr_status = status, lcr_lease = None, lcr_error_kind = Some kind, lcr_refusal_reason = Some reason\<rparr>"

text \<open>\<^verbatim>\<open>reservation.expires_at or ""\<close>.\<close>

definition expires_or_empty :: "timestamp option \<Rightarrow> timestamp" where
  "expires_or_empty e = (case e of None \<Rightarrow> NotIso '''' | Some ts \<Rightarrow> ts)"

definition conflict_result :: "CoordinationConflict option \<Rightarrow> string \<Rightarrow> LeaseClaimResult" where
  "conflict_result conflict fallback =
    \<lparr>lcr_status = ''conflict'', lcr_lease = None,
     lcr_error_kind = Some (case conflict of Some c \<Rightarrow> cf_kind c | None \<Rightarrow> ''conflict''),
     lcr_refusal_reason = (case conflict of Some c \<Rightarrow> cf_recommended_resolution c | None \<Rightarrow> Some fallback)\<rparr>"

definition claim_paths ::
  "coord_env \<Rightarrow> coord_clock \<Rightarrow> string \<Rightarrow> string \<Rightarrow> lease_mode \<Rightarrow> string list \<Rightarrow> int \<Rightarrow> LeaseClaimResult coord_op" where
  "claim_paths env ck sid tid mode paths ttl st =
    (if paths = []
     then (st, Inr (lease_error ''error'' ''no_paths'' ''At least one path required for lease claim''))
     else
       let store_mode = (if mode = exclusive_write_lease then Mode_write else Mode_read) in
       case reserve_paths env ck sid tid store_mode paths ttl st of
         (st', Inl err) \<Rightarrow> (st', Inl err)
       | (st', Inr r) \<Rightarrow>
           (st', Inr
             (if \<not> rr_allowed r then conflict_result (rr_conflict r) ''Path lease conflict''
              else case rr_reservation r of
                None \<Rightarrow> lease_error ''error'' ''missing_reservation''
                          ''Store returned success but no reservation object''
              | Some v \<Rightarrow>
                  \<lparr>lcr_status = ''granted'',
                   lcr_lease = Some \<lparr>pl_session_id = pr_session_id v, pl_task_id = pr_task_id v,
                     pl_mode = store_mode, pl_paths = pr_paths v, pl_expires_at = expires_or_empty (pr_expires_at v),
                     pl_status = pr_status v, pl_created_at = pr_created_at v\<rparr>,
                   lcr_error_kind = None, lcr_refusal_reason = None\<rparr>)))"

text \<open>The text of a caught exception, \<^verbatim>\<open>str(e)\<close>, is not modelled.\<close>

definition granted_only :: LeaseClaimResult where
  "granted_only = \<lparr>lcr_status = ''granted'', lcr_lease = None, lcr_error_kind = None, lcr_refusal_reason = None\<rparr>"

definition manager_release_paths ::
  "coord_env \<Rightarrow> coord_clock \<Rightarrow> string \<Rightarrow> string \<Rightarrow> string list \<Rightarrow> LeaseClaimResult coord_op" where
  "manager_release_paths env ck sid tid paths st =
    (if paths = []
     then (st, Inr (lease_error ''not_found'' ''no_paths'' ''At least one path required for lease release''))
     else case release_paths env ck sid tid paths st of
       (st', Inl err) \<Rightarrow> (st', Inr (lease_error ''error'' ''release_failed'' ''''))
     | (st', Inr u) \<Rightarrow> (st', Inr granted_only))"

definition renew_lease ::
  "coord_env \<Rightarrow> coord_clock \<Rightarrow> string \<Rightarrow> string \<Rightarrow> string list \<Rightarrow> int \<Rightarrow> LeaseClaimResult coord_op" where
  "renew_lease env ck sid tid paths ttl st =
    (if paths = []
     then (st, Inr (lease_error ''not_found'' ''no_paths'' ''At least one path required for lease renewal''))
     else case reserve_paths env ck sid tid Mode_read paths ttl st of
       (st', Inl err) \<Rightarrow> (st', Inl err)
     | (st', Inr r) \<Rightarrow>
         (st', Inr (if \<not> rr_allowed r then conflict_result (rr_conflict r) ''Path lease conflict during renewal''
                    else granted_only)))"

text \<open>
  The query reads the lease files in directory order, which is the order of the
  association list, and skips files that are not JSON (here: that do not validate); it
  compares with \<open>expires_dt < now\<close>, where the store uses at most.
\<close>

definition strictly_expired :: "int \<Rightarrow> timestamp option \<Rightarrow> bool" where
  "strictly_expired now e = (case e of Some (Aware t) \<Rightarrow> t < now | _ \<Rightarrow> False)"

definition owner_filter :: "string option \<Rightarrow> string \<Rightarrow> bool" where
  "owner_filter wanted actual \<longleftrightarrow> (case wanted of None \<Rightarrow> True | Some w \<Rightarrow> w = '''' \<or> actual = w)"

definition query_active_leases ::
  "int \<Rightarrow> string option \<Rightarrow> string option \<Rightarrow> CoordinationStore \<Rightarrow> PathLease list" where
  "query_active_leases now sid tid st =
    map (\<lambda>r. \<lparr>pl_session_id = pr_session_id r, pl_task_id = pr_task_id r, pl_mode = pr_mode r,
              pl_paths = pr_paths r, pl_expires_at = expires_or_empty (pr_expires_at r),
              pl_status = pr_status r, pl_created_at = pr_created_at r\<rparr>)
      (filter (\<lambda>r. pr_status r = Rs_active \<and> owner_filter sid (pr_session_id r) \<and>
                   owner_filter tid (pr_task_id r) \<and> \<not> strictly_expired now (pr_expires_at r))
        (List.map_filter (\<lambda>f. snd f) (cs_leases st)))"

section \<open>The gate for mutation tools\<close>

text \<open>The envelope's fields that the gate reads; an attribute it lacks has the default of \<^verbatim>\<open>getattr\<close>.\<close>

record mutation_envelope =
  env_coordination_enabled :: bool
  env_session_id :: string
  env_task_id :: string
  env_lease_ttl_seconds :: "int option"
  env_invocation_id :: string
  env_tool_name :: string

record LeaseClaimOutcome =
  lo_blocked :: bool
  lo_granted :: bool
  lo_lease_info :: "(string \<times> string \<times> string list) option"
  lo_error_kind :: "string option"
  lo_refusal_reason :: "string option"
  lo_intent_id :: "string option"
  lo_tool_name :: "string option"

definition gate_blocked :: "mutation_envelope \<Rightarrow> string \<Rightarrow> string \<Rightarrow> LeaseClaimOutcome" where
  "gate_blocked e kind reason =
    \<lparr>lo_blocked = True, lo_granted = False, lo_lease_info = None, lo_error_kind = Some kind,
     lo_refusal_reason = Some reason, lo_intent_id = Some (env_invocation_id e), lo_tool_name = Some (env_tool_name e)\<rparr>"

text \<open>\<^verbatim>\<open>x or default\<close> on an optional string and on an optional number.\<close>

definition str_or :: "string option \<Rightarrow> string \<Rightarrow> string" where
  "str_or x d = (case x of None \<Rightarrow> d | Some s \<Rightarrow> if s = '''' then d else s)"

definition int_or :: "int option \<Rightarrow> int \<Rightarrow> int" where
  "int_or x d = (case x of None \<Rightarrow> d | Some n \<Rightarrow> if n = 0 then d else n)"

definition claim_mutation_lease ::
  "coord_env \<Rightarrow> coord_clock \<Rightarrow> mutation_envelope \<Rightarrow> string \<Rightarrow> CoordinationStore \<Rightarrow>
   CoordinationStore \<times> LeaseClaimOutcome" where
  "claim_mutation_lease env ck e file_path st =
    (if \<not> env_coordination_enabled e \<or> env_session_id e = '''' \<or> env_task_id e = '''' \<or> file_path = ''''
     then (st, \<lparr>lo_blocked = False, lo_granted = False, lo_lease_info = None, lo_error_kind = None,
                lo_refusal_reason = None, lo_intent_id = None, lo_tool_name = None\<rparr>)
     else case claim_paths env ck (env_session_id e) (env_task_id e) exclusive_write_lease [file_path]
                 (int_or (env_lease_ttl_seconds e) DEFAULT_LEASE_TTL_SECONDS) st of
       (st', Inl err) \<Rightarrow>
         (st', gate_blocked e ''lease_store_error'' ''Lease store error prevented lease acquisition'')
     | (st', Inr r) \<Rightarrow>
         (st', if lcr_status r = ''conflict''
               then gate_blocked e (str_or (lcr_error_kind r) ''lease_conflict'')
                      (str_or (lcr_refusal_reason r) ''Path lease conflict'')
               else if lcr_status r = ''granted''
               then \<lparr>lo_blocked = False, lo_granted = True,
                     lo_lease_info = Some (env_session_id e, env_task_id e, [file_path]),
                     lo_error_kind = None, lo_refusal_reason = None, lo_intent_id = None, lo_tool_name = None\<rparr>
               else gate_blocked e (str_or (lcr_error_kind r) ''lease_error'')
                      (str_or (lcr_refusal_reason r) ''Lease acquisition returned unexpected status'')))"

definition release_mutation_lease ::
  "coord_env \<Rightarrow> coord_clock \<Rightarrow> string \<Rightarrow> string \<Rightarrow> string list \<Rightarrow> CoordinationStore \<Rightarrow> CoordinationStore" where
  "release_mutation_lease env ck sid tid paths st =
    (if sid = '''' \<or> tid = '''' \<or> paths = [] then st
     else fst (manager_release_paths env ck sid tid paths st))"

section \<open>What a granted reservation leaves behind\<close>

lemma reserve_granted:
  assumes "reserve_paths env ck sid tid mode paths ttl st = (st', Inr r)" and "rr_allowed r"
  obtains v where "dict_get (cs_leases st') (lease_key env sid tid (map normalize_path paths)) = Some (Some v)"
    and "rr_reservation r = Some v" and "pr_mode v = mode" and "pr_session_id v = sid" and "pr_task_id v = tid"
    and "pr_paths v = map normalize_path paths" and "pr_status v = Rs_active"
    and "pr_expires_at v = Some (Aware (ck_expires ck + seconds ttl))"
  using assms
  by (auto simp: reserve_paths_def refuse_reservation_def grant_reservation_def Let_def dict_simps now_plus_def
      split: sum.splits option.splits prod.splits if_splits)

section \<open>Properties of the lease manager\<close>

text \<open>
  Renewing a lease turns it into a read lease.  \<^verbatim>\<open>renew_lease\<close> reserves the paths anew in
  read mode under the same file, so after a successful renewal of an exclusive write lease
  the store holds only a read lease, and a reader of another session is admitted to the
  paths.
\<close>

theorem renewal_downgrades_write_lease:
  assumes "claim_paths env ck sid tid exclusive_write_lease paths ttl st = (st1, Inr r1)"
    and "lcr_status r1 = ''granted''"
    and "renew_lease env ck' sid tid paths ttl' st1 = (st2, Inr r2)" and "lcr_status r2 = ''granted''"
  shows "\<exists>v w. dict_get (cs_leases st1) (lease_key env sid tid (map normalize_path paths)) = Some (Some v) \<and>
    pr_mode v = Mode_write \<and>
    dict_get (cs_leases st2) (lease_key env sid tid (map normalize_path paths)) = Some (Some w) \<and>
    pr_mode w = Mode_read \<and> pr_paths w = pr_paths v \<and>
    (\<forall>sid' tid'. reservation_overlap sid' tid' Mode_read (pr_paths v) w = None)"
proof -
  have ne: "paths \<noteq> []" using assms(1,2) by (auto simp: claim_paths_def lease_error_def)
  obtain q1 where q1: "reserve_paths env ck sid tid Mode_write paths ttl st = (st1, Inr q1)" "rr_allowed q1"
    using assms(1,2) ne
    by (auto simp: claim_paths_def conflict_result_def lease_error_def split: prod.splits sum.splits if_splits)
  obtain q2 where q2: "reserve_paths env ck' sid tid Mode_read paths ttl' st1 = (st2, Inr q2)" "rr_allowed q2"
    using assms(3,4) ne
    by (auto simp: renew_lease_def conflict_result_def split: prod.splits sum.splits if_splits)
  from q1 obtain v where v: "dict_get (cs_leases st1) (lease_key env sid tid (map normalize_path paths)) = Some (Some v)"
    "pr_mode v = Mode_write" "pr_paths v = map normalize_path paths" by (rule reserve_granted)
  from q2 obtain w where w: "dict_get (cs_leases st2) (lease_key env sid tid (map normalize_path paths)) = Some (Some w)"
    "pr_mode w = Mode_read" "pr_paths w = map normalize_path paths" by (rule reserve_granted)
  from v w show ?thesis by (auto simp: reservation_overlap_def)
qed

theorem renewal_downgrades_write_lease_witness:
  "\<exists>st1 r1 st2 r2 w.
     claim_paths demo_coord_env (demo_clock 0) ''s1'' ''t1'' exclusive_write_lease [''src''] 60 empty_coord = (st1, Inr r1) \<and>
     renew_lease demo_coord_env (demo_clock 1) ''s1'' ''t1'' [''src''] 60 st1 = (st2, Inr r2) \<and>
     dict_get (cs_leases st2) ''s1t1src'' = Some (Some w) \<and> pr_mode w = Mode_read"
proof -
  obtain st1 r1 where r1: "claim_paths demo_coord_env (demo_clock 0) ''s1'' ''t1'' exclusive_write_lease [''src''] 60 empty_coord = (st1, Inr r1)"
      "lcr_status r1 = ''granted''"
    by (simp add: claim_paths_def coord_evaluation)
  then obtain st2 r2 where r2: "renew_lease demo_coord_env (demo_clock 1) ''s1'' ''t1'' [''src''] 60 st1 = (st2, Inr r2)"
      "lcr_status r2 = ''granted''"
    by (auto simp: claim_paths_def renew_lease_def coord_evaluation granted_only_def dict_set_def)
  have "lease_key demo_coord_env ''s1'' ''t1'' (map normalize_path [''src'']) = ''s1t1src''"
    by (simp add: lease_key_def demo_coord_env_def normalize_demo)
  with renewal_downgrades_write_lease [OF r1 r2] r1(1) r2(1) show ?thesis by auto
qed

section \<open>The gate\<close>

text \<open>When the gate grants, the store has granted a write reservation of the path.\<close>

lemma gate_granted:
  assumes "claim_mutation_lease env ck e p st = (st', out)" and "lo_granted out"
  obtains q where "reserve_paths env ck (env_session_id e) (env_task_id e) Mode_write [p]
      (int_or (env_lease_ttl_seconds e) DEFAULT_LEASE_TTL_SECONDS) st = (st', Inr q)" and "rr_allowed q"
  using assms
  by (auto simp: claim_mutation_lease_def claim_paths_def gate_blocked_def conflict_result_def
      split: prod.splits sum.splits if_splits)

lemma gate_decides:
  assumes "claim_mutation_lease env ck e p st = (st', out)"
    and "env_coordination_enabled e" and "env_session_id e \<noteq> ''''" and "env_task_id e \<noteq> ''''" and "p \<noteq> ''''"
  shows "lo_blocked out \<longleftrightarrow> \<not> lo_granted out"
  using assms
  by (auto simp: claim_mutation_lease_def gate_blocked_def split: prod.splits sum.splits if_splits)

end
