(* ===== verification/Execution_Lease.thy ===== *)
theory Execution_Lease
  imports Relay_Interfaces
begin

text \<open>
  Execution leases, \<^verbatim>\<open>rig_relay/coordination/execution_lease.py\<close>: the time-bounded
  authorisation to execute a command in a worktree or workspace, and its file-backed
  store.  The store is an association list from file stems to contents, \<open>None\<close> for a file
  that does not validate.  Writes succeed; a call is one step.
\<close>

section \<open>Requests and leases\<close>

text \<open>\<open>er_rest\<close> stands for the fields of \<^verbatim>\<open>ExecutionRequest\<close> that the store only copies.\<close>

record 'r ExecutionRequest =
  er_request_id :: string
  er_workspace_id :: "string option"
  er_worktree_path :: "string option"
  er_rest :: 'r

datatype ExecutionLeaseStatus = L_PENDING | L_ACTIVE | L_RELEASED | L_EXPIRED | L_CANCELLED | L_FAILED

record 'r ExecutionLease =
  el_lease_id :: string
  el_request :: "'r ExecutionRequest"
  el_workspace_id :: "string option"
  el_worktree_path :: "string option"
  el_acquired_at :: timestamp
  el_expires_at :: timestamp
  el_released_at :: "timestamp option"
  el_status :: ExecutionLeaseStatus
  el_refusal_reason :: "string option"
  el_error_kind :: "string option"

text \<open>The \<^verbatim>\<open>refusal_reason\<close> of a result is a message for people and is left out.\<close>

record 'r ExecutionLeaseResult =
  xr_status :: string
  xr_lease :: "'r ExecutionLease option"
  xr_error_kind :: "string option"

definition lease_failure :: "string \<Rightarrow> string \<Rightarrow> 'r ExecutionLease option \<Rightarrow> 'r ExecutionLeaseResult" where
  "lease_failure status kind l = \<lparr>xr_status = status, xr_lease = l, xr_error_kind = Some kind\<rparr>"

type_synonym 'r lease_files = "(string, 'r ExecutionLease option) dict"

type_synonym ('r, 'a) lease_op = "'r lease_files \<Rightarrow> 'r lease_files \<times> 'a result"

section \<open>Files\<close>

definition validate_lease_id :: "string \<Rightarrow> unit result" where
  "validate_lease_id i =
    (if i = '''' then Inl (ValueError ''lease_id must be non-empty'')
     else if startswith i ''.'' then Inl (ValueError ''lease_id must not start with dot'')
     else if CHR ''/'' \<in> set i \<or> CHR 0x5C \<in> set i
       then Inl (ValueError ''lease_id must not contain path separators'')
     else Inr ())"

definition write_lease :: "'r ExecutionLease \<Rightarrow> ('r, unit) lease_op" where
  "write_lease l fs =
    (case validate_lease_id (el_lease_id l) of
       Inl err \<Rightarrow> (fs, Inl err)
     | Inr u \<Rightarrow> (dict_set (el_lease_id l) (Some l) fs, Inr ()))"

text \<open>A missing or malformed file reads as \<open>None\<close>.\<close>

definition read_lease_file :: "string \<Rightarrow> 'r lease_files \<Rightarrow> 'r ExecutionLease option result" where
  "read_lease_file i fs =
    and_then (validate_lease_id i) (\<lambda>u. Inr (case dict_get fs i of Some (Some l) \<Rightarrow> Some l | _ \<Rightarrow> None))"

text \<open>The readable leases in the order of the file names.\<close>

definition iter_leases :: "'r lease_files \<Rightarrow> 'r ExecutionLease list" where
  "iter_leases fs = List.map_filter snd (sort_key (\<lambda>(stem, c). stem @ ''.json'') fs)"

section \<open>Operations\<close>

text \<open>
  One existing lease in the conflict check of \<^verbatim>\<open>acquire\<close>: \<open>None\<close> when it does not conflict.
  Leases that are not active or have no readable expiry are skipped; comparing a naive
  expiry raises.  An empty worktree path or workspace id counts as absent.
\<close>

definition present :: "string option \<Rightarrow> bool" where
  "present x \<longleftrightarrow> x \<noteq> None \<and> x \<noteq> Some ''''"

definition lease_conflict ::
  "'r ExecutionRequest \<Rightarrow> int \<Rightarrow> 'r ExecutionLease \<Rightarrow> 'r ExecutionLeaseResult option result" where
  "lease_conflict q now l =
    (if el_status l \<noteq> L_ACTIVE then Inr None
     else case fromisoformat (el_expires_at l) of
       Inl err \<Rightarrow> Inr None
     | Inr d \<Rightarrow>
        and_then (at_or_before d now) (\<lambda>expired.
          if expired then Inr None
          else if present (er_worktree_path q) \<and> el_worktree_path l = er_worktree_path q
            then Inr (Some (lease_failure ''refused'' ''active_worktree_lease_exists'' None))
          else if \<not> present (er_worktree_path q) \<and> present (er_workspace_id q) \<and>
                  el_workspace_id l = er_workspace_id q
            then Inr (Some (lease_failure ''refused'' ''active_workspace_lease_exists'' None))
          else Inr None))"

fun first_lease_conflict ::
  "'r ExecutionRequest \<Rightarrow> int \<Rightarrow> 'r ExecutionLease list \<Rightarrow> 'r ExecutionLeaseResult option result" where
  "first_lease_conflict q now [] = Inr None"
| "first_lease_conflict q now (l # ls) =
    and_then (lease_conflict q now l) (\<lambda>c.
      case c of Some r \<Rightarrow> Inr (Some r) | None \<Rightarrow> first_lease_conflict q now ls)"

text \<open>\<open>now\<close> is the clock at the check, \<open>now'\<close> the clock when the lease is made.\<close>

definition acquire ::
  "int \<Rightarrow> int \<Rightarrow> 'r ExecutionRequest \<Rightarrow> int \<Rightarrow> bool \<Rightarrow> ('r, 'r ExecutionLeaseResult) lease_op" where
  "acquire now now' q ttl enforce fs =
    (if ttl \<le> 0 then (fs, Inr (lease_failure ''error'' ''invalid_ttl'' None))
     else case (if enforce then first_lease_conflict q now (iter_leases fs) else Inr None) of
       Inl err \<Rightarrow> (fs, Inl err)
     | Inr (Some r) \<Rightarrow> (fs, Inr r)
     | Inr None \<Rightarrow>
        (case add_seconds (AwareDT now') ttl of
           Inl err \<Rightarrow> (fs, Inl err)
         | Inr x \<Rightarrow>
            let l = \<lparr>el_lease_id = er_request_id q, el_request = q, el_workspace_id = er_workspace_id q,
                     el_worktree_path = er_worktree_path q, el_acquired_at = Aware now',
                     el_expires_at = isoformat x, el_released_at = None, el_status = L_ACTIVE,
                     el_refusal_reason = None, el_error_kind = None\<rparr>
            in case write_lease l fs of
                 (fs', Inl err) \<Rightarrow> (fs', Inl err)
               | (fs', Inr u) \<Rightarrow> (fs', Inr \<lparr>xr_status = ''granted'', xr_lease = Some l, xr_error_kind = None\<rparr>)))"

definition release :: "int \<Rightarrow> string \<Rightarrow> ('r, 'r ExecutionLeaseResult) lease_op" where
  "release now i fs =
    (case read_lease_file i fs of
       Inl err \<Rightarrow> (fs, Inl err)
     | Inr None \<Rightarrow> (fs, Inr (lease_failure ''not_found'' ''lease_not_found'' None))
     | Inr (Some l) \<Rightarrow>
         if el_status l = L_EXPIRED
         then (fs, Inr (lease_failure ''already_expired'' ''lease_already_expired'' (Some l)))
         else if el_status l \<in> {L_RELEASED, L_CANCELLED, L_FAILED}
         then (fs, Inr (lease_failure ''already_released'' ''lease_already_released'' (Some l)))
         else
           let l' = l\<lparr>el_released_at := Some (Aware now), el_status := L_RELEASED\<rparr>
           in case write_lease l' fs of
                (fs', Inl err) \<Rightarrow> (fs', Inl err)
              | (fs', Inr u) \<Rightarrow> (fs', Inr \<lparr>xr_status = ''released'', xr_lease = Some l', xr_error_kind = None\<rparr>))"

fun expire_leases :: "int \<Rightarrow> 'r ExecutionLease list \<Rightarrow> 'r ExecutionLease list \<Rightarrow> ('r, 'r ExecutionLease list) lease_op" where
  "expire_leases cutoff acc [] fs = (fs, Inr acc)"
| "expire_leases cutoff acc (l # ls) fs =
    (case fromisoformat (el_expires_at l) of
       Inl err \<Rightarrow> expire_leases cutoff acc ls fs
     | Inr d \<Rightarrow>
        if el_status l \<noteq> L_ACTIVE then expire_leases cutoff acc ls fs
        else case at_or_before d cutoff of
          Inl err \<Rightarrow> (fs, Inl err)
        | Inr False \<Rightarrow> expire_leases cutoff acc ls fs
        | Inr True \<Rightarrow>
           (case write_lease (l\<lparr>el_status := L_EXPIRED\<rparr>) fs of
              (fs', Inl err) \<Rightarrow> (fs', Inl err)
            | (fs', Inr u) \<Rightarrow> expire_leases cutoff (acc @ [l\<lparr>el_status := L_EXPIRED\<rparr>]) ls fs'))"

definition expire_stale :: "int \<Rightarrow> ('r, 'r ExecutionLease list) lease_op" where
  "expire_stale cutoff fs = expire_leases cutoff [] (iter_leases fs) fs"

definition list_leases :: "'r lease_files \<Rightarrow> 'r ExecutionLease list" where
  "list_leases fs = sort_key el_lease_id (iter_leases fs)"

section \<open>Runs\<close>

datatype 'r lease_command = Acquire int "'r ExecutionRequest" int | Release string | ExpireStale

fun lease_exec :: "int \<Rightarrow> 'r lease_command \<Rightarrow> 'r lease_files \<Rightarrow> 'r lease_files" where
  "lease_exec now (Acquire now' q ttl) fs = fst (acquire now now' q ttl True fs)"
| "lease_exec now (Release i) fs = fst (release now i fs)"
| "lease_exec now ExpireStale fs = fst (expire_stale now fs)"

text \<open>Calls one after the other on a clock that does not go back; the exclusion is enforced.\<close>

inductive lease_reachable :: "'r lease_files \<Rightarrow> int \<Rightarrow> bool" where
  start: "lease_reachable [] t"
| call: "lease_reachable fs t \<Longrightarrow> t \<le> now \<Longrightarrow> lease_reachable (lease_exec now cmd fs) now"

section \<open>Exclusion\<close>

definition lease_is_live :: "int \<Rightarrow> 'r ExecutionLease \<Rightarrow> bool" where
  "lease_is_live t l \<longleftrightarrow> el_status l = L_ACTIVE \<and> stamp_expired (el_expires_at l) t = Inr False"

type_synonym exec_holding = "string \<times> string option \<times> string option"

definition exec_holding :: "'r ExecutionLease \<Rightarrow> exec_holding" where
  "exec_holding l = (el_lease_id l, el_worktree_path l, el_workspace_id l)"

definition live_exec :: "'r lease_files \<Rightarrow> int \<Rightarrow> exec_holding set" where
  "live_exec fs t = {exec_holding l | l. lease_is_live t l \<and> (\<exists>k. dict_get fs k = Some (Some l))}"

text \<open>Same worktree; or neither names a worktree, and the same workspace.\<close>

fun exec_clash :: "exec_holding \<Rightarrow> exec_holding \<Rightarrow> bool" where
  "exec_clash (i, wt, ws) (j, wt', ws') \<longleftrightarrow>
    present wt \<and> wt = wt' \<or> \<not> present wt \<and> \<not> present wt' \<and> present ws \<and> ws = ws'"

interpretation exec_leases: exclusive_registry live_exec exec_clash
proof unfold_locales
  fix x y assume "exec_clash x y"
  then show "exec_clash y x" by (cases x; cases y) auto
next
  fix t t' :: int and fs :: "'a lease_files" assume "t \<le> t'"
  then show "live_exec fs t' \<subseteq> live_exec fs t"
    using stamp_not_expired_earlier by (fastforce simp: live_exec_def lease_is_live_def)
qed

lemma set_iter_leases: "wf_dict fs \<Longrightarrow> set (iter_leases fs) = {l. \<exists>k. dict_get fs k = Some (Some l)}"
  by (force simp: iter_leases_def List.map_filter_def dict_item_get [symmetric])

lemma lease_conflict_None:
  assumes "lease_conflict q now l = Inr None" and "lease_is_live now l"
  shows "\<not> exec_clash (i, er_worktree_path q, er_workspace_id q) (exec_holding l)"
  using assms
  by (cases "el_expires_at l")
    (auto simp: lease_conflict_def lease_is_live_def exec_holding_def split: if_splits)

lemma first_lease_conflict_None:
  "first_lease_conflict q now ls = Inr None \<Longrightarrow> l \<in> set ls \<Longrightarrow> lease_conflict q now l = Inr None"
  by (induction ls) (auto simp: and_then_Inr_iff split: option.splits)

text \<open>A change after which no lease is live that was not before.\<close>

definition lease_shrinks :: "'r lease_files \<Rightarrow> 'r lease_files \<Rightarrow> bool" where
  "lease_shrinks fs fs' \<longleftrightarrow> (wf_dict fs \<longrightarrow> wf_dict fs') \<and>
     (\<forall>k l. dict_get fs' k = Some (Some l) \<longrightarrow> el_status l = L_ACTIVE \<longrightarrow> dict_get fs k = Some (Some l))"

lemma lease_shrinks_refl [simp]: "lease_shrinks fs fs"
  by (simp add: lease_shrinks_def)

lemma lease_shrinks_trans: "lease_shrinks a b \<Longrightarrow> lease_shrinks b c \<Longrightarrow> lease_shrinks a c"
  by (simp add: lease_shrinks_def)

lemma write_inactive_shrinks:
  "write_lease l fs = (fs', r) \<Longrightarrow> el_status l \<noteq> L_ACTIVE \<Longrightarrow> lease_shrinks fs fs'"
  by (auto simp: write_lease_def lease_shrinks_def dict_simps split: sum.splits if_splits)

lemma release_shrinks: "lease_shrinks fs (fst (release now i fs))"
  by (auto simp: release_def Let_def split: sum.splits option.splits prod.splits
      dest!: write_inactive_shrinks)

lemma expire_leases_shrinks: "lease_shrinks fs (fst (expire_leases cutoff acc ls fs))"
proof (induction ls arbitrary: acc fs)
  case (Cons l ls)
  show ?case
    using Cons.IH
    by (auto split: sum.splits prod.splits bool.splits dest!: write_inactive_shrinks
        intro: lease_shrinks_trans)
qed simp

lemma lease_shrinks_live: "lease_shrinks fs fs' \<Longrightarrow> live_exec fs' t \<subseteq> live_exec fs t"
  by (fastforce simp: lease_shrinks_def live_exec_def lease_is_live_def)

definition exec_inv :: "'r lease_files \<Rightarrow> int \<Rightarrow> bool" where
  "exec_inv fs t \<longleftrightarrow> wf_dict fs \<and> exec_leases.excl fs t"

lemma shrinks_exec_inv: "exec_inv fs t \<Longrightarrow> lease_shrinks fs fs' \<Longrightarrow> exec_inv fs' t"
  using exec_leases.excl_shrink [OF _ lease_shrinks_live] by (auto simp: exec_inv_def lease_shrinks_def)

lemma acquire_cases:
  assumes "acquire now now' q ttl True fs = (fs', r)"
  obtains "fs' = fs" | l where "fs' = dict_set (el_lease_id l) (Some l) fs"
    and "exec_holding l = (er_request_id q, er_worktree_path q, er_workspace_id q)"
    and "first_lease_conflict q now (iter_leases fs) = Inr None"
  using assms
  by (auto simp: acquire_def write_lease_def exec_holding_def Let_def
      split: if_splits sum.splits option.splits prod.splits)

lemma acquire_exec_inv:
  assumes "exec_inv fs now"
  shows "exec_inv (fst (acquire now now' q ttl True fs)) now"
proof -
  obtain fs' r where ac: "acquire now now' q ttl True fs = (fs', r)" by fastforce
  from ac show ?thesis
  proof (cases rule: acquire_cases)
    case 1
    with ac assms show ?thesis by simp
  next
    case (2 l)
    have wf: "wf_dict fs" and ex: "exec_leases.excl fs now" using assms by (auto simp: exec_inv_def)
    have "exec_leases.excl (dict_set (el_lease_id l) (Some l) fs) now"
    proof (rule exec_leases.excl_grant [OF ex, where h = "exec_holding l"])
      show "live_exec (dict_set (el_lease_id l) (Some l) fs) now \<subseteq> insert (exec_holding l) (live_exec fs now)"
        by (auto simp: live_exec_def dict_simps split: if_splits)
      show "\<not> exec_clash (exec_holding l) d" if "d \<in> live_exec fs now" for d
      proof -
        from that obtain x where x: "d = exec_holding x" "lease_is_live now x" "x \<in> set (iter_leases fs)"
          using set_iter_leases [OF wf] by (auto simp: live_exec_def)
        with lease_conflict_None [OF first_lease_conflict_None [OF 2(3) x(3)] x(2)] 2(2) show ?thesis by simp
      qed
    qed
    with wf 2(1) ac show ?thesis by (simp add: exec_inv_def)
  qed
qed

lemma reachable_exec_inv: "lease_reachable fs t \<Longrightarrow> exec_inv fs t"
proof (induction rule: lease_reachable.induct)
  case (start t)
  show ?case by (simp add: exec_inv_def exec_leases.excl_def live_exec_def)
next
  case (call fs t now cmd)
  then have inv: "exec_inv fs now" by (auto simp: exec_inv_def intro: exec_leases.excl_later)
  show ?case
  proof (cases cmd)
    case (Acquire now' q ttl)
    with acquire_exec_inv [OF inv] show ?thesis by simp
  next
    case (Release i)
    with shrinks_exec_inv [OF inv release_shrinks] show ?thesis by simp
  next
    case ExpireStale
    with shrinks_exec_inv [OF inv expire_leases_shrinks] show ?thesis by (simp add: expire_stale_def)
  qed
qed

section \<open>Properties\<close>

definition demo_exec_request :: "string \<Rightarrow> string option \<Rightarrow> string option \<Rightarrow> unit ExecutionRequest" where
  "demo_exec_request i ws wt = \<lparr>er_request_id = i, er_workspace_id = ws, er_worktree_path = wt, er_rest = ()\<rparr>"

lemmas lease_evaluation =
  acquire_def write_lease_def validate_lease_id_def startswith_def iter_leases_def List.map_filter_def
  lease_conflict_def lease_failure_def present_def in_range_def datetime_min_def datetime_max_def
  seconds_def dict_set_def dict_get_def demo_exec_request_def Let_def

definition demo_leases :: "unit lease_files" where
  "demo_leases = lease_exec 1 (Acquire 1 (demo_exec_request ''b'' (Some ''W'') (Some ''wt2'')) 60)
     (lease_exec 0 (Acquire 0 (demo_exec_request ''a'' (Some ''W'') (Some ''wt1'')) 60) [])"

text \<open>
  C19: one execution lease per worktree.  In every store that acquire (with the exclusion
  enforced), release and expire can produce on a clock that does not go back, at every
  later time at most one active, unexpired lease names a given worktree; and of the leases
  that name no worktree, at most one names a given workspace.
\<close>

theorem worktree_lease_exclusive:
  assumes "lease_reachable fs t" and "t \<le> t'"
    and "dict_get fs k1 = Some (Some l1)" and "dict_get fs k2 = Some (Some l2)"
    and "lease_is_live t' l1" and "lease_is_live t' l2"
    and "present (el_worktree_path l1) \<and> el_worktree_path l1 = el_worktree_path l2 \<or>
      \<not> present (el_worktree_path l1) \<and> \<not> present (el_worktree_path l2) \<and>
      present (el_workspace_id l1) \<and> el_workspace_id l1 = el_workspace_id l2"
  shows "el_lease_id l1 = el_lease_id l2"
proof (rule ccontr)
  assume ne: "el_lease_id l1 \<noteq> el_lease_id l2"
  have "exec_leases.excl fs t'"
    using reachable_exec_inv [OF assms(1)] by (auto simp: exec_inv_def intro: exec_leases.excl_later [OF _ assms(2)])
  then have "\<not> exec_clash (exec_holding l1) (exec_holding l2)"
    using assms(3-6) ne by (intro exec_leases.exclD) (auto simp: live_exec_def exec_holding_def)
  with assms(7) show False by (auto simp: exec_holding_def)
qed

theorem worktree_lease_exclusive_witness:
  "{el_lease_id l | l k. dict_get demo_leases k = Some (Some l) \<and> lease_is_live 2 l \<and> el_worktree_path l = Some ''wt1''} = {''a''}"
proof -
  have reach: "lease_reachable demo_leases 1"
    unfolding demo_leases_def
    by (rule lease_reachable.call [OF lease_reachable.call [OF lease_reachable.start [of 0]]]) simp_all
  obtain l1 where l1: "dict_get demo_leases ''a'' = Some (Some l1)" "lease_is_live 2 l1"
      "el_worktree_path l1 = Some ''wt1''" "el_lease_id l1 = ''a''"
    by (simp add: demo_leases_def lease_evaluation lease_is_live_def)
  have "el_lease_id l = ''a''"
    if "dict_get demo_leases k = Some (Some l)" "lease_is_live 2 l" "el_worktree_path l = Some ''wt1''" for k l
    using worktree_lease_exclusive [OF reach _ that(1) l1(1) that(2) l1(2)] that(3) l1(3,4) by (simp add: present_def)
  with l1 show ?thesis by (auto intro!: exI [of _ l1])
qed

text \<open>
  Whether a workspace lease and a worktree lease in the same workspace exclude each
  other depends on the order.  After a lease on a whole workspace, a lease on a worktree of
  that workspace is granted; after the worktree lease, the workspace lease is refused.
\<close>

theorem workspace_exclusion_depends_on_order:
  assumes "ws \<noteq> ''''" and "wt \<noteq> ''''"
  defines "whole \<equiv> demo_exec_request ''a'' (Some ws) None" and "part \<equiv> demo_exec_request ''b'' (Some ws) (Some wt)"
  shows "\<exists>fs r fs' r'. acquire 0 0 whole 60 True [] = (fs, Inr r) \<and> acquire 1 1 part 60 True fs = (fs', Inr r') \<and>
      xr_status r = ''granted'' \<and> xr_status r' = ''granted'' \<and>
    (\<exists>gs s gs' s'. acquire 0 0 part 60 True [] = (gs, Inr s) \<and> acquire 1 1 whole 60 True gs = (gs', Inr s') \<and>
      xr_status s = ''granted'' \<and> xr_status s' = ''refused'')"
  using assms(1,2) by (simp add: whole_def part_def lease_evaluation)

theorem workspace_exclusion_depends_on_order_witness:
  "\<exists>fs r fs' r'. acquire 0 0 (demo_exec_request ''a'' (Some ''W'') None) 60 True [] = (fs, Inr r) \<and>
     acquire 1 1 (demo_exec_request ''b'' (Some ''W'') (Some ''wt'')) 60 True fs = (fs', Inr r') \<and>
     xr_status r' = ''granted''"
  using workspace_exclusion_depends_on_order [of "''W''" "''wt''"] by auto

end
