(* ===== verification/Fleet_Queue.thy ===== *)
theory Fleet_Queue
  imports Relay_Interfaces "HOL-Library.Product_Lexorder"
begin

text \<open>
  The event-sourced fleet queue, \<^verbatim>\<open>rig_relay/coordination/fleet_queue.py\<close>: items, the
  append-only event log and its replay, the operations that append, and the choice of the
  next runnable item.  The log is a list of lines: blank, not JSON, JSON that is no valid
  event (\<open>Entry None\<close>) or an event.  Timestamps are the ISO strings themselves, which the
  queue compares as strings; event ids, which no operation reads, are left out.  The payload keys that the replay reads carry strings.
\<close>

section \<open>Items and events\<close>

definition QUEUED :: string where "QUEUED = ''queued''"

definition RUNNING_ITEM :: string where "RUNNING_ITEM = ''running''"

definition BLOCKED :: string where "BLOCKED = ''blocked''"

definition COMPLETED_ITEM :: string where "COMPLETED_ITEM = ''completed''"

definition FAILED_ITEM :: string where "FAILED_ITEM = ''failed''"

definition CANCELLED_ITEM :: string where "CANCELLED_ITEM = ''cancelled''"

definition SUPERSEDED :: string where "SUPERSEDED = ''superseded''"

lemmas status_defs =
  QUEUED_def RUNNING_ITEM_def BLOCKED_def COMPLETED_ITEM_def FAILED_ITEM_def CANCELLED_ITEM_def SUPERSEDED_def

definition TERMINAL_STATUSES :: "string list" where
  "TERMINAL_STATUSES = [COMPLETED_ITEM, FAILED_ITEM, CANCELLED_ITEM, SUPERSEDED]"

record FleetQueueItem =
  qi_queue_item_id :: string
  qi_kind :: string
  qi_status :: string
  qi_priority :: int
  qi_depends_on :: "string list"
  qi_created_at :: string
  qi_updated_at :: string
  qi_mission_id :: "string option"
  qi_agent_id :: "string option"
  qi_payload :: "(string, json) dict"
  qi_blocked_reason :: "string option"
  qi_superseded_by :: "string option"

record queue_fields =
  qf_status :: "string option"
  qf_previous_status :: "string option"
  qf_reason :: "string option"
  qf_superseded_by :: "string option"

text \<open>An event's payload: a dump of an item, or a dictionary with some of the known keys.\<close>

datatype queue_payload = ItemPayload FleetQueueItem | FieldPayload queue_fields

fun payload_fields :: "queue_payload \<Rightarrow> queue_fields" where
  "payload_fields (FieldPayload f) = f"
| "payload_fields (ItemPayload i) =
    \<lparr>qf_status = Some (qi_status i), qf_previous_status = None, qf_reason = None,
     qf_superseded_by = qi_superseded_by i\<rparr>"

record FleetQueueEvent =
  qe_queue_item_id :: string
  qe_event_kind :: string
  qe_created_at :: string
  qe_mission_id :: "string option"
  qe_agent_id :: "string option"
  qe_payload :: queue_payload

type_synonym queue_log = "FleetQueueEvent option jsonl list"

section \<open>Replay\<close>

type_synonym queue_state = "(string, FleetQueueItem) dict"

text \<open>\<^verbatim>\<open>if x:\<close> on an optional string.\<close>

definition truthy :: "string option \<Rightarrow> bool" where
  "truthy x \<longleftrightarrow> x \<noteq> None \<and> x \<noteq> Some ''''"

definition update_item :: "string \<Rightarrow> (FleetQueueItem \<Rightarrow> FleetQueueItem) \<Rightarrow> queue_state \<Rightarrow> queue_state" where
  "update_item i f s = (case dict_get s i of None \<Rightarrow> s | Some x \<Rightarrow> dict_set i (f x) s)"

definition cancel_update :: "FleetQueueEvent \<Rightarrow> FleetQueueItem \<Rightarrow> FleetQueueItem" where
  "cancel_update e x =
    (let x1 = x\<lparr>qi_status := CANCELLED_ITEM, qi_updated_at := qe_created_at e\<rparr>
     in case qf_reason (payload_fields (qe_payload e)) of
          Some r \<Rightarrow> x1\<lparr>qi_blocked_reason := Some r\<rparr>
        | None \<Rightarrow> x1)"

definition status_update :: "FleetQueueEvent \<Rightarrow> FleetQueueItem \<Rightarrow> FleetQueueItem" where
  "status_update e x =
    (let f = payload_fields (qe_payload e);
         x1 = (if truthy (qf_status f)
               then x\<lparr>qi_status := the (qf_status f), qi_updated_at := qe_created_at e\<rparr> else x)
     in if truthy (qf_reason f) \<and> qf_status f = Some BLOCKED
        then x1\<lparr>qi_blocked_reason := qf_reason f\<rparr> else x1)"

definition supersede_update :: "FleetQueueEvent \<Rightarrow> FleetQueueItem \<Rightarrow> FleetQueueItem" where
  "supersede_update e x =
    (let f = payload_fields (qe_payload e);
         x1 = x\<lparr>qi_status := SUPERSEDED, qi_updated_at := qe_created_at e\<rparr>
     in if truthy (qf_superseded_by f) then x1\<lparr>qi_superseded_by := qf_superseded_by f\<rparr> else x1)"

definition apply_queue_event :: "queue_state \<Rightarrow> FleetQueueEvent \<Rightarrow> queue_state" where
  "apply_queue_event s e =
    (let i = qe_queue_item_id e; ek = qe_event_kind e in
     if ek = ''enqueued'' then (case qe_payload e of ItemPayload x \<Rightarrow> dict_set i x s | FieldPayload f \<Rightarrow> s)
     else if ek = ''cancelled'' then update_item i (cancel_update e) s
     else if ek = ''status_changed'' then update_item i (status_update e) s
     else if ek = ''superseded_by'' then update_item i (supersede_update e) s
     else s)"

text \<open>\<^verbatim>\<open>_read_events\<close> and the validation of each event.\<close>

definition valid_events :: "queue_log \<Rightarrow> FleetQueueEvent list" where
  "valid_events log = List.map_filter (\<lambda>x. x) (entries log)"

definition replay_queue :: "queue_log \<Rightarrow> queue_state" where
  "replay_queue log = foldl apply_queue_event [] (valid_events log)"

record FleetQueueReplayReport =
  rp_total_lines :: nat
  rp_valid_events :: nat
  rp_malformed_lines :: nat
  rp_invalid_events :: nat
  rp_skipped_unknown_kind :: nat
  rp_total_skipped :: nat

record FleetQueueSnapshot =
  sn_items :: "FleetQueueItem list"
  sn_total_count :: nat
  sn_status_counts :: "(string, nat) dict"
  sn_replay_report :: FleetQueueReplayReport

definition KNOWN_KINDS :: "string list" where
  "KNOWN_KINDS = [''enqueued'', ''cancelled'', ''status_changed'', ''superseded_by'']"

text \<open>The counts are a dictionary built from a set of statuses; its order does not matter.\<close>

definition count_statuses :: "FleetQueueItem list \<Rightarrow> (string, nat) dict" where
  "count_statuses items =
    filter (\<lambda>(s, n). n \<noteq> 0)
      (map (\<lambda>s. (s, length (filter (\<lambda>i. qi_status i = s) items)))
        (TERMINAL_STATUSES @ [QUEUED, RUNNING_ITEM, BLOCKED]))"

definition replay_report :: "queue_log \<Rightarrow> FleetQueueReplayReport" where
  "replay_report log =
    (let malformed = length (filter (\<lambda>l. l = BadJson) log);
         invalid = length (filter (\<lambda>x. x = None) (entries log));
         unknown = length (filter (\<lambda>e. qe_event_kind e \<notin> set KNOWN_KINDS) (valid_events log))
     in \<lparr>rp_total_lines = length log, rp_valid_events = length (entries log),
         rp_malformed_lines = malformed, rp_invalid_events = invalid,
         rp_skipped_unknown_kind = unknown, rp_total_skipped = malformed + invalid + unknown\<rparr>)"

definition list_items :: "queue_log \<Rightarrow> FleetQueueSnapshot" where
  "list_items log =
    (let items = dict_values (replay_queue log)
     in \<lparr>sn_items = items, sn_total_count = length items, sn_status_counts = count_statuses items,
         sn_replay_report = replay_report log\<rparr>)"

definition find_item :: "string \<Rightarrow> queue_log \<Rightarrow> FleetQueueItem option" where
  "find_item i log = next_or_none (\<lambda>x. qi_queue_item_id x = i) (dict_values (replay_queue log))"

section \<open>Operations\<close>

definition FORBIDDEN_RAW_FIELD_NAMES :: "string list" where
  "FORBIDDEN_RAW_FIELD_NAMES =
    [''prompt'', ''stdout'', ''stderr'', ''content'', ''diff'', ''patch'', ''secret'', ''argv'', ''snippet'',
     ''file_content'', ''raw_prompt'', ''raw_output'']"

definition sanitise_payload :: "(string, json) dict \<Rightarrow> (string, json) dict" where
  "sanitise_payload p = filter (\<lambda>(k, v). k \<notin> set FORBIDDEN_RAW_FIELD_NAMES) p"

definition append_queue_event :: "FleetQueueEvent \<Rightarrow> queue_log \<Rightarrow> queue_log" where
  "append_queue_event e log = log @ [Entry (Some e)]"

definition enqueue_item ::
  "string \<Rightarrow> string \<Rightarrow> string \<Rightarrow> string option \<Rightarrow> string option \<Rightarrow> string option \<Rightarrow> int \<Rightarrow> string list \<Rightarrow>
   (string, json) dict \<Rightarrow> queue_log \<Rightarrow> queue_log \<times> FleetQueueEvent" where
  "enqueue_item now uuid kind iid mission agent priority deps payload log =
    (let item_id = (case iid of Some i \<Rightarrow> if i = '''' then uuid else i | None \<Rightarrow> uuid);
         item = \<lparr>qi_queue_item_id = item_id, qi_kind = kind, qi_status = QUEUED, qi_priority = priority,
                 qi_depends_on = deps, qi_created_at = now, qi_updated_at = now, qi_mission_id = mission,
                 qi_agent_id = agent, qi_payload = sanitise_payload payload, qi_blocked_reason = None,
                 qi_superseded_by = None\<rparr>;
         e = \<lparr>qe_queue_item_id = item_id, qe_event_kind = ''enqueued'', qe_created_at = now,
              qe_mission_id = mission, qe_agent_id = agent, qe_payload = ItemPayload item\<rparr>
     in (append_queue_event e log, e))"

definition optional_reason :: "string option \<Rightarrow> string option" where
  "optional_reason r = (if truthy r then r else None)"

definition cancel_item ::
  "string \<Rightarrow> string \<Rightarrow> string option \<Rightarrow> queue_log \<Rightarrow> queue_log \<times> FleetQueueEvent option" where
  "cancel_item now i reason log =
    (case find_item i log of
       None \<Rightarrow> (log, None)
     | Some x \<Rightarrow>
         if qi_status x = CANCELLED_ITEM then (log, None)
         else
           let e = \<lparr>qe_queue_item_id = i, qe_event_kind = ''cancelled'', qe_created_at = now,
                    qe_mission_id = None, qe_agent_id = None,
                    qe_payload = FieldPayload \<lparr>qf_status = None, qf_previous_status = None,
                      qf_reason = optional_reason reason, qf_superseded_by = None\<rparr>\<rparr>
           in (append_queue_event e log, Some e))"

definition status_change_event ::
  "string \<Rightarrow> string \<Rightarrow> string \<Rightarrow> string option \<Rightarrow> queue_log \<Rightarrow> queue_log \<times> FleetQueueEvent option" where
  "status_change_event now i new_status reason log =
    (case find_item i log of
       None \<Rightarrow> (log, None)
     | Some prev \<Rightarrow>
         if qi_status prev = new_status then (log, None)
         else
           let e = \<lparr>qe_queue_item_id = i, qe_event_kind = ''status_changed'', qe_created_at = now,
                    qe_mission_id = None, qe_agent_id = None,
                    qe_payload = FieldPayload \<lparr>qf_status = Some new_status,
                      qf_previous_status = Some (qi_status prev),
                      qf_reason = optional_reason reason, qf_superseded_by = None\<rparr>\<rparr>
           in (append_queue_event e log, Some e))"

definition mark_running :: "string \<Rightarrow> string \<Rightarrow> queue_log \<Rightarrow> queue_log \<times> FleetQueueEvent option" where
  "mark_running now i = status_change_event now i RUNNING_ITEM None"

definition mark_completed :: "string \<Rightarrow> string \<Rightarrow> queue_log \<Rightarrow> queue_log \<times> FleetQueueEvent option" where
  "mark_completed now i = status_change_event now i COMPLETED_ITEM None"

definition mark_failed ::
  "string \<Rightarrow> string \<Rightarrow> string option \<Rightarrow> queue_log \<Rightarrow> queue_log \<times> FleetQueueEvent option" where
  "mark_failed now i reason = status_change_event now i FAILED_ITEM reason"

definition mark_blocked ::
  "string \<Rightarrow> string \<Rightarrow> string option \<Rightarrow> queue_log \<Rightarrow> queue_log \<times> FleetQueueEvent option" where
  "mark_blocked now i reason = status_change_event now i BLOCKED reason"

section \<open>The next runnable item\<close>

text \<open>\<^verbatim>\<open>{item.queue_item_id: item for item in items}\<close>.\<close>

definition item_map :: "FleetQueueItem list \<Rightarrow> queue_state" where
  "item_map items = foldl (\<lambda>d i. dict_set (qi_queue_item_id i) i d) [] items"

definition dependency_met :: "FleetQueueItem list \<Rightarrow> string \<Rightarrow> bool" where
  "dependency_met items dep =
    (case dict_get (item_map items) dep of
       None \<Rightarrow> False
     | Some d \<Rightarrow> qi_status d \<in> set TERMINAL_STATUSES)"

definition item_eligible :: "FleetQueueItem list \<Rightarrow> FleetQueueItem \<Rightarrow> bool" where
  "item_eligible items i \<longleftrightarrow> qi_status i = QUEUED \<and> (\<forall>dep \<in> set (qi_depends_on i). dependency_met items dep)"

definition queue_order :: "FleetQueueItem \<Rightarrow> int \<times> string \<times> string" where
  "queue_order i = (- qi_priority i, qi_created_at i, qi_queue_item_id i)"

definition next_runnable_item :: "queue_log \<Rightarrow> FleetQueueItem option" where
  "next_runnable_item log =
    (let items = sn_items (list_items log);
         eligible = sort_key queue_order (filter (item_eligible items) items)
     in case eligible of [] \<Rightarrow> None | i # is \<Rightarrow> Some i)"

section \<open>Facts about the replay\<close>

lemma update_item_wf: "wf_dict s \<Longrightarrow> wf_dict (update_item i f s)"
  by (auto simp: update_item_def split: option.splits)

lemma update_item_get [dict_simps]:
  "dict_get (update_item i f s) k = (if k = i then map_option f (dict_get s i) else dict_get s k)"
  by (auto simp: update_item_def dict_simps split: option.splits)

interpretation queue: projected_log apply_queue_event "[]" wf_dict
  by unfold_locales (auto simp: apply_queue_event_def Let_def update_item_wf split: queue_payload.splits)

lemma replay_queue_wf: "wf_dict (replay_queue log)"
  unfolding replay_queue_def by (rule queue.inv_replay)

lemma replay_queue_append: "replay_queue (append_queue_event e log) = apply_queue_event (replay_queue log) e"
proof -
  have "valid_events (append_queue_event e log) = valid_events log @ [e]"
    by (simp add: valid_events_def append_queue_event_def List.map_filter_def)
  then show ?thesis unfolding replay_queue_def by (simp add: queue.replay_snoc)
qed

section \<open>Queues built by the operations\<close>

datatype queue_command =
    Enqueue string string string "string option" "string option" "string option" int "string list" "(string, json) dict"
  | Cancel string string "string option"
  | ChangeStatus string string string "string option"

fun queue_exec :: "queue_command \<Rightarrow> queue_log \<Rightarrow> queue_log" where
  "queue_exec (Enqueue now uuid kind iid mission agent pr deps p) log =
    fst (enqueue_item now uuid kind iid mission agent pr deps p log)"
| "queue_exec (Cancel now i reason) log = fst (cancel_item now i reason log)"
| "queue_exec (ChangeStatus now i s reason) log = fst (status_change_event now i s reason log)"

inductive queue_reachable :: "queue_log \<Rightarrow> bool" where
  start: "queue_reachable []"
| call: "queue_reachable log \<Longrightarrow> queue_reachable (queue_exec cmd log)"

definition keyed :: "queue_state \<Rightarrow> bool" where
  "keyed s \<longleftrightarrow> (\<forall>k x. dict_get s k = Some x \<longrightarrow> qi_queue_item_id x = k)"

lemma updates_keep_id [simp]:
  "qi_queue_item_id (cancel_update e x) = qi_queue_item_id x"
  "qi_queue_item_id (status_update e x) = qi_queue_item_id x"
  "qi_queue_item_id (supersede_update e x) = qi_queue_item_id x"
  by (simp_all add: cancel_update_def status_update_def supersede_update_def Let_def split: option.splits)

lemma apply_keyed:
  assumes "keyed s" and "\<And>x. qe_payload e = ItemPayload x \<Longrightarrow> qi_queue_item_id x = qe_queue_item_id e"
  shows "keyed (apply_queue_event s e)"
  using assms
  by (auto simp: keyed_def apply_queue_event_def Let_def dict_simps split: queue_payload.splits if_splits)

lemma reachable_keyed: "queue_reachable log \<Longrightarrow> keyed (replay_queue log)"
proof (induction rule: queue_reachable.induct)
  case start
  show ?case by (simp add: keyed_def replay_queue_def valid_events_def List.map_filter_def)
next
  case (call log cmd)
  then show ?case
    by (cases cmd)
      (auto simp: enqueue_item_def cancel_item_def status_change_event_def replay_queue_append Let_def
        intro!: apply_keyed split: option.splits)
qed

lemma find_item_keyed:
  assumes "keyed (replay_queue log)"
  shows "find_item i log = dict_get (replay_queue log) i"
proof (cases "find_item i log")
  case None
  then have "\<forall>x \<in> set (dict_values (replay_queue log)). qi_queue_item_id x \<noteq> i"
    by (simp add: find_item_def next_or_none_None)
  with assms show ?thesis
    using None dict_get_in_values by (cases "dict_get (replay_queue log) i") (fastforce simp: keyed_def)+
next
  case (Some x)
  then have "x \<in> set (dict_values (replay_queue log))" "qi_queue_item_id x = i"
    by (auto simp: find_item_def dest: next_or_none_Some)
  with assms Some show ?thesis
    using set_dict_values [OF replay_queue_wf] by (auto simp: keyed_def)
qed

section \<open>Properties\<close>

lemma hd_sort_key_min:
  "sort_key f xs = y # ys \<Longrightarrow> y \<in> set xs \<and> (\<forall>x \<in> set xs. f y \<le> f x)"
proof -
  assume s: "sort_key f xs = y # ys"
  have "sorted (map f (sort_key f xs))" by simp
  with s have "\<forall>x \<in> set (y # ys). f y \<le> f x" by simp
  moreover have "set (y # ys) = set xs" using s by (metis set_sort)
  ultimately show ?thesis by (metis list.set_intros(1))
qed

text \<open>
  C34: the queue hands out the right item.  The item chosen is in the queue, is queued, and
  all its dependencies are in the queue in a terminal state; no other item with these
  properties has a higher priority, or the same priority and an earlier creation time, or
  the same two and a smaller id; and no item is chosen only if there is none to choose.
\<close>

theorem next_runnable_item_best:
  fixes log
  defines "items \<equiv> sn_items (list_items log)"
  shows "case next_runnable_item log of
      None \<Rightarrow> \<forall>j \<in> set items. \<not> item_eligible items j
    | Some i \<Rightarrow> i \<in> set items \<and> qi_status i = QUEUED \<and> (\<forall>dep \<in> set (qi_depends_on i). dependency_met items dep) \<and>
        (\<forall>j \<in> set items. item_eligible items j \<longrightarrow>
           qi_priority j < qi_priority i \<or>
           qi_priority j = qi_priority i \<and> (qi_created_at i < qi_created_at j \<or>
             qi_created_at i = qi_created_at j \<and> qi_queue_item_id i \<le> qi_queue_item_id j))"
proof (cases "sort_key queue_order (filter (item_eligible items) items)")
  case Nil
  then have "filter (item_eligible items) items = []" by (metis length_0_conv length_sort)
  with Nil show ?thesis by (simp add: next_runnable_item_def items_def Let_def filter_empty_conv)
next
  case (Cons i rest)
  with hd_sort_key_min [OF Cons] show ?thesis
    by (auto simp: next_runnable_item_def items_def Let_def item_eligible_def queue_order_def less_eq_prod_def)
qed

definition demo_queue :: queue_log where
  "demo_queue =
    queue_exec (Enqueue ''T2'' ''u'' ''message'' (Some ''c'') None None 3 [] [])
      (queue_exec (Enqueue ''T1'' ''u'' ''message'' (Some ''b'') None None 5 [''a''] [])
        (queue_exec (Enqueue ''T0'' ''u'' ''message'' (Some ''a'') None None 1 [] []) []))"

lemmas queue_evaluation =
  demo_queue_def enqueue_item_def append_queue_event_def list_items_def replay_queue_def valid_events_def
  List.map_filter_def apply_queue_event_def dict_set_def dict_get_def dict_values_def next_runnable_item_def item_eligible_def
  dependency_met_def item_map_def status_defs TERMINAL_STATUSES_def Let_def

theorem next_runnable_item_best_witness:
  "\<exists>i. next_runnable_item demo_queue = Some i \<and> qi_queue_item_id i = ''c'' \<and>
     (\<exists>j \<in> set (sn_items (list_items demo_queue)). qi_queue_item_id j = ''a'' \<and> qi_priority j < qi_priority i)"
proof -
  obtain i where i: "next_runnable_item demo_queue = Some i" "qi_queue_item_id i = ''c''" "qi_priority i = 3"
    by (simp add: queue_evaluation queue_order_def less_eq_prod_def)
  have "\<exists>j \<in> set (sn_items (list_items demo_queue)). qi_queue_item_id j = ''a'' \<and> qi_priority j = 1 \<and>
      item_eligible (sn_items (list_items demo_queue)) j"
    by (simp add: queue_evaluation)
  then obtain j where j: "j \<in> set (sn_items (list_items demo_queue))" "qi_queue_item_id j = ''a''" "qi_priority j = 1"
      "item_eligible (sn_items (list_items demo_queue)) j" by blast
  have "qi_priority j < qi_priority i"
    using next_runnable_item_best [of demo_queue] i j by auto
  with i j show ?thesis by blast
qed

text \<open>
  No status is final.  \<^verbatim>\<open>cancel_item\<close> is documented to mark a queued item, and the
  statuses completed, failed, cancelled and superseded count as terminal for the items that
  depend on them; but the operations ask only whether the item exists and already has the
  new status.  In every queue the operations build, an item of any terminal status can be
  set running again, and one that is not cancelled can be cancelled.
\<close>

theorem terminal_status_not_final:
  assumes "queue_reachable log" and "find_item i log = Some x" and "qi_status x \<in> set TERMINAL_STATUSES"
  shows "(\<exists>y. find_item i (fst (mark_running now i log)) = Some y \<and> qi_status y = RUNNING_ITEM) \<and>
    (\<exists>y. find_item i (fst (cancel_item now i reason log)) = Some y \<and> qi_status y = CANCELLED_ITEM)"
proof -
  have x: "dict_get (replay_queue log) i = Some x"
    using assms(2) find_item_keyed [OF reachable_keyed [OF assms(1)]] by simp
  have keyed': "find_item i (queue_exec cmd log) = dict_get (replay_queue (queue_exec cmd log)) i" for cmd
    by (rule find_item_keyed) (intro reachable_keyed queue_reachable.call assms(1))
  have "qi_status x \<noteq> RUNNING_ITEM" using assms(3) by (auto simp: TERMINAL_STATUSES_def status_defs)
  then have "\<exists>y. find_item i (fst (mark_running now i log)) = Some y \<and> qi_status y = RUNNING_ITEM"
    using keyed' [of "ChangeStatus now i RUNNING_ITEM None"] assms(2) x
    by (auto simp: mark_running_def status_change_event_def replay_queue_append apply_queue_event_def Let_def
        dict_simps status_update_def truthy_def) (auto simp: status_defs)
  moreover have "\<exists>y. find_item i (fst (cancel_item now i reason log)) = Some y \<and> qi_status y = CANCELLED_ITEM"
    using keyed' [of "Cancel now i reason"] assms(2) x
    by (auto simp: cancel_item_def replay_queue_append apply_queue_event_def Let_def dict_simps
        cancel_update_def split: option.splits)
  ultimately show ?thesis by blast
qed

theorem terminal_status_not_final_witness:
  "\<exists>x y. find_item ''a'' (fst (mark_completed ''T3'' ''a'' demo_queue)) = Some x \<and> qi_status x = COMPLETED_ITEM \<and>
     find_item ''a'' (fst (mark_running ''T4'' ''a'' (fst (mark_completed ''T3'' ''a'' demo_queue)))) = Some y \<and>
     qi_status y = RUNNING_ITEM"
proof -
  let ?log = "fst (mark_completed ''T3'' ''a'' demo_queue)"
  have "queue_reachable demo_queue"
    unfolding demo_queue_def by (intro queue_reachable.intros)
  from queue_reachable.call [OF this, of "ChangeStatus ''T3'' ''a'' COMPLETED_ITEM None"]
  have reach: "queue_reachable ?log" by (simp add: mark_completed_def)
  obtain x where x: "find_item ''a'' ?log = Some x" "qi_status x = COMPLETED_ITEM"
    by (simp add: mark_completed_def status_change_event_def find_item_def next_or_none_def queue_evaluation
        update_item_def status_update_def truthy_def)
  from terminal_status_not_final [OF reach x(1), of "''T4''"] x show ?thesis
    by (auto simp: TERMINAL_STATUSES_def)
qed

end
