(* ===== verification/Mission_Authority.thy ===== *)
theory Mission_Authority
  imports Coordination_Models "HOL-Library.Sublist"
begin

text \<open>
  The mission execution authority of \<^verbatim>\<open>rig_relay/governance/mission_authority.py\<close>: the
  runtime's view of an admitted task claim, and its decision on a single tool call.
  \<^verbatim>\<open>Path.resolve\<close> follows the links of the file system and is an argument; it may raise.
  Tool arguments are JSON values whose strings are \<open>JStr\<close>.
\<close>

section \<open>Decisions and policy rails\<close>

datatype AuthorityDecision =
    ALLOWED_IN_SCOPE | REQUIRES_SCOPE_EXPANSION | REQUIRES_CONSECUTIAL_APPROVAL
  | REFUSED_BY_POLICY | NOT_EVALUATED

datatype AuthoritySource = MISSION_CLAIM | LEGACY_POLICY | BYPASS_PROFILE | SOURCE_NONE

datatype MatchedRuleKind =
    SCOPE_PATH | CONSEQUENTIAL_ACTION | PROTECTED_SURFACE | TOOL_NOT_ADMITTED | NORMAL_WORK
  | REPOSITORY_READ | WORKTREE_VALIDATION | CANONICAL_EVIDENCE_WRITE | GOVERNED_CHECKPOINT
  | GOVERNED_CHECKPOINT_PREPARATION

definition PUSH_MERGE_PROMOTE_ACTIONS :: "string list" where
  "PUSH_MERGE_PROMOTE_ACTIONS = [''push'', ''merge'', ''promote'', ''publish'', ''release'', ''force_push'']"

definition DESTRUCTIVE_GIT_ACTIONS :: "string list" where
  "DESTRUCTIVE_GIT_ACTIONS = [''reset'', ''clean'', ''rebase'', ''checkout'', ''stash'']"

definition REMOTE_MUTATION_ACTIONS :: "string list" where
  "REMOTE_MUTATION_ACTIONS = [''remote_mutation'', ''external_api_mutation'', ''provider_mutation'']"

definition PROTECTED_SURFACE_ACTIONS :: "string list" where
  "PROTECTED_SURFACE_ACTIONS =
    [''telemetry_policy_change'', ''privacy_policy_change'', ''consent_policy_change'', ''credential_access'',
     ''secret_access'', ''governance_weakening'', ''test_gate_weakening'', ''release_gate_weakening'',
     ''dependency_change'', ''lockfile_regeneration'']"

definition NORMAL_WORK_MUTATION_CLASSES :: "string list" where
  "NORMAL_WORK_MUTATION_CLASSES = [''writes_workspace'']"

definition READ_ONLY_VISIBILITY_CLASSES :: "string list" where
  "READ_ONLY_VISIBILITY_CLASSES = [''read_only'']"

record AuthorityEvaluation =
  ae_decision :: AuthorityDecision
  ae_source :: AuthoritySource
  ae_matched_rule_kind :: "MatchedRuleKind option"
  ae_requires_approval :: bool
  ae_mission_id :: "string option"
  ae_claim_id :: "string option"
  ae_provenance_sha256 :: "string option"

section \<open>Paths\<close>

text \<open>A \<^verbatim>\<open>PosixPath\<close>: its root and its components.\<close>

type_synonym posix_path = "string \<times> string list"

type_synonym resolver = "posix_path \<Rightarrow> posix_path result"

definition path_of :: "string \<Rightarrow> posix_path" where
  "path_of s = (fst (splitroot s), path_parts s)"

text \<open>\<^verbatim>\<open>target.relative_to(base)\<close> does not raise.\<close>

definition relative_to :: "posix_path \<Rightarrow> posix_path \<Rightarrow> bool" where
  "relative_to target base \<longleftrightarrow> fst target = fst base \<and> prefix (snd base) (snd target)"

section \<open>The authority\<close>

record MissionExecutionAuthority =
  ma_claim_id :: string
  ma_session_id :: string
  ma_task_id :: string
  ma_mission_id :: "string option"
  ma_canonical_paths :: "posix_path list"
  ma_worktree_root :: "posix_path option"
  ma_admitted_checkpoint :: bool
  ma_admitted_dependency_change :: bool
  ma_admitted_protected_surface :: bool
  ma_expires_at :: "timestamp option"
  ma_status :: claim_status
  ma_provenance_sha256 :: "string option"

text \<open>
  A missing or empty expiry never expires; one that cannot be read or compared counts as
  expired.
\<close>

definition authority_active :: "int \<Rightarrow> MissionExecutionAuthority \<Rightarrow> bool" where
  "authority_active now a \<longleftrightarrow>
    ma_status a = Cl_active \<and>
    (case ma_expires_at a of
       None \<Rightarrow> True
     | Some ts \<Rightarrow> ts = NotIso '''' \<or> (case ts of Aware t \<Rightarrow> \<not> now > t | _ \<Rightarrow> False))"

text \<open>The loop over the allowed paths: a \<^verbatim>\<open>ValueError\<close> goes on to the next one.\<close>

fun under_any :: "resolver \<Rightarrow> posix_path \<Rightarrow> posix_path list \<Rightarrow> bool result" where
  "under_any resolve target [] = Inr False"
| "under_any resolve target (allowed # rest) =
    (case resolve allowed of
       Inl (ValueError m) \<Rightarrow> under_any resolve target rest
     | Inl err \<Rightarrow> Inl err
     | Inr base \<Rightarrow> if relative_to target base then Inr True else under_any resolve target rest)"

definition is_path_in_write_scope ::
  "resolver \<Rightarrow> MissionExecutionAuthority \<Rightarrow> string \<Rightarrow> bool result" where
  "is_path_in_write_scope resolve a p =
    and_then (resolve (path_of p)) (\<lambda>target. under_any resolve target (ma_canonical_paths a))"

definition is_path_in_read_scope ::
  "resolver \<Rightarrow> MissionExecutionAuthority \<Rightarrow> string \<Rightarrow> bool result" where
  "is_path_in_read_scope resolve a p =
    (case ma_worktree_root a of
       None \<Rightarrow> is_path_in_write_scope resolve a p
     | Some root \<Rightarrow>
         and_then (resolve (path_of p)) (\<lambda>target.
         and_then (under_any resolve target [root]) (\<lambda>inside.
           if inside then Inr True else is_path_in_write_scope resolve a p)))"

section \<open>Evaluation\<close>

definition json_strings :: "json option \<Rightarrow> string list" where
  "json_strings v = (case v of Some (JStr s) \<Rightarrow> if s = '''' then [] else [s] | _ \<Rightarrow> [])"

definition json_string_list :: "json option \<Rightarrow> string list" where
  "json_string_list v = (case v of Some (JList vs) \<Rightarrow> concat (map (\<lambda>x. json_strings (Some x)) vs) | _ \<Rightarrow> [])"

definition extract_file_paths :: "(string, json) dict \<Rightarrow> string list" where
  "extract_file_paths args =
    concat (map (\<lambda>k. json_strings (dict_get args k)) [''file_path'', ''path'', ''target'', ''file'']) @
    concat (map (\<lambda>k. json_string_list (dict_get args k)) [''files'', ''paths'', ''targets'']) @
    json_string_list (dict_get args ''include_paths'')"

text \<open>\<^verbatim>\<open>all(f(x) for x in xs)\<close>: stops at the first false value or exception.\<close>

fun all_of :: "('a \<Rightarrow> bool result) \<Rightarrow> 'a list \<Rightarrow> bool result" where
  "all_of f [] = Inr True"
| "all_of f (x # xs) = and_then (f x) (\<lambda>b. if b then all_of f xs else Inr False)"

definition evaluation ::
  "MissionExecutionAuthority \<Rightarrow> AuthorityDecision \<Rightarrow> MatchedRuleKind \<Rightarrow> bool \<Rightarrow> AuthorityEvaluation" where
  "evaluation a decision rule approval =
    \<lparr>ae_decision = decision, ae_source = MISSION_CLAIM, ae_matched_rule_kind = Some rule,
     ae_requires_approval = approval, ae_mission_id = ma_mission_id a, ae_claim_id = Some (ma_claim_id a),
     ae_provenance_sha256 = ma_provenance_sha256 a\<rparr>"

definition in_class :: "string option \<Rightarrow> string list \<Rightarrow> bool" where
  "in_class c cs \<longleftrightarrow> (case c of None \<Rightarrow> False | Some s \<Rightarrow> s \<in> set cs)"

text \<open>The last three rules: mutations with paths, mutations without, everything else.\<close>

definition evaluate_mutation ::
  "resolver \<Rightarrow> MissionExecutionAuthority \<Rightarrow> string list \<Rightarrow> bool \<Rightarrow> AuthorityEvaluation result" where
  "evaluate_mutation resolve a files is_mutation =
    (if is_mutation \<and> files \<noteq> []
     then and_then (all_of (is_path_in_write_scope resolve a) files) (\<lambda>ok. Inr
       (if ok then evaluation a ALLOWED_IN_SCOPE SCOPE_PATH False
        else evaluation a REQUIRES_SCOPE_EXPANSION SCOPE_PATH True))
     else if is_mutation then Inr (evaluation a REQUIRES_SCOPE_EXPANSION TOOL_NOT_ADMITTED True)
     else Inr (evaluation a NOT_EVALUATED TOOL_NOT_ADMITTED True))"

definition evaluate ::
  "resolver \<Rightarrow> int \<Rightarrow> MissionExecutionAuthority \<Rightarrow> string \<Rightarrow> (string, json) dict \<Rightarrow> string option \<Rightarrow> string option \<Rightarrow>
   AuthorityEvaluation result" where
  "evaluate resolve now a tool args mutation_class execution_mode =
    (if \<not> authority_active now a then Inr (evaluation a REFUSED_BY_POLICY PROTECTED_SURFACE True)
     else
       let files = extract_file_paths args in
       if tool \<in> set PROTECTED_SURFACE_ACTIONS \<or> tool \<in> set REMOTE_MUTATION_ACTIONS
       then Inr (if ma_admitted_protected_surface a
                 then evaluation a REQUIRES_CONSECUTIAL_APPROVAL PROTECTED_SURFACE True
                 else evaluation a REFUSED_BY_POLICY PROTECTED_SURFACE True)
       else if tool \<in> set PUSH_MERGE_PROMOTE_ACTIONS \<or> tool \<in> set DESTRUCTIVE_GIT_ACTIONS
       then Inr (evaluation a REQUIRES_CONSECUTIAL_APPROVAL CONSEQUENTIAL_ACTION True)
       else if in_class mutation_class READ_ONLY_VISIBILITY_CLASSES
       then Inr (evaluation a ALLOWED_IN_SCOPE REPOSITORY_READ False)
       else
         let is_mutation = in_class mutation_class NORMAL_WORK_MUTATION_CLASSES in
         if tool = ''prepare_checkpoint''
         then Inr (if ma_admitted_checkpoint a
                   then evaluation a ALLOWED_IN_SCOPE GOVERNED_CHECKPOINT_PREPARATION False
                   else evaluation a REQUIRES_CONSECUTIAL_APPROVAL CONSEQUENTIAL_ACTION True)
         else if tool = ''checkpoint''
         then Inr (if ma_admitted_checkpoint a
                   then evaluation a ALLOWED_IN_SCOPE GOVERNED_CHECKPOINT False
                   else evaluation a REQUIRES_CONSECUTIAL_APPROVAL CONSEQUENTIAL_ACTION True)
         else if tool = ''ruff_format'' \<and> files \<noteq> []
         then and_then (all_of (is_path_in_write_scope resolve a) files) (\<lambda>ok.
           if ok then Inr (evaluation a ALLOWED_IN_SCOPE SCOPE_PATH False)
           else evaluate_mutation resolve a files is_mutation)
         else evaluate_mutation resolve a files is_mutation)"

section \<open>Derivation from a task claim\<close>

fun resolve_scope :: "resolver \<Rightarrow> string list \<Rightarrow> posix_path list result" where
  "resolve_scope resolve [] = Inr []"
| "resolve_scope resolve (raw # rest) =
    (case resolve (path_of raw) of
       Inl (ValueError m) \<Rightarrow> resolve_scope resolve rest
     | Inl TypeError \<Rightarrow> resolve_scope resolve rest
     | Inl err \<Rightarrow> Inl err
     | Inr p \<Rightarrow> and_then (resolve_scope resolve rest) (\<lambda>ps. Inr (p # ps)))"

definition derive_authority_from_claim ::
  "resolver \<Rightarrow> CoordinationTaskClaim \<Rightarrow> string option \<Rightarrow> bool \<Rightarrow> bool \<Rightarrow> bool \<Rightarrow> string option \<Rightarrow>
   MissionExecutionAuthority result" where
  "derive_authority_from_claim resolve claim worktree_root checkpoint dependency protected mission =
    and_then (resolve_scope resolve (tc_scope_allowed_paths claim)) (\<lambda>paths.
    and_then (case worktree_root of
                None \<Rightarrow> Inr None
              | Some w \<Rightarrow> and_then (resolve (path_of w)) (\<lambda>p. Inr (Some p))) (\<lambda>root. Inr
      \<lparr>ma_claim_id = tc_task_id claim, ma_session_id = tc_session_id claim, ma_task_id = tc_task_id claim,
       ma_mission_id = mission, ma_canonical_paths = paths, ma_worktree_root = root,
       ma_admitted_checkpoint = checkpoint, ma_admitted_dependency_change = dependency,
       ma_admitted_protected_surface = protected, ma_expires_at = tc_expires_at claim,
       ma_status = tc_status claim, ma_provenance_sha256 = tc_state_sha256 claim\<rparr>))"

section \<open>Facts about scopes\<close>

lemma all_of_True: "all_of f xs = Inr True \<longleftrightarrow> (\<forall>x \<in> set xs. f x = Inr True)"
  by (induction xs) (auto simp: and_then_Inr_iff split: if_splits)

lemma under_any_True:
  "under_any resolve target bases = Inr True \<Longrightarrow> \<exists>b \<in> set bases. \<exists>r. resolve b = Inr r \<and> relative_to target r"
  by (induction resolve target bases rule: under_any.induct) (auto split: sum.splits py_error.splits if_splits)

lemma in_write_scopeD:
  assumes "is_path_in_write_scope resolve a p = Inr True"
  obtains t b r where "resolve (path_of p) = Inr t" and "b \<in> set (ma_canonical_paths a)" and "resolve b = Inr r"
    and "relative_to t r"
  using assms under_any_True unfolding is_path_in_write_scope_def and_then_Inr_iff by metis

lemma resolve_scope_set:
  "resolve_scope resolve raws = Inr ps \<Longrightarrow> b \<in> set ps \<Longrightarrow> \<exists>raw \<in> set raws. resolve (path_of raw) = Inr b"
  by (induction raws arbitrary: ps) (auto simp: and_then_Inr_iff split: sum.splits py_error.splits)

lemma evaluation_simps [simp]:
  "ae_decision (evaluation a d r q) = d" "ae_requires_approval (evaluation a d r q) = q"
  by (simp_all add: evaluation_def)

lemma evaluation_inject [simp]: "evaluation a d r q = evaluation a d' r' q' \<longleftrightarrow> d = d' \<and> r = r' \<and> q = q'"
  by (auto simp: evaluation_def)

section \<open>Properties\<close>

text \<open>The actions that no mission claim admits by itself.\<close>

definition policy_rails :: "string set" where
  "policy_rails = set PROTECTED_SURFACE_ACTIONS \<union> set REMOTE_MUTATION_ACTIONS \<union>
    set PUSH_MERGE_PROMOTE_ACTIONS \<union> set DESTRUCTIVE_GIT_ACTIONS"

lemma evaluate_mutation_allowed:
  assumes "evaluate_mutation resolve a files m = Inr ev"
  shows "(ae_requires_approval ev \<longleftrightarrow> ae_decision ev \<noteq> ALLOWED_IN_SCOPE) \<and>
    (ae_decision ev = ALLOWED_IN_SCOPE \<longleftrightarrow>
       m \<and> files \<noteq> [] \<and> (\<forall>p \<in> set files. is_path_in_write_scope resolve a p = Inr True))"
  using assms all_of_True [of "is_path_in_write_scope resolve a" files]
  by (auto simp: evaluate_mutation_def and_then_Inr_iff split: if_splits)

text \<open>The stages of the evaluation, each under the conditions that reach it.\<close>

lemma class_simps:
  "in_class c READ_ONLY_VISIBILITY_CLASSES \<longleftrightarrow> c = Some ''read_only''"
  "in_class c NORMAL_WORK_MUTATION_CLASSES \<longleftrightarrow> c = Some ''writes_workspace''"
  by (auto simp: in_class_def READ_ONLY_VISIBILITY_CLASSES_def NORMAL_WORK_MUTATION_CLASSES_def split: option.splits)

lemma evaluate_inactive:
  "\<not> authority_active now a \<Longrightarrow>
   evaluate resolve now a tool args mc em = Inr (evaluation a REFUSED_BY_POLICY PROTECTED_SURFACE True)"
  by (simp add: evaluate_def)

lemma evaluate_rails:
  "authority_active now a \<Longrightarrow> tool \<in> policy_rails \<Longrightarrow>
   evaluate resolve now a tool args mc em = Inr
     (if tool \<in> set PROTECTED_SURFACE_ACTIONS \<union> set REMOTE_MUTATION_ACTIONS
      then if ma_admitted_protected_surface a
        then evaluation a REQUIRES_CONSECUTIAL_APPROVAL PROTECTED_SURFACE True
        else evaluation a REFUSED_BY_POLICY PROTECTED_SURFACE True
      else evaluation a REQUIRES_CONSECUTIAL_APPROVAL CONSEQUENTIAL_ACTION True)"
  by (cases "tool \<in> set PROTECTED_SURFACE_ACTIONS \<union> set REMOTE_MUTATION_ACTIONS")
    (auto simp: evaluate_def policy_rails_def)

lemma evaluate_read:
  "authority_active now a \<Longrightarrow> tool \<notin> policy_rails \<Longrightarrow>
   evaluate resolve now a tool args (Some ''read_only'') em = Inr (evaluation a ALLOWED_IN_SCOPE REPOSITORY_READ False)"
  by (simp add: evaluate_def policy_rails_def class_simps)

lemma evaluate_checkpoint:
  "authority_active now a \<Longrightarrow> tool \<notin> policy_rails \<Longrightarrow> mc \<noteq> Some ''read_only'' \<Longrightarrow>
   tool = ''checkpoint'' \<or> tool = ''prepare_checkpoint'' \<Longrightarrow>
   evaluate resolve now a tool args mc em = Inr
     (if ma_admitted_checkpoint a
      then evaluation a ALLOWED_IN_SCOPE
        (if tool = ''checkpoint'' then GOVERNED_CHECKPOINT else GOVERNED_CHECKPOINT_PREPARATION) False
      else evaluation a REQUIRES_CONSECUTIAL_APPROVAL CONSEQUENTIAL_ACTION True)"
  by (auto simp: evaluate_def policy_rails_def class_simps)

lemma evaluate_work:
  "authority_active now a \<Longrightarrow> tool \<notin> policy_rails \<Longrightarrow> mc \<noteq> Some ''read_only'' \<Longrightarrow>
   tool \<noteq> ''checkpoint'' \<Longrightarrow> tool \<noteq> ''prepare_checkpoint'' \<Longrightarrow>
   evaluate resolve now a tool args mc em =
     (let files = extract_file_paths args; m = (mc = Some ''writes_workspace'') in
      if tool = ''ruff_format'' \<and> files \<noteq> []
      then and_then (all_of (is_path_in_write_scope resolve a) files) (\<lambda>ok.
        if ok then Inr (evaluation a ALLOWED_IN_SCOPE SCOPE_PATH False) else evaluate_mutation resolve a files m)
      else evaluate_mutation resolve a files m)"
  by (simp add: evaluate_def policy_rails_def class_simps Let_def)

lemmas evaluate_rules = evaluate_inactive evaluate_rails evaluate_read evaluate_checkpoint evaluate_work Let_def

lemma evaluate_allowed:
  fixes args defines "files \<equiv> extract_file_paths args"
  assumes "evaluate resolve now a tool args mc em = Inr ev"
  shows "(ae_requires_approval ev \<longleftrightarrow> ae_decision ev \<noteq> ALLOWED_IN_SCOPE) \<and>
    (ae_decision ev = ALLOWED_IN_SCOPE \<longleftrightarrow>
       authority_active now a \<and> tool \<notin> policy_rails \<and>
       (mc = Some ''read_only'' \<or>
        (if tool = ''checkpoint'' \<or> tool = ''prepare_checkpoint'' then ma_admitted_checkpoint a
         else (tool = ''ruff_format'' \<or> mc = Some ''writes_workspace'') \<and> files \<noteq> [] \<and>
           (\<forall>p \<in> set files. is_path_in_write_scope resolve a p = Inr True))))"
proof (cases "authority_active now a \<and> tool \<notin> policy_rails \<and> mc \<noteq> Some ''read_only'' \<and>
    tool \<notin> {''checkpoint'', ''prepare_checkpoint''}")
  case True
  let ?m = "mc = Some ''writes_workspace''"
  consider (formatted) "tool = ''ruff_format''" "files \<noteq> []" "all_of (is_path_in_write_scope resolve a) files = Inr True"
      "ev = evaluation a ALLOWED_IN_SCOPE SCOPE_PATH False"
    | (refused) "tool = ''ruff_format''" "all_of (is_path_in_write_scope resolve a) files \<noteq> Inr True"
      "evaluate_mutation resolve a files ?m = Inr ev"
    | (other) "tool \<noteq> ''ruff_format'' \<or> files = []" "evaluate_mutation resolve a files ?m = Inr ev"
    using assms(2) True by (auto simp: evaluate_rules files_def and_then_Inr_iff split: if_splits)
  then show ?thesis
  proof cases
    case formatted
    with True show ?thesis using all_of_True [of _ files] by simp
  next
    case refused
    with True evaluate_mutation_allowed [OF refused(3)] show ?thesis using all_of_True [of _ files] by auto
  next
    case other
    with True evaluate_mutation_allowed [OF other(2)] show ?thesis by auto
  qed
next
  case False
  from False consider "\<not> authority_active now a" | "authority_active now a" "tool \<in> policy_rails"
    | "authority_active now a" "tool \<notin> policy_rails" "mc = Some ''read_only''"
    | "authority_active now a" "tool \<notin> policy_rails" "mc \<noteq> Some ''read_only''" "tool = ''checkpoint'' \<or> tool = ''prepare_checkpoint''"
    by blast
  then show ?thesis
    using assms(2) by cases (auto simp: evaluate_rules split: if_splits)
qed


definition demo_resolve :: resolver where
  "demo_resolve p = Inr (''/'', if fst p = '''' then ''repo'' # snd p else snd p)"

definition demo_task_claim :: CoordinationTaskClaim where
  "demo_task_claim =
    \<lparr>tc_session_id = ''s1'', tc_task_id = ''t1'', tc_claim_kind = ''exclusive'', tc_ttl_seconds = 60,
     tc_scope_allowed_paths = [''src''], tc_status = Cl_active, tc_created_at = Aware 0,
     tc_expires_at = Some (Aware 60), tc_state_sha256 = None\<rparr>"

definition demo_authority :: MissionExecutionAuthority where
  "demo_authority =
    \<lparr>ma_claim_id = ''t1'', ma_session_id = ''s1'', ma_task_id = ''t1'', ma_mission_id = None,
     ma_canonical_paths = [(''/'', [''repo'', ''src''])], ma_worktree_root = Some (''/'', [''repo'']),
     ma_admitted_checkpoint = False, ma_admitted_dependency_change = False, ma_admitted_protected_surface = False,
     ma_expires_at = Some (Aware 60), ma_status = Cl_active, ma_provenance_sha256 = None\<rparr>"

lemmas authority_evaluation =
  demo_resolve_def demo_task_claim_def demo_authority_def evaluate_def evaluate_mutation_def evaluation_def
  authority_active_def in_class_def extract_file_paths_def json_strings_def json_string_list_def dict_get_def
  is_path_in_write_scope_def path_of_def path_parts_def splitroot_def relative_to_def
  PROTECTED_SURFACE_ACTIONS_def REMOTE_MUTATION_ACTIONS_def PUSH_MERGE_PROMOTE_ACTIONS_def
  DESTRUCTIVE_GIT_ACTIONS_def READ_ONLY_VISIBILITY_CLASSES_def NORMAL_WORK_MUTATION_CLASSES_def
  derive_authority_from_claim_def


text \<open>
  A mission authority never widens its claim.  Take an authority derived from a task
  claim, and suppose that resolving an already resolved path gives it back.  When the
  authority admits a workspace write, the claim is active and not past its expiry, the call
  names a path, and each path it names resolves to a place at or below the resolution of one
  of the paths in the claim's scope.
\<close>

theorem authority_stays_within_claim:
  assumes "derive_authority_from_claim resolve claim wt cp dep prot mission = Inr a"
    and "evaluate resolve' now a tool args (Some ''writes_workspace'') em = Inr ev"
    and "ae_decision ev = ALLOWED_IN_SCOPE" and "tool \<noteq> ''checkpoint''" and "tool \<noteq> ''prepare_checkpoint''"
    and stable: "\<And>p q. resolve p = Inr q \<Longrightarrow> resolve' q = Inr q"
  shows "tc_status claim = Cl_active \<and> (\<forall>t. tc_expires_at claim = Some (Aware t) \<longrightarrow> now \<le> t) \<and>
    extract_file_paths args \<noteq> [] \<and>
    (\<forall>p \<in> set (extract_file_paths args). \<exists>raw \<in> set (tc_scope_allowed_paths claim). \<exists>base target.
       resolve (path_of raw) = Inr base \<and> resolve' (path_of p) = Inr target \<and> relative_to target base)"
proof -
  have a: "resolve_scope resolve (tc_scope_allowed_paths claim) = Inr (ma_canonical_paths a)"
      "ma_status a = tc_status claim" "ma_expires_at a = tc_expires_at claim"
    using assms(1) by (auto simp: derive_authority_from_claim_def and_then_Inr_iff)
  have admitted: "authority_active now a" "extract_file_paths args \<noteq> []"
      "\<forall>p \<in> set (extract_file_paths args). is_path_in_write_scope resolve' a p = Inr True"
    using evaluate_allowed [OF assms(2)] assms(3-5) by auto
  have "\<exists>raw \<in> set (tc_scope_allowed_paths claim). \<exists>base target.
      resolve (path_of raw) = Inr base \<and> resolve' (path_of p) = Inr target \<and> relative_to target base"
    if p: "p \<in> set (extract_file_paths args)" for p
  proof -
    from admitted(3) p obtain t b r where b: "resolve' (path_of p) = Inr t" "b \<in> set (ma_canonical_paths a)"
        "resolve' b = Inr r" "relative_to t r" by (metis in_write_scopeD)
    moreover obtain raw where "raw \<in> set (tc_scope_allowed_paths claim)" "resolve (path_of raw) = Inr b"
      using resolve_scope_set [OF a(1) b(2)] by blast
    ultimately show ?thesis using stable by fastforce
  qed
  with admitted(1,2) a(2,3) show ?thesis by (auto simp: authority_active_def)
qed

theorem authority_stays_within_claim_witness:
  "\<exists>a ev. derive_authority_from_claim demo_resolve demo_task_claim (Some ''/repo'') False False False None = Inr a \<and>
     evaluate demo_resolve 10 a ''write_file'' [(''path'', JStr ''src/a'')] (Some ''writes_workspace'') None = Inr ev \<and>
     ae_decision ev = ALLOWED_IN_SCOPE \<and>
     (\<exists>raw \<in> set (tc_scope_allowed_paths demo_task_claim). \<exists>base target.
        demo_resolve (path_of raw) = Inr base \<and> demo_resolve (path_of ''src/a'') = Inr target \<and> relative_to target base)"
proof -
  have d: "derive_authority_from_claim demo_resolve demo_task_claim (Some ''/repo'') False False False None = Inr demo_authority"
    by (simp add: authority_evaluation)
  obtain ev where ev: "evaluate demo_resolve 10 demo_authority ''write_file'' [(''path'', JStr ''src/a'')] (Some ''writes_workspace'') None = Inr ev"
      "ae_decision ev = ALLOWED_IN_SCOPE"
    by (simp add: authority_evaluation)
  have files: "extract_file_paths [(''path'', JStr ''src/a'')] = [''src/a'']" by (simp add: authority_evaluation)
  have stable: "demo_resolve p = Inr q \<Longrightarrow> demo_resolve q = Inr q" for p q by (auto simp: demo_resolve_def)
  have "\<exists>raw \<in> set (tc_scope_allowed_paths demo_task_claim). \<exists>base target.
      demo_resolve (path_of raw) = Inr base \<and> demo_resolve (path_of ''src/a'') = Inr target \<and> relative_to target base"
    using authority_stays_within_claim [OF d ev(1,2) _ _ stable] files by auto
  with d ev show ?thesis by blast
qed

end
