(* ===== verification/Json_Values.thy ===== *)
theory Json_Values
  imports Relay_Prelude "HOL-Library.Multiset"
begin

text \<open>
  JSON values as the governance code handles them: dictionaries read with \<^verbatim>\<open>.get\<close>, Python's
  truth of a value, and the canonical form that \<^verbatim>\<open>json.dumps(value, sort_keys=True)\<close> fixes.
  JSON text is represented by the value it denotes with the keys of every object sorted;
  writing a value and reading it back gives that form.  A string that
  \<^verbatim>\<open>datetime.fromisoformat\<close> accepts is a \<open>JTime\<close>, any other string a \<open>JStr\<close>.
\<close>

type_synonym jdict = "(string, json) dict"

section \<open>Canonical form\<close>

fun canon :: "json \<Rightarrow> json" where
  "canon (JList vs) = JList (map canon vs)"
| "canon (JObj kvs) = JObj (sort_key fst (map (\<lambda>kv. (fst kv, canon (snd kv))) kvs))"
| "canon v = v"

definition canon_dict :: "jdict \<Rightarrow> jdict" where
  "canon_dict d = sort_key fst (map (\<lambda>kv. (fst kv, canon (snd kv))) d)"

lemma canon_JObj: "canon (JObj d) = JObj (canon_dict d)"
  by (simp add: canon_dict_def)

lemma keys_canon_dict [simp]: "map fst (canon_dict d) = sort (map fst d)"
proof -
  have "mset (map fst (canon_dict d)) = mset (map fst d)"
    by (simp add: canon_dict_def image_mset.compositionality comp_def)
  moreover have "sorted (map fst (canon_dict d))" by (simp add: canon_dict_def)
  ultimately show ?thesis by (metis properties_for_sort)
qed

lemma wf_canon_dict [simp]: "wf_dict (canon_dict d) = wf_dict d"
  by (simp add: wf_dict_def)

lemma dict_key_iff: "k \<in> fst ` set d \<longleftrightarrow> dict_get d k \<noteq> None"
  by (simp add: dict_get_def map_of_eq_None_iff)

lemma set_canon_dict: "set (canon_dict d) = (\<lambda>kv. (fst kv, canon (snd kv))) ` set d"
  by (simp add: canon_dict_def)

lemma dict_get_canon [dict_simps]: "wf_dict d \<Longrightarrow> dict_get (canon_dict d) k = map_option canon (dict_get d k)"
proof (cases "dict_get d k")
  case None
  then have "k \<notin> fst ` set (canon_dict d)"
    by (simp add: set_canon_dict image_image dict_get_def map_of_eq_None_iff)
  then have "dict_get (canon_dict d) k = None" by (simp add: dict_get_def map_of_eq_None_iff)
  with None show ?thesis by simp
next
  case (Some v)
  assume "wf_dict d"
  with Some have "(k, canon v) \<in> set (canon_dict d)"
    by (force simp: set_canon_dict dict_item_get [symmetric])
  with Some \<open>wf_dict d\<close> show ?thesis by (simp add: dict_item_get)
qed

text \<open>The canonical form depends only on what the keys map to.\<close>

lemma canon_dict_ext:
  assumes "wf_dict d" and "wf_dict e"
    and "\<And>k. map_option canon (dict_get d k) = map_option canon (dict_get e k)"
  shows "canon_dict d = canon_dict e"
proof (rule map_sorted_distinct_set_unique [where f = fst])
  have "set (canon_dict d) = set (canon_dict e)"
    using assms by (auto simp: dict_item_get dict_get_canon)
  then show "set (canon_dict d) = set (canon_dict e)" .
  show "inj_on fst (set (canon_dict d) \<union> set (canon_dict e))"
    using assms by (auto intro!: inj_onI simp: dict_item_get dict_get_canon)
  show "sorted (map fst (canon_dict d))" "sorted (map fst (canon_dict e))" by simp_all
  show "distinct (map fst (canon_dict d))" "distinct (map fst (canon_dict e))"
    using assms(1,2) by (simp_all only: wf_dict_def keys_canon_dict distinct_sort)
qed

lemma map_insort_key: "(\<And>y. k (f y) = k y) \<Longrightarrow> map f (insort_key k x xs) = insort_key k (f x) (map f xs)"
  by (induction xs) auto

lemma map_sort_key: "(\<And>y. k (f y) = k y) \<Longrightarrow> map f (sort_key k xs) = sort_key k (map f xs)"
  by (induction xs) (simp_all add: map_insort_key)

lemma canon_idem [simp]: "canon (canon v) = canon v"
proof (induction v rule: canon.induct)
  case (2 kvs)
  let ?f = "\<lambda>kv. (fst kv, canon (snd kv))"
  have "map ?f (map ?f kvs) = map ?f kvs" using 2 by simp
  moreover have "map ?f (sort_key fst (map ?f kvs)) = sort_key fst (map ?f (map ?f kvs))"
    by (rule map_sort_key) simp
  ultimately show ?case by (simp add: sort_key_id_if_sorted del: map_map)
qed simp_all

lemma canon_canon_dict [simp]: "canon_dict (canon_dict d) = canon_dict d"
  using canon_idem [of "JObj d"] by (simp only: canon_JObj json.inject)

declare canon.simps(2) [simp del] canon_JObj [simp]

section \<open>Python's view of a value\<close>

text \<open>\<^verbatim>\<open>bool(v)\<close>; a missing key reads as \<^verbatim>\<open>None\<close>.\<close>

fun json_truthy :: "json \<Rightarrow> bool" where
  "json_truthy JNull = False"
| "json_truthy (JBool b) = b"
| "json_truthy (JInt n) = (n \<noteq> 0)"
| "json_truthy (JStr s) = (s \<noteq> [])"
| "json_truthy (JTime ts) = (ts \<noteq> NotIso '''')"
| "json_truthy (JList vs) = (vs \<noteq> [])"
| "json_truthy (JObj kvs) = (kvs \<noteq> [])"
| "json_truthy (JFloat s) = list_ex (\<lambda>c. c \<notin> set ''+-.0_'') (takeWhile (\<lambda>c. c \<notin> set ''eE'') s)"

text \<open>\<^verbatim>\<open>d.get(k)\<close>, and \<^verbatim>\<open>d.get(k, default)\<close>.\<close>

definition jget :: "jdict \<Rightarrow> string \<Rightarrow> json" where
  "jget d k = (case dict_get d k of None \<Rightarrow> JNull | Some v \<Rightarrow> v)"

definition jget_or :: "jdict \<Rightarrow> string \<Rightarrow> json \<Rightarrow> json" where
  "jget_or d k dflt = (case dict_get d k of None \<Rightarrow> dflt | Some v \<Rightarrow> v)"

text \<open>\<^verbatim>\<open>(v or {})\<close> before \<^verbatim>\<open>.get\<close>: a true value that is no dictionary raises.\<close>

fun as_dict :: "json \<Rightarrow> jdict result" where
  "as_dict (JObj d) = Inr d"
| "as_dict v = (if json_truthy v then Inl AttributeError else Inr [])"

text \<open>\<^verbatim>\<open>v.startswith(p)\<close> on a value that may not be a string.\<close>

fun json_startswith :: "json \<Rightarrow> string \<Rightarrow> bool result" where
  "json_startswith (JStr s) p = Inr (startswith s p)"
| "json_startswith (JTime ts) p = Inr False"
| "json_startswith v p = Inl AttributeError"

text \<open>\<^verbatim>\<open>datetime.fromisoformat(v.replace("Z", "+00:00")) < now\<close>, with the exceptions it raises.\<close>

fun json_time :: "json \<Rightarrow> timestamp result" where
  "json_time (JTime ts) = Inr ts"
| "json_time (JStr s) = Inr (NotIso s)"
| "json_time v = Inl AttributeError"

fun stamp_before :: "timestamp \<Rightarrow> int \<Rightarrow> bool result" where
  "stamp_before (Aware t) now = Inr (t < now)"
| "stamp_before (Naive t) now = Inl TypeError"
| "stamp_before (NotIso s) now = Inl (ValueError ''Invalid isoformat string'')"

text \<open>\<^verbatim>\<open>s.lower()\<close> on the characters of ASCII.\<close>

definition lower_char :: "char \<Rightarrow> char" where
  "lower_char c = (let n = of_char c :: nat in if 65 \<le> n \<and> n \<le> 90 then char_of (n + 32) else c)"

definition str_lower :: "string \<Rightarrow> string" where
  "str_lower s = map lower_char s"

text \<open>\<^verbatim>\<open>s.strip()\<close>, and \<^verbatim>\<open>s.splitlines()\<close> at newlines.\<close>

definition is_space :: "char \<Rightarrow> bool" where
  "is_space c \<longleftrightarrow> c \<in> {CHR 0x20, CHR 0x09, CHR 0x0A, CHR 0x0B, CHR 0x0C, CHR 0x0D, CHR 0x1C, CHR 0x1D, CHR 0x1E, CHR 0x1F}"

definition str_strip :: "string \<Rightarrow> string" where
  "str_strip s = rev (dropWhile is_space (rev (dropWhile is_space s)))"

fun split_lines :: "string \<Rightarrow> string list" where
  "split_lines [] = []"
| "split_lines (c # s) =
    (if c = CHR 0x0A then [] # split_lines s
     else case split_lines s of [] \<Rightarrow> [[c]] | l # ls \<Rightarrow> (c # l) # ls)"

text \<open>\<^verbatim>\<open>isinstance(v, str)\<close>.\<close>

definition is_text :: "json \<Rightarrow> bool" where
  "is_text v = (case v of JStr s \<Rightarrow> True | JTime ts \<Rightarrow> True | _ \<Rightarrow> False)"

lemma jget_set [dict_simps]: "jget (dict_set k v d) k' = (if k' = k then v else jget d k')"
  by (simp add: jget_def dict_get_set)

lemma jget_or_set [dict_simps]: "jget_or (dict_set k v d) k' x = (if k' = k then v else jget_or d k' x)"
  by (simp add: jget_or_def dict_get_set)

lemma jget_canon [dict_simps]: "wf_dict d \<Longrightarrow> jget (canon_dict d) k = canon (jget d k)"
  by (simp add: jget_def dict_get_canon split: option.splits)

text \<open>What is in a file of JSON.\<close>

datatype stored_file = FileUnreadable | FileNotJson | FileJson json

end
