(* ===== verification/Auth_Receipts.thy ===== *)
theory Auth_Receipts
  imports Json_Values
begin

text \<open>
  Step-up authorization receipts, \<^verbatim>\<open>rig_relay/governance/auth_receipts.py\<close>: the default
  policy, the receipts the code issues, and their validation.  A receipt is a JSON
  dictionary.  SHA-256 over canonical JSON and \<^verbatim>\<open>str\<close> of a value that is no string are the
  fields of \<open>receipt_env\<close>; the clock and the random identifiers are arguments.  The schema
  version and the empty warnings of the policy are left out, and a dash in a warning text
  is written in ASCII.
\<close>

section \<open>Parameters\<close>

record receipt_env =
  re_sha :: "json \<Rightarrow> string"
  re_str :: "json \<Rightarrow> string"

definition json_digest :: "receipt_env \<Rightarrow> jdict \<Rightarrow> string" where
  "json_digest env d = re_sha env (canon (JObj d))"

definition py_str :: "receipt_env \<Rightarrow> json \<Rightarrow> string" where
  "py_str env v = (case v of JStr s \<Rightarrow> s | _ \<Rightarrow> re_str env v)"

section \<open>Policy\<close>

record AuthPolicy =
  pol_protected_actions :: "string list"
  pol_action_methods :: "(string, string list) dict"
  pol_receipt_ttl_seconds :: int
  pol_default_method :: string
  pol_allow_dev_bypass :: bool

definition dev_or_local :: "string list" where
  "dev_or_local = [''none_dev_only'', ''local_system_auth'']"

definition DEFAULT_POLICY :: AuthPolicy where
  "DEFAULT_POLICY =
    \<lparr>pol_protected_actions =
       [''remote_upload.confirm'', ''telemetry.share_level.change'', ''checkpoint.commit'', ''spawn.execute'',
        ''fleet.execute'', ''lease_cleanup.archive'', ''lease_cleanup.remove'', ''credentials.configure'',
        ''update.restart_now'', ''review_projection.disclose.authorize'', ''preparation_receipt.revoke'',
        ''validate.uncontained_execution''],
     pol_action_methods =
       [(''remote_upload.confirm'', [''none_dev_only'', ''local_system_auth'', ''passkey_webauthn'']),
        (''telemetry.share_level.change'', dev_or_local), (''checkpoint.commit'', dev_or_local),
        (''spawn.execute'', dev_or_local), (''fleet.execute'', dev_or_local),
        (''lease_cleanup.archive'', dev_or_local), (''lease_cleanup.remove'', dev_or_local),
        (''credentials.configure'', dev_or_local), (''update.restart_now'', dev_or_local),
        (''review_projection.disclose.authorize'', dev_or_local), (''preparation_receipt.revoke'', dev_or_local),
        (''validate.uncontained_execution'', dev_or_local)],
     pol_receipt_ttl_seconds = 300, pol_default_method = ''local_system_auth'', pol_allow_dev_bypass = True\<rparr>"

definition READ_ONLY_ACTIONS :: "string list" where
  "READ_ONLY_ACTIONS =
    [''current_state.view'', ''dataset_report.read'', ''cockpit.read'', ''dry_run.upload'', ''dry_run.spawn_plan'',
     ''dry_run.lease_cleanup'', ''schema.validate'', ''search.read'']"

definition action_requires_authorization :: "AuthPolicy \<Rightarrow> string \<Rightarrow> bool" where
  "action_requires_authorization pol action \<longleftrightarrow> action \<in> set (pol_protected_actions pol)"

definition is_read_only_action :: "string \<Rightarrow> bool" where
  "is_read_only_action action \<longleftrightarrow> action \<in> set READ_ONLY_ACTIONS"

section \<open>Validation\<close>

text \<open>The expiry test: a refusal, or \<open>None\<close> when the receipt is still good.\<close>

definition expiry_refusal :: "int \<Rightarrow> json \<Rightarrow> string option result" where
  "expiry_refusal now v =
    and_then (json_time v) (\<lambda>ts. Inr
      (case stamp_before ts now of
         Inl err \<Rightarrow> Some ''Invalid expires_at format''
       | Inr True \<Rightarrow> Some ''Receipt expired''
       | Inr False \<Rightarrow> None))"

definition scope_mismatch :: "jdict \<Rightarrow> jdict option \<Rightarrow> bool result" where
  "scope_mismatch r scope =
    (case scope of
       None \<Rightarrow> Inr False
     | Some s \<Rightarrow>
         if json_truthy (jget s ''target_sha256'')
         then and_then (as_dict (jget r ''action_scope'')) (\<lambda>d. Inr (jget d ''target_sha256'' \<noteq> jget s ''target_sha256''))
         else Inr False)"

definition allowed_methods :: "AuthPolicy \<Rightarrow> string \<Rightarrow> string list" where
  "allowed_methods pol action =
    (case dict_get (pol_action_methods pol) action of None \<Rightarrow> [pol_default_method pol] | Some ms \<Rightarrow> ms)"

text \<open>\<^verbatim>\<open>not v or not v.startswith("sha256:")\<close>.\<close>

definition no_provenance :: "json \<Rightarrow> bool result" where
  "no_provenance v = (if \<not> json_truthy v then Inr True else and_then (json_startswith v ''sha256:'') (\<lambda>b. Inr (\<not> b)))"

definition validate_mission_fields :: "jdict \<Rightarrow> (bool \<times> string) result" where
  "validate_mission_fields r =
    (if \<not> json_truthy (jget r ''mission_identity'')
     then Inr (False, ''Mission-issued receipt missing mission_identity'')
     else and_then (no_provenance (jget r ''authority_provenance_sha256'')) (\<lambda>missing.
       if missing then Inr (False, ''Mission-issued receipt missing valid authority_provenance_sha256'')
       else if \<not> json_truthy (jget r ''claim_id'') then Inr (False, ''Mission-issued receipt missing claim_id'')
       else and_then (as_dict (jget r ''action_scope'')) (\<lambda>d.
         if \<not> json_truthy (jget d ''branch'') \<and> \<not> json_truthy (jget d ''include_paths'')
         then Inr (False, ''Mission-issued receipt missing action_scope binding'')
         else Inr (True, ''Receipt valid''))))"

definition validate_receipt ::
  "receipt_env \<Rightarrow> int \<Rightarrow> jdict \<Rightarrow> string \<Rightarrow> jdict option \<Rightarrow> AuthPolicy \<Rightarrow> (bool \<times> string) result" where
  "validate_receipt env now r action scope pol =
    (if jget r ''schema_version'' \<noteq> JStr ''rig.relay.step_up_authorization_receipt.v1''
     then Inr (False, ''Invalid schema version'')
     else if jget r ''action'' \<noteq> JStr action
     then Inr (False, ''Action mismatch: receipt for '' @ [CHR 0x27] @ py_str env (jget r ''action'') @ [CHR 0x27] @
                 '', expected '' @ [CHR 0x27] @ action @ [CHR 0x27])
     else if jget r ''user_verified'' \<noteq> JBool True then Inr (False, ''User not verified'')
     else if \<not> json_truthy (jget_or r ''expires_at'' (JStr '''')) then Inr (False, ''Missing expires_at'')
     else and_then (expiry_refusal now (jget_or r ''expires_at'' (JStr ''''))) (\<lambda>expiry.
       case expiry of
         Some why \<Rightarrow> Inr (False, why)
       | None \<Rightarrow>
          and_then (scope_mismatch r scope) (\<lambda>mismatch.
            if mismatch then Inr (False, ''Action scope target_sha256 mismatch'')
            else
              let method = jget_or r ''method'' (JStr '''') in
              if method \<notin> JStr ` set (allowed_methods pol action)
              then Inr (False, ''Method '' @ [CHR 0x27] @ py_str env method @ [CHR 0x27] @ '' not allowed for action '' @
                          [CHR 0x27] @ action @ [CHR 0x27])
              else if jget r ''authorization_source'' = JStr ''mission_execution_authority''
              then validate_mission_fields r
              else Inr (True, ''Receipt valid''))))"

section \<open>Issuing receipts\<close>

definition seal_receipt :: "receipt_env \<Rightarrow> jdict \<Rightarrow> jdict" where
  "seal_receipt env r = dict_set ''receipt_sha256'' (JStr (json_digest env r)) r"

definition opt_str :: "string option \<Rightarrow> json" where
  "opt_str x = jopt JStr x"

text \<open>\<open>authz\<close> and \<open>challenge\<close> are the random identifier and the hash of the random challenge.\<close>

definition generate_dev_receipt ::
  "receipt_env \<Rightarrow> int \<Rightarrow> string \<Rightarrow> string \<Rightarrow> string \<Rightarrow> jdict option \<Rightarrow> int \<Rightarrow> jdict result" where
  "generate_dev_receipt env now authz challenge action scope ttl =
    and_then (add_seconds (AwareDT now) ttl) (\<lambda>expires. Inr (seal_receipt env
      [(''schema_version'', JStr ''rig.relay.step_up_authorization_receipt.v1''),
       (''authorization_id'', JStr authz), (''created_at'', JTime (Aware now)), (''action'', JStr action),
       (''action_scope'', JObj (case scope of None \<Rightarrow> [] | Some s \<Rightarrow> s)), (''method'', JStr ''none_dev_only''),
       (''user_verified'', JBool True), (''expires_at'', JTime (isoformat expires)),
       (''challenge_sha256'', JStr challenge), (''credential_id_hash'', JNull),
       (''receipt_sha256'', JStr (''sha256:'' @ replicate 64 (CHR ''0''))),
       (''warnings'', JList [JStr ''Dev receipt - no real user verification performed''])]))"

definition mission_scope :: "string \<Rightarrow> string \<Rightarrow> string \<Rightarrow> string list option \<Rightarrow> jdict" where
  "mission_scope session task branch paths =
    (case paths of Some ps \<Rightarrow> if ps = [] then [] else [(''include_paths'', JList (map JStr ps))] | None \<Rightarrow> []) @
    (if branch \<noteq> '''' then [(''branch'', JStr branch)] else []) @
    (if session \<noteq> '''' then [(''session_id'', JStr session)] else []) @
    (if task \<noteq> '''' then [(''task_id'', JStr task)] else [])"

definition generate_mission_checkpoint_receipt ::
  "receipt_env \<Rightarrow> int \<Rightarrow> string \<Rightarrow> string \<Rightarrow> string option \<Rightarrow> string option \<Rightarrow> string option \<Rightarrow>
   string \<Rightarrow> string \<Rightarrow> string \<Rightarrow> string list option \<Rightarrow> int \<Rightarrow> jdict result" where
  "generate_mission_checkpoint_receipt env now authz challenge mission provenance claim session task branch paths ttl =
    and_then (add_seconds (AwareDT now) ttl) (\<lambda>expires. Inr (seal_receipt env
      [(''schema_version'', JStr ''rig.relay.step_up_authorization_receipt.v1''),
       (''authorization_id'', JStr authz), (''created_at'', JTime (Aware now)),
       (''action'', JStr ''checkpoint.commit''), (''action_scope'', JObj (mission_scope session task branch paths)),
       (''method'', JStr ''none_dev_only''), (''user_verified'', JBool True),
       (''user_verified_kind'', JStr ''transitive_mission_authority''), (''expires_at'', JTime (isoformat expires)),
       (''challenge_sha256'', JStr challenge), (''credential_id_hash'', JNull),
       (''authorization_source'', JStr ''mission_execution_authority''), (''mission_identity'', opt_str mission),
       (''authority_provenance_sha256'', opt_str provenance), (''claim_id'', opt_str claim),
       (''receipt_sha256'', JStr ''''), (''warnings'', JList [])]))"

record preparation_args =
  pa_mission_id :: "string option"
  pa_authority_provenance_sha256 :: "string option"
  pa_claim_id :: "string option"
  pa_session_id :: string
  pa_task_id :: string
  pa_branch :: string
  pa_prepared_paths :: "string list"
  pa_change_kinds :: "string list"
  pa_expected_worktree_sha256_values :: "string list"
  pa_pre_index_tree_digest :: "string option"
  pa_post_index_tree_digest :: "string option"
  pa_index_mutation_performed :: bool
  pa_worktree_root :: "string option"

definition preparation_body :: "int \<Rightarrow> string \<Rightarrow> string \<Rightarrow> preparation_args \<Rightarrow> jdict" where
  "preparation_body now authz challenge a =
    [(''schema_version'', JStr ''rig.relay.checkpoint_preparation_receipt.v1''), (''preparation_id'', JStr authz),
     (''created_at'', JTime (Aware now)), (''action'', JStr ''prepare_checkpoint.stage''),
     (''authorization_source'', JStr ''mission_execution_authority''), (''user_verified'', JBool True),
     (''user_verified_kind'', JStr ''transitive_mission_authority''), (''mission_identity'', opt_str (pa_mission_id a)),
     (''authority_provenance_sha256'', opt_str (pa_authority_provenance_sha256 a)), (''claim_id'', opt_str (pa_claim_id a)),
     (''session_id'', JStr (pa_session_id a)), (''task_id'', JStr (pa_task_id a)), (''branch'', JStr (pa_branch a)),
     (''worktree_root'', opt_str (pa_worktree_root a)), (''prepared_paths'', JList (map JStr (pa_prepared_paths a))),
     (''change_kinds'', JList (map JStr (pa_change_kinds a))),
     (''expected_worktree_sha256_values'', JList (map JStr (pa_expected_worktree_sha256_values a))),
     (''pre_index_tree_digest'', opt_str (pa_pre_index_tree_digest a)),
     (''post_index_tree_digest'', opt_str (pa_post_index_tree_digest a)),
     (''index_mutation_performed'', JBool (pa_index_mutation_performed a)), (''challenge_sha256'', JStr challenge),
     (''expires_at'', JNull), (''receipt_sha256'', JStr '''')]"

definition generate_preparation_receipt ::
  "receipt_env \<Rightarrow> int \<Rightarrow> string \<Rightarrow> string \<Rightarrow> preparation_args \<Rightarrow> jdict" where
  "generate_preparation_receipt env now authz challenge a = seal_receipt env (preparation_body now authz challenge a)"

section \<open>Resolution\<close>

record AuthorizationResult =
  az_authorized :: bool
  az_receipt :: "jdict option"
  az_reason :: "string option"

text \<open>An optional JSON text: absent or empty, not JSON, or JSON.\<close>

datatype json_arg = NoText | BadText | Text json

definition resolve_authorization ::
  "receipt_env \<Rightarrow> int \<Rightarrow> string \<Rightarrow> json_arg \<Rightarrow> jdict option \<Rightarrow> AuthPolicy \<Rightarrow> AuthorizationResult result" where
  "resolve_authorization env now action text scope pol =
    (case text of
       NoText \<Rightarrow> Inr \<lparr>az_authorized = False, az_receipt = None, az_reason = Some ''missing_receipt''\<rparr>
     | BadText \<Rightarrow> Inr \<lparr>az_authorized = False, az_receipt = None, az_reason = Some ''Invalid receipt JSON''\<rparr>
     | Text (JObj r) \<Rightarrow>
         and_then (validate_receipt env now r action scope pol) (\<lambda>(valid, reason). Inr
           (if valid then \<lparr>az_authorized = True, az_receipt = Some r, az_reason = None\<rparr>
            else \<lparr>az_authorized = False, az_receipt = None, az_reason = Some reason\<rparr>))
     | Text v \<Rightarrow> Inl AttributeError)"

definition mint_dev_receipt ::
  "receipt_env \<Rightarrow> int \<Rightarrow> string \<Rightarrow> string \<Rightarrow> string \<Rightarrow> jdict option \<Rightarrow> int \<Rightarrow> jdict result" where
  "mint_dev_receipt = generate_dev_receipt"

section \<open>What validation reads\<close>

lemma jget_seal [simp]: "k \<noteq> ''receipt_sha256'' \<Longrightarrow> jget (seal_receipt env r) k = jget r k"
  "k \<noteq> ''receipt_sha256'' \<Longrightarrow> jget_or (seal_receipt env r) k x = jget_or r k x"
  by (simp_all add: seal_receipt_def dict_simps)

lemma jget_Cons [simp]:
  "jget ((k, v) # d) k' = (if k' = k then v else jget d k')" "jget [] k' = JNull"
  "jget_or ((k, v) # d) k' x = (if k' = k then v else jget_or d k' x)"
  by (simp_all add: jget_def jget_or_def dict_get_def)

lemma default_methods: "dict_get (pol_action_methods DEFAULT_POLICY) a = Some ms \<Longrightarrow> ''none_dev_only'' \<in> set ms"
  by (auto simp: DEFAULT_POLICY_def dev_or_local_def dict_get_def split: if_splits)

lemma default_method_none:
  "dict_get (pol_action_methods DEFAULT_POLICY) a = None \<Longrightarrow> allowed_methods DEFAULT_POLICY a = [''local_system_auth'']"
  by (simp add: allowed_methods_def DEFAULT_POLICY_def)

lemma expiry_refusal_Aware [simp]:
  "expiry_refusal now (JTime (Aware t)) = Inr (if t < now then Some ''Receipt expired'' else None)"
  by (simp add: expiry_refusal_def)

text \<open>A developer receipt is good for its action, until its expiry, where the policy lists the action.\<close>

lemma dev_receipt_validates:
  assumes "generate_dev_receipt env now authz ch action scope ttl = Inr r"
  shows "\<exists>why. validate_receipt env t r action None DEFAULT_POLICY =
    Inr (t \<le> now + seconds ttl \<and> dict_get (pol_action_methods DEFAULT_POLICY) action \<noteq> None, why)"
proof -
  have r: "jget r ''schema_version'' = JStr ''rig.relay.step_up_authorization_receipt.v1''" "jget r ''action'' = JStr action"
      "jget r ''user_verified'' = JBool True" "jget_or r ''expires_at'' (JStr '''') = JTime (Aware (now + seconds ttl))"
      "jget_or r ''method'' (JStr '''') = JStr ''none_dev_only''" "jget r ''authorization_source'' = JNull"
    using assms by (auto simp: generate_dev_receipt_def and_then_Inr_iff split: if_splits)
  show ?thesis
    using default_methods [of action] default_method_none [of action]
    by (cases "dict_get (pol_action_methods DEFAULT_POLICY) action")
      (auto simp: validate_receipt_def r scope_mismatch_def allowed_methods_def)
qed

section \<open>Properties\<close>

lemma mission_scope_get:
  "jget (mission_scope session task branch paths) ''branch'' = (if branch = '''' then JNull else JStr branch)"
  "jget (mission_scope session task branch paths) ''include_paths'' =
    (case paths of Some ps \<Rightarrow> if ps = [] then JNull else JList (map JStr ps) | None \<Rightarrow> JNull)"
  by (auto simp: mission_scope_def split: option.splits)

text \<open>
  A checkpoint receipt issued under mission authority validates for the action it was
  issued for exactly while it is not past its expiry, and exactly when it was issued with a
  mission, a provenance digest, a claim, and a branch or at least one path.
\<close>

theorem mission_receipt_round_trip:
  assumes "generate_mission_checkpoint_receipt env now authz ch mission provenance claim session task branch paths ttl = Inr r"
  shows "\<exists>why. validate_receipt env t r ''checkpoint.commit'' None DEFAULT_POLICY = Inr
    (t \<le> now + seconds ttl \<and> mission \<notin> {None, Some ''''} \<and>
     (\<exists>p. provenance = Some p \<and> startswith p ''sha256:'') \<and> claim \<notin> {None, Some ''''} \<and>
     (branch \<noteq> '''' \<or> paths \<notin> {None, Some []}), why)"
proof -
  let ?s = "mission_scope session task branch paths"
  have r: "jget r ''schema_version'' = JStr ''rig.relay.step_up_authorization_receipt.v1''"
      "jget r ''action'' = JStr ''checkpoint.commit''"
      "jget r ''user_verified'' = JBool True" "jget_or r ''expires_at'' (JStr '''') = JTime (Aware (now + seconds ttl))"
      "jget_or r ''method'' (JStr '''') = JStr ''none_dev_only''"
      "jget r ''authorization_source'' = JStr ''mission_execution_authority''"
      "jget r ''mission_identity'' = opt_str mission" "jget r ''authority_provenance_sha256'' = opt_str provenance"
      "jget r ''claim_id'' = opt_str claim" "jget r ''action_scope'' = JObj ?s"
    using assms by (auto simp: generate_mission_checkpoint_receipt_def and_then_Inr_iff split: if_splits)
  have allowed: "''none_dev_only'' \<in> set (allowed_methods DEFAULT_POLICY ''checkpoint.commit'')"
    by (simp add: allowed_methods_def DEFAULT_POLICY_def dict_get_def dev_or_local_def)
  have truthy: "json_truthy (opt_str x) \<longleftrightarrow> x \<notin> {None, Some ''''}" for x
    by (cases x) (auto simp: opt_str_def jopt_def)
  have prov: "no_provenance (opt_str provenance) = Inr (\<not> (\<exists>p. provenance = Some p \<and> startswith p ''sha256:''))"
    by (cases provenance) (auto simp: no_provenance_def opt_str_def jopt_def startswith_def)
  have bound: "json_truthy (jget ?s ''branch'') \<or> json_truthy (jget ?s ''include_paths'') \<longleftrightarrow>
      branch \<noteq> '''' \<or> paths \<notin> {None, Some []}"
    by (auto simp: mission_scope_get split: option.splits)
  have fields: "\<exists>why. validate_mission_fields r = Inr
      (mission \<notin> {None, Some ''''} \<and> (\<exists>p. provenance = Some p \<and> startswith p ''sha256:'') \<and> claim \<notin> {None, Some ''''} \<and>
       (branch \<noteq> '''' \<or> paths \<notin> {None, Some []}), why)"
    using bound by (simp add: validate_mission_fields_def r truthy prov del: insert_iff) blast
  show ?thesis
    using fields allowed by (auto simp: validate_receipt_def r scope_mismatch_def)
qed

definition demo_receipt_env :: receipt_env where
  "demo_receipt_env = \<lparr>re_sha = (\<lambda>v. ''sha256:0''), re_str = (\<lambda>v. '''')\<rparr>"

theorem mission_receipt_round_trip_witness:
  "\<exists>r why. generate_mission_checkpoint_receipt demo_receipt_env 0 ''a'' ''c'' (Some ''m'') (Some ''sha256:1'') (Some ''t'') '''' '''' ''main'' None 300 = Inr r \<and>
     validate_receipt demo_receipt_env 5 r ''checkpoint.commit'' None DEFAULT_POLICY = Inr (True, why)"
proof -
  obtain r where r: "generate_mission_checkpoint_receipt demo_receipt_env 0 ''a'' ''c'' (Some ''m'') (Some ''sha256:1'') (Some ''t'') '''' '''' ''main'' None 300 = Inr r"
    by (simp add: generate_mission_checkpoint_receipt_def in_range_def datetime_min_def datetime_max_def seconds_def)
  from mission_receipt_round_trip [OF r, of 5] r show ?thesis by (simp add: seconds_def startswith_def)
qed

text \<open>
  Validation does not look at the receipt's digest, its challenge or its identifier:
  whatever they are replaced by, the answer is the same.
\<close>

theorem receipt_digest_unchecked:
  assumes "k \<in> {''receipt_sha256'', ''challenge_sha256'', ''authorization_id'', ''credential_id_hash''}"
  shows "validate_receipt env t (dict_set k v r) action scope pol = validate_receipt env t r action scope pol"
proof -
  have read: "jget (dict_set k v r) k' = jget r k'" "jget_or (dict_set k v r) k' x = jget_or r k' x"
    if "k' \<in> {''schema_version'', ''action'', ''user_verified'', ''expires_at'', ''action_scope'', ''method'',
      ''authorization_source'', ''mission_identity'', ''authority_provenance_sha256'', ''claim_id''}" for k' x
    using assms that by (auto simp: dict_simps)
  show ?thesis by (simp add: validate_receipt_def validate_mission_fields_def scope_mismatch_def read Let_def cong: if_cong option.case_cong)
qed

theorem receipt_digest_unchecked_witness:
  "\<exists>r why. generate_dev_receipt demo_receipt_env 0 ''a'' ''c'' ''spawn.execute'' None 300 = Inr r \<and>
     validate_receipt demo_receipt_env 5 (dict_set ''receipt_sha256'' (JStr ''forged'') r) ''spawn.execute'' None DEFAULT_POLICY =
     Inr (True, why)"
proof -
  obtain r where r: "generate_dev_receipt demo_receipt_env 0 ''a'' ''c'' ''spawn.execute'' None 300 = Inr r"
    by (simp add: generate_dev_receipt_def in_range_def datetime_min_def datetime_max_def seconds_def)
  have "dict_get (pol_action_methods DEFAULT_POLICY) ''spawn.execute'' \<noteq> None" by (simp add: DEFAULT_POLICY_def dict_get_def)
  with dev_receipt_validates [OF r, of 5] r
    receipt_digest_unchecked [of "''receipt_sha256''" demo_receipt_env 5 "JStr ''forged''" r "''spawn.execute''" None DEFAULT_POLICY]
  show ?thesis by (simp add: seconds_def)
qed

end
