(* ===== verification/Sealed_Documents.thy ===== *)
theory Sealed_Documents
  imports Json_Values
begin

text \<open>
  The contract of a JSON document that carries a digest of its other fields: recomputing the
  digest does not read the field that holds it, nor the order of the keys.  Providers are
  the receipts of the receipt store and the events of the recovery ledgers.
\<close>

locale sealed_document =
  fixes field :: string
    and digest :: "jdict \<Rightarrow> string"
  assumes digest_ignores_field: "wf_dict d \<Longrightarrow> digest (dict_set field v d) = digest d"
    and digest_canon: "wf_dict d \<Longrightarrow> digest (canon_dict d) = digest d"
begin

definition seal :: "jdict \<Rightarrow> jdict" where
  "seal d = dict_set field (JStr (digest d)) d"

definition intact :: "jdict \<Rightarrow> bool" where
  "intact d \<longleftrightarrow> dict_get d field = Some (JStr (digest d))"

lemma wf_seal [simp]: "wf_dict d \<Longrightarrow> wf_dict (seal d)"
  by (simp add: seal_def)

lemma digest_seal [simp]: "wf_dict d \<Longrightarrow> digest (seal d) = digest d"
  by (simp add: seal_def digest_ignores_field)

lemma sealed_get: "dict_get (seal d) k = (if k = field then Some (JStr (digest d)) else dict_get d k)"
  by (simp add: seal_def dict_get_set)

lemma seal_intact: "wf_dict d \<Longrightarrow> intact (seal d)"
  by (simp add: intact_def sealed_get)

text \<open>Written to a file and read back.\<close>

lemma stored_intact: "wf_dict d \<Longrightarrow> intact (canon_dict (seal d))"
  by (simp add: intact_def dict_get_canon sealed_get digest_canon)

lemma stored_digest: "wf_dict d \<Longrightarrow> digest (canon_dict (seal d)) = digest d"
  by (simp add: digest_canon)

text \<open>An edit of another field that changes the digest breaks the seal, unless the field is cleared.\<close>

lemma edit_breaks_seal:
  assumes "intact d" and "k \<noteq> field" and "digest (dict_set k v d) \<noteq> digest d"
  shows "\<not> intact (dict_set k v d)"
  using assms by (simp add: intact_def dict_get_set)

lemma same_digest:
  assumes "intact d" and "intact e" and "dict_get d field = dict_get e field"
  shows "digest d = digest e"
  using assms by (simp add: intact_def)

end

end
