(* ===== verification/Receipt_Store.thy ===== *)
theory Receipt_Store
  imports Auth_Receipts Sealed_Documents
begin

text \<open>
  The durable store of preparation and validation receipts, first part of
  \<^verbatim>\<open>rig_relay/governance/receipt_store.py\<close>.  The store directory is an association list from
  file stems to contents; a file is unreadable, not JSON, or JSON.  Stems are taken as
  file-name safe, a write that fails leaves the directory as it was, and the texts for
  people (\<^verbatim>\<open>error_detail\<close>) are left out.  \<^verbatim>\<open>str(Path(p).resolve())\<close> is the argument \<open>rs\<close>, which
  may raise.  The texts of \<^verbatim>\<open>created_at\<close> are compared by \<open>py_str\<close>.
\<close>

section \<open>Files\<close>

type_synonym receipt_dir = "(string, stored_file) dict"

definition sorted_stems :: "receipt_dir \<Rightarrow> (string \<times> stored_file) list" where
  "sorted_stems dir = sort_key (\<lambda>(stem, c). stem @ ''.json'') dir"

text \<open>The JSON values of the files that can be read, in the order of the file names.\<close>

definition readable_files :: "receipt_dir \<Rightarrow> json list" where
  "readable_files dir =
    List.map_filter (\<lambda>(stem, c). case c of FileJson v \<Rightarrow> Some v | _ \<Rightarrow> None) (sorted_stems dir)"

section \<open>Loading with a typed outcome\<close>

datatype PreparationLoadOutcome =
    PL_ABSENT | PL_UNREADABLE | PL_MALFORMED_JSON | PL_SCHEMA_INVALID | PL_INTEGRITY_MISMATCH | PL_LOADED_VALID

record PreparationLoadResult =
  pl_outcome :: PreparationLoadOutcome
  pl_receipt :: "jdict option"
  pl_receipt_sha256 :: string

definition load_failed :: "PreparationLoadOutcome \<Rightarrow> string \<Rightarrow> PreparationLoadResult" where
  "load_failed out i = \<lparr>pl_outcome = out, pl_receipt = None, pl_receipt_sha256 = i\<rparr>"

definition recompute_receipt_digest :: "receipt_env \<Rightarrow> jdict \<Rightarrow> string" where
  "recompute_receipt_digest env r = json_digest env (dict_set ''receipt_sha256'' (JStr '''') r)"

text \<open>The stored digest is missing, empty, or not the recomputed one.\<close>

definition digest_mismatch :: "receipt_env \<Rightarrow> jdict \<Rightarrow> bool" where
  "digest_mismatch env r \<longleftrightarrow>
    (let stored = jget_or r ''receipt_sha256'' (JStr '''')
     in \<not> json_truthy stored \<or> stored \<noteq> JStr (recompute_receipt_digest env r))"

definition PREPARATION_SCHEMA :: string where
  "PREPARATION_SCHEMA = ''rig.relay.checkpoint_preparation_receipt.v1''"

definition load_preparation_receipt_typed ::
  "receipt_env \<Rightarrow> receipt_dir \<Rightarrow> string \<Rightarrow> PreparationLoadResult" where
  "load_preparation_receipt_typed env dir i =
    (case dict_get dir i of
       None \<Rightarrow> load_failed PL_ABSENT i
     | Some FileUnreadable \<Rightarrow> load_failed PL_UNREADABLE i
     | Some FileNotJson \<Rightarrow> load_failed PL_MALFORMED_JSON i
     | Some (FileJson (JObj r)) \<Rightarrow>
         if \<not> {''schema_version'', ''receipt_sha256'', ''created_at''} \<subseteq> fst ` set r then load_failed PL_SCHEMA_INVALID i
         else if jget r ''schema_version'' \<noteq> JStr PREPARATION_SCHEMA then load_failed PL_SCHEMA_INVALID i
         else if digest_mismatch env r then load_failed PL_INTEGRITY_MISMATCH i
         else \<lparr>pl_outcome = PL_LOADED_VALID, pl_receipt = Some r, pl_receipt_sha256 = i\<rparr>
     | Some (FileJson v) \<Rightarrow> load_failed PL_SCHEMA_INVALID i)"

definition load_preparation_receipt :: "receipt_env \<Rightarrow> receipt_dir \<Rightarrow> string \<Rightarrow> jdict option" where
  "load_preparation_receipt env dir i =
    (let res = load_preparation_receipt_typed env dir i
     in if pl_outcome res = PL_LOADED_VALID then pl_receipt res else None)"

text \<open>The name of the written file, or \<open>None\<close>; \<open>ok\<close> says whether the write succeeds.\<close>

definition persist_preparation_receipt ::
  "receipt_env \<Rightarrow> bool \<Rightarrow> jdict \<Rightarrow> receipt_dir \<Rightarrow> receipt_dir \<times> string option" where
  "persist_preparation_receipt env ok r dir =
    (case dict_get r ''receipt_sha256'' of
       None \<Rightarrow> (dir, None)
     | Some v \<Rightarrow>
         if ok then (dict_set (py_str env v) (FileJson (canon (JObj r))) dir, Some (py_str env v))
         else (dir, None))"

definition persist_validation_receipt ::
  "receipt_env \<Rightarrow> bool \<Rightarrow> jdict \<Rightarrow> receipt_dir \<Rightarrow> receipt_dir \<times> string option" where
  "persist_validation_receipt env ok r dir =
    (case dict_get r ''receipt_sha256'' of
       None \<Rightarrow> (dir, None)
     | Some v \<Rightarrow>
         if ok then (dict_set (py_str env v) (FileJson (canon (JObj r))) dir, Some (py_str env v))
         else (dir, None))"

definition load_validation_receipt :: "receipt_dir \<Rightarrow> string \<Rightarrow> json option" where
  "load_validation_receipt dir i = (case dict_get dir i of Some (FileJson v) \<Rightarrow> Some v | _ \<Rightarrow> None)"

section \<open>Searching\<close>

type_synonym path_resolver = "string \<Rightarrow> string result"

text \<open>The resolved worktree differs; when resolving raises, the raw texts are compared.\<close>

definition worktree_differs :: "receipt_env \<Rightarrow> path_resolver \<Rightarrow> json \<Rightarrow> string \<Rightarrow> bool" where
  "worktree_differs env rs v wt =
    (case v of
       JStr s \<Rightarrow> (case (rs s, rs wt) of (Inr a, Inr b) \<Rightarrow> a \<noteq> b | _ \<Rightarrow> s \<noteq> wt)
     | _ \<Rightarrow> py_str env v \<noteq> wt)"

text \<open>Expired, or an expiry that cannot be read or compared.\<close>

definition past_expiry :: "int \<Rightarrow> json \<Rightarrow> bool" where
  "past_expiry now v = (case v of JTime (Aware t) \<Rightarrow> now > t | _ \<Rightarrow> True)"

definition wanted_is :: "jdict \<Rightarrow> string \<Rightarrow> string option \<Rightarrow> bool" where
  "wanted_is r k wanted \<longleftrightarrow> (case wanted of None \<Rightarrow> True | Some w \<Rightarrow> jget r k = JStr w)"

text \<open>\<^verbatim>\<open>receipts.sort(key=..., reverse=True)\<close> keeps the order of equal elements.\<close>

definition newest_first :: "receipt_env \<Rightarrow> jdict list \<Rightarrow> jdict list" where
  "newest_first env rs = rev (sort_key (\<lambda>r. py_str env (jget_or r ''created_at'' (JStr ''''))) (rev rs))"

text \<open>A file whose JSON is no object makes \<^verbatim>\<open>receipt.get\<close> raise.\<close>

fun dicts_only :: "json list \<Rightarrow> jdict list result" where
  "dicts_only [] = Inr []"
| "dicts_only (JObj d # vs) = and_then (dicts_only vs) (\<lambda>ds. Inr (d # ds))"
| "dicts_only (v # vs) = Inl AttributeError"

definition matches_preparation ::
  "receipt_env \<Rightarrow> path_resolver \<Rightarrow> int \<Rightarrow> string option \<Rightarrow> string option \<Rightarrow> string option \<Rightarrow> string option \<Rightarrow> jdict \<Rightarrow> bool" where
  "matches_preparation env rs now branch wt session task r \<longleftrightarrow>
    wanted_is r ''branch'' branch \<and>
    (case wt of None \<Rightarrow> True
     | Some w \<Rightarrow> jget r ''worktree_root'' = JNull \<or> \<not> worktree_differs env rs (jget r ''worktree_root'') w) \<and>
    wanted_is r ''session_id'' session \<and> wanted_is r ''task_id'' task \<and>
    (jget r ''expires_at'' = JNull \<or> \<not> past_expiry now (jget r ''expires_at''))"

definition find_active_preparation_receipts ::
  "receipt_env \<Rightarrow> path_resolver \<Rightarrow> int \<Rightarrow> receipt_dir \<Rightarrow> string option \<Rightarrow> string option \<Rightarrow> string option \<Rightarrow> string option \<Rightarrow>
   jdict list result" where
  "find_active_preparation_receipts env rs now dir branch wt session task =
    and_then (dicts_only (readable_files dir)) (\<lambda>ds. Inr
      (newest_first env (filter (matches_preparation env rs now branch wt session task) ds)))"

definition resolve_best_preparation_receipt ::
  "receipt_env \<Rightarrow> path_resolver \<Rightarrow> int \<Rightarrow> receipt_dir \<Rightarrow> string option \<Rightarrow> string option \<Rightarrow> string option \<Rightarrow> string option \<Rightarrow>
   string option \<Rightarrow> (string \<times> jdict option) result" where
  "resolve_best_preparation_receipt env rs now dir branch wt session task tree =
    and_then (find_active_preparation_receipts env rs now dir branch wt session task) (\<lambda>candidates. Inr
      (case candidates of
         [] \<Rightarrow> (''absent'', None)
       | c # cs \<Rightarrow>
          (case tree of
             Some t \<Rightarrow>
               (case next_or_none (\<lambda>r. jget r ''post_index_tree_digest'' = JStr t) candidates of
                  Some r \<Rightarrow> (''valid_index_match'', Some r)
                | None \<Rightarrow> (''stale_index_mismatch'', Some c))
           | None \<Rightarrow> if cs \<noteq> [] then (''ambiguous'', Some c) else (''valid_index_match'', Some c))))"

section \<open>Validation receipts\<close>

definition VALIDATION_SCHEMA :: string where
  "VALIDATION_SCHEMA = ''rig.relay.prepared_index_validation_receipt.v1''"

record validation_args =
  va_preparation_receipt_sha256 :: string
  va_prepared_index_tree_digest :: "string option"
  va_validation_profile :: string
  va_validation_outcome :: string
  va_worktree_matched_prepared_index :: bool
  va_untracked_observation_status :: string
  va_observed_worktree_policy :: string
  va_exclusion_categories :: "string list"
  va_branch :: string
  va_worktree_root :: "string option"
  va_session_id :: string
  va_task_id :: string
  va_mission_id :: "string option"
  va_claim_id :: "string option"
  va_authority_provenance_sha256 :: "string option"
  va_ignored_disposable_exclusion_categories :: "string list"
  va_ignored_observable_candidate_count :: int
  va_ignored_disposable_count :: int
  va_unknown_ignored_count :: int
  va_observable_input_policy_version :: string

definition generate_validation_receipt ::
  "receipt_env \<Rightarrow> int \<Rightarrow> string \<Rightarrow> validation_args \<Rightarrow> jdict" where
  "generate_validation_receipt env now vid a = seal_receipt env
    [(''schema_version'', JStr VALIDATION_SCHEMA), (''validation_id'', JStr vid), (''created_at'', JTime (Aware now)),
     (''preparation_receipt_sha256'', JStr (va_preparation_receipt_sha256 a)),
     (''prepared_index_tree_digest'', opt_str (va_prepared_index_tree_digest a)),
     (''validation_profile'', JStr (va_validation_profile a)), (''validation_outcome'', JStr (va_validation_outcome a)),
     (''worktree_matched_prepared_index'', JBool (va_worktree_matched_prepared_index a)),
     (''untracked_observation_status'', JStr (va_untracked_observation_status a)),
     (''observed_worktree_policy'', JStr (va_observed_worktree_policy a)),
     (''exclusion_categories'', JList (map JStr (va_exclusion_categories a))),
     (''ignored_disposable_exclusion_categories'', JList (map JStr (va_ignored_disposable_exclusion_categories a))),
     (''ignored_observable_candidate_count'', JInt (va_ignored_observable_candidate_count a)),
     (''ignored_disposable_count'', JInt (va_ignored_disposable_count a)),
     (''unknown_ignored_count'', JInt (va_unknown_ignored_count a)),
     (''observable_input_policy_version'', JStr (va_observable_input_policy_version a)), (''branch'', JStr (va_branch a)),
     (''worktree_root'', opt_str (va_worktree_root a)), (''session_id'', JStr (va_session_id a)),
     (''task_id'', JStr (va_task_id a)), (''mission_identity'', opt_str (va_mission_id a)),
     (''claim_id'', opt_str (va_claim_id a)),
     (''authority_provenance_sha256'', opt_str (va_authority_provenance_sha256 a)),
     (''authorization_source'', JStr ''mission_execution_authority''), (''expires_at'', JNull),
     (''receipt_sha256'', JStr '''')]"

text \<open>Here an empty filter, and an empty field of the receipt, count as absent.\<close>

definition wanted_if :: "jdict \<Rightarrow> string \<Rightarrow> string option \<Rightarrow> bool" where
  "wanted_if r k wanted \<longleftrightarrow> (case wanted of None \<Rightarrow> True | Some w \<Rightarrow> w = '''' \<or> jget r k = JStr w)"

definition matches_validation ::
  "receipt_env \<Rightarrow> path_resolver \<Rightarrow> int \<Rightarrow> string option \<Rightarrow> string option \<Rightarrow> string option \<Rightarrow> string option \<Rightarrow> string option \<Rightarrow>
   jdict \<Rightarrow> bool" where
  "matches_validation env rs now prep branch wt session task r \<longleftrightarrow>
    jget r ''schema_version'' = JStr VALIDATION_SCHEMA \<and>
    wanted_if r ''preparation_receipt_sha256'' prep \<and> wanted_if r ''branch'' branch \<and>
    (case wt of None \<Rightarrow> True
     | Some w \<Rightarrow> w = '''' \<or> \<not> json_truthy (jget r ''worktree_root'') \<or>
         \<not> worktree_differs env rs (jget r ''worktree_root'') w) \<and>
    wanted_if r ''session_id'' session \<and> wanted_if r ''task_id'' task \<and>
    (\<not> json_truthy (jget r ''expires_at'') \<or> \<not> past_expiry now (jget r ''expires_at''))"

definition find_active_validation_receipts ::
  "receipt_env \<Rightarrow> path_resolver \<Rightarrow> int \<Rightarrow> receipt_dir \<Rightarrow> string option \<Rightarrow> string option \<Rightarrow> string option \<Rightarrow> string option \<Rightarrow>
   string option \<Rightarrow> jdict list result" where
  "find_active_validation_receipts env rs now dir prep branch wt session task =
    and_then (dicts_only (readable_files dir)) (\<lambda>ds. Inr
      (newest_first env (filter (matches_validation env rs now prep branch wt session task) ds)))"

section \<open>Search by scope\<close>

text \<open>\<^verbatim>\<open>set(v or [])\<close>: the elements, or an exception when the value has none or they are unhashable.\<close>

definition json_elements :: "json \<Rightarrow> json list result" where
  "json_elements v =
    (if \<not> json_truthy v then Inr []
     else case v of
       JList vs \<Rightarrow> if \<forall>x \<in> set vs. (case x of JList _ \<Rightarrow> False | JObj _ \<Rightarrow> False | _ \<Rightarrow> True) then Inr vs else Inl TypeError
     | JStr s \<Rightarrow> Inr (map (\<lambda>c. JStr [c]) s)
     | JObj d \<Rightarrow> Inr (map (\<lambda>kv. JStr (fst kv)) d)
     | _ \<Rightarrow> Inl TypeError)"

text \<open>One receipt of \<^verbatim>\<open>find_active_receipts_by_scope\<close>: kept or not.\<close>

definition in_scope ::
  "receipt_env \<Rightarrow> path_resolver \<Rightarrow> string \<Rightarrow> string \<Rightarrow> string list \<Rightarrow> jdict \<Rightarrow> bool result" where
  "in_scope env rs branch wt paths r =
    (if jget r ''schema_version'' \<noteq> JStr PREPARATION_SCHEMA \<or> jget r ''branch'' \<noteq> JStr branch \<or>
        json_truthy (jget_or r ''worktree_root'' (JStr '''')) \<and>
        worktree_differs env rs (jget_or r ''worktree_root'' (JStr '''')) wt
     then Inr False
     else and_then (json_elements (jget_or r ''prepared_paths'' (JList []))) (\<lambda>ps. Inr
       (JStr ` set paths \<inter> set ps \<noteq> {} \<and> \<not> digest_mismatch env r)))"

fun filter_result :: "('a \<Rightarrow> bool result) \<Rightarrow> 'a list \<Rightarrow> 'a list result" where
  "filter_result f [] = Inr []"
| "filter_result f (x # xs) =
    and_then (f x) (\<lambda>b. and_then (filter_result f xs) (\<lambda>ys. Inr (if b then x # ys else ys)))"

definition find_active_receipts_by_scope ::
  "receipt_env \<Rightarrow> path_resolver \<Rightarrow> receipt_dir \<Rightarrow> string \<Rightarrow> string \<Rightarrow> string list \<Rightarrow> jdict list result" where
  "find_active_receipts_by_scope env rs dir branch wt paths =
    and_then (filter_result (in_scope env rs branch wt paths)
        (List.map_filter (\<lambda>v. case v of JObj d \<Rightarrow> Some d | _ \<Rightarrow> None) (readable_files dir)))
      (\<lambda>ds. Inr (newest_first env ds))"

section \<open>Sealed receipts\<close>

lemma canon_set_set: "wf_dict d \<Longrightarrow> canon_dict (dict_set k v (dict_set k w d)) = canon_dict (dict_set k v d)"
  by (rule canon_dict_ext) (simp_all add: dict_simps)

lemma canon_set_canon: "wf_dict d \<Longrightarrow> canon_dict (dict_set k v (canon_dict d)) = canon_dict (dict_set k v d)"
  by (rule canon_dict_ext) (auto simp: dict_simps option.map_comp comp_def)

interpretation prep: sealed_document "''receipt_sha256''" "recompute_receipt_digest env" for env
  by unfold_locales (simp_all add: recompute_receipt_digest_def json_digest_def canon_set_set canon_set_canon)

lemma intact_no_mismatch: "prep.intact env r \<Longrightarrow> recompute_receipt_digest env r \<noteq> '''' \<Longrightarrow> \<not> digest_mismatch env r"
  by (simp add: prep.intact_def digest_mismatch_def jget_or_def)

text \<open>A receipt sealed over an empty digest field and written out in canonical form passes the digest test.\<close>

lemma sealed_digest_matches:
  assumes "wf_dict r" and "dict_get r ''receipt_sha256'' = Some (JStr '''')" and "json_digest env r \<noteq> ''''"
  shows "\<not> digest_mismatch env (canon_dict (seal_receipt env r))"
proof -
  have "canon_dict (dict_set ''receipt_sha256'' (JStr '''') r) = canon_dict r"
    using assms(1,2) by (intro canon_dict_ext) (simp_all add: dict_simps)
  then have digest: "recompute_receipt_digest env r = json_digest env r" by (simp add: recompute_receipt_digest_def json_digest_def)
  then have "seal_receipt env r = prep.seal env r" by (simp add: seal_receipt_def prep.seal_def)
  with intact_no_mismatch [OF prep.stored_intact [OF assms(1)], of env] prep.stored_digest [OF assms(1), of env] digest assms(3)
  show ?thesis by simp
qed

lemma fst_canon_dict: "fst ` set (canon_dict d) = fst ` set d"
  by (simp add: set_canon_dict image_image)

lemma persisted_receipt_loads:
  assumes "wf_dict r" and "dict_get r ''receipt_sha256'' = Some (JStr '''')" and "json_digest env r \<noteq> ''''"
    and "jget r ''schema_version'' = JStr PREPARATION_SCHEMA" and "''created_at'' \<in> fst ` set r"
  defines "i \<equiv> json_digest env r"
  shows "persist_preparation_receipt env True (seal_receipt env r) dir =
      (dict_set i (FileJson (JObj (canon_dict (seal_receipt env r)))) dir, Some i)"
    and "load_preparation_receipt_typed env (dict_set i (FileJson (JObj (canon_dict (seal_receipt env r)))) dir) i =
      \<lparr>pl_outcome = PL_LOADED_VALID, pl_receipt = Some (canon_dict (seal_receipt env r)), pl_receipt_sha256 = i\<rparr>"
proof -
  have sealed: "dict_get (seal_receipt env r) ''receipt_sha256'' = Some (JStr i)"
    by (simp add: seal_receipt_def i_def dict_simps)
  then show "persist_preparation_receipt env True (seal_receipt env r) dir =
      (dict_set i (FileJson (JObj (canon_dict (seal_receipt env r)))) dir, Some i)"
    by (simp add: persist_preparation_receipt_def py_str_def)
  have "dict_get r ''schema_version'' \<noteq> None" using assms(4) by (auto simp: jget_def split: option.splits)
  moreover have "k \<in> fst ` set (canon_dict (seal_receipt env r)) \<longleftrightarrow> k = ''receipt_sha256'' \<or> dict_get r k \<noteq> None" for k
    by (simp add: fst_canon_dict dict_key_iff seal_receipt_def dict_simps)
  ultimately have "{''schema_version'', ''receipt_sha256'', ''created_at''} \<subseteq> fst ` set (canon_dict (seal_receipt env r))"
    using assms(5) unfolding dict_key_iff [of _ r] by blast
  moreover have "jget (canon_dict (seal_receipt env r)) ''schema_version'' = JStr PREPARATION_SCHEMA"
    using assms(1,4) by (simp add: seal_receipt_def dict_simps)
  ultimately show "load_preparation_receipt_typed env (dict_set i (FileJson (JObj (canon_dict (seal_receipt env r)))) dir) i =
      \<lparr>pl_outcome = PL_LOADED_VALID, pl_receipt = Some (canon_dict (seal_receipt env r)), pl_receipt_sha256 = i\<rparr>"
    using sealed_digest_matches [OF assms(1-3)]
    by (simp add: load_preparation_receipt_typed_def dict_simps)
qed

lemma preparation_body:
  "wf_dict (preparation_body now authz ch a)"
  "dict_get (preparation_body now authz ch a) ''receipt_sha256'' = Some (JStr '''')"
  "jget (preparation_body now authz ch a) ''schema_version'' = JStr PREPARATION_SCHEMA"
  "''created_at'' \<in> fst ` set (preparation_body now authz ch a)"
  by (simp_all add: preparation_body_def wf_dict_def dict_get_def PREPARATION_SCHEMA_def)

section \<open>Properties\<close>

text \<open>
  C31: a preparation receipt survives its store.  Where digests are not empty, persisting a
  generated receipt gives a file under its own digest; loading that digest succeeds with the
  integrity check passed and returns the receipt with its keys in order; and what loading
  any other digest gives is unchanged.
\<close>

theorem preparation_receipt_round_trip:
  fixes env now authz ch a dir
  defines "r \<equiv> generate_preparation_receipt env now authz ch a"
  assumes sha: "\<And>v. re_sha env v \<noteq> ''''"
  shows "\<exists>i dir'. jget r ''receipt_sha256'' = JStr i \<and> persist_preparation_receipt env True r dir = (dir', Some i) \<and>
    load_preparation_receipt env dir' i = Some (canon_dict r) \<and>
    (\<forall>k. jget (canon_dict r) k = canon (jget r k)) \<and>
    (\<forall>j. j \<noteq> i \<longrightarrow> load_preparation_receipt_typed env dir' j = load_preparation_receipt_typed env dir j)"
proof -
  let ?b = "preparation_body now authz ch a"
  let ?i = "json_digest env ?b"
  have r: "r = seal_receipt env ?b" by (simp add: r_def generate_preparation_receipt_def)
  have i: "?i \<noteq> ''''" by (simp add: json_digest_def sha)
  note p = persisted_receipt_loads [OF preparation_body(1,2) i preparation_body(3,4)]
  have "wf_dict r" by (simp add: r seal_receipt_def preparation_body(1))
  then have get: "jget (canon_dict r) k = canon (jget r k)" for k by (rule jget_canon)
  have "jget r ''receipt_sha256'' = JStr ?i" by (simp add: r seal_receipt_def dict_simps)
  moreover have "load_preparation_receipt_typed env (dict_set ?i f dir) j = load_preparation_receipt_typed env dir j"
    if "j \<noteq> ?i" for j f
    using that by (simp add: load_preparation_receipt_typed_def dict_simps)
  ultimately show ?thesis
    using p [of dir] get unfolding r load_preparation_receipt_def Let_def by (auto simp: dict_simps)
qed

definition demo_preparation_args :: preparation_args where
  "demo_preparation_args =
    \<lparr>pa_mission_id = Some ''m'', pa_authority_provenance_sha256 = None, pa_claim_id = None, pa_session_id = ''s'',
     pa_task_id = ''t'', pa_branch = ''main'', pa_prepared_paths = [''a.py''], pa_change_kinds = [],
     pa_expected_worktree_sha256_values = [], pa_pre_index_tree_digest = None, pa_post_index_tree_digest = Some ''x'',
     pa_index_mutation_performed = True, pa_worktree_root = Some ''/w''\<rparr>"

theorem preparation_receipt_round_trip_witness:
  "\<exists>i dir' r. persist_preparation_receipt demo_receipt_env True
       (generate_preparation_receipt demo_receipt_env 0 ''p'' ''c'' demo_preparation_args) [] = (dir', Some i) \<and>
     load_preparation_receipt demo_receipt_env dir' i = Some r \<and> jget r ''branch'' = JStr ''main''"
proof -
  have sha: "re_sha demo_receipt_env v \<noteq> ''''" for v by (simp add: demo_receipt_env_def)
  have "jget (generate_preparation_receipt demo_receipt_env 0 ''p'' ''c'' demo_preparation_args) ''branch'' = JStr ''main''"
    by (simp add: generate_preparation_receipt_def preparation_body_def demo_preparation_args_def)
  with preparation_receipt_round_trip [OF sha, of 0 "''p''" "''c''" demo_preparation_args "[]"] show ?thesis
    by (metis canon.simps(6))
qed

text \<open>
  A receipt's content cannot be changed without its digest.  When two files load as valid
  receipts with the same \<^verbatim>\<open>receipt_sha256\<close>, and the digest function does not collide on the two
  payloads, the receipts agree on every key.
\<close>

theorem receipt_tamper_evident:
  assumes "load_preparation_receipt env dir i = Some r" and "load_preparation_receipt env dir' j = Some r'"
    and "jget r ''receipt_sha256'' = jget r' ''receipt_sha256''" and "wf_dict r" and "wf_dict r'"
    and no_collision: "inj_on (re_sha env) {canon (JObj (dict_set ''receipt_sha256'' (JStr '''') x)) | x. x \<in> {r, r'}}"
  shows "canon (jget r k) = canon (jget r' k)"
proof -
  have intact: "prep.intact env x" if "load_preparation_receipt env d m = Some x" for d m x
    using that
    by (auto simp: load_preparation_receipt_def load_preparation_receipt_typed_def load_failed_def digest_mismatch_def
        prep.intact_def Let_def jget_or_def split: option.splits stored_file.splits json.splits if_splits)
  let ?b = "dict_set ''receipt_sha256'' (JStr '''')"
  have "dict_get r ''receipt_sha256'' = dict_get r' ''receipt_sha256''"
    using intact [OF assms(1)] intact [OF assms(2)] assms(3) by (simp add: prep.intact_def jget_def)
  then have "re_sha env (canon (JObj (?b r))) = re_sha env (canon (JObj (?b r')))"
    using prep.same_digest [OF intact [OF assms(1)] intact [OF assms(2)]] by (simp add: recompute_receipt_digest_def json_digest_def)
  then have "canon (JObj (?b r)) = canon (JObj (?b r'))" by (rule inj_onD [OF no_collision]) auto
  then have "jget (canon_dict (?b r)) k = jget (canon_dict (?b r')) k" by simp
  then show ?thesis
    using assms(3-5) by (auto simp: jget_canon dict_simps split: if_splits)
qed

definition demo_stored :: jdict where
  "demo_stored =
    [(''schema_version'', JStr PREPARATION_SCHEMA), (''receipt_sha256'', JStr ''sha256:0''), (''created_at'', JStr ''t'')]"

theorem receipt_tamper_evident_witness:
  "load_preparation_receipt demo_receipt_env [(''x'', FileJson (JObj demo_stored))] ''x'' = Some demo_stored \<and>
   load_preparation_receipt demo_receipt_env [(''y'', FileJson (JObj (rev demo_stored)))] ''y'' = Some (rev demo_stored) \<and>
   canon (jget demo_stored ''created_at'') = canon (jget (rev demo_stored) ''created_at'')"
proof -
  have l: "load_preparation_receipt demo_receipt_env [(''x'', FileJson (JObj demo_stored))] ''x'' = Some demo_stored"
    "load_preparation_receipt demo_receipt_env [(''y'', FileJson (JObj (rev demo_stored)))] ''y'' = Some (rev demo_stored)"
    by (simp_all add: load_preparation_receipt_def load_preparation_receipt_typed_def digest_mismatch_def demo_stored_def
        recompute_receipt_digest_def json_digest_def demo_receipt_env_def dict_get_def)
  have wf: "wf_dict demo_stored" "wf_dict (rev demo_stored)" by (simp_all add: demo_stored_def wf_dict_def)
  have same: "jget demo_stored ''receipt_sha256'' = jget (rev demo_stored) ''receipt_sha256''"
    by (simp add: demo_stored_def)
  have "dict_get (rev demo_stored) k = dict_get demo_stored k" for k by (auto simp: demo_stored_def dict_get_def)
  then have "canon_dict (dict_set k v (rev demo_stored)) = canon_dict (dict_set k v demo_stored)" for k v
    using wf by (intro canon_dict_ext) (auto simp: dict_simps)
  then have "inj_on (re_sha demo_receipt_env)
      {canon (JObj (dict_set ''receipt_sha256'' (JStr '''') x)) | x. x \<in> {demo_stored, rev demo_stored}}"
    by (auto intro!: inj_onI)
  from receipt_tamper_evident [OF l same wf this] l show ?thesis by blast
qed

text \<open>
  The stored digest is not compared with the name asked for: a valid receipt copied to another
  name loads under that name.
\<close>

lemma receipt_loads_under_any_name:
  assumes "load_preparation_receipt env dir i = Some r"
  shows "load_preparation_receipt env (dict_set j (FileJson (JObj r)) dir) j = Some r"
  using assms
  by (auto simp: load_preparation_receipt_def load_preparation_receipt_typed_def load_failed_def dict_simps Let_def
      split: option.splits stored_file.splits json.splits if_splits)

end
