(* ===== verification/Receipt_Lifecycle.thy ===== *)
theory Receipt_Lifecycle
  imports Receipt_Store Relay_Interfaces
begin

text \<open>
  The lifecycle ledger of preparation receipts, second part of
  \<^verbatim>\<open>rig_relay/governance/receipt_store.py\<close>: sealed events chained per receipt in one shared
  ledger, typed loading, revocation and the reconciliation with git; and the operations of
  \<^verbatim>\<open>core/tools/builtins/checkpoint.py\<close> and \<^verbatim>\<open>prepare_checkpoint.py\<close> that append to it.  \<open>sha\<close> is
  the digest of an event's canonical JSON.  Output of git is an argument: \<open>None\<close> when running
  it raises, else the return code and the text.  Files that are no UTF-8 are not modelled, so a torn
  line is cut between two characters; the texts for people are left out.
\<close>

section \<open>Events\<close>

datatype PreparationLifecycleEventKind = LK_ACTIVE | LK_CONSUMED | LK_SUPERSEDED | LK_REVOKED

record PreparationLifecycleEvent =
  pe_event_id :: string
  pe_event_kind :: PreparationLifecycleEventKind
  pe_preparation_receipt_sha256 :: string
  pe_branch :: string
  pe_worktree_root :: string
  pe_created_at :: timestamp
  pe_producer :: string
  pe_committed_head_sha :: "string option"
  pe_superseded_by_receipt_sha256 :: "string option"
  pe_prior_event_digest :: "string option"
  pe_integrity_digest :: string

type_synonym lc_hash = "PreparationLifecycleEvent \<Rightarrow> string"

definition recompute_event_integrity :: "lc_hash \<Rightarrow> PreparationLifecycleEvent \<Rightarrow> string" where
  "recompute_event_integrity sha e = sha (e\<lparr>pe_integrity_digest := ''''\<rparr>)"

definition seal_event :: "lc_hash \<Rightarrow> PreparationLifecycleEvent \<Rightarrow> PreparationLifecycleEvent" where
  "seal_event sha e = e\<lparr>pe_integrity_digest := recompute_event_integrity sha e\<rparr>"

definition verify_event_integrity :: "lc_hash \<Rightarrow> PreparationLifecycleEvent \<Rightarrow> bool" where
  "verify_event_integrity sha e \<longleftrightarrow> pe_integrity_digest e = recompute_event_integrity sha e"

definition verify_chain :: "PreparationLifecycleEvent \<Rightarrow> PreparationLifecycleEvent option \<Rightarrow> bool" where
  "verify_chain e prior \<longleftrightarrow> pe_prior_event_digest e = map_option pe_integrity_digest prior"

section \<open>The ledger\<close>

text \<open>A line: blank, not JSON, JSON that is no object, an object that does not validate, or an event.\<close>

datatype lc_line = LBlank | LBadJson | LNotObject | LInvalid | LEvent PreparationLifecycleEvent

text \<open>The flag of a ledger says whether its last line lacks the newline.\<close>

datatype lc_ledger = LAbsent | LUnreadable | LLines "lc_line list" bool

text \<open>The last intact event of a receipt; \<^verbatim>\<open>obj.get\<close> raises on JSON that is no object.\<close>

fun last_event_for_receipt ::
  "lc_hash \<Rightarrow> string \<Rightarrow> PreparationLifecycleEvent option \<Rightarrow> lc_line list \<Rightarrow> PreparationLifecycleEvent option result" where
  "last_event_for_receipt sha i acc [] = Inr acc"
| "last_event_for_receipt sha i acc (LNotObject # ls) = Inl AttributeError"
| "last_event_for_receipt sha i acc (LEvent e # ls) =
    last_event_for_receipt sha i
      (if pe_preparation_receipt_sha256 e = i \<and> verify_event_integrity sha e then Some e else acc) ls"
| "last_event_for_receipt sha i acc (l # ls) = last_event_for_receipt sha i acc ls"

text \<open>\<^verbatim>\<open>except OSError: pass\<close>: after a read error the lines before it decide.\<close>

fun ledger_prior ::
  "lc_hash \<Rightarrow> nat option \<Rightarrow> string \<Rightarrow> lc_ledger \<Rightarrow> PreparationLifecycleEvent option result" where
  "ledger_prior sha reads i (LLines ls torn) =
    last_event_for_receipt sha i None (case reads of None \<Rightarrow> ls | Some n \<Rightarrow> take n ls)"
| "ledger_prior sha reads i f = Inr None"

text \<open>A line at the end of the ledger; after a torn line it continues that line, which is then no JSON.\<close>

fun lines_with :: "lc_line \<Rightarrow> lc_ledger \<Rightarrow> lc_line list" where
  "lines_with l (LLines ls torn) = (if torn then butlast ls @ [LBadJson] else ls @ [l])"
| "lines_with l f = [l]"

fun open_append :: "lc_ledger \<Rightarrow> lc_ledger" where
  "open_append LAbsent = LLines [] False"
| "open_append f = f"

definition write_event :: "write_fate \<Rightarrow> PreparationLifecycleEvent \<Rightarrow> lc_ledger \<Rightarrow> lc_ledger \<times> bool" where
  "write_event fate e f =
    (if f = LUnreadable then (f, False)
     else case fate of
       Written \<Rightarrow> (LLines (lines_with (LEvent e) f) False, True)
     | Not_written \<Rightarrow> (open_append f, False)
     | Unsynced \<Rightarrow> (LLines (lines_with (LEvent e) f) False, False)
     | Torn whole \<Rightarrow> (LLines (lines_with (if whole then LEvent e else LBadJson) f) True, False))"

text \<open>
  What the operating system does to an append: the lock fails; opening the ledger fails; or the
  search for the last event reads all lines or so many, and the write has its fate.  A size that
  does not match after the write is answered as a failure, whatever has been written.
\<close>

datatype lc_io = Lc_lock_fails | Lc_open_fails | Lc_append "nat option" write_fate

abbreviation Lc_ok :: lc_io where
  "Lc_ok \<equiv> Lc_append None Written"

definition append_lifecycle_event ::
  "lc_hash \<Rightarrow> lc_io \<Rightarrow> string \<Rightarrow> PreparationLifecycleEvent \<Rightarrow> lc_ledger \<Rightarrow> lc_ledger \<times> string option result" where
  "append_lifecycle_event sha io fresh e f =
    (if io = Lc_lock_fails then (f, Inr None)
     else
       let e1 = (if pe_event_id e = '''' then e\<lparr>pe_event_id := fresh\<rparr> else e);
           reads = (case io of Lc_append n _ \<Rightarrow> n | _ \<Rightarrow> None)
       in case ledger_prior sha reads (pe_preparation_receipt_sha256 e) f of
            Inl err \<Rightarrow> (f, Inl err)
          | Inr prior \<Rightarrow>
             let e2 = (case prior of None \<Rightarrow> e1 | Some p \<Rightarrow> e1\<lparr>pe_prior_event_digest := Some (pe_integrity_digest p)\<rparr>)
             in case io of
                  Lc_append _ fate \<Rightarrow>
                    let (f', written) = write_event fate (seal_event sha e2) f
                    in (f', Inr (if written then Some (pe_event_id e1) else None))
                | _ \<Rightarrow> (f, Inr None))"

section \<open>Typed loading\<close>

datatype LifecycleLoadOutcome =
    LL_ABSENT | LL_OK | LL_CORRUPT_LEDGER | LL_INVALID_EVENT | LL_INTEGRITY_MISMATCH | LL_BROKEN_CHAIN

record LifecycleLoadResult =
  ll_outcome :: LifecycleLoadOutcome
  ll_events :: "PreparationLifecycleEvent list"
  ll_status :: "PreparationLifecycleEventKind option"

fun load_lifecycle_lines ::
  "lc_hash \<Rightarrow> string \<Rightarrow> PreparationLifecycleEvent list \<Rightarrow> lc_line list \<Rightarrow>
   LifecycleLoadOutcome + PreparationLifecycleEvent list" where
  "load_lifecycle_lines sha i evs [] = Inr evs"
| "load_lifecycle_lines sha i evs (LBlank # ls) = load_lifecycle_lines sha i evs ls"
| "load_lifecycle_lines sha i evs (LBadJson # ls) = Inl LL_CORRUPT_LEDGER"
| "load_lifecycle_lines sha i evs (LNotObject # ls) = Inl LL_INVALID_EVENT"
| "load_lifecycle_lines sha i evs (LInvalid # ls) = Inl LL_INVALID_EVENT"
| "load_lifecycle_lines sha i evs (LEvent e # ls) =
    (if \<not> verify_event_integrity sha e then Inl LL_INTEGRITY_MISMATCH
     else if pe_preparation_receipt_sha256 e \<noteq> i then load_lifecycle_lines sha i evs ls
     else if evs \<noteq> [] \<and> pe_prior_event_digest e \<noteq> Some (pe_integrity_digest (last evs)) then Inl LL_BROKEN_CHAIN
     else load_lifecycle_lines sha i (evs @ [e]) ls)"

definition status_of_events :: "PreparationLifecycleEvent list \<Rightarrow> PreparationLifecycleEventKind" where
  "status_of_events evs = (if evs = [] then LK_ACTIVE else pe_event_kind (last evs))"

definition load_lifecycle_events :: "lc_hash \<Rightarrow> lc_ledger \<Rightarrow> string \<Rightarrow> LifecycleLoadResult" where
  "load_lifecycle_events sha f i =
    (case f of
       LAbsent \<Rightarrow> \<lparr>ll_outcome = LL_ABSENT, ll_events = [], ll_status = Some LK_ACTIVE\<rparr>
     | LUnreadable \<Rightarrow> \<lparr>ll_outcome = LL_CORRUPT_LEDGER, ll_events = [], ll_status = None\<rparr>
     | LLines ls torn \<Rightarrow>
         (case load_lifecycle_lines sha i [] ls of
            Inl out \<Rightarrow> \<lparr>ll_outcome = out, ll_events = [], ll_status = None\<rparr>
          | Inr evs \<Rightarrow> \<lparr>ll_outcome = LL_OK, ll_events = evs, ll_status = Some (status_of_events evs)\<rparr>))"

definition read_lifecycle_events :: "lc_hash \<Rightarrow> lc_ledger \<Rightarrow> string \<Rightarrow> PreparationLifecycleEvent list" where
  "read_lifecycle_events sha f i =
    (let res = load_lifecycle_events sha f i in if ll_outcome res = LL_OK then ll_events res else [])"

definition get_lifecycle_status :: "lc_hash \<Rightarrow> lc_ledger \<Rightarrow> string \<Rightarrow> PreparationLifecycleEventKind" where
  "get_lifecycle_status sha f i =
    (let res = load_lifecycle_events sha f i
     in case ll_status res of
          Some k \<Rightarrow> if ll_outcome res = LL_OK then k else LK_ACTIVE
        | None \<Rightarrow> LK_ACTIVE)"

definition lifecycle_readable :: "LifecycleLoadResult \<Rightarrow> bool" where
  "lifecycle_readable res \<longleftrightarrow> ll_outcome res = LL_OK \<or> ll_outcome res = LL_ABSENT"

section \<open>Revocation\<close>

datatype RevocationOutcome =
    REVOKED | ALREADY_REVOKED | ALREADY_CONSUMED | ALREADY_SUPERSEDED | RECEIPT_NOT_FOUND | RECEIPT_CORRUPT
  | LIFECYCLE_AUTHORITY_CORRUPT | LEDGER_WRITE_FAILED | CONFLICTING_TERMINAL

record RevocationResult =
  rv_outcome :: RevocationOutcome
  rv_event_id :: "string option"

definition revocation :: "RevocationOutcome \<Rightarrow> RevocationResult" where
  "revocation out = \<lparr>rv_outcome = out, rv_event_id = None\<rparr>"

definition new_lifecycle_event ::
  "string \<Rightarrow> int \<Rightarrow> PreparationLifecycleEventKind \<Rightarrow> string \<Rightarrow> string \<Rightarrow> string \<Rightarrow> string \<Rightarrow> PreparationLifecycleEvent" where
  "new_lifecycle_event eid now kind i branch wt producer =
    \<lparr>pe_event_id = eid, pe_event_kind = kind, pe_preparation_receipt_sha256 = i, pe_branch = branch,
     pe_worktree_root = wt, pe_created_at = Aware now, pe_producer = producer, pe_committed_head_sha = None,
     pe_superseded_by_receipt_sha256 = None, pe_prior_event_digest = None, pe_integrity_digest = ''''\<rparr>"

text \<open>\<^verbatim>\<open>receipt.get(k) or ""\<close> as a field of the event model: a true value that is no string does not validate.\<close>

definition string_field :: "jdict \<Rightarrow> string \<Rightarrow> string result" where
  "string_field r k =
    (case jget r k of
       JStr s \<Rightarrow> Inr s
     | v \<Rightarrow> if json_truthy v then Inl ValidationError else Inr '''')"

text \<open>Steps 1 to 3, which read receipt and ledger without a lock: a refusal, or the receipt.\<close>

definition revoke_check :: "receipt_env \<Rightarrow> lc_hash \<Rightarrow> receipt_dir \<Rightarrow> lc_ledger \<Rightarrow> string \<Rightarrow> RevocationResult + jdict" where
  "revoke_check env sha dir f i =
    (let load = load_preparation_receipt_typed env dir i; life = load_lifecycle_events sha f i in
     if pl_outcome load = PL_ABSENT then Inl (revocation RECEIPT_NOT_FOUND)
     else if pl_outcome load \<noteq> PL_LOADED_VALID then Inl (revocation RECEIPT_CORRUPT)
     else if \<not> lifecycle_readable life then Inl (revocation LIFECYCLE_AUTHORITY_CORRUPT)
     else case ll_status life of
       Some LK_REVOKED \<Rightarrow> Inl (revocation ALREADY_REVOKED)
     | Some LK_CONSUMED \<Rightarrow> Inl (revocation ALREADY_CONSUMED)
     | Some LK_SUPERSEDED \<Rightarrow> Inl (revocation ALREADY_SUPERSEDED)
     | _ \<Rightarrow> Inr (case pl_receipt load of None \<Rightarrow> [] | Some r \<Rightarrow> r))"

text \<open>Steps 4 and 5: the append, and the verification that reads the ledger again.\<close>

definition revoke_commit ::
  "lc_hash \<Rightarrow> lc_io \<Rightarrow> string \<Rightarrow> int \<Rightarrow> string \<Rightarrow> jdict \<Rightarrow> string \<Rightarrow> lc_ledger \<Rightarrow> lc_ledger \<times> RevocationResult result" where
  "revoke_commit sha io eid now producer r i f =
    (case and_then (string_field r ''branch'') (\<lambda>b. and_then (string_field r ''worktree_root'') (\<lambda>w. Inr (b, w))) of
       Inl err \<Rightarrow> (f, Inl err)
     | Inr (b, w) \<Rightarrow>
        (case append_lifecycle_event sha io eid (new_lifecycle_event eid now LK_REVOKED i b w producer) f of
           (f', Inl err) \<Rightarrow> (f', Inl err)
         | (f', Inr None) \<Rightarrow> (f', Inr (revocation LEDGER_WRITE_FAILED))
         | (f', Inr (Some n)) \<Rightarrow>
             let life = load_lifecycle_events sha f' i
             in (f', Inr (if ll_outcome life \<noteq> LL_OK then revocation LIFECYCLE_AUTHORITY_CORRUPT
                          else if ll_status life \<noteq> Some LK_REVOKED then revocation CONFLICTING_TERMINAL
                          else \<lparr>rv_outcome = REVOKED, rv_event_id = Some n\<rparr>))))"

definition revoke_preparation_receipt ::
  "receipt_env \<Rightarrow> lc_hash \<Rightarrow> lc_io \<Rightarrow> string \<Rightarrow> int \<Rightarrow> string \<Rightarrow> receipt_dir \<Rightarrow> string \<Rightarrow> lc_ledger \<Rightarrow>
   lc_ledger \<times> RevocationResult result" where
  "revoke_preparation_receipt env sha io eid now producer dir i f =
    (case revoke_check env sha dir f i of
       Inl res \<Rightarrow> (f, Inr res)
     | Inr r \<Rightarrow> revoke_commit sha io eid now producer r i f)"

section \<open>Consumption by a checkpoint\<close>

text \<open>Best effort: every exception is swallowed.\<close>

definition consume_preparation_receipt ::
  "lc_hash \<Rightarrow> lc_io \<Rightarrow> string \<Rightarrow> int \<Rightarrow> string \<Rightarrow> string \<Rightarrow> string \<Rightarrow> string \<Rightarrow> lc_ledger \<Rightarrow> lc_ledger" where
  "consume_preparation_receipt sha io eid now i branch wt head f =
    (if get_lifecycle_status sha f i = LK_CONSUMED then f
     else fst (append_lifecycle_event sha io eid
       ((new_lifecycle_event eid now LK_CONSUMED i branch wt ''checkpoint.run'')\<lparr>pe_committed_head_sha := Some head\<rparr>) f))"

section \<open>Supersession by a new preparation\<close>

text \<open>
  The loop of \<^verbatim>\<open>prepare_checkpoint\<close> over the receipts found by scope; exceptions end it quietly, and
  so does an event whose receipt digest is no string, which does not validate.
\<close>

fun supersede_older ::
  "receipt_env \<Rightarrow> lc_hash \<Rightarrow> int \<Rightarrow> string \<Rightarrow> string \<Rightarrow> string \<Rightarrow> (jdict \<times> lc_io \<times> string) list \<Rightarrow> lc_ledger \<Rightarrow> lc_ledger" where
  "supersede_older env sha now i branch wt [] f = f"
| "supersede_older env sha now i branch wt ((older, io, eid) # rest) f =
    (let v = jget_or older ''receipt_sha256'' (JStr ''''); older_sha = py_str env v in
     if \<not> json_truthy v \<or> v = JStr i then supersede_older env sha now i branch wt rest f
     else if \<not> is_text v then f
     else if get_lifecycle_status sha f older_sha \<noteq> LK_ACTIVE then supersede_older env sha now i branch wt rest f
     else case append_lifecycle_event sha io eid
            ((new_lifecycle_event eid now LK_SUPERSEDED older_sha branch wt ''prepare_checkpoint.run'')
               \<lparr>pe_superseded_by_receipt_sha256 := Some i\<rparr>) f of
         (f', Inl err) \<Rightarrow> f'
       | (f', Inr r) \<Rightarrow> supersede_older env sha now i branch wt rest f')"

section \<open>Evidence from git\<close>

text \<open>\<^verbatim>\<open>line.partition(": ")\<close> when the separator occurs.\<close>

fun partition_colon :: "string \<Rightarrow> (string \<times> string) option" where
  "partition_colon [] = None"
| "partition_colon (c # s) =
    (if startswith (c # s) '': '' then Some ([], drop 1 s)
     else map_option (\<lambda>(k, v). (c # k, v)) (partition_colon s))"

definition TRAILER_KEY :: string where
  "TRAILER_KEY = ''Rig-Preparation-Receipt-SHA256''"

definition has_trailer :: "string \<Rightarrow> string list \<Rightarrow> bool" where
  "has_trailer i ls \<longleftrightarrow> list_ex (\<lambda>l. partition_colon (str_strip l) = Some (TRAILER_KEY, i)) ls"

type_synonym git_output = "(int \<times> string) option"

definition git_lines :: "git_output \<Rightarrow> string list" where
  "git_lines out = (case out of None \<Rightarrow> [] | Some (rc, text) \<Rightarrow> if rc \<noteq> 0 then [] else split_lines (str_strip text))"

text \<open>\<open>out\<close> is the output of \<^verbatim>\<open>git log -10 --format=%H%n%(trailers:only,unfold) --grep=...\<close>.\<close>

definition find_terminal_commit :: "string \<Rightarrow> git_output \<Rightarrow> string option" where
  "find_terminal_commit i out =
    (case git_lines out of
       [] \<Rightarrow> None
     | h # rest \<Rightarrow> if has_trailer i rest then Some (str_strip h) else None)"

definition count_terminal_commits :: "git_output \<Rightarrow> nat" where
  "count_terminal_commits out = length (filter (\<lambda>h. h \<noteq> '''') (git_lines out))"

section \<open>Reconciliation\<close>

datatype ReconciliationOutcome =
    RC_ACTIVE | RC_CONSUMED_CONSISTENT | RC_TERMINAL_COMMITTED_REPAIRABLE | RC_LIFECYCLE_ONLY_NO_TERMINAL
  | RC_DUPLICATE_TERMINAL | RC_PREPARATION_INTEGRITY_FAILURE | RC_LIFECYCLE_AUTHORITY_CORRUPT
  | RC_GIT_EVIDENCE_AMBIGUOUS | RC_UNRECOVERABLE_CONTRADICTION

record ReconciliationResult =
  rr_outcome :: ReconciliationOutcome
  rr_lifecycle_status :: "PreparationLifecycleEventKind option"
  rr_terminal_commit_sha :: "string option"
  rr_committed_head_sha :: "string option"
  rr_repairable :: bool

definition reconciled ::
  "ReconciliationOutcome \<Rightarrow> PreparationLifecycleEventKind option \<Rightarrow> string option \<Rightarrow> string option \<Rightarrow> bool \<Rightarrow> ReconciliationResult" where
  "reconciled out st term head rep =
    \<lparr>rr_outcome = out, rr_lifecycle_status = st, rr_terminal_commit_sha = term, rr_committed_head_sha = head,
     rr_repairable = rep\<rparr>"

text \<open>Step 4, from the status, the number of commits found, the commit with the trailer and reachability.\<close>

definition reconcile_evidence ::
  "PreparationLifecycleEventKind option \<Rightarrow> nat \<Rightarrow> string option \<Rightarrow> (string \<Rightarrow> bool) \<Rightarrow> ReconciliationResult" where
  "reconcile_evidence st n commit reachable =
    (let consumed = (st = Some LK_CONSUMED) in
     if st = Some LK_SUPERSEDED then reconciled RC_CONSUMED_CONSISTENT st None None False
     else if st = Some LK_REVOKED then reconciled RC_CONSUMED_CONSISTENT st None None False
     else if \<not> consumed \<and> n = 0 then reconciled RC_ACTIVE (Some LK_ACTIVE) None None False
     else if consumed \<and> n \<ge> 1 then
       (case commit of
          None \<Rightarrow> reconciled RC_LIFECYCLE_ONLY_NO_TERMINAL (Some LK_CONSUMED) None None False
        | Some h \<Rightarrow>
            if \<not> reachable h then reconciled RC_LIFECYCLE_ONLY_NO_TERMINAL (Some LK_CONSUMED) (Some h) None False
            else if n > 1 then reconciled RC_DUPLICATE_TERMINAL (Some LK_CONSUMED) (Some h) None False
            else reconciled RC_CONSUMED_CONSISTENT (Some LK_CONSUMED) (Some h) (Some h) False)
     else if n \<ge> 1 \<and> \<not> consumed then
       (if n > 1 then reconciled RC_DUPLICATE_TERMINAL st commit None False
        else reconciled RC_TERMINAL_COMMITTED_REPAIRABLE (Some LK_ACTIVE) commit commit True)
     else if consumed \<and> n = 0 then reconciled RC_LIFECYCLE_ONLY_NO_TERMINAL (Some LK_CONSUMED) None None False
     else if n > 1 then reconciled RC_DUPLICATE_TERMINAL st commit None False
     else reconciled RC_UNRECOVERABLE_CONTRADICTION st None None False)"

definition reconcile_receipt_evidence ::
  "receipt_env \<Rightarrow> lc_hash \<Rightarrow> receipt_dir \<Rightarrow> lc_ledger \<Rightarrow> string \<Rightarrow> string \<Rightarrow> git_output \<Rightarrow> git_output \<Rightarrow> (string \<Rightarrow> bool) \<Rightarrow>
   ReconciliationResult" where
  "reconcile_receipt_evidence env sha dir f i branch count_out find_out reachable =
    (let load = load_preparation_receipt_typed env dir i in
     case (pl_outcome load, pl_receipt load) of
       (PL_LOADED_VALID, Some r) \<Rightarrow>
         let rb = jget_or r ''branch'' (JStr ''''); life = load_lifecycle_events sha f i in
         if json_truthy rb \<and> branch \<noteq> '''' \<and> rb \<noteq> JStr branch
         then reconciled RC_UNRECOVERABLE_CONTRADICTION None None None False
         else if \<not> lifecycle_readable life then reconciled RC_LIFECYCLE_AUTHORITY_CORRUPT None None None False
         else reconcile_evidence (ll_status life) (count_terminal_commits count_out) (find_terminal_commit i find_out) reachable
     | _ \<Rightarrow> reconciled RC_PREPARATION_INTEGRITY_FAILURE None None None False)"

section \<open>Recovery of a missing event\<close>

text \<open>
  The three runs of git; here an exception leaves the function.  The first shows the trailers,
  the second the commit, the third the current branch.
\<close>

record recovery_git =
  rg_trailers :: "(int \<times> string) result"
  rg_commit :: "(int \<times> string) result"
  rg_branch :: "(int \<times> string) result"

definition recover_missing_lifecycle_event ::
  "lc_hash \<Rightarrow> lc_io \<Rightarrow> string \<Rightarrow> int \<Rightarrow> recovery_git \<Rightarrow> string \<Rightarrow> string \<Rightarrow> string \<Rightarrow> lc_ledger \<Rightarrow> lc_ledger \<times> bool result" where
  "recover_missing_lifecycle_event sha io eid now git i branch wt f =
    (let life = load_lifecycle_events sha f i in
     if ll_outcome life = LL_OK \<and> ll_status life = Some LK_CONSUMED then (f, Inr False)
     else if \<not> lifecycle_readable life then (f, Inr False)
     else case rg_trailers git of
       Inl err \<Rightarrow> (f, Inl err)
     | Inr (rc, text) \<Rightarrow>
        if rc \<noteq> 0 \<or> \<not> has_trailer i (split_lines (str_strip text)) then (f, Inr False)
        else case rg_commit git of
          Inl err \<Rightarrow> (f, Inl err)
        | Inr (rc2, out) \<Rightarrow>
           if rc2 \<noteq> 0 \<or> str_strip out = '''' then (f, Inr False)
           else case rg_branch git of
             Inl err \<Rightarrow> (f, Inl err)
           | Inr (rc3, cur) \<Rightarrow>
              let b = (if rc3 = 0 then str_strip cur else branch);
                  e = (new_lifecycle_event eid now LK_CONSUMED i (if b = '''' then branch else b) wt
                        ''checkpoint._recover_missing_lifecycle_event'')\<lparr>pe_committed_head_sha := Some (str_strip out)\<rparr>
              in case append_lifecycle_event sha io eid e f of
                   (f', Inl err) \<Rightarrow> (f', Inl err)
                 | (f', Inr r) \<Rightarrow> (f', Inr (r \<noteq> None)))"

section \<open>The ledger as a set of chains\<close>

lemma seal_event_simps [simp]:
  "pe_event_kind (seal_event sha e) = pe_event_kind e" "pe_event_id (seal_event sha e) = pe_event_id e"
  "pe_preparation_receipt_sha256 (seal_event sha e) = pe_preparation_receipt_sha256 e"
  "pe_prior_event_digest (seal_event sha e) = pe_prior_event_digest e"
  "verify_event_integrity sha (seal_event sha e)"
  by (simp_all add: seal_event_def verify_event_integrity_def recompute_event_integrity_def)

lemma new_lifecycle_event_simps [simp]:
  "pe_event_kind (new_lifecycle_event eid now k i b w p) = k" "pe_event_id (new_lifecycle_event eid now k i b w p) = eid"
  "pe_preparation_receipt_sha256 (new_lifecycle_event eid now k i b w p) = i"
  "pe_prior_event_digest (new_lifecycle_event eid now k i b w p) = None"
  by (simp_all add: new_lifecycle_event_def)

interpretation plc: hash_chain pe_integrity_digest pe_prior_event_digest
  "\<lambda>d e. seal_event sha (e\<lparr>pe_prior_event_digest := d\<rparr>)" for sha
  by unfold_locales simp

definition events_of :: "string \<Rightarrow> PreparationLifecycleEvent list \<Rightarrow> PreparationLifecycleEvent list" where
  "events_of i es = filter (\<lambda>e. pe_preparation_receipt_sha256 e = i) es"

text \<open>Every line is an intact event, and the events of each receipt form a chain.\<close>

definition chains_ok :: "lc_hash \<Rightarrow> PreparationLifecycleEvent list \<Rightarrow> bool" where
  "chains_ok sha es \<longleftrightarrow> (\<forall>e \<in> set es. verify_event_integrity sha e) \<and> (\<forall>i. plc.linked None (events_of i es))"

lemma last_event_intact:
  "\<forall>e \<in> set es. verify_event_integrity sha e \<Longrightarrow>
   last_event_for_receipt sha i acc (map LEvent es) =
     Inr (if events_of i es = [] then acc else Some (last (events_of i es)))"
  by (induction es arbitrary: acc) (auto simp: events_of_def)

lemma load_lines_chained:
  "\<forall>e \<in> set es. verify_event_integrity sha e \<Longrightarrow> plc.linked d (events_of i es) \<Longrightarrow>
   (acc \<noteq> [] \<Longrightarrow> d = Some (pe_integrity_digest (last acc))) \<Longrightarrow>
   load_lifecycle_lines sha i acc (map LEvent es) = Inr (acc @ events_of i es)"
proof (induction es arbitrary: acc d)
  case (Cons e es)
  then show ?case
    by (cases "pe_preparation_receipt_sha256 e = i") (auto simp: events_of_def)
qed (simp add: events_of_def)

lemma load_chains_ok:
  "chains_ok sha es \<Longrightarrow> load_lifecycle_events sha (LLines (map LEvent es) torn) i =
     \<lparr>ll_outcome = LL_OK, ll_events = events_of i es, ll_status = Some (status_of_events (events_of i es))\<rparr>"
  using load_lines_chained [of es sha None i "[]"] by (simp add: load_lifecycle_events_def chains_ok_def)

lemma chains_ok_append:
  assumes "chains_ok sha es" and "pe_prior_event_digest e = None"
  defines "i \<equiv> pe_preparation_receipt_sha256 e"
  defines "p \<equiv> (if events_of i es = [] then None else Some (pe_integrity_digest (last (events_of i es))))"
  shows "chains_ok sha (es @ [seal_event sha (e\<lparr>pe_prior_event_digest := p\<rparr>)])"
proof -
  have "plc.linked None (events_of j (es @ [seal_event sha (e\<lparr>pe_prior_event_digest := p\<rparr>)]))" for j
    using assms(1) plc.linked_seal [of None "events_of i es" sha e]
    by (auto simp: chains_ok_def events_of_def i_def p_def plc.tip_eq)
  with assms(1) show ?thesis by (auto simp: chains_ok_def)
qed

fun ledger_events :: "lc_ledger \<Rightarrow> PreparationLifecycleEvent list" where
  "ledger_events (LLines ls torn) = List.map_filter (\<lambda>l. case l of LEvent e \<Rightarrow> Some e | _ \<Rightarrow> None) ls"
| "ledger_events f = []"

definition ledger_ok :: "lc_hash \<Rightarrow> lc_ledger \<Rightarrow> bool" where
  "ledger_ok sha f \<longleftrightarrow> f = LAbsent \<or> (\<exists>es. f = LLines (map LEvent es) False \<and> chains_ok sha es)"

lemma ledger_events_map [simp]: "ledger_events (LLines (map LEvent es) torn) = es"
  by (simp add: List.map_filter_def comp_def)

declare ledger_events.simps(1) [simp del]

lemma ledger_ok_chains: "ledger_ok sha f \<Longrightarrow> chains_ok sha (ledger_events f)"
  by (auto simp: ledger_ok_def chains_ok_def events_of_def)

text \<open>
  An append that reads all of a good ledger and does not tear its line: nothing, or one sealed event
  at the end of its receipt's chain.
\<close>

fun harms :: "lc_io \<Rightarrow> bool" where
  "harms (Lc_append reads (Torn _)) = True"
| "harms (Lc_append reads fate) = (reads \<noteq> None)"
| "harms _ = False"

lemma append_cases:
  assumes "ledger_ok sha f" and "pe_prior_event_digest e = None" and "append_lifecycle_event sha io fresh e f = (f', r)"
    and "\<not> harms io"
  obtains (none) "io \<noteq> Lc_ok" and "f' = f \<or> f' = open_append f" and "r = Inr None"
  | (one) e' n where "f' = LLines (map LEvent (ledger_events f @ [e'])) False" and "r = Inr (if io = Lc_ok then Some n else None)"
      and "chains_ok sha (ledger_events f @ [e'])" and "pe_event_kind e' = pe_event_kind e"
      and "pe_preparation_receipt_sha256 e' = pe_preparation_receipt_sha256 e" and "io \<in> {Lc_ok, Lc_append None Unsynced}"
proof -
  let ?i = "pe_preparation_receipt_sha256 e" and ?es = "ledger_events f"
  define e1 where "e1 = (if pe_event_id e = '''' then e\<lparr>pe_event_id := fresh\<rparr> else e)"
  let ?p = "if events_of ?i ?es = [] then None else Some (pe_integrity_digest (last (events_of ?i ?es)))"
  define x where "x = seal_event sha (e1\<lparr>pe_prior_event_digest := ?p\<rparr>)"
  have prior: "ledger_prior sha None ?i f = Inr (if events_of ?i ?es = [] then None else Some (last (events_of ?i ?es)))"
    using assms(1) last_event_intact [of _ sha ?i None] by (auto simp: ledger_ok_def chains_ok_def events_of_def)
  have same: "pe_prior_event_digest e1 = None" "pe_preparation_receipt_sha256 e1 = ?i"
    and kind: "pe_event_kind e1 = pe_event_kind e"
    using assms(2) by (simp_all add: e1_def)
  have noop: "e1\<lparr>pe_prior_event_digest := None\<rparr> = e1" using same(1) by (intro PreparationLifecycleEvent.equality) simp_all
  have e2: "(case if events_of ?i ?es = [] then None else Some (last (events_of ?i ?es)) of
      None \<Rightarrow> e1 | Some q \<Rightarrow> e1\<lparr>pe_prior_event_digest := Some (pe_integrity_digest q)\<rparr>) = e1\<lparr>pe_prior_event_digest := ?p\<rparr>"
    using noop by (cases "events_of ?i ?es = []") simp_all
  have lines: "lines_with (LEvent x) f = map LEvent (?es @ [x])" "f \<noteq> LUnreadable" using assms(1) by (auto simp: ledger_ok_def)
  have chained: "chains_ok sha (?es @ [x])" "pe_event_kind x = pe_event_kind e" "pe_preparation_receipt_sha256 x = ?i"
    using chains_ok_append [OF ledger_ok_chains [OF assms(1)] same(1)] kind unfolding same(2) x_def by (simp_all add: same(2))
  show thesis
  proof (cases "io \<in> {Lc_ok, Lc_append None Unsynced}")
    case True
    then have "f' = LLines (map LEvent (?es @ [x])) False" "r = Inr (if io = Lc_ok then Some (pe_event_id e1) else None)"
      using assms(3) lines unfolding append_lifecycle_event_def Let_def e1_def [symmetric]
      by (auto simp: prior e2 write_event_def simp flip: x_def)
    with chained True show thesis by (intro one)
  next
    case False
    with assms(4) have "io \<in> {Lc_lock_fails, Lc_open_fails, Lc_append None Not_written}"
      by (cases io; cases "case io of Lc_append reads fate \<Rightarrow> fate") auto
    then have "f' = f \<or> f' = open_append f" "r = Inr None"
      using assms(3) lines(2) by (auto simp: append_lifecycle_event_def Let_def prior write_event_def)
    with False show thesis by (intro none) auto
  qed
qed

text \<open>Whatever is read and written, no line is anything but an intact event or no JSON.\<close>

definition sane_line :: "lc_hash \<Rightarrow> lc_line \<Rightarrow> bool" where
  "sane_line sha l \<longleftrightarrow> l = LBadJson \<or> (\<exists>e. l = LEvent e \<and> verify_event_integrity sha e)"

fun ledger_sane :: "lc_hash \<Rightarrow> lc_ledger \<Rightarrow> bool" where
  "ledger_sane sha LAbsent = True"
| "ledger_sane sha LUnreadable = False"
| "ledger_sane sha (LLines ls torn) = (\<forall>l \<in> set ls. sane_line sha l)"

lemma append_sane:
  assumes "ledger_sane sha f"
  shows "ledger_sane sha (fst (append_lifecycle_event sha io fresh e f))"
proof -
  have "ledger_sane sha (fst (write_event fate (seal_event sha x) f))" for fate x
    using assms by (cases f; cases fate) (auto simp: write_event_def sane_line_def dest: in_set_butlastD)
  moreover have "fst (append_lifecycle_event sha io fresh e f) = f \<or>
      (\<exists>fate x. fst (append_lifecycle_event sha io fresh e f) = fst (write_event fate (seal_event sha x) f))"
  proof (cases io)
    case (Lc_append reads fate)
    then show ?thesis
      by (cases "ledger_prior sha reads (pe_preparation_receipt_sha256 e) f")
        (simp_all add: append_lifecycle_event_def Let_def split_beta, blast)
  qed (auto simp: append_lifecycle_event_def Let_def split: sum.splits)
  ultimately show ?thesis using assms by metis
qed



section \<open>Ledgers built by the operations\<close>

text \<open>
  A property that appends keep is kept by every operation, since an operation changes the ledger by
  appends only; \<open>hurt\<close> allows the appends that do harm.
\<close>

locale append_invariant =
  fixes sha :: lc_hash and hurt :: bool and P :: "lc_ledger \<Rightarrow> bool"
  assumes append_keeps: "P f \<Longrightarrow> pe_prior_event_digest e = None \<Longrightarrow> harms io \<longrightarrow> hurt \<Longrightarrow>
    P (fst (append_lifecycle_event sha io fresh e f))"
begin

lemma revoke_commit_keeps:
  assumes "P f" and "harms io \<longrightarrow> hurt"
  shows "P (fst (revoke_commit sha io eid now producer r i f))"
proof -
  have "fst (revoke_commit sha io eid now producer r i f) =
    (case and_then (string_field r ''branch'') (\<lambda>b. and_then (string_field r ''worktree_root'') (\<lambda>w. Inr (b, w))) of
       Inl err \<Rightarrow> f
     | Inr (b, w) \<Rightarrow> fst (append_lifecycle_event sha io eid (new_lifecycle_event eid now LK_REVOKED i b w producer) f))"
    by (auto simp: revoke_commit_def Let_def split: sum.splits prod.splits option.splits)
  with assms append_keeps show ?thesis by (simp split: sum.splits)
qed

lemma revoke_keeps:
  assumes "P f" and "harms io \<longrightarrow> hurt"
  shows "P (fst (revoke_preparation_receipt env sha io eid now producer dir i f))"
  using assms revoke_commit_keeps by (simp add: revoke_preparation_receipt_def split: sum.splits)

lemma consume_keeps:
  assumes "P f" and "harms io \<longrightarrow> hurt"
  shows "P (consume_preparation_receipt sha io eid now i branch wt head f)"
  using assms append_keeps by (simp add: consume_preparation_receipt_def)

lemma supersede_keeps:
  assumes "P f" and "\<forall>(r, io, eid) \<in> set older. harms io \<longrightarrow> hurt"
  shows "P (supersede_older env sha now i branch wt older f)"
  using assms
proof (induction older arbitrary: f)
  case (Cons x older)
  obtain r io eid where x: "x = (r, io, eid)" by (cases x)
  let ?e = "(new_lifecycle_event eid now LK_SUPERSEDED (py_str env (jget_or r ''receipt_sha256'' (JStr ''''))) branch wt
    ''prepare_checkpoint.run'')\<lparr>pe_superseded_by_receipt_sha256 := Some i\<rparr>"
  obtain f' y where a: "append_lifecycle_event sha io eid ?e f = (f', y)" by fastforce
  have ok: "P f'" using append_keeps [OF Cons.prems(1), of ?e io eid] Cons.prems(2) a x by simp
  have rest: "P (supersede_older env sha now i branch wt older g)" if "P g" for g
    using Cons.IH [OF that] Cons.prems(2) by simp
  show ?case using ok rest Cons.prems(1) a by (simp add: x Let_def split: sum.split)
qed simp

lemma recover_keeps:
  assumes "P f" and "harms io \<longrightarrow> hurt"
  shows "P (fst (recover_missing_lifecycle_event sha io eid now git i branch wt f))"
proof -
  have "fst (recover_missing_lifecycle_event sha io eid now git i branch wt f) = f \<or>
    (\<exists>e. pe_prior_event_digest e = None \<and> fst (recover_missing_lifecycle_event sha io eid now git i branch wt f) =
      fst (append_lifecycle_event sha io eid e f))"
  proof (cases "rg_trailers git"; cases "rg_commit git"; cases "rg_branch git")
    fix t c b
    assume "rg_trailers git = Inr t" "rg_commit git = Inr c" "rg_branch git = Inr b"
    moreover obtain rc tx rc2 out rc3 cur where "t = (rc, tx)" "c = (rc2, out)" "b = (rc3, cur)"
      by (cases t; cases c; cases b) blast
    moreover define e where "e = (new_lifecycle_event eid now LK_CONSUMED i
        (if (if rc3 = 0 then str_strip cur else branch) = '''' then branch else (if rc3 = 0 then str_strip cur else branch)) wt
        ''checkpoint._recover_missing_lifecycle_event'')\<lparr>pe_committed_head_sha := Some (str_strip out)\<rparr>"
    moreover have "pe_prior_event_digest e = None" by (simp add: e_def)
    moreover obtain f' r where "append_lifecycle_event sha io eid e f = (f', r)" by fastforce
    ultimately show ?thesis
      by (auto simp: recover_missing_lifecycle_event_def Let_def intro!: exI [of _ e] split: sum.splits)
  qed (auto simp: recover_missing_lifecycle_event_def Let_def)
  with assms show ?thesis using append_keeps by metis
qed

end

lemma append_ledger_ok:
  assumes "ledger_ok sha f" and "pe_prior_event_digest e = None" and "\<not> harms io"
  shows "ledger_ok sha (fst (append_lifecycle_event sha io fresh e f))"
proof -
  obtain f' r where a: "append_lifecycle_event sha io fresh e f = (f', r)" by fastforce
  show ?thesis
  proof (cases rule: append_cases [OF assms(1,2) a assms(3)])
    case (2 e' n)
    with a show ?thesis unfolding ledger_ok_def by (metis fst_conv)
  next
    case 1
    with a assms(1) show ?thesis by (cases f) (auto simp: ledger_ok_def chains_ok_def events_of_def)
  qed
qed

interpretation undamaged: append_invariant sha False "ledger_ok sha" for sha
  by unfold_locales (simp add: append_ledger_ok)

interpretation anyhow: append_invariant sha True "ledger_sane sha" for sha
  by unfold_locales (simp add: append_sane)

text \<open>
  Every sequence of operations, in which a revocation may also append on the strength of an earlier
  check, and any event may be appended on the strength of whatever was read before.  The flag says
  whether an append did harm.
\<close>

inductive lc_reachable :: "lc_hash \<Rightarrow> bool \<Rightarrow> lc_ledger \<Rightarrow> bool" for sha where
  lc_fresh: "lc_reachable sha False LAbsent"
| lc_revoke: "lc_reachable sha t f \<Longrightarrow>
    lc_reachable sha (t \<or> harms io) (fst (revoke_preparation_receipt env sha io eid now producer dir i f))"
| lc_revoke_late: "lc_reachable sha t f \<Longrightarrow> lc_reachable sha (t \<or> harms io) (fst (revoke_commit sha io eid now producer r i f))"
| lc_consume: "lc_reachable sha t f \<Longrightarrow>
    lc_reachable sha (t \<or> harms io) (consume_preparation_receipt sha io eid now i branch wt head f)"
| lc_recover: "lc_reachable sha t f \<Longrightarrow>
    lc_reachable sha (t \<or> harms io) (fst (recover_missing_lifecycle_event sha io eid now git i branch wt f))"
| lc_supersede: "lc_reachable sha t f \<Longrightarrow>
    lc_reachable sha (t \<or> list_ex (\<lambda>(r, io, eid). harms io) older) (supersede_older env sha now i branch wt older f)"
| lc_append: "lc_reachable sha t f \<Longrightarrow> pe_prior_event_digest e = None \<Longrightarrow>
    lc_reachable sha (t \<or> harms io) (fst (append_lifecycle_event sha io fresh e f))"

lemma reachable_ledger: "lc_reachable sha t f \<Longrightarrow> ledger_sane sha f \<and> (\<not> t \<longrightarrow> ledger_ok sha f)"
proof (induction rule: lc_reachable.induct)
  case lc_fresh
  then show ?case by (simp add: ledger_ok_def)
next
  case (lc_supersede t f older env now i branch wt)
  then show ?case
    by (auto intro!: anyhow.supersede_keeps undamaged.supersede_keeps simp: list_ex_iff)
qed (auto intro: anyhow.revoke_keeps anyhow.revoke_commit_keeps anyhow.consume_keeps anyhow.recover_keeps append_sane
    undamaged.revoke_keeps undamaged.revoke_commit_keeps undamaged.consume_keeps undamaged.recover_keeps append_ledger_ok)

lemma reachable_ledger_ok: "lc_reachable sha False f \<Longrightarrow> ledger_ok sha f"
  using reachable_ledger by blast

text \<open>What loading a good ledger gives.\<close>

lemma load_absent:
  "load_lifecycle_events sha LAbsent i = \<lparr>ll_outcome = LL_ABSENT, ll_events = [], ll_status = Some LK_ACTIVE\<rparr>"
  by (simp add: load_lifecycle_events_def)

lemma load_ledger_ok:
  assumes "ledger_ok sha f"
  shows "lifecycle_readable (load_lifecycle_events sha f i)"
    and "ll_status (load_lifecycle_events sha f i) = Some (status_of_events (events_of i (ledger_events f)))"
    and "get_lifecycle_status sha f i = status_of_events (events_of i (ledger_events f))"
    and "read_lifecycle_events sha f i = events_of i (ledger_events f)"
proof -
  have "f = LAbsent \<or> (\<exists>es. f = LLines (map LEvent es) False \<and> chains_ok sha es)" using assms by (simp add: ledger_ok_def)
  then show "lifecycle_readable (load_lifecycle_events sha f i)"
    and "ll_status (load_lifecycle_events sha f i) = Some (status_of_events (events_of i (ledger_events f)))"
    and "get_lifecycle_status sha f i = status_of_events (events_of i (ledger_events f))"
    and "read_lifecycle_events sha f i = events_of i (ledger_events f)"
    by (auto simp: load_chains_ok lifecycle_readable_def get_lifecycle_status_def read_lifecycle_events_def
        load_absent status_of_events_def events_of_def)
qed

lemma status_snoc:
  "status_of_events (events_of i (es @ [e])) =
    (if pe_preparation_receipt_sha256 e = i then pe_event_kind e else status_of_events (events_of i es))"
  by (simp add: status_of_events_def events_of_def)

text \<open>A successful append of an event of a receipt makes its kind the status of that receipt and of no other.\<close>

lemma append_status:
  assumes "ledger_ok sha f" and "pe_prior_event_digest e = None"
    and "append_lifecycle_event sha Lc_ok fresh e f = (f', r)"
  shows "ledger_ok sha f'" and "\<exists>n. r = Inr (Some n)" and "ll_outcome (load_lifecycle_events sha f' i) = LL_OK"
    and "get_lifecycle_status sha f' i =
      (if pe_preparation_receipt_sha256 e = i then pe_event_kind e else get_lifecycle_status sha f i)"
    and "ll_status (load_lifecycle_events sha f' i) = Some (get_lifecycle_status sha f' i)"
proof -
  from assms(3) obtain e' n where a: "f' = LLines (map LEvent (ledger_events f @ [e'])) False" "r = Inr (Some n)"
      "chains_ok sha (ledger_events f @ [e'])" "pe_event_kind e' = pe_event_kind e"
      "pe_preparation_receipt_sha256 e' = pe_preparation_receipt_sha256 e"
    by (cases rule: append_cases [OF assms]) auto
  show ok: "ledger_ok sha f'" using a(1,3) unfolding ledger_ok_def by blast
  show "\<exists>n. r = Inr (Some n)" using a(2) by blast
  show "ll_outcome (load_lifecycle_events sha f' i) = LL_OK" unfolding a(1) load_chains_ok [OF a(3)] by simp
  have es: "ledger_events f' = ledger_events f @ [e']" unfolding a(1) by (rule ledger_events_map)
  show "get_lifecycle_status sha f' i =
      (if pe_preparation_receipt_sha256 e = i then pe_event_kind e else get_lifecycle_status sha f i)"
    unfolding load_ledger_ok(3) [OF ok] load_ledger_ok(3) [OF assms(1)] es status_snoc a(4,5) ..
  show "ll_status (load_lifecycle_events sha f' i) = Some (get_lifecycle_status sha f' i)"
    unfolding load_ledger_ok(2,3) [OF ok] ..
qed

lemma revoke_active:
  assumes "ledger_ok sha f" and "load_preparation_receipt env dir i = Some r" and "get_lifecycle_status sha f i = LK_ACTIVE"
    and "string_field r ''branch'' = Inr b" and "string_field r ''worktree_root'' = Inr w"
  shows "revoke_check env sha dir f i = Inr r"
    and "\<exists>f' n. revoke_preparation_receipt env sha Lc_ok eid now producer dir i f = (f', Inr \<lparr>rv_outcome = REVOKED, rv_event_id = Some n\<rparr>) \<and>
      ledger_ok sha f' \<and> (\<forall>j. get_lifecycle_status sha f' j = (if j = i then LK_REVOKED else get_lifecycle_status sha f j))"
    and "io \<in> {Lc_lock_fails, Lc_open_fails} \<Longrightarrow> revoke_preparation_receipt env sha io eid now producer dir i f = (f, Inr (revocation LEDGER_WRITE_FAILED))"
proof -
  have load: "pl_outcome (load_preparation_receipt_typed env dir i) = PL_LOADED_VALID"
      "pl_receipt (load_preparation_receipt_typed env dir i) = Some r"
    using assms(2) by (auto simp: load_preparation_receipt_def Let_def split: if_splits)
  show check: "revoke_check env sha dir f i = Inr r"
    using load_ledger_ok [OF assms(1), of i] assms(3) by (simp add: revoke_check_def load)
  let ?e = "new_lifecycle_event eid now LK_REVOKED i b w producer"
  obtain f' x where a: "append_lifecycle_event sha Lc_ok eid ?e f = (f', x)" by fastforce
  note st = append_status [OF assms(1) new_lifecycle_event_simps(4) a]
  obtain n where n: "x = Inr (Some n)" using st(2) by blast
  have "revoke_preparation_receipt env sha Lc_ok eid now producer dir i f = (f', Inr \<lparr>rv_outcome = REVOKED, rv_event_id = Some n\<rparr>)"
    using st(3-5) [of i] by (simp add: revoke_preparation_receipt_def check revoke_commit_def assms(4,5) a n)
  then show "\<exists>f' n. revoke_preparation_receipt env sha Lc_ok eid now producer dir i f =
      (f', Inr \<lparr>rv_outcome = REVOKED, rv_event_id = Some n\<rparr>) \<and>
      ledger_ok sha f' \<and> (\<forall>j. get_lifecycle_status sha f' j = (if j = i then LK_REVOKED else get_lifecycle_status sha f j))"
    using st(1,4) by auto
  assume io: "io \<in> {Lc_lock_fails, Lc_open_fails}"
  obtain f2 y where y: "append_lifecycle_event sha io eid ?e f = (f2, y)" by fastforce
  have prior: "ledger_prior sha reads i f = Inr (case ledger_prior sha reads i f of Inr p \<Rightarrow> p)" if "reads = None" for reads
    using assms(1) last_event_intact [of _ sha i None] that by (auto simp: ledger_ok_def chains_ok_def)
  have "f2 = f \<and> y = Inr None"
    using y io prior by (auto simp: append_lifecycle_event_def Let_def split: sum.splits)
  with y show "revoke_preparation_receipt env sha io eid now producer dir i f = (f, Inr (revocation LEDGER_WRITE_FAILED))"
    by (simp add: revoke_preparation_receipt_def check revoke_commit_def assms(4,5))
qed

lemma revoke_refused:
  assumes "ledger_ok sha f" and "load_preparation_receipt env dir i = Some r" and "get_lifecycle_status sha f i \<noteq> LK_ACTIVE"
  shows "revoke_preparation_receipt env sha io eid now producer dir i f = (f, Inr (revocation
    (case get_lifecycle_status sha f i of LK_REVOKED \<Rightarrow> ALREADY_REVOKED | LK_CONSUMED \<Rightarrow> ALREADY_CONSUMED | _ \<Rightarrow> ALREADY_SUPERSEDED)))"
proof -
  have "pl_outcome (load_preparation_receipt_typed env dir i) = PL_LOADED_VALID"
    using assms(2) by (auto simp: load_preparation_receipt_def Let_def split: if_splits)
  then show ?thesis
    using load_ledger_ok [OF assms(1), of i] assms(3)
    by (simp add: revoke_preparation_receipt_def revoke_check_def split: PreparationLifecycleEventKind.splits)
qed

section \<open>Properties\<close>


definition demo_lc :: lc_hash where
  "demo_lc e = pe_event_id e"

definition demo_ledger :: lc_ledger where
  "demo_ledger = consume_preparation_receipt demo_lc Lc_ok ''2'' 0 ''b'' ''main'' ''/w'' ''h''
    (consume_preparation_receipt demo_lc Lc_ok ''1'' 0 ''a'' ''main'' ''/w'' ''h'' LAbsent)"

lemma demo_ledger_reachable: "lc_reachable demo_lc False demo_ledger"
  using lc_consume [where io = Lc_ok and eid = "''2''" and now = 0 and i = "''b''" and branch = "''main''" and wt = "''/w''" and head = "''h''",
      OF lc_consume [where io = Lc_ok and eid = "''1''" and now = 0 and i = "''a''" and branch = "''main''" and wt = "''/w''" and head = "''h''",
      OF lc_fresh]]
  by (simp add: demo_ledger_def)




text \<open>
  What a revocation does.  For a receipt that loads and names its branch and worktree by
  strings, in any ledger the operations can build: an active receipt is revoked, every other
  receipt keeps its status, and a second revocation changes nothing and says that it is already
  revoked; a consumed, superseded or revoked receipt is refused with the matching outcome; and
  when lock or open fails nothing changes.
\<close>

theorem revoke_decides:
  fixes env sha eid now producer dir i f eid' now' producer' attempt
  defines "attempt \<equiv> (\<lambda>io. revoke_preparation_receipt env sha io eid now producer dir i f)"
  assumes "lc_reachable sha False f" and "load_preparation_receipt env dir i = Some r"
    and "string_field r ''branch'' = Inr b" and "string_field r ''worktree_root'' = Inr w"
  shows "case get_lifecycle_status sha f i of
      LK_REVOKED \<Rightarrow> attempt io = (f, Inr (revocation ALREADY_REVOKED))
    | LK_CONSUMED \<Rightarrow> attempt io = (f, Inr (revocation ALREADY_CONSUMED))
    | LK_SUPERSEDED \<Rightarrow> attempt io = (f, Inr (revocation ALREADY_SUPERSEDED))
    | LK_ACTIVE \<Rightarrow>
        (io \<in> {Lc_lock_fails, Lc_open_fails} \<longrightarrow> attempt io = (f, Inr (revocation LEDGER_WRITE_FAILED))) \<and>
        (io = Lc_ok \<longrightarrow> (\<exists>f' n. attempt io = (f', Inr \<lparr>rv_outcome = REVOKED, rv_event_id = Some n\<rparr>) \<and>
           (\<forall>j. get_lifecycle_status sha f' j = (if j = i then LK_REVOKED else get_lifecycle_status sha f j)) \<and>
           revoke_preparation_receipt env sha io' eid' now' producer' dir i f' = (f', Inr (revocation ALREADY_REVOKED))))"
proof -
  have ok: "ledger_ok sha f" using assms(2) by (rule reachable_ledger_ok)
  note active = revoke_active [OF ok assms(3) _ assms(4,5)]
  have again: "\<exists>f' n. attempt Lc_ok = (f', Inr \<lparr>rv_outcome = REVOKED, rv_event_id = Some n\<rparr>) \<and>
      (\<forall>j. get_lifecycle_status sha f' j = (if j = i then LK_REVOKED else get_lifecycle_status sha f j)) \<and>
      revoke_preparation_receipt env sha io' eid' now' producer' dir i f' = (f', Inr (revocation ALREADY_REVOKED))"
    if act: "get_lifecycle_status sha f i = LK_ACTIVE"
  proof -
    obtain f' n where "attempt Lc_ok = (f', Inr \<lparr>rv_outcome = REVOKED, rv_event_id = Some n\<rparr>)" and f': "ledger_ok sha f'"
      and all: "\<forall>j. get_lifecycle_status sha f' j = (if j = i then LK_REVOKED else get_lifecycle_status sha f j)"
      using active(2) [OF act] unfolding attempt_def by metis
    moreover have "revoke_preparation_receipt env sha io' eid' now' producer' dir i f' = (f', Inr (revocation ALREADY_REVOKED))"
      using revoke_refused [OF f' assms(3)] all by simp
    ultimately show ?thesis by blast
  qed
  have late: "attempt io = (f, Inr (revocation (case get_lifecycle_status sha f i of
      LK_REVOKED \<Rightarrow> ALREADY_REVOKED | LK_CONSUMED \<Rightarrow> ALREADY_CONSUMED | _ \<Rightarrow> ALREADY_SUPERSEDED)))"
    if "get_lifecycle_status sha f i \<noteq> LK_ACTIVE"
    unfolding attempt_def using that by (rule revoke_refused [OF ok assms(3)])
  have "attempt io = (f, Inr (revocation LEDGER_WRITE_FAILED))" if "io \<in> {Lc_lock_fails, Lc_open_fails}" "get_lifecycle_status sha f i = LK_ACTIVE"
    unfolding attempt_def using that by (intro active(3))
  with again late show ?thesis by (cases "get_lifecycle_status sha f i") simp_all
qed

lemma demo_ledger_status: "get_lifecycle_status demo_lc demo_ledger ''a'' = LK_CONSUMED"
  by (simp add: demo_ledger_def consume_preparation_receipt_def append_lifecycle_event_def write_event_def get_lifecycle_status_def
      load_lifecycle_events_def seal_event_def verify_event_integrity_def recompute_event_integrity_def demo_lc_def
      new_lifecycle_event_def status_of_events_def)

lemma demo_stored_loads:
  "load_preparation_receipt demo_receipt_env [(''a'', FileJson (JObj demo_stored))] ''a'' = Some demo_stored"
  "string_field demo_stored ''branch'' = Inr ''''" "string_field demo_stored ''worktree_root'' = Inr ''''"
  by (simp_all add: load_preparation_receipt_def load_preparation_receipt_typed_def digest_mismatch_def demo_stored_def
      recompute_receipt_digest_def json_digest_def demo_receipt_env_def dict_get_def string_field_def)

theorem revoke_decides_witness:
  "(\<exists>f' n. revoke_preparation_receipt demo_receipt_env demo_lc Lc_ok ''3'' 0 ''p'' [(''a'', FileJson (JObj demo_stored))] ''a'' LAbsent =
      (f', Inr \<lparr>rv_outcome = REVOKED, rv_event_id = Some n\<rparr>)) \<and>
   revoke_preparation_receipt demo_receipt_env demo_lc Lc_ok ''3'' 0 ''p'' [(''a'', FileJson (JObj demo_stored))] ''a'' demo_ledger =
     (demo_ledger, Inr (revocation ALREADY_CONSUMED))"
proof -
  have "get_lifecycle_status demo_lc LAbsent ''a'' = LK_ACTIVE" by (simp add: get_lifecycle_status_def load_absent)
  with demo_ledger_status revoke_decides [OF demo_ledger_reachable demo_stored_loads, of Lc_ok "''3''" 0 "''p''"]
    revoke_decides [OF lc_fresh [of demo_lc] demo_stored_loads, where io = Lc_ok and eid = "''3''" and now = 0 and producer = "''p''"]
  show ?thesis by (simp, blast)
qed

text \<open>
  At most one terminal transition is not enforced.  In any ledger the operations can build, a
  checkpoint that records the consumption of a revoked or superseded receipt succeeds: the
  receipt is then CONSUMED, and a later revocation is refused as coming too late.
\<close>

theorem terminated_receipt_can_be_consumed:
  assumes "lc_reachable sha False f" and "get_lifecycle_status sha f i \<in> {LK_REVOKED, LK_SUPERSEDED}"
    and "load_preparation_receipt env dir i = Some r"
  shows "get_lifecycle_status sha (consume_preparation_receipt sha Lc_ok eid now i branch wt head f) i = LK_CONSUMED \<and>
    snd (revoke_preparation_receipt env sha io eid' now' producer dir i
      (consume_preparation_receipt sha Lc_ok eid now i branch wt head f)) = Inr (revocation ALREADY_CONSUMED)"
proof -
  have ok: "ledger_ok sha f" using assms(1) by (rule reachable_ledger_ok)
  let ?e = "(new_lifecycle_event eid now LK_CONSUMED i branch wt ''checkpoint.run'')\<lparr>pe_committed_head_sha := Some head\<rparr>"
  obtain f' x where a: "append_lifecycle_event sha Lc_ok eid ?e f = (f', x)" by fastforce
  have e: "pe_prior_event_digest ?e = None" by simp
  note st = append_status [OF ok e a]
  have f': "consume_preparation_receipt sha Lc_ok eid now i branch wt head f = f'"
    using assms(2) a by (auto simp: consume_preparation_receipt_def)
  have c: "get_lifecycle_status sha (consume_preparation_receipt sha Lc_ok eid now i branch wt head f) i = LK_CONSUMED"
    unfolding f' using st(4) [of i] by simp
  moreover have "snd (revoke_preparation_receipt env sha io eid' now' producer dir i
      (consume_preparation_receipt sha Lc_ok eid now i branch wt head f)) = Inr (revocation ALREADY_CONSUMED)"
    using revoke_refused [OF st(1) assms(3), of io eid' now' producer] c unfolding f' by simp
  ultimately show ?thesis by blast
qed

definition demo_revoked :: lc_ledger where
  "demo_revoked = fst (revoke_preparation_receipt demo_receipt_env demo_lc Lc_ok ''3'' 0 ''p''
    [(''a'', FileJson (JObj demo_stored))] ''a'' LAbsent)"

lemma demo_revoked:
  "lc_reachable demo_lc False demo_revoked" "get_lifecycle_status demo_lc demo_revoked ''a'' = LK_REVOKED"
proof -
  show "lc_reachable demo_lc False demo_revoked"
    using lc_revoke [OF lc_fresh, where io = Lc_ok] by (simp add: demo_revoked_def)
  have "get_lifecycle_status demo_lc LAbsent ''a'' = LK_ACTIVE" by (simp add: get_lifecycle_status_def load_absent)
  moreover have "ledger_ok demo_lc LAbsent" by (simp add: ledger_ok_def)
  ultimately show "get_lifecycle_status demo_lc demo_revoked ''a'' = LK_REVOKED"
    using revoke_active(2) [OF _ demo_stored_loads(1) _ demo_stored_loads(2,3), of demo_lc LAbsent "''3''" 0 "''p''"]
    unfolding demo_revoked_def by (metis fst_conv)
qed

theorem terminated_receipt_can_be_consumed_witness:
  "get_lifecycle_status demo_lc (consume_preparation_receipt demo_lc Lc_ok ''4'' 1 ''a'' ''main'' ''/w'' ''h'' demo_revoked) ''a'' = LK_CONSUMED"
  using terminated_receipt_can_be_consumed [OF demo_revoked(1) _ demo_stored_loads(1)] demo_revoked(2) by blast

text \<open>
  What reconciliation concludes.  For a valid receipt of the branch, in any ledger the
  operations can build, with \<open>n\<close> commits counted: REVOKED and SUPERSEDED receipts are reported as
  consistent whatever git shows, even commits that carry the trailer; ACTIVE is reported exactly
  for an active receipt without such commits; a repair is offered exactly for an active receipt
  with one; a consumed receipt is consistent exactly with one, reachable, commit.  The outcomes
  for ambiguous evidence and for a contradiction do not arise here.
\<close>

theorem reconciliation_decides:
  fixes env sha dir f i branch count_out find_out reachable
  defines "st \<equiv> get_lifecycle_status sha f i" and "n \<equiv> count_terminal_commits count_out"
    and "out \<equiv> rr_outcome (reconcile_receipt_evidence env sha dir f i branch count_out find_out reachable)"
  assumes "lc_reachable sha False f" and "load_preparation_receipt env dir i = Some r"
    and "jget_or r ''branch'' (JStr '''') = JStr branch"
  shows "out = (case st of
      LK_ACTIVE \<Rightarrow> if n = 0 then RC_ACTIVE else if n = 1 then RC_TERMINAL_COMMITTED_REPAIRABLE else RC_DUPLICATE_TERMINAL
    | LK_CONSUMED \<Rightarrow>
        (case find_terminal_commit i find_out of
           Some h \<Rightarrow> if n = 0 \<or> \<not> reachable h then RC_LIFECYCLE_ONLY_NO_TERMINAL
             else if n = 1 then RC_CONSUMED_CONSISTENT else RC_DUPLICATE_TERMINAL
         | None \<Rightarrow> RC_LIFECYCLE_ONLY_NO_TERMINAL)
    | _ \<Rightarrow> RC_CONSUMED_CONSISTENT)"
proof -
  note ok = load_ledger_ok [OF reachable_ledger_ok [OF assms(4)], of i]
  have load: "pl_outcome (load_preparation_receipt_typed env dir i) = PL_LOADED_VALID"
      "pl_receipt (load_preparation_receipt_typed env dir i) = Some r"
    using assms(5) by (auto simp: load_preparation_receipt_def Let_def split: if_splits)
  have "out = rr_outcome (reconcile_evidence (Some st) n (find_terminal_commit i find_out) reachable)"
    using ok by (simp add: out_def reconcile_receipt_evidence_def load assms(6) st_def n_def)
  then show ?thesis
    by (cases st; cases "find_terminal_commit i find_out"; cases n rule: nat.exhaust)
      (auto simp: reconcile_evidence_def reconciled_def)
qed

definition demo_trailer :: git_output where
  "demo_trailer = Some (0, ''h'' @ [CHR 0x0A] @ ''Rig-Preparation-Receipt-SHA256: a'')"

theorem reconciliation_decides_witness:
  "rr_outcome (reconcile_receipt_evidence demo_receipt_env demo_lc [(''a'', FileJson (JObj demo_stored))] demo_ledger ''a'' ''''
     (Some (0, ''h'')) demo_trailer (\<lambda>h. True)) = RC_CONSUMED_CONSISTENT \<and>
   find_terminal_commit ''a'' demo_trailer = Some ''h''"
proof -
  have h: "find_terminal_commit ''a'' demo_trailer = Some ''h''" and n: "count_terminal_commits (Some (0, ''h'')) = 1"
    by (simp_all add: find_terminal_commit_def demo_trailer_def git_lines_def str_strip_def is_space_def has_trailer_def
        TRAILER_KEY_def startswith_def count_terminal_commits_def)
  have b: "jget_or demo_stored ''branch'' (JStr '''') = JStr ''''" by (simp add: demo_stored_def jget_or_def dict_get_def)
  from reconciliation_decides [OF demo_ledger_reachable demo_stored_loads(1) b, of "Some (0, ''h'')" demo_trailer "\<lambda>h. True"]
  show ?thesis by (simp add: demo_ledger_status h n)
qed

text \<open>
  The commit named is the first of the log even when the trailer belongs to a later one: all
  lines after the first, up to ten commits, are searched.
\<close>

lemma terminal_commit_of_other:
  "find_terminal_commit ''a'' (Some (0, ''new'' @ [CHR 0x0A] @ ''old'' @ [CHR 0x0A] @ ''Rig-Preparation-Receipt-SHA256: a'')) =
     Some ''new''"
  by (simp add: find_terminal_commit_def git_lines_def str_strip_def is_space_def has_trailer_def TRAILER_KEY_def startswith_def)

end
