(* ===== verification/Revocation_Authority.thy ===== *)
theory Revocation_Authority
  imports Receipt_Lifecycle
begin

text \<open>
  The public revocation of preparation receipts, \<^verbatim>\<open>rig_relay/governance/revocation_authority.py\<close>:
  the check of an authorization receipt, the classification of its refusals by words in the
  reason, and the call of the store's revocation.  The texts for people are left out except
  the reason, which the code reads.
\<close>

section \<open>Outcomes\<close>

datatype PublicRevocationOutcome =
    PR_REVOKED | PR_ALREADY_REVOKED | PR_AUTHORIZATION_MISSING | PR_AUTHORIZATION_INVALID | PR_AUTHORIZATION_EXPIRED
  | PR_AUTHORIZATION_ACTION_MISMATCH | PR_ALREADY_CONSUMED | PR_ALREADY_SUPERSEDED | PR_RECEIPT_NOT_FOUND
  | PR_RECEIPT_CORRUPT | PR_LIFECYCLE_AUTHORITY_CORRUPT | PR_CONFLICTING_TERMINAL | PR_LEDGER_WRITE_FAILED | PR_RACE_LOST

record PublicRevocationResult =
  pr_outcome :: PublicRevocationOutcome
  pr_preparation_receipt_sha256 :: string
  pr_revocation_event_id :: "string option"
  pr_authorization_receipt_sha256 :: "json option"
  pr_evidence :: "jdict option"


text \<open>\<^verbatim>\<open>outcome.value\<close>: the lower-case name.\<close>

fun outcome_value :: "PublicRevocationOutcome \<Rightarrow> string" where
  "outcome_value PR_REVOKED = ''revoked''"
| "outcome_value PR_ALREADY_REVOKED = ''already_revoked''"
| "outcome_value PR_AUTHORIZATION_MISSING = ''authorization_missing''"
| "outcome_value PR_AUTHORIZATION_INVALID = ''authorization_invalid''"
| "outcome_value PR_AUTHORIZATION_EXPIRED = ''authorization_expired''"
| "outcome_value PR_AUTHORIZATION_ACTION_MISMATCH = ''authorization_action_mismatch''"
| "outcome_value PR_ALREADY_CONSUMED = ''already_consumed''"
| "outcome_value PR_ALREADY_SUPERSEDED = ''already_superseded''"
| "outcome_value PR_RECEIPT_NOT_FOUND = ''receipt_not_found''"
| "outcome_value PR_RECEIPT_CORRUPT = ''receipt_corrupt''"
| "outcome_value PR_LIFECYCLE_AUTHORITY_CORRUPT = ''lifecycle_authority_corrupt''"
| "outcome_value PR_CONFLICTING_TERMINAL = ''conflicting_terminal''"
| "outcome_value PR_LEDGER_WRITE_FAILED = ''ledger_write_failed''"
| "outcome_value PR_RACE_LOST = ''race_lost''"

definition build_evidence ::
  "int \<Rightarrow> PublicRevocationOutcome \<Rightarrow> string \<Rightarrow> string option \<Rightarrow> json \<Rightarrow> jdict" where
  "build_evidence now out i eid authz =
    [(''schema_version'', JStr ''rig.relay.revocation_evidence.v1''), (''outcome'', JStr (outcome_value out)),
     (''preparation_receipt_sha256'', JStr i), (''revocation_event_id'', opt_str eid),
     (''authorization_receipt_sha256'', authz), (''timestamp'', JTime (Aware now))]"

text \<open>Every outcome of the store is in the table, so its default RACE_LOST is never taken.\<close>

fun map_primitive_outcome :: "RevocationOutcome \<Rightarrow> PublicRevocationOutcome" where
  "map_primitive_outcome REVOKED = PR_REVOKED"
| "map_primitive_outcome ALREADY_REVOKED = PR_ALREADY_REVOKED"
| "map_primitive_outcome ALREADY_CONSUMED = PR_ALREADY_CONSUMED"
| "map_primitive_outcome ALREADY_SUPERSEDED = PR_ALREADY_SUPERSEDED"
| "map_primitive_outcome RECEIPT_NOT_FOUND = PR_RECEIPT_NOT_FOUND"
| "map_primitive_outcome RECEIPT_CORRUPT = PR_RECEIPT_CORRUPT"
| "map_primitive_outcome LIFECYCLE_AUTHORITY_CORRUPT = PR_LIFECYCLE_AUTHORITY_CORRUPT"
| "map_primitive_outcome CONFLICTING_TERMINAL = PR_CONFLICTING_TERMINAL"
| "map_primitive_outcome LEDGER_WRITE_FAILED = PR_LEDGER_WRITE_FAILED"

section \<open>The operation\<close>

definition REVOKE_ACTION :: string where
  "REVOKE_ACTION = ''preparation_receipt.revoke''"

definition refusal_outcome :: "string \<Rightarrow> PublicRevocationOutcome" where
  "refusal_outcome reason =
    (if str_contains (str_lower reason) ''expired'' then PR_AUTHORIZATION_EXPIRED
     else if str_contains (str_lower reason) ''action'' \<or> str_contains (str_lower reason) ''mismatch''
     then PR_AUTHORIZATION_ACTION_MISMATCH
     else PR_AUTHORIZATION_INVALID)"

definition public_refusal :: "PublicRevocationOutcome \<Rightarrow> string \<Rightarrow> json option \<Rightarrow> PublicRevocationResult" where
  "public_refusal out i authz =
    \<lparr>pr_outcome = out, pr_preparation_receipt_sha256 = i, pr_revocation_event_id = None,
     pr_authorization_receipt_sha256 = authz, pr_evidence = None\<rparr>"

definition revoke_preparation_receipt_public ::
  "receipt_env \<Rightarrow> lc_hash \<Rightarrow> lc_io \<Rightarrow> string \<Rightarrow> int \<Rightarrow> string \<Rightarrow> receipt_dir \<Rightarrow> string \<Rightarrow> json_arg \<Rightarrow> lc_ledger \<Rightarrow>
   lc_ledger \<times> PublicRevocationResult result" where
  "revoke_preparation_receipt_public env sha io eid now producer dir i text f =
    (case text of
       NoText \<Rightarrow> (f, Inr (public_refusal PR_AUTHORIZATION_MISSING i None))
     | BadText \<Rightarrow> (f, Inr (public_refusal PR_AUTHORIZATION_INVALID i None))
     | Text (JObj r) \<Rightarrow>
         let authz = jget_or r ''receipt_sha256'' (JStr '''') in
         (case validate_receipt env now r REVOKE_ACTION None DEFAULT_POLICY of
            Inl err \<Rightarrow> (f, Inl err)
          | Inr (False, reason) \<Rightarrow> (f, Inr (public_refusal (refusal_outcome reason) i (Some authz)))
          | Inr (True, reason) \<Rightarrow>
             (case revoke_preparation_receipt env sha io eid now producer dir i f of
                (f', Inl err) \<Rightarrow> (f', Inl err)
              | (f', Inr res) \<Rightarrow>
                  let out = map_primitive_outcome (rv_outcome res) in
                  (f', Inr \<lparr>pr_outcome = out, pr_preparation_receipt_sha256 = i, pr_revocation_event_id = rv_event_id res,
                            pr_authorization_receipt_sha256 = Some authz,
                            pr_evidence = Some (build_evidence now out i (rv_event_id res) authz)\<rparr>)))
     | Text v \<Rightarrow> (f, Inl AttributeError))"

section \<open>What a valid receipt says\<close>



section \<open>Properties\<close>


text \<open>
  An unattended process can revoke.  The receipt that \<^verbatim>\<open>mint_dev_receipt\<close> gives for the action,
  with no user involved, revokes any active receipt that loads, until it expires; after its
  expiry the answer is AUTHORIZATION_EXPIRED and nothing changes.
\<close>

theorem dev_receipt_revokes:
  assumes "lc_reachable sha False f" and "load_preparation_receipt env dir i = Some r" and "get_lifecycle_status sha f i = LK_ACTIVE"
    and "string_field r ''branch'' = Inr b" and "string_field r ''worktree_root'' = Inr w"
    and "mint_dev_receipt env now authz ch REVOKE_ACTION scope ttl = Inr a"
  shows "\<exists>f' res. revoke_preparation_receipt_public env sha Lc_ok eid t producer dir i (Text (JObj a)) f = (f', Inr res) \<and>
    (if t \<le> now + seconds ttl
     then pr_outcome res = PR_REVOKED \<and> get_lifecycle_status sha f' i = LK_REVOKED
     else pr_outcome res = PR_AUTHORIZATION_EXPIRED \<and> f' = f)"
proof -
  have gen: "generate_dev_receipt env now authz ch REVOKE_ACTION scope ttl = Inr a"
    using assms(6) by (simp add: mint_dev_receipt_def)
  have listed: "dict_get (pol_action_methods DEFAULT_POLICY) REVOKE_ACTION \<noteq> None"
    by (simp add: DEFAULT_POLICY_def REVOKE_ACTION_def dict_get_def)
  show ?thesis
  proof (cases "t \<le> now + seconds ttl")
    case True
    then obtain why where v: "validate_receipt env t a REVOKE_ACTION None DEFAULT_POLICY = Inr (True, why)"
      using dev_receipt_validates [OF gen, of t] listed by auto
    obtain f' n where "revoke_preparation_receipt env sha Lc_ok eid t producer dir i f = (f', Inr \<lparr>rv_outcome = REVOKED, rv_event_id = Some n\<rparr>)"
        "get_lifecycle_status sha f' i = LK_REVOKED"
      using revoke_active(2) [OF reachable_ledger_ok [OF assms(1)] assms(2-5)] by metis
    with True v show ?thesis by (simp add: revoke_preparation_receipt_public_def Let_def)
  next
    case False
    have "validate_receipt env t a REVOKE_ACTION None DEFAULT_POLICY = Inr (False, ''Receipt expired'')"
      using gen False by (auto simp: generate_dev_receipt_def and_then_Inr_iff validate_receipt_def split: if_splits)
    with False show ?thesis
      by (simp add: revoke_preparation_receipt_public_def public_refusal_def refusal_outcome_def str_lower_def lower_char_def
          startswith_def)
  qed
qed



theorem dev_receipt_revokes_witness:
  "\<exists>a f' res. mint_dev_receipt demo_receipt_env 0 ''x'' ''c'' REVOKE_ACTION None 300 = Inr a \<and>
     revoke_preparation_receipt_public demo_receipt_env demo_lc Lc_ok ''3'' 5 ''p'' [(''a'', FileJson (JObj demo_stored))] ''a''
       (Text (JObj a)) LAbsent = (f', Inr res) \<and> pr_outcome res = PR_REVOKED"
proof -
  obtain a where a: "mint_dev_receipt demo_receipt_env 0 ''x'' ''c'' REVOKE_ACTION None 300 = Inr a"
    by (simp add: mint_dev_receipt_def generate_dev_receipt_def in_range_def datetime_min_def datetime_max_def seconds_def)
  have st: "get_lifecycle_status demo_lc LAbsent ''a'' = LK_ACTIVE" by (simp add: get_lifecycle_status_def load_absent)
  from dev_receipt_revokes [OF lc_fresh demo_stored_loads(1) st demo_stored_loads(2,3) a, of "''3''" 5 "''p''"] a show ?thesis
    by (auto simp: seconds_def)
qed

text \<open>
  The words of the reason misclassify refusals: a method the policy does not allow, and a
  missing scope, are reported as an action mismatch, since both texts contain the word.
\<close>

lemma method_refusal_misclassified:
  "refusal_outcome (''Method '' @ [CHR 0x27] @ ''passkey_webauthn'' @ [CHR 0x27] @ '' not allowed for action '' @
     [CHR 0x27] @ ''preparation_receipt.revoke'' @ [CHR 0x27]) = PR_AUTHORIZATION_ACTION_MISMATCH"
  "refusal_outcome ''Mission-issued receipt missing action_scope binding'' = PR_AUTHORIZATION_ACTION_MISMATCH"
  by (simp_all add: refusal_outcome_def str_lower_def lower_char_def startswith_def)

end
