(* ===== verification/Checkpoint_Transaction.thy ===== *)
theory Checkpoint_Transaction
  imports Receipt_Lifecycle
begin

text \<open>
  The isolated checkpoint transaction, \<^verbatim>\<open>rig_relay/governance/checkpoint_transaction.py\<close>: a commit
  built in a temporary index and a branch moved by compare-and-swap.  The program git and the
  removal of the temporary index file are arguments, acting on a repository of any type; what the
  code relies on is stated as named hypotheses over a view of that repository.  A run of git that
  times out or cannot start replies \<open>None\<close>.  The error texts are left out.
\<close>

section \<open>Results\<close>

datatype TransactionPhase =
    TX_INIT | TX_INDEX_INITIALIZED | TX_PATHS_POPULATED | TX_TREE_BUILT | TX_COMMIT_CREATED | TX_REF_ADVANCED
  | TX_TERMINAL_WRITTEN | TX_CONSUMED | TX_COMPLETED

datatype RefAdvanceOutcome =
  RA_ACCEPTED | RA_STALE_PARENT | RA_REF_NOT_FOUND | RA_DETACHED_HEAD | RA_TRANSACTION_ERROR

record TransactionResult =
  tr_phase :: TransactionPhase
  tr_ref_outcome :: "RefAdvanceOutcome option"
  tr_parent_sha :: "string option"
  tr_new_commit_sha :: "string option"
  tr_tree_sha :: "string option"
  tr_branch :: string
  tr_committed :: bool

definition is_accepted :: "TransactionResult \<Rightarrow> bool" where
  "is_accepted res \<longleftrightarrow> tr_ref_outcome res = Some RA_ACCEPTED"

definition branch_advanced :: "TransactionResult \<Rightarrow> bool" where
  "branch_advanced res \<longleftrightarrow> tr_phase res \<in> {TX_REF_ADVANCED, TX_CONSUMED, TX_COMPLETED}"

section \<open>Runs of git\<close>

text \<open>Arguments, \<^verbatim>\<open>GIT_INDEX_FILE\<close>, standard input and repository; the reply is code, output and error text.\<close>

type_synonym 'g git = "string list \<Rightarrow> string option \<Rightarrow> string \<Rightarrow> 'g \<Rightarrow> 'g \<times> (int \<times> string \<times> string) option"

definition run_git :: "'g git \<Rightarrow> string list \<Rightarrow> string option \<Rightarrow> 'g \<Rightarrow> 'g \<times> (int \<times> string \<times> string) option" where
  "run_git git args idx g = git (''--no-optional-locks'' # args) idx '''' g"


text \<open>The shared shape: the stripped output of a run that succeeds.\<close>

definition output_of :: "(int \<times> string \<times> string) option \<Rightarrow> string option" where
  "output_of reply = (case reply of Some (rc, out, err) \<Rightarrow> if rc = 0 then Some (str_strip out) else None | None \<Rightarrow> None)"






definition get_current_branch :: "'g git \<Rightarrow> 'g \<Rightarrow> 'g \<times> string option" where
  "get_current_branch git g =
    (let (g1, reply) = run_git git [''rev-parse'', ''--abbrev-ref'', ''HEAD''] None g
     in (g1, case output_of reply of
          Some b \<Rightarrow> if b = '''' \<or> b = ''HEAD'' then None else Some b
        | None \<Rightarrow> None))"

definition get_head_sha :: "'g git \<Rightarrow> 'g \<Rightarrow> 'g \<times> string option" where
  "get_head_sha git g = (let (g1, reply) = run_git git [''rev-parse'', ''HEAD''] None g in (g1, output_of reply))"

definition is_commit_reachable :: "'g git \<Rightarrow> string \<Rightarrow> string \<Rightarrow> 'g \<Rightarrow> 'g \<times> bool" where
  "is_commit_reachable git commit branch g =
    (let (g1, reply) = run_git git [''merge-base'', ''--is-ancestor'', commit, ''refs/heads/'' @ branch] None g
     in (g1, output_of reply \<noteq> None))"

section \<open>The transaction\<close>



section \<open>What the code relies on\<close>

text \<open>
  A view of a repository: the commit of a ref, the entries of an index file, the entries of a
  stored tree or commit, and the content of the working tree.
\<close>

record 'g git_view =
  gv_ref :: "'g \<Rightarrow> string \<Rightarrow> string option"
  gv_index :: "'g \<Rightarrow> string \<Rightarrow> string \<Rightarrow> string option"
  gv_object :: "'g \<Rightarrow> string \<Rightarrow> (string \<Rightarrow> string option) option"
  gv_work :: "'g \<Rightarrow> string \<Rightarrow> string option"

text \<open>A run that moves no ref, no index but \<open>tmp\<close> and no file of the working tree, and loses no object.\<close>

definition only_index :: "'g git_view \<Rightarrow> string \<Rightarrow> 'g \<Rightarrow> 'g \<Rightarrow> bool" where
  "only_index V tmp g g1 \<longleftrightarrow> gv_ref V g1 = gv_ref V g \<and> (\<forall>i. i \<noteq> tmp \<longrightarrow> gv_index V g1 i = gv_index V g i) \<and>
    gv_work V g1 = gv_work V g \<and> (\<forall>h t. gv_object V g h = Some t \<longrightarrow> gv_object V g1 h = Some t)"








section \<open>Isolation\<close>

lemma only_index_refl [simp]: "only_index V tmp g g"
  by (simp add: only_index_def)










section \<open>Properties\<close>









end
