(* ===== verification/Governance_Gates.thy ===== *)
theory Governance_Gates
  imports Json_Values
begin

text \<open>
  The governance gates of \<^verbatim>\<open>rig_relay/governance\<close>: the decision models of \<^verbatim>\<open>decisions.py\<close>, the
  engine of \<^verbatim>\<open>governance_engine.py\<close>, the signed local action envelope of
  \<^verbatim>\<open>local_action_envelope.py\<close> and the gate of \<^verbatim>\<open>local_action_gate.py\<close>.  The messages, identifiers
  and times of a decision are left out, and so is the best-effort copy of an engine decision to
  the evidence store.  SHA-256 over JSON, Ed25519 and base64 are fields of \<open>envelope_env\<close>.
  JSON numbers are integers here.
\<close>

section \<open>Decisions\<close>

datatype GovernanceDecisionKind = GD_ALLOWED | GD_BLOCKED | GD_REQUIRES_REVIEW | GD_NOT_APPLICABLE

datatype GovernanceReasonSeverity = GS_INFO | GS_WARNING | GS_ERROR | GS_CRITICAL

record DecisionReason =
  dr_code :: string
  dr_severity :: GovernanceReasonSeverity

record BlockedIntent =
  bi_intent_id :: string
  bi_code :: string

record GateDecision =
  gd_workspace_id :: "string option"
  gd_decision :: GovernanceDecisionKind
  gd_gate :: string
  gd_reasons :: "DecisionReason list"
  gd_allowed_intents :: "string list"
  gd_blocked_intents :: "BlockedIntent list"

section \<open>The engine\<close>

datatype RuntimeProviderTrustTier = TT_BLOCKED | TT_ADVISORY | TT_REVIEWER | TT_PLANNER | TT_EXECUTOR_CANDIDATE | TT_VALIDATOR

datatype RuntimeProviderStatus = PS_AVAILABLE | PS_UNAVAILABLE | PS_DEGRADED | PS_BLOCKED | PS_ERROR

definition MUTATION_CAPABILITIES :: "string list" where
  "MUTATION_CAPABILITIES =
    [''file_write_proposal'', ''shell_proposal'', ''patch_proposal'', ''coordination_write'', ''worktree_write'']"

definition NETWORK_CAPABILITIES :: "string list" where
  "NETWORK_CAPABILITIES = [''network_fetch_proposal'', ''docs_fetch_proposal'', ''telemetry_export_proposal'']"

definition is_mutation_capability :: "string \<Rightarrow> bool" where
  "is_mutation_capability kind \<longleftrightarrow> kind \<in> set MUTATION_CAPABILITIES"

definition is_network_capability :: "string \<Rightarrow> bool" where
  "is_network_capability kind \<longleftrightarrow> kind \<in> set NETWORK_CAPABILITIES"

definition classify_capability :: "string \<Rightarrow> string option" where
  "classify_capability kind =
    (if is_mutation_capability kind then Some ''mutation'' else if is_network_capability kind then Some ''network'' else None)"

definition default_trust_tier_for_provider :: "string \<Rightarrow> RuntimeProviderTrustTier" where
  "default_trust_tier_for_provider kind =
    (if kind \<in> {''local'', ''cli'', ''local_inference''} then TT_EXECUTOR_CANDIDATE
     else if kind = ''dry_run'' then TT_REVIEWER
     else TT_ADVISORY)"

record legality_query =
  lq_workspace_id :: "string option"
  lq_intent_id :: string
  lq_intent_kind :: string
  lq_trust_tier :: "RuntimeProviderTrustTier option"
  lq_status :: "RuntimeProviderStatus option"
  lq_allow_mutation :: bool
  lq_allow_network :: bool
  lq_dirty_policy_satisfied :: bool

text \<open>Each check appends a reason, and blocks the intent under the same code.\<close>

definition legality_reasons :: "legality_query \<Rightarrow> string list \<Rightarrow> DecisionReason list" where
  "legality_reasons q caps =
    (if \<not> lq_dirty_policy_satisfied q then [\<lparr>dr_code = ''dirty_policy_violated'', dr_severity = GS_ERROR\<rparr>] else []) @
    (if lq_trust_tier q = Some TT_BLOCKED then [\<lparr>dr_code = ''provider_trust_tier_blocked'', dr_severity = GS_ERROR\<rparr>] else []) @
    (if lq_status q \<in> {Some PS_BLOCKED, Some PS_ERROR, Some PS_UNAVAILABLE} \<and>
        list_ex (\<lambda>c. is_mutation_capability c \<or> is_network_capability c) caps
     then [\<lparr>dr_code = ''provider_status_blocked_execution'', dr_severity = GS_ERROR\<rparr>] else []) @
    (if \<not> lq_allow_mutation q \<and> list_ex is_mutation_capability caps
     then [\<lparr>dr_code = ''mutation_requires_review'', dr_severity = GS_WARNING\<rparr>] else []) @
    (if \<not> lq_allow_network q \<and> list_ex is_network_capability caps
     then [\<lparr>dr_code = ''network_requires_review'', dr_severity = GS_WARNING\<rparr>] else [])"

definition evaluate_action_legality :: "legality_query \<Rightarrow> string list \<Rightarrow> GateDecision" where
  "evaluate_action_legality q caps =
    (let gate = ''rig_relay.gate.default'' in
     if caps = [] \<and> lq_intent_kind q = ''''
     then \<lparr>gd_workspace_id = lq_workspace_id q, gd_decision = GD_NOT_APPLICABLE, gd_gate = gate,
           gd_reasons = [\<lparr>dr_code = ''no_requested_capabilities'', dr_severity = GS_INFO\<rparr>],
           gd_allowed_intents = [], gd_blocked_intents = []\<rparr>
     else
       let reasons = legality_reasons q caps;
           blocked = map (\<lambda>r. \<lparr>bi_intent_id = lq_intent_id q, bi_code = dr_code r\<rparr>) reasons;
           decision = (if list_ex (\<lambda>r. dr_severity r \<in> {GS_ERROR, GS_CRITICAL}) reasons then GD_BLOCKED
                       else if list_ex (\<lambda>r. dr_severity r = GS_WARNING) reasons then GD_REQUIRES_REVIEW
                       else GD_ALLOWED)
       in \<lparr>gd_workspace_id = lq_workspace_id q, gd_decision = decision, gd_gate = gate,
           gd_reasons = (if decision = GD_ALLOWED \<and> reasons = []
                         then [\<lparr>dr_code = ''all_checks_passed'', dr_severity = GS_INFO\<rparr>] else reasons),
           gd_allowed_intents = (if decision = GD_ALLOWED then [lq_intent_id q] else []),
           gd_blocked_intents = blocked\<rparr>)"

section \<open>Envelopes\<close>

text \<open>
  The digest of a JSON value, \<^verbatim>\<open>str\<close> of a value that is no string, signing with a private key,
  and verification of a base64 signature with a public key; both may raise.
\<close>

record envelope_env =
  ee_sha :: "json \<Rightarrow> string"
  ee_str :: "json \<Rightarrow> string"
  ee_sign :: "string \<Rightarrow> json \<Rightarrow> string result"
  ee_verify :: "string \<Rightarrow> json \<Rightarrow> json \<Rightarrow> bool result"

definition DEFAULT_REPLAY_WINDOW_SECONDS :: int where
  "DEFAULT_REPLAY_WINDOW_SECONDS = 300"

definition MAX_REPLAY_WINDOW_SECONDS :: int where
  "MAX_REPLAY_WINDOW_SECONDS = 3600"

definition SUPPORTED_SIGNATURE_ALGORITHMS :: "string list" where
  "SUPPORTED_SIGNATURE_ALGORITHMS = [''ed25519'']"

definition canonicalize_payload :: "json \<Rightarrow> json" where
  "canonicalize_payload payload = canon payload"

definition payload_sha256 :: "envelope_env \<Rightarrow> json \<Rightarrow> string" where
  "payload_sha256 env payload = ee_sha env (canonicalize_payload payload)"

record envelope_args =
  ea_action_name :: string
  ea_action_payload :: jdict
  ea_signer_key_id :: string
  ea_issued_at :: "int option"
  ea_expires_at :: "int option"
  ea_replay_window_seconds :: int
  ea_authorization_receipt_sha256 :: "string option"
  ea_action_id :: "string option"
  ea_local_only :: bool

definition envelope_fields ::
  "envelope_env \<Rightarrow> string \<Rightarrow> string \<Rightarrow> string \<Rightarrow> envelope_args \<Rightarrow> int \<Rightarrow> py_datetime \<Rightarrow> jdict" where
  "envelope_fields env eid aid nonce a now expiry =
    [(''schema_version'', JStr ''rig.relay.local_action_envelope.v1''), (''envelope_id'', JStr eid),
     (''action_id'', JStr (case ea_action_id a of Some i \<Rightarrow> if i = '''' then aid else i | None \<Rightarrow> aid)),
     (''action_name'', JStr (ea_action_name a)),
     (''action_payload_sha256'', JStr (payload_sha256 env (JObj (ea_action_payload a)))),
     (''canonical_payload'', canonicalize_payload (JObj (ea_action_payload a))), (''nonce'', JStr nonce),
     (''issued_at'', JTime (Aware now)), (''expires_at'', JTime (isoformat expiry)),
     (''signer_key_id'', JStr (ea_signer_key_id a)), (''signature_algorithm'', JStr ''ed25519''),
     (''signature'', JStr ''''), (''public_key_id'', JNull),
     (''authorization_receipt_sha256'', jopt JStr (ea_authorization_receipt_sha256 a)),
     (''local_only'', JBool (ea_local_only a)), (''replay_window_seconds'', JInt (ea_replay_window_seconds a)),
     (''warnings'', JList [])]"

text \<open>\<open>eid\<close>, \<open>aid\<close> and \<open>nonce\<close> are the random identifiers; times given are aware.\<close>

definition build_unsigned_envelope ::
  "envelope_env \<Rightarrow> int \<Rightarrow> string \<Rightarrow> string \<Rightarrow> string \<Rightarrow> envelope_args \<Rightarrow> jdict result" where
  "build_unsigned_envelope env clock eid aid nonce a =
    (if ea_replay_window_seconds a > MAX_REPLAY_WINDOW_SECONDS
     then Inl (ValueError ''Replay window exceeds maximum'')
     else if (case ea_authorization_receipt_sha256 a of Some h \<Rightarrow> \<not> startswith h ''sha256:'' | None \<Rightarrow> False)
     then Inl (ValueError ''authorization_receipt_sha256 must start with sha256:'')
     else
       let now = (case ea_issued_at a of Some t \<Rightarrow> t | None \<Rightarrow> clock) in
       and_then (case ea_expires_at a of
                   Some t \<Rightarrow> Inr (AwareDT t)
                 | None \<Rightarrow> add_seconds (AwareDT now) (ea_replay_window_seconds a)) (\<lambda>expiry.
         Inr (envelope_fields env eid aid nonce a now expiry)))"

definition envelope_signing_bytes :: "jdict \<Rightarrow> json" where
  "envelope_signing_bytes e = canon (JObj (dict_pop ''signature'' e))"

definition sign_envelope :: "envelope_env \<Rightarrow> string \<Rightarrow> string option \<Rightarrow> jdict \<Rightarrow> jdict result" where
  "sign_envelope env key public_key_id e =
    (if json_truthy (jget e ''signature'') then Inl (ValueError ''Envelope already has a signature'')
     else and_then (ee_sign env key (envelope_signing_bytes e)) (\<lambda>sig.
       let e1 = dict_set ''signature'' (JStr sig) e in
       Inr (case public_key_id of None \<Rightarrow> e1 | Some p \<Rightarrow> dict_set ''public_key_id'' (JStr p) e1)))"

definition verify_envelope_signature :: "envelope_env \<Rightarrow> jdict \<Rightarrow> string \<Rightarrow> bool result" where
  "verify_envelope_signature env e public_key =
    (let sig = jget_or e ''signature'' (JStr '''') in
     if \<not> json_truthy sig then Inl (ValueError ''Envelope has no signature to verify'')
     else ee_verify env public_key sig (envelope_signing_bytes e))"

definition required_fields :: "string list" where
  "required_fields =
    [''schema_version'', ''envelope_id'', ''action_id'', ''action_name'', ''action_payload_sha256'', ''canonical_payload'',
     ''nonce'', ''issued_at'', ''expires_at'', ''signer_key_id'', ''signature_algorithm'', ''signature'', ''local_only'',
     ''replay_window_seconds'']"

text \<open>\<^verbatim>\<open>algo not in SUPPORTED_SIGNATURE_ALGORITHMS\<close>: a list or dictionary cannot be hashed.\<close>

fun unsupported_algorithm :: "json \<Rightarrow> bool result" where
  "unsupported_algorithm (JList vs) = Inl TypeError"
| "unsupported_algorithm (JObj kvs) = Inl TypeError"
| "unsupported_algorithm v = Inr (v \<notin> JStr ` set SUPPORTED_SIGNATURE_ALGORITHMS)"

text \<open>\<^verbatim>\<open>not 1 <= window <= MAX_REPLAY_WINDOW_SECONDS\<close>: only numbers and booleans compare.\<close>

fun window_out_of_bounds :: "json \<Rightarrow> bool result" where
  "window_out_of_bounds (JInt n) = Inr (\<not> (1 \<le> n \<and> n \<le> MAX_REPLAY_WINDOW_SECONDS))"
| "window_out_of_bounds (JBool b) = Inr (\<not> b)"
| "window_out_of_bounds v = Inl TypeError"

definition expiry_issue :: "int \<Rightarrow> json \<Rightarrow> string list result" where
  "expiry_issue now v =
    (if \<not> json_truthy v then Inr []
     else and_then (json_time v) (\<lambda>ts. Inr
       (case stamp_before ts now of
          Inl err \<Rightarrow> [''Invalid expires_at format'']
        | Inr True \<Rightarrow> [''Envelope expired'']
        | Inr False \<Rightarrow> [])))"

definition receipt_hash_ok :: "json \<Rightarrow> bool" where
  "receipt_hash_ok v = (case v of JNull \<Rightarrow> True | JStr s \<Rightarrow> startswith s ''sha256:'' | _ \<Rightarrow> False)"

text \<open>The issues in the order of the checks; a check that raises ends the function.\<close>

definition shape_issues :: "envelope_env \<Rightarrow> int \<Rightarrow> jdict \<Rightarrow> string list result" where
  "shape_issues env now e =
    (let missing = filter (\<lambda>k. dict_get e k = None) required_fields;
         wrong_schema = (jget e ''schema_version'' \<noteq> JStr ''rig.relay.local_action_envelope.v1'');
         not_local = \<not> json_truthy (jget_or e ''local_only'' (JBool False));
         bad_hash = (jget_or e ''action_payload_sha256'' (JStr '''') \<noteq>
                       JStr (payload_sha256 env (jget_or e ''canonical_payload'' (JObj []))));
         bad_receipt = \<not> receipt_hash_ok (jget e ''authorization_receipt_sha256'') in
     and_then (unsupported_algorithm (jget_or e ''signature_algorithm'' (JStr ''''))) (\<lambda>bad_algo.
     and_then (window_out_of_bounds (jget_or e ''replay_window_seconds'' (JInt 0))) (\<lambda>bad_window.
     and_then (expiry_issue now (jget_or e ''expires_at'' (JStr ''''))) (\<lambda>expiry.
       Inr (map (\<lambda>k. ''Missing required field: '' @ k) missing @
            (if wrong_schema then [''Invalid schema_version''] else []) @
            (if bad_algo then [''Unsupported signature algorithm''] else []) @
            (if not_local then [''local_only must be True in current slice''] else []) @
            (if bad_hash then [''action_payload_sha256 mismatch''] else []) @
            (if bad_receipt then [''authorization_receipt_sha256 must be sha256:<hex>''] else []) @
            (if bad_window then [''replay_window_seconds out of bounds''] else []) @ expiry)))))"

definition verify_envelope_shape :: "envelope_env \<Rightarrow> int \<Rightarrow> jdict \<Rightarrow> (bool \<times> string) result" where
  "verify_envelope_shape env now e =
    and_then (shape_issues env now e) (\<lambda>issues.
      Inr (case issues of [] \<Rightarrow> (True, ''Envelope shape valid'') | i # _ \<Rightarrow> (False, i)))"

section \<open>The local action gate\<close>

definition MUTATION_CAPABILITIES_REQUIRING_ENVELOPE :: "string list" where
  "MUTATION_CAPABILITIES_REQUIRING_ENVELOPE =
    [''tool:BashTool'', ''tool:WriteFileTool'', ''tool:SearchReplaceTool'', ''tool:CheckpointTool'', ''tool:CoordinationTool'',
     ''tool:BehaviorPatchTool'', ''tool:TaskTool'', ''checkpoint.commit'', ''lease_cleanup.archive'', ''write_file'',
     ''search_replace'', ''bash'', ''shell'']"

definition requires_envelope :: "string \<Rightarrow> bool" where
  "requires_envelope capability \<longleftrightarrow> capability \<in> set MUTATION_CAPABILITIES_REQUIRING_ENVELOPE"

definition make_gate_decision :: "bool \<Rightarrow> string \<Rightarrow> GateDecision" where
  "make_gate_decision allowed code =
    \<lparr>gd_workspace_id = None, gd_decision = (if allowed then GD_ALLOWED else GD_BLOCKED),
     gd_gate = ''rig_relay.gate.local_action_envelope'',
     gd_reasons = (if code = '''' then [] else [\<lparr>dr_code = code, dr_severity = GS_ERROR\<rparr>]),
     gd_allowed_intents = [], gd_blocked_intents = []\<rparr>"

definition json_str :: "envelope_env \<Rightarrow> json \<Rightarrow> string" where
  "json_str env v = (case v of JStr s \<Rightarrow> s | _ \<Rightarrow> ee_str env v)"

definition lookup_id :: "envelope_env \<Rightarrow> jdict \<Rightarrow> string" where
  "lookup_id env e =
    (let signer = json_str env (jget_or e ''signer_key_id'' (JStr '''')); public = jget e ''public_key_id''
     in if json_truthy public then json_str env public else signer)"

text \<open>Every exception of the verification is a refusal; the provider is called outside the handler.\<close>

definition verify_envelope_crypto :: "envelope_env \<Rightarrow> jdict \<Rightarrow> (string \<Rightarrow> string option) \<Rightarrow> bool" where
  "verify_envelope_crypto env e provider =
    (if lookup_id env e = '''' then False
     else case provider (lookup_id env e) of
       None \<Rightarrow> False
     | Some key \<Rightarrow> verify_envelope_signature env e key = Inr True)"

text \<open>The arguments \<^verbatim>\<open>action\<close> and \<^verbatim>\<open>payload\<close> are not read.\<close>

definition require_signed_envelope ::
  "envelope_env \<Rightarrow> int \<Rightarrow> string \<Rightarrow> jdict option \<Rightarrow> string \<Rightarrow> jdict option \<Rightarrow> (string \<Rightarrow> string option) option \<Rightarrow>
   GateDecision result" where
  "require_signed_envelope env now action payload capability envelope provider =
    (if \<not> requires_envelope capability then Inr (make_gate_decision True '''')
     else case envelope of
       None \<Rightarrow> Inr (make_gate_decision False ''envelope_missing'')
     | Some e \<Rightarrow>
        and_then (verify_envelope_shape env now e) (\<lambda>(ok, reason).
          if \<not> ok then Inr (make_gate_decision False ''envelope_shape_invalid'')
          else case provider of
            None \<Rightarrow> Inr (make_gate_decision False ''envelope_no_key_provider'')
          | Some p \<Rightarrow>
             if \<not> verify_envelope_crypto env e p then Inr (make_gate_decision False ''envelope_signature_invalid'')
             else Inr (make_gate_decision True '''')))"

section \<open>Decisions of the engine\<close>

lemma list_ex_if: "list_ex P (if b then [x] else []) \<longleftrightarrow> b \<and> P x"
  by simp

lemma legality_severities:
  "list_ex (\<lambda>r. dr_severity r \<in> {GS_ERROR, GS_CRITICAL}) (legality_reasons q caps) \<longleftrightarrow>
    \<not> lq_dirty_policy_satisfied q \<or> lq_trust_tier q = Some TT_BLOCKED \<or>
    lq_status q \<in> {Some PS_BLOCKED, Some PS_ERROR, Some PS_UNAVAILABLE} \<and>
    (\<exists>c \<in> set caps. is_mutation_capability c \<or> is_network_capability c)"
  "list_ex (\<lambda>r. dr_severity r = GS_WARNING) (legality_reasons q caps) \<longleftrightarrow>
    \<not> lq_allow_mutation q \<and> (\<exists>c \<in> set caps. is_mutation_capability c) \<or>
    \<not> lq_allow_network q \<and> (\<exists>c \<in> set caps. is_network_capability c)"
  "legality_reasons q caps = [] \<longleftrightarrow>
    \<not> list_ex (\<lambda>r. dr_severity r \<in> {GS_ERROR, GS_CRITICAL}) (legality_reasons q caps) \<and>
    \<not> list_ex (\<lambda>r. dr_severity r = GS_WARNING) (legality_reasons q caps)"
  unfolding legality_reasons_def list_ex_append list_ex_if append_is_Nil_conv
  by (simp_all only: DecisionReason.simps) (auto simp: list_ex_iff)

lemma legality_decision:
  "gd_decision (evaluate_action_legality q caps) =
    (if caps = [] \<and> lq_intent_kind q = '''' then GD_NOT_APPLICABLE
     else if \<not> lq_dirty_policy_satisfied q \<or> lq_trust_tier q = Some TT_BLOCKED \<or>
       lq_status q \<in> {Some PS_BLOCKED, Some PS_ERROR, Some PS_UNAVAILABLE} \<and>
       (\<exists>c \<in> set caps. is_mutation_capability c \<or> is_network_capability c) then GD_BLOCKED
     else if \<not> lq_allow_mutation q \<and> (\<exists>c \<in> set caps. is_mutation_capability c) \<or>
       \<not> lq_allow_network q \<and> (\<exists>c \<in> set caps. is_network_capability c) then GD_REQUIRES_REVIEW
     else GD_ALLOWED)"
  unfolding evaluate_action_legality_def Let_def legality_severities(1,2) by simp

lemma legality_intents:
  "gd_allowed_intents (evaluate_action_legality q caps) =
    (if gd_decision (evaluate_action_legality q caps) = GD_ALLOWED then [lq_intent_id q] else [])"
  "gd_blocked_intents (evaluate_action_legality q caps) = [] \<longleftrightarrow>
    gd_decision (evaluate_action_legality q caps) \<in> {GD_ALLOWED, GD_NOT_APPLICABLE}"
proof -
  show "gd_allowed_intents (evaluate_action_legality q caps) =
    (if gd_decision (evaluate_action_legality q caps) = GD_ALLOWED then [lq_intent_id q] else [])"
    by (simp add: evaluate_action_legality_def Let_def)
  show "gd_blocked_intents (evaluate_action_legality q caps) = [] \<longleftrightarrow>
    gd_decision (evaluate_action_legality q caps) \<in> {GD_ALLOWED, GD_NOT_APPLICABLE}"
    using legality_severities(3) [of q caps] by (simp add: evaluate_action_legality_def Let_def)
qed

text \<open>
  The engine judges a request by its worst capability.  A request for several capabilities is
  blocked exactly if one of them alone is, allowed exactly if each alone is, and otherwise needs
  review; an intent is listed as allowed or as blocked, never as both; and asking for more
  capabilities does not turn a refusal into a permission.
\<close>

theorem legality_worst_capability:
  fixes q caps defines "alone \<equiv> \<lambda>c. gd_decision (evaluate_action_legality q [c])"
    and "d \<equiv> evaluate_action_legality q caps"
  assumes "caps \<noteq> []"
  shows "gd_decision d = (if \<exists>c \<in> set caps. alone c = GD_BLOCKED then GD_BLOCKED
      else if \<exists>c \<in> set caps. alone c = GD_REQUIRES_REVIEW then GD_REQUIRES_REVIEW else GD_ALLOWED) \<and>
    (gd_allowed_intents d = [] \<longleftrightarrow> gd_blocked_intents d \<noteq> []) \<and>
    (gd_decision (evaluate_action_legality q (caps @ extra)) = GD_ALLOWED \<longrightarrow> gd_decision d = GD_ALLOWED)"
proof -
  define A where "A \<longleftrightarrow> \<not> lq_dirty_policy_satisfied q \<or> lq_trust_tier q = Some TT_BLOCKED"
  define S where "S \<longleftrightarrow> lq_status q \<in> {Some PS_BLOCKED, Some PS_ERROR, Some PS_UNAVAILABLE}"
  define B where "B c \<longleftrightarrow> A \<or> S \<and> (is_mutation_capability c \<or> is_network_capability c)" for c
  define R where "R c \<longleftrightarrow> \<not> lq_allow_mutation q \<and> is_mutation_capability c \<or> \<not> lq_allow_network q \<and> is_network_capability c" for c
  have all: "gd_decision (evaluate_action_legality q cs) =
      (if \<exists>c \<in> set cs. B c then GD_BLOCKED else if \<exists>c \<in> set cs. R c then GD_REQUIRES_REVIEW else GD_ALLOWED)"
    if "cs \<noteq> []" for cs
  proof -
    have "(\<exists>c \<in> set cs. B c) \<longleftrightarrow> A \<or> S \<and> (\<exists>c \<in> set cs. is_mutation_capability c \<or> is_network_capability c)"
      using that by (cases cs) (auto simp: B_def)
    moreover have "(\<exists>c \<in> set cs. R c) \<longleftrightarrow> \<not> lq_allow_mutation q \<and> (\<exists>c \<in> set cs. is_mutation_capability c) \<or>
        \<not> lq_allow_network q \<and> (\<exists>c \<in> set cs. is_network_capability c)" by (auto simp: R_def)
    ultimately show ?thesis unfolding legality_decision using that by (simp only: A_def S_def) simp
  qed
  have "alone c = (if B c then GD_BLOCKED else if R c then GD_REQUIRES_REVIEW else GD_ALLOWED)" for c
    using all [of "[c]"] by (simp add: alone_def)
  then have "gd_decision d = (if \<exists>c \<in> set caps. alone c = GD_BLOCKED then GD_BLOCKED
      else if \<exists>c \<in> set caps. alone c = GD_REQUIRES_REVIEW then GD_REQUIRES_REVIEW else GD_ALLOWED)"
    using all [OF assms(3)] unfolding d_def by auto
  moreover have "gd_allowed_intents d = [] \<longleftrightarrow> gd_blocked_intents d \<noteq> []"
    using calculation unfolding d_def legality_intents by (simp split: if_splits)
  moreover have "gd_decision (evaluate_action_legality q (caps @ extra)) = GD_ALLOWED \<longrightarrow> gd_decision d = GD_ALLOWED"
    using all [OF assms(3)] all [of "caps @ extra"] assms(3) unfolding d_def by (auto split: if_splits)
  ultimately show ?thesis by blast
qed

definition demo_query :: legality_query where
  "demo_query =
    \<lparr>lq_workspace_id = None, lq_intent_id = ''i'', lq_intent_kind = ''k'', lq_trust_tier = Some TT_ADVISORY,
     lq_status = Some PS_DEGRADED, lq_allow_mutation = True, lq_allow_network = False, lq_dirty_policy_satisfied = True\<rparr>"

theorem legality_worst_capability_witness:
  "gd_decision (evaluate_action_legality demo_query [''shell_proposal'', ''docs_fetch_proposal'']) = GD_REQUIRES_REVIEW \<and>
   gd_decision (evaluate_action_legality demo_query [''shell_proposal'']) = GD_ALLOWED"
proof -
  have one: "gd_decision (evaluate_action_legality demo_query [''shell_proposal'']) = GD_ALLOWED"
    "gd_decision (evaluate_action_legality demo_query [''docs_fetch_proposal'']) = GD_REQUIRES_REVIEW"
    by (simp_all add: legality_decision demo_query_def is_mutation_capability_def is_network_capability_def
        MUTATION_CAPABILITIES_def NETWORK_CAPABILITIES_def)
  with legality_worst_capability [of "[''shell_proposal'', ''docs_fetch_proposal'']" demo_query] show ?thesis by simp
qed

section \<open>Admission by an envelope\<close>

lemma gate_allowed_iff:
  assumes "requires_envelope capability"
  shows "(\<exists>d. require_signed_envelope env now action payload capability envelope provider = Inr d \<and> gd_decision d = GD_ALLOWED) \<longleftrightarrow>
    (\<exists>e p. envelope = Some e \<and> provider = Some p \<and> shape_issues env now e = Inr [] \<and> verify_envelope_crypto env e p)"
proof (cases envelope)
  case None
  with assms show ?thesis by (simp add: require_signed_envelope_def make_gate_decision_def)
next
  case (Some e)
  consider "\<exists>err. shape_issues env now e = Inl err" | "shape_issues env now e = Inr []" | "\<exists>i is. shape_issues env now e = Inr (i # is)"
    by (metis list.exhaust obj_sumE)
  then show ?thesis
  proof cases
    case 2
    with assms Some show ?thesis
      by (cases provider) (simp_all add: require_signed_envelope_def verify_envelope_shape_def make_gate_decision_def)
  qed (use assms Some in \<open>auto simp: require_signed_envelope_def verify_envelope_shape_def make_gate_decision_def\<close>)
qed

lemma shape_ok_facts:
  assumes "shape_issues env now e = Inr []"
  shows "jget e ''schema_version'' = JStr ''rig.relay.local_action_envelope.v1''"
    and "\<forall>k \<in> set required_fields. dict_get e k \<noteq> None"
    and "jget e ''action_payload_sha256'' = JStr (payload_sha256 env (jget e ''canonical_payload''))"
    and "expiry_issue now (jget e ''expires_at'') = Inr []"
    and "window_out_of_bounds (jget e ''replay_window_seconds'') = Inr False"
proof -
  have all: "filter (\<lambda>k. dict_get e k = None) required_fields = []"
      "jget e ''schema_version'' = JStr ''rig.relay.local_action_envelope.v1''"
      "jget_or e ''action_payload_sha256'' (JStr '''') = JStr (payload_sha256 env (jget_or e ''canonical_payload'' (JObj [])))"
      "expiry_issue now (jget_or e ''expires_at'' (JStr '''')) = Inr []"
      "window_out_of_bounds (jget_or e ''replay_window_seconds'' (JInt 0)) = Inr False"
    using assms unfolding shape_issues_def Let_def and_then_Inr_iff
    by (simp_all only: sum.inject append_is_Nil_conv map_is_Nil_conv) (fastforce split: if_splits)+
  show req: "\<forall>k \<in> set required_fields. dict_get e k \<noteq> None" using all(1) by (simp add: filter_empty_conv)
  have get: "jget_or e k x = jget e k" if "k \<in> set required_fields" for k x
    using req that by (auto simp: jget_or_def jget_def split: option.splits)
  show "jget e ''schema_version'' = JStr ''rig.relay.local_action_envelope.v1''" by (rule all(2))
  show "jget e ''action_payload_sha256'' = JStr (payload_sha256 env (jget e ''canonical_payload''))"
    "expiry_issue now (jget e ''expires_at'') = Inr []" "window_out_of_bounds (jget e ''replay_window_seconds'') = Inr False"
    using all(3-5) by (simp_all add: get required_fields_def)
qed

lemma expiry_issue_none:
  "expiry_issue now v = Inr [] \<longleftrightarrow> \<not> json_truthy v \<or> (\<exists>t. v = JTime (Aware t) \<and> now \<le> t)"
proof (cases v)
  case (JTime ts)
  then show ?thesis by (cases ts) (auto simp: expiry_issue_def split: bool.splits)
qed (auto simp: expiry_issue_def)

text \<open>
  C23: the local action gate admits a mutation only with an envelope that is signed.  A mutation
  capability is allowed only if an envelope is given whose digest is that of the payload it
  carries, whose signature verifies over all its other fields under the key the provider has
  for it, and which is not past its expiry, or has an expiry that is null or empty: such an
  envelope is accepted for ever.
\<close>

theorem gate_admits_only_signed:
  assumes "require_signed_envelope env now action payload capability envelope provider = Inr d"
    and "gd_decision d = GD_ALLOWED" and "requires_envelope capability"
  shows "\<exists>e p key. envelope = Some e \<and> provider = Some p \<and> p (lookup_id env e) = Some key \<and>
    ee_verify env key (jget e ''signature'') (envelope_signing_bytes e) = Inr True \<and>
    jget e ''action_payload_sha256'' = JStr (payload_sha256 env (jget e ''canonical_payload'')) \<and>
    (\<not> json_truthy (jget e ''expires_at'') \<or> (\<exists>t. jget e ''expires_at'' = JTime (Aware t) \<and> now \<le> t))"
proof -
  obtain e p where e: "envelope = Some e" "provider = Some p" "shape_issues env now e = Inr []" "verify_envelope_crypto env e p"
    using gate_allowed_iff [OF assms(3)] assms(1,2) by blast
  note shape = shape_ok_facts [OF e(3)]
  have "jget_or e ''signature'' (JStr '''') = jget e ''signature''"
    using shape(2) by (auto simp: required_fields_def jget_or_def jget_def)
  then obtain key where "p (lookup_id env e) = Some key" "ee_verify env key (jget e ''signature'') (envelope_signing_bytes e) = Inr True"
    using e(4) by (auto simp: verify_envelope_crypto_def verify_envelope_signature_def Let_def split: if_splits option.splits)
  with e shape show ?thesis by (auto simp: expiry_issue_none)
qed

lemma pop_set: "dict_pop k (dict_set k v d) = dict_pop k d"
  unfolding dict_pop_def dict_set_def by (induction d) auto

lemma signing_bytes_pop: "envelope_signing_bytes (dict_set ''signature'' v e) = envelope_signing_bytes e"
  by (simp add: envelope_signing_bytes_def pop_set)

lemma signing_bytes_eq_get:
  assumes "wf_dict e" and "wf_dict e'" and "envelope_signing_bytes e = envelope_signing_bytes e'" and "k \<noteq> ''signature''"
  shows "canon (jget e k) = canon (jget e' k)"
proof -
  have "canon_dict (dict_pop ''signature'' e) = canon_dict (dict_pop ''signature'' e')"
    using assms(3) by (simp add: envelope_signing_bytes_def)
  then have "jget (canon_dict (dict_pop ''signature'' e)) k = jget (canon_dict (dict_pop ''signature'' e')) k" by simp
  then show ?thesis using assms(1,2,4) by (simp add: jget_canon) (simp add: jget_def dict_get_pop)
qed

text \<open>The fields of an envelope as built.\<close>

lemma built_envelope:
  assumes "build_unsigned_envelope env clock eid aid nonce a = Inr e"
  shows "wf_dict e" and "\<forall>k \<in> set required_fields. dict_get e k \<noteq> None"
    and "jget e ''schema_version'' = JStr ''rig.relay.local_action_envelope.v1''" and "jget e ''public_key_id'' = JNull"
    and "jget e ''signature'' = JStr ''''" and "jget e ''signature_algorithm'' = JStr ''ed25519''"
    and "jget e ''signer_key_id'' = JStr (ea_signer_key_id a)"
    and "jget e ''local_only'' = JBool (ea_local_only a)"
    and "jget e ''replay_window_seconds'' = JInt (ea_replay_window_seconds a)"
    and "jget e ''action_payload_sha256'' = JStr (payload_sha256 env (jget e ''canonical_payload''))"
    and "receipt_hash_ok (jget e ''authorization_receipt_sha256'')" and "\<exists>t. jget e ''expires_at'' = JTime (Aware t)"
    and "ea_replay_window_seconds a \<le> MAX_REPLAY_WINDOW_SECONDS"
proof -
  obtain now expiry where e: "e = envelope_fields env eid aid nonce a now expiry" and x: "\<exists>t. expiry = AwareDT t"
      and w: "ea_replay_window_seconds a \<le> MAX_REPLAY_WINDOW_SECONDS"
      and h: "\<And>h. ea_authorization_receipt_sha256 a = Some h \<Longrightarrow> startswith h ''sha256:''"
    using assms
    by (cases "ea_authorization_receipt_sha256 a"; cases "ea_expires_at a")
      (auto simp: build_unsigned_envelope_def Let_def and_then_Inr_iff split: if_splits)
  note get = jget_def dict_get_def e envelope_fields_def
  show "wf_dict e" "\<forall>k \<in> set required_fields. dict_get e k \<noteq> None"
    by (simp_all add: e envelope_fields_def wf_dict_def required_fields_def dict_get_def)
  show "jget e ''schema_version'' = JStr ''rig.relay.local_action_envelope.v1''" "jget e ''public_key_id'' = JNull"
    "jget e ''signature'' = JStr ''''" "jget e ''signature_algorithm'' = JStr ''ed25519''"
    "jget e ''signer_key_id'' = JStr (ea_signer_key_id a)" "jget e ''local_only'' = JBool (ea_local_only a)"
    "jget e ''replay_window_seconds'' = JInt (ea_replay_window_seconds a)"
    "jget e ''action_payload_sha256'' = JStr (payload_sha256 env (jget e ''canonical_payload''))"
    by (simp_all add: get payload_sha256_def canonicalize_payload_def)
  show "receipt_hash_ok (jget e ''authorization_receipt_sha256'')"
    using h by (cases "ea_authorization_receipt_sha256 a") (simp_all add: get receipt_hash_ok_def jopt_def)
  show "\<exists>t. jget e ''expires_at'' = JTime (Aware t)" using x by (auto simp: get)
  show "ea_replay_window_seconds a \<le> MAX_REPLAY_WINDOW_SECONDS" by (rule w)
qed

lemma signed_envelope_checks:
  assumes build: "build_unsigned_envelope env clock eid aid nonce a = Inr e0"
    and sign: "sign_envelope env key pk e0 = Inr e"
    and scheme: "\<And>s. ee_sign env key (envelope_signing_bytes e0) = Inr s \<Longrightarrow>
      s \<noteq> '''' \<and> (\<forall>y. ee_verify env public (JStr s) y = Inr (y = envelope_signing_bytes e0))"
    and provider: "\<And>i. p i = Some public"
    and expiry: "jget e0 ''expires_at'' = JTime (Aware t)"
    and signer: "ea_signer_key_id a \<noteq> ''''"
  shows "shape_issues env now e = Inr [] \<longleftrightarrow> ea_local_only a \<and> 1 \<le> ea_replay_window_seconds a \<and> now \<le> t"
    and "verify_envelope_crypto env e p \<longleftrightarrow> pk = None"
proof -
  note built = built_envelope [OF build]
  obtain s where s: "ee_sign env key (envelope_signing_bytes e0) = Inr s"
    and e: "e = (case pk of None \<Rightarrow> dict_set ''signature'' (JStr s) e0 | Some q \<Rightarrow> dict_set ''public_key_id'' (JStr q) (dict_set ''signature'' (JStr s) e0))"
    using sign built(5) by (auto simp: sign_envelope_def and_then_Inr_iff Let_def)
  have get: "jget e k = (if k = ''signature'' then JStr s else jget e0 k)" if "k \<noteq> ''public_key_id''" for k
    using that by (simp add: e jget_set split: option.splits)
  have pub: "jget e ''public_key_id'' = jopt JStr pk" using built(4) by (simp add: e jget_set jopt_def split: option.splits)
  have req: "dict_get e k \<noteq> None" if "k \<in> set required_fields" for k
    using built(2) that by (simp add: e dict_get_set split: option.splits)
  have get_or: "jget_or e k x = jget e k" if "k \<in> set required_fields" for k x
    using req [OF that] by (auto simp: jget_or_def jget_def)
  have bytes: "envelope_signing_bytes e = envelope_signing_bytes e0 \<longleftrightarrow> pk = None"
  proof (cases pk)
    case None
    then show ?thesis by (simp add: e signing_bytes_pop)
  next
    case (Some q)
    have "wf_dict e" using built(1) by (simp add: e split: option.splits)
    then have "envelope_signing_bytes e \<noteq> envelope_signing_bytes e0"
      using signing_bytes_eq_get [of e e0 "''public_key_id''"] built(1,4) pub Some by (auto simp: jopt_def)
    with Some show ?thesis by simp
  qed
  have "verify_envelope_signature env e public = Inr (pk = None)"
    using scheme [OF s] bytes get [of "''signature''"]
    by (simp add: verify_envelope_signature_def get_or required_fields_def)
  moreover have "lookup_id env e \<noteq> '''' \<or> pk \<noteq> None"
    using signer built(7) get [of "''signer_key_id''"] pub
    by (cases pk) (simp_all add: lookup_id_def get_or required_fields_def json_str_def jopt_def Let_def)
  ultimately show "verify_envelope_crypto env e p \<longleftrightarrow> pk = None"
    by (auto simp: verify_envelope_crypto_def provider)
  have missing: "filter (\<lambda>k. dict_get e k = None) required_fields = []" using req by (simp add: filter_empty_conv)
  show "shape_issues env now e = Inr [] \<longleftrightarrow> ea_local_only a \<and> 1 \<le> ea_replay_window_seconds a \<and> now \<le> t"
    unfolding shape_issues_def missing
    using built(3,6,8-11,13) expiry
    by (auto simp: Let_def get get_or required_fields_def SUPPORTED_SIGNATURE_ALGORITHMS_def expiry_issue_def split: bool.splits)
qed

text \<open>
  An envelope that is built, signed and shown to the gate.  Where the signature made over
  its bytes verifies for exactly those bytes, and the provider has the signer's key, a mutation is allowed exactly if the envelope is for local use, its replay window is
  positive, it is not past its expiry, and it was signed without naming a public key: naming
  one changes the envelope after the signed bytes were taken, and no verification succeeds.
\<close>

theorem signed_envelope_admitted_iff:
  assumes build: "build_unsigned_envelope env clock eid aid nonce a = Inr e0"
    and sign: "sign_envelope env key pk e0 = Inr e"
    and scheme: "\<And>s. ee_sign env key (envelope_signing_bytes e0) = Inr s \<Longrightarrow>
      s \<noteq> '''' \<and> (\<forall>y. ee_verify env public (JStr s) y = Inr (y = envelope_signing_bytes e0))"
    and provider: "\<And>i. p i = Some public"
    and expiry: "jget e0 ''expires_at'' = JTime (Aware t)"
    and capability: "requires_envelope capability" and signer: "ea_signer_key_id a \<noteq> ''''"
  shows "(\<exists>d. require_signed_envelope env now action payload capability (Some e) (Some p) = Inr d \<and> gd_decision d = GD_ALLOWED) \<longleftrightarrow>
    ea_local_only a \<and> 1 \<le> ea_replay_window_seconds a \<and> now \<le> t \<and> pk = None"
  using signed_envelope_checks(1) [OF build sign scheme provider expiry signer, where now = now]
    signed_envelope_checks(2) [OF build sign scheme provider expiry signer]
  unfolding gate_allowed_iff [OF capability] by simp

definition demo_envelope_args :: envelope_args where
  "demo_envelope_args =
    \<lparr>ea_action_name = ''bash'', ea_action_payload = [], ea_signer_key_id = ''k'', ea_issued_at = Some 0, ea_expires_at = Some 10,
     ea_replay_window_seconds = 300, ea_authorization_receipt_sha256 = None, ea_action_id = None, ea_local_only = True\<rparr>"

definition demo_envelope_env0 :: envelope_env where
  "demo_envelope_env0 =
    \<lparr>ee_sha = (\<lambda>v. ''sha256:0''), ee_str = (\<lambda>v. ''''), ee_sign = (\<lambda>k v. Inr ''s''), ee_verify = (\<lambda>k s v. Inr False)\<rparr>"

definition demo_local_envelope :: jdict where
  "demo_local_envelope = envelope_fields demo_envelope_env0 ''e'' ''a'' ''n'' demo_envelope_args 0 (AwareDT 10)"

text \<open>The one signature of this scheme is good for the bytes of one envelope.\<close>

definition demo_envelope_env :: envelope_env where
  "demo_envelope_env =
    demo_envelope_env0\<lparr>ee_verify := (\<lambda>k s v. Inr (v = envelope_signing_bytes demo_local_envelope))\<rparr>"

lemma demo_built: "build_unsigned_envelope demo_envelope_env 5 ''e'' ''a'' ''n'' demo_envelope_args = Inr demo_local_envelope"
  by (simp add: build_unsigned_envelope_def demo_envelope_args_def demo_local_envelope_def envelope_fields_def payload_sha256_def
      demo_envelope_env_def demo_envelope_env0_def MAX_REPLAY_WINDOW_SECONDS_def)

lemma demo_signed:
  "sign_envelope demo_envelope_env ''k'' None demo_local_envelope = Inr (dict_set ''signature'' (JStr ''s'') demo_local_envelope)"
  by (simp add: sign_envelope_def built_envelope(5) [OF demo_built] demo_envelope_env_def demo_envelope_env0_def)

lemma demo_scheme:
  "ee_sign demo_envelope_env ''k'' (envelope_signing_bytes demo_local_envelope) = Inr s \<Longrightarrow>
   s \<noteq> '''' \<and> (\<forall>y. ee_verify demo_envelope_env ''pub'' (JStr s) y = Inr (y = envelope_signing_bytes demo_local_envelope))"
  by (auto simp: demo_envelope_env_def demo_envelope_env0_def)

lemma demo_local_envelope_facts:
  "jget demo_local_envelope ''expires_at'' = JTime (Aware 10)" "ea_signer_key_id demo_envelope_args \<noteq> ''''"
  "requires_envelope ''bash''" "ea_local_only demo_envelope_args" "1 \<le> ea_replay_window_seconds demo_envelope_args"
  by (simp_all add: demo_local_envelope_def envelope_fields_def jget_def dict_get_def demo_envelope_args_def requires_envelope_def
      MUTATION_CAPABILITIES_REQUIRING_ENVELOPE_def)

theorem signed_envelope_admitted_iff_witness:
  "\<exists>d. require_signed_envelope demo_envelope_env 7 ''bash'' None ''bash''
     (Some (dict_set ''signature'' (JStr ''s'') demo_local_envelope)) (Some (\<lambda>i. Some ''pub'')) = Inr d \<and> gd_decision d = GD_ALLOWED"
  using signed_envelope_admitted_iff [OF demo_built demo_signed demo_scheme _ demo_local_envelope_facts(1,3,2),
      where p = "\<lambda>i. Some ''pub''" and now = 7] demo_local_envelope_facts(4,5) by simp

theorem gate_admits_only_signed_witness:
  "\<exists>d. require_signed_envelope demo_envelope_env 7 ''bash'' None ''bash''
       (Some (dict_set ''signature'' (JStr ''s'') demo_local_envelope)) (Some (\<lambda>i. Some ''pub'')) = Inr d \<and> gd_decision d = GD_ALLOWED \<and>
     jget (dict_set ''signature'' (JStr ''s'') demo_local_envelope) ''action_payload_sha256'' = JStr ''sha256:0''"
proof -
  let ?e = "dict_set ''signature'' (JStr ''s'') demo_local_envelope"
  have "shape_issues demo_envelope_env 7 ?e = Inr []" "verify_envelope_crypto demo_envelope_env ?e (\<lambda>i. Some ''pub'')"
    using signed_envelope_checks(1) [OF demo_built demo_signed demo_scheme _ demo_local_envelope_facts(1,2),
        where now = 7 and p = "\<lambda>i. Some ''pub''"]
      signed_envelope_checks(2) [OF demo_built demo_signed demo_scheme _ demo_local_envelope_facts(1,2), where p = "\<lambda>i. Some ''pub''"]
      demo_local_envelope_facts(4,5) by simp_all
  then obtain d where d: "require_signed_envelope demo_envelope_env 7 ''bash'' None ''bash'' (Some ?e) (Some (\<lambda>i. Some ''pub'')) = Inr d"
      "gd_decision d = GD_ALLOWED"
    using gate_allowed_iff [OF demo_local_envelope_facts(3), of demo_envelope_env 7 "''bash''" None "Some ?e" "Some (\<lambda>i. Some ''pub'')"] by blast
  from gate_admits_only_signed [OF d demo_local_envelope_facts(3)] d show ?thesis
    by (auto simp: demo_envelope_env_def demo_envelope_env0_def payload_sha256_def)
qed

text \<open>
  The gate compares the envelope with nothing but itself: once accepted it is accepted for every
  mutation capability, action and payload, and again until it expires.
\<close>

lemma envelope_not_bound_to_action:
  assumes "require_signed_envelope env now action payload capability (Some e) provider = Inr d" and "gd_decision d = GD_ALLOWED"
    and "requires_envelope capability"
  shows "\<exists>d'. require_signed_envelope env now action' payload' capability' (Some e) provider = Inr d' \<and> gd_decision d' = GD_ALLOWED"
proof (cases "requires_envelope capability'")
  case True
  with assms show ?thesis unfolding gate_allowed_iff [OF True] using gate_allowed_iff [OF assms(3)] by blast
qed (simp add: require_signed_envelope_def make_gate_decision_def)

end
