(* ===== verification/Remote_Authorization.thy ===== *)
theory Remote_Authorization
  imports Json_Values Relay_Interfaces
begin

text \<open>
  Authorization of actions on remote services, \<^verbatim>\<open>rig_relay/governance/remote_action_authorization.py\<close>:
  receipts bound to a request, issued, validated and consumed.  A file of the store cannot be read
  as JSON, holds a JSON object that is no receipt, or holds a receipt; JSON that is no object is not
  modelled.  \<open>sha\<close> is the digest of a receipt's canonical JSON, the random identifier and the
  clock are arguments, and the texts for people are left out.
\<close>

section \<open>Action classes\<close>

definition SUPPORTED_ACTION_CLASSES :: "string list" where
  "SUPPORTED_ACTION_CLASSES =
    [''github_user_profile_update'', ''github_repository_create'', ''github_issue_create'', ''github_issue_comment'',
     ''github_issue_close'', ''github_actions_rerun'', ''github_actions_dispatch'', ''github_pages_configure'',
     ''github_pages_publish'', ''github_pages_cancel_deployment'', ''github_git_content_publish'']"

definition FRESHNESS_REQUIRED_ACTIONS :: "string list" where
  "FRESHNESS_REQUIRED_ACTIONS =
    [''github_user_profile_update'', ''github_issue_comment'', ''github_issue_close'', ''github_pages_configure'',
     ''github_pages_publish'', ''github_pages_cancel_deployment'', ''github_git_content_publish'', ''github_actions_rerun'',
     ''github_actions_dispatch'']"

definition NO_PRIOR_EVIDENCE_ACTIONS :: "string list" where
  "NO_PRIOR_EVIDENCE_ACTIONS = [''github_repository_create'', ''github_issue_create'']"

text \<open>\<^verbatim>\<open>_ACTION_RISK_MAP.get(action, MUTATING).value\<close>.\<close>

definition action_risk :: "string \<Rightarrow> string" where
  "action_risk action =
    (if action = ''github_repository_create'' then ''repository_creation''
     else if action \<in> {''github_actions_rerun'', ''github_actions_dispatch'', ''github_pages_cancel_deployment''} then ''destructive''
     else if action = ''github_pages_configure'' then ''configuration''
     else if action = ''github_pages_publish'' then ''deployment''
     else ''mutating'')"

section \<open>Receipts\<close>

record RemoteActionAuthorizationReceipt =
  ra_schema_version :: string
  ra_authorization_id :: string
  ra_created_at :: timestamp
  ra_action_class :: string
  ra_provider :: string
  ra_target_identity :: string
  ra_requested_actor :: string
  ra_producer_identity :: string
  ra_request_digest :: string
  ra_prior_evidence_digest :: string
  ra_permission_scope_summary :: string
  ra_mutation_risk :: string
  ra_purpose :: string
  ra_issued_at :: timestamp
  ra_expires_at :: timestamp
  ra_one_time :: bool
  ra_max_uses :: int
  ra_use_count :: int
  ra_consumed :: bool
  ra_receipt_sha256 :: string

type_synonym rea_hash = "RemoteActionAuthorizationReceipt \<Rightarrow> string"

definition rea_recompute_integrity :: "rea_hash \<Rightarrow> RemoteActionAuthorizationReceipt \<Rightarrow> string" where
  "rea_recompute_integrity sha r = sha (r\<lparr>ra_receipt_sha256 := ''''\<rparr>)"

definition rea_seal :: "rea_hash \<Rightarrow> RemoteActionAuthorizationReceipt \<Rightarrow> RemoteActionAuthorizationReceipt" where
  "rea_seal sha r = r\<lparr>ra_receipt_sha256 := rea_recompute_integrity sha r\<rparr>"

definition rea_verify_integrity :: "rea_hash \<Rightarrow> RemoteActionAuthorizationReceipt \<Rightarrow> bool" where
  "rea_verify_integrity sha r \<longleftrightarrow> ra_receipt_sha256 r = rea_recompute_integrity sha r"

definition rea_dump :: "RemoteActionAuthorizationReceipt \<Rightarrow> jdict" where
  "rea_dump r =
    [(''schema_version'', JStr (ra_schema_version r)), (''authorization_id'', JStr (ra_authorization_id r)),
     (''created_at'', JTime (ra_created_at r)), (''action_class'', JStr (ra_action_class r)),
     (''provider'', JStr (ra_provider r)), (''target_identity'', JStr (ra_target_identity r)),
     (''requested_actor'', JStr (ra_requested_actor r)), (''producer_identity'', JStr (ra_producer_identity r)),
     (''request_digest'', JStr (ra_request_digest r)), (''prior_evidence_digest'', JStr (ra_prior_evidence_digest r)),
     (''permission_scope_summary'', JStr (ra_permission_scope_summary r)), (''mutation_risk'', JStr (ra_mutation_risk r)),
     (''purpose'', JStr (ra_purpose r)), (''issued_at'', JTime (ra_issued_at r)), (''expires_at'', JTime (ra_expires_at r)),
     (''one_time'', JBool (ra_one_time r)), (''max_uses'', JInt (ra_max_uses r)), (''use_count'', JInt (ra_use_count r)),
     (''consumed'', JBool (ra_consumed r)), (''receipt_sha256'', JStr (ra_receipt_sha256 r))]"

section \<open>Sentinels\<close>

definition SENTINEL_FIELDS :: "string list" where
  "SENTINEL_FIELDS =
    [''token'', ''authorization_header'', ''request_secret'', ''private_key'', ''raw_github_response'', ''raw_workflow_log'',
     ''raw_private_content'', ''api_key'', ''bearer_token'', ''oauth_token'', ''client_secret'', ''ssh_private_key'',
     ''access_token'', ''refresh_token'']"

definition SENTINEL_SIGNATURES :: "string list" where
  "SENTINEL_SIGNATURES =
    [''bearer '', ''ghp_'', ''ghs_'', ''gho_'', ''-----begin rsa private key'', ''-----begin openssh private key'']"

text \<open>The text of a value that is a string; a timestamp that parses holds none of the signatures.\<close>

definition sentinel_text :: "json \<Rightarrow> string" where
  "sentinel_text v = (case v of JStr s \<Rightarrow> s | JTime (NotIso s) \<Rightarrow> s | _ \<Rightarrow> '''')"

definition sentinel_value :: "json \<Rightarrow> bool" where
  "sentinel_value v \<longleftrightarrow> list_ex (\<lambda>sig. str_contains (str_lower (sentinel_text v)) sig) SENTINEL_SIGNATURES"

definition check_sentinels :: "jdict \<Rightarrow> bool" where
  "check_sentinels d \<longleftrightarrow> list_ex (\<lambda>(k, v). str_lower k \<in> set SENTINEL_FIELDS \<or> sentinel_value v) d"

section \<open>The store\<close>

datatype rea_file = RF_unreadable | RF_object jdict | RF_receipt RemoteActionAuthorizationReceipt

type_synonym rea_store = "(string, rea_file) dict"

definition rea_persist_receipt :: "bool \<Rightarrow> RemoteActionAuthorizationReceipt \<Rightarrow> rea_store \<Rightarrow> rea_store \<times> bool" where
  "rea_persist_receipt ok r st = (if ok then (dict_set (ra_authorization_id r) (RF_receipt r) st, True) else (st, False))"

text \<open>An object that is no receipt and holds no sentinel raises: the validation error is not caught.\<close>

definition rea_load_receipt :: "rea_store \<Rightarrow> string \<Rightarrow> RemoteActionAuthorizationReceipt option result" where
  "rea_load_receipt st i =
    (case dict_get st i of
       None \<Rightarrow> Inr None
     | Some RF_unreadable \<Rightarrow> Inr None
     | Some (RF_object d) \<Rightarrow> if check_sentinels d then Inr None else Inl ValidationError
     | Some (RF_receipt r) \<Rightarrow> if check_sentinels (rea_dump r) then Inr None else Inr (Some r))"

datatype RemoteActionOutcome =
    RO_ISSUED | RO_VALID | RO_CONSUMED | RO_EXPIRED | RO_ALREADY_CONSUMED | RO_UNSUPPORTED_ACTION | RO_ACTION_MISMATCH
  | RO_PROVIDER_MISMATCH | RO_TARGET_MISMATCH | RO_REQUEST_DIGEST_MISMATCH | RO_STALE_EVIDENCE | RO_EVIDENCE_MISMATCH
  | RO_MISSING_FRESHNESS | RO_NOT_FOUND | RO_CORRUPT | RO_INTEGRITY_TAMPERED | RO_SENTINEL_EXCLUDED

record RemoteActionResult =
  rx_outcome :: RemoteActionOutcome
  rx_authorization_id :: string
  rx_receipt :: "RemoteActionAuthorizationReceipt option"

definition is_authorized :: "RemoteActionResult \<Rightarrow> bool" where
  "is_authorized res \<longleftrightarrow> rx_outcome res \<in> {RO_ISSUED, RO_VALID, RO_CONSUMED}"

definition remote_result :: "RemoteActionOutcome \<Rightarrow> string \<Rightarrow> RemoteActionAuthorizationReceipt option \<Rightarrow> RemoteActionResult" where
  "remote_result out i r = \<lparr>rx_outcome = out, rx_authorization_id = i, rx_receipt = r\<rparr>"

section \<open>Issue\<close>

record issue_args =
  ia_action_class :: string
  ia_provider :: string
  ia_target_identity :: string
  ia_requested_actor :: string
  ia_producer_identity :: string
  ia_request_digest :: string
  ia_prior_evidence_digest :: string
  ia_permission_scope_summary :: string
  ia_purpose :: string
  ia_ttl_minutes :: int
  ia_one_time :: bool
  ia_max_uses :: int

definition new_receipt :: "int \<Rightarrow> string \<Rightarrow> issue_args \<Rightarrow> timestamp \<Rightarrow> RemoteActionAuthorizationReceipt" where
  "new_receipt now i a expires =
    \<lparr>ra_schema_version = ''rig.relay.remote_action_authorization_receipt.v1'', ra_authorization_id = i,
     ra_created_at = Aware now, ra_action_class = ia_action_class a, ra_provider = ia_provider a,
     ra_target_identity = ia_target_identity a, ra_requested_actor = ia_requested_actor a,
     ra_producer_identity = ia_producer_identity a, ra_request_digest = ia_request_digest a,
     ra_prior_evidence_digest = ia_prior_evidence_digest a,
     ra_permission_scope_summary = ia_permission_scope_summary a, ra_mutation_risk = action_risk (ia_action_class a),
     ra_purpose = ia_purpose a, ra_issued_at = Aware now, ra_expires_at = expires, ra_one_time = ia_one_time a,
     ra_max_uses = ia_max_uses a, ra_use_count = 0, ra_consumed = False, ra_receipt_sha256 = ''''\<rparr>"

definition issue_remote_action_authorization ::
  "rea_hash \<Rightarrow> bool \<Rightarrow> int \<Rightarrow> string \<Rightarrow> issue_args \<Rightarrow> rea_store \<Rightarrow> rea_store \<times> RemoteActionResult result" where
  "issue_remote_action_authorization sha write_ok now i a st =
    (if ia_action_class a \<notin> set SUPPORTED_ACTION_CLASSES then (st, Inr (remote_result RO_UNSUPPORTED_ACTION '''' None))
     else if ia_request_digest a = '''' then (st, Inr (remote_result RO_REQUEST_DIGEST_MISMATCH '''' None))
     else if ia_action_class a \<in> set FRESHNESS_REQUIRED_ACTIONS \<and> ia_prior_evidence_digest a = ''''
     then (st, Inr (remote_result RO_MISSING_FRESHNESS '''' None))
     else case add_seconds (AwareDT now) (60 * ia_ttl_minutes a) of
       Inl err \<Rightarrow> (st, Inl err)
     | Inr expires \<Rightarrow>
        let r = rea_seal sha (new_receipt now i a (isoformat expires)) in
        if check_sentinels (rea_dump r) then (st, Inr (remote_result RO_SENTINEL_EXCLUDED '''' None))
        else case rea_persist_receipt write_ok r st of
          (st', False) \<Rightarrow> (st', Inr (remote_result RO_CORRUPT '''' None))
        | (st', True) \<Rightarrow> (st', Inr (remote_result RO_ISSUED i (Some r))))"

section \<open>Validation\<close>

record expectations =
  ex_action_class :: "string option"
  ex_provider :: "string option"
  ex_target :: "string option"
  ex_request_digest :: "string option"
  ex_current_evidence :: "string option"

text \<open>\<^verbatim>\<open>if expected and actual != expected\<close>: no expectation and an empty one are not checked.\<close>

definition mismatches :: "string option \<Rightarrow> string \<Rightarrow> bool" where
  "mismatches expected actual \<longleftrightarrow> (case expected of None \<Rightarrow> False | Some x \<Rightarrow> x \<noteq> '''' \<and> actual \<noteq> x)"

text \<open>The checks of a loaded receipt in source order; the flag says whether the receipt is returned.\<close>

definition receipt_refusal ::
  "rea_hash \<Rightarrow> int \<Rightarrow> expectations \<Rightarrow> RemoteActionAuthorizationReceipt \<Rightarrow> (RemoteActionOutcome \<times> bool) option" where
  "receipt_refusal sha now ex r =
    (if \<not> rea_verify_integrity sha r then Some (RO_INTEGRITY_TAMPERED, False)
     else case stamp_expired (ra_expires_at r) now of
       Inl err \<Rightarrow> Some (RO_CORRUPT, False)
     | Inr True \<Rightarrow> Some (RO_EXPIRED, True)
     | Inr False \<Rightarrow>
        if ra_one_time r \<and> ra_consumed r then Some (RO_ALREADY_CONSUMED, True)
        else if \<not> ra_one_time r \<and> ra_use_count r \<ge> ra_max_uses r then Some (RO_ALREADY_CONSUMED, True)
        else if mismatches (ex_action_class ex) (ra_action_class r) then Some (RO_ACTION_MISMATCH, True)
        else if mismatches (ex_provider ex) (ra_provider r) then Some (RO_PROVIDER_MISMATCH, True)
        else if mismatches (ex_target ex) (ra_target_identity r) then Some (RO_TARGET_MISMATCH, True)
        else if mismatches (ex_request_digest ex) (ra_request_digest r) then Some (RO_REQUEST_DIGEST_MISMATCH, True)
        else if ra_action_class r \<in> set FRESHNESS_REQUIRED_ACTIONS \<and> ex_current_evidence ex = None
        then Some (RO_MISSING_FRESHNESS, True)
        else if ra_action_class r \<in> set FRESHNESS_REQUIRED_ACTIONS \<and> ex_current_evidence ex \<noteq> Some (ra_prior_evidence_digest r)
        then Some (RO_STALE_EVIDENCE, True)
        else if check_sentinels (rea_dump r) then Some (RO_SENTINEL_EXCLUDED, False)
        else None)"

definition validate_remote_action_authorization ::
  "rea_hash \<Rightarrow> int \<Rightarrow> string \<Rightarrow> expectations \<Rightarrow> rea_store \<Rightarrow> RemoteActionResult result" where
  "validate_remote_action_authorization sha now i ex st =
    and_then (rea_load_receipt st i) (\<lambda>loaded.
      case loaded of
        None \<Rightarrow>
          (case dict_get st i of
             Some (RF_object d) \<Rightarrow> Inr (remote_result (if check_sentinels d then RO_SENTINEL_EXCLUDED else RO_NOT_FOUND) i None)
           | Some (RF_receipt r) \<Rightarrow> Inr (remote_result (if check_sentinels (rea_dump r) then RO_SENTINEL_EXCLUDED else RO_NOT_FOUND) i None)
           | _ \<Rightarrow> Inr (remote_result RO_NOT_FOUND i None))
      | Some r \<Rightarrow>
          Inr (case receipt_refusal sha now ex r of
             Some (out, shown) \<Rightarrow> remote_result out (ra_authorization_id r) (if shown then Some r else None)
           | None \<Rightarrow> remote_result RO_VALID (ra_authorization_id r) (Some r)))"

section \<open>Consumption\<close>

text \<open>The part under the lock, after a validation that read the store without it.\<close>

definition consume_locked :: "rea_hash \<Rightarrow> bool \<Rightarrow> string \<Rightarrow> rea_store \<Rightarrow> rea_store \<times> RemoteActionResult result" where
  "consume_locked sha write_ok i st =
    (case rea_load_receipt st i of
       Inl err \<Rightarrow> (st, Inl err)
     | Inr None \<Rightarrow> (st, Inr (remote_result RO_CORRUPT i None))
     | Inr (Some r) \<Rightarrow>
        if ra_one_time r \<and> ra_consumed r then (st, Inr (remote_result RO_ALREADY_CONSUMED i (Some r)))
        else
          let r1 = rea_seal sha (if ra_one_time r then r\<lparr>ra_consumed := True\<rparr> else r\<lparr>ra_use_count := ra_use_count r + 1\<rparr>) in
          case rea_persist_receipt write_ok r1 st of
            (st', False) \<Rightarrow> (st', Inr (remote_result RO_CORRUPT i None))
          | (st', True) \<Rightarrow>
             (case rea_load_receipt st' i of
                Inl err \<Rightarrow> (st', Inl err)
              | Inr None \<Rightarrow> (st', Inr (remote_result RO_CORRUPT i None))
              | Inr (Some final) \<Rightarrow>
                 if \<not> rea_verify_integrity sha final then (st', Inr (remote_result RO_CORRUPT i None))
                 else if ra_one_time r1 \<and> \<not> ra_consumed final then (st', Inr (remote_result RO_CORRUPT i None))
                 else (st', Inr (remote_result RO_CONSUMED i (Some final)))))"

definition consume_remote_action_authorization ::
  "rea_hash \<Rightarrow> bool \<Rightarrow> bool \<Rightarrow> int \<Rightarrow> string \<Rightarrow> expectations \<Rightarrow> rea_store \<Rightarrow> rea_store \<times> RemoteActionResult result" where
  "consume_remote_action_authorization sha lock_ok write_ok now i ex st =
    (case validate_remote_action_authorization sha now i ex st of
       Inl err \<Rightarrow> (st, Inl err)
     | Inr valid \<Rightarrow>
        (case (is_authorized valid, rx_receipt valid) of
           (True, Some r) \<Rightarrow>
             if \<not> lock_ok then (st, Inr (remote_result RO_ALREADY_CONSUMED (ra_authorization_id r) None))
             else consume_locked sha write_ok (ra_authorization_id r) st
         | _ \<Rightarrow> (st, Inr valid)))"

section \<open>Sequences of calls\<close>

text \<open>
  An issue, a consumption in one piece, and the part of a consumption under the lock on the
  strength of a validation made at any earlier time.
\<close>

datatype rea_call =
    RIssue bool int string issue_args
  | RConsume bool bool int string expectations
  | RConsumeLate bool string

fun rea_exec :: "rea_hash \<Rightarrow> rea_call \<Rightarrow> rea_store \<Rightarrow> rea_store \<times> RemoteActionResult result" where
  "rea_exec sha (RIssue w now i a) st = issue_remote_action_authorization sha w now i a st"
| "rea_exec sha (RConsume l w now i ex) st = consume_remote_action_authorization sha l w now i ex st"
| "rea_exec sha (RConsumeLate w i) st = consume_locked sha w i st"

abbreviation rea_trace :: "rea_hash \<Rightarrow> rea_call list \<Rightarrow> rea_store \<Rightarrow> RemoteActionResult result list" where
  "rea_trace sha \<equiv> call_trace (rea_exec sha)"

definition consumed_result :: "string \<Rightarrow> RemoteActionResult result \<Rightarrow> bool" where
  "consumed_result i out = (case out of Inl err \<Rightarrow> False | Inr res \<Rightarrow> rx_outcome res = RO_CONSUMED \<and> rx_authorization_id res = i)"

definition issues_id :: "string \<Rightarrow> rea_call \<Rightarrow> bool" where
  "issues_id i c = (case c of RIssue w now j a \<Rightarrow> j = i | _ \<Rightarrow> False)"

text \<open>Every receipt lies in the file of its own identifier.\<close>

definition own_ids :: "rea_store \<Rightarrow> bool" where
  "own_ids st \<longleftrightarrow> (\<forall>k r. dict_get st k = Some (RF_receipt r) \<longrightarrow> ra_authorization_id r = k)"

text \<open>The uses a receipt has left.\<close>

definition uses_left :: "RemoteActionAuthorizationReceipt \<Rightarrow> nat" where
  "uses_left r = (if ra_one_time r then if ra_consumed r then 0 else 1 else nat (ra_max_uses r - ra_use_count r))"

lemma rea_seal_simps [simp]:
  "ra_authorization_id (rea_seal sha r) = ra_authorization_id r" "ra_one_time (rea_seal sha r) = ra_one_time r"
  "ra_consumed (rea_seal sha r) = ra_consumed r" "ra_use_count (rea_seal sha r) = ra_use_count r"
  "ra_max_uses (rea_seal sha r) = ra_max_uses r" "rea_verify_integrity sha (rea_seal sha r)"
  "ra_expires_at (rea_seal sha r) = ra_expires_at r" "ra_action_class (rea_seal sha r) = ra_action_class r"
  "ra_provider (rea_seal sha r) = ra_provider r" "ra_target_identity (rea_seal sha r) = ra_target_identity r"
  "ra_request_digest (rea_seal sha r) = ra_request_digest r" "ra_prior_evidence_digest (rea_seal sha r) = ra_prior_evidence_digest r"
  by (simp_all add: rea_seal_def rea_verify_integrity_def rea_recompute_integrity_def)

lemma load_receipt_file: "rea_load_receipt st i = Inr (Some r) \<Longrightarrow> dict_get st i = Some (RF_receipt r)"
  by (auto simp: rea_load_receipt_def split: option.splits rea_file.splits if_splits)

text \<open>What the locked part does to the store: nothing, or one use of the receipt in the file.\<close>

lemma consume_locked_cases:
  assumes "consume_locked sha w k st = (st', out)"
  obtains (kept) "st' = st" and "\<not> consumed_result i out"
  | (used) r r1 where "dict_get st k = Some (RF_receipt r)" and "\<not> (ra_one_time r \<and> ra_consumed r)"
      and "r1 = rea_seal sha (if ra_one_time r then r\<lparr>ra_consumed := True\<rparr> else r\<lparr>ra_use_count := ra_use_count r + 1\<rparr>)"
      and "st' = dict_set (ra_authorization_id r) (RF_receipt r1) st" and "consumed_result i out \<Longrightarrow> i = k"
proof (cases "rea_load_receipt st k")
  case (Inl err)
  with assms show ?thesis by (intro kept) (auto simp: consume_locked_def consumed_result_def)
next
  case (Inr loaded)
  show ?thesis
  proof (cases loaded)
    case None
    with Inr assms show ?thesis by (intro kept) (auto simp: consume_locked_def consumed_result_def remote_result_def)
  next
    case (Some r)
    let ?r1 = "rea_seal sha (if ra_one_time r then r\<lparr>ra_consumed := True\<rparr> else r\<lparr>ra_use_count := ra_use_count r + 1\<rparr>)"
    note stored = load_receipt_file [OF Inr [unfolded Some]]
    show ?thesis
    proof (cases "ra_one_time r \<and> ra_consumed r \<or> \<not> w")
      case True
      with Inr Some assms show ?thesis
        by (intro kept) (auto simp: consume_locked_def consumed_result_def remote_result_def rea_persist_receipt_def Let_def split: if_splits)
    next
      case False
      have id: "ra_authorization_id ?r1 = ra_authorization_id r" by simp
      from False Inr Some assms have "st' = dict_set (ra_authorization_id r) (RF_receipt ?r1) st" and "consumed_result i out \<Longrightarrow> i = k"
        by (auto simp: consume_locked_def consumed_result_def remote_result_def rea_persist_receipt_def Let_def
            split: if_splits sum.splits option.splits)
      with stored False show ?thesis by (intro used [of r ?r1]) auto
    qed
  qed
qed

lemma consume_cases:
  assumes "own_ids st" and "consume_remote_action_authorization sha l w now k ex st = (st', out)"
  obtains (none) "st' = st" and "\<not> consumed_result i out"
  | (locked) r where "dict_get st k = Some (RF_receipt r)" and "\<not> (\<not> ra_one_time r \<and> ra_use_count r \<ge> ra_max_uses r)"
      and "consume_locked sha w k st = (st', out)"
proof (cases "validate_remote_action_authorization sha now k ex st")
  case (Inl err)
  with assms(2) have "st' = st \<and> out = Inl err" by (simp add: consume_remote_action_authorization_def)
  then show ?thesis by (intro none) (simp_all add: consumed_result_def)
next
  case (Inr valid)
  then obtain loaded where loaded: "rea_load_receipt st k = Inr loaded"
    by (cases "rea_load_receipt st k") (auto simp: validate_remote_action_authorization_def)
  show ?thesis
  proof (cases "\<exists>r. loaded = Some r \<and> receipt_refusal sha now ex r = None")
    case True
    then obtain r where r: "loaded = Some r" "receipt_refusal sha now ex r = None" by blast
    have valid: "valid = remote_result RO_VALID (ra_authorization_id r) (Some r)"
      using Inr loaded r by (simp add: validate_remote_action_authorization_def)
    have stored: "dict_get st k = Some (RF_receipt r)" using loaded r(1) load_receipt_file by blast
    then have "ra_authorization_id r = k" using assms(1) by (simp add: own_ids_def)
    with Inr valid assms(2) have *: "if \<not> l then st' = st \<and> out = Inr (remote_result RO_ALREADY_CONSUMED k None)
        else consume_locked sha w k st = (st', out)"
      by (auto simp: consume_remote_action_authorization_def is_authorized_def remote_result_def split: if_splits)
    have "\<not> (\<not> ra_one_time r \<and> ra_use_count r \<ge> ra_max_uses r)"
      using r(2) by (auto simp: receipt_refusal_def split: if_splits sum.splits bool.splits)
    with * stored show ?thesis
      by (cases l) (auto intro: locked none simp: consumed_result_def remote_result_def)
  next
    case False
    have "rx_outcome valid \<notin> {RO_ISSUED, RO_VALID, RO_CONSUMED}"
    proof (cases loaded)
      case None
      with Inr loaded show ?thesis
        by (auto simp: validate_remote_action_authorization_def remote_result_def split: option.splits rea_file.splits if_splits)
    next
      case (Some r)
      with False obtain o' s where ref: "receipt_refusal sha now ex r = Some (o', s)" by fastforce
      then have "o' \<notin> {RO_ISSUED, RO_VALID, RO_CONSUMED}"
        by (auto simp: receipt_refusal_def split: if_splits sum.splits bool.splits)
      with Inr loaded Some ref show ?thesis by (auto simp: validate_remote_action_authorization_def remote_result_def)
    qed
    then have "\<not> is_authorized valid" "rx_outcome valid \<noteq> RO_CONSUMED" by (auto simp: is_authorized_def)
    moreover from this Inr assms(2) have "st' = st \<and> out = Inr valid" by (simp add: consume_remote_action_authorization_def)
    ultimately show ?thesis by (intro none) (simp_all add: consumed_result_def)
  qed
qed

lemma issue_cases:
  assumes "issue_remote_action_authorization sha w now j a st = (st', out)"
  shows "\<not> consumed_result i out \<and> (st' = st \<or> (\<exists>r. ra_authorization_id r = j \<and> st' = dict_set j (RF_receipt r) st))"
proof (cases "add_seconds (AwareDT now) (60 * ia_ttl_minutes a)")
  case (Inl err)
  with assms show ?thesis
    by (auto simp: issue_remote_action_authorization_def consumed_result_def remote_result_def split: if_splits)
next
  case (Inr expires)
  let ?r = "rea_seal sha (new_receipt now j a (isoformat expires))"
  have id: "ra_authorization_id ?r = j" by (simp add: new_receipt_def)
  with Inr assms have "\<not> consumed_result i out \<and> (st' = st \<or> st' = dict_set j (RF_receipt ?r) st)"
    by (auto simp: issue_remote_action_authorization_def consumed_result_def remote_result_def rea_persist_receipt_def Let_def
        simp del: add_seconds.simps split: if_splits)
  with id show ?thesis by blast
qed

text \<open>One call: the receipt stays of its kind, and its uses pay for a consumption.\<close>

lemma exec_uses:
  assumes "own_ids st" and "dict_get st i = Some (RF_receipt r)" and "\<not> issues_id i c"
    and "ra_one_time r \<or> (\<forall>w j. c \<noteq> RConsumeLate w j)" and "rea_exec sha c st = (st', out)"
  shows "own_ids st' \<and> (\<exists>r'. dict_get st' i = Some (RF_receipt r') \<and> ra_one_time r' = ra_one_time r \<and>
    (if consumed_result i out then 1 else 0) + uses_left r' \<le> uses_left r)"
proof -
  have own: "own_ids (dict_set k (RF_receipt x) st)" if "ra_authorization_id x = k" for k x
    using assms(1) that by (auto simp: own_ids_def dict_get_set)
  have locked: ?thesis
    if lk: "consume_locked sha w k st = (st', out)" and ready: "k = i \<Longrightarrow> ra_one_time r \<or> ra_use_count r < ra_max_uses r" for w k
  proof (rule consume_locked_cases [OF lk, of i])
    assume "st' = st" "\<not> consumed_result i out"
    with assms(1,2) show ?thesis by auto
  next
    fix x x1
    assume x: "dict_get st k = Some (RF_receipt x)" "\<not> (ra_one_time x \<and> ra_consumed x)"
      and x1: "x1 = rea_seal sha (if ra_one_time x then x\<lparr>ra_consumed := True\<rparr> else x\<lparr>ra_use_count := ra_use_count x + 1\<rparr>)"
      and st': "st' = dict_set (ra_authorization_id x) (RF_receipt x1) st" and who: "consumed_result i out \<Longrightarrow> i = k"
    have id: "ra_authorization_id x = k" using assms(1) x(1) by (simp add: own_ids_def)
    then have "own_ids st'" using own [of x1 k] by (simp add: st' x1)
    moreover have "\<exists>r'. dict_get st' i = Some (RF_receipt r') \<and> ra_one_time r' = ra_one_time r \<and>
        (if consumed_result i out then 1 else 0) + uses_left r' \<le> uses_left r"
    proof (cases "k = i")
      case True
      then have "x = r" using x(1) assms(2) by simp
      with True x(2) ready id show ?thesis by (auto simp: st' x1 dict_get_set uses_left_def)
    next
      case False
      with who assms(2) id show ?thesis by (auto simp: st' dict_get_set)
    qed
    ultimately show ?thesis by blast
  qed
  show ?thesis
  proof (cases c)
    case (RIssue w now j a)
    then have j: "j \<noteq> i" using assms(3) by (simp add: issues_id_def)
    from issue_cases [of sha w now j a st st' out i] assms(5) RIssue
    show ?thesis using assms(1,2) own j by (auto simp: dict_get_set)
  next
    case (RConsume l w now k ex)
    then have con: "consume_remote_action_authorization sha l w now k ex st = (st', out)" using assms(5) by simp
    show ?thesis
    proof (cases rule: consume_cases [OF assms(1) con, of i])
      case 1
      with assms(1,2) show ?thesis by auto
    next
      case (2 x)
      then show ?thesis using assms(2) by (intro locked [of w k]) auto
    qed
  next
    case (RConsumeLate w k)
    with assms(4,5) show ?thesis by (intro locked [of w k]) auto
  qed
qed

text \<open>The credit of a receipt is its uses; \<open>kind\<close> is whether it is a one-time receipt.\<close>

definition credited :: "string \<Rightarrow> bool \<Rightarrow> rea_store \<Rightarrow> bool" where
  "credited i kind st \<longleftrightarrow> own_ids st \<and> (\<exists>r. dict_get st i = Some (RF_receipt r) \<and> ra_one_time r = kind)"

definition credit_of :: "string \<Rightarrow> rea_store \<Rightarrow> nat" where
  "credit_of i st = (case dict_get st i of Some (RF_receipt r) \<Rightarrow> uses_left r | _ \<Rightarrow> 0)"

interpretation remote: metered_calls "rea_exec sha"
  "\<lambda>c. \<not> issues_id i c \<and> (kind \<or> (\<forall>w j. c \<noteq> RConsumeLate w j))" "credited i kind" "credit_of i" "consumed_result i" for sha i kind
proof (unfold_locales, elim conjE)
  fix s c s' out
  assume "credited i kind s" and c: "\<not> issues_id i c" "kind \<or> (\<forall>w j. c \<noteq> RConsumeLate w j)" "rea_exec sha c s = (s', out)"
  then obtain r where r: "own_ids s" "dict_get s i = Some (RF_receipt r)" "ra_one_time r = kind" by (auto simp: credited_def)
  with exec_uses [OF r(1,2) c(1) _ c(3)] c(2) obtain r' where "own_ids s'" "dict_get s' i = Some (RF_receipt r')"
    "ra_one_time r' = kind" "(if consumed_result i out then 1 else 0) + uses_left r' \<le> uses_left r" by auto
  with r show "credited i kind s' \<and> (if consumed_result i out then 1 else 0) + credit_of i s' \<le> credit_of i s"
    by (auto simp: credited_def credit_of_def)
qed

section \<open>Properties\<close>

text \<open>
  C16: a remote action authorization is used at most as often as it was issued for.  In any
  sequence of issues and consumptions, at any times and with any failures of lock and write, the
  consumptions of one receipt that succeed are at most the uses it has left: one for a
  one-time receipt, even when consumptions interleave between their validation and their lock;
  for a receipt of several uses only when each consumption runs in one piece.
\<close>

theorem consumptions_bounded:
  assumes "own_ids st" and "dict_get st i = Some (RF_receipt r)" and "\<forall>c \<in> set calls. \<not> issues_id i c"
    and "ra_one_time r \<or> (\<forall>w j. RConsumeLate w j \<notin> set calls)"
  shows "length (filter (consumed_result i) (rea_trace sha calls st)) \<le> uses_left r"
proof -
  have "credited i (ra_one_time r) st" and "credit_of i st = uses_left r" using assms(1,2) by (simp_all add: credited_def credit_of_def)
  then show ?thesis
    using remote.spent_within_credit [of i "ra_one_time r" st calls sha] assms(3,4) by force
qed

text \<open>
  What an issued authorization is good for.  After a successful issue, validation in the new
  store answers VALID exactly before the expiry, for expectations that are absent, empty or equal
  to what was asked for, with the current evidence digest where the action needs fresh
  evidence, and, for a receipt of several uses, when at least one use was granted.
\<close>

theorem issued_authorization_valid_iff:
  assumes "issue_remote_action_authorization sha w now i a st = (st', Inr res)" and "rx_outcome res = RO_ISSUED"
  shows "(\<exists>v. validate_remote_action_authorization sha t i ex st' = Inr v \<and> rx_outcome v = RO_VALID) \<longleftrightarrow>
    t < now + seconds (60 * ia_ttl_minutes a) \<and> (ia_one_time a \<or> 0 < ia_max_uses a) \<and>
    ex_action_class ex \<in> {None, Some '''', Some (ia_action_class a)} \<and> ex_provider ex \<in> {None, Some '''', Some (ia_provider a)} \<and>
    ex_target ex \<in> {None, Some '''', Some (ia_target_identity a)} \<and>
    ex_request_digest ex \<in> {None, Some '''', Some (ia_request_digest a)} \<and>
    (ia_action_class a \<in> set FRESHNESS_REQUIRED_ACTIONS \<longrightarrow> ex_current_evidence ex = Some (ia_prior_evidence_digest a))"
proof -
  define r where "r = rea_seal sha (new_receipt now i a (Aware (now + seconds (60 * ia_ttl_minutes a))))"
  have st': "st' = dict_set i (RF_receipt r) st" and clean: "\<not> check_sentinels (rea_dump r)"
    using assms
    by (auto simp: issue_remote_action_authorization_def remote_result_def rea_persist_receipt_def Let_def r_def new_receipt_def
        split: if_splits)
  have mm: "\<not> mismatches e x \<longleftrightarrow> e \<in> {None, Some '''', Some x}" for e x
    by (auto simp: mismatches_def split: option.splits)
  have f: "ra_expires_at r = Aware (now + seconds (60 * ia_ttl_minutes a))" "ra_consumed r = False" "ra_use_count r = 0"
    "ra_one_time r = ia_one_time a" "ra_max_uses r = ia_max_uses a" "ra_action_class r = ia_action_class a"
    "ra_provider r = ia_provider a" "ra_target_identity r = ia_target_identity a" "ra_request_digest r = ia_request_digest a"
    "ra_prior_evidence_digest r = ia_prior_evidence_digest a" "rea_verify_integrity sha r"
    by (simp_all add: r_def new_receipt_def)
  have "(\<exists>v. validate_remote_action_authorization sha t i ex st' = Inr v \<and> rx_outcome v = RO_VALID) \<longleftrightarrow> receipt_refusal sha t ex r = None"
  proof (cases "receipt_refusal sha t ex r")
    case None
    then show ?thesis
      using clean by (simp add: validate_remote_action_authorization_def rea_load_receipt_def st' dict_get_set remote_result_def)
  next
    case (Some p)
    then have "fst p \<noteq> RO_VALID" by (auto simp: receipt_refusal_def split: if_splits sum.splits bool.splits)
    with Some show ?thesis
      using clean
      by (auto simp: validate_remote_action_authorization_def rea_load_receipt_def st' dict_get_set remote_result_def split: prod.splits)
  qed
  also have "\<dots> \<longleftrightarrow> \<not> (now + seconds (60 * ia_ttl_minutes a) \<le> t) \<and> (ia_one_time a \<or> 0 < ia_max_uses a) \<and>
      \<not> mismatches (ex_action_class ex) (ia_action_class a) \<and> \<not> mismatches (ex_provider ex) (ia_provider a) \<and>
      \<not> mismatches (ex_target ex) (ia_target_identity a) \<and> \<not> mismatches (ex_request_digest ex) (ia_request_digest a) \<and>
      (ia_action_class a \<in> set FRESHNESS_REQUIRED_ACTIONS \<longrightarrow> ex_current_evidence ex = Some (ia_prior_evidence_digest a))"
    using clean by (cases "now + seconds (60 * ia_ttl_minutes a) \<le> t"; cases "ex_current_evidence ex") (auto simp: receipt_refusal_def f)
  finally show ?thesis unfolding mm not_le .
qed

lemma check_sentinels_dump:
  "check_sentinels (rea_dump r) \<longleftrightarrow> list_ex sentinel_value
    [JStr (ra_schema_version r), JStr (ra_authorization_id r), JTime (ra_created_at r), JStr (ra_action_class r),
     JStr (ra_provider r), JStr (ra_target_identity r), JStr (ra_requested_actor r), JStr (ra_producer_identity r),
     JStr (ra_request_digest r), JStr (ra_prior_evidence_digest r), JStr (ra_permission_scope_summary r),
     JStr (ra_mutation_risk r), JStr (ra_purpose r), JTime (ra_issued_at r), JTime (ra_expires_at r), JStr (ra_receipt_sha256 r)]"
proof -
  have "\<forall>kv \<in> set (rea_dump r). str_lower (fst kv) \<notin> set SENTINEL_FIELDS"
    by (simp add: rea_dump_def SENTINEL_FIELDS_def str_lower_def lower_char_def)
  then have "check_sentinels (rea_dump r) \<longleftrightarrow> list_ex (\<lambda>kv. sentinel_value (snd kv)) (rea_dump r)"
    by (simp add: check_sentinels_def list_ex_iff case_prod_beta)
  also have "\<dots> \<longleftrightarrow> list_ex sentinel_value (map snd (rea_dump r))" by (simp add: list_ex_iff)
  finally show ?thesis
    by (simp add: rea_dump_def) (simp add: sentinel_value_def sentinel_text_def SENTINEL_SIGNATURES_def str_lower_def startswith_def)
qed

text \<open>
  A receipt of several uses can be used more often.  The part of a consumption under the lock
  checks only the flag of one-time receipts again.  Where digests hold no sentinel, any number
  of consumptions that validated in time succeed on a receipt of several uses, whatever
  the number of uses it was issued for, its expiry and its digest.
\<close>

theorem multi_use_receipt_overrun:
  assumes "dict_get st i = Some (RF_receipt r)" and "ra_authorization_id r = i" and "\<not> ra_one_time r"
    and "\<not> check_sentinels (rea_dump r)" and digest: "\<And>x. \<not> sentinel_value (JStr (sha x))"
  shows "length (filter (consumed_result i) (rea_trace sha (replicate k (RConsumeLate True i)) st)) = k"
  using assms(1-4)
proof (induction k arbitrary: st r)
  case (Suc k)
  let ?r = "rea_seal sha (r\<lparr>ra_use_count := ra_use_count r + 1\<rparr>)"
  have clean: "\<not> check_sentinels (rea_dump ?r)"
    using Suc.prems(4) digest unfolding check_sentinels_dump by (simp add: rea_seal_def rea_recompute_integrity_def)
  then have step: "consume_locked sha True i st = (dict_set i (RF_receipt ?r) st, Inr (remote_result RO_CONSUMED i (Some ?r)))"
    using Suc.prems by (simp add: consume_locked_def rea_load_receipt_def rea_persist_receipt_def dict_get_set Let_def)
  have "length (filter (consumed_result i) (rea_trace sha (replicate k (RConsumeLate True i)) (dict_set i (RF_receipt ?r) st))) = k"
    using Suc.prems clean by (intro Suc.IH [of _ ?r]) (simp_all add: dict_get_set)
  moreover have "consumed_result i (Inr (remote_result RO_CONSUMED i (Some ?r)))"
    by (simp add: consumed_result_def remote_result_def)
  ultimately show ?case using step by simp
qed simp

definition demo_rea :: rea_hash where
  "demo_rea r = ''0''"

definition demo_issue :: issue_args where
  "demo_issue =
    \<lparr>ia_action_class = ''github_issue_create'', ia_provider = ''github'', ia_target_identity = ''o/r'', ia_requested_actor = '''',
     ia_producer_identity = '''', ia_request_digest = ''d'', ia_prior_evidence_digest = '''', ia_permission_scope_summary = '''',
     ia_purpose = '''', ia_ttl_minutes = 15, ia_one_time = True, ia_max_uses = 1\<rparr>"

definition demo_receipt :: "bool \<Rightarrow> RemoteActionAuthorizationReceipt" where
  "demo_receipt once = rea_seal demo_rea (new_receipt 0 ''a'' (demo_issue\<lparr>ia_one_time := once\<rparr>) (Aware (seconds 900)))"

lemma demo_receipt_clean: "\<not> check_sentinels (rea_dump (demo_receipt once))"
  unfolding check_sentinels_dump
  by (simp add: demo_receipt_def rea_seal_def rea_recompute_integrity_def demo_rea_def new_receipt_def demo_issue_def
      sentinel_value_def sentinel_text_def SENTINEL_SIGNATURES_def str_lower_def lower_char_def action_risk_def startswith_def)

definition demo_expect :: expectations where
  "demo_expect = \<lparr>ex_action_class = Some ''github_issue_create'', ex_provider = None, ex_target = None,
     ex_request_digest = Some ''d'', ex_current_evidence = None\<rparr>"

lemma demo_issued:
  "issue_remote_action_authorization demo_rea True 0 ''a'' demo_issue [] =
    ([(''a'', RF_receipt (demo_receipt True))], Inr (remote_result RO_ISSUED ''a'' (Some (demo_receipt True))))"
proof -
  have "demo_issue\<lparr>ia_one_time := True\<rparr> = demo_issue" by (simp add: demo_issue_def)
  then have "rea_seal demo_rea (new_receipt 0 ''a'' demo_issue (Aware (seconds 900))) = demo_receipt True"
    by (simp add: demo_receipt_def)
  moreover have "ra_authorization_id (demo_receipt True) = ''a''" by (simp add: demo_receipt_def new_receipt_def)
  moreover have "ia_action_class demo_issue = ''github_issue_create''" "ia_request_digest demo_issue = ''d''" "ia_ttl_minutes demo_issue = 15"
    by (simp_all add: demo_issue_def)
  ultimately show ?thesis
    using demo_receipt_clean [of True]
    by (simp add: issue_remote_action_authorization_def SUPPORTED_ACTION_CLASSES_def FRESHNESS_REQUIRED_ACTIONS_def
        in_range_def datetime_min_def datetime_max_def seconds_def rea_persist_receipt_def dict_set_def Let_def)
qed

theorem issued_authorization_valid_iff_witness:
  "\<exists>v. validate_remote_action_authorization demo_rea 5 ''a'' demo_expect [(''a'', RF_receipt (demo_receipt True))] = Inr v \<and>
     rx_outcome v = RO_VALID"
  using issued_authorization_valid_iff [OF demo_issued, of 5 demo_expect]
  by (simp add: remote_result_def demo_issue_def demo_expect_def seconds_def FRESHNESS_REQUIRED_ACTIONS_def)

lemma demo_store: "own_ids [(''a'', RF_receipt (demo_receipt once))]"
  "dict_get [(''a'', RF_receipt (demo_receipt once))] ''a'' = Some (RF_receipt (demo_receipt once))"
  "uses_left (demo_receipt once) = 1"
  by (auto simp: own_ids_def dict_get_def demo_receipt_def new_receipt_def uses_left_def demo_issue_def)

theorem consumptions_bounded_witness:
  "length (filter (consumed_result ''a'') (rea_trace demo_rea [RConsumeLate True ''a'', RConsumeLate True ''a'']
     [(''a'', RF_receipt (demo_receipt True))])) \<le> 1"
proof -
  have one: "ra_one_time (demo_receipt True)" by (simp add: demo_receipt_def new_receipt_def)
  show ?thesis
    using consumptions_bounded [OF demo_store(1,2), of "[RConsumeLate True ''a'', RConsumeLate True ''a'']" True demo_rea] one
    by (simp add: demo_store(3) issues_id_def)
qed

theorem multi_use_receipt_overrun_witness:
  "length (filter (consumed_result ''a'') (rea_trace demo_rea (replicate 3 (RConsumeLate True ''a''))
     [(''a'', RF_receipt (demo_receipt False))])) = 3 \<and> uses_left (demo_receipt False) = 1"
proof -
  have r: "ra_authorization_id (demo_receipt False) = ''a''" "\<not> ra_one_time (demo_receipt False)"
    by (simp_all add: demo_receipt_def new_receipt_def)
  have digest: "\<not> sentinel_value (JStr (demo_rea x))" for x
    by (simp add: sentinel_value_def sentinel_text_def SENTINEL_SIGNATURES_def str_lower_def lower_char_def demo_rea_def startswith_def)
  show ?thesis
    using multi_use_receipt_overrun [OF demo_store(2) r demo_receipt_clean digest, where k = 3] demo_store(3) by simp
qed

end
