(* ===== verification/Policy_Engine.thy ===== *)
theory Policy_Engine
  imports Json_Values
begin

text \<open>
  The enterprise policy engine, \<^verbatim>\<open>rig_relay/enterprise/policy_engine.py\<close>: the context built from
  artifact files, the twelve built-in gates and their evaluation.  The file system is an argument:
  which files exist, and what \<^verbatim>\<open>_load_json\<close> gives for them (\<open>None\<close> when a file is missing or no
  JSON).  The texts of a result are left out, except whether it carries a reason for blocking.
\<close>

section \<open>Data\<close>

record GateResult =
  gr_gate_id :: string
  gr_passed :: bool
  gr_blocked_reason :: bool

record PolicyContext =
  pc_readiness_artifacts :: "(string, json) dict"
  pc_metrics :: json
  pc_lifecycle_state :: json
  pc_permission_audit :: json

record PolicyEvaluation =
  pv_gates :: "GateResult list"
  pv_all_passed :: bool
  pv_passed_count :: nat
  pv_failed_count :: nat
  pv_blocked_count :: nat
  pv_operator_acknowledgements :: "json list"
  pv_next_action :: string

record policy_files =
  pf_present :: "string \<Rightarrow> bool"
  pf_load :: "string \<Rightarrow> json option"

type_synonym policy_gate = "policy_files \<Rightarrow> PolicyContext \<Rightarrow> GateResult result"

definition gate_result :: "string \<Rightarrow> bool \<Rightarrow> GateResult" where
  "gate_result i passed = \<lparr>gr_gate_id = i, gr_passed = passed, gr_blocked_reason = (\<not> passed)\<rparr>"

text \<open>\<^verbatim>\<open>v.get(k, default)\<close> on a value that may be no dictionary.\<close>

definition value_get :: "json \<Rightarrow> string \<Rightarrow> json \<Rightarrow> json result" where
  "value_get v k dflt = (case v of JObj d \<Rightarrow> Inr (jget_or d k dflt) | _ \<Rightarrow> Inl AttributeError)"

definition list_or_empty :: "json \<Rightarrow> json list" where
  "list_or_empty v = (case v of JList vs \<Rightarrow> vs | _ \<Rightarrow> [])"

definition dict_or_empty :: "json \<Rightarrow> jdict" where
  "dict_or_empty v = (case v of JObj d \<Rightarrow> d | _ \<Rightarrow> [])"

text \<open>Lists and dictionaries cannot be hashed, so a test of membership in a set raises.\<close>

definition hashable :: "json \<Rightarrow> bool" where
  "hashable v = (case v of JList vs \<Rightarrow> False | JObj d \<Rightarrow> False | _ \<Rightarrow> True)"

section \<open>Gates\<close>

definition SECURITY_STAGES :: nat where
  "SECURITY_STAGES = 13"

definition REQUIRED_ACKNOWLEDGEMENTS :: nat where
  "REQUIRED_ACKNOWLEDGEMENTS = 8"

definition evaluate_gate_artifact_inventory_present :: policy_gate where
  "evaluate_gate_artifact_inventory_present fs ctx =
    Inr (gate_result ''artifact_inventory_present'' (filter (\<lambda>(k, v). \<not> json_truthy v) (pc_readiness_artifacts ctx) = []))"

definition evaluate_gate_replay_all_stages_complete :: policy_gate where
  "evaluate_gate_replay_all_stages_complete fs ctx =
    and_then (value_get (pc_lifecycle_state ctx) ''lifecycle_stages'' (JList [])) (\<lambda>stages.
      Inr (gate_result ''replay_all_stages_complete'' (length (list_or_empty stages) \<ge> SECURITY_STAGES)))"

definition gate_proved :: "json \<Rightarrow> bool" where
  "gate_proved g = (case g of JObj d \<Rightarrow> json_truthy (jget_or d ''proved'' (JBool False)) | _ \<Rightarrow> False)"

definition evaluate_gate_permission_boundary_proven :: policy_gate where
  "evaluate_gate_permission_boundary_proven fs ctx =
    and_then (value_get (pc_permission_audit ctx) ''gates'' (JList [])) (\<lambda>gates.
      let gs = list_or_empty gates in
      Inr (gate_result ''permission_boundary_proven''
        (gs \<noteq> [] \<and> length (filter gate_proved gs) = length gs)))"

definition CAUSAL_REPORT :: string where
  "CAUSAL_REPORT = ''docs/json/governance/github_live_mutation_causal_report_v1.v1.json''"

definition RC_GATE :: string where
  "RC_GATE = ''docs/json/release_gate/rc_readiness_gate.v1.json''"

definition CHECKLIST :: string where
  "CHECKLIST = ''docs/json/governance/github_live_mutation_operator_checklist_v1.v1.json''"

definition CHECKLIST_FALLBACK :: string where
  "CHECKLIST_FALLBACK = ''docs/json/governance/github_live_pr_rehearsal_operator_checklist_v1.v1.json''"

definition RUNBOOK :: string where
  "RUNBOOK = ''docs/json/governance/github_live_mutation_runbook_v1.v1.json''"

definition RUNBOOK_FALLBACK :: string where
  "RUNBOOK_FALLBACK = ''docs/json/governance/github_live_pr_rehearsal_v1.v1.json''"

definition PERMISSION_AUDIT :: string where
  "PERMISSION_AUDIT = ''docs/json/governance/github_live_mutation_phase3_permission_boundary_audit_v1.v1.json''"

definition SBOM :: string where
  "SBOM = ''.build/rig-relay/sbom.json''"

definition THREAT_MODEL :: string where
  "THREAT_MODEL = ''.build/rig-relay/threat_model.json''"

definition evaluate_gate_causal_report_present :: policy_gate where
  "evaluate_gate_causal_report_present fs ctx = Inr (gate_result ''causal_report_present'' (pf_present fs CAUSAL_REPORT))"

text \<open>The loaded value when it is true, \<^verbatim>\<open>data = _load_json(path)\<close> before \<^verbatim>\<open>if not data\<close>.\<close>

definition load_true :: "policy_files \<Rightarrow> string \<Rightarrow> json option" where
  "load_true fs path = (case pf_load fs path of Some v \<Rightarrow> if json_truthy v then Some v else None | None \<Rightarrow> None)"

definition evaluate_gate_rc_report_complete :: policy_gate where
  "evaluate_gate_rc_report_complete fs ctx =
    (case load_true fs RC_GATE of
       None \<Rightarrow> Inr (gate_result ''rc_report_complete'' False)
     | Some data \<Rightarrow>
        and_then (value_get data ''status'' (JStr ''unknown'')) (\<lambda>status.
        and_then (value_get data ''convergence_status'' status) (\<lambda>convergence.
          Inr (gate_result ''rc_report_complete'' (convergence = JStr ''convergence_complete'')))))"

definition evaluate_gate_checklist_present :: policy_gate where
  "evaluate_gate_checklist_present fs ctx =
    (case (case load_true fs CHECKLIST of Some v \<Rightarrow> Some v | None \<Rightarrow> load_true fs CHECKLIST_FALLBACK) of
       None \<Rightarrow> Inr (gate_result ''checklist_present'' False)
     | Some data \<Rightarrow>
        and_then (value_get data ''operator_acknowledgements'' (JList [])) (\<lambda>acks.
          Inr (gate_result ''checklist_present'' (length (list_or_empty acks) \<ge> REQUIRED_ACKNOWLEDGEMENTS))))"

definition evaluate_gate_runbook_present :: policy_gate where
  "evaluate_gate_runbook_present fs ctx =
    Inr (gate_result ''runbook_present'' (pf_present fs RUNBOOK \<or> pf_present fs RUNBOOK_FALLBACK))"

definition evaluate_gate_sbom_present :: policy_gate where
  "evaluate_gate_sbom_present fs ctx = Inr (gate_result ''sbom_present'' (pf_present fs SBOM))"

definition evaluate_gate_threat_model_present :: policy_gate where
  "evaluate_gate_threat_model_present fs ctx = Inr (gate_result ''threat_model_present'' (pf_present fs THREAT_MODEL))"

definition raw_exposed :: "json \<Rightarrow> bool" where
  "raw_exposed v =
    (case v of
       JObj d \<Rightarrow> jget d ''raw_payloads_exposed'' \<noteq> JBool False \<and> jget d ''redaction_status'' \<noteq> JStr ''content_light''
     | _ \<Rightarrow> False)"

definition evaluate_gate_no_raw_payloads_exposed :: policy_gate where
  "evaluate_gate_no_raw_payloads_exposed fs ctx =
    Inr (gate_result ''no_raw_payloads_exposed'' (filter (\<lambda>(k, v). raw_exposed v) (pc_readiness_artifacts ctx) = []))"

definition evaluate_gate_bridge_healthy :: policy_gate where
  "evaluate_gate_bridge_healthy fs ctx =
    and_then (value_get (pc_metrics ctx) ''bridge_backend_health'' (JStr ''unknown'')) (\<lambda>health.
      if hashable health
      then Inr (gate_result ''bridge_healthy'' (health \<notin> {JStr ''disconnected'', JStr ''stale''}))
      else Inl TypeError)"

definition evaluate_gate_mutation_not_in_progress :: policy_gate where
  "evaluate_gate_mutation_not_in_progress fs ctx =
    and_then (value_get (pc_lifecycle_state ctx) ''mutation_chain'' (JObj [])) (\<lambda>mutation.
      Inr (gate_result ''mutation_not_in_progress''
        (\<not> json_truthy (jget_or (dict_or_empty mutation) ''remote_mutation_detected'' (JBool False)))))"

definition BUILTIN_GATES :: "policy_gate list" where
  "BUILTIN_GATES =
    [evaluate_gate_artifact_inventory_present, evaluate_gate_replay_all_stages_complete,
     evaluate_gate_permission_boundary_proven, evaluate_gate_causal_report_present, evaluate_gate_rc_report_complete,
     evaluate_gate_checklist_present, evaluate_gate_runbook_present, evaluate_gate_sbom_present,
     evaluate_gate_threat_model_present, evaluate_gate_no_raw_payloads_exposed, evaluate_gate_bridge_healthy,
     evaluate_gate_mutation_not_in_progress]"

section \<open>Context\<close>

definition DEFAULT_ARTIFACT_PATHS :: "(string, string) dict" where
  "DEFAULT_ARTIFACT_PATHS =
    [(''checklist'', CHECKLIST), (''checklist_fallback'', CHECKLIST_FALLBACK),
     (''preflight'', ''docs/json/governance/github_live_mutation_preflight_v1.v1.json''),
     (''permission_audit'', PERMISSION_AUDIT), (''runbook'', RUNBOOK), (''runbook_fallback'', RUNBOOK_FALLBACK),
     (''rate_limit'', ''docs/json/governance/github_live_mutation_rate_limit_snapshot_v1.v1.json''),
     (''preflight_report'', ''docs/json/governance/github_live_mutation_preflight_report_v1.v1.json''), (''rc_gate'', RC_GATE)]"

text \<open>\<^verbatim>\<open>{**DEFAULT_ARTIFACT_PATHS}\<close> updated by the caller's paths.\<close>

definition merge_paths :: "(string, string) dict \<Rightarrow> (string, string) dict" where
  "merge_paths extra = fold (\<lambda>(k, p) d. dict_set k p d) extra DEFAULT_ARTIFACT_PATHS"

definition load_artifacts :: "policy_files \<Rightarrow> (string, string) dict \<Rightarrow> (string, json) dict" where
  "load_artifacts fs paths = List.map_filter (\<lambda>(name, path). map_option (Pair name) (pf_load fs path)) paths"

definition minimal_lifecycle_state :: json where
  "minimal_lifecycle_state =
    JObj [(''lifecycle_stages'', JList []), (''stages_present'', JInt 0), (''stages_complete'', JInt 0),
      (''mutation_chain'', JObj [(''remote_mutation_detected'', JBool False), (''stages_with_remote_mutation'', JInt 0)]),
      (''approval_chain'', JObj []), (''idempotency_chain'', JObj []), (''next_safe_action'', JStr ''unknown'')]"

definition default_metrics :: json where
  "default_metrics =
    JObj [(''bridge_backend_health'', JStr ''unknown''), (''projection_freshness'', JStr ''unknown''),
      (''reconnect_pressure'', JStr ''none''), (''event_queue_pressure'', JStr ''none''), (''consumer_error_count'', JInt 0),
      (''wal_uncommitted_count'', JInt 0)]"

text \<open>\<open>replay\<close> is what the GitHub integration builds, \<open>None\<close> when its import or a file access fails.\<close>

definition build_policy_context ::
  "policy_files \<Rightarrow> json option \<Rightarrow> (string, string) dict \<Rightarrow> json option \<Rightarrow> json option \<Rightarrow> json option \<Rightarrow> PolicyContext" where
  "build_policy_context fs replay extra lifecycle audit metrics =
    \<lparr>pc_readiness_artifacts = load_artifacts fs (merge_paths extra),
     pc_metrics = (case metrics of Some m \<Rightarrow> m | None \<Rightarrow> default_metrics),
     pc_lifecycle_state =
       (case lifecycle of Some l \<Rightarrow> l | None \<Rightarrow> (case replay of Some l \<Rightarrow> l | None \<Rightarrow> minimal_lifecycle_state)),
     pc_permission_audit =
       (case audit of Some a \<Rightarrow> a | None \<Rightarrow> (case load_true fs PERMISSION_AUDIT of Some v \<Rightarrow> v | None \<Rightarrow> JObj []))\<rparr>"

section \<open>Evaluation\<close>

fun run_gates :: "policy_files \<Rightarrow> PolicyContext \<Rightarrow> policy_gate list \<Rightarrow> GateResult list result" where
  "run_gates fs ctx [] = Inr []"
| "run_gates fs ctx (g # gs) = and_then (g fs ctx) (\<lambda>r. and_then (run_gates fs ctx gs) (\<lambda>rs. Inr (r # rs)))"

definition operator_acknowledgements :: "(string, json) dict \<Rightarrow> json list" where
  "operator_acknowledgements artifacts =
    (let first = jget artifacts ''checklist'';
         checklist = (if json_truthy first then first else jget artifacts ''checklist_fallback'')
     in case checklist of JObj d \<Rightarrow> list_or_empty (jget_or d ''operator_acknowledgements'' (JList [])) | _ \<Rightarrow> [])"

definition evaluate_all_gates :: "policy_files \<Rightarrow> PolicyContext \<Rightarrow> policy_gate list option \<Rightarrow> PolicyEvaluation result" where
  "evaluate_all_gates fs ctx gates =
    and_then (run_gates fs ctx (case gates of Some gs \<Rightarrow> gs | None \<Rightarrow> BUILTIN_GATES)) (\<lambda>results.
      let blocked = length (filter (\<lambda>r. \<not> gr_passed r \<and> gr_blocked_reason r) results);
          all_passed = (results \<noteq> [] \<and> list_all gr_passed results) in
      Inr \<lparr>pv_gates = results, pv_all_passed = all_passed, pv_passed_count = length (filter gr_passed results),
           pv_failed_count = length (filter (\<lambda>r. \<not> gr_passed r \<and> \<not> gr_blocked_reason r) results),
           pv_blocked_count = blocked,
           pv_operator_acknowledgements = operator_acknowledgements (pc_readiness_artifacts ctx),
           pv_next_action = (if all_passed then ''execute'' else if blocked > 0 then ''blocked'' else ''needs_human_review'')\<rparr>)"

text \<open>\<^verbatim>\<open>gates or list(BUILTIN_GATES)\<close>: an empty list of gates is replaced too.\<close>

definition PolicyEngine_evaluate :: "policy_gate list option \<Rightarrow> policy_files \<Rightarrow> PolicyContext \<Rightarrow> PolicyEvaluation result" where
  "PolicyEngine_evaluate gates fs ctx =
    evaluate_all_gates fs ctx (Some (case gates of Some (g # gs) \<Rightarrow> g # gs | _ \<Rightarrow> BUILTIN_GATES))"

section \<open>What the built-in gates decide\<close>










section \<open>Properties\<close>






text \<open>
  The inventory gate does not see missing artifacts.  For a context built from the files, the gate
  that requires all artifacts to be present passes exactly if no file that loads is empty;
  with no artifact on disk at all it passes.
\<close>

theorem inventory_gate_misses_absent_files:
  fixes fs replay extra lifecycle audit metrics
  defines "ctx \<equiv> build_policy_context fs replay extra lifecycle audit metrics"
  shows "(\<exists>r. evaluate_gate_artifact_inventory_present fs ctx = Inr r \<and>
      (gr_passed r \<longleftrightarrow> (\<forall>name path v. (name, path) \<in> set (merge_paths extra) \<longrightarrow> pf_load fs path = Some v \<longrightarrow> json_truthy v))) \<and>
    ((\<forall>path. pf_load fs path = None) \<longrightarrow>
      evaluate_gate_artifact_inventory_present fs ctx = Inr (gate_result ''artifact_inventory_present'' True))"
proof -
  have set: "set (load_artifacts fs paths) = {(name, v) | name path v. (name, path) \<in> set paths \<and> pf_load fs path = Some v}" for paths
    by (force simp: load_artifacts_def List.map_filter_def)
  have "filter (\<lambda>(k, v). \<not> json_truthy v) (pc_readiness_artifacts ctx) = [] \<longleftrightarrow>
      (\<forall>name path v. (name, path) \<in> set (merge_paths extra) \<longrightarrow> pf_load fs path = Some v \<longrightarrow> json_truthy v)"
    unfolding filter_empty_conv by (simp add: ctx_def build_policy_context_def set) blast
  then show ?thesis by (simp add: evaluate_gate_artifact_inventory_present_def gate_result_def)
qed

theorem inventory_gate_misses_absent_files_witness:
  "evaluate_gate_artifact_inventory_present \<lparr>pf_present = (\<lambda>p. False), pf_load = (\<lambda>p. None)\<rparr>
     (build_policy_context \<lparr>pf_present = (\<lambda>p. False), pf_load = (\<lambda>p. None)\<rparr> None [] None None None) =
   Inr (gate_result ''artifact_inventory_present'' True)"
  using inventory_gate_misses_absent_files [of "\<lparr>pf_present = (\<lambda>p. False), pf_load = (\<lambda>p. None)\<rparr>" None "[]" None None None] by simp

end
