(* ===== verification/Recovery_Intake.thy ===== *)
theory Recovery_Intake
  imports Json_Values
begin

text \<open>
  Recovery of malformed tool calls, \<^verbatim>\<open>rig_relay/recovery/\<close>: the alias policy
  (\<^verbatim>\<open>alias_policy.py\<close>), the tool-surface manifest (\<^verbatim>\<open>tool_surface_manifest.py\<close>), the transducer
  (\<^verbatim>\<open>transducer.py\<close>) on dictionaries and on inline calls, with the two regular expressions as the
  functions they compute, and the admission policy (\<^verbatim>\<open>admission_policy.py\<close>).  \<open>sha\<close> is SHA-256 over
  canonical JSON.  Reasons, identifiers and times of the results are left out.
\<close>

section \<open>Models\<close>

datatype RecoveryAdmissionTier =
    READ_ONLY_RECOVERABLE | VALIDATION_RECOVERABLE | MUTATION_PROPOSAL_ONLY | EXTERNAL_SIDE_EFFECT_REFUSE
  | RAW_SHELL_REFUSE | UNSUPPORTED_REFUSE

datatype RecoveryAdmissionDecision =
    AUTO_EXECUTE_READ_ONLY | AUTO_EXECUTE_VALIDATION | PROPOSAL_ONLY_MUTATION | REQUIRE_REMOTE_AUTHORIZATION
  | REFUSE_RAW_SHELL | REFUSE_AMBIGUOUS | REFUSE_UNSUPPORTED

datatype RecoveryRefusalCode =
    UNSUPPORTED_WRAPPER | MALFORMED_INLINE_SYNTAX | UNKNOWN_ALIAS | AMBIGUOUS_ALIAS | CANONICAL_TOOL_NOT_ADMITTED
  | FORBIDDEN_SHELL_SURFACE | UNSUPPORTED_PAYLOAD_KEY_ALIAS | PAYLOAD_VALIDATION_FAILED | MUTATION_CONTENT_MISSING
  | EXTERNAL_SIDE_EFFECT_NOT_RECOVERABLE | UNSUPPORTED_RECOVERY_FORM

datatype RecoveryNormalizationRule =
    UNWRAP_FUNCTION_OBJECT | MAP_TOOL_TO_NAME | MAP_ARGS_TO_ARGUMENTS | MAP_PARAMETERS_TO_ARGUMENTS
  | UNPACK_FUNCTION_DOTTED_KEYS | PARSE_INLINE_CALL_FORM | APPLY_EXPLICIT_ALIAS | VALIDATE_PAYLOAD_SCHEMA

record AdmittedToolEntry =
  te_canonical_name :: string
  te_aliases :: "string list"
  te_mutation_class :: string
  te_determinism_class :: string
  te_args_schema_digest :: string
  te_arg_field_names :: "string list"
  te_recovery_admission_tier :: RecoveryAdmissionTier

record CanonicalToolSurfaceManifest =
  ms_admitted_tools :: "AdmittedToolEntry list"
  ms_manifest_digest :: string

record RecoveryIntent =
  ri_canonical_tool_name :: string
  ri_normalized_args :: jdict
  ri_payload_digest :: string
  ri_call_id :: string
  ri_rules_applied :: "RecoveryNormalizationRule list"
  ri_manifest_digest :: string
  ri_mutation_class :: "string option"
  ri_determinism_class :: "string option"

record RecoveryRefusal =
  rf_refusal_code :: RecoveryRefusalCode
  rf_candidate_count :: nat
  rf_rules_attempted :: "RecoveryNormalizationRule list"

datatype transducer_result = Recovered RecoveryIntent | Refused RecoveryRefusal

section \<open>Aliases\<close>

definition ALIAS_MAP :: "(string, string) dict" where
  "ALIAS_MAP =
    [(''git-status'', ''git_status''), (''git-diff'', ''git_diff''), (''git-log'', ''git_log''), (''git-branch'', ''git_branch''),
     (''git-show'', ''git_show''), (''git-ls-files'', ''git_ls_files''), (''git-ls_files'', ''git_ls_files''),
     (''read-file'', ''read_file''), (''write-file'', ''write_file''), (''search-replace'', ''search_replace''),
     (''prepare-checkpoint'', ''prepare_checkpoint''), (''validation-suite'', ''validation_suite''),
     (''get-context'', ''get_context''), (''git-workspace-state'', ''git_workspace_state''), (''ast-grep'', ''ast_grep''),
     (''behavior-patch'', ''behavior_patch''), (''ask-user-question'', ''ask_user_question''),
     (''exit-plan-mode'', ''exit_plan_mode''), (''web-fetch'', ''web_fetch''), (''git_hub-tool'', ''git_hub_tool''),
     (''git-hub-tool'', ''git_hub_tool''), (''git-hub-truth-tool'', ''git_hub_truth_tool''),
     (''git_hub-truth-tool'', ''git_hub_truth_tool'')]"

definition PAYLOAD_KEY_ALIASES :: "(string, (string, string) dict) dict" where
  "PAYLOAD_KEY_ALIASES =
    [(''checkpoint'', [(''msg'', ''message'')]),
     (''search_replace'', [(''old_str'', ''old_string''), (''new_str'', ''new_string'')])]"

definition resolve_alias :: "string \<Rightarrow> string option" where
  "resolve_alias name = dict_get ALIAS_MAP (str_lower (str_strip name))"

definition get_payload_key_alias :: "string \<Rightarrow> string \<Rightarrow> string option" where
  "get_payload_key_alias tool key =
    (case dict_get PAYLOAD_KEY_ALIASES tool of None \<Rightarrow> None | Some d \<Rightarrow> dict_get d key)"

definition SHELL_METACHARS :: string where
  "SHELL_METACHARS = '';&|`$(){}[]<>!'' @ [CHR 0x5C, CHR 0x27, CHR 0x22]"

text \<open>\<open>None\<close> when the registry agrees with the admitted names.\<close>

definition validate_alias_registry :: "string set \<Rightarrow> RecoveryRefusalCode option" where
  "validate_alias_registry admitted =
    (case next_or_none (\<lambda>(alias, canonical). canonical \<notin> admitted \<or> list_ex (\<lambda>c. c \<in> set SHELL_METACHARS) alias) ALIAS_MAP of
       None \<Rightarrow> None
     | Some (alias, canonical) \<Rightarrow> Some (if canonical \<notin> admitted then CANONICAL_TOOL_NOT_ADMITTED else FORBIDDEN_SHELL_SURFACE))"

definition check_alias_shadows_canonical :: "string set \<Rightarrow> string option" where
  "check_alias_shadows_canonical admitted =
    map_option fst (next_or_none (\<lambda>(alias, canonical). alias \<in> admitted \<and> alias \<noteq> canonical) ALIAS_MAP)"

section \<open>The manifest\<close>

text \<open>What the code reads of a tool class.\<close>

record tool_class =
  tc_mutation_class :: string
  tc_determinism_class :: string
  tc_parameters :: jdict

definition gather_aliases :: "string \<Rightarrow> string list" where
  "gather_aliases name = map fst (filter (\<lambda>(a, c). c = name) ALIAS_MAP)"

definition classify_admission_tier :: "string \<Rightarrow> string \<Rightarrow> RecoveryAdmissionTier" where
  "classify_admission_tier mutation_class name =
    (let mc = str_lower mutation_class in
     if name = ''bash'' then RAW_SHELL_REFUSE
     else if name \<in> {''validate'', ''validation_suite''} then VALIDATION_RECOVERABLE
     else if mc = ''read_only'' then READ_ONLY_RECOVERABLE
     else if mc \<in> {''writes_workspace'', ''mutates_git_state''} then MUTATION_PROPOSAL_ONLY
     else if mc = ''external_side_effect'' then EXTERNAL_SIDE_EFFECT_REFUSE
     else UNSUPPORTED_REFUSE)"

text \<open>\<^verbatim>\<open>args_schema.get("properties", {}).keys()\<close> is read off the dictionary it needs.\<close>

definition schema_properties :: "jdict \<Rightarrow> jdict result" where
  "schema_properties schema =
    (case dict_get schema ''properties'' of
       None \<Rightarrow> Inr []
     | Some (JObj props) \<Rightarrow> Inr props
     | Some _ \<Rightarrow> Inl AttributeError)"

definition build_entry :: "(json \<Rightarrow> string) \<Rightarrow> string \<Rightarrow> tool_class \<Rightarrow> AdmittedToolEntry result" where
  "build_entry sha name t =
    and_then (schema_properties (tc_parameters t)) (\<lambda>props. Inr
      \<lparr>te_canonical_name = name, te_aliases = sort (remdups (gather_aliases name)), te_mutation_class = tc_mutation_class t,
       te_determinism_class = tc_determinism_class t, te_args_schema_digest = sha (canon (JObj (tc_parameters t))),
       te_arg_field_names = sort (map fst props), te_recovery_admission_tier = classify_admission_tier (tc_mutation_class t) name\<rparr>)"

fun tier_name :: "RecoveryAdmissionTier \<Rightarrow> string" where
  "tier_name READ_ONLY_RECOVERABLE = ''read_only_recoverable''"
| "tier_name VALIDATION_RECOVERABLE = ''validation_recoverable''"
| "tier_name MUTATION_PROPOSAL_ONLY = ''mutation_proposal_only''"
| "tier_name EXTERNAL_SIDE_EFFECT_REFUSE = ''external_side_effect_refuse''"
| "tier_name RAW_SHELL_REFUSE = ''raw_shell_refuse''"
| "tier_name UNSUPPORTED_REFUSE = ''unsupported_refuse''"

definition serialize_entries :: "AdmittedToolEntry list \<Rightarrow> json" where
  "serialize_entries es = canon (JList (map (\<lambda>e. JObj
    [(''canonical_name'', JStr (te_canonical_name e)), (''aliases'', JList (map JStr (sort (te_aliases e)))),
     (''mutation_class'', JStr (te_mutation_class e)), (''determinism_class'', JStr (te_determinism_class e)),
     (''args_schema_digest'', JStr (te_args_schema_digest e)), (''arg_field_names'', JList (map JStr (te_arg_field_names e))),
     (''recovery_admission_tier'', JStr (tier_name (te_recovery_admission_tier e)))]) es))"

fun build_entries :: "(json \<Rightarrow> string) \<Rightarrow> (string, tool_class) dict \<Rightarrow> AdmittedToolEntry list result" where
  "build_entries sha [] = Inr []"
| "build_entries sha ((name, t) # ts) =
    and_then (build_entry sha name t) (\<lambda>e. and_then (build_entries sha ts) (\<lambda>es. Inr (e # es)))"

definition build_tool_surface_manifest ::
  "(json \<Rightarrow> string) \<Rightarrow> (string, tool_class) dict \<Rightarrow> (RecoveryRefusalCode + CanonicalToolSurfaceManifest) result" where
  "build_tool_surface_manifest sha tools =
    (let admitted = fst ` set tools in
     case validate_alias_registry admitted of
       Some code \<Rightarrow> Inr (Inl code)
     | None \<Rightarrow>
        if check_alias_shadows_canonical admitted \<noteq> None then Inr (Inl AMBIGUOUS_ALIAS)
        else and_then (build_entries sha (sort_key fst tools)) (\<lambda>es.
          Inr (Inr \<lparr>ms_admitted_tools = es, ms_manifest_digest = sha (serialize_entries es)\<rparr>)))"

section \<open>The transducer\<close>

definition refuse :: "RecoveryRefusalCode \<Rightarrow> nat \<Rightarrow> RecoveryNormalizationRule list \<Rightarrow> transducer_result" where
  "refuse code n rules = Refused \<lparr>rf_refusal_code = code, rf_candidate_count = n, rf_rules_attempted = rules\<rparr>"

text \<open>\<^verbatim>\<open>key in d and isinstance(d[key], dict)\<close>.\<close>

definition get_object :: "jdict \<Rightarrow> string \<Rightarrow> jdict option" where
  "get_object d k = (case dict_get d k of Some (JObj v) \<Rightarrow> Some v | _ \<Rightarrow> None)"

text \<open>\<^verbatim>\<open>{**d, "arguments": d[key]}\<close> and \<^verbatim>\<open>del d[key]\<close>.\<close>

definition move_to_arguments ::
  "string \<Rightarrow> RecoveryNormalizationRule \<Rightarrow> jdict \<times> RecoveryNormalizationRule list \<Rightarrow> jdict \<times> RecoveryNormalizationRule list" where
  "move_to_arguments key rule = (\<lambda>(d, rules).
    case get_object d key of
      None \<Rightarrow> (d, rules)
    | Some v \<Rightarrow> (dict_pop key (dict_set ''arguments'' (JObj v) d), rules @ [rule]))"

definition unpack_key :: "string \<Rightarrow> jdict \<Rightarrow> jdict" where
  "unpack_key k d =
    (case dict_get d k of
       None \<Rightarrow> d
     | Some v \<Rightarrow>
        if k = ''function.name'' then dict_set ''name'' v (dict_pop k d)
        else if k \<in> {''function.arguments'', ''function.args''} then dict_set ''arguments'' v (dict_pop k d)
        else d)"

definition unpack_dotted_keys :: "jdict \<times> RecoveryNormalizationRule list \<Rightarrow> jdict \<times> RecoveryNormalizationRule list" where
  "unpack_dotted_keys = (\<lambda>(d, rules).
    let dotted = filter (\<lambda>k. CHR ''.'' \<in> set k) (map fst d) in
    if dotted = [] then (d, rules) else (fold unpack_key dotted d, rules @ [UNPACK_FUNCTION_DOTTED_KEYS]))"

definition unwrap_function :: "jdict \<Rightarrow> jdict \<times> RecoveryNormalizationRule list" where
  "unwrap_function d = (case get_object d ''function'' of None \<Rightarrow> (d, []) | Some v \<Rightarrow> (v, [UNWRAP_FUNCTION_OBJECT]))"

definition map_tool_to_name :: "jdict \<times> RecoveryNormalizationRule list \<Rightarrow> jdict \<times> RecoveryNormalizationRule list" where
  "map_tool_to_name = (\<lambda>(d, rules).
    case dict_get d ''tool'' of
      Some v \<Rightarrow>
        if is_text v \<and> dict_get d ''name'' = None then ((''name'', v) # dict_pop ''tool'' d, rules @ [MAP_TOOL_TO_NAME])
        else (d, rules)
    | None \<Rightarrow> (d, rules))"

definition unwrap_wrappers :: "jdict \<Rightarrow> jdict option \<times> RecoveryNormalizationRule list" where
  "unwrap_wrappers emission =
    (let (d, rules) = unpack_dotted_keys (move_to_arguments ''parameters'' MAP_PARAMETERS_TO_ARGUMENTS
           (move_to_arguments ''args'' MAP_ARGS_TO_ARGUMENTS (map_tool_to_name (unwrap_function emission))))
     in (if dict_get d ''name'' = None then None else Some d, rules))"

definition extract_arguments :: "jdict \<Rightarrow> jdict option" where
  "extract_arguments d =
    (case List.map_filter (get_object d) [''arguments'', ''args'', ''parameters'', ''kwargs'', ''input''] of
       v # _ \<Rightarrow> Some v
     | [] \<Rightarrow>
        if dict_get d ''arguments'' = None \<and> dict_get d ''args'' = None \<and> dict_pop ''name'' d \<noteq> []
        then Some (dict_pop ''name'' d) else None)"

definition resolve_canonical_name :: "string \<Rightarrow> RecoveryNormalizationRule list \<Rightarrow> string \<times> RecoveryNormalizationRule list" where
  "resolve_canonical_name raw rules =
    (let s = str_strip raw in
     if s = str_lower s \<and> CHR ''_'' \<in> set s then (s, rules)
     else case resolve_alias s of
       Some c \<Rightarrow> (c, rules @ [APPLY_EXPLICIT_ALIAS])
     | None \<Rightarrow> (s, rules))"

text \<open>
  Renaming a key reads \<^verbatim>\<open>RecoveryNormalizationRule.UNSUPPORTED_PAYLOAD_KEY_ALIAS\<close>, which that
  enumeration does not have.
\<close>

definition apply_payload_key_aliases :: "string \<Rightarrow> jdict \<Rightarrow> jdict result" where
  "apply_payload_key_aliases tool args =
    (if list_ex (\<lambda>(k, v). get_payload_key_alias tool k \<notin> {None, Some k}) args then Inl AttributeError else Inr args)"

definition validate_and_build ::
  "(json \<Rightarrow> string) \<Rightarrow> string \<Rightarrow> CanonicalToolSurfaceManifest \<Rightarrow> string \<Rightarrow> jdict \<Rightarrow> RecoveryNormalizationRule list \<Rightarrow> transducer_result" where
  "validate_and_build sha call_id m canonical args rules =
    (let rules' = rules @ [VALIDATE_PAYLOAD_SCHEMA] in
     case next_or_none (\<lambda>e. te_canonical_name e = canonical) (ms_admitted_tools m) of
       None \<Rightarrow> refuse CANONICAL_TOOL_NOT_ADMITTED 0 rules'
     | Some e \<Rightarrow> Recovered
         \<lparr>ri_canonical_tool_name = canonical, ri_normalized_args = args, ri_payload_digest = sha (canon (JObj args)),
          ri_call_id = call_id, ri_rules_applied = rules', ri_manifest_digest = ms_manifest_digest m,
          ri_mutation_class = Some (te_mutation_class e), ri_determinism_class = Some (te_determinism_class e)\<rparr>)"

text \<open>A tool name that is the text of a timestamp is no tool of any manifest.\<close>

definition transduce_dict ::
  "(json \<Rightarrow> string) \<Rightarrow> string \<Rightarrow> CanonicalToolSurfaceManifest \<Rightarrow> jdict \<Rightarrow> transducer_result result" where
  "transduce_dict sha call_id m emission =
    (case unwrap_wrappers emission of
       (None, rules) \<Rightarrow> Inr (refuse UNSUPPORTED_WRAPPER 0 rules)
     | (Some d, rules) \<Rightarrow>
        (case jget_or d ''name'' (JStr '''') of
           JTime ts \<Rightarrow> Inr (refuse CANONICAL_TOOL_NOT_ADMITTED 1 rules)
         | JStr raw \<Rightarrow>
            if raw = '''' then Inr (refuse UNSUPPORTED_WRAPPER 0 rules)
            else
              let (canonical, rules') = resolve_canonical_name raw rules in
              if canonical \<notin> te_canonical_name ` set (ms_admitted_tools m)
              then Inr (refuse CANONICAL_TOOL_NOT_ADMITTED 1 rules')
              else case extract_arguments d of
                None \<Rightarrow> Inr (refuse UNSUPPORTED_WRAPPER 0 rules')
              | Some args \<Rightarrow>
                  and_then (apply_payload_key_aliases canonical args) (\<lambda>args'.
                    Inr (validate_and_build sha call_id m canonical args' rules'))
         | _ \<Rightarrow> Inr (refuse UNSUPPORTED_WRAPPER 0 rules)))"

section \<open>Inline calls\<close>

text \<open>
  \<^verbatim>\<open>_INLINE_CALL_RE\<close>, \<^verbatim>\<open>^call:\s*(name)\s*\{\s*(args)\s*\}$\<close>.  A name ends where its characters
  end, so the match is the only one up to the opening brace; \<^verbatim>\<open>$\<close> also matches before a
  newline that ends the text, and the arguments are everything up to the last closing brace, in
  which every closing brace has an opening one after the closing brace before it.
\<close>

definition is_letter :: "char \<Rightarrow> bool" where
  "is_letter c \<longleftrightarrow> (CHR ''a'' \<le> c \<and> c \<le> CHR ''z'') \<or> (CHR ''A'' \<le> c \<and> c \<le> CHR ''Z'')"

definition is_digit_char :: "char \<Rightarrow> bool" where
  "is_digit_char c \<longleftrightarrow> CHR ''0'' \<le> c \<and> c \<le> CHR ''9''"

definition name_start :: "char \<Rightarrow> bool" where
  "name_start c \<longleftrightarrow> is_letter c \<or> c = CHR ''_''"

definition name_char :: "char \<Rightarrow> bool" where
  "name_char c \<longleftrightarrow> is_letter c \<or> is_digit_char c \<or> c = CHR ''_'' \<or> c = CHR ''-''"

fun braces_paired :: "bool \<Rightarrow> string \<Rightarrow> bool" where
  "braces_paired opened [] = True"
| "braces_paired opened (c # s) =
    (if c = CHR ''}'' then opened \<and> braces_paired False s else braces_paired (opened \<or> c = CHR ''{'') s)"

definition before_last_brace :: "string \<Rightarrow> string option" where
  "before_last_brace s =
    (case rev s of
       c # t \<Rightarrow>
         if c = CHR ''}'' then Some (rev t)
         else if c = CHR 0x0A \<and> t \<noteq> [] \<and> hd t = CHR ''}'' then Some (rev (tl t)) else None
     | [] \<Rightarrow> None)"

definition INLINE_CALL_RE :: "string \<Rightarrow> (string \<times> string) option" where
  "INLINE_CALL_RE s =
    (if \<not> startswith s ''call:'' then None
     else
       let r = dropWhile is_space (drop 5 s); name = takeWhile name_char r;
           body = dropWhile is_space (dropWhile name_char r) in
       if name = [] \<or> \<not> name_start (hd name) \<or> body = [] \<or> hd body \<noteq> CHR ''{'' then None
       else case before_last_brace (tl body) of
         None \<Rightarrow> None
       | Some args \<Rightarrow>
           if braces_paired False (dropWhile is_space args) then Some (name, dropWhile is_space args) else None)"

text \<open>
  \<^verbatim>\<open>_INLINE_ARG_SPLIT_RE\<close>, \<^verbatim>\<open>,(?![^{]*\})\<close>: a comma separates unless a closing brace follows it
  with no opening brace between them.
\<close>

fun INLINE_ARG_SPLIT_RE :: "string \<Rightarrow> string list" where
  "INLINE_ARG_SPLIT_RE [] = [[]]"
| "INLINE_ARG_SPLIT_RE (c # s) =
    (if c = CHR '','' \<and> CHR ''}'' \<notin> set (takeWhile (\<lambda>x. x \<noteq> CHR ''{'') s) then [] # INLINE_ARG_SPLIT_RE s
     else case INLINE_ARG_SPLIT_RE s of [] \<Rightarrow> [[c]] | p # ps \<Rightarrow> (c # p) # ps)"

text \<open>Digits, with single underscores between them; \<^verbatim>\<open>int\<close> takes 4300 of them at most.\<close>

fun digit_part :: "string \<Rightarrow> bool" where
  "digit_part [] = False"
| "digit_part [c] = is_digit_char c"
| "digit_part (c # d # s) =
    (is_digit_char c \<and> (if d = CHR ''_'' then digit_part s else digit_part (d # s)))"

definition unsigned :: "string \<Rightarrow> string" where
  "unsigned s = (if s \<noteq> [] \<and> hd s \<in> {CHR ''+'', CHR ''-''} then tl s else s)"

definition python_int :: "string \<Rightarrow> int option" where
  "python_int s =
    (let u = unsigned s; ds = filter is_digit_char u;
         n = fold (\<lambda>c n. 10 * n + int (of_char c - 48)) ds 0 in
     if digit_part u \<and> length ds \<le> 4300 then Some (if s \<noteq> [] \<and> hd s = CHR ''-'' then - n else n) else None)"

definition python_float :: "string \<Rightarrow> bool" where
  "python_float s =
    (let u = str_lower (unsigned s); mantissa = takeWhile (\<lambda>c. c \<noteq> CHR ''e'') u; rest = dropWhile (\<lambda>c. c \<noteq> CHR ''e'') u;
         before = takeWhile (\<lambda>c. c \<noteq> CHR ''.'') mantissa; dot = dropWhile (\<lambda>c. c \<noteq> CHR ''.'') mantissa in
     u \<in> {''inf'', ''infinity'', ''nan''} \<or>
     (rest = [] \<or> digit_part (unsigned (tl rest))) \<and>
     (if dot = [] then digit_part mantissa
      else (before = [] \<or> digit_part before) \<and> (tl dot = [] \<or> digit_part (tl dot)) \<and> (before \<noteq> [] \<or> tl dot \<noteq> [])))"

text \<open>Nothing here reads a time from an argument, so a text that is one stays a \<open>JStr\<close>.\<close>

definition parse_inline_value :: "string \<Rightarrow> json" where
  "parse_inline_value v =
    (if v = ''true'' then JBool True
     else if v = ''false'' then JBool False
     else if v = ''null'' then JNull
     else case python_int v of
       Some n \<Rightarrow> JInt n
     | None \<Rightarrow> if python_float v then JFloat v else JStr v)"

fun parse_inline_pairs :: "jdict \<Rightarrow> string list \<Rightarrow> jdict option" where
  "parse_inline_pairs result [] = Some result"
| "parse_inline_pairs result (p # ps) =
    (let pair = str_strip p; key = str_strip (takeWhile (\<lambda>c. c \<noteq> CHR '':'') pair);
         v = str_strip (tl (dropWhile (\<lambda>c. c \<noteq> CHR '':'') pair)) in
     if pair = [] then parse_inline_pairs result ps
     else if CHR '':'' \<notin> set pair \<or> dict_get result key \<noteq> None then None
     else parse_inline_pairs (dict_set key (parse_inline_value v) result) ps)"

definition parse_inline_args :: "string \<Rightarrow> jdict option" where
  "parse_inline_args args = (if args = [] then Some [] else parse_inline_pairs [] (INLINE_ARG_SPLIT_RE (str_strip args)))"

definition transduce_string ::
  "(json \<Rightarrow> string) \<Rightarrow> string \<Rightarrow> CanonicalToolSurfaceManifest \<Rightarrow> string \<Rightarrow> transducer_result" where
  "transduce_string sha call_id m emission =
    (if \<not> startswith emission ''call:'' then refuse MALFORMED_INLINE_SYNTAX 0 []
     else case INLINE_CALL_RE emission of
       None \<Rightarrow> refuse MALFORMED_INLINE_SYNTAX 0 [PARSE_INLINE_CALL_FORM]
     | Some (tool_name, args_str) \<Rightarrow>
        let (canonical, rules) = resolve_canonical_name (str_strip tool_name) [PARSE_INLINE_CALL_FORM] in
        if canonical \<notin> te_canonical_name ` set (ms_admitted_tools m) then refuse CANONICAL_TOOL_NOT_ADMITTED 1 rules
        else case parse_inline_args args_str of
          None \<Rightarrow> refuse MALFORMED_INLINE_SYNTAX 0 rules
        | Some args \<Rightarrow> validate_and_build sha call_id m canonical args rules)"

text \<open>An emission of any type; the text of a timestamp does not begin with \<^verbatim>\<open>call:\<close>.\<close>

definition transduce ::
  "(json \<Rightarrow> string) \<Rightarrow> string \<Rightarrow> CanonicalToolSurfaceManifest \<Rightarrow> json \<Rightarrow> transducer_result result" where
  "transduce sha call_id m emission =
    (case emission of
       JStr s \<Rightarrow> Inr (transduce_string sha call_id m s)
     | JTime ts \<Rightarrow> Inr (refuse MALFORMED_INLINE_SYNTAX 0 [])
     | JObj d \<Rightarrow> transduce_dict sha call_id m d
     | _ \<Rightarrow> Inr (refuse UNSUPPORTED_RECOVERY_FORM 0 []))"

lemma transduce_simps [simp]:
  "transduce sha call_id m (JObj d) = transduce_dict sha call_id m d"
  "transduce sha call_id m (JStr s) = Inr (transduce_string sha call_id m s)"
  by (simp_all add: transduce_def)

text \<open>The arguments the expression admits, \<^verbatim>\<open>[^}]*(?:\{[^}]*\}[^}]*)*\<close>, as a language.\<close>

inductive inline_args :: "string \<Rightarrow> bool" where
  plain: "CHR ''}'' \<notin> set s \<Longrightarrow> inline_args s"
| block: "inline_args s \<Longrightarrow> CHR ''}'' \<notin> set u \<Longrightarrow> CHR ''}'' \<notin> set w \<Longrightarrow>
    inline_args (s @ ''{'' @ u @ ''}'' @ w)"

lemma braces_paired_plain: "CHR ''}'' \<notin> set s \<Longrightarrow> braces_paired b (s @ t) = braces_paired (b \<or> CHR ''{'' \<in> set s) t"
proof (induction s arbitrary: b)
  case (Cons c s)
  then have "braces_paired b ((c # s) @ t) = braces_paired ((b \<or> c = CHR ''{'') \<or> CHR ''{'' \<in> set s) t" by auto
  moreover have "((b \<or> c = CHR ''{'') \<or> CHR ''{'' \<in> set s) = (b \<or> CHR ''{'' \<in> set (c # s))" by auto
  ultimately show ?case by (simp only:)
qed simp

lemma braces_paired_append: "braces_paired b s \<Longrightarrow> (\<And>c. braces_paired c t) \<Longrightarrow> braces_paired b (s @ t)"
  by (induction b s rule: braces_paired.induct) auto

lemma inline_args_paired: "inline_args s \<Longrightarrow> braces_paired False s"
proof (induction rule: inline_args.induct)
  case (plain s)
  then show ?case using braces_paired_plain [of s False "[]"] by simp
next
  case (block s u w)
  have "braces_paired c (''{'' @ u @ ''}'' @ w)" for c
    using braces_paired_plain [of u True "CHR ''}'' # w"] braces_paired_plain [of w False "[]"] block(2,3) by simp
  with block.IH show ?case by (rule braces_paired_append)
qed

lemma paired_inline_args:
  assumes "\<And>x. CHR ''}'' \<notin> set x \<Longrightarrow> inline_args (z @ x)" and "CHR ''}'' \<notin> set w"
    and "braces_paired (CHR ''{'' \<in> set w) s"
  shows "inline_args (z @ w @ s)"
  using assms
proof (induction s arbitrary: z w)
  case (Cons c s)
  show ?case
  proof (cases "c = CHR ''}''")
    case True
    with Cons.prems(3) obtain w1 w2 where w: "w = w1 @ CHR ''{'' # w2" by (auto simp: in_set_conv_decomp)
    have next_block: "inline_args ((z @ w @ ''}'') @ x)" if "CHR ''}'' \<notin> set x" for x
      using inline_args.block [of "z @ w1" w2 x] Cons.prems(1) [of w1] Cons.prems(2) that by (simp add: w)
    show ?thesis using Cons.IH [of "z @ w @ ''}''" "[]", OF next_block] Cons.prems(3) True by simp
  next
    case False
    with Cons.prems(3) have "braces_paired (CHR ''{'' \<in> set (w @ [c])) s" by (simp add: disj_commute eq_commute [of c])
    then show ?thesis using Cons.IH [of z "w @ [c]"] Cons.prems(1,2) False by simp
  qed
qed simp

lemma braces_paired_iff: "braces_paired False s \<longleftrightarrow> inline_args s"
  using inline_args_paired paired_inline_args [of "[]" "[]" s] by (auto intro: inline_args.plain)

text \<open>A text matches exactly when it has the form of the expression, whatever the spaces.\<close>

lemma before_last_brace_Some:
  "before_last_brace s = Some a \<longleftrightarrow> s = a @ ''}'' \<or> s = a @ [CHR ''}'', CHR 0x0A]"
proof (cases s rule: rev_cases)
  case (snoc t c)
  show ?thesis
    by (cases t rule: rev_cases) (auto simp: snoc before_last_brace_def)
qed (simp add: before_last_brace_def)

lemma char_classes:
  "is_space c \<Longrightarrow> \<not> name_char c" "name_start c \<Longrightarrow> \<not> is_space c" "\<not> is_space (CHR ''{'')" "\<not> name_char (CHR ''{'')"
  "\<not> is_space (CHR ''}'')"
proof -
  have spaces: "list_all (\<lambda>c. \<not> name_char c)
      [CHR 0x20, CHR 0x09, CHR 0x0A, CHR 0x0B, CHR 0x0C, CHR 0x0D, CHR 0x1C, CHR 0x1D, CHR 0x1E, CHR 0x1F]" by code_simp
  moreover have "is_space c \<longleftrightarrow> c \<in> set
      [CHR 0x20, CHR 0x09, CHR 0x0A, CHR 0x0B, CHR 0x0C, CHR 0x0D, CHR 0x1C, CHR 0x1D, CHR 0x1E, CHR 0x1F]" for c
    by (simp only: is_space_def list.set)
  ultimately show space: "is_space c \<Longrightarrow> \<not> name_char c" for c by (simp only: list_all_iff) blast
  show "name_start c \<Longrightarrow> \<not> is_space c" using space by (auto simp: name_start_def name_char_def)
  have "\<not> is_space (CHR ''{'') \<and> \<not> name_char (CHR ''{'') \<and> \<not> is_space (CHR ''}'')" by code_simp
  then show "\<not> is_space (CHR ''{'')" "\<not> name_char (CHR ''{'')" "\<not> is_space (CHR ''}'')" by simp_all
qed

lemma cut_run:
  assumes "\<forall>c \<in> set xs. P c" and "ys \<noteq> [] \<Longrightarrow> \<not> P (hd ys)"
  shows "takeWhile P (xs @ ys) = xs" and "dropWhile P (xs @ ys) = ys"
  using assms by (induction xs) (cases ys; simp)+

lemma paired_spaces: "\<forall>c \<in> set w. is_space c \<Longrightarrow> braces_paired b (w @ a) = braces_paired b a"
proof (induction w arbitrary: b)
  case (Cons c w)
  then have "c \<noteq> CHR ''}''" "c \<noteq> CHR ''{''" using char_classes(3,5) by auto
  then show ?case using Cons by simp
qed simp

definition inline_form :: "string \<Rightarrow> string \<Rightarrow> string \<Rightarrow> bool" where
  "inline_form s name args \<longleftrightarrow>
    (\<exists>w1 w2 w3 w4 e. s = ''call:'' @ w1 @ name @ w2 @ ''{'' @ w3 @ args @ w4 @ ''}'' @ e \<and>
       (\<forall>c \<in> set (w1 @ w2 @ w3 @ w4). is_space c) \<and> name \<noteq> [] \<and> name_start (hd name) \<and>
       (\<forall>c \<in> set name. name_char c) \<and> inline_args args \<and> e \<in> {[], [CHR 0x0A]})"

lemma guarded_Some:
  assumes "(if \<not> a then None else if b \<or> c \<or> d \<or> e then None else
    case x of None \<Rightarrow> None | Some v \<Rightarrow> if p (g v) then Some (n, g v) else None) = Some (m, r)"
  shows "a \<and> \<not> b \<and> \<not> c \<and> \<not> d \<and> \<not> e \<and> m = n \<and> (\<exists>v. x = Some v \<and> r = g v \<and> p r)"
  using assms by (auto split: if_splits option.splits)

lemma inline_call_matches:
  assumes "INLINE_CALL_RE s = Some (name, args)"
  shows "inline_form s name args"
proof -
  define r where "r = drop 5 s"
  define r1 where "r1 = dropWhile is_space r"
  define r2 where "r2 = dropWhile name_char r1"
  define body where "body = tl (dropWhile is_space r2)"
  have matched: "INLINE_CALL_RE s =
    (if \<not> startswith s ''call:'' then None
     else if takeWhile name_char r1 = [] \<or> \<not> name_start (hd (takeWhile name_char r1)) \<or> dropWhile is_space r2 = [] \<or>
       hd (dropWhile is_space r2) \<noteq> CHR ''{'' then None
     else case before_last_brace body of None \<Rightarrow> None
       | Some args \<Rightarrow> if braces_paired False (dropWhile is_space args)
           then Some (takeWhile name_char r1, dropWhile is_space args) else None)"
    by (simp only: INLINE_CALL_RE_def r_def r1_def r2_def body_def Let_def)
  with assms have s: "s = ''call:'' @ r" and name: "name = takeWhile name_char r1" "name \<noteq> []" "name_start (hd name)"
    and body: "dropWhile is_space r2 = CHR ''{'' # body"
    and close: "\<exists>a. before_last_brace body = Some a \<and> args = dropWhile is_space a \<and> braces_paired False args"
  proof -
    note found = guarded_Some [OF assms [unfolded matched]]
    show "s = ''call:'' @ r" using found by (auto simp: startswith_prefix prefix_def r_def)
    show name: "name = takeWhile name_char r1" using found by blast
    show "name \<noteq> []" "name_start (hd name)" using found unfolding name by blast+
    have "dropWhile is_space r2 \<noteq> []" "hd (dropWhile is_space r2) = CHR ''{''" using found by blast+
    then show "dropWhile is_space r2 = CHR ''{'' # body" unfolding body_def by (metis list.collapse)
    show "\<exists>a. before_last_brace body = Some a \<and> args = dropWhile is_space a \<and> braces_paired False args"
      using found by blast
  qed
  from close obtain a e where a: "body = a @ ''}'' @ e" "e \<in> {[], [CHR 0x0A]}" "args = dropWhile is_space a" "inline_args args"
    by (auto simp: before_last_brace_Some braces_paired_iff)
  have "s = ''call:'' @ takeWhile is_space r @ name @ takeWhile is_space r2 @ ''{'' @ takeWhile is_space a @ args @ [] @ ''}'' @ e"
  proof -
    have "r = takeWhile is_space r @ r1" "r1 = name @ r2" "a = takeWhile is_space a @ args"
      unfolding r1_def r2_def name(1) a(3) by (simp_all only: takeWhile_dropWhile_id)
    moreover have "r2 = takeWhile is_space r2 @ ''{'' @ body" using takeWhile_dropWhile_id [of is_space r2] body by simp
    ultimately have "s = ''call:'' @ takeWhile is_space r @ name @ takeWhile is_space r2 @ ''{'' @ (takeWhile is_space a @ args) @ ''}'' @ e"
      unfolding s a(1) by (metis append.assoc)
    then show ?thesis by (simp only: append_assoc append_Nil)
  qed
  moreover have "\<forall>c \<in> set (takeWhile is_space r @ takeWhile is_space r2 @ takeWhile is_space a @ []). is_space c"
    by (auto dest: set_takeWhileD)
  moreover have "\<forall>c \<in> set name. name_char c" using name(1) by (auto dest: set_takeWhileD)
  ultimately show ?thesis using name(2,3) a(2,4) unfolding inline_form_def by blast
qed

lemma inline_call_complete:
  assumes "inline_form s name args"
  shows "INLINE_CALL_RE s \<noteq> None"
proof -
  from assms obtain w1 w2 w3 w4 e where s: "s = ''call:'' @ w1 @ name @ w2 @ ''{'' @ w3 @ args @ w4 @ ''}'' @ e"
    and w: "\<forall>c \<in> set w1. is_space c" "\<forall>c \<in> set w2. is_space c" "\<forall>c \<in> set w3. is_space c" "\<forall>c \<in> set w4. is_space c"
    and name: "name \<noteq> []" "name_start (hd name)" "\<forall>c \<in> set name. name_char c"
    and args: "inline_args args" and e: "e \<in> {[], [CHR 0x0A]}"
    unfolding inline_form_def by auto
  let ?a = "w3 @ args @ w4"
  have 1: "dropWhile is_space (w1 @ name @ w2 @ ''{'' @ ?a @ ''}'' @ e) = name @ w2 @ ''{'' @ ?a @ ''}'' @ e"
    using cut_run(2) [OF w(1)] name(1,2) char_classes(2) by (metis hd_append2)
  have hd2: "\<not> name_char (hd (w2 @ ''{'' @ ?a @ ''}'' @ e))"
  proof (cases w2)
    case Nil
    then show ?thesis using char_classes(4) by simp
  next
    case (Cons x xs)
    then show ?thesis using w(2) char_classes(1) by simp
  qed
  have 2: "takeWhile name_char (name @ w2 @ ''{'' @ ?a @ ''}'' @ e) = name"
    "dropWhile name_char (name @ w2 @ ''{'' @ ?a @ ''}'' @ e) = w2 @ ''{'' @ ?a @ ''}'' @ e"
    using cut_run [OF name(3), of "w2 @ ''{'' @ ?a @ ''}'' @ e"] hd2 by auto
  have 3: "dropWhile is_space (w2 @ ''{'' @ ?a @ ''}'' @ e) = ''{'' @ ?a @ ''}'' @ e"
    using cut_run(2) [OF w(2), of "''{'' @ ?a @ ''}'' @ e"] char_classes(3) by simp
  have 4: "before_last_brace (?a @ ''}'' @ e) = Some ?a"
    using e by (auto simp: before_last_brace_Some)
  have tail: "braces_paired c w4" for c
    using paired_spaces [OF w(4), of c "[]"] by simp
  have "braces_paired False (args @ w4)"
    using braces_paired_append [OF inline_args_paired [OF args] tail] .
  then have "braces_paired False ?a" using paired_spaces [OF w(3)] by simp
  then have 5: "braces_paired False (dropWhile is_space ?a)"
  proof -
    have "\<forall>c \<in> set (takeWhile is_space ?a). is_space c" by (blast dest: set_takeWhileD)
    then show ?thesis
      using paired_spaces [of "takeWhile is_space ?a" False "dropWhile is_space ?a"] \<open>braces_paired False ?a\<close>
      unfolding takeWhile_dropWhile_id by blast
  qed
  have "startswith s ''call:''" "drop 5 s = w1 @ name @ w2 @ ''{'' @ ?a @ ''}'' @ e"
    by (simp_all add: s startswith_def)
  then show ?thesis
    using name(1,2) 4 5 unfolding INLINE_CALL_RE_def Let_def by (simp only: 1 2 3) simp
qed

lemma inline_call_iff: "INLINE_CALL_RE s \<noteq> None \<longleftrightarrow> (\<exists>name args. inline_form s name args)"
  using inline_call_matches inline_call_complete by fastforce

record RecoveryAdmissionResult =
  ad_admission_decision :: RecoveryAdmissionDecision
  ad_canonical_tool_name :: string
  ad_mutation_class :: string
  ad_proposal_only :: bool

fun tier_decision :: "RecoveryAdmissionTier \<Rightarrow> RecoveryAdmissionDecision" where
  "tier_decision READ_ONLY_RECOVERABLE = AUTO_EXECUTE_READ_ONLY"
| "tier_decision VALIDATION_RECOVERABLE = AUTO_EXECUTE_VALIDATION"
| "tier_decision MUTATION_PROPOSAL_ONLY = PROPOSAL_ONLY_MUTATION"
| "tier_decision EXTERNAL_SIDE_EFFECT_REFUSE = REQUIRE_REMOTE_AUTHORIZATION"
| "tier_decision RAW_SHELL_REFUSE = REFUSE_RAW_SHELL"
| "tier_decision UNSUPPORTED_REFUSE = REFUSE_UNSUPPORTED"

definition decide_admission :: "RecoveryIntent \<Rightarrow> AdmittedToolEntry \<Rightarrow> RecoveryAdmissionResult" where
  "decide_admission i e =
    \<lparr>ad_admission_decision = tier_decision (te_recovery_admission_tier e), ad_canonical_tool_name = ri_canonical_tool_name i,
     ad_mutation_class = (case ri_mutation_class i of Some c \<Rightarrow> if c = '''' then te_mutation_class e else c | None \<Rightarrow> te_mutation_class e),
     ad_proposal_only = (te_recovery_admission_tier e = MUTATION_PROPOSAL_ONLY)\<rparr>"

definition is_auto_execute_decision :: "RecoveryAdmissionDecision \<Rightarrow> bool" where
  "is_auto_execute_decision d \<longleftrightarrow> d \<in> {AUTO_EXECUTE_READ_ONLY, AUTO_EXECUTE_VALIDATION}"

definition is_mutation_class :: "string option \<Rightarrow> bool" where
  "is_mutation_class mc =
    (case mc of None \<Rightarrow> False
     | Some c \<Rightarrow> str_lower c \<in> {''writes_workspace'', ''mutates_git_state'', ''external_side_effect''})"

section \<open>What a manifest holds\<close>

lemma build_entry_fields:
  "build_entry sha name t = Inr e \<Longrightarrow>
    te_canonical_name e = name \<and> te_mutation_class e = tc_mutation_class t \<and>
    te_recovery_admission_tier e = classify_admission_tier (tc_mutation_class t) name"
  by (auto simp: build_entry_def and_then_Inr_iff split: sum.splits)

lemma build_entries_set:
  "build_entries sha ts = Inr es \<Longrightarrow>
    (\<forall>e \<in> set es. \<exists>t. (te_canonical_name e, t) \<in> set ts \<and> build_entry sha (te_canonical_name e) t = Inr e)"
proof (induction sha ts arbitrary: es rule: build_entries.induct)
  case (2 sha name t ts)
  then obtain e es' where "es = e # es'" "build_entry sha name t = Inr e" "build_entries sha ts = Inr es'"
    by (auto simp: and_then_Inr_iff)
  with 2(1) build_entry_fields [of sha name t e] show ?case by fastforce
qed simp

lemma build_entries_names: "build_entries sha ts = Inr es \<Longrightarrow> map te_canonical_name es = map fst ts"
  by (induction sha ts arbitrary: es rule: build_entries.induct)
    (auto simp: and_then_Inr_iff dest: build_entry_fields split: sum.splits)

lemma manifest_entry_source:
  assumes "build_tool_surface_manifest sha tools = Inr (Inr m)" and "e \<in> set (ms_admitted_tools m)"
  obtains t where "(te_canonical_name e, t) \<in> set tools" and "build_entry sha (te_canonical_name e) t = Inr e"
proof -
  from assms(1) have "build_entries sha (sort_key fst tools) = Inr (ms_admitted_tools m)"
    by (auto simp: build_tool_surface_manifest_def and_then_Inr_iff Let_def split: option.splits if_splits sum.splits)
  from build_entries_set [OF this] assms(2) obtain t
    where "(te_canonical_name e, t) \<in> set tools" "build_entry sha (te_canonical_name e) t = Inr e" by auto
  then show thesis by (rule that)
qed

lemma aliases_have_no_metachars: "\<forall>(a, c) \<in> set ALIAS_MAP. \<not> list_ex (\<lambda>ch. ch \<in> set SHELL_METACHARS) a"
  by (simp add: ALIAS_MAP_def SHELL_METACHARS_def)

lemma registry_valid_iff: "validate_alias_registry admitted = None \<longleftrightarrow> snd ` set ALIAS_MAP \<subseteq> admitted"
proof -
  have "validate_alias_registry admitted = None \<longleftrightarrow>
      next_or_none (\<lambda>(alias, canonical). canonical \<notin> admitted \<or> list_ex (\<lambda>c. c \<in> set SHELL_METACHARS) alias) ALIAS_MAP = None"
    by (auto simp: validate_alias_registry_def split: option.splits)
  then show ?thesis using aliases_have_no_metachars by (force simp: next_or_none_None)
qed

lemma alias_not_canonical: "(a, c) \<in> set ALIAS_MAP \<Longrightarrow> a \<noteq> c"
  by (auto simp: ALIAS_MAP_def)

lemma no_shadow_iff: "check_alias_shadows_canonical admitted = None \<longleftrightarrow> fst ` set ALIAS_MAP \<inter> admitted = {}"
  by (auto simp: check_alias_shadows_canonical_def next_or_none_None dest: alias_not_canonical)

section \<open>What a recovered call is\<close>

lemma transduced_recovered:
  assumes "transduce_dict sha call_id m emission = Inr (Recovered i)"
  obtains e where "e \<in> set (ms_admitted_tools m)" and "te_canonical_name e = ri_canonical_tool_name i"
    and "ri_mutation_class i = Some (te_mutation_class e)"
proof -
  from assms obtain canonical args rules where "validate_and_build sha call_id m canonical args rules = Recovered i"
    by (auto simp: transduce_dict_def refuse_def and_then_Inr_iff Let_def
        split: prod.splits option.splits json.splits if_splits sum.splits)
  then obtain e where "next_or_none (\<lambda>e. te_canonical_name e = canonical) (ms_admitted_tools m) = Some e"
    and "ri_canonical_tool_name i = canonical" and "ri_mutation_class i = Some (te_mutation_class e)"
    by (auto simp: validate_and_build_def refuse_def Let_def split: option.splits)
  then show thesis using that by (auto dest: next_or_none_Some)
qed

lemma built_entry:
  assumes "validate_and_build sha call_id m canonical args rules = Recovered i"
  obtains e where "e \<in> set (ms_admitted_tools m)" and "te_canonical_name e = ri_canonical_tool_name i"
    and "ri_mutation_class i = Some (te_mutation_class e)"
  using assms by (auto simp: validate_and_build_def refuse_def Let_def split: option.splits dest: next_or_none_Some)

lemma transduce_recovered:
  assumes "transduce sha call_id m emission = Inr (Recovered i)"
  obtains e where "e \<in> set (ms_admitted_tools m)" and "te_canonical_name e = ri_canonical_tool_name i"
    and "ri_mutation_class i = Some (te_mutation_class e)"
proof (cases emission)
  case (JStr s)
  with assms obtain canonical args rules where "validate_and_build sha call_id m canonical args rules = Recovered i"
    by (auto simp: transduce_string_def refuse_def Let_def split: prod.splits option.splits if_splits)
  then show thesis using that by (rule built_entry)
next
  case (JObj d)
  with assms have "transduce_dict sha call_id m d = Inr (Recovered i)" by simp
  then show thesis using that by (rule transduced_recovered)
qed (use assms in \<open>simp_all add: transduce_def refuse_def\<close>)

lemma tier_auto_iff:
  "is_auto_execute_decision (tier_decision (classify_admission_tier mc name)) \<longleftrightarrow>
    name \<noteq> ''bash'' \<and> (str_lower mc = ''read_only'' \<or> name \<in> {''validate'', ''validation_suite''})"
  by (auto simp: classify_admission_tier_def is_auto_execute_decision_def Let_def)

lemma tier_proposal_iff:
  "classify_admission_tier mc name = MUTATION_PROPOSAL_ONLY \<longleftrightarrow>
    name \<notin> {''bash'', ''validate'', ''validation_suite''} \<and> str_lower mc \<in> {''writes_workspace'', ''mutates_git_state''}"
  by (auto simp: classify_admission_tier_def Let_def)

text \<open>C21: Whatever an emission is, a dictionary, an inline call or anything else, a call recovered
  from it names a tool of the registry and carries that tool's declared mutation class; the admission policy executes it
  automatically exactly when the tool is not the shell and is read-only or one of the two validation
  tools, and makes it a proposal exactly when the tool writes the workspace or the repository.\<close>

theorem recovered_call_admission:
  assumes "build_tool_surface_manifest sha tools = Inr (Inr m)" and "wf_dict tools"
    and "transduce sha call_id m emission = Inr (Recovered i)"
    and "e \<in> set (ms_admitted_tools m)" and "te_canonical_name e = ri_canonical_tool_name i"
  shows "\<exists>t. dict_get tools (ri_canonical_tool_name i) = Some t \<and> ri_mutation_class i = Some (tc_mutation_class t)
    \<and> (is_auto_execute_decision (ad_admission_decision (decide_admission i e)) \<longleftrightarrow>
         ri_canonical_tool_name i \<noteq> ''bash'' \<and>
         (str_lower (tc_mutation_class t) = ''read_only'' \<or> ri_canonical_tool_name i \<in> {''validate'', ''validation_suite''}))
    \<and> (ad_proposal_only (decide_admission i e) \<longleftrightarrow>
         ri_canonical_tool_name i \<notin> {''bash'', ''validate'', ''validation_suite''} \<and>
         str_lower (tc_mutation_class t) \<in> {''writes_workspace'', ''mutates_git_state''})"
proof -
  have source: "\<exists>t. dict_get tools (te_canonical_name x) = Some t \<and> te_mutation_class x = tc_mutation_class t \<and>
      te_recovery_admission_tier x = classify_admission_tier (tc_mutation_class t) (te_canonical_name x)"
    if x: "x \<in> set (ms_admitted_tools m)" for x
    using manifest_entry_source [OF assms(1) x] \<open>wf_dict tools\<close>
    by (metis build_entry_fields dict_item_get)
  from assms(3) obtain x where x: "x \<in> set (ms_admitted_tools m)" "te_canonical_name x = ri_canonical_tool_name i"
    "ri_mutation_class i = Some (te_mutation_class x)" by (rule transduce_recovered)
  from source [OF x(1)] source [OF assms(4)] x assms(5) obtain t
    where "dict_get tools (ri_canonical_tool_name i) = Some t" "ri_mutation_class i = Some (tc_mutation_class t)"
      "te_recovery_admission_tier e = classify_admission_tier (tc_mutation_class t) (ri_canonical_tool_name i)" by auto
  then show ?thesis by (simp add: decide_admission_def tier_auto_iff tier_proposal_iff)
qed

text \<open>The registry of the examples: the targets of all aliases, the shell and the checkpoint tool.\<close>

definition example_tool :: "string \<Rightarrow> tool_class" where
  "example_tool mutation_class =
    \<lparr>tc_mutation_class = mutation_class, tc_determinism_class = ''deterministic'', tc_parameters = []\<rparr>"

definition example_tools :: "(string, tool_class) dict" where
  "example_tools =
    (''bash'', example_tool ''external_side_effect'') # (''checkpoint'', example_tool ''mutates_git_state'') #
    map (\<lambda>n. (n, example_tool (if n = ''write_file'' then ''writes_workspace'' else ''read_only'')))
      (remdups (map snd ALIAS_MAP))"

definition example_sha :: "json \<Rightarrow> string" where
  "example_sha v = ''sha256:''"

definition example_manifest :: CanonicalToolSurfaceManifest where
  "example_manifest = (case build_tool_surface_manifest example_sha example_tools of Inr (Inr m) \<Rightarrow> m
     | _ \<Rightarrow> \<lparr>ms_admitted_tools = [], ms_manifest_digest = ''''\<rparr>)"

lemma example_registry: "build_tool_surface_manifest example_sha example_tools = Inr (Inr example_manifest)"
  by code_simp

lemma example_tools_wf: "wf_dict example_tools"
  by code_simp

text \<open>The call of the examples, \<^verbatim>\<open>{"tool": "Write-File", "args": {}}\<close>, and what is recovered from it.\<close>

definition example_emission :: jdict where
  "example_emission = [(''tool'', JStr ''Write-File''), (''args'', JObj [])]"

definition example_intent :: RecoveryIntent where
  "example_intent =
    \<lparr>ri_canonical_tool_name = ''write_file'', ri_normalized_args = [], ri_payload_digest = ''sha256:'', ri_call_id = ''c1'',
     ri_rules_applied = [MAP_TOOL_TO_NAME, MAP_ARGS_TO_ARGUMENTS, APPLY_EXPLICIT_ALIAS, VALIDATE_PAYLOAD_SCHEMA],
     ri_manifest_digest = ''sha256:'', ri_mutation_class = Some ''writes_workspace'',
     ri_determinism_class = Some ''deterministic''\<rparr>"

lemma example_transduced:
  "transduce_dict example_sha ''c1'' example_manifest example_emission = Inr (Recovered example_intent)"
  by code_simp

text \<open>The inline call \<^verbatim>\<open>call: read-file {path: a.py, limit: 1_0, ratio: .5, all: true}\<close>.\<close>

definition inline_intent :: RecoveryIntent where
  "inline_intent =
    \<lparr>ri_canonical_tool_name = ''read_file'',
     ri_normalized_args = [(''path'', JStr ''a.py''), (''limit'', JInt 10), (''ratio'', JFloat ''.5''), (''all'', JBool True)],
     ri_payload_digest = ''sha256:'', ri_call_id = ''c2'',
     ri_rules_applied = [PARSE_INLINE_CALL_FORM, APPLY_EXPLICIT_ALIAS, VALIDATE_PAYLOAD_SCHEMA],
     ri_manifest_digest = ''sha256:'', ri_mutation_class = Some ''read_only'', ri_determinism_class = Some ''deterministic''\<rparr>"

lemma inline_transduced:
  "transduce example_sha ''c2'' example_manifest
    (JStr ''call: read-file {path: a.py, limit: 1_0, ratio: .5, all: true}'') = Inr (Recovered inline_intent)"
  by code_simp

lemma inline_refused:
  "list_all (\<lambda>s. case transduce example_sha ''c3'' example_manifest (JStr s) of
      Inr (Refused r) \<Rightarrow> rf_refusal_code r = MALFORMED_INLINE_SYNTAX | _ \<Rightarrow> False)
    [''read-file{}'', ''call:read-file'', ''call:read-file{a:1}}'', ''call:read-file{a}'', ''call:read-file{a:1,a:2}'']"
  by code_simp

lemma inline_nested_comma:
  "INLINE_ARG_SPLIT_RE ''a:{x:1,y:2},b:3'' = [''a:{x:1,y:2}'', ''b:3'']"
  by code_simp

theorem recovered_call_admission_witness:
  "\<not> is_auto_execute_decision (ad_admission_decision (decide_admission example_intent (ms_admitted_tools example_manifest ! 21)))
    \<and> ad_proposal_only (decide_admission example_intent (ms_admitted_tools example_manifest ! 21))
    \<and> (\<exists>e \<in> set (ms_admitted_tools example_manifest).
         is_auto_execute_decision (ad_admission_decision (decide_admission inline_intent e)))"
proof -
  obtain e where e: "e \<in> set (ms_admitted_tools example_manifest)" "te_canonical_name e = ri_canonical_tool_name inline_intent"
    using transduce_recovered [OF inline_transduced] by blast
  have "dict_get example_tools ''read_file'' = Some (example_tool ''read_only'')" by code_simp
  then have inline: "is_auto_execute_decision (ad_admission_decision (decide_admission inline_intent e))"
    using recovered_call_admission [OF example_registry example_tools_wf inline_transduced e]
    by (auto simp: example_tool_def inline_intent_def str_lower_def lower_char_def)
  have "ms_admitted_tools example_manifest ! 21 \<in> set (ms_admitted_tools example_manifest)" by code_simp
  moreover have "te_canonical_name (ms_admitted_tools example_manifest ! 21) = ri_canonical_tool_name example_intent" by code_simp
  moreover have "dict_get example_tools ''write_file'' = Some (example_tool ''writes_workspace'')" by code_simp
  ultimately have "\<not> is_auto_execute_decision (ad_admission_decision (decide_admission example_intent (ms_admitted_tools example_manifest ! 21)))
    \<and> ad_proposal_only (decide_admission example_intent (ms_admitted_tools example_manifest ! 21))"
    using recovered_call_admission [OF example_registry example_tools_wf example_transduced [folded transduce_simps(1)]]
    by (fastforce simp: example_tool_def example_intent_def str_lower_def lower_char_def)
  with inline e(1) show ?thesis by blast
qed

section \<open>Wrappers and aliases\<close>

text \<open>The shapes the transducer is written to recognise, around one name and one set of arguments.\<close>

definition wrapper_forms :: "string \<Rightarrow> jdict \<Rightarrow> jdict list" where
  "wrapper_forms name args =
    [[(''name'', JStr name), (''arguments'', JObj args)],
     [(''name'', JStr name), (''args'', JObj args)],
     [(''name'', JStr name), (''parameters'', JObj args)],
     [(''tool'', JStr name), (''args'', JObj args)],
     [(''tool'', JStr name), (''parameters'', JObj args)],
     [(''function'', JObj [(''name'', JStr name), (''arguments'', JObj args)])],
     [(''function.name'', JStr name), (''function.arguments'', JObj args)],
     [(''function.name'', JStr name), (''function.args'', JObj args)]]"

lemmas unwrap_defs = unwrap_wrappers_def unwrap_function_def map_tool_to_name_def move_to_arguments_def
  unpack_dotted_keys_def unpack_key_def get_object_def dict_get_def dict_set_def dict_pop_def is_text_def

definition unwraps_to :: "string \<Rightarrow> jdict \<Rightarrow> jdict \<Rightarrow> bool" where
  "unwraps_to name args f =
    (case unwrap_wrappers f of
       (Some d, rules) \<Rightarrow> jget_or d ''name'' (JStr '''') = JStr name \<and> extract_arguments d = Some args
     | (None, rules) \<Rightarrow> False)"

lemma wrapper_forms_unwrap: "list_all (unwraps_to name args) (wrapper_forms name args)"
  unfolding wrapper_forms_def list.pred_inject
  apply (intro conjI TrueI)
  apply (simp_all add: unwraps_to_def unwrap_defs extract_arguments_def jget_or_def List.map_filter_def Let_def)
  done

lemma wrapped_call_transduced:
  assumes "f \<in> set (wrapper_forms raw args)" and "raw \<noteq> ''''"
    and "resolve_canonical_name raw = (\<lambda>rules. (c, rules @ extra))"
  obtains rules where "transduce_dict sha call_id m f =
    (if c \<notin> te_canonical_name ` set (ms_admitted_tools m) then Inr (refuse CANONICAL_TOOL_NOT_ADMITTED 1 rules)
     else and_then (apply_payload_key_aliases c args) (\<lambda>args'. Inr (validate_and_build sha call_id m c args' rules)))"
proof -
  from assms(1) wrapper_forms_unwrap [of raw args] have "unwraps_to raw args f" by (auto simp: list_all_iff)
  then obtain d rules where "unwrap_wrappers f = (Some d, rules)" "jget_or d ''name'' (JStr '''') = JStr raw"
    "extract_arguments d = Some args" by (auto simp: unwraps_to_def split: prod.splits option.splits)
  then have "transduce_dict sha call_id m f =
    (if c \<notin> te_canonical_name ` set (ms_admitted_tools m) then Inr (refuse CANONICAL_TOOL_NOT_ADMITTED 1 (rules @ extra))
     else and_then (apply_payload_key_aliases c args) (\<lambda>args'. Inr (validate_and_build sha call_id m c args' (rules @ extra))))"
    using assms(2,3) by (simp add: transduce_dict_def)
  then show thesis by (rule that)
qed

lemma registered_alias_resolved:
  assumes "(a, c) \<in> set ALIAS_MAP"
  shows "resolve_canonical_name a =
    (if CHR ''_'' \<in> set a then (\<lambda>rules. (a, rules @ [])) else (\<lambda>rules. (c, rules @ [APPLY_EXPLICIT_ALIAS])))"
proof -
  have "list_all (\<lambda>(a, c). str_strip a = a \<and> str_lower a = a \<and> dict_get ALIAS_MAP a = Some c) ALIAS_MAP" by code_simp
  with assms have "str_strip a = a" "str_lower a = a" "resolve_alias a = Some c" by (auto simp: list_all_iff resolve_alias_def)
  then show ?thesis by (auto simp: resolve_canonical_name_def Let_def)
qed

lemma manifest_names:
  assumes "build_tool_surface_manifest sha tools = Inr (Inr m)"
  shows "te_canonical_name ` set (ms_admitted_tools m) = fst ` set tools"
    and "snd ` set ALIAS_MAP \<subseteq> fst ` set tools" and "fst ` set ALIAS_MAP \<inter> fst ` set tools = {}"
proof -
  from assms have "build_entries sha (sort_key fst tools) = Inr (ms_admitted_tools m)"
    and "validate_alias_registry (fst ` set tools) = None" and "check_alias_shadows_canonical (fst ` set tools) = None"
    by (auto simp: build_tool_surface_manifest_def and_then_Inr_iff Let_def split: option.splits if_splits)
  then show "snd ` set ALIAS_MAP \<subseteq> fst ` set tools" "fst ` set ALIAS_MAP \<inter> fst ` set tools = {}"
    and "te_canonical_name ` set (ms_admitted_tools m) = fst ` set tools"
    by (simp_all add: registry_valid_iff no_shadow_iff, metis build_entries_names list.set_map set_sort)
qed

definition keys_unaliased :: "string \<Rightarrow> jdict \<Rightarrow> bool" where
  "keys_unaliased tool args \<longleftrightarrow> list_all (\<lambda>(k, v). get_payload_key_alias tool k \<in> {None, Some k}) args"

lemma unaliased_kept: "keys_unaliased tool args \<Longrightarrow> apply_payload_key_aliases tool args = Inr args"
  by (auto simp: keys_unaliased_def apply_payload_key_aliases_def list_all_iff list_ex_iff)

text \<open>With a manifest in force, a call that names a registered alias is recovered to the alias's
  canonical tool, with its arguments and their digest, in each of the eight wrapper shapes alike;
  the aliases that contain an underscore are the exception: the transducer takes them for canonical
  names and refuses the call as a tool that is not admitted.\<close>

theorem registered_alias_recovered:
  assumes "build_tool_surface_manifest sha tools = Inr (Inr m)" and "(a, c) \<in> set ALIAS_MAP"
    and "f \<in> set (wrapper_forms a args)" and "keys_unaliased c args"
  shows "\<exists>r. transduce_dict sha call_id m f = Inr r \<and>
    (if CHR ''_'' \<in> set a then \<exists>rules. r = refuse CANONICAL_TOOL_NOT_ADMITTED 1 rules
     else \<exists>i. r = Recovered i \<and> ri_canonical_tool_name i = c \<and> ri_normalized_args i = args \<and>
       ri_payload_digest i = sha (canon (JObj args)) \<and> ri_manifest_digest i = ms_manifest_digest m)"
proof -
  have "a \<noteq> ''''" using assms(2) by (auto simp: ALIAS_MAP_def)
  note names = manifest_names [OF assms(1)]
  show ?thesis
  proof (cases "CHR ''_'' \<in> set a")
    case True
    then have resolved: "resolve_canonical_name a = (\<lambda>rules. (a, rules @ []))"
      using registered_alias_resolved [OF assms(2)] by simp
    obtain rules where "transduce_dict sha call_id m f =
      (if a \<notin> te_canonical_name ` set (ms_admitted_tools m) then Inr (refuse CANONICAL_TOOL_NOT_ADMITTED 1 rules)
       else and_then (apply_payload_key_aliases a args) (\<lambda>args'. Inr (validate_and_build sha call_id m a args' rules)))"
      using wrapped_call_transduced [OF assms(3) \<open>a \<noteq> ''''\<close> resolved] by blast
    moreover have "a \<notin> te_canonical_name ` set (ms_admitted_tools m)"
      using names(3) imageI [OF assms(2), of fst] unfolding names(1) fst_conv by blast
    ultimately show ?thesis using True by auto
  next
    case False
    then have resolved: "resolve_canonical_name a = (\<lambda>rules. (c, rules @ [APPLY_EXPLICIT_ALIAS]))"
      using registered_alias_resolved [OF assms(2)] by simp
    obtain rules where "transduce_dict sha call_id m f =
      (if c \<notin> te_canonical_name ` set (ms_admitted_tools m) then Inr (refuse CANONICAL_TOOL_NOT_ADMITTED 1 rules)
       else and_then (apply_payload_key_aliases c args) (\<lambda>args'. Inr (validate_and_build sha call_id m c args' rules)))"
      using wrapped_call_transduced [OF assms(3) \<open>a \<noteq> ''''\<close> resolved] by blast
    moreover have admitted: "c \<in> te_canonical_name ` set (ms_admitted_tools m)"
      using names(2) imageI [OF assms(2), of snd] unfolding names(1) snd_conv by blast
    moreover obtain e where "next_or_none (\<lambda>e. te_canonical_name e = c) (ms_admitted_tools m) = Some e"
      using admitted next_or_none_None [of "\<lambda>e. te_canonical_name e = c" "ms_admitted_tools m"] by fastforce
    ultimately show ?thesis using False unaliased_kept [OF assms(4)] by (auto simp: validate_and_build_def)
  qed
qed

theorem registered_alias_recovered_witness:
  "\<exists>r. transduce_dict example_sha ''c2'' example_manifest
      [(''function'', JObj [(''name'', JStr ''read-file''), (''arguments'', JObj [(''path'', JStr ''a.py'')])])] = Inr r \<and>
    (\<exists>i. r = Recovered i \<and> ri_canonical_tool_name i = ''read_file'')"
  using registered_alias_recovered [OF example_registry, of "''read-file''" "''read_file''"
      "[(''function'', JObj [(''name'', JStr ''read-file''), (''arguments'', JObj [(''path'', JStr ''a.py'')])])]"
      "[(''path'', JStr ''a.py'')]" "''c2''"]
  by (force simp: ALIAS_MAP_def wrapper_forms_def keys_unaliased_def get_payload_key_alias_def PAYLOAD_KEY_ALIASES_def dict_get_def)

text \<open>The payload key aliases of \<^verbatim>\<open>checkpoint\<close> and \<^verbatim>\<open>search_replace\<close> can never be applied: a
  call of an admitted tool whose arguments hold an aliased key ends in an \<^verbatim>\<open>AttributeError\<close>, in
  every wrapper shape, instead of a recovered call or a refusal.\<close>

theorem payload_alias_raises:
  assumes "tool \<in> te_canonical_name ` set (ms_admitted_tools m)" and "tool \<in> {''checkpoint'', ''search_replace''}"
    and "dict_get args k \<noteq> None" and "get_payload_key_alias tool k \<noteq> None"
    and "f \<in> set (wrapper_forms tool args)"
  shows "transduce_dict sha call_id m f = Inl AttributeError"
proof -
  have "resolve_canonical_name tool = (\<lambda>rules. (tool, rules @ []))"
  proof -
    have "list_all (\<lambda>t. str_strip t = t \<and> str_lower t = t \<and> resolve_alias t = None) [''checkpoint'', ''search_replace'']"
      by code_simp
    with assms(2) show ?thesis by (auto simp: resolve_canonical_name_def Let_def)
  qed
  moreover have "tool \<noteq> ''''" using assms(2) by auto
  ultimately obtain rules where "transduce_dict sha call_id m f =
    (if tool \<notin> te_canonical_name ` set (ms_admitted_tools m) then Inr (refuse CANONICAL_TOOL_NOT_ADMITTED 1 rules)
     else and_then (apply_payload_key_aliases tool args) (\<lambda>args'. Inr (validate_and_build sha call_id m tool args' rules)))"
    using wrapped_call_transduced [OF assms(5), of tool "[]" sha call_id m] by blast
  moreover have "apply_payload_key_aliases tool args = Inl AttributeError"
  proof -
    have "get_payload_key_alias tool k \<notin> {None, Some k}" using assms(2,4)
      by (auto simp: get_payload_key_alias_def PAYLOAD_KEY_ALIASES_def dict_get_def split: if_splits)
    moreover obtain v where "(k, v) \<in> set args" using assms(3) by (auto simp: dict_get_def dest: map_of_SomeD)
    ultimately have "list_ex (\<lambda>(k, v). get_payload_key_alias tool k \<notin> {None, Some k}) args"
      unfolding list_ex_iff by (intro bexI [of _ "(k, v)"]) auto
    then show ?thesis by (simp only: apply_payload_key_aliases_def if_True)
  qed
  ultimately show ?thesis using assms(1) by simp
qed

theorem payload_alias_raises_witness:
  "transduce_dict example_sha ''c3'' example_manifest [(''tool'', JStr ''checkpoint''), (''args'', JObj [(''msg'', JStr ''done'')])]
    = Inl AttributeError"
proof -
  have "''checkpoint'' \<in> te_canonical_name ` set (ms_admitted_tools example_manifest)" by code_simp
  then show ?thesis
    by (rule payload_alias_raises [of _ _ "[(''msg'', JStr ''done'')]" "''msg''"])
      (simp_all add: dict_get_def get_payload_key_alias_def PAYLOAD_KEY_ALIASES_def wrapper_forms_def)
qed

end
