(* ===== verification/Recovery_Authority.thy ===== *)
theory Recovery_Authority
  imports Receipt_Store
begin

text \<open>
  The stores of \<^verbatim>\<open>rig_relay/recovery/\<close>: the evidence ledger (\<^verbatim>\<open>evidence_ledger.py\<close>), the intent
  authority with its payload store (\<^verbatim>\<open>intent_authority.py\<close>) and the queries over it
  (\<^verbatim>\<open>intent_query.py\<close>).  A ledger file is the list of its lines, a file that does not exist has
  none.  SHA-256 over JSON and over text, \<^verbatim>\<open>str\<close> of a value that is no string and the validation
  against the receipt schema are parameters; a call holds its lock, so it is one step.  Temporary
  files, partial writes and log messages are not modelled.
\<close>

section \<open>Event digests\<close>

definition compute_event_digest :: "(json \<Rightarrow> string) \<Rightarrow> jdict \<Rightarrow> string" where
  "compute_event_digest sha e = sha (canon (JObj (dict_pop ''event_digest'' e)))"

definition FORBIDDEN_EVENT_KEYS :: "string list" where
  "FORBIDDEN_EVENT_KEYS =
    [''raw_emission'', ''raw_prompt'', ''raw_model_output'', ''normalized_payload'', ''file_content'', ''mutation_content'',
     ''secret'', ''api_key'', ''token'', ''command_content'', ''raw_stdout'', ''raw_stderr'']"

definition FORBIDDEN_RECEIPT_KEYS :: "string list" where
  "FORBIDDEN_RECEIPT_KEYS =
    [''raw_emission'', ''raw_prompt'', ''raw_model_output'', ''normalized_payload'', ''normalized_args'', ''file_content'',
     ''mutation_content'', ''secret'', ''api_key'', ''token'', ''command_content'', ''raw_stdout'', ''raw_stderr'']"

definition assert_no_raw_content :: "string list \<Rightarrow> jdict \<Rightarrow> unit result" where
  "assert_no_raw_content forbidden e =
    (if list_ex (\<lambda>k. dict_get e k \<noteq> None) forbidden then Inl (ValueError ''forbidden content key'') else Inr ())"

section \<open>The evidence ledger\<close>

text \<open>\<open>ok\<close> says whether the file can be opened and written.\<close>

definition append_event :: "(json \<Rightarrow> string) \<Rightarrow> bool \<Rightarrow> jdict \<Rightarrow> json jsonl list \<Rightarrow> json jsonl list \<times> string result" where
  "append_event sha ok e ls =
    (case assert_no_raw_content FORBIDDEN_EVENT_KEYS e of
       Inl err \<Rightarrow> (ls, Inl err)
     | Inr _ \<Rightarrow>
        if \<not> ok then (ls, Inl OSError)
        else (ls @ [Entry (canon (JObj (dict_set ''event_digest'' (JStr (compute_event_digest sha e)) e)))],
              Inr (compute_event_digest sha e)))"

text \<open>JSON that is no object raises other exceptions than those \<^verbatim>\<open>load_events\<close> catches.\<close>

fun load_and_verify_event :: "(json \<Rightarrow> string) \<Rightarrow> json \<Rightarrow> jdict result" where
  "load_and_verify_event sha (JObj e) =
    (case dict_get e ''event_digest'' of
       None \<Rightarrow> Inr (dict_set ''event_digest'' (JStr (compute_event_digest sha e)) e)
     | Some stored \<Rightarrow>
        let e' = dict_pop ''event_digest'' e; computed = compute_event_digest sha e' in
        if stored \<noteq> JNull \<and> stored \<noteq> JStr computed then Inl (ValueError ''Event integrity failure'')
        else Inr (dict_set ''event_digest'' (JStr computed) e'))"
| "load_and_verify_event sha (JStr s) = (if str_contains s ''event_digest'' then Inl AttributeError else Inl TypeError)"
| "load_and_verify_event sha v = Inl TypeError"

fun load_events :: "(json \<Rightarrow> string) \<Rightarrow> json jsonl list \<Rightarrow> jdict list result" where
  "load_events sha [] = Inr []"
| "load_events sha (Entry v # ls) =
    (case load_and_verify_event sha v of
       Inr e \<Rightarrow> and_then (load_events sha ls) (\<lambda>es. Inr (e # es))
     | Inl (ValueError msg) \<Rightarrow> load_events sha ls
     | Inl err \<Rightarrow> Inl err)"
| "load_events sha (l # ls) = load_events sha ls"

definition count_events :: "json jsonl list \<Rightarrow> nat" where
  "count_events ls = length (filter (\<lambda>l. l \<noteq> Blank) ls)"

section \<open>The intent authority\<close>

record intent_env = receipt_env +
  ie_text_sha :: "string \<Rightarrow> string"
  ie_schema_ok :: "jdict \<Rightarrow> bool"

record MaterializationRequest =
  mr_recovery_receipt_sha256 :: string
  mr_payload_digest :: string
  mr_manifest_digest :: string
  mr_canonical_tool_name :: string
  mr_normalized_args :: jdict
  mr_execution_class :: string
  mr_correlation_id :: string
  mr_validation_profile :: "string option"
  mr_bounded_paths :: "string list option"
  mr_mutation_class :: "string option"
  mr_materialization_kind :: string

record DurableRecoveryIntentAuthority =
  ia_payloads :: receipt_dir
  ia_receipts :: "json jsonl list"

definition compute_intent_id :: "intent_env \<Rightarrow> string \<Rightarrow> string \<Rightarrow> string" where
  "compute_intent_id env receipt pd = ie_text_sha env (receipt @ ''|'' @ pd)"

text \<open>\<^verbatim>\<open>_sha256_data(json.dumps(value, sort_keys=True))\<close>.\<close>

definition payload_sha :: "intent_env \<Rightarrow> json \<Rightarrow> string" where
  "payload_sha env v = re_sha env (canon v)"

definition payload_write :: "string \<Rightarrow> jdict \<Rightarrow> receipt_dir \<Rightarrow> receipt_dir" where
  "payload_write i payload dir = dict_set i (FileJson (canon (JObj payload))) dir"

definition payload_put :: "intent_env \<Rightarrow> bool \<Rightarrow> string \<Rightarrow> jdict \<Rightarrow> receipt_dir \<Rightarrow> receipt_dir \<times> string result" where
  "payload_put env ok i payload dir =
    (if ok then (payload_write i payload dir, Inr (payload_sha env (JObj payload))) else (dir, Inl OSError))"

text \<open>The stored value; \<^verbatim>\<open>null\<close> reads as a missing payload.\<close>

definition payload_get :: "receipt_dir \<Rightarrow> string \<Rightarrow> json option" where
  "payload_get dir i =
    (case dict_get dir i of
       Some (FileJson v) \<Rightarrow> if v = JNull then None else Some v
     | _ \<Rightarrow> None)"

definition payload_exists :: "receipt_dir \<Rightarrow> string \<Rightarrow> bool" where
  "payload_exists dir i \<longleftrightarrow> dict_get dir i \<noteq> None"

fun load_receipt_by_intent_id :: "json jsonl list \<Rightarrow> string \<Rightarrow> jdict option result" where
  "load_receipt_by_intent_id [] i = Inr None"
| "load_receipt_by_intent_id (Entry (JObj e) # ls) i =
    (if jget e ''intent_id'' = JStr i then Inr (Some e) else load_receipt_by_intent_id ls i)"
| "load_receipt_by_intent_id (Entry v # ls) i = Inl AttributeError"
| "load_receipt_by_intent_id (l # ls) i = load_receipt_by_intent_id ls i"

definition append_receipt ::
  "intent_env \<Rightarrow> bool \<Rightarrow> jdict \<Rightarrow> json jsonl list \<Rightarrow> json jsonl list \<times> string result" where
  "append_receipt env ok e ls =
    (case assert_no_raw_content FORBIDDEN_RECEIPT_KEYS e of
       Inl err \<Rightarrow> (ls, Inl err)
     | Inr _ \<Rightarrow>
        if \<not> ie_schema_ok env e then (ls, Inl (ValueError ''Intent receipt failed schema validation''))
        else if \<not> ok then (ls, Inl OSError)
        else (ls @ [Entry (canon (JObj (dict_set ''event_digest'' (JStr (compute_event_digest (re_sha env) e)) e)))],
              Inr (compute_event_digest (re_sha env) e)))"

definition receipt_event :: "intent_env \<Rightarrow> int \<Rightarrow> MaterializationRequest \<Rightarrow> jdict" where
  "receipt_event env now q =
    [(''schema_version'', JStr ''rig.relay.recovery_intent_authority.v1''),
     (''intent_id'', JStr (compute_intent_id env (mr_recovery_receipt_sha256 q) (mr_payload_digest q))),
     (''recovery_receipt_sha256'', JStr (mr_recovery_receipt_sha256 q)), (''payload_digest'', JStr (mr_payload_digest q)),
     (''manifest_digest'', JStr (mr_manifest_digest q)), (''canonical_tool_name'', JStr (mr_canonical_tool_name q)),
     (''execution_class'', JStr (mr_execution_class q)), (''correlation_id'', JStr (mr_correlation_id q)),
     (''validation_profile'', jopt JStr (mr_validation_profile q)),
     (''bounded_paths'', JList (map JStr (case mr_bounded_paths q of None \<Rightarrow> [] | Some ps \<Rightarrow> ps))),
     (''mutation_class'', jopt JStr (mr_mutation_class q)), (''materialization_kind'', JStr (mr_materialization_kind q)),
     (''content_light'', JBool True), (''created_at'', JTime (Aware now))]"

text \<open>The failures of the two writes.\<close>

datatype mat_io = Mat_ok | Mat_payload_fails | Mat_receipt_fails

definition materialize_intent ::
  "intent_env \<Rightarrow> mat_io \<Rightarrow> int \<Rightarrow> MaterializationRequest \<Rightarrow> DurableRecoveryIntentAuthority \<Rightarrow>
   DurableRecoveryIntentAuthority \<times> string result" where
  "materialize_intent env io now q st =
    (if payload_sha env (JObj (mr_normalized_args q)) \<noteq> mr_payload_digest q then (st, Inl (ValueError ''Payload digest mismatch''))
     else
       let i = compute_intent_id env (mr_recovery_receipt_sha256 q) (mr_payload_digest q) in
       case load_receipt_by_intent_id (ia_receipts st) i of
         Inl err \<Rightarrow> (st, Inl err)
       | Inr (Some r) \<Rightarrow>
          (st, case payload_get (ia_payloads st) i of
             None \<Rightarrow> Inl (ValueError ''has receipt but no payload'')
           | Some v \<Rightarrow>
              if payload_sha env v \<noteq> mr_payload_digest q then Inl (ValueError ''already materialized with different payload'')
              else Inr i)
       | Inr None \<Rightarrow>
          if io = Mat_payload_fails then (st, Inl OSError)
          else
            let st1 = st\<lparr>ia_payloads := payload_write i (mr_normalized_args q) (ia_payloads st)\<rparr> in
            case append_receipt env (io = Mat_ok) (receipt_event env now q) (ia_receipts st) of
              (ls, Inl err) \<Rightarrow> (st1\<lparr>ia_receipts := ls\<rparr>, Inl err)
            | (ls, Inr d) \<Rightarrow> (st1\<lparr>ia_receipts := ls\<rparr>, Inr i))"

definition load_intent :: "intent_env \<Rightarrow> string \<Rightarrow> string \<Rightarrow> DurableRecoveryIntentAuthority \<Rightarrow> jdict option result" where
  "load_intent env receipt pd st =
    (let i = compute_intent_id env receipt pd in
     and_then (load_receipt_by_intent_id (ia_receipts st) i) (\<lambda>found. Inr
       (case found of
          None \<Rightarrow> None
        | Some r \<Rightarrow>
           let expected = compute_event_digest (re_sha env) r; stored = jget_or r ''event_digest'' (JStr '''') in
           if json_truthy stored \<and> stored \<noteq> JStr expected then None
           else case payload_get (ia_payloads st) i of
             None \<Rightarrow> None
           | Some v \<Rightarrow>
              if JStr (payload_sha env v) \<noteq> jget_or r ''payload_digest'' (JStr '''') then None
              else Some (dict_set ''event_digest'' (JStr expected) r))))"

definition retrieve_payload :: "intent_env \<Rightarrow> string \<Rightarrow> json \<Rightarrow> DurableRecoveryIntentAuthority \<Rightarrow> json option" where
  "retrieve_payload env i expected st =
    (case payload_get (ia_payloads st) i of
       None \<Rightarrow> None
     | Some v \<Rightarrow> if JStr (payload_sha env v) \<noteq> expected then None else Some v)"

definition intent_exists :: "intent_env \<Rightarrow> string \<Rightarrow> string \<Rightarrow> DurableRecoveryIntentAuthority \<Rightarrow> bool" where
  "intent_exists env receipt pd st = payload_exists (ia_payloads st) (compute_intent_id env receipt pd)"

section \<open>Queries\<close>

record IntentQueryResult =
  iq_intent_id :: json
  iq_status :: string
  iq_canonical_tool_name :: json
  iq_execution_class :: json
  iq_payload_digest :: json
  iq_manifest_digest :: json
  iq_recovery_receipt_sha256 :: json
  iq_binding_disposition :: string
  iq_validation_profile_available :: bool
  iq_bounded_paths_available :: bool
  iq_payload_retrievable :: bool
  iq_materialization_kind :: json
  iq_created_at :: json

definition empty_query_result :: "string \<Rightarrow> string \<Rightarrow> IntentQueryResult" where
  "empty_query_result i status =
    \<lparr>iq_intent_id = JStr i, iq_status = status, iq_canonical_tool_name = JStr '''', iq_execution_class = JStr '''',
     iq_payload_digest = JStr '''', iq_manifest_digest = JStr '''', iq_recovery_receipt_sha256 = JStr '''',
     iq_binding_disposition = ''unbound'', iq_validation_profile_available = False, iq_bounded_paths_available = False,
     iq_payload_retrievable = False, iq_materialization_kind = JStr '''', iq_created_at = JStr ''''\<rparr>"

definition bound_query_result :: "json \<Rightarrow> string \<Rightarrow> json \<Rightarrow> json \<Rightarrow> bool \<Rightarrow> jdict \<Rightarrow> IntentQueryResult" where
  "bound_query_result i status pd receipt ok r =
    \<lparr>iq_intent_id = i, iq_status = status, iq_canonical_tool_name = jget_or r ''canonical_tool_name'' (JStr ''''),
     iq_execution_class = jget_or r ''execution_class'' (JStr ''''), iq_payload_digest = pd,
     iq_manifest_digest = jget_or r ''manifest_digest'' (JStr ''''), iq_recovery_receipt_sha256 = receipt,
     iq_binding_disposition = ''bound'', iq_validation_profile_available = json_truthy (jget r ''validation_profile''),
     iq_bounded_paths_available = json_truthy (jget r ''bounded_paths''), iq_payload_retrievable = ok,
     iq_materialization_kind = jget_or r ''materialization_kind'' (JStr ''''), iq_created_at = jget_or r ''created_at'' (JStr '''')\<rparr>"

text \<open>A receipt that was found has the identifier asked for.\<close>

definition query_by_handoff_binding ::
  "intent_env \<Rightarrow> string \<Rightarrow> string \<Rightarrow> DurableRecoveryIntentAuthority \<Rightarrow> IntentQueryResult result" where
  "query_by_handoff_binding env receipt pd st =
    and_then (load_intent env receipt pd st) (\<lambda>found. Inr
      (case found of
         None \<Rightarrow> (empty_query_result (compute_intent_id env receipt pd) ''missing'')
           \<lparr>iq_recovery_receipt_sha256 := JStr receipt, iq_payload_digest := JStr pd\<rparr>
       | Some r \<Rightarrow>
          bound_query_result (jget_or r ''intent_id'' (JStr '''')) ''materialized'' (jget_or r ''payload_digest'' (JStr ''''))
            (jget_or r ''recovery_receipt_sha256'' (JStr ''''))
            (retrieve_payload env (compute_intent_id env receipt pd) (JStr pd) st \<noteq> None) r))"

definition query_by_intent_id :: "intent_env \<Rightarrow> string \<Rightarrow> DurableRecoveryIntentAuthority \<Rightarrow> IntentQueryResult result" where
  "query_by_intent_id env i st =
    and_then (load_receipt_by_intent_id (ia_receipts st) i) (\<lambda>raw.
      case raw of
        None \<Rightarrow> Inr (empty_query_result i ''missing'')
      | Some r0 \<Rightarrow>
         let receipt = jget_or r0 ''recovery_receipt_sha256'' (JStr ''''); pd = jget_or r0 ''payload_digest'' (JStr '''') in
         and_then (load_intent env (py_str (receipt_env.truncate env) receipt) (py_str (receipt_env.truncate env) pd) st) (\<lambda>found. Inr
           (case found of
              None \<Rightarrow> empty_query_result i ''corrupt''
            | Some r \<Rightarrow>
               let ok = retrieve_payload env i pd st \<noteq> None in
               bound_query_result (JStr i) (if ok then ''materialized'' else ''corrupt'') pd receipt ok r)))"

section \<open>Digests of events\<close>

lemma canon_pop_set: "wf_dict d \<Longrightarrow> canon_dict (dict_pop k (dict_set k v d)) = canon_dict (dict_pop k d)"
  by (rule canon_dict_ext) (simp_all add: dict_simps)

lemma canon_pop_canon: "wf_dict d \<Longrightarrow> canon_dict (dict_pop k (canon_dict d)) = canon_dict (dict_pop k d)"
  by (rule canon_dict_ext) (auto simp: dict_simps option.map_comp comp_def)

lemma canon_reset_field:
  "wf_dict d \<Longrightarrow> dict_get d k = Some v \<Longrightarrow> canon_dict (dict_set k v (dict_pop k d)) = canon_dict d"
  by (rule canon_dict_ext) (simp_all add: dict_get_set dict_get_pop)

interpretation evd: sealed_document "''event_digest''" "compute_event_digest sha" for sha
  by unfold_locales (simp_all add: compute_event_digest_def canon_pop_set canon_pop_canon)

lemma event_digest_pop: "wf_dict d \<Longrightarrow> compute_event_digest sha (dict_pop ''event_digest'' d) = compute_event_digest sha d"
proof -
  assume "wf_dict d"
  then have "canon_dict (dict_pop ''event_digest'' (dict_pop ''event_digest'' d)) = canon_dict (dict_pop ''event_digest'' d)"
    by (intro canon_dict_ext) (simp_all add: dict_simps)
  then show ?thesis by (simp add: compute_event_digest_def)
qed

section \<open>The evidence ledger\<close>

lemma load_events_append:
  "load_events sha (ls @ ls') = and_then (load_events sha ls) (\<lambda>es. and_then (load_events sha ls') (\<lambda>es'. Inr (es @ es')))"
proof (induction sha ls rule: load_events.induct)
  case (1 sha)
  show ?case by (cases "load_events sha ls'") simp_all
next
  case (2 sha v ls)
  show ?case
  proof (cases "load_and_verify_event sha v")
    case (Inl err)
    with 2 show ?thesis by (cases err) simp_all
  next
    case (Inr e)
    with 2 show ?thesis by (cases "load_events sha ls"; cases "load_events sha ls'") simp_all
  qed
qed simp_all

lemma verify_sealed_event:
  assumes "wf_dict e"
  shows "\<exists>x. load_and_verify_event sha (canon (JObj (evd.seal sha e))) = Inr x \<and> canon_dict x = canon_dict (evd.seal sha e)"
proof -
  let ?c = "canon_dict (evd.seal sha e)"
  have wf: "wf_dict ?c" using assms by simp
  have intact: "dict_get ?c ''event_digest'' = Some (JStr (compute_event_digest sha ?c))"
    using evd.stored_intact [OF assms] by (simp add: evd.intact_def)
  then have "load_and_verify_event sha (JObj ?c) = Inr (dict_set ''event_digest'' (JStr (compute_event_digest sha ?c)) (dict_pop ''event_digest'' ?c))"
    using wf by (simp add: event_digest_pop Let_def)
  moreover have "canon_dict (dict_set ''event_digest'' (JStr (compute_event_digest sha ?c)) (dict_pop ''event_digest'' ?c)) = canon_dict ?c"
    using canon_reset_field [OF wf intact] .
  ultimately show ?thesis by simp
qed

definition content_light :: "string list \<Rightarrow> jdict \<Rightarrow> bool" where
  "content_light forbidden e \<longleftrightarrow> (\<forall>k \<in> set forbidden. dict_get e k = None)"

lemma assert_content_light:
  "assert_no_raw_content forbidden e = (if content_light forbidden e then Inr () else Inl (ValueError ''forbidden content key''))"
  by (auto simp: assert_no_raw_content_def content_light_def list_ex_iff)

lemma appended_line:
  "content_light FORBIDDEN_EVENT_KEYS e \<Longrightarrow>
    append_event sha True e ls = (ls @ [Entry (canon (JObj (evd.seal sha e)))], Inr (compute_event_digest sha e))"
  by (simp add: append_event_def assert_content_light evd.seal_def)

definition append_all :: "(json \<Rightarrow> string) \<Rightarrow> jdict list \<Rightarrow> json jsonl list \<Rightarrow> json jsonl list" where
  "append_all sha es ls = foldl (\<lambda>ls e. fst (append_event sha True e ls)) ls es"

text \<open>What is appended to the evidence ledger is read back: after appending content-light events
  to a ledger that loads, loading gives the old events and then the new ones in order, each as it
  was up to the order of its keys, with its digest; and the count grows by their number.\<close>

theorem evidence_ledger_round_trip:
  assumes "load_events sha ls = Inr old" and "\<forall>e \<in> set es. wf_dict e \<and> content_light FORBIDDEN_EVENT_KEYS e"
  shows "\<exists>new. load_events sha (append_all sha es ls) = Inr (old @ new) \<and>
      map canon_dict new = map (\<lambda>e. canon_dict (dict_set ''event_digest'' (JStr (compute_event_digest sha e)) e)) es \<and>
      count_events (append_all sha es ls) = count_events ls + length es"
  using assms
proof (induction es arbitrary: ls old)
  case Nil
  then show ?case by (simp add: append_all_def)
next
  case (Cons e es)
  obtain x where x: "load_and_verify_event sha (canon (JObj (evd.seal sha e))) = Inr x" "canon_dict x = canon_dict (evd.seal sha e)"
    using verify_sealed_event Cons.prems(2) by (metis list.set_intros(1))
  let ?ls = "ls @ [Entry (canon (JObj (evd.seal sha e)))]"
  have all: "append_all sha (e # es) ls = append_all sha es ?ls"
    using Cons.prems(2) by (simp add: append_all_def appended_line del: canon_JObj)
  have loads: "load_events sha ?ls = Inr (old @ [x])"
    using x(1) Cons.prems(1) by (simp add: load_events_append del: canon_JObj)
  have count: "count_events ?ls = Suc (count_events ls)" by (simp add: count_events_def)
  from Cons.IH [OF loads] Cons.prems(2) obtain new where "load_events sha (append_all sha es ?ls) = Inr (old @ x # new)"
    "map canon_dict new = map (\<lambda>e. canon_dict (dict_set ''event_digest'' (JStr (compute_event_digest sha e)) e)) es"
    "count_events (append_all sha es ?ls) = count_events ?ls + length es" by auto
  with x(2) count all show ?case by (intro exI [of _ "x # new"]) (simp add: evd.seal_def)
qed

text \<open>An edited event is dropped when the ledger is loaded, but only as long as its digest is
  left in place: without it, or with \<^verbatim>\<open>null\<close> for it, the edited event is accepted and sealed anew.\<close>

theorem edited_event_accepted_without_digest:
  fixes sha e k v defines "seal \<equiv> \<lambda>x. dict_set ''event_digest'' (JStr (compute_event_digest sha x)) x"
  assumes "wf_dict e" and "dict_get e ''event_digest'' = None" and "k \<noteq> ''event_digest''" and "load_events sha ls = Inr old"
    and no_collision: "compute_event_digest sha (dict_set k v e) \<noteq> compute_event_digest sha e"
  shows "load_events sha (ls @ [Entry (JObj (dict_set k v (seal e)))]) = Inr old \<and>
    load_events sha (ls @ [Entry (JObj (dict_set k v e))]) = Inr (old @ [seal (dict_set k v e)])"
proof -
  let ?x = "dict_set k v (seal e)"
  have "canon_dict (dict_pop ''event_digest'' ?x) = canon_dict (dict_pop ''event_digest'' (dict_set k v e))"
    using assms(2) by (intro canon_dict_ext) (simp_all add: seal_def dict_simps)
  then have "compute_event_digest sha ?x = compute_event_digest sha (dict_set k v e)" by (simp add: compute_event_digest_def)
  then have "load_and_verify_event sha (JObj ?x) = Inl (ValueError ''Event integrity failure'')"
    using assms(2,4,6) by (simp add: seal_def dict_get_set event_digest_pop Let_def)
  moreover have "load_and_verify_event sha (JObj (dict_set k v e)) = Inr (seal (dict_set k v e))"
    using assms(3,4) by (simp add: seal_def dict_get_set)
  ultimately show ?thesis using assms(5) by (simp add: load_events_append)
qed

section \<open>Reachable authorities\<close>

abbreviation intent_of :: "intent_env \<Rightarrow> MaterializationRequest \<Rightarrow> string" where
  "intent_of env q \<equiv> compute_intent_id env (mr_recovery_receipt_sha256 q) (mr_payload_digest q)"

definition intent_step :: "intent_env \<Rightarrow> DurableRecoveryIntentAuthority \<Rightarrow> DurableRecoveryIntentAuthority \<Rightarrow> bool" where
  "intent_step env st st' \<longleftrightarrow> (\<exists>io now q. st' = fst (materialize_intent env io now q st))"

definition intent_reachable :: "intent_env \<Rightarrow> DurableRecoveryIntentAuthority \<Rightarrow> bool" where
  "intent_reachable env = (intent_step env)\<^sup>*\<^sup>* \<lparr>ia_payloads = [], ia_receipts = []\<rparr>"

definition sealed_receipt :: "intent_env \<Rightarrow> int \<Rightarrow> MaterializationRequest \<Rightarrow> jdict" where
  "sealed_receipt env now q = canon_dict (evd.seal (re_sha env) (receipt_event env now q))"

text \<open>Every line of the ledger is a receipt the authority wrote, and its payload is in place.\<close>

definition good_receipt :: "intent_env \<Rightarrow> receipt_dir \<Rightarrow> jdict \<Rightarrow> bool" where
  "good_receipt env dir r \<longleftrightarrow> (\<exists>now q v. r = sealed_receipt env now q \<and>
    payload_get dir (intent_of env q) = Some v \<and> payload_sha env v = mr_payload_digest q)"

definition authority_ok :: "intent_env \<Rightarrow> DurableRecoveryIntentAuthority \<Rightarrow> bool" where
  "authority_ok env st \<longleftrightarrow>
    (\<exists>rs. ia_receipts st = map (\<lambda>r. Entry (JObj r)) rs \<and> (\<forall>r \<in> set rs. good_receipt env (ia_payloads st) r))"

lemma wf_receipt_event [simp]: "wf_dict (receipt_event env now q)"
  by (simp add: receipt_event_def wf_dict_def)

lemma sealed_receipt_get:
  "k \<noteq> ''event_digest'' \<Longrightarrow> jget (sealed_receipt env now q) k = canon (jget (receipt_event env now q) k)"
  "k \<noteq> ''event_digest'' \<Longrightarrow> jget_or (sealed_receipt env now q) k (JStr '''') = canon (jget_or (receipt_event env now q) k (JStr ''''))"
  by (simp_all add: sealed_receipt_def jget_def jget_or_def dict_get_canon evd.sealed_get split: option.splits)

lemma sealed_receipt_fields [simp]:
  "jget (sealed_receipt env now q) ''intent_id'' = JStr (intent_of env q)"
  "jget_or (sealed_receipt env now q) ''intent_id'' (JStr '''') = JStr (intent_of env q)"
  "jget_or (sealed_receipt env now q) ''payload_digest'' (JStr '''') = JStr (mr_payload_digest q)"
  "jget_or (sealed_receipt env now q) ''recovery_receipt_sha256'' (JStr '''') = JStr (mr_recovery_receipt_sha256 q)"
  "jget_or (sealed_receipt env now q) ''canonical_tool_name'' (JStr '''') = JStr (mr_canonical_tool_name q)"
  "jget_or (sealed_receipt env now q) ''execution_class'' (JStr '''') = JStr (mr_execution_class q)"
  by (simp_all add: sealed_receipt_get) (simp_all add: receipt_event_def jget_def jget_or_def dict_get_def)

lemma wf_sealed_receipt [simp]: "wf_dict (sealed_receipt env now q)"
  by (simp add: sealed_receipt_def)

lemma sealed_receipt_intact: "evd.intact (re_sha env) (sealed_receipt env now q)"
  by (simp add: sealed_receipt_def evd.stored_intact)

lemma load_receipt_lines:
  "load_receipt_by_intent_id (map (\<lambda>r. Entry (JObj r)) rs) i = Inr (next_or_none (\<lambda>r. jget r ''intent_id'' = JStr i) rs)"
  by (induction rs) (simp_all add: next_or_none_def)

lemma payload_get_write: "payload_get (payload_write i p dir) j = (if j = i then Some (canon (JObj p)) else payload_get dir j)"
  by (simp add: payload_get_def payload_write_def dict_get_set)

lemma payload_sha_canon [simp]: "payload_sha env (JObj (canon_dict p)) = payload_sha env (JObj p)"
  by (simp add: payload_sha_def)

lemma receipt_content_light: "content_light FORBIDDEN_RECEIPT_KEYS (receipt_event env now q)"
  by (simp add: content_light_def FORBIDDEN_RECEIPT_KEYS_def receipt_event_def dict_get_def)

lemma append_receipt_cases:
  "append_receipt env ok (receipt_event env now q) ls =
    (if ie_schema_ok env (receipt_event env now q) \<and> ok
     then (ls @ [Entry (JObj (sealed_receipt env now q))], Inr (compute_event_digest (re_sha env) (receipt_event env now q)))
     else (ls, Inl (if ie_schema_ok env (receipt_event env now q) then OSError
                    else ValueError ''Intent receipt failed schema validation'')))"
  by (simp add: append_receipt_def assert_content_light receipt_content_light sealed_receipt_def evd.seal_def)

lemma good_receipt_write:
  assumes "good_receipt env dir r" and "jget r ''intent_id'' \<noteq> JStr i"
  shows "good_receipt env (payload_write i p dir) r"
proof -
  from assms(1) obtain now q v where r: "r = sealed_receipt env now q" "payload_get dir (intent_of env q) = Some v"
    "payload_sha env v = mr_payload_digest q" by (auto simp: good_receipt_def)
  with assms(2) have "payload_get (payload_write i p dir) (intent_of env q) = Some v" by (simp add: payload_get_write)
  with r show ?thesis by (auto simp: good_receipt_def)
qed

lemma materialize_cases:
  assumes "authority_ok env st" and "materialize_intent env io now q st = (st', res)"
  obtains (kept) "st' = st" and "\<And>i. res = Inr i \<Longrightarrow> \<exists>r. load_receipt_by_intent_id (ia_receipts st) (intent_of env q) = Inr (Some r)"
    and "\<And>i. res = Inr i \<Longrightarrow> i = intent_of env q"
    and "\<And>i. res = Inr i \<Longrightarrow> \<exists>v. payload_get (ia_payloads st) (intent_of env q) = Some v \<and> payload_sha env v = mr_payload_digest q"
  | (written) "load_receipt_by_intent_id (ia_receipts st) (intent_of env q) = Inr None"
    and "payload_sha env (JObj (mr_normalized_args q)) = mr_payload_digest q"
    and "ia_payloads st' = payload_write (intent_of env q) (mr_normalized_args q) (ia_payloads st)"
    and "ia_receipts st' = ia_receipts st @ (if is_ok res then [Entry (JObj (sealed_receipt env now q))] else [])"
    and "\<And>i. res = Inr i \<Longrightarrow> i = intent_of env q"
proof -
  from assms(1) obtain found where found: "load_receipt_by_intent_id (ia_receipts st) (intent_of env q) = Inr found"
    by (auto simp: authority_ok_def load_receipt_lines)
  show thesis
  proof (cases "payload_sha env (JObj (mr_normalized_args q)) = mr_payload_digest q \<and> found = None \<and> io \<noteq> Mat_payload_fails")
    case True
    with assms(2) found show ?thesis
      by (intro written) (auto simp: materialize_intent_def append_receipt_cases Let_def split: if_splits)
  next
    case False
    with assms(2) found show ?thesis
      by (intro kept) (auto simp: materialize_intent_def Let_def split: if_splits option.splits)
  qed
qed

lemma written_receipts:
  assumes "ia_receipts st = map (\<lambda>r. Entry (JObj r)) rs" and "\<forall>r \<in> set rs. good_receipt env (ia_payloads st) r"
    and "load_receipt_by_intent_id (ia_receipts st) (intent_of env q) = Inr None"
  shows "\<forall>r \<in> set rs. good_receipt env (payload_write (intent_of env q) p (ia_payloads st)) r"
  using assms by (auto simp: load_receipt_lines next_or_none_None intro!: good_receipt_write)

lemma materialize_keeps_ok:
  assumes ok: "authority_ok env st" and mat: "materialize_intent env io now q st = (st', res)"
  shows "authority_ok env st'"
  using assms
proof (cases rule: materialize_cases)
  case kept
  with ok show ?thesis by simp
next
  case written
  from ok obtain rs where rs: "ia_receipts st = map (\<lambda>r. Entry (JObj r)) rs" "\<forall>r \<in> set rs. good_receipt env (ia_payloads st) r"
    by (auto simp: authority_ok_def)
  have "good_receipt env (ia_payloads st') (sealed_receipt env now q)"
    using written(2,3) by (auto simp: good_receipt_def payload_get_write)
  with written_receipts [OF rs written(1)] written(3,4) rs(1) show ?thesis
    unfolding authority_ok_def
    by (intro exI [of _ "rs @ (if is_ok res then [sealed_receipt env now q] else [])"]) auto
qed

lemma reachable_ok: "intent_reachable env st \<Longrightarrow> authority_ok env st"
  unfolding intent_reachable_def
proof (induction rule: rtranclp_induct)
  case base
  show ?case by (simp add: authority_ok_def)
next
  case (step y z)
  then show ?case by (auto simp: intent_step_def intro: materialize_keeps_ok surjective_pairing)
qed

text \<open>A receipt that is found is good, and loading the intent gives it.\<close>

lemma found_receipt:
  assumes "authority_ok env st" and "load_receipt_by_intent_id (ia_receipts st) i = Inr (Some r)"
  obtains now q v where "r = sealed_receipt env now q" and "i = intent_of env q"
    and "payload_get (ia_payloads st) i = Some v" and "payload_sha env v = mr_payload_digest q"
proof -
  from assms obtain rs where "\<forall>r \<in> set rs. good_receipt env (ia_payloads st) r"
    and "next_or_none (\<lambda>r. jget r ''intent_id'' = JStr i) rs = Some r"
    by (auto simp: authority_ok_def load_receipt_lines)
  then have "good_receipt env (ia_payloads st) r" and "jget r ''intent_id'' = JStr i" by (auto dest: next_or_none_Some)
  with that show thesis by (auto simp: good_receipt_def)
qed

lemma load_intent_found:
  assumes ok: "authority_ok env st"
    and found: "load_receipt_by_intent_id (ia_receipts st) (compute_intent_id env receipt pd) = Inr (Some r)"
  shows "load_intent env receipt pd st = Inr (Some (dict_set ''event_digest'' (JStr (compute_event_digest (re_sha env) r)) r))"
proof -
  from ok found obtain now q v where r: "r = sealed_receipt env now q"
    and v: "payload_get (ia_payloads st) (compute_intent_id env receipt pd) = Some v" "payload_sha env v = mr_payload_digest q"
    by (rule found_receipt)
  have "jget_or r ''event_digest'' (JStr '''') = JStr (compute_event_digest (re_sha env) r)"
    using sealed_receipt_intact [of env now q] r by (simp add: evd.intact_def jget_or_def)
  with found r v show ?thesis by (simp add: load_intent_def Let_def)
qed

lemma step_keeps_receipt:
  assumes ok: "authority_ok env st" and step: "intent_step env st st'"
    and found: "load_receipt_by_intent_id (ia_receipts st) i = Inr (Some r)"
  shows "load_receipt_by_intent_id (ia_receipts st') i = Inr (Some r)"
    and "payload_get (ia_payloads st') i = payload_get (ia_payloads st) i"
proof -
  from step obtain io now q where "st' = fst (materialize_intent env io now q st)" by (auto simp: intent_step_def)
  then obtain res where mat: "materialize_intent env io now q st = (st', res)" by (metis prod.collapse)
  from ok obtain rs where rs: "ia_receipts st = map (\<lambda>r. Entry (JObj r)) rs" by (auto simp: authority_ok_def)
  from ok mat have "load_receipt_by_intent_id (ia_receipts st') i = Inr (Some r) \<and>
      payload_get (ia_payloads st') i = payload_get (ia_payloads st) i"
  proof (cases rule: materialize_cases)
    case kept
    with found show ?thesis by simp
  next
    case written
    have "ia_receipts st' = map (\<lambda>r. Entry (JObj r)) (rs @ (if is_ok res then [sealed_receipt env now q] else []))"
      using written(4) rs by auto
    then have "load_receipt_by_intent_id (ia_receipts st') i = Inr (Some r)"
      using found rs by (simp only: load_receipt_lines) (simp add: next_or_none_append)
    moreover have "intent_of env q \<noteq> i" using written(1) found by auto
    ultimately show ?thesis using written(3) by (simp add: payload_get_write)
  qed
  then show "load_receipt_by_intent_id (ia_receipts st') i = Inr (Some r)"
    "payload_get (ia_payloads st') i = payload_get (ia_payloads st) i" by simp_all
qed

lemma later_keeps_receipt:
  assumes "(intent_step env)\<^sup>*\<^sup>* st st'" and "authority_ok env st"
    and "load_receipt_by_intent_id (ia_receipts st) i = Inr (Some r)"
  shows "authority_ok env st' \<and> load_receipt_by_intent_id (ia_receipts st') i = Inr (Some r) \<and>
    payload_get (ia_payloads st') i = payload_get (ia_payloads st) i"
  using assms
proof (induction rule: rtranclp_induct)
  case (step y z)
  then have ok: "authority_ok env y" and "load_receipt_by_intent_id (ia_receipts y) i = Inr (Some r)" by simp_all
  moreover have "authority_ok env z"
    using ok step.hyps(2) materialize_keeps_ok by (metis intent_step_def prod.collapse)
  ultimately show ?case using step step_keeps_receipt [OF ok step.hyps(2)] by simp
qed simp

lemma materialized:
  assumes ok: "authority_ok env st" and mat: "materialize_intent env io now q st = (st', Inr i)"
  obtains r v where "i = intent_of env q" and "load_receipt_by_intent_id (ia_receipts st') i = Inr (Some r)"
    and "payload_get (ia_payloads st') i = Some v" and "payload_sha env v = mr_payload_digest q"
  using assms
proof (cases rule: materialize_cases)
  case kept
  then show ?thesis using that by blast
next
  case written
  from ok obtain rs where "ia_receipts st = map (\<lambda>r. Entry (JObj r)) rs" by (auto simp: authority_ok_def)
  then have rs: "ia_receipts st' = map (\<lambda>r. Entry (JObj r)) (rs @ [sealed_receipt env now q])"
    and "next_or_none (\<lambda>r. jget r ''intent_id'' = JStr (intent_of env q)) rs = None"
    using written(1,4) by (simp_all add: load_receipt_lines)
  then have "load_receipt_by_intent_id (ia_receipts st') (intent_of env q) = Inr (Some (sealed_receipt env now q))"
    by (simp only: rs load_receipt_lines next_or_none_append_None) (simp add: next_or_none_def)
  then show ?thesis using that [of "sealed_receipt env now q"] written by (simp add: payload_get_write)
qed

section \<open>Properties\<close>

text \<open>C27: A materialized intent is there to stay.  Whatever materializations follow, with any requests
  and failures, the payload of the intent reads back as the arguments it was materialized with, the
  receipt loads and never changes, and both queries report it as materialized.  The digest is
  asked not to collide on these arguments.\<close>

theorem materialized_intent_immutable:
  fixes q env i defines "receipt \<equiv> mr_recovery_receipt_sha256 q" and "pd \<equiv> mr_payload_digest q"
  assumes "intent_reachable env st" and "materialize_intent env io now q st = (st1, Inr i)"
    and "(intent_step env)\<^sup>*\<^sup>* st1 st2"
    and no_collision: "\<And>v. payload_sha env v = payload_sha env (JObj (mr_normalized_args q)) \<Longrightarrow> canon v = canon (JObj (mr_normalized_args q))"
  shows "map_option canon (retrieve_payload env i (JStr pd) st2) = Some (canon (JObj (mr_normalized_args q))) \<and>
    (\<exists>x. load_intent env receipt pd st1 = Inr (Some x) \<and> load_intent env receipt pd st2 = Inr (Some x) \<and>
      jget_or x ''payload_digest'' (JStr '''') = JStr pd) \<and>
    (\<exists>a b. query_by_handoff_binding env receipt pd st2 = Inr a \<and> query_by_intent_id env i st2 = Inr b \<and>
      iq_status a = ''materialized'' \<and> iq_status b = ''materialized'' \<and> iq_payload_retrievable a \<and> iq_payload_retrievable b)"
proof -
  have ok: "authority_ok env st" using assms(3) by (rule reachable_ok)
  obtain r v where mat: "i = intent_of env q" "load_receipt_by_intent_id (ia_receipts st1) i = Inr (Some r)"
    "payload_get (ia_payloads st1) i = Some v" "payload_sha env v = mr_payload_digest q"
    using ok assms(4) by (rule materialized)
  have ok1: "authority_ok env st1" using ok assms(4) by (rule materialize_keeps_ok)
  note later = later_keeps_receipt [OF assms(5) ok1 mat(2)]
  then have ok2: "authority_ok env st2" and r2: "load_receipt_by_intent_id (ia_receipts st2) i = Inr (Some r)"
    and v2: "payload_get (ia_payloads st2) i = Some v" using mat(3) by simp_all
  have args: "payload_sha env (JObj (mr_normalized_args q)) = pd"
    using assms(4) by (simp add: materialize_intent_def pd_def split: if_splits)
  have retrieved: "retrieve_payload env i (JStr pd) st2 = Some v" using v2 mat(4) by (simp add: retrieve_payload_def pd_def)
  obtain now' q' v' where r: "r = sealed_receipt env now' q'" "i = intent_of env q'" "payload_get (ia_payloads st2) i = Some v'"
    "payload_sha env v' = mr_payload_digest q'" using found_receipt [OF ok2 r2] .
  then have pd': "mr_payload_digest q' = pd" using v2 mat(4) by (simp add: pd_def)
  note load1 = load_intent_found [OF ok1, of receipt pd r] load_intent_found [OF ok2, of receipt pd r]
  have l1: "load_intent env receipt pd st1 = Inr (Some (dict_set ''event_digest'' (JStr (compute_event_digest (re_sha env) r)) r))"
    and l2: "load_intent env receipt pd st2 = Inr (Some (dict_set ''event_digest'' (JStr (compute_event_digest (re_sha env) r)) r))"
    using load1 mat(1,2) r2 by (simp_all add: receipt_def pd_def)
  have l2': "load_intent env (mr_recovery_receipt_sha256 q') pd st2 =
      Inr (Some (dict_set ''event_digest'' (JStr (compute_event_digest (re_sha env) r)) r))"
    using load_intent_found [OF ok2, of "mr_recovery_receipt_sha256 q'" pd r] r2 r(2) pd' by simp
  have "canon v = canon (JObj (mr_normalized_args q))" using no_collision mat(4) args by (simp add: pd_def)
  moreover have "\<exists>a. query_by_handoff_binding env receipt pd st2 = Inr a \<and> iq_status a = ''materialized'' \<and> iq_payload_retrievable a"
    using l2 retrieved mat(1) by (simp add: query_by_handoff_binding_def bound_query_result_def receipt_def pd_def)
  moreover have "\<exists>b. query_by_intent_id env i st2 = Inr b \<and> iq_status b = ''materialized'' \<and> iq_payload_retrievable b"
    using r2 r(1) l2' pd' retrieved by (simp add: query_by_intent_id_def bound_query_result_def py_str_def Let_def)
  moreover have "jget_or (dict_set ''event_digest'' (JStr (compute_event_digest (re_sha env) r)) r) ''payload_digest'' (JStr '''') = JStr pd"
    using r(1) pd' by (simp add: jget_or_set)
  ultimately show ?thesis using retrieved l1 l2 by blast
qed

text \<open>A first materialization with the right digest and a receipt that the schema accepts records
  the request: the loaded receipt carries its tool, execution class, receipt and payload digest, and
  an intact seal.  When the receipt cannot be written, the call raises but the payload stays
  behind: the intent exists and its payload is retrievable, while loading finds no intent.\<close>

theorem first_materialization_decides:
  fixes q env now st defines "receipt \<equiv> mr_recovery_receipt_sha256 q" and "pd \<equiv> mr_payload_digest q"
  assumes "intent_reachable env st" and "load_intent env receipt pd st = Inr None"
    and "payload_sha env (JObj (mr_normalized_args q)) = pd" and "io \<noteq> Mat_payload_fails"
    and "materialize_intent env io now q st = (st', res)"
  shows "if ie_schema_ok env (receipt_event env now q) \<and> io = Mat_ok
    then res = Inr (intent_of env q) \<and> (\<exists>x. load_intent env receipt pd st' = Inr (Some x) \<and>
      jget_or x ''canonical_tool_name'' (JStr '''') = JStr (mr_canonical_tool_name q) \<and>
      jget_or x ''execution_class'' (JStr '''') = JStr (mr_execution_class q) \<and>
      jget_or x ''event_digest'' (JStr '''') = JStr (compute_event_digest (re_sha env) x))
    else \<not> is_ok res \<and> intent_exists env receipt pd st' \<and>
      retrieve_payload env (intent_of env q) (JStr pd) st' = Some (canon (JObj (mr_normalized_args q))) \<and>
      load_intent env receipt pd st' = Inr None"
proof -
  have ok: "authority_ok env st" using assms(3) by (rule reachable_ok)
  then obtain rs where rs: "ia_receipts st = map (\<lambda>r. Entry (JObj r)) rs" by (auto simp: authority_ok_def)
  have none: "load_receipt_by_intent_id (ia_receipts st) (intent_of env q) = Inr None"
  proof (cases "next_or_none (\<lambda>r. jget r ''intent_id'' = JStr (intent_of env q)) rs")
    case (Some r)
    with load_intent_found [OF ok, of receipt pd r] rs assms(4) show ?thesis
      by (simp add: load_receipt_lines receipt_def pd_def)
  qed (simp add: rs load_receipt_lines)
  have st': "st' = \<lparr>ia_payloads = payload_write (intent_of env q) (mr_normalized_args q) (ia_payloads st),
      ia_receipts = ia_receipts st @
        (if ie_schema_ok env (receipt_event env now q) \<and> io = Mat_ok then [Entry (JObj (sealed_receipt env now q))] else [])\<rparr>"
    and res: "is_ok res \<longleftrightarrow> ie_schema_ok env (receipt_event env now q) \<and> io = Mat_ok" "is_ok res \<Longrightarrow> res = Inr (intent_of env q)"
    using assms(5-7) none by (auto simp: materialize_intent_def append_receipt_cases pd_def Let_def split: if_splits)
  have ok': "authority_ok env st'" using ok assms(7) by (rule materialize_keeps_ok)
  show ?thesis
  proof (cases "ie_schema_ok env (receipt_event env now q) \<and> io = Mat_ok")
    case True
    have "ia_receipts st' = map (\<lambda>r. Entry (JObj r)) (rs @ [sealed_receipt env now q])" using st' True rs by simp
    then have "load_receipt_by_intent_id (ia_receipts st') (intent_of env q) = Inr (Some (sealed_receipt env now q))"
      using none rs by (simp only: load_receipt_lines next_or_none_append_None Inr_inject) (simp add: next_or_none_def)
    then have "load_intent env receipt pd st' =
        Inr (Some (dict_set ''event_digest'' (JStr (compute_event_digest (re_sha env) (sealed_receipt env now q))) (sealed_receipt env now q)))"
      using load_intent_found [OF ok'] by (simp add: receipt_def pd_def)
    with True res show ?thesis by (simp add: jget_or_set evd.digest_ignores_field)
  next
    case False
    have "st' = \<lparr>ia_payloads = payload_write (intent_of env q) (mr_normalized_args q) (ia_payloads st), ia_receipts = ia_receipts st\<rparr>"
      unfolding st' if_not_P [OF False] by simp
    then have "load_intent env receipt pd st' = Inr None \<and> intent_exists env receipt pd st' \<and>
        retrieve_payload env (intent_of env q) (JStr pd) st' = Some (canon (JObj (mr_normalized_args q)))"
      using none assms(5)
      by (simp add: load_intent_def intent_exists_def payload_exists_def payload_write_def payload_get_def retrieve_payload_def
          dict_get_set receipt_def pd_def)
    with False res(1) show ?thesis unfolding if_not_P [OF False] by blast
  qed
qed

text \<open>A materialized intent is not bound to what it was materialized for beyond its receipt
  digest and arguments: a second request with the same two succeeds and changes nothing, whatever
  tool, execution class, paths or profile it names.\<close>

theorem rematerialization_ignores_tool:
  assumes "intent_reachable env st" and "materialize_intent env io now q st = (st1, Inr i)"
    and "mr_recovery_receipt_sha256 q' = mr_recovery_receipt_sha256 q" and "mr_normalized_args q' = mr_normalized_args q"
    and "mr_payload_digest q' = mr_payload_digest q"
  shows "materialize_intent env io' now' q' st1 = (st1, Inr i)"
proof -
  obtain r v where mat: "i = intent_of env q" "load_receipt_by_intent_id (ia_receipts st1) i = Inr (Some r)"
    "payload_get (ia_payloads st1) i = Some v" "payload_sha env v = mr_payload_digest q"
    using reachable_ok [OF assms(1)] assms(2) by (rule materialized)
  moreover have "payload_sha env (JObj (mr_normalized_args q)) = mr_payload_digest q"
    using assms(2) by (simp add: materialize_intent_def split: if_splits)
  ultimately show ?thesis using assms(3-5) by (simp add: materialize_intent_def Let_def)
qed

text \<open>An edit of one receipt of the ledger that names another tool and takes the seal away.\<close>

definition edit_receipt :: "string \<Rightarrow> string \<Rightarrow> jdict \<Rightarrow> jdict" where
  "edit_receipt i tool r =
    (if jget r ''intent_id'' = JStr i then dict_set ''canonical_tool_name'' (JStr tool) (dict_pop ''event_digest'' r) else r)"

text \<open>The seal of an intent receipt can be taken away: after any materialization, a ledger edited
  to name another tool, with the digest removed from the line, loads as a valid intent for that tool
  with a freshly computed digest.\<close>

theorem unsealed_receipt_accepted:
  assumes "intent_reachable env st" and "load_receipt_by_intent_id (ia_receipts st) (compute_intent_id env receipt pd) = Inr (Some r)"
    and "ia_receipts st = map (\<lambda>r. Entry (JObj r)) rs"
  shows "\<exists>x. load_intent env receipt pd
      (st\<lparr>ia_receipts := map (\<lambda>r. Entry (JObj (edit_receipt (compute_intent_id env receipt pd) tool r))) rs\<rparr>) = Inr (Some x) \<and>
    jget x ''canonical_tool_name'' = JStr tool \<and> jget x ''event_digest'' = JStr (compute_event_digest (re_sha env) x)"
proof -
  let ?i = "compute_intent_id env receipt pd"
  have "next_or_none (\<lambda>r. jget r ''intent_id'' = JStr ?i) (map (edit_receipt ?i tool) xs) =
      map_option (edit_receipt ?i tool) (next_or_none (\<lambda>r. jget r ''intent_id'' = JStr ?i) xs)" for xs
    by (induction xs) (auto simp: next_or_none_def edit_receipt_def jget_def dict_get_set dict_get_pop)
  then have found: "load_receipt_by_intent_id (map (\<lambda>r. Entry (JObj (edit_receipt ?i tool r))) rs) ?i = Inr (Some (edit_receipt ?i tool r))"
    using assms(2,3) load_receipt_lines [of "map (edit_receipt ?i tool) rs" ?i] by (simp add: load_receipt_lines comp_def)
  obtain now q v where r: "r = sealed_receipt env now q" "?i = intent_of env q" "payload_get (ia_payloads st) ?i = Some v"
    "payload_sha env v = mr_payload_digest q" using found_receipt [OF reachable_ok [OF assms(1)] assms(2)] .
  let ?x = "edit_receipt ?i tool r"
  have x: "?x = dict_set ''canonical_tool_name'' (JStr tool) (dict_pop ''event_digest'' r)" using r by (simp add: edit_receipt_def)
  then have "dict_get ?x ''event_digest'' = None" and wf: "wf_dict ?x" and pd: "jget_or ?x ''payload_digest'' (JStr '''') = JStr (mr_payload_digest q)"
    using r(1) sealed_receipt_fields(3) [of env now q] by (simp_all add: dict_get_set dict_get_pop jget_or_def)
  with found r(3,4) have "load_intent env receipt pd (st\<lparr>ia_receipts := map (\<lambda>r. Entry (JObj (edit_receipt ?i tool r))) rs\<rparr>) =
      Inr (Some (dict_set ''event_digest'' (JStr (compute_event_digest (re_sha env) ?x)) ?x))"
    by (simp add: load_intent_def Let_def jget_or_def [of ?x "''event_digest''"])
  with wf x show ?thesis by (simp add: jget_set evd.digest_ignores_field)
qed

section \<open>Examples\<close>

definition demo_json_sha :: "json \<Rightarrow> string" where
  "demo_json_sha v =
    (if v = JObj [] then ''d''
     else case v of JObj d \<Rightarrow> (case jget d ''canonical_tool_name'' of JStr s \<Rightarrow> ''x'' @ s | _ \<Rightarrow> ''x'') | _ \<Rightarrow> ''x'')"

definition demo_intent_env :: intent_env where
  "demo_intent_env = \<lparr>re_sha = demo_json_sha, re_str = (\<lambda>v. ''''), ie_text_sha = id, ie_schema_ok = (\<lambda>e. True)\<rparr>"

definition demo_request :: "string \<Rightarrow> MaterializationRequest" where
  "demo_request tool =
    \<lparr>mr_recovery_receipt_sha256 = ''r'', mr_payload_digest = ''d'', mr_manifest_digest = ''m'', mr_canonical_tool_name = tool,
     mr_normalized_args = [], mr_execution_class = ''read_only'', mr_correlation_id = '''', mr_validation_profile = None,
     mr_bounded_paths = None, mr_mutation_class = None, mr_materialization_kind = ''pre_handoff''\<rparr>"

definition demo_empty_authority :: DurableRecoveryIntentAuthority where
  "demo_empty_authority = \<lparr>ia_payloads = [], ia_receipts = []\<rparr>"

definition demo_authority :: DurableRecoveryIntentAuthority where
  "demo_authority =
    \<lparr>ia_payloads = [(''r|d'', FileJson (JObj []))],
     ia_receipts = [Entry (JObj (sealed_receipt demo_intent_env 7 (demo_request ''read_file'')))]\<rparr>"

lemma demo_materialized:
  "materialize_intent demo_intent_env Mat_ok 7 (demo_request ''read_file'') demo_empty_authority = (demo_authority, Inr ''r|d'')"
  by (simp add: materialize_intent_def append_receipt_cases demo_intent_env_def demo_request_def demo_empty_authority_def demo_authority_def
      payload_sha_def demo_json_sha_def compute_intent_id_def payload_write_def dict_set_def canon_dict_def Let_def)

lemma demo_intents_reachable: "intent_reachable demo_intent_env demo_empty_authority" "intent_reachable demo_intent_env demo_authority"
proof -
  show "intent_reachable demo_intent_env demo_empty_authority" by (simp add: intent_reachable_def demo_empty_authority_def)
  have "intent_step demo_intent_env demo_empty_authority demo_authority"
    unfolding intent_step_def using demo_materialized by (metis fst_conv)
  then show "intent_reachable demo_intent_env demo_authority"
    by (auto simp: intent_reachable_def demo_empty_authority_def)
qed

theorem evidence_ledger_round_trip_witness:
  "\<exists>new. load_events demo_json_sha (append_all demo_json_sha [[(''case_id'', JStr ''c'')], [(''case_id'', JStr ''d'')]] []) = Inr new \<and>
    length new = 2"
proof -
  have "\<forall>e \<in> set [[(''case_id'', JStr ''c'')], [(''case_id'', JStr ''d'')]]. wf_dict e \<and> content_light FORBIDDEN_EVENT_KEYS e"
    by (simp add: wf_dict_def content_light_def FORBIDDEN_EVENT_KEYS_def dict_get_def)
  from evidence_ledger_round_trip [OF _ this, of demo_json_sha "[]" "[]"] show ?thesis
    by (auto dest: arg_cong [where f = length])
qed

theorem edited_event_accepted_without_digest_witness:
  "load_events demo_json_sha [Entry (JObj [(''canonical_tool_name'', JStr ''b'')])] =
    Inr [[(''canonical_tool_name'', JStr ''b''), (''event_digest'', JStr ''xb'')]]"
  using edited_event_accepted_without_digest [of "[(''canonical_tool_name'', JStr ''a'')]" "''canonical_tool_name''" demo_json_sha "[]" "[]" "JStr ''b''"]
  by (simp add: wf_dict_def dict_get_def dict_set_def dict_pop_def compute_event_digest_def canon_dict_def demo_json_sha_def jget_def)

lemma demo_no_collision:
  "payload_sha demo_intent_env v = payload_sha demo_intent_env (JObj []) \<Longrightarrow> canon v = canon (JObj [])"
  by (auto simp: payload_sha_def demo_intent_env_def demo_json_sha_def canon_dict_def split: json.splits if_splits)

theorem materialized_intent_immutable_witness:
  "map_option canon (retrieve_payload demo_intent_env ''r|d'' (JStr ''d'')
      (fst (materialize_intent demo_intent_env Mat_ok 9 (demo_request ''bash'') demo_authority))) = Some (JObj [])"
proof -
  have "(intent_step demo_intent_env)\<^sup>*\<^sup>* demo_authority (fst (materialize_intent demo_intent_env Mat_ok 9 (demo_request ''bash'') demo_authority))"
    by (rule r_into_rtranclp) (auto simp: intent_step_def)
  from materialized_intent_immutable [OF demo_intents_reachable(1) demo_materialized this] demo_no_collision
  show ?thesis by (auto simp: demo_request_def canon_dict_def)
qed

theorem first_materialization_decides_witness:
  "intent_exists demo_intent_env ''r'' ''d'' (fst (materialize_intent demo_intent_env Mat_receipt_fails 7 (demo_request ''bash'') demo_empty_authority)) \<and>
   load_intent demo_intent_env ''r'' ''d'' (fst (materialize_intent demo_intent_env Mat_receipt_fails 7 (demo_request ''bash'') demo_empty_authority)) = Inr None"
proof -
  obtain st' res where mat: "materialize_intent demo_intent_env Mat_receipt_fails 7 (demo_request ''bash'') demo_empty_authority = (st', res)"
    by fastforce
  have "load_intent demo_intent_env (mr_recovery_receipt_sha256 (demo_request ''bash'')) (mr_payload_digest (demo_request ''bash''))
      demo_empty_authority = Inr None" by (simp add: load_intent_def demo_empty_authority_def)
  moreover have "payload_sha demo_intent_env (JObj (mr_normalized_args (demo_request ''bash''))) = mr_payload_digest (demo_request ''bash'')"
    by (simp add: demo_request_def payload_sha_def demo_intent_env_def demo_json_sha_def canon_dict_def)
  ultimately show ?thesis using first_materialization_decides [OF demo_intents_reachable(1) _ _ _ mat] mat by (simp add: demo_request_def)
qed

theorem rematerialization_ignores_tool_witness:
  "materialize_intent demo_intent_env Mat_ok 9 (demo_request ''bash'') demo_authority = (demo_authority, Inr ''r|d'')"
  by (rule rematerialization_ignores_tool [OF demo_intents_reachable(1) demo_materialized]) (simp_all add: demo_request_def)

theorem unsealed_receipt_accepted_witness:
  "\<exists>x. load_intent demo_intent_env ''r'' ''d'' (demo_authority\<lparr>ia_receipts :=
      [Entry (JObj (edit_receipt ''r|d'' ''bash'' (sealed_receipt demo_intent_env 7 (demo_request ''read_file''))))]\<rparr>) = Inr (Some x) \<and>
    jget x ''canonical_tool_name'' = JStr ''bash''"
proof -
  let ?r = "sealed_receipt demo_intent_env 7 (demo_request ''read_file'')"
  have i: "compute_intent_id demo_intent_env ''r'' ''d'' = ''r|d''" by (simp add: compute_intent_id_def demo_intent_env_def)
  have "load_receipt_by_intent_id (ia_receipts demo_authority) (compute_intent_id demo_intent_env ''r'' ''d'') = Inr (Some ?r)"
    by (simp add: demo_authority_def i) (simp add: demo_request_def i)
  moreover have "ia_receipts demo_authority = map (\<lambda>r. Entry (JObj r)) [?r]" by (simp add: demo_authority_def)
  ultimately show ?thesis
    using unsealed_receipt_accepted [OF demo_intents_reachable(2), of "''r''" "''d''" ?r "[?r]" "''bash''"] by (auto simp: i)
qed

end
