(* ===== verification/Disclosure_Authorization.thy ===== *)
theory Disclosure_Authorization
  imports Json_Values Relay_Interfaces
begin

text \<open>
  Disclosure authorizations, \<^verbatim>\<open>rig_relay/governance/disclosure_authorization.py\<close>: receipts for the
  temporary disclosure of one piece of evidence, issued, validated and consumed.  A file of the
  store cannot be read as JSON, holds JSON that is no receipt, or holds a receipt.  \<open>sha\<close> is the
  digest of a receipt's canonical JSON; the identifier, the clock and the failure of writes are
  arguments; the texts for people are left out.
\<close>

section \<open>Receipts\<close>

definition DISCLOSURE_CLASSES :: "string list" where
  "DISCLOSURE_CLASSES =
    [''path_identity'', ''path_inventory'', ''branch_identity'', ''branch_enumeration'', ''commit_subject'', ''commit_body'',
     ''commit_patch'', ''metadata_disclosure'', ''raw_content'']"

definition RESTRICTED_DISCLOSURE_CLASSES :: "string list" where
  "RESTRICTED_DISCLOSURE_CLASSES = [''raw_content'', ''commit_patch'']"

record DisclosureAuthorizationReceipt =
  da_schema_version :: string
  da_authorization_id :: string
  da_created_at :: timestamp
  da_evidence_digest :: string
  da_disclosure_class :: string
  da_requested_selector :: "string option"
  da_actor_identity :: string
  da_producer_identity :: string
  da_purpose :: string
  da_issued_at :: timestamp
  da_expires_at :: timestamp
  da_one_time :: bool
  da_max_uses :: int
  da_use_count :: int
  da_consumed :: bool
  da_receipt_sha256 :: string

type_synonym dza_hash = "DisclosureAuthorizationReceipt \<Rightarrow> string"

definition dza_recompute_integrity :: "dza_hash \<Rightarrow> DisclosureAuthorizationReceipt \<Rightarrow> string" where
  "dza_recompute_integrity sha r = sha (r\<lparr>da_receipt_sha256 := ''''\<rparr>)"

definition dza_seal :: "dza_hash \<Rightarrow> DisclosureAuthorizationReceipt \<Rightarrow> DisclosureAuthorizationReceipt" where
  "dza_seal sha r = r\<lparr>da_receipt_sha256 := dza_recompute_integrity sha r\<rparr>"

definition dza_verify_integrity :: "dza_hash \<Rightarrow> DisclosureAuthorizationReceipt \<Rightarrow> bool" where
  "dza_verify_integrity sha r \<longleftrightarrow> da_receipt_sha256 r = dza_recompute_integrity sha r"

section \<open>Outcomes and the store\<close>

datatype DisclosureOutcome =
    DO_ISSUED | DO_VALID | DO_EXPIRED | DO_CONSUMED | DO_EVIDENCE_MISMATCH | DO_UNSUPPORTED_CLASS | DO_CLASS_MISMATCH
  | DO_SELECTOR_MISMATCH | DO_SELECTOR_UNAUTHORIZED | DO_SELECTOR_REQUIRED_CLASS_MISMATCH | DO_NOT_FOUND | DO_CORRUPT
  | DO_ALREADY_CONSUMED | DO_ALREADY_EXPIRED | DO_UNKNOWN

record DisclosureResult =
  dx_outcome :: DisclosureOutcome
  dx_authorization_id :: string
  dx_receipt :: "DisclosureAuthorizationReceipt option"

definition dza_is_authorized :: "DisclosureResult \<Rightarrow> bool" where
  "dza_is_authorized res \<longleftrightarrow> dx_outcome res \<in> {DO_ISSUED, DO_VALID}"

definition dza_result :: "DisclosureOutcome \<Rightarrow> string \<Rightarrow> DisclosureAuthorizationReceipt option \<Rightarrow> DisclosureResult" where
  "dza_result out i r = \<lparr>dx_outcome = out, dx_authorization_id = i, dx_receipt = r\<rparr>"

datatype dza_file = DF_unreadable | DF_invalid | DF_receipt DisclosureAuthorizationReceipt

type_synonym dza_store = "(string, dza_file) dict"

text \<open>JSON that is no receipt raises: the validation error is not caught.\<close>

definition dza_load_receipt :: "dza_store \<Rightarrow> string \<Rightarrow> DisclosureAuthorizationReceipt option result" where
  "dza_load_receipt st i =
    (case dict_get st i of
       None \<Rightarrow> Inr None
     | Some DF_unreadable \<Rightarrow> Inr None
     | Some DF_invalid \<Rightarrow> Inl ValidationError
     | Some (DF_receipt r) \<Rightarrow> Inr (Some r))"

definition dza_write :: "DisclosureAuthorizationReceipt \<Rightarrow> dza_store \<Rightarrow> dza_store" where
  "dza_write r st = dict_set (da_authorization_id r) (DF_receipt r) st"

section \<open>Issue\<close>

record dza_request =
  dq_evidence_digest :: string
  dq_disclosure_class :: string
  dq_requested_selector :: "string option"
  dq_actor_identity :: string
  dq_producer_identity :: string
  dq_purpose :: string
  dq_ttl_minutes :: int
  dq_one_time :: bool
  dq_max_uses :: int

definition dza_new_receipt :: "int \<Rightarrow> string \<Rightarrow> dza_request \<Rightarrow> timestamp \<Rightarrow> DisclosureAuthorizationReceipt" where
  "dza_new_receipt now i q expires =
    \<lparr>da_schema_version = ''rig.relay.disclosure_authorization_receipt.v1'', da_authorization_id = i, da_created_at = Aware now,
     da_evidence_digest = dq_evidence_digest q, da_disclosure_class = dq_disclosure_class q,
     da_requested_selector = dq_requested_selector q, da_actor_identity = dq_actor_identity q,
     da_producer_identity = dq_producer_identity q, da_purpose = dq_purpose q, da_issued_at = Aware now, da_expires_at = expires,
     da_one_time = dq_one_time q, da_max_uses = dq_max_uses q, da_use_count = 0, da_consumed = False, da_receipt_sha256 = ''''\<rparr>"

definition issue_disclosure_authorization ::
  "dza_hash \<Rightarrow> bool \<Rightarrow> int \<Rightarrow> string \<Rightarrow> dza_request \<Rightarrow> dza_store \<Rightarrow> dza_store \<times> DisclosureResult result" where
  "issue_disclosure_authorization sha write_ok now i q st =
    (if dq_disclosure_class q \<notin> set DISCLOSURE_CLASSES then (st, Inr (dza_result DO_UNSUPPORTED_CLASS '''' None))
     else case add_seconds (AwareDT now) (60 * dq_ttl_minutes q) of
       Inl err \<Rightarrow> (st, Inl err)
     | Inr expires \<Rightarrow>
        let r = dza_seal sha (dza_new_receipt now i q (isoformat expires)) in
        if write_ok then (dza_write r st, Inr (dza_result DO_ISSUED i (Some r)))
        else (st, Inr (dza_result DO_UNKNOWN '''' None)))"

section \<open>Validation\<close>

record dza_context =
  dc_evidence_digest :: "string option"
  dc_disclosure_class :: "string option"
  dc_selector_digest :: "string option"
  dc_required_selector_class :: "string option"

text \<open>The truth of an optional string, and \<^verbatim>\<open>x and actual != x\<close>.\<close>

definition given :: "string option \<Rightarrow> bool" where
  "given x \<longleftrightarrow> x \<noteq> None \<and> x \<noteq> Some ''''"

definition given_other :: "string option \<Rightarrow> string \<Rightarrow> bool" where
  "given_other x actual \<longleftrightarrow> given x \<and> x \<noteq> Some actual"

definition exhausted :: "DisclosureAuthorizationReceipt \<Rightarrow> bool" where
  "exhausted r \<longleftrightarrow> (da_one_time r \<and> da_consumed r) \<or> (\<not> da_one_time r \<and> da_use_count r \<ge> da_max_uses r)"

definition scope_refusal :: "dza_context \<Rightarrow> DisclosureAuthorizationReceipt \<Rightarrow> DisclosureOutcome option" where
  "scope_refusal c r =
    (if \<not> given (dc_disclosure_class c) \<and> \<not> given (dc_selector_digest c) then None
     else if given_other (dc_disclosure_class c) (da_disclosure_class r) then Some DO_CLASS_MISMATCH
     else if given (da_requested_selector r) \<noteq> given (dc_selector_digest c) then Some DO_SELECTOR_UNAUTHORIZED
     else if given (dc_selector_digest c) \<and> da_requested_selector r \<noteq> dc_selector_digest c then Some DO_SELECTOR_MISMATCH
     else None)"

definition required_class_refusal :: "dza_context \<Rightarrow> DisclosureAuthorizationReceipt \<Rightarrow> DisclosureOutcome option" where
  "required_class_refusal c r =
    (if \<not> given (dc_required_selector_class c) then None
     else if Some (da_disclosure_class r) \<noteq> dc_required_selector_class c then Some DO_SELECTOR_REQUIRED_CLASS_MISMATCH
     else if given (dc_disclosure_class c) \<and> dc_disclosure_class c \<noteq> dc_required_selector_class c
     then Some DO_SELECTOR_REQUIRED_CLASS_MISMATCH
     else None)"

text \<open>The checks of a loaded receipt in source order; the flag says whether the receipt is returned.\<close>

definition dza_refusal :: "dza_hash \<Rightarrow> int \<Rightarrow> dza_context \<Rightarrow> DisclosureAuthorizationReceipt \<Rightarrow> (DisclosureOutcome \<times> bool) option" where
  "dza_refusal sha now c r =
    (if \<not> dza_verify_integrity sha r then Some (DO_CORRUPT, False)
     else case stamp_expired (da_expires_at r) now of
       Inl err \<Rightarrow> Some (DO_CORRUPT, False)
     | Inr True \<Rightarrow> Some (DO_EXPIRED, True)
     | Inr False \<Rightarrow>
        if exhausted r then Some (DO_ALREADY_CONSUMED, True)
        else if given_other (dc_evidence_digest c) (da_evidence_digest r) then Some (DO_EVIDENCE_MISMATCH, True)
        else if da_disclosure_class r \<notin> set DISCLOSURE_CLASSES then Some (DO_UNSUPPORTED_CLASS, True)
        else case scope_refusal c r of
          Some out \<Rightarrow> Some (out, True)
        | None \<Rightarrow> map_option (\<lambda>out. (out, True)) (required_class_refusal c r))"

definition validate_disclosure_authorization ::
  "dza_hash \<Rightarrow> int \<Rightarrow> string \<Rightarrow> dza_context \<Rightarrow> dza_store \<Rightarrow> DisclosureResult result" where
  "validate_disclosure_authorization sha now i c st =
    and_then (dza_load_receipt st i) (\<lambda>loaded. Inr
      (case loaded of
         None \<Rightarrow> dza_result DO_NOT_FOUND i None
       | Some r \<Rightarrow>
          (case dza_refusal sha now c r of
             Some (out, shown) \<Rightarrow> dza_result out (da_authorization_id r) (if shown then Some r else None)
           | None \<Rightarrow> dza_result DO_VALID (da_authorization_id r) (Some r))))"

definition check_disclosure_replay :: "dza_hash \<Rightarrow> int \<Rightarrow> string \<Rightarrow> string option \<Rightarrow> dza_store \<Rightarrow> DisclosureResult result" where
  "check_disclosure_replay sha now i evidence st =
    validate_disclosure_authorization sha now i
      \<lparr>dc_evidence_digest = evidence, dc_disclosure_class = None, dc_selector_digest = None, dc_required_selector_class = None\<rparr> st"

section \<open>Consumption\<close>

definition use_receipt :: "dza_hash \<Rightarrow> DisclosureAuthorizationReceipt \<Rightarrow> DisclosureAuthorizationReceipt" where
  "use_receipt sha r =
    dza_seal sha (if da_one_time r then r\<lparr>da_consumed := True\<rparr> else r\<lparr>da_use_count := da_use_count r + 1\<rparr>)"

text \<open>The part under the lock, where everything is validated again.\<close>

definition dza_consume_locked ::
  "dza_hash \<Rightarrow> bool \<Rightarrow> int \<Rightarrow> string \<Rightarrow> dza_context \<Rightarrow> dza_store \<Rightarrow> dza_store \<times> DisclosureResult result" where
  "dza_consume_locked sha write_ok now i c st =
    (case dza_load_receipt st i of
       Inl err \<Rightarrow> (st, Inl err)
     | Inr None \<Rightarrow> (st, Inr (dza_result DO_CORRUPT i None))
     | Inr (Some r0) \<Rightarrow>
        if \<not> dza_verify_integrity sha r0 then (st, Inr (dza_result DO_CORRUPT i None))
        else if exhausted r0 then (st, Inr (dza_result DO_ALREADY_CONSUMED (da_authorization_id r0) (Some r0)))
        else case validate_disclosure_authorization sha now i c st of
          Inl err \<Rightarrow> (st, Inl err)
        | Inr scope_valid \<Rightarrow>
           (case (dza_is_authorized scope_valid, dx_receipt scope_valid) of
              (True, Some r) \<Rightarrow>
                if \<not> write_ok then (st, Inl OSError)
                else
                  let r1 = use_receipt sha r; st' = dza_write r1 st in
                  (st', and_then (dza_load_receipt st' (da_authorization_id r)) (\<lambda>reloaded. Inr
                     (case reloaded of
                        None \<Rightarrow> dza_result DO_CORRUPT (da_authorization_id r) None
                      | Some final \<Rightarrow>
                         if \<not> dza_verify_integrity sha final then dza_result DO_CORRUPT (da_authorization_id r) None
                         else if da_one_time r1 \<and> \<not> da_consumed final then dza_result DO_CORRUPT (da_authorization_id r) None
                         else dza_result DO_CONSUMED (da_authorization_id r) (Some final))))
            | _ \<Rightarrow> (st, Inr scope_valid)))"

definition consume_disclosure_authorization ::
  "dza_hash \<Rightarrow> bool \<Rightarrow> int \<Rightarrow> int \<Rightarrow> string \<Rightarrow> dza_context \<Rightarrow> dza_store \<Rightarrow> dza_store \<times> DisclosureResult result" where
  "consume_disclosure_authorization sha write_ok now now_locked i c st =
    (case validate_disclosure_authorization sha now i c st of
       Inl err \<Rightarrow> (st, Inl err)
     | Inr valid \<Rightarrow>
        if \<not> dza_is_authorized valid then (st, Inr valid)
        else dza_consume_locked sha write_ok now_locked i c st)"

section \<open>Sequences of calls\<close>

text \<open>
  An issue, a consumption in one piece, and the part of a consumption under the lock on the
  strength of a validation made at any earlier time.
\<close>

datatype dza_call =
    DIssue bool int string dza_request
  | DConsume bool int int string dza_context
  | DConsumeLate bool int string dza_context

fun dza_exec :: "dza_hash \<Rightarrow> dza_call \<Rightarrow> dza_store \<Rightarrow> dza_store \<times> DisclosureResult result" where
  "dza_exec sha (DIssue w now i q) st = issue_disclosure_authorization sha w now i q st"
| "dza_exec sha (DConsume w now now' i c) st = consume_disclosure_authorization sha w now now' i c st"
| "dza_exec sha (DConsumeLate w now i c) st = dza_consume_locked sha w now i c st"

definition dza_consumed :: "string \<Rightarrow> DisclosureResult result \<Rightarrow> bool" where
  "dza_consumed i out = (case out of Inl err \<Rightarrow> False | Inr res \<Rightarrow> dx_outcome res = DO_CONSUMED \<and> dx_authorization_id res = i)"

definition dza_issues :: "string \<Rightarrow> dza_call \<Rightarrow> bool" where
  "dza_issues i c = (case c of DIssue w now j q \<Rightarrow> j = i | _ \<Rightarrow> False)"

definition dza_own_ids :: "dza_store \<Rightarrow> bool" where
  "dza_own_ids st \<longleftrightarrow> (\<forall>k r. dict_get st k = Some (DF_receipt r) \<longrightarrow> da_authorization_id r = k)"

definition dza_uses_left :: "DisclosureAuthorizationReceipt \<Rightarrow> nat" where
  "dza_uses_left r = (if da_one_time r then if da_consumed r then 0 else 1 else nat (da_max_uses r - da_use_count r))"

definition dza_credited :: "string \<Rightarrow> dza_store \<Rightarrow> bool" where
  "dza_credited i st \<longleftrightarrow> dza_own_ids st \<and> (\<exists>r. dict_get st i = Some (DF_receipt r))"

definition dza_credit :: "string \<Rightarrow> dza_store \<Rightarrow> nat" where
  "dza_credit i st = (case dict_get st i of Some (DF_receipt r) \<Rightarrow> dza_uses_left r | _ \<Rightarrow> 0)"

lemma dza_seal_fields [simp]:
  "da_authorization_id (dza_seal sha r) = da_authorization_id r" "da_one_time (dza_seal sha r) = da_one_time r"
  "da_consumed (dza_seal sha r) = da_consumed r" "da_use_count (dza_seal sha r) = da_use_count r"
  "da_max_uses (dza_seal sha r) = da_max_uses r" "da_expires_at (dza_seal sha r) = da_expires_at r"
  "da_evidence_digest (dza_seal sha r) = da_evidence_digest r" "da_disclosure_class (dza_seal sha r) = da_disclosure_class r"
  "da_requested_selector (dza_seal sha r) = da_requested_selector r" "dza_verify_integrity sha (dza_seal sha r)"
  by (simp_all add: dza_seal_def dza_verify_integrity_def dza_recompute_integrity_def)

lemma use_receipt_fields [simp]:
  "da_authorization_id (use_receipt sha r) = da_authorization_id r" "da_one_time (use_receipt sha r) = da_one_time r"
  "da_consumed (use_receipt sha r) = (da_one_time r \<or> da_consumed r)" "dza_verify_integrity sha (use_receipt sha r)"
  by (simp_all add: use_receipt_def)

lemma use_receipt_uses: "\<not> exhausted r \<Longrightarrow> Suc (dza_uses_left (use_receipt sha r)) = dza_uses_left r"
  by (auto simp: dza_uses_left_def use_receipt_def exhausted_def)

lemma dza_load_Some: "dza_load_receipt st i = Inr (Some r) \<longleftrightarrow> dict_get st i = Some (DF_receipt r)"
  by (auto simp: dza_load_receipt_def split: option.splits dza_file.splits)

lemma dza_load_write: "dza_load_receipt (dza_write r st) (da_authorization_id r) = Inr (Some r)"
  by (simp add: dza_load_receipt_def dza_write_def dict_get_set)

lemma scope_refusal_outcome: "scope_refusal c r = Some out \<Longrightarrow> out \<notin> {DO_ISSUED, DO_VALID, DO_CONSUMED}"
  by (simp add: scope_refusal_def split: if_splits)

lemma required_class_outcome: "required_class_refusal c r = Some out \<Longrightarrow> out \<notin> {DO_ISSUED, DO_VALID, DO_CONSUMED}"
  by (simp add: required_class_refusal_def split: if_splits)

lemma refusal_outcome:
  assumes "dza_refusal sha now c r = Some (out, b)"
  shows "out \<notin> {DO_ISSUED, DO_VALID, DO_CONSUMED}"
  using assms scope_refusal_outcome [of c r out] required_class_outcome [of c r out]
  by (simp add: dza_refusal_def split: if_splits sum.splits bool.splits option.splits)

text \<open>A validation says VALID with the stored receipt, or it says neither VALID nor CONSUMED.\<close>

lemma validate_cases:
  assumes "validate_disclosure_authorization sha now i c st = Inr v"
  obtains (valid) r where "dict_get st i = Some (DF_receipt r)" and "dza_refusal sha now c r = None"
      and "v = dza_result DO_VALID (da_authorization_id r) (Some r)"
  | (refused) "dx_outcome v \<notin> {DO_ISSUED, DO_VALID, DO_CONSUMED}"
      and "\<And>r. dict_get st i = Some (DF_receipt r) \<Longrightarrow> dza_refusal sha now c r \<noteq> None"
proof (cases "\<exists>r. dict_get st i = Some (DF_receipt r)")
  case True
  then obtain r where r: "dict_get st i = Some (DF_receipt r)" by blast
  then have load: "dza_load_receipt st i = Inr (Some r)" by (simp add: dza_load_Some)
  show ?thesis
  proof (cases "dza_refusal sha now c r")
    case None
    with assms load have "v = dza_result DO_VALID (da_authorization_id r) (Some r)" by (simp add: validate_disclosure_authorization_def)
    with None r show ?thesis by (rule_tac valid)
  next
    case (Some ob)
    obtain out b where ob: "ob = (out, b)" by fastforce
    with Some have "dx_outcome v = out"
      using assms load by (simp add: validate_disclosure_authorization_def dza_result_def) (metis DisclosureResult.select_convs(1))
    with refusal_outcome [OF Some [unfolded ob]] Some r show ?thesis by (intro refused) auto
  qed
next
  case False
  then have "dza_load_receipt st i \<in> {Inr None, Inl ValidationError}"
    by (auto simp: dza_load_receipt_def split: option.splits dza_file.splits)
  with assms have "dx_outcome v = DO_NOT_FOUND" by (auto simp: validate_disclosure_authorization_def dza_result_def)
  with False show ?thesis by (intro refused) auto
qed

lemma dza_refusal_None:
  "dza_refusal sha now c r = None \<longleftrightarrow> dza_verify_integrity sha r \<and> stamp_expired (da_expires_at r) now = Inr False \<and> \<not> exhausted r \<and>
    \<not> given_other (dc_evidence_digest c) (da_evidence_digest r) \<and> da_disclosure_class r \<in> set DISCLOSURE_CLASSES \<and>
    scope_refusal c r = None \<and> required_class_refusal c r = None"
  by (auto simp: dza_refusal_def split: option.splits sum.splits bool.splits)

text \<open>What the locked part does: nothing, or one use of a receipt that passes all checks.\<close>

lemma dza_consume_locked_cases:
  assumes "dza_consume_locked sha w now i c st = (st', out)"
  obtains (kept) "st' = st" and "\<And>j. \<not> dza_consumed j out"
  | (used) r where "w" and "dict_get st i = Some (DF_receipt r)" and "dza_refusal sha now c r = None"
      and "st' = dza_write (use_receipt sha r) st"
      and "out = Inr (dza_result DO_CONSUMED (da_authorization_id r) (Some (use_receipt sha r)))"
proof (cases "dza_load_receipt st i")
  case (Inl err)
  with assms show ?thesis by (intro kept) (auto simp: dza_consume_locked_def dza_consumed_def)
next
  case (Inr loaded)
  show ?thesis
  proof (cases "\<exists>r. loaded = Some r \<and> dza_verify_integrity sha r \<and> \<not> exhausted r")
    case False
    with assms Inr show ?thesis
      by (intro kept) (auto simp: dza_consume_locked_def dza_consumed_def dza_result_def split: option.splits if_splits)
  next
    case True
    then obtain r0 where r0: "loaded = Some r0" "dza_verify_integrity sha r0" "\<not> exhausted r0" by blast
    obtain v where v: "validate_disclosure_authorization sha now i c st = Inr v"
      using Inr by (simp add: validate_disclosure_authorization_def)
    from v show ?thesis
    proof (cases rule: validate_cases)
      case (valid r)
      show ?thesis
      proof (cases w)
        case True
        with assms Inr r0 v valid dza_load_write [of "use_receipt sha r" st] show ?thesis
          by (intro used [of r]) (auto simp: dza_consume_locked_def dza_is_authorized_def dza_result_def Let_def)
      next
        case False
        with assms Inr r0 v valid show ?thesis
          by (intro kept) (auto simp: dza_consume_locked_def dza_consumed_def dza_is_authorized_def dza_result_def)
      qed
    next
      case refused
      then have "\<not> dza_is_authorized v" by (simp add: dza_is_authorized_def)
      with assms Inr r0 v have "st' = st \<and> out = Inr v" by (simp add: dza_consume_locked_def split: option.splits)
      with refused show ?thesis by (intro kept) (simp_all add: dza_consumed_def)
    qed
  qed
qed

lemma dza_consume_cases:
  assumes "consume_disclosure_authorization sha w now now' i c st = (st', out)"
  obtains (none) "st' = st" and "\<And>j. \<not> dza_consumed j out"
  | (locked) "\<exists>r. dict_get st i = Some (DF_receipt r) \<and> dza_refusal sha now c r = None" and "dza_consume_locked sha w now' i c st = (st', out)"
proof (cases "validate_disclosure_authorization sha now i c st")
  case (Inl err)
  with assms have "st' = st \<and> out = Inl err" by (simp add: consume_disclosure_authorization_def)
  then show ?thesis by (intro none) (simp_all add: dza_consumed_def)
next
  case (Inr v)
  then show ?thesis
  proof (cases rule: validate_cases)
    case (valid r)
    with assms Inr show ?thesis
      by (intro locked) (auto simp: consume_disclosure_authorization_def dza_is_authorized_def dza_result_def)
  next
    case refused
    with assms Inr have "st' = st \<and> out = Inr v" by (simp add: consume_disclosure_authorization_def dza_is_authorized_def)
    with refused show ?thesis by (intro none) (auto simp: dza_consumed_def)
  qed
qed

lemma dza_locked_pays:
  assumes "dza_credited i s" and "dza_consume_locked sha w now k c s = (s', out)"
  shows "dza_credited i s' \<and> (if dza_consumed i out then 1 else 0) + dza_credit i s' \<le> dza_credit i s"
  using assms(2)
proof (cases rule: dza_consume_locked_cases)
  case kept
  with assms(1) show ?thesis by simp
next
  case (used r)
  obtain x where x: "dza_own_ids s" "dict_get s i = Some (DF_receipt x)" using assms(1) by (auto simp: dza_credited_def)
  then have k: "da_authorization_id r = k" using used(2) by (simp add: dza_own_ids_def)
  have "dza_own_ids s'" using x(1) by (auto simp: used(4) dza_own_ids_def dza_write_def dict_get_set)
  moreover have "Suc (dza_uses_left (use_receipt sha r)) = dza_uses_left r"
    using used(3) by (simp add: dza_refusal_None use_receipt_uses)
  ultimately show ?thesis using x used(2) k
    by (auto simp: used(4,5) dza_credited_def dza_credit_def dza_consumed_def dza_result_def dza_write_def dict_get_set)
qed

interpretation disclosures: metered_calls "dza_exec sha" "\<lambda>c. \<not> dza_issues i c" "dza_credited i" "dza_credit i" "dza_consumed i" for sha i
proof unfold_locales
  fix s c s' out
  assume s: "dza_credited i s" and c: "\<not> dza_issues i c" "dza_exec sha c s = (s', out)"
  show "dza_credited i s' \<and> (if dza_consumed i out then 1 else 0) + dza_credit i s' \<le> dza_credit i s"
  proof (cases c)
    case (DIssue w now j q)
    with c have "j \<noteq> i" "issue_disclosure_authorization sha w now j q s = (s', out)" by (simp_all add: dza_issues_def)
    with s show ?thesis
      by (auto simp: issue_disclosure_authorization_def dza_consumed_def dza_result_def dza_credited_def dza_credit_def dza_own_ids_def
          dza_write_def dza_new_receipt_def dict_get_set Let_def simp del: add_seconds.simps split: if_splits sum.splits)
  next
    case (DConsume w now now' k ctx)
    with c have "consume_disclosure_authorization sha w now now' k ctx s = (s', out)" by simp
    then show ?thesis
    proof (cases rule: dza_consume_cases)
      case none
      with s show ?thesis by simp
    next
      case locked
      with s show ?thesis by (intro dza_locked_pays)
    qed
  next
    case (DConsumeLate w now k ctx)
    with c s show ?thesis by (intro dza_locked_pays) simp_all
  qed
qed

section \<open>Properties\<close>

text \<open>C28: A disclosure authorization is consumed at most as often as it was issued for, in any sequence
  of issues and consumptions, at any times, with any failed writes, and however consumptions
  interleave between their first validation and their lock.\<close>

theorem disclosures_bounded:
  assumes "dza_own_ids st" and "dict_get st i = Some (DF_receipt r)" and "\<forall>c \<in> set calls. \<not> dza_issues i c"
  shows "length (filter (dza_consumed i) (call_trace (dza_exec sha) calls st)) \<le> dza_uses_left r"
  using disclosures.spent_within_credit [of i st calls sha] assms by (auto simp: dza_credited_def dza_credit_def)

text \<open>A consumption that succeeds is for exactly what the receipt was issued for: the receipt is
  intact, not expired under the lock, has a use left, and is bound to the evidence, the class, the
  selector and the required class of the request wherever the request names them; the store
  afterwards holds the receipt with one use fewer.\<close>

theorem consumption_bound_to_request:
  assumes "consume_disclosure_authorization sha w now now' i c st = (st', Inr res)" and "dx_outcome res = DO_CONSUMED"
  shows "\<exists>r. dict_get st i = Some (DF_receipt r) \<and> dza_verify_integrity sha r \<and> \<not> exhausted r \<and>
    stamp_expired (da_expires_at r) now' = Inr False \<and> da_disclosure_class r \<in> set DISCLOSURE_CLASSES \<and>
    (given (dc_evidence_digest c) \<longrightarrow> dc_evidence_digest c = Some (da_evidence_digest r)) \<and>
    (given (dc_disclosure_class c) \<longrightarrow> dc_disclosure_class c = Some (da_disclosure_class r)) \<and>
    (given (dc_required_selector_class c) \<longrightarrow> dc_required_selector_class c = Some (da_disclosure_class r)) \<and>
    (given (dc_disclosure_class c) \<or> given (dc_selector_digest c) \<longrightarrow>
      (if given (dc_selector_digest c) then da_requested_selector r = dc_selector_digest c else \<not> given (da_requested_selector r))) \<and>
    st' = dict_set (da_authorization_id r) (DF_receipt (use_receipt sha r)) st \<and>
    Suc (dza_uses_left (use_receipt sha r)) = dza_uses_left r"
proof -
  have "dza_consumed (dx_authorization_id res) (Inr res)" using assms(2) by (simp add: dza_consumed_def)
  with assms(1) have "dza_consume_locked sha w now' i c st = (st', Inr res)" by (cases rule: dza_consume_cases) auto
  then obtain r where r: "dict_get st i = Some (DF_receipt r)" "dza_refusal sha now' c r = None" "st' = dza_write (use_receipt sha r) st"
    using \<open>dza_consumed (dx_authorization_id res) (Inr res)\<close> by (cases rule: dza_consume_locked_cases) auto
  note checks = r(2) [unfolded dza_refusal_None]
  have scope: "scope_refusal c r = None" and required: "required_class_refusal c r = None" using checks by simp_all
  have "given (dc_evidence_digest c) \<longrightarrow> dc_evidence_digest c = Some (da_evidence_digest r)"
    using checks by (simp add: given_other_def)
  moreover have "given (dc_required_selector_class c) \<longrightarrow> dc_required_selector_class c = Some (da_disclosure_class r)"
    using required by (auto simp: required_class_refusal_def split: if_splits)
  moreover have "(given (dc_disclosure_class c) \<longrightarrow> dc_disclosure_class c = Some (da_disclosure_class r)) \<and>
      (given (dc_disclosure_class c) \<or> given (dc_selector_digest c) \<longrightarrow>
        (if given (dc_selector_digest c) then da_requested_selector r = dc_selector_digest c else \<not> given (da_requested_selector r)))"
    using scope by (simp add: scope_refusal_def given_other_def split: if_splits)
  ultimately show ?thesis using checks r(1,3) use_receipt_uses [of r sha] by (simp add: dza_write_def)
qed

text \<open>The selector of a receipt is not checked when the request names neither a class nor a selector.\<close>

lemma unscoped_request_ignores_selector:
  "\<not> given (dc_disclosure_class c) \<Longrightarrow> \<not> given (dc_selector_digest c) \<Longrightarrow> scope_refusal c r = None"
  by (simp add: scope_refusal_def)

section \<open>Examples\<close>

definition demo_dza :: dza_hash where
  "demo_dza r = ''sha256:'' @ da_authorization_id r @ (if da_consumed r then ''1'' else ''0'')"

definition demo_dza_receipt :: DisclosureAuthorizationReceipt where
  "demo_dza_receipt = dza_seal demo_dza (dza_new_receipt 0 ''a''
     \<lparr>dq_evidence_digest = ''e'', dq_disclosure_class = ''commit_subject'', dq_requested_selector = Some ''s'', dq_actor_identity = '''',
      dq_producer_identity = '''', dq_purpose = '''', dq_ttl_minutes = 15, dq_one_time = True, dq_max_uses = 1\<rparr> (Aware (seconds 900)))"

definition demo_dza_context :: dza_context where
  "demo_dza_context = \<lparr>dc_evidence_digest = Some ''e'', dc_disclosure_class = Some ''commit_subject'', dc_selector_digest = Some ''s'',
     dc_required_selector_class = Some ''commit_subject''\<rparr>"

lemma demo_dza_valid: "dza_refusal demo_dza 1 demo_dza_context demo_dza_receipt = None"
  by (simp add: dza_refusal_None demo_dza_receipt_def demo_dza_context_def dza_new_receipt_def exhausted_def given_other_def given_def
      DISCLOSURE_CLASSES_def scope_refusal_def required_class_refusal_def seconds_def)

lemma demo_dza_consumed:
  "consume_disclosure_authorization demo_dza True 1 1 ''a'' demo_dza_context [(''a'', DF_receipt demo_dza_receipt)] =
    ([(''a'', DF_receipt (use_receipt demo_dza demo_dza_receipt))],
     Inr (dza_result DO_CONSUMED ''a'' (Some (use_receipt demo_dza demo_dza_receipt))))"
proof -
  have id: "da_authorization_id demo_dza_receipt = ''a''" by (simp add: demo_dza_receipt_def dza_new_receipt_def)
  have get: "dict_get [(''a'', DF_receipt demo_dza_receipt)] ''a'' = Some (DF_receipt demo_dza_receipt)" by (simp add: dict_get_def)
  have ok: "dza_verify_integrity demo_dza demo_dza_receipt" "\<not> exhausted demo_dza_receipt"
    using demo_dza_valid by (simp_all add: dza_refusal_None)
  have "validate_disclosure_authorization demo_dza 1 ''a'' demo_dza_context [(''a'', DF_receipt demo_dza_receipt)] =
      Inr (dza_result DO_VALID ''a'' (Some demo_dza_receipt))"
    using demo_dza_valid get id by (simp add: validate_disclosure_authorization_def dza_load_receipt_def)
  with get id ok show ?thesis
    by (simp add: consume_disclosure_authorization_def dza_consume_locked_def dza_is_authorized_def dza_result_def dza_load_receipt_def
        dza_write_def dict_set_def dict_get_def Let_def)
qed

theorem disclosures_bounded_witness:
  "length (filter (dza_consumed ''a'') (call_trace (dza_exec demo_dza)
      [DConsume True 1 1 ''a'' demo_dza_context, DConsumeLate True 2 ''a'' demo_dza_context] [(''a'', DF_receipt demo_dza_receipt)])) \<le> 1"
proof -
  have "dza_own_ids [(''a'', DF_receipt demo_dza_receipt)]"
    by (simp add: dza_own_ids_def dict_get_def demo_dza_receipt_def dza_new_receipt_def)
  moreover have "dict_get [(''a'', DF_receipt demo_dza_receipt)] ''a'' = Some (DF_receipt demo_dza_receipt)" by (simp add: dict_get_def)
  moreover have "\<forall>c \<in> set [DConsume True 1 1 ''a'' demo_dza_context, DConsumeLate True 2 ''a'' demo_dza_context]. \<not> dza_issues ''a'' c"
    by (simp add: dza_issues_def)
  moreover have "dza_uses_left demo_dza_receipt = 1" by (simp add: dza_uses_left_def demo_dza_receipt_def dza_new_receipt_def)
  ultimately show ?thesis using disclosures_bounded by metis
qed

theorem consumption_bound_to_request_witness:
  "\<exists>r. dict_get [(''a'', DF_receipt demo_dza_receipt)] ''a'' = Some (DF_receipt r) \<and> da_requested_selector r = Some ''s'' \<and>
    Suc (dza_uses_left (use_receipt demo_dza r)) = dza_uses_left r"
  using consumption_bound_to_request [OF demo_dza_consumed] by (auto simp: dza_result_def demo_dza_context_def given_def)

end
