(* ===== verification/Protected_Manifest.thy ===== *)
theory Protected_Manifest
  imports Json_Values
begin

text \<open>
  The protected-content manifest, \<^verbatim>\<open>rig_relay/review_projection/protected_content.py\<close>: the
  classification of content, the manifest of a review bundle with its selectively disclosable
  items, its digest, and the checks of the disclosure corridor.  \<open>sha\<close> is the digest of a manifest's
  canonical JSON, \<open>text_sha\<close> that of a text; the texts for people are left out.
\<close>

section \<open>Classification\<close>

datatype ContentClass = RETAIN_PROJECTED | PSEUDONYMIZED_DISCLOSABLE | HASH_EVIDENCE_ONLY | PROHIBITED

definition RETAIN_PROJECTED_KINDS :: "string list" where
  "RETAIN_PROJECTED_KINDS = [''bundle_metadata'', ''raw_diff_fragment'']"

definition PSEUDONYMIZED_DISCLOSABLE_KINDS :: "string list" where
  "PSEUDONYMIZED_DISCLOSABLE_KINDS = [''source_identifier'', ''source_parameter'', ''symbol_identity'']"

definition HASH_EVIDENCE_ONLY_KINDS :: "string list" where
  "HASH_EVIDENCE_ONLY_KINDS =
    [''source_string_literal'', ''source_comment'', ''source_docstring'', ''user_provided_text'', ''configuration_value'']"

definition PROHIBITED_KINDS :: "string list" where
  "PROHIBITED_KINDS = [''credential_shaped'', ''secret_shaped'', ''crosswalk_material'']"

definition classify_content_kind :: "string \<Rightarrow> ContentClass" where
  "classify_content_kind kind =
    (if kind \<in> set RETAIN_PROJECTED_KINDS then RETAIN_PROJECTED
     else if kind \<in> set PSEUDONYMIZED_DISCLOSABLE_KINDS then PSEUDONYMIZED_DISCLOSABLE
     else if kind \<in> set PROHIBITED_KINDS then PROHIBITED
     else HASH_EVIDENCE_ONLY)"

section \<open>The manifest\<close>

record ManifestSelector =
  sl_selector_id :: string
  sl_selector_digest :: string
  sl_content_kind :: string
  sl_disclosure_class :: string
  sl_disclosed :: bool

record ProtectedContentManifest =
  pm_schema_version :: string
  pm_bundle_digest :: string
  pm_projection_id :: string
  pm_policy_version :: string
  pm_manifest_digest :: string
  pm_created_at :: string
  pm_source_artifact_digest :: string
  pm_count_retained_projected :: int
  pm_count_pseudonymized_disclosable :: int
  pm_count_hash_evidence_only :: int
  pm_count_prohibited :: int
  pm_total_items :: int
  pm_content_kinds_present :: "string list"
  pm_selectors :: "ManifestSelector list"
  pm_crosswalk_export_prohibited :: bool
  pm_credential_material_detected :: bool
  pm_sensitive_content_detected :: bool
  pm_prohibited_items_removed :: int
  pm_content_light_guarantee :: bool
  pm_raw_content_in_manifest :: bool
  pm_raw_crosswalk_in_manifest :: bool

type_synonym manifest_hash = "ProtectedContentManifest \<Rightarrow> string"

definition POLICY_VERSION :: string where
  "POLICY_VERSION = ''rig.review_projection.protected_content_policy.v1''"

definition compute_manifest_digest :: "manifest_hash \<Rightarrow> ProtectedContentManifest \<Rightarrow> string" where
  "compute_manifest_digest sha m = sha (m\<lparr>pm_manifest_digest := ''''\<rparr>)"

definition seal_manifest :: "manifest_hash \<Rightarrow> ProtectedContentManifest \<Rightarrow> ProtectedContentManifest" where
  "seal_manifest sha m = m\<lparr>pm_manifest_digest := compute_manifest_digest sha m\<rparr>"

definition build_default_manifest :: "manifest_hash \<Rightarrow> string \<Rightarrow> string \<Rightarrow> string \<Rightarrow> string \<Rightarrow> ProtectedContentManifest" where
  "build_default_manifest sha projection bundle source created = seal_manifest sha
    \<lparr>pm_schema_version = ''rig.review_projection.protected_content_manifest.v1'', pm_bundle_digest = bundle,
     pm_projection_id = projection, pm_policy_version = POLICY_VERSION, pm_manifest_digest = '''', pm_created_at = created,
     pm_source_artifact_digest = source, pm_count_retained_projected = 0, pm_count_pseudonymized_disclosable = 0,
     pm_count_hash_evidence_only = 0, pm_count_prohibited = 0, pm_total_items = 0, pm_content_kinds_present = [],
     pm_selectors = [], pm_crosswalk_export_prohibited = True, pm_credential_material_detected = False,
     pm_sensitive_content_detected = False, pm_prohibited_items_removed = 0, pm_content_light_guarantee = True,
     pm_raw_content_in_manifest = False, pm_raw_crosswalk_in_manifest = False\<rparr>"

section \<open>Selectors\<close>

text \<open>The format \<^verbatim>\<open>{i:04d}\<close>.\<close>

fun decimal :: "nat \<Rightarrow> string" where
  "decimal n = (if n < 10 then [char_of (48 + n)] else decimal (n div 10) @ [char_of (48 + n mod 10)])"

declare decimal.simps [simp del]

definition four_digits :: "nat \<Rightarrow> string" where
  "four_digits n = replicate (4 - length (decimal n)) (CHR ''0'') @ decimal n"

definition build_selector_entries :: "(string \<Rightarrow> string) \<Rightarrow> string list \<Rightarrow> string \<Rightarrow> string \<Rightarrow> ManifestSelector list" where
  "build_selector_entries text_sha names kind cls =
    map (\<lambda>(i, name).
      \<lparr>sl_selector_id = kind @ '':'' @ cls @ '':'' @ four_digits i, sl_selector_digest = text_sha (kind @ '':'' @ cls @ '':'' @ name),
       sl_content_kind = kind, sl_disclosure_class = cls, sl_disclosed = False\<rparr>)
      (enumerate 0 names)"

text \<open>The first selector with the digest is marked.\<close>

fun mark_first :: "string \<Rightarrow> ManifestSelector list \<Rightarrow> ManifestSelector list option" where
  "mark_first d [] = None"
| "mark_first d (s # ss) =
    (if sl_selector_digest s = d then Some (s\<lparr>sl_disclosed := True\<rparr> # ss) else map_option ((#) s) (mark_first d ss))"

definition mark_selector_disclosed :: "manifest_hash \<Rightarrow> string \<Rightarrow> ProtectedContentManifest \<Rightarrow> ProtectedContentManifest \<times> bool" where
  "mark_selector_disclosed sha d m =
    (case mark_first d (pm_selectors m) of
       None \<Rightarrow> (m, False)
     | Some ss \<Rightarrow> (seal_manifest sha (m\<lparr>pm_selectors := ss\<rparr>), True))"

section \<open>Files and checks\<close>

datatype manifest_file = MF_unreadable | MF_invalid | MF_manifest ProtectedContentManifest

text \<open>JSON that is no manifest raises; \<open>None\<close> stands for a file that does not exist.\<close>

fun load_manifest_json :: "manifest_file option \<Rightarrow> ProtectedContentManifest option result" where
  "load_manifest_json None = Inr None"
| "load_manifest_json (Some MF_unreadable) = Inr None"
| "load_manifest_json (Some MF_invalid) = Inl ValidationError"
| "load_manifest_json (Some (MF_manifest m)) = Inr (Some m)"

definition verify_manifest_binding :: "ProtectedContentManifest \<Rightarrow> string \<Rightarrow> bool" where
  "verify_manifest_binding m bundle \<longleftrightarrow> pm_bundle_digest m = bundle"

definition verify_policy_version :: "ProtectedContentManifest \<Rightarrow> bool" where
  "verify_policy_version m \<longleftrightarrow> pm_policy_version m = POLICY_VERSION"

definition verify_manifest_integrity :: "manifest_hash \<Rightarrow> ProtectedContentManifest \<Rightarrow> bool" where
  "verify_manifest_integrity sha m \<longleftrightarrow> pm_manifest_digest m = compute_manifest_digest sha m"

definition verify_selector_disclosable :: "ProtectedContentManifest \<Rightarrow> string \<Rightarrow> bool" where
  "verify_selector_disclosable m d =
    (case next_or_none (\<lambda>s. sl_selector_digest s = d) (pm_selectors m) of None \<Rightarrow> False | Some s \<Rightarrow> \<not> sl_disclosed s)"

text \<open>\<open>text\<close> is the manifest's JSON text.\<close>

definition manifest_passes_content_light_check :: "(ProtectedContentManifest \<Rightarrow> string) \<Rightarrow> ProtectedContentManifest \<Rightarrow> bool" where
  "manifest_passes_content_light_check text m \<longleftrightarrow>
    \<not> list_ex (str_contains (str_lower (text m))) [''ghp_'', ''ghs_'', ''gho_'', ''ghu_'', ''ghr_'', ''sk-ant'', ''sk-''] \<and>
    pm_content_light_guarantee m \<and> \<not> pm_raw_content_in_manifest m"

section \<open>Marking\<close>

lemma manifest_digest_seal [simp]: "compute_manifest_digest sha (seal_manifest sha m) = compute_manifest_digest sha m"
  by (simp add: compute_manifest_digest_def seal_manifest_def)

lemma sealed_digest [simp]: "pm_manifest_digest (seal_manifest sha m) = compute_manifest_digest sha m"
  by (simp add: seal_manifest_def)

lemma seal_seal [simp]: "seal_manifest sha (seal_manifest sha m) = seal_manifest sha m"
  by (simp add: seal_manifest_def compute_manifest_digest_def)

lemma sealed_selectors [simp]: "pm_selectors (seal_manifest sha m) = pm_selectors m"
  by (simp add: seal_manifest_def)

lemma sealed_integrity [simp]: "verify_manifest_integrity sha (seal_manifest sha m)"
  by (simp add: verify_manifest_integrity_def)

lemma mark_first_None: "mark_first d ss = None \<longleftrightarrow> (\<forall>s \<in> set ss. sl_selector_digest s \<noteq> d)"
  by (induction ss) auto

lemma mark_first_find:
  "mark_first d ss = Some ss' \<Longrightarrow>
    next_or_none (\<lambda>s. sl_selector_digest s = k) ss' =
      map_option (\<lambda>s. if k = d then s\<lparr>sl_disclosed := True\<rparr> else s) (next_or_none (\<lambda>s. sl_selector_digest s = k) ss)"
  by (induction ss arbitrary: ss') (auto simp: next_or_none_def option.map_ident split: if_splits)

lemma mark_first_again: "mark_first d ss = Some ss' \<Longrightarrow> mark_first d ss' = Some ss'"
  by (induction ss arbitrary: ss') (auto split: if_splits)

text \<open>Marking twice is marking once.\<close>

lemma seal_update_selectors: "seal_manifest sha ((seal_manifest sha m)\<lparr>pm_selectors := ss\<rparr>) = seal_manifest sha (m\<lparr>pm_selectors := ss\<rparr>)"
  by (simp add: seal_manifest_def compute_manifest_digest_def)

lemma mark_idempotent:
  "seal_manifest sha (fst (mark_selector_disclosed sha d (seal_manifest sha (fst (mark_selector_disclosed sha d m))))) =
    seal_manifest sha (fst (mark_selector_disclosed sha d m))"
proof (cases "mark_first d (pm_selectors m)")
  case (Some ss)
  with mark_first_again [OF Some] show ?thesis by (simp add: mark_selector_disclosed_def seal_update_selectors)
qed (simp add: mark_selector_disclosed_def)

text \<open>A selector is disclosed once.  Marking a disclosable selector succeeds, leaves a manifest that
  passes its integrity check and in which the selector is no longer disclosable, and does not
  change whether any other selector is; marking it again gives the same manifest.\<close>

theorem selector_disclosed_once:
  assumes "verify_selector_disclosable m d"
  shows "\<exists>m'. mark_selector_disclosed sha d m = (m', True) \<and> verify_manifest_integrity sha m' \<and>
    \<not> verify_selector_disclosable m' d \<and>
    (\<forall>k. k \<noteq> d \<longrightarrow> verify_selector_disclosable m' k = verify_selector_disclosable m k) \<and>
    mark_selector_disclosed sha d m' = (m', True)"
proof -
  have "mark_first d (pm_selectors m) \<noteq> None"
    using assms by (auto simp: verify_selector_disclosable_def mark_first_None split: option.splits dest: next_or_none_Some)
  then obtain ss where ss: "mark_first d (pm_selectors m) = Some ss" by blast
  have "verify_selector_disclosable (seal_manifest sha (m\<lparr>pm_selectors := ss\<rparr>)) k =
      (k \<noteq> d \<and> verify_selector_disclosable m k)" for k
    by (simp add: verify_selector_disclosable_def mark_first_find [OF ss] split: option.splits)
  then show ?thesis
    using ss mark_first_again [OF ss] by (simp add: mark_selector_disclosed_def seal_update_selectors)
qed

text \<open>The selectors of the examples, and a manifest that holds them.\<close>

definition demo_manifest :: ProtectedContentManifest where
  "demo_manifest = seal_manifest (\<lambda>m. ''m'') ((build_default_manifest (\<lambda>m. ''m'') ''p'' ''b'' ''s'' ''t'')
     \<lparr>pm_selectors := build_selector_entries id [''f'', ''g''] ''source_identifier'' ''commit_subject''\<rparr>)"

lemma demo_disclosable: "verify_selector_disclosable demo_manifest ''source_identifier:commit_subject:g''"
  by (simp add: demo_manifest_def build_selector_entries_def verify_selector_disclosable_def next_or_none_def)

theorem selector_disclosed_once_witness:
  "\<not> verify_selector_disclosable (fst (mark_selector_disclosed (\<lambda>m. ''m'') ''source_identifier:commit_subject:g'' demo_manifest))
     ''source_identifier:commit_subject:g''"
  using selector_disclosed_once [OF demo_disclosable, of "\<lambda>m. ''m''"] by auto

end
