(* ===== verification/Disclosure_Transition.thy ===== *)
theory Disclosure_Transition
  imports Disclosure_Authorization Protected_Manifest
begin

text \<open>
  The disclosure corridor, \<^verbatim>\<open>rig_relay/governance/disclosure_transition.py\<close>: a transition recorded in
  an append-only ledger, whose steps consume an authorization and write a receipt, a manifest
  and an event, with recovery after a crash.  Every durable write consumes one \<open>fate\<close>: it is made,
  it fails with \<^verbatim>\<open>OSError\<close>, or the process dies before it; without a fate it is made.  A call holds
  the corridor lock, and the clock has one reading per call.  A line of the transition ledger
  is blank, no JSON, or an event as the module writes them; \<^verbatim>\<open>recovery_detail\<close> and \<^verbatim>\<open>corrupt_detail\<close> are
  left out, and an error reason is the flag that there is one.  The digests, the two JSON schemas
  and the SHA-256 of a compilation receipt are parameters.
\<close>

section \<open>Transitions\<close>

datatype TransitionStatus =
    TS_PREPARED | TS_AUTHORIZATION_CONSUMED | TS_PROJECTION_RECEIPT_PERSISTED | TS_MANIFEST_APPLIED
  | TS_DISCLOSURE_EVENT_RECORDED | TS_COMPLETED | TS_RECOVERY_REQUIRED | TS_REFUSED | TS_CONFLICT | TS_CORRUPT

fun VALID_STATUS_PROGRESSION :: "TransitionStatus \<Rightarrow> TransitionStatus list" where
  "VALID_STATUS_PROGRESSION TS_PREPARED = [TS_AUTHORIZATION_CONSUMED, TS_REFUSED]"
| "VALID_STATUS_PROGRESSION TS_AUTHORIZATION_CONSUMED = [TS_PROJECTION_RECEIPT_PERSISTED, TS_REFUSED, TS_RECOVERY_REQUIRED]"
| "VALID_STATUS_PROGRESSION TS_PROJECTION_RECEIPT_PERSISTED = [TS_MANIFEST_APPLIED, TS_REFUSED, TS_RECOVERY_REQUIRED]"
| "VALID_STATUS_PROGRESSION TS_MANIFEST_APPLIED = [TS_DISCLOSURE_EVENT_RECORDED, TS_REFUSED, TS_RECOVERY_REQUIRED]"
| "VALID_STATUS_PROGRESSION TS_DISCLOSURE_EVENT_RECORDED = [TS_COMPLETED, TS_RECOVERY_REQUIRED]"
| "VALID_STATUS_PROGRESSION TS_RECOVERY_REQUIRED =
    [TS_PROJECTION_RECEIPT_PERSISTED, TS_MANIFEST_APPLIED, TS_DISCLOSURE_EVENT_RECORDED, TS_COMPLETED]"
| "VALID_STATUS_PROGRESSION _ = []"

definition TERMINAL_STATUSES :: "TransitionStatus list" where
  "TERMINAL_STATUSES = [TS_COMPLETED, TS_REFUSED, TS_CONFLICT, TS_CORRUPT]"

definition TRANSITION_SCHEMA_VERSION :: string where
  "TRANSITION_SCHEMA_VERSION = ''rig.relay.disclosure_transition_event.v2''"

record DisclosureTransition =
  dt_schema_version :: string
  dt_transition_id :: string
  dt_authorization_id :: string
  dt_evidence_digest :: string
  dt_projection_id :: string
  dt_disclosure_class :: string
  dt_selector_digest :: "string option"
  dt_selector_required_class :: "string option"
  dt_manifest_digest_before :: string
  dt_manifest_digest_after :: "string option"
  dt_recipient_class :: string
  dt_provider_or_channel :: string
  dt_purpose :: "string option"
  dt_retention_assertion :: "string option"
  dt_training_use_assertion :: "string option"
  dt_compilation_receipt_sha256 :: string
  dt_receipt_approved_at :: timestamp
  dt_disclosure_event_created_at :: timestamp
  dt_consumed_auth_receipt_digest :: "string option"
  dt_status :: TransitionStatus
  dt_parent_transition_digest :: "string option"
  dt_downstream_event_id :: "string option"
  dt_downstream_receipt_digest :: "string option"
  dt_transition_digest :: string
  dt_created_at :: timestamp
  dt_sequence :: int

text \<open>The fields that go into the digest; recipient, channel, purpose and creation time do not.\<close>

definition transition_digest_of :: "(DisclosureTransition \<Rightarrow> string) \<Rightarrow> DisclosureTransition \<Rightarrow> string" where
  "transition_digest_of sha t = sha (t\<lparr>dt_recipient_class := '''', dt_provider_or_channel := '''', dt_purpose := None,
     dt_created_at := NotIso '''', dt_transition_digest := ''''\<rparr>)"

definition seal_transition :: "(DisclosureTransition \<Rightarrow> string) \<Rightarrow> DisclosureTransition \<Rightarrow> DisclosureTransition" where
  "seal_transition sha t = t\<lparr>dt_transition_digest := transition_digest_of sha t\<rparr>"

definition dt_is_terminal :: "DisclosureTransition \<Rightarrow> bool" where
  "dt_is_terminal t \<longleftrightarrow> dt_status t \<in> set TERMINAL_STATUSES"

section \<open>The world and its writes\<close>

record disclosure_env =
  dz_receipt_sha :: dza_hash
  dz_transition_sha :: "DisclosureTransition \<Rightarrow> string"
  dz_manifest_sha :: manifest_hash
  dz_transition_ok :: "DisclosureTransition \<Rightarrow> bool"
  dz_event_ok :: "jdict \<Rightarrow> bool"

record disclosure_world =
  dw_authorizations :: dza_store
  dw_transitions :: "DisclosureTransition jsonl list"
  dw_compilation_receipts :: "(string, string) dict"
  dw_receipts :: "(string, stored_file) dict"
  dw_manifests :: "(string, manifest_file) dict"
  dw_events :: "json jsonl list"

datatype fate = W_ok | W_fails | W_crash

datatype 'a run_result = Returned 'a | Raised py_error | Crashed

type_synonym 'a dz = "disclosure_world \<times> fate list \<Rightarrow> 'a run_result \<times> disclosure_world \<times> fate list"

definition dz_return :: "'a \<Rightarrow> 'a dz" where
  "dz_return x s = (Returned x, s)"

definition dz_bind :: "'a dz \<Rightarrow> ('a \<Rightarrow> 'b dz) \<Rightarrow> 'b dz" where
  "dz_bind m f s =
    (case m s of (Returned x, s') \<Rightarrow> f x s' | (Raised err, s') \<Rightarrow> (Raised err, s') | (Crashed, s') \<Rightarrow> (Crashed, s'))"

text \<open>A computation on the world that writes nothing, one that writes, and one caught by \<^verbatim>\<open>except\<close>.\<close>

definition dz_read :: "(disclosure_world \<Rightarrow> 'a result) \<Rightarrow> 'a dz" where
  "dz_read f s = (case f (fst s) of Inl err \<Rightarrow> Raised err | Inr x \<Rightarrow> Returned x, s)"

definition dz_write :: "(disclosure_world \<Rightarrow> disclosure_world) \<Rightarrow> unit dz" where
  "dz_write f = (\<lambda>(w, fates). case fates of
     [] \<Rightarrow> (Returned (), f w, [])
   | W_ok # fs \<Rightarrow> (Returned (), f w, fs)
   | W_fails # fs \<Rightarrow> (Raised OSError, w, fs)
   | W_crash # fs \<Rightarrow> (Crashed, w, fs))"

text \<open>\<^verbatim>\<open>except (FileNotFoundError, ValueError, OSError)\<close>; pydantic's validation error is a \<^verbatim>\<open>ValueError\<close>.\<close>

definition caught :: "py_error \<Rightarrow> bool" where
  "caught err \<longleftrightarrow> (case err of OSError \<Rightarrow> True | ValueError msg \<Rightarrow> True | ValidationError \<Rightarrow> True | _ \<Rightarrow> False)"

definition dz_try :: "'a dz \<Rightarrow> 'a result dz" where
  "dz_try m s =
    (case m s of
       (Returned x, s') \<Rightarrow> (Returned (Inr x), s')
     | (Raised err, s') \<Rightarrow> (if caught err then Returned (Inl err) else Raised err, s')
     | (Crashed, s') \<Rightarrow> (Crashed, s'))"

section \<open>The transition ledger\<close>

definition append_transition :: "disclosure_env \<Rightarrow> DisclosureTransition \<Rightarrow> unit dz" where
  "append_transition env t =
    (if dz_transition_ok env t then dz_write (\<lambda>w. w\<lparr>dw_transitions := dw_transitions w @ [Entry t]\<rparr>)
     else dz_read (\<lambda>w. Inl SchemaError))"

definition transitions_for_auth :: "string \<Rightarrow> string \<Rightarrow> disclosure_world \<Rightarrow> DisclosureTransition list" where
  "transitions_for_auth a ev w =
    filter (\<lambda>t. dt_authorization_id t = a \<and> dt_evidence_digest t = ev) (entries (dw_transitions w))"

definition last_event_for_auth :: "string \<Rightarrow> string \<Rightarrow> disclosure_world \<Rightarrow> DisclosureTransition option" where
  "last_event_for_auth a ev w =
    (let chain = transitions_for_auth a ev w in if chain = [] then None else Some (last (sort_key dt_sequence chain)))"

definition find_transition_chain :: "string \<Rightarrow> disclosure_world \<Rightarrow> DisclosureTransition list" where
  "find_transition_chain i w = sort_key dt_sequence (filter (\<lambda>t. dt_transition_id t = i) (entries (dw_transitions w)))"

text \<open>The schema version is not read back from the event.\<close>

definition event_to_transition :: "DisclosureTransition \<Rightarrow> DisclosureTransition" where
  "event_to_transition t = t\<lparr>dt_schema_version := TRANSITION_SCHEMA_VERSION\<rparr>"

definition lookup_pending_transition :: "string \<Rightarrow> string \<Rightarrow> disclosure_world \<Rightarrow> DisclosureTransition option" where
  "lookup_pending_transition a ev w =
    (case last_event_for_auth a ev w of
       None \<Rightarrow> None
     | Some t \<Rightarrow> if dt_is_terminal t then None else Some (event_to_transition t))"

definition lookup_completed_transition :: "string \<Rightarrow> string \<Rightarrow> disclosure_world \<Rightarrow> DisclosureTransition option" where
  "lookup_completed_transition a ev w =
    (case last_event_for_auth a ev w of
       None \<Rightarrow> None
     | Some t \<Rightarrow> if dt_is_terminal t then Some (event_to_transition t) else None)"

section \<open>Downstream artifacts\<close>

definition receipt_identity :: "string \<Rightarrow> string" where
  "receipt_identity i = ''dza_'' @ i"

definition event_identity :: "string \<Rightarrow> string" where
  "event_identity i = ''dze_'' @ i"

definition DisclosureTarget :: "string list" where
  "DisclosureTarget =
    [''local_candidate_no_disclosure'', ''external_ai_reviewer_controlled_account'', ''human_reviewer_confidentiality_duty'',
     ''private_repository_reviewer_access'', ''other_approved_recipient'']"

definition check_compilation :: "string \<Rightarrow> string \<Rightarrow> disclosure_world \<Rightarrow> unit result" where
  "check_compilation projection expected w =
    (case dict_get (dw_compilation_receipts w) projection of
       None \<Rightarrow> Inl OSError
     | Some actual \<Rightarrow> if actual \<noteq> expected then Inl (ValueError ''Compilation receipt SHA256 mismatch'') else Inr ())"

definition bound_auth_digest :: "DisclosureTransition \<Rightarrow> disclosure_world \<Rightarrow> string result" where
  "bound_auth_digest t w =
    and_then (dza_load_receipt (dw_authorizations w) (dt_authorization_id t)) (\<lambda>auth.
      let digest = (case auth of None \<Rightarrow> '''' | Some r \<Rightarrow> da_receipt_sha256 r) in
      if given (dt_consumed_auth_receipt_digest t) \<and> dt_consumed_auth_receipt_digest t \<noteq> Some digest
      then Inl (ValueError ''Authorization receipt digest mismatch'') else Inr digest)"

definition build_disclosure_receipt :: "DisclosureTransition \<Rightarrow> disclosure_world \<Rightarrow> jdict result" where
  "build_disclosure_receipt t w =
    and_then (check_compilation (dt_projection_id t) (dt_compilation_receipt_sha256 t) w) (\<lambda>_.
    and_then (bound_auth_digest t w) (\<lambda>digest.
      if dt_recipient_class t \<notin> set DisclosureTarget then Inl (ValueError ''not a valid DisclosureTarget'')
      else Inr
        [(''schema_version'', JStr ''rig.review_projection.disclosure_authorization.v1''),
         (''authorization_id'', JStr (receipt_identity (dt_transition_id t))), (''projection_id'', JStr (dt_projection_id t)),
         (''candidate_zip_sha256'', JStr (dt_evidence_digest t)),
         (''compilation_receipt_sha256'', JStr (dt_compilation_receipt_sha256 t)),
         (''recipient_class'', JStr (dt_recipient_class t)), (''provider_or_channel'', JStr (dt_provider_or_channel t)),
         (''purpose_or_context'', jopt JStr (dt_purpose t)), (''retention_assertion'', jopt JStr (dt_retention_assertion t)),
         (''training_use_assertion'', jopt JStr (dt_training_use_assertion t)), (''is_transmission_authorized'', JBool False),
         (''approved_by'', JStr ''governance_disclosure_authorization''), (''approved_at'', JTime (dt_receipt_approved_at t)),
         (''authorization_receipt_sha256'', JStr digest), (''human_export_approval_required'', JBool True),
         (''controlled_disclosure_measures_recorded'', JBool True), (''does_not_determine_trade_secret_protection'', JBool True),
         (''recipient_conditions_are_user_asserted_not_verified'', JBool True)]))"

text \<open>The comparison with a receipt that is already there.\<close>

definition existing_receipt_matches :: "jdict \<Rightarrow> stored_file \<Rightarrow> unit result" where
  "existing_receipt_matches receipt_data f =
    (case f of
       FileUnreadable \<Rightarrow> Inl OSError
     | FileNotJson \<Rightarrow> Inl (ValueError ''JSONDecodeError'')
     | FileJson (JObj d) \<Rightarrow>
         if list_ex (\<lambda>(k, v). jget d k \<noteq> v) receipt_data then Inl (ValueError ''Existing receipt field mismatch'') else Inr ()
     | FileJson _ \<Rightarrow> Inl AttributeError)"

definition persist_receipt_durable :: "DisclosureTransition \<Rightarrow> string dz" where
  "persist_receipt_durable t =
    (let i = receipt_identity (dt_transition_id t) in
     dz_bind (dz_read (build_disclosure_receipt t)) (\<lambda>receipt_data.
     dz_bind (dz_read (\<lambda>w. Inr (dict_get (dw_receipts w) i))) (\<lambda>existing.
       case existing of
         Some f \<Rightarrow> dz_bind (dz_read (\<lambda>w. existing_receipt_matches receipt_data f)) (\<lambda>_. dz_return i)
       | None \<Rightarrow>
          dz_bind (dz_write (\<lambda>w. w\<lparr>dw_receipts := dict_set i (FileJson (canon (JObj receipt_data))) (dw_receipts w)\<rparr>))
            (\<lambda>_. dz_return i))))"

definition compute_post_mutation_manifest :: "manifest_hash \<Rightarrow> string \<Rightarrow> ProtectedContentManifest \<Rightarrow> ProtectedContentManifest" where
  "compute_post_mutation_manifest sha selector m = seal_manifest sha (fst (mark_selector_disclosed sha selector m))"

definition validate_manifest_post_image :: "manifest_hash \<Rightarrow> ProtectedContentManifest \<Rightarrow> string \<Rightarrow> bool" where
  "validate_manifest_post_image sha m expected \<longleftrightarrow> compute_manifest_digest sha m = expected"

definition loaded_manifest :: "string \<Rightarrow> disclosure_world \<Rightarrow> ProtectedContentManifest result" where
  "loaded_manifest projection w =
    (case dict_get (dw_manifests w) projection of
       None \<Rightarrow> Inl OSError
     | Some f \<Rightarrow> and_then (load_manifest_json (Some f)) (\<lambda>m. case m of None \<Rightarrow> Inl (ValueError ''Manifest corrupt'') | Some m \<Rightarrow> Inr m))"

definition selector_or_empty :: "DisclosureTransition \<Rightarrow> string" where
  "selector_or_empty t = (case dt_selector_digest t of None \<Rightarrow> '''' | Some d \<Rightarrow> d)"

definition apply_manifest_mutation :: "disclosure_env \<Rightarrow> DisclosureTransition \<Rightarrow> string dz" where
  "apply_manifest_mutation env t =
    dz_bind (dz_read (loaded_manifest (dt_projection_id t))) (\<lambda>m.
      let sha = dz_manifest_sha env; current = compute_manifest_digest sha m in
      if current = dt_manifest_digest_before t then
        let m' = seal_manifest sha (if given (dt_selector_digest t) then fst (mark_selector_disclosed sha (selector_or_empty t) m) else m) in
        dz_bind (dz_write (\<lambda>w. w\<lparr>dw_manifests := dict_set (dt_projection_id t) (MF_manifest m') (dw_manifests w)\<rparr>))
          (\<lambda>_. dz_return (pm_manifest_digest m'))
      else if current = pm_manifest_digest (compute_post_mutation_manifest sha (selector_or_empty t) m) then dz_return current
      else dz_read (\<lambda>w. Inl (ValueError ''Mutation refused'')))"

definition build_disclosure_event :: "DisclosureTransition \<Rightarrow> ProtectedContentManifest option \<Rightarrow> jdict" where
  "build_disclosure_event t manifest =
    [(''schema_version'', JStr ''rig.relay.disclosure_event.v1''), (''event_id'', JStr (event_identity (dt_transition_id t))),
     (''authorization_id'', JStr (dt_authorization_id t)),
     (''authorization_receipt_sha256'', JStr (case dt_consumed_auth_receipt_digest t of None \<Rightarrow> '''' | Some d \<Rightarrow> d)),
     (''evidence_digest'', JStr (dt_evidence_digest t)), (''disclosure_class'', JStr (dt_disclosure_class t)),
     (''recipient_class'', JStr (dt_recipient_class t)), (''projection_id'', JStr (dt_projection_id t)),
     (''created_at'', JTime (dt_disclosure_event_created_at t)), (''outcome'', JStr ''authorized''),
     (''transition_id'', JStr (dt_transition_id t))] @
    (case manifest of None \<Rightarrow> []
     | Some m \<Rightarrow> [(''manifest_digest_before'', JStr (dt_manifest_digest_before t)), (''manifest_digest'', JStr (pm_manifest_digest m))]) @
    (if given (dt_selector_digest t) then [(''selector_digest'', jopt JStr (dt_selector_digest t)), (''selector_disclosed'', JBool True)] else []) @
    (if given (dt_manifest_digest_after t) then [(''manifest_digest_after'', jopt JStr (dt_manifest_digest_after t))] else [])"

text \<open>Whether the ledger holds the event already; a different event of the same transition raises.\<close>

fun find_disclosure_event :: "string \<Rightarrow> jdict \<Rightarrow> json jsonl list \<Rightarrow> bool result" where
  "find_disclosure_event i ev [] = Inr False"
| "find_disclosure_event i ev (Entry (JObj d) # ls) =
    (if jget d ''transition_id'' = JStr i
     then if list_ex (\<lambda>(k, v). v \<noteq> jget d k) ev then Inl (ValueError ''Disclosure event conflict'') else Inr True
     else find_disclosure_event i ev ls)"
| "find_disclosure_event i ev (Entry v # ls) = Inl AttributeError"
| "find_disclosure_event i ev (l # ls) = find_disclosure_event i ev ls"

definition persist_disclosure_event_durable ::
  "disclosure_env \<Rightarrow> DisclosureTransition \<Rightarrow> ProtectedContentManifest option \<Rightarrow> string dz" where
  "persist_disclosure_event_durable env t manifest =
    (let ev = build_disclosure_event t manifest; i = event_identity (dt_transition_id t) in
     if \<not> dz_event_ok env ev then dz_read (\<lambda>w. Inl SchemaError)
     else dz_bind (dz_read (\<lambda>w. find_disclosure_event (dt_transition_id t) ev (dw_events w))) (\<lambda>found.
       if found then dz_return i
       else dz_bind (dz_write (\<lambda>w. w\<lparr>dw_events := dw_events w @ [Entry (canon (JObj ev))]\<rparr>)) (\<lambda>_. dz_return i)))"

section \<open>Preparing and advancing\<close>

record dz_plan =
  dp_authorization_id :: string
  dp_evidence_digest :: string
  dp_projection_id :: string
  dp_disclosure_class :: string
  dp_manifest_digest_before :: string
  dp_recipient_class :: string
  dp_provider_or_channel :: string
  dp_purpose :: "string option"
  dp_selector_digest :: "string option"
  dp_selector_required_class :: "string option"
  dp_retention_assertion :: "string option"
  dp_training_use_assertion :: "string option"
  dp_compilation_receipt_sha256 :: string

definition planned_transition :: "int \<Rightarrow> string \<Rightarrow> dz_plan \<Rightarrow> DisclosureTransition" where
  "planned_transition now i p =
    \<lparr>dt_schema_version = TRANSITION_SCHEMA_VERSION, dt_transition_id = i, dt_authorization_id = dp_authorization_id p,
     dt_evidence_digest = dp_evidence_digest p, dt_projection_id = dp_projection_id p,
     dt_disclosure_class = dp_disclosure_class p, dt_selector_digest = dp_selector_digest p,
     dt_selector_required_class = dp_selector_required_class p, dt_manifest_digest_before = dp_manifest_digest_before p,
     dt_manifest_digest_after = None, dt_recipient_class = dp_recipient_class p,
     dt_provider_or_channel = dp_provider_or_channel p, dt_purpose = dp_purpose p,
     dt_retention_assertion = dp_retention_assertion p, dt_training_use_assertion = dp_training_use_assertion p,
     dt_compilation_receipt_sha256 = dp_compilation_receipt_sha256 p, dt_receipt_approved_at = Aware now,
     dt_disclosure_event_created_at = Aware now, dt_consumed_auth_receipt_digest = None, dt_status = TS_PREPARED,
     dt_parent_transition_digest = None, dt_downstream_event_id = None, dt_downstream_receipt_digest = None,
     dt_transition_digest = '''', dt_created_at = Aware now, dt_sequence = 0\<rparr>"

definition prepare_transition :: "disclosure_env \<Rightarrow> int \<Rightarrow> string \<Rightarrow> dz_plan \<Rightarrow> DisclosureTransition dz" where
  "prepare_transition env now i p =
    dz_bind (dz_read (\<lambda>w. Inr (lookup_pending_transition (dp_authorization_id p) (dp_evidence_digest p) w))) (\<lambda>existing.
      case existing of
        Some t \<Rightarrow> dz_return t
      | None \<Rightarrow>
         dz_bind (if dp_compilation_receipt_sha256 p = '''' then dz_return ()
                  else dz_read (check_compilation (dp_projection_id p) (dp_compilation_receipt_sha256 p))) (\<lambda>_.
           let t = seal_transition (dz_transition_sha env) (planned_transition now i p) in
           dz_bind (append_transition env t) (\<lambda>_. dz_return t)))"

text \<open>\<open>updates\<close> sets the downstream fields that the caller names; every status is accepted.\<close>

definition advanced ::
  "disclosure_env \<Rightarrow> int \<Rightarrow> TransitionStatus \<Rightarrow> (DisclosureTransition \<Rightarrow> DisclosureTransition) \<Rightarrow> DisclosureTransition \<Rightarrow> DisclosureTransition" where
  "advanced env now status updates t = seal_transition (dz_transition_sha env)
     ((updates t)\<lparr>dt_schema_version := TRANSITION_SCHEMA_VERSION, dt_status := status,
        dt_parent_transition_digest := Some (dt_transition_digest t), dt_created_at := Aware now, dt_sequence := dt_sequence t + 1\<rparr>)"

definition advance_transition ::
  "disclosure_env \<Rightarrow> int \<Rightarrow> TransitionStatus \<Rightarrow> (DisclosureTransition \<Rightarrow> DisclosureTransition) \<Rightarrow> DisclosureTransition \<Rightarrow> DisclosureTransition dz" where
  "advance_transition env now status updates t =
    (let t' = advanced env now status updates t in dz_bind (append_transition env t') (\<lambda>_. dz_return t'))"

section \<open>The steps of the corridor\<close>

type_synonym dz_answer = "DisclosureTransition option \<times> bool"

definition give_up :: "disclosure_env \<Rightarrow> int \<Rightarrow> TransitionStatus \<Rightarrow> DisclosureTransition \<Rightarrow> dz_answer dz" where
  "give_up env now status t = dz_bind (advance_transition env now status id t) (\<lambda>ref. dz_return (Some ref, True))"

text \<open>A successful consumption is one durable write of the receipt.\<close>

definition consume_in_world :: "disclosure_env \<Rightarrow> int \<Rightarrow> string \<Rightarrow> dza_context \<Rightarrow> DisclosureResult dz" where
  "consume_in_world env now i c = (\<lambda>(w, fates).
     let (st', res) = consume_disclosure_authorization (dz_receipt_sha env) True now now i c (dw_authorizations w) in
     case res of
       Inl err \<Rightarrow> (Raised err, w, fates)
     | Inr r \<Rightarrow>
        if dx_outcome r = DO_CONSUMED
        then dz_bind (dz_write (\<lambda>w. w\<lparr>dw_authorizations := st'\<rparr>)) (\<lambda>_. dz_return r) (w, fates)
        else (Returned r, w, fates))"

definition consume_step ::
  "disclosure_env \<Rightarrow> int \<Rightarrow> string \<Rightarrow> dza_context \<Rightarrow> DisclosureTransition \<Rightarrow> (DisclosureTransition \<Rightarrow> dz_answer dz) \<Rightarrow> dz_answer dz" where
  "consume_step env now i c t k =
    dz_bind (consume_in_world env now i c) (\<lambda>res.
      if dx_outcome res \<noteq> DO_CONSUMED then give_up env now TS_REFUSED t
      else
        let digest = (case dx_receipt res of None \<Rightarrow> '''' | Some r \<Rightarrow> da_receipt_sha256 r) in
        dz_bind (advance_transition env now TS_AUTHORIZATION_CONSUMED
          (\<lambda>t. t\<lparr>dt_consumed_auth_receipt_digest := Some digest\<rparr>) t) k)"

definition receipt_step ::
  "disclosure_env \<Rightarrow> int \<Rightarrow> TransitionStatus \<Rightarrow> DisclosureTransition \<Rightarrow> (DisclosureTransition \<Rightarrow> dz_answer dz) \<Rightarrow> dz_answer dz" where
  "receipt_step env now on_failure t k =
    dz_bind (dz_try (persist_receipt_durable t)) (\<lambda>res.
      case res of
        Inl err \<Rightarrow> give_up env now on_failure t
      | Inr i \<Rightarrow> dz_bind (advance_transition env now TS_PROJECTION_RECEIPT_PERSISTED
          (\<lambda>t. t\<lparr>dt_downstream_receipt_digest := Some i\<rparr>) t) k)"

definition manifest_step ::
  "disclosure_env \<Rightarrow> int \<Rightarrow> DisclosureTransition \<Rightarrow> (DisclosureTransition \<Rightarrow> dz_answer dz) \<Rightarrow> dz_answer dz" where
  "manifest_step env now t k =
    dz_bind (dz_try (apply_manifest_mutation env t)) (\<lambda>res.
      case res of
        Inl err \<Rightarrow> give_up env now TS_CORRUPT t
      | Inr d \<Rightarrow> dz_bind (advance_transition env now TS_MANIFEST_APPLIED (\<lambda>t. t\<lparr>dt_manifest_digest_after := Some d\<rparr>) t) k)"

definition manifest_or_none :: "string \<Rightarrow> disclosure_world \<Rightarrow> ProtectedContentManifest option result" where
  "manifest_or_none projection w =
    (case load_manifest_json (dict_get (dw_manifests w) projection) of Inl err \<Rightarrow> Inr None | Inr m \<Rightarrow> Inr m)"

definition event_step ::
  "disclosure_env \<Rightarrow> int \<Rightarrow> string \<Rightarrow> DisclosureTransition \<Rightarrow> (DisclosureTransition \<Rightarrow> dz_answer dz) \<Rightarrow> dz_answer dz" where
  "event_step env now projection t k =
    dz_bind (dz_read (manifest_or_none projection)) (\<lambda>m.
    dz_bind (dz_try (persist_disclosure_event_durable env t m)) (\<lambda>res.
      case res of
        Inl err \<Rightarrow> give_up env now TS_RECOVERY_REQUIRED t
      | Inr i \<Rightarrow> dz_bind (advance_transition env now TS_DISCLOSURE_EVENT_RECORDED (\<lambda>t. t\<lparr>dt_downstream_event_id := Some i\<rparr>) t) k))"

definition complete_step :: "disclosure_env \<Rightarrow> int \<Rightarrow> DisclosureTransition \<Rightarrow> dz_answer dz" where
  "complete_step env now t = dz_bind (advance_transition env now TS_COMPLETED id t) (\<lambda>t'. dz_return (Some t', False))"

text \<open>\<^verbatim>\<open>except Exception\<close> around a whole call.\<close>

definition dz_guard :: "dz_answer dz \<Rightarrow> dz_answer dz" where
  "dz_guard m s = (case m s of (Raised err, s') \<Rightarrow> (Returned (None, True), s') | r \<Rightarrow> r)"

section \<open>Execution and recovery\<close>

definition plan_context :: "dz_plan \<Rightarrow> dza_context" where
  "plan_context p = \<lparr>dc_evidence_digest = Some (dp_evidence_digest p), dc_disclosure_class = Some (dp_disclosure_class p),
     dc_selector_digest = dp_selector_digest p, dc_required_selector_class = dp_selector_required_class p\<rparr>"

definition execute_disclosure_transition :: "disclosure_env \<Rightarrow> int \<Rightarrow> string \<Rightarrow> dz_plan \<Rightarrow> dz_answer dz" where
  "execute_disclosure_transition env now i p =
    dz_bind (dz_read (\<lambda>w. Inr (lookup_completed_transition (dp_authorization_id p) (dp_evidence_digest p) w))) (\<lambda>existing.
      case existing of
        Some t \<Rightarrow> dz_return (Some t, False)
      | None \<Rightarrow> dz_guard (
          dz_bind (prepare_transition env now i p) (\<lambda>t.
          consume_step env now (dp_authorization_id p) (plan_context p) t (\<lambda>t.
          receipt_step env now TS_REFUSED t (\<lambda>t.
          manifest_step env now t (\<lambda>t.
          event_step env now (dp_projection_id p) t (complete_step env now)))))))"

definition recovery_context :: "string \<Rightarrow> DisclosureTransition \<Rightarrow> dza_context" where
  "recovery_context evidence t = \<lparr>dc_evidence_digest = Some evidence, dc_disclosure_class = Some (dt_disclosure_class t),
     dc_selector_digest = dt_selector_digest t, dc_required_selector_class = dt_selector_required_class t\<rparr>"

text \<open>The on-disk authorization receipt must be the one that was consumed.\<close>

definition check_consumed ::
  "disclosure_env \<Rightarrow> int \<Rightarrow> string \<Rightarrow> DisclosureTransition \<Rightarrow> (DisclosureTransition \<Rightarrow> dz_answer dz) \<Rightarrow> dz_answer dz" where
  "check_consumed env now a t k =
    (if \<not> given (dt_consumed_auth_receipt_digest t) then k t
     else dz_bind (dz_read (\<lambda>w. dza_load_receipt (dw_authorizations w) a)) (\<lambda>loaded.
       case loaded of
         None \<Rightarrow> give_up env now TS_CORRUPT t
       | Some r \<Rightarrow> if dt_consumed_auth_receipt_digest t \<noteq> Some (da_receipt_sha256 r) then give_up env now TS_CORRUPT t else k t))"

definition resume :: "disclosure_env \<Rightarrow> int \<Rightarrow> string \<Rightarrow> string \<Rightarrow> DisclosureTransition \<Rightarrow> dz_answer dz" where
  "resume env now a ev plan =
    (let s = dt_status plan;
         step3 = (\<lambda>t k. if s \<in> {TS_AUTHORIZATION_CONSUMED, TS_PREPARED} then receipt_step env now TS_RECOVERY_REQUIRED t k else k t);
         step4 = (\<lambda>t k. if s \<in> {TS_PROJECTION_RECEIPT_PERSISTED, TS_AUTHORIZATION_CONSUMED, TS_PREPARED} then manifest_step env now t k else k t);
         step5 = (\<lambda>t k. if s \<in> {TS_MANIFEST_APPLIED, TS_PROJECTION_RECEIPT_PERSISTED, TS_AUTHORIZATION_CONSUMED, TS_PREPARED}
                        then event_step env now (dt_projection_id t) t k else k t);
         rest = (\<lambda>t. check_consumed env now a t (\<lambda>t. step3 t (\<lambda>t. step4 t (\<lambda>t. step5 t (complete_step env now)))))
     in if s \<notin> {TS_AUTHORIZATION_CONSUMED, TS_PROJECTION_RECEIPT_PERSISTED, TS_MANIFEST_APPLIED, TS_DISCLOSURE_EVENT_RECORDED}
        then consume_step env now a (recovery_context ev plan) plan rest
        else rest plan)"

text \<open>\<open>seen\<close> is the last event as it was read before the lock was taken.\<close>

definition recover_locked :: "disclosure_env \<Rightarrow> int \<Rightarrow> string \<Rightarrow> string \<Rightarrow> DisclosureTransition option \<Rightarrow> dz_answer dz" where
  "recover_locked env now a ev seen =
    (case seen of
       None \<Rightarrow> dz_return (None, True)
     | Some last_event \<Rightarrow>
        if dt_schema_version last_event \<noteq> TRANSITION_SCHEMA_VERSION then dz_return (None, True)
        else if dt_is_terminal last_event
        then dz_return (Some (event_to_transition last_event), dt_status last_event \<noteq> TS_COMPLETED)
        else dz_guard (
          dz_bind (dz_read (\<lambda>w. Inr (last_event_for_auth a ev w))) (\<lambda>locked_last.
            case locked_last of
              Some l \<Rightarrow>
                if dt_sequence l > dt_sequence last_event \<and> dt_is_terminal l
                then dz_return (Some (event_to_transition l), dt_status l \<noteq> TS_COMPLETED)
                else resume env now a ev (event_to_transition last_event)
            | None \<Rightarrow> resume env now a ev (event_to_transition last_event))))"

definition recover_disclosure_transition :: "disclosure_env \<Rightarrow> int \<Rightarrow> string \<Rightarrow> string \<Rightarrow> dz_answer dz" where
  "recover_disclosure_transition env now a ev =
    dz_bind (dz_read (\<lambda>w. Inr (last_event_for_auth a ev w))) (recover_locked env now a ev)"

end
