(* ===== verification/Disclosure_Recovery.thy ===== *)
theory Disclosure_Recovery
  imports Disclosure_Transition
begin

text \<open>
  What a run of the disclosure corridor leaves behind when it stops, and what recovery makes of
  it: the effect of each step with and without its durable writes, the states between two
  writes, and recovery from each of them.  The digests stay parameters; \<open>accepting\<close> says that the
  two JSON schemas accept what the corridor writes.
\<close>

section \<open>Running the steps\<close>

definition accepting :: "disclosure_env \<Rightarrow> bool" where
  "accepting env \<longleftrightarrow> (\<forall>t. dz_transition_ok env t) \<and> (\<forall>ev. dz_event_ok env ev)"

definition record_transition :: "DisclosureTransition \<Rightarrow> disclosure_world \<Rightarrow> disclosure_world" where
  "record_transition t w = w\<lparr>dw_transitions := dw_transitions w @ [Entry t]\<rparr>"

lemma record_transition_fields [simp]:
  "dw_transitions (record_transition t w) = dw_transitions w @ [Entry t]"
  "dw_authorizations (record_transition t w) = dw_authorizations w" "dw_receipts (record_transition t w) = dw_receipts w"
  "dw_compilation_receipts (record_transition t w) = dw_compilation_receipts w"
  "dw_manifests (record_transition t w) = dw_manifests w" "dw_events (record_transition t w) = dw_events w"
  by (simp_all add: record_transition_def)

lemma dz_bind_simps [simp]:
  "dz_bind (dz_return x) f s = f x s"
  "dz_bind (dz_read g) f s = (case g (fst s) of Inl err \<Rightarrow> (Raised err, s) | Inr x \<Rightarrow> f x s)"
  "dz_bind (dz_bind m f') h = dz_bind m (\<lambda>x. dz_bind (f' x) h)"
  by (auto simp: dz_bind_def dz_return_def dz_read_def fun_eq_iff split: sum.splits prod.splits run_result.splits)

lemma dz_try_return [simp]: "dz_try (dz_return x) s = (Returned (Inr x), s)"
  by (simp add: dz_try_def dz_return_def)

lemma dz_write_simps [simp]:
  "dz_write f (w, []) = (Returned (), f w, [])" "dz_write f (w, W_ok # fs) = (Returned (), f w, fs)"
  "dz_write f (w, W_fails # fs) = (Raised OSError, w, fs)" "dz_write f (w, W_crash # fs) = (Crashed, w, fs)"
  by (simp_all add: dz_write_def)

lemma bind_advance:
  assumes "accepting env"
  shows "dz_bind (advance_transition env now s f t) k (w, []) = k (advanced env now s f t) (record_transition (advanced env now s f t) w, [])"
    and "dz_bind (advance_transition env now s f t) k (w, W_ok # fs) = k (advanced env now s f t) (record_transition (advanced env now s f t) w, fs)"
    and "dz_bind (advance_transition env now s f t) k (w, W_crash # fs) = (Crashed, w, fs)"
  using assms
  by (simp_all add: advance_transition_def append_transition_def accepting_def record_transition_def Let_def)
    (simp_all add: dz_bind_def dz_return_def)

lemma advanced_fields [simp]:
  "dt_status (advanced env now s f t) = s" "dt_schema_version (advanced env now s f t) = TRANSITION_SCHEMA_VERSION"
  "dt_sequence (advanced env now s f t) = dt_sequence t + 1"
  "dt_parent_transition_digest (advanced env now s f t) = Some (dt_transition_digest t)"
  "dt_transition_digest (advanced env now s f t) = transition_digest_of (dz_transition_sha env) (advanced env now s f t)"
  by (simp_all add: advanced_def seal_transition_def transition_digest_of_def)

text \<open>What a transition keeps of its plan.\<close>

definition same_plan :: "DisclosureTransition \<Rightarrow> DisclosureTransition \<Rightarrow> bool" where
  "same_plan t t' \<longleftrightarrow>
    dt_transition_id t' = dt_transition_id t \<and> dt_authorization_id t' = dt_authorization_id t \<and> dt_evidence_digest t' = dt_evidence_digest t \<and>
    dt_projection_id t' = dt_projection_id t \<and> dt_disclosure_class t' = dt_disclosure_class t \<and> dt_selector_digest t' = dt_selector_digest t \<and>
    dt_selector_required_class t' = dt_selector_required_class t \<and> dt_manifest_digest_before t' = dt_manifest_digest_before t \<and>
    dt_recipient_class t' = dt_recipient_class t \<and> dt_provider_or_channel t' = dt_provider_or_channel t \<and> dt_purpose t' = dt_purpose t \<and>
    dt_retention_assertion t' = dt_retention_assertion t \<and> dt_training_use_assertion t' = dt_training_use_assertion t \<and>
    dt_compilation_receipt_sha256 t' = dt_compilation_receipt_sha256 t \<and> dt_receipt_approved_at t' = dt_receipt_approved_at t \<and>
    dt_disclosure_event_created_at t' = dt_disclosure_event_created_at t"

lemma same_plan_refl [simp]: "same_plan t t"
  by (simp add: same_plan_def)

lemma same_plan_trans [trans]: "same_plan t u \<Longrightarrow> same_plan u v \<Longrightarrow> same_plan t v"
  by (simp add: same_plan_def)

text \<open>The transitions of a run, by the status they record.\<close>

abbreviation t_consumed :: "disclosure_env \<Rightarrow> int \<Rightarrow> string \<Rightarrow> DisclosureTransition \<Rightarrow> DisclosureTransition" where
  "t_consumed env now d t \<equiv> advanced env now TS_AUTHORIZATION_CONSUMED (\<lambda>t. t\<lparr>dt_consumed_auth_receipt_digest := Some d\<rparr>) t"

abbreviation t_receipt :: "disclosure_env \<Rightarrow> int \<Rightarrow> string \<Rightarrow> DisclosureTransition \<Rightarrow> DisclosureTransition" where
  "t_receipt env now i t \<equiv> advanced env now TS_PROJECTION_RECEIPT_PERSISTED (\<lambda>t. t\<lparr>dt_downstream_receipt_digest := Some i\<rparr>) t"

abbreviation t_manifest :: "disclosure_env \<Rightarrow> int \<Rightarrow> string \<Rightarrow> DisclosureTransition \<Rightarrow> DisclosureTransition" where
  "t_manifest env now d t \<equiv> advanced env now TS_MANIFEST_APPLIED (\<lambda>t. t\<lparr>dt_manifest_digest_after := Some d\<rparr>) t"

abbreviation t_event :: "disclosure_env \<Rightarrow> int \<Rightarrow> string \<Rightarrow> DisclosureTransition \<Rightarrow> DisclosureTransition" where
  "t_event env now i t \<equiv> advanced env now TS_DISCLOSURE_EVENT_RECORDED (\<lambda>t. t\<lparr>dt_downstream_event_id := Some i\<rparr>) t"

lemma run_plan:
  "same_plan t (t_consumed env now d t)" "same_plan t (t_receipt env now d t)" "same_plan t (t_manifest env now d t)"
  "same_plan t (t_event env now d t)" "same_plan t (advanced env now s id t)"
  "dt_consumed_auth_receipt_digest (t_consumed env now d t) = Some d"
  "dt_consumed_auth_receipt_digest (t_receipt env now d t) = dt_consumed_auth_receipt_digest t"
  "dt_consumed_auth_receipt_digest (t_manifest env now d t) = dt_consumed_auth_receipt_digest t"
  "dt_consumed_auth_receipt_digest (t_event env now d t) = dt_consumed_auth_receipt_digest t"
  "dt_consumed_auth_receipt_digest (advanced env now s id t) = dt_consumed_auth_receipt_digest t"
  "dt_manifest_digest_after (t_manifest env now d t) = Some d"
  "dt_manifest_digest_after (t_event env now d t) = dt_manifest_digest_after t"
  by (simp_all add: same_plan_def advanced_def seal_transition_def)

section \<open>The artifacts of a transition\<close>

abbreviation receipt_file :: "DisclosureTransition \<Rightarrow> disclosure_world \<Rightarrow> stored_file option" where
  "receipt_file t w \<equiv> dict_get (dw_receipts w) (receipt_identity (dt_transition_id t))"

definition receipt_possible :: "DisclosureTransition \<Rightarrow> disclosure_world \<Rightarrow> bool" where
  "receipt_possible t w \<longleftrightarrow> (\<exists>d. build_disclosure_receipt t w = Inr d \<and>
    (receipt_file t w = None \<or> receipt_file t w = Some (FileJson (canon (JObj d)))))"

definition post_image :: "disclosure_env \<Rightarrow> DisclosureTransition \<Rightarrow> ProtectedContentManifest \<Rightarrow> ProtectedContentManifest" where
  "post_image env t m = seal_manifest (dz_manifest_sha env)
    (if given (dt_selector_digest t) then fst (mark_selector_disclosed (dz_manifest_sha env) (selector_or_empty t) m) else m)"

definition names_transition :: "string \<Rightarrow> json jsonl \<Rightarrow> bool" where
  "names_transition i l = (case l of Entry (JObj d) \<Rightarrow> jget d ''transition_id'' = JStr i | _ \<Rightarrow> False)"

definition object_lines :: "json jsonl list \<Rightarrow> bool" where
  "object_lines ls \<longleftrightarrow> (\<forall>v. Entry v \<in> set ls \<longrightarrow> (\<exists>d. v = JObj d))"

definition no_event :: "string \<Rightarrow> disclosure_world \<Rightarrow> bool" where
  "no_event i w \<longleftrightarrow> object_lines (dw_events w) \<and> filter (names_transition i) (dw_events w) = []"

definition event_recorded :: "disclosure_env \<Rightarrow> DisclosureTransition \<Rightarrow> ProtectedContentManifest \<Rightarrow> disclosure_world \<Rightarrow> bool" where
  "event_recorded env t m w \<longleftrightarrow> object_lines (dw_events w) \<and>
    filter (names_transition (dt_transition_id t)) (dw_events w) = [Entry (canon (JObj (build_disclosure_event t (Some m))))]"

lemma event_transition_id: "jget (build_disclosure_event t m) ''transition_id'' = JStr (dt_transition_id t)"
  by (simp add: build_disclosure_event_def jget_def dict_get_def)

lemma wf_disclosure_event: "wf_dict (build_disclosure_event t m)"
  by (auto simp: build_disclosure_event_def wf_dict_def split: option.splits)

lemma event_scalar: "(k, v) \<in> set (build_disclosure_event t m) \<Longrightarrow> canon v = v"
  by (auto simp: build_disclosure_event_def jopt_def split: option.splits if_splits)

lemma find_no_event: "object_lines ls \<Longrightarrow> filter (names_transition i) ls = [] \<Longrightarrow> find_disclosure_event i ev ls = Inr False"
  by (induction i ev ls rule: find_disclosure_event.induct) (auto simp: names_transition_def object_lines_def)

lemma scalar_dict_matches:
  assumes "wf_dict d" and "\<And>k v. (k, v) \<in> set d \<Longrightarrow> canon v = v"
  shows "(k, v) \<in> set d \<Longrightarrow> jget (canon_dict d) k = v"
proof -
  assume kv: "(k, v) \<in> set d"
  then have "jget d k = v" using assms(1) by (simp add: jget_def dict_item_get)
  then show ?thesis using assms(1) assms(2) [OF kv] by (simp add: jget_canon)
qed

lemma recorded_event_matches: "\<not> list_ex (\<lambda>(k, v). v \<noteq> jget (canon_dict (build_disclosure_event t m)) k) (build_disclosure_event t m)"
  using scalar_dict_matches [OF wf_disclosure_event event_scalar] by (fastforce simp: list_ex_iff)

lemma find_recorded_event:
  "object_lines ls \<Longrightarrow> filter (names_transition (dt_transition_id t)) ls = [Entry (canon (JObj (build_disclosure_event t m)))] \<Longrightarrow>
    find_disclosure_event (dt_transition_id t) (build_disclosure_event t m) ls = Inr True"
proof (induction ls)
  case (Cons l ls)
  show ?case
  proof (cases "names_transition (dt_transition_id t) l")
    case True
    with Cons.prems(2) have "l = Entry (JObj (canon_dict (build_disclosure_event t m)))" by simp
    moreover have "jget (canon_dict (build_disclosure_event t m)) ''transition_id'' = JStr (dt_transition_id t)"
      using wf_disclosure_event by (simp add: jget_canon event_transition_id)
    ultimately show ?thesis using recorded_event_matches by simp
  next
    case False
    with Cons show ?thesis
      by (cases l) (auto simp: object_lines_def names_transition_def)
  qed
qed simp

section \<open>What each step does\<close>

lemma built_receipt:
  assumes "build_disclosure_receipt t w = Inr d"
  shows "wf_dict d" and "\<And>k v. (k, v) \<in> set d \<Longrightarrow> canon v = v"
proof -
  from assms obtain digest where "d =
        [(''schema_version'', JStr ''rig.review_projection.disclosure_authorization.v1''),
         (''authorization_id'', JStr (receipt_identity (dt_transition_id t))), (''projection_id'', JStr (dt_projection_id t)),
         (''candidate_zip_sha256'', JStr (dt_evidence_digest t)),
         (''compilation_receipt_sha256'', JStr (dt_compilation_receipt_sha256 t)),
         (''recipient_class'', JStr (dt_recipient_class t)), (''provider_or_channel'', JStr (dt_provider_or_channel t)),
         (''purpose_or_context'', jopt JStr (dt_purpose t)), (''retention_assertion'', jopt JStr (dt_retention_assertion t)),
         (''training_use_assertion'', jopt JStr (dt_training_use_assertion t)), (''is_transmission_authorized'', JBool False),
         (''approved_by'', JStr ''governance_disclosure_authorization''), (''approved_at'', JTime (dt_receipt_approved_at t)),
         (''authorization_receipt_sha256'', JStr digest), (''human_export_approval_required'', JBool True),
         (''controlled_disclosure_measures_recorded'', JBool True), (''does_not_determine_trade_secret_protection'', JBool True),
         (''recipient_conditions_are_user_asserted_not_verified'', JBool True)]"
    by (auto simp: build_disclosure_receipt_def and_then_Inr_iff split: if_splits)
  then show "wf_dict d" and "\<And>k v. (k, v) \<in> set d \<Longrightarrow> canon v = v"
    by (auto simp: wf_dict_def jopt_def split: option.splits)
qed

lemma existing_receipt_ok: "build_disclosure_receipt t w = Inr d \<Longrightarrow> existing_receipt_matches d (FileJson (canon (JObj d))) = Inr ()"
  using scalar_dict_matches [OF built_receipt] by (fastforce simp: existing_receipt_matches_def list_ex_iff)

abbreviation with_receipt :: "DisclosureTransition \<Rightarrow> jdict \<Rightarrow> disclosure_world \<Rightarrow> disclosure_world" where
  "with_receipt t d w \<equiv> w\<lparr>dw_receipts := dict_set (receipt_identity (dt_transition_id t)) (FileJson (canon (JObj d))) (dw_receipts w)\<rparr>"

lemma persist_receipt_new:
  assumes "build_disclosure_receipt t w = Inr d" and "receipt_file t w = None"
  defines "i \<equiv> receipt_identity (dt_transition_id t)"
  shows "dz_bind (dz_try (persist_receipt_durable t)) k (w, []) = k (Inr i) (with_receipt t d w, [])"
    and "dz_bind (dz_try (persist_receipt_durable t)) k (w, W_ok # fs) = k (Inr i) (with_receipt t d w, fs)"
    and "dz_bind (dz_try (persist_receipt_durable t)) k (w, W_crash # fs) = (Crashed, w, fs)"
  using assms(1,2)
  by (simp_all add: dz_bind_def [of "dz_try p" for p] dz_try_def persist_receipt_durable_def i_def Let_def)
    (simp_all add: dz_bind_def dz_return_def)

lemma persist_receipt_again:
  assumes "build_disclosure_receipt t w = Inr d" and "receipt_file t w = Some (FileJson (canon (JObj d)))"
  shows "dz_bind (dz_try (persist_receipt_durable t)) k (w, fs) = k (Inr (receipt_identity (dt_transition_id t))) (w, fs)"
  using assms existing_receipt_ok [OF assms(1)]
  by (simp add: dz_bind_def [of "dz_try p" for p] dz_try_def persist_receipt_durable_def Let_def del: canon_JObj)
    (simp add: dz_return_def)

lemma post_image_again: "post_image env t (post_image env t m) = post_image env t m"
  by (simp add: post_image_def mark_idempotent)

lemma post_image_sealed: "compute_manifest_digest (dz_manifest_sha env) (post_image env t m) = pm_manifest_digest (post_image env t m)"
  by (simp add: post_image_def)

abbreviation with_manifest :: "DisclosureTransition \<Rightarrow> ProtectedContentManifest \<Rightarrow> disclosure_world \<Rightarrow> disclosure_world" where
  "with_manifest t m w \<equiv> w\<lparr>dw_manifests := dict_set (dt_projection_id t) (MF_manifest m) (dw_manifests w)\<rparr>"

abbreviation manifest_of :: "DisclosureTransition \<Rightarrow> disclosure_world \<Rightarrow> manifest_file option" where
  "manifest_of t w \<equiv> dict_get (dw_manifests w) (dt_projection_id t)"

lemma apply_manifest_new:
  assumes "manifest_of t w = Some (MF_manifest m)" and "compute_manifest_digest (dz_manifest_sha env) m = dt_manifest_digest_before t"
  defines "m' \<equiv> post_image env t m"
  shows "dz_bind (dz_try (apply_manifest_mutation env t)) k (w, []) = k (Inr (pm_manifest_digest m')) (with_manifest t m' w, [])"
    and "dz_bind (dz_try (apply_manifest_mutation env t)) k (w, W_ok # fs) = k (Inr (pm_manifest_digest m')) (with_manifest t m' w, fs)"
    and "dz_bind (dz_try (apply_manifest_mutation env t)) k (w, W_crash # fs) = (Crashed, w, fs)"
  using assms(1,2)
  by (simp_all add: dz_bind_def [of "dz_try p" for p] dz_try_def apply_manifest_mutation_def loaded_manifest_def m'_def post_image_def Let_def)
    (simp_all add: dz_bind_def dz_return_def)

text \<open>A manifest that already is the result, and differs from the manifest before, is left alone.\<close>

lemma apply_manifest_again:
  assumes "manifest_of t w = Some (MF_manifest (post_image env t m))"
    and "compute_manifest_digest (dz_manifest_sha env) m = dt_manifest_digest_before t"
    and False: "compute_manifest_digest (dz_manifest_sha env) (post_image env t m) \<noteq> dt_manifest_digest_before t"
  shows "dz_bind (dz_try (apply_manifest_mutation env t)) k (w, fs) = k (Inr (pm_manifest_digest (post_image env t m))) (w, fs)"
proof -
  have given: "given (dt_selector_digest t)"
  proof (rule ccontr)
    assume "\<not> given (dt_selector_digest t)"
    then have "post_image env t m = seal_manifest (dz_manifest_sha env) m" by (simp add: post_image_def)
    with False assms(2) show False by simp
  qed
  have "pm_manifest_digest (compute_post_mutation_manifest (dz_manifest_sha env) (selector_or_empty t) (post_image env t m)) =
      pm_manifest_digest (post_image env t m)"
    using post_image_again [of env t m] given by (simp add: post_image_def compute_post_mutation_manifest_def)
  with assms(1) False show ?thesis
    by (simp add: dz_bind_def [of "dz_try p" for p] dz_try_def apply_manifest_mutation_def loaded_manifest_def post_image_sealed Let_def)
      (simp add: dz_return_def)
qed

abbreviation with_event :: "DisclosureTransition \<Rightarrow> ProtectedContentManifest option \<Rightarrow> disclosure_world \<Rightarrow> disclosure_world" where
  "with_event t m w \<equiv> w\<lparr>dw_events := dw_events w @ [Entry (canon (JObj (build_disclosure_event t m)))]\<rparr>"

lemma persist_event_new:
  assumes "accepting env" and "no_event (dt_transition_id t) w"
  defines "i \<equiv> event_identity (dt_transition_id t)"
  shows "dz_bind (dz_try (persist_disclosure_event_durable env t m)) k (w, []) = k (Inr i) (with_event t m w, [])"
    and "dz_bind (dz_try (persist_disclosure_event_durable env t m)) k (w, W_ok # fs) = k (Inr i) (with_event t m w, fs)"
    and "dz_bind (dz_try (persist_disclosure_event_durable env t m)) k (w, W_crash # fs) = (Crashed, w, fs)"
  using assms(1,2)
  by (simp_all add: dz_bind_def [of "dz_try p" for p] dz_try_def persist_disclosure_event_durable_def accepting_def no_event_def
      find_no_event i_def Let_def)
    (simp_all add: dz_bind_def dz_return_def)

lemma persist_event_again:
  assumes "accepting env" and "event_recorded env t m w"
  shows "dz_bind (dz_try (persist_disclosure_event_durable env t (Some m))) k (w, fs) = k (Inr (event_identity (dt_transition_id t))) (w, fs)"
  using assms find_recorded_event [of "dw_events w" t "Some m"]
  by (simp add: dz_bind_def [of "dz_try p" for p] dz_try_def persist_disclosure_event_durable_def accepting_def event_recorded_def Let_def)
    (simp add: dz_return_def)

section \<open>The states between two writes\<close>

definition receipt_in_place :: "DisclosureTransition \<Rightarrow> disclosure_world \<Rightarrow> bool" where
  "receipt_in_place t w \<longleftrightarrow>
    (\<exists>d. build_disclosure_receipt t w = Inr d \<and> receipt_file t w = Some (FileJson (canon (JObj d))))"

definition consumed_bound :: "DisclosureTransition \<Rightarrow> disclosure_world \<Rightarrow> bool" where
  "consumed_bound t w \<longleftrightarrow> (\<exists>r. dza_load_receipt (dw_authorizations w) (dt_authorization_id t) = Inr (Some r) \<and>
    dt_consumed_auth_receipt_digest t = Some (da_receipt_sha256 r))"

definition manifest_pending :: "disclosure_env \<Rightarrow> ProtectedContentManifest \<Rightarrow> DisclosureTransition \<Rightarrow> disclosure_world \<Rightarrow> bool" where
  "manifest_pending env m t w \<longleftrightarrow> compute_manifest_digest (dz_manifest_sha env) m = dt_manifest_digest_before t \<and>
    (manifest_of t w = Some (MF_manifest m) \<or> manifest_of t w = Some (MF_manifest (post_image env t m)))"

definition manifest_applied :: "disclosure_env \<Rightarrow> ProtectedContentManifest \<Rightarrow> DisclosureTransition \<Rightarrow> disclosure_world \<Rightarrow> bool" where
  "manifest_applied env m t w \<longleftrightarrow> manifest_of t w = Some (MF_manifest (post_image env t m))"

definition disclosed :: "disclosure_env \<Rightarrow> ProtectedContentManifest \<Rightarrow> DisclosureTransition \<Rightarrow> disclosure_world \<Rightarrow> bool" where
  "disclosed env m t w \<longleftrightarrow> receipt_in_place t w \<and> manifest_applied env m t w \<and> event_recorded env t (post_image env t m) w"

definition in_stage :: "disclosure_env \<Rightarrow> ProtectedContentManifest \<Rightarrow> DisclosureTransition \<Rightarrow> disclosure_world \<Rightarrow> bool" where
  "in_stage env m t w \<longleftrightarrow> consumed_bound t w \<and>
    (case dt_status t of
       TS_AUTHORIZATION_CONSUMED \<Rightarrow> receipt_possible t w \<and> manifest_pending env m t w \<and> no_event (dt_transition_id t) w
     | TS_PROJECTION_RECEIPT_PERSISTED \<Rightarrow> receipt_in_place t w \<and> manifest_pending env m t w \<and> no_event (dt_transition_id t) w
     | TS_MANIFEST_APPLIED \<Rightarrow> receipt_in_place t w \<and> manifest_applied env m t w \<and>
         (no_event (dt_transition_id t) w \<or> event_recorded env t (post_image env t m) w)
     | TS_DISCLOSURE_EVENT_RECORDED \<Rightarrow> disclosed env m t w
     | _ \<Rightarrow> False)"

text \<open>The last line of the ledger is the latest event of its authorization and evidence.\<close>

definition latest :: "DisclosureTransition \<Rightarrow> DisclosureTransition \<Rightarrow> disclosure_world \<Rightarrow> bool" where
  "latest p t w \<longleftrightarrow> same_plan p t \<and> dt_schema_version t = TRANSITION_SCHEMA_VERSION \<and> (\<exists>ls. dw_transitions w = ls @ [Entry t]) \<and>
    (\<forall>u \<in> set (transitions_for_auth (dt_authorization_id p) (dt_evidence_digest p) w). dt_sequence u \<le> dt_sequence t)"

definition resumable :: "disclosure_env \<Rightarrow> ProtectedContentManifest \<Rightarrow> DisclosureTransition \<Rightarrow> disclosure_world \<Rightarrow> bool" where
  "resumable env m p w \<longleftrightarrow> (\<exists>t. latest p t w \<and> in_stage env m t w)"

lemma entries_snoc [simp]: "entries (ls @ [Entry t]) = entries ls @ [t]"
  by simp

lemma sort_key_stable': "filter (\<lambda>y. k = f y) (sort_key f xs) = filter (\<lambda>y. k = f y) xs"
  using sort_key_stable [of f k xs] by (simp add: eq_commute)

lemma sort_key_snoc: "(\<And>y. y \<in> set xs \<Longrightarrow> f y \<le> f x) \<Longrightarrow> sort_key f (xs @ [x]) = sort_key f xs @ [x]"
  by (rule properties_for_sort_key) (auto simp: sorted_append sort_key_stable')

lemma latest_found:
  assumes "latest p t w"
  shows "last_event_for_auth (dt_authorization_id p) (dt_evidence_digest p) w = Some t"
proof -
  from assms obtain ls where w: "dw_transitions w = ls @ [Entry t]" and p: "same_plan p t"
    and le: "\<forall>u \<in> set (transitions_for_auth (dt_authorization_id p) (dt_evidence_digest p) w). dt_sequence u \<le> dt_sequence t"
    by (auto simp: latest_def)
  define xs where "xs = filter (\<lambda>t. dt_authorization_id t = dt_authorization_id p \<and> dt_evidence_digest t = dt_evidence_digest p) (entries ls)"
  have chain: "transitions_for_auth (dt_authorization_id p) (dt_evidence_digest p) w = xs @ [t]"
    using p by (simp add: transitions_for_auth_def w xs_def same_plan_def)
  with le have "sort_key dt_sequence (xs @ [t]) = sort_key dt_sequence xs @ [t]" by (intro sort_key_snoc) auto
  with chain show ?thesis by (simp add: last_event_for_auth_def Let_def)
qed

lemma latest_advance:
  assumes "latest p t w" and "same_plan t (advanced env now s f t)"
  shows "latest p (advanced env now s f t) (record_transition (advanced env now s f t) w)"
  using assms same_plan_trans [of p t "advanced env now s f t"]
  by (fastforce simp: latest_def transitions_for_auth_def)

lemma latest_cong: "dw_transitions w' = dw_transitions w \<Longrightarrow> latest p t w' = latest p t w"
  by (simp add: latest_def transitions_for_auth_def)

text \<open>What the artifacts depend on.\<close>

lemma receipt_cong:
  assumes "same_plan t t'" and "dt_consumed_auth_receipt_digest t' = dt_consumed_auth_receipt_digest t"
    and "dw_authorizations w' = dw_authorizations w" and "dw_compilation_receipts w' = dw_compilation_receipts w"
  shows "build_disclosure_receipt t' w' = build_disclosure_receipt t w"
  using assms by (simp add: build_disclosure_receipt_def check_compilation_def bound_auth_digest_def same_plan_def Let_def cong: option.case_cong if_cong)

lemma post_image_cong: "same_plan t t' \<Longrightarrow> post_image env t' m = post_image env t m"
  by (simp add: post_image_def same_plan_def selector_or_empty_def)

lemma event_unchanged:
  "build_disclosure_event (t_event env now i t) m = build_disclosure_event t m"
  "build_disclosure_event (advanced env now s id t) m = build_disclosure_event t m"
  by (simp_all add: build_disclosure_event_def advanced_def seal_transition_def split: option.split)
section \<open>Runs that may crash\<close>

text \<open>
  A run without write errors is safe: it stops at a crash in a state from which recovery can
  resume, or it returns the completed transition with every artifact in place.
\<close>

definition safe_run ::
  "disclosure_env \<Rightarrow> ProtectedContentManifest \<Rightarrow> DisclosureTransition \<Rightarrow> fate list \<Rightarrow>
    dz_answer run_result \<times> disclosure_world \<times> fate list \<Rightarrow> bool" where
  "safe_run env m p fs out \<longleftrightarrow>
    (case out of
       (Crashed, w, gs) \<Rightarrow> W_crash \<in> set fs \<and> resumable env m p w
     | (Returned (Some t, refused), w, gs) \<Rightarrow>
         \<not> refused \<and> dt_status t = TS_COMPLETED \<and> latest p t w \<and> disclosed env m t w
     | _ \<Rightarrow> False)"

lemma safe_runE:
  assumes "safe_run env m p fs out"
  obtains (crash) w gs where "out = (Crashed, w, gs)" and "W_crash \<in> set fs" and "resumable env m p w"
  | (complete) t w gs where "out = (Returned (Some t, False), w, gs)" and "dt_status t = TS_COMPLETED" and "latest p t w" and "disclosed env m t w"
proof -
  obtain r w gs where out: "out = (r, w, gs)" by (cases out)
  show ?thesis
  proof (cases r)
    case (Returned x)
    then show ?thesis using assms out complete by (cases x) (auto simp: safe_run_def split: option.splits)
  qed (use assms out crash in \<open>auto simp: safe_run_def\<close>)
qed

lemma safe_run_mono: "safe_run env m p gs out \<Longrightarrow> set gs \<subseteq> set fs \<Longrightarrow> safe_run env m p fs out"
  by (erule safe_runE) (auto simp: safe_run_def)

lemma safe_write:
  assumes "W_fails \<notin> set fs" and "go (w, []) = k (w', [])" and "\<And>gs. go (w, W_ok # gs) = k (w', gs)"
    and "\<And>gs. go (w, W_crash # gs) = (Crashed, w, gs)" and "resumable env m p w"
    and cont: "\<And>gs. W_fails \<notin> set gs \<Longrightarrow> safe_run env m p gs (k (w', gs))"
  shows "safe_run env m p fs (go (w, fs))"
proof (cases fs)
  case Nil
  with assms(2) cont [of "[]"] show ?thesis by simp
next
  case (Cons a gs)
  show ?thesis
  proof (cases a)
    case W_ok
    with assms(1,3) Cons cont [of gs] show ?thesis by (auto intro: safe_run_mono)
  next
    case W_crash
    with assms(4,5) Cons show ?thesis by (simp add: safe_run_def)
  qed (use assms(1) Cons in simp)
qed

lemma safe_advance:
  assumes "W_fails \<notin> set fs" and "accepting env" and "resumable env m p w"
    and "\<And>gs. W_fails \<notin> set gs \<Longrightarrow> safe_run env m p gs (k (advanced env now s f t) (record_transition (advanced env now s f t) w, gs))"
  shows "safe_run env m p fs (dz_bind (advance_transition env now s f t) k (w, fs))"
  by (rule safe_write [OF assms(1) _ _ _ assms(3,4)]) (simp_all add: bind_advance [OF assms(2)])

lemma resumableI: "latest p t w \<Longrightarrow> in_stage env m t w \<Longrightarrow> resumable env m p w"
  by (auto simp: resumable_def)

lemma consumed_bound_cong:
  assumes "same_plan t t'" and "dt_consumed_auth_receipt_digest t' = dt_consumed_auth_receipt_digest t"
    and "dw_authorizations w' = dw_authorizations w"
  shows "consumed_bound t' w' = consumed_bound t w"
  using assms by (simp add: consumed_bound_def same_plan_def)

lemma in_place_cong:
  assumes "same_plan t t'" and "dt_consumed_auth_receipt_digest t' = dt_consumed_auth_receipt_digest t"
    and "dw_authorizations w' = dw_authorizations w" and "dw_compilation_receipts w' = dw_compilation_receipts w"
    and "dw_receipts w' = dw_receipts w"
  shows "receipt_in_place t' w' = receipt_in_place t w" and "receipt_possible t' w' = receipt_possible t w"
  using assms receipt_cong [OF assms(1-4)] by (simp_all add: receipt_in_place_def receipt_possible_def same_plan_def)

lemma manifest_cong:
  assumes "same_plan t t'" and "dw_manifests w' = dw_manifests w"
  shows "manifest_pending env m t' w' = manifest_pending env m t w" and "manifest_applied env m t' w' = manifest_applied env m t w"
  using assms post_image_cong [OF assms(1)] by (simp_all add: manifest_pending_def manifest_applied_def same_plan_def)

lemma no_event_cong: "same_plan t t' \<Longrightarrow> dw_events w' = dw_events w \<Longrightarrow> no_event (dt_transition_id t') w' = no_event (dt_transition_id t) w"
  by (simp add: no_event_def same_plan_def)

lemma event_recorded_cong:
  assumes "build_disclosure_event t' (Some m) = build_disclosure_event t (Some m)" and "same_plan t t'" and "dw_events w' = dw_events w"
  shows "event_recorded env t' m w' = event_recorded env t m w"
  using assms by (simp add: event_recorded_def same_plan_def)

section \<open>Each step is safe\<close>

lemma safe_complete:
  assumes "accepting env" and "latest p t w" and "in_stage env m t w" and "dt_status t = TS_DISCLOSURE_EVENT_RECORDED" and "W_fails \<notin> set fs"
  shows "safe_run env m p fs (complete_step env now t (w, fs))"
proof -
  let ?t = "advanced env now TS_COMPLETED id t"
  let ?w = "record_transition ?t w"
  have d: "disclosed env m t w" using assms(3,4) by (simp add: in_stage_def)
  have plan: "same_plan t ?t" by (rule run_plan)
  have "disclosed env m ?t ?w = disclosed env m t w"
    unfolding disclosed_def post_image_cong [OF plan] by (simp add: in_place_cong [OF plan] manifest_cong [OF plan]
      event_recorded_cong [OF event_unchanged(2) plan] run_plan)
  with d have "disclosed env m ?t ?w" by simp
  with latest_advance [OF assms(2) plan] show ?thesis
    unfolding complete_step_def
    by (intro safe_advance [OF assms(5,1) resumableI [OF assms(2,3)]]) (simp add: safe_run_def dz_return_def)
qed
lemma recorded_by_append:
  assumes "no_event (dt_transition_id t) w"
  shows "event_recorded env t m (with_event t (Some m) w)"
proof -
  have "names_transition (dt_transition_id t) (Entry (canon (JObj (build_disclosure_event t (Some m)))))"
    using wf_disclosure_event by (simp add: names_transition_def jget_canon event_transition_id)
  with assms show ?thesis by (auto simp: no_event_def event_recorded_def object_lines_def)
qed

lemma world_of_artifact [simp]:
  "dw_transitions (with_event t m' w) = dw_transitions w" "dw_transitions (with_manifest t m w) = dw_transitions w"
  "dw_transitions (with_receipt t d w) = dw_transitions w"
  by simp_all

lemma world_update_only:
  "w' = w\<lparr>dw_events := x\<rparr> \<Longrightarrow> dw_transitions w' = dw_transitions w \<and> dw_authorizations w' = dw_authorizations w \<and>
    dw_compilation_receipts w' = dw_compilation_receipts w \<and> dw_receipts w' = dw_receipts w \<and> dw_manifests w' = dw_manifests w"
  "w' = w\<lparr>dw_manifests := y\<rparr> \<Longrightarrow> dw_transitions w' = dw_transitions w \<and> dw_authorizations w' = dw_authorizations w \<and>
    dw_compilation_receipts w' = dw_compilation_receipts w \<and> dw_receipts w' = dw_receipts w \<and> dw_events w' = dw_events w"
  "w' = w\<lparr>dw_receipts := z\<rparr> \<Longrightarrow> dw_transitions w' = dw_transitions w \<and> dw_authorizations w' = dw_authorizations w \<and>
    dw_compilation_receipts w' = dw_compilation_receipts w \<and> dw_manifests w' = dw_manifests w \<and> dw_events w' = dw_events w"
  by simp_all

lemma safe_event:
  assumes env: "accepting env" and l: "latest p t w" and s: "in_stage env m t w" and st: "dt_status t = TS_MANIFEST_APPLIED"
    and fs: "W_fails \<notin> set fs"
    and pr: "\<And>t. same_plan p t \<Longrightarrow> pr t = dt_projection_id t"
  shows "safe_run env m p fs (event_step env now (pr t) t (complete_step env now) (w, fs))"
proof -
  let ?m = "post_image env t m" and ?i = "event_identity (dt_transition_id t)"
  let ?t = "t_event env now ?i t"
  let ?k = "\<lambda>res. case res of Inl err \<Rightarrow> give_up env now TS_RECOVERY_REQUIRED t
    | Inr i \<Rightarrow> dz_bind (advance_transition env now TS_DISCLOSURE_EVENT_RECORDED (\<lambda>t. t\<lparr>dt_downstream_event_id := Some i\<rparr>) t) (complete_step env now)"
  have plan: "same_plan t ?t" by (rule run_plan)
  from s st have cb: "consumed_bound t w" and rc: "receipt_in_place t w" and ma: "manifest_applied env m t w"
    and ev: "no_event (dt_transition_id t) w \<or> event_recorded env t ?m w" by (auto simp: in_stage_def)
  have advance: "safe_run env m p gs (dz_bind (advance_transition env now TS_DISCLOSURE_EVENT_RECORDED
      (\<lambda>t. t\<lparr>dt_downstream_event_id := Some ?i\<rparr>) t) (complete_step env now) (w', gs))"
    if "W_fails \<notin> set gs" and w': "w' = w\<lparr>dw_events := x\<rparr>" and rec: "event_recorded env t ?m w'" for gs w' x
  proof (rule safe_advance [OF that(1) env])
    note [simp] = world_update_only(1) [OF w', THEN conjunct1] world_update_only(1) [OF w', THEN conjunct2]
    have l': "latest p t w'" using l by (simp add: latest_cong [of w' w])
    have "in_stage env m t w'"
      using cb rc ma rec st consumed_bound_cong [OF same_plan_refl, of t w' w] in_place_cong [OF same_plan_refl, of t w' w]
        manifest_cong [OF same_plan_refl, of w' w env m t] by (simp add: in_stage_def)
    then show "resumable env m p w'" by (rule resumableI [OF l'])
    let ?w = "record_transition ?t w'"
    have "in_stage env m ?t ?w"
      using cb rc ma rec consumed_bound_cong [OF plan, of ?w w] in_place_cong [OF plan, of ?w w] manifest_cong [OF plan, of ?w w env m]
        event_recorded_cong [where t = t and t' = ?t and w = w' and w' = ?w, OF event_unchanged(1) plan]
      by (simp add: in_stage_def disclosed_def post_image_cong [OF plan] run_plan)
    then show "safe_run env m p hs (complete_step env now ?t (?w, hs))" if "W_fails \<notin> set hs" for hs
      using that by (intro safe_complete [OF env latest_advance [OF l' plan]]) simp_all
  qed
  have unfolded: "event_step env now (pr t) t (complete_step env now) (w, gs) =
      dz_bind (dz_try (persist_disclosure_event_durable env t (Some ?m))) ?k (w, gs)" for gs
    using ma pr l by (simp add: event_step_def manifest_or_none_def manifest_applied_def latest_def)
  show ?thesis
  proof (cases "event_recorded env t ?m w")
    case True
    show ?thesis unfolding unfolded persist_event_again [OF env True] using advance [OF fs _ True, of "dw_events w"] by simp
  next
    case False
    with ev have none: "no_event (dt_transition_id t) w" by simp
    show ?thesis unfolding unfolded
      by (rule safe_write [OF fs, where go = "dz_bind (dz_try (persist_disclosure_event_durable env t (Some ?m))) ?k" and k = "?k (Inr ?i)"])
        (simp_all add: persist_event_new [OF env none] resumableI [OF l s] del: canon_JObj,
          rule advance [OF _ refl recorded_by_append [OF none]], assumption)
  qed
qed
lemma safe_manifest:
  assumes env: "accepting env" and l: "latest p t w" and s: "in_stage env m t w" and st: "dt_status t = TS_PROJECTION_RECEIPT_PERSISTED"
    and fs: "W_fails \<notin> set fs"
    and pr: "\<And>t. same_plan p t \<Longrightarrow> pr t = dt_projection_id t"
  shows "safe_run env m p fs (manifest_step env now t (\<lambda>t. event_step env now (pr t) t (complete_step env now)) (w, fs))"
proof -
  let ?m = "post_image env t m" and ?next = "\<lambda>t. event_step env now (pr t) t (complete_step env now)"
  let ?d = "pm_manifest_digest ?m"
  let ?t = "t_manifest env now ?d t"
  let ?k = "\<lambda>res. case res of Inl err \<Rightarrow> give_up env now TS_CORRUPT t
    | Inr d \<Rightarrow> dz_bind (advance_transition env now TS_MANIFEST_APPLIED (\<lambda>t. t\<lparr>dt_manifest_digest_after := Some d\<rparr>) t) ?next"
  have plan: "same_plan t ?t" by (rule run_plan)
  from s st have cb: "consumed_bound t w" and rc: "receipt_in_place t w" and mp: "manifest_pending env m t w"
    and ev: "no_event (dt_transition_id t) w" by (auto simp: in_stage_def)
  have before: "compute_manifest_digest (dz_manifest_sha env) m = dt_manifest_digest_before t" using mp by (simp add: manifest_pending_def)
  have advance: "safe_run env m p gs (dz_bind (advance_transition env now TS_MANIFEST_APPLIED
      (\<lambda>t. t\<lparr>dt_manifest_digest_after := Some ?d\<rparr>) t) ?next (w', gs))"
    if "W_fails \<notin> set gs" and w': "w' = w\<lparr>dw_manifests := x\<rparr>" and ma: "manifest_applied env m t w'" for gs w' x
  proof (rule safe_advance [OF that(1) env])
    note [simp] = world_update_only(2) [OF w', THEN conjunct1] world_update_only(2) [OF w', THEN conjunct2]
    have l': "latest p t w'" using l by (simp add: latest_cong [of w' w])
    have "manifest_pending env m t w'" using ma before by (simp add: manifest_pending_def manifest_applied_def)
    then have "in_stage env m t w'"
      using cb rc ev st consumed_bound_cong [OF same_plan_refl, of t w' w] in_place_cong [OF same_plan_refl, of t w' w]
        no_event_cong [OF same_plan_refl, of w' w t] by (simp add: in_stage_def)
    then show "resumable env m p w'" by (rule resumableI [OF l'])
    let ?w = "record_transition ?t w'"
    have "in_stage env m ?t ?w"
      using cb rc ma ev consumed_bound_cong [OF plan, of ?w w] in_place_cong [OF plan, of ?w w] manifest_cong [OF plan, of ?w w' env m]
        no_event_cong [OF plan, of ?w w]
      by (simp add: in_stage_def run_plan)
    then show "safe_run env m p hs (?next ?t (?w, hs))" if "W_fails \<notin> set hs" for hs
      using that by (intro safe_event [OF env latest_advance [OF l' plan]] pr) simp_all
  qed
  have unfolded: "manifest_step env now t ?next = dz_bind (dz_try (apply_manifest_mutation env t)) ?k"
    by (simp add: manifest_step_def)
  note new = safe_write [OF fs, where go = "dz_bind (dz_try (apply_manifest_mutation env t)) ?k" and k = "?k (Inr ?d)"
    and w' = "with_manifest t ?m w"]
  have applied: "manifest_applied env m t (with_manifest t ?m w)" by (simp add: manifest_applied_def dict_get_set)
  show ?thesis
  proof (cases "manifest_applied env m t w")
    case False
    with mp have "manifest_of t w = Some (MF_manifest m)" by (auto simp: manifest_pending_def manifest_applied_def)
    note run = apply_manifest_new [OF this before]
    show ?thesis unfolding unfolded
      by (rule new) (simp_all add: run resumableI [OF l s], rule advance [OF _ refl applied], assumption)
  next
    case True
    then have of: "manifest_of t w = Some (MF_manifest ?m)" by (simp add: manifest_applied_def)
    show ?thesis
    proof (cases "compute_manifest_digest (dz_manifest_sha env) ?m = dt_manifest_digest_before t")
      case True
      note run = apply_manifest_new [OF of True, unfolded post_image_again]
      show ?thesis unfolding unfolded
        by (rule new) (simp_all add: run resumableI [OF l s], rule advance [OF _ refl applied], assumption)
    next
      case changed: False
      show ?thesis unfolding unfolded apply_manifest_again [OF of before changed]
        using advance [OF fs _ True, of "dw_manifests w"] by simp
    qed
  qed
qed
lemma safe_receipt:
  fixes now :: int and pr :: "DisclosureTransition \<Rightarrow> string"
  assumes env: "accepting env" and l: "latest p t w" and s: "in_stage env m t w" and st: "dt_status t = TS_AUTHORIZATION_CONSUMED"
    and fs: "W_fails \<notin> set fs"
    and pr: "\<And>t. same_plan p t \<Longrightarrow> pr t = dt_projection_id t"
  defines "after \<equiv> \<lambda>t. manifest_step env now t (\<lambda>t. event_step env now (pr t) t (complete_step env now))"
  shows "safe_run env m p fs (receipt_step env now on_failure t after (w, fs))"
proof -
  let ?i = "receipt_identity (dt_transition_id t)"
  let ?t = "t_receipt env now ?i t"
  let ?k = "\<lambda>res. case res of Inl err \<Rightarrow> give_up env now on_failure t
    | Inr i \<Rightarrow> dz_bind (advance_transition env now TS_PROJECTION_RECEIPT_PERSISTED (\<lambda>t. t\<lparr>dt_downstream_receipt_digest := Some i\<rparr>) t) after"
  have plan: "same_plan t ?t" by (rule run_plan)
  from s st have cb: "consumed_bound t w" and rp: "receipt_possible t w" and mp: "manifest_pending env m t w"
    and ev: "no_event (dt_transition_id t) w" by (auto simp: in_stage_def)
  from rp obtain d where d: "build_disclosure_receipt t w = Inr d" by (auto simp: receipt_possible_def)
  have advance: "safe_run env m p gs (dz_bind (advance_transition env now TS_PROJECTION_RECEIPT_PERSISTED
      (\<lambda>t. t\<lparr>dt_downstream_receipt_digest := Some ?i\<rparr>) t) after (w', gs))"
    if "W_fails \<notin> set gs" and w': "w' = w\<lparr>dw_receipts := x\<rparr>" and rc: "receipt_in_place t w'" for gs w' x
  proof (rule safe_advance [OF that(1) env])
    note [simp] = world_update_only(3) [OF w', THEN conjunct1] world_update_only(3) [OF w', THEN conjunct2]
    have l': "latest p t w'" using l by (simp add: latest_cong [of w' w])
    have "receipt_possible t w'" using rc by (auto simp: receipt_possible_def receipt_in_place_def)
    then have "in_stage env m t w'"
      using cb mp ev st consumed_bound_cong [OF same_plan_refl, of t w' w] manifest_cong [OF same_plan_refl, of w' w env m t]
        no_event_cong [OF same_plan_refl, of w' w t] by (simp add: in_stage_def)
    then show "resumable env m p w'" by (rule resumableI [OF l'])
    let ?w = "record_transition ?t w'"
    have "in_stage env m ?t ?w"
      using cb rc mp ev consumed_bound_cong [OF plan, of ?w w] in_place_cong [OF plan, of ?w w'] manifest_cong [OF plan, of ?w w env m]
        no_event_cong [OF plan, of ?w w]
      by (simp add: in_stage_def run_plan)
    then show "safe_run env m p hs (after ?t (?w, hs))" if "W_fails \<notin> set hs" for hs
      unfolding after_def using that by (intro safe_manifest [OF env latest_advance [OF l' plan]] pr) simp_all
  qed
  have unfolded: "receipt_step env now on_failure t after = dz_bind (dz_try (persist_receipt_durable t)) ?k"
    by (simp add: receipt_step_def)
  show ?thesis
  proof (cases "receipt_file t w")
    case None
    have rc: "receipt_in_place t (with_receipt t d w)"
      using d receipt_cong [OF same_plan_refl, of t "with_receipt t d w" w] by (simp add: receipt_in_place_def dict_get_set del: canon_JObj)
    show ?thesis unfolding unfolded
      by (rule safe_write [OF fs, where go = "dz_bind (dz_try (persist_receipt_durable t)) ?k" and k = "?k (Inr ?i)" and w' = "with_receipt t d w"])
        (simp_all add: persist_receipt_new [OF d None] resumableI [OF l s] del: canon_JObj, rule advance [OF _ refl rc], assumption)
  next
    case (Some f)
    with rp d have f: "receipt_file t w = Some (FileJson (canon (JObj d)))" by (auto simp: receipt_possible_def)
    with d have rc: "receipt_in_place t w" by (simp add: receipt_in_place_def)
    show ?thesis unfolding unfolded persist_receipt_again [OF d f] using advance [OF fs _ rc, of "dw_receipts w"] by simp
  qed
qed

section \<open>Recovery\<close>

lemma event_to_latest: "latest p t w \<Longrightarrow> event_to_transition t = t"
  by (simp add: latest_def event_to_transition_def)



lemma dz_guard_safe: "safe_run env m p fs (r s) \<Longrightarrow> dz_guard r s = r s"
  by (erule safe_runE) (auto simp: dz_guard_def)

lemma in_stage_open: "in_stage env m t w \<Longrightarrow> \<not> dt_is_terminal t"
  by (auto simp: in_stage_def dt_is_terminal_def TERMINAL_STATUSES_def)








section \<open>A run from the beginning\<close>

text \<open>
  The world in which a disclosure can be made: nothing is recorded for the authorization and the
  evidence, the authorization is valid for the plan, the compilation receipt and the manifest
  are those of the plan, and no artifact carries the transition's id.
\<close>

definition ready ::
  "disclosure_env \<Rightarrow> int \<Rightarrow> string \<Rightarrow> dz_plan \<Rightarrow> DisclosureAuthorizationReceipt \<Rightarrow> ProtectedContentManifest \<Rightarrow> disclosure_world \<Rightarrow> bool" where
  "ready env now i q r m w \<longleftrightarrow>
    transitions_for_auth (dp_authorization_id q) (dp_evidence_digest q) w = [] \<and>
    dict_get (dw_authorizations w) (dp_authorization_id q) = Some (DF_receipt r) \<and> da_authorization_id r = dp_authorization_id q \<and>
    dza_refusal (dz_receipt_sha env) now (plan_context q) r = None \<and>
    dict_get (dw_compilation_receipts w) (dp_projection_id q) = Some (dp_compilation_receipt_sha256 q) \<and>
    dp_recipient_class q \<in> set DisclosureTarget \<and>
    dict_get (dw_manifests w) (dp_projection_id q) = Some (MF_manifest m) \<and>
    compute_manifest_digest (dz_manifest_sha env) m = dp_manifest_digest_before q \<and>
    dict_get (dw_receipts w) (receipt_identity i) = None \<and> no_event i w"

abbreviation first_transition :: "disclosure_env \<Rightarrow> int \<Rightarrow> string \<Rightarrow> dz_plan \<Rightarrow> DisclosureTransition" where
  "first_transition env now i q \<equiv> seal_transition (dz_transition_sha env) (planned_transition now i q)"

lemma first_transition_fields [simp]:
  "dt_authorization_id (first_transition env now i q) = dp_authorization_id q"
  "dt_evidence_digest (first_transition env now i q) = dp_evidence_digest q"
  "dt_projection_id (first_transition env now i q) = dp_projection_id q"
  "dt_transition_id (first_transition env now i q) = i" "dt_sequence (first_transition env now i q) = 0"
  "dt_recipient_class (first_transition env now i q) = dp_recipient_class q"
  "dt_compilation_receipt_sha256 (first_transition env now i q) = dp_compilation_receipt_sha256 q"
  "dt_manifest_digest_before (first_transition env now i q) = dp_manifest_digest_before q"
  "dt_schema_version (first_transition env now i q) = TRANSITION_SCHEMA_VERSION" "dt_status (first_transition env now i q) = TS_PREPARED"
  "dt_consumed_auth_receipt_digest (first_transition env now i q) = None"
  by (simp_all add: seal_transition_def planned_transition_def)

lemma first_latest:
  assumes "transitions_for_auth (dp_authorization_id q) (dp_evidence_digest q) w = []"
  shows "latest (first_transition env now i q) (first_transition env now i q) (record_transition (first_transition env now i q) w)"
  using assms by (simp add: latest_def transitions_for_auth_def)

lemma consume_valid:
  assumes "dict_get st a = Some (DF_receipt r)" and "da_authorization_id r = a" and "dza_refusal sha now c r = None"
  shows "consume_disclosure_authorization sha True now now a c st =
    (dza_write (use_receipt sha r) st, Inr (dza_result DO_CONSUMED a (Some (use_receipt sha r))))"
proof -
  have load: "dza_load_receipt st a = Inr (Some r)" using assms(1) by (simp add: dza_load_Some)
  then have valid: "validate_disclosure_authorization sha now a c st = Inr (dza_result DO_VALID a (Some r))"
    using assms(2,3) by (simp add: validate_disclosure_authorization_def)
  have "dza_verify_integrity sha r" and "\<not> exhausted r" using assms(3) by (auto simp: dza_refusal_def split: if_splits sum.splits bool.splits)
  then have "dza_consume_locked sha True now a c st =
      (dza_write (use_receipt sha r) st, Inr (dza_result DO_CONSUMED a (Some (use_receipt sha r))))"
    using load valid assms(2) dza_load_write [of "use_receipt sha r" st]
    by (simp add: dza_consume_locked_def dza_is_authorized_def dza_result_def Let_def)
  with valid show ?thesis by (simp add: consume_disclosure_authorization_def dza_is_authorized_def dza_result_def)
qed

lemma consume_exhausted:
  assumes "dict_get st a = Some (DF_receipt r)" and "exhausted r"
  obtains v where "consume_disclosure_authorization sha True now now a c st = (st, Inr v)" and "dx_outcome v \<noteq> DO_CONSUMED"
proof -
  have load: "dza_load_receipt st a = Inr (Some r)" using assms(1) by (simp add: dza_load_Some)
  from assms(2) have refused: "dza_refusal sha now c r \<noteq> None" by (auto simp: dza_refusal_def split: sum.splits bool.splits)
  obtain v where v: "validate_disclosure_authorization sha now a c st = Inr v"
    using load by (auto simp: validate_disclosure_authorization_def)
  from v show ?thesis
  proof (cases rule: validate_cases)
    case refused: refused
    with v show ?thesis by (intro that [of v]) (auto simp: consume_disclosure_authorization_def dza_is_authorized_def)
  qed (use assms(1) refused in simp)
qed
lemma bind_prepare:
  assumes "accepting env" and "ready env now i q r m w"
  defines "t \<equiv> first_transition env now i q"
  shows "dz_bind (prepare_transition env now i q) k (w, W_ok # fs) = k t (record_transition t w, fs)"
    and "lookup_completed_transition (dp_authorization_id q) (dp_evidence_digest q) w = None"
proof -
  have "last_event_for_auth (dp_authorization_id q) (dp_evidence_digest q) w = None"
    using assms(2) by (simp add: ready_def last_event_for_auth_def)
  moreover have "check_compilation (dp_projection_id q) (dp_compilation_receipt_sha256 q) w = Inr ()"
    using assms(2) by (simp add: ready_def check_compilation_def)
  ultimately show "dz_bind (prepare_transition env now i q) k (w, W_ok # fs) = k t (record_transition t w, fs)"
    and "lookup_completed_transition (dp_authorization_id q) (dp_evidence_digest q) w = None"
    using assms(1) unfolding t_def
    by (simp_all add: prepare_transition_def lookup_pending_transition_def lookup_completed_transition_def append_transition_def
        accepting_def Let_def) (simp_all add: dz_bind_def dz_return_def record_transition_def)
qed

abbreviation with_consumed :: "disclosure_env \<Rightarrow> DisclosureAuthorizationReceipt \<Rightarrow> disclosure_world \<Rightarrow> disclosure_world" where
  "with_consumed env r w \<equiv> w\<lparr>dw_authorizations := dza_write (use_receipt (dz_receipt_sha env) r) (dw_authorizations w)\<rparr>"

lemma consume_step_valid:
  fixes t :: DisclosureTransition and now :: int
  assumes "accepting env" and "dict_get (dw_authorizations w) a = Some (DF_receipt r)" and "da_authorization_id r = a"
    and "dza_refusal (dz_receipt_sha env) now c r = None"
  defines "t' \<equiv> t_consumed env now (da_receipt_sha256 (use_receipt (dz_receipt_sha env) r)) t"
  shows "consume_step env now a c t k (w, W_ok # W_ok # fs) = k t' (record_transition t' (with_consumed env r w), fs)"
    and "consume_step env now a c t k (w, W_ok # W_crash # fs) = (Crashed, with_consumed env r w, fs)"
proof -
  let ?r = "dza_result DO_CONSUMED a (Some (use_receipt (dz_receipt_sha env) r))"
  have "dz_bind (consume_in_world env now a c) h (w, W_ok # gs) = h ?r (with_consumed env r w, gs)" for h :: "DisclosureResult \<Rightarrow> dz_answer dz" and gs
    using consume_valid [OF assms(2-4)]
    by (simp add: dz_bind_def [of "consume_in_world env now a c"] consume_in_world_def dza_result_def) (simp add: dz_bind_def dz_return_def)
  then show "consume_step env now a c t k (w, W_ok # W_ok # fs) = k t' (record_transition t' (with_consumed env r w), fs)"
    and "consume_step env now a c t k (w, W_ok # W_crash # fs) = (Crashed, with_consumed env r w, fs)"
    by (simp_all add: consume_step_def t'_def bind_advance [OF assms(1)] dza_result_def Let_def)
qed

lemma consume_step_exhausted:
  fixes t :: DisclosureTransition and now :: int
  assumes "accepting env" and "dict_get (dw_authorizations w) a = Some (DF_receipt r)" and "exhausted r"
  defines "t' \<equiv> advanced env now TS_REFUSED id t"
  shows "consume_step env now a c t k (w, []) = (Returned (Some t', True), record_transition t' w, [])"
proof -
  obtain v where "consume_disclosure_authorization (dz_receipt_sha env) True now now a c (dw_authorizations w) = (dw_authorizations w, Inr v)"
    and "dx_outcome v \<noteq> DO_CONSUMED" using consume_exhausted [OF assms(2,3)] .
  then have "dz_bind (consume_in_world env now a c) h (w, []) = h v (w, [])" for h :: "DisclosureResult \<Rightarrow> dz_answer dz"
    by (simp add: dz_bind_def consume_in_world_def)
  with \<open>dx_outcome v \<noteq> DO_CONSUMED\<close> show ?thesis
    by (simp add: consume_step_def give_up_def bind_advance [OF assms(1)] t'_def dz_return_def)
qed

text \<open>The state after the first three writes.\<close>

lemma ready_consumed:
  assumes "ready env now i q r m w"
  defines "t \<equiv> first_transition env now i q"
  defines "t' \<equiv> t_consumed env now (da_receipt_sha256 (use_receipt (dz_receipt_sha env) r)) t"
  defines "w' \<equiv> record_transition t' (with_consumed env r (record_transition t w))"
  shows "latest t t' w'" and "in_stage env m t' w'"
proof -
  have plan: "same_plan t t'" unfolding t'_def by (rule run_plan)
  have "latest t t (with_consumed env r (record_transition t w))"
    using first_latest [of q w env now i] assms(1) latest_cong [of "with_consumed env r (record_transition t w)" "record_transition t w" t t]
    by (simp add: ready_def t_def)
  then show "latest t t' w'" unfolding t'_def w'_def using plan unfolding t'_def by (rule latest_advance)
  have load: "dza_load_receipt (dw_authorizations w') (dp_authorization_id q) = Inr (Some (use_receipt (dz_receipt_sha env) r))"
    using assms(1) dza_load_write [of "use_receipt (dz_receipt_sha env) r"] by (simp add: w'_def ready_def)
  have consumed: "dt_consumed_auth_receipt_digest t' = Some (da_receipt_sha256 (use_receipt (dz_receipt_sha env) r))"
    by (simp add: t'_def run_plan)
  have id: "dt_authorization_id t' = dp_authorization_id q" "dt_projection_id t' = dp_projection_id q" "dt_transition_id t' = i"
    "dt_recipient_class t' = dp_recipient_class q" "dt_compilation_receipt_sha256 t' = dp_compilation_receipt_sha256 q"
    "dt_manifest_digest_before t' = dp_manifest_digest_before q"
    using plan by (simp_all add: same_plan_def t_def)
  have "\<exists>d. build_disclosure_receipt t' w' = Inr d"
    using assms(1) load consumed by (simp add: build_disclosure_receipt_def check_compilation_def bound_auth_digest_def id ready_def w'_def)
  then have "receipt_possible t' w'" using assms(1) by (auto simp: receipt_possible_def id ready_def w'_def)
  moreover have "manifest_pending env m t' w'" using assms(1) by (simp add: manifest_pending_def id ready_def w'_def)
  moreover have "no_event (dt_transition_id t') w'" using assms(1) by (simp add: id ready_def no_event_def w'_def)
  moreover have "consumed_bound t' w'" using load consumed by (simp add: consumed_bound_def id)
  ultimately show "in_stage env m t' w'" by (simp add: in_stage_def t'_def)
qed

lemma safe_execute:
  assumes env: "accepting env" and ready: "ready env now i q r m w" and fs: "W_fails \<notin> set fs"
  shows "safe_run env m (first_transition env now i q) fs (execute_disclosure_transition env now i q (w, W_ok # W_ok # W_ok # fs))"
proof -
  let ?t = "first_transition env now i q" and ?sha = "dz_receipt_sha env"
  let ?t' = "t_consumed env now (da_receipt_sha256 (use_receipt ?sha r)) ?t"
  let ?w' = "record_transition ?t' (with_consumed env r (record_transition ?t w))"
  let ?rest = "receipt_step env now TS_REFUSED ?t' (\<lambda>t. manifest_step env now t (\<lambda>t. event_step env now (dp_projection_id q) t (complete_step env now)))"
  let ?go = "dz_bind (prepare_transition env now i q) (\<lambda>t. consume_step env now (dp_authorization_id q) (plan_context q) t (\<lambda>t.
    receipt_step env now TS_REFUSED t (\<lambda>t. manifest_step env now t (\<lambda>t. event_step env now (dp_projection_id q) t (complete_step env now)))))"
  have auth: "dict_get (dw_authorizations (record_transition ?t w)) (dp_authorization_id q) = Some (DF_receipt r)"
    "da_authorization_id r = dp_authorization_id q" "dza_refusal ?sha now (plan_context q) r = None"
    using ready by (simp_all add: ready_def)
  have "?go (w, W_ok # W_ok # W_ok # fs) = ?rest (?w', fs)"
    by (simp add: bind_prepare [OF env ready] consume_step_valid [OF env auth])
  moreover have "safe_run env m ?t fs (?rest (?w', fs))"
    by (rule safe_receipt [OF env ready_consumed [OF ready] _ fs]) (simp_all add: same_plan_def)
  ultimately have go: "safe_run env m ?t fs (?go (w, W_ok # W_ok # W_ok # fs))" by (simp only:)
  have "dz_guard ?go (w, W_ok # W_ok # W_ok # fs) = ?go (w, W_ok # W_ok # W_ok # fs)"
    by (rule dz_guard_safe [where r = ?go, OF go])
  with go show ?thesis by (simp only: execute_disclosure_transition_def dz_bind_simps bind_prepare(2) [OF env ready] fst_conv sum.case option.case)
qed
lemma crash_before_receipt:
  assumes env: "accepting env" and ready: "ready env now i q r m w"
  defines "t \<equiv> first_transition env now i q"
  shows "execute_disclosure_transition env now i q (w, [W_ok, W_ok, W_ok, W_crash]) =
    (Crashed, record_transition (t_consumed env now (da_receipt_sha256 (use_receipt (dz_receipt_sha env) r)) t)
      (with_consumed env r (record_transition t w)), [])"
proof -
  let ?t' = "t_consumed env now (da_receipt_sha256 (use_receipt (dz_receipt_sha env) r)) t"
  let ?w' = "record_transition ?t' (with_consumed env r (record_transition t w))"
  have auth: "dict_get (dw_authorizations (record_transition t w)) (dp_authorization_id q) = Some (DF_receipt r)"
    "da_authorization_id r = dp_authorization_id q" "dza_refusal (dz_receipt_sha env) now (plan_context q) r = None"
    using ready by (simp_all add: ready_def)
  have "receipt_possible ?t' ?w'" using ready_consumed(2) [OF ready] by (simp add: in_stage_def t_def)
  moreover have "receipt_file ?t' ?w' = None" using ready run_plan(1) [of t] by (simp add: ready_def same_plan_def t_def)
  ultimately obtain d where d: "build_disclosure_receipt ?t' ?w' = Inr d" "receipt_file ?t' ?w' = None" by (auto simp: receipt_possible_def)
  have "receipt_step env now TS_REFUSED ?t' k (?w', [W_crash]) = (Crashed, ?w', [])" for k
    unfolding receipt_step_def by (rule persist_receipt_new(3) [OF d])
  then show ?thesis unfolding t_def
    by (simp add: execute_disclosure_transition_def dz_guard_def bind_prepare [OF env ready] consume_step_valid(1) [OF env auth [unfolded t_def]])
qed


section \<open>The crash that is not recovered\<close>

lemma prepared_recovery_refused:
  fixes now' :: int
  assumes env: "accepting env" and ready: "ready env now i q r m w" and used: "exhausted (use_receipt (dz_receipt_sha env) r)"
  defines "t \<equiv> first_transition env now i q"
  defines "w' \<equiv> with_consumed env r (record_transition t w)"
  defines "t' \<equiv> advanced env now' TS_REFUSED id t"
  shows "recover_disclosure_transition env now' (dp_authorization_id q) (dp_evidence_digest q) (w', []) =
    (Returned (Some t', True), record_transition t' w', [])" and "latest t t' (record_transition t' w')"
proof -
  have l: "latest t t w'"
    using first_latest [of q w env now i] ready latest_cong [of w' "record_transition t w" t t] by (simp add: ready_def t_def w'_def)
  have auth: "dict_get (dw_authorizations w') (dp_authorization_id q) = Some (DF_receipt (use_receipt (dz_receipt_sha env) r))"
    using ready by (simp add: w'_def ready_def dza_write_def dict_get_set)
  have last: "last_event_for_auth (dp_authorization_id q) (dp_evidence_digest q) w' = Some t"
    using latest_found [OF l] by (simp add: t_def)
  have "resume env now' (dp_authorization_id q) (dp_evidence_digest q) t (w', []) = (Returned (Some t', True), record_transition t' w', [])"
    using consume_step_exhausted [OF env auth used] by (simp add: resume_def Let_def t'_def t_def)
  with last event_to_latest [OF l]
  show "recover_disclosure_transition env now' (dp_authorization_id q) (dp_evidence_digest q) (w', []) =
      (Returned (Some t', True), record_transition t' w', [])"
    by (simp add: recover_disclosure_transition_def recover_locked_def t_def dt_is_terminal_def TERMINAL_STATUSES_def dz_guard_def)
  show "latest t t' (record_transition t' w')" unfolding t'_def by (rule latest_advance [OF l]) (rule run_plan)
qed

text \<open>A crash between the consumption of a one-time authorization and its record loses the
  disclosure.  The authorization is spent, recovery refuses the transition without writing any
  artifact, and a later execution reports the refused transition with no error.\<close>

theorem crash_after_consumption_strands:
  assumes "accepting env" and "ready env now i q r m w" and "da_one_time r"
  shows "let t = first_transition env now i q; w1 = with_consumed env r (record_transition t w); t' = advanced env now' TS_REFUSED id t in
    execute_disclosure_transition env now i q (w, [W_ok, W_ok, W_crash]) = (Crashed, w1, []) \<and>
    exhausted (use_receipt (dz_receipt_sha env) r) \<and>
    recover_disclosure_transition env now' (dp_authorization_id q) (dp_evidence_digest q) (w1, []) =
      (Returned (Some t', True), record_transition t' w1, []) \<and>
    execute_disclosure_transition env now'' i' q (record_transition t' w1, []) =
      (Returned (Some t', False), record_transition t' w1, []) \<and> dt_status t' = TS_REFUSED"
proof -
  define t where "t = first_transition env now i q"
  define w1 where "w1 = with_consumed env r (record_transition t w)"
  define t' where "t' = advanced env now' TS_REFUSED id t"
  have auth: "dict_get (dw_authorizations (record_transition t w)) (dp_authorization_id q) = Some (DF_receipt r)"
    "da_authorization_id r = dp_authorization_id q" "dza_refusal (dz_receipt_sha env) now (plan_context q) r = None"
    using assms(2) by (simp_all add: ready_def)
  have crash: "execute_disclosure_transition env now i q (w, [W_ok, W_ok, W_crash]) = (Crashed, w1, [])"
    using auth(2)
    by (simp add: execute_disclosure_transition_def t_def w1_def dz_guard_def bind_prepare [OF assms(1,2)]
        consume_step_valid(2) [OF assms(1) auth [unfolded t_def]])
  have used: "exhausted (use_receipt (dz_receipt_sha env) r)" using assms(3) by (simp add: exhausted_def)
  note refused = prepared_recovery_refused [OF assms(1,2) used, of now', folded t_def, folded w1_def t'_def]
  have "last_event_for_auth (dp_authorization_id q) (dp_evidence_digest q) (record_transition t' w1) = Some t'"
    using latest_found [OF refused(2)] by (simp add: t_def)
  then have "execute_disclosure_transition env now'' i' q (record_transition t' w1, []) =
      (Returned (Some t', False), record_transition t' w1, [])"
    using event_to_latest [OF refused(2)]
    by (simp add: execute_disclosure_transition_def lookup_completed_transition_def dt_is_terminal_def TERMINAL_STATUSES_def t'_def
        dz_return_def)
  with crash used refused(1) show ?thesis by (simp add: Let_def t_def w1_def t'_def)
qed

text \<open>Executing again instead of recovering gives a disclosure up.  When a transition can still be
  recovered and its one-time authorization is spent, an execution for the same authorization and
  evidence refuses the transition, and no recovery completes it afterwards.\<close>

theorem reexecution_refuses_recoverable:
  assumes "accepting env" and "resumable env m p w"
    and "dict_get (dw_authorizations w) (dt_authorization_id p) = Some (DF_receipt r)" and "exhausted r"
    and "dp_authorization_id q = dt_authorization_id p" and "dp_evidence_digest q = dt_evidence_digest p"
  shows "\<exists>t. dt_status t = TS_REFUSED \<and> latest p t (record_transition t w) \<and>
    execute_disclosure_transition env now i q (w, []) = (Returned (Some t, True), record_transition t w, []) \<and>
    recover_disclosure_transition env now' (dt_authorization_id p) (dt_evidence_digest p) (record_transition t w, fs) =
      (Returned (Some t, True), record_transition t w, fs)"
proof -
  from assms(2) obtain t where l: "latest p t w" and s: "in_stage env m t w" by (auto simp: resumable_def)
  let ?t = "advanced env now TS_REFUSED id t"
  have l': "latest p ?t (record_transition ?t w)" by (rule latest_advance [OF l]) (rule run_plan)
  note refused = consume_step_exhausted [OF assms(1,3,4)]
  have "execute_disclosure_transition env now i q (w, []) = (Returned (Some ?t, True), record_transition ?t w, [])"
    using latest_found [OF l] event_to_latest [OF l] in_stage_open [OF s] assms(5,6)
    by (simp add: execute_disclosure_transition_def lookup_completed_transition_def lookup_pending_transition_def prepare_transition_def
        refused dz_guard_def)
  moreover have "recover_disclosure_transition env now' (dt_authorization_id p) (dt_evidence_digest p) (record_transition ?t w, fs) =
      (Returned (Some ?t, True), record_transition ?t w, fs)"
    using latest_found [OF l'] event_to_latest [OF l']
    by (simp add: recover_disclosure_transition_def recover_locked_def dt_is_terminal_def TERMINAL_STATUSES_def dz_return_def)
  ultimately show ?thesis using l' by (intro exI [of _ ?t]) simp
qed

text \<open>A selector that the manifest does not hold is reported as disclosed: the run completes, the
  manifest's selectors are unchanged, and the event says that the selector was disclosed.\<close>

theorem absent_selector_reported_disclosed:
  assumes "accepting env" and "ready env now i q r m w" and "dp_selector_digest q = Some d" and "d \<noteq> ''''"
    and "\<forall>s \<in> set (pm_selectors m). sl_selector_digest s \<noteq> d"
  shows "\<exists>t w' gs. execute_disclosure_transition env now i q (w, [W_ok, W_ok, W_ok]) = (Returned (Some t, False), w', gs) \<and>
    dt_status t = TS_COMPLETED \<and> manifest_of t w' = Some (MF_manifest (seal_manifest (dz_manifest_sha env) m)) \<and>
    Entry (canon (JObj (build_disclosure_event t (Some (seal_manifest (dz_manifest_sha env) m))))) \<in> set (dw_events w') \<and>
    jget (build_disclosure_event t (Some (seal_manifest (dz_manifest_sha env) m))) ''selector_disclosed'' = JBool True"
proof -
  let ?t = "first_transition env now i q" and ?m = "seal_manifest (dz_manifest_sha env) m"
  have "safe_run env m ?t [] (execute_disclosure_transition env now i q (w, [W_ok, W_ok, W_ok]))"
    by (rule safe_execute [OF assms(1,2)]) simp
  then show ?thesis
  proof (cases rule: safe_runE)
    case (complete t w' gs)
    have sel: "dt_selector_digest t = Some d"
      using complete(3) assms(3) by (simp add: latest_def same_plan_def seal_transition_def planned_transition_def)
    have "mark_first d (pm_selectors m) = None" using assms(5) by (simp add: mark_first_None)
    then have image: "post_image env t m = ?m"
      using assms(4) sel by (simp add: post_image_def given_def selector_or_empty_def mark_selector_disclosed_def)
    have "Entry (canon (JObj (build_disclosure_event t (Some ?m)))) \<in> set (filter (names_transition (dt_transition_id t)) (dw_events w'))"
      using complete(4) by (simp add: disclosed_def event_recorded_def image del: canon_JObj)
    moreover have "jget (build_disclosure_event t (Some ?m)) ''selector_disclosed'' = JBool True"
      using assms(4) sel by (simp add: build_disclosure_event_def given_def jget_def dict_get_def)
    ultimately show ?thesis using complete image
      by (intro exI [of _ t] exI [of _ w'] exI [of _ gs]) (auto simp: disclosed_def manifest_applied_def simp del: canon_JObj)
  qed simp
qed
section \<open>Examples\<close>

definition demo_corridor_manifest :: ProtectedContentManifest where
  "demo_corridor_manifest = (build_default_manifest (\<lambda>m. ''m'') ''p'' ''b'' ''src'' ''t'')
     \<lparr>pm_selectors := build_selector_entries (\<lambda>name. ''s'') [''f''] ''source_identifier'' ''commit_subject''\<rparr>"

definition demo_corridor :: disclosure_env where
  "demo_corridor = \<lparr>dz_receipt_sha = demo_dza, dz_transition_sha = (\<lambda>t. ''t''),
     dz_manifest_sha = (\<lambda>m. if list_ex sl_disclosed (pm_selectors m) then ''after'' else ''before''),
     dz_transition_ok = (\<lambda>t. True), dz_event_ok = (\<lambda>ev. True)\<rparr>"

definition demo_plan :: dz_plan where
  "demo_plan = \<lparr>dp_authorization_id = ''a'', dp_evidence_digest = ''e'', dp_projection_id = ''p'', dp_disclosure_class = ''commit_subject'',
     dp_manifest_digest_before = ''before'', dp_recipient_class = ''other_approved_recipient'', dp_provider_or_channel = ''mail'',
     dp_purpose = None, dp_selector_digest = Some ''s'', dp_selector_required_class = Some ''commit_subject'',
     dp_retention_assertion = None, dp_training_use_assertion = None, dp_compilation_receipt_sha256 = ''c''\<rparr>"

definition demo_corridor_world :: "ProtectedContentManifest \<Rightarrow> disclosure_world" where
  "demo_corridor_world m = \<lparr>dw_authorizations = [(''a'', DF_receipt demo_dza_receipt)], dw_transitions = [],
     dw_compilation_receipts = [(''p'', ''c'')], dw_receipts = [], dw_manifests = [(''p'', MF_manifest m)], dw_events = []\<rparr>"

lemma demo_plan_ids: "dp_authorization_id demo_plan = ''a''" "dp_evidence_digest demo_plan = ''e''"
  by (simp_all add: demo_plan_def)

lemma demo_accepting: "accepting demo_corridor"
  by (simp add: accepting_def demo_corridor_def)

lemma demo_ready:
  assumes "\<not> list_ex sl_disclosed (pm_selectors m)"
  shows "ready demo_corridor 1 ''i'' demo_plan demo_dza_receipt m (demo_corridor_world m)"
proof -
  have "plan_context demo_plan = demo_dza_context" by (simp add: plan_context_def demo_plan_def demo_dza_context_def)
  then have "dza_refusal (dz_receipt_sha demo_corridor) 1 (plan_context demo_plan) demo_dza_receipt = None"
    using demo_dza_valid by (simp add: demo_corridor_def)
  then show ?thesis
    using assms
    by (simp add: ready_def demo_corridor_world_def demo_plan_def transitions_for_auth_def dict_get_def DisclosureTarget_def
        no_event_def object_lines_def compute_manifest_digest_def demo_corridor_def)
      (simp add: demo_dza_receipt_def dza_new_receipt_def)
qed

lemma demo_undisclosed: "\<not> list_ex sl_disclosed (pm_selectors demo_corridor_manifest)"
  by (simp add: demo_corridor_manifest_def build_selector_entries_def)


theorem crash_after_consumption_strands_witness:
  "execute_disclosure_transition demo_corridor 1 ''i'' demo_plan
     (demo_corridor_world demo_corridor_manifest, [W_ok, W_ok, W_crash]) =
   (Crashed, with_consumed demo_corridor demo_dza_receipt
      (record_transition (first_transition demo_corridor 1 ''i'' demo_plan) (demo_corridor_world demo_corridor_manifest)), [])"
proof -
  have "da_one_time demo_dza_receipt" by (simp add: demo_dza_receipt_def dza_new_receipt_def)
  from crash_after_consumption_strands [OF demo_accepting demo_ready [OF demo_undisclosed] this] show ?thesis by (simp add: Let_def)
qed

theorem reexecution_refuses_recoverable_witness:
  "\<exists>w t. fst (snd (execute_disclosure_transition demo_corridor 1 ''i'' demo_plan
       (demo_corridor_world demo_corridor_manifest, [W_ok, W_ok, W_ok, W_crash]))) = w \<and> dt_status t = TS_REFUSED \<and>
     execute_disclosure_transition demo_corridor 2 ''j'' demo_plan (w, []) = (Returned (Some t, True), record_transition t w, [])"
proof -
  let ?w = "record_transition (t_consumed demo_corridor 1 (da_receipt_sha256 (use_receipt (dz_receipt_sha demo_corridor) demo_dza_receipt))
      (first_transition demo_corridor 1 ''i'' demo_plan))
    (with_consumed demo_corridor demo_dza_receipt
      (record_transition (first_transition demo_corridor 1 ''i'' demo_plan) (demo_corridor_world demo_corridor_manifest)))"
  note ready = demo_ready [OF demo_undisclosed]
  have "execute_disclosure_transition demo_corridor 1 ''i'' demo_plan
      (demo_corridor_world demo_corridor_manifest, [W_ok, W_ok, W_ok, W_crash]) = (Crashed, ?w, [])"
    by (rule crash_before_receipt [OF demo_accepting ready])
  moreover have "resumable demo_corridor demo_corridor_manifest (first_transition demo_corridor 1 ''i'' demo_plan) ?w"
    by (rule resumableI [OF ready_consumed [OF ready]])
  moreover have "dict_get (dw_authorizations ?w) ''a'' = Some (DF_receipt (use_receipt demo_dza demo_dza_receipt))"
    by (simp add: dza_write_def dict_get_set demo_corridor_def)
      (simp add: demo_dza_receipt_def dza_new_receipt_def)
  moreover have "exhausted (use_receipt demo_dza demo_dza_receipt)"
    by (simp add: exhausted_def) (simp add: demo_dza_receipt_def dza_new_receipt_def)
  ultimately show ?thesis
    using reexecution_refuses_recoverable [OF demo_accepting, of demo_corridor_manifest "first_transition demo_corridor 1 ''i'' demo_plan" ?w
      "use_receipt demo_dza demo_dza_receipt" demo_plan 2 "''j''"]
    by (auto simp: demo_plan_ids)
qed

theorem absent_selector_reported_disclosed_witness:
  "\<exists>t w' gs. execute_disclosure_transition demo_corridor 1 ''i'' demo_plan
     (demo_corridor_world (demo_corridor_manifest\<lparr>pm_selectors := []\<rparr>), [W_ok, W_ok, W_ok]) = (Returned (Some t, False), w', gs) \<and>
   jget (build_disclosure_event t (Some (seal_manifest (dz_manifest_sha demo_corridor) (demo_corridor_manifest\<lparr>pm_selectors := []\<rparr>))))
     ''selector_disclosed'' = JBool True"
proof -
  have ready: "ready demo_corridor 1 ''i'' demo_plan demo_dza_receipt (demo_corridor_manifest\<lparr>pm_selectors := []\<rparr>)
      (demo_corridor_world (demo_corridor_manifest\<lparr>pm_selectors := []\<rparr>))" by (rule demo_ready) simp
  show ?thesis using absent_selector_reported_disclosed [OF demo_accepting ready, of "''s''"] by (auto simp: demo_plan_def)
qed

end
