(* ===== verification/Constraint_Compiler.thy ===== *)
theory Constraint_Compiler
  imports Recovery_Intake Recovery_Authority
begin

text \<open>
  The constraint compiler, \<^verbatim>\<open>rig_relay/recovery/constraint_compiler.py\<close>: from the tool-surface
  manifest to a receipt with the digest of the schema each tool is constrained by, kept in the
  evidence ledger.  \<open>ce_sha\<close> is SHA-256 over canonical JSON; the identifier and the time of a
  compilation are arguments.  \<open>ce_lax_int\<close> is pydantic's reading of an integer.  A text of the
  ledger that happens to be a date and time is read as such for the creation time only.
\<close>

section \<open>Schemas\<close>

record constraint_env =
  ce_sha :: "json \<Rightarrow> string"
  ce_lax_int :: "json \<Rightarrow> int option"

record ConstraintFeatureStatus =
  cf_feature :: string
  cf_status :: string
  cf_reason :: string

record ConstraintCompilationReceipt =
  cr_schema_version :: string
  cr_compilation_id :: string
  cr_created_at :: timestamp
  cr_manifest_digest :: string
  cr_target_profile :: string
  cr_tools_total :: int
  cr_tools_fully_representable :: int
  cr_tools_refused_unsupported_features :: int
  cr_tools_proposal_only :: int
  cr_feature_statuses :: "ConstraintFeatureStatus list"
  cr_constraint_artifact_digest :: string
  cr_tool_schema_digests :: "(string, string) dict"
  cr_receipt_digest :: string

definition RECEIPT_SCHEMA :: string where
  "RECEIPT_SCHEMA = ''rig.relay.tool_constraint_compilation_receipt.v1''"

definition SUPPORTED_SAFE_SCHEMA_FEATURES :: "string list" where
  "SUPPORTED_SAFE_SCHEMA_FEATURES =
    [''type'', ''properties'', ''required'', ''additionalProperties'', ''items'', ''enum'', ''const'', ''minLength'', ''maxLength'',
     ''minimum'', ''maximum'', ''description'', ''title'']"

definition UNSUPPORTED_SCHEMA_FEATURES :: "string list" where
  "UNSUPPORTED_SCHEMA_FEATURES =
    [''pattern'', ''patternProperties'', ''oneOf'', ''anyOf'', ''allOf'', ''not'', ''if'', ''then'', ''else'', ''$ref'', ''$defs'',
     ''uniqueItems'', ''contains'', ''minContains'', ''maxContains'', ''prefixItems'', ''format'', ''default'', ''examples'']"

text \<open>A dictionary display or comprehension.\<close>

definition dict_of :: "('k \<times> 'v) list \<Rightarrow> ('k, 'v) dict" where
  "dict_of kvs = fold (\<lambda>(k, v). dict_set k v) kvs []"

definition string_fields :: "AdmittedToolEntry \<Rightarrow> jdict" where
  "string_fields e = dict_of (map (\<lambda>f. (f, JObj [(''type'', JStr ''string'')])) (te_arg_field_names e))"

text \<open>The schema, with the statuses it appends.\<close>

definition build_safe_schema ::
  "AdmittedToolEntry \<Rightarrow> ConstraintFeatureStatus list \<Rightarrow> jdict option \<times> ConstraintFeatureStatus list" where
  "build_safe_schema e statuses =
    (let props = string_fields e;
         safe = (''type'', JStr ''object'') #
           (if props = [] then [] else [(''properties'', JObj props), (''required'', JList (map JStr (te_arg_field_names e)))]) @
           [(''additionalProperties'', JBool False)]
     in (Some safe, statuses @ map (\<lambda>f. \<lparr>cf_feature = f, cf_status = ''preserved'', cf_reason = ''''\<rparr>)
           (sort SUPPORTED_SAFE_SCHEMA_FEATURES)))"

definition build_runtime_enforcement_schema :: "AdmittedToolEntry \<Rightarrow> jdict" where
  "build_runtime_enforcement_schema e =
    [(''type'', JStr ''object''),
     (''properties'', JObj
       [(''tool'', JObj [(''type'', JStr ''string''), (''const'', JStr (te_canonical_name e))]),
        (''arguments'', JObj
          [(''type'', JStr ''object''), (''properties'', JObj (string_fields e)),
           (''required'', JList (map JStr (te_arg_field_names e))), (''additionalProperties'', JBool False)])]),
     (''required'', JList [JStr ''tool'', JStr ''arguments'']), (''additionalProperties'', JBool False)]"

definition compute_runtime_schema_digest :: "constraint_env \<Rightarrow> jdict \<Rightarrow> string" where
  "compute_runtime_schema_digest env schema = ce_sha env (canon (JObj schema))"

section \<open>Compilation\<close>

definition json_digests :: "(string, string) dict \<Rightarrow> jdict" where
  "json_digests d = map (\<lambda>(k, v). (k, JStr v)) d"

definition compute_receipt_digest :: "constraint_env \<Rightarrow> ConstraintCompilationReceipt \<Rightarrow> string" where
  "compute_receipt_digest env r = ce_sha env (canon (JObj
    [(''schema_version'', JStr (cr_schema_version r)), (''compilation_id'', JStr (cr_compilation_id r)),
     (''created_at'', JTime (cr_created_at r)), (''manifest_digest'', JStr (cr_manifest_digest r)),
     (''target_profile'', JStr (cr_target_profile r)), (''tools_total'', JInt (cr_tools_total r)),
     (''tools_fully_representable'', JInt (cr_tools_fully_representable r)),
     (''tools_refused_unsupported_features'', JInt (cr_tools_refused_unsupported_features r)),
     (''tools_proposal_only'', JInt (cr_tools_proposal_only r)),
     (''constraint_artifact_digest'', JStr (cr_constraint_artifact_digest r)),
     (''tool_schema_digests'', JObj (json_digests (cr_tool_schema_digests r)))]))"

text \<open>What the loop over the admitted tools gathers.\<close>

record compile_state =
  cs_representable :: int
  cs_refused :: int
  cs_proposal_only :: int
  cs_statuses :: "ConstraintFeatureStatus list"
  cs_digests :: "(string, string) dict"

definition compile_tool :: "constraint_env \<Rightarrow> AdmittedToolEntry \<Rightarrow> compile_state \<Rightarrow> compile_state" where
  "compile_tool env e st =
    (let (schema, statuses) = build_safe_schema e (cs_statuses st);
         st1 = (if schema = None then st\<lparr>cs_refused := cs_refused st + 1\<rparr> else st\<lparr>cs_representable := cs_representable st + 1\<rparr>);
         st2 = (if te_recovery_admission_tier e \<in> {MUTATION_PROPOSAL_ONLY, EXTERNAL_SIDE_EFFECT_REFUSE, RAW_SHELL_REFUSE}
                then st1\<lparr>cs_proposal_only := cs_proposal_only st + 1\<rparr> else st1)
     in st2\<lparr>cs_statuses := statuses,
          cs_digests := dict_set (te_canonical_name e)
            (compute_runtime_schema_digest env (build_runtime_enforcement_schema e)) (cs_digests st)\<rparr>)"

definition compile_tools :: "constraint_env \<Rightarrow> AdmittedToolEntry list \<Rightarrow> compile_state" where
  "compile_tools env es = fold (compile_tool env) es
     \<lparr>cs_representable = 0, cs_refused = 0, cs_proposal_only = 0, cs_statuses = [], cs_digests = []\<rparr>"

definition constraint_artifact :: "CanonicalToolSurfaceManifest \<Rightarrow> jdict" where
  "constraint_artifact m = [(''tools'', JList (map (\<lambda>e. JObj
     [(''canonical_name'', JStr (te_canonical_name e)), (''constraint_supported'', JBool (fst (build_safe_schema e []) \<noteq> None))])
     (ms_admitted_tools m)))]"

definition compile_constraints ::
  "constraint_env \<Rightarrow> int \<Rightarrow> string \<Rightarrow> string \<Rightarrow> CanonicalToolSurfaceManifest \<Rightarrow> ConstraintCompilationReceipt" where
  "compile_constraints env now compilation_id target_profile m =
    (let st = compile_tools env (ms_admitted_tools m);
         r = \<lparr>cr_schema_version = RECEIPT_SCHEMA, cr_compilation_id = compilation_id, cr_created_at = Aware now,
           cr_manifest_digest = ms_manifest_digest m, cr_target_profile = target_profile,
           cr_tools_total = int (length (ms_admitted_tools m)), cr_tools_fully_representable = cs_representable st,
           cr_tools_refused_unsupported_features = cs_refused st, cr_tools_proposal_only = cs_proposal_only st,
           cr_feature_statuses = cs_statuses st,
           cr_constraint_artifact_digest = ce_sha env (canon (JObj (constraint_artifact m))),
           cr_tool_schema_digests = cs_digests st, cr_receipt_digest = ''''\<rparr>
     in r\<lparr>cr_receipt_digest := compute_receipt_digest env r\<rparr>)"

section \<open>Durable receipts\<close>

definition receipt_evidence :: "ConstraintCompilationReceipt \<Rightarrow> jdict" where
  "receipt_evidence r =
    [(''schema_version'', JStr RECEIPT_SCHEMA), (''compilation_id'', JStr (cr_compilation_id r)), (''created_at'', JTime (cr_created_at r)),
     (''manifest_digest'', JStr (cr_manifest_digest r)), (''target_profile'', JStr (cr_target_profile r)),
     (''tools_total'', JInt (cr_tools_total r)), (''tools_fully_representable'', JInt (cr_tools_fully_representable r)),
     (''tools_refused_unsupported_features'', JInt (cr_tools_refused_unsupported_features r)),
     (''tools_proposal_only'', JInt (cr_tools_proposal_only r)), (''tool_schema_digests'', JObj (json_digests (cr_tool_schema_digests r))),
     (''constraint_artifact_digest'', JStr (cr_constraint_artifact_digest r)), (''receipt_digest'', JStr (cr_receipt_digest r))]"

definition persist_constraint_compilation_receipt ::
  "constraint_env \<Rightarrow> bool \<Rightarrow> ConstraintCompilationReceipt \<Rightarrow> json jsonl list \<Rightarrow> json jsonl list \<times> string result" where
  "persist_constraint_compilation_receipt env ok r ls =
    (if cr_receipt_digest r = '''' then (ls, Inl (ValueError ''Cannot persist compilation receipt with empty receipt_digest''))
     else if cr_tool_schema_digests r = [] then (ls, Inl (ValueError ''Cannot persist compilation receipt without tool_schema_digests''))
     else append_event (ce_sha env) ok (receipt_evidence r) ls)"

text \<open>The types and patterns of the fields of \<^verbatim>\<open>ConstraintCompilationReceipt\<close>.\<close>

definition is_hex :: "char \<Rightarrow> bool" where
  "is_hex c \<longleftrightarrow> c \<in> set ''0123456789abcdef''"

definition is_digest :: "string \<Rightarrow> bool" where
  "is_digest s \<longleftrightarrow> startswith s ''sha256:'' \<and> length s = 71 \<and> list_all is_hex (drop 7 s)"

fun text_field :: "json \<Rightarrow> string option" where
  "text_field (JStr s) = Some s"
| "text_field v = None"

fun time_field :: "json \<Rightarrow> timestamp option" where
  "time_field (JTime ts) = Some ts"
| "time_field (JStr s) = Some (NotIso s)"
| "time_field v = None"

definition digest_field :: "json \<Rightarrow> string option" where
  "digest_field v = (case text_field v of None \<Rightarrow> None | Some s \<Rightarrow> if is_digest s then Some s else None)"

fun text_dict :: "json \<Rightarrow> (string, string) dict option" where
  "text_dict (JObj d) = those (map (\<lambda>(k, v). map_option (Pair k) (text_field v)) d)"
| "text_dict v = None"

text \<open>\<open>None\<close> when a field is missing or invalid; the loop then goes on to the event before.\<close>

definition receipt_of_event :: "constraint_env \<Rightarrow> jdict \<Rightarrow> ConstraintCompilationReceipt option" where
  "receipt_of_event env e =
    Option.bind (text_field (jget e ''compilation_id'')) (\<lambda>i.
    Option.bind (time_field (jget_or e ''created_at'' (JStr ''''))) (\<lambda>created.
    Option.bind (digest_field (jget e ''manifest_digest'')) (\<lambda>manifest.
    Option.bind (text_field (jget e ''target_profile'')) (\<lambda>profile.
    Option.bind (ce_lax_int env (jget_or e ''tools_total'' (JInt 0))) (\<lambda>total.
    Option.bind (ce_lax_int env (jget_or e ''tools_fully_representable'' (JInt 0))) (\<lambda>representable.
    Option.bind (ce_lax_int env (jget_or e ''tools_refused_unsupported_features'' (JInt 0))) (\<lambda>refused.
    Option.bind (ce_lax_int env (jget_or e ''tools_proposal_only'' (JInt 0))) (\<lambda>proposal.
    Option.bind (text_dict (jget_or e ''tool_schema_digests'' (JObj []))) (\<lambda>digests.
    Option.bind (text_field (jget_or e ''constraint_artifact_digest'' (JStr ''''))) (\<lambda>artifact.
    Option.bind (digest_field (jget e ''receipt_digest'')) (\<lambda>receipt. Some
      \<lparr>cr_schema_version = RECEIPT_SCHEMA, cr_compilation_id = i, cr_created_at = created, cr_manifest_digest = manifest,
       cr_target_profile = profile, cr_tools_total = total, cr_tools_fully_representable = representable,
       cr_tools_refused_unsupported_features = refused, cr_tools_proposal_only = proposal, cr_feature_statuses = [],
       cr_constraint_artifact_digest = artifact, cr_tool_schema_digests = digests, cr_receipt_digest = receipt\<rparr>)))))))))))"

definition load_canonical_constraint_receipt :: "constraint_env \<Rightarrow> json jsonl list \<Rightarrow> ConstraintCompilationReceipt option result" where
  "load_canonical_constraint_receipt env ls =
    and_then (load_events (ce_sha env) ls) (\<lambda>es. Inr
      (first_some (\<lambda>e. if jget e ''schema_version'' \<noteq> JStr RECEIPT_SCHEMA then None else receipt_of_event env e) (rev es)))"

section \<open>What a compilation records\<close>

lemma wf_dict_of [simp]: "wf_dict (fold (\<lambda>x. dict_set (f x) (g x)) xs d) = wf_dict d" if "wf_dict d"
  using that by (induction xs arbitrary: d) auto

lemma fold_dict_set_get:
  "distinct (map f xs) \<Longrightarrow> dict_get (fold (\<lambda>x. dict_set (f x) (g x)) xs d) k =
    (case next_or_none (\<lambda>x. f x = k) xs of None \<Rightarrow> dict_get d k | Some x \<Rightarrow> Some (g x))"
proof (induction xs arbitrary: d)
  case (Cons x xs)
  show ?case
  proof (cases "f x = k")
    case True
    with Cons.prems have "next_or_none (\<lambda>x. f x = k) xs = None"
      unfolding next_or_none_None by (metis distinct.simps(2) image_eqI list.simps(9) set_map)
    with Cons True show ?thesis by (simp add: next_or_none_def dict_get_set)
  next
    case False
    with Cons show ?thesis by (simp add: next_or_none_def dict_get_set split: option.split)
  qed
qed (simp add: next_or_none_def)

lemma compile_tool_fields [simp]:
  "cs_digests (compile_tool env e st) =
    dict_set (te_canonical_name e) (compute_runtime_schema_digest env (build_runtime_enforcement_schema e)) (cs_digests st)"
  "cs_representable (compile_tool env e st) = cs_representable st + 1" "cs_refused (compile_tool env e st) = cs_refused st"
  "cs_statuses (compile_tool env e st) = snd (build_safe_schema e (cs_statuses st))"
  by (simp_all add: compile_tool_def build_safe_schema_def Let_def)

lemma compile_digests:
  "cs_digests (fold (compile_tool env) es st) = fold (\<lambda>e. dict_set (te_canonical_name e)
    (compute_runtime_schema_digest env (build_runtime_enforcement_schema e))) es (cs_digests st)"
  by (induction es arbitrary: st) simp_all

lemma compile_counts:
  "cs_representable (fold (compile_tool env) es st) = cs_representable st + int (length es)"
  "cs_refused (fold (compile_tool env) es st) = cs_refused st"
  by (induction es arbitrary: st) simp_all

lemma compile_statuses:
  "(\<forall>s \<in> set (cs_statuses st). cf_status s = ''preserved'') \<Longrightarrow>
    \<forall>s \<in> set (cs_statuses (fold (compile_tool env) es st)). cf_status s = ''preserved''"
proof (induction es arbitrary: st)
  case (Cons e es)
  have "\<forall>s \<in> set (cs_statuses (compile_tool env e st)). cf_status s = ''preserved''"
    using Cons.prems by (auto simp: build_safe_schema_def Let_def)
  from Cons.IH [OF this] show ?case by simp
qed simp

lemma compiled_fields:
  "cr_tool_schema_digests (compile_constraints env now i p m) = cs_digests (compile_tools env (ms_admitted_tools m))"
  "cr_manifest_digest (compile_constraints env now i p m) = ms_manifest_digest m"
  "cr_schema_version (compile_constraints env now i p m) = RECEIPT_SCHEMA"
  by (simp_all add: compile_constraints_def Let_def)

lemma compiled_digest:
  assumes "distinct (map te_canonical_name (ms_admitted_tools m))" and "e \<in> set (ms_admitted_tools m)"
  shows "dict_get (cr_tool_schema_digests (compile_constraints env now i p m)) (te_canonical_name e) =
    Some (compute_runtime_schema_digest env (build_runtime_enforcement_schema e))"
proof -
  have "next_or_none (\<lambda>x. te_canonical_name x = te_canonical_name e) (ms_admitted_tools m) = Some e"
  proof (cases "next_or_none (\<lambda>x. te_canonical_name x = te_canonical_name e) (ms_admitted_tools m)")
    case None
    then show ?thesis using assms(2) by (auto simp: next_or_none_None)
  next
    case (Some x)
    then have "x \<in> set (ms_admitted_tools m)" and "te_canonical_name x = te_canonical_name e" by (auto dest: next_or_none_Some)
    with assms Some show ?thesis by (metis distinct_map inj_on_def)
  qed
  with assms(1) show ?thesis by (simp add: compiled_fields compile_tools_def compile_digests fold_dict_set_get)
qed

text \<open>The compiler refuses no tool and reports every feature as preserved, whatever parameter schemas
  the tools have; the digests it records are those of the tools' names and field names alone.\<close>

theorem compiler_ignores_parameter_schemas:
  assumes "map (\<lambda>e. (te_canonical_name e, te_arg_field_names e)) (ms_admitted_tools m) =
      map (\<lambda>e. (te_canonical_name e, te_arg_field_names e)) (ms_admitted_tools m')"
  shows "cr_tools_refused_unsupported_features (compile_constraints env now i p m) = 0 \<and>
    cr_tools_fully_representable (compile_constraints env now i p m) = int (length (ms_admitted_tools m)) \<and>
    (\<forall>s \<in> set (cr_feature_statuses (compile_constraints env now i p m)). cf_status s = ''preserved'') \<and>
    cr_tool_schema_digests (compile_constraints env now i p m) = cr_tool_schema_digests (compile_constraints env now i p m')"
proof -
  define schema where "schema n fs = compute_runtime_schema_digest env (build_runtime_enforcement_schema
      \<lparr>te_canonical_name = n, te_aliases = [], te_mutation_class = '''', te_determinism_class = '''', te_args_schema_digest = '''',
       te_arg_field_names = fs, te_recovery_admission_tier = UNSUPPORTED_REFUSE\<rparr>)" for n fs
  have digest: "compute_runtime_schema_digest env (build_runtime_enforcement_schema e) = schema (te_canonical_name e) (te_arg_field_names e)" for e
    by (simp add: schema_def build_runtime_enforcement_schema_def string_fields_def)
  have by_view: "fold (\<lambda>e. dict_set (te_canonical_name e) (compute_runtime_schema_digest env (build_runtime_enforcement_schema e))) es d =
      fold (\<lambda>(n, fs). dict_set n (schema n fs)) (map (\<lambda>e. (te_canonical_name e, te_arg_field_names e)) es) d" for es d
    unfolding digest by (induction es arbitrary: d) simp_all

  have "cs_digests (compile_tools env (ms_admitted_tools m)) = cs_digests (compile_tools env (ms_admitted_tools m'))"
    by (simp only: compile_tools_def compile_digests by_view assms)
  then show ?thesis
    using compile_statuses [of "\<lparr>cs_representable = 0, cs_refused = 0, cs_proposal_only = 0, cs_statuses = [], cs_digests = []\<rparr>"]
    by (simp add: compile_constraints_def compile_tools_def compile_counts Let_def)
qed

section \<open>Receipts read back\<close>

lemma canon_scalar_iff [simp]:
  "canon v = JStr s \<longleftrightarrow> v = JStr s" "canon v = JTime ts \<longleftrightarrow> v = JTime ts" "canon v = JInt n \<longleftrightarrow> v = JInt n"
  by (cases v; simp)+

lemma canon_object: "canon v = JObj d \<Longrightarrow> \<exists>d'. v = JObj d' \<and> canon_dict d' = d"
  by (cases v) auto

lemma text_dict_texts:
  "(\<forall>(k, v) \<in> set d. \<exists>s. v = JStr s) \<Longrightarrow>
    \<exists>dd. text_dict (JObj d) = Some dd \<and> (\<forall>k. map_option JStr (dict_get dd k) = dict_get d k)"
proof (induction d)
  case Nil
  then show ?case by (simp add: dict_get_def)
next
  case (Cons kv d)
  obtain k v where kv: "kv = (k, v)" by fastforce
  with Cons.prems obtain s where v: "v = JStr s" by auto
  from Cons obtain dd where dd: "text_dict (JObj d) = Some dd" "\<forall>k. map_option JStr (dict_get dd k) = dict_get d k" by auto
  with kv v show ?case by (intro exI [of _ "(k, s) # dd"]) (auto simp: dict_get_def)
qed

lemma dict_get_json_digests: "dict_get (json_digests d) k = map_option JStr (dict_get d k)"
  by (induction d) (auto simp: json_digests_def dict_get_def)

lemma wf_json_digests [simp]: "wf_dict (json_digests d) = wf_dict d"
  by (simp add: wf_dict_def json_digests_def comp_def case_prod_beta')

text \<open>What may be stored: digests of the pattern, and tools with one digest each.\<close>

definition storable :: "ConstraintCompilationReceipt \<Rightarrow> bool" where
  "storable r \<longleftrightarrow> cr_schema_version r = RECEIPT_SCHEMA \<and> is_digest (cr_manifest_digest r) \<and> is_digest (cr_receipt_digest r) \<and>
    wf_dict (cr_tool_schema_digests r) \<and> cr_tool_schema_digests r \<noteq> []"

lemma stored_digests:
  assumes "canon (jget x k) = canon (JObj (json_digests d))" and "wf_dict d" and "jget x k = jget_or x k (JObj [])"
  shows "\<exists>dd. text_dict (jget_or x k (JObj [])) = Some dd \<and> (\<forall>k. dict_get dd k = dict_get d k)"
proof -
  from assms(1) obtain d' where d': "jget x k = JObj d'" "canon_dict d' = canon_dict (json_digests d)"
    using canon_object [of "jget x k" "canon_dict (json_digests d)"] by auto
  then have wf: "wf_dict d'" using assms(2) by (metis wf_canon_dict wf_json_digests)
  have get: "dict_get d' j = map_option JStr (dict_get d j)" for j
  proof -
    have "map_option canon (dict_get d' j) = map_option canon (dict_get (json_digests d) j)"
      using dict_get_canon [OF wf, of j] dict_get_canon [of "json_digests d" j] d'(2) assms(2) by simp
    then show ?thesis by (cases "dict_get d' j"; cases "dict_get d j") (auto simp: dict_get_json_digests)
  qed
  have "\<forall>(j, v) \<in> set d'. \<exists>s. v = JStr s" using get wf by (auto simp: dict_item_get)
  then obtain dd where "text_dict (JObj d') = Some dd" and dd: "\<forall>j. map_option JStr (dict_get dd j) = dict_get d' j"
    using text_dict_texts by blast
  moreover have "dict_get dd j = dict_get d j" for j
    using dd get [of j] by (metis json.inject(3) option.inj_map_strong)
  ultimately show ?thesis using d'(1) assms(3) by auto
qed
text \<open>The durability boundary of the compiler: a storable receipt persisted to a ledger that loads is
  the canonical receipt afterwards, with every field and every tool's digest, but for the feature
  statuses, which are not kept.  Whether its digest is that of its content is not asked.\<close>

theorem compilation_receipt_round_trip:
  assumes "storable r" and "load_events (ce_sha env) ls = Inr old" and "\<forall>n. ce_lax_int env (JInt n) = Some n"
  shows "\<exists>ls' dd. persist_constraint_compilation_receipt env True r ls =
      (ls', Inr (compute_event_digest (ce_sha env) (receipt_evidence r))) \<and>
    load_canonical_constraint_receipt env ls' = Inr (Some (r\<lparr>cr_feature_statuses := [], cr_tool_schema_digests := dd\<rparr>)) \<and>
    (\<forall>k. dict_get dd k = dict_get (cr_tool_schema_digests r) k)"
proof -
  let ?e = "receipt_evidence r" and ?sha = "ce_sha env"
  let ?ls = "ls @ [Entry (canon (JObj (evd.seal ?sha ?e)))]"
  have wf: "wf_dict ?e" by (simp add: receipt_evidence_def wf_dict_def)
  have light: "content_light FORBIDDEN_EVENT_KEYS ?e"
    by (simp add: content_light_def FORBIDDEN_EVENT_KEYS_def receipt_evidence_def dict_get_def)
  have persisted: "persist_constraint_compilation_receipt env True r ls = (?ls, Inr (compute_event_digest ?sha ?e))"
    using assms(1) appended_line [OF light, of ?sha ls]
    by (auto simp: persist_constraint_compilation_receipt_def storable_def is_digest_def)
  obtain x where x: "load_and_verify_event ?sha (canon (JObj (evd.seal ?sha ?e))) = Inr x" "canon_dict x = canon_dict (evd.seal ?sha ?e)"
    using verify_sealed_event [OF wf] by blast
  have wf_seal: "wf_dict (evd.seal ?sha ?e)" using wf by (simp add: evd.seal_def)
  then have wf_x: "wf_dict x" using x(2) by (metis wf_canon_dict)
  have get: "map_option canon (dict_get x k) = map_option canon (dict_get ?e k)" if "k \<noteq> ''event_digest''" for k
    using dict_get_canon [OF wf_x, of k] dict_get_canon [OF wf_seal, of k] x(2) that by (simp add: evd.seal_def dict_get_set)
  have scalar: "jget x k = v" "jget_or x k dflt = v"
    if "dict_get ?e k = Some v" and "k \<noteq> ''event_digest''" and "\<And>u. canon u = canon v \<Longrightarrow> u = v" for k v dflt
    using get [OF that(2)] that(1,3) by (auto simp: jget_def jget_or_def split: option.splits)
  note evidence = receipt_evidence_def dict_get_def
  have "canon (jget x ''tool_schema_digests'') = canon (JObj (json_digests (cr_tool_schema_digests r)))"
    and "jget x ''tool_schema_digests'' = jget_or x ''tool_schema_digests'' (JObj [])"
    using get [of "''tool_schema_digests''"] by (auto simp: evidence jget_def jget_or_def split: option.splits)
  then obtain dd where dd: "text_dict (jget_or x ''tool_schema_digests'' (JObj [])) = Some dd"
      "\<forall>k. dict_get dd k = dict_get (cr_tool_schema_digests r) k"
    using stored_digests [of x "''tool_schema_digests''" "cr_tool_schema_digests r"] assms(1) by (auto simp: storable_def)
  have fields: "jget x ''schema_version'' = JStr RECEIPT_SCHEMA" "jget x ''compilation_id'' = JStr (cr_compilation_id r)"
    "jget_or x ''created_at'' (JStr '''') = JTime (cr_created_at r)" "jget x ''manifest_digest'' = JStr (cr_manifest_digest r)"
    "jget x ''target_profile'' = JStr (cr_target_profile r)" "jget_or x ''tools_total'' (JInt 0) = JInt (cr_tools_total r)"
    "jget_or x ''tools_fully_representable'' (JInt 0) = JInt (cr_tools_fully_representable r)"
    "jget_or x ''tools_refused_unsupported_features'' (JInt 0) = JInt (cr_tools_refused_unsupported_features r)"
    "jget_or x ''tools_proposal_only'' (JInt 0) = JInt (cr_tools_proposal_only r)"
    "jget_or x ''constraint_artifact_digest'' (JStr '''') = JStr (cr_constraint_artifact_digest r)"
    "jget x ''receipt_digest'' = JStr (cr_receipt_digest r)"
    by (rule scalar; simp add: evidence)+
  have "receipt_of_event env x = Some (r\<lparr>cr_feature_statuses := [], cr_tool_schema_digests := dd\<rparr>)"
    using assms(1,3) dd(1) by (simp add: receipt_of_event_def fields digest_field_def storable_def)
  moreover have "load_events ?sha ?ls = Inr (old @ [x])"
    using assms(2) x(1) by (simp add: load_events_append del: canon_JObj)
  ultimately have "load_canonical_constraint_receipt env ?ls = Inr (Some (r\<lparr>cr_feature_statuses := [], cr_tool_schema_digests := dd\<rparr>))"
    by (simp add: load_canonical_constraint_receipt_def fields)
  with persisted dd(2) show ?thesis by blast
qed
lemma compiled_storable:
  assumes "ms_admitted_tools m \<noteq> []" and "is_digest (ms_manifest_digest m)" and "\<And>v. is_digest (ce_sha env v)"
  shows "storable (compile_constraints env now i p m)"
proof -
  have "wf_dict (cr_tool_schema_digests (compile_constraints env now i p m))"
    by (simp add: compiled_fields compile_tools_def compile_digests)
  moreover have "cr_tool_schema_digests (compile_constraints env now i p m) \<noteq> []"
  proof -
    have "dict_set k v d \<noteq> []" for k v and d :: "(string, string) dict" by (cases d) (auto simp: dict_set_def)
    then have "fold (\<lambda>e. dict_set (te_canonical_name e) (g e)) es d \<noteq> []" if "es \<noteq> [] \<or> d \<noteq> []" for es g and d :: "(string, string) dict"
      using that by (induction es arbitrary: d) auto
    note this [of "ms_admitted_tools m" "[]"]
    then show ?thesis using assms(1) by (simp add: compiled_fields compile_tools_def compile_digests)
  qed
  ultimately show ?thesis using assms(2,3) by (simp add: storable_def compiled_fields) (simp add: compile_constraints_def Let_def compute_receipt_digest_def)
qed

section \<open>Examples\<close>

definition demo_constraint_env :: constraint_env where
  "demo_constraint_env = \<lparr>ce_sha = (\<lambda>v. ''sha256:'' @ replicate 64 (CHR ''a'')),
     ce_lax_int = (\<lambda>v. case v of JInt n \<Rightarrow> Some n | _ \<Rightarrow> None)\<rparr>"

definition demo_entry :: "string \<Rightarrow> RecoveryAdmissionTier \<Rightarrow> AdmittedToolEntry" where
  "demo_entry name tier = \<lparr>te_canonical_name = name, te_aliases = [], te_mutation_class = ''read_only'',
     te_determinism_class = ''deterministic'', te_args_schema_digest = '''', te_arg_field_names = [''path''], te_recovery_admission_tier = tier\<rparr>"

definition demo_tool_manifest :: CanonicalToolSurfaceManifest where
  "demo_tool_manifest = \<lparr>ms_admitted_tools = [demo_entry ''read_file'' READ_ONLY_RECOVERABLE, demo_entry ''write_file'' MUTATION_PROPOSAL_ONLY],
     ms_manifest_digest = ''sha256:'' @ replicate 64 (CHR ''b'')\<rparr>"

lemma demo_digests: "is_digest (ce_sha demo_constraint_env v)" "is_digest (ms_manifest_digest demo_tool_manifest)"
  by (simp_all add: demo_constraint_env_def demo_tool_manifest_def is_digest_def is_hex_def startswith_def list_all_iff)

lemma demo_storable: "storable (compile_constraints demo_constraint_env 0 ''c'' ''p'' demo_tool_manifest)"
  by (rule compiled_storable [OF _ demo_digests(2,1)]) (simp add: demo_tool_manifest_def)

theorem compiler_ignores_parameter_schemas_witness:
  "cr_tool_schema_digests (compile_constraints demo_constraint_env 0 ''c'' ''p'' demo_tool_manifest) =
    cr_tool_schema_digests (compile_constraints demo_constraint_env 0 ''c'' ''p'' (demo_tool_manifest\<lparr>ms_admitted_tools :=
      map (\<lambda>e. e\<lparr>te_args_schema_digest := ''other''\<rparr>) (ms_admitted_tools demo_tool_manifest)\<rparr>))"
  using compiler_ignores_parameter_schemas [of demo_tool_manifest "demo_tool_manifest\<lparr>ms_admitted_tools :=
      map (\<lambda>e. e\<lparr>te_args_schema_digest := ''other''\<rparr>) (ms_admitted_tools demo_tool_manifest)\<rparr>"]
  by (simp add: demo_tool_manifest_def)

theorem compilation_receipt_round_trip_witness:
  "\<exists>ls' out r'. persist_constraint_compilation_receipt demo_constraint_env True
      (compile_constraints demo_constraint_env 0 ''c'' ''p'' demo_tool_manifest) [] = (ls', out) \<and>
    load_canonical_constraint_receipt demo_constraint_env ls' = Inr (Some r') \<and>
    cr_receipt_digest r' = cr_receipt_digest (compile_constraints demo_constraint_env 0 ''c'' ''p'' demo_tool_manifest)"
proof -
  have "load_events (ce_sha demo_constraint_env) [] = Inr []" by simp
  moreover have "\<forall>n. ce_lax_int demo_constraint_env (JInt n) = Some n" by (simp add: demo_constraint_env_def)
  ultimately show ?thesis using compilation_receipt_round_trip [OF demo_storable] by fastforce
qed

end
