(* ===== verification/Recovery_Evaluation.thy ===== *)
theory Recovery_Evaluation
  imports Recovery_Intake Recovery_Authority
begin

text \<open>
  The evaluation of malformed calls, \<^verbatim>\<open>rig_relay/recovery/\<close>: the receipt of a recovery attempt
  (\<^verbatim>\<open>receipt.py\<close>), the evaluation event (\<^verbatim>\<open>evaluation.py\<close>) and the handoffs to the runtime
  (\<^verbatim>\<open>handoff.py\<close>).  \<open>vl_sha\<close> is SHA-256 over compact JSON, \<open>vl_wide_sha\<close> over the JSON of the default
  separators.  Emissions are dictionaries, as in \<open>Recovery_Intake\<close>; the reason of a refusal is its
  code, without the text for people; the patterns that pydantic asks of digests are those of SHA-256.
\<close>

section \<open>Names\<close>

fun decision_name :: "RecoveryAdmissionDecision \<Rightarrow> string" where
  "decision_name AUTO_EXECUTE_READ_ONLY = ''auto_execute_read_only''"
| "decision_name AUTO_EXECUTE_VALIDATION = ''auto_execute_validation''"
| "decision_name PROPOSAL_ONLY_MUTATION = ''proposal_only_mutation''"
| "decision_name REQUIRE_REMOTE_AUTHORIZATION = ''require_remote_authorization''"
| "decision_name REFUSE_RAW_SHELL = ''refuse_raw_shell''"
| "decision_name REFUSE_AMBIGUOUS = ''refuse_ambiguous''"
| "decision_name REFUSE_UNSUPPORTED = ''refuse_unsupported''"

fun refusal_name :: "RecoveryRefusalCode \<Rightarrow> string" where
  "refusal_name UNSUPPORTED_WRAPPER = ''unsupported_wrapper''"
| "refusal_name MALFORMED_INLINE_SYNTAX = ''malformed_inline_syntax''"
| "refusal_name UNKNOWN_ALIAS = ''unknown_alias''"
| "refusal_name AMBIGUOUS_ALIAS = ''ambiguous_alias''"
| "refusal_name CANONICAL_TOOL_NOT_ADMITTED = ''canonical_tool_not_admitted''"
| "refusal_name FORBIDDEN_SHELL_SURFACE = ''forbidden_shell_surface''"
| "refusal_name UNSUPPORTED_PAYLOAD_KEY_ALIAS = ''unsupported_payload_key_alias''"
| "refusal_name PAYLOAD_VALIDATION_FAILED = ''payload_validation_failed''"
| "refusal_name MUTATION_CONTENT_MISSING = ''mutation_content_missing''"
| "refusal_name EXTERNAL_SIDE_EFFECT_NOT_RECOVERABLE = ''external_side_effect_not_recoverable''"
| "refusal_name UNSUPPORTED_RECOVERY_FORM = ''unsupported_recovery_form''"

fun rule_name :: "RecoveryNormalizationRule \<Rightarrow> string" where
  "rule_name UNWRAP_FUNCTION_OBJECT = ''unwrap_function_object''"
| "rule_name MAP_TOOL_TO_NAME = ''map_tool_to_name''"
| "rule_name MAP_ARGS_TO_ARGUMENTS = ''map_args_to_arguments''"
| "rule_name MAP_PARAMETERS_TO_ARGUMENTS = ''map_parameters_to_arguments''"
| "rule_name UNPACK_FUNCTION_DOTTED_KEYS = ''unpack_function_dotted_keys''"
| "rule_name PARSE_INLINE_CALL_FORM = ''parse_inline_call_form''"
| "rule_name APPLY_EXPLICIT_ALIAS = ''apply_explicit_alias''"
| "rule_name VALIDATE_PAYLOAD_SCHEMA = ''validate_payload_schema''"

section \<open>Receipts\<close>

record evaluation_env =
  vl_sha :: "json \<Rightarrow> string"
  vl_wide_sha :: "json \<Rightarrow> string"

record ToolIntentRecoveryReceipt =
  tr_receipt_id :: string
  tr_created_at :: timestamp
  tr_manifest_digest :: string
  tr_original_emission_sha256 :: string
  tr_normalization_rules_applied :: "string list"
  tr_candidate_count :: nat
  tr_selected_canonical_tool :: "string option"
  tr_selected_tool_mutation_class :: "string option"
  tr_selected_tool_determinism_class :: "string option"
  tr_normalized_payload_sha256 :: "string option"
  tr_payload_schema_valid :: bool
  tr_admission_decision :: "RecoveryAdmissionDecision option"
  tr_proposal_only :: bool
  tr_refused_reason :: "string option"
  tr_receipt_sha256 :: "string option"

definition recovery_receipt_digest :: "evaluation_env \<Rightarrow> ToolIntentRecoveryReceipt \<Rightarrow> string" where
  "recovery_receipt_digest env r = vl_sha env (canon (JObj
    [(''schema_version'', JStr ''rig.relay.tool_intent_recovery_receipt.v1''), (''receipt_id'', JStr (tr_receipt_id r)),
     (''created_at'', JTime (tr_created_at r)), (''manifest_digest'', JStr (tr_manifest_digest r)),
     (''original_emission_sha256'', JStr (tr_original_emission_sha256 r)),
     (''normalization_rules_applied'', JList (map JStr (sort (tr_normalization_rules_applied r)))),
     (''candidate_count'', JInt (int (tr_candidate_count r))), (''selected_canonical_tool'', jopt JStr (tr_selected_canonical_tool r)),
     (''selected_tool_mutation_class'', jopt JStr (tr_selected_tool_mutation_class r)),
     (''selected_tool_determinism_class'', jopt JStr (tr_selected_tool_determinism_class r)),
     (''normalized_payload_sha256'', jopt JStr (tr_normalized_payload_sha256 r)),
     (''payload_schema_valid'', JBool (tr_payload_schema_valid r)),
     (''admission_decision'', jopt (\<lambda>d. JStr (decision_name d)) (tr_admission_decision r)),
     (''proposal_only'', JBool (tr_proposal_only r)), (''refused_reason'', jopt JStr (tr_refused_reason r))]))"

definition seal_recovery_receipt :: "evaluation_env \<Rightarrow> ToolIntentRecoveryReceipt \<Rightarrow> ToolIntentRecoveryReceipt" where
  "seal_recovery_receipt env r =
    (if tr_receipt_sha256 r = None then r\<lparr>tr_receipt_sha256 := Some (recovery_receipt_digest env r)\<rparr> else r)"

definition recovery_receipt_intact :: "evaluation_env \<Rightarrow> ToolIntentRecoveryReceipt \<Rightarrow> bool" where
  "recovery_receipt_intact env r \<longleftrightarrow> tr_receipt_sha256 r = Some (recovery_receipt_digest env r)"

definition build_recovery_receipt_from_intent ::
  "evaluation_env \<Rightarrow> int \<Rightarrow> string \<Rightarrow> RecoveryIntent \<Rightarrow> string \<Rightarrow> string \<Rightarrow> RecoveryAdmissionDecision option \<Rightarrow> bool \<Rightarrow> ToolIntentRecoveryReceipt" where
  "build_recovery_receipt_from_intent env now i intent manifest_digest emission admission proposal_only = seal_recovery_receipt env
    \<lparr>tr_receipt_id = i, tr_created_at = Aware now, tr_manifest_digest = manifest_digest, tr_original_emission_sha256 = emission,
     tr_normalization_rules_applied = sort (map rule_name (ri_rules_applied intent)), tr_candidate_count = 1,
     tr_selected_canonical_tool = Some (ri_canonical_tool_name intent), tr_selected_tool_mutation_class = ri_mutation_class intent,
     tr_selected_tool_determinism_class = ri_determinism_class intent, tr_normalized_payload_sha256 = Some (ri_payload_digest intent),
     tr_payload_schema_valid = True, tr_admission_decision = admission, tr_proposal_only = proposal_only,
     tr_refused_reason = None, tr_receipt_sha256 = None\<rparr>"

definition build_recovery_receipt_from_refusal ::
  "evaluation_env \<Rightarrow> int \<Rightarrow> string \<Rightarrow> RecoveryRefusal \<Rightarrow> string \<Rightarrow> string \<Rightarrow> ToolIntentRecoveryReceipt" where
  "build_recovery_receipt_from_refusal env now i refusal manifest_digest emission = seal_recovery_receipt env
    \<lparr>tr_receipt_id = i, tr_created_at = Aware now, tr_manifest_digest = manifest_digest, tr_original_emission_sha256 = emission,
     tr_normalization_rules_applied = sort (map rule_name (rf_rules_attempted refusal)),
     tr_candidate_count = rf_candidate_count refusal, tr_selected_canonical_tool = None, tr_selected_tool_mutation_class = None,
     tr_selected_tool_determinism_class = None, tr_normalized_payload_sha256 = None, tr_payload_schema_valid = False,
     tr_admission_decision = None, tr_proposal_only = False, tr_refused_reason = Some (refusal_name (rf_refusal_code refusal)),
     tr_receipt_sha256 = None\<rparr>"

section \<open>Evaluation\<close>

record evaluation_case =
  ec_case_id :: string
  ec_raw_emission :: json
  ec_source_kind :: "string option"
  ec_runtime_kind :: "string option"
  ec_model_id_hash :: "string option"
  ec_expected_decision :: "string option"
  ec_expected_tool :: "string option"

text \<open>What the evaluation gathers about one emission.\<close>

record evaluation_outcome =
  eo_receipt_sha256 :: "string option"
  eo_selected_tool :: "string option"
  eo_admission_decision :: "string option"
  eo_mutation_class :: "string option"
  eo_rules_applied :: "string list"
  eo_payload_valid :: bool
  eo_refusal_code :: "string option"
  eo_candidate_count :: nat

definition recovered_outcome ::
  "evaluation_env \<Rightarrow> int \<Rightarrow> CanonicalToolSurfaceManifest \<Rightarrow> string \<Rightarrow> string \<Rightarrow> RecoveryIntent \<Rightarrow> evaluation_outcome" where
  "recovered_outcome env now m case_id emission i =
    (let admitted = map_option (decide_admission i)
           (next_or_none (\<lambda>e. te_canonical_name e = ri_canonical_tool_name i) (ms_admitted_tools m))
     in \<lparr>eo_receipt_sha256 = Option.bind admitted (\<lambda>adm. tr_receipt_sha256 (build_recovery_receipt_from_intent env now (''rcpt_'' @ case_id)
            i (ms_manifest_digest m) emission (Some (ad_admission_decision adm)) (ad_proposal_only adm))),
         eo_selected_tool = Some (ri_canonical_tool_name i),
         eo_admission_decision = map_option (\<lambda>adm. decision_name (ad_admission_decision adm)) admitted,
         eo_mutation_class = ri_mutation_class i, eo_rules_applied = sort (map rule_name (ri_rules_applied i)),
         eo_payload_valid = True, eo_refusal_code = None, eo_candidate_count = 0\<rparr>)"

definition refused_outcome ::
  "evaluation_env \<Rightarrow> int \<Rightarrow> CanonicalToolSurfaceManifest \<Rightarrow> string \<Rightarrow> string \<Rightarrow> RecoveryRefusal \<Rightarrow> evaluation_outcome" where
  "refused_outcome env now m case_id emission r =
    \<lparr>eo_receipt_sha256 = tr_receipt_sha256 (build_recovery_receipt_from_refusal env now (''rcpt_'' @ case_id) r (ms_manifest_digest m) emission),
     eo_selected_tool = None, eo_admission_decision = None, eo_mutation_class = None,
     eo_rules_applied = sort (map rule_name (rf_rules_attempted r)), eo_payload_valid = False,
     eo_refusal_code = Some (refusal_name (rf_refusal_code r)), eo_candidate_count = rf_candidate_count r\<rparr>"

definition REFUSAL_SET :: "string list" where
  "REFUSAL_SET = [''refuse_ambiguous'', ''refuse_unsupported'']"

definition in_refusal_set :: "string option \<Rightarrow> bool" where
  "in_refusal_set x = (case x of None \<Rightarrow> False | Some s \<Rightarrow> s \<in> set REFUSAL_SET)"

definition mutation_auto_violation :: "string option \<Rightarrow> string option \<Rightarrow> bool" where
  "mutation_auto_violation admission mutation_class =
    (case (admission, mutation_class) of
       (Some a, Some c) \<Rightarrow> str_contains a ''auto_execute'' \<and> c \<noteq> '''' \<and> is_mutation_class (Some c)
     | _ \<Rightarrow> False)"

definition evaluation_event ::
  "evaluation_env \<Rightarrow> int \<Rightarrow> CanonicalToolSurfaceManifest \<Rightarrow> evaluation_case \<Rightarrow> string \<Rightarrow> string \<Rightarrow> evaluation_outcome \<Rightarrow> jdict" where
  "evaluation_event env now m c run_id emission oc =
    (let expected = ec_expected_decision c; admission = eo_admission_decision oc; both = expected \<noteq> None \<and> admission \<noteq> None;
         event = [(''schema_version'', JStr ''rig.relay.tool_recovery_evaluation_event.v1''), (''evaluation_run_id'', JStr run_id),
           (''case_id'', JStr (ec_case_id c)),
           (''source_kind'', JStr (case ec_source_kind c of None \<Rightarrow> ''curated_adversarial'' | Some k \<Rightarrow> k)),
           (''runtime_kind'', jopt JStr (ec_runtime_kind c)), (''model_id_hash'', jopt JStr (ec_model_id_hash c)),
           (''tool_surface_manifest_digest'', JStr (ms_manifest_digest m)), (''raw_emission_sha256'', JStr emission),
           (''recovery_receipt_sha256'', jopt JStr (eo_receipt_sha256 oc)), (''selected_canonical_tool'', jopt JStr (eo_selected_tool oc)),
           (''admission_decision'', jopt JStr admission), (''mutation_class'', jopt JStr (eo_mutation_class oc)),
           (''normalization_rules_applied'', JList (map JStr (eo_rules_applied oc))), (''payload_schema_valid'', JBool (eo_payload_valid oc)),
           (''refusal_code'', jopt JStr (eo_refusal_code oc)), (''candidate_count'', JInt (int (eo_candidate_count oc))),
           (''expected_decision'', jopt JStr expected), (''expected_tool'', jopt JStr (ec_expected_tool c)),
           (''recovery_correct'', if both then JBool (admission = expected) else JNull),
           (''false_recovery'', JBool (both \<and> \<not> in_refusal_set admission \<and> in_refusal_set expected)),
           (''ambiguity_refused_correctly'', if in_refusal_set expected then JBool (in_refusal_set admission) else JNull),
           (''recovered_mutation_auto_execution_violation'', JBool (mutation_auto_violation admission (eo_mutation_class oc))),
           (''created_at'', JTime (Aware now))]
     in event @ [(''event_digest'', JStr (vl_sha env (canon (JObj event))))])"

text \<open>\<^verbatim>\<open>RawRecoveryInput\<close> takes a dictionary or a string; a string is hashed as it is.\<close>

definition is_emission :: "json \<Rightarrow> bool" where
  "is_emission v \<longleftrightarrow> is_text v \<or> (case v of JObj d \<Rightarrow> True | _ \<Rightarrow> False)"

text \<open>\<open>now\<close> is the creation time of the receipt, \<open>now'\<close> that of the event.\<close>

definition evaluate_one ::
  "evaluation_env \<Rightarrow> int \<Rightarrow> int \<Rightarrow> CanonicalToolSurfaceManifest \<Rightarrow> evaluation_case \<Rightarrow> string \<Rightarrow> jdict result" where
  "evaluate_one env now now' m c run_id =
    (let emission = vl_wide_sha env (canon (ec_raw_emission c)) in
     if \<not> is_emission (ec_raw_emission c) then Inl ValidationError
     else and_then (transduce (vl_sha env) (ec_case_id c) m (ec_raw_emission c)) (\<lambda>res. Inr
       (evaluation_event env now' m c run_id emission
         (case res of
            Recovered i \<Rightarrow> recovered_outcome env now m (ec_case_id c) emission i
          | Refused r \<Rightarrow> refused_outcome env now m (ec_case_id c) emission r))))"

text \<open>Each case with its two times; an error of the transducer or of the ledger ends the run.\<close>

fun evaluate_cases ::
  "evaluation_env \<Rightarrow> bool \<Rightarrow> CanonicalToolSurfaceManifest \<Rightarrow> string \<Rightarrow> (int \<times> int \<times> evaluation_case) list \<Rightarrow>
    json jsonl list option \<Rightarrow> json jsonl list option \<times> jdict list result" where
  "evaluate_cases env ok m run_id [] ledger = (ledger, Inr [])"
| "evaluate_cases env ok m run_id ((now, now', c) # cs) ledger =
    (case evaluate_one env now now' m c run_id of
       Inl err \<Rightarrow> (ledger, Inl err)
     | Inr ev \<Rightarrow>
        let (ledger', out) = (case ledger of None \<Rightarrow> (None, Inr '''')
              | Some ls \<Rightarrow> let (ls', out) = append_event (vl_sha env) ok ev ls in (Some ls', out))
        in case out of
          Inl err \<Rightarrow> (ledger', Inl err)
        | Inr _ \<Rightarrow> let (ledger'', rest) = evaluate_cases env ok m run_id cs ledger' in (ledger'', and_then rest (\<lambda>evs. Inr (ev # evs))))"

section \<open>Handoffs\<close>

text \<open>The receipt, the manifest, then the fields of each kind, with the correlation id last.\<close>

datatype recovery_handoff =
    RecoveryHandoffReadOnly string string string string string
  | RecoveryHandoffValidation string string string string string
  | RecoveryHandoffMutationProposal string string string string string string
  | RecoveryHandoffRefusal string string string string string

fun handoff_kind :: "recovery_handoff \<Rightarrow> string" where
  "handoff_kind (RecoveryHandoffReadOnly r m t p c) = ''read_only''"
| "handoff_kind (RecoveryHandoffValidation r m t p c) = ''validation''"
| "handoff_kind (RecoveryHandoffMutationProposal r m t p mc c) = ''mutation_proposal_only''"
| "handoff_kind (RecoveryHandoffRefusal r m code reason c) = ''refusal''"

text \<open>\<^verbatim>\<open>model_dump(mode="json")\<close>.\<close>

fun handoff_fields :: "recovery_handoff \<Rightarrow> jdict" where
  "handoff_fields (RecoveryHandoffReadOnly r m t p c) =
    [(''recovery_receipt_sha256'', JStr r), (''manifest_digest'', JStr m), (''canonical_tool_name'', JStr t),
     (''admission_decision'', JStr ''auto_execute_read_only''), (''payload_digest'', JStr p), (''runtime_correlation_id'', JStr c)]"
| "handoff_fields (RecoveryHandoffValidation r m t p c) =
    [(''recovery_receipt_sha256'', JStr r), (''manifest_digest'', JStr m), (''canonical_tool_name'', JStr t),
     (''admission_decision'', JStr ''auto_execute_validation''), (''payload_digest'', JStr p),
     (''admitted_validation_profile'', JNull), (''bounded_paths'', JList []), (''runtime_correlation_id'', JStr c)]"
| "handoff_fields (RecoveryHandoffMutationProposal r m t p mc c) =
    [(''recovery_receipt_sha256'', JStr r), (''manifest_digest'', JStr m), (''canonical_tool_name'', JStr t),
     (''admission_decision'', JStr ''proposal_only_mutation''), (''payload_digest'', JStr p), (''mutation_class'', JStr mc),
     (''patch_proposal_required'', JBool True), (''runtime_correlation_id'', JStr c)]"
| "handoff_fields (RecoveryHandoffRefusal r m code reason c) =
    [(''recovery_receipt_sha256'', JStr r), (''manifest_digest'', JStr m), (''refusal_code'', JStr code), (''reason'', JStr reason),
     (''runtime_correlation_id'', JStr c)]"

definition handoff_dump :: "recovery_handoff \<Rightarrow> jdict" where
  "handoff_dump h =
    [(''schema_version'', JStr ''rig.relay.tool_recovery_runtime_handoff.v1''), (''handoff_kind'', JStr (handoff_kind h))] @ handoff_fields h"

section \<open>What an evaluation reports\<close>

lemma event_get:
  "jget (evaluation_event env now m c run_id emission oc) ''selected_canonical_tool'' = jopt JStr (eo_selected_tool oc)"
  "jget (evaluation_event env now m c run_id emission oc) ''admission_decision'' = jopt JStr (eo_admission_decision oc)"
  "jget (evaluation_event env now m c run_id emission oc) ''mutation_class'' = jopt JStr (eo_mutation_class oc)"
  "jget (evaluation_event env now m c run_id emission oc) ''refusal_code'' = jopt JStr (eo_refusal_code oc)"
  "jget (evaluation_event env now m c run_id emission oc) ''recovery_receipt_sha256'' = jopt JStr (eo_receipt_sha256 oc)"
  "jget (evaluation_event env now m c run_id emission oc) ''case_id'' = JStr (ec_case_id c)"
  "jget (evaluation_event env now m c run_id emission oc) ''raw_emission_sha256'' = JStr emission"
  "jget (evaluation_event env now m c run_id emission oc) ''recovered_mutation_auto_execution_violation'' =
    JBool (mutation_auto_violation (eo_admission_decision oc) (eo_mutation_class oc))"
  by (simp_all add: evaluation_event_def jget_def dict_get_def Let_def)

lemma auto_decision_name: "str_contains (decision_name d) ''auto_execute'' \<longleftrightarrow> is_auto_execute_decision d"
  by (cases d) (simp_all add: is_auto_execute_decision_def startswith_def)

text \<open>A call recovered over a manifest built from a registry: the entry, and its tool class.\<close>

lemma recovered_entry:
  assumes "build_tool_surface_manifest sha tools = Inr (Inr m)" and "wf_dict tools"
    and "transduce sha' call_id m emission = Inr (Recovered i)"
  obtains e t where "next_or_none (\<lambda>e. te_canonical_name e = ri_canonical_tool_name i) (ms_admitted_tools m) = Some e"
    and "dict_get tools (ri_canonical_tool_name i) = Some t" and "ri_mutation_class i = Some (tc_mutation_class t)"
    and "te_recovery_admission_tier e = classify_admission_tier (tc_mutation_class t) (ri_canonical_tool_name i)"
proof -
  have source: "\<exists>t. dict_get tools (te_canonical_name x) = Some t \<and> te_mutation_class x = tc_mutation_class t \<and>
      te_recovery_admission_tier x = classify_admission_tier (tc_mutation_class t) (te_canonical_name x)"
    if x: "x \<in> set (ms_admitted_tools m)" for x
    using manifest_entry_source [OF assms(1) x] assms(2) by (metis build_entry_fields dict_item_get)
  from assms(3) obtain x where x: "x \<in> set (ms_admitted_tools m)" "te_canonical_name x = ri_canonical_tool_name i"
    "ri_mutation_class i = Some (te_mutation_class x)" by (rule transduce_recovered)
  then obtain e where e: "next_or_none (\<lambda>e. te_canonical_name e = ri_canonical_tool_name i) (ms_admitted_tools m) = Some e"
    by (cases "next_or_none (\<lambda>e. te_canonical_name e = ri_canonical_tool_name i) (ms_admitted_tools m)") (auto simp: next_or_none_None)
  then have "e \<in> set (ms_admitted_tools m)" and "te_canonical_name e = ri_canonical_tool_name i" by (auto dest: next_or_none_Some)
  then obtain t where t: "dict_get tools (te_canonical_name e) = Some t" "te_mutation_class e = tc_mutation_class t"
      "te_recovery_admission_tier e = classify_admission_tier (tc_mutation_class t) (te_canonical_name e)" using source [of e] by blast
  moreover have "te_mutation_class x = tc_mutation_class t"
    using source [OF x(1)] x(2) t(1) \<open>te_canonical_name e = ri_canonical_tool_name i\<close> by auto
  ultimately show thesis using that [OF e, of t] x(3) \<open>te_canonical_name e = ri_canonical_tool_name i\<close> by simp
qed

text \<open>The evaluation flags an automatic execution of a mutating call exactly when the recovered tool is
  one of the two validation tools and its registry entry declares a mutating class; the shell and
  every other mutating tool are never admitted for automatic execution.\<close>

theorem violation_flagged_iff:
  assumes "build_tool_surface_manifest sha tools = Inr (Inr m)" and "wf_dict tools"
    and "is_emission (ec_raw_emission c)"
    and "transduce (vl_sha env) (ec_case_id c) m (ec_raw_emission c) = Inr (Recovered i)"
  shows "\<exists>ev t. evaluate_one env now now' m c run_id = Inr ev \<and> dict_get tools (ri_canonical_tool_name i) = Some t \<and>
    jget ev ''selected_canonical_tool'' = JStr (ri_canonical_tool_name i) \<and>
    (jget ev ''recovered_mutation_auto_execution_violation'' = JBool True \<longleftrightarrow>
      ri_canonical_tool_name i \<in> {''validate'', ''validation_suite''} \<and> is_mutation_class (Some (tc_mutation_class t)))"
proof -
  obtain e t where e: "next_or_none (\<lambda>e. te_canonical_name e = ri_canonical_tool_name i) (ms_admitted_tools m) = Some e"
    and t: "dict_get tools (ri_canonical_tool_name i) = Some t" "ri_mutation_class i = Some (tc_mutation_class t)"
    and tier: "te_recovery_admission_tier e = classify_admission_tier (tc_mutation_class t) (ri_canonical_tool_name i)"
    by (rule recovered_entry [OF assms(1,2,4)])
  have "mutation_auto_violation (Some (decision_name (tier_decision (te_recovery_admission_tier e)))) (Some (tc_mutation_class t)) \<longleftrightarrow>
      ri_canonical_tool_name i \<in> {''validate'', ''validation_suite''} \<and> is_mutation_class (Some (tc_mutation_class t))"
    by (auto simp: mutation_auto_violation_def auto_decision_name tier tier_auto_iff is_mutation_class_def str_lower_def)
  with assms(3,4) e t show ?thesis
    by (simp add: evaluate_one_def event_get recovered_outcome_def decide_admission_def jopt_def Let_def)
qed

section \<open>Examples\<close>

definition demo_evaluation_env :: evaluation_env where
  "demo_evaluation_env = \<lparr>vl_sha = example_sha, vl_wide_sha = example_sha\<rparr>"

definition demo_case :: evaluation_case where
  "demo_case = \<lparr>ec_case_id = ''c1'', ec_raw_emission = JObj example_emission, ec_source_kind = None, ec_runtime_kind = None,
     ec_model_id_hash = None, ec_expected_decision = None, ec_expected_tool = None\<rparr>"

theorem violation_flagged_iff_witness:
  "\<exists>ev. evaluate_one demo_evaluation_env 0 0 example_manifest demo_case ''run'' = Inr ev \<and>
    jget ev ''selected_canonical_tool'' = JStr ''write_file'' \<and>
    jget ev ''recovered_mutation_auto_execution_violation'' \<noteq> JBool True"
proof -
  have emission: "is_emission (ec_raw_emission demo_case)" by (simp add: demo_case_def is_emission_def)
  have "transduce (vl_sha demo_evaluation_env) (ec_case_id demo_case) example_manifest (ec_raw_emission demo_case) =
      Inr (Recovered example_intent)"
    using example_transduced by (simp add: demo_evaluation_env_def demo_case_def)
  from violation_flagged_iff [OF example_registry example_tools_wf emission this, of 0 0 "''run''"] show ?thesis
    by (auto simp: example_intent_def)
qed

end
