(* ===== verification/Constrained_Execution.thy ===== *)
theory Constrained_Execution
  imports Constraint_Compiler Recovery_Evaluation
begin

text \<open>
  Constrained generation, \<^verbatim>\<open>rig_relay/recovery/constrained_execution.py\<close>: a local model is asked for a
  call under the schema of one tool, and what it emits goes through the recovery of malformed calls.
  The model behind the HTTP endpoint is an argument, a function from the address and the payload to
  an answer; an execution returns what was sent to it, the evidence ledger and the result.  The
  limits of the sampling, the texts for people in a result and the paths are left out.
\<close>

section \<open>Records\<close>

record ConstraintEnforcementDisposition =
  ce_disposition_id :: string
  ce_created_at :: timestamp
  ce_runtime_kind :: string
  ce_runtime_endpoint_hash :: string
  ce_model_name :: string
  ce_json_object_enforcement_available :: bool
  ce_json_object_enforcement_exercised :: bool
  ce_json_schema_enforcement_available :: bool
  ce_json_schema_enforcement_exercised :: bool
  ce_grammar_enforcement_available :: bool
  ce_grammar_enforcement_exercised :: bool
  ce_enforced_mechanism :: string

record ConstrainedExecutionRequest =
  cq_execution_id :: string
  cq_manifest_digest :: string
  cq_constraint_receipt_digest :: string
  cq_target_tool_name :: string
  cq_endpoint_url :: string
  cq_runtime_kind :: string
  cq_model_name :: string
  cq_emission_source_kind :: string

record ConstrainedExecutionResult =
  cx_execution_id :: string
  cx_execution_status :: string
  cx_emission_source_kind :: string
  cx_enforced_schema_digest :: string
  cx_constraint_receipt_digest :: string
  cx_manifest_digest :: string
  cx_receipt_loaded_from_durable_evidence :: bool
  cx_emission_sha256 :: string
  cx_emission_byte_count :: int
  cx_output_token_count :: int
  cx_input_token_count :: int
  cx_latency_ms :: int
  cx_evaluation_event_digest :: string
  cx_admission_decision :: string
  cx_handoff_kind :: string
  cx_handoff_digest :: string
  cx_proposal_only :: bool
  cx_mutation_class :: string
  cx_selected_canonical_tool :: string
  cx_refusal_code :: string
  cx_disposition :: "ConstraintEnforcementDisposition option"
  cx_evidence_event_count :: int

text \<open>
  \<open>x_hex\<close> is SHA-256 of a text in hexadecimal, \<open>x_byte_count\<close> its length in UTF-8, \<open>x_parse\<close> is
  \<^verbatim>\<open>json.loads\<close> with \<open>None\<close> for the exception, \<open>x_str\<close> is \<^verbatim>\<open>str\<close> of a value that is no dictionary and
  \<open>x_time_text\<close> the text of a time.
\<close>

record execution_env =
  x_evaluation :: evaluation_env
  x_constraint :: constraint_env
  x_hex :: "string \<Rightarrow> string"
  x_byte_count :: "string \<Rightarrow> int"
  x_parse :: "string \<Rightarrow> json option"
  x_str :: "json \<Rightarrow> string"
  x_time_text :: "timestamp \<Rightarrow> string"

section \<open>The call of the model\<close>

text \<open>An answer: an exception of the client, or the status, the body when it is JSON, and the latency.\<close>

datatype runtime_answer = Request_fails | Response int "json option" int

record completion =
  cm_content :: string
  cm_completion_sha256 :: string
  cm_byte_count :: int
  cm_output_tokens :: json
  cm_input_tokens :: json
  cm_latency_ms :: int

definition chat_payload :: "string \<Rightarrow> json list \<Rightarrow> jdict \<Rightarrow> jdict" where
  "chat_payload model messages schema =
    [(''model'', JStr model), (''messages'', JList messages),
     (''response_format'', JObj [(''type'', JStr ''json_schema''),
        (''json_schema'', JObj [(''name'', JStr ''recovery_tool_call''), (''schema'', JObj schema), (''strict'', JBool True)])])]"

fun text_of :: "(timestamp \<Rightarrow> string) \<Rightarrow> json \<Rightarrow> string option" where
  "text_of f (JStr s) = Some s"
| "text_of f (JTime ts) = Some (f ts)"
| "text_of f v = None"

fun object_of :: "json \<Rightarrow> jdict option" where
  "object_of (JObj d) = Some d"
| "object_of v = None"

text \<open>\<open>None\<close> is every status but \<^verbatim>\<open>executed\<close>, and every exception: the caller treats them alike.\<close>

definition call_local_runtime :: "execution_env \<Rightarrow> runtime_answer \<Rightarrow> completion option" where
  "call_local_runtime env ans =
    (case ans of
       Request_fails \<Rightarrow> None
     | Response status body latency \<Rightarrow>
        if status \<noteq> 200 then None
        else Option.bind body (\<lambda>b. Option.bind (object_of b) (\<lambda>b.
          case jget_or b ''choices'' (JList []) of
            JList (choice # _) \<Rightarrow>
              Option.bind (object_of choice) (\<lambda>choice.
              Option.bind (object_of (jget_or choice ''message'' (JObj []))) (\<lambda>message.
              Option.bind (text_of (x_time_text env) (jget_or message ''content'' (JStr ''''))) (\<lambda>content.
              Option.bind (object_of (jget_or b ''usage'' (JObj []))) (\<lambda>usage. Some
                \<lparr>cm_content = content, cm_completion_sha256 = x_hex env content, cm_byte_count = x_byte_count env content,
                 cm_output_tokens = jget_or usage ''completion_tokens'' (JInt 0),
                 cm_input_tokens = jget_or usage ''prompt_tokens'' (JInt 0), cm_latency_ms = latency\<rparr>))))
          | _ \<Rightarrow> None)))"

definition build_messages :: "string \<Rightarrow> json list" where
  "build_messages target =
    [JObj [(''role'', JStr ''system''), (''content'', JStr (''You are a recovery tool call generator. Generate a tool call for \"'' @ target @
       ''\". Output MUST conform to the enforced JSON schema. No markdown, no code fences, no explanation.''))],
     JObj [(''role'', JStr ''user''), (''content'', JStr (''Generate a recovery tool call for \"'' @ target @
       ''\". Output ONLY a valid JSON object matching the schema. No explanation, no markdown, no code fences.''))]]"

definition lstrip_chars :: "string \<Rightarrow> string \<Rightarrow> string" where
  "lstrip_chars cs s = dropWhile (\<lambda>c. c \<in> set cs) s"

definition rstrip_chars :: "string \<Rightarrow> string \<Rightarrow> string" where
  "rstrip_chars cs s = rev (dropWhile (\<lambda>c. c \<in> set cs) (rev s))"

text \<open>The text \<^verbatim>\<open>null\<close> is read as \<^verbatim>\<open>None\<close>, and so as no JSON.\<close>

definition parse_emission_json :: "execution_env \<Rightarrow> string \<Rightarrow> json option" where
  "parse_emission_json env content =
    (if str_strip content = '''' then None
     else let text = str_strip content;
              fenced = str_strip (lstrip_chars ''json'' (rstrip_chars ''`'' (lstrip_chars ''`'' text)))
          in case (case x_parse env text of Some v \<Rightarrow> Some v | None \<Rightarrow> x_parse env fenced) of
               Some JNull \<Rightarrow> None | parsed \<Rightarrow> parsed)"

definition as_call :: "execution_env \<Rightarrow> string \<Rightarrow> json \<Rightarrow> jdict" where
  "as_call env target v =
    (let d = (case v of JObj d \<Rightarrow> d | _ \<Rightarrow> [(''content'', JStr (x_str env v))])
     in if dict_get d ''tool'' = None \<and> dict_get d ''name'' = None
        then [(''name'', JStr target), (''arguments'', JObj d)] else d)"

section \<open>Results\<close>

definition NULL_SHA256 :: string where
  "NULL_SHA256 = ''sha256:e3b0c44298fc1c149afbf4c8996fb92427ae41e4649b934ca495991b7852b855''"

definition handoff_digest :: "execution_env \<Rightarrow> recovery_handoff \<Rightarrow> string" where
  "handoff_digest env h = vl_wide_sha (x_evaluation env) (canon (JObj (handoff_dump h)))"

definition model_safe_hash :: "execution_env \<Rightarrow> string \<Rightarrow> string" where
  "model_safe_hash env name = (if name = '''' then ''sha256:'' @ replicate 64 (CHR ''0'') else x_hex env name)"

definition build_enforcement_disposition ::
  "execution_env \<Rightarrow> int \<Rightarrow> ConstrainedExecutionRequest \<Rightarrow> ConstraintEnforcementDisposition" where
  "build_enforcement_disposition env now q =
    \<lparr>ce_disposition_id = ''disp_'' @ cq_execution_id q, ce_created_at = Aware now, ce_runtime_kind = cq_runtime_kind q,
     ce_runtime_endpoint_hash = ''sha256:'' @ x_hex env (cq_endpoint_url q), ce_model_name = cq_model_name q,
     ce_json_object_enforcement_available = True, ce_json_object_enforcement_exercised = False,
     ce_json_schema_enforcement_available = True, ce_json_schema_enforcement_exercised = False,
     ce_grammar_enforcement_available = False, ce_grammar_enforcement_exercised = False,
     ce_enforced_mechanism = ''response_format_json_schema''\<rparr>"

text \<open>The defaults of a result.\<close>

definition plain_result ::
  "ConstrainedExecutionRequest \<Rightarrow> string \<Rightarrow> string \<Rightarrow> ConstraintEnforcementDisposition \<Rightarrow> ConstrainedExecutionResult" where
  "plain_result q status source d =
    \<lparr>cx_execution_id = cq_execution_id q, cx_execution_status = status, cx_emission_source_kind = source, cx_enforced_schema_digest = '''',
     cx_constraint_receipt_digest = '''', cx_manifest_digest = '''', cx_receipt_loaded_from_durable_evidence = False,
     cx_emission_sha256 = '''', cx_emission_byte_count = 0, cx_output_token_count = 0, cx_input_token_count = 0, cx_latency_ms = 0,
     cx_evaluation_event_digest = '''', cx_admission_decision = '''', cx_handoff_kind = '''', cx_handoff_digest = '''',
     cx_proposal_only = False, cx_mutation_class = '''', cx_selected_canonical_tool = '''', cx_refusal_code = '''',
     cx_disposition = Some d, cx_evidence_event_count = 0\<rparr>"

text \<open>A refusal with its handoff, over the manifest the request names.\<close>

definition refused_result ::
  "execution_env \<Rightarrow> ConstrainedExecutionRequest \<Rightarrow> ConstraintEnforcementDisposition \<Rightarrow> string \<Rightarrow> string \<Rightarrow> ConstrainedExecutionResult" where
  "refused_result env q d code reason =
    (let h = RecoveryHandoffRefusal NULL_SHA256 (cq_manifest_digest q) code reason (cq_execution_id q)
     in (plain_result q ''refused'' (cq_emission_source_kind q) d)
          \<lparr>cx_handoff_kind := handoff_kind h, cx_handoff_digest := handoff_digest env h, cx_refusal_code := code\<rparr>)"

definition tool_not_in_manifest_result ::
  "execution_env \<Rightarrow> ConstrainedExecutionRequest \<Rightarrow> ConstraintEnforcementDisposition \<Rightarrow> ConstrainedExecutionResult" where
  "tool_not_in_manifest_result env q d =
    refused_result env q d ''canonical_tool_not_admitted'' (''Tool '' @ cq_target_tool_name q @ '' not in manifest'')"

definition receipt_binding_refused_result ::
  "execution_env \<Rightarrow> ConstrainedExecutionRequest \<Rightarrow> ConstraintEnforcementDisposition \<Rightarrow> string \<Rightarrow> string \<Rightarrow> ConstrainedExecutionResult" where
  "receipt_binding_refused_result env q d enforced recorded =
    (refused_result env q (d\<lparr>ce_json_schema_enforcement_exercised := False\<rparr>) ''constraint_schema_receipt_mismatch''
       (''Enforced schema digest '' @ take 20 enforced @ ''... does not match receipt record '' @ take 20 recorded @ ''...''))
     \<lparr>cx_enforced_schema_digest := enforced, cx_constraint_receipt_digest := cq_constraint_receipt_digest q\<rparr>"

definition receipt_not_found_result ::
  "execution_env \<Rightarrow> ConstrainedExecutionRequest \<Rightarrow> ConstraintEnforcementDisposition \<Rightarrow> ConstrainedExecutionResult" where
  "receipt_not_found_result env q d =
    (refused_result env q d ''canonical_compilation_receipt_not_found''
       (''No canonical compilation receipt found in durable evidence. Persist the receipt through '' @
        ''persist_constraint_compilation_receipt() before constrained execution.''))
     \<lparr>cx_constraint_receipt_digest := cq_constraint_receipt_digest q\<rparr>"

section \<open>Evidence\<close>

text \<open>An event appended when there is a ledger; \<open>ok\<close> says whether it can be written.\<close>

definition record_evidence ::
  "execution_env \<Rightarrow> bool \<Rightarrow> jdict \<Rightarrow> json jsonl list option \<Rightarrow> json jsonl list option \<times> unit result" where
  "record_evidence env ok e ledger =
    (case ledger of
       None \<Rightarrow> (None, Inr ())
     | Some ls \<Rightarrow> let (ls', out) = append_event (vl_sha (x_evaluation env)) ok e ls in (Some ls', and_then out (\<lambda>_. Inr ())))"

definition event_count :: "json jsonl list option \<Rightarrow> int" where
  "event_count ledger = (if ledger = None then 0 else 1)"

definition refusal_event ::
  "execution_env \<Rightarrow> int \<Rightarrow> ConstrainedExecutionRequest \<Rightarrow> string \<Rightarrow> string \<Rightarrow> jdict \<Rightarrow> string \<Rightarrow> jdict" where
  "refusal_event env now q case_prefix source emission code =
    [(''schema_version'', JStr ''rig.relay.tool_recovery_evaluation_event.v1''),
     (''evaluation_run_id'', JStr (''run_'' @ cq_execution_id q)), (''case_id'', JStr (case_prefix @ cq_execution_id q)),
     (''source_kind'', JStr source), (''runtime_kind'', JStr (cq_runtime_kind q)),
     (''model_id_hash'', JStr (model_safe_hash env (cq_model_name q))), (''tool_surface_manifest_digest'', JStr (cq_manifest_digest q))] @
    emission @
    [(''admission_decision'', JStr ''refuse_unsupported''), (''refusal_code'', JStr code), (''created_at'', JTime (Aware now))]"

type_synonym 'r recorded = "json jsonl list option \<times> 'r result"

definition recorded_result ::
  "execution_env \<Rightarrow> bool \<Rightarrow> jdict \<Rightarrow> json jsonl list option \<Rightarrow> ConstrainedExecutionResult \<Rightarrow> ConstrainedExecutionResult recorded" where
  "recorded_result env ok e ledger r =
    (let (ledger', out) = record_evidence env ok e ledger
     in (ledger', and_then out (\<lambda>_. Inr (r\<lparr>cx_evidence_event_count := event_count ledger\<rparr>))))"

definition runtime_unavailable_result ::
  "execution_env \<Rightarrow> int \<Rightarrow> bool \<Rightarrow> ConstrainedExecutionRequest \<Rightarrow> ConstraintEnforcementDisposition \<Rightarrow> json jsonl list option \<Rightarrow>
    ConstrainedExecutionResult recorded" where
  "runtime_unavailable_result env now ok q d ledger = recorded_result env ok
    (refusal_event env now q ''unavail_'' ''runtime_unavailable'' [] ''unsupported_recovery_form'') ledger
    (plain_result q ''runtime_unavailable'' ''runtime_unavailable''
      (d\<lparr>ce_json_object_enforcement_available := False, ce_json_object_enforcement_exercised := False,
         ce_json_schema_enforcement_available := False, ce_json_schema_enforcement_exercised := False\<rparr>))"

definition execution_failed_result ::
  "execution_env \<Rightarrow> int \<Rightarrow> bool \<Rightarrow> ConstrainedExecutionRequest \<Rightarrow> ConstraintEnforcementDisposition \<Rightarrow> json jsonl list option \<Rightarrow>
    ConstrainedExecutionResult recorded" where
  "execution_failed_result env now ok q d ledger = recorded_result env ok
    (refusal_event env now q ''fail_'' ''execution_failed'' [] ''unsupported_recovery_form'') ledger
    (plain_result q ''failed'' ''execution_failed''
      (d\<lparr>ce_json_object_enforcement_exercised := False, ce_json_schema_enforcement_exercised := False\<rparr>))"

definition malformed_emission_result ::
  "execution_env \<Rightarrow> int \<Rightarrow> bool \<Rightarrow> ConstrainedExecutionRequest \<Rightarrow> ConstraintEnforcementDisposition \<Rightarrow> string \<Rightarrow> string \<Rightarrow>
    json jsonl list option \<Rightarrow> ConstrainedExecutionResult recorded" where
  "malformed_emission_result env now ok q d emission_sha256 raw_content ledger = recorded_result env ok
    (refusal_event env now q ''malform_'' ''captured_local_model'' [(''raw_emission_sha256'', JStr emission_sha256)] ''malformed_inline_syntax'')
    ledger
    ((refused_result env q d ''malformed_inline_syntax'' ''Model emission was not valid JSON'')
       \<lparr>cx_emission_sha256 := emission_sha256, cx_emission_byte_count := x_byte_count env raw_content\<rparr>)"

section \<open>Handoff of an evaluation\<close>

text \<open>A field the event has, which is a string or null; \<^verbatim>\<open>str\<close> of it.\<close>

definition event_text :: "jdict \<Rightarrow> string \<Rightarrow> string option" where
  "event_text e k = text_field (jget_or e k (JStr ''''))"

definition str_or_none :: "string option \<Rightarrow> string" where
  "str_or_none x = (case x of None \<Rightarrow> ''None'' | Some s \<Rightarrow> s)"

definition or_text :: "string option \<Rightarrow> string \<Rightarrow> string" where
  "or_text x dflt = (case x of None \<Rightarrow> dflt | Some s \<Rightarrow> if s = '''' then dflt else s)"

definition require_text :: "string option \<Rightarrow> string result" where
  "require_text x = (case x of None \<Rightarrow> Inl ValidationError | Some s \<Rightarrow> Inr s)"

definition build_handoff_from_evaluation :: "jdict \<Rightarrow> string \<Rightarrow> recovery_handoff result" where
  "build_handoff_from_evaluation e manifest_digest =
    (let receipt = or_text (event_text e ''recovery_receipt_sha256'') NULL_SHA256;
         tool = or_text (event_text e ''selected_canonical_tool'') ''unknown'';
         admission = event_text e ''admission_decision'';
         text = str_lower (str_or_none admission);
         case_id = event_text e ''case_id'';
         payload = text_field (jget_or e ''raw_emission_sha256'' (JStr NULL_SHA256))
     in and_then (require_text case_id) (\<lambda>case_id.
       if or_text (event_text e ''refusal_code'') '''' \<noteq> '''' then
         Inr (RecoveryHandoffRefusal receipt manifest_digest (or_text (event_text e ''refusal_code'') '''')
           (or_text (event_text e ''refusal_code'') '''') case_id)
       else if str_contains text ''read_only'' \<or> str_contains (str_or_none admission) ''auto_execute_read_only'' then
         and_then (require_text payload) (\<lambda>payload. Inr (RecoveryHandoffReadOnly receipt manifest_digest tool payload case_id))
       else if str_contains text ''validation'' \<or> str_contains (str_or_none admission) ''auto_execute_validation'' then
         and_then (require_text payload) (\<lambda>payload. Inr (RecoveryHandoffValidation receipt manifest_digest tool payload case_id))
       else if str_contains text ''proposal'' then
         and_then (require_text payload) (\<lambda>payload. and_then (require_text (event_text e ''mutation_class'')) (\<lambda>mc.
           Inr (RecoveryHandoffMutationProposal receipt manifest_digest tool payload mc case_id)))
       else Inr (RecoveryHandoffRefusal receipt manifest_digest (or_text admission ''unsupported'') (or_text admission '''') case_id)))"

section \<open>Execution\<close>

text \<open>The schema the model is constrained by, with its digest.\<close>

definition constrained_prompt_schema :: "string \<Rightarrow> AdmittedToolEntry option \<Rightarrow> jdict" where
  "constrained_prompt_schema target entry =
    (case entry of
       None \<Rightarrow> [(''type'', JStr ''object''), (''properties'', JObj []), (''required'', JList []), (''additionalProperties'', JBool False)]
     | Some e \<Rightarrow>
       [(''type'', JStr ''object''),
        (''properties'', JObj
          [(''tool'', JObj [(''type'', JStr ''string''), (''const'', JStr target)]),
           (''arguments'', JObj
             [(''type'', JStr ''object''),
              (''properties'', JObj (dict_of (map (\<lambda>f. (f, JObj [(''type'', JStr ''string'')])) (te_arg_field_names e)))),
              (''required'', JList (map JStr (te_arg_field_names e))), (''additionalProperties'', JBool False)])]),
        (''required'', JList [JStr ''tool'', JStr ''arguments'']), (''additionalProperties'', JBool False)])"

definition build_constrained_prompt_schema ::
  "execution_env \<Rightarrow> CanonicalToolSurfaceManifest \<Rightarrow> string \<Rightarrow> jdict \<times> string" where
  "build_constrained_prompt_schema env m target =
    (let schema = constrained_prompt_schema target (next_or_none (\<lambda>e. te_canonical_name e = target) (ms_admitted_tools m))
     in (schema, ce_sha (x_constraint env) (canon (JObj schema))))"

text \<open>The receipt read from durable evidence, or the result of a refusal.\<close>

definition load_canonical_or_refuse ::
  "execution_env \<Rightarrow> ConstrainedExecutionRequest \<Rightarrow> ConstraintEnforcementDisposition \<Rightarrow> json jsonl list \<Rightarrow>
    ConstraintCompilationReceipt \<Rightarrow> (ConstrainedExecutionResult + ConstraintCompilationReceipt) result" where
  "load_canonical_or_refuse env q d ls supplied =
    and_then (load_canonical_constraint_receipt (x_constraint env) ls) (\<lambda>canonical. Inr
      (case canonical of
         None \<Rightarrow> Inl (receipt_not_found_result env q (d\<lparr>ce_json_schema_enforcement_exercised := False\<rparr>))
       | Some r \<Rightarrow>
           if cr_receipt_digest r \<noteq> cr_receipt_digest supplied
           then Inl (receipt_binding_refused_result env q (d\<lparr>ce_json_schema_enforcement_exercised := False\<rparr>)
             (cr_receipt_digest supplied) (cr_receipt_digest r))
           else Inr r))"

definition live_case :: "execution_env \<Rightarrow> ConstrainedExecutionRequest \<Rightarrow> json \<Rightarrow> evaluation_case" where
  "live_case env q parsed =
    \<lparr>ec_case_id = ''live_'' @ cq_execution_id q, ec_raw_emission = JObj (as_call env (cq_target_tool_name q) parsed),
     ec_source_kind = Some (cq_emission_source_kind q), ec_runtime_kind = Some (cq_runtime_kind q),
     ec_model_id_hash = Some (model_safe_hash env (cq_model_name q)), ec_expected_decision = None, ec_expected_tool = None\<rparr>"

text \<open>The result of an evaluated emission: pydantic refuses a null for a string and coerces the counts.\<close>

definition executed_result ::
  "execution_env \<Rightarrow> ConstrainedExecutionRequest \<Rightarrow> CanonicalToolSurfaceManifest \<Rightarrow> ConstraintCompilationReceipt \<Rightarrow> completion \<Rightarrow>
    ConstraintEnforcementDisposition \<Rightarrow> string \<Rightarrow> bool \<Rightarrow> string \<Rightarrow> int \<Rightarrow> jdict \<Rightarrow> recovery_handoff \<Rightarrow> ConstrainedExecutionResult result" where
  "executed_result env q m receipt cm d enforced durable emission_sha256 events e h =
    (case (ce_lax_int (x_constraint env) (cm_output_tokens cm), ce_lax_int (x_constraint env) (cm_input_tokens cm),
       text_field (jget_or e ''event_digest'' (JStr '''')), event_text e ''admission_decision'', event_text e ''mutation_class'',
       event_text e ''selected_canonical_tool'') of
       (Some out, Some inp, Some digest, Some admission, Some mc, Some tool) \<Rightarrow> Inr
         \<lparr>cx_execution_id = cq_execution_id q, cx_execution_status = ''executed'', cx_emission_source_kind = cq_emission_source_kind q,
          cx_enforced_schema_digest = enforced, cx_constraint_receipt_digest = cr_receipt_digest receipt,
          cx_manifest_digest = ms_manifest_digest m, cx_receipt_loaded_from_durable_evidence = durable,
          cx_emission_sha256 = emission_sha256, cx_emission_byte_count = cm_byte_count cm, cx_output_token_count = out,
          cx_input_token_count = inp, cx_latency_ms = cm_latency_ms cm, cx_evaluation_event_digest = digest,
          cx_admission_decision = admission, cx_handoff_kind = handoff_kind h, cx_handoff_digest = handoff_digest env h,
          cx_proposal_only = (admission \<noteq> '''' \<and> str_contains (str_lower admission) ''proposal''), cx_mutation_class = mc,
          cx_selected_canonical_tool = tool, cx_refusal_code = or_text (event_text e ''refusal_code'') '''',
          cx_disposition = Some (d\<lparr>ce_json_schema_enforcement_exercised := True\<rparr>), cx_evidence_event_count = events\<rparr>
     | _ \<Rightarrow> Inl ValidationError)"

text \<open>\<open>now\<close> and \<open>now'\<close> are the times of the receipt and of the event, as in \<open>evaluate_one\<close>.\<close>

definition handle_successful_execution ::
  "execution_env \<Rightarrow> int \<Rightarrow> int \<Rightarrow> bool \<Rightarrow> ConstrainedExecutionRequest \<Rightarrow> CanonicalToolSurfaceManifest \<Rightarrow> ConstraintCompilationReceipt \<Rightarrow>
    completion \<Rightarrow> ConstraintEnforcementDisposition \<Rightarrow> string \<Rightarrow> bool \<Rightarrow> json jsonl list option \<Rightarrow> ConstrainedExecutionResult recorded" where
  "handle_successful_execution env now now' ok q m receipt cm d enforced durable ledger =
    (let emission_sha256 = (if cm_completion_sha256 cm = '''' then '''' else ''sha256:'' @ cm_completion_sha256 cm)
     in case parse_emission_json env (cm_content cm) of
          None \<Rightarrow> malformed_emission_result env now' ok q d emission_sha256 (cm_content cm) ledger
        | Some parsed \<Rightarrow>
            (case evaluate_one (x_evaluation env) now now' m (live_case env q parsed) (''run_'' @ cq_execution_id q) of
               Inl err \<Rightarrow> (ledger, Inl err)
             | Inr e \<Rightarrow>
                 let (ledger', out) = record_evidence env ok e ledger
                 in (ledger', and_then out (\<lambda>_. and_then (build_handoff_from_evaluation e (ms_manifest_digest m))
                      (executed_result env q m receipt cm d enforced durable emission_sha256 (event_count ledger) e)))))"

text \<open>
  The request, the manifest and the receipt; the evidence ledger, the ledger of the receipts and whether a
  runtime is available.  The first component is what was sent to the model.
\<close>

definition execute_constrained_recovery ::
  "execution_env \<Rightarrow> (string \<Rightarrow> jdict \<Rightarrow> runtime_answer) \<Rightarrow> int \<Rightarrow> int \<Rightarrow> int \<Rightarrow> bool \<Rightarrow> ConstrainedExecutionRequest \<Rightarrow>
    CanonicalToolSurfaceManifest \<Rightarrow> ConstraintCompilationReceipt \<Rightarrow> json jsonl list option \<Rightarrow> json jsonl list option \<Rightarrow> bool \<Rightarrow>
    (string \<times> jdict) list \<times> ConstrainedExecutionResult recorded" where
  "execute_constrained_recovery env post now now' now'' ok q m supplied ledger receipt_ledger available =
    (let d = build_enforcement_disposition env now q;
         loaded = (case receipt_ledger of None \<Rightarrow> Inr (Inr supplied) | Some ls \<Rightarrow> load_canonical_or_refuse env q d ls supplied)
     in case loaded of
          Inl err \<Rightarrow> ([], ledger, Inl err)
        | Inr (Inl refused) \<Rightarrow> ([], ledger, Inr refused)
        | Inr (Inr receipt) \<Rightarrow>
            if \<not> available then ([], runtime_unavailable_result env now'' ok q d ledger)
            else if next_or_none (\<lambda>e. te_canonical_name e = cq_target_tool_name q) (ms_admitted_tools m) = None
            then ([], ledger, Inr (tool_not_in_manifest_result env q d))
            else
              let (schema, enforced) = build_constrained_prompt_schema env m (cq_target_tool_name q);
                  recorded = (case dict_get (cr_tool_schema_digests receipt) (cq_target_tool_name q) of None \<Rightarrow> '''' | Some s \<Rightarrow> s)
              in if recorded \<noteq> '''' \<and> enforced \<noteq> recorded
                 then ([], ledger, Inr (receipt_binding_refused_result env q d enforced recorded))
                 else
                   let url = cq_endpoint_url q @ ''/v1/chat/completions'';
                       payload = chat_payload (cq_model_name q) (build_messages (cq_target_tool_name q)) schema
                   in ([(url, payload)],
                       case call_local_runtime env (post url payload) of
                         None \<Rightarrow> execution_failed_result env now'' ok q d ledger
                       | Some cm \<Rightarrow> handle_successful_execution env now' now'' ok q m receipt cm d enforced (receipt_ledger \<noteq> None) ledger))"

section \<open>What is sent, and under which schema\<close>

lemma schema_compiled:
  "te_canonical_name e = target \<Longrightarrow> constrained_prompt_schema target (Some e) = build_runtime_enforcement_schema e"
  by (simp add: constrained_prompt_schema_def build_runtime_enforcement_schema_def string_fields_def)

definition bound_receipt ::
  "execution_env \<Rightarrow> ConstraintCompilationReceipt \<Rightarrow> json jsonl list option \<Rightarrow> ConstraintCompilationReceipt \<Rightarrow> bool" where
  "bound_receipt env supplied receipt_ledger r \<longleftrightarrow>
    (case receipt_ledger of None \<Rightarrow> r = supplied
     | Some ls \<Rightarrow> load_canonical_constraint_receipt (x_constraint env) ls = Inr (Some r) \<and> cr_receipt_digest r = cr_receipt_digest supplied)"

lemma loaded_receipt:
  "load_canonical_or_refuse env q d ls supplied = Inr (Inr r) \<longleftrightarrow>
    load_canonical_constraint_receipt (x_constraint env) ls = Inr (Some r) \<and> cr_receipt_digest r = cr_receipt_digest supplied"
  by (auto simp: load_canonical_or_refuse_def and_then_Inr_iff split: option.splits)

lemma refused_results [simp]:
  "cx_execution_status (refused_result env q d c reason) = ''refused''"
  "cx_execution_status (receipt_not_found_result env q d) = ''refused''"
  "cx_execution_status (receipt_binding_refused_result env q d a b) = ''refused''"
  "cx_execution_status (tool_not_in_manifest_result env q d) = ''refused''"
  "cx_handoff_kind (refused_result env q d c reason) = ''refusal''"
  "cx_handoff_kind (receipt_not_found_result env q d) = ''refusal''"
  "cx_handoff_kind (receipt_binding_refused_result env q d a b) = ''refusal''"
  "cx_handoff_kind (tool_not_in_manifest_result env q d) = ''refusal''"
  by (simp_all add: refused_result_def receipt_not_found_result_def receipt_binding_refused_result_def
      tool_not_in_manifest_result_def plain_result_def Let_def)

lemma recorded_result_Inr:
  "recorded_result env ok e ledger r = (ledger', Inr x) \<Longrightarrow> x = r\<lparr>cx_evidence_event_count := event_count ledger\<rparr>"
  by (auto simp: recorded_result_def and_then_Inr_iff split: prod.splits)

lemma unexecuted_results:
  "runtime_unavailable_result env now ok q d ledger = (ledger', Inr x) \<Longrightarrow>
    cx_execution_status x = ''runtime_unavailable'' \<and> cx_handoff_kind x = ''''"
  "execution_failed_result env now ok q d ledger = (ledger', Inr x) \<Longrightarrow>
    cx_execution_status x = ''failed'' \<and> cx_handoff_kind x = ''''"
  "malformed_emission_result env now ok q d sha raw ledger = (ledger', Inr x) \<Longrightarrow>
    cx_execution_status x = ''refused'' \<and> cx_handoff_kind x = ''refusal''"
  by (auto simp: runtime_unavailable_result_def execution_failed_result_def malformed_emission_result_def plain_result_def
      dest!: recorded_result_Inr)

text \<open>An execution with its receipt, for a tool of the manifest.\<close>

lemma execute_admitted:
  assumes "next_or_none (\<lambda>e. te_canonical_name e = cq_target_tool_name q) (ms_admitted_tools m) = Some e"
    and "bound_receipt env supplied receipt_ledger r"
  shows "execute_constrained_recovery env post now now' now'' ok q m supplied ledger receipt_ledger True =
    (let d = build_enforcement_disposition env now q;
         schema = build_runtime_enforcement_schema e;
         enforced = compute_runtime_schema_digest (x_constraint env) schema;
         recorded = dict_get (cr_tool_schema_digests r) (cq_target_tool_name q);
         url = cq_endpoint_url q @ ''/v1/chat/completions'';
         payload = chat_payload (cq_model_name q) (build_messages (cq_target_tool_name q)) schema
     in if recorded \<notin> {None, Some '''', Some enforced}
        then ([], ledger, Inr (receipt_binding_refused_result env q d enforced (the recorded)))
        else ([(url, payload)],
          case call_local_runtime env (post url payload) of
            None \<Rightarrow> execution_failed_result env now'' ok q d ledger
          | Some cm \<Rightarrow> handle_successful_execution env now' now'' ok q m r cm d enforced (receipt_ledger \<noteq> None) ledger))"
proof -
  have "te_canonical_name e = cq_target_tool_name q" using assms(1) by (auto dest: next_or_none_Some)
  note schema = schema_compiled [OF this]
  have "(case receipt_ledger of None \<Rightarrow> Inr (Inr supplied)
      | Some ls \<Rightarrow> load_canonical_or_refuse env q (build_enforcement_disposition env now q) ls supplied) = Inr (Inr r)"
    using assms(2) by (auto simp: bound_receipt_def loaded_receipt split: option.splits)
  then show ?thesis
    by (cases "dict_get (cr_tool_schema_digests r) (cq_target_tool_name q)")
      (simp_all add: execute_constrained_recovery_def build_constrained_prompt_schema_def schema compute_runtime_schema_digest_def
        Let_def assms(1))
qed

lemma execute_sent_only:
  assumes "execute_constrained_recovery env post now now' now'' ok q m supplied ledger receipt_ledger available = (sent, out)"
    and "sent \<noteq> []"
  obtains e r where "next_or_none (\<lambda>e. te_canonical_name e = cq_target_tool_name q) (ms_admitted_tools m) = Some e"
    and "bound_receipt env supplied receipt_ledger r" and available
proof -
  let ?loaded = "case receipt_ledger of None \<Rightarrow> Inr (Inr supplied)
      | Some ls \<Rightarrow> load_canonical_or_refuse env q (build_enforcement_disposition env now q) ls supplied"
  let ?found = "next_or_none (\<lambda>e. te_canonical_name e = cq_target_tool_name q) (ms_admitted_tools m)"
  have "\<exists>r. ?loaded = Inr (Inr r)"
    using assms by (cases ?loaded; cases "projr ?loaded") (simp_all add: execute_constrained_recovery_def Let_def)
  then obtain r where r: "?loaded = Inr (Inr r)" by blast
  with assms have available and "?found \<noteq> None"
    by (simp_all add: execute_constrained_recovery_def Let_def split: if_splits)
  moreover have "bound_receipt env supplied receipt_ledger r"
    using r by (auto simp: bound_receipt_def loaded_receipt split: option.splits)
  ultimately show thesis using that by blast
qed

lemma sent_call:
  assumes "execute_constrained_recovery env post now now' now'' ok q m supplied ledger receipt_ledger available = (sent, ledger', out)"
    and "sent \<noteq> []"
  obtains e r cm_opt where "next_or_none (\<lambda>e. te_canonical_name e = cq_target_tool_name q) (ms_admitted_tools m) = Some e"
    and "bound_receipt env supplied receipt_ledger r"
    and "dict_get (cr_tool_schema_digests r) (cq_target_tool_name q) \<in>
      {None, Some '''', Some (compute_runtime_schema_digest (x_constraint env) (build_runtime_enforcement_schema e))}"
    and "sent = [(cq_endpoint_url q @ ''/v1/chat/completions'', chat_payload (cq_model_name q)
      (build_messages (cq_target_tool_name q)) (build_runtime_enforcement_schema e))]"
    and "(ledger', out) = (case cm_opt of
        None \<Rightarrow> execution_failed_result env now'' ok q (build_enforcement_disposition env now q) ledger
      | Some cm \<Rightarrow> handle_successful_execution env now' now'' ok q m r cm (build_enforcement_disposition env now q)
          (compute_runtime_schema_digest (x_constraint env) (build_runtime_enforcement_schema e)) (receipt_ledger \<noteq> None) ledger)"
proof -
  from assms obtain e r where e: "next_or_none (\<lambda>e. te_canonical_name e = cq_target_tool_name q) (ms_admitted_tools m) = Some e"
    and r: "bound_receipt env supplied receipt_ledger r" and available by (rule execute_sent_only)
  note past = assms(1) [unfolded \<open>available\<close> [THEN eqTrueI] execute_admitted [OF e r] Let_def]
  show thesis
    by (rule that [OF e r, where cm_opt = "call_local_runtime env (post (fst (hd sent)) (snd (hd sent)))"])
      (use past assms(2) in \<open>auto split: if_splits\<close>)
qed

lemma executed_sent:
  assumes "execute_constrained_recovery env post now now' now'' ok q m supplied ledger receipt_ledger available = (sent, ledger', Inr x)"
    and "cx_handoff_kind x \<notin> {'''', ''refusal''} \<or> cx_execution_status x = ''executed''"
  shows "sent \<noteq> []"
proof
  assume "sent = []"
  let ?d = "build_enforcement_disposition env now q"
  have refusing: "load_canonical_or_refuse env q ?d ls supplied = Inr (Inl r) \<Longrightarrow>
      cx_handoff_kind r = ''refusal'' \<and> cx_execution_status r = ''refused''" for ls r
    by (auto simp: load_canonical_or_refuse_def and_then_Inr_iff split: option.splits if_splits)
  with assms(1) \<open>sent = []\<close> have "cx_handoff_kind x \<in> {'''', ''refusal''} \<and> cx_execution_status x \<noteq> ''executed''"
    by (auto simp: execute_constrained_recovery_def Let_def dest: unexecuted_results
        split: if_splits sum.splits option.splits prod.splits)
  with assms(2) show False by blast
qed

text \<open>An executed result: the emission, its evaluation and the handoff.\<close>

lemma handled_executed:
  assumes "handle_successful_execution env now now' ok q m r cm d enforced durable ledger = (ledger', Inr x)"
    and "cx_execution_status x = ''executed''"
  obtains parsed e h where "parse_emission_json env (cm_content cm) = Some parsed"
    and "evaluate_one (x_evaluation env) now now' m (live_case env q parsed) (''run_'' @ cq_execution_id q) = Inr e"
    and "build_handoff_from_evaluation e (ms_manifest_digest m) = Inr h"
    and "executed_result env q m r cm d enforced durable
      (if cm_completion_sha256 cm = '''' then '''' else ''sha256:'' @ cm_completion_sha256 cm) (event_count ledger) e h = Inr x"
  using assms by (auto simp: handle_successful_execution_def and_then_Inr_iff Let_def dest: unexecuted_results
      split: option.splits sum.splits prod.splits)

lemma executed_fields:
  assumes "executed_result env q m r cm d enforced durable sha n e h = Inr x"
  shows "cx_execution_status x = ''executed''" "cx_enforced_schema_digest x = enforced" "cx_constraint_receipt_digest x = cr_receipt_digest r"
    "cx_receipt_loaded_from_durable_evidence x = durable" "cx_handoff_kind x = handoff_kind h"
    "event_text e ''admission_decision'' = Some (cx_admission_decision x)"
    "event_text e ''selected_canonical_tool'' = Some (cx_selected_canonical_tool x)"
    "cx_proposal_only x \<longleftrightarrow> cx_admission_decision x \<noteq> '''' \<and> str_contains (str_lower (cx_admission_decision x)) ''proposal''"
    "cx_disposition x = Some (d\<lparr>ce_json_schema_enforcement_exercised := True\<rparr>)" "cx_evidence_event_count x = n"
    "cx_emission_source_kind x = cq_emission_source_kind q"
  using assms by (auto simp: executed_result_def split: option.splits)

lemma admitted_found:
  assumes "distinct (map te_canonical_name (ms_admitted_tools m))" and "e \<in> set (ms_admitted_tools m)" and "te_canonical_name e = name"
  shows "next_or_none (\<lambda>e. te_canonical_name e = name) (ms_admitted_tools m) = Some e"
proof (cases "next_or_none (\<lambda>e. te_canonical_name e = name) (ms_admitted_tools m)")
  case None
  then show ?thesis using assms(2,3) by (auto simp: next_or_none_None)
next
  case (Some x)
  then have "x \<in> set (ms_admitted_tools m)" and "te_canonical_name x = te_canonical_name e" using assms(3) by (auto dest: next_or_none_Some)
  with assms(1,2) Some show ?thesis by (metis distinct_map inj_on_def)
qed

lemma executed_schema:
  assumes "execute_constrained_recovery env post now now' now'' ok q m supplied ledger receipt_ledger available = (sent, ledger', Inr x)"
    and "cx_execution_status x = ''executed''"
  shows "\<exists>e r. e \<in> set (ms_admitted_tools m) \<and> te_canonical_name e = cq_target_tool_name q \<and>
    bound_receipt env supplied receipt_ledger r \<and>
    sent = [(cq_endpoint_url q @ ''/v1/chat/completions'', chat_payload (cq_model_name q)
      (build_messages (cq_target_tool_name q)) (build_runtime_enforcement_schema e))] \<and>
    cx_enforced_schema_digest x = compute_runtime_schema_digest (x_constraint env) (build_runtime_enforcement_schema e) \<and>
    cx_constraint_receipt_digest x = cr_receipt_digest supplied \<and>
    dict_get (cr_tool_schema_digests r) (cq_target_tool_name q) \<in> {None, Some '''', Some (cx_enforced_schema_digest x)}"
proof -
  from executed_sent [OF assms(1)] assms(2) have "sent \<noteq> []" by blast
  with assms(1) obtain e r cm_opt
    where e: "next_or_none (\<lambda>e. te_canonical_name e = cq_target_tool_name q) (ms_admitted_tools m) = Some e"
      and r: "bound_receipt env supplied receipt_ledger r"
      and digest: "dict_get (cr_tool_schema_digests r) (cq_target_tool_name q) \<in>
        {None, Some '''', Some (compute_runtime_schema_digest (x_constraint env) (build_runtime_enforcement_schema e))}"
      and sent: "sent = [(cq_endpoint_url q @ ''/v1/chat/completions'', chat_payload (cq_model_name q)
        (build_messages (cq_target_tool_name q)) (build_runtime_enforcement_schema e))]"
      and out: "(ledger', Inr x) = (case cm_opt of
          None \<Rightarrow> execution_failed_result env now'' ok q (build_enforcement_disposition env now q) ledger
        | Some cm \<Rightarrow> handle_successful_execution env now' now'' ok q m r cm (build_enforcement_disposition env now q)
            (compute_runtime_schema_digest (x_constraint env) (build_runtime_enforcement_schema e)) (receipt_ledger \<noteq> None) ledger)"
    by (rule sent_call)
  from out assms(2) obtain cm where "handle_successful_execution env now' now'' ok q m r cm (build_enforcement_disposition env now q)
      (compute_runtime_schema_digest (x_constraint env) (build_runtime_enforcement_schema e)) (receipt_ledger \<noteq> None) ledger = (ledger', Inr x)"
    by (cases cm_opt) (auto dest!: unexecuted_results dest: sym)
  from handled_executed [OF this assms(2)] have "cx_enforced_schema_digest x =
      compute_runtime_schema_digest (x_constraint env) (build_runtime_enforcement_schema e)" "cx_constraint_receipt_digest x = cr_receipt_digest r"
    by (metis executed_fields(2), metis executed_fields(3))
  moreover have "cr_receipt_digest r = cr_receipt_digest supplied" using r by (auto simp: bound_receipt_def split: option.splits)
  moreover have "e \<in> set (ms_admitted_tools m) \<and> te_canonical_name e = cq_target_tool_name q" using e by (auto dest: next_or_none_Some)
  ultimately show ?thesis using r digest sent by (intro exI [of _ e] exI [of _ r]) simp
qed

text \<open>A result is \<^verbatim>\<open>executed\<close> only when exactly one call went to the model, under the schema of an
  admitted tool with the requested name; the receipt is the supplied one or the durable one with the
  same digest, and it records for the tool the digest of that very schema, or none.\<close>

theorem executed_under_bound_schema:
  assumes "execute_constrained_recovery env post now now' now'' ok q m supplied ledger receipt_ledger available = (sent, ledger', Inr x)"
    and "cx_execution_status x = ''executed''"
  shows "\<exists>e r. e \<in> set (ms_admitted_tools m) \<and> te_canonical_name e = cq_target_tool_name q \<and>
    bound_receipt env supplied receipt_ledger r \<and>
    sent = [(cq_endpoint_url q @ ''/v1/chat/completions'', chat_payload (cq_model_name q)
      (build_messages (cq_target_tool_name q)) (build_runtime_enforcement_schema e))] \<and>
    cx_enforced_schema_digest x = compute_runtime_schema_digest (x_constraint env) (build_runtime_enforcement_schema e) \<and>
    cx_constraint_receipt_digest x = cr_receipt_digest supplied \<and>
    dict_get (cr_tool_schema_digests r) (cq_target_tool_name q) \<in> {None, Some '''', Some (cx_enforced_schema_digest x)}"
  using executed_schema [OF assms] .

section \<open>What is handed to the runtime\<close>

lemma event_texts:
  "event_text (evaluation_event env now m c run_id emission oc) ''admission_decision'' = eo_admission_decision oc"
  "event_text (evaluation_event env now m c run_id emission oc) ''selected_canonical_tool'' = eo_selected_tool oc"
  "event_text (evaluation_event env now m c run_id emission oc) ''mutation_class'' = eo_mutation_class oc"
  "event_text (evaluation_event env now m c run_id emission oc) ''refusal_code'' = eo_refusal_code oc"
  "event_text (evaluation_event env now m c run_id emission oc) ''recovery_receipt_sha256'' = eo_receipt_sha256 oc"
  "event_text (evaluation_event env now m c run_id emission oc) ''case_id'' = Some (ec_case_id c)"
  "jget_or (evaluation_event env now m c run_id emission oc) ''raw_emission_sha256'' dflt = JStr emission"
  by (simp_all add: event_text_def evaluation_event_def jget_or_def dict_get_def jopt_def Let_def split: option.splits)

fun decision_handoff :: "RecoveryAdmissionDecision \<Rightarrow> string" where
  "decision_handoff AUTO_EXECUTE_READ_ONLY = ''read_only''"
| "decision_handoff AUTO_EXECUTE_VALIDATION = ''validation''"
| "decision_handoff PROPOSAL_ONLY_MUTATION = ''mutation_proposal_only''"
| "decision_handoff _ = ''refusal''"

lemma recovered_handoff:
  assumes "eo_refusal_code oc = None" and "eo_admission_decision oc = Some (decision_name d)" and "eo_mutation_class oc = Some mc"
  shows "build_handoff_from_evaluation (evaluation_event env now m c run_id emission oc) manifest_digest = Inr h \<Longrightarrow>
    handoff_kind h = decision_handoff d"
  using assms by (cases d)
    (auto simp: build_handoff_from_evaluation_def event_texts or_text_def require_text_def str_or_none_def str_lower_def lower_char_def
      startswith_def Let_def)

lemma refused_handoff:
  assumes "eo_refusal_code oc = Some code" and "code \<noteq> ''''"
  shows "\<exists>h. build_handoff_from_evaluation (evaluation_event env now m c run_id emission oc) manifest_digest = Inr h \<and>
    handoff_kind h = ''refusal''"
  using assms by (simp add: build_handoff_from_evaluation_def event_texts or_text_def require_text_def Let_def)

lemma decision_proposal:
  "decision_name d \<noteq> '''' \<and> str_contains (str_lower (decision_name d)) ''proposal'' \<longleftrightarrow> d = PROPOSAL_ONLY_MUTATION"
  by (cases d) (simp_all add: str_lower_def lower_char_def startswith_def)

lemma decision_handoff_iff:
  "decision_handoff d = ''read_only'' \<longleftrightarrow> d = AUTO_EXECUTE_READ_ONLY"
  "decision_handoff d = ''validation'' \<longleftrightarrow> d = AUTO_EXECUTE_VALIDATION"
  "decision_handoff d = ''mutation_proposal_only'' \<longleftrightarrow> d = PROPOSAL_ONLY_MUTATION"
  "decision_handoff d = ''refusal'' \<longleftrightarrow> d \<notin> {AUTO_EXECUTE_READ_ONLY, AUTO_EXECUTE_VALIDATION, PROPOSAL_ONLY_MUTATION}"
  by (cases d; simp)+

lemma tier_decision_iff:
  "tier_decision (classify_admission_tier mc name) = AUTO_EXECUTE_READ_ONLY \<longleftrightarrow>
    name \<notin> {''bash'', ''validate'', ''validation_suite''} \<and> str_lower mc = ''read_only''"
  "tier_decision (classify_admission_tier mc name) = AUTO_EXECUTE_VALIDATION \<longleftrightarrow> name \<in> {''validate'', ''validation_suite''}"
  "tier_decision (classify_admission_tier mc name) = PROPOSAL_ONLY_MUTATION \<longleftrightarrow>
    name \<notin> {''bash'', ''validate'', ''validation_suite''} \<and> str_lower mc \<in> {''writes_workspace'', ''mutates_git_state''}"
  by (auto simp: classify_admission_tier_def Let_def)

lemma executed_outcome:
  assumes "execute_constrained_recovery env post now now' now'' ok q m supplied ledger receipt_ledger available = (sent, ledger', Inr x)"
    and "cx_execution_status x = ''executed''"
  obtains parsed i e h r cm d enforced sha
  where "transduce_dict (vl_sha (x_evaluation env)) (''live_'' @ cq_execution_id q) m (as_call env (cq_target_tool_name q) parsed) =
      Inr (Recovered i)"
    and "evaluate_one (x_evaluation env) now' now'' m (live_case env q parsed) (''run_'' @ cq_execution_id q) = Inr e"
    and "build_handoff_from_evaluation e (ms_manifest_digest m) = Inr h"
    and "executed_result env q m r cm d enforced (receipt_ledger \<noteq> None) sha (event_count ledger) e h = Inr x"
    and "bound_receipt env supplied receipt_ledger r"
proof -
  from executed_sent [OF assms(1)] assms(2) have "sent \<noteq> []" by blast
  with assms(1) obtain r d enforced cm_opt where out: "(ledger', Inr x) = (case cm_opt of
      None \<Rightarrow> execution_failed_result env now'' ok q d ledger
    | Some cm \<Rightarrow> handle_successful_execution env now' now'' ok q m r cm d enforced (receipt_ledger \<noteq> None) ledger)"
      and r: "bound_receipt env supplied receipt_ledger r"
    by (rule sent_call)
  obtain cm where handled:
    "handle_successful_execution env now' now'' ok q m r cm d enforced (receipt_ledger \<noteq> None) ledger = (ledger', Inr x)"
  proof (cases cm_opt)
    case None
    with out have "execution_failed_result env now'' ok q d ledger = (ledger', Inr x)" by simp
    from unexecuted_results(2) [OF this] assms(2) show ?thesis by simp
  qed (use out that in simp)
  obtain parsed e h sha where
    e: "evaluate_one (x_evaluation env) now' now'' m (live_case env q parsed) (''run_'' @ cq_execution_id q) = Inr e"
    and h: "build_handoff_from_evaluation e (ms_manifest_digest m) = Inr h"
    and x: "executed_result env q m r cm d enforced (receipt_ledger \<noteq> None) sha (event_count ledger) e h = Inr x"
    by (rule handled_executed [OF handled assms(2)])
  from e obtain res where res: "transduce_dict (vl_sha (x_evaluation env)) (''live_'' @ cq_execution_id q) m
      (as_call env (cq_target_tool_name q) parsed) = Inr res"
    by (auto simp: evaluate_one_def live_case_def is_emission_def and_then_Inr_iff Let_def split: if_splits)
  have "\<exists>i. res = Recovered i"
  proof (cases res)
    case (Refused f)
    with e res have "event_text e ''admission_decision'' = None"
      by (auto simp: evaluate_one_def live_case_def is_emission_def refused_outcome_def event_texts Let_def)
    with executed_fields(6) [OF x] show ?thesis by simp
  qed simp
  with res e h x r that show thesis by blast
qed

lemma live_emission [simp]: "is_emission (ec_raw_emission (live_case env q parsed))"
  by (simp add: live_case_def is_emission_def)

lemma handoff_registry:
  assumes "build_tool_surface_manifest sha tools = Inr (Inr m)" and "wf_dict tools"
    and "execute_constrained_recovery env post now now' now'' ok q m supplied ledger receipt_ledger available = (sent, ledger', Inr x)"
    and "cx_execution_status x = ''executed''"
  shows "\<exists>t. dict_get tools (cx_selected_canonical_tool x) = Some t \<and>
    (let name = cx_selected_canonical_tool x; class = str_lower (tc_mutation_class t);
         special = name \<in> {''bash'', ''validate'', ''validation_suite''}
     in (cx_handoff_kind x = ''read_only'' \<longleftrightarrow> \<not> special \<and> class = ''read_only'') \<and>
        (cx_handoff_kind x = ''validation'' \<longleftrightarrow> name \<in> {''validate'', ''validation_suite''}) \<and>
        (cx_handoff_kind x = ''mutation_proposal_only'' \<longleftrightarrow> \<not> special \<and> class \<in> {''writes_workspace'', ''mutates_git_state''}) \<and>
        (cx_handoff_kind x = ''refusal'' \<longleftrightarrow> name = ''bash'' \<or>
           \<not> special \<and> class \<notin> {''read_only'', ''writes_workspace'', ''mutates_git_state''}) \<and>
        (cx_proposal_only x \<longleftrightarrow> cx_handoff_kind x = ''mutation_proposal_only''))"
proof -
  from assms(3,4) obtain parsed i e h r cm d enforced sha'
    where i: "transduce_dict (vl_sha (x_evaluation env)) (''live_'' @ cq_execution_id q) m (as_call env (cq_target_tool_name q) parsed) =
        Inr (Recovered i)"
      and e: "evaluate_one (x_evaluation env) now' now'' m (live_case env q parsed) (''run_'' @ cq_execution_id q) = Inr e"
      and h: "build_handoff_from_evaluation e (ms_manifest_digest m) = Inr h"
      and x: "executed_result env q m r cm d enforced (receipt_ledger \<noteq> None) sha' (event_count ledger) e h = Inr x"
    by (rule executed_outcome)
  obtain en t where en: "next_or_none (\<lambda>e. te_canonical_name e = ri_canonical_tool_name i) (ms_admitted_tools m) = Some en"
    and t: "dict_get tools (ri_canonical_tool_name i) = Some t" and mc: "ri_mutation_class i = Some (tc_mutation_class t)"
    and tier: "te_recovery_admission_tier en = classify_admission_tier (tc_mutation_class t) (ri_canonical_tool_name i)"
    by (rule recovered_entry [OF assms(1,2) i [folded transduce_simps(1)]])
  let ?d = "tier_decision (te_recovery_admission_tier en)"
  obtain oc where oc: "e = evaluation_event (x_evaluation env) now'' m (live_case env q parsed) (''run_'' @ cq_execution_id q)
        (vl_wide_sha (x_evaluation env) (canon (ec_raw_emission (live_case env q parsed)))) oc"
      "eo_refusal_code oc = None" "eo_admission_decision oc = Some (decision_name ?d)"
      "eo_mutation_class oc = Some (tc_mutation_class t)" "eo_selected_tool oc = Some (ri_canonical_tool_name i)"
    using e i en mc by (auto simp: evaluate_one_def live_case_def is_emission_def recovered_outcome_def decide_admission_def Let_def)
  have "handoff_kind h = decision_handoff ?d" by (rule recovered_handoff [OF oc(2,3,4) h [unfolded oc(1)]])
  with executed_fields(5,6,7) [OF x] oc(3,5) have kind: "cx_handoff_kind x = decision_handoff ?d"
    and admission: "cx_admission_decision x = decision_name ?d" and name: "cx_selected_canonical_tool x = ri_canonical_tool_name i"
    unfolding oc(1) by (simp_all add: event_texts)
  have "cx_proposal_only x \<longleftrightarrow> ?d = PROPOSAL_ONLY_MUTATION"
    unfolding executed_fields(8) [OF x] admission by (rule decision_proposal)
  with t kind name show ?thesis by (auto simp: decision_handoff_iff tier tier_decision_iff Let_def)
qed

text \<open>C22: Over a manifest built from a registry, what an executed call hands to the runtime is decided by the
  registry entry of the recovered tool alone: it is run as read-only exactly when its class is read-only
  and it is neither the shell nor a validation tool, as a validation exactly for the two validation tools,
  as a proposal exactly when it writes the workspace or the repository, and refused exactly when it is the
  shell or of any other class.\<close>

theorem handoff_decided_by_registry:
  assumes "build_tool_surface_manifest sha tools = Inr (Inr m)" and "wf_dict tools"
    and "execute_constrained_recovery env post now now' now'' ok q m supplied ledger receipt_ledger available = (sent, ledger', Inr x)"
    and "cx_execution_status x = ''executed''"
  shows "\<exists>t. dict_get tools (cx_selected_canonical_tool x) = Some t \<and>
    (let name = cx_selected_canonical_tool x; class = str_lower (tc_mutation_class t);
         special = name \<in> {''bash'', ''validate'', ''validation_suite''}
     in (cx_handoff_kind x = ''read_only'' \<longleftrightarrow> \<not> special \<and> class = ''read_only'') \<and>
        (cx_handoff_kind x = ''validation'' \<longleftrightarrow> name \<in> {''validate'', ''validation_suite''}) \<and>
        (cx_handoff_kind x = ''mutation_proposal_only'' \<longleftrightarrow> \<not> special \<and> class \<in> {''writes_workspace'', ''mutates_git_state''}) \<and>
        (cx_handoff_kind x = ''refusal'' \<longleftrightarrow> name = ''bash'' \<or>
           \<not> special \<and> class \<notin> {''read_only'', ''writes_workspace'', ''mutates_git_state''}) \<and>
        (cx_proposal_only x \<longleftrightarrow> cx_handoff_kind x = ''mutation_proposal_only''))"
  using handoff_registry [OF assms] .

section \<open>Receipts that bind, and results that are lost\<close>

definition constrained_call :: "ConstrainedExecutionRequest \<Rightarrow> AdmittedToolEntry \<Rightarrow> string \<times> jdict" where
  "constrained_call q e = (cq_endpoint_url q @ ''/v1/chat/completions'',
     chat_payload (cq_model_name q) (build_messages (cq_target_tool_name q)) (build_runtime_enforcement_schema e))"

lemma execute_bound:
  assumes "next_or_none (\<lambda>e. te_canonical_name e = cq_target_tool_name q) (ms_admitted_tools m) = Some e"
    and "bound_receipt env supplied receipt_ledger r"
    and "dict_get (cr_tool_schema_digests r) (cq_target_tool_name q) \<in>
      {None, Some '''', Some (compute_runtime_schema_digest (x_constraint env) (build_runtime_enforcement_schema e))}"
  shows "execute_constrained_recovery env post now now' now'' ok q m supplied ledger receipt_ledger True =
    ([constrained_call q e], case call_local_runtime env (post (fst (constrained_call q e)) (snd (constrained_call q e))) of
        None \<Rightarrow> execution_failed_result env now'' ok q (build_enforcement_disposition env now q) ledger
      | Some cm \<Rightarrow> handle_successful_execution env now' now'' ok q m r cm (build_enforcement_disposition env now q)
          (compute_runtime_schema_digest (x_constraint env) (build_runtime_enforcement_schema e)) (receipt_ledger \<noteq> None) ledger)"
  using assms(3) by (auto simp: execute_admitted [OF assms(1,2)] constrained_call_def Let_def)

lemma executed_source:
  assumes "execute_constrained_recovery env post now now' now'' ok q m supplied ledger receipt_ledger available = (sent, ledger', Inr x)"
    and "cx_execution_status x = ''executed''"
  shows "cx_emission_source_kind x = cq_emission_source_kind q"
  by (rule executed_outcome [OF assms]) (rule executed_fields(11))

lemma executed_claims:
  assumes "execute_constrained_recovery env post now now' now'' ok q m supplied ledger receipt_ledger available = (sent, ledger', Inr x)"
    and "cx_execution_status x = ''executed''"
  shows "cx_receipt_loaded_from_durable_evidence x \<longleftrightarrow> receipt_ledger \<noteq> None"
    and "\<exists>d. cx_disposition x = Some d \<and> ce_json_schema_enforcement_exercised d"
    and "cx_constraint_receipt_digest x = cr_receipt_digest supplied"
proof -
  obtain parsed i e h r cm d enforced sha where x: "executed_result env q m r cm d enforced (receipt_ledger \<noteq> None) sha (event_count ledger) e h = Inr x"
      and r: "bound_receipt env supplied receipt_ledger r"
    by (rule executed_outcome [OF assms])
  from r have "cr_receipt_digest r = cr_receipt_digest supplied" by (auto simp: bound_receipt_def split: option.splits)
  with executed_fields(3,4,9) [OF x] show "cx_receipt_loaded_from_durable_evidence x \<longleftrightarrow> receipt_ledger \<noteq> None"
    "\<exists>d. cx_disposition x = Some d \<and> ce_json_schema_enforcement_exercised d"
    "cx_constraint_receipt_digest x = cr_receipt_digest supplied" by auto
qed

text \<open>From the compiler to the model: after a compilation is persisted, an execution that reads the receipt
  from that ledger sends, for every admitted tool, the very schema whose digest the receipt records, and
  is not refused; an executed result reports the recorded digest and the durable receipt.\<close>

theorem persisted_compilation_binds:
  assumes "storable (compile_constraints (x_constraint env) t i p m)" and "load_events (ce_sha (x_constraint env)) ls = Inr old"
    and "\<forall>n. ce_lax_int (x_constraint env) (JInt n) = Some n"
    and "persist_constraint_compilation_receipt (x_constraint env) True (compile_constraints (x_constraint env) t i p m) ls = (ls', out)"
    and "distinct (map te_canonical_name (ms_admitted_tools m))" and "e \<in> set (ms_admitted_tools m)"
    and "te_canonical_name e = cq_target_tool_name q"
    and "execute_constrained_recovery env post now now' now'' ok q m (compile_constraints (x_constraint env) t i p m) ledger (Some ls') True =
      (sent, ledger', res)"
  shows "sent = [constrained_call q e] \<and>
    (\<forall>x. res = Inr x \<and> cx_execution_status x = ''executed'' \<longrightarrow> cx_receipt_loaded_from_durable_evidence x \<and>
      Some (cx_enforced_schema_digest x) =
        dict_get (cr_tool_schema_digests (compile_constraints (x_constraint env) t i p m)) (cq_target_tool_name q))"
proof -
  let ?r = "compile_constraints (x_constraint env) t i p m"
  let ?digest = "compute_runtime_schema_digest (x_constraint env) (build_runtime_enforcement_schema e)"
  from compilation_receipt_round_trip [OF assms(1-3)] assms(4) obtain dd
    where loaded: "load_canonical_constraint_receipt (x_constraint env) ls' = Inr (Some (?r\<lparr>cr_feature_statuses := [], cr_tool_schema_digests := dd\<rparr>))"
      and dd: "\<forall>k. dict_get dd k = dict_get (cr_tool_schema_digests ?r) k" by auto
  have compiled: "dict_get (cr_tool_schema_digests ?r) (cq_target_tool_name q) = Some ?digest"
    using compiled_digest [OF assms(5,6)] assms(7) by simp
  from assms(5,6,7) have found: "next_or_none (\<lambda>e. te_canonical_name e = cq_target_tool_name q) (ms_admitted_tools m) = Some e"
    by (rule admitted_found)
  have bound: "bound_receipt env ?r (Some ls') (?r\<lparr>cr_feature_statuses := [], cr_tool_schema_digests := dd\<rparr>)"
    by (simp add: bound_receipt_def loaded)
  have "sent = [constrained_call q e]"
    using assms(8) execute_bound [OF found bound] dd compiled by simp
  moreover have "cx_enforced_schema_digest x = ?digest \<and> cx_receipt_loaded_from_durable_evidence x"
    if x: "res = Inr x" "cx_execution_status x = ''executed''" for x
  proof -
    obtain h where "handle_successful_execution env now' now'' ok q m (?r\<lparr>cr_feature_statuses := [], cr_tool_schema_digests := dd\<rparr>) h
        (build_enforcement_disposition env now q) ?digest True ledger = (ledger', Inr x)"
      using assms(8) execute_bound [OF found bound] dd compiled x
      by (auto split: option.splits dest: unexecuted_results(2))
    from handled_executed [OF this x(2)] show ?thesis by (metis executed_fields(2,4))
  qed
  ultimately show ?thesis using compiled by simp
qed

text \<open>A receipt that records no digest for the requested tool does not stop the execution: the call is sent, and
  an executed result names the receipt, says that it is durable and that the schema was enforced.\<close>

theorem unrecorded_tool_executed:
  assumes "next_or_none (\<lambda>e. te_canonical_name e = cq_target_tool_name q) (ms_admitted_tools m) = Some e"
    and "bound_receipt env supplied receipt_ledger r"
    and "dict_get (cr_tool_schema_digests r) (cq_target_tool_name q) = None"
    and "execute_constrained_recovery env post now now' now'' ok q m supplied ledger receipt_ledger True = (sent, ledger', res)"
  shows "sent = [constrained_call q e] \<and>
    (\<forall>x. res = Inr x \<and> cx_execution_status x = ''executed'' \<longrightarrow>
      cx_constraint_receipt_digest x = cr_receipt_digest supplied \<and>
      (cx_receipt_loaded_from_durable_evidence x \<longleftrightarrow> receipt_ledger \<noteq> None) \<and>
      (\<exists>d. cx_disposition x = Some d \<and> ce_json_schema_enforcement_exercised d))"
proof -
  have "sent = [constrained_call q e]"
    using assms(4) execute_bound [OF assms(1,2)] assms(3) by simp
  moreover have "cx_constraint_receipt_digest x = cr_receipt_digest supplied \<and>
      (cx_receipt_loaded_from_durable_evidence x \<longleftrightarrow> receipt_ledger \<noteq> None) \<and>
      (\<exists>d. cx_disposition x = Some d \<and> ce_json_schema_enforcement_exercised d)"
    if x: "res = Inr x" "cx_execution_status x = ''executed''" for x
    using executed_claims [OF assms(4) [unfolded x(1)] x(2)] by blast
  ultimately show ?thesis by blast
qed

lemma light_evaluation_event: "content_light FORBIDDEN_EVENT_KEYS (evaluation_event env now m c run_id emission oc)"
  by (simp add: content_light_def FORBIDDEN_EVENT_KEYS_def evaluation_event_def dict_get_def Let_def)

text \<open>When the transducer refuses what the model emitted, the evaluation is appended to the ledger and the
  execution then raises: the refusal has no result, although its handoff was built.\<close>

theorem refused_emission_raises:
  assumes "next_or_none (\<lambda>e. te_canonical_name e = cq_target_tool_name q) (ms_admitted_tools m) = Some e"
    and "bound_receipt env supplied receipt_ledger r"
    and "dict_get (cr_tool_schema_digests r) (cq_target_tool_name q) \<in>
      {None, Some '''', Some (compute_runtime_schema_digest (x_constraint env) (build_runtime_enforcement_schema e))}"
    and "call_local_runtime env (post (fst (constrained_call q e)) (snd (constrained_call q e))) = Some cm"
    and "parse_emission_json env (cm_content cm) = Some parsed"
    and "transduce_dict (vl_sha (x_evaluation env)) (''live_'' @ cq_execution_id q) m (as_call env (cq_target_tool_name q) parsed) =
      Inr (Refused f)"
  shows "\<exists>ev h. evaluate_one (x_evaluation env) now' now'' m (live_case env q parsed) (''run_'' @ cq_execution_id q) = Inr ev \<and>
    build_handoff_from_evaluation ev (ms_manifest_digest m) = Inr h \<and> handoff_kind h = ''refusal'' \<and>
    execute_constrained_recovery env post now now' now'' True q m supplied (Some ls) receipt_ledger True =
      ([constrained_call q e], Some (ls @ [Entry (canon (JObj (evd.seal (vl_sha (x_evaluation env)) ev)))]), Inl ValidationError)"
proof -
  let ?sha = "vl_sha (x_evaluation env)"
  define oc where "oc = refused_outcome (x_evaluation env) now' m (''live_'' @ cq_execution_id q)
    (vl_wide_sha (x_evaluation env) (canon (JObj (as_call env (cq_target_tool_name q) parsed)))) f"
  define ev where "ev = evaluation_event (x_evaluation env) now'' m (live_case env q parsed) (''run_'' @ cq_execution_id q)
    (vl_wide_sha (x_evaluation env) (canon (JObj (as_call env (cq_target_tool_name q) parsed)))) oc"
  have ev: "evaluate_one (x_evaluation env) now' now'' m (live_case env q parsed) (''run_'' @ cq_execution_id q) = Inr ev"
    using assms(6) by (simp add: evaluate_one_def live_case_def is_emission_def ev_def oc_def Let_def)
  have code: "eo_refusal_code oc = Some (refusal_name (rf_refusal_code f))" "refusal_name (rf_refusal_code f) \<noteq> ''''"
    by (simp add: oc_def refused_outcome_def) (cases "rf_refusal_code f"; simp)
  then obtain h where h: "build_handoff_from_evaluation ev (ms_manifest_digest m) = Inr h" "handoff_kind h = ''refusal''"
    unfolding ev_def using refused_handoff by blast
  have "event_text ev ''admission_decision'' = None" by (simp add: ev_def event_texts oc_def refused_outcome_def)
  then have raises: "executed_result env q m r cm d enforced durable sha n ev h = Inl ValidationError" for d enforced durable sha n
    by (simp add: executed_result_def split: option.split)
  have "append_event ?sha True ev ls = (ls @ [Entry (canon (JObj (evd.seal ?sha ev)))], Inr (compute_event_digest ?sha ev))"
    by (rule appended_line) (simp add: ev_def light_evaluation_event)
  then have "handle_successful_execution env now' now'' True q m r cm d enforced durable (Some ls) =
      (Some (ls @ [Entry (canon (JObj (evd.seal ?sha ev)))]), Inl ValidationError)" for d enforced durable
    using assms(5) ev h(1) raises by (simp add: handle_successful_execution_def record_evidence_def Let_def)
  then show ?thesis using ev h execute_bound [OF assms(1-3)] assms(4) by simp
qed

section \<open>Examples\<close>

text \<open>The texts of the examples: an empty object, and a call of no tool of the manifest.\<close>

definition demo_execution_env :: "(json \<Rightarrow> string) \<Rightarrow> execution_env" where
  "demo_execution_env sha = \<lparr>x_evaluation = \<lparr>vl_sha = sha, vl_wide_sha = sha\<rparr>, x_constraint = demo_constraint_env,
     x_hex = (\<lambda>s. replicate 64 (CHR ''c'')), x_byte_count = (\<lambda>s. int (length s)),
     x_parse = (\<lambda>s. if s = ''{}'' then Some (JObj []) else if s = ''{\"name\": \"x\"}'' then Some (JObj [(''name'', JStr ''x'')]) else None),
     x_str = (\<lambda>v. ''''), x_time_text = (\<lambda>ts. '''')\<rparr>"

definition demo_execution_request :: ConstrainedExecutionRequest where
  "demo_execution_request = \<lparr>cq_execution_id = ''1'', cq_manifest_digest = '''', cq_constraint_receipt_digest = '''',
     cq_target_tool_name = ''write_file'', cq_endpoint_url = ''http://localhost'', cq_runtime_kind = ''ollama'', cq_model_name = ''m'',
     cq_emission_source_kind = ''captured_local_model''\<rparr>"

definition demo_post :: "string \<Rightarrow> string \<Rightarrow> jdict \<Rightarrow> runtime_answer" where
  "demo_post text url payload = Response 200 (Some (JObj
     [(''choices'', JList [JObj [(''message'', JObj [(''content'', JStr text)])]]),
      (''usage'', JObj [(''prompt_tokens'', JInt 12), (''completion_tokens'', JInt 3)])])) 40"

definition demo_compiled :: ConstraintCompilationReceipt where
  "demo_compiled = compile_constraints demo_constraint_env 0 ''c'' ''p'' demo_tool_manifest"

definition demo_execution ::
  "(json \<Rightarrow> string) \<Rightarrow> string \<Rightarrow> CanonicalToolSurfaceManifest \<Rightarrow> (string \<times> jdict) list \<times> ConstrainedExecutionResult recorded" where
  "demo_execution sha text m = execute_constrained_recovery (demo_execution_env sha) (demo_post text) 0 0 0 True
     demo_execution_request m demo_compiled (Some []) None True"

definition executed_with :: "string \<Rightarrow> ConstrainedExecutionResult recorded \<Rightarrow> bool" where
  "executed_with kind out = (case snd out of Inl err \<Rightarrow> False
     | Inr x \<Rightarrow> cx_execution_status x = ''executed'' \<and> cx_handoff_kind x = kind \<and> cx_selected_canonical_tool x = ''write_file'')"

lemma demo_executed:
  "executed_with ''mutation_proposal_only'' (snd (demo_execution example_sha ''{}'' example_manifest))"
  by code_simp

lemma executed_with_result:
  assumes "executed_with kind (snd (demo_execution sha text m))"
  obtains sent ledger' x where "execute_constrained_recovery (demo_execution_env sha) (demo_post text) 0 0 0 True
      demo_execution_request m demo_compiled (Some []) None True = (sent, ledger', Inr x)"
    and "demo_execution sha text m = (sent, ledger', Inr x)" and "cx_execution_status x = ''executed''"
    and "cx_handoff_kind x = kind" and "cx_selected_canonical_tool x = ''write_file''"
  using assms by (cases "demo_execution sha text m") (auto simp: executed_with_def demo_execution_def split: sum.splits)

theorem executed_under_bound_schema_witness:
  "\<exists>e x. fst (demo_execution example_sha ''{}'' example_manifest) =
      [(''http://localhost/v1/chat/completions'', chat_payload ''m'' (build_messages ''write_file'') (build_runtime_enforcement_schema e))] \<and>
    te_canonical_name e = ''write_file'' \<and>
    snd (snd (demo_execution example_sha ''{}'' example_manifest)) = Inr x \<and>
    cx_constraint_receipt_digest x = cr_receipt_digest demo_compiled"
proof (rule executed_with_result [OF demo_executed])
  fix sent ledger' x
  assume *: "execute_constrained_recovery (demo_execution_env example_sha) (demo_post ''{}'') 0 0 0 True
      demo_execution_request example_manifest demo_compiled (Some []) None True = (sent, ledger', Inr x)"
    "demo_execution example_sha ''{}'' example_manifest = (sent, ledger', Inr x)" "cx_execution_status x = ''executed''"
  show ?thesis using executed_under_bound_schema [OF *(1,3)] *(2) by (auto simp: demo_execution_request_def)
qed

theorem handoff_decided_by_registry_witness:
  "\<exists>t x. dict_get example_tools ''write_file'' = Some t \<and> str_lower (tc_mutation_class t) \<in> {''writes_workspace'', ''mutates_git_state''} \<and>
    snd (snd (demo_execution example_sha ''{}'' example_manifest)) = Inr x \<and> cx_proposal_only x"
proof (rule executed_with_result [OF demo_executed])
  fix sent ledger' x
  assume *: "execute_constrained_recovery (demo_execution_env example_sha) (demo_post ''{}'') 0 0 0 True
      demo_execution_request example_manifest demo_compiled (Some []) None True = (sent, ledger', Inr x)"
    "demo_execution example_sha ''{}'' example_manifest = (sent, ledger', Inr x)" "cx_execution_status x = ''executed''"
    "cx_handoff_kind x = ''mutation_proposal_only''" "cx_selected_canonical_tool x = ''write_file''"
  show ?thesis
    using handoff_decided_by_registry [OF example_registry example_tools_wf *(1,3)] *(2,4,5) by (auto simp: Let_def)
qed

definition demo_receipt_ledger :: "json jsonl list" where
  "demo_receipt_ledger = fst (persist_constraint_compilation_receipt demo_constraint_env True demo_compiled [])"

lemma demo_entry_found:
  "next_or_none (\<lambda>e. te_canonical_name e = cq_target_tool_name demo_execution_request) (ms_admitted_tools demo_tool_manifest) =
    Some (demo_entry ''write_file'' MUTATION_PROPOSAL_ONLY)"
  by (simp add: demo_execution_request_def demo_tool_manifest_def demo_entry_def next_or_none_def)

theorem persisted_compilation_binds_witness:
  "fst (execute_constrained_recovery (demo_execution_env (ce_sha demo_constraint_env)) (demo_post ''{}'') 0 0 0 True demo_execution_request
      demo_tool_manifest demo_compiled (Some []) (Some demo_receipt_ledger) True) =
    [constrained_call demo_execution_request (demo_entry ''write_file'' MUTATION_PROPOSAL_ONLY)]"
proof -
  let ?env = "demo_execution_env (ce_sha demo_constraint_env)"
  have env: "x_constraint ?env = demo_constraint_env" by (simp add: demo_execution_env_def)
  obtain out where out: "persist_constraint_compilation_receipt (x_constraint ?env) True
      (compile_constraints (x_constraint ?env) 0 ''c'' ''p'' demo_tool_manifest) [] = (demo_receipt_ledger, out)"
    by (cases "persist_constraint_compilation_receipt demo_constraint_env True demo_compiled []")
      (simp add: env demo_receipt_ledger_def demo_compiled_def)
  obtain sent ledger' res where run: "execute_constrained_recovery ?env (demo_post ''{}'') 0 0 0 True demo_execution_request
      demo_tool_manifest (compile_constraints (x_constraint ?env) 0 ''c'' ''p'' demo_tool_manifest) (Some []) (Some demo_receipt_ledger) True =
      (sent, ledger', res)" by (cases "execute_constrained_recovery ?env (demo_post ''{}'') 0 0 0 True demo_execution_request
      demo_tool_manifest (compile_constraints (x_constraint ?env) 0 ''c'' ''p'' demo_tool_manifest) (Some []) (Some demo_receipt_ledger) True")
  have "sent = [constrained_call demo_execution_request (demo_entry ''write_file'' MUTATION_PROPOSAL_ONLY)]"
  proof (rule persisted_compilation_binds [OF _ _ _ out _ _ _ run, THEN conjunct1])
    show "storable (compile_constraints (x_constraint ?env) 0 ''c'' ''p'' demo_tool_manifest)" unfolding env by (rule demo_storable)
    show "\<forall>n. ce_lax_int (x_constraint ?env) (JInt n) = Some n" unfolding env by (simp add: demo_constraint_env_def)
  qed (simp_all add: demo_tool_manifest_def demo_entry_def demo_execution_request_def)
  with run show ?thesis by (simp add: env demo_compiled_def)
qed

text \<open>The receipt of a manifest with no tools.\<close>

definition demo_empty_receipt :: ConstraintCompilationReceipt where
  "demo_empty_receipt = compile_constraints demo_constraint_env 0 ''c'' ''p'' (demo_tool_manifest\<lparr>ms_admitted_tools := []\<rparr>)"

theorem unrecorded_tool_executed_witness:
  "fst (execute_constrained_recovery (demo_execution_env (ce_sha demo_constraint_env)) (demo_post ''{}'') 0 0 0 True demo_execution_request
      demo_tool_manifest demo_empty_receipt (Some []) None True) =
    [constrained_call demo_execution_request (demo_entry ''write_file'' MUTATION_PROPOSAL_ONLY)]"
proof -
  have "dict_get (cr_tool_schema_digests demo_empty_receipt) (cq_target_tool_name demo_execution_request) = None"
    by (simp add: demo_empty_receipt_def compiled_fields compile_tools_def)
  moreover have "bound_receipt (demo_execution_env (ce_sha demo_constraint_env)) demo_empty_receipt None demo_empty_receipt"
    by (simp add: bound_receipt_def)
  ultimately show ?thesis
    by (cases "execute_constrained_recovery (demo_execution_env (ce_sha demo_constraint_env)) (demo_post ''{}'') 0 0 0 True
        demo_execution_request demo_tool_manifest demo_empty_receipt (Some []) None True")
      (simp add: unrecorded_tool_executed [OF demo_entry_found])
qed

theorem refused_emission_raises_witness:
  "\<exists>ev. execute_constrained_recovery (demo_execution_env (ce_sha demo_constraint_env)) (demo_post ''{\"name\": \"x\"}'') 0 0 0 True
      demo_execution_request demo_tool_manifest demo_compiled (Some []) None True =
    ([constrained_call demo_execution_request (demo_entry ''write_file'' MUTATION_PROPOSAL_ONLY)],
     Some [Entry (canon (JObj (evd.seal (ce_sha demo_constraint_env) ev)))], Inl ValidationError)"
proof -
  let ?env = "demo_execution_env (ce_sha demo_constraint_env)" and ?text = "''{\"name\": \"x\"}''"
  have bound: "bound_receipt ?env demo_compiled None demo_compiled" by (simp add: bound_receipt_def)
  have digest: "dict_get (cr_tool_schema_digests demo_compiled) (cq_target_tool_name demo_execution_request) \<in> {None, Some '''',
      Some (compute_runtime_schema_digest (x_constraint ?env) (build_runtime_enforcement_schema (demo_entry ''write_file'' MUTATION_PROPOSAL_ONLY)))}"
    by code_simp
  obtain cm where cm: "call_local_runtime ?env (demo_post ?text u p) = Some cm" "cm_content cm = ?text" for u p
    by (simp add: call_local_runtime_def demo_post_def jget_or_def dict_get_def)
  have parsed: "parse_emission_json ?env (cm_content cm) = Some (JObj [(''name'', JStr ''x'')])" unfolding cm(2) by code_simp
  have sha: "vl_sha (x_evaluation ?env) = ce_sha demo_constraint_env" by (simp add: demo_execution_env_def)
  have "case transduce_dict (vl_sha (x_evaluation ?env)) (''live_'' @ cq_execution_id demo_execution_request) demo_tool_manifest
      (as_call ?env (cq_target_tool_name demo_execution_request) (JObj [(''name'', JStr ''x'')])) of
      Inr (Refused f) \<Rightarrow> True | _ \<Rightarrow> False"
    by code_simp
  then obtain f where "transduce_dict (vl_sha (x_evaluation ?env)) (''live_'' @ cq_execution_id demo_execution_request) demo_tool_manifest
      (as_call ?env (cq_target_tool_name demo_execution_request) (JObj [(''name'', JStr ''x'')])) = Inr (Refused f)"
    by (auto split: sum.splits transducer_result.splits)
  from refused_emission_raises [where post = "demo_post ?text" and now = 0 and now' = 0 and now'' = 0 and ls = "[]",
        OF demo_entry_found bound digest cm(1) parsed this] show ?thesis
    unfolding sha append_Nil by blast
qed

end
