(* ===== verification/Execution_Reports.thy ===== *)
theory Execution_Reports
  imports Constrained_Execution
begin

text \<open>
  What is reported of constrained executions, the rest of
  \<^verbatim>\<open>rig_relay/recovery/constrained_execution.py\<close>: the statistics and the operations projection, and the
  captured-emission events with their validation.  The identifiers and the times of reports are arguments,
  and so is the text of a number.
\<close>

section \<open>Statistics\<close>

record execution_stats =
  sx_executed :: int
  sx_failed :: int
  sx_refused :: int
  sx_unavailable :: int
  sx_admission_counts :: "(string, int) dict"
  sx_handoff_kinds :: "(string, int) dict"
  sx_proposal_only_count :: int
  sx_captured_local_count :: int
  sx_refusal_count :: int
  sx_total_tokens_out :: int
  sx_total_latency_ms :: int
  sx_enforcement_available :: bool
  sx_enforcement_exercised :: bool
  sx_enforcement_mechanism :: string

definition count_key :: "string \<Rightarrow> (string, int) dict \<Rightarrow> (string, int) dict" where
  "count_key k d = (if k = '''' then d else dict_set k ((case dict_get d k of None \<Rightarrow> 0 | Some n \<Rightarrow> n) + 1) d)"

text \<open>The counter of a status; a status of no case counts as failed.\<close>

definition count_status :: "string \<Rightarrow> execution_stats \<Rightarrow> execution_stats" where
  "count_status status st =
    (if status = ''executed'' then st\<lparr>sx_executed := sx_executed st + 1\<rparr>
     else if status = ''refused'' then st\<lparr>sx_refused := sx_refused st + 1\<rparr>
     else if status = ''runtime_unavailable'' then st\<lparr>sx_unavailable := sx_unavailable st + 1\<rparr>
     else st\<lparr>sx_failed := sx_failed st + 1\<rparr>)"

definition count_disposition :: "ConstraintEnforcementDisposition option \<Rightarrow> execution_stats \<Rightarrow> execution_stats" where
  "count_disposition disp st =
    (case disp of None \<Rightarrow> st
     | Some d \<Rightarrow> st\<lparr>sx_enforcement_available := sx_enforcement_available st \<or> ce_json_object_enforcement_available d,
         sx_enforcement_exercised := sx_enforcement_exercised st \<or> ce_json_schema_enforcement_exercised d,
         sx_enforcement_mechanism := (if ce_enforced_mechanism d = '''' then sx_enforcement_mechanism st else ce_enforced_mechanism d)\<rparr>)"

definition count_result :: "ConstrainedExecutionResult \<Rightarrow> execution_stats \<Rightarrow> execution_stats" where
  "count_result r st =
    (let st1 = count_status (cx_execution_status r) st
     in count_disposition (cx_disposition r) (st1
       \<lparr>sx_admission_counts := count_key (cx_admission_decision r) (sx_admission_counts st1),
        sx_handoff_kinds := count_key (cx_handoff_kind r) (sx_handoff_kinds st1),
        sx_proposal_only_count := sx_proposal_only_count st1 + (if cx_proposal_only r then 1 else 0),
        sx_captured_local_count := sx_captured_local_count st1 + (if cx_execution_status r = ''executed'' then 1 else 0),
        sx_refusal_count := sx_refusal_count st1 + (if cx_refusal_code r = '''' then 0 else 1),
        sx_total_tokens_out := sx_total_tokens_out st1 + cx_output_token_count r,
        sx_total_latency_ms := sx_total_latency_ms st1 + cx_latency_ms r\<rparr>))"

definition aggregate_execution_stats :: "ConstrainedExecutionResult list \<Rightarrow> execution_stats" where
  "aggregate_execution_stats rs = fold count_result rs
    \<lparr>sx_executed = 0, sx_failed = 0, sx_refused = 0, sx_unavailable = 0, sx_admission_counts = [], sx_handoff_kinds = [],
     sx_proposal_only_count = 0, sx_captured_local_count = 0, sx_refusal_count = 0, sx_total_tokens_out = 0,
     sx_total_latency_ms = 0, sx_enforcement_available = False, sx_enforcement_exercised = False, sx_enforcement_mechanism = ''''\<rparr>"

section \<open>The operations projection\<close>

definition proposal_only_preserved :: "ConstrainedExecutionResult list \<Rightarrow> bool" where
  "proposal_only_preserved rs \<longleftrightarrow> sx_proposal_only_count (aggregate_execution_stats rs) > 0 \<and>
    list_all (\<lambda>r. cx_handoff_kind r = ''mutation_proposal_only'') (filter cx_proposal_only rs)"

definition ENFORCEMENT_TRUTH :: string where
  "ENFORCEMENT_TRUTH = ''json_schema enforcement exercised via response_format with strict=true on Ollama 0.23.1. '' @
     ''Compiled recovery constraint schema bound as native grammar. GBNF/grammar-level enforcement not available.''"

definition json_counts :: "(string, int) dict \<Rightarrow> jdict" where
  "json_counts d = map (\<lambda>(k, n). (k, JInt n)) d"

definition runtime_disposition :: "execution_env \<Rightarrow> ConstrainedExecutionResult list \<Rightarrow> execution_stats \<Rightarrow> jdict" where
  "runtime_disposition env rs st =
    (let prv = cx_disposition (hd rs)
     in [(''runtime_reachable'', JBool (sx_executed st > 0)),
      (''runtime_kind'', JStr (case prv of None \<Rightarrow> ''unknown'' | Some d \<Rightarrow> ce_runtime_kind d)),
      (''model_name_hash'', JStr (model_safe_hash env (case prv of None \<Rightarrow> '''' | Some d \<Rightarrow> ce_model_name d))),
      (''json_object_enforcement_available'', JBool True), (''json_schema_enforcement_available'', JBool (sx_enforcement_available st)),
      (''json_schema_enforcement_exercised'', JBool (sx_enforcement_exercised st)), (''grammar_enforcement_available'', JBool False),
      (''enforced_mechanism'', JStr (sx_enforcement_mechanism st)), (''enforcement_truth'', JStr ENFORCEMENT_TRUTH)])"

definition build_d2_operations_projection ::
  "execution_env \<Rightarrow> string \<Rightarrow> int \<Rightarrow> ConstrainedExecutionResult list \<Rightarrow> CanonicalToolSurfaceManifest \<Rightarrow> ConstraintCompilationReceipt \<Rightarrow> jdict" where
  "build_d2_operations_projection env pid now rs m receipt =
    (let base = [(''schema_version'', JStr ''rig.relay.d2_operations_projection.v1''), (''projection_id'', JStr pid), (''created_at'', JTime (Aware now))]
     in if rs = [] then base @ [(''total_executions'', JInt 0), (''projection_digest'', JStr '''')]
        else
          let st = aggregate_execution_stats rs;
              p = base @
                [(''manifest_digest'', JStr (ms_manifest_digest m)), (''constraint_receipt_digest'', JStr (cr_receipt_digest receipt)),
                 (''total_executions'', JInt (int (length rs))), (''executed_count'', JInt (sx_executed st)), (''failed_count'', JInt (sx_failed st)),
                 (''refused_count'', JInt (sx_refused st)), (''runtime_unavailable_count'', JInt (sx_unavailable st)),
                 (''admission_decisions'', JObj (json_counts (sx_admission_counts st))), (''handoff_kinds'', JObj (json_counts (sx_handoff_kinds st))),
                 (''captured_local_model_emission_count'', JInt (sx_captured_local_count st)),
                 (''proposal_only_mutation_count'', JInt (sx_proposal_only_count st)),
                 (''proposal_only_mutation_preserved'', JBool (proposal_only_preserved rs)), (''refusal_count'', JInt (sx_refusal_count st)),
                 (''mutation_proposal_only_invariant'', JBool (proposal_only_preserved rs)),
                 (''total_output_tokens'', JInt (sx_total_tokens_out st)), (''total_latency_ms'', JInt (sx_total_latency_ms st)),
                 (''avg_latency_ms'', JInt (if sx_executed st > 0 then sx_total_latency_ms st div sx_executed st else 0)),
                 (''runtime_enforcement_disposition'', JObj (runtime_disposition env rs st))]
          in p @ [(''projection_digest'', JStr (vl_sha (x_evaluation env) (canon (JObj p))))])"

section \<open>Captured emissions\<close>

definition EMISSION_SCHEMA :: string where
  "EMISSION_SCHEMA = ''rig.relay.lane_d2_captured_emission_event.v1''"

definition build_captured_emission_event ::
  "execution_env \<Rightarrow> int \<Rightarrow> string \<Rightarrow> string \<Rightarrow> ConstrainedExecutionResult \<Rightarrow> jdict" where
  "build_captured_emission_event env now event_id model_name_hash r =
    (let disp = cx_disposition r;
         event = [(''schema_version'', JStr EMISSION_SCHEMA), (''event_id'', JStr event_id), (''created_at'', JTime (Aware now)),
           (''execution_id'', JStr (cx_execution_id r)), (''execution_status'', JStr (cx_execution_status r)),
           (''enforced_schema_digest'', JStr (cx_enforced_schema_digest r)),
           (''constraint_receipt_digest'', JStr (cx_constraint_receipt_digest r)), (''manifest_digest'', JStr (cx_manifest_digest r)),
           (''receipt_loaded_from_durable_evidence'', JBool (cx_receipt_loaded_from_durable_evidence r)),
           (''emission_source_kind'', JStr (cx_emission_source_kind r)), (''emission_sha256'', JStr (cx_emission_sha256 r)),
           (''emission_byte_count'', JInt (cx_emission_byte_count r)), (''output_token_count'', JInt (cx_output_token_count r)),
           (''input_token_count'', JInt (cx_input_token_count r)), (''latency_ms'', JInt (cx_latency_ms r)),
           (''admission_decision'', JStr (cx_admission_decision r)), (''handoff_kind'', JStr (cx_handoff_kind r)),
           (''handoff_digest'', JStr (cx_handoff_digest r)), (''proposal_only'', JBool (cx_proposal_only r)),
           (''mutation_class'', JStr (cx_mutation_class r)), (''selected_canonical_tool'', JStr (cx_selected_canonical_tool r)),
           (''refusal_code'', JStr (cx_refusal_code r)), (''runtime_kind'', JStr (case disp of None \<Rightarrow> '''' | Some d \<Rightarrow> ce_runtime_kind d)),
           (''model_name_hash'', JStr model_name_hash),
           (''json_schema_enforcement_available'', JBool (case disp of None \<Rightarrow> False | Some d \<Rightarrow> ce_json_schema_enforcement_available d)),
           (''json_schema_enforcement_exercised'', JBool (case disp of None \<Rightarrow> False | Some d \<Rightarrow> ce_json_schema_enforcement_exercised d)),
           (''enforced_mechanism'', JStr (case disp of None \<Rightarrow> '''' | Some d \<Rightarrow> ce_enforced_mechanism d))]
     in event @ [(''event_digest'', JStr (vl_sha (x_evaluation env) (canon (JObj event))))])"

text \<open>The first error of a sequence of checks.\<close>

definition checked :: "('a \<Rightarrow> unit result) \<Rightarrow> 'a list \<Rightarrow> unit result" where
  "checked f xs = fold (\<lambda>x out. and_then out (\<lambda>_. f x)) xs (Inr ())"

definition digest_text :: "string \<Rightarrow> bool" where
  "digest_text s \<longleftrightarrow> startswith s ''sha256:'' \<and> length s = 71"

definition check_digest :: "json \<Rightarrow> unit result" where
  "check_digest v =
    (if \<not> json_truthy v then Inr ()
     else case v of
       JStr s \<Rightarrow> if digest_text s then Inr () else Inl (ValueError ''Invalid sha256 digest'')
     | JTime ts \<Rightarrow> Inl (ValueError ''Invalid sha256 digest'')
     | _ \<Rightarrow> Inl AttributeError)"

definition check_count :: "json \<Rightarrow> unit result" where
  "check_count v = (case v of
      JInt n \<Rightarrow> if n < 0 then Inl (ValueError ''Invalid count'') else Inr ()
    | JBool b \<Rightarrow> Inr ()
    | _ \<Rightarrow> Inl (ValueError ''Invalid count''))"

definition check_flag :: "json \<Rightarrow> unit result" where
  "check_flag v = (case v of JNull \<Rightarrow> Inr () | JBool b \<Rightarrow> Inr () | _ \<Rightarrow> Inl (ValueError ''Invalid flag''))"

definition validate_captured_emission_event :: "jdict \<Rightarrow> unit result" where
  "validate_captured_emission_event e =
    (if \<not> list_all (\<lambda>k. dict_get e k \<noteq> None) [''schema_version'', ''event_id'', ''created_at'', ''execution_id'', ''execution_status'']
     then Inl (ValueError ''missing required field'')
     else if jget e ''schema_version'' \<noteq> JStr EMISSION_SCHEMA then Inl (ValueError ''Invalid schema_version'')
     else if jget e ''execution_status'' \<notin> set (map JStr [''executed'', ''runtime_unavailable'', ''refused'', ''failed''])
     then Inl (ValueError ''Invalid execution_status'')
     else
       and_then (checked (\<lambda>k. check_digest (jget_or e k (JStr ''''))) [''emission_sha256'', ''handoff_digest'', ''event_digest'']) (\<lambda>_.
       and_then (checked (\<lambda>k. check_count (jget_or e k (JInt 0)))
         [''emission_byte_count'', ''output_token_count'', ''input_token_count'', ''latency_ms'']) (\<lambda>_.
       checked (\<lambda>k. check_flag (jget e k))
         [''proposal_only'', ''json_schema_enforcement_available'', ''json_schema_enforcement_exercised''])))"

text \<open>The corpus, from a number on; \<open>text\<close> is the text of a number with two digits.\<close>

fun emission_corpus ::
  "execution_env \<Rightarrow> (nat \<Rightarrow> string) \<Rightarrow> string \<Rightarrow> nat \<Rightarrow> (int \<times> ConstrainedExecutionResult) list \<Rightarrow> jdict list result" where
  "emission_corpus env text model i [] = Inr []"
| "emission_corpus env text model i ((now, r) # rs) =
    (let e = build_captured_emission_event env now (''corpus-'' @ text i) model r
     in and_then (validate_captured_emission_event e) (\<lambda>_.
        and_then (emission_corpus env text model (Suc i) rs) (\<lambda>es. Inr (e # es))))"

definition build_captured_emission_corpus ::
  "execution_env \<Rightarrow> (nat \<Rightarrow> string) \<Rightarrow> string \<Rightarrow> (int \<times> ConstrainedExecutionResult) list \<Rightarrow> jdict list result" where
  "build_captured_emission_corpus env text model rs = emission_corpus env text model 0 rs"

section \<open>The type of a result\<close>

text \<open>What is documented of the parameters: SHA-256 has 64 hexadecimal digits, lengths are not negative.\<close>

definition execution_env_ok :: "execution_env \<Rightarrow> bool" where
  "execution_env_ok env \<longleftrightarrow> (\<forall>s. length (x_hex env s) = 64) \<and> (\<forall>v. digest_text (vl_sha (x_evaluation env) v)) \<and>
    (\<forall>v. digest_text (vl_wide_sha (x_evaluation env) v)) \<and> (\<forall>s. 0 \<le> x_byte_count env s)"

definition answers_ok :: "(string \<Rightarrow> jdict \<Rightarrow> runtime_answer) \<Rightarrow> bool" where
  "answers_ok post \<longleftrightarrow> (\<forall>u p. case post u p of Request_fails \<Rightarrow> True | Response status body latency \<Rightarrow> 0 \<le> latency)"

definition result_typed :: "ConstrainedExecutionResult \<Rightarrow> bool" where
  "result_typed x \<longleftrightarrow> cx_execution_status x \<in> {''executed'', ''runtime_unavailable'', ''refused'', ''failed''} \<and>
    cx_handoff_kind x \<in> {'''', ''read_only'', ''validation'', ''mutation_proposal_only'', ''refusal''} \<and>
    (cx_emission_sha256 x = '''' \<or> digest_text (cx_emission_sha256 x)) \<and>
    (cx_handoff_digest x = '''' \<or> digest_text (cx_handoff_digest x)) \<and>
    0 \<le> cx_emission_byte_count x \<and> 0 \<le> cx_latency_ms x \<and> (cx_proposal_only x \<longrightarrow> cx_execution_status x = ''executed'')"

lemma digest_of_hash: "execution_env_ok env \<Longrightarrow> digest_text (''sha256:'' @ x_hex env s)"
  by (simp add: execution_env_ok_def digest_text_def startswith_def)

lemma handoff_digest_text: "execution_env_ok env \<Longrightarrow> digest_text (handoff_digest env h)"
  by (simp add: execution_env_ok_def handoff_digest_def)

lemma refused_typed: "execution_env_ok env \<Longrightarrow> result_typed (refused_result env q d code reason)"
  by (simp add: result_typed_def refused_result_def plain_result_def handoff_digest_text Let_def)

lemma refusals_typed:
  assumes "execution_env_ok env"
  shows "result_typed (tool_not_in_manifest_result env q d)" "result_typed (receipt_binding_refused_result env q d a b)"
    "result_typed (receipt_not_found_result env q d)"
  using refused_typed [OF assms] by (simp_all add: tool_not_in_manifest_result_def receipt_binding_refused_result_def
      receipt_not_found_result_def result_typed_def)

lemma unexecuted_typed:
  assumes "execution_env_ok env"
  shows "runtime_unavailable_result env now ok q d ledger = (ledger', Inr x) \<Longrightarrow> result_typed x"
    and "execution_failed_result env now ok q d ledger = (ledger', Inr x) \<Longrightarrow> result_typed x"
  by (auto simp: runtime_unavailable_result_def execution_failed_result_def plain_result_def result_typed_def dest!: recorded_result_Inr)

lemma malformed_typed:
  assumes "execution_env_ok env" and "sha = '''' \<or> digest_text sha"
    and "malformed_emission_result env now ok q d sha raw ledger = (ledger', Inr x)"
  shows "result_typed x"
proof -
  have "x = (refused_result env q d ''malformed_inline_syntax'' ''Model emission was not valid JSON'')
      \<lparr>cx_emission_sha256 := sha, cx_emission_byte_count := x_byte_count env raw, cx_evidence_event_count := event_count ledger\<rparr>"
    using assms(3) by (auto simp: malformed_emission_result_def dest!: recorded_result_Inr)
  moreover have "0 \<le> x_byte_count env raw" using assms(1) by (simp add: execution_env_ok_def)
  ultimately show ?thesis using refused_typed [OF assms(1)] assms(2) by (simp add: result_typed_def)
qed

lemma handoff_kinds: "handoff_kind h \<in> {''read_only'', ''validation'', ''mutation_proposal_only'', ''refusal''}"
  by (cases h) simp_all

lemma executed_typed:
  assumes "execution_env_ok env" and "sha = '''' \<or> digest_text sha" and "0 \<le> cm_byte_count cm" and "0 \<le> cm_latency_ms cm"
    and "executed_result env q m r cm d enforced durable sha n e h = Inr x"
  shows "result_typed x"
  using assms handoff_kinds [of h] by (auto simp: executed_result_def result_typed_def handoff_digest_text split: option.splits)

lemma completion_of_answer:
  assumes "call_local_runtime env ans = Some cm"
  shows "cm_completion_sha256 cm = x_hex env (cm_content cm)" "cm_byte_count cm = x_byte_count env (cm_content cm)"
    "\<exists>status body. ans = Response status body (cm_latency_ms cm)"
proof -
  from assms obtain body latency where ans: "ans = Response 200 (Some body) latency"
    by (cases ans) (auto simp: call_local_runtime_def bind_eq_Some_conv split: if_splits)
  with assms obtain b where object: "object_of body = Some b" by (cases "object_of body") (simp_all add: call_local_runtime_def)
  with assms ans obtain cs where cs: "jget_or b ''choices'' (JList []) = JList cs"
    by (cases "jget_or b ''choices'' (JList [])") (simp_all add: call_local_runtime_def)
  with assms ans object obtain choice choices where "cs = choice # choices" by (cases cs) (simp_all add: call_local_runtime_def)
  note b = object cs [unfolded this]
  from assms show "cm_completion_sha256 cm = x_hex env (cm_content cm)" "cm_byte_count cm = x_byte_count env (cm_content cm)"
    "\<exists>status body. ans = Response status body (cm_latency_ms cm)"
    by (auto simp: call_local_runtime_def bind_eq_Some_conv ans b)
qed

lemma handled_typed:
  assumes "execution_env_ok env" and "answers_ok post" and "call_local_runtime env (post u p) = Some cm"
    and "handle_successful_execution env now now' ok q m r cm d enforced durable ledger = (ledger', Inr x)"
  shows "result_typed x"
proof -
  let ?sha = "if cm_completion_sha256 cm = '''' then '''' else ''sha256:'' @ cm_completion_sha256 cm"
  note cm = completion_of_answer [OF assms(3)]
  have sha: "?sha = '''' \<or> digest_text ?sha" using digest_of_hash [OF assms(1)] by (simp add: cm(1))
  have "0 \<le> cm_byte_count cm" using assms(1) by (simp add: cm(2) execution_env_ok_def)
  moreover have "0 \<le> cm_latency_ms cm" using assms(2) cm(3) by (fastforce simp: answers_ok_def split: runtime_answer.splits)
  ultimately show ?thesis
    using assms(4) malformed_typed [OF assms(1) sha] executed_typed [OF assms(1) sha]
    by (auto simp: handle_successful_execution_def and_then_Inr_iff Let_def split: option.splits sum.splits prod.splits)
qed

lemma result_typed:
  assumes "execution_env_ok env" and "answers_ok post"
    and "execute_constrained_recovery env post now now' now'' ok q m supplied ledger receipt_ledger available = (sent, ledger', Inr x)"
  shows "result_typed x"
proof (cases "sent = []")
  case True
  have refusing: "load_canonical_or_refuse env q d ls supplied = Inr (Inl r) \<Longrightarrow> result_typed r" for d ls r
    using refusals_typed [OF assms(1)] by (auto simp: load_canonical_or_refuse_def and_then_Inr_iff split: option.splits if_splits)
  with assms(3) True refusals_typed [OF assms(1)] unexecuted_typed [OF assms(1)] show ?thesis
    by (auto simp: execute_constrained_recovery_def Let_def split: if_splits sum.splits option.splits prod.splits)
next
  case False
  from execute_sent_only [OF assms(3) this] obtain e r
    where e: "next_or_none (\<lambda>e. te_canonical_name e = cq_target_tool_name q) (ms_admitted_tools m) = Some e"
      and r: "bound_receipt env supplied receipt_ledger r" and available by blast
  with assms(3) have run: "execute_constrained_recovery env post now now' now'' ok q m supplied ledger receipt_ledger True = (sent, ledger', Inr x)"
    by simp
  show ?thesis
    using run [unfolded execute_admitted [OF e r] Let_def] False unexecuted_typed(2) [OF assms(1)] handled_typed [OF assms(1,2)]
    by (auto split: if_splits option.splits)
qed

section \<open>Events of emissions\<close>

lemma checked_Nil: "checked f [] = Inr ()" by (simp add: checked_def)

lemma checked_error: "fold (\<lambda>x out. and_then out (\<lambda>_. f x)) xs (Inl err) = Inl err"
  by (induction xs) simp_all

lemma checked_Inr: "checked f xs = Inr u \<longleftrightarrow> (\<forall>x \<in> set xs. f x = Inr ())"
proof (induction xs)
  case (Cons x xs)
  then show ?case by (cases "f x") (auto simp: checked_def checked_error)
qed (simp add: checked_def)

lemma check_digest_text: "check_digest (JStr s) = Inr () \<longleftrightarrow> s = '''' \<or> digest_text s"
  by (auto simp: check_digest_def)

lemma emission_event_get:
  fixes env now i mh r
  defines "e \<equiv> build_captured_emission_event env now i mh r"
  shows "list_all (\<lambda>k. dict_get e k \<noteq> None) [''schema_version'', ''event_id'', ''created_at'', ''execution_id'', ''execution_status'']"
    and "jget e ''schema_version'' = JStr EMISSION_SCHEMA" and "jget e ''execution_status'' = JStr (cx_execution_status r)"
    and "jget_or e ''emission_sha256'' dflt = JStr (cx_emission_sha256 r)" and "jget_or e ''handoff_digest'' dflt = JStr (cx_handoff_digest r)"
    and "\<exists>v. jget_or e ''event_digest'' dflt = JStr (vl_sha (x_evaluation env) v)"
    and "jget_or e ''emission_byte_count'' dflt = JInt (cx_emission_byte_count r)"
    and "jget_or e ''output_token_count'' dflt = JInt (cx_output_token_count r)"
    and "jget_or e ''input_token_count'' dflt = JInt (cx_input_token_count r)" and "jget_or e ''latency_ms'' dflt = JInt (cx_latency_ms r)"
    and "jget e ''proposal_only'' = JBool (cx_proposal_only r)"
    and "\<exists>b. jget e ''json_schema_enforcement_available'' = JBool b" and "\<exists>b. jget e ''json_schema_enforcement_exercised'' = JBool b"
  by (auto simp: e_def build_captured_emission_event_def jget_def jget_or_def dict_get_def Let_def)

lemma emission_event_valid:
  assumes "\<forall>v. digest_text (vl_sha (x_evaluation env) v)"
  shows "validate_captured_emission_event (build_captured_emission_event env now i mh r) = Inr () \<longleftrightarrow>
    cx_execution_status r \<in> {''executed'', ''runtime_unavailable'', ''refused'', ''failed''} \<and>
    (cx_emission_sha256 r = '''' \<or> digest_text (cx_emission_sha256 r)) \<and> (cx_handoff_digest r = '''' \<or> digest_text (cx_handoff_digest r)) \<and>
    0 \<le> cx_emission_byte_count r \<and> 0 \<le> cx_output_token_count r \<and> 0 \<le> cx_input_token_count r \<and> 0 \<le> cx_latency_ms r"
proof -
  define e where "e = build_captured_emission_event env now i mh r"
  note get = emission_event_get [where env = env and now = now and i = i and mh = mh and r = r, folded e_def]
  have digest: "check_digest (jget_or e ''event_digest'' (JStr '''')) = Inr ()"
    using get(6) [of "JStr ''''"] assms check_digest_text by metis
  have digests: "checked (\<lambda>k. check_digest (jget_or e k (JStr ''''))) [''emission_sha256'', ''handoff_digest'', ''event_digest''] = Inr u \<longleftrightarrow>
      (cx_emission_sha256 r = '''' \<or> digest_text (cx_emission_sha256 r)) \<and> (cx_handoff_digest r = '''' \<or> digest_text (cx_handoff_digest r))" for u
    by (simp add: checked_Inr check_digest_text digest get)
  have counts: "checked (\<lambda>k. check_count (jget_or e k (JInt 0)))
      [''emission_byte_count'', ''output_token_count'', ''input_token_count'', ''latency_ms''] = Inr u \<longleftrightarrow>
      0 \<le> cx_emission_byte_count r \<and> 0 \<le> cx_output_token_count r \<and> 0 \<le> cx_input_token_count r \<and> 0 \<le> cx_latency_ms r" for u
    by (simp add: checked_Inr check_count_def get not_less)
  have flags: "checked (\<lambda>k. check_flag (jget e k))
      [''proposal_only'', ''json_schema_enforcement_available'', ''json_schema_enforcement_exercised''] = Inr u" for u
    using get(11-13) by (auto simp: checked_Inr check_flag_def)
  show ?thesis
    unfolding e_def [symmetric] validate_captured_emission_event_def
    using get(1) by (auto simp: get(2,3) and_then_Inr_iff digests counts flags)
qed

text \<open>Whatever the runtime answers, a result of an execution has one of the four statuses and one of the four
  handoff kinds or none, only an executed one is a proposal, and its emission event is accepted by the
  validation exactly when the token counts that the runtime reported are not negative.\<close>

theorem execution_result_typed:
  assumes "execution_env_ok env" and "answers_ok post"
    and "execute_constrained_recovery env post now now' now'' ok q m supplied ledger receipt_ledger available = (sent, ledger', Inr x)"
  shows "cx_execution_status x \<in> {''executed'', ''runtime_unavailable'', ''refused'', ''failed''} \<and>
    cx_handoff_kind x \<in> {'''', ''read_only'', ''validation'', ''mutation_proposal_only'', ''refusal''} \<and>
    (cx_proposal_only x \<longrightarrow> cx_execution_status x = ''executed'') \<and>
    (validate_captured_emission_event (build_captured_emission_event env t i mh x) = Inr () \<longleftrightarrow>
      0 \<le> cx_output_token_count x \<and> 0 \<le> cx_input_token_count x)"
  using result_typed [OF assms] emission_event_valid [of env t i mh x] assms(1)
  by (simp add: result_typed_def execution_env_ok_def)

lemma corpus_iff:
  "(\<exists>es. emission_corpus env text model i rs = Inr es) \<longleftrightarrow>
    (\<forall>j < length rs. validate_captured_emission_event
      (build_captured_emission_event env (fst (rs ! j)) (''corpus-'' @ text (i + j)) model (snd (rs ! j))) = Inr ())"
proof (induction rs arbitrary: i)
  case (Cons nr rs)
  obtain now r where nr: "nr = (now, r)" by fastforce
  have "(\<exists>es. emission_corpus env text model i ((now, r) # rs) = Inr es) \<longleftrightarrow>
      validate_captured_emission_event (build_captured_emission_event env now (''corpus-'' @ text i) model r) = Inr () \<and>
      (\<exists>es. emission_corpus env text model (Suc i) rs = Inr es)"
    by (auto simp: and_then_Inr_iff Let_def)
  also have "\<dots> \<longleftrightarrow> (\<forall>j < length ((now, r) # rs). validate_captured_emission_event (build_captured_emission_event env
      (fst (((now, r) # rs) ! j)) (''corpus-'' @ text (i + j)) model (snd (((now, r) # rs) ! j))) = Inr ())"
    unfolding Cons.IH by (simp add: All_less_Suc2)
  finally show ?case by (simp only: nr)
qed simp

section \<open>What the reports say\<close>

text \<open>A result of some execution over a manifest.\<close>

definition result_of_execution :: "execution_env \<Rightarrow> CanonicalToolSurfaceManifest \<Rightarrow> ConstrainedExecutionResult \<Rightarrow> bool" where
  "result_of_execution env m x \<longleftrightarrow> (\<exists>post now now' now'' ok q supplied ledger receipt_ledger available sent ledger'. answers_ok post \<and>
    execute_constrained_recovery env post now now' now'' ok q m supplied ledger receipt_ledger available = (sent, ledger', Inr x))"

lemma count_result_simps [simp]:
  "sx_executed (count_result r st) = sx_executed st + (if cx_execution_status r = ''executed'' then 1 else 0)"
  "sx_refused (count_result r st) = sx_refused st + (if cx_execution_status r = ''refused'' then 1 else 0)"
  "sx_unavailable (count_result r st) = sx_unavailable st + (if cx_execution_status r = ''runtime_unavailable'' then 1 else 0)"
  "sx_failed (count_result r st) = sx_failed st +
    (if cx_execution_status r \<in> {''executed'', ''refused'', ''runtime_unavailable''} then 0 else 1)"
  "sx_proposal_only_count (count_result r st) = sx_proposal_only_count st + (if cx_proposal_only r then 1 else 0)"
  "sx_captured_local_count (count_result r st) = sx_captured_local_count st + (if cx_execution_status r = ''executed'' then 1 else 0)"
  by (simp_all add: count_result_def count_disposition_def count_status_def Let_def split: option.split)

lemma aggregate_counts:
  "sx_executed (fold count_result rs st) = sx_executed st + int (length (filter (\<lambda>r. cx_execution_status r = ''executed'') rs))"
  "sx_captured_local_count (fold count_result rs st) = sx_captured_local_count st +
    int (length (filter (\<lambda>r. cx_execution_status r = ''executed'') rs))"
  "sx_proposal_only_count (fold count_result rs st) = sx_proposal_only_count st + int (length (filter cx_proposal_only rs))"
  by (induction rs arbitrary: st) simp_all

lemma aggregate_total:
  "sx_executed (fold count_result rs st) + sx_failed (fold count_result rs st) + sx_refused (fold count_result rs st) +
    sx_unavailable (fold count_result rs st) = sx_executed st + sx_failed st + sx_refused st + sx_unavailable st + int (length rs)"
  by (induction rs arbitrary: st) auto

lemma projection_get:
  assumes "rs \<noteq> []"
  shows "jget (build_d2_operations_projection env pid now rs m receipt) ''mutation_proposal_only_invariant'' = JBool (proposal_only_preserved rs)"
    and "jget (build_d2_operations_projection env pid now rs m receipt) ''executed_count'' = JInt (sx_executed (aggregate_execution_stats rs))"
    and "jget (build_d2_operations_projection env pid now rs m receipt) ''captured_local_model_emission_count'' =
      JInt (sx_captured_local_count (aggregate_execution_stats rs))"
  using assms by (simp_all add: build_d2_operations_projection_def jget_def dict_get_def Let_def)

lemma proposals_handed_off:
  assumes "build_tool_surface_manifest sha tools = Inr (Inr m)" and "wf_dict tools" and "execution_env_ok env"
    and "result_of_execution env m x" and "cx_proposal_only x"
  shows "cx_handoff_kind x = ''mutation_proposal_only''"
proof -
  from assms(4) obtain post now now' now'' ok q supplied ledger receipt_ledger available sent ledger' where "answers_ok post"
    and run: "execute_constrained_recovery env post now now' now'' ok q m supplied ledger receipt_ledger available = (sent, ledger', Inr x)"
    by (auto simp: result_of_execution_def)
  with result_typed [OF assms(3)] assms(5) have "cx_execution_status x = ''executed''" by (fastforce simp: result_typed_def)
  from handoff_registry [OF assms(1,2) run this] assms(5) show ?thesis by (auto simp: Let_def)
qed

text \<open>For results of executions over a manifest built from a registry, the projection reports that mutations stay
  proposals exactly when one of the results is a proposal: the other half of its test never fails, and a run without
  proposals reports that the invariant does not hold.\<close>

theorem projected_invariant_iff:
  assumes "build_tool_surface_manifest sha tools = Inr (Inr m)" and "wf_dict tools" and "execution_env_ok env"
    and "\<forall>r \<in> set rs. result_of_execution env m r" and "rs \<noteq> []"
  shows "jget (build_d2_operations_projection env pid now rs m receipt) ''mutation_proposal_only_invariant'' =
      JBool (\<exists>r \<in> set rs. cx_proposal_only r) \<and>
    jget (build_d2_operations_projection env pid now rs m receipt) ''captured_local_model_emission_count'' =
      jget (build_d2_operations_projection env pid now rs m receipt) ''executed_count''"
proof -
  have "list_all (\<lambda>r. cx_handoff_kind r = ''mutation_proposal_only'') (filter cx_proposal_only rs)"
    using proposals_handed_off [OF assms(1-3)] assms(4) by (auto simp: list_all_iff)
  moreover have "sx_proposal_only_count (aggregate_execution_stats rs) > 0 \<longleftrightarrow> (\<exists>r \<in> set rs. cx_proposal_only r)"
    by (simp add: aggregate_execution_stats_def aggregate_counts filter_empty_conv)
  ultimately show ?thesis
    using assms(5) by (simp add: projection_get proposal_only_preserved_def aggregate_execution_stats_def aggregate_counts)
qed

text \<open>A corpus of emission events over results of executions is built exactly when no runtime reported a negative
  token count; one such result leaves no corpus at all.\<close>

theorem corpus_built_iff:
  assumes "execution_env_ok env" and "\<forall>(t, r) \<in> set rs. \<exists>m. result_of_execution env m r"
  shows "(\<exists>es. build_captured_emission_corpus env text model rs = Inr es) \<longleftrightarrow>
    (\<forall>(t, r) \<in> set rs. 0 \<le> cx_output_token_count r \<and> 0 \<le> cx_input_token_count r)"
proof -
  have valid: "validate_captured_emission_event (build_captured_emission_event env t i model r) = Inr () \<longleftrightarrow>
      0 \<le> cx_output_token_count r \<and> 0 \<le> cx_input_token_count r" if "(t', r) \<in> set rs" for t t' i r
  proof -
    from assms(2) that have "result_typed r" using result_typed [OF assms(1)] by (fastforce simp: result_of_execution_def)
    then show ?thesis using assms(1) by (simp add: emission_event_valid result_typed_def execution_env_ok_def)
  qed
  have "(\<exists>es. build_captured_emission_corpus env text model rs = Inr es) \<longleftrightarrow>
      (\<forall>j < length rs. 0 \<le> cx_output_token_count (snd (rs ! j)) \<and> 0 \<le> cx_input_token_count (snd (rs ! j)))"
    unfolding build_captured_emission_corpus_def corpus_iff by (metis nth_mem prod.collapse valid)
  then show ?thesis by (auto simp: all_set_conv_all_nth case_prod_beta)
qed

section \<open>Examples\<close>

definition demo_report_env :: execution_env where
  "demo_report_env = demo_execution_env (ce_sha demo_constraint_env)"

lemma demo_report_env_ok: "execution_env_ok demo_report_env"
  by (simp add: demo_report_env_def execution_env_ok_def demo_execution_env_def demo_constraint_env_def digest_text_def startswith_def)

lemma demo_answers_ok: "answers_ok (demo_post text)"
  by (simp add: answers_ok_def demo_post_def)

lemma demo_report_executed:
  "executed_with ''mutation_proposal_only'' (snd (demo_execution (ce_sha demo_constraint_env) ''{}'' example_manifest))"
  by code_simp

definition demo_result :: ConstrainedExecutionResult where
  "demo_result = projr (snd (snd (demo_execution (ce_sha demo_constraint_env) ''{}'' example_manifest)))"

lemma demo_result_run:
  obtains sent ledger' where "execute_constrained_recovery demo_report_env (demo_post ''{}'') 0 0 0 True
      demo_execution_request example_manifest demo_compiled (Some []) None True = (sent, ledger', Inr demo_result)"
  by (rule executed_with_result [OF demo_report_executed]) (auto simp: demo_result_def demo_report_env_def)

lemma demo_result_of: "result_of_execution demo_report_env example_manifest demo_result"
  using demo_result_run demo_answers_ok unfolding result_of_execution_def by metis

theorem execution_result_typed_witness:
  "cx_execution_status demo_result \<in> {''executed'', ''runtime_unavailable'', ''refused'', ''failed''} \<and>
    (validate_captured_emission_event (build_captured_emission_event demo_report_env 0 ''e'' '''' demo_result) = Inr () \<longleftrightarrow>
      0 \<le> cx_output_token_count demo_result \<and> 0 \<le> cx_input_token_count demo_result)"
  by (rule demo_result_run) (use execution_result_typed [OF demo_report_env_ok demo_answers_ok] in blast)

theorem projected_invariant_iff_witness:
  "jget (build_d2_operations_projection demo_report_env ''p'' 0 [demo_result] example_manifest demo_compiled)
      ''mutation_proposal_only_invariant'' = JBool (cx_proposal_only demo_result)"
  using projected_invariant_iff [OF example_registry example_tools_wf demo_report_env_ok, of "[demo_result]"] demo_result_of by simp

theorem corpus_built_iff_witness:
  "(\<exists>es. build_captured_emission_corpus demo_report_env (\<lambda>n. ''00'') '''' [(0, demo_result)] = Inr es) \<longleftrightarrow>
    0 \<le> cx_output_token_count demo_result \<and> 0 \<le> cx_input_token_count demo_result"
  using corpus_built_iff [OF demo_report_env_ok, of "[(0, demo_result)]" "\<lambda>n. ''00''" "''''"] demo_result_of by auto

end
