(* ===== verification/Capability_Admission.thy ===== *)
theory Capability_Admission
  imports Execution_Reports
begin

text \<open>
  Admission of a runtime for a class of constraints, \<^verbatim>\<open>rig_relay/recovery/capability_admission.py\<close>: what
  executions demonstrate is gathered in a disposition, dispositions are registered with the service, and a query
  is admitted against one of them.  The reasons and recommendations of a decision, texts for people, are left
  out; times are their texts, and \<open>text\<close> is the text of a number with two digits.
\<close>

section \<open>Models\<close>

datatype EnforcementClass = UNSUPPORTED_CLASS | JSON_OBJECT_FORMATTING_ONLY | NATIVE_JSON_SCHEMA | NATIVE_GRAMMAR_GBNF

fun class_name :: "EnforcementClass \<Rightarrow> string" where
  "class_name UNSUPPORTED_CLASS = ''unsupported''"
| "class_name JSON_OBJECT_FORMATTING_ONLY = ''json_object_formatting_only''"
| "class_name NATIVE_JSON_SCHEMA = ''native_json_schema''"
| "class_name NATIVE_GRAMMAR_GBNF = ''native_grammar_gbnf''"

fun enforcement_rank :: "EnforcementClass \<Rightarrow> nat" where
  "enforcement_rank UNSUPPORTED_CLASS = 0"
| "enforcement_rank JSON_OBJECT_FORMATTING_ONLY = 1"
| "enforcement_rank NATIVE_JSON_SCHEMA = 2"
| "enforcement_rank NATIVE_GRAMMAR_GBNF = 3"

record ConstraintCapabilityDisposition =
  cd_disposition_id :: string
  cd_created_at :: string
  cd_runtime_kind :: string
  cd_runtime_endpoint_hash :: string
  cd_model_name_hash :: string
  cd_enforced_mechanism :: string
  cd_highest_class :: EnforcementClass
  cd_json_object_demonstrated :: bool
  cd_json_schema_demonstrated :: bool
  cd_receipt_bound :: bool
  cd_grammar_demonstrated :: bool
  cd_captured :: bool
  cd_proof_event_ids :: "string list"
  cd_proof_run_count :: int
  cd_curated_fixture_run_count :: int
  cd_proposal_only_preserved :: bool
  cd_constraint_receipt_digest :: string
  cd_manifest_digest :: string
  cd_enforced_schema_digests :: "string list"

record CapabilityAdmissionDecision =
  ca_decision_id :: string
  ca_created_at :: string
  ca_requested_class :: EnforcementClass
  ca_runtime_capable :: bool
  ca_disposition_digest :: string
  ca_events_referenced :: "string list"
  ca_captured :: bool
  ca_stronger_mechanism_unavailable :: bool

record CapabilityQuery =
  qc_query_id :: string
  qc_required_class :: EnforcementClass
  qc_require_captured :: bool
  qc_require_receipt_bound :: bool
  qc_allow_curated_fixtures :: bool

definition disposition_dump :: "ConstraintCapabilityDisposition \<Rightarrow> jdict" where
  "disposition_dump d =
    [(''schema_version'', JStr ''rig.relay.constraint_capability_disposition.v1''), (''disposition_id'', JStr (cd_disposition_id d)),
     (''created_at'', JStr (cd_created_at d)), (''runtime_kind'', JStr (cd_runtime_kind d)),
     (''runtime_endpoint_hash'', JStr (cd_runtime_endpoint_hash d)), (''model_name_hash'', JStr (cd_model_name_hash d)),
     (''enforced_mechanism'', JStr (cd_enforced_mechanism d)),
     (''highest_enforcement_class_demonstrated'', JStr (class_name (cd_highest_class d))),
     (''json_object_formatting_demonstrated'', JBool (cd_json_object_demonstrated d)),
     (''json_schema_enforcement_demonstrated'', JBool (cd_json_schema_demonstrated d)),
     (''json_schema_enforcement_receipt_bound'', JBool (cd_receipt_bound d)), (''grammar_enforcement_demonstrated'', JBool (cd_grammar_demonstrated d)),
     (''evidence_from_captured_local_model'', JBool (cd_captured d)), (''proof_event_ids'', JList (map JStr (cd_proof_event_ids d))),
     (''proof_run_count'', JInt (cd_proof_run_count d)), (''curated_fixture_run_count'', JInt (cd_curated_fixture_run_count d)),
     (''proposal_only_mutation_preserved'', JBool (cd_proposal_only_preserved d)),
     (''constraint_receipt_digest'', JStr (cd_constraint_receipt_digest d)), (''manifest_digest'', JStr (cd_manifest_digest d)),
     (''enforced_schema_digests'', JList (map JStr (cd_enforced_schema_digests d)))]"

definition compute_disposition_digest :: "execution_env \<Rightarrow> ConstraintCapabilityDisposition \<Rightarrow> string" where
  "compute_disposition_digest env d = vl_sha (x_evaluation env) (canon (JObj (disposition_dump d)))"

section \<open>Admission\<close>

text \<open>A decision without evidence, and one on a disposition.\<close>

definition no_evidence_decision :: "string \<Rightarrow> CapabilityQuery \<Rightarrow> CapabilityAdmissionDecision" where
  "no_evidence_decision now q =
    \<lparr>ca_decision_id = ''dec_'' @ qc_query_id q, ca_created_at = now, ca_requested_class = qc_required_class q, ca_runtime_capable = False,
     ca_disposition_digest = '''', ca_events_referenced = [], ca_captured = False, ca_stronger_mechanism_unavailable = True\<rparr>"

definition evidence_decision ::
  "execution_env \<Rightarrow> string \<Rightarrow> ConstraintCapabilityDisposition \<Rightarrow> CapabilityQuery \<Rightarrow> bool \<Rightarrow> bool \<Rightarrow> bool \<Rightarrow> CapabilityAdmissionDecision" where
  "evidence_decision env now d q capable captured stronger_unavailable = (no_evidence_decision now q)
     \<lparr>ca_runtime_capable := capable, ca_disposition_digest := compute_disposition_digest env d,
      ca_events_referenced := cd_proof_event_ids d, ca_captured := captured, ca_stronger_mechanism_unavailable := stronger_unavailable\<rparr>"

definition admit_one :: "execution_env \<Rightarrow> string \<Rightarrow> ConstraintCapabilityDisposition \<Rightarrow> CapabilityQuery \<Rightarrow> CapabilityAdmissionDecision" where
  "admit_one env now d q =
    (let demonstrated = enforcement_rank (cd_highest_class d); required = enforcement_rank (qc_required_class q)
     in if \<not> cd_captured d \<and> qc_require_captured q then evidence_decision env now d q False False True
        else if qc_require_receipt_bound q \<and> qc_required_class q \<in> {NATIVE_JSON_SCHEMA, NATIVE_GRAMMAR_GBNF} \<and> \<not> cd_receipt_bound d
        then evidence_decision env now d q False (cd_captured d) True
        else if demonstrated < required then evidence_decision env now d q False (cd_captured d) (\<not> demonstrated < 2)
        else evidence_decision env now d q True (cd_captured d) True)"

type_synonym capability_service = "(string, ConstraintCapabilityDisposition) dict"

definition register_disposition :: "ConstraintCapabilityDisposition \<Rightarrow> capability_service \<Rightarrow> capability_service" where
  "register_disposition d svc = dict_set (cd_disposition_id d) d svc"

text \<open>\<^verbatim>\<open>disposition_id or sorted(keys)[-1]\<close>: no identifier, or the empty one, is the greatest.\<close>

definition target_id :: "capability_service \<Rightarrow> string option \<Rightarrow> string" where
  "target_id svc i = (case i of Some s \<Rightarrow> if s = '''' then last (sort (map fst svc)) else s | None \<Rightarrow> last (sort (map fst svc)))"

definition admit_capability ::
  "execution_env \<Rightarrow> string \<Rightarrow> CapabilityQuery \<Rightarrow> string option \<Rightarrow> capability_service \<Rightarrow> CapabilityAdmissionDecision" where
  "admit_capability env now q i svc =
    (if svc = [] then no_evidence_decision now q
     else case dict_get svc (target_id svc i) of
       None \<Rightarrow> no_evidence_decision now q
     | Some d \<Rightarrow> admit_one env now d q)"

text \<open>A stable sort, latest first.\<close>

definition list_dispositions :: "capability_service \<Rightarrow> ConstraintCapabilityDisposition list" where
  "list_dispositions svc = rev (sort_key cd_created_at (rev (dict_values svc)))"

definition capability_query :: "string \<Rightarrow> EnforcementClass \<Rightarrow> bool \<Rightarrow> CapabilityQuery" where
  "capability_query i c captured = \<lparr>qc_query_id = i, qc_required_class = c, qc_require_captured = captured,
     qc_require_receipt_bound = True, qc_allow_curated_fixtures = False\<rparr>"

definition query_capability ::
  "execution_env \<Rightarrow> string \<Rightarrow> string \<Rightarrow> EnforcementClass \<Rightarrow> bool \<Rightarrow> capability_service \<Rightarrow> CapabilityAdmissionDecision" where
  "query_capability env now i c captured svc = admit_capability env now (capability_query i c captured) None svc"

section \<open>What executions demonstrate\<close>

record demonstration =
  dm_captured_count :: int
  dm_curated_count :: int
  dm_json_object :: bool
  dm_json_schema :: bool
  dm_receipt_bound :: bool
  dm_grammar :: bool
  dm_proposal_only :: bool
  dm_proof_ids :: "string list"
  dm_enforced_mechanism :: string
  dm_schema_digests :: "string list"

definition captured_result :: "ConstrainedExecutionResult \<Rightarrow> bool" where
  "captured_result r \<longleftrightarrow> cx_emission_source_kind r = ''captured_local_model'' \<or>
    cx_emission_source_kind r = '''' \<and> cx_emission_sha256 r \<noteq> '''' \<and> cx_output_token_count r > 0"

definition receipt_bound_result :: "ConstrainedExecutionResult \<Rightarrow> bool" where
  "receipt_bound_result r \<longleftrightarrow> cx_enforced_schema_digest r \<noteq> '''' \<and> cx_constraint_receipt_digest r \<noteq> '''' \<and>
    cx_receipt_loaded_from_durable_evidence r"

definition demonstrate_mechanism :: "ConstraintEnforcementDisposition option \<Rightarrow> demonstration \<Rightarrow> demonstration" where
  "demonstrate_mechanism disp st =
    (case disp of None \<Rightarrow> st
     | Some d \<Rightarrow> st\<lparr>dm_json_schema := dm_json_schema st \<or> ce_json_schema_enforcement_exercised d,
         dm_enforced_mechanism := (if ce_json_schema_enforcement_exercised d \<and> ce_enforced_mechanism d \<noteq> '''' then ce_enforced_mechanism d
            else dm_enforced_mechanism st),
         dm_json_object := dm_json_object st \<or> ce_json_object_enforcement_exercised d,
         dm_grammar := dm_grammar st \<or> ce_grammar_enforcement_exercised d\<rparr>)"

definition demonstrate ::
  "string \<Rightarrow> (nat \<Rightarrow> string) \<Rightarrow> nat \<times> ConstrainedExecutionResult \<Rightarrow> demonstration \<Rightarrow> demonstration" where
  "demonstrate disposition_id text ir st =
    (let (i, r) = ir
     in if cx_execution_status r \<noteq> ''executed'' then st
        else
          let st1 = (if captured_result r
                then st\<lparr>dm_captured_count := dm_captured_count st + 1,
                  dm_proof_ids := dm_proof_ids st @ [''proof_'' @ disposition_id @ ''_'' @ text i]\<rparr>
                else st\<lparr>dm_curated_count := dm_curated_count st + 1\<rparr>);
              st2 = (if receipt_bound_result r
                then st1\<lparr>dm_receipt_bound := True, dm_schema_digests := dm_schema_digests st1 @ [cx_enforced_schema_digest r]\<rparr> else st1);
              st3 = demonstrate_mechanism (cx_disposition r) st2
          in if cx_proposal_only r then st3\<lparr>dm_proposal_only := True\<rparr> else st3)"

definition demonstrated ::
  "string \<Rightarrow> (nat \<Rightarrow> string) \<Rightarrow> ConstrainedExecutionResult list \<Rightarrow> demonstration" where
  "demonstrated disposition_id text rs = fold (demonstrate disposition_id text) (zip [0..<length rs] rs)
    \<lparr>dm_captured_count = 0, dm_curated_count = 0, dm_json_object = False, dm_json_schema = False, dm_receipt_bound = False,
     dm_grammar = False, dm_proposal_only = False, dm_proof_ids = [], dm_enforced_mechanism = '''', dm_schema_digests = []\<rparr>"

definition build_constraint_capability_disposition ::
  "execution_env \<Rightarrow> (nat \<Rightarrow> string) \<Rightarrow> string \<Rightarrow> string \<Rightarrow> string \<Rightarrow> string \<Rightarrow> string \<Rightarrow> string \<Rightarrow> string \<Rightarrow>
    ConstrainedExecutionResult list \<Rightarrow> ConstraintCapabilityDisposition" where
  "build_constraint_capability_disposition env text now disposition_id runtime_kind endpoint model_name receipt_digest manifest_digest rs =
    (let st = demonstrated disposition_id text rs
     in \<lparr>cd_disposition_id = disposition_id, cd_created_at = now, cd_runtime_kind = runtime_kind,
         cd_runtime_endpoint_hash = ''sha256:'' @ x_hex env endpoint,
         cd_model_name_hash = (if model_name = '''' then '''' else ''sha256:'' @ x_hex env model_name),
         cd_enforced_mechanism = dm_enforced_mechanism st,
         cd_highest_class = (if dm_json_schema st then NATIVE_JSON_SCHEMA
            else if dm_json_object st then JSON_OBJECT_FORMATTING_ONLY else UNSUPPORTED_CLASS),
         cd_json_object_demonstrated = dm_json_object st, cd_json_schema_demonstrated = dm_json_schema st,
         cd_receipt_bound = dm_receipt_bound st, cd_grammar_demonstrated = dm_grammar st, cd_captured = (dm_captured_count st > 0),
         cd_proof_event_ids = dm_proof_ids st, cd_proof_run_count = dm_captured_count st,
         cd_curated_fixture_run_count = dm_curated_count st, cd_proposal_only_preserved = dm_proposal_only st,
         cd_constraint_receipt_digest = receipt_digest, cd_manifest_digest = manifest_digest,
         cd_enforced_schema_digests = dm_schema_digests st\<rparr>)"

section \<open>The capability projection\<close>

record capability_totals =
  ct_classes :: "(string, int) dict"
  ct_captured :: int
  ct_curated :: int
  ct_proposal_preserved :: int
  ct_runtimes :: "json list"

definition count_capability :: "ConstraintCapabilityDisposition \<Rightarrow> capability_totals \<Rightarrow> capability_totals" where
  "count_capability d st =
    (let cls = class_name (cd_highest_class d)
     in \<lparr>ct_classes = dict_set cls ((case dict_get (ct_classes st) cls of None \<Rightarrow> 0 | Some n \<Rightarrow> n) + 1) (ct_classes st),
         ct_captured = ct_captured st + cd_proof_run_count d, ct_curated = ct_curated st + cd_curated_fixture_run_count d,
         ct_proposal_preserved = ct_proposal_preserved st + (if cd_proposal_only_preserved d then 1 else 0),
         ct_runtimes = ct_runtimes st @ [JObj
           [(''disposition_id'', JStr (cd_disposition_id d)), (''runtime_kind'', JStr (cd_runtime_kind d)),
            (''model_name_hash'', JStr (cd_model_name_hash d)), (''highest_class'', JStr cls),
            (''json_schema_demonstrated'', JBool (cd_json_schema_demonstrated d)), (''grammar_demonstrated'', JBool (cd_grammar_demonstrated d)),
            (''captured_proof_count'', JInt (cd_proof_run_count d)), (''proposal_only_preserved'', JBool (cd_proposal_only_preserved d))]]\<rparr>)"

definition compute_capability_projection ::
  "execution_env \<Rightarrow> string \<Rightarrow> string \<Rightarrow> ConstraintCapabilityDisposition list \<Rightarrow> jdict" where
  "compute_capability_projection env pid now ds =
    (let base = [(''schema_version'', JStr ''rig.relay.capability_projection.v1''), (''projection_id'', JStr pid), (''created_at'', JStr now),
           (''disposition_count'', JInt (int (length ds)))]
     in if ds = [] then base @ [(''projection_digest'', JStr '''')]
        else
          let st = fold count_capability ds \<lparr>ct_classes = [], ct_captured = 0, ct_curated = 0, ct_proposal_preserved = 0, ct_runtimes = []\<rparr>;
              p = base @
                [(''enforcement_classes_demonstrated'', JObj (json_counts (ct_classes st))),
                 (''total_captured_local_proof_runs'', JInt (ct_captured st)), (''total_curated_fixture_runs'', JInt (ct_curated st)),
                 (''proposal_only_mutation_preserved_count'', JInt (ct_proposal_preserved st)), (''runtimes'', JList (ct_runtimes st))]
          in p @ [(''projection_digest'', JStr (vl_sha (x_evaluation env)
                (canon (JObj (filter (\<lambda>(k, v). k \<notin> {''projection_digest'', ''created_at''}) p)))))])"

section \<open>What is admitted\<close>

definition admissible :: "ConstraintCapabilityDisposition \<Rightarrow> CapabilityQuery \<Rightarrow> bool" where
  "admissible d q \<longleftrightarrow> (qc_require_captured q \<longrightarrow> cd_captured d) \<and>
    (qc_require_receipt_bound q \<longrightarrow> qc_required_class q \<in> {NATIVE_JSON_SCHEMA, NATIVE_GRAMMAR_GBNF} \<longrightarrow> cd_receipt_bound d) \<and>
    enforcement_rank (qc_required_class q) \<le> enforcement_rank (cd_highest_class d)"

lemma dict_set_not_Nil: "dict_set k v d \<noteq> []"
  by (cases d) (auto simp: dict_set_def)

lemma admit_one_capable: "ca_runtime_capable (admit_one env now d q) \<longleftrightarrow> admissible d q"
  by (auto simp: admit_one_def evidence_decision_def admissible_def Let_def)

lemma admit_capability_capable:
  "ca_runtime_capable (admit_capability env now q i svc) \<longleftrightarrow>
    (\<exists>d. svc \<noteq> [] \<and> dict_get svc (target_id svc i) = Some d \<and> admissible d q)"
  by (auto simp: admit_capability_def no_evidence_decision_def admit_one_capable split: option.splits)

lemma target_registered:
  assumes "svc \<noteq> []" and "i = None \<or> i = Some ''''"
  shows "\<exists>d. dict_get svc (target_id svc i) = Some d" and "\<forall>k \<in> fst ` set svc. k \<le> target_id svc i"
proof -
  let ?ks = "sort (map fst svc)"
  have t: "target_id svc i = last ?ks" using assms(2) by (auto simp: target_id_def)
  have ne: "?ks \<noteq> []" using assms(1) by (metis length_0_conv length_map length_sort)
  from last_in_set [OF ne] have "last ?ks \<in> fst ` set svc" by simp
  then have "dict_get svc (last ?ks) \<noteq> None" by (simp only: dict_key_iff simp_thms)
  then show "\<exists>d. dict_get svc (target_id svc i) = Some d" unfolding t by (rule not_None_eq [THEN iffD1])
  show "\<forall>k \<in> fst ` set svc. k \<le> target_id svc i"
  proof
    fix k assume "k \<in> fst ` set svc"
    then have "k \<in> set ?ks" by simp
    then obtain n where n: "n < length ?ks" "?ks ! n = k" by (metis in_set_conv_nth)
    have "?ks ! n \<le> ?ks ! (length ?ks - 1)" by (rule sorted_nth_mono) (use n(1) in auto)
    then show "k \<le> target_id svc i" using n(2) by (simp add: t last_conv_nth [OF ne])
  qed
qed

section \<open>What a disposition says of the executions\<close>

lemma demonstrate_simps [simp]:
  "dm_json_schema (demonstrate di num (i, r) st) \<longleftrightarrow> dm_json_schema st \<or>
    cx_execution_status r = ''executed'' \<and> (\<exists>d. cx_disposition r = Some d \<and> ce_json_schema_enforcement_exercised d)"
  "dm_receipt_bound (demonstrate di num (i, r) st) \<longleftrightarrow> dm_receipt_bound st \<or> cx_execution_status r = ''executed'' \<and> receipt_bound_result r"
  "dm_captured_count (demonstrate di num (i, r) st) =
    dm_captured_count st + (if cx_execution_status r = ''executed'' \<and> captured_result r then 1 else 0)"
  "dm_curated_count (demonstrate di num (i, r) st) =
    dm_curated_count st + (if cx_execution_status r = ''executed'' \<and> \<not> captured_result r then 1 else 0)"
  "dm_proposal_only (demonstrate di num (i, r) st) \<longleftrightarrow> dm_proposal_only st \<or> cx_execution_status r = ''executed'' \<and> cx_proposal_only r"
  by (auto simp: demonstrate_def demonstrate_mechanism_def Let_def split: option.splits)

lemma demonstrated_fold:
  fixes di num irs st
  defines "st' \<equiv> fold (demonstrate di num) irs st"
  shows "dm_json_schema st' \<longleftrightarrow> dm_json_schema st \<or> (\<exists>r \<in> snd ` set irs. cx_execution_status r = ''executed'' \<and>
      (\<exists>d. cx_disposition r = Some d \<and> ce_json_schema_enforcement_exercised d))"
    and "dm_receipt_bound st' \<longleftrightarrow> dm_receipt_bound st \<or> (\<exists>r \<in> snd ` set irs. cx_execution_status r = ''executed'' \<and> receipt_bound_result r)"
    and "dm_captured_count st' = dm_captured_count st +
      int (length (filter (\<lambda>r. cx_execution_status r = ''executed'' \<and> captured_result r) (map snd irs)))"
    and "dm_captured_count st' + dm_curated_count st' = dm_captured_count st + dm_curated_count st +
      int (length (filter (\<lambda>r. cx_execution_status r = ''executed'') (map snd irs)))"
  unfolding st'_def by (induction irs arbitrary: st) auto

lemma built_disposition:
  fixes env num now i k url name rd md rs
  defines "d \<equiv> build_constraint_capability_disposition env num now i k url name rd md rs"
  shows "cd_highest_class d = NATIVE_JSON_SCHEMA \<longleftrightarrow> (\<exists>r \<in> set rs. cx_execution_status r = ''executed'' \<and>
      (\<exists>d. cx_disposition r = Some d \<and> ce_json_schema_enforcement_exercised d))"
    and "cd_highest_class d \<noteq> NATIVE_GRAMMAR_GBNF"
    and "cd_receipt_bound d \<longleftrightarrow> (\<exists>r \<in> set rs. cx_execution_status r = ''executed'' \<and> receipt_bound_result r)"
    and "cd_captured d \<longleftrightarrow> (\<exists>r \<in> set rs. cx_execution_status r = ''executed'' \<and> captured_result r)"
    and "cd_disposition_id d = i"
proof -
  have zip: "map snd (zip [0..<length rs] rs) = rs" by simp
  then have "snd ` set (zip [0..<length rs] rs) = set rs" by (metis set_map)
  note fold = demonstrated_fold [where irs = "zip [0..<length rs] rs", unfolded zip this]
  show "cd_highest_class d = NATIVE_JSON_SCHEMA \<longleftrightarrow> (\<exists>r \<in> set rs. cx_execution_status r = ''executed'' \<and>
      (\<exists>d. cx_disposition r = Some d \<and> ce_json_schema_enforcement_exercised d))"
    "cd_highest_class d \<noteq> NATIVE_GRAMMAR_GBNF"
    "cd_receipt_bound d \<longleftrightarrow> (\<exists>r \<in> set rs. cx_execution_status r = ''executed'' \<and> receipt_bound_result r)"
    "cd_captured d \<longleftrightarrow> (\<exists>r \<in> set rs. cx_execution_status r = ''executed'' \<and> captured_result r)"
    "cd_disposition_id d = i"
    by (simp_all add: d_def build_constraint_capability_disposition_def demonstrated_def fold Let_def filter_empty_conv)
qed

lemma capable_from_results:
  fixes env num now now' i k url name rd md rs query_id svc
  defines "d \<equiv> build_constraint_capability_disposition env num now i k url name rd md rs"
  assumes "i \<noteq> ''''"
  shows "ca_runtime_capable (admit_capability env now' (capability_query query_id NATIVE_JSON_SCHEMA True) (Some i)
        (register_disposition d svc)) \<longleftrightarrow>
      (\<exists>r \<in> set rs. cx_execution_status r = ''executed'' \<and> (\<exists>d. cx_disposition r = Some d \<and> ce_json_schema_enforcement_exercised d)) \<and>
      (\<exists>r \<in> set rs. cx_execution_status r = ''executed'' \<and> receipt_bound_result r) \<and>
      (\<exists>r \<in> set rs. cx_execution_status r = ''executed'' \<and> captured_result r)"
    and "\<not> ca_runtime_capable (admit_capability env now' (capability_query query_id NATIVE_GRAMMAR_GBNF captured) (Some i)
      (register_disposition d svc))"
proof -
  have registered: "register_disposition d svc \<noteq> []" "dict_get (register_disposition d svc) (target_id (register_disposition d svc) (Some i)) = Some d"
    using assms(2) by (simp_all add: register_disposition_def target_id_def dict_get_set dict_set_not_Nil d_def built_disposition(5))
  have rank: "2 \<le> enforcement_rank (cd_highest_class d) \<longleftrightarrow> cd_highest_class d = NATIVE_JSON_SCHEMA"
    "\<not> 3 \<le> enforcement_rank (cd_highest_class d)"
    using built_disposition(2) [of env num now i k url name rd md rs, folded d_def] by (cases "cd_highest_class d"; simp)+
  have "ca_runtime_capable (admit_capability env now' (capability_query query_id NATIVE_JSON_SCHEMA True) (Some i) (register_disposition d svc)) \<longleftrightarrow>
      cd_highest_class d = NATIVE_JSON_SCHEMA \<and> cd_receipt_bound d \<and> cd_captured d"
    using rank(1) by (auto simp: admit_capability_capable registered admissible_def capability_query_def)
  then show "ca_runtime_capable (admit_capability env now' (capability_query query_id NATIVE_JSON_SCHEMA True) (Some i)
        (register_disposition d svc)) \<longleftrightarrow>
      (\<exists>r \<in> set rs. cx_execution_status r = ''executed'' \<and> (\<exists>d. cx_disposition r = Some d \<and> ce_json_schema_enforcement_exercised d)) \<and>
      (\<exists>r \<in> set rs. cx_execution_status r = ''executed'' \<and> receipt_bound_result r) \<and>
      (\<exists>r \<in> set rs. cx_execution_status r = ''executed'' \<and> captured_result r)"
    by (simp only: d_def built_disposition)
  show "\<not> ca_runtime_capable (admit_capability env now' (capability_query query_id NATIVE_GRAMMAR_GBNF captured) (Some i)
      (register_disposition d svc))"
    using rank(2) by (simp add: admit_capability_capable registered admissible_def capability_query_def)
qed


lemma loaded_receipt_digest:
  assumes "load_canonical_constraint_receipt env ls = Inr (Some r)"
  shows "cr_receipt_digest r \<noteq> ''''"
proof -
  from assms obtain e where "receipt_of_event env e = Some r"
    by (auto simp: load_canonical_constraint_receipt_def and_then_Inr_iff dest!: first_some_Some split: if_splits)
  then have "is_digest (cr_receipt_digest r)"
    by (auto simp: receipt_of_event_def bind_eq_Some_conv digest_field_def split: option.splits if_splits)
  then show ?thesis by (auto simp: is_digest_def)
qed

text \<open>A single executed call of a tool for which the durable receipt records no schema certifies the runtime for
  governed native schema enforcement: the disposition built from it counts the run as bound to the receipt.\<close>

theorem unrecorded_run_certifies_runtime:
  assumes "execute_constrained_recovery env post now now' now'' ok q m supplied ledger (Some ls) True = (sent, ledger', Inr x)"
    and "cx_execution_status x = ''executed''" and "cq_emission_source_kind q = ''captured_local_model''"
    and "load_canonical_constraint_receipt (x_constraint env) ls = Inr (Some r)"
    and "dict_get (cr_tool_schema_digests r) (cq_target_tool_name q) = None"
    and "\<forall>v. ce_sha (x_constraint env) v \<noteq> ''''" and "i \<noteq> ''''"
  shows "ca_runtime_capable (admit_capability env t' (capability_query query_id NATIVE_JSON_SCHEMA True) (Some i)
    (register_disposition (build_constraint_capability_disposition env num t i k url name rd md [x]) svc))"
proof -
  obtain e r' where r': "bound_receipt env supplied (Some ls) r'"
    and schema: "cx_enforced_schema_digest x = compute_runtime_schema_digest (x_constraint env) (build_runtime_enforcement_schema e)"
    using executed_schema [OF assms(1,2)] by blast
  have "cx_enforced_schema_digest x \<noteq> ''''" using assms(6) by (simp add: schema compute_runtime_schema_digest_def)
  moreover have "cx_constraint_receipt_digest x \<noteq> ''''"
    using executed_claims(3) [OF assms(1,2)] r' loaded_receipt_digest by (auto simp: bound_receipt_def)
  ultimately have "receipt_bound_result x" using executed_claims(1) [OF assms(1,2)] by (simp add: receipt_bound_result_def)
  moreover have "captured_result x" using executed_source [OF assms(1,2)] assms(3) by (simp add: captured_result_def)
  ultimately show ?thesis
    using executed_claims(2) [OF assms(1,2)] assms(2,7)
    by (simp add: capable_from_results)
qed

section \<open>Examples\<close>


text \<open>The ledger of a compilation that knows \<^verbatim>\<open>read_file\<close> only.\<close>

definition demo_other_receipt :: ConstraintCompilationReceipt where
  "demo_other_receipt = compile_constraints demo_constraint_env 0 ''c'' ''p''
     (demo_tool_manifest\<lparr>ms_admitted_tools := [demo_entry ''read_file'' READ_ONLY_RECOVERABLE]\<rparr>)"

definition demo_other_ledger :: "json jsonl list" where
  "demo_other_ledger = fst (persist_constraint_compilation_receipt demo_constraint_env True demo_other_receipt [])"

definition demo_unrecorded :: "(string \<times> jdict) list \<times> ConstrainedExecutionResult recorded" where
  "demo_unrecorded = execute_constrained_recovery demo_report_env (demo_post ''{}'') 0 0 0 True demo_execution_request example_manifest
     demo_other_receipt (Some []) (Some demo_other_ledger) True"

lemma demo_unrecorded_executed: "executed_with ''mutation_proposal_only'' (snd demo_unrecorded)"
  by code_simp

lemma demo_other_loaded:
  "case load_canonical_constraint_receipt (x_constraint demo_report_env) demo_other_ledger of
     Inr (Some r) \<Rightarrow> dict_get (cr_tool_schema_digests r) (cq_target_tool_name demo_execution_request) = None | _ \<Rightarrow> False"
  by code_simp

theorem unrecorded_run_certifies_runtime_witness:
  "\<exists>x. snd (snd demo_unrecorded) = Inr x \<and>
    ca_runtime_capable (admit_capability demo_report_env ''t'' (capability_query ''q'' NATIVE_JSON_SCHEMA True) (Some ''d'')
      (register_disposition (build_constraint_capability_disposition demo_report_env (\<lambda>n. ''00'') ''t'' ''d'' ''ollama'' ''u'' ''m'' '''' '''' [x]) []))"
proof -
  obtain sent ledger' x where run: "execute_constrained_recovery demo_report_env (demo_post ''{}'') 0 0 0 True demo_execution_request
      example_manifest demo_other_receipt (Some []) (Some demo_other_ledger) True = (sent, ledger', Inr x)" "cx_execution_status x = ''executed''"
      and x: "snd (snd demo_unrecorded) = Inr x"
    using demo_unrecorded_executed by (cases demo_unrecorded) (auto simp: executed_with_def demo_unrecorded_def split: sum.splits)
  obtain r where r: "load_canonical_constraint_receipt (x_constraint demo_report_env) demo_other_ledger = Inr (Some r)"
      "dict_get (cr_tool_schema_digests r) (cq_target_tool_name demo_execution_request) = None"
    using demo_other_loaded by (auto split: sum.splits option.splits)
  have "cq_emission_source_kind demo_execution_request = ''captured_local_model''" by (simp add: demo_execution_request_def)
  moreover have "\<forall>v. ce_sha (x_constraint demo_report_env) v \<noteq> ''''"
    by (simp add: demo_report_env_def demo_execution_env_def demo_constraint_env_def)
  ultimately show ?thesis
    using unrecorded_run_certifies_runtime [OF run _ r] x by (metis list.discI)
qed

end
