(* ===== verification/Workspace_Lifecycle.thy ===== *)
theory Workspace_Lifecycle
  imports Relay_Interfaces Json_Values
begin

text \<open>
  Managed workspaces: the models (\<^verbatim>\<open>rig_relay/workspace/models.py\<close>), the table of transitions
  (\<^verbatim>\<open>_service.py\<close>) and the lifecycle ledger (\<^verbatim>\<open>_evidence.py\<close>, \<^verbatim>\<open>_digest.py\<close>).  The ledger of all
  workspaces is one file, the list of its lines; a line is blank, not an event, or an event.  SHA-256 over
  the JSON of an event without its two digests is a parameter.
\<close>

section \<open>Models\<close>

datatype WorkspaceRole = IMPLEMENTER | TESTER | REVIEWER | DOCUMENTER | ORCHESTRATOR

fun role_name :: "WorkspaceRole \<Rightarrow> string" where
  "role_name IMPLEMENTER = ''implementer''"
| "role_name TESTER = ''tester''"
| "role_name REVIEWER = ''reviewer''"
| "role_name DOCUMENTER = ''documenter''"
| "role_name ORCHESTRATOR = ''orchestrator''"

datatype WorkspaceState =
    WS_REQUESTED | WS_RESERVED | WS_WORKTREE_CREATED | WS_BOOTSTRAPPING | WS_READY | WS_ACTIVE | WS_VALIDATING
  | WS_UNDER_REVIEW | WS_CHECKPOINTED | WS_RELEASED_FOR_INTEGRATION | WS_INTEGRATED | WS_PUBLISHED | WS_RETIRED

datatype RecoveryState =
    RS_RESERVATION_REFUSED | RS_BOOTSTRAP_FAILED | RS_STALE_BASE | RS_SESSION_DETACHED | RS_RECOVERY_REQUIRED
  | RS_RECOVERED | RS_INTEGRATION_CONFLICT | RS_RESET_REFUSED | RS_REMOVAL_REFUSED | RS_QUARANTINED

datatype WorkspaceLifecycleEventKind =
    WE_WORKSPACE_REQUESTED | WE_WORKSPACE_RESERVED | WE_WORKTREE_CREATED | WE_BOOTSTRAP_STARTED | WE_BOOTSTRAP_COMPLETED
  | WE_WORKSPACE_ACTIVATED | WE_VALIDATION_STARTED | WE_REVIEW_STARTED | WE_WORKSPACE_CHECKPOINTED | WE_RELEASED_FOR_INTEGRATION
  | WE_INTEGRATED | WE_PUBLISHED | WE_WORKSPACE_RETIRED | WE_RESERVATION_REFUSED | WE_BOOTSTRAP_FAILED | WE_STALE_BASE_DETECTED
  | WE_SESSION_DETACHED | WE_RECOVERY_REQUIRED | WE_RECOVERED | WE_INTEGRATION_CONFLICT | WE_RESET_REFUSED | WE_REMOVAL_REFUSED
  | WE_QUARANTINED | WE_WORKTREE_LOCKED | WE_WORKTREE_UNLOCKED | WE_WORKTREE_REPAIRED | WE_WORKTREE_PRUNED | WE_CHANGES_RECORDED
  | WE_BOUNDARY_CLAIM_ACQUIRED | WE_BOUNDARY_CLAIM_RELEASED | WE_BOUNDARY_CONFLICT_DETECTED | WE_WORK_PRESERVATION_ASSESSED
  | WE_VALIDATION_REQUIRED | WE_REAPPLICATION_SUSPECTED

record ManagedWorkspace =
  mw_workspace_id :: string
  mw_project_identity :: string
  mw_mission_id :: "string option"
  mw_lane_id :: "string option"
  mw_agent_profile_name :: "string option"
  mw_role :: WorkspaceRole
  mw_state :: WorkspaceState
  mw_recovery_state :: "RecoveryState option"
  mw_worktree_path :: "string option"
  mw_branch_name :: "string option"
  mw_base_branch :: string
  mw_base_commit_sha :: "string option"
  mw_managed_branch_name :: "string option"
  mw_head_sha :: "string option"
  mw_changed_files_count :: int
  mw_checkpoint_sha :: "string option"
  mw_session_id :: "string option"
  mw_context_capsule_digest :: "string option"
  mw_harness_profile_digest :: "string option"
  mw_runtime_binding_reference :: "string option"
  mw_created_at :: timestamp
  mw_updated_at :: timestamp

record WorkspaceLifecycleEvent =
  we_event_id :: string
  we_workspace_id :: string
  we_event_kind :: WorkspaceLifecycleEventKind
  we_state_before :: "WorkspaceState option"
  we_state_after :: "WorkspaceState option"
  we_recovery_before :: "RecoveryState option"
  we_recovery_after :: "RecoveryState option"
  we_worktree_path :: "string option"
  we_branch_name :: "string option"
  we_base_commit_sha :: "string option"
  we_head_sha :: "string option"
  we_session_id :: "string option"
  we_changed_files_count :: "int option"
  we_checkpoint_sha :: "string option"
  we_reason :: "string option"
  we_prior_event_digest :: "string option"
  we_event_digest :: "string option"
  we_created_at :: timestamp

section \<open>The table of transitions\<close>

type_synonym workspace_status = "WorkspaceState \<times> RecoveryState option"

abbreviation ws_status :: "ManagedWorkspace \<Rightarrow> workspace_status" where
  "ws_status w \<equiv> (mw_state w, mw_recovery_state w)"

definition TERMINAL_RECOVERY :: "RecoveryState list" where
  "TERMINAL_RECOVERY = [RS_RESERVATION_REFUSED, RS_REMOVAL_REFUSED, RS_RESET_REFUSED, RS_QUARANTINED]"

definition RECOVERY_REQUIRED_RECOVERY :: "RecoveryState list" where
  "RECOVERY_REQUIRED_RECOVERY = [RS_RECOVERY_REQUIRED, RS_SESSION_DETACHED, RS_STALE_BASE, RS_BOOTSTRAP_FAILED]"

definition WORKSPACE_TRANSITIONS :: "(workspace_status \<times> workspace_status) list" where
  "WORKSPACE_TRANSITIONS =
    [((WS_REQUESTED, None), (WS_RESERVED, None)),
     ((WS_REQUESTED, None), (WS_RETIRED, Some RS_RESERVATION_REFUSED)),
     ((WS_RESERVED, None), (WS_WORKTREE_CREATED, None)),
     ((WS_RESERVED, None), (WS_RETIRED, Some RS_BOOTSTRAP_FAILED)),
     ((WS_RESERVED, None), (WS_RETIRED, Some RS_RESERVATION_REFUSED)),
     ((WS_WORKTREE_CREATED, None), (WS_BOOTSTRAPPING, None)),
     ((WS_BOOTSTRAPPING, None), (WS_READY, None)),
     ((WS_BOOTSTRAPPING, None), (WS_RETIRED, Some RS_BOOTSTRAP_FAILED)),
     ((WS_READY, None), (WS_ACTIVE, None)),
     ((WS_ACTIVE, None), (WS_VALIDATING, None)),
     ((WS_ACTIVE, None), (WS_CHECKPOINTED, None)),
     ((WS_ACTIVE, None), (WS_ACTIVE, Some RS_SESSION_DETACHED)),
     ((WS_ACTIVE, None), (WS_ACTIVE, Some RS_STALE_BASE)),
     ((WS_ACTIVE, None), (WS_ACTIVE, Some RS_RECOVERY_REQUIRED)),
     ((WS_ACTIVE, None), (WS_RETIRED, None)),
     ((WS_ACTIVE, None), (WS_RETIRED, Some RS_QUARANTINED)),
     ((WS_ACTIVE, None), (WS_RELEASED_FOR_INTEGRATION, None)),
     ((WS_VALIDATING, None), (WS_UNDER_REVIEW, None)),
     ((WS_VALIDATING, None), (WS_ACTIVE, None)),
     ((WS_UNDER_REVIEW, None), (WS_CHECKPOINTED, None)),
     ((WS_UNDER_REVIEW, None), (WS_ACTIVE, None)),
     ((WS_CHECKPOINTED, None), (WS_RELEASED_FOR_INTEGRATION, None)),
     ((WS_CHECKPOINTED, None), (WS_ACTIVE, None)),
     ((WS_RELEASED_FOR_INTEGRATION, None), (WS_INTEGRATED, None)),
     ((WS_RELEASED_FOR_INTEGRATION, None), (WS_RETIRED, Some RS_INTEGRATION_CONFLICT)),
     ((WS_INTEGRATED, None), (WS_PUBLISHED, None)),
     ((WS_PUBLISHED, None), (WS_RETIRED, None))] @
    concat (map (\<lambda>r. [((WS_ACTIVE, Some r), (WS_ACTIVE, Some RS_RECOVERY_REQUIRED)),
       ((WS_ACTIVE, Some r), (WS_ACTIVE, Some RS_RECOVERED)), ((WS_ACTIVE, Some r), (WS_RETIRED, Some RS_QUARANTINED))])
      RECOVERY_REQUIRED_RECOVERY) @
    map (\<lambda>r. ((WS_ACTIVE, Some r), (WS_VALIDATING, None)))
      [RS_SESSION_DETACHED, RS_RECOVERY_REQUIRED, RS_STALE_BASE, RS_BOOTSTRAP_FAILED, RS_RECOVERED] @
    [((WS_ACTIVE, Some RS_SESSION_DETACHED), (WS_ACTIVE, Some RS_RECOVERED)),
     ((WS_ACTIVE, Some RS_RECOVERED), (WS_ACTIVE, None)),
     ((WS_ACTIVE, Some RS_RECOVERED), (WS_VALIDATING, None)),
     ((WS_ACTIVE, Some RS_RECOVERED), (WS_ACTIVE, Some RS_RECOVERY_REQUIRED)),
     ((WS_ACTIVE, Some RS_RECOVERED), (WS_RETIRED, Some RS_QUARANTINED)),
     ((WS_ACTIVE, Some RS_INTEGRATION_CONFLICT), (WS_RETIRED, None)),
     ((WS_ACTIVE, Some RS_INTEGRATION_CONFLICT), (WS_RETIRED, Some RS_QUARANTINED)),
     ((WS_RETIRED, Some RS_QUARANTINED), (WS_RETIRED, None)),
     ((WS_RETIRED, Some RS_RESERVATION_REFUSED), (WS_RETIRED, None)),
     ((WS_RETIRED, Some RS_REMOVAL_REFUSED), (WS_RETIRED, None)),
     ((WS_RETIRED, Some RS_RESET_REFUSED), (WS_RETIRED, None))]"

definition ws_is_terminal :: "workspace_status \<Rightarrow> bool" where
  "ws_is_terminal s \<longleftrightarrow> fst s = WS_RETIRED \<or> (case snd s of None \<Rightarrow> False | Some r \<Rightarrow> r \<in> set TERMINAL_RECOVERY)"

text \<open>What \<^verbatim>\<open>_transition\<close> admits: no way out of a terminal status but to quarantine, to stay, or the table.\<close>

definition ws_admitted :: "workspace_status \<Rightarrow> workspace_status \<Rightarrow> bool" where
  "ws_admitted s t \<longleftrightarrow> \<not> (ws_is_terminal s \<and> snd t \<noteq> Some RS_QUARANTINED) \<and> (t = s \<or> (s, t) \<in> set WORKSPACE_TRANSITIONS)"

fun ACTION_MAP :: "WorkspaceState \<Rightarrow> string list" where
  "ACTION_MAP WS_REQUESTED = [''create_worktree'', ''cancel'']"
| "ACTION_MAP WS_RESERVED = [''create_worktree'', ''cancel'']"
| "ACTION_MAP WS_WORKTREE_CREATED = [''bootstrap'', ''cancel'']"
| "ACTION_MAP WS_BOOTSTRAPPING = [''cancel'']"
| "ACTION_MAP WS_READY = [''activate'']"
| "ACTION_MAP WS_ACTIVE = [''validate'', ''checkpoint'', ''record_changes'', ''release'', ''claim_boundary'']"
| "ACTION_MAP WS_VALIDATING = [''under_review'', ''back_to_active'', ''claim_boundary'']"
| "ACTION_MAP WS_UNDER_REVIEW = [''checkpoint'', ''back_to_active'', ''claim_boundary'']"
| "ACTION_MAP WS_CHECKPOINTED = [''release_for_integration'', ''back_to_active'']"
| "ACTION_MAP WS_RELEASED_FOR_INTEGRATION = [''integrate'', ''claim_boundary'']"
| "ACTION_MAP WS_INTEGRATED = [''publish'']"
| "ACTION_MAP WS_PUBLISHED = [''retire'']"
| "ACTION_MAP WS_RETIRED = []"

definition actions_for_workspace :: "ManagedWorkspace \<Rightarrow> string list" where
  "actions_for_workspace w = ACTION_MAP (mw_state w) @
    (case mw_recovery_state w of
       None \<Rightarrow> []
     | Some r \<Rightarrow> if r \<in> set TERMINAL_RECOVERY then [] else [''recover''] @ (if r = RS_RECOVERED then [] else [''quarantine'']))"

section \<open>The lifecycle ledger\<close>

type_synonym workspace_ledger = "WorkspaceLifecycleEvent jsonl list"

definition ws_event_digest :: "(WorkspaceLifecycleEvent \<Rightarrow> string) \<Rightarrow> WorkspaceLifecycleEvent \<Rightarrow> string" where
  "ws_event_digest sha e = sha (e\<lparr>we_prior_event_digest := None, we_event_digest := None\<rparr>)"

definition workspace_events :: "string \<Rightarrow> workspace_ledger \<Rightarrow> WorkspaceLifecycleEvent list" where
  "workspace_events i ls = filter (\<lambda>e. we_workspace_id e = i) (entries ls)"

text \<open>The event with its digest, then linked to the last event of its workspace.\<close>

definition ws_digested :: "(WorkspaceLifecycleEvent \<Rightarrow> string) \<Rightarrow> WorkspaceLifecycleEvent \<Rightarrow> WorkspaceLifecycleEvent" where
  "ws_digested sha e = (if we_event_digest e \<in> {None, Some ''''} then e\<lparr>we_event_digest := Some (ws_event_digest sha e)\<rparr> else e)"

definition ws_linked_event ::
  "(WorkspaceLifecycleEvent \<Rightarrow> string) \<Rightarrow> WorkspaceLifecycleEvent \<Rightarrow> workspace_ledger \<Rightarrow> WorkspaceLifecycleEvent" where
  "ws_linked_event sha e ls =
    (let es = workspace_events (we_workspace_id e) ls
     in (ws_digested sha e)\<lparr>we_prior_event_digest := (if es = [] then None else we_event_digest (last es))\<rparr>)"

text \<open>
  The event is linked and written under the lock; a lock that is not obtained is one way of not
  writing.  The result says whether the call returned, and it raises otherwise.
\<close>

definition ws_append ::
  "(WorkspaceLifecycleEvent \<Rightarrow> string) \<Rightarrow> write_fate \<Rightarrow> WorkspaceLifecycleEvent \<Rightarrow> WorkspaceLifecycleEvent line_file \<Rightarrow>
    WorkspaceLifecycleEvent line_file \<times> bool" where
  "ws_append sha fate e f = write_line fate (ws_linked_event sha e (fst f)) f"

text \<open>The identifier of the first event that is tampered with or not linked.\<close>

fun chain_fault :: "(WorkspaceLifecycleEvent \<Rightarrow> string) \<Rightarrow> WorkspaceLifecycleEvent option \<Rightarrow> WorkspaceLifecycleEvent list \<Rightarrow> string option" where
  "chain_fault sha prev [] = None"
| "chain_fault sha prev (e # es) =
    (if we_event_digest e \<noteq> Some (ws_event_digest sha e) then Some (we_event_id e)
     else if (case prev of None \<Rightarrow> False | Some p \<Rightarrow> we_prior_event_digest e \<noteq> we_event_digest p) then Some (we_event_id e)
     else chain_fault sha (Some e) es)"

definition verify_ws_chain :: "(WorkspaceLifecycleEvent \<Rightarrow> string) \<Rightarrow> string \<Rightarrow> workspace_ledger \<Rightarrow> bool" where
  "verify_ws_chain sha i ls \<longleftrightarrow> chain_fault sha None (workspace_events i ls) = None"

section \<open>What the table allows\<close>

lemmas table_defs = WORKSPACE_TRANSITIONS_def RECOVERY_REQUIRED_RECOVERY_def

text \<open>The statuses a workspace can come to.\<close>

definition LIVE_STATUSES :: "workspace_status list" where
  "LIVE_STATUSES = map (\<lambda>s. (s, None)) [WS_REQUESTED, WS_RESERVED, WS_WORKTREE_CREATED, WS_BOOTSTRAPPING, WS_READY, WS_ACTIVE,
      WS_VALIDATING, WS_UNDER_REVIEW, WS_CHECKPOINTED, WS_RELEASED_FOR_INTEGRATION, WS_INTEGRATED, WS_PUBLISHED] @
    map (\<lambda>r. (WS_ACTIVE, Some r)) [RS_SESSION_DETACHED, RS_STALE_BASE, RS_RECOVERY_REQUIRED, RS_RECOVERED]"

definition ENDED_STATUSES :: "workspace_status list" where
  "ENDED_STATUSES = (WS_RETIRED, None) #
    map (\<lambda>r. (WS_RETIRED, Some r)) [RS_RESERVATION_REFUSED, RS_BOOTSTRAP_FAILED, RS_QUARANTINED, RS_INTEGRATION_CONFLICT]"

lemma statuses_closed:
  assumes "s \<in> set (LIVE_STATUSES @ ENDED_STATUSES)" and "ws_admitted s t"
  shows "t \<in> set (LIVE_STATUSES @ ENDED_STATUSES)"
  using assms by (auto simp: ws_admitted_def ws_is_terminal_def table_defs LIVE_STATUSES_def ENDED_STATUSES_def TERMINAL_RECOVERY_def)

lemma ended_final: "s \<in> set ENDED_STATUSES \<Longrightarrow> ws_admitted s t \<Longrightarrow> t = s"
  by (auto simp: ws_admitted_def ws_is_terminal_def table_defs ENDED_STATUSES_def)

section \<open>The chain of a workspace\<close>

lemma workspace_events_snoc [simp]:
  "workspace_events i (ls @ [Entry e]) = workspace_events i ls @ (if we_workspace_id e = i then [e] else [])"
  by (simp add: workspace_events_def)

lemma chain_fault_snoc:
  "chain_fault sha prev (es @ [e]) = None \<longleftrightarrow> chain_fault sha prev es = None \<and> we_event_digest e = Some (ws_event_digest sha e) \<and>
    (case (if es = [] then prev else Some (last es)) of None \<Rightarrow> True | Some p \<Rightarrow> we_prior_event_digest e = we_event_digest p)"
  by (induction sha prev es rule: chain_fault.induct) (auto split: option.splits)

lemma linked_event_fields:
  "we_workspace_id (ws_linked_event sha e ls) = we_workspace_id e"
  "we_event_digest e = None \<Longrightarrow> we_event_digest (ws_linked_event sha e ls) = Some (ws_event_digest sha (ws_linked_event sha e ls))"
  by (simp_all add: ws_linked_event_def ws_digested_def ws_event_digest_def Let_def)

lemma linked_keeps_chain:
  assumes "verify_ws_chain sha i ls" and "we_event_digest e = None"
  shows "verify_ws_chain sha i (ls @ [Entry (ws_linked_event sha e ls)])"
proof (cases "we_workspace_id e = i")
  case True
  then have "case (if workspace_events i ls = [] then None else Some (last (workspace_events i ls))) of None \<Rightarrow> True
      | Some p \<Rightarrow> we_prior_event_digest (ws_linked_event sha e ls) = we_event_digest p"
    by (auto simp: ws_linked_event_def Let_def)
  with True assms show ?thesis
    by (simp add: verify_ws_chain_def chain_fault_snoc linked_event_fields)
next
  case False
  with assms(1) show ?thesis by (auto simp: verify_ws_chain_def linked_event_fields)
qed

lemma junk_keeps_chain [simp]: "verify_ws_chain sha i (ls @ [BadJson]) = verify_ws_chain sha i ls"
  by (simp add: verify_ws_chain_def workspace_events_def)

end
