(* ===== verification/Workspace_Service.thy ===== *)
theory Workspace_Service
  imports Workspace_Lifecycle
begin

text \<open>
  The operations of \<^verbatim>\<open>ManagedWorkspaceService\<close> (\<^verbatim>\<open>rig_relay/workspace/_service.py\<close>) from a request to publication: a file
  of each workspace, the workspaces held in memory, which the operations mutate in place, and the ledger.  What becomes
  of the coming writes is a list of fates, and every write succeeds when the list is empty.  A file of a workspace is
  replaced as a whole or not at all; a line of the ledger may be recorded although the call raises, or be torn.  The
  files can be read whenever they exist.
  Git and the file system are the answers of \<open>git_world\<close> during one operation; the commands that change
  the repository are recorded.  The readings of the clock within an operation are one, the identifier of an event
  is given by the number of events before it, and the texts of refusals are codes.  A file is taken to hold the
  workspace of its name, so that one key leads to a workspace in memory.
\<close>

section \<open>The service\<close>

datatype git_command = GitAdd string string string | GitRemove string bool | GitLock string | GitUnlock string

datatype git_run = Git_raises | Git_exit int string

record git_world =
  gw_now :: timestamp
  gw_exists :: "string \<Rightarrow> bool"
  gw_primary :: "string \<Rightarrow> bool"
  gw_add :: "string \<Rightarrow> string \<Rightarrow> string \<Rightarrow> git_run"
  gw_remove :: "string \<Rightarrow> bool \<Rightarrow> git_run"
  gw_lock :: "string \<Rightarrow> git_run"
  gw_status :: "string \<Rightarrow> git_run"
  gw_head :: "string option \<Rightarrow> git_run"
  gw_ancestor :: "string \<Rightarrow> git_run"

record workspace_env =
  wv_sha :: "WorkspaceLifecycleEvent \<Rightarrow> string"
  wv_uuid :: "nat \<Rightarrow> string"
  wv_worktrees :: string
  wv_branch_prefix :: string

text \<open>A file that is not a workspace is \<open>None\<close>; \<open>sv_torn\<close> says that the last line of the ledger has no newline.\<close>

record workspace_service =
  sv_disk :: "(string, ManagedWorkspace option) dict"
  sv_cache :: "(string, ManagedWorkspace) dict"
  sv_ledger :: workspace_ledger
  sv_torn :: bool
  sv_io :: "write_fate list"
  sv_git :: "git_command list"

datatype op_outcome = Done | Failed string

type_synonym workspace_op = "workspace_service \<Rightarrow> workspace_service \<times> op_outcome result"

section \<open>Files and memory\<close>

definition next_write :: "workspace_service \<Rightarrow> write_fate \<times> workspace_service" where
  "next_write sv = (case sv_io sv of [] \<Rightarrow> (Written, sv) | fate # rest \<Rightarrow> (fate, sv\<lparr>sv_io := rest\<rparr>))"

definition cache_workspace :: "ManagedWorkspace \<Rightarrow> workspace_service \<Rightarrow> workspace_service" where
  "cache_workspace w sv = sv\<lparr>sv_cache := dict_set (mw_workspace_id w) w (sv_cache sv)\<rparr>"

definition save_workspace :: "ManagedWorkspace \<Rightarrow> workspace_service \<Rightarrow> bool \<times> workspace_service" where
  "save_workspace w sv =
    (let (fate, sv') = next_write sv; ok = (fate = Written)
     in (ok, if ok then sv'\<lparr>sv_disk := dict_set (mw_workspace_id w) (Some w) (sv_disk sv')\<rparr> else sv'))"

text \<open>A negative count does not pass the validation of the model.\<close>

definition load_workspace :: "string \<Rightarrow> workspace_service \<Rightarrow> ManagedWorkspace option" where
  "load_workspace i sv =
    (case dict_get (sv_disk sv) i of
       Some (Some w) \<Rightarrow> if mw_changed_files_count w < 0 then None else Some w
     | _ \<Rightarrow> None)"

text \<open>The files in the order of their names; the ones that do not load are skipped.\<close>

definition load_all :: "workspace_service \<Rightarrow> workspace_service" where
  "load_all sv = sv\<lparr>sv_cache := fold (\<lambda>(i, f) d. case load_workspace i sv of None \<Rightarrow> d | Some w \<Rightarrow> dict_set (mw_workspace_id w) w d)
     (sort_key (\<lambda>(i, f). i @ ''.json'') (sv_disk sv)) []\<rparr>"

definition current_workspace :: "string \<Rightarrow> workspace_service \<Rightarrow> ManagedWorkspace option" where
  "current_workspace i sv = (case dict_get (sv_cache sv) i of Some w \<Rightarrow> Some w | None \<Rightarrow> load_workspace i sv)"

definition append_lifecycle :: "workspace_env \<Rightarrow> WorkspaceLifecycleEvent \<Rightarrow> workspace_service \<Rightarrow> bool \<times> workspace_service" where
  "append_lifecycle env e sv =
    (let (fate, sv') = next_write sv; ((ls, torn), done) = ws_append (wv_sha env) fate e (sv_ledger sv', sv_torn sv')
     in (done, sv'\<lparr>sv_ledger := ls, sv_torn := torn\<rparr>))"

definition log_git :: "git_command \<Rightarrow> workspace_service \<Rightarrow> workspace_service" where
  "log_git c sv = sv\<lparr>sv_git := sv_git sv @ [c]\<rparr>"

section \<open>Transitions\<close>

definition lifecycle_event ::
  "workspace_env \<Rightarrow> timestamp \<Rightarrow> string \<Rightarrow> WorkspaceLifecycleEventKind \<Rightarrow> workspace_service \<Rightarrow> WorkspaceLifecycleEvent" where
  "lifecycle_event env now i kind sv =
    \<lparr>we_event_id = wv_uuid env (length (sv_ledger sv)), we_workspace_id = i, we_event_kind = kind, we_state_before = None,
     we_state_after = None, we_recovery_before = None, we_recovery_after = None, we_worktree_path = None, we_branch_name = None,
     we_base_commit_sha = None, we_head_sha = None, we_session_id = None, we_changed_files_count = None, we_checkpoint_sha = None,
     we_reason = None, we_prior_event_digest = None, we_event_digest = None, we_created_at = now\<rparr>"

definition present_text :: "string option \<Rightarrow> string option" where
  "present_text x = (if x = Some '''' then None else x)"

text \<open>The event of a transition, before the fields the caller gives.\<close>

definition transition_event ::
  "workspace_env \<Rightarrow> timestamp \<Rightarrow> string \<Rightarrow> WorkspaceLifecycleEventKind \<Rightarrow> workspace_status \<Rightarrow> workspace_status \<Rightarrow> ManagedWorkspace \<Rightarrow>
    workspace_service \<Rightarrow> WorkspaceLifecycleEvent" where
  "transition_event env now i kind before after w sv = (lifecycle_event env now i kind sv)
     \<lparr>we_state_before := Some (fst before), we_state_after := Some (fst after), we_recovery_before := snd before,
      we_recovery_after := snd after, we_worktree_path := present_text (mw_worktree_path w), we_branch_name := mw_branch_name w,
      we_base_commit_sha := mw_base_commit_sha w, we_head_sha := mw_head_sha w, we_session_id := mw_session_id w,
      we_changed_files_count := Some (mw_changed_files_count w), we_checkpoint_sha := mw_checkpoint_sha w\<rparr>"

definition set_status :: "workspace_status \<Rightarrow> ManagedWorkspace \<Rightarrow> ManagedWorkspace" where
  "set_status s w = w\<lparr>mw_state := fst s, mw_recovery_state := snd s\<rparr>"

text \<open>
  \<^verbatim>\<open>_transition\<close>: on the workspace in memory or else in its file.  A failed save puts the status back, a failed
  append also saves it back; what is given by the caller is an update of the event.
\<close>

definition ws_transition ::
  "workspace_env \<Rightarrow> timestamp \<Rightarrow> string \<Rightarrow> workspace_status \<Rightarrow> WorkspaceLifecycleEventKind \<Rightarrow>
    (WorkspaceLifecycleEvent \<Rightarrow> WorkspaceLifecycleEvent) \<Rightarrow> workspace_service \<Rightarrow> workspace_service \<times> op_outcome" where
  "ws_transition env now i target kind upd sv =
    (case current_workspace i sv of
       None \<Rightarrow> (sv, Failed ''not_found'')
     | Some w \<Rightarrow>
        let before = ws_status w; changed = (target \<noteq> before) in
        if ws_is_terminal before \<and> snd target \<noteq> Some RS_QUARANTINED then (sv, Failed ''terminal'')
        else if changed \<and> (before, target) \<notin> set WORKSPACE_TRANSITIONS then (sv, Failed ''invalid_transition'')
        else
          let w' = (if changed then (set_status target w)\<lparr>mw_updated_at := now\<rparr> else w);
              back = set_status before w';
              (saved, sv1) = (if changed then save_workspace w' (cache_workspace w' sv) else (True, sv))
          in if \<not> saved then (cache_workspace back sv1, Failed ''not_persisted'')
             else
               let (recorded, sv2) = append_lifecycle env (upd (transition_event env now i kind before target w' sv1)) sv1
               in if recorded then (sv2, Done)
                  else if \<not> changed then (sv2, Failed ''not_recorded'')
                  else let (undone, sv3) = save_workspace back (cache_workspace back sv2)
                       in (sv3, Failed (if undone then ''not_recorded'' else ''manual_inspection'')))"

text \<open>A transition as the last call of an operation, and one whose result is looked at.\<close>

definition transits ::
  "workspace_env \<Rightarrow> timestamp \<Rightarrow> string \<Rightarrow> workspace_status \<Rightarrow> WorkspaceLifecycleEventKind \<Rightarrow>
    (WorkspaceLifecycleEvent \<Rightarrow> WorkspaceLifecycleEvent) \<Rightarrow> workspace_op" where
  "transits env now i target kind upd sv = (let (sv', out) = ws_transition env now i target kind upd sv in (sv', Inr out))"

definition then_op :: "workspace_op \<Rightarrow> workspace_op \<Rightarrow> workspace_op" where
  "then_op f g sv = (case f sv of (sv', Inr Done) \<Rightarrow> g sv' | stop \<Rightarrow> stop)"

definition with_workspace :: "string \<Rightarrow> (ManagedWorkspace \<Rightarrow> workspace_op) \<Rightarrow> workspace_op" where
  "with_workspace i k sv = (case load_workspace i sv of None \<Rightarrow> (sv, Inr (Failed ''not_found'')) | Some w \<Rightarrow> k w sv)"

definition fails :: "string \<Rightarrow> workspace_op" where
  "fails why sv = (sv, Inr (Failed why))"

definition done_op :: workspace_op where
  "done_op sv = (sv, Inr Done)"

text \<open>A save of an operation itself: its exception leaves the operation.\<close>

definition saving :: "ManagedWorkspace \<Rightarrow> workspace_op \<Rightarrow> workspace_op" where
  "saving w k sv = (let (ok, sv') = save_workspace w sv in if ok then k sv' else (sv', Inl OSError))"

definition caching :: "ManagedWorkspace \<Rightarrow> workspace_op \<Rightarrow> workspace_op" where
  "caching w k sv = k (cache_workspace w sv)"

section \<open>Identifiers, branches and heads\<close>

definition is_alnum :: "char \<Rightarrow> bool" where
  "is_alnum c \<longleftrightarrow> c \<in> set ''0123456789abcdefghijklmnopqrstuvwxyzABCDEFGHIJKLMNOPQRSTUVWXYZ''"

text \<open>Letters and digits of ASCII; \<^verbatim>\<open>isalnum\<close> also admits those of other alphabets.\<close>

definition sanitize_workspace_id :: "string \<Rightarrow> bool" where
  "sanitize_workspace_id i \<longleftrightarrow> str_strip i \<noteq> '''' \<and> length i \<le> 64 \<and>
    \<not> list_ex (\<lambda>c. c \<in> set [CHR ''/'', CHR 0x5C, CHR ''~'']) i \<and> \<not> str_contains i ''..'' \<and>
    list_all (\<lambda>c. is_alnum c \<or> c \<in> set ''-_'') i"

definition build_branch_name :: "workspace_env \<Rightarrow> ManagedWorkspace \<Rightarrow> string" where
  "build_branch_name env w = wv_branch_prefix env @ ''/'' @ role_name (mw_role w) @ ''/'' @ take 8 (mw_workspace_id w)"

definition head_of :: "git_run \<Rightarrow> string option" where
  "head_of r = (case r of
      Git_raises \<Rightarrow> None
    | Git_exit code out \<Rightarrow> if code = 0 \<and> length (str_strip out) = 40 then Some (str_strip out) else None)"

definition get_head :: "git_world \<Rightarrow> ManagedWorkspace \<Rightarrow> string option" where
  "get_head g w =
    (case present_text (mw_worktree_path w) of
       None \<Rightarrow> head_of (gw_head g None)
     | Some p \<Rightarrow> if gw_exists g p then head_of (gw_head g (Some p)) else None)"

definition with_head :: "git_world \<Rightarrow> ManagedWorkspace \<Rightarrow> ManagedWorkspace" where
  "with_head g w = (case get_head g w of None \<Rightarrow> w | Some h \<Rightarrow> w\<lparr>mw_head_sha := Some h\<rparr>)"

definition has_uncommitted_changes :: "git_world \<Rightarrow> string \<Rightarrow> bool option" where
  "has_uncommitted_changes g p =
    (case gw_status g p of
       Git_raises \<Rightarrow> None
     | Git_exit code out \<Rightarrow> if code \<noteq> 0 then None else Some (str_strip out \<noteq> ''''))"

definition git_has_uncommitted_changes :: "git_world \<Rightarrow> string \<Rightarrow> bool" where
  "git_has_uncommitted_changes g p = (case gw_status g p of Git_raises \<Rightarrow> False | Git_exit code out \<Rightarrow> str_strip out \<noteq> '''')"

section \<open>From request to review\<close>

definition request_workspace :: "workspace_env \<Rightarrow> timestamp \<Rightarrow> ManagedWorkspace \<Rightarrow> workspace_op" where
  "request_workspace env now w =
    caching w (saving w (then_op
      (transits env now (mw_workspace_id w) (WS_REQUESTED, None) WE_WORKSPACE_REQUESTED id)
      (transits env now (mw_workspace_id w) (WS_RESERVED, None) WE_WORKSPACE_RESERVED id)))"

text \<open>The workspace a request builds.\<close>

definition new_workspace ::
  "timestamp \<Rightarrow> string \<Rightarrow> string \<Rightarrow> string option \<Rightarrow> string option \<Rightarrow> string option \<Rightarrow> WorkspaceRole \<Rightarrow> string \<Rightarrow> string option \<Rightarrow> ManagedWorkspace" where
  "new_workspace now i project mission lane agent role base session =
    \<lparr>mw_workspace_id = i, mw_project_identity = project, mw_mission_id = mission, mw_lane_id = lane, mw_agent_profile_name = agent,
     mw_role = role, mw_state = WS_REQUESTED, mw_recovery_state = None, mw_worktree_path = None, mw_branch_name = None,
     mw_base_branch = ''main'', mw_base_commit_sha = Some base, mw_managed_branch_name = None, mw_head_sha = None,
     mw_changed_files_count = 0, mw_checkpoint_sha = None, mw_session_id = session, mw_context_capsule_digest = None,
     mw_harness_profile_digest = None, mw_runtime_binding_reference = None, mw_created_at = now, mw_updated_at = now\<rparr>"

definition add_worktree :: "workspace_env \<Rightarrow> git_world \<Rightarrow> string \<Rightarrow> ManagedWorkspace \<Rightarrow> workspace_op" where
  "add_worktree env g i w sv =
    (let branch = build_branch_name env w; path = wv_worktrees env @ ''/'' @ i;
         base = (case present_text (mw_base_commit_sha w) of None \<Rightarrow> ''HEAD'' | Some s \<Rightarrow> s);
         sv1 = log_git (GitAdd branch path base) sv
     in case gw_add g branch path base of
          Git_raises \<Rightarrow> fails ''git_failed'' sv1
        | Git_exit code out \<Rightarrow>
            if code \<noteq> 0
            then fails ''git_failed'' (fst (ws_transition env (gw_now g) i (WS_RETIRED, Some RS_RESERVATION_REFUSED) WE_RESERVATION_REFUSED
              (\<lambda>e. e\<lparr>we_reason := Some ''git worktree add failed''\<rparr>) sv1))
            else
              let w' = w\<lparr>mw_worktree_path := Some path, mw_branch_name := Some branch, mw_managed_branch_name := Some branch\<rparr>
              in caching w' (saving w' (transits env (gw_now g) i (WS_WORKTREE_CREATED, None) WE_WORKTREE_CREATED
                   (\<lambda>e. e\<lparr>we_worktree_path := Some path, we_branch_name := Some branch\<rparr>))) sv1)"

definition create_worktree :: "workspace_env \<Rightarrow> git_world \<Rightarrow> string \<Rightarrow> workspace_op" where
  "create_worktree env g i =
    (if \<not> sanitize_workspace_id i then fails ''invalid_id''
     else with_workspace i (\<lambda>w. if mw_state w \<noteq> WS_RESERVED then fails ''wrong_state'' else add_worktree env g i w))"
definition bootstrap :: "workspace_env \<Rightarrow> timestamp \<Rightarrow> string \<Rightarrow> workspace_op" where
  "bootstrap env now i = with_workspace i (\<lambda>w.
     if mw_state w \<noteq> WS_WORKTREE_CREATED then fails ''wrong_state''
     else then_op (transits env now i (WS_BOOTSTRAPPING, None) WE_BOOTSTRAP_STARTED id)
       (transits env now i (WS_READY, None) WE_BOOTSTRAP_COMPLETED id))"

definition activate :: "workspace_env \<Rightarrow> timestamp \<Rightarrow> string \<Rightarrow> string \<Rightarrow> workspace_op" where
  "activate env now i session = with_workspace i (\<lambda>w.
     if mw_state w \<noteq> WS_READY then fails ''wrong_state''
     else saving (w\<lparr>mw_session_id := Some session\<rparr>)
       (transits env now i (WS_ACTIVE, None) WE_WORKSPACE_ACTIVATED (\<lambda>e. e\<lparr>we_session_id := Some session\<rparr>)))"

definition record_changes :: "workspace_env \<Rightarrow> git_world \<Rightarrow> string \<Rightarrow> int \<Rightarrow> workspace_op" where
  "record_changes env g i n = with_workspace i (\<lambda>w.
     if mw_state w \<noteq> WS_ACTIVE then fails ''wrong_state''
     else let w' = with_head g (w\<lparr>mw_changed_files_count := n\<rparr>)
       in saving w' (caching w' (transits env (gw_now g) i (WS_ACTIVE, None) WE_CHANGES_RECORDED
            (\<lambda>e. e\<lparr>we_changed_files_count := Some n\<rparr>))))"

definition checkpoint :: "workspace_env \<Rightarrow> git_world \<Rightarrow> string \<Rightarrow> string \<Rightarrow> workspace_op" where
  "checkpoint env g i sha = with_workspace i (\<lambda>w.
     if mw_state w \<notin> {WS_ACTIVE, WS_UNDER_REVIEW} then fails ''wrong_state''
     else let w' = with_head g (w\<lparr>mw_checkpoint_sha := Some sha\<rparr>)
       in saving w' (caching w' (transits env (gw_now g) i (WS_CHECKPOINTED, None) WE_WORKSPACE_CHECKPOINTED
            (\<lambda>e. e\<lparr>we_checkpoint_sha := Some sha\<rparr>))))"

text \<open>A step from one state to the next.\<close>

definition moves ::
  "workspace_env \<Rightarrow> timestamp \<Rightarrow> string \<Rightarrow> WorkspaceState \<Rightarrow> WorkspaceState \<Rightarrow> WorkspaceLifecycleEventKind \<Rightarrow> workspace_op" where
  "moves env now i from_state to_state kind = with_workspace i (\<lambda>w.
     if mw_state w \<noteq> from_state then fails ''wrong_state'' else transits env now i (to_state, None) kind id)"

definition mark_validating :: "workspace_env \<Rightarrow> timestamp \<Rightarrow> string \<Rightarrow> workspace_op" where
  "mark_validating env now i = moves env now i WS_ACTIVE WS_VALIDATING WE_VALIDATION_STARTED"

definition mark_under_review :: "workspace_env \<Rightarrow> timestamp \<Rightarrow> string \<Rightarrow> workspace_op" where
  "mark_under_review env now i = moves env now i WS_VALIDATING WS_UNDER_REVIEW WE_REVIEW_STARTED"

definition mark_validation_required :: "workspace_env \<Rightarrow> timestamp \<Rightarrow> string \<Rightarrow> workspace_op" where
  "mark_validation_required env now i = with_workspace i (\<lambda>w. transits env now i (WS_VALIDATING, None) WE_VALIDATION_REQUIRED id)"

definition release_for_integration :: "workspace_env \<Rightarrow> timestamp \<Rightarrow> string \<Rightarrow> workspace_op" where
  "release_for_integration env now i = moves env now i WS_CHECKPOINTED WS_RELEASED_FOR_INTEGRATION WE_RELEASED_FOR_INTEGRATION"

definition mark_integrated :: "workspace_env \<Rightarrow> timestamp \<Rightarrow> string \<Rightarrow> workspace_op" where
  "mark_integrated env now i = moves env now i WS_RELEASED_FOR_INTEGRATION WS_INTEGRATED WE_INTEGRATED"

definition mark_published :: "workspace_env \<Rightarrow> timestamp \<Rightarrow> string \<Rightarrow> workspace_op" where
  "mark_published env now i = moves env now i WS_INTEGRATED WS_PUBLISHED WE_PUBLISHED"

end
