(* ===== verification/Workspace_Removal.thy ===== *)
theory Workspace_Removal
  imports Workspace_Service
begin

text \<open>
  The operations of \<^verbatim>\<open>ManagedWorkspaceService\<close> that end a workspace or bring it back: retire, remove, reset and
  quarantine, the detection of a stale base or a lost session, and recovery.  The lock of a recovery is the
  argument \<open>busy\<close> of \<open>recover\<close>, true while another process holds it.
\<close>

section \<open>Removing a worktree\<close>

definition UNRELEASED_STATES :: "WorkspaceState list" where
  "UNRELEASED_STATES = [WS_ACTIVE, WS_VALIDATING, WS_UNDER_REVIEW]"

text \<open>The reason a destructive action is refused; the workspace is the one in the file.\<close>

definition verify_destructive_action_safe :: "git_world \<Rightarrow> bool \<Rightarrow> ManagedWorkspace \<Rightarrow> string option" where
  "verify_destructive_action_safe g force w =
    (let unreleased = (if mw_state w \<in> set UNRELEASED_STATES \<and> \<not> force then Some ''unreleased'' else None)
     in case mw_worktree_path w of
          None \<Rightarrow> unreleased
        | Some p \<Rightarrow>
            if gw_primary g p then Some ''primary''
            else if gw_exists g p \<and> \<not> force \<and> has_uncommitted_changes g p \<noteq> Some False then Some ''uncommitted''
            else unreleased)"

definition git_ok :: "git_run \<Rightarrow> bool" where
  "git_ok r = (case r of Git_raises \<Rightarrow> False | Git_exit code out \<Rightarrow> code = 0)"

definition try_git_worktree_remove :: "git_world \<Rightarrow> string \<Rightarrow> bool \<Rightarrow> workspace_service \<Rightarrow> workspace_service \<times> bool" where
  "try_git_worktree_remove g p force sv = (log_git (GitRemove p force) sv, git_ok (gw_remove g p force))"

definition without_worktree :: "ManagedWorkspace \<Rightarrow> ManagedWorkspace" where
  "without_worktree w = w\<lparr>mw_worktree_path := None, mw_branch_name := None, mw_managed_branch_name := None\<rparr>"

text \<open>A refusal is a transition of its own, to a status of retirement.\<close>

definition refuses ::
  "workspace_env \<Rightarrow> git_world \<Rightarrow> string \<Rightarrow> RecoveryState \<Rightarrow> WorkspaceLifecycleEventKind \<Rightarrow> string \<Rightarrow> workspace_op" where
  "refuses env g i r kind why = transits env (gw_now g) i (WS_RETIRED, Some r) kind (\<lambda>e. e\<lparr>we_reason := Some why\<rparr>)"

definition remove_worktree :: "workspace_env \<Rightarrow> git_world \<Rightarrow> bool \<Rightarrow> string \<Rightarrow> workspace_op" where
  "remove_worktree env g force i = with_workspace i (\<lambda>w.
     case present_text (mw_worktree_path w) of
       None \<Rightarrow> fails ''no_worktree''
     | Some p \<Rightarrow>
         (case verify_destructive_action_safe g force w of
            Some why \<Rightarrow> refuses env g i RS_REMOVAL_REFUSED WE_REMOVAL_REFUSED why
          | None \<Rightarrow> (\<lambda>sv.
              let (sv1, removed) = (if gw_exists g p then try_git_worktree_remove g p force sv else (sv, True))
              in if removed then saving (without_worktree w) done_op sv1
                 else refuses env g i RS_REMOVAL_REFUSED WE_REMOVAL_REFUSED ''git worktree remove failed'' sv1)))"

definition retires :: "workspace_env \<Rightarrow> git_world \<Rightarrow> string \<Rightarrow> workspace_op" where
  "retires env g i = transits env (gw_now g) i (WS_RETIRED, None) WE_WORKSPACE_RETIRED id"

text \<open>What \<^verbatim>\<open>retire\<close> does once it is allowed: with \<open>force\<close> a removal that fails does not stop it.\<close>

definition remove_and_retire :: "workspace_env \<Rightarrow> git_world \<Rightarrow> bool \<Rightarrow> string \<Rightarrow> workspace_op" where
  "remove_and_retire env g force i sv =
    (case remove_worktree env g force i sv of
       (sv1, Inl x) \<Rightarrow> (sv1, Inl x)
     | (sv1, Inr out) \<Rightarrow> if out \<noteq> Done \<and> \<not> force then fails ''removal_failed'' sv1 else retires env g i sv1)"

definition retire :: "workspace_env \<Rightarrow> git_world \<Rightarrow> bool \<Rightarrow> string \<Rightarrow> workspace_op" where
  "retire env g force i = with_workspace i (\<lambda>w.
     if mw_state w = WS_RETIRED then fails ''already_retired''
     else case verify_destructive_action_safe g force w of
            Some why \<Rightarrow> fails why
          | None \<Rightarrow> if present_text (mw_worktree_path w) = None then retires env g i else remove_and_retire env g force i)"

section \<open>Resetting a workspace\<close>

definition lock_worktree :: "git_world \<Rightarrow> string \<Rightarrow> workspace_service \<Rightarrow> workspace_service \<times> bool" where
  "lock_worktree g p sv = (log_git (GitLock p) sv, git_ok (gw_lock g p))"

definition unlock_worktree :: "string \<Rightarrow> workspace_service \<Rightarrow> workspace_service" where
  "unlock_worktree p sv = log_git (GitUnlock p) sv"

definition try_git_worktree_remove_and_clear ::
  "git_world \<Rightarrow> string \<Rightarrow> string \<Rightarrow> bool \<Rightarrow> workspace_service \<Rightarrow> workspace_service \<times> bool result" where
  "try_git_worktree_remove_and_clear g i p force sv =
    (let (sv1, removed) = try_git_worktree_remove g p force sv
     in if \<not> removed then (sv1, Inr False)
        else case load_workspace i sv1 of
               None \<Rightarrow> (sv1, Inr True)
             | Some w \<Rightarrow> let (ok, sv2) = save_workspace (without_worktree w) sv1 in (sv2, if ok then Inr True else Inl OSError))"

text \<open>\<^verbatim>\<open>_reset_workspace_forced\<close>; the worktree is unlocked on every way out.\<close>

definition reset_existing :: "workspace_env \<Rightarrow> git_world \<Rightarrow> string \<Rightarrow> string \<Rightarrow> workspace_op" where
  "reset_existing env g i p sv =
    (let (sv1, locked) = lock_worktree g p sv
     in if \<not> locked then refuses env g i RS_RESET_REFUSED WE_RESET_REFUSED ''worktree lock failed during reset'' sv1
        else case try_git_worktree_remove_and_clear g i p True sv1 of
               (sv2, Inl x) \<Rightarrow> (unlock_worktree p sv2, Inl x)
             | (sv2, Inr removed) \<Rightarrow>
                 if removed then retires env g i (unlock_worktree p sv2)
                 else refuses env g i RS_RESET_REFUSED WE_RESET_REFUSED ''worktree removal failed during reset'' (unlock_worktree p sv2))"

definition reset_workspace_forced :: "workspace_env \<Rightarrow> git_world \<Rightarrow> string \<Rightarrow> workspace_op" where
  "reset_workspace_forced env g i = with_workspace i (\<lambda>w.
     case present_text (mw_worktree_path w) of
       None \<Rightarrow> retires env g i
     | Some p \<Rightarrow>
         if gw_primary g p then fails ''primary''
         else if gw_exists g p then reset_existing env g i p
         else retires env g i)"

definition reset_workspace :: "workspace_env \<Rightarrow> git_world \<Rightarrow> bool \<Rightarrow> string \<Rightarrow> workspace_op" where
  "reset_workspace env g force i = with_workspace i (\<lambda>w.
     if mw_state w = WS_RETIRED then fails ''already_retired''
     else case verify_destructive_action_safe g force w of
            None \<Rightarrow> retires env g i
          | Some why \<Rightarrow>
              if force then reset_workspace_forced env g i
              else refuses env g i RS_RESET_REFUSED WE_RESET_REFUSED why)"

section \<open>Quarantine\<close>

definition quarantine :: "workspace_env \<Rightarrow> git_world \<Rightarrow> string \<Rightarrow> string \<Rightarrow> workspace_op" where
  "quarantine env g i reason = with_workspace i (\<lambda>w.
     if (case mw_recovery_state w of None \<Rightarrow> False | Some r \<Rightarrow> r \<in> set TERMINAL_RECOVERY) then fails ''terminal_recovery''
     else refuses env g i RS_QUARANTINED WE_QUARANTINED reason)"

text \<open>The worktree of a quarantined workspace is locked if git lets it.\<close>

definition quarantine_workspace :: "workspace_env \<Rightarrow> git_world \<Rightarrow> string \<Rightarrow> string \<Rightarrow> workspace_op" where
  "quarantine_workspace env g i reason = with_workspace i (\<lambda>w. then_op (quarantine env g i reason) (\<lambda>sv.
     case present_text (mw_worktree_path w) of
       None \<Rightarrow> done_op sv
     | Some p \<Rightarrow> done_op (if gw_exists g p then fst (lock_worktree g p sv) else sv)))"

definition has_unreleased_work :: "git_world \<Rightarrow> ManagedWorkspace \<Rightarrow> bool" where
  "has_unreleased_work g w \<longleftrightarrow> mw_state w \<in> set (WS_CHECKPOINTED # UNRELEASED_STATES) \<or>
    (case present_text (mw_worktree_path w) of
       None \<Rightarrow> False
     | Some p \<Rightarrow> gw_exists g p \<and> has_uncommitted_changes g p \<noteq> Some False)"

definition safe_retire_workspace :: "workspace_env \<Rightarrow> git_world \<Rightarrow> bool \<Rightarrow> string \<Rightarrow> workspace_op" where
  "safe_retire_workspace env g force i = with_workspace i (\<lambda>w.
     if mw_state w = WS_RETIRED then fails ''already_retired''
     else if mw_recovery_state w = Some RS_QUARANTINED then fails ''already_quarantined''
     else if has_unreleased_work g w \<and> \<not> force then (\<lambda>sv.
       case quarantine_workspace env g i ''safe_retire: unreleased work preserved'' sv of
         (sv1, Inl x) \<Rightarrow> (sv1, Inl x)
       | (sv1, Inr out) \<Rightarrow> fails (if out = Done then ''quarantined'' else ''quarantine_failed'') sv1)
     else retire env g force i)"

section \<open>Detection and recovery\<close>

definition detect_stale_base :: "workspace_env \<Rightarrow> git_world \<Rightarrow> string \<Rightarrow> workspace_op" where
  "detect_stale_base env g i = with_workspace i (\<lambda>w.
     case present_text (mw_base_commit_sha w) of
       None \<Rightarrow> fails ''no_base''
     | Some base \<Rightarrow>
         (case gw_ancestor g base of
            Git_raises \<Rightarrow> fails ''git_failed''
          | Git_exit code out \<Rightarrow>
              if code = 0 then done_op
              else transits env (gw_now g) i (WS_ACTIVE, Some RS_STALE_BASE) WE_STALE_BASE_DETECTED
                (\<lambda>e. e\<lparr>we_reason := Some (''base '' @ take 8 base @ '' is not an ancestor of HEAD'')\<rparr>)))"

definition detect_session_detached :: "workspace_env \<Rightarrow> timestamp \<Rightarrow> string \<Rightarrow> string \<Rightarrow> workspace_op" where
  "detect_session_detached env now i current = with_workspace i (\<lambda>w.
     case present_text (mw_session_id w) of
       None \<Rightarrow> done_op
     | Some s \<Rightarrow>
         if s = current then done_op
         else transits env now i (WS_ACTIVE, Some RS_SESSION_DETACHED) WE_SESSION_DETACHED
           (\<lambda>e. e\<lparr>we_reason := Some (''session mismatch: stored='' @ s @ '', current='' @ current)\<rparr>))"

definition update_cached :: "string \<Rightarrow> (ManagedWorkspace \<Rightarrow> ManagedWorkspace) \<Rightarrow> workspace_service \<Rightarrow> workspace_service" where
  "update_cached i f sv = (case dict_get (sv_cache sv) i of None \<Rightarrow> sv | Some c \<Rightarrow> sv\<lparr>sv_cache := dict_set i (f c) (sv_cache sv)\<rparr>)"

text \<open>
  The workspace in memory gets the session and the head; it is brought to \<open>RECOVERED\<close> and then to no recovery.  When
  the second step fails, session and head are put back in memory, the file of before is written again, and the
  workspace is marked as needing recovery, whatever comes of that.
\<close>

definition reactivates :: "workspace_env \<Rightarrow> git_world \<Rightarrow> string \<Rightarrow> string \<Rightarrow> ManagedWorkspace \<Rightarrow> workspace_op" where
  "reactivates env g i session w sv =
    (case ws_transition env (gw_now g) i (WS_ACTIVE, None) WE_WORKSPACE_ACTIVATED (\<lambda>e. e\<lparr>we_session_id := Some session\<rparr>) sv of
       (sv1, Done) \<Rightarrow> (sv1, Inr Done)
     | (sv1, Failed why) \<Rightarrow>
         saving w (\<lambda>sv2.
           fails why (fst (ws_transition env (gw_now g) i (WS_ACTIVE, Some RS_RECOVERY_REQUIRED) WE_RECOVERY_REQUIRED
             (\<lambda>e. e\<lparr>we_reason := Some (''reactivation failed, retry: '' @ why)\<rparr>) sv2)))
           (update_cached i (\<lambda>c. c\<lparr>mw_session_id := mw_session_id w, mw_head_sha := mw_head_sha w\<rparr>) sv1))"

definition attached :: "git_world \<Rightarrow> string \<Rightarrow> ManagedWorkspace \<Rightarrow> ManagedWorkspace \<Rightarrow> ManagedWorkspace" where
  "attached g session w c = c\<lparr>mw_head_sha := (case get_head g w of None \<Rightarrow> mw_head_sha c | Some h \<Rightarrow> Some h), mw_session_id := Some session\<rparr>"

definition recover_attached :: "workspace_env \<Rightarrow> git_world \<Rightarrow> string \<Rightarrow> string \<Rightarrow> ManagedWorkspace \<Rightarrow> workspace_op" where
  "recover_attached env g i session w sv =
    then_op (transits env (gw_now g) i (WS_ACTIVE, Some RS_RECOVERED) WE_RECOVERED (\<lambda>e. e\<lparr>we_session_id := Some session\<rparr>))
      (reactivates env g i session w)
      (sv\<lparr>sv_cache := dict_set i (attached g session w (case dict_get (sv_cache sv) i of None \<Rightarrow> w | Some c \<Rightarrow> c)) (sv_cache sv)\<rparr>)"

definition recover :: "workspace_env \<Rightarrow> git_world \<Rightarrow> bool \<Rightarrow> string \<Rightarrow> string \<Rightarrow> workspace_op" where
  "recover env g busy i session =
    (if busy then fails ''in_progress''
     else with_workspace i (\<lambda>w.
       case mw_recovery_state w of
         None \<Rightarrow> fails ''not_in_recovery''
       | Some r \<Rightarrow>
           if r \<in> set TERMINAL_RECOVERY then fails ''terminal_recovery''
           else if (case present_text (mw_worktree_path w) of None \<Rightarrow> False | Some p \<Rightarrow> \<not> gw_exists g p) then fails ''no_worktree''
           else recover_attached env g i session w))"

end
