(* ===== verification/Workspace_Assignment.thy ===== *)
theory Workspace_Assignment
  imports Workspace_Removal
begin

text \<open>
  The assignment of sessions to workspaces (\<^verbatim>\<open>_service.py\<close>), the assessment of what can be recovered
  (\<^verbatim>\<open>rig_relay/workspace/_recovery.py\<close>) and the projection for the fleet (\<^verbatim>\<open>_projection.py\<close>).
\<close>

section \<open>Assignments\<close>

datatype AssignmentState =
    READY_FOR_ASSIGNMENT | ASSIGNED | DETACHED_WITH_WORK_PRESERVED | AS_RECOVERY_REQUIRED | AS_RECOVERED
  | BLOCKED_MISSING_CONTEXT_RELEASE | AS_RELEASED_FOR_INTEGRATION | AS_RETIRED

record WorkspaceAssignmentRequest =
  wr_workspace_id :: string
  wr_mission_id :: "string option"
  wr_lane_id :: "string option"
  wr_agent_role :: WorkspaceRole
  wr_session_id :: "string option"
  wr_context_capsule_digest :: "string option"
  wr_harness_profile_digest :: "string option"
  wr_runtime_binding_reference :: "string option"

record WorkspaceAssignmentReceipt =
  wa_receipt_id :: string
  wa_workspace_id :: string
  wa_mission_id :: "string option"
  wa_lane_id :: "string option"
  wa_agent_role :: WorkspaceRole
  wa_assignment_state :: AssignmentState
  wa_session_id :: "string option"
  wa_base_sha :: "string option"
  wa_branch_name :: "string option"
  wa_context_capsule_digest :: "string option"
  wa_harness_profile_digest :: "string option"
  wa_runtime_binding_reference :: "string option"
  wa_created_at :: timestamp

record CurrentAssignmentProjection =
  ca_workspace_id :: string
  ca_assignment_state :: AssignmentState
  ca_agent_role :: string
  ca_session_id :: "string option"
  ca_context_available :: bool
  ca_profile_available :: bool
  ca_runtime_available :: bool
  ca_blocked :: bool

text \<open>An operation that answers with a value or with the reason of its refusal.\<close>

type_synonym 'a workspace_answer = "workspace_service \<Rightarrow> workspace_service \<times> (string + 'a) result"

definition refused_answer :: "string \<Rightarrow> 'a workspace_answer" where
  "refused_answer why sv = (sv, Inr (Inl why))"

definition derive_assignment_state :: "ManagedWorkspace \<Rightarrow> AssignmentState" where
  "derive_assignment_state w =
    (case mw_state w of
       WS_READY \<Rightarrow> READY_FOR_ASSIGNMENT
     | WS_ACTIVE \<Rightarrow>
         (case mw_recovery_state w of
            Some RS_SESSION_DETACHED \<Rightarrow> DETACHED_WITH_WORK_PRESERVED
          | Some RS_RECOVERY_REQUIRED \<Rightarrow> AS_RECOVERY_REQUIRED
          | Some RS_RECOVERED \<Rightarrow> AS_RECOVERED
          | _ \<Rightarrow> ASSIGNED)
     | WS_RELEASED_FOR_INTEGRATION \<Rightarrow> AS_RELEASED_FOR_INTEGRATION
     | WS_RETIRED \<Rightarrow> AS_RETIRED
     | _ \<Rightarrow> BLOCKED_MISSING_CONTEXT_RELEASE)"

definition or_else :: "string option \<Rightarrow> string option \<Rightarrow> string option" where
  "or_else a b = (case present_text a of None \<Rightarrow> b | Some s \<Rightarrow> Some s)"

definition assigned_workspace :: "WorkspaceAssignmentRequest \<Rightarrow> ManagedWorkspace \<Rightarrow> ManagedWorkspace" where
  "assigned_workspace q w = w\<lparr>mw_session_id := wr_session_id q, mw_mission_id := or_else (wr_mission_id q) (mw_mission_id w),
     mw_lane_id := or_else (wr_lane_id q) (mw_lane_id w), mw_role := wr_agent_role q,
     mw_context_capsule_digest := wr_context_capsule_digest q, mw_harness_profile_digest := wr_harness_profile_digest q,
     mw_runtime_binding_reference := wr_runtime_binding_reference q\<rparr>"

text \<open>Both receipts are of the workspace as stored last; \<open>rid\<close> is the fresh identifier of the receipt.\<close>

definition assignment_receipt ::
  "timestamp \<Rightarrow> string \<Rightarrow> string \<Rightarrow> string option \<Rightarrow> string option \<Rightarrow> string option \<Rightarrow> ManagedWorkspace \<Rightarrow> WorkspaceAssignmentReceipt" where
  "assignment_receipt now rid i mission lane session w =
    \<lparr>wa_receipt_id = rid, wa_workspace_id = i, wa_mission_id = mission, wa_lane_id = lane, wa_agent_role = mw_role w,
     wa_assignment_state = derive_assignment_state w, wa_session_id = session, wa_base_sha = mw_base_commit_sha w,
     wa_branch_name = mw_branch_name w, wa_context_capsule_digest = mw_context_capsule_digest w,
     wa_harness_profile_digest = mw_harness_profile_digest w, wa_runtime_binding_reference = mw_runtime_binding_reference w,
     wa_created_at = now\<rparr>"

definition bind_assignment ::
  "timestamp \<Rightarrow> string \<Rightarrow> string \<Rightarrow> WorkspaceAssignmentRequest \<Rightarrow> WorkspaceAssignmentReceipt workspace_answer" where
  "bind_assignment now rid i q sv =
    (case load_workspace i sv of
       None \<Rightarrow> refused_answer ''lost'' sv
     | Some w0 \<Rightarrow>
         let w = assigned_workspace q w0; (ok, sv1) = save_workspace w sv
         in if ok then (cache_workspace w sv1, Inr (Inr (assignment_receipt now rid i (wr_mission_id q) (wr_lane_id q) (wr_session_id q) w)))
            else (sv1, Inl OSError))"

definition assign_session ::
  "workspace_env \<Rightarrow> timestamp \<Rightarrow> string \<Rightarrow> string \<Rightarrow> WorkspaceAssignmentRequest \<Rightarrow> WorkspaceAssignmentReceipt workspace_answer" where
  "assign_session env now rid i q sv =
    (if \<not> sanitize_workspace_id i then refused_answer ''invalid_id'' sv
     else case load_workspace i sv of
       None \<Rightarrow> refused_answer ''not_found'' sv
     | Some w \<Rightarrow>
         if wr_workspace_id q \<noteq> i then refused_answer ''id_mismatch'' sv
         else if mw_state w = WS_READY then
           (case ws_transition env now i (WS_ACTIVE, None) WE_WORKSPACE_ACTIVATED (\<lambda>e. e\<lparr>we_session_id := wr_session_id q\<rparr>) sv of
              (sv1, Failed why) \<Rightarrow> refused_answer why sv1
            | (sv1, Done) \<Rightarrow> bind_assignment now rid i q sv1)
         else if mw_state w = WS_ACTIVE \<and> mw_session_id w = None then bind_assignment now rid i q sv
         else refused_answer ''wrong_state'' sv)"

text \<open>A session that leaves with changes leaves the workspace detached; without, only an event is appended.\<close>

definition detach_session :: "workspace_env \<Rightarrow> git_world \<Rightarrow> string \<Rightarrow> string \<Rightarrow> workspace_op" where
  "detach_session env g i reason =
    (if \<not> sanitize_workspace_id i then fails ''invalid_id''
     else with_workspace i (\<lambda>w.
       if mw_state w \<noteq> WS_ACTIVE then fails ''wrong_state''
       else if (case present_text (mw_worktree_path w) of None \<Rightarrow> False | Some p \<Rightarrow> gw_exists g p \<and> git_has_uncommitted_changes g p)
       then transits env (gw_now g) i (WS_ACTIVE, Some RS_SESSION_DETACHED) WE_SESSION_DETACHED (\<lambda>e. e\<lparr>we_reason := Some reason\<rparr>)
       else
         let w' = w\<lparr>mw_session_id := None\<rparr>
         in saving w' (caching w' (\<lambda>sv.
              let e = (lifecycle_event env (gw_now g) i WE_SESSION_DETACHED sv)
                    \<lparr>we_state_before := Some WS_ACTIVE, we_state_after := Some WS_ACTIVE, we_worktree_path := mw_worktree_path w,
                     we_reason := Some (''session detached (no work preserved): '' @ reason)\<rparr>;
                  (ok, sv1) = append_lifecycle env e sv
              in (sv1, if ok then Inr Done else Inl OSError)))))"

definition reattach_session ::
  "workspace_env \<Rightarrow> git_world \<Rightarrow> bool \<Rightarrow> string \<Rightarrow> string \<Rightarrow> string \<Rightarrow> WorkspaceAssignmentReceipt workspace_answer" where
  "reattach_session env g busy rid i session sv =
    (if \<not> sanitize_workspace_id i then refused_answer ''invalid_id'' sv
     else case load_workspace i sv of
       None \<Rightarrow> refused_answer ''not_found'' sv
     | Some w \<Rightarrow>
         if mw_recovery_state w \<notin> {Some RS_SESSION_DETACHED, Some RS_RECOVERY_REQUIRED} then refused_answer ''wrong_recovery'' sv
         else if (case present_text (mw_worktree_path w) of None \<Rightarrow> False | Some p \<Rightarrow> \<not> gw_exists g p) then refused_answer ''no_worktree'' sv
         else case recover env g busy i session sv of
           (sv1, Inl x) \<Rightarrow> (sv1, Inl x)
         | (sv1, Inr (Failed why)) \<Rightarrow> refused_answer why sv1
         | (sv1, Inr Done) \<Rightarrow>
             (case load_workspace i sv1 of
                None \<Rightarrow> refused_answer ''lost'' sv1
              | Some w1 \<Rightarrow> (sv1, Inr (Inr (assignment_receipt (gw_now g) rid i (mw_mission_id w1) (mw_lane_id w1) (Some session) w1)))))"

definition get_current_assignment :: "string \<Rightarrow> workspace_service \<Rightarrow> CurrentAssignmentProjection option" where
  "get_current_assignment i sv =
    map_option (\<lambda>w. \<lparr>ca_workspace_id = i, ca_assignment_state = derive_assignment_state w, ca_agent_role = role_name (mw_role w),
        ca_session_id = mw_session_id w, ca_context_available = mw_context_capsule_digest w \<noteq> None,
        ca_profile_available = mw_harness_profile_digest w \<noteq> None, ca_runtime_available = mw_runtime_binding_reference w \<noteq> None,
        ca_blocked = (derive_assignment_state w = BLOCKED_MISSING_CONTEXT_RELEASE)\<rparr>)
      (current_workspace i sv)"

definition release_assignment :: "workspace_env \<Rightarrow> timestamp \<Rightarrow> string \<Rightarrow> workspace_op" where
  "release_assignment env now i =
    (if \<not> sanitize_workspace_id i then fails ''invalid_id''
     else with_workspace i (\<lambda>w.
       if mw_state w \<noteq> WS_ACTIVE then fails ''wrong_state''
       else then_op (transits env now i (WS_RELEASED_FOR_INTEGRATION, None) WE_RELEASED_FOR_INTEGRATION id)
         (with_workspace i (\<lambda>w1. let w' = w1\<lparr>mw_session_id := None\<rparr> in saving w' (caching w' done_op)))))"

section \<open>What can be recovered\<close>

datatype WorkPreservationState =
    NO_WORK_DETECTED | WP_CLEAN | UNCOMMITTED_EDITS_PRESENT | CHECKPOINT_PRESENT | UNCHECKPOINTED_EDITS_PRESENT
  | REAPPLICATION_SUSPECTED

record WorkLossAssessment =
  wl_workspace_id :: string
  wl_worktree_exists :: bool
  wl_work_preservation :: WorkPreservationState
  wl_uncommitted_changes_count :: nat
  wl_changed_files :: "string list"
  wl_current_head_sha :: "string option"
  wl_checkpoint_sha :: "string option"
  wl_duplicate_checkpoint_detected :: bool
  wl_recovery_required :: bool
  wl_recovery_possible :: bool
  wl_validation_required :: bool

definition list_workspaces :: "WorkspaceState option \<Rightarrow> workspace_service \<Rightarrow> workspace_service \<times> ManagedWorkspace list" where
  "list_workspaces state sv =
    (let sv1 = load_all sv
     in (sv1, filter (\<lambda>w. case state of None \<Rightarrow> True | Some s \<Rightarrow> mw_state w = s) (dict_values (sv_cache sv1))))"

definition ENGINE_TERMINAL_STATES :: "WorkspaceState list" where
  "ENGINE_TERMINAL_STATES = [WS_RETIRED, WS_INTEGRATED, WS_PUBLISHED]"

definition is_stale_base :: "git_world \<Rightarrow> string \<Rightarrow> bool" where
  "is_stale_base g base = (case gw_ancestor g base of Git_raises \<Rightarrow> False | Git_exit code out \<Rightarrow> code \<noteq> 0)"

text \<open>The state a workspace should be recovered from; \<open>root\<close> is the default directory of worktrees.\<close>

definition assess_workspace :: "git_world \<Rightarrow> string \<Rightarrow> ManagedWorkspace \<Rightarrow> RecoveryState option" where
  "assess_workspace g root w =
    (if mw_state w \<in> set ENGINE_TERMINAL_STATES then None
     else if (case mw_recovery_state w of None \<Rightarrow> False | Some r \<Rightarrow> r \<in> set TERMINAL_RECOVERY) then None
     else case mw_worktree_path w of
       None \<Rightarrow> if gw_exists g (root @ ''/'' @ mw_workspace_id w) then Some RS_RECOVERY_REQUIRED else None
     | Some p \<Rightarrow>
         if \<not> gw_exists g p then None
         else if (case present_text (mw_base_commit_sha w) of None \<Rightarrow> False | Some base \<Rightarrow> is_stale_base g base) then Some RS_STALE_BASE
         else if present_text (mw_session_id w) \<noteq> None \<and> mw_state w = WS_ACTIVE then
           Some (if git_has_uncommitted_changes g p then RS_RECOVERY_REQUIRED else RS_SESSION_DETACHED)
         else None)"

definition CANDIDATE_RECOVERY :: "RecoveryState list" where
  "CANDIDATE_RECOVERY = [RS_RECOVERY_REQUIRED, RS_SESSION_DETACHED, RS_STALE_BASE, RS_RECOVERED]"

text \<open>\<^verbatim>\<open>now - created > timeout\<close>, with the exceptions of both steps.\<close>

definition older_than :: "int \<Rightarrow> int \<Rightarrow> timestamp \<Rightarrow> bool result" where
  "older_than timeout now created = and_then (fromisoformat created) (\<lambda>d.
     case d of AwareDT t \<Rightarrow> Inr (seconds timeout < now - t) | NaiveDT t \<Rightarrow> Inl TypeError)"

definition is_candidate :: "git_world \<Rightarrow> string \<Rightarrow> int \<Rightarrow> int \<Rightarrow> ManagedWorkspace \<Rightarrow> bool result" where
  "is_candidate g root timeout now w =
    (if mw_state w \<in> set UNRELEASED_STATES \<or> (case mw_recovery_state w of None \<Rightarrow> False | Some r \<Rightarrow> r \<in> set CANDIDATE_RECOVERY)
     then Inr (mw_state w \<notin> set ENGINE_TERMINAL_STATES \<and> assess_workspace g root w \<noteq> None)
     else if mw_state w = WS_REQUESTED then older_than timeout now (mw_created_at w)
     else Inr False)"

fun candidates :: "(ManagedWorkspace \<Rightarrow> bool result) \<Rightarrow> ManagedWorkspace list \<Rightarrow> ManagedWorkspace list result" where
  "candidates p [] = Inr []"
| "candidates p (w # ws) = and_then (p w) (\<lambda>b. and_then (candidates p ws) (\<lambda>cs. Inr (if b then w # cs else cs)))"

definition scan_for_recovery_candidates ::
  "git_world \<Rightarrow> string \<Rightarrow> int \<Rightarrow> int \<Rightarrow> workspace_service \<Rightarrow> workspace_service \<times> ManagedWorkspace list result" where
  "scan_for_recovery_candidates g root timeout now sv =
    (let (sv1, ws) = list_workspaces None sv in (sv1, candidates (is_candidate g root timeout now) ws))"

definition nonempty_lines :: "string \<Rightarrow> string list" where
  "nonempty_lines out = filter (\<lambda>l. l \<noteq> '''') (split_lines (str_strip out))"

definition lines_if_ok :: "git_run \<Rightarrow> string list" where
  "lines_if_ok r = (case r of Git_raises \<Rightarrow> [] | Git_exit code out \<Rightarrow> if code = 0 then nonempty_lines out else [])"

definition get_current_head :: "git_world \<Rightarrow> string \<Rightarrow> string option" where
  "get_current_head g p = (case gw_head g (Some p) of Git_raises \<Rightarrow> None | Git_exit code out \<Rightarrow> if code = 0 then Some (str_strip out) else None)"

definition work_preservation :: "bool \<Rightarrow> bool \<Rightarrow> bool \<Rightarrow> bool \<Rightarrow> WorkPreservationState" where
  "work_preservation worktree duplicate has_checkpoint has_changes =
    (if \<not> worktree then NO_WORK_DETECTED
     else if duplicate then REAPPLICATION_SUSPECTED
     else if has_checkpoint \<and> has_changes then UNCHECKPOINTED_EDITS_PRESENT
     else if has_changes \<and> \<not> has_checkpoint then UNCOMMITTED_EDITS_PRESENT
     else if has_checkpoint \<and> \<not> has_changes then CHECKPOINT_PRESENT
     else WP_CLEAN)"

text \<open>\<open>diff\<close> answers \<^verbatim>\<open>git diff --name-only base...HEAD\<close> in a worktree.\<close>

definition assess_work_loss ::
  "git_world \<Rightarrow> (string \<Rightarrow> string \<Rightarrow> git_run) \<Rightarrow> string \<Rightarrow> workspace_service \<Rightarrow> WorkLossAssessment" where
  "assess_work_loss g diff i sv =
    (let found = (case current_workspace i sv of None \<Rightarrow> None | Some w \<Rightarrow>
           (case mw_worktree_path w of None \<Rightarrow> None | Some p \<Rightarrow> if gw_exists g p then Some (w, p) else None));
         checkpoint = (case found of None \<Rightarrow> None | Some (w, p) \<Rightarrow> mw_checkpoint_sha w);
         files = (case found of None \<Rightarrow> [] | Some (w, p) \<Rightarrow>
           (case present_text (mw_base_commit_sha w) of
              None \<Rightarrow> []
            | Some base \<Rightarrow> if p = '''' then [] else lines_if_ok (diff p base)));
         uncommitted = (case found of None \<Rightarrow> 0 | Some (w, p) \<Rightarrow> if p = '''' then 0 else length (lines_if_ok (gw_status g p)));
         head = (case found of None \<Rightarrow> None | Some (w, p) \<Rightarrow> if p = '''' then None else get_current_head g p);
         duplicate = (present_text checkpoint \<noteq> None \<and> present_text head \<noteq> None \<and> head = checkpoint);
         preservation = work_preservation (found \<noteq> None) duplicate (checkpoint \<noteq> None) (files \<noteq> [] \<or> 0 < uncommitted);
         required = (preservation \<in> {UNCOMMITTED_EDITS_PRESENT, UNCHECKPOINTED_EDITS_PRESENT})
     in \<lparr>wl_workspace_id = i, wl_worktree_exists = (found \<noteq> None), wl_work_preservation = preservation,
         wl_uncommitted_changes_count = uncommitted, wl_changed_files = files, wl_current_head_sha = head,
         wl_checkpoint_sha = checkpoint, wl_duplicate_checkpoint_detected = duplicate, wl_recovery_required = required,
         wl_recovery_possible = (found \<noteq> None), wl_validation_required = (required \<or> preservation = REAPPLICATION_SUSPECTED)\<rparr>)"

text \<open>\<open>listing\<close> is the answer of \<^verbatim>\<open>git worktree list --porcelain\<close>.\<close>

definition list_orphaned_worktrees :: "git_run \<Rightarrow> workspace_service \<Rightarrow> workspace_service \<times> string list" where
  "list_orphaned_worktrees listing sv =
    (case listing of
       Git_raises \<Rightarrow> (sv, [])
     | Git_exit code out \<Rightarrow>
         if code \<noteq> 0 then (sv, [])
         else
           let listed = map fst (fold (\<lambda>l. dict_set (str_strip (drop 9 l)) ()) (filter (\<lambda>l. startswith l ''worktree '') (split_lines out)) []);
               (sv1, ws) = list_workspaces None sv
           in (sv1, filter (\<lambda>p. \<not> list_ex (\<lambda>w. present_text (mw_worktree_path w) = Some p) ws) listed))"

text \<open>The assessment is made and not used.\<close>

definition attempt_recovery :: "workspace_env \<Rightarrow> git_world \<Rightarrow> bool \<Rightarrow> string \<Rightarrow> string \<Rightarrow> workspace_op" where
  "attempt_recovery env g busy i session sv =
    (case current_workspace i sv of None \<Rightarrow> fails ''not_found'' sv | Some w \<Rightarrow> recover env g busy i session sv)"

end
