(* ===== verification/Workspace_Safety.thy ===== *)
theory Workspace_Safety
  imports Workspace_Assignment
begin

text \<open>
  What every operation of the workspace service keeps.  The locale \<open>workspace_invariant\<close> is the contract: a
  predicate on the service and one on workspaces that saving, caching, recording and admitted transitions respect;
  inside it every operation is shown to keep the predicate, once.  It is interpreted three times: on the statuses
  and chains, on the end of one workspace, and on the commands that touch worktrees.
\<close>

section \<open>The calls\<close>

datatype workspace_call =
    WcRequest string string "string option" "string option" "string option" WorkspaceRole string "string option"
  | WcCreate string
  | WcBootstrap string
  | WcActivate string string
  | WcRecordChanges string int
  | WcCheckpoint string string
  | WcMarkValidating string
  | WcMarkUnderReview string
  | WcValidationRequired string
  | WcRelease string
  | WcIntegrated string
  | WcPublished string
  | WcRetire bool string
  | WcRemove bool string
  | WcReset bool string
  | WcQuarantine string string
  | WcQuarantineWorkspace string string
  | WcSafeRetire bool string
  | WcStaleBase string
  | WcSessionDetached string string
  | WcRecover bool string string
  | WcAttemptRecovery bool string string
  | WcAssign string string WorkspaceAssignmentRequest
  | WcDetach string string
  | WcReattach bool string string string
  | WcReleaseAssignment string
  | WcList "WorkspaceState option"

fun ws_call :: "workspace_env \<Rightarrow> git_world \<Rightarrow> workspace_call \<Rightarrow> workspace_service \<Rightarrow> workspace_service" where
  "ws_call env g (WcRequest i project mission lane agent role base session) sv = fst (request_workspace env (gw_now g) (new_workspace (gw_now g) i project mission lane agent role base session) sv)"
| "ws_call env g (WcCreate i) sv = fst (create_worktree env g i sv)"
| "ws_call env g (WcBootstrap i) sv = fst (bootstrap env (gw_now g) i sv)"
| "ws_call env g (WcActivate i session) sv = fst (activate env (gw_now g) i session sv)"
| "ws_call env g (WcRecordChanges i n) sv = fst (record_changes env g i n sv)"
| "ws_call env g (WcCheckpoint i sha) sv = fst (checkpoint env g i sha sv)"
| "ws_call env g (WcMarkValidating i) sv = fst (mark_validating env (gw_now g) i sv)"
| "ws_call env g (WcMarkUnderReview i) sv = fst (mark_under_review env (gw_now g) i sv)"
| "ws_call env g (WcValidationRequired i) sv = fst (mark_validation_required env (gw_now g) i sv)"
| "ws_call env g (WcRelease i) sv = fst (release_for_integration env (gw_now g) i sv)"
| "ws_call env g (WcIntegrated i) sv = fst (mark_integrated env (gw_now g) i sv)"
| "ws_call env g (WcPublished i) sv = fst (mark_published env (gw_now g) i sv)"
| "ws_call env g (WcRetire force i) sv = fst (retire env g force i sv)"
| "ws_call env g (WcRemove force i) sv = fst (remove_worktree env g force i sv)"
| "ws_call env g (WcReset force i) sv = fst (reset_workspace env g force i sv)"
| "ws_call env g (WcQuarantine i reason) sv = fst (quarantine env g i reason sv)"
| "ws_call env g (WcQuarantineWorkspace i reason) sv = fst (quarantine_workspace env g i reason sv)"
| "ws_call env g (WcSafeRetire force i) sv = fst (safe_retire_workspace env g force i sv)"
| "ws_call env g (WcStaleBase i) sv = fst (detect_stale_base env g i sv)"
| "ws_call env g (WcSessionDetached i session) sv = fst (detect_session_detached env (gw_now g) i session sv)"
| "ws_call env g (WcRecover busy i session) sv = fst (recover env g busy i session sv)"
| "ws_call env g (WcAttemptRecovery busy i session) sv = fst (attempt_recovery env g busy i session sv)"
| "ws_call env g (WcAssign rid i q) sv = fst (assign_session env (gw_now g) rid i q sv)"
| "ws_call env g (WcDetach i reason) sv = fst (detach_session env g i reason sv)"
| "ws_call env g (WcReattach busy rid i session) sv = fst (reattach_session env g busy rid i session sv)"
| "ws_call env g (WcReleaseAssignment i) sv = fst (release_assignment env (gw_now g) i sv)"
| "ws_call env g (WcList state) sv = fst (list_workspaces state sv)"

text \<open>Whether a call asks for removals by force, and the workspace it requests.\<close>

fun asks_force :: "workspace_call \<Rightarrow> bool" where
  "asks_force (WcRetire force i) = force"
| "asks_force (WcRemove force i) = force"
| "asks_force (WcReset force i) = force"
| "asks_force (WcSafeRetire force i) = force"
| "asks_force c = False"

fun requested :: "workspace_call \<Rightarrow> string option" where
  "requested (WcRequest i project mission lane agent role base session) = Some i"
| "requested c = None"

section \<open>The contract\<close>

definition keeps :: "(workspace_service \<Rightarrow> bool) \<Rightarrow> (workspace_service \<Rightarrow> workspace_service \<times> 'a) \<Rightarrow> bool" where
  "keeps P f \<longleftrightarrow> (\<forall>sv. P sv \<longrightarrow> P (fst (f sv)))"

lemma keepsI [intro?]: "(\<And>sv. P sv \<Longrightarrow> P (fst (f sv))) \<Longrightarrow> keeps P f"
  by (simp add: keeps_def)

lemma keepsD: "keeps P f \<Longrightarrow> P sv \<Longrightarrow> P (fst (f sv))"
  by (simp add: keeps_def)

lemma keeps_if: "keeps P f \<Longrightarrow> keeps P h \<Longrightarrow> keeps P (if b then f else h)"
  by simp

definition REFUSAL_KINDS :: "WorkspaceLifecycleEventKind set" where
  "REFUSAL_KINDS = {WE_REMOVAL_REFUSED, WE_RESET_REFUSED}"

definition REFUSAL_STATUSES :: "workspace_status set" where
  "REFUSAL_STATUSES = {(WS_RETIRED, Some RS_REMOVAL_REFUSED), (WS_RETIRED, Some RS_RESET_REFUSED)}"

text \<open>A worktree may be removed when it exists, is not the primary one, and is clean, or the removal is
  forced and the caller asked for that.\<close>

fun command_allowed :: "bool \<Rightarrow> git_world \<Rightarrow> git_command \<Rightarrow> bool" where
  "command_allowed forced g (GitRemove p force) \<longleftrightarrow> gw_exists g p \<and> \<not> gw_primary g p \<and>
    (if force then forced else has_uncommitted_changes g p = Some False)"
| "command_allowed forced g (GitAdd branch path base) \<longleftrightarrow> True"
| "command_allowed forced g (GitLock p) \<longleftrightarrow> gw_exists g p"
| "command_allowed forced g (GitUnlock p) \<longleftrightarrow> True"

text \<open>An update of an event that leaves its kind and digests alone.\<close>

definition plain_update :: "(WorkspaceLifecycleEvent \<Rightarrow> WorkspaceLifecycleEvent) \<Rightarrow> bool" where
  "plain_update upd \<longleftrightarrow> (\<forall>e. we_event_digest (upd e) = we_event_digest e \<and> we_event_kind (upd e) = we_event_kind e)"

lemma plain_updates [simp]:
  "plain_update id" "plain_update (\<lambda>e. e\<lparr>we_reason := r\<rparr>)" "plain_update (\<lambda>e. e\<lparr>we_session_id := s\<rparr>)"
  "plain_update (\<lambda>e. e\<lparr>we_worktree_path := p, we_branch_name := b\<rparr>)" "plain_update (\<lambda>e. e\<lparr>we_changed_files_count := n\<rparr>)"
  "plain_update (\<lambda>e. e\<lparr>we_checkpoint_sha := c\<rparr>)"
  by (simp_all add: plain_update_def)

lemma safe_removal:
  assumes "verify_destructive_action_safe g force w = None" and "present_text (mw_worktree_path w) = Some p" and "gw_exists g p"
    and "force \<Longrightarrow> forced"
  shows "command_allowed forced g (GitRemove p force)"
  using assms by (auto simp: verify_destructive_action_safe_def present_text_def Let_def split: if_splits option.splits)

locale workspace_invariant =
  fixes P :: "workspace_service \<Rightarrow> bool" and good :: "ManagedWorkspace \<Rightarrow> bool" and env :: workspace_env and g :: git_world and forced :: bool
  assumes loaded: "P sv \<Longrightarrow> load_workspace i sv = Some w \<Longrightarrow> good w \<and> mw_workspace_id w = i"
    and cached: "P sv \<Longrightarrow> dict_get (sv_cache sv) i = Some w \<Longrightarrow> good w \<and> mw_workspace_id w = i"
    and good_same: "good w \<Longrightarrow> mw_workspace_id v = mw_workspace_id w \<Longrightarrow> ws_status v = ws_status w \<Longrightarrow> good v"
    and good_step: "good w \<Longrightarrow> ws_admitted (ws_status w) t \<Longrightarrow> good (set_status t w)"
    and refusals: "good w \<Longrightarrow> t \<in> REFUSAL_STATUSES \<Longrightarrow> \<not> ws_admitted (ws_status w) t"
    and save_keeps: "P sv \<Longrightarrow> good w \<Longrightarrow> P (snd (save_workspace w sv))"
    and cache_keeps: "P sv \<Longrightarrow> good w \<Longrightarrow> P (cache_workspace w sv)"
    and clear_keeps: "P sv \<Longrightarrow> P (sv\<lparr>sv_cache := []\<rparr>)"
    and append_keeps: "P sv \<Longrightarrow> we_event_digest e = None \<Longrightarrow> we_event_kind e \<notin> REFUSAL_KINDS \<Longrightarrow> P (snd (append_lifecycle env e sv))"
    and git_keeps: "P sv \<Longrightarrow> command_allowed forced g c \<Longrightarrow> P (log_git c sv)"
begin

lemma current_good: "P sv \<Longrightarrow> current_workspace i sv = Some w \<Longrightarrow> good w \<and> mw_workspace_id w = i"
  by (auto simp: current_workspace_def loaded cached split: option.splits)

lemma save_result: "save_workspace w sv = (ok, sv') \<Longrightarrow> P sv \<Longrightarrow> good w \<Longrightarrow> P sv'"
  using save_keeps by (metis snd_conv)

lemma append_result:
  "append_lifecycle env e sv = (ok, sv') \<Longrightarrow> P sv \<Longrightarrow> we_event_digest e = None \<Longrightarrow> we_event_kind e \<notin> REFUSAL_KINDS \<Longrightarrow> P sv'"
  using append_keeps by (metis snd_conv)

lemma transition_keeps:
  assumes "P sv" and "plain_update upd" and "kind \<in> REFUSAL_KINDS \<Longrightarrow> target \<in> REFUSAL_STATUSES"
  shows "P (fst (ws_transition env now i target kind upd sv))"
proof (cases "current_workspace i sv")
  case None
  with assms(1) show ?thesis by (simp add: ws_transition_def)
next
  case (Some w)
  note w = conjunct1 [OF current_good [OF assms(1) Some]]
  show ?thesis
  proof (cases "ws_admitted (ws_status w) target")
    case False
    with assms(1) Some show ?thesis by (auto simp: ws_transition_def ws_admitted_def Let_def)
  next
    case True
    with refusals [OF w] assms(3) have kind: "kind \<notin> REFUSAL_KINDS" by blast
    define w' where "w' = (if target \<noteq> ws_status w then (set_status target w)\<lparr>mw_updated_at := now\<rparr> else w)"
    have w': "good w'"
      using w by (cases "target = ws_status w") (auto simp: w'_def set_status_def intro: good_same [OF good_step [OF w True]])
    have rolled: "good (set_status (ws_status w) w')"
      by (rule good_same [OF w]) (simp_all add: w'_def set_status_def)
    obtain saved sv1 where s: "(if target \<noteq> ws_status w then save_workspace w' (cache_workspace w' sv) else (True, sv)) = (saved, sv1)"
      by fastforce
    have sv1: "P sv1"
    proof (cases "target = ws_status w")
      case False
      with s have "save_workspace w' (cache_workspace w' sv) = (saved, sv1)" by simp
      then show ?thesis by (rule save_result [OF _ cache_keeps [OF assms(1) w'] w'])
    qed (use s assms(1) in simp)
    obtain recorded sv2 where r: "append_lifecycle env (upd (transition_event env now i kind (ws_status w) target w' sv1)) sv1 = (recorded, sv2)"
      by fastforce
    have sv2: "P sv2"
      by (rule append_result [OF r sv1]) (use kind assms(2) in \<open>simp_all add: plain_update_def transition_event_def lifecycle_event_def\<close>)
    obtain undone sv3 where u: "save_workspace (set_status (ws_status w) w') (cache_workspace (set_status (ws_status w) w') sv2) = (undone, sv3)"
      by fastforce
    have sv3: "P sv3" by (rule save_result [OF u cache_keeps [OF sv2 rolled] rolled])
    from True have tests: "\<not> (ws_is_terminal (ws_status w) \<and> snd target \<noteq> Some RS_QUARANTINED)"
      "\<not> (target \<noteq> ws_status w \<and> (ws_status w, target) \<notin> set WORKSPACE_TRANSITIONS)"
      by (auto simp: ws_admitted_def)
    have "ws_transition env now i target kind upd sv = (if \<not> saved then (cache_workspace (set_status (ws_status w) w') sv1, Failed ''not_persisted'')
        else if recorded then (sv2, Done)
        else if target = ws_status w then (sv2, Failed ''not_recorded'')
        else (sv3, Failed (if undone then ''not_recorded'' else ''manual_inspection'')))"
      using s r u unfolding ws_transition_def Some option.case Let_def w'_def [symmetric] if_not_P [OF tests(1)] if_not_P [OF tests(2)]
      by simp
    with sv1 sv2 sv3 cache_keeps [OF sv1 rolled] show ?thesis by simp
  qed
qed

text \<open>One rule for each way an operation is put together.\<close>

lemma transits_keep:
  "plain_update upd \<Longrightarrow> (kind \<in> REFUSAL_KINDS \<Longrightarrow> target \<in> REFUSAL_STATUSES) \<Longrightarrow> keeps P (transits env now i target kind upd)"
  using transition_keeps by (auto simp: keeps_def transits_def split_beta)

lemma transits_plainly: "plain_update upd \<Longrightarrow> kind \<notin> REFUSAL_KINDS \<Longrightarrow> keeps P (transits env now i target kind upd)"
  by (rule transits_keep) simp_all

lemma transition_plainly:
  "P sv \<Longrightarrow> plain_update upd \<Longrightarrow> kind \<notin> REFUSAL_KINDS \<Longrightarrow> P (fst (ws_transition env now i target kind upd sv))"
  by (rule transition_keeps) simp_all

lemma then_keep: "keeps P f \<Longrightarrow> keeps P h \<Longrightarrow> keeps P (then_op f h)"
  by (fastforce simp: keeps_def then_op_def split: prod.splits sum.splits op_outcome.splits)

lemma with_workspace_keep: "(\<And>w. good w \<Longrightarrow> mw_workspace_id w = i \<Longrightarrow> keeps P (k w)) \<Longrightarrow> keeps P (with_workspace i k)"
  by (auto simp: keeps_def with_workspace_def loaded split: option.splits)

lemma fails_keep: "keeps P (fails why)"
  by (simp add: keeps_def fails_def)

lemma done_keep: "keeps P done_op"
  by (simp add: keeps_def done_op_def)

lemma saving_keep: "good w \<Longrightarrow> keeps P k \<Longrightarrow> keeps P (saving w k)"
  by (auto simp: keeps_def saving_def split: prod.splits dest: save_result)

lemma caching_keep: "good w \<Longrightarrow> keeps P k \<Longrightarrow> keeps P (caching w k)"
  by (simp add: keeps_def caching_def cache_keeps)

lemmas keep_rules = then_keep with_workspace_keep fails_keep done_keep saving_keep caching_keep keeps_if transits_plainly

lemma good_update:
  "good w \<Longrightarrow> mw_workspace_id v = mw_workspace_id w \<Longrightarrow> mw_state v = mw_state w \<Longrightarrow> mw_recovery_state v = mw_recovery_state w \<Longrightarrow> good v"
  using good_same by simp

lemma with_head_fields [simp]:
  "mw_workspace_id (with_head h w) = mw_workspace_id w" "mw_state (with_head h w) = mw_state w"
  "mw_recovery_state (with_head h w) = mw_recovery_state w"
  by (simp_all add: with_head_def split: option.splits)

text \<open>From a request to publication.\<close>

lemma request_keeps: "good w \<Longrightarrow> keeps P (request_workspace env now w)"
  unfolding request_workspace_def by (intro keep_rules) (simp_all add: REFUSAL_KINDS_def)

lemma add_worktree_keeps: "good w \<Longrightarrow> keeps P (add_worktree env g i w)"
proof
  fix sv assume w: "good w" and "P sv"
  then have sv: "P (log_git (GitAdd b p s) sv)" for b p s by (simp add: git_keeps)
  have "keeps P (caching (w\<lparr>mw_worktree_path := Some p, mw_branch_name := Some b, mw_managed_branch_name := Some b\<rparr>)
      (saving (w\<lparr>mw_worktree_path := Some p, mw_branch_name := Some b, mw_managed_branch_name := Some b\<rparr>)
        (transits env (gw_now g) i (WS_WORKTREE_CREATED, None) WE_WORKTREE_CREATED
          (\<lambda>e. e\<lparr>we_worktree_path := Some p, we_branch_name := Some b\<rparr>))))" for p b
    by (intro keep_rules good_update [OF w]) (simp_all add: REFUSAL_KINDS_def)
  then show "P (fst (add_worktree env g i w sv))"
    using sv by (auto simp: add_worktree_def Let_def keeps_def fails_def transition_plainly REFUSAL_KINDS_def split: git_run.splits)
qed

lemma create_keeps: "keeps P (create_worktree env g i)"
  unfolding create_worktree_def by (intro keep_rules add_worktree_keeps)

lemma bootstrap_keeps: "keeps P (bootstrap env now i)"
  unfolding bootstrap_def by (intro keep_rules) (simp_all add: REFUSAL_KINDS_def)

lemma activate_keeps: "keeps P (activate env now i session)"
  unfolding activate_def by (intro keep_rules; (erule good_update)?) (simp_all add: REFUSAL_KINDS_def)

lemma record_changes_keeps: "keeps P (record_changes env g i n)"
  unfolding record_changes_def Let_def by (intro keep_rules; (erule good_update)?) (simp_all add: REFUSAL_KINDS_def)

lemma checkpoint_keeps: "keeps P (checkpoint env g i sha)"
  unfolding checkpoint_def Let_def by (intro keep_rules; (erule good_update)?) (simp_all add: REFUSAL_KINDS_def)

lemma moves_keeps: "kind \<notin> REFUSAL_KINDS \<Longrightarrow> keeps P (moves env now i from_state to_state kind)"
  unfolding moves_def by (intro keep_rules) simp_all

lemma marks_keep:
  "keeps P (mark_validating env now i)" "keeps P (mark_under_review env now i)" "keeps P (mark_validation_required env now i)"
  "keeps P (release_for_integration env now i)" "keeps P (mark_integrated env now i)" "keeps P (mark_published env now i)"
  unfolding mark_validating_def mark_under_review_def mark_validation_required_def release_for_integration_def mark_integrated_def mark_published_def
  by (intro moves_keeps keep_rules; simp add: REFUSAL_KINDS_def)+

text \<open>Removal, reset and quarantine.\<close>

lemma refuses_keep:
  "kind \<in> REFUSAL_KINDS \<Longrightarrow> r \<in> {RS_REMOVAL_REFUSED, RS_RESET_REFUSED} \<Longrightarrow> keeps P (refuses env g i r kind why)"
  unfolding refuses_def by (rule transits_keep) (auto simp: REFUSAL_STATUSES_def)

lemma remove_worktree_keeps: "(force \<Longrightarrow> forced) \<Longrightarrow> keeps P (remove_worktree env g force i)"
  unfolding remove_worktree_def
proof (rule with_workspace_keep)
  fix w assume ask: "force \<Longrightarrow> forced" and w: "good w" "mw_workspace_id w = i"
  have refusal: "keeps P (refuses env g i RS_REMOVAL_REFUSED WE_REMOVAL_REFUSED why)" for why
    by (rule refuses_keep) (simp_all add: REFUSAL_KINDS_def)
  have cleared: "keeps P (saving (without_worktree w) done_op)"
    by (intro keep_rules good_update [OF w(1)]) (simp_all add: without_worktree_def)
  show "keeps P (case present_text (mw_worktree_path w) of None \<Rightarrow> fails ''no_worktree''
     | Some p \<Rightarrow> (case verify_destructive_action_safe g force w of
            Some why \<Rightarrow> refuses env g i RS_REMOVAL_REFUSED WE_REMOVAL_REFUSED why
          | None \<Rightarrow> (\<lambda>sv. let (sv1, removed) = (if gw_exists g p then try_git_worktree_remove g p force sv else (sv, True))
              in if removed then saving (without_worktree w) done_op sv1
                 else refuses env g i RS_REMOVAL_REFUSED WE_REMOVAL_REFUSED ''git worktree remove failed'' sv1)))"
    using refusal cleared safe_removal [of g force w _ forced] ask
    by (auto simp: keeps_def fails_def try_git_worktree_remove_def git_keeps split: option.splits)
qed

lemma retires_keep: "keeps P (retires env g i)"
  unfolding retires_def by (rule transits_plainly) (simp_all add: REFUSAL_KINDS_def)

lemma remove_and_retire_keeps:
  assumes "force \<Longrightarrow> forced"
  shows "keeps P (remove_and_retire env g force i)"
proof
  fix sv assume "P sv"
  have "P (fst (remove_worktree env g force i sv))" by (rule keepsD [OF remove_worktree_keeps]) fact+
  then show "P (fst (remove_and_retire env g force i sv))"
    by (auto simp: remove_and_retire_def fails_def keepsD [OF retires_keep] split: prod.splits sum.splits)
qed

lemma retire_keeps: "(force \<Longrightarrow> forced) \<Longrightarrow> keeps P (retire env g force i)"
  unfolding retire_def
  by (rule with_workspace_keep) (simp add: fails_keep retires_keep remove_and_retire_keeps split: option.splits)

lemma remove_and_clear_keeps:
  assumes "P sv" and "command_allowed forced g (GitRemove p force)"
  shows "P (fst (try_git_worktree_remove_and_clear g i p force sv))"
proof -
  have sv1: "P (log_git (GitRemove p force) sv)" using assms by (rule git_keeps)
  have "P sv2" if "load_workspace i (log_git (GitRemove p force) sv) = Some w"
    and "save_workspace (without_worktree w) (log_git (GitRemove p force) sv) = (ok, sv2)" for w ok sv2
  proof (rule save_result [OF that(2) sv1])
    show "good (without_worktree w)"
      using loaded [OF sv1 that(1)] by (auto intro: good_update simp: without_worktree_def)
  qed
  with sv1 show ?thesis
    by (auto simp: try_git_worktree_remove_and_clear_def try_git_worktree_remove_def split: option.splits prod.splits)
qed

lemma reset_existing_keeps:
  assumes "gw_exists g p" and "\<not> gw_primary g p" and forced
  shows "keeps P (reset_existing env g i p)"
proof
  fix sv assume "P sv"
  then have sv1: "P (log_git (GitLock p) sv)" using assms by (simp add: git_keeps)
  have refusal: "P (fst (refuses env g i RS_RESET_REFUSED WE_RESET_REFUSED why sv'))" if "P sv'" for why sv'
    by (rule keepsD [OF refuses_keep that]) (simp_all add: REFUSAL_KINDS_def)
  have "P (fst (try_git_worktree_remove_and_clear g i p True (log_git (GitLock p) sv)))"
    using sv1 assms by (simp add: remove_and_clear_keeps)
  then show "P (fst (reset_existing env g i p sv))"
    using sv1 refusal keepsD [OF retires_keep]
    by (auto simp: reset_existing_def lock_worktree_def unlock_worktree_def git_keeps split: prod.splits sum.splits)
qed

lemma reset_forced_keeps: "forced \<Longrightarrow> keeps P (reset_workspace_forced env g i)"
  unfolding reset_workspace_forced_def
  by (rule with_workspace_keep) (simp add: fails_keep retires_keep reset_existing_keeps split: option.splits)

lemma reset_keeps: "(force \<Longrightarrow> forced) \<Longrightarrow> keeps P (reset_workspace env g force i)"
  unfolding reset_workspace_def
  by (rule with_workspace_keep)
    (simp add: fails_keep retires_keep reset_forced_keeps refuses_keep REFUSAL_KINDS_def split: option.splits)

lemma quarantine_keeps: "keeps P (quarantine env g i reason)"
  unfolding quarantine_def refuses_def by (intro keep_rules) (simp_all add: REFUSAL_KINDS_def)

lemma quarantine_workspace_keeps: "keeps P (quarantine_workspace env g i reason)"
  unfolding quarantine_workspace_def
proof (intro with_workspace_keep then_keep quarantine_keeps)
  fix w
  show "keeps P (\<lambda>sv. case present_text (mw_worktree_path w) of None \<Rightarrow> done_op sv
     | Some p \<Rightarrow> done_op (if gw_exists g p then fst (lock_worktree g p sv) else sv))"
    by (auto simp: keeps_def done_op_def lock_worktree_def git_keeps split: option.splits)
qed

lemma safe_retire_keeps:
  assumes "force \<Longrightarrow> forced"
  shows "keeps P (safe_retire_workspace env g force i)"
proof -
  have "keeps P (\<lambda>sv. case quarantine_workspace env g i ''safe_retire: unreleased work preserved'' sv of
         (sv1, Inl x) \<Rightarrow> (sv1, Inl x)
       | (sv1, Inr out) \<Rightarrow> fails (if out = Done then ''quarantined'' else ''quarantine_failed'') sv1)"
  proof
    fix sv assume sv: "P sv"
    obtain sv1 r where q: "quarantine_workspace env g i ''safe_retire: unreleased work preserved'' sv = (sv1, r)" by fastforce
    with keepsD [OF quarantine_workspace_keeps sv] have "P sv1" by (metis fst_conv)
    then show "P (fst (case quarantine_workspace env g i ''safe_retire: unreleased work preserved'' sv of
         (sv1, Inl x) \<Rightarrow> (sv1, Inl x)
       | (sv1, Inr out) \<Rightarrow> fails (if out = Done then ''quarantined'' else ''quarantine_failed'') sv1))"
      unfolding q by (cases r) (simp_all add: fails_def)
  qed
  then show ?thesis
    unfolding safe_retire_workspace_def by (intro with_workspace_keep keeps_if fails_keep retire_keeps assms)
qed

text \<open>Detection, recovery and assignment.\<close>

lemma detections_keep: "keeps P (detect_stale_base env g i)" "keeps P (detect_session_detached env now i current)"
  unfolding detect_stale_base_def detect_session_detached_def
  by (rule with_workspace_keep; simp add: fails_keep done_keep transits_plainly REFUSAL_KINDS_def split: option.splits git_run.splits)+

lemma cached_update_keeps:
  assumes "P sv" and "\<And>c. mw_workspace_id (f c) = mw_workspace_id c \<and> ws_status (f c) = ws_status c"
  shows "P (update_cached i f sv)"
proof (cases "dict_get (sv_cache sv) i")
  case (Some c)
  from cached [OF assms(1) Some] assms(2) [of c] have c: "good (f c)" "mw_workspace_id (f c) = i" by (auto intro: good_same)
  then have "update_cached i f sv = cache_workspace (f c) sv" using Some by (simp add: update_cached_def cache_workspace_def)
  with cache_keeps [OF assms(1) c(1)] show ?thesis by simp
qed (use assms(1) in \<open>simp add: update_cached_def\<close>)

lemma reactivates_keeps:
  assumes w: "good w"
  shows "keeps P (reactivates env g i session w)"
proof
  fix sv assume sv: "P sv"
  define again where "again = (\<lambda>why. saving w (\<lambda>sv2. fails why (fst (ws_transition env (gw_now g) i (WS_ACTIVE, Some RS_RECOVERY_REQUIRED)
      WE_RECOVERY_REQUIRED (\<lambda>e. e\<lparr>we_reason := Some (''reactivation failed, retry: '' @ why)\<rparr>) sv2))))"
  have again: "keeps P (again why)" for why
    unfolding again_def by (intro saving_keep w) (simp add: keeps_def fails_def transition_plainly REFUSAL_KINDS_def)
  obtain sv1 out where t: "ws_transition env (gw_now g) i (WS_ACTIVE, None) WE_WORKSPACE_ACTIVATED (\<lambda>e. e\<lparr>we_session_id := Some session\<rparr>) sv = (sv1, out)"
    by fastforce
  have sv1: "P sv1"
    using transition_plainly [OF sv, of "\<lambda>e. e\<lparr>we_session_id := Some session\<rparr>" WE_WORKSPACE_ACTIVATED "gw_now g" i "(WS_ACTIVE, None)"] t
    by (simp add: REFUSAL_KINDS_def)
  have "P (fst (again why (update_cached i (\<lambda>c. c\<lparr>mw_session_id := mw_session_id w, mw_head_sha := mw_head_sha w\<rparr>) sv1)))" for why
    by (intro keepsD [OF again] cached_update_keeps sv1) simp
  with sv1 show "P (fst (reactivates env g i session w sv))"
    unfolding reactivates_def t again_def by (cases out) simp_all
qed

lemma recover_attached_keeps:
  assumes w: "good w" "mw_workspace_id w = i"
  shows "keeps P (recover_attached env g i session w)"
proof
  fix sv assume sv: "P sv"
  define c where "c = (case dict_get (sv_cache sv) i of None \<Rightarrow> w | Some c \<Rightarrow> c)"
  have c: "good c" "mw_workspace_id c = i" using w cached [OF sv] by (auto simp: c_def split: option.splits)
  have "good (attached g session w c)" by (rule good_same [OF c(1)]) (simp_all add: attached_def)
  then have "P (sv\<lparr>sv_cache := dict_set i (attached g session w c) (sv_cache sv)\<rparr>)"
    using cache_keeps [OF sv, of "attached g session w c"] c(2) by (simp add: cache_workspace_def attached_def)
  moreover have "keeps P (then_op (transits env (gw_now g) i (WS_ACTIVE, Some RS_RECOVERED) WE_RECOVERED (\<lambda>e. e\<lparr>we_session_id := Some session\<rparr>))
      (reactivates env g i session w))"
    by (intro then_keep transits_plainly reactivates_keeps w) (simp_all add: REFUSAL_KINDS_def)
  ultimately show "P (fst (recover_attached env g i session w sv))"
    unfolding recover_attached_def c_def [symmetric] by (simp add: keepsD)
qed

lemma recover_keeps: "keeps P (recover env g busy i session)"
  unfolding recover_def
  by (intro keeps_if fails_keep with_workspace_keep) (simp add: fails_keep recover_attached_keeps split: option.splits)

lemma bind_keeps: "keeps P (bind_assignment now rid i q)"
proof
  fix sv assume sv: "P sv"
  have "P (fst (bind_assignment now rid i q sv))" if l: "load_workspace i sv = Some w" for w
  proof -
    have good: "good (assigned_workspace q w)"
      using loaded [OF sv l] by (auto intro: good_update simp: assigned_workspace_def)
    obtain ok sv1 where s: "save_workspace (assigned_workspace q w) sv = (ok, sv1)" by fastforce
    show ?thesis using save_result [OF s sv good] l s by (simp add: bind_assignment_def cache_keeps good Let_def)
  qed
  with sv show "P (fst (bind_assignment now rid i q sv))"
    by (cases "load_workspace i sv") (simp_all add: bind_assignment_def refused_answer_def)
qed

lemma assign_keeps: "keeps P (assign_session env now rid i q)"
proof
  fix sv assume sv: "P sv"
  obtain sv1 out where t: "ws_transition env now i (WS_ACTIVE, None) WE_WORKSPACE_ACTIVATED (\<lambda>e. e\<lparr>we_session_id := wr_session_id q\<rparr>) sv = (sv1, out)"
    by fastforce
  have sv1: "P sv1"
    using transition_plainly [OF sv, of "\<lambda>e. e\<lparr>we_session_id := wr_session_id q\<rparr>" WE_WORKSPACE_ACTIVATED now i "(WS_ACTIVE, None)"] t
    by (simp add: REFUSAL_KINDS_def)
  show "P (fst (assign_session env now rid i q sv))"
    using sv sv1 keepsD [OF bind_keeps] unfolding assign_session_def t
    by (cases out) (auto simp: refused_answer_def split: option.splits)
qed

lemma detach_keeps: "keeps P (detach_session env g i reason)"
proof -
  have noted: "keeps P (\<lambda>sv. let e = (lifecycle_event env (gw_now g) i WE_SESSION_DETACHED sv)
        \<lparr>we_state_before := Some WS_ACTIVE, we_state_after := Some WS_ACTIVE, we_worktree_path := p, we_reason := r\<rparr>;
      (ok, sv1) = append_lifecycle env e sv in (sv1, if ok then Inr Done else (Inl OSError :: op_outcome result)))" for p r
    by (auto simp: keeps_def lifecycle_event_def REFUSAL_KINDS_def split: prod.splits dest: append_result)
  show ?thesis
    unfolding detach_session_def Let_def [of "(_ :: ManagedWorkspace)"]
    by (intro keep_rules noted; (erule good_update)?) (simp_all add: REFUSAL_KINDS_def)
qed

lemma reattach_keeps: "keeps P (reattach_session env g busy rid i session)"
proof
  fix sv assume "P sv"
  then show "P (fst (reattach_session env g busy rid i session sv))"
    using keepsD [OF recover_keeps, of sv busy i session]
    by (auto simp: reattach_session_def refused_answer_def split: option.splits prod.splits sum.splits op_outcome.splits)
qed

lemma release_assignment_keeps: "keeps P (release_assignment env now i)"
  unfolding release_assignment_def Let_def by (intro keep_rules; (erule good_update)?) (simp_all add: REFUSAL_KINDS_def)

lemma attempt_recovery_keeps: "keeps P (attempt_recovery env g busy i session)"
  by (auto simp: keeps_def attempt_recovery_def fails_def keepsD [OF recover_keeps] split: option.splits)

lemma load_all_keeps:
  assumes "P sv"
  shows "P (load_all sv)"
proof -
  define files where "files = sort_key (\<lambda>(i :: string, f :: ManagedWorkspace option). i @ ''.json'') (sv_disk sv)"
  define step where "step = (\<lambda>(i, f :: ManagedWorkspace option) d. case load_workspace i sv of None \<Rightarrow> d | Some w \<Rightarrow> dict_set (mw_workspace_id w) w d)"
  have "P (sv\<lparr>sv_cache := fold step fs d\<rparr>)" if "P (sv\<lparr>sv_cache := d\<rparr>)" for fs d
    using that
  proof (induction fs arbitrary: d)
    case (Cons x fs)
    obtain i f where x: "x = (i, f)" by fastforce
    have "P (sv\<lparr>sv_cache := step x d\<rparr>)"
    proof (cases "load_workspace i sv")
      case None
      with Cons.prems show ?thesis by (simp add: step_def x)
    next
      case (Some w)
      then have "good w" using loaded [OF assms] by blast
      from cache_keeps [OF Cons.prems this] Some show ?thesis by (simp add: step_def x cache_workspace_def)
    qed
    from Cons.IH [OF this] show ?case by simp
  qed simp
  from this [OF clear_keeps [OF assms], of files] show ?thesis
    by (simp add: load_all_def files_def step_def)
qed

lemma list_keeps: "keeps P (list_workspaces state)"
  by (simp add: keeps_def list_workspaces_def Let_def load_all_keeps)

lemmas operations_keep = create_keeps bootstrap_keeps activate_keeps record_changes_keeps checkpoint_keeps marks_keep
  retire_keeps remove_worktree_keeps reset_keeps quarantine_keeps quarantine_workspace_keeps safe_retire_keeps detections_keep
  recover_keeps attempt_recovery_keeps assign_keeps detach_keeps reattach_keeps release_assignment_keeps list_keeps

lemma kept: "keeps P f \<Longrightarrow> P sv \<Longrightarrow> P (fst (f sv))"
  by (rule keepsD)

lemma call_keeps:
  assumes "P sv" and "asks_force c \<Longrightarrow> forced"
    and "\<And>w i. requested c = Some i \<Longrightarrow> mw_workspace_id w = i \<Longrightarrow> ws_status w = (WS_REQUESTED, None) \<Longrightarrow> good w"
  shows "P (ws_call env g c sv)"
proof (cases c)
  case (WcRequest i project mission lane agent role base session)
  have "good (new_workspace (gw_now g) i project mission lane agent role base session)"
    by (rule assms(3)) (simp_all add: WcRequest new_workspace_def)
  from keepsD [OF request_keeps [OF this] assms(1)] show ?thesis by (simp add: WcRequest)
qed (use assms(2) in \<open>simp_all only: ws_call.simps asks_force.simps\<close>, (rule kept [OF _ assms(1)], simp add: operations_keep)+)

end

section \<open>Statuses and chains\<close>

definition ws_good :: "ManagedWorkspace \<Rightarrow> bool" where
  "ws_good w \<longleftrightarrow> ws_status w \<in> set (LIVE_STATUSES @ ENDED_STATUSES)"

text \<open>
  In a sound service every workspace, in its file and in memory, has its own name and a status that the operations
  can come to; the chain of every workspace is intact; no refusal of a removal or a reset is recorded.
\<close>

definition sound_log :: "(WorkspaceLifecycleEvent \<Rightarrow> string) \<Rightarrow> workspace_ledger \<Rightarrow> bool" where
  "sound_log sha ls \<longleftrightarrow> (\<forall>i. verify_ws_chain sha i ls) \<and> (\<forall>e \<in> set (entries ls). we_event_kind e \<notin> REFUSAL_KINDS)"

definition ws_sound :: "workspace_env \<Rightarrow> workspace_service \<Rightarrow> bool" where
  "ws_sound env sv \<longleftrightarrow>
    (\<forall>i w. dict_get (sv_disk sv) i = Some (Some w) \<longrightarrow> mw_workspace_id w = i \<and> ws_good w) \<and>
    (\<forall>i w. dict_get (sv_cache sv) i = Some w \<longrightarrow> mw_workspace_id w = i \<and> ws_good w) \<and>
    holds_of_file (sound_log (wv_sha env)) (sv_ledger sv, sv_torn sv)"

lemma refusals_not_admitted: "ws_good w \<Longrightarrow> t \<in> REFUSAL_STATUSES \<Longrightarrow> \<not> ws_admitted (ws_status w) t"
  using statuses_closed [of "ws_status w" t] by (auto simp: ws_good_def REFUSAL_STATUSES_def LIVE_STATUSES_def ENDED_STATUSES_def)

lemma set_status_good: "ws_good w \<Longrightarrow> ws_admitted (ws_status w) t \<Longrightarrow> ws_good (set_status t w)"
  using statuses_closed [of "ws_status w" t] by (simp add: ws_good_def set_status_def)

lemma load_stored: "load_workspace i sv = Some w \<Longrightarrow> dict_get (sv_disk sv) i = Some (Some w)"
  by (auto simp: load_workspace_def split: option.splits if_splits)

lemma next_write_fields:
  "sv_disk (snd (next_write sv)) = sv_disk sv" "sv_cache (snd (next_write sv)) = sv_cache sv"
  "sv_ledger (snd (next_write sv)) = sv_ledger sv" "sv_git (snd (next_write sv)) = sv_git sv"
  "sv_torn (snd (next_write sv)) = sv_torn sv"
  by (simp_all add: next_write_def split: list.splits)

lemma save_fields:
  "sv_cache (snd (save_workspace w sv)) = sv_cache sv" "sv_ledger (snd (save_workspace w sv)) = sv_ledger sv"
  "sv_torn (snd (save_workspace w sv)) = sv_torn sv"
  "sv_git (snd (save_workspace w sv)) = sv_git sv"
  "sv_disk (snd (save_workspace w sv)) =
    (if fst (save_workspace w sv) then dict_set (mw_workspace_id w) (Some w) (sv_disk sv) else sv_disk sv)"
  by (simp_all add: save_workspace_def next_write_fields split_beta Let_def)

lemma append_fields:
  "sv_cache (snd (append_lifecycle env e sv)) = sv_cache sv" "sv_disk (snd (append_lifecycle env e sv)) = sv_disk sv"
  "sv_git (snd (append_lifecycle env e sv)) = sv_git sv"
  "((sv_ledger (snd (append_lifecycle env e sv)), sv_torn (snd (append_lifecycle env e sv))), fst (append_lifecycle env e sv)) =
    write_line (fst (next_write sv)) (ws_linked_event (wv_sha env) e (sv_ledger sv)) (sv_ledger sv, sv_torn sv)"
  by (simp_all add: append_lifecycle_def ws_append_def next_write_fields split_beta Let_def)

lemma linked_event_kind: "we_event_kind (ws_linked_event sha e ls) = we_event_kind e"
  by (simp add: ws_linked_event_def ws_digested_def Let_def)

lemma append_sound:
  assumes "ws_sound env sv" and "we_event_digest e = None" and "we_event_kind e \<notin> REFUSAL_KINDS"
  shows "ws_sound env (snd (append_lifecycle env e sv))"
proof -
  let ?file = "\<lambda>sv. (sv_ledger sv, sv_torn sv)"
  have "holds_of_file (sound_log (wv_sha env))
      (fst (write_line (fst (next_write sv)) (ws_linked_event (wv_sha env) e (sv_ledger sv)) (?file sv)))"
    by (rule write_line_holds)
      (use assms linked_keeps_chain in \<open>auto simp: ws_sound_def sound_log_def linked_event_kind\<close>)
  then have "holds_of_file (sound_log (wv_sha env)) (?file (snd (append_lifecycle env e sv)))"
    by (simp flip: append_fields(4))
  with assms(1) show ?thesis by (simp add: ws_sound_def append_fields(1,2))
qed

interpretation sound: workspace_invariant "ws_sound env" ws_good env g True for env g
proof
  show "ws_good v" if "ws_good w" "mw_workspace_id v = mw_workspace_id w" "ws_status v = ws_status w" for w v
    using that by (simp add: ws_good_def)
  show "ws_sound env (snd (append_lifecycle env e sv))"
    if "ws_sound env sv" "we_event_digest e = None" "we_event_kind e \<notin> REFUSAL_KINDS" for sv e
    using that by (rule append_sound)
qed (auto simp: ws_sound_def set_status_good refusals_not_admitted save_fields cache_workspace_def log_git_def dict_simps
    dest!: load_stored split: if_splits)

end
