(* ===== verification/Workspace_Boundaries.thy ===== *)
theory Workspace_Boundaries
  imports Workspace_Assignment Fleet_Properties
begin

text \<open>
  Integration boundaries: \<^verbatim>\<open>ManagedWorkspaceService\<close> acquires and releases claims of the fleet claim store for its
  workspaces and records both in the lifecycle ledger; \<^verbatim>\<open>_projection.py\<close> shows workspaces with their claims.
  The state is the pair of the two stores; the calls of the claim store within one operation are given by their
  clock, identifier and failures.
\<close>

section \<open>The text of a list of paths\<close>

text \<open>\<^verbatim>\<open>repr\<close> of strings of one-byte characters.\<close>

definition hex_digit :: "nat \<Rightarrow> char" where
  "hex_digit n = ''0123456789abcdef'' ! n"

definition repr_char :: "char \<Rightarrow> char \<Rightarrow> string" where
  "repr_char quote c =
    (let n = of_char c :: nat
     in if c = quote \<or> c = CHR 0x5C then [CHR 0x5C, c]
        else if c = CHR 0x09 then [CHR 0x5C, CHR ''t''] else if c = CHR 0x0A then [CHR 0x5C, CHR ''n'']
        else if c = CHR 0x0D then [CHR 0x5C, CHR ''r'']
        else if n < 32 \<or> 127 \<le> n \<and> n \<le> 160 \<or> n = 173 then [CHR 0x5C, CHR ''x'', hex_digit (n div 16), hex_digit (n mod 16)]
        else [c])"

definition py_repr :: "string \<Rightarrow> string" where
  "py_repr s =
    (let quote = (if CHR 0x27 \<in> set s \<and> CHR 0x22 \<notin> set s then CHR 0x22 else CHR 0x27)
     in [quote] @ concat (map (repr_char quote) s) @ [quote])"

definition repr_list :: "string list \<Rightarrow> string" where
  "repr_list xs = ''['' @ str_join '', '' (map py_repr xs) @ '']''"

section \<open>Claims of boundaries\<close>

type_synonym boundary_state = "workspace_service \<times> FleetClaimStore"

type_synonym boundary_op = "boundary_state \<Rightarrow> boundary_state \<times> op_outcome result"

definition BOUNDARY_STATES :: "WorkspaceState list" where
  "BOUNDARY_STATES = [WS_ACTIVE, WS_VALIDATING, WS_UNDER_REVIEW, WS_RELEASED_FOR_INTEGRATION]"

definition boundary_reason :: "string \<Rightarrow> string \<Rightarrow> string" where
  "boundary_reason boundary cid = ''boundary='' @ boundary @ '' claim_id='' @ cid"

definition boundary_event ::
  "workspace_env \<Rightarrow> timestamp \<Rightarrow> WorkspaceLifecycleEventKind \<Rightarrow> string \<Rightarrow> string \<Rightarrow> string \<Rightarrow> ManagedWorkspace \<Rightarrow>
    workspace_service \<Rightarrow> WorkspaceLifecycleEvent" where
  "boundary_event env now kind i boundary cid w sv = (lifecycle_event env now i kind sv)
     \<lparr>we_state_before := Some (mw_state w), we_state_after := Some (mw_state w), we_reason := Some (boundary_reason boundary cid),
      we_session_id := mw_session_id w, we_worktree_path := mw_worktree_path w\<rparr>"

definition or_unknown :: "string \<Rightarrow> string option \<Rightarrow> string" where
  "or_unknown given held = (if given \<noteq> '''' then given else case present_text held of None \<Rightarrow> ''unknown'' | Some s \<Rightarrow> s)"

definition boundary_request :: "string list \<Rightarrow> string \<Rightarrow> string \<Rightarrow> string \<Rightarrow> ManagedWorkspace \<Rightarrow> claim_request" where
  "boundary_request paths mission lane agent w =
    \<lparr>q_mission_id = or_unknown mission (mw_mission_id w), q_lane_id = or_unknown lane (mw_lane_id w),
     q_agent_id = or_unknown agent (mw_agent_profile_name w), q_mode = exclusive_write, q_claimed_paths = paths,
     q_base_sha256_by_path = [], q_workspace_authority_id = '''', q_ttl_seconds = 300\<rparr>"

definition claim_id_of :: "ClaimResult \<Rightarrow> string" where
  "claim_id_of r = (case cr_claim r of None \<Rightarrow> ''unknown'' | Some x \<Rightarrow> ac_claim_id x)"

definition refusal_of :: "string \<Rightarrow> ClaimResult \<Rightarrow> string" where
  "refusal_of otherwise r = (case present_text (cr_refusal_reason r) of None \<Rightarrow> otherwise | Some s \<Rightarrow> s)"

text \<open>The event of a claim that was granted; when it is not recorded the claim is released by the call \<open>c\<close>.\<close>

definition record_boundary_claim ::
  "workspace_env \<Rightarrow> timestamp \<Rightarrow> call \<Rightarrow> string \<Rightarrow> string \<Rightarrow> string \<Rightarrow> ManagedWorkspace \<Rightarrow> boundary_op" where
  "record_boundary_claim env now c i boundary cid w s =
    (let (ok, sv1) = append_lifecycle env (boundary_event env now WE_BOUNDARY_CLAIM_ACQUIRED i boundary cid w (fst s)) (fst s)
     in if ok then ((sv1, snd s), Inr Done)
        else case release_workspace_claim c cid (snd s) of
          (st1, Inl x) \<Rightarrow> ((sv1, st1), Inl x)
        | (st1, Inr r) \<Rightarrow> ((sv1, st1), Inr (Failed ''not_recorded'')))"

definition acquire_boundary_claim ::
  "workspace_env \<Rightarrow> timestamp \<Rightarrow> ledger_read \<Rightarrow> call \<Rightarrow> call \<Rightarrow> string \<Rightarrow> string \<Rightarrow> string list \<Rightarrow> string \<Rightarrow> string \<Rightarrow> string \<Rightarrow> boundary_op" where
  "acquire_boundary_claim env now read c1 c2 i boundary paths mission lane agent s =
    (case current_workspace i (fst s) of
       None \<Rightarrow> (s, Inr (Failed ''not_found''))
     | Some w \<Rightarrow>
         if mw_state w \<notin> set BOUNDARY_STATES then (s, Inr (Failed ''wrong_state''))
         else case is_workspace_boundary_claimed i boundary read (snd s) of
           Inl x \<Rightarrow> (s, Inl x)
         | Inr (held, other) \<Rightarrow>
             if held then (s, Inr (Failed ''already_claimed''))
             else case acquire_workspace_claim c1 i (Some (''workspace:'' @ i)) (boundary_request paths mission lane agent w) (snd s) of
               (st1, Inl x) \<Rightarrow> ((fst s, st1), Inl x)
             | (st1, Inr r) \<Rightarrow>
                 if \<not> cr_acquired r then ((fst s, st1), Inr (Failed (refusal_of ''claim refused'' r)))
                 else record_boundary_claim env now c2 i boundary (claim_id_of r) w (fst s, st1))"

text \<open>The first claim of the workspace whose paths, as printed, contain the name of the boundary.\<close>

definition find_boundary_claim :: "string \<Rightarrow> ActiveClaim list \<Rightarrow> ActiveClaim option" where
  "find_boundary_claim boundary cs = next_or_none (\<lambda>x. str_contains (repr_list (ac_claimed_paths x)) boundary) cs"

definition reclaim_request :: "ActiveClaim \<Rightarrow> claim_request" where
  "reclaim_request x =
    \<lparr>q_mission_id = ac_mission_id x, q_lane_id = ac_lane_id x, q_agent_id = ac_agent_id x, q_mode = exclusive_write,
     q_claimed_paths = ac_claimed_paths x, q_base_sha256_by_path = [], q_workspace_authority_id = '''', q_ttl_seconds = 300\<rparr>"

definition record_boundary_release ::
  "workspace_env \<Rightarrow> timestamp \<Rightarrow> call \<Rightarrow> string \<Rightarrow> string \<Rightarrow> ActiveClaim \<Rightarrow> ManagedWorkspace \<Rightarrow> boundary_op" where
  "record_boundary_release env now c i boundary x w s =
    (let (ok, sv1) = append_lifecycle env (boundary_event env now WE_BOUNDARY_CLAIM_RELEASED i boundary (ac_claim_id x) w (fst s)) (fst s)
     in if ok then ((sv1, snd s), Inr Done)
        else case acquire_workspace_claim c i (Some (ac_workspace_authority_id x)) (reclaim_request x) (snd s) of
          (st1, Inl err) \<Rightarrow> ((sv1, st1), Inl err)
        | (st1, Inr r) \<Rightarrow> ((sv1, st1), Inr (Failed ''release_not_recorded'')))"

definition release_boundary_claim ::
  "workspace_env \<Rightarrow> timestamp \<Rightarrow> ledger_read \<Rightarrow> call \<Rightarrow> call \<Rightarrow> string \<Rightarrow> string \<Rightarrow> boundary_op" where
  "release_boundary_claim env now read c1 c2 i boundary s =
    (case current_workspace i (fst s) of
       None \<Rightarrow> (s, Inr (Failed ''not_found''))
     | Some w \<Rightarrow>
         (case get_workspace_claims i read (snd s) of
            Inl x \<Rightarrow> (s, Inl x)
          | Inr cs \<Rightarrow>
              (case find_boundary_claim boundary cs of
                 None \<Rightarrow> (s, Inr (Failed ''no_active_claim''))
               | Some x \<Rightarrow>
                   (case release_workspace_claim c1 (ac_claim_id x) (snd s) of
                      (st1, Inl err) \<Rightarrow> ((fst s, st1), Inl err)
                    | (st1, Inr r) \<Rightarrow>
                        if \<not> cr_acquired r then ((fst s, st1), Inr (Failed (refusal_of ''release failed'' r)))
                        else record_boundary_release env now c2 i boundary x w (fst s, st1)))))"

text \<open>An entry of \<^verbatim>\<open>get_boundary_claims\<close>: the identifier, the paths, which also stand for the name, state and start.\<close>

definition get_boundary_claims ::
  "string \<Rightarrow> ledger_read \<Rightarrow> FleetClaimStore \<Rightarrow> (string \<times> string list \<times> ClaimState \<times> timestamp) list result" where
  "get_boundary_claims i read st = and_then (get_workspace_claims i read st) (\<lambda>cs.
     Inr (map (\<lambda>x. (ac_claim_id x, ac_claimed_paths x, ac_state x, ac_acquired_at x)) cs))"

text \<open>The answer is the paths of the other claim; an event that is not written leaves the operation.\<close>

definition detect_boundary_conflict ::
  "workspace_env \<Rightarrow> timestamp \<Rightarrow> ledger_read \<Rightarrow> ledger_read \<Rightarrow> string \<Rightarrow> boundary_state \<Rightarrow> boundary_state \<times> string list option result" where
  "detect_boundary_conflict env now read1 read2 i s =
    (case get_workspace_claims i read1 (snd s) of
       Inl x \<Rightarrow> (s, Inl x)
     | Inr cs \<Rightarrow>
         if cs = [] then (s, Inr None)
         else case detect_integration_conflict i (concat (map ac_claimed_paths cs)) read2 (snd s) of
           Inl x \<Rightarrow> (s, Inl x)
         | Inr (conflicted, other, paths) \<Rightarrow>
             if \<not> conflicted then (s, Inr None)
             else
               let e = (lifecycle_event env now i WE_BOUNDARY_CONFLICT_DETECTED (fst s))
                     \<lparr>we_reason := Some (''conflict with '' @ other @ '' on paths '' @ repr_list paths)\<rparr>;
                   (ok, sv1) = append_lifecycle env e (fst s)
               in ((sv1, snd s), if ok then Inr (Some paths) else Inl OSError))"

section \<open>The projection\<close>

datatype claim_shown = Claim_unavailable | Claim_unclaimed | Claim_conflict | Claim_claimed

record FleetWorkspaceProjectionItem =
  fp_workspace_id :: string
  fp_project_identity :: string
  fp_role :: WorkspaceRole
  fp_branch_summary :: "string option"
  fp_lifecycle_status :: WorkspaceState
  fp_recovery_required :: bool
  fp_changed_files_count :: int
  fp_checkpoint_present :: bool
  fp_claim_state :: claim_shown
  fp_safe_available_actions :: "string list"
  fp_base_sha :: "string option"
  fp_head_sha :: "string option"
  fp_branch_name :: "string option"
  fp_worktree_path_hash :: "string option"
  fp_session_id :: "string option"
  fp_created_at :: timestamp
  fp_updated_at :: timestamp
  fp_display_status :: string

record FleetWorkspaceProjection =
  fw_total_workspaces :: nat
  fw_active_workspaces :: nat
  fw_recovery_needed :: nat
  fw_workspaces :: "FleetWorkspaceProjectionItem list"
  fw_warned :: bool

definition ACTIVE_CLAIM_STATES :: "ClaimState list" where
  "ACTIVE_CLAIM_STATES = [claimed, editing, tests_running, ready_for_integration]"

fun shown_claim :: "ActiveClaim list \<Rightarrow> claim_shown" where
  "shown_claim [] = Claim_unclaimed"
| "shown_claim (x # xs) =
    (if ac_state x = blocked then Claim_conflict
     else if ac_state x \<in> set ACTIVE_CLAIM_STATES then Claim_claimed
     else shown_claim xs)"

definition compute_claim_state :: "ManagedWorkspace \<Rightarrow> (string, ActiveClaim list) dict option \<Rightarrow> claim_shown" where
  "compute_claim_state w claims =
    (case claims of
       None \<Rightarrow> Claim_unavailable
     | Some d \<Rightarrow> shown_claim (case dict_get d (mw_workspace_id w) of None \<Rightarrow> [] | Some cs \<Rightarrow> cs))"

definition derive_display_status :: "WorkspaceState \<Rightarrow> RecoveryState option \<Rightarrow> string" where
  "derive_display_status s r =
    (if r \<in> {Some RS_SESSION_DETACHED, Some RS_RECOVERY_REQUIRED} then ''Recovery Required''
     else if r = Some RS_RECOVERED then ''Work Preserved''
     else if r \<in> {Some RS_QUARANTINED, Some RS_RESERVATION_REFUSED, Some RS_RESET_REFUSED, Some RS_REMOVAL_REFUSED} then ''Unavailable''
     else (case s of
         WS_REQUESTED \<Rightarrow> ''Setup Required'' | WS_RESERVED \<Rightarrow> ''Setup Required'' | WS_WORKTREE_CREATED \<Rightarrow> ''Setup Required''
       | WS_BOOTSTRAPPING \<Rightarrow> ''Setup Required'' | WS_READY \<Rightarrow> ''Ready'' | WS_ACTIVE \<Rightarrow> ''Active''
       | WS_VALIDATING \<Rightarrow> ''Validation Required'' | WS_UNDER_REVIEW \<Rightarrow> ''Under Review'' | WS_CHECKPOINTED \<Rightarrow> ''Released''
       | WS_RELEASED_FOR_INTEGRATION \<Rightarrow> ''Released'' | WS_INTEGRATED \<Rightarrow> ''Released'' | WS_PUBLISHED \<Rightarrow> ''Released''
       | WS_RETIRED \<Rightarrow> ''Retired''))"

fun safe_actions :: "WorkspaceState \<Rightarrow> string list" where
  "safe_actions WS_REQUESTED = [''reserve'']"
| "safe_actions WS_RESERVED = [''create_worktree'']"
| "safe_actions WS_WORKTREE_CREATED = [''bootstrap'']"
| "safe_actions WS_BOOTSTRAPPING = [''wait'']"
| "safe_actions WS_READY = [''activate'']"
| "safe_actions WS_ACTIVE = [''checkpoint'', ''validate'', ''release'', ''claim_boundary'']"
| "safe_actions WS_VALIDATING = [''review'', ''checkpoint'', ''claim_boundary'']"
| "safe_actions WS_UNDER_REVIEW = [''checkpoint'', ''release_for_integration'', ''claim_boundary'']"
| "safe_actions WS_CHECKPOINTED = [''release_for_integration'']"
| "safe_actions WS_RELEASED_FOR_INTEGRATION = [''mark_integrated'', ''claim_boundary'']"
| "safe_actions WS_INTEGRATED = [''mark_published'']"
| "safe_actions WS_PUBLISHED = [''retire'']"
| "safe_actions WS_RETIRED = []"

text \<open>The source leaves the order of the actions of a workspace in recovery open.\<close>

definition infer_safe_actions :: "WorkspaceState \<Rightarrow> RecoveryState option \<Rightarrow> string list" where
  "infer_safe_actions s r = safe_actions s @ (if r = None then [] else [''recover'', ''quarantine''])"

definition short :: "string option \<Rightarrow> string option" where
  "short x = map_option (take 8) (present_text x)"

definition workspace_to_projection_item :: "(string \<Rightarrow> string) \<Rightarrow> claim_shown \<Rightarrow> ManagedWorkspace \<Rightarrow> FleetWorkspaceProjectionItem" where
  "workspace_to_projection_item sha claim w =
    \<lparr>fp_workspace_id = mw_workspace_id w, fp_project_identity = mw_project_identity w, fp_role = mw_role w,
     fp_branch_summary = mw_branch_name w, fp_lifecycle_status = mw_state w, fp_recovery_required = (mw_recovery_state w \<noteq> None),
     fp_changed_files_count = mw_changed_files_count w, fp_checkpoint_present = (present_text (mw_checkpoint_sha w) \<noteq> None),
     fp_claim_state = claim, fp_safe_available_actions = infer_safe_actions (mw_state w) (mw_recovery_state w),
     fp_base_sha = short (mw_base_commit_sha w), fp_head_sha = short (mw_head_sha w), fp_branch_name = mw_branch_name w,
     fp_worktree_path_hash = map_option sha (present_text (mw_worktree_path w)), fp_session_id = short (mw_session_id w),
     fp_created_at = mw_created_at w, fp_updated_at = mw_updated_at w,
     fp_display_status = derive_display_status (mw_state w) (mw_recovery_state w)\<rparr>"

definition build_fleet_workspace_projection ::
  "(string \<Rightarrow> string) \<Rightarrow> ManagedWorkspace list \<Rightarrow> (string, ActiveClaim list) dict option \<Rightarrow> FleetWorkspaceProjection" where
  "build_fleet_workspace_projection sha ws claims =
    (let needed = length (filter (\<lambda>w. mw_recovery_state w \<noteq> None) ws)
     in \<lparr>fw_total_workspaces = length ws, fw_active_workspaces = length (filter (\<lambda>w. mw_state w = WS_ACTIVE) ws),
         fw_recovery_needed = needed, fw_workspaces = map (\<lambda>w. workspace_to_projection_item sha (compute_claim_state w claims) w) ws,
         fw_warned = (0 < needed)\<rparr>)"

fun claims_by_workspace ::
  "ledger_read \<Rightarrow> FleetClaimStore \<Rightarrow> ManagedWorkspace list \<Rightarrow> (string, ActiveClaim list) dict \<Rightarrow> (string, ActiveClaim list) dict result" where
  "claims_by_workspace read st [] d = Inr d"
| "claims_by_workspace read st (w # ws) d = and_then (get_workspace_claims (mw_workspace_id w) read st)
     (\<lambda>cs. claims_by_workspace read st ws (dict_set (mw_workspace_id w) cs d))"

definition build_projection :: "(string \<Rightarrow> string) \<Rightarrow> ledger_read \<Rightarrow> boundary_state \<Rightarrow> boundary_state \<times> FleetWorkspaceProjection result" where
  "build_projection sha read s =
    (let (sv1, ws) = list_workspaces None (fst s)
     in ((sv1, snd s), and_then (claims_by_workspace read (snd s) ws []) (\<lambda>d. Inr (build_fleet_workspace_projection sha ws (Some d)))))"

end
