(* ===== verification/Workspace_Properties.thy ===== *)
theory Workspace_Properties
  imports Workspace_Safety Workspace_Boundaries
begin

text \<open>
  The properties of the workspace service: what holds of every service the calls can reach, whatever writes fail;
  what a removal needs; what a transition does; and the boundary claims, which rest on the fleet claim store.
\<close>

section \<open>Reachable services\<close>

text \<open>A service starts on an empty directory; any write may fail; a restart forgets what is in memory.\<close>

inductive ws_reachable :: "workspace_env \<Rightarrow> workspace_service \<Rightarrow> bool" for env where
  start: "ws_reachable env \<lparr>sv_disk = [], sv_cache = [], sv_ledger = [], sv_torn = False, sv_io = io, sv_git = []\<rparr>"
| call: "ws_reachable env sv \<Longrightarrow> ws_reachable env (ws_call env g c sv)"
| faults: "ws_reachable env sv \<Longrightarrow> ws_reachable env (sv\<lparr>sv_io := io\<rparr>)"
| restart: "ws_reachable env sv \<Longrightarrow> ws_reachable env (load_all (sv\<lparr>sv_cache := []\<rparr>))"


lemma sound_io: "ws_sound env (sv\<lparr>sv_io := io\<rparr>) = ws_sound env sv"
  by (simp add: ws_sound_def)

lemma requested_good: "ws_status w = (WS_REQUESTED, None) \<Longrightarrow> ws_good w"
  by (simp add: ws_good_def LIVE_STATUSES_def)

lemma reachable_sound: "ws_reachable env sv \<Longrightarrow> ws_sound env sv"
proof (induction rule: ws_reachable.induct)
  case (start io)
  show ?case by (simp add: ws_sound_def sound_log_def holds_of_file_def verify_ws_chain_def workspace_events_def)
next
  case (call sv g c)
  then show ?case by (intro sound.call_keeps) (simp_all add: requested_good)
next
  case (faults sv io)
  then show ?case by (simp add: sound_io)
next
  case (restart sv)
  then show ?case by (intro sound.load_all_keeps sound.clear_keeps)
qed

section \<open>The end of a workspace\<close>

definition ended_at :: "string \<Rightarrow> workspace_status \<Rightarrow> workspace_env \<Rightarrow> workspace_service \<Rightarrow> bool" where
  "ended_at i s env sv \<longleftrightarrow> ws_sound env sv \<and> s \<in> set ENDED_STATUSES \<and> (\<exists>w. dict_get (sv_disk sv) i = Some (Some w)) \<and>
    (\<forall>w. dict_get (sv_disk sv) i = Some (Some w) \<longrightarrow> ws_status w = s) \<and> (\<forall>c. dict_get (sv_cache sv) i = Some c \<longrightarrow> ws_status c = s)"

definition ended_good :: "string \<Rightarrow> workspace_status \<Rightarrow> ManagedWorkspace \<Rightarrow> bool" where
  "ended_good i s w \<longleftrightarrow> ws_good w \<and> s \<in> set ENDED_STATUSES \<and> (mw_workspace_id w = i \<longrightarrow> ws_status w = s)"

interpretation ended: workspace_invariant "ended_at i s env" "ended_good i s" env g True for i s env g
proof
  show "ended_good i s v" if "ended_good i s w" "mw_workspace_id v = mw_workspace_id w" "ws_status v = ws_status w" for w v
    using that by (simp add: ended_good_def ws_good_def)
  show "ended_good i s (set_status t w)" if "ended_good i s w" "ws_admitted (ws_status w) t" for w t
    using that set_status_good [of w t] ended_final [of s t] by (auto simp: ended_good_def set_status_def)
  show "ended_good i s w \<and> mw_workspace_id w = j" if "ended_at i s env sv" "load_workspace j sv = Some w" for sv j w
    using that sound.loaded [of env sv j w] by (auto simp: ended_at_def ended_good_def dest: load_stored)
  show "ended_good i s w \<and> mw_workspace_id w = j" if "ended_at i s env sv" "dict_get (sv_cache sv) j = Some w" for sv j w
    using that sound.cached [of env sv j w] by (auto simp: ended_at_def ended_good_def)
  show "ended_at i s env (snd (save_workspace w sv))" if "ended_at i s env sv" "ended_good i s w" for sv w
    using that sound.save_keeps [of env sv w] by (auto simp: ended_at_def ended_good_def save_fields dict_simps)
  show "ended_at i s env (cache_workspace w sv)" if "ended_at i s env sv" "ended_good i s w" for sv w
    using that sound.cache_keeps [of env sv w] by (auto simp: ended_at_def ended_good_def cache_workspace_def dict_simps)
  show "ended_at i s env (sv\<lparr>sv_cache := []\<rparr>)" if "ended_at i s env sv" for sv
    using that sound.clear_keeps [of env sv] by (auto simp: ended_at_def)
  show "ended_at i s env (snd (append_lifecycle env e sv))"
    if "ended_at i s env sv" "we_event_digest e = None" "we_event_kind e \<notin> REFUSAL_KINDS" for sv e
    using that append_sound [of env sv e] by (simp add: ended_at_def append_fields)
  show "ended_at i s env (log_git c sv)" if "ended_at i s env sv" "command_allowed True g c" for sv c
    using that sound.git_keeps [of env sv g c] by (simp add: ended_at_def log_git_def)
qed (auto simp: ended_good_def refusals_not_admitted)

section \<open>The commands that change worktrees\<close>

definition commands_within :: "bool \<Rightarrow> git_command list \<Rightarrow> workspace_env \<Rightarrow> git_world \<Rightarrow> workspace_service \<Rightarrow> bool" where
  "commands_within forced old env g sv \<longleftrightarrow>
    ws_sound env sv \<and> (\<exists>new. sv_git sv = old @ new \<and> list_all (command_allowed forced g) new)"

interpretation commands: workspace_invariant "commands_within forced old env g" ws_good env g forced for forced old env g
proof
  show "commands_within forced old env g (snd (save_workspace w sv))" if "commands_within forced old env g sv" "ws_good w" for sv w
    using that sound.save_keeps [of env sv w] by (simp add: commands_within_def save_fields)
  show "commands_within forced old env g (cache_workspace w sv)" if "commands_within forced old env g sv" "ws_good w" for sv w
    using that sound.cache_keeps [of env sv w] by (simp add: commands_within_def cache_workspace_def)
  show "commands_within forced old env g (sv\<lparr>sv_cache := []\<rparr>)" if "commands_within forced old env g sv" for sv
    using that sound.clear_keeps [of env sv] by (simp add: commands_within_def)
  show "commands_within forced old env g (snd (append_lifecycle env e sv))"
    if "commands_within forced old env g sv" "we_event_digest e = None" "we_event_kind e \<notin> REFUSAL_KINDS" for sv e
    using that append_sound [of env sv e] by (simp add: commands_within_def append_fields)
  show "commands_within forced old env g (log_git c sv)" if "commands_within forced old env g sv" "command_allowed forced g c" for sv c
    using that by (auto simp: commands_within_def log_git_def ws_sound_def)
qed (auto simp: commands_within_def sound.good_same set_status_good refusals_not_admitted dest: sound.loaded sound.cached)

section \<open>A small world\<close>

text \<open>Git does what it is asked, worktrees exist and are clean; the digest of an event is its identifier.\<close>

definition demo_ws_env :: workspace_env where
  "demo_ws_env = \<lparr>wv_sha = we_event_id, wv_uuid = (\<lambda>n. replicate (Suc n) (CHR ''e'')), wv_worktrees = ''wt'', wv_branch_prefix = ''rig''\<rparr>"

definition demo_git_world :: git_world where
  "demo_git_world = \<lparr>gw_now = Aware 5, gw_exists = (\<lambda>p. True), gw_primary = (\<lambda>p. False), gw_add = (\<lambda>b p s. Git_exit 0 ''''),
     gw_remove = (\<lambda>p f. Git_exit 0 ''''), gw_lock = (\<lambda>p. Git_exit 0 ''''), gw_status = (\<lambda>p. Git_exit 0 ''''),
     gw_head = (\<lambda>p. Git_raises), gw_ancestor = (\<lambda>s. Git_exit 0 '''')\<rparr>"

definition empty_service :: workspace_service where
  "empty_service = \<lparr>sv_disk = [], sv_cache = [], sv_ledger = [], sv_torn = False, sv_io = [], sv_git = []\<rparr>"

text \<open>Calls in a row, each in a world of its own and with what the writes do during it.\<close>

definition ws_calls :: "workspace_env \<Rightarrow> (git_world \<times> write_fate list \<times> workspace_call) list \<Rightarrow> workspace_service \<Rightarrow> workspace_service" where
  "ws_calls env cs sv = fold (\<lambda>(g, io, c) sv. ws_call env g c (sv\<lparr>sv_io := io\<rparr>)) cs sv"

definition demo_ws_request :: workspace_call where
  "demo_ws_request = WcRequest ''w1'' ''p'' None None None IMPLEMENTER ''base'' (Some ''s1'')"

definition demo_ready :: workspace_service where
  "demo_ready = ws_calls demo_ws_env (map (\<lambda>c. (demo_git_world, [], c)) [demo_ws_request, WcCreate ''w1'', WcBootstrap ''w1'']) empty_service"

lemma reachable_calls: "ws_reachable env sv \<Longrightarrow> ws_reachable env (ws_calls env cs sv)"
  by (induction cs arbitrary: sv) (auto simp: ws_calls_def intro: ws_reachable.call ws_reachable.faults)

lemma demo_ready_reachable: "ws_reachable demo_ws_env demo_ready"
  unfolding demo_ready_def by (rule reachable_calls) (simp add: empty_service_def ws_reachable.start)

section \<open>What holds of every service\<close>

text \<open>
  C6: after any calls, whatever writes fail or are torn, every workspace in its file or in memory has its name and one of the
  21 statuses that the calls can come to, its chain of events verifies, and no refusal of a removal or a reset is
  among them, although the source has a status and an event for both.
\<close>

theorem workspace_service_sound:
  assumes "ws_reachable env sv"
  shows "(\<forall>w. load_workspace i sv = Some w \<or> dict_get (sv_cache sv) i = Some w \<longrightarrow>
      mw_workspace_id w = i \<and> ws_status w \<in> set (LIVE_STATUSES @ ENDED_STATUSES)) \<and>
    verify_ws_chain (wv_sha env) i (sv_ledger sv) \<and>
    list_all (\<lambda>e. we_event_kind e \<noteq> WE_REMOVAL_REFUSED \<and> we_event_kind e \<noteq> WE_RESET_REFUSED) (entries (sv_ledger sv))"
  using reachable_sound [OF assms] sound.loaded [OF reachable_sound [OF assms], of i] sound.cached [OF reachable_sound [OF assms], of i]
  by (auto simp: ws_good_def ws_sound_def sound_log_def holds_of_file_def REFUSAL_KINDS_def list_all_iff)

text \<open>The activation is saved and not recorded; then a removal of the clean worktree is asked for.\<close>

definition demo_faulty :: workspace_service where
  "demo_faulty = ws_calls demo_ws_env [(demo_git_world, [Written, Written, Not_written], WcActivate ''w1'' ''s2''), (demo_git_world, [], WcRemove False ''w1'')] demo_ready"

lemma demo_faulty_reachable: "ws_reachable demo_ws_env demo_faulty"
  unfolding demo_faulty_def by (rule reachable_calls [OF demo_ready_reachable])

theorem workspace_service_sound_witness:
  "map_option ws_status (load_workspace ''w1'' demo_faulty) = Some (WS_READY, None) \<and>
   length (workspace_events ''w1'' (sv_ledger demo_faulty)) = 5 \<and> verify_ws_chain (wv_sha demo_ws_env) ''w1'' (sv_ledger demo_faulty)"
proof (intro conjI)
  show "map_option ws_status (load_workspace ''w1'' demo_faulty) = Some (WS_READY, None)" by code_simp
  show "length (workspace_events ''w1'' (sv_ledger demo_faulty)) = 5" by code_simp
  show "verify_ws_chain (wv_sha demo_ws_env) ''w1'' (sv_ledger demo_faulty)"
    using workspace_service_sound [OF demo_faulty_reachable] by blast
qed

lemma ended_after_calls:
  assumes "ended_at i s env sv" and "list_all (\<lambda>(g, io, c). requested c \<noteq> Some i) cs"
  shows "ended_at i s env (ws_calls env cs sv)"
  using assms
proof (induction cs arbitrary: sv)
  case Nil
  then show ?case by (simp add: ws_calls_def)
next
  case (Cons x cs)
  obtain g io c where x: "x = (g, io, c)" by (cases x)
  have "ended_at i s env (sv\<lparr>sv_io := io\<rparr>)" using Cons.prems(1) by (simp add: ended_at_def sound_io)
  moreover have "s \<in> set ENDED_STATUSES" using Cons.prems(1) by (simp add: ended_at_def)
  ultimately have "ended_at i s env (ws_call env g c (sv\<lparr>sv_io := io\<rparr>))"
    using Cons.prems(2) by (intro ended.call_keeps) (auto simp: x ended_good_def requested_good)
  from Cons.IH [OF this] Cons.prems(2) show ?case by (simp add: ws_calls_def x)
qed

text \<open>
  C25: a workspace that has ended, by retirement, quarantine, a refused reservation, a failed bootstrap or a conflict,
  in its file and in memory if it is held there, has that same status after any further calls that do not request
  its name again, whatever git answers and whatever writes fail.
\<close>

theorem ended_workspace_stays_ended:
  assumes "ws_reachable env sv" and "dict_get (sv_disk sv) i = Some (Some w)" and "ws_status w \<in> set ENDED_STATUSES"
    and "dict_get (sv_cache sv) i = None \<or> map_option ws_status (dict_get (sv_cache sv) i) = Some (ws_status w)"
    and "list_all (\<lambda>(g, io, c). requested c \<noteq> Some i) cs"
  shows "map_option (map_option ws_status) (dict_get (sv_disk (ws_calls env cs sv)) i) = Some (Some (ws_status w)) \<and>
    (\<forall>c. dict_get (sv_cache (ws_calls env cs sv)) i = Some c \<longrightarrow> ws_status c = ws_status w)"
proof -
  have "ended_at i (ws_status w) env sv"
    using assms(2-4) reachable_sound [OF assms(1)] by (auto simp: ended_at_def)
  from ended_after_calls [OF this assms(5)] show ?thesis by (auto simp: ended_at_def)
qed

definition demo_quarantined :: workspace_service where
  "demo_quarantined = ws_calls demo_ws_env
     [(demo_git_world, [], WcActivate ''w1'' ''s2''), (demo_git_world, [], WcQuarantineWorkspace ''w1'' ''lost'')] demo_ready"

definition demo_after :: "(git_world \<times> write_fate list \<times> workspace_call) list" where
  "demo_after = [(demo_git_world, [Written, Torn True], WcRemove True ''w1''), (demo_git_world, [], WcRecover False ''w1'' ''s3''),
     (demo_git_world, [], WcValidationRequired ''w1'')]"

theorem ended_workspace_stays_ended_witness:
  "\<exists>w. dict_get (sv_disk demo_quarantined) ''w1'' = Some (Some w) \<and> ws_status w = (WS_RETIRED, Some RS_QUARANTINED) \<and>
     map_option (map_option ws_status) (dict_get (sv_disk (ws_calls demo_ws_env demo_after demo_quarantined)) ''w1'') = Some (Some (ws_status w))"
proof -
  have st: "map_option (map_option ws_status) (dict_get (sv_disk demo_quarantined) ''w1'') = Some (Some (WS_RETIRED, Some RS_QUARANTINED))"
    by code_simp
  then obtain w where w: "dict_get (sv_disk demo_quarantined) ''w1'' = Some (Some w)" "ws_status w = (WS_RETIRED, Some RS_QUARANTINED)"
    by auto
  have c: "map_option ws_status (dict_get (sv_cache demo_quarantined) ''w1'') = Some (WS_RETIRED, Some RS_QUARANTINED)" by code_simp
  have r: "ws_reachable demo_ws_env demo_quarantined"
    unfolding demo_quarantined_def by (rule reachable_calls [OF demo_ready_reachable])
  have "ws_status w \<in> set ENDED_STATUSES" using w(2) by (simp add: ENDED_STATUSES_def)
  from ended_workspace_stays_ended [OF r w(1) this _, of demo_after] w c show ?thesis
    by (simp add: demo_after_def)
qed

text \<open>
  C7: a worktree is removed only where it exists and is not the primary one, and either git says that it is clean or
  the call asked for force; no call that does not ask for force runs a forced removal.
\<close>

theorem worktree_removed_only_when_safe:
  assumes "ws_reachable env sv"
  shows "\<exists>new. sv_git (ws_call env g c sv) = sv_git sv @ new \<and>
    (\<forall>p force. GitRemove p force \<in> set new \<longrightarrow> gw_exists g p \<and> \<not> gw_primary g p \<and>
       (if force then asks_force c else has_uncommitted_changes g p = Some False))"
proof -
  have "commands_within (asks_force c) (sv_git sv) env g sv"
    using reachable_sound [OF assms] by (simp add: commands_within_def)
  then have "commands_within (asks_force c) (sv_git sv) env g (ws_call env g c sv)"
    by (rule commands.call_keeps) (simp_all add: requested_good)
  then show ?thesis by (fastforce simp: commands_within_def list_all_iff)
qed

theorem worktree_removed_only_when_safe_witness:
  "\<exists>new. sv_git (ws_call demo_ws_env demo_git_world (WcRemove False ''w1'') demo_ready) = sv_git demo_ready @ new \<and>
     GitRemove ''wt/w1'' False \<in> set new \<and> has_uncommitted_changes demo_git_world ''wt/w1'' = Some False"
proof -
  have run: "sv_git (ws_call demo_ws_env demo_git_world (WcRemove False ''w1'') demo_ready) = sv_git demo_ready @ [GitRemove ''wt/w1'' False]"
    by code_simp
  from worktree_removed_only_when_safe [OF demo_ready_reachable, of demo_git_world "WcRemove False ''w1''"] obtain new where
    new: "sv_git (ws_call demo_ws_env demo_git_world (WcRemove False ''w1'') demo_ready) = sv_git demo_ready @ new"
      "GitRemove ''wt/w1'' False \<in> set new \<Longrightarrow> has_uncommitted_changes demo_git_world ''wt/w1'' = Some False"
    by (metis (full_types))
  with run have "new = [GitRemove ''wt/w1'' False]" by simp
  with new show ?thesis by auto
qed

section \<open>What a transition does\<close>

text \<open>An update that leaves the name, the kind and the statuses of an event alone.\<close>

definition record_update :: "(WorkspaceLifecycleEvent \<Rightarrow> WorkspaceLifecycleEvent) \<Rightarrow> bool" where
  "record_update upd \<longleftrightarrow> (\<forall>e. we_workspace_id (upd e) = we_workspace_id e \<and> we_event_kind (upd e) = we_event_kind e \<and>
     we_state_before (upd e) = we_state_before e \<and> we_state_after (upd e) = we_state_after e \<and>
     we_recovery_before (upd e) = we_recovery_before e \<and> we_recovery_after (upd e) = we_recovery_after e)"

definition records_step :: "string \<Rightarrow> WorkspaceLifecycleEventKind \<Rightarrow> workspace_status \<Rightarrow> workspace_status \<Rightarrow> WorkspaceLifecycleEvent \<Rightarrow> bool" where
  "records_step i kind before after e \<longleftrightarrow> we_workspace_id e = i \<and> we_event_kind e = kind \<and>
     (we_state_before e, we_recovery_before e) = (Some (fst before), snd before) \<and> (we_state_after e, we_recovery_after e) = (Some (fst after), snd after)"

lemma linked_event_records: "records_step i kind before after (ws_linked_event sha e ls) = records_step i kind before after e"
  by (simp add: records_step_def ws_linked_event_def ws_digested_def Let_def)

lemma save_stored:
  assumes "save_workspace w sv = (ok, sv')"
  shows "sv_cache sv' = sv_cache sv" "sv_ledger sv' = sv_ledger sv"
    "sv_disk sv' = (if ok then dict_set (mw_workspace_id w) (Some w) (sv_disk sv) else sv_disk sv)"
    "sv_torn sv' = sv_torn sv" "set (sv_io sv') \<subseteq> set (sv_io sv)"
  using save_fields [of w sv] assms
  by (auto simp: save_workspace_def next_write_def Let_def split: list.splits)

text \<open>What an append that raises may have left: nothing, or the event or a part of it when the write began.\<close>

definition left_behind :: "write_fate list \<Rightarrow> (WorkspaceLifecycleEvent \<Rightarrow> bool) \<Rightarrow> workspace_ledger \<Rightarrow> workspace_ledger \<Rightarrow> bool" where
  "left_behind fates Q ls ls' \<longleftrightarrow> ls' = ls \<or>
    (\<not> set fates \<subseteq> {Written, Not_written} \<and> (ls' = ls @ [BadJson] \<or> (\<exists>e. ls' = ls @ [Entry e] \<and> Q e)))"

lemma left_behind_more: "left_behind f Q ls ls' \<Longrightarrow> set f \<subseteq> set f' \<Longrightarrow> left_behind f' Q ls ls'"
  by (auto simp: left_behind_def)

lemma append_stored:
  assumes "append_lifecycle env e sv = (ok, sv')"
  shows "sv_cache sv' = sv_cache sv" "sv_disk sv' = sv_disk sv"
    "ok \<Longrightarrow> \<not> sv_torn sv \<Longrightarrow> sv_ledger sv' = sv_ledger sv @ [Entry (ws_linked_event (wv_sha env) e (sv_ledger sv))]"
    "\<not> ok \<Longrightarrow> \<not> sv_torn sv \<Longrightarrow>
      left_behind (sv_io sv) (\<lambda>d. d = ws_linked_event (wv_sha env) e (sv_ledger sv)) (sv_ledger sv) (sv_ledger sv')"
proof -
  note written = append_fields(4) [of env e sv, unfolded assms fst_conv snd_conv]
  show "sv_cache sv' = sv_cache sv" "sv_disk sv' = sv_disk sv" using append_fields(1,2) [of env e sv] assms by simp_all
  show "ok \<Longrightarrow> \<not> sv_torn sv \<Longrightarrow> sv_ledger sv' = sv_ledger sv @ [Entry (ws_linked_event (wv_sha env) e (sv_ledger sv))]"
    using write_line_done [of "fst (next_write sv)" _ "(sv_ledger sv, sv_torn sv)" "(sv_ledger sv', sv_torn sv')"] written
    by (auto simp: add_line_def)
  show "\<not> ok \<Longrightarrow> \<not> sv_torn sv \<Longrightarrow>
      left_behind (sv_io sv) (\<lambda>d. d = ws_linked_event (wv_sha env) e (sv_ledger sv)) (sv_ledger sv) (sv_ledger sv')"
    using written by (cases "sv_io sv")
      (auto simp: write_line_def add_line_def left_behind_def next_write_def split: write_fate.splits if_splits)
qed

definition file_status :: "string \<Rightarrow> workspace_service \<Rightarrow> workspace_status option" where
  "file_status i sv = (case dict_get (sv_disk sv) i of Some (Some w) \<Rightarrow> Some (ws_status w) | _ \<Rightarrow> None)"

definition held_status :: "string \<Rightarrow> workspace_service \<Rightarrow> workspace_status option" where
  "held_status i sv = map_option ws_status (current_workspace i sv)"

lemma set_status_fields [simp]:
  "mw_workspace_id (set_status s w) = mw_workspace_id w" "mw_state (set_status s w) = fst s" "mw_recovery_state (set_status s w) = snd s"
  by (simp_all add: set_status_def)

lemma transition_changed:
  assumes "current_workspace i sv = Some w" and "mw_workspace_id w = i" and "file_status i sv = Some (ws_status w)"
    and "ws_admitted (ws_status w) target" and "target \<noteq> ws_status w" and "record_update upd"
    and "ws_transition env now i target kind upd sv = (sv', out)" and "\<not> sv_torn sv"
  shows "(out = Done \<and> (\<exists>e. sv_ledger sv' = sv_ledger sv @ [Entry e] \<and> records_step i kind (ws_status w) target e) \<and>
      held_status i sv' = Some target \<and> file_status i sv' = Some target) \<or>
    (out \<noteq> Done \<and> left_behind (sv_io sv) (records_step i kind (ws_status w) target) (sv_ledger sv) (sv_ledger sv') \<and>
      held_status i sv' = Some (ws_status w) \<and> file_status i sv' = Some (if out = Failed ''manual_inspection'' then target else ws_status w))"
proof -
  define w' where "w' = (set_status target w)\<lparr>mw_updated_at := now\<rparr>"
  obtain saved sv1 where s: "save_workspace w' (cache_workspace w' sv) = (saved, sv1)" by fastforce
  define e where "e = upd (transition_event env now i kind (ws_status w) target w' sv1)"
  have e: "records_step i kind (ws_status w) target e"
    using assms(6) by (simp add: e_def record_update_def records_step_def transition_event_def lifecycle_event_def)
  obtain recorded sv2 where r: "append_lifecycle env e sv1 = (recorded, sv2)" by fastforce
  obtain undone sv3 where u: "save_workspace (set_status (ws_status w) w') (cache_workspace (set_status (ws_status w) w') sv2) = (undone, sv3)" by fastforce
  from assms(4,5) have tests: "\<not> (ws_is_terminal (ws_status w) \<and> snd target \<noteq> Some RS_QUARANTINED)"
    "\<not> (target \<noteq> ws_status w \<and> (ws_status w, target) \<notin> set WORKSPACE_TRANSITIONS)"
    by (auto simp: ws_admitted_def)
  have run: "(sv', out) = (if \<not> saved then (cache_workspace (set_status (ws_status w) w') sv1, Failed ''not_persisted'')
      else if recorded then (sv2, Done) else (sv3, Failed (if undone then ''not_recorded'' else ''manual_inspection'')))"
    using assms(5,7) s r [unfolded e_def] u
    unfolding ws_transition_def assms(1) option.case Let_def w'_def [symmetric] if_not_P [OF tests(1)] if_not_P [OF tests(2)]
    by (auto split: if_splits)
  have id: "mw_workspace_id w' = i" "ws_status w' = target" using assms(2) by (simp_all add: w'_def)
  note stored = save_stored [OF s] append_stored(1,2) [OF r] save_stored [OF u]
  have intact: "\<not> sv_torn sv1" "sv_ledger sv1 = sv_ledger sv" "set (sv_io sv1) \<subseteq> set (sv_io sv)"
    using assms(8) save_stored [OF s] by (simp_all add: cache_workspace_def)
  show ?thesis
  proof (cases saved)
    case False
    with run stored assms(2,3) id show ?thesis
      by (auto simp: held_status_def file_status_def current_workspace_def cache_workspace_def dict_simps left_behind_def)
  next
    case saved: True
    show ?thesis
    proof (cases recorded)
      case True
      with saved run stored id e append_stored(3) [OF r] intact show ?thesis
        by (auto simp: held_status_def file_status_def current_workspace_def cache_workspace_def dict_simps linked_event_records)
    next
      case False
      then have "left_behind (sv_io sv) (records_step i kind (ws_status w) target) (sv_ledger sv) (sv_ledger sv2)"
        using append_stored(4) [OF r] intact e by (auto simp: left_behind_def linked_event_records)
      with False saved run stored id show ?thesis
        by (cases undone) (auto simp: held_status_def file_status_def current_workspace_def cache_workspace_def dict_simps)
    qed
  qed
qed

lemma load_same: "sv_disk sv' = sv_disk sv \<Longrightarrow> load_workspace i sv' = load_workspace i sv"
  by (simp add: load_workspace_def)

lemma current_same: "sv_disk sv' = sv_disk sv \<Longrightarrow> sv_cache sv' = sv_cache sv \<Longrightarrow> current_workspace i sv' = current_workspace i sv"
  using load_same [of sv' sv i] by (simp add: current_workspace_def split: option.splits)

lemma ws_transition_refused:
  assumes "current_workspace i sv = Some w" and "\<not> ws_admitted (ws_status w) target"
  shows "\<exists>why. ws_transition env now i target kind upd sv = (sv, Failed why) \<and> why \<noteq> ''manual_inspection''"
  using assms by (auto simp: ws_transition_def ws_admitted_def Let_def)

lemma transition_same:
  assumes "current_workspace i sv = Some w" and "ws_admitted (ws_status w) (ws_status w)" and "record_update upd"
    and "ws_transition env now i (ws_status w) kind upd sv = (sv', out)" and "\<not> sv_torn sv"
  shows "sv_disk sv' = sv_disk sv \<and> sv_cache sv' = sv_cache sv \<and>
    (if out = Done then \<exists>e. sv_ledger sv' = sv_ledger sv @ [Entry e] \<and> records_step i kind (ws_status w) (ws_status w) e
     else out = Failed ''not_recorded'' \<and>
       left_behind (sv_io sv) (records_step i kind (ws_status w) (ws_status w)) (sv_ledger sv) (sv_ledger sv'))"
proof -
  define e where "e = upd (transition_event env now i kind (ws_status w) (ws_status w) w sv)"
  have e: "records_step i kind (ws_status w) (ws_status w) e"
    using assms(3) by (simp add: e_def record_update_def records_step_def transition_event_def lifecycle_event_def)
  obtain recorded sv2 where r: "append_lifecycle env e sv = (recorded, sv2)" by fastforce
  from assms(2) have "\<not> (ws_is_terminal (ws_status w) \<and> snd (ws_status w) \<noteq> Some RS_QUARANTINED)" by (simp add: ws_admitted_def)
  with assms(1,4) r [unfolded e_def] have "(sv', out) = (if recorded then (sv2, Done) else (sv2, Failed ''not_recorded''))"
    by (auto simp: ws_transition_def)
  with append_stored [OF r] e assms(5) show ?thesis
    by (auto simp: linked_event_records left_behind_def split: if_splits)
qed

lemma writes_succeed: "sv_io sv = [] \<Longrightarrow> next_write sv = (Written, sv)"
  by (simp add: next_write_def)

lemma save_succeeds:
  "sv_io sv = [] \<Longrightarrow> save_workspace w sv = (True, sv\<lparr>sv_disk := dict_set (mw_workspace_id w) (Some w) (sv_disk sv)\<rparr>)"
  by (simp add: save_workspace_def writes_succeed)

lemma append_succeeds:
  "sv_io sv = [] \<Longrightarrow> \<not> sv_torn sv \<Longrightarrow> append_lifecycle env e sv =
    (True, sv\<lparr>sv_ledger := sv_ledger sv @ [Entry (ws_linked_event (wv_sha env) e (sv_ledger sv))]\<rparr>)"
  by (simp add: append_lifecycle_def writes_succeed ws_append_def write_line_def add_line_def)

lemma transition_admitted:
  fixes now :: timestamp
  assumes "current_workspace i sv = Some w" and "ws_admitted (ws_status w) target" and "sv_io sv = []" and "\<not> sv_torn sv"
  defines "w' \<equiv> (if target \<noteq> ws_status w then (set_status target w)\<lparr>mw_updated_at := now\<rparr> else w)"
  defines "sv1 \<equiv> (if target \<noteq> ws_status w
      then (cache_workspace w' sv)\<lparr>sv_disk := dict_set (mw_workspace_id w) (Some w') (sv_disk sv)\<rparr> else sv)"
  shows "ws_transition env now i target kind upd sv = (sv1\<lparr>sv_ledger := sv_ledger sv @
      [Entry (ws_linked_event (wv_sha env) (upd (transition_event env now i kind (ws_status w) target w' sv1)) (sv_ledger sv))]\<rparr>, Done)"
proof -
  from assms(2) have tests: "\<not> (ws_is_terminal (ws_status w) \<and> snd target \<noteq> Some RS_QUARANTINED)"
    "\<not> (target \<noteq> ws_status w \<and> (ws_status w, target) \<notin> set WORKSPACE_TRANSITIONS)"
    by (auto simp: ws_admitted_def)
  have sv1: "(if target \<noteq> ws_status w then save_workspace w' (cache_workspace w' sv) else (True, sv)) = (True, sv1)"
    using assms(3) by (simp add: sv1_def save_succeeds cache_workspace_def w'_def)
  have "sv_io sv1 = []" "sv_ledger sv1 = sv_ledger sv" "\<not> sv_torn sv1" using assms(3,4) by (simp_all add: sv1_def cache_workspace_def)
  with sv1 show ?thesis
    unfolding ws_transition_def assms(1) option.case Let_def w'_def [symmetric] if_not_P [OF tests(1)] if_not_P [OF tests(2)]
    by (simp add: append_succeeds)
qed

text \<open>
  C26: a transition does all or nothing, apart from appends that fail half way.  When the workspace has the same status
  in memory and in its file and the ledger has no torn line: if it answers that it is done, the table admits the step,
  exactly one event records it, and memory and file have the new status; otherwise memory has the old status, and so
  has the file unless the answer says that the workspace must be inspected, and no event is recorded, unless a write
  raised after it had begun (an \<^verbatim>\<open>fsync\<close> that fails, a torn line): then the ledger may hold the event of the step that
  was taken back, or a part of it.  When writes succeed it is done exactly when the table admits the step.
\<close>

theorem transition_all_or_nothing:
  assumes "current_workspace i sv = Some w" and "mw_workspace_id w = i" and "file_status i sv = Some (ws_status w)"
    and "record_update upd" and "ws_transition env now i target kind upd sv = (sv', out)" and "\<not> sv_torn sv"
  shows "(if out = Done
      then ws_admitted (ws_status w) target \<and> (\<exists>e. sv_ledger sv' = sv_ledger sv @ [Entry e] \<and> records_step i kind (ws_status w) target e) \<and>
        held_status i sv' = Some target \<and> file_status i sv' = Some target
      else left_behind (sv_io sv) (records_step i kind (ws_status w) target) (sv_ledger sv) (sv_ledger sv') \<and>
        held_status i sv' = Some (ws_status w) \<and> file_status i sv' = Some (if out = Failed ''manual_inspection'' then target else ws_status w)) \<and>
    (sv_io sv = [] \<longrightarrow> (out = Done \<longleftrightarrow> ws_admitted (ws_status w) target))"
proof (cases "ws_admitted (ws_status w) target")
  case False
  with ws_transition_refused [OF assms(1) False, of env now kind upd] assms(1,3,5) show ?thesis
    by (auto simp: held_status_def left_behind_def)
next
  case True
  have wrote: "sv_io sv = [] \<longrightarrow> out = Done"
    using transition_admitted [OF assms(1) True _ assms(6), of env now kind upd] assms(5) by auto
  show ?thesis
  proof (cases "target = ws_status w")
    case False
    from transition_changed [OF assms(1-3) True False assms(4-6)] True wrote show ?thesis by auto
  next
    case same: True
    have stays: "sv_disk sv' = sv_disk sv" "sv_cache sv' = sv_cache sv"
      "if out = Done then \<exists>e. sv_ledger sv' = sv_ledger sv @ [Entry e] \<and> records_step i kind (ws_status w) (ws_status w) e
       else out = Failed ''not_recorded'' \<and>
         left_behind (sv_io sv) (records_step i kind (ws_status w) (ws_status w)) (sv_ledger sv) (sv_ledger sv')"
      using transition_same [OF assms(1) _ assms(4), of env now kind sv' out] assms(5,6) True same by simp_all
    have "held_status i sv' = Some (ws_status w)" "file_status i sv' = Some (ws_status w)"
      using assms(1,3) current_same [OF stays(1,2)] stays(1) by (simp_all add: held_status_def file_status_def)
    with stays(3) True same wrote show ?thesis by (auto split: if_splits)
  qed
qed

theorem transition_all_or_nothing_witness:
  "\<exists>w sv' out. current_workspace ''w1'' demo_ready = Some w \<and>
     ws_transition demo_ws_env (Aware 6) ''w1'' (WS_ACTIVE, None) WE_WORKSPACE_ACTIVATED id
       (demo_ready\<lparr>sv_io := [Written, Unsynced, Not_written]\<rparr>) = (sv', out) \<and>
     out = Failed ''manual_inspection'' \<and> held_status ''w1'' sv' = Some (WS_READY, None) \<and> file_status ''w1'' sv' = Some (WS_ACTIVE, None) \<and>
     length (sv_ledger sv') = Suc (length (sv_ledger demo_ready))"
proof -
  let ?sv = "demo_ready\<lparr>sv_io := [Written, Unsynced, Not_written]\<rparr>"
  have h: "map_option (\<lambda>w. (mw_workspace_id w, ws_status w)) (current_workspace ''w1'' demo_ready) = Some (''w1'', WS_READY, None)" by code_simp
  then obtain w where w: "current_workspace ''w1'' demo_ready = Some w" "mw_workspace_id w = ''w1''" "ws_status w = (WS_READY, None)" by auto
  have "current_workspace ''w1'' ?sv = Some w" using w(1) current_same [of ?sv demo_ready] by simp
  moreover have "file_status ''w1'' ?sv = Some (ws_status w)" unfolding w(3) by code_simp
  moreover have out: "snd (ws_transition demo_ws_env (Aware 6) ''w1'' (WS_ACTIVE, None) WE_WORKSPACE_ACTIVATED id ?sv) = Failed ''manual_inspection''"
    by code_simp
  obtain sv' o1 where run: "ws_transition demo_ws_env (Aware 6) ''w1'' (WS_ACTIVE, None) WE_WORKSPACE_ACTIVATED id ?sv = (sv', o1)" by fastforce
  moreover have "record_update id" by (simp add: record_update_def)
  moreover have "o1 = Failed ''manual_inspection''" using run out by simp
  moreover have "\<not> sv_torn ?sv" by code_simp
  moreover have "length (sv_ledger (fst (ws_transition demo_ws_env (Aware 6) ''w1'' (WS_ACTIVE, None) WE_WORKSPACE_ACTIVATED id ?sv)))
      = Suc (length (sv_ledger demo_ready))" by code_simp
  ultimately have len: "length (sv_ledger sv') = Suc (length (sv_ledger demo_ready))" and "held_status ''w1'' sv' = Some (ws_status w) \<and> file_status ''w1'' sv' = Some (WS_ACTIVE, None)"
    using transition_all_or_nothing [of "''w1''" ?sv w id demo_ws_env "Aware 6" "(WS_ACTIVE, None)" WE_WORKSPACE_ACTIVATED sv' o1] w(2) run
    by simp_all
  with w run out show ?thesis by auto
qed

section \<open>Claims of boundaries\<close>

definition workspace_grant_details :: "string \<Rightarrow> claim_request \<Rightarrow> (string, json) dict" where
  "workspace_grant_details i q = [(''ttl_seconds'', JInt (q_ttl_seconds q)), (''mode'', JStr ''exclusive_write''), (''workspace_id'', JStr i)]"

text \<open>What a granted workspace claim has done.\<close>

lemma workspace_granted:
  fixes i :: string
  assumes "acquire_workspace_claim c i (Some a) q0 st = (st', Inr r)" and "cr_acquired r" and "a \<noteq> ''''"
    and "reads_ledger c" and "\<not> fs_torn st"
  defines "q \<equiv> q0\<lparr>q_workspace_authority_id := a\<rparr>"
  defines "e \<equiv> stamped c (fs_ledger st)
    ((event_of_request c K_workspace_claim_acquired q)\<lparr>ev_details := workspace_grant_details i q\<rparr>)"
  obtains held where "active_claims (fs_ledger st) None (now_replay (c_clock c)) = Inr held"
    and "\<forall>y \<in> set held. paths_conflict (normalized_paths (q_claimed_paths q0)) (ac_claimed_paths y) = None"
    and "fs_ledger st' = fs_ledger st @ [Entry e]" and "in_range (now_result (c_clock c) + seconds (q_ttl_seconds q))"
    and "claim_id_of r = c_uuid c" and "\<not> fs_torn st'"
proof -
  have q: "q0\<lparr>q_workspace_authority_id := workspace_authority (Some a) i, q_mode := exclusive_write\<rparr> = q"
    using assms(3) by (cases "q_mode q0") (simp add: workspace_authority_def q_def)
  obtain held where held: "active_claims (fs_ledger st) None (now_replay (c_clock c)) = Inr held"
      "first_conflict (normalized_paths (q_claimed_paths q)) held = None"
      "grant_claim c K_workspace_claim_acquired q (workspace_grant_details i q) st = (st', Inr r)"
    using assms(1,2,4) q
    by (auto simp: acquire_workspace_claim_def reads_ledger_def Let_def workspace_grant_details_def dest!: refuse_conflict_Inr split: sum.splits option.splits)
  from append_then_Inr [OF held(3) [unfolded grant_claim_def]] that [OF held(1)] held(2) assms(5) show thesis
    by (auto simp: e_def Let_def claim_result_def claim_id_of_def first_conflict_None q_def add_line_def split: if_splits)
qed

lemma refuse_conflict_reason:
  assumes "refuse_conflict c q d x why st = (st', Inr r)"
  shows "cr_refusal_reason r = Some (reason_text why)"
  using assms unfolding refuse_conflict_def by (auto dest!: append_then_Inr simp: claim_result_def)

lemma workspace_refused:
  assumes "acquire_workspace_claim c i a q st = (st', Inr r)" and "\<not> cr_acquired r"
  shows "\<exists>why. cr_refusal_reason r = Some (reason_text why)"
proof -
  obtain held where held: "replay_active_claims (io_replay_read (c_io c)) (fs_ledger st) None (now_replay (c_clock c)) = Inr held"
    using assms(1) by (auto simp: acquire_workspace_claim_def Let_def split: sum.splits)
  show ?thesis
  proof (cases "first_conflict (normalized_paths (q_claimed_paths q)) held")
    case None
    with assms held show ?thesis using grant_claim_Inr by (auto simp: acquire_workspace_claim_def Let_def)
  next
    case (Some xr)
    with assms(1) held show ?thesis
      by (cases xr) (auto simp: acquire_workspace_claim_def Let_def dest: refuse_conflict_reason)
  qed
qed

lemma reason_text_codes: "reason_text why \<noteq> '''' \<and> reason_text why \<noteq> ''not_recorded''"
  by (cases why) (simp_all add: reason_text_def)

lemma granted_claim_active:
  assumes "fleet_reachable st' t1" and "active_claims (fs_ledger st) None t0 = Inr held"
    and "fs_ledger st' = fs_ledger st @ [Entry e]"
    and e: "e = stamped c (fs_ledger st)
      ((event_of_request c K_workspace_claim_acquired q)\<lparr>ev_details := workspace_grant_details i q\<rparr>)"
    and "in_range (now_result (c_clock c) + seconds (q_ttl_seconds q))" and "0 \<le> q_ttl_seconds q"
    and "datetime_min \<le> now_event (c_clock c)" and "now_event (c_clock c) \<le> now_result (c_clock c)" and "c_uuid c \<noteq> ''''"
    and "t < now_event (c_clock c) + seconds (q_ttl_seconds q)"
  shows "\<exists>cs x. active_claims (fs_ledger st') (Some (q_workspace_authority_id q)) t = Inr cs \<and> x \<in> set cs \<and>
    ac_claim_id x = c_uuid c \<and> ac_claimed_paths x = normalized_paths (q_claimed_paths q)"
proof -
  define x where "x = \<lparr>ac_claim_id = c_uuid c, ac_mission_id = q_mission_id q, ac_lane_id = q_lane_id q,
     ac_agent_id = q_agent_id q, ac_mode = exclusive_write, ac_claimed_paths = normalized_paths (q_claimed_paths q),
     ac_workspace_authority_id = q_workspace_authority_id q, ac_base_sha256_by_path = q_base_sha256_by_path q,
     ac_lane_output_sha256_by_path = None, ac_acquired_at = Aware (now_event (c_clock c)),
     ac_expires_at = Aware (now_event (c_clock c) + seconds (q_ttl_seconds q)), ac_state = claimed,
     ac_last_event_id = ev_event_id e, ac_last_event_kind = K_workspace_claim_acquired, ac_reason_code = None\<rparr>"
  have granted: "event_to_active_claim e = Inr x"
    using grant_event_claim [OF assms(6,7,8,5) _ e] by (simp add: x_def workspace_grant_details_def dict_get_def)
  obtain s where s: "replay_ledger None (fs_ledger st) = Inr s"
    using assms(2) by (auto simp: replay_active_claims_def and_then_Inr_iff)
  have "apply_event None s e = Inr (s\<lparr>claims_by_id := dict_set (c_uuid c) x (claims_by_id s)\<rparr>)"
    using granted assms(9) by (subst apply_granting) (simp_all add: granting_def skipped_def e)
  then obtain all where all: "active_claims (fs_ledger st') None t = Inr all" "x \<in> set all"
    using s assms(3,10) dict_get_in_values [of "dict_set (c_uuid c) x (claims_by_id s)" "c_uuid c"]
    by (simp add: replay_active_claims_def replay_ledger_snoc dict_simps unexpired_def x_def)
  from active_owned [OF reachable_coherent [OF assms(1)] all(1), of "q_workspace_authority_id q"] all(2)
  show ?thesis by (auto simp: x_def)
qed

lemma released_claim_gone:
  assumes "fleet_reachable st t0" and "clock_ok t0 c" and "fresh_uuid c st" and "cid \<noteq> ''''"
    and "release_workspace_claim c cid st = (st', Inr r)" and "now_replay (c_clock c) \<le> t"
    and "active_claims (fs_ledger st') None t = Inr cs" and "reads_ledger c" and "\<not> fs_torn st"
  shows "cid \<notin> ac_claim_id ` set cs"
proof -
  have reach: "fleet_reachable st' (now_result (c_clock c))"
    using fleet_reachable.call [OF assms(1-3,8), of "ReleaseWorkspaceClaim cid"] assms(5) by simp
  obtain active where active: "active_claims (fs_ledger st) None (now_replay (c_clock c)) = Inr active"
    using assms(5,8) by (auto simp: release_workspace_claim_def end_with_def with_claim_def reads_ledger_def split: sum.splits)
  show ?thesis
  proof (cases "next_or_none (\<lambda>x. ac_claim_id x = cid) active")
    case None
    with active assms(5,8) have "st' = st"
      by (simp add: release_workspace_claim_def end_with_def with_claim_def reads_ledger_def)
    obtain before where before: "active_claims (fs_ledger st') None (now_replay (c_clock c)) = Inr before" "set cs \<subseteq> set before"
      using assms(7,6) by (rule active_later)
    with active \<open>st' = st\<close> have "set cs \<subseteq> set active" by simp
    with None show ?thesis by (auto simp: next_or_none_None)
  next
    case (Some x)
    with next_or_none_Some [OF Some] active assms(5,8)
    have "append_then c ((event_on c K_workspace_claim_released x)\<lparr>ev_lane_output_sha256_by_path := ac_lane_output_sha256_by_path x,
        ev_reason_code := Some ''explicit_release'', ev_details := []\<rparr>)
        (\<lambda>e st. (if io_pointer_ok (c_io c) then unlink_pointer cid st else st, Inr (claim_result True None e))) st = (st', Inr r)"
      by (simp add: release_workspace_claim_def end_with_def with_claim_def reads_ledger_def)
    from append_then_Inr [OF this] assms(9) obtain e where e: "fs_ledger st' = fs_ledger st @ [Entry e]"
        "ev_event_kind e = K_workspace_claim_released" "ev_claim_id e = ac_claim_id x"
      by (auto simp: add_line_def split: if_splits)
    have "ev_claim_id e \<notin> ac_claim_id ` set cs"
    proof
      assume "ev_claim_id e \<in> ac_claim_id ` set cs"
      then obtain y where y: "y \<in> set cs" "ac_claim_id y = ev_claim_id e" by auto
      obtain s where s: "replay_ledger None (fs_ledger st') = Inr s" "dict_get (claims_by_id s) (ac_claim_id y) = Some y"
        using assms(7) y(1) by (rule replayed_active_get)
      have "ev_event_kind e \<in> set ending" "\<not> skipped None e"
        using e(2,3) next_or_none_Some [OF Some] assms(4) by (auto simp: ending_def skipped_def)
      with reachable_ended_inv [OF reach] e(1) s y(2) show False by (auto simp: ended_inv_def)
    qed
    with e(3) next_or_none_Some [OF Some] show ?thesis by simp
  qed
qed

lemma acquire_boundary_cases:
  assumes "acquire_boundary_claim env now read c1 c2 i boundary paths mission lane agent (sv, st) = ((sv', st'), Inr out)"
  obtains (refused) "out \<noteq> Done" and "out \<noteq> Failed ''not_recorded''"
  | (granted) w st1 r where "current_workspace i sv = Some w" and "mw_state w \<in> set BOUNDARY_STATES"
      and "acquire_workspace_claim c1 i (Some (''workspace:'' @ i)) (boundary_request paths mission lane agent w) st = (st1, Inr r)"
      and "cr_acquired r" and "record_boundary_claim env now c2 i boundary (claim_id_of r) w (sv, st1) = ((sv', st'), Inr out)"
proof (cases "current_workspace i sv")
  case None
  with assms have "out = Failed ''not_found''" by (simp add: acquire_boundary_claim_def)
  then show thesis by (intro refused) simp_all
next
  case (Some w)
  note w = Some
  show thesis
  proof (cases "mw_state w \<in> set BOUNDARY_STATES")
    case False
    with assms w have "out = Failed ''wrong_state''" by (simp add: acquire_boundary_claim_def)
    then show thesis by (intro refused) simp_all
  next
    case state: True
    obtain held other where claimed: "is_workspace_boundary_claimed i boundary read st = Inr (held, other)"
      using assms w state by (auto simp: acquire_boundary_claim_def split: sum.splits)
    show thesis
    proof (cases held)
      case True
      with assms w state claimed have "out = Failed ''already_claimed''" by (simp add: acquire_boundary_claim_def)
      then show thesis by (intro refused) simp_all
    next
      case False
      obtain st1 r where a: "acquire_workspace_claim c1 i (Some (''workspace:'' @ i)) (boundary_request paths mission lane agent w) st = (st1, Inr r)"
        using assms w state claimed False by (auto simp: acquire_boundary_claim_def split: prod.splits sum.splits)
      show thesis
      proof (cases "cr_acquired r")
        case True
        with assms w state claimed False a granted show thesis by (simp add: acquire_boundary_claim_def)
      next
        case no: False
        obtain why where "cr_refusal_reason r = Some (reason_text why)" using workspace_refused [OF a no] by blast
        with assms w state claimed False a no reason_text_codes [of why] have "out = Failed (reason_text why)"
          by (simp add: acquire_boundary_claim_def refusal_of_def present_text_def)
        with reason_text_codes [of why] show thesis by (intro refused) simp_all
      qed
    qed
  qed
qed

lemma linked_boundary_event:
  "we_event_kind (ws_linked_event sha (boundary_event env now k i boundary cid w sv) ls) = k"
  "we_reason (ws_linked_event sha (boundary_event env now k i boundary cid w sv) ls) = Some (boundary_reason boundary cid)"
  by (simp_all add: boundary_event_def lifecycle_event_def ws_linked_event_def ws_digested_def Let_def)

lemma boundary_request_fields:
  "q_claimed_paths (boundary_request paths mission lane agent w) = paths"
  "q_ttl_seconds (boundary_request paths mission lane agent w) = 300"
  by (simp_all add: boundary_request_def)

text \<open>
  C8: a call that returns grants a boundary with its evidence or does not grant it.  On a reachable claim store, when
  neither ledger has a torn line and the two calls of the claim store read its ledger: when the answer is done, the
  workspace was in one of the four states that may hold boundaries, no claim that was active then conflicted with the
  paths, one event with the identifier of the claim was recorded, and the claim store shows the claim to the
  workspace until its 300 seconds end; when the answer is that the event was not recorded, the claim store as it is
  left does not show the claim, now or later, and the event is not in the lifecycle ledger unless the append raised
  after it had begun to write.  A call that raises promises nothing (\<open>boundary_claim_left_without_evidence\<close>).
\<close>

theorem boundary_claim_granted_with_evidence:
  assumes "fleet_reachable st t0" and "clock_ok t0 c1" and "fresh_uuid c1 st" and "datetime_min \<le> now_event (c_clock c1)"
    and "clock_ok (now_result (c_clock c1)) c2" and "fresh_uuid c2 st" and "c_uuid c2 \<noteq> c_uuid c1"
    and "acquire_boundary_claim env now read c1 c2 i boundary paths mission lane agent (sv, st) = ((sv', st'), Inr out)"
    and "reads_ledger c1" and "reads_ledger c2" and "\<not> fs_torn st" and "\<not> sv_torn sv"
  shows "(out = Done \<longrightarrow>
      (\<exists>w held e. current_workspace i sv = Some w \<and> mw_state w \<in> set BOUNDARY_STATES \<and>
         active_claims (fs_ledger st) None (now_replay (c_clock c1)) = Inr held \<and>
         (\<forall>y \<in> set held. paths_conflict (normalized_paths paths) (ac_claimed_paths y) = None) \<and>
         sv_ledger sv' = sv_ledger sv @ [Entry e] \<and> we_event_kind e = WE_BOUNDARY_CLAIM_ACQUIRED \<and>
         we_reason e = Some (boundary_reason boundary (c_uuid c1))) \<and>
      (\<forall>t. t < now_event (c_clock c1) + seconds 300 \<longrightarrow>
         (\<exists>cs x. get_workspace_claims i (None, t) st' = Inr cs \<and> x \<in> set cs \<and> ac_claim_id x = c_uuid c1 \<and>
            ac_claimed_paths x = normalized_paths paths))) \<and>
    (out = Failed ''not_recorded'' \<longrightarrow>
      left_behind (sv_io sv) (\<lambda>e. we_event_kind e = WE_BOUNDARY_CLAIM_ACQUIRED) (sv_ledger sv) (sv_ledger sv') \<and>
      (\<forall>t cs. now_replay (c_clock c2) \<le> t \<longrightarrow> active_claims (fs_ledger st') None t = Inr cs \<longrightarrow> c_uuid c1 \<notin> ac_claim_id ` set cs))"
  using assms(8)
proof (cases rule: acquire_boundary_cases)
  case refused
  then show ?thesis by simp
next
  case (granted w st1 r)
  define q where "q = (boundary_request paths mission lane agent w)\<lparr>q_workspace_authority_id := ''workspace:'' @ i\<rparr>"
  define e where "e = stamped c1 (fs_ledger st)
    ((event_of_request c1 K_workspace_claim_acquired q)\<lparr>ev_details := workspace_grant_details i q\<rparr>)"
  obtain held where held: "active_claims (fs_ledger st) None (now_replay (c_clock c1)) = Inr held"
      "\<forall>y \<in> set held. paths_conflict (normalized_paths paths) (ac_claimed_paths y) = None"
      "fs_ledger st1 = fs_ledger st @ [Entry e]" "in_range (now_result (c_clock c1) + seconds (q_ttl_seconds q))"
      "claim_id_of r = c_uuid c1" "\<not> fs_torn st1"
    using workspace_granted [OF granted(3,4) _ assms(9,11), folded q_def, folded e_def] by (auto simp: boundary_request_fields)
  have uuid: "c_uuid c1 \<noteq> ''''" using assms(3) by (simp add: fresh_uuid_def)
  have reach: "fleet_reachable st1 (now_result (c_clock c1))"
    using fleet_reachable.call [OF assms(1-3,9), of "AcquireWorkspaceClaim i (Some (''workspace:'' @ i)) (boundary_request paths mission lane agent w)"] granted(3)
    by simp
  obtain ok sv1 where a: "append_lifecycle env (boundary_event env now WE_BOUNDARY_CLAIM_ACQUIRED i boundary (c_uuid c1) w sv) sv = (ok, sv1)"
    by fastforce
  note log = append_stored(3,4) [OF a]
  show ?thesis
  proof (cases ok)
    case True
    with granted(5) a held(5) have out: "out = Done" "sv' = sv1" "st' = st1" by (simp_all add: record_boundary_claim_def)
    have "\<exists>cs x. get_workspace_claims i (None, t) st' = Inr cs \<and> x \<in> set cs \<and> ac_claim_id x = c_uuid c1 \<and> ac_claimed_paths x = normalized_paths paths"
      if "t < now_event (c_clock c1) + seconds 300" for t
      using granted_claim_active [OF reach held(1,3) e_def held(4) _ assms(4) _ uuid, of t] assms(2) that
      by (simp add: q_def boundary_request_fields get_workspace_claims_def out clock_ok_def)
    with granted(1,2) held(1,2) log True out assms(12) show ?thesis
      using linked_boundary_event [of "wv_sha env" env now WE_BOUNDARY_CLAIM_ACQUIRED i boundary "c_uuid c1" w sv "sv_ledger sv"] by auto
  next
    case False
    with granted(5) a held(5) obtain r' where rel: "release_workspace_claim c2 (c_uuid c1) st1 = (st', Inr r')" "sv' = sv1" "out = Failed ''not_recorded''"
      by (auto simp: record_boundary_claim_def split: prod.splits sum.splits)
    have fresh: "fresh_uuid c2 st1" using assms(6,7) held(3) by (auto simp: fresh_uuid_def e_def)
    have "left_behind (sv_io sv) (\<lambda>e. we_event_kind e = WE_BOUNDARY_CLAIM_ACQUIRED) (sv_ledger sv) (sv_ledger sv1)"
      using log(2) False assms(12)
        linked_boundary_event(1) [of "wv_sha env" env now WE_BOUNDARY_CLAIM_ACQUIRED i boundary "c_uuid c1" w sv "sv_ledger sv"]
      by (auto simp: left_behind_def)
    with released_claim_gone [OF reach assms(5) fresh uuid rel(1) _ _ assms(10) held(6)] rel(2,3) show ?thesis by simp
  qed
qed

definition demo_working :: workspace_service where
  "demo_working = ws_calls demo_ws_env [(demo_git_world, [], WcActivate ''w1'' ''s2'')] demo_ready"

definition demo_boundary :: "write_fate list \<Rightarrow> boundary_state \<times> op_outcome result" where
  "demo_boundary io = acquire_boundary_claim demo_ws_env (Aware 6) (None, 2) (demo_call 2 ''u3'') (demo_call 3 ''u4'') ''w1'' ''schemas'' [''etc'']
     '''' '''' '''' (demo_working\<lparr>sv_io := io\<rparr>, demo_store2)"

lemma demo_boundary_calls:
  "clock_ok 1 (demo_call 2 ''u3'')" "fresh_uuid (demo_call 2 ''u3'') demo_store2" "datetime_min \<le> now_event (c_clock (demo_call 2 ''u3''))"
  "clock_ok (now_result (c_clock (demo_call 2 ''u3''))) (demo_call 3 ''u4'')" "fresh_uuid (demo_call 3 ''u4'') demo_store2"
  "c_uuid (demo_call 3 ''u4'') \<noteq> c_uuid (demo_call 2 ''u3'')"
  by (simp_all add: clock_ok_def demo_store2_def demo_store1_def fleet_evaluation fresh_uuid_def)

theorem boundary_claim_granted_with_evidence_witness:
  "\<exists>s cs x s'. demo_boundary [] = (s, Inr Done) \<and> get_workspace_claims ''w1'' (None, 100) (snd s) = Inr cs \<and> x \<in> set cs \<and> ac_claim_id x = ''u3'' \<and>
     demo_boundary [Not_written] = (s', Inr (Failed ''not_recorded'')) \<and>
     (\<forall>t ds. 3 \<le> t \<longrightarrow> active_claims (fs_ledger (snd s')) None t = Inr ds \<longrightarrow> ''u3'' \<notin> ac_claim_id ` set ds)"
proof -
  have outs: "snd (demo_boundary []) = Inr Done" "snd (demo_boundary [Not_written]) = Inr (Failed ''not_recorded'')"
    by code_simp+
  then obtain sv st sv' st' where runs: "demo_boundary [] = ((sv, st), Inr Done)" "demo_boundary [Not_written] = ((sv', st'), Inr (Failed ''not_recorded''))"
    by (metis prod.collapse)
  have intact: "\<not> fs_torn demo_store2" "\<not> sv_torn (demo_working\<lparr>sv_io := io\<rparr>)" for io
    using undamaged_chain_inv [OF demo_undamaged(2)] by (simp_all) code_simp
  note fact = boundary_claim_granted_with_evidence [OF demo_reachable(2) demo_boundary_calls _ demo_call_fates(1) demo_call_fates(1) intact]
  have clocks: "now_event (c_clock (demo_call 2 ''u3'')) = 2" "now_replay (c_clock (demo_call 3 ''u4'')) = 3" "c_uuid (demo_call 2 ''u3'') = ''u3''"
    by (simp_all add: demo_call_def)
  from fact [OF runs(1) [unfolded demo_boundary_def]] obtain cs x where
    "get_workspace_claims ''w1'' (None, 100) st = Inr cs" "x \<in> set cs" "ac_claim_id x = ''u3''"
    unfolding clocks seconds_def by (auto dest: spec [of _ "100 :: int"])
  moreover from fact [OF runs(2) [unfolded demo_boundary_def]]
  have "\<forall>t ds. 3 \<le> t \<longrightarrow> active_claims (fs_ledger st') None t = Inr ds \<longrightarrow> ''u3'' \<notin> ac_claim_id ` set ds"
    unfolding clocks by simp
  ultimately show ?thesis using runs by auto
qed

text \<open>
  When the event is not recorded and the claim cannot be released either, the call raises, and the claim stays active
  without any evidence of it in the lifecycle ledger.
\<close>

definition demo_unreleased :: "boundary_state \<times> op_outcome result" where
  "demo_unreleased = acquire_boundary_claim demo_ws_env (Aware 6) (None, 2) (demo_call 2 ''u3'')
     ((demo_call 3 ''u4'')\<lparr>c_io := (c_io (demo_call 3 ''u4''))\<lparr>io_append := Not_written\<rparr>\<rparr>) ''w1'' ''schemas'' [''etc'']
     '''' '''' '''' (demo_working\<lparr>sv_io := [Not_written]\<rparr>, demo_store2)"

theorem boundary_claim_left_without_evidence:
  "snd demo_unreleased = Inl OSError \<and> sv_ledger (fst (fst demo_unreleased)) = sv_ledger demo_working \<and>
   map_sum id (map ac_claim_id) (get_workspace_claims ''w1'' (None, 100) (snd (fst demo_unreleased))) = Inr [''u3'']"
proof (intro conjI)
  show "snd demo_unreleased = Inl OSError" by code_simp
  show "sv_ledger (fst (fst demo_unreleased)) = sv_ledger demo_working" by code_simp
  show "map_sum id (map ac_claim_id) (get_workspace_claims ''w1'' (None, 100) (snd (fst demo_unreleased))) = Inr [''u3'']"
    by code_simp
qed

text \<open>
  A boundary is released by looking for its name in the printed paths of the claims of the workspace, and the name is
  not recorded in the claim: a boundary whose name is not part of its paths is granted and cannot be released.
\<close>

theorem boundary_without_its_name_not_released:
  "\<exists>s. demo_boundary [] = (s, Inr Done) \<and>
     release_boundary_claim demo_ws_env (Aware 7) (None, 4) (demo_call 4 ''u5'') (demo_call 5 ''u6'') ''w1'' ''schemas'' s = (s, Inr (Failed ''no_active_claim''))"
proof -
  have outs: "snd (demo_boundary []) = Inr Done" by code_simp
  then obtain s where s: "demo_boundary [] = (s, Inr Done)" by (metis prod.collapse)
  have "snd (release_boundary_claim demo_ws_env (Aware 7) (None, 4) (demo_call 4 ''u5'') (demo_call 5 ''u6'') ''w1'' ''schemas'' (fst (demo_boundary [])))
      = Inr (Failed ''no_active_claim'')" by code_simp
  moreover have "map_option mw_state (current_workspace ''w1'' (fst (fst (demo_boundary [])))) = Some WS_ACTIVE" by code_simp
  moreover have "map_sum id (map (find_boundary_claim ''schemas'') \<circ> (\<lambda>cs. [cs])) (get_workspace_claims ''w1'' (None, 4) (snd (fst (demo_boundary [])))) = Inr [None]"
    by code_simp
  ultimately show ?thesis using s
    by (auto simp: release_boundary_claim_def split: option.splits sum.splits)
qed

section \<open>Resets, sessions and forced retirement\<close>

text \<open>
  No reset touches a worktree: its only call of git that removes one is behind a test that never holds, since
  with force nothing but a primary or missing worktree makes the check fail.
\<close>

lemma transition_git [simp]: "sv_git (fst (ws_transition env now i target kind upd sv)) = sv_git sv"
proof -
  have save: "sv_git sv' = sv_git s" if "save_workspace w s = (ok, sv')" for w s ok sv'
    using save_fields [of w s] that by simp
  have noted: "sv_git sv' = sv_git s" if "append_lifecycle env e s = (ok, sv')" for e s ok sv'
    using append_fields [of env e s] that by simp
  show ?thesis
    unfolding ws_transition_def Let_def
    by (auto split: option.splits prod.splits if_splits dest!: save noted simp: cache_workspace_def)
qed

theorem reset_keeps_worktree:
  "sv_git (fst (reset_workspace env g force i sv)) = sv_git sv"
proof (cases "load_workspace i sv")
  case None
  then show ?thesis by (simp add: reset_workspace_def with_workspace_def)
next
  case (Some w)
  have step: "sv_git (fst (transits env (gw_now g) i t k u sv)) = sv_git sv" for t k u
    by (simp add: transits_def split_beta)
  have forced: "sv_git (fst (reset_workspace_forced env g i sv)) = sv_git sv"
    if "verify_destructive_action_safe g True w = Some why" for why
    using that Some step by (auto simp: reset_workspace_forced_def with_workspace_def verify_destructive_action_safe_def
        present_text_def retires_def fails_def Let_def split: option.splits if_splits)
  show ?thesis
    using Some step forced
    by (cases force) (auto simp: reset_workspace_def with_workspace_def retires_def refuses_def fails_def split: option.splits)
qed

text \<open>
  The session an activation is given is written to the file and then overwritten from memory: afterwards the workspace
  is active with the session it had in memory before.
\<close>

theorem activation_keeps_old_session:
  assumes "load_workspace i sv = Some w" and "dict_get (sv_cache sv) i = Some c" and "mw_workspace_id w = i" and "mw_workspace_id c = i"
    and "mw_state w = WS_READY" and "ws_status c = (WS_READY, None)" and "sv_io sv = []" and "\<not> sv_torn sv"
  shows "\<exists>sv' w'. activate env now i session sv = (sv', Inr Done) \<and> dict_get (sv_disk sv') i = Some (Some w') \<and>
    dict_get (sv_cache sv') i = Some w' \<and> ws_status w' = (WS_ACTIVE, None) \<and> mw_session_id w' = mw_session_id c"
proof -
  define sv1 where "sv1 = sv\<lparr>sv_disk := dict_set i (Some (w\<lparr>mw_session_id := Some session\<rparr>)) (sv_disk sv)\<rparr>"
  have saved: "save_workspace (w\<lparr>mw_session_id := Some session\<rparr>) sv = (True, sv1)"
    using save_succeeds [OF assms(7)] assms(3) by (simp add: sv1_def)
  have "current_workspace i sv1 = Some c" "sv_io sv1 = []" "\<not> sv_torn sv1" using assms(2,7,8) by (simp_all add: sv1_def current_workspace_def)
  moreover have "ws_admitted (ws_status c) (WS_ACTIVE, None)"
    unfolding assms(6) by (simp add: ws_admitted_def ws_is_terminal_def table_defs)
  ultimately show ?thesis
    using transition_admitted [of i sv1 c "(WS_ACTIVE, None)" env now WE_WORKSPACE_ACTIVATED "\<lambda>e. e\<lparr>we_session_id := Some session\<rparr>"]
      assms(1,4,5,6) saved
    by (simp add: activate_def with_workspace_def saving_def transits_def cache_workspace_def dict_simps set_status_def)
qed

theorem activation_keeps_old_session_witness:
  "\<exists>sv' w'. activate demo_ws_env (Aware 6) ''w1'' ''s2'' demo_ready = (sv', Inr Done) \<and> dict_get (sv_disk sv') ''w1'' = Some (Some w') \<and>
     mw_session_id w' = Some ''s1''"
proof -
  have "map_option (\<lambda>w. (mw_workspace_id w, mw_state w)) (load_workspace ''w1'' demo_ready) = Some (''w1'', WS_READY)"
    "map_option (\<lambda>w. (mw_workspace_id w, ws_status w, mw_session_id w)) (dict_get (sv_cache demo_ready) ''w1'') = Some (''w1'', (WS_READY, None), Some ''s1'')"
    "sv_io demo_ready = []" "\<not> sv_torn demo_ready"
    by code_simp+
  then show ?thesis
    using activation_keeps_old_session [of "''w1''" demo_ready _ _ demo_ws_env "Aware 6" "''s2''"] by fastforce
qed

text \<open>
  A forced retirement destroys first and asks afterwards.  For every live status but two, an existing worktree that
  is not the primary one is removed by force, its path and branch are erased from the file, and then the retirement
  itself is refused by the table.
\<close>

theorem forced_retirement_removes_then_fails:
  assumes "load_workspace i sv = Some w" and "dict_get (sv_cache sv) i = Some c" and "mw_workspace_id w = i" and "ws_status c = ws_status w"
    and "ws_status w \<in> set LIVE_STATUSES" and "ws_status w \<notin> {(WS_ACTIVE, None), (WS_PUBLISHED, None)}"
    and "mw_worktree_path w = Some p" and "p \<noteq> ''''" and "gw_exists g p" and "\<not> gw_primary g p" and "git_ok (gw_remove g p True)"
    and "sv_io sv = []"
  shows "\<exists>sv'. retire env g True i sv = (sv', Inr (Failed ''invalid_transition'')) \<and> sv_git sv' = sv_git sv @ [GitRemove p True] \<and>
    dict_get (sv_disk sv') i = Some (Some (without_worktree w)) \<and> dict_get (sv_cache sv') i = Some c"
proof -
  have safe: "verify_destructive_action_safe g True w = None"
    using assms(7,9,10) by (simp add: verify_destructive_action_safe_def)
  define sv1 where "sv1 = (log_git (GitRemove p True) sv)\<lparr>sv_disk := dict_set i (Some (without_worktree w)) (sv_disk sv)\<rparr>"
  have "save_workspace (without_worktree w) (log_git (GitRemove p True) sv) = (True, sv1)"
    using save_succeeds [of "log_git (GitRemove p True) sv"] assms(3,12) by (simp add: sv1_def log_git_def without_worktree_def)
  then have removed: "remove_worktree env g True i sv = (sv1, Inr Done)"
    using assms(1,7-9,11) safe
    by (simp add: remove_worktree_def with_workspace_def present_text_def try_git_worktree_remove_def saving_def done_op_def)
  have "current_workspace i sv1 = Some c" using assms(2) by (simp add: sv1_def current_workspace_def log_git_def)
  moreover have "\<not> ws_is_terminal (ws_status w)" "(ws_status w, WS_RETIRED, None) \<notin> set WORKSPACE_TRANSITIONS" "(WS_RETIRED, None) \<noteq> ws_status w"
    using assms(5,6) by (auto simp: LIVE_STATUSES_def ws_is_terminal_def TERMINAL_RECOVERY_def table_defs)
  ultimately have "ws_transition env (gw_now g) i (WS_RETIRED, None) WE_WORKSPACE_RETIRED id sv1 = (sv1, Failed ''invalid_transition'')"
    using assms(4) by (simp add: ws_transition_def)
  moreover have "mw_state w \<noteq> WS_RETIRED" using assms(5) by (auto simp: LIVE_STATUSES_def)
  ultimately have "retire env g True i sv = (sv1, Inr (Failed ''invalid_transition''))"
    using assms(1,7,8) safe removed
    by (simp add: retire_def with_workspace_def present_text_def remove_and_retire_def retires_def transits_def)
  then show ?thesis using assms(2) by (simp add: sv1_def log_git_def dict_simps)
qed

theorem forced_retirement_removes_then_fails_witness:
  "\<exists>sv'. retire demo_ws_env demo_git_world True ''w1'' demo_ready = (sv', Inr (Failed ''invalid_transition'')) \<and>
     sv_git sv' = sv_git demo_ready @ [GitRemove ''wt/w1'' True]"
proof -
  have "map_option (\<lambda>w. (mw_workspace_id w, ws_status w, mw_worktree_path w)) (load_workspace ''w1'' demo_ready) = Some (''w1'', (WS_READY, None), Some ''wt/w1'')"
    "map_option (\<lambda>w. (mw_workspace_id w, ws_status w)) (dict_get (sv_cache demo_ready) ''w1'') = Some (''w1'', WS_READY, None)"
    "sv_io demo_ready = []"
    by code_simp+
  moreover have "gw_exists demo_git_world ''wt/w1''" "\<not> gw_primary demo_git_world ''wt/w1''" "git_ok (gw_remove demo_git_world ''wt/w1'' True)"
    by (simp_all add: demo_git_world_def git_ok_def)
  moreover have "(WS_READY, None) \<in> set LIVE_STATUSES" by (simp add: LIVE_STATUSES_def)
  ultimately show ?thesis
    using forced_retirement_removes_then_fails [of "''w1''" demo_ready _ _ "''wt/w1''" demo_git_world demo_ws_env] by fastforce
qed

text \<open>
  The digest of an event does not cover the link to its predecessor: from the events of a workspace any selection in
  any order verifies once the links are rewritten, and no digest has to be computed for that.
\<close>

fun relinked :: "WorkspaceLifecycleEvent option \<Rightarrow> WorkspaceLifecycleEvent list \<Rightarrow> WorkspaceLifecycleEvent list" where
  "relinked prev [] = []"
| "relinked prev (e # es) =
    (let e' = e\<lparr>we_prior_event_digest := (case prev of None \<Rightarrow> None | Some p \<Rightarrow> we_event_digest p)\<rparr> in e' # relinked (Some e') es)"

theorem relinked_events_verify:
  assumes "list_all (\<lambda>e. we_event_digest e = Some (ws_event_digest sha e)) es"
  shows "chain_fault sha prev (relinked prev es) = None \<and> map we_event_digest (relinked prev es) = map we_event_digest es"
  using assms
proof (induction es arbitrary: prev)
  case (Cons e es)
  then show ?case by (simp add: ws_event_digest_def Let_def split: option.splits)
qed simp

theorem relinked_events_verify_witness:
  "verify_ws_chain we_event_id ''w1'' (map Entry (relinked None (rev (workspace_events ''w1'' (sv_ledger demo_ready))))) \<and>
   length (workspace_events ''w1'' (sv_ledger demo_ready)) = 5"
proof -
  have digests: "list_all (\<lambda>e. we_event_digest e = Some (ws_event_digest we_event_id e)) (rev (workspace_events ''w1'' (sv_ledger demo_ready)))"
    by code_simp
  have "workspace_events ''w1'' (map Entry (relinked None (rev (workspace_events ''w1'' (sv_ledger demo_ready))))) =
      relinked None (rev (workspace_events ''w1'' (sv_ledger demo_ready)))" by code_simp
  moreover have "length (workspace_events ''w1'' (sv_ledger demo_ready)) = 5" by code_simp
  ultimately show ?thesis
    using relinked_events_verify [OF digests, of None] by (simp add: verify_ws_chain_def)
qed

end
