(* ===== verification/Claim_Corridor.thy ===== *)
theory Claim_Corridor
  imports Relay_Interfaces
begin

text \<open>
  The claim corridor, \<^verbatim>\<open>rig_relay/coordination/fleet_claim_corridor.py\<close>: a ledger of claims of single paths and
  the protocol over it, with the attributes of files that mirror the claims.  A line of the ledger is blank, no JSON,
  JSON that is no object, an object that is no event (of which only the sequence, \<open>None\<close> when it is no number, and the
  digest are read), or an event.  The resolved path of a path under the root, the files and SHA-256 are parameters; a
  call holds the lock.  Whether the ledger can be read
  and written during a call is an argument; the texts of reasons are kept as their parts.
\<close>

section \<open>Events and the ledger\<close>

datatype corridor_event_kind =
    CK_claim_requested | CK_claim_acquired | CK_claim_refused_conflict | CK_claim_renewed | CK_edit_started | CK_tests_completed
  | CK_ready_for_integration | CK_integration_accepted | CK_integration_refused_stale_base | CK_claim_released
  | CK_claim_release_refused | CK_work_parked

datatype corridor_state = CS_claimed | CS_editing | CS_tests_running | CS_ready_for_integration | CS_blocked | CS_released

datatype corridor_reason =
    Outside_root string
  | Already_claimed string timestamp
  | Release_refused string string string string
  | Released_to corridor_state "string list"

record corridor_event =
  fv_event_id :: string
  fv_event_kind :: corridor_event_kind
  fv_mission_id :: string
  fv_lane_id :: string
  fv_agent_id :: string
  fv_claimed_paths :: "string list"
  fv_prior_sha256 :: "(string, string) dict option"
  fv_timestamp :: timestamp
  fv_event_sequence :: int
  fv_event_digest :: string
  fv_reason :: "corridor_reason option"
  fv_prior_event_digest :: "string option"

record corridor_claim_info =
  fi_mission_id :: string
  fi_lane_id :: string
  fi_agent_id :: string
  fi_acquired_at :: timestamp
  fi_base_sha256 :: "(string, string) dict"

record corridor_result =
  fr_acquired :: bool
  fr_event :: "corridor_event option"
  fr_reason :: "corridor_reason option"
  fr_conflicting_claim :: "corridor_claim_info option"

datatype corridor_line = CL_blank | CL_not_json | CL_no_object | CL_object "int option" "string option" | CL_event corridor_event

type_synonym corridor_ledger = "corridor_line list"

text \<open>The sequence of a line; JSON that is no object, or whose sequence is no number, makes \<^verbatim>\<open>_next_sequence\<close> raise.\<close>

fun line_sequence :: "corridor_line \<Rightarrow> int result" where
  "line_sequence CL_blank = Inr 0"
| "line_sequence CL_not_json = Inr 0"
| "line_sequence CL_no_object = Inl AttributeError"
| "line_sequence (CL_object n d) = (case n of None \<Rightarrow> Inl TypeError | Some n \<Rightarrow> Inr n)"
| "line_sequence (CL_event e) = Inr (fv_event_sequence e)"

fun max_sequence :: "int \<Rightarrow> corridor_ledger \<Rightarrow> int result" where
  "max_sequence m [] = Inr m"
| "max_sequence m (l # ls) = and_then (line_sequence l) (\<lambda>n. max_sequence (max m n) ls)"

definition corridor_next_sequence :: "corridor_ledger \<Rightarrow> int result" where
  "corridor_next_sequence ls = and_then (max_sequence 0 ls) (\<lambda>m. Inr (m + 1))"

definition nonblank :: "corridor_ledger \<Rightarrow> corridor_ledger" where
  "nonblank ls = filter (\<lambda>l. l \<noteq> CL_blank) ls"

fun line_digest :: "corridor_line \<Rightarrow> string option result" where
  "line_digest CL_blank = Inr None"
| "line_digest CL_not_json = Inr None"
| "line_digest CL_no_object = Inl AttributeError"
| "line_digest (CL_object n d) = Inr (if d = Some '''' then None else d)"
| "line_digest (CL_event e) = Inr (if fv_event_digest e = '''' then None else Some (fv_event_digest e))"

definition corridor_last_digest :: "corridor_ledger \<Rightarrow> string option result" where
  "corridor_last_digest ls = (if nonblank ls = [] then Inr None else line_digest (last (nonblank ls)))"

fun event_of_line :: "corridor_line \<Rightarrow> corridor_event option" where
  "event_of_line (CL_event e) = Some e"
| "event_of_line l = None"

definition corridor_events :: "corridor_ledger \<Rightarrow> corridor_event list" where
  "corridor_events ls = List.map_filter event_of_line ls"

text \<open>The ledger owns sequence and digests; \<open>sha\<close> is the digest of an event without its identifier and digest.\<close>

definition corridor_digest :: "(corridor_event \<Rightarrow> string) \<Rightarrow> corridor_event \<Rightarrow> string" where
  "corridor_digest sha e = sha (e\<lparr>fv_event_id := '''', fv_event_digest := ''''\<rparr>)"

definition seal_corridor_event :: "(corridor_event \<Rightarrow> string) \<Rightarrow> int \<Rightarrow> string option \<Rightarrow> corridor_event \<Rightarrow> corridor_event" where
  "seal_corridor_event sha n prior e0 =
    (let e = e0\<lparr>fv_event_sequence := (if fv_event_sequence e0 = 0 then n else fv_event_sequence e0), fv_prior_event_digest := prior\<rparr>;
         d = corridor_digest sha e
     in e\<lparr>fv_event_digest := d, fv_event_id := (if fv_event_id e0 = '''' then d else fv_event_id e0)\<rparr>)"

record corridor_io =
  ci_readable :: bool
  ci_writable :: bool

definition seen_ledger :: "corridor_io \<Rightarrow> corridor_ledger \<Rightarrow> corridor_ledger" where
  "seen_ledger io ls = (if ci_readable io then ls else [])"

definition append_under_lock ::
  "(corridor_event \<Rightarrow> string) \<Rightarrow> corridor_io \<Rightarrow> corridor_event \<Rightarrow> corridor_ledger \<Rightarrow> corridor_ledger \<times> corridor_event result" where
  "append_under_lock sha io e0 ls =
    (case (if fv_event_sequence e0 = 0 then corridor_next_sequence (seen_ledger io ls) else Inr 0) of
       Inl x \<Rightarrow> (ls, Inl x)
     | Inr n \<Rightarrow>
         (case corridor_last_digest (seen_ledger io ls) of
            Inl x \<Rightarrow> (ls, Inl x)
          | Inr prior \<Rightarrow>
              if ci_writable io then (ls @ [CL_event (seal_corridor_event sha n prior e0)], Inr (seal_corridor_event sha n prior e0))
              else (ls, Inl OSError)))"

section \<open>The owners of paths\<close>

definition OWNERSHIP_CHANGING_KINDS :: "corridor_event_kind list" where
  "OWNERSHIP_CHANGING_KINDS = [CK_claim_acquired, CK_claim_released]"

definition corridor_same_owner :: "corridor_event \<Rightarrow> corridor_event \<Rightarrow> bool" where
  "corridor_same_owner x y \<longleftrightarrow> fv_mission_id x = fv_mission_id y \<and> fv_lane_id x = fv_lane_id y \<and> fv_agent_id x = fv_agent_id y"

definition fold_path :: "corridor_event \<Rightarrow> string \<Rightarrow> (string, corridor_event) dict \<Rightarrow> (string, corridor_event) dict" where
  "fold_path e p active =
    (if fv_event_kind e = CK_claim_acquired then dict_set p e active
     else if fv_event_kind e = CK_claim_released then
       (case dict_get active p of
          None \<Rightarrow> active
        | Some c \<Rightarrow> if corridor_same_owner c e then dict_pop p active else active)
     else active)"

definition fold_event :: "corridor_event \<Rightarrow> (string, corridor_event) dict \<Rightarrow> (string, corridor_event) dict" where
  "fold_event e active =
    (if fv_event_kind e \<notin> set OWNERSHIP_CHANGING_KINDS then active else fold (fold_path e) (fv_claimed_paths e) active)"

definition fold_claims :: "corridor_ledger \<Rightarrow> (string, corridor_event) dict" where
  "fold_claims ls = fold fold_event (sort_key fv_event_sequence (corridor_events ls)) []"

definition find_active_claim :: "corridor_ledger \<Rightarrow> string \<Rightarrow> corridor_event option" where
  "find_active_claim ls p = dict_get (fold_claims ls) p"

section \<open>The mirrors on files\<close>

text \<open>The attributes of files, by resolved path; where they cannot be written nothing is said.\<close>

record corridor =
  co_ledger :: corridor_ledger
  co_claims :: "(string, corridor_claim_info) dict"
  co_states :: "(string, corridor_state) dict"
  co_fixes :: "(string, string \<times> string) dict"

record corridor_env =
  cv_sha :: "corridor_event \<Rightarrow> string"
  cv_root :: string
  cv_resolve :: "string \<Rightarrow> string"
  cv_file :: "string \<Rightarrow> string result option"
  cv_xattr :: "string \<Rightarrow> bool"

definition write_claim :: "corridor_env \<Rightarrow> string \<Rightarrow> corridor_claim_info \<Rightarrow> corridor \<Rightarrow> corridor" where
  "write_claim env p info c = (if cv_xattr env p then c\<lparr>co_claims := dict_set p info (co_claims c)\<rparr> else c)"

definition write_state :: "corridor_env \<Rightarrow> string \<Rightarrow> corridor_state \<Rightarrow> corridor \<Rightarrow> corridor" where
  "write_state env p s c = (if cv_xattr env p then c\<lparr>co_states := dict_set p s (co_states c)\<rparr> else c)"

definition clear_claim_xattrs :: "corridor_env \<Rightarrow> string \<Rightarrow> corridor \<Rightarrow> corridor" where
  "clear_claim_xattrs env p c =
    (if cv_xattr env p then c\<lparr>co_claims := dict_pop p (co_claims c), co_states := dict_pop p (co_states c)\<rparr> else c)"

definition write_last_fix :: "corridor_env \<Rightarrow> string \<Rightarrow> string \<Rightarrow> string \<Rightarrow> corridor \<Rightarrow> corridor" where
  "write_last_fix env p event_id repaired c =
    (if cv_xattr env p then c\<lparr>co_fixes := dict_set p (event_id, repaired) (co_fixes c)\<rparr> else c)"

definition read_claim :: "corridor_env \<Rightarrow> string \<Rightarrow> corridor \<Rightarrow> corridor_claim_info option" where
  "read_claim env p c = (if cv_xattr env p then dict_get (co_claims c) p else None)"

definition read_state :: "corridor_env \<Rightarrow> string \<Rightarrow> corridor \<Rightarrow> corridor_state option" where
  "read_state env p c = (if cv_xattr env p then dict_get (co_states c) p else None)"

text \<open>\<^verbatim>\<open>list_claims\<close> over the files of a walk, with their paths relative to its root.\<close>

definition list_claims :: "corridor_env \<Rightarrow> (string \<times> string) list \<Rightarrow> corridor \<Rightarrow> (string, corridor_claim_info) dict" where
  "list_claims env files c =
    fold (\<lambda>(full, rel) d. case read_claim env full c of None \<Rightarrow> d | Some info \<Rightarrow> dict_set rel info d) files []"

definition corridor_is_file :: "corridor_env \<Rightarrow> string \<Rightarrow> bool" where
  "corridor_is_file env p \<longleftrightarrow> cv_file env p \<noteq> None"

section \<open>The protocol\<close>

text \<open>The resolved path, or \<open>None\<close> when it leaves the repository.\<close>

definition corridor_resolve :: "corridor_env \<Rightarrow> string \<Rightarrow> string option" where
  "corridor_resolve env p =
    (let r = cv_resolve env p
     in if r = cv_root env \<or> startswith r (cv_root env @ ''/'') then Some r else None)"

definition validate_paths :: "corridor_env \<Rightarrow> string list \<Rightarrow> corridor_reason option" where
  "validate_paths env ps = map_option Outside_root (next_or_none (\<lambda>p. corridor_resolve env p = None) ps)"

definition corridor_event_of ::
  "corridor_event_kind \<Rightarrow> string \<Rightarrow> string \<Rightarrow> string \<Rightarrow> string list \<Rightarrow> timestamp \<Rightarrow> corridor_event" where
  "corridor_event_of kind mission lane agent ps now =
    \<lparr>fv_event_id = '''', fv_event_kind = kind, fv_mission_id = mission, fv_lane_id = lane, fv_agent_id = agent,
     fv_claimed_paths = ps, fv_prior_sha256 = None, fv_timestamp = now, fv_event_sequence = 0, fv_event_digest = '''',
     fv_reason = None, fv_prior_event_digest = None\<rparr>"

definition claim_info :: "corridor_event \<Rightarrow> corridor_claim_info" where
  "claim_info e = \<lparr>fi_mission_id = fv_mission_id e, fi_lane_id = fv_lane_id e, fi_agent_id = fv_agent_id e,
     fi_acquired_at = fv_timestamp e, fi_base_sha256 = (case fv_prior_sha256 e of None \<Rightarrow> [] | Some d \<Rightarrow> d)\<rparr>"

definition corridor_refusal :: "corridor_reason \<Rightarrow> corridor_result" where
  "corridor_refusal r = \<lparr>fr_acquired = False, fr_event = None, fr_reason = Some r, fr_conflicting_claim = None\<rparr>"

text \<open>An event is appended, the mirrors follow, and the result is made of the event.\<close>

definition emit_locked ::
  "corridor_env \<Rightarrow> corridor_io \<Rightarrow> corridor_event \<Rightarrow> (corridor \<Rightarrow> corridor) \<Rightarrow> (corridor_event \<Rightarrow> corridor_result) \<Rightarrow> corridor \<Rightarrow>
    corridor \<times> corridor_result result" where
  "emit_locked env io e mirror answer c =
    (case append_under_lock (cv_sha env) io e (co_ledger c) of
       (ls, Inl x) \<Rightarrow> (c\<lparr>co_ledger := ls\<rparr>, Inl x)
     | (ls, Inr sealed) \<Rightarrow> (mirror (c\<lparr>co_ledger := ls\<rparr>), Inr (answer sealed)))"

text \<open>The hashes of the claimed files, in the order of the paths.\<close>

fun base_hashes :: "corridor_env \<Rightarrow> string list \<Rightarrow> (string, string) dict \<Rightarrow> (string, string) dict result" where
  "base_hashes env [] d = Inr d"
| "base_hashes env (p # ps) d =
    (case cv_file env (cv_resolve env p) of
       None \<Rightarrow> base_hashes env ps d
     | Some r \<Rightarrow> and_then r (\<lambda>h. base_hashes env ps (dict_set p h d)))"

definition mirror_claim :: "corridor_env \<Rightarrow> corridor_claim_info \<Rightarrow> string list \<Rightarrow> corridor \<Rightarrow> corridor" where
  "mirror_claim env info ps c = fold (\<lambda>p c.
     let r = cv_resolve env p
     in if corridor_is_file env r then write_state env r CS_claimed (write_claim env r info c) else c) ps c"

definition mirror_release :: "corridor_env \<Rightarrow> string list \<Rightarrow> corridor \<Rightarrow> corridor" where
  "mirror_release env ps c = fold (\<lambda>p c.
     let r = cv_resolve env p in if corridor_is_file env r then clear_claim_xattrs env r c else c) ps c"

text \<open>\<^verbatim>\<open>acquire_claim\<close>; its \<^verbatim>\<open>ttl_minutes\<close> is not read.\<close>

definition corridor_acquire ::
  "corridor_env \<Rightarrow> corridor_io \<Rightarrow> timestamp \<Rightarrow> string list \<Rightarrow> string \<Rightarrow> string \<Rightarrow> string \<Rightarrow> corridor \<Rightarrow> corridor \<times> corridor_result result" where
  "corridor_acquire env io now ps mission lane agent c =
    (case validate_paths env ps of
       Some r \<Rightarrow> (c, Inr (corridor_refusal r))
     | None \<Rightarrow>
         let active = fold_claims (seen_ledger io (co_ledger c))
         in (case first_some (\<lambda>p. map_option (Pair p) (dict_get active p)) ps of
               Some (p, held) \<Rightarrow>
                 emit_locked env io
                   ((corridor_event_of CK_claim_refused_conflict mission lane agent [p] now)\<lparr>fv_reason := Some (Already_claimed (fv_lane_id held) (fv_timestamp held))\<rparr>)
                   id (\<lambda>e. \<lparr>fr_acquired = False, fr_event = Some e, fr_reason = fv_reason e, fr_conflicting_claim = None\<rparr>) c
             | None \<Rightarrow>
                 (case base_hashes env ps [] of
                    Inl x \<Rightarrow> (c, Inl x)
                  | Inr d \<Rightarrow>
                      let e = (corridor_event_of CK_claim_acquired mission lane agent ps now)\<lparr>fv_prior_sha256 := (if d = [] then None else Some d)\<rparr>
                      in emit_locked env io e (mirror_claim env (claim_info e) ps)
                           (\<lambda>e. \<lparr>fr_acquired = True, fr_event = Some e, fr_reason = None, fr_conflicting_claim = None\<rparr>) c)))"

text \<open>
  A release is refused at the first path that someone else owns; a release that succeeds also answers that nothing was
  acquired.
\<close>

definition foreign_claim :: "(string, corridor_event) dict \<Rightarrow> corridor_event \<Rightarrow> string \<Rightarrow> (string \<times> corridor_event) option" where
  "foreign_claim active e p =
    (case dict_get active p of None \<Rightarrow> None | Some x \<Rightarrow> if corridor_same_owner x e then None else Some (p, x))"

definition corridor_release ::
  "corridor_env \<Rightarrow> corridor_io \<Rightarrow> timestamp \<Rightarrow> string list \<Rightarrow> string \<Rightarrow> string \<Rightarrow> string \<Rightarrow> corridor_state \<Rightarrow> corridor \<Rightarrow> corridor \<times> corridor_result result" where
  "corridor_release env io now ps mission lane agent state c =
    (case validate_paths env ps of
       Some r \<Rightarrow> (c, Inr (corridor_refusal r))
     | None \<Rightarrow>
         let active = fold_claims (seen_ledger io (co_ledger c));
             e = corridor_event_of CK_claim_released mission lane agent ps now
         in (case first_some (foreign_claim active e) ps of
               Some (p, x) \<Rightarrow>
                 emit_locked env io
                   (e\<lparr>fv_event_kind := CK_claim_release_refused,
                      fv_reason := Some (Release_refused p (fv_lane_id x) (fv_mission_id x) (fv_agent_id x))\<rparr>)
                   id (\<lambda>e. \<lparr>fr_acquired = False, fr_event = Some e, fr_reason = fv_reason e, fr_conflicting_claim = Some (claim_info x)\<rparr>) c
             | None \<Rightarrow>
                 emit_locked env io
                   (e\<lparr>fv_reason := Some (Released_to state (filter (\<lambda>p. dict_get active p = None) ps))\<rparr>)
                   (mirror_release env ps) (\<lambda>e. \<lparr>fr_acquired = False, fr_event = Some e, fr_reason = fv_reason e, fr_conflicting_claim = None\<rparr>) c))"

definition path_stale :: "corridor_env \<Rightarrow> corridor_event option \<Rightarrow> string \<Rightarrow> bool result" where
  "path_stale env active p =
    (case active of
       None \<Rightarrow> Inr False
     | Some e \<Rightarrow>
         (case fv_prior_sha256 e of
            None \<Rightarrow> Inr False
          | Some d \<Rightarrow>
              (case corridor_resolve env p of
                 None \<Rightarrow> Inl (ValueError ''outside repository root'')
               | Some r \<Rightarrow>
                   (case cv_file env r of
                      None \<Rightarrow> Inr False
                    | Some h \<Rightarrow> (case dict_get d p of None \<Rightarrow> Inr False | Some h0 \<Rightarrow> and_then h (\<lambda>h. Inr (h \<noteq> h0)))))))"

fun check_stale_base :: "corridor_env \<Rightarrow> corridor_ledger \<Rightarrow> string list \<Rightarrow> (string, bool) dict \<Rightarrow> (string, bool) dict result" where
  "check_stale_base env ls [] d = Inr d"
| "check_stale_base env ls (p # ps) d =
    and_then (path_stale env (find_active_claim ls p) p) (\<lambda>b. check_stale_base env ls ps (dict_set p b d))"

definition scan_claims :: "corridor_ledger \<Rightarrow> (string, corridor_claim_info) dict" where
  "scan_claims ls = map (\<lambda>(p, e). (p, claim_info e)) (fold_claims ls)"

text \<open>\<^verbatim>\<open>mirror_to_xattrs\<close> stops with an exception at a path outside the repository.\<close>

fun mirror_all :: "corridor_env \<Rightarrow> (string \<times> corridor_claim_info) list \<Rightarrow> corridor \<Rightarrow> corridor \<times> unit result" where
  "mirror_all env [] c = (c, Inr ())"
| "mirror_all env ((p, info) # rest) c =
    (case corridor_resolve env p of
       None \<Rightarrow> (c, Inl (ValueError ''outside repository root''))
     | Some r \<Rightarrow> mirror_all env rest (if corridor_is_file env r then write_claim env r info c else c))"

definition mirror_to_xattrs :: "corridor_env \<Rightarrow> corridor_io \<Rightarrow> corridor \<Rightarrow> corridor \<times> unit result" where
  "mirror_to_xattrs env io c = mirror_all env (scan_claims (seen_ledger io (co_ledger c))) c"

end
