(* ===== verification/Corridor_Properties.thy ===== *)
theory Corridor_Properties
  imports Claim_Corridor
begin

text \<open>
  What the claim corridor promises: the ledger is a lock table, an owned path stays with its owner, the events form a
  chain, the mirrors decide nothing, and what a ledger that cannot be read does.
\<close>

section \<open>Appending an event\<close>

lemma max_sequence_bound: "max_sequence m ls = Inr n \<Longrightarrow> m \<le> n \<and> (\<forall>e \<in> set (corridor_events ls). fv_event_sequence e \<le> n)"
proof (induction ls arbitrary: m)
  case (Cons l ls)
  then show ?case
    by (cases l) (force simp: corridor_events_def map_filter_simps split: option.splits)+
qed (simp add: corridor_events_def map_filter_simps)

lemma insort_key_snoc: "f x \<le> f y \<Longrightarrow> insort_key f x (ys @ [y]) = insort_key f x ys @ [y]"
  by (induction ys) auto

lemma sort_key_snoc_last:
  fixes f :: "'a \<Rightarrow> int"
  assumes "\<forall>x \<in> set xs. f x \<le> f y"
  shows "sort_key f (xs @ [y]) = sort_key f xs @ [y]"
  using assms by (induction xs) (simp_all add: insort_key_snoc)

lemma fold_claims_snoc:
  "\<forall>x \<in> set (corridor_events ls). fv_event_sequence x \<le> fv_event_sequence e \<Longrightarrow>
    fold_claims (ls @ [CL_event e]) = fold_event e (fold_claims ls)"
  by (simp add: fold_claims_def corridor_events_def List.map_filter_def sort_key_snoc_last)

lemma append_under_lock_cases:
  assumes "append_under_lock sha io e0 ls = (ls', r)" and "ci_readable io" and "fv_event_sequence e0 = 0"
  obtains x where "r = Inl x" and "ls' = ls"
  | n d where "r = Inr (seal_corridor_event sha n d e0)" and "ls' = ls @ [CL_event (seal_corridor_event sha n d e0)]"
      and "corridor_next_sequence ls = Inr n" and "corridor_last_digest ls = Inr d"
      and "\<forall>x \<in> set (corridor_events ls). fv_event_sequence x \<le> n" and "0 < n"
proof (cases r)
  case (Inl x)
  then have "ls' = ls" using assms by (auto simp: append_under_lock_def split: sum.splits if_splits)
  with Inl show thesis by (rule that(1))
next
  case (Inr s)
  then obtain n d where n: "corridor_next_sequence ls = Inr n" and d: "corridor_last_digest ls = Inr d"
    and s: "s = seal_corridor_event sha n d e0" and ls': "ls' = ls @ [CL_event s]"
    using assms by (auto simp: append_under_lock_def seen_ledger_def split: sum.splits if_splits)
  from n obtain m where "max_sequence 0 ls = Inr m" and "n = m + 1"
    by (cases "max_sequence 0 ls") (auto simp: corridor_next_sequence_def)
  with max_sequence_bound [of 0 ls m] have "\<forall>x \<in> set (corridor_events ls). fv_event_sequence x \<le> n" "0 < n" by force+
  with Inr n d s ls' show thesis by (intro that(2)) auto
qed

lemma sealed_event [simp]:
  "fv_event_kind (seal_corridor_event sha n d e) = fv_event_kind e"
  "fv_claimed_paths (seal_corridor_event sha n d e) = fv_claimed_paths e"
  "fv_mission_id (seal_corridor_event sha n d e) = fv_mission_id e"
  "fv_lane_id (seal_corridor_event sha n d e) = fv_lane_id e"
  "fv_agent_id (seal_corridor_event sha n d e) = fv_agent_id e"
  "fv_reason (seal_corridor_event sha n d e) = fv_reason e"
  "fv_event_sequence (seal_corridor_event sha n d e) = (if fv_event_sequence e = 0 then n else fv_event_sequence e)"
  "fv_prior_event_digest (seal_corridor_event sha n d e) = d"
  by (simp_all add: seal_corridor_event_def Let_def)

lemma new_corridor_event [simp]:
  "fv_event_kind (corridor_event_of k m l a ps now) = k" "fv_claimed_paths (corridor_event_of k m l a ps now) = ps"
  "fv_mission_id (corridor_event_of k m l a ps now) = m" "fv_lane_id (corridor_event_of k m l a ps now) = l"
  "fv_agent_id (corridor_event_of k m l a ps now) = a" "fv_event_sequence (corridor_event_of k m l a ps now) = 0"
  by (simp_all add: corridor_event_of_def)

section \<open>The owner of a path\<close>

type_synonym lock_table = "string \<Rightarrow> (string \<times> string \<times> string) option"

definition event_owner :: "corridor_event \<Rightarrow> string \<times> string \<times> string" where
  "event_owner e = (fv_mission_id e, fv_lane_id e, fv_agent_id e)"

definition path_owner :: "corridor_ledger \<Rightarrow> lock_table" where
  "path_owner ls p = map_option event_owner (find_active_claim ls p)"

lemma same_owner_iff: "corridor_same_owner x y \<longleftrightarrow> event_owner x = event_owner y"
  by (auto simp: corridor_same_owner_def event_owner_def)

lemma get_fold_acquired:
  "fv_event_kind e = CK_claim_acquired \<Longrightarrow> dict_get (fold (fold_path e) ps d) p = (if p \<in> set ps then Some e else dict_get d p)"
  by (induction ps arbitrary: d) (auto simp: fold_path_def dict_simps)

lemma get_fold_released:
  "fv_event_kind e = CK_claim_released \<Longrightarrow> dict_get (fold (fold_path e) ps d) p =
    (if p \<in> set ps \<and> (\<exists>c. dict_get d p = Some c \<and> corridor_same_owner c e) then None else dict_get d p)"
  by (induction ps arbitrary: d) (auto simp: fold_path_def dict_simps split: option.splits)

lemma path_owner_snoc:
  assumes "\<forall>x \<in> set (corridor_events ls). fv_event_sequence x \<le> fv_event_sequence e"
  shows "path_owner (ls @ [CL_event e]) p =
    (if p \<in> set (fv_claimed_paths e) \<and> fv_event_kind e = CK_claim_acquired then Some (event_owner e)
     else if p \<in> set (fv_claimed_paths e) \<and> fv_event_kind e = CK_claim_released \<and> path_owner ls p = Some (event_owner e) then None
     else path_owner ls p)"
  by (auto simp: path_owner_def find_active_claim_def fold_claims_snoc [OF assms] fold_event_def OWNERSHIP_CHANGING_KINDS_def
      get_fold_acquired get_fold_released same_owner_iff split: if_splits)

section \<open>Calls and the lock table\<close>

datatype corridor_call =
    Acquire_paths "string list" string string string
  | Release_paths "string list" string string string corridor_state

record corridor_step =
  cs_io :: corridor_io
  cs_now :: timestamp
  cs_call :: corridor_call

definition corridor_exec :: "corridor_env \<Rightarrow> corridor_step \<Rightarrow> corridor \<Rightarrow> corridor \<times> corridor_result result" where
  "corridor_exec env s c =
    (case cs_call s of
       Acquire_paths ps m l a \<Rightarrow> corridor_acquire env (cs_io s) (cs_now s) ps m l a c
     | Release_paths ps m l a st \<Rightarrow> corridor_release env (cs_io s) (cs_now s) ps m l a st c)"

fun corridor_run :: "corridor_env \<Rightarrow> corridor_step list \<Rightarrow> corridor \<Rightarrow> corridor \<times> corridor_result result list" where
  "corridor_run env [] c = (c, [])"
| "corridor_run env (s # ss) c =
    (let (c1, r) = corridor_exec env s c; (c2, rs) = corridor_run env ss c1 in (c2, r # rs))"

datatype lock_answer = Granted | Freed | Declined

definition answer_of :: "corridor_result result \<Rightarrow> lock_answer" where
  "answer_of r =
    (case r of
       Inl x \<Rightarrow> Declined
     | Inr f \<Rightarrow>
         (case fr_event f of
            None \<Rightarrow> Declined
          | Some e \<Rightarrow> if fr_acquired f then Granted else if fv_event_kind e = CK_claim_released then Freed else Declined))"

text \<open>The abstract lock table: an acquisition needs every path free, a release none of them with another owner.\<close>

fun lock_call :: "corridor_call \<Rightarrow> lock_table \<Rightarrow> lock_table \<times> lock_answer" where
  "lock_call (Acquire_paths ps m l a) t =
    (if \<forall>p \<in> set ps. t p = None then (\<lambda>p. if p \<in> set ps then Some (m, l, a) else t p, Granted) else (t, Declined))"
| "lock_call (Release_paths ps m l a st) t =
    (if \<forall>p \<in> set ps. t p = None \<or> t p = Some (m, l, a) then (\<lambda>p. if p \<in> set ps then None else t p, Freed) else (t, Declined))"

fun lock_run :: "corridor_call list \<Rightarrow> lock_table \<Rightarrow> lock_table \<times> lock_answer list" where
  "lock_run [] t = (t, [])"
| "lock_run (k # ks) t = (let (t1, a) = lock_call k t; (t2, as) = lock_run ks t1 in (t2, a # as))"

lemma emit_locked_cases:
  assumes "emit_locked env io e mirror answer c = (c', r)" and "ci_readable io" and "fv_event_sequence e = 0"
    and mirror: "\<And>c. co_ledger (mirror c) = co_ledger c"
  obtains x where "r = Inl x" and "co_ledger c' = co_ledger c"
  | s where "r = Inr (answer s)" and "co_ledger c' = co_ledger c @ [CL_event s]" and "fv_event_kind s = fv_event_kind e"
    and "path_owner (co_ledger c') = (\<lambda>p.
      if p \<in> set (fv_claimed_paths e) \<and> fv_event_kind e = CK_claim_acquired then Some (event_owner e)
      else if p \<in> set (fv_claimed_paths e) \<and> fv_event_kind e = CK_claim_released \<and> path_owner (co_ledger c) p = Some (event_owner e) then None
      else path_owner (co_ledger c) p)"
proof -
  obtain ls1 r1 where ap: "append_under_lock (cv_sha env) io e (co_ledger c) = (ls1, r1)" by fastforce
  show thesis
    using ap assms(2,3)
  proof (cases rule: append_under_lock_cases)
    case (1 x)
    with ap assms(1) have "r = Inl x" "co_ledger c' = co_ledger c" by (auto simp: emit_locked_def)
    then show thesis by (rule that(1))
  next
    case (2 n d)
    let ?s = "seal_corridor_event (cv_sha env) n d e"
    from 2 ap assms(1) have r: "r = Inr (answer ?s)" and c': "co_ledger c' = co_ledger c @ [CL_event ?s]"
      by (auto simp: emit_locked_def mirror)
    have "event_owner ?s = event_owner e" by (simp add: event_owner_def)
    with path_owner_snoc [of "co_ledger c" ?s] 2(5) assms(3) r c' show thesis
      by (intro that(2) [of ?s] ext) simp_all
  qed
qed

lemma co_ledger_mirror_claim [simp]: "co_ledger (mirror_claim env info ps c) = co_ledger c"
  unfolding mirror_claim_def by (induction ps arbitrary: c) (simp_all add: Let_def write_state_def write_claim_def)

lemma co_ledger_mirror_release [simp]: "co_ledger (mirror_release env ps c) = co_ledger c"
  unfolding mirror_release_def by (induction ps arbitrary: c) (simp_all add: Let_def clear_claim_xattrs_def)

lemma path_owner_None: "path_owner ls p = None \<longleftrightarrow> dict_get (fold_claims ls) p = None"
  by (simp add: path_owner_def find_active_claim_def)

lemma answer_of_simps [simp]:
  "answer_of (Inl x) = Declined"
  "answer_of (Inr (corridor_refusal why)) = Declined"
  "answer_of (Inr \<lparr>fr_acquired = True, fr_event = Some e, fr_reason = y, fr_conflicting_claim = z\<rparr>) = Granted"
  "answer_of (Inr \<lparr>fr_acquired = False, fr_event = Some e, fr_reason = y, fr_conflicting_claim = z\<rparr>) =
    (if fv_event_kind e = CK_claim_released then Freed else Declined)"
  by (simp_all add: answer_of_def corridor_refusal_def)

lemma acquire_refines:
  assumes "corridor_acquire env io now ps m l a c = (c', r)" and "ci_readable io"
  shows "(answer_of r = Declined \<and> path_owner (co_ledger c') = path_owner (co_ledger c)) \<or>
    (path_owner (co_ledger c'), answer_of r) = lock_call (Acquire_paths ps m l a) (path_owner (co_ledger c))"
proof (cases "validate_paths env ps")
  case (Some why)
  with assms show ?thesis by (auto simp: corridor_acquire_def)
next
  case valid: None
  let ?held = "first_some (\<lambda>p. map_option (Pair p) (dict_get (fold_claims (co_ledger c)) p)) ps"
  show ?thesis
  proof (cases ?held)
    case (Some h)
    obtain p held where h: "h = (p, held)" by fastforce
    with valid Some assms have emit: "emit_locked env io ((corridor_event_of CK_claim_refused_conflict m l a [p] now)
      \<lparr>fv_reason := Some (Already_claimed (fv_lane_id held) (fv_timestamp held))\<rparr>) id
      (\<lambda>e. \<lparr>fr_acquired = False, fr_event = Some e, fr_reason = fv_reason e, fr_conflicting_claim = None\<rparr>) c = (c', r)"
      by (simp add: corridor_acquire_def seen_ledger_def)
    show ?thesis by (rule emit_locked_cases [OF emit assms(2)]) auto
  next
    case free: None
    then have all_free: "\<forall>p \<in> set ps. path_owner (co_ledger c) p = None" by (simp add: first_some_None path_owner_None)
    show ?thesis
    proof (cases "base_hashes env ps []")
      case (Inl x)
      with valid free assms show ?thesis by (auto simp: corridor_acquire_def seen_ledger_def)
    next
      case (Inr d)
      let ?e = "(corridor_event_of CK_claim_acquired m l a ps now)\<lparr>fv_prior_sha256 := (if d = [] then None else Some d)\<rparr>"
      from Inr valid free assms have emit: "emit_locked env io ?e (mirror_claim env (claim_info ?e) ps)
        (\<lambda>e. \<lparr>fr_acquired = True, fr_event = Some e, fr_reason = None, fr_conflicting_claim = None\<rparr>) c = (c', r)"
        by (simp add: corridor_acquire_def seen_ledger_def Let_def)
      have "event_owner ?e = (m, l, a)" by (simp add: event_owner_def)
      then show ?thesis using all_free by - (rule emit_locked_cases [OF emit assms(2)], auto)
    qed
  qed
qed

lemma release_refines:
  assumes "corridor_release env io now ps m l a st c = (c', r)" and "ci_readable io"
  shows "(answer_of r = Declined \<and> path_owner (co_ledger c') = path_owner (co_ledger c)) \<or>
    (path_owner (co_ledger c'), answer_of r) = lock_call (Release_paths ps m l a st) (path_owner (co_ledger c))"
proof (cases "validate_paths env ps")
  case (Some why)
  with assms show ?thesis by (auto simp: corridor_release_def)
next
  case valid: None
  define e where "e = corridor_event_of CK_claim_released m l a ps now"
  have owner: "event_owner e = (m, l, a)" by (simp add: e_def event_owner_def)
  define active where "active = fold_claims (co_ledger c)"
  let ?held = "first_some (foreign_claim active e) ps"
  show ?thesis
  proof (cases ?held)
    case (Some h)
    obtain p x where h: "h = (p, x)" by fastforce
    let ?e = "e\<lparr>fv_event_kind := CK_claim_release_refused,
      fv_reason := Some (Release_refused p (fv_lane_id x) (fv_mission_id x) (fv_agent_id x))\<rparr>"
    from Some h valid assms have emit: "emit_locked env io ?e id
      (\<lambda>e. \<lparr>fr_acquired = False, fr_event = Some e, fr_reason = fv_reason e, fr_conflicting_claim = Some (claim_info x)\<rparr>) c = (c', r)"
      by (simp add: corridor_release_def seen_ledger_def Let_def e_def active_def)
    show ?thesis by (rule emit_locked_cases [OF emit assms(2)]) (auto simp: e_def)
  next
    case None
    then have "\<forall>p \<in> set ps. foreign_claim active e p = None" by (simp add: first_some_None)
    moreover have "foreign_claim active e p = None \<Longrightarrow>
      path_owner (co_ledger c) p = None \<or> path_owner (co_ledger c) p = Some (m, l, a)" for p
      by (cases "dict_get active p")
        (simp_all add: path_owner_def find_active_claim_def active_def foreign_claim_def same_owner_iff owner split: if_splits)
    ultimately have ok: "\<forall>p \<in> set ps. path_owner (co_ledger c) p = None \<or> path_owner (co_ledger c) p = Some (m, l, a)"
      by blast
    let ?e = "e\<lparr>fv_reason := Some (Released_to st (filter (\<lambda>p. dict_get active p = None) ps))\<rparr>"
    from None valid assms have emit: "emit_locked env io ?e (mirror_release env ps)
      (\<lambda>e. \<lparr>fr_acquired = False, fr_event = Some e, fr_reason = fv_reason e, fr_conflicting_claim = None\<rparr>) c = (c', r)"
      by (simp add: corridor_release_def seen_ledger_def Let_def e_def active_def)
    have "event_owner ?e = (m, l, a)" using owner by (simp add: event_owner_def)
    then show ?thesis using ok by - (rule emit_locked_cases [OF emit assms(2)], auto simp: e_def fun_eq_iff)
  qed
qed

lemma exec_refines:
  assumes "corridor_exec env s c = (c', r)" and "ci_readable (cs_io s)"
  shows "(answer_of r = Declined \<and> path_owner (co_ledger c') = path_owner (co_ledger c)) \<or>
    (path_owner (co_ledger c'), answer_of r) = lock_call (cs_call s) (path_owner (co_ledger c))"
proof (cases "cs_call s")
  case (Acquire_paths ps m l a)
  with assms have "corridor_acquire env (cs_io s) (cs_now s) ps m l a c = (c', r)" by (simp add: corridor_exec_def)
  from acquire_refines [OF this assms(2)] show ?thesis by (simp only: Acquire_paths)
next
  case (Release_paths ps m l a st)
  with assms have "corridor_release env (cs_io s) (cs_now s) ps m l a st c = (c', r)" by (simp add: corridor_exec_def)
  from release_refines [OF this assms(2)] show ?thesis by (simp only: Release_paths)
qed

section \<open>Ledgers that only the corridor wrote\<close>

text \<open>Every line is an event with its digest, numbered from one and linked to the event before.\<close>

interpretation cc: hash_chain fv_event_digest fv_prior_event_digest "seal_corridor_event sha n"
  by unfold_locales simp

definition corridor_ledger_sound :: "(corridor_event \<Rightarrow> string) \<Rightarrow> corridor_ledger \<Rightarrow> bool" where
  "corridor_ledger_sound sha ls \<longleftrightarrow>
    ls = map CL_event (corridor_events ls) \<and> cc.linked None (corridor_events ls) \<and>
    (\<forall>e \<in> set (corridor_events ls). fv_event_digest e = corridor_digest sha e) \<and>
    map fv_event_sequence (corridor_events ls) = map (\<lambda>i. int (Suc i)) [0..<length ls]"

lemma corridor_events_snoc [simp]: "corridor_events (ls @ [CL_event e]) = corridor_events ls @ [e]"
  by (simp add: corridor_events_def List.map_filter_def)

lemma corridor_events_map [simp]: "corridor_events (map CL_event es) = es"
  by (induction es) (simp_all add: corridor_events_def map_filter_simps)

lemma max_sequence_events: "max_sequence m (map CL_event es) = Inr (fold (\<lambda>e m. max m (fv_event_sequence e)) es m)"
  by (induction es arbitrary: m) simp_all

lemma max_numbered: "map fv_event_sequence es = map (\<lambda>i. int (Suc i)) [0..<length es] \<Longrightarrow>
    fold (\<lambda>e m. max m (fv_event_sequence e)) es 0 = int (length es)"
proof (induction es rule: rev_induct)
  case (snoc e es)
  then have "fv_event_sequence e = int (Suc (length es))"
    and "map fv_event_sequence es = map (\<lambda>i. int (Suc i)) [0..<length es]" by simp_all
  with snoc.IH show ?case by simp
qed simp

lemma sound_next_sequence:
  assumes "corridor_ledger_sound sha ls"
  shows "corridor_next_sequence ls = Inr (int (length ls) + 1)"
proof -
  define es where "es = corridor_events ls"
  from assms have ls: "ls = map CL_event es" and "map fv_event_sequence es = map (\<lambda>i. int (Suc i)) [0..<length ls]"
    by (auto simp: corridor_ledger_sound_def es_def)
  then have "fold (\<lambda>e m. max m (fv_event_sequence e)) es 0 = int (length es)" by (intro max_numbered) simp
  then show ?thesis by (simp add: corridor_next_sequence_def ls max_sequence_events)
qed

lemma sound_last_digest:
  assumes "corridor_ledger_sound sha ls" and "\<And>e. sha e \<noteq> ''''"
  shows "corridor_last_digest ls = Inr (cc.tip None (corridor_events ls))"
proof -
  define es where "es = corridor_events ls"
  from assms(1) have ls: "ls = map CL_event es" and dg: "\<forall>e \<in> set es. fv_event_digest e \<noteq> ''''"
    using assms(2) by (auto simp: corridor_ledger_sound_def es_def corridor_digest_def)
  have "nonblank ls = ls" by (auto simp: ls nonblank_def)
  then have "corridor_last_digest ls = Inr (cc.tip None es)"
    using dg by (auto simp: corridor_last_digest_def cc.tip_eq ls last_map)
  then show ?thesis by (simp add: es_def)
qed

lemma emit_appends:
  "(\<And>c. co_ledger (mirror c) = co_ledger c) \<Longrightarrow>
    co_ledger (fst (emit_locked env io e mirror answer c)) = fst (append_under_lock (cv_sha env) io e (co_ledger c))"
  by (auto simp: emit_locked_def split: prod.splits sum.splits)

definition one_append :: "corridor_env \<Rightarrow> corridor_io \<Rightarrow> corridor_ledger \<Rightarrow> corridor_ledger \<Rightarrow> bool" where
  "one_append env io ls ls' \<longleftrightarrow> ls' = ls \<or> (\<exists>e. fv_event_sequence e = 0 \<and> ls' = fst (append_under_lock (cv_sha env) io e ls))"

lemma one_appendI:
  "one_append env io ls ls"
  "fv_event_sequence e = 0 \<Longrightarrow> one_append env io ls (fst (append_under_lock (cv_sha env) io e ls))"
  by (auto simp: one_append_def)

lemma exec_appends: "one_append env (cs_io s) (co_ledger c) (co_ledger (fst (corridor_exec env s c)))"
proof (cases "cs_call s")
  case (Acquire_paths ps m l a)
  then show ?thesis
    by (auto simp: corridor_exec_def corridor_acquire_def Let_def emit_appends split: option.splits sum.splits intro!: one_appendI)
next
  case (Release_paths ps m l a st)
  then show ?thesis
    by (auto simp: corridor_exec_def corridor_release_def Let_def emit_appends split: option.splits intro!: one_appendI)
qed

lemma append_keeps_sound:
  assumes "corridor_ledger_sound sha ls" and "\<And>e. sha e \<noteq> ''''" and "ci_readable io" and "fv_event_sequence e = 0"
  shows "corridor_ledger_sound sha (fst (append_under_lock sha io e ls))"
proof -
  obtain ls' r where ap: "append_under_lock sha io e ls = (ls', r)" by fastforce
  show ?thesis
    using ap assms(3,4)
  proof (cases rule: append_under_lock_cases)
    case (2 n d)
    have n: "n = int (length ls) + 1" and d: "d = cc.tip None (corridor_events ls)"
      using 2(3,4) sound_next_sequence [OF assms(1)] sound_last_digest [OF assms(1,2)] by simp_all
    let ?s = "seal_corridor_event sha n d e"
    have len: "length (corridor_events ls) = length ls"
      using assms(1) by (metis corridor_ledger_sound_def length_map)
    have "fv_event_digest ?s = corridor_digest sha ?s"
      by (simp add: seal_corridor_event_def Let_def corridor_digest_def)
    then show ?thesis
      using assms(1,4) 2(2) ap n d len
      by (auto simp: corridor_ledger_sound_def cc.linked_append)
  qed (use ap assms(1) in simp)
qed

section \<open>Calls that work\<close>

text \<open>The ledger can be read and written, every path is inside the repository and every claimed file can be hashed.\<close>

definition call_works :: "corridor_env \<Rightarrow> corridor_step \<Rightarrow> bool" where
  "call_works env s \<longleftrightarrow> ci_readable (cs_io s) \<and> ci_writable (cs_io s) \<and>
    (case cs_call s of
       Acquire_paths ps m l a \<Rightarrow> validate_paths env ps = None \<and> is_ok (base_hashes env ps [])
     | Release_paths ps m l a st \<Rightarrow> validate_paths env ps = None)"

lemma corridor_append_succeeds:
  assumes "corridor_ledger_sound sha ls" and "\<And>e. sha e \<noteq> ''''" and "ci_readable io" and "ci_writable io" and "fv_event_sequence e = 0"
  shows "snd (append_under_lock sha io e ls) = Inr (seal_corridor_event sha (int (length ls) + 1) (cc.tip None (corridor_events ls)) e)"
  using assms(3-5) by (simp add: append_under_lock_def seen_ledger_def sound_next_sequence [OF assms(1)] sound_last_digest [OF assms(1,2)])

lemma emit_answers:
  assumes "corridor_ledger_sound (cv_sha env) (co_ledger c)" and "\<And>e. cv_sha env e \<noteq> ''''" and "ci_readable io" and "ci_writable io"
    and "fv_event_sequence e = 0"
  shows "snd (emit_locked env io e mirror answer c) =
    Inr (answer (seal_corridor_event (cv_sha env) (int (length (co_ledger c)) + 1) (cc.tip None (corridor_events (co_ledger c))) e))"
  using corridor_append_succeeds [where sha = "cv_sha env" and ls = "co_ledger c", OF assms]
  by (cases "append_under_lock (cv_sha env) io e (co_ledger c)") (simp add: emit_locked_def)
lemma lock_answer_acquire:
  assumes "corridor_ledger_sound (cv_sha env) (co_ledger c)" and "\<And>e. cv_sha env e \<noteq> ''''"
    and "ci_readable io" and "ci_writable io" and "validate_paths env ps = None" and "is_ok (base_hashes env ps [])"
    and "\<forall>p \<in> set ps. path_owner (co_ledger c) p = None"
  shows "answer_of (snd (corridor_acquire env io now ps m l a c)) = Granted"
proof -
  have "first_some (\<lambda>p. map_option (Pair p) (dict_get (fold_claims (seen_ledger io (co_ledger c))) p)) ps = None"
    using assms(3,7) by (simp add: first_some_None path_owner_None seen_ledger_def)
  moreover obtain d where "base_hashes env ps [] = Inr d" using assms(6) by (cases "base_hashes env ps []") auto
  ultimately show ?thesis
    using assms(5) by (simp add: corridor_acquire_def Let_def emit_answers [OF assms(1-4)])
qed

lemma lock_answer_release:
  assumes "corridor_ledger_sound (cv_sha env) (co_ledger c)" and "\<And>e. cv_sha env e \<noteq> ''''"
    and "ci_readable io" and "ci_writable io" and "validate_paths env ps = None"
    and "\<forall>p \<in> set ps. path_owner (co_ledger c) p = None \<or> path_owner (co_ledger c) p = Some (m, l, a)"
  shows "answer_of (snd (corridor_release env io now ps m l a st c)) = Freed"
proof -
  define e where "e = corridor_event_of CK_claim_released m l a ps now"
  have "event_owner e = (m, l, a)" by (simp add: e_def event_owner_def)
  then have "foreign_claim (fold_claims (co_ledger c)) e p = None" if "p \<in> set ps" for p
    using assms(6) that by (auto simp: foreign_claim_def path_owner_def find_active_claim_def same_owner_iff split: option.splits)
  then have "first_some (foreign_claim (fold_claims (seen_ledger io (co_ledger c))) e) ps = None"
    using assms(3) by (simp add: first_some_None seen_ledger_def)
  moreover have "fv_event_kind e = CK_claim_released" by (simp add: e_def)
  ultimately show ?thesis
    using assms(5) unfolding e_def by (simp add: corridor_release_def Let_def emit_answers [OF assms(1-4)])
qed

lemma lock_call_declined: "snd (lock_call k t) = Declined \<Longrightarrow> lock_call k t = (t, Declined)"
  by (cases k) (auto split: if_splits)

lemma exec_is_lock_call:
  assumes "corridor_ledger_sound (cv_sha env) (co_ledger c)" and "\<And>e. cv_sha env e \<noteq> ''''" and "call_works env s"
    and "corridor_exec env s c = (c', r)"
  shows "lock_call (cs_call s) (path_owner (co_ledger c)) = (path_owner (co_ledger c'), answer_of r)"
proof -
  have works: "ci_readable (cs_io s)" "ci_writable (cs_io s)" using assms(3) by (simp_all add: call_works_def)
  have "answer_of r \<noteq> Declined" if "snd (lock_call (cs_call s) (path_owner (co_ledger c))) \<noteq> Declined"
  proof (cases "cs_call s")
    case (Acquire_paths ps m l a)
    with that assms(3) have "\<forall>p \<in> set ps. path_owner (co_ledger c) p = None"
      and "validate_paths env ps = None" and "is_ok (base_hashes env ps [])"
      by (simp_all add: call_works_def split: if_splits)
    from lock_answer_acquire [OF assms(1,2) works this(2,3,1)] assms(4) Acquire_paths show ?thesis
      by (metis corridor_call.simps(5) corridor_exec_def lock_answer.distinct(3) snd_conv)
  next
    case (Release_paths ps m l a st)
    with that assms(3) have "\<forall>p \<in> set ps. path_owner (co_ledger c) p = None \<or> path_owner (co_ledger c) p = Some (m, l, a)"
      and "validate_paths env ps = None"
      by (simp_all add: call_works_def split: if_splits)
    from lock_answer_release [OF assms(1,2) works this(2,1)] assms(4) Release_paths show ?thesis
      by (metis corridor_call.simps(6) corridor_exec_def lock_answer.distinct(5) snd_conv)
  qed
  with exec_refines [OF assms(4) works(1)] show ?thesis
    by (metis lock_call_declined snd_conv prod.collapse)
qed

lemma exec_keeps_sound:
  assumes "corridor_ledger_sound (cv_sha env) (co_ledger c)" and "\<And>e. cv_sha env e \<noteq> ''''" and "ci_readable (cs_io s)"
  shows "corridor_ledger_sound (cv_sha env) (co_ledger (fst (corridor_exec env s c)))"
  using exec_appends [of env s c] append_keeps_sound [OF assms] assms(1) by (auto simp: one_append_def)

lemma run_is_lock_run:
  assumes "corridor_ledger_sound (cv_sha env) (co_ledger c)" and "\<And>e. cv_sha env e \<noteq> ''''" and "\<forall>s \<in> set ss. call_works env s"
    and "corridor_run env ss c = (c', rs)"
  shows "lock_run (map cs_call ss) (path_owner (co_ledger c)) = (path_owner (co_ledger c'), map answer_of rs)"
  using assms(1,3,4)
proof (induction ss arbitrary: c c' rs)
  case (Cons s ss)
  obtain c1 r where e: "corridor_exec env s c = (c1, r)" by fastforce
  obtain c2 rs2 where t: "corridor_run env ss c1 = (c2, rs2)" by fastforce
  from Cons.prems(2) have w: "call_works env s" and ws: "\<forall>s \<in> set ss. call_works env s" by simp_all
  from w have "ci_readable (cs_io s)" by (simp add: call_works_def)
  from exec_keeps_sound [OF Cons.prems(1) assms(2) this] e
  have "corridor_ledger_sound (cv_sha env) (co_ledger c1)" by simp
  from Cons.IH [OF this ws t] Cons.prems e t exec_is_lock_call [OF Cons.prems(1) assms(2) w e] show ?case by auto
qed simp

lemma run_keeps_sound:
  assumes "corridor_ledger_sound (cv_sha env) (co_ledger c)" and "\<And>e. cv_sha env e \<noteq> ''''" and "\<forall>s \<in> set ss. ci_readable (cs_io s)"
  shows "corridor_ledger_sound (cv_sha env) (co_ledger (fst (corridor_run env ss c)))"
  using assms(1,3)
proof (induction ss arbitrary: c)
  case (Cons s ss)
  have "ci_readable (cs_io s)" and "\<forall>s \<in> set ss. ci_readable (cs_io s)" using Cons.prems(2) by simp_all
  from Cons.IH [OF exec_keeps_sound [OF Cons.prems(1) assms(2) this(1)] this(2)] show ?case
    by (simp add: Let_def case_prod_beta)
qed simp

lemma empty_ledger_sound [simp]: "corridor_ledger_sound sha []"
  by (simp add: corridor_ledger_sound_def corridor_events_def map_filter_simps)

lemma empty_ledger_free [simp]: "path_owner [] = (\<lambda>p. None)"
  by (simp add: path_owner_def find_active_claim_def fold_claims_def corridor_events_def map_filter_simps fun_eq_iff)

lemma run_keeps_owner:
  assumes "\<forall>s \<in> set ss. ci_readable (cs_io s)" and "path_owner (co_ledger c) p = Some (m, l, a)"
    and "\<forall>s \<in> set ss. \<forall>ps st. cs_call s = Release_paths ps m l a st \<longrightarrow> p \<notin> set ps"
    and "corridor_run env ss c = (c', rs)"
  shows "path_owner (co_ledger c') p = Some (m, l, a) \<and>
    (\<forall>(s, r) \<in> set (zip ss rs). \<forall>ps m' l' a'. cs_call s = Acquire_paths ps m' l' a' \<longrightarrow> p \<in> set ps \<longrightarrow> answer_of r = Declined)"
  using assms
proof (induction ss arbitrary: c c' rs)
  case (Cons s ss)
  obtain c1 r where e: "corridor_exec env s c = (c1, r)" by fastforce
  obtain c2 rs2 where t: "corridor_run env ss c1 = (c2, rs2)" by fastforce
  from Cons.prems e t have cs: "c' = c2" "rs = r # rs2" by auto
  have "ci_readable (cs_io s)" using Cons.prems by simp
  note step = exec_refines [OF e this]
  have own: "path_owner (co_ledger c1) p = Some (m, l, a)"
  proof (cases "cs_call s")
    case (Acquire_paths ps m' l' a')
    with step Cons.prems(2) show ?thesis by (auto split: if_splits)
  next
    case (Release_paths ps m' l' a' st)
    have "(m', l', a') = (m, l, a)" if "path_owner (co_ledger c1) p \<noteq> path_owner (co_ledger c) p" and "p \<in> set ps"
      using step that Cons.prems(2) by (force simp: Release_paths split: if_splits)
    moreover have "p \<in> set ps" if "path_owner (co_ledger c1) p \<noteq> path_owner (co_ledger c) p"
      using step that by (auto simp: Release_paths split: if_splits)
    ultimately show ?thesis using Cons.prems(2,3) Release_paths by fastforce
  qed
  have "answer_of r = Declined" if "cs_call s = Acquire_paths ps m' l' a'" and "p \<in> set ps" for ps m' l' a'
    using step that Cons.prems(2) by (auto split: if_splits)
  moreover have "\<forall>s \<in> set ss. ci_readable (cs_io s)" using Cons.prems(1) by simp
  moreover have "\<forall>s \<in> set ss. \<forall>ps st. cs_call s = Release_paths ps m l a st \<longrightarrow> p \<notin> set ps" using Cons.prems(3) by simp
  ultimately show ?case using Cons.IH [OF _ own _ t] by (auto simp: cs)
qed simp

lemma exec_ignores_mirrors:
  assumes "co_ledger c = co_ledger d"
  shows "snd (corridor_exec env s c) = snd (corridor_exec env s d) \<and> co_ledger (fst (corridor_exec env s c)) = co_ledger (fst (corridor_exec env s d))"
proof -
  have emit: "snd (emit_locked env io e mirror answer c) = snd (emit_locked env io e mirror answer d)" for io e mirror answer
    by (simp add: emit_locked_def assms split: prod.split sum.split)
  show ?thesis
  proof (cases "cs_call s")
    case (Acquire_paths ps m l a)
    then show ?thesis
      using assms emit
      by (simp add: corridor_exec_def corridor_acquire_def Let_def emit_appends split: option.splits sum.splits)
  next
    case (Release_paths ps m l a st)
    then show ?thesis
      using assms emit
      by (simp add: corridor_exec_def corridor_release_def Let_def emit_appends split: option.splits)
  qed
qed

section \<open>Properties\<close>

text \<open>A repository under \<^verbatim>\<open>/r\<close> whose files are not hashed.\<close>

definition plain_env :: corridor_env where
  "plain_env = \<lparr>cv_sha = (\<lambda>e. ''d''), cv_root = ''/r'', cv_resolve = (\<lambda>p. ''/r/'' @ p), cv_file = (\<lambda>p. None), cv_xattr = (\<lambda>p. True)\<rparr>"

definition no_claims :: corridor where
  "no_claims = \<lparr>co_ledger = [], co_claims = [], co_states = [], co_fixes = []\<rparr>"

definition plain_step :: "corridor_call \<Rightarrow> corridor_step" where
  "plain_step k = \<lparr>cs_io = \<lparr>ci_readable = True, ci_writable = True\<rparr>, cs_now = Aware 0, cs_call = k\<rparr>"

lemmas plain_simps = plain_env_def no_claims_def plain_step_def call_works_def validate_paths_def corridor_resolve_def
  next_or_none_def startswith_def

text \<open>
  C9: while its calls work, the ledger of the corridor refines a lock table from paths to owners: any sequence of
  acquisitions and releases gives the answers of the table and leaves its owners.
\<close>

theorem corridor_refines_lock_table:
  assumes "corridor_ledger_sound (cv_sha env) (co_ledger c)" and "\<And>e. cv_sha env e \<noteq> ''''" and "\<forall>s \<in> set ss. call_works env s"
  shows "lock_run (map cs_call ss) (path_owner (co_ledger c)) =
    (path_owner (co_ledger (fst (corridor_run env ss c))), map answer_of (snd (corridor_run env ss c)))"
  by (rule run_is_lock_run [OF assms]) simp

definition demo_steps :: "corridor_step list" where
  "demo_steps = map plain_step
    [Acquire_paths [''a'', ''b''] ''m'' ''l'' ''x'', Acquire_paths [''b''] ''m'' ''l'' ''y'', Release_paths [''b''] ''m'' ''l'' ''x'' CS_released,
     Acquire_paths [''b''] ''m'' ''l'' ''y'']"

lemma corridor_refines_lock_table_witness:
  "map answer_of (snd (corridor_run plain_env demo_steps no_claims)) = [Granted, Declined, Freed, Granted]"
proof -
  have "lock_run (map cs_call demo_steps) (path_owner (co_ledger no_claims)) =
    (path_owner (co_ledger (fst (corridor_run plain_env demo_steps no_claims))), map answer_of (snd (corridor_run plain_env demo_steps no_claims)))"
    by (rule corridor_refines_lock_table) (simp_all add: demo_steps_def plain_simps)
  moreover have "snd (lock_run (map cs_call demo_steps) (path_owner (co_ledger no_claims))) = [Granted, Declined, Freed, Granted]"
    by (simp add: demo_steps_def plain_simps)
  ultimately show ?thesis by simp
qed

text \<open>
  C20: an owned path stays with its owner through any calls on a readable ledger, whatever writes fail, unless that owner
  releases it; meanwhile every acquisition that names it is declined, the owner's own ones too.
\<close>

theorem owned_path_kept:
  assumes "\<forall>s \<in> set ss. ci_readable (cs_io s)" and "path_owner (co_ledger c) p = Some (m, l, a)"
    and "\<forall>s \<in> set ss. \<forall>ps st. cs_call s = Release_paths ps m l a st \<longrightarrow> p \<notin> set ps"
  shows "path_owner (co_ledger (fst (corridor_run env ss c))) p = Some (m, l, a) \<and>
    (\<forall>(s, r) \<in> set (zip ss (snd (corridor_run env ss c))).
      \<forall>ps m' l' a'. cs_call s = Acquire_paths ps m' l' a' \<longrightarrow> p \<in> set ps \<longrightarrow> answer_of r = Declined)"
  by (rule run_keeps_owner [OF assms]) simp

definition owned_a :: corridor where
  "owned_a = no_claims\<lparr>co_ledger := [CL_not_json, CL_event ((corridor_event_of CK_claim_acquired ''m'' ''l'' ''x'' [''a''] (Aware 0))\<lparr>fv_event_sequence := 1\<rparr>)]\<rparr>"

lemma owned_path_kept_witness:
  "path_owner (co_ledger (fst (corridor_run plain_env [plain_step (Release_paths [''a''] ''m'' ''l'' ''y'' CS_released)] owned_a))) ''a'' = Some (''m'', ''l'', ''x'')"
proof (rule owned_path_kept [THEN conjunct1])
  show "path_owner (co_ledger owned_a) ''a'' = Some (''m'', ''l'', ''x'')"
    by (simp add: owned_a_def no_claims_def path_owner_def find_active_claim_def fold_claims_def corridor_events_def map_filter_simps
        fold_event_def fold_path_def OWNERSHIP_CHANGING_KINDS_def dict_simps event_owner_def)
qed (simp_all add: plain_step_def)

text \<open>
  A ledger that only the corridor wrote is sound: its events are numbered from one without a gap, each carries its
  digest and the digest of the event before, whatever calls were refused or failed.
\<close>

theorem corridor_ledger_chained:
  assumes "\<And>e. cv_sha env e \<noteq> ''''" and "\<forall>s \<in> set ss. ci_readable (cs_io s)" and "co_ledger c = []"
  shows "corridor_ledger_sound (cv_sha env) (co_ledger (fst (corridor_run env ss c)))"
  by (rule run_keeps_sound [OF _ assms(1,2)]) (simp add: assms(3))

lemma corridor_ledger_chained_witness:
  "corridor_ledger_sound (cv_sha plain_env) (co_ledger (fst (corridor_run plain_env demo_steps no_claims)))"
  by (rule corridor_ledger_chained) (simp_all add: demo_steps_def plain_simps)

text \<open>A ledger that cannot be read counts as empty, so an acquisition is granted whatever claims it holds.\<close>

theorem unreadable_ledger_grants:
  assumes "\<not> ci_readable io" and "ci_writable io" and "validate_paths env ps = None" and "is_ok (base_hashes env ps [])"
  shows "answer_of (snd (corridor_acquire env io now ps m l a c)) = Granted"
proof -
  obtain d where "base_hashes env ps [] = Inr d" using assms(4) by (cases "base_hashes env ps []") auto
  moreover have "first_some (\<lambda>p. map_option (Pair p) (dict_get (fold_claims (seen_ledger io (co_ledger c))) p)) ps = None"
    using assms(1) by (simp add: first_some_None seen_ledger_def fold_claims_def corridor_events_def map_filter_simps)
  ultimately show ?thesis
    using assms by (simp add: corridor_acquire_def Let_def emit_locked_def append_under_lock_def seen_ledger_def
        corridor_next_sequence_def corridor_last_digest_def nonblank_def)
qed

lemma unreadable_ledger_grants_witness:
  "answer_of (snd (corridor_acquire plain_env \<lparr>ci_readable = False, ci_writable = True\<rparr> (Aware 0) [''a''] ''m'' ''l'' ''y'' owned_a)) = Granted"
  by (rule unreadable_ledger_grants) (simp_all add: plain_simps)

text \<open>Two names of one file are two paths of the ledger: both are granted, to different owners.\<close>

theorem aliased_paths_both_granted:
  assumes "corridor_ledger_sound (cv_sha env) (co_ledger c)" and "\<And>e. cv_sha env e \<noteq> ''''"
    and "cv_resolve env p = cv_resolve env q" and "p \<noteq> q" and "path_owner (co_ledger c) p = None" and "path_owner (co_ledger c) q = None"
    and "call_works env s1" and "cs_call s1 = Acquire_paths [p] m l a" and "call_works env s2" and "cs_call s2 = Acquire_paths [q] m' l' a'"
  shows "map answer_of (snd (corridor_run env [s1, s2] c)) = [Granted, Granted]"
  using run_is_lock_run [OF assms(1,2), of "[s1, s2]"] assms(4-)
  by (cases "corridor_run env [s1, s2] c") (simp split: prod.splits)

definition alias_env :: corridor_env where
  "alias_env = plain_env\<lparr>cv_resolve := (\<lambda>p. ''/r/'' @ (if take 2 p = ''./'' then drop 2 p else p))\<rparr>"

lemma aliased_paths_both_granted_witness:
  "map answer_of (snd (corridor_run alias_env
    [plain_step (Acquire_paths [''a''] ''m'' ''l'' ''x''), plain_step (Acquire_paths [''./a''] ''m'' ''l'' ''y'')] no_claims)) = [Granted, Granted]"
  by (rule aliased_paths_both_granted [where p = "''a''" and q = "''./a''"]) (simp_all add: plain_simps alias_env_def)

text \<open>The attributes of files decide nothing: with other mirrors the answers and the ledger are the same.\<close>

theorem mirrors_decide_nothing:
  assumes "co_ledger c = co_ledger d"
  shows "snd (corridor_run env ss c) = snd (corridor_run env ss d) \<and>
    co_ledger (fst (corridor_run env ss c)) = co_ledger (fst (corridor_run env ss d))"
  using assms
proof (induction ss arbitrary: c d)
  case (Cons s ss)
  from exec_ignores_mirrors [OF Cons.prems, of env s] Cons.IH [of "fst (corridor_exec env s c)" "fst (corridor_exec env s d)"] show ?case
    by (simp add: Let_def case_prod_beta)
qed simp

lemma mirrors_decide_nothing_witness:
  "snd (corridor_run plain_env demo_steps no_claims) =
    snd (corridor_run plain_env demo_steps (no_claims\<lparr>co_states := [(''/r/a'', CS_editing)]\<rparr>))"
  by (rule mirrors_decide_nothing [THEN conjunct1]) (simp add: no_claims_def)

end
