(* ===== verification/Inference_Scheduler.thy ===== *)
theory Inference_Scheduler
  imports Relay_Interfaces
begin

text \<open>
  The schedulers of local inference, \<^verbatim>\<open>rig_relay/local_inference/runtime/_scheduler.py\<close>: the serial one, whose methods
  each hold its lock, and the batching one with its loop.  A request is one object that is moved between the queue, the
  running requests and the completed ones.  Fresh identifiers and the clock are arguments.  The evidence of a transition
  is kept as it is handed to the ledger; a failure of the ledger is only logged.
\<close>

section \<open>Requests\<close>

datatype request_state =
    RQ_queued | RQ_prefilling | RQ_generating | RQ_running | RQ_completed | RQ_refused | RQ_cancelled | RQ_failed

record scheduled_request =
  sr_operation_id :: string
  sr_task_kind :: string
  sr_messages :: "string list"
  sr_model_id_hash :: string
  sr_max_tokens :: int
  sr_tokenized_prompt :: "int list list"
  sr_cache :: "string list option"
  sr_state :: request_state
  sr_response :: "string option"
  sr_error :: string
  sr_queued_at :: "timestamp option"
  sr_started_at :: "timestamp option"
  sr_completed_at :: "timestamp option"

record scheduler_event =
  sv_operation_id :: string
  sv_transition :: string
  sv_from_state :: request_state
  sv_to_state :: request_state

definition scheduled_request_of ::
  "string \<Rightarrow> timestamp \<Rightarrow> string \<Rightarrow> string list \<Rightarrow> string \<Rightarrow> int \<Rightarrow> scheduled_request" where
  "scheduled_request_of op now kind messages model max_tokens =
    \<lparr>sr_operation_id = op, sr_task_kind = kind, sr_messages = messages, sr_model_id_hash = model, sr_max_tokens = max_tokens,
     sr_tokenized_prompt = [], sr_cache = None, sr_state = RQ_queued, sr_response = None, sr_error = '''',
     sr_queued_at = Some now, sr_started_at = None, sr_completed_at = None\<rparr>"

section \<open>The serial scheduler\<close>

record fcfs_scheduler =
  fs_queue :: "scheduled_request list"
  fs_running :: "(string, scheduled_request) dict"
  fs_completed :: "scheduled_request list"
  fs_max_concurrent :: int
  fs_total_processed :: int
  fs_total_refused :: int
  fs_events :: "scheduler_event list"

definition fcfs_init :: "int \<Rightarrow> fcfs_scheduler" where
  "fcfs_init max_concurrent =
    \<lparr>fs_queue = [], fs_running = [], fs_completed = [], fs_max_concurrent = max_concurrent, fs_total_processed = 0,
     fs_total_refused = 0, fs_events = []\<rparr>"

definition emit_transition :: "scheduled_request \<Rightarrow> string \<Rightarrow> request_state \<Rightarrow> request_state \<Rightarrow> fcfs_scheduler \<Rightarrow> fcfs_scheduler" where
  "emit_transition r what a b s =
    s\<lparr>fs_events := fs_events s @ [\<lparr>sv_operation_id = sr_operation_id r, sv_transition = what, sv_from_state = a, sv_to_state = b\<rparr>]\<rparr>"

definition fcfs_enqueue :: "scheduled_request \<Rightarrow> fcfs_scheduler \<Rightarrow> fcfs_scheduler" where
  "fcfs_enqueue r s = s\<lparr>fs_queue := fs_queue s @ [r]\<rparr>"

definition fcfs_admit_next :: "timestamp \<Rightarrow> fcfs_scheduler \<Rightarrow> fcfs_scheduler \<times> scheduled_request option" where
  "fcfs_admit_next now s =
    (case fs_queue s of
       [] \<Rightarrow> (s, None)
     | r # rest \<Rightarrow>
         if int (length (fs_running s)) \<ge> fs_max_concurrent s then (s, None)
         else let r' = r\<lparr>sr_state := RQ_running, sr_started_at := Some now\<rparr>
              in (emit_transition r' ''admitted'' (sr_state r) RQ_running
                    (s\<lparr>fs_queue := rest, fs_running := dict_set (sr_operation_id r) r' (fs_running s)\<rparr>), Some r'))"

text \<open>The end of a request that runs: it leaves \<^verbatim>\<open>_running\<close> for \<^verbatim>\<open>_completed\<close>; one that does not run is ignored.\<close>

definition end_running ::
  "string \<Rightarrow> string \<Rightarrow> request_state \<Rightarrow> timestamp \<Rightarrow> (scheduled_request \<Rightarrow> scheduled_request) \<Rightarrow> int \<Rightarrow> fcfs_scheduler \<Rightarrow> fcfs_scheduler" where
  "end_running op what st now f counted s =
    (case dict_get (fs_running s) op of
       None \<Rightarrow> s
     | Some r \<Rightarrow>
         let r' = (f r)\<lparr>sr_state := st, sr_completed_at := Some now\<rparr>
         in emit_transition r' what (sr_state r) st
              (s\<lparr>fs_running := dict_pop op (fs_running s), fs_completed := fs_completed s @ [r'],
                 fs_total_processed := fs_total_processed s + counted\<rparr>))"

definition fcfs_complete :: "string \<Rightarrow> string \<Rightarrow> timestamp \<Rightarrow> fcfs_scheduler \<Rightarrow> fcfs_scheduler" where
  "fcfs_complete op response now s = end_running op ''completed'' RQ_completed now (\<lambda>r. r\<lparr>sr_response := Some response\<rparr>) 1 s"

definition fcfs_fail :: "string \<Rightarrow> string \<Rightarrow> timestamp \<Rightarrow> fcfs_scheduler \<Rightarrow> fcfs_scheduler" where
  "fcfs_fail op err now s = end_running op ''failed'' RQ_failed now (\<lambda>r. r\<lparr>sr_error := err\<rparr>) 0 s"

text \<open>The first request of the queue with the identifier, and the queue without it.\<close>

fun take_out :: "string \<Rightarrow> scheduled_request list \<Rightarrow> (scheduled_request \<times> scheduled_request list) option" where
  "take_out op [] = None"
| "take_out op (r # rs) =
    (if sr_operation_id r = op then Some (r, rs) else map_option (\<lambda>(x, ys). (x, r # ys)) (take_out op rs))"

definition end_queued ::
  "string \<Rightarrow> string \<Rightarrow> request_state \<Rightarrow> timestamp \<Rightarrow> (scheduled_request \<Rightarrow> scheduled_request) \<Rightarrow> int \<Rightarrow> fcfs_scheduler \<Rightarrow> fcfs_scheduler" where
  "end_queued op what st now f refused s =
    (case take_out op (fs_queue s) of
       None \<Rightarrow> s
     | Some (r, rest) \<Rightarrow>
         let r' = (f r)\<lparr>sr_state := st, sr_completed_at := Some now\<rparr>
         in emit_transition r' what (sr_state r) st
              (s\<lparr>fs_queue := rest, fs_completed := fs_completed s @ [r'], fs_total_refused := fs_total_refused s + refused\<rparr>))"

definition fcfs_cancel :: "string \<Rightarrow> timestamp \<Rightarrow> fcfs_scheduler \<Rightarrow> fcfs_scheduler \<times> bool" where
  "fcfs_cancel op now s =
    (if dict_get (fs_running s) op \<noteq> None then (end_running op ''cancelled'' RQ_cancelled now id 1 s, True)
     else (end_queued op ''cancelled'' RQ_cancelled now id 0 s, take_out op (fs_queue s) \<noteq> None))"

definition fcfs_refuse :: "string \<Rightarrow> string \<Rightarrow> timestamp \<Rightarrow> fcfs_scheduler \<Rightarrow> fcfs_scheduler" where
  "fcfs_refuse op why now s = end_queued op ''refused'' RQ_refused now (\<lambda>r. r\<lparr>sr_error := why\<rparr>) 1 s"

text \<open>How the runtime submits a request (\<^verbatim>\<open>_service.py\<close>): it is queued, the next one is admitted, and when none is, it is refused.\<close>

definition fcfs_submit :: "scheduled_request \<Rightarrow> timestamp \<Rightarrow> fcfs_scheduler \<Rightarrow> fcfs_scheduler \<times> bool" where
  "fcfs_submit r now s =
    (case fcfs_admit_next now (fcfs_enqueue r s) of
       (s1, None) \<Rightarrow> (fcfs_refuse (sr_operation_id r) ''max_concurrent_limit'' now s1, False)
     | (s1, Some r') \<Rightarrow> (s1, True))"

section \<open>The batching scheduler\<close>

datatype batching_status = BS_active | BS_fallback_serialized | BS_unavailable

datatype consumer_message = CM_token string | CM_done string string int | CM_error string | CM_cancelled

text \<open>
  The queue of a consumer is known by the identifier of its request: \<open>bs_queues\<close> are the queues the scheduler still
  holds, \<open>bs_delivered\<close> what was put into queues, in order.  \<open>bs_inserting\<close> are the requests that
  \<^verbatim>\<open>_insert_pending_requests\<close> has taken and not yet handed over; other calls may come between them.
\<close>

record batch_scheduler =
  bs_fallback :: fcfs_scheduler
  bs_generator :: bool
  bs_model :: bool
  bs_tokenizer :: bool
  bs_max_batch_size :: int
  bs_uid_to_op :: "(string, string) dict"
  bs_op_to_uid :: "(string, string) dict"
  bs_queues :: "string list"
  bs_delivered :: "(string \<times> consumer_message) list"
  bs_accumulated :: "(string, string list) dict"
  bs_pending :: "scheduled_request list"
  bs_inserting :: "scheduled_request list"
  bs_loop_running :: bool
  bs_total_processed :: int
  bs_total_refused :: int
  bs_completed_sequences :: int
  bs_status :: batching_status
  bs_tokens_generated :: int
  bs_events :: "scheduler_event list"

definition batch_init :: "bool \<Rightarrow> bool \<Rightarrow> bool \<Rightarrow> int \<Rightarrow> batch_scheduler" where
  "batch_init available model tokenizer max_concurrent =
    \<lparr>bs_fallback = fcfs_init 1, bs_generator = False, bs_model = model, bs_tokenizer = tokenizer, bs_max_batch_size = max_concurrent,
     bs_uid_to_op = [], bs_op_to_uid = [], bs_queues = [], bs_delivered = [], bs_accumulated = [], bs_pending = [], bs_inserting = [],
     bs_loop_running = False, bs_total_processed = 0, bs_total_refused = 0, bs_completed_sequences = 0,
     bs_status = (if available \<and> model then BS_active else BS_fallback_serialized), bs_tokens_generated = 0, bs_events = []\<rparr>"

text \<open>\<^verbatim>\<open>set_model\<close>; \<open>built\<close> says whether the generator can be built.\<close>

definition set_model :: "bool \<Rightarrow> bool \<Rightarrow> bool \<Rightarrow> bool \<Rightarrow> batch_scheduler \<Rightarrow> batch_scheduler" where
  "set_model available built model tokenizer s0 =
    (let s = s0\<lparr>bs_model := model, bs_tokenizer := tokenizer\<rparr>
     in if \<not> (available \<and> model) then s\<lparr>bs_status := BS_fallback_serialized\<rparr>
        else if \<not> tokenizer then s\<lparr>bs_status := BS_active\<rparr>
        else if built then s\<lparr>bs_status := BS_active, bs_generator := True\<rparr>
        else s\<lparr>bs_status := BS_fallback_serialized\<rparr>)"

abbreviation batching :: "batch_scheduler \<Rightarrow> bool" where
  "batching s \<equiv> bs_status s = BS_active"

definition batch_enqueue :: "scheduled_request \<Rightarrow> int list list \<Rightarrow> string list option \<Rightarrow> batch_scheduler \<Rightarrow> batch_scheduler" where
  "batch_enqueue r prompt cache s =
    (if \<not> batching s then s\<lparr>bs_fallback := fcfs_enqueue r (bs_fallback s)\<rparr>
     else s\<lparr>bs_pending := bs_pending s @ [r\<lparr>sr_tokenized_prompt := prompt, sr_cache := cache\<rparr>],
            bs_queues := List.insert (sr_operation_id r) (bs_queues s),
            bs_accumulated := dict_set (sr_operation_id r) [] (bs_accumulated s)\<rparr>)"

text \<open>The first pending request is returned and stays pending.\<close>

definition batch_admit_next :: "timestamp \<Rightarrow> batch_scheduler \<Rightarrow> batch_scheduler \<times> scheduled_request option" where
  "batch_admit_next now s =
    (if \<not> batching s then
       (case fcfs_admit_next now (bs_fallback s) of (f, r) \<Rightarrow> (s\<lparr>bs_fallback := f\<rparr>, r))
     else case bs_pending s of
       [] \<Rightarrow> (s, None)
     | r # rest \<Rightarrow> (s\<lparr>bs_pending := r\<lparr>sr_state := RQ_generating\<rparr> # rest\<rparr>, Some (r\<lparr>sr_state := RQ_generating\<rparr>)))"

text \<open>The maps from the generator's identifiers are popped with the identifier of the request.\<close>

definition forget_operation :: "string \<Rightarrow> batch_scheduler \<Rightarrow> batch_scheduler" where
  "forget_operation op s =
    s\<lparr>bs_uid_to_op := dict_pop op (bs_uid_to_op s), bs_op_to_uid := dict_pop op (bs_op_to_uid s),
      bs_queues := removeAll op (bs_queues s), bs_accumulated := dict_pop op (bs_accumulated s)\<rparr>"

definition batch_event :: "string \<Rightarrow> string \<Rightarrow> request_state \<Rightarrow> request_state \<Rightarrow> batch_scheduler \<Rightarrow> batch_scheduler" where
  "batch_event op what a b s =
    s\<lparr>bs_events := bs_events s @ [\<lparr>sv_operation_id = op, sv_transition = what, sv_from_state = a, sv_to_state = b\<rparr>]\<rparr>"

definition batch_complete :: "string \<Rightarrow> string \<Rightarrow> timestamp \<Rightarrow> batch_scheduler \<Rightarrow> batch_scheduler" where
  "batch_complete op response now s =
    (if \<not> batching s then s\<lparr>bs_fallback := fcfs_complete op response now (bs_fallback s)\<rparr>
     else batch_event op ''completed'' RQ_generating RQ_completed
       (let s1 = forget_operation op s
        in s1\<lparr>bs_total_processed := bs_total_processed s1 + 1, bs_completed_sequences := bs_completed_sequences s1 + 1\<rparr>))"

definition batch_fail :: "string \<Rightarrow> string \<Rightarrow> timestamp \<Rightarrow> batch_scheduler \<Rightarrow> batch_scheduler" where
  "batch_fail op err now s =
    (if \<not> batching s then s\<lparr>bs_fallback := fcfs_fail op err now (bs_fallback s)\<rparr>
     else batch_event op ''failed'' RQ_failed RQ_failed (forget_operation op s))"

definition batch_cancel :: "string \<Rightarrow> timestamp \<Rightarrow> batch_scheduler \<Rightarrow> batch_scheduler \<times> bool" where
  "batch_cancel op now s =
    (if \<not> batching s then
       (case fcfs_cancel op now (bs_fallback s) of (f, b) \<Rightarrow> (s\<lparr>bs_fallback := f\<rparr>, b))
     else
       let s1 = (forget_operation op s)\<lparr>bs_pending := filter (\<lambda>r. sr_operation_id r \<noteq> op) (bs_pending s)\<rparr>;
           s2 = (if op \<in> set (bs_queues s) then s1\<lparr>bs_delivered := bs_delivered s1 @ [(op, CM_cancelled)]\<rparr> else s1)
       in (batch_event op ''cancelled'' RQ_cancelled RQ_cancelled s2, op \<in> set (bs_queues s)))"

definition batch_refuse :: "string \<Rightarrow> string \<Rightarrow> timestamp \<Rightarrow> batch_scheduler \<Rightarrow> batch_scheduler" where
  "batch_refuse op why now s =
    (if \<not> batching s then s\<lparr>bs_fallback := fcfs_refuse op why now (bs_fallback s)\<rparr>
     else batch_event op ''refused'' RQ_refused RQ_refused
       (s\<lparr>bs_pending := filter (\<lambda>r. sr_operation_id r \<noteq> op) (bs_pending s), bs_total_refused := bs_total_refused s + 1\<rparr>))"

definition get_consumer_queue :: "string \<Rightarrow> batch_scheduler \<Rightarrow> consumer_message list option" where
  "get_consumer_queue op s =
    (if op \<in> set (bs_queues s) then Some (map snd (filter (\<lambda>(x, msg). x = op) (bs_delivered s))) else None)"

section \<open>The loop of the batching scheduler\<close>

text \<open>
  The generator and the encoding of a prompt are parameters; a text instead of a result is an exception.  Taking the
  pending requests holds the lock; each request is then handed to the generator without it.
\<close>

record batch_generator =
  bg_encode :: "string list \<Rightarrow> string + int list"
  bg_insert :: "int list list \<Rightarrow> int \<Rightarrow> string list option \<Rightarrow> string + string list"

definition take_pending :: "batch_scheduler \<Rightarrow> batch_scheduler" where
  "take_pending s =
    (let slots = bs_max_batch_size s - int (length (bs_uid_to_op s))
     in if slots \<le> 0 \<or> bs_pending s = [] then s
        else s\<lparr>bs_inserting := bs_inserting s @ take (nat slots) (bs_pending s), bs_pending := drop (nat slots) (bs_pending s)\<rparr>)"

definition prompt_tokens :: "batch_generator \<Rightarrow> bool \<Rightarrow> scheduled_request \<Rightarrow> string + int list list" where
  "prompt_tokens g tokenizer r =
    (let or_zero = (\<lambda>ts. if ts = [] then (if sr_messages r \<noteq> [] then [[0]] else [[]]) else ts)
     in if sr_tokenized_prompt r = [] \<and> sr_messages r \<noteq> [] \<and> tokenizer
        then (case bg_encode g (sr_messages r) of Inl x \<Rightarrow> Inl x | Inr ts \<Rightarrow> Inr (or_zero [ts]))
        else Inr (or_zero (sr_tokenized_prompt r)))"

definition generator_insert :: "batch_generator \<Rightarrow> scheduled_request \<Rightarrow> batch_scheduler \<Rightarrow> string + string list" where
  "generator_insert g r s =
    (case prompt_tokens g (bs_tokenizer s) r of
       Inl x \<Rightarrow> Inl x
     | Inr ts \<Rightarrow>
         if bs_generator s then bg_insert g ts (sr_max_tokens r) (if sr_cache r = Some [] then None else sr_cache r)
         else Inl ''NoneType'')"

definition batch_insert_one :: "batch_generator \<Rightarrow> batch_scheduler \<Rightarrow> batch_scheduler" where
  "batch_insert_one g s =
    (case bs_inserting s of
       [] \<Rightarrow> s
     | r # rest \<Rightarrow>
         let op = sr_operation_id r; s1 = s\<lparr>bs_inserting := rest\<rparr>
         in (case generator_insert g r s of
               Inl x \<Rightarrow> if op \<in> set (bs_queues s) then s1\<lparr>bs_delivered := bs_delivered s @ [(op, CM_error x)]\<rparr> else s1
             | Inr uids \<Rightarrow>
                 let to_op = fold (\<lambda>u. dict_set u op) uids (bs_uid_to_op s);
                     to_uid = fold (\<lambda>u. dict_set op u) uids (bs_op_to_uid s)
                 in if op \<in> set (bs_queues s) then s1\<lparr>bs_uid_to_op := to_op, bs_op_to_uid := to_uid\<rparr>
                    else s1\<lparr>bs_uid_to_op := fold dict_pop uids to_op, bs_op_to_uid := dict_pop op to_uid\<rparr>))"

record generated_token =
  gt_uid :: string
  gt_text :: string
  gt_finish_reason :: "string option"
  gt_count :: int

definition process_token :: "generated_token \<Rightarrow> batch_scheduler \<Rightarrow> batch_scheduler" where
  "process_token t s =
    (case dict_get (bs_uid_to_op s) (gt_uid t) of
       None \<Rightarrow> s
     | Some op \<Rightarrow>
         if op \<notin> set (bs_queues s) then s
         else
           let texts = (case dict_get (bs_accumulated s) op of None \<Rightarrow> [] | Some xs \<Rightarrow> xs) @ [gt_text t];
               s1 = s\<lparr>bs_tokens_generated := bs_tokens_generated s + 1\<rparr>
           in (case gt_finish_reason t of
                 None \<Rightarrow> s1\<lparr>bs_accumulated := dict_set op texts (bs_accumulated s),
                   bs_delivered := bs_delivered s @ [(op, CM_token (gt_text t))]\<rparr>
               | Some why \<Rightarrow> s1\<lparr>bs_accumulated := dict_pop op (bs_accumulated s),
                   bs_delivered := bs_delivered s @ [(op, CM_done (concat texts) why (gt_count t))]\<rparr>))"

text \<open>The tokens that \<^verbatim>\<open>next_generated\<close> yields; an exception of it ends the list.\<close>

definition process_generated_tokens :: "generated_token list \<Rightarrow> batch_scheduler \<Rightarrow> batch_scheduler" where
  "process_generated_tokens ts s = fold process_token ts s"

definition batch_loop_continues :: "batch_scheduler \<Rightarrow> bool" where
  "batch_loop_continues s \<longleftrightarrow> bs_loop_running s \<or> bs_pending s \<noteq> [] \<or> bs_uid_to_op s \<noteq> []"

definition start_batch_loop :: "batch_scheduler \<Rightarrow> batch_scheduler" where
  "start_batch_loop s = (if bs_generator s then s\<lparr>bs_loop_running := True\<rparr> else s)"

definition stop_batch_loop :: "batch_scheduler \<Rightarrow> batch_scheduler" where
  "stop_batch_loop s = s\<lparr>bs_loop_running := False, bs_generator := False\<rparr>"

record scheduler_projection =
  sp_max_concurrent :: int
  sp_queue_depth :: nat
  sp_running_count :: nat
  sp_total_processed :: int
  sp_total_refused :: int

definition fcfs_projection :: "fcfs_scheduler \<Rightarrow> scheduler_projection" where
  "fcfs_projection s =
    \<lparr>sp_max_concurrent = fs_max_concurrent s, sp_queue_depth = length (fs_queue s), sp_running_count = length (fs_running s),
     sp_total_processed = fs_total_processed s, sp_total_refused = fs_total_refused s\<rparr>"

definition batch_projection :: "batch_scheduler \<Rightarrow> scheduler_projection" where
  "batch_projection s =
    \<lparr>sp_max_concurrent = bs_max_batch_size s, sp_queue_depth = length (bs_pending s), sp_running_count = length (bs_uid_to_op s),
     sp_total_processed = bs_total_processed s, sp_total_refused = bs_total_refused s\<rparr>"

end
