(* ===== verification/Scheduler_Properties.thy ===== *)
theory Scheduler_Properties
  imports Inference_Scheduler "HOL-Library.Multiset"
begin

text \<open>
  What the schedulers of local inference promise: the serial one loses and repeats no request, keeps its bound, records
  every transition, admits in the order of arrival and can always be drained; the batching one without a generator is
  the serial one, and with a generator it never frees a slot.
\<close>

section \<open>The serial scheduler under any calls\<close>

datatype serial_call =
    SC_enqueue scheduled_request | SC_admit timestamp | SC_complete string string timestamp | SC_fail string string timestamp
  | SC_cancel string timestamp | SC_refuse string string timestamp

datatype serial_answer = SA_done | SA_request "scheduled_request option" | SA_flag bool

fun serial_exec :: "serial_call \<Rightarrow> fcfs_scheduler \<Rightarrow> fcfs_scheduler \<times> serial_answer" where
  "serial_exec (SC_enqueue r) s = (fcfs_enqueue r s, SA_done)"
| "serial_exec (SC_admit now) s = (case fcfs_admit_next now s of (s', r) \<Rightarrow> (s', SA_request r))"
| "serial_exec (SC_complete op response now) s = (fcfs_complete op response now s, SA_done)"
| "serial_exec (SC_fail op err now) s = (fcfs_fail op err now s, SA_done)"
| "serial_exec (SC_cancel op now) s = (case fcfs_cancel op now s of (s', b) \<Rightarrow> (s', SA_flag b))"
| "serial_exec (SC_refuse op why now) s = (fcfs_refuse op why now s, SA_done)"

fun serial_run :: "serial_call list \<Rightarrow> fcfs_scheduler \<Rightarrow> fcfs_scheduler \<times> serial_answer list" where
  "serial_run [] s = (s, [])"
| "serial_run (k # ks) s = (let (s1, a) = serial_exec k s; (s2, as) = serial_run ks s1 in (s2, a # as))"

fun enqueued :: "serial_call \<Rightarrow> scheduled_request list" where
  "enqueued (SC_enqueue r) = [r]"
| "enqueued k = []"

fun admitted_of :: "serial_answer \<Rightarrow> string list" where
  "admitted_of (SA_request (Some r)) = [sr_operation_id r]"
| "admitted_of a = []"

section \<open>The invariant\<close>

definition RQ_ended :: "request_state set" where
  "RQ_ended = {RQ_completed, RQ_refused, RQ_cancelled, RQ_failed}"

definition waiting :: "scheduled_request \<Rightarrow> bool" where
  "waiting r \<longleftrightarrow> sr_state r = RQ_queued \<and> sr_started_at r = None"

definition runs :: "scheduled_request \<Rightarrow> bool" where
  "runs r \<longleftrightarrow> sr_state r = RQ_running \<and> sr_started_at r \<noteq> None"

text \<open>A request that has ended: only one that ran can be completed or failed, only one that waited refused.\<close>

definition has_ended :: "scheduled_request \<Rightarrow> bool" where
  "has_ended r \<longleftrightarrow>
    (case sr_state r of
       RQ_completed \<Rightarrow> sr_started_at r \<noteq> None \<and> sr_response r \<noteq> None
     | RQ_failed \<Rightarrow> sr_started_at r \<noteq> None
     | RQ_refused \<Rightarrow> sr_started_at r = None
     | RQ_cancelled \<Rightarrow> True
     | _ \<Rightarrow> False)"

definition counts_as_processed :: "scheduled_request \<Rightarrow> bool" where
  "counts_as_processed r \<longleftrightarrow> sr_state r = RQ_completed \<or> sr_state r = RQ_cancelled \<and> sr_started_at r \<noteq> None"

definition end_name :: "request_state \<Rightarrow> string" where
  "end_name st =
    (case st of RQ_completed \<Rightarrow> ''completed'' | RQ_failed \<Rightarrow> ''failed'' | RQ_refused \<Rightarrow> ''refused'' | _ \<Rightarrow> ''cancelled'')"

text \<open>The evidence a request must have left.\<close>

definition evidence_of :: "scheduled_request \<Rightarrow> scheduler_event list" where
  "evidence_of r =
    (if sr_started_at r = None then [] else
       [\<lparr>sv_operation_id = sr_operation_id r, sv_transition = ''admitted'', sv_from_state = RQ_queued, sv_to_state = RQ_running\<rparr>]) @
    (if sr_state r \<in> RQ_ended then
       [\<lparr>sv_operation_id = sr_operation_id r, sv_transition = end_name (sr_state r),
         sv_from_state = (if sr_started_at r = None then RQ_queued else RQ_running), sv_to_state = sr_state r\<rparr>]
     else [])"

definition all_requests :: "fcfs_scheduler \<Rightarrow> scheduled_request list" where
  "all_requests s = fs_queue s @ map snd (fs_running s) @ fs_completed s"

definition transitions_of :: "string \<Rightarrow> fcfs_scheduler \<Rightarrow> scheduler_event list" where
  "transitions_of op s = filter (\<lambda>v. sv_operation_id v = op) (fs_events s)"

definition placed :: "fcfs_scheduler \<Rightarrow> bool" where
  "placed s \<longleftrightarrow>
    (\<forall>r \<in> set (fs_queue s). waiting r) \<and>
    (\<forall>(op, r) \<in> set (fs_running s). op = sr_operation_id r \<and> runs r) \<and>
    (\<forall>r \<in> set (fs_completed s). has_ended r) \<and>
    int (length (fs_running s)) \<le> max 0 (fs_max_concurrent s)"

definition counted :: "fcfs_scheduler \<Rightarrow> bool" where
  "counted s \<longleftrightarrow>
    fs_total_processed s = int (length (filter counts_as_processed (fs_completed s))) \<and>
    fs_total_refused s = int (length (filter (\<lambda>r. sr_state r = RQ_refused) (fs_completed s)))"

definition evidenced :: "fcfs_scheduler \<Rightarrow> bool" where
  "evidenced s \<longleftrightarrow>
    (\<forall>r \<in> set (all_requests s). transitions_of (sr_operation_id r) s = evidence_of r) \<and>
    (\<forall>v \<in> set (fs_events s). sv_operation_id v \<in> sr_operation_id ` set (all_requests s))"

definition fcfs_sound :: "fcfs_scheduler \<Rightarrow> bool" where
  "fcfs_sound s \<longleftrightarrow> distinct (map sr_operation_id (all_requests s)) \<and> placed s \<and> counted s \<and> evidenced s"

lemma fcfs_init_sound: "fcfs_sound (fcfs_init n)"
  by (simp add: fcfs_sound_def placed_def counted_def evidenced_def fcfs_init_def all_requests_def)
lemma take_out_split:
  "take_out op q = Some (r, rest) \<Longrightarrow> \<exists>xs ys. q = xs @ r # ys \<and> rest = xs @ ys \<and> sr_operation_id r = op"
proof (induction q arbitrary: rest)
  case (Cons x q)
  show ?case
  proof (cases "sr_operation_id x = op")
    case True
    with Cons.prems show ?thesis by (intro exI [of _ "[]"] exI [of _ q]) auto
  next
    case False
    with Cons.prems obtain rest' where "take_out op q = Some (r, rest')" and "rest = x # rest'" by auto
    with Cons.IH [of rest'] show ?thesis by (metis append_Cons)
  qed
qed simp

lemma sound_running_wf: "fcfs_sound s \<Longrightarrow> wf_dict (fs_running s)"
proof -
  assume s: "fcfs_sound s"
  then have "map fst (fs_running s) = map sr_operation_id (map snd (fs_running s))" by (auto simp: fcfs_sound_def placed_def)
  moreover have "distinct (map sr_operation_id (map snd (fs_running s)))" using s by (simp add: fcfs_sound_def all_requests_def)
  ultimately show ?thesis by (simp only: wf_dict_def)
qed

text \<open>One request \<open>r\<close> becomes \<open>r'\<close>, with one event; the others stay as they are.\<close>

definition moved :: "scheduled_request \<Rightarrow> scheduled_request \<Rightarrow> fcfs_scheduler \<Rightarrow> fcfs_scheduler \<Rightarrow> bool" where
  "moved r r' s s' \<longleftrightarrow>
    sr_operation_id r' = sr_operation_id r \<and>
    (\<exists>M. mset (all_requests s) = add_mset r M \<and> mset (all_requests s') = add_mset r' M) \<and>
    (\<exists>v. sv_operation_id v = sr_operation_id r \<and> fs_events s' = fs_events s @ [v] \<and> evidence_of r' = evidence_of r @ [v])"

lemma moved_ids: "moved r r' s s' \<Longrightarrow> image_mset sr_operation_id (mset (all_requests s')) = image_mset sr_operation_id (mset (all_requests s))"
  by (auto simp: moved_def)

lemma moved_distinct:
  "moved r r' s s' \<Longrightarrow> distinct (map sr_operation_id (all_requests s')) = distinct (map sr_operation_id (all_requests s))"
  by (metis moved_ids mset_eq_imp_distinct_iff mset_map)

lemma moved_evidenced:
  assumes "moved r r' s s'" and "evidenced s" and "distinct (map sr_operation_id (all_requests s))"
  shows "evidenced s'"
proof -
  from assms(1) obtain M v where id: "sr_operation_id r' = sr_operation_id r"
    and M: "mset (all_requests s) = add_mset r M" and M': "mset (all_requests s') = add_mset r' M"
    and v: "sv_operation_id v = sr_operation_id r" and ev: "fs_events s' = fs_events s @ [v]" and e: "evidence_of r' = evidence_of r @ [v]"
    by (auto simp: moved_def)
  have set_s: "set (all_requests s) = insert r (set_mset M)" using M by (metis set_mset_add_mset_insert set_mset_mset)
  have set_s': "set (all_requests s') = insert r' (set_mset M)" using M' by (metis set_mset_add_mset_insert set_mset_mset)
  have "mset (map sr_operation_id (all_requests s)) = add_mset (sr_operation_id r) (image_mset sr_operation_id M)"
    by (simp add: M)
  with assms(3) have "sr_operation_id r \<notin># image_mset sr_operation_id M"
    by (metis count_add_mset distinct_count_atmost_1 not_in_iff One_nat_def add_right_imp_eq plus_1_eq_Suc add.commute
        Suc_inject union_single_eq_member set_mset_mset)
  then have other: "sr_operation_id x \<noteq> sr_operation_id r" if "x \<in># M" for x
    using that by (metis imageI set_image_mset)
  show ?thesis
    using assms(2) id v ev e by (auto simp: evidenced_def set_s set_s' transitions_of_def dest: other)
qed

lemma enqueue_sound:
  assumes "fcfs_sound s" and "waiting r" and "sr_operation_id r \<notin> sr_operation_id ` set (all_requests s)"
  shows "fcfs_sound (fcfs_enqueue r s)"
proof -
  have "transitions_of (sr_operation_id r) s = []"
    using assms(1,3) by (metis (mono_tags, lifting) transitions_of_def evidenced_def fcfs_sound_def filter_False)
  moreover have "evidence_of r = []" using assms(2) by (simp add: evidence_of_def waiting_def RQ_ended_def)
  ultimately have "evidenced (fcfs_enqueue r s)"
    using assms(1) by (auto simp: fcfs_sound_def evidenced_def fcfs_enqueue_def all_requests_def transitions_of_def)
  moreover have "distinct (map sr_operation_id (all_requests (fcfs_enqueue r s)))"
    using assms(1,3) by (auto simp: fcfs_sound_def fcfs_enqueue_def all_requests_def)
  ultimately show ?thesis
    using assms(1,2) by (auto simp: fcfs_sound_def placed_def counted_def fcfs_enqueue_def)
qed

lemma queued_not_running:
  assumes "fcfs_sound s" and "r \<in> set (fs_queue s)"
  shows "dict_get (fs_running s) (sr_operation_id r) = None"
proof (rule ccontr)
  assume "dict_get (fs_running s) (sr_operation_id r) \<noteq> None"
  then obtain x where "(sr_operation_id r, x) \<in> set (fs_running s)"
    using sound_running_wf [OF assms(1)] by (auto simp: dict_item_get)
  moreover from this assms(1) have "sr_operation_id x = sr_operation_id r" by (auto simp: fcfs_sound_def placed_def)
  ultimately show False using assms by (force simp: fcfs_sound_def all_requests_def)
qed

lemma admit_cases:
  assumes "fcfs_sound s"
  obtains "fcfs_admit_next now s = (s, None)"
  | r rest r' where "fs_queue s = r # rest" and "int (length (fs_running s)) < fs_max_concurrent s"
    and "r' = r\<lparr>sr_state := RQ_running, sr_started_at := Some now\<rparr>"
    and "fcfs_admit_next now s = (emit_transition r' ''admitted'' RQ_queued RQ_running
      (s\<lparr>fs_queue := rest, fs_running := fs_running s @ [(sr_operation_id r, r')]\<rparr>), Some r')"
proof (cases "fs_queue s")
  case Nil
  then show thesis by (intro that(1)) (simp add: fcfs_admit_next_def)
next
  case (Cons r rest)
  then have "waiting r" using assms by (simp add: fcfs_sound_def placed_def)
  with Cons queued_not_running [OF assms, of r] show thesis
    by (cases "int (length (fs_running s)) \<ge> fs_max_concurrent s")
      (intro that(1) that(2) [OF Cons]; simp add: fcfs_admit_next_def Let_def dict_set_new waiting_def)+
qed

lemma admit_moved:
  assumes "fs_queue s = r # rest" and "waiting r" and "r' = r\<lparr>sr_state := RQ_running, sr_started_at := Some now\<rparr>"
  shows "moved r r' s (emit_transition r' ''admitted'' RQ_queued RQ_running
    (s\<lparr>fs_queue := rest, fs_running := fs_running s @ [(sr_operation_id r, r')]\<rparr>))"
  using assms by (simp add: moved_def all_requests_def emit_transition_def evidence_of_def waiting_def RQ_ended_def)

text \<open>No request appears or is lost.\<close>

definition kept :: "fcfs_scheduler \<Rightarrow> fcfs_scheduler \<Rightarrow> bool" where
  "kept s s' \<longleftrightarrow> fcfs_sound s' \<and> mset (map sr_operation_id (all_requests s')) = mset (map sr_operation_id (all_requests s))"

lemma kept_same: "fcfs_sound s \<Longrightarrow> kept s s"
  by (simp add: kept_def)

lemma kept_moved:
  assumes "fcfs_sound s" and "moved r r' s s'" and "placed s'" and "counted s'"
  shows "kept s s'"
  using assms moved_distinct [OF assms(2)] moved_evidenced [OF assms(2)] moved_ids [OF assms(2)]
  by (simp add: kept_def fcfs_sound_def)

lemma admit_sound:
  assumes "fcfs_sound s"
  shows "kept s (fst (fcfs_admit_next now s))"
  using assms
proof (cases rule: admit_cases [where now = now])
  case 1
  with assms show ?thesis by (simp add: kept_same)
next
  case (2 r rest r')
  have w: "waiting r" using assms 2 by (simp add: fcfs_sound_def placed_def)
  note mv = admit_moved [OF 2(1) w 2(3)]
  have "placed (fst (fcfs_admit_next now s))" and "counted (fst (fcfs_admit_next now s))"
    using assms 2 by (auto simp: fcfs_sound_def placed_def counted_def emit_transition_def runs_def)
  with mv 2(4) show ?thesis by (intro kept_moved [OF assms]) simp_all
qed

lemma end_running_sound:
  assumes s: "fcfs_sound s"
    and f: "\<And>r. sr_operation_id (f r) = sr_operation_id r" "\<And>r. sr_started_at (f r) = sr_started_at r"
    and ok: "\<And>r. runs r \<Longrightarrow> has_ended ((f r)\<lparr>sr_state := st, sr_completed_at := Some now\<rparr>)"
    and st: "st \<in> RQ_ended" "st \<noteq> RQ_refused" and what: "what = end_name st"
    and n: "n = (if st = RQ_completed \<or> st = RQ_cancelled then 1 else 0)"
  shows "kept s (end_running op what st now f n s)"
proof (cases "dict_get (fs_running s) op")
  case None
  with s show ?thesis by (simp add: end_running_def kept_same)
next
  case (Some r)
  let ?r = "(f r)\<lparr>sr_state := st, sr_completed_at := Some now\<rparr>"
  obtain xs ys where run: "fs_running s = xs @ (op, r) # ys" and pop: "dict_pop op (fs_running s) = xs @ ys"
    by (rule dict_split [OF sound_running_wf [OF s] Some])
  have r: "runs r" "sr_operation_id r = op" using s run by (auto simp: fcfs_sound_def placed_def)
  let ?s = "end_running op what st now f n s"
  have eq: "?s = emit_transition ?r what RQ_running st
      (s\<lparr>fs_running := xs @ ys, fs_completed := fs_completed s @ [?r], fs_total_processed := fs_total_processed s + n\<rparr>)"
    using r by (simp add: end_running_def Some pop Let_def runs_def)
  have "evidence_of ?r = evidence_of r @ [\<lparr>sv_operation_id = op, sv_transition = what, sv_from_state = RQ_running, sv_to_state = st\<rparr>]"
    using r st what f by (auto simp: evidence_of_def runs_def RQ_ended_def)
  then have mv: "moved r ?r s ?s"
    using f r by (simp add: moved_def eq all_requests_def run emit_transition_def)
  have "placed ?s"
    unfolding eq using s ok [OF r(1)] by (auto simp: fcfs_sound_def placed_def emit_transition_def run)
  moreover have "counted ?s"
    unfolding eq using s st n r f
    by (auto simp: fcfs_sound_def counted_def emit_transition_def counts_as_processed_def runs_def RQ_ended_def)
  ultimately show ?thesis by (rule kept_moved [OF s mv])
qed

lemma end_queued_sound:
  assumes s: "fcfs_sound s"
    and f: "\<And>r. sr_operation_id (f r) = sr_operation_id r" "\<And>r. sr_started_at (f r) = sr_started_at r"
    and st: "st = RQ_refused \<or> st = RQ_cancelled" and what: "what = end_name st"
    and n: "n = (if st = RQ_refused then 1 else 0)"
  shows "kept s (end_queued op what st now f n s)"
proof (cases "take_out op (fs_queue s)")
  case None
  with s show ?thesis by (simp add: end_queued_def kept_same)
next
  case (Some z)
  then obtain r rest where z: "z = (r, rest)" by fastforce
  let ?r = "(f r)\<lparr>sr_state := st, sr_completed_at := Some now\<rparr>"
  obtain xs ys where q: "fs_queue s = xs @ r # ys" and rest: "rest = xs @ ys" and op: "sr_operation_id r = op"
    using take_out_split [OF Some [unfolded z]] by auto
  have r: "waiting r" using s q by (simp add: fcfs_sound_def placed_def)
  let ?s = "end_queued op what st now f n s"
  have eq: "?s = emit_transition ?r what RQ_queued st
      (s\<lparr>fs_queue := xs @ ys, fs_completed := fs_completed s @ [?r], fs_total_refused := fs_total_refused s + n\<rparr>)"
    using r by (simp add: end_queued_def Some z rest Let_def waiting_def)
  have "evidence_of ?r = evidence_of r @ [\<lparr>sv_operation_id = op, sv_transition = what, sv_from_state = RQ_queued, sv_to_state = st\<rparr>]"
    using r st what f op by (auto simp: evidence_of_def waiting_def RQ_ended_def)
  then have mv: "moved r ?r s ?s"
    using f op by (simp add: moved_def eq all_requests_def q emit_transition_def)
  have "placed ?s"
    unfolding eq using s st r f by (auto simp: fcfs_sound_def placed_def emit_transition_def q has_ended_def waiting_def)
  moreover have "counted ?s"
    unfolding eq using s st n r f
    by (auto simp: fcfs_sound_def counted_def emit_transition_def counts_as_processed_def waiting_def)
  ultimately show ?thesis by (rule kept_moved [OF s mv])
qed

lemma refuse_sound: "fcfs_sound s \<Longrightarrow> kept s (fcfs_refuse op why now s)"
  unfolding fcfs_refuse_def by (rule end_queued_sound) (simp_all add: end_name_def)

lemma complete_sound: "fcfs_sound s \<Longrightarrow> kept s (fcfs_complete op resp now s)"
  unfolding fcfs_complete_def by (rule end_running_sound) (simp_all add: end_name_def RQ_ended_def has_ended_def runs_def)

lemma fail_sound: "fcfs_sound s \<Longrightarrow> kept s (fcfs_fail op err now s)"
  unfolding fcfs_fail_def by (rule end_running_sound) (simp_all add: end_name_def RQ_ended_def has_ended_def runs_def)

lemma cancel_sound:
  assumes "fcfs_sound s"
  shows "kept s (fst (fcfs_cancel op now s))"
proof -
  have "kept s (end_running op ''cancelled'' RQ_cancelled now id 1 s)"
    by (rule end_running_sound [OF assms]) (simp_all add: end_name_def RQ_ended_def has_ended_def runs_def)
  moreover have "kept s (end_queued op ''cancelled'' RQ_cancelled now id 0 s)"
    by (rule end_queued_sound [OF assms]) (simp_all add: end_name_def)
  ultimately show ?thesis by (simp add: fcfs_cancel_def)
qed

lemmas serial_keeps = admit_sound complete_sound fail_sound cancel_sound refuse_sound

lemma serial_exec_sound:
  assumes "fcfs_sound s" and "\<forall>r \<in> set (enqueued k). waiting r \<and> sr_operation_id r \<notin> sr_operation_id ` set (all_requests s)"
  shows "fcfs_sound (fst (serial_exec k s)) \<and>
    mset (map sr_operation_id (all_requests (fst (serial_exec k s)))) =
      mset (map sr_operation_id (all_requests s)) + mset (map sr_operation_id (enqueued k))"
proof (cases k)
  case (SC_enqueue r)
  with assms have "fcfs_sound (fcfs_enqueue r s)" by (intro enqueue_sound) simp_all
  with SC_enqueue show ?thesis by (simp add: all_requests_def fcfs_enqueue_def)
next
  case (SC_admit now)
  with admit_sound [OF assms(1), of now] show ?thesis by (simp add: kept_def case_prod_beta)
next
  case (SC_cancel op now)
  with cancel_sound [OF assms(1), of op now] show ?thesis by (simp add: kept_def case_prod_beta)
qed (use serial_keeps [OF assms(1)] in \<open>simp_all add: kept_def\<close>)

lemma serial_run_fst: "fst (serial_run (k # ks) s) = fst (serial_run ks (fst (serial_exec k s)))"
  by (simp add: Let_def case_prod_beta)

lemma serial_run_snd: "snd (serial_run (k # ks) s) = snd (serial_exec k s) # snd (serial_run ks (fst (serial_exec k s)))"
  by (simp add: Let_def case_prod_beta)

lemma serial_run_sound:
  assumes "fcfs_sound s" and "\<forall>r \<in> set (concat (map enqueued ks)). waiting r"
    and "distinct (map sr_operation_id (all_requests s @ concat (map enqueued ks)))"
  shows "fcfs_sound (fst (serial_run ks s)) \<and>
    mset (map sr_operation_id (all_requests (fst (serial_run ks s)))) =
      mset (map sr_operation_id (all_requests s @ concat (map enqueued ks)))"
  using assms
proof (induction ks arbitrary: s)
  case (Cons k ks)
  let ?s = "fst (serial_exec k s)"
  have "\<forall>r \<in> set (enqueued k). waiting r \<and> sr_operation_id r \<notin> sr_operation_id ` set (all_requests s)"
    using Cons.prems by force
  from serial_exec_sound [OF Cons.prems(1) this]
  have s: "fcfs_sound ?s" and ids: "mset (map sr_operation_id (all_requests ?s)) = mset (map sr_operation_id (all_requests s @ enqueued k))"
    by simp_all
  from ids have "mset (map sr_operation_id (all_requests ?s @ concat (map enqueued ks))) =
      mset (map sr_operation_id (all_requests s @ concat (map enqueued (k # ks))))" by simp
  from mset_eq_imp_distinct_iff [OF this] Cons.prems(3)
  have "distinct (map sr_operation_id (all_requests ?s @ concat (map enqueued ks)))" by simp
  from Cons.IH [OF s _ this] Cons.prems(2) ids show ?case by (simp only: serial_run_fst) simp
qed simp

section \<open>Order and progress\<close>

abbreviation op_ids :: "scheduled_request list \<Rightarrow> string list" where
  "op_ids \<equiv> map sr_operation_id"

lemma queue_end_running: "fs_queue (end_running op what st now f n s) = fs_queue s"
  by (simp add: end_running_def emit_transition_def Let_def split: option.splits)

lemma queue_end_queued: "subseq (op_ids (fs_queue (end_queued op what st now f n s))) (op_ids (fs_queue s))"
proof (cases "take_out op (fs_queue s)")
  case (Some z)
  then obtain r rest where z: "z = (r, rest)" by fastforce
  with take_out_split [of op "fs_queue s" r rest] Some obtain xs ys where "fs_queue s = xs @ r # ys" and "rest = xs @ ys" by auto
  moreover have "fs_queue (end_queued op what st now f n s) = rest"
    by (simp add: end_queued_def Some z emit_transition_def Let_def)
  ultimately show ?thesis by (simp add: subseq_append' list_emb_Cons)
qed (simp add: end_queued_def)

lemma exec_in_order:
  "subseq (admitted_of (snd (serial_exec k s)) @ op_ids (fs_queue (fst (serial_exec k s)))) (op_ids (fs_queue s) @ op_ids (enqueued k))"
proof (cases k)
  case (SC_admit now)
  then show ?thesis
    by (cases "fs_queue s") (simp_all add: fcfs_admit_next_def emit_transition_def Let_def)
next
  case (SC_cancel op now)
  then show ?thesis by (simp add: fcfs_cancel_def queue_end_running queue_end_queued)
qed (simp_all add: fcfs_enqueue_def fcfs_complete_def fcfs_fail_def fcfs_refuse_def queue_end_running queue_end_queued)

lemma run_in_order:
  "subseq (concat (map admitted_of (snd (serial_run ks s))) @ op_ids (fs_queue (fst (serial_run ks s))))
    (op_ids (fs_queue s) @ op_ids (concat (map enqueued ks)))"
proof (induction ks arbitrary: s)
  case (Cons k ks)
  let ?s = "fst (serial_exec k s)" and ?a = "admitted_of (snd (serial_exec k s))"
  let ?new = "op_ids (concat (map enqueued ks))"
  have "subseq (?a @ concat (map admitted_of (snd (serial_run ks ?s))) @ op_ids (fs_queue (fst (serial_run ks ?s))))
      (?a @ op_ids (fs_queue ?s) @ ?new)"
    using Cons.IH [of ?s] by (simp only: subseq_append')
  also have "subseq (?a @ op_ids (fs_queue ?s) @ ?new) (op_ids (fs_queue s) @ op_ids (enqueued k) @ ?new)"
    using exec_in_order [of k s] by (simp only: subseq_append append_assoc [symmetric])
  finally show ?case by (simp only: serial_run_fst serial_run_snd) simp
qed simp

text \<open>Serving the queue: the next request is admitted and completed.\<close>

definition serve_all :: "timestamp \<Rightarrow> string \<Rightarrow> string list \<Rightarrow> serial_call list" where
  "serve_all now response ops = concat (map (\<lambda>op. [SC_admit now, SC_complete op response now]) ops)"

lemma serve_all_drains:
  assumes "fcfs_sound s" and "fs_running s = []" and "0 < fs_max_concurrent s"
  shows "let s' = fst (serial_run (serve_all now response (op_ids (fs_queue s))) s)
    in fs_queue s' = [] \<and> fs_running s' = [] \<and> op_ids (fs_completed s') = op_ids (fs_completed s) @ op_ids (fs_queue s)"
  using assms
proof (induction "fs_queue s" arbitrary: s)
  case Nil
  then show ?case by (simp add: serve_all_def)
next
  case (Cons r q)
  let ?s = "fst (serial_run [SC_admit now, SC_complete (sr_operation_id r) response now] s)"
  have eq: "?s = fcfs_complete (sr_operation_id r) response now (fst (fcfs_admit_next now s))"
    by (simp add: Let_def case_prod_beta)
  have sound: "fcfs_sound ?s"
    unfolding eq using complete_sound admit_sound Cons.prems(1) by (simp add: kept_def)
  have "fs_queue ?s = q" "fs_running ?s = []" "fs_max_concurrent ?s = fs_max_concurrent s"
    "op_ids (fs_completed ?s) = op_ids (fs_completed s) @ [sr_operation_id r]"
    unfolding eq using Cons.hyps(2) [symmetric] Cons.prems(2,3)
    by (simp_all add: fcfs_admit_next_def fcfs_complete_def end_running_def emit_transition_def Let_def dict_simps dict_set_def dict_pop_def
        dict_get_def)
  with Cons.hyps(1) [of ?s] sound Cons.prems(3) Cons.hyps(2) [symmetric] show ?case
    by (simp add: serve_all_def Let_def case_prod_beta)
qed

section \<open>The batching scheduler\<close>

text \<open>The same calls on the batching scheduler.\<close>

fun batch_exec :: "serial_call \<Rightarrow> batch_scheduler \<Rightarrow> batch_scheduler \<times> serial_answer" where
  "batch_exec (SC_enqueue r) s = (batch_enqueue r [] None s, SA_done)"
| "batch_exec (SC_admit now) s = (case batch_admit_next now s of (s', r) \<Rightarrow> (s', SA_request r))"
| "batch_exec (SC_complete op response now) s = (batch_complete op response now s, SA_done)"
| "batch_exec (SC_fail op err now) s = (batch_fail op err now s, SA_done)"
| "batch_exec (SC_cancel op now) s = (case batch_cancel op now s of (s', b) \<Rightarrow> (s', SA_flag b))"
| "batch_exec (SC_refuse op why now) s = (batch_refuse op why now s, SA_done)"

fun batch_run :: "serial_call list \<Rightarrow> batch_scheduler \<Rightarrow> batch_scheduler \<times> serial_answer list" where
  "batch_run [] s = (s, [])"
| "batch_run (k # ks) s = (let (s1, a) = batch_exec k s; (s2, as) = batch_run ks s1 in (s2, a # as))"

lemma batch_exec_fallback:
  assumes "\<not> batching s"
  shows "batch_exec k s = (case serial_exec k (bs_fallback s) of (f, a) \<Rightarrow> (s\<lparr>bs_fallback := f\<rparr>, a))"
  using assms by (cases k) (simp_all add: batch_enqueue_def batch_admit_next_def batch_complete_def batch_fail_def batch_cancel_def
      batch_refuse_def split: prod.splits)

lemma batch_run_fallback:
  "\<not> batching s \<Longrightarrow> batch_run ks s = (case serial_run ks (bs_fallback s) of (f, as) \<Rightarrow> (s\<lparr>bs_fallback := f\<rparr>, as))"
  by (induction ks arbitrary: s) (simp_all add: batch_exec_fallback Let_def split: prod.splits)

text \<open>What can happen to a batching scheduler: the calls of its users and the steps of its loop.\<close>

datatype batch_step =
    BE_call serial_call | BE_take | BE_insert batch_generator | BE_tokens "generated_token list" | BE_stop

fun batch_happens :: "batch_step \<Rightarrow> batch_scheduler \<Rightarrow> batch_scheduler" where
  "batch_happens (BE_call k) s = fst (batch_exec k s)"
| "batch_happens BE_take s = take_pending s"
| "batch_happens (BE_insert g) s = batch_insert_one g s"
| "batch_happens (BE_tokens ts) s = process_generated_tokens ts s"
| "batch_happens BE_stop s = stop_batch_loop s"

fun named_operation :: "batch_step \<Rightarrow> string set" where
  "named_operation (BE_call (SC_complete op response now)) = {op}"
| "named_operation (BE_call (SC_fail op err now)) = {op}"
| "named_operation (BE_call (SC_cancel op now)) = {op}"
| "named_operation e = {}"

text \<open>The identifiers that the generator gives out again.\<close>

fun reused_by :: "string \<Rightarrow> batch_step \<Rightarrow> bool" where
  "reused_by u (BE_insert g) = (\<exists>ts n c us. bg_insert g ts n c = Inr us \<and> u \<in> set us)"
| "reused_by u e = False"

lemma dict_get_fold_set_other: "u \<notin> set us \<Longrightarrow> dict_get (fold (\<lambda>x. dict_set x v) us d) u = dict_get d u"
  by (induction us arbitrary: d) (simp_all add: dict_simps)

lemma dict_get_fold_pop_other: "u \<notin> set us \<Longrightarrow> dict_get (fold dict_pop us d) u = dict_get d u"
  by (induction us arbitrary: d) (simp_all add: dict_simps)

lemma process_token_keeps [simp]:
  "bs_uid_to_op (process_token t s) = bs_uid_to_op s" "bs_status (process_token t s) = bs_status s"
  "bs_loop_running (process_token t s) = bs_loop_running s"
  by (simp_all add: process_token_def Let_def split: option.splits)

lemma process_tokens_keeps [simp]:
  "bs_uid_to_op (process_generated_tokens ts s) = bs_uid_to_op s" "bs_status (process_generated_tokens ts s) = bs_status s"
  by (induction ts arbitrary: s) (simp_all add: process_generated_tokens_def)

lemma batch_exec_uid:
  "u \<notin> named_operation (BE_call k) \<Longrightarrow> dict_get (bs_uid_to_op (fst (batch_exec k s))) u = dict_get (bs_uid_to_op s) u"
  by (cases k) (auto simp: batch_enqueue_def batch_admit_next_def batch_complete_def batch_fail_def batch_cancel_def batch_refuse_def
      forget_operation_def batch_event_def dict_simps Let_def split: prod.splits list.splits if_splits)

lemma happens_keeps_uid:
  assumes "u \<notin> named_operation e" and "\<not> reused_by u e"
  shows "dict_get (bs_uid_to_op (batch_happens e s)) u = dict_get (bs_uid_to_op s) u"
proof (cases e)
  case (BE_call k)
  with batch_exec_uid [of u k s] assms(1) show ?thesis by simp
next
  case BE_take
  then show ?thesis by (simp add: take_pending_def Let_def)
next
  case (BE_insert g)
  show ?thesis
  proof (cases "bs_inserting s")
    case (Cons r rest)
    show ?thesis
    proof (cases "generator_insert g r s")
      case (Inr us)
      then have "u \<notin> set us" using assms(2) BE_insert by (auto simp: generator_insert_def split: sum.splits if_splits)
      then show ?thesis
        using Cons Inr BE_insert by (simp add: batch_insert_one_def Let_def dict_get_fold_set_other dict_get_fold_pop_other)
    qed (use Cons BE_insert in \<open>simp add: batch_insert_one_def Let_def\<close>)
  qed (use BE_insert in \<open>simp add: batch_insert_one_def\<close>)
qed (use assms in \<open>simp_all add: stop_batch_loop_def\<close>)

lemma happen_keep_uid:
  assumes "\<forall>e \<in> set es. u \<notin> named_operation e \<and> \<not> reused_by u e"
  shows "dict_get (bs_uid_to_op (fold batch_happens es s)) u = dict_get (bs_uid_to_op s) u"
  using assms by (induction es arbitrary: s) (simp_all add: happens_keeps_uid)

section \<open>Properties\<close>

definition demo_scheduled :: "string \<Rightarrow> scheduled_request" where
  "demo_scheduled op = scheduled_request_of op (Aware 0) ''chat'' [] ''m'' 16"

lemma demo_scheduled_waiting [simp]: "waiting (demo_scheduled op)" "sr_operation_id (demo_scheduled op) = op"
  by (simp_all add: demo_scheduled_def scheduled_request_of_def waiting_def)

text \<open>
  C14: After any calls with fresh identifiers every request ever queued is in exactly one place, waiting, running or
  ended, with the state of that place; no more run than allowed, the counters count what ended, and the evidence of a
  request is its path from the queue to its end, each transition once.
\<close>

theorem requests_accounted:
  assumes "\<forall>r \<in> set (concat (map enqueued ks)). waiting r" and "distinct (op_ids (concat (map enqueued ks)))"
  shows "fcfs_sound (fst (serial_run ks (fcfs_init n))) \<and>
    mset (op_ids (all_requests (fst (serial_run ks (fcfs_init n))))) = mset (op_ids (concat (map enqueued ks)))"
  using serial_run_sound [OF fcfs_init_sound, of ks n] assms by (simp add: fcfs_init_def all_requests_def)

definition demo_calls :: "serial_call list" where
  "demo_calls = [SC_enqueue (demo_scheduled ''a''), SC_enqueue (demo_scheduled ''b''), SC_admit (Aware 1), SC_admit (Aware 1),
     SC_refuse ''b'' ''full'' (Aware 2), SC_cancel ''a'' (Aware 3), SC_complete ''a'' ''ok'' (Aware 4)]"

lemma requests_accounted_witness: "fcfs_sound (fst (serial_run demo_calls (fcfs_init 1)))"
  by (rule requests_accounted [THEN conjunct1]) (simp_all add: demo_calls_def)

text \<open>
  Requests are admitted in the order they were queued: the identifiers admitted by any calls, followed by those that
  still wait, are a subsequence of those that waited at first followed by those queued since.
\<close>

theorem admissions_in_order:
  "subseq (concat (map admitted_of (snd (serial_run ks s))) @ op_ids (fs_queue (fst (serial_run ks s))))
    (op_ids (fs_queue s) @ op_ids (concat (map enqueued ks)))"
  by (rule run_in_order)

text \<open>When nothing runs, admitting and completing in turn ends every waiting request, in order, and nothing is left.\<close>

theorem waiting_requests_drain:
  assumes "fcfs_sound s" and "fs_running s = []" and "0 < fs_max_concurrent s"
  shows "let s' = fst (serial_run (serve_all now response (op_ids (fs_queue s))) s)
    in fs_queue s' = [] \<and> fs_running s' = [] \<and> op_ids (fs_completed s') = op_ids (fs_completed s) @ op_ids (fs_queue s)"
  by (rule serve_all_drains [OF assms])

lemma waiting_requests_drain_witness:
  "fs_queue (fst (serial_run (serve_all (Aware 1) ''ok'' [''a'']) (fcfs_enqueue (demo_scheduled ''a'') (fcfs_init 1)))) = []"
proof -
  have "fcfs_sound (fcfs_enqueue (demo_scheduled ''a'') (fcfs_init 1))"
    by (rule enqueue_sound [OF fcfs_init_sound]) (simp_all add: all_requests_def fcfs_init_def)
  from waiting_requests_drain [OF this, of "Aware 1" "''ok''"] show ?thesis
    by (simp add: Let_def fcfs_enqueue_def fcfs_init_def)
qed

text \<open>
  The runtime never lets a request wait: with an empty queue a submission is admitted exactly when fewer requests run
  than allowed, and otherwise ends as refused; the queue is empty again either way.
\<close>

theorem submission_admitted_or_refused:
  assumes "fcfs_sound s" and "fs_queue s = []" and "waiting r"
    and "sr_operation_id r \<notin> sr_operation_id ` set (all_requests s)"
  shows "(snd (fcfs_submit r now s) \<longleftrightarrow> int (length (fs_running s)) < fs_max_concurrent s) \<and>
    fs_queue (fst (fcfs_submit r now s)) = [] \<and> fcfs_sound (fst (fcfs_submit r now s)) \<and>
    (if snd (fcfs_submit r now s) then dict_get (fs_running (fst (fcfs_submit r now s))) (sr_operation_id r) \<noteq> None
     else fs_completed (fst (fcfs_submit r now s)) = fs_completed s @
       [r\<lparr>sr_state := RQ_refused, sr_error := ''max_concurrent_limit'', sr_completed_at := Some now\<rparr>])"
proof -
  let ?s = "fcfs_enqueue r s"
  have s: "fcfs_sound ?s" by (rule enqueue_sound [OF assms(1,3,4)])
  show ?thesis
  proof (cases "int (length (fs_running s)) < fs_max_concurrent s")
    case True
    define s1 where "s1 = fst (fcfs_admit_next now ?s)"
    from True have adm: "fcfs_admit_next now ?s = (s1, Some (r\<lparr>sr_state := RQ_running, sr_started_at := Some now\<rparr>))"
      using assms(2) by (simp add: s1_def fcfs_admit_next_def fcfs_enqueue_def Let_def)
    then have "fcfs_submit r now s = (s1, True)" by (simp add: fcfs_submit_def)
    moreover have "fs_queue s1 = []" and "dict_get (fs_running s1) (sr_operation_id r) \<noteq> None"
      using True assms(2) by (simp_all add: s1_def fcfs_admit_next_def fcfs_enqueue_def emit_transition_def Let_def dict_simps)
    moreover have "fcfs_sound s1" using admit_sound [OF s, of now] by (simp add: kept_def s1_def)
    ultimately show ?thesis using True by simp
  next
    case False
    then have "fcfs_admit_next now ?s = (?s, None)"
      using assms(2) by (simp add: fcfs_admit_next_def fcfs_enqueue_def)
    then have "fcfs_submit r now s = (fcfs_refuse (sr_operation_id r) ''max_concurrent_limit'' now ?s, False)"
      by (simp add: fcfs_submit_def)
    moreover have "fcfs_sound (fcfs_refuse (sr_operation_id r) ''max_concurrent_limit'' now ?s)"
      using refuse_sound [OF s] by (simp add: kept_def)
    moreover have "fs_queue (fcfs_refuse (sr_operation_id r) ''max_concurrent_limit'' now ?s) = []"
      and "fs_completed (fcfs_refuse (sr_operation_id r) ''max_concurrent_limit'' now ?s) = fs_completed s @
        [r\<lparr>sr_state := RQ_refused, sr_error := ''max_concurrent_limit'', sr_completed_at := Some now\<rparr>]"
      using assms(2) by (simp_all add: fcfs_refuse_def end_queued_def fcfs_enqueue_def emit_transition_def Let_def)
    ultimately show ?thesis using False by simp
  qed
qed

lemma submission_admitted_or_refused_witness:
  "snd (fcfs_submit (demo_scheduled ''a'') (Aware 0) (fcfs_init 1)) \<and> \<not> snd (fcfs_submit (demo_scheduled ''a'') (Aware 0) (fcfs_init 0))"
  using submission_admitted_or_refused [OF fcfs_init_sound, of 1 "demo_scheduled ''a''" "Aware 0"]
    submission_admitted_or_refused [OF fcfs_init_sound, of 0 "demo_scheduled ''a''" "Aware 0"]
  by (simp add: fcfs_init_def all_requests_def)

text \<open>
  Without a generator the batching scheduler is the serial one with one slot: any calls have the same answers and
  the same effect on its inner scheduler, while its own projection does not change.
\<close>

theorem batch_without_generator_is_serial:
  assumes "\<not> batching s"
  shows "snd (batch_run ks s) = snd (serial_run ks (bs_fallback s)) \<and>
    bs_fallback (fst (batch_run ks s)) = fst (serial_run ks (bs_fallback s)) \<and>
    batch_projection (fst (batch_run ks s)) = batch_projection s"
  using batch_run_fallback [OF assms, of ks] by (simp add: batch_projection_def split: prod.splits)

lemma batch_without_generator_is_serial_witness:
  "snd (batch_run demo_calls (batch_init False True True 32)) = snd (serial_run demo_calls (fcfs_init 1))"
  using batch_without_generator_is_serial [of "batch_init False True True 32" demo_calls] by (simp add: batch_init_def)

text \<open>
  An identifier of the generator, once it is mapped to a request, stays mapped and the loop goes on, whatever
  happens: completion, failure, cancellation, the last token or the stop of the loop; unless it is also the identifier
  of a request that ends, or the generator gives it out again.
\<close>

theorem batch_slot_never_freed:
  assumes "dict_get (bs_uid_to_op s) u = Some op" and "\<forall>e \<in> set es. u \<notin> named_operation e \<and> \<not> reused_by u e"
  shows "dict_get (bs_uid_to_op (fold batch_happens es s)) u = Some op \<and> batch_loop_continues (fold batch_happens es s)"
  using happen_keep_uid [OF assms(2), of s] assms(1) by (auto simp: batch_loop_continues_def)

definition one_in_flight :: batch_scheduler where
  "one_in_flight = (batch_init True True True 1)\<lparr>bs_generator := True, bs_uid_to_op := [(''7'', ''op_a'')], bs_queues := [''op_a'']\<rparr>"

lemma batch_slot_never_freed_witness:
  "batch_loop_continues (fold batch_happens
    [BE_tokens [\<lparr>gt_uid = ''7'', gt_text = ''x'', gt_finish_reason = Some ''stop'', gt_count = 1\<rparr>],
     BE_call (SC_complete ''op_a'' ''x'' (Aware 0)), BE_stop] one_in_flight)"
  by (rule batch_slot_never_freed [where u = "''7''" and op = "''op_a''", THEN conjunct2]) (simp_all add: one_in_flight_def dict_get_def)

text \<open>While it batches, an admission does not take the request off the pending ones: the next admission returns it again.\<close>

theorem batch_admits_again:
  assumes "batching s" and "bs_pending s = r # rest"
  shows "snd (batch_admit_next now (fst (batch_admit_next now s))) = snd (batch_admit_next now s)"
  using assms by (simp add: batch_admit_next_def)

lemma batch_admits_again_witness:
  "snd (batch_admit_next (Aware 1) (fst (batch_admit_next (Aware 1) (one_in_flight\<lparr>bs_pending := [demo_scheduled ''b'']\<rparr>)))) =
    snd (batch_admit_next (Aware 1) (one_in_flight\<lparr>bs_pending := [demo_scheduled ''b'']\<rparr>))"
  by (rule batch_admits_again) (simp_all add: one_in_flight_def batch_init_def)

end
