(* ===== verification/Model_Pool.thy ===== *)
theory Model_Pool
  imports Relay_Interfaces "HOL-Library.Product_Lexorder"
begin

text \<open>
  The pool of loaded models, \<^verbatim>\<open>rig_relay/local_inference/runtime/_pool.py\<close>.  Every operation holds the lock of the
  pool; the clock is an argument, the estimate of memory only shown.
\<close>

section \<open>The pool\<close>

datatype eviction_reason = EV_lru_limit | EV_memory_pressure | EV_idle_ttl | EV_manual | EV_shutdown

record pooled_model =
  pm_model_ref :: string
  pm_model_id_hash :: string
  pm_model_path :: string
  pm_loaded_at :: timestamp
  pm_last_accessed :: int
  pm_active_count :: int

record model_pool =
  po_pool :: "(string, pooled_model) dict"
  po_max_models :: int
  po_idle_ttl :: int
  po_total_loads :: int
  po_total_evictions :: int
  po_last_eviction_reason :: "eviction_reason option"

definition pool_init :: "int \<Rightarrow> int \<Rightarrow> model_pool" where
  "pool_init max_models idle_ttl =
    \<lparr>po_pool = [], po_max_models = max_models, po_idle_ttl = idle_ttl, po_total_loads = 0, po_total_evictions = 0,
     po_last_eviction_reason = None\<rparr>"

definition pool_acquire :: "int \<Rightarrow> string \<Rightarrow> model_pool \<Rightarrow> model_pool \<times> string option" where
  "pool_acquire now mid p =
    (case dict_get (po_pool p) mid of
       None \<Rightarrow> (p, None)
     | Some m \<Rightarrow> (p\<lparr>po_pool := dict_set mid (m\<lparr>pm_active_count := pm_active_count m + 1, pm_last_accessed := now\<rparr>) (po_pool p)\<rparr>,
                  Some (pm_model_ref m)))"

definition pool_release :: "string \<Rightarrow> model_pool \<Rightarrow> model_pool" where
  "pool_release mid p =
    (case dict_get (po_pool p) mid of
       None \<Rightarrow> p
     | Some m \<Rightarrow> p\<lparr>po_pool := dict_set mid (m\<lparr>pm_active_count := max 0 (pm_active_count m - 1)\<rparr>) (po_pool p)\<rparr>)"

definition evict :: "eviction_reason \<Rightarrow> string \<Rightarrow> model_pool \<Rightarrow> model_pool" where
  "evict why mid p =
    p\<lparr>po_pool := dict_pop mid (po_pool p), po_total_evictions := po_total_evictions p + 1, po_last_eviction_reason := Some why\<rparr>"

text \<open>The least recently used model without a generation goes, when the pool is full.\<close>

definition evict_if_needed :: "model_pool \<Rightarrow> model_pool" where
  "evict_if_needed p =
    (if int (length (po_pool p)) < po_max_models p then p
     else case next_or_none (\<lambda>(mid, m). pm_active_count m = 0) (sort_key (\<lambda>(mid, m). (pm_last_accessed m, mid)) (po_pool p)) of
       None \<Rightarrow> p
     | Some (mid, m) \<Rightarrow> evict EV_lru_limit mid p)"

definition pool_load :: "int \<Rightarrow> timestamp \<Rightarrow> string \<Rightarrow> string \<Rightarrow> string \<Rightarrow> model_pool \<Rightarrow> model_pool" where
  "pool_load now stamp path mid ref p =
    (case dict_get (po_pool p) mid of
       Some m \<Rightarrow> p\<lparr>po_pool := dict_set mid (m\<lparr>pm_last_accessed := now\<rparr>) (po_pool p)\<rparr>
     | None \<Rightarrow>
         let p1 = evict_if_needed p;
             m = \<lparr>pm_model_ref = ref, pm_model_id_hash = mid, pm_model_path = path, pm_loaded_at = stamp,
                  pm_last_accessed = now, pm_active_count = 0\<rparr>
         in p1\<lparr>po_pool := dict_set mid m (po_pool p1), po_total_loads := po_total_loads p1 + 1\<rparr>)"

definition pool_unload :: "string \<Rightarrow> model_pool \<Rightarrow> model_pool \<times> bool" where
  "pool_unload mid p =
    (case dict_get (po_pool p) mid of
       None \<Rightarrow> (p, False)
     | Some m \<Rightarrow> if pm_active_count m > 0 then (p, False) else (evict EV_manual mid p, True))"

definition idle :: "int \<Rightarrow> model_pool \<Rightarrow> pooled_model \<Rightarrow> bool" where
  "idle now p m \<longleftrightarrow> pm_active_count m \<le> 0 \<and> now - pm_last_accessed m > po_idle_ttl p"

definition evict_idle :: "int \<Rightarrow> model_pool \<Rightarrow> model_pool \<times> int" where
  "evict_idle now p =
    (let gone = map fst (filter (\<lambda>(mid, m). idle now p m) (po_pool p)) in (fold (evict EV_idle_ttl) gone p, int (length gone)))"

definition get_model :: "string \<Rightarrow> model_pool \<Rightarrow> string option" where
  "get_model mid p = map_option pm_model_ref (dict_get (po_pool p) mid)"

definition active_generations :: "model_pool \<Rightarrow> int" where
  "active_generations p = sum_list (map (\<lambda>(mid, m). pm_active_count m) (po_pool p))"

record pool_shutdown_result =
  ps_models_evicted :: int
  ps_models_delayed :: int
  ps_force_evicted :: int

definition pool_shutdown :: "bool \<Rightarrow> model_pool \<Rightarrow> model_pool \<times> pool_shutdown_result" where
  "pool_shutdown agents_active p =
    (let quiet = map fst (filter (\<lambda>(mid, m). pm_active_count m = 0) (po_pool p));
         p1 = fold (evict EV_shutdown) quiet p;
         delayed = int (length (po_pool p1));
         forced = (if agents_active then 0 else delayed)
     in ((if agents_active then p1 else p1\<lparr>po_pool := [], po_total_evictions := po_total_evictions p1 + forced\<rparr>),
         \<lparr>ps_models_evicted = int (length quiet), ps_models_delayed = delayed, ps_force_evicted = forced\<rparr>))"

section \<open>Any calls\<close>

datatype pool_call =
    PC_acquire int string | PC_release string | PC_load int timestamp string string string | PC_unload string | PC_evict_idle int

fun pool_exec :: "pool_call \<Rightarrow> model_pool \<Rightarrow> model_pool" where
  "pool_exec (PC_acquire now mid) p = fst (pool_acquire now mid p)"
| "pool_exec (PC_release mid) p = pool_release mid p"
| "pool_exec (PC_load now stamp path mid ref) p = pool_load now stamp path mid ref p"
| "pool_exec (PC_unload mid) p = fst (pool_unload mid p)"
| "pool_exec (PC_evict_idle now) p = fst (evict_idle now p)"

text \<open>Each model under its name, no negative count, and the loads that were not evicted are those in the pool.\<close>

definition pool_sound :: "model_pool \<Rightarrow> bool" where
  "pool_sound p \<longleftrightarrow> wf_dict (po_pool p) \<and>
    (\<forall>mid m. dict_get (po_pool p) mid = Some m \<longrightarrow> pm_model_id_hash m = mid \<and> 0 \<le> pm_active_count m) \<and>
    po_total_loads p - po_total_evictions p = int (length (po_pool p))"

lemma pool_sound_set:
  assumes "pool_sound p" and "pm_model_id_hash m = mid" and "0 \<le> pm_active_count m" and "dict_get (po_pool p) mid \<noteq> None"
  shows "pool_sound (p\<lparr>po_pool := dict_set mid m (po_pool p)\<rparr>)"
  using assms by (auto simp: pool_sound_def dict_simps length_dict_set)

lemma pool_sound_evict:
  assumes "pool_sound p" and "dict_get (po_pool p) mid \<noteq> None"
  shows "pool_sound (evict why mid p)"
proof -
  have "wf_dict (po_pool p)" using assms(1) by (simp add: pool_sound_def)
  moreover obtain m where "dict_get (po_pool p) mid = Some m" using assms(2) by blast
  ultimately show ?thesis
    using length_dict_pop [of "po_pool p" mid m] assms(1) by (auto simp: pool_sound_def evict_def dict_simps)
qed

lemma pool_sound_evict_all:
  "pool_sound p \<Longrightarrow> distinct gone \<Longrightarrow> \<forall>mid \<in> set gone. dict_get (po_pool p) mid \<noteq> None \<Longrightarrow> pool_sound (fold (evict why) gone p)"
proof (induction gone arbitrary: p)
  case (Cons g gone)
  have "pool_sound (evict why g p)" using Cons.prems by (intro pool_sound_evict) simp_all
  moreover have "\<forall>mid \<in> set gone. dict_get (po_pool (evict why g p)) mid \<noteq> None"
    using Cons.prems by (auto simp: evict_def dict_simps)
  ultimately show ?case using Cons.IH [of "evict why g p"] Cons.prems by simp
qed simp

lemma evict_if_needed_cases:
  assumes "wf_dict (po_pool p)"
  obtains "evict_if_needed p = p" and "int (length (po_pool p)) < po_max_models p \<or> (\<forall>(mid, m) \<in> set (po_pool p). pm_active_count m \<noteq> 0)"
  | mid m where "evict_if_needed p = evict EV_lru_limit mid p" and "dict_get (po_pool p) mid = Some m" and "pm_active_count m = 0"
    and "po_max_models p \<le> int (length (po_pool p))"
    and "\<forall>(mid', m') \<in> set (po_pool p). pm_active_count m' = 0 \<longrightarrow> (pm_last_accessed m, mid) \<le> (pm_last_accessed m', mid')"
proof (cases "int (length (po_pool p)) < po_max_models p")
  case True
  then show thesis by (intro that(1)) (simp_all add: evict_if_needed_def)
next
  case False
  define key :: "string \<times> pooled_model \<Rightarrow> int \<times> string" where "key = (\<lambda>(mid, m). (pm_last_accessed m, mid))"
  define xs where "xs = sort_key key (po_pool p)"
  have set_xs: "set xs = set (po_pool p)" and sorted: "sorted (map key xs)" by (simp_all add: xs_def)
  have ev: "evict_if_needed p = (case next_or_none (\<lambda>(mid, m). pm_active_count m = 0) xs of None \<Rightarrow> p | Some (mid, m) \<Rightarrow> evict EV_lru_limit mid p)"
    using False by (simp add: evict_if_needed_def xs_def key_def)
  show thesis
  proof (cases "next_or_none (\<lambda>(mid, m). pm_active_count m = 0) xs")
    case None
    with set_xs ev show thesis by (intro that(1)) (auto simp: next_or_none_None)
  next
    case (Some z)
    then obtain mid m where z: "z = (mid, m)" by fastforce
    from Some z obtain i where i: "i < length xs" "xs ! i = (mid, m)" "pm_active_count m = 0"
      and before: "\<forall>j < i. \<not> (\<lambda>(mid, m). pm_active_count m = 0) (xs ! j)"
      by (auto simp: next_or_none_def find_Some_iff)
    have "(mid, m) \<in> set (po_pool p)" using i set_xs nth_mem by fastforce
    then have "dict_get (po_pool p) mid = Some m" using assms by (simp add: dict_item_get)
    moreover have "key (mid, m) \<le> key (mid', m')" if "(mid', m') \<in> set (po_pool p)" and "pm_active_count m' = 0" for mid' m'
    proof -
      from that(1) set_xs obtain j where j: "j < length xs" "xs ! j = (mid', m')" by (metis in_set_conv_nth)
      with before that(2) have "i \<le> j" by (metis case_prod_conv not_le_imp_less)
      then have "key (xs ! i) \<le> key (xs ! j)" using sorted j(1) by (auto simp: sorted_iff_nth_mono)
      then show ?thesis by (simp only: i(2) j(2))
    qed
    ultimately show thesis using ev Some z i False by (intro that(2) [of mid m]) (auto simp: key_def)
  qed
qed

lemma evict_if_needed_sound:
  assumes "pool_sound p"
  shows "pool_sound (evict_if_needed p)"
proof -
  have "wf_dict (po_pool p)" using assms by (simp add: pool_sound_def)
  then show ?thesis
    by (cases rule: evict_if_needed_cases) (simp_all add: assms pool_sound_evict)
qed

lemma pool_load_sound:
  assumes "pool_sound p"
  shows "pool_sound (pool_load now stamp path mid ref p)"
proof (cases "dict_get (po_pool p) mid")
  case (Some m)
  with assms pool_sound_set [OF assms, of "m\<lparr>pm_last_accessed := now\<rparr>" mid] show ?thesis
    by (auto simp: pool_load_def pool_sound_def)
next
  case None
  let ?p = "evict_if_needed p"
  have s: "pool_sound ?p" by (rule evict_if_needed_sound [OF assms])
  have "dict_get (po_pool ?p) mid = None"
    using None by (simp add: evict_if_needed_def evict_def dict_simps split: option.split)
  with s None show ?thesis
    by (auto simp: pool_load_def Let_def pool_sound_def dict_simps length_dict_set)
qed

lemma pool_exec_sound:
  assumes "pool_sound p"
  shows "pool_sound (pool_exec k p)"
proof -
  have wf: "wf_dict (po_pool p)" using assms by (simp add: pool_sound_def)
  have member: "pm_model_id_hash m = mid \<and> 0 \<le> pm_active_count m" if "dict_get (po_pool p) mid = Some m" for mid m
    using assms that by (simp add: pool_sound_def)
  show ?thesis
  proof (cases k)
    case (PC_acquire now mid)
    then show ?thesis
      using assms member by (auto simp: pool_acquire_def split: option.split intro!: pool_sound_set)
  next
    case (PC_release mid)
    then show ?thesis
      using assms member by (auto simp: pool_release_def split: option.split intro!: pool_sound_set)
  next
    case (PC_unload mid)
    then show ?thesis
      using assms by (auto simp: pool_unload_def split: option.split intro!: pool_sound_evict)
  next
    case (PC_evict_idle now)
    have "distinct (map fst (filter (\<lambda>(mid, m). idle now p m) (po_pool p)))"
      using wf by (simp add: wf_dict_def distinct_map_filter)
    then show ?thesis
      using assms PC_evict_idle wf by (auto simp: evict_idle_def Let_def dict_item_get intro!: pool_sound_evict_all)
  qed (simp add: assms pool_load_sound)
qed

definition pool_run :: "pool_call list \<Rightarrow> model_pool \<Rightarrow> model_pool" where
  "pool_run ks p = fold pool_exec ks p"

lemma pool_run_sound: "pool_sound p \<Longrightarrow> pool_sound (pool_run ks p)"
  unfolding pool_run_def by (induction ks arbitrary: p) (simp_all add: pool_exec_sound)

section \<open>Models in use\<close>

text \<open>How a call changes the count of generations of a model.\<close>

fun in_use_after :: "string \<Rightarrow> pool_call \<Rightarrow> int \<Rightarrow> int" where
  "in_use_after mid (PC_acquire now x) n = (if x = mid then n + 1 else n)"
| "in_use_after mid (PC_release x) n = (if x = mid then n - 1 else n)"
| "in_use_after mid k n = n"

lemma dict_get_fold_evict:
  "dict_get (po_pool (fold (evict why) gone p)) mid = (if mid \<in> set gone then None else dict_get (po_pool p) mid)"
  by (induction gone arbitrary: p) (auto simp: evict_def dict_simps)

lemma evict_if_needed_keeps_active:
  assumes "wf_dict (po_pool p)" and "dict_get (po_pool p) mid = Some m" and "0 < pm_active_count m"
  shows "dict_get (po_pool (evict_if_needed p)) mid = Some m"
  using assms(1) by (cases rule: evict_if_needed_cases) (use assms in \<open>auto simp: evict_def dict_simps\<close>)

lemma exec_keeps_active:
  assumes "pool_sound p" and "dict_get (po_pool p) mid = Some m" and "0 < pm_active_count m"
  shows "\<exists>m'. dict_get (po_pool (pool_exec k p)) mid = Some m' \<and> pm_model_ref m' = pm_model_ref m \<and>
    pm_active_count m' = in_use_after mid k (pm_active_count m)"
proof (cases k)
  case (PC_acquire now x)
  with assms(2) show ?thesis by (cases "dict_get (po_pool p) x") (auto simp: pool_acquire_def dict_simps)
next
  case (PC_release x)
  with assms(2,3) show ?thesis by (cases "dict_get (po_pool p) x") (auto simp: pool_release_def dict_simps)
next
  case (PC_load now stamp path x ref)
  show ?thesis
  proof (cases "dict_get (po_pool p) x")
    case None
    with assms(2) have "x \<noteq> mid" by auto
    with evict_if_needed_keeps_active [OF _ assms(2,3)] assms(1) None PC_load show ?thesis
      by (simp add: pool_load_def Let_def dict_simps pool_sound_def)
  qed (use assms(2) PC_load in \<open>auto simp: pool_load_def dict_simps\<close>)
next
  case (PC_unload x)
  with assms(2,3) show ?thesis by (cases "dict_get (po_pool p) x") (auto simp: pool_unload_def evict_def dict_simps)
next
  case (PC_evict_idle now)
  have "wf_dict (po_pool p)" using assms(1) by (simp add: pool_sound_def)
  with assms(2,3) have "mid \<notin> set (map fst (filter (\<lambda>(mid, m). idle now p m) (po_pool p)))"
    by (auto simp: dict_item_get idle_def)
  with PC_evict_idle assms(2) show ?thesis by (simp add: evict_idle_def Let_def dict_get_fold_evict)
qed

lemma run_keeps_active:
  assumes "pool_sound p" and "dict_get (po_pool p) mid = Some m"
    and "\<forall>i \<le> length ks. 0 < fold (in_use_after mid) (take i ks) (pm_active_count m)"
  shows "\<exists>m'. dict_get (po_pool (pool_run ks p)) mid = Some m' \<and> pm_model_ref m' = pm_model_ref m \<and>
    pm_active_count m' = fold (in_use_after mid) ks (pm_active_count m)"
  using assms
proof (induction ks arbitrary: p m)
  case (Cons k ks)
  have "0 < pm_active_count m" using Cons.prems(3) [rule_format, of 0] by simp
  from exec_keeps_active [OF Cons.prems(1,2) this, of k] obtain m1 where m1: "dict_get (po_pool (pool_exec k p)) mid = Some m1"
    and ref: "pm_model_ref m1 = pm_model_ref m" and n: "pm_active_count m1 = in_use_after mid k (pm_active_count m)" by blast
  have "\<forall>i \<le> length ks. 0 < fold (in_use_after mid) (take i ks) (pm_active_count m1)"
  proof (intro allI impI)
    fix i assume "i \<le> length ks"
    then show "0 < fold (in_use_after mid) (take i ks) (pm_active_count m1)"
      using Cons.prems(3) [rule_format, of "Suc i"] by (simp add: n)
  qed
  from Cons.IH [OF pool_exec_sound [OF Cons.prems(1)] m1 this] ref n show ?case by (simp add: pool_run_def)
qed (simp add: pool_run_def)

section \<open>Properties\<close>

definition one_model :: "int \<Rightarrow> model_pool" where
  "one_model n = (pool_init n 300)\<lparr>po_total_loads := 1, po_pool :=
    [(''m'', \<lparr>pm_model_ref = ''ref'', pm_model_id_hash = ''m'', pm_model_path = ''p'', pm_loaded_at = Aware 0, pm_last_accessed = 0,
      pm_active_count = 0\<rparr>)]\<rparr>"

lemma one_model_sound: "pool_sound (one_model n)"
  by (simp add: one_model_def pool_init_def pool_sound_def wf_dict_def dict_get_def)

text \<open>
  A model with a running generation is never taken out of the pool, and keeps its reference: whatever is loaded,
  unloaded, released or evicted, it is there as long as it was acquired more often than released.
\<close>

theorem model_in_use_never_evicted:
  assumes "pool_sound p" and "dict_get (po_pool p) mid = Some m"
    and "\<forall>i \<le> length ks. 0 < fold (in_use_after mid) (take i ks) (pm_active_count m)"
  shows "get_model mid (pool_run ks p) = Some (pm_model_ref m)"
  using run_keeps_active [OF assms] by (auto simp: get_model_def)

lemma model_in_use_never_evicted_witness:
  "get_model ''m'' (pool_run [PC_unload ''m'', PC_load 1 (Aware 1) ''q'' ''n'' ''other'', PC_evict_idle 1000]
    (fst (pool_acquire 0 ''m'' (one_model 1)))) = Some ''ref''"
proof -
  define p where "p = fst (pool_acquire 0 ''m'' (one_model 1))"
  define ks where "ks = [PC_unload ''m'', PC_load 1 (Aware 1) ''q'' ''n'' ''other'', PC_evict_idle 1000]"
  have s: "pool_sound p" using pool_exec_sound [OF one_model_sound, of "PC_acquire 0 ''m''"] by (simp add: p_def)
  obtain m where m: "dict_get (po_pool p) ''m'' = Some m" "pm_model_ref m = ''ref''" "pm_active_count m = 1"
    by (simp add: p_def one_model_def pool_acquire_def dict_get_def dict_set_def)
  have "\<forall>i \<le> length ks. 0 < fold (in_use_after ''m'') (take i ks) (pm_active_count m)"
    by (auto simp: ks_def m(3) take_Cons')
  from model_in_use_never_evicted [OF s m(1) this] m(2) show ?thesis by (simp add: p_def ks_def)
qed

text \<open>
  When a full pool makes room it takes the least recently used model without a generation, ties by name, and
  nothing else; it takes none exactly when there is room or every model is in use.
\<close>

theorem eviction_takes_least_recently_used:
  assumes "wf_dict (po_pool p)"
  shows "(evict_if_needed p = p \<and> (int (length (po_pool p)) < po_max_models p \<or> (\<forall>(mid, m) \<in> set (po_pool p). pm_active_count m \<noteq> 0))) \<or>
    (\<exists>mid m. evict_if_needed p = evict EV_lru_limit mid p \<and> dict_get (po_pool p) mid = Some m \<and> pm_active_count m = 0 \<and>
      po_max_models p \<le> int (length (po_pool p)) \<and>
      (\<forall>(mid', m') \<in> set (po_pool p). pm_active_count m' = 0 \<longrightarrow> (pm_last_accessed m, mid) \<le> (pm_last_accessed m', mid')))"
  by (rule evict_if_needed_cases [OF assms]) blast+

lemma eviction_takes_least_recently_used_witness: "evict_if_needed (one_model 1) = evict EV_lru_limit ''m'' (one_model 1)"
proof -
  have "wf_dict (po_pool (one_model 1))" by (simp add: one_model_def wf_dict_def)
  from eviction_takes_least_recently_used [OF this] show ?thesis
    by (auto simp: one_model_def pool_init_def dict_get_def split: if_splits)
qed

text \<open>
  After any calls the pool holds each model under its own name, no count is negative, and what was loaded and not
  evicted is what is in the pool; a shutdown without agents empties it and keeps the account.
\<close>

theorem pool_accounts:
  assumes "pool_sound p"
  shows "pool_sound (pool_run ks p) \<and> po_pool (fst (pool_shutdown False (pool_run ks p))) = [] \<and>
    po_total_evictions (fst (pool_shutdown False (pool_run ks p))) = po_total_loads (pool_run ks p)"
proof -
  let ?p = "pool_run ks p"
  have s: "pool_sound ?p" by (rule pool_run_sound [OF assms])
  define quiet where "quiet = map fst (filter (\<lambda>(mid, m). pm_active_count m = 0) (po_pool ?p))"
  have "distinct quiet" and "\<forall>mid \<in> set quiet. dict_get (po_pool ?p) mid \<noteq> None"
    using s by (auto simp: quiet_def pool_sound_def wf_dict_def distinct_map_filter dict_item_get [unfolded wf_dict_def])
  from pool_sound_evict_all [OF s this] have "pool_sound (fold (evict EV_shutdown) quiet ?p)" .
  moreover have "po_total_loads (fold (evict EV_shutdown) quiet q) = po_total_loads q" for q
    by (induction quiet arbitrary: q) (simp_all add: evict_def)
  ultimately show ?thesis using s by (simp add: pool_shutdown_def quiet_def Let_def pool_sound_def)
qed

lemma pool_accounts_witness: "po_pool (fst (pool_shutdown False (pool_run [PC_acquire 1 ''m''] (one_model 1)))) = []"
  by (rule pool_accounts [THEN conjunct2, THEN conjunct1]) (rule one_model_sound)

text \<open>
  A load takes the pool over its limit only when every model is in use or it was over the limit before; it never
  brings a pool that is over its limit back.
\<close>

theorem load_over_limit:
  assumes "pool_sound p" and "dict_get (po_pool p) mid = None"
  shows "int (length (po_pool (pool_load now stamp path mid ref p))) =
    (if int (length (po_pool p)) < po_max_models p \<or> (\<forall>(x, m) \<in> set (po_pool p). pm_active_count m \<noteq> 0)
     then int (length (po_pool p)) + 1 else int (length (po_pool p)))"
proof -
  have wf: "wf_dict (po_pool p)" using assms(1) by (simp add: pool_sound_def)
  have none: "dict_get (po_pool (evict_if_needed p)) mid = None"
    using assms(2) by (simp add: evict_if_needed_def evict_def dict_simps split: option.split)
  have len: "length (po_pool (pool_load now stamp path mid ref p)) = Suc (length (po_pool (evict_if_needed p)))"
    using assms(2) none by (simp add: pool_load_def Let_def length_dict_set)
  from wf show ?thesis
  proof (cases rule: evict_if_needed_cases)
    case 1
    then show ?thesis using len by (auto split: if_splits)
  next
    case (2 x m)
    then have "(x, m) \<in> set (po_pool p)" using wf by (simp add: dict_item_get)
    then have "\<not> (\<forall>(x, m) \<in> set (po_pool p). pm_active_count m \<noteq> 0)" using 2(3) by force
    with 2 len length_dict_pop [OF wf 2(2)] show ?thesis by (simp add: evict_def)
  qed
qed

lemma load_over_limit_witness: "length (po_pool (pool_load 1 (Aware 1) ''q'' ''n'' ''r'' (one_model 1))) = 1"
  using load_over_limit [OF one_model_sound, of 1 "''n''" 1 "Aware 1" "''q''" "''r''"] by (simp add: one_model_def pool_init_def dict_get_def)

end
