(* ===== verification/Runtime_Ledger.thy ===== *)
theory Runtime_Ledger
  imports Relay_Interfaces
begin

text \<open>
  The evidence ledgers of the local runtime, \<^verbatim>\<open>rig_relay/local_inference/runtime/_evidence.py\<close>.  A line is blank, no
  JSON, or an envelope.  SHA-256 over an envelope without its digest and the validation of a payload against the schema
  of the ledger are parameters; each operation holds the lock of the file.  A write can be short: then part of a line is
  left, which is no JSON.
\<close>

section \<open>Envelopes\<close>

record envelope =
  rv_operation_id :: string
  rv_event :: string
  rv_written_at :: timestamp
  rv_ledger :: string
  rv_prev_digest :: string
  rv_digest :: string
  rv_payload :: json

record ledger_env =
  rl_sha :: "envelope \<Rightarrow> string"
  rl_valid :: "json \<Rightarrow> bool"
  rl_name :: string

definition envelope_digest :: "ledger_env \<Rightarrow> envelope \<Rightarrow> string" where
  "envelope_digest env e = rl_sha env (e\<lparr>rv_digest := ''''\<rparr>)"

definition build_envelope :: "ledger_env \<Rightarrow> timestamp \<Rightarrow> string \<Rightarrow> string \<Rightarrow> string \<Rightarrow> json \<Rightarrow> envelope" where
  "build_envelope env now prev op event payload =
    (let e = \<lparr>rv_operation_id = op, rv_event = event, rv_written_at = now, rv_ledger = rl_name env, rv_prev_digest = prev,
              rv_digest = '''', rv_payload = payload\<rparr>
     in e\<lparr>rv_digest := envelope_digest env e\<rparr>)"

section \<open>Reading and appending\<close>

datatype ledger_error = Corrupt_line | Missing_operation_id | Missing_digest | Schema_violation | Short_write
  | Digest_mismatch | Chain_break | Duplicate_operation

type_synonym envelope_file = "envelope jsonl list"

fun read_lines :: "envelope_file \<Rightarrow> ledger_error + envelope list" where
  "read_lines [] = Inr []"
| "read_lines (Blank # ls) = read_lines ls"
| "read_lines (BadJson # ls) = Inl Corrupt_line"
| "read_lines (Entry e # ls) = (case read_lines ls of Inl x \<Rightarrow> Inl x | Inr es \<Rightarrow> Inr (e # es))"

text \<open>
  An operation identifier is written once: with an entry of it nothing is written and the digest of that entry is
  returned, whatever the event and payload.
\<close>

definition append_locked ::
  "ledger_env \<Rightarrow> bool \<Rightarrow> timestamp \<Rightarrow> string \<Rightarrow> string \<Rightarrow> json \<Rightarrow> envelope_file \<Rightarrow> envelope_file \<times> (ledger_error + string)" where
  "append_locked env whole now op event payload ls =
    (case read_lines ls of
       Inl x \<Rightarrow> (ls, Inl x)
     | Inr es \<Rightarrow>
         (case next_or_none (\<lambda>e. rv_operation_id e = op) es of
            Some e \<Rightarrow> (ls, Inr (rv_digest e))
          | None \<Rightarrow>
              let e = build_envelope env now (if es = [] then '''' else rv_digest (last es)) op event payload
              in if \<not> rl_valid env payload then (ls, Inl Schema_violation)
                 else if rv_digest e = '''' then (ls, Inl Missing_digest)
                 else if \<not> whole then (ls @ [BadJson], Inl Short_write)
                 else (ls @ [Entry e], Inr (rv_digest e))))"

definition append_envelope ::
  "ledger_env \<Rightarrow> bool \<Rightarrow> timestamp \<Rightarrow> string \<Rightarrow> string \<Rightarrow> json \<Rightarrow> envelope_file \<Rightarrow> envelope_file \<times> (ledger_error + string)" where
  "append_envelope env whole now op event payload ls =
    (if op = '''' then (ls, Inl Missing_operation_id) else append_locked env whole now op event payload ls)"

text \<open>The chain is checked entry by entry; \<open>prev\<close> is the digest before, \<open>seen\<close> the identifiers so far.\<close>

fun check_chain :: "ledger_env \<Rightarrow> string \<Rightarrow> string list \<Rightarrow> envelope list \<Rightarrow> ledger_error option" where
  "check_chain env prev seen [] = None"
| "check_chain env prev seen (e # es) =
    (if envelope_digest env e \<noteq> rv_digest e then Some Digest_mismatch
     else if prev \<noteq> '''' \<and> rv_prev_digest e \<noteq> prev then Some Chain_break
     else if rv_operation_id e \<noteq> '''' \<and> rv_operation_id e \<in> set seen then Some Duplicate_operation
     else if \<not> rl_valid env (rv_payload e) then Some Schema_violation
     else check_chain env (envelope_digest env e)
       (if rv_operation_id e = '''' then seen else rv_operation_id e # seen) es)"

definition reconstruct :: "ledger_env \<Rightarrow> envelope_file \<Rightarrow> ledger_error + envelope list" where
  "reconstruct env ls =
    (case read_lines ls of
       Inl x \<Rightarrow> Inl x
     | Inr es \<Rightarrow> (case check_chain env '''' [] es of Some x \<Rightarrow> Inl x | None \<Rightarrow> Inr es))"

definition last_envelope_digest :: "envelope_file \<Rightarrow> ledger_error + string" where
  "last_envelope_digest ls =
    (case read_lines ls of Inl x \<Rightarrow> Inl x | Inr es \<Rightarrow> Inr (if es = [] then '''' else rv_digest (last es)))"

section \<open>A ledger under its own operations\<close>

text \<open>Only whole lines, a chain that verifies, and one entry of each identifier.\<close>

definition ledger_intact :: "ledger_env \<Rightarrow> envelope_file \<Rightarrow> bool" where
  "ledger_intact env ls \<longleftrightarrow> (\<exists>es. read_lines ls = Inr es \<and> check_chain env '''' [] es = None \<and> (\<forall>e \<in> set es. rv_operation_id e \<noteq> ''''))"

lemma read_lines_append: "read_lines ls = Inr es \<Longrightarrow> read_lines (ls @ [Entry e]) = Inr (es @ [e])"
  by (induction ls arbitrary: es rule: read_lines.induct) (auto split: sum.splits)

lemma read_lines_broken: "read_lines ls = Inr es \<Longrightarrow> read_lines (ls @ BadJson # ls') = Inl Corrupt_line"
  by (induction ls arbitrary: es rule: read_lines.induct) (auto split: sum.splits)

lemma read_lines_short: "read_lines ls = Inl x \<Longrightarrow> read_lines (ls @ ls') = Inl x"
  by (induction ls arbitrary: x rule: read_lines.induct) (auto split: sum.splits)

text \<open>The digest at the end of a chain.\<close>

definition chain_tip :: "string \<Rightarrow> envelope list \<Rightarrow> string" where
  "chain_tip prev es = (if es = [] then prev else rv_digest (last es))"

lemma check_chain_snoc:
  "check_chain env prev seen (es @ [e]) = None \<longleftrightarrow>
    check_chain env prev seen es = None \<and> envelope_digest env e = rv_digest e \<and>
    (chain_tip prev es \<noteq> '''' \<longrightarrow> rv_prev_digest e = chain_tip prev es) \<and>
    (rv_operation_id e = '''' \<or> rv_operation_id e \<notin> set seen \<and> rv_operation_id e \<notin> rv_operation_id ` set es) \<and>
    rl_valid env (rv_payload e)"
proof (induction es arbitrary: prev seen)
  case (Cons x es)
  show ?case
  proof (cases "envelope_digest env x = rv_digest x")
    case True
    then show ?thesis using Cons.IH [of "envelope_digest env x"] by (auto simp: chain_tip_def)
  qed simp
qed (auto simp: chain_tip_def)

lemma built_digest: "rv_digest (build_envelope env now prev op event payload) = envelope_digest env (build_envelope env now prev op event payload)"
  by (simp add: build_envelope_def envelope_digest_def Let_def)

lemma built_fields [simp]:
  "rv_operation_id (build_envelope env now prev op event payload) = op"
  "rv_prev_digest (build_envelope env now prev op event payload) = prev"
  "rv_event (build_envelope env now prev op event payload) = event"
  "rv_payload (build_envelope env now prev op event payload) = payload"
  by (simp_all add: build_envelope_def Let_def)

lemma append_envelope_eq:
  "read_lines ls = Inr es \<Longrightarrow> append_envelope env whole now op event payload ls =
    (if op = '''' then (ls, Inl Missing_operation_id)
     else case next_or_none (\<lambda>e. rv_operation_id e = op) es of
       Some e \<Rightarrow> (ls, Inr (rv_digest e))
     | None \<Rightarrow>
         let e = build_envelope env now (chain_tip '''' es) op event payload
         in if \<not> rl_valid env payload then (ls, Inl Schema_violation)
            else if rv_digest e = '''' then (ls, Inl Missing_digest)
            else if \<not> whole then (ls @ [BadJson], Inl Short_write)
            else (ls @ [Entry e], Inr (rv_digest e)))"
  by (simp only: append_envelope_def append_locked_def chain_tip_def sum.case)

lemma envelope_append_cases:
  assumes "read_lines ls = Inr es"
  obtains "fst (append_envelope env whole now op event payload ls) = ls"
  | "fst (append_envelope env whole now op event payload ls) = ls @ [BadJson]" and "\<not> whole"
  | e where "append_envelope env whole now op event payload ls = (ls @ [Entry e], Inr (rv_digest e))" and "op \<noteq> ''''"
    and "e = build_envelope env now (chain_tip '''' es) op event payload" and "rl_valid env payload"
    and "op \<notin> rv_operation_id ` set es" and "rv_digest e \<noteq> ''''"
proof -
  let ?e = "build_envelope env now (chain_tip '''' es) op event payload"
  show thesis
  proof (cases "op = '''' \<or> next_or_none (\<lambda>e. rv_operation_id e = op) es \<noteq> None \<or> \<not> rl_valid env payload \<or> rv_digest ?e = ''''")
    case True
    then show thesis
      by (intro that(1)) (auto simp: append_envelope_eq [OF assms] Let_def split: option.split)
  next
    case False
    then have "op \<notin> rv_operation_id ` set es" by (auto simp: next_or_none_None)
    with False show thesis
      by (cases whole) (intro that(2) that(3) [of ?e]; auto simp: append_envelope_eq [OF assms] Let_def)+
  qed
qed

lemma append_keeps_intact:
  assumes "ledger_intact env ls" and whole
  shows "ledger_intact env (fst (append_envelope env whole now op event payload ls))"
proof -
  from assms(1) obtain es where es: "read_lines ls = Inr es" and chain: "check_chain env '''' [] es = None"
    and ids: "\<forall>e \<in> set es. rv_operation_id e \<noteq> ''''" by (auto simp: ledger_intact_def)
  from es show ?thesis
  proof (cases rule: envelope_append_cases [where env = env and whole = whole and now = now and op = op and event = event and payload = payload])
    case (3 e)
    have "check_chain env '''' [] (es @ [e]) = None"
      using 3 chain built_digest [of env now "chain_tip '''' es" op event payload]
      by (auto simp: check_chain_snoc)
    with 3 ids read_lines_append [OF es, of e] show ?thesis by (auto simp: ledger_intact_def)
  qed (use assms in simp_all)
qed

record ledger_write =
  lw_whole :: bool
  lw_now :: timestamp
  lw_op :: string
  lw_event :: string
  lw_payload :: json

definition write_one :: "ledger_env \<Rightarrow> ledger_write \<Rightarrow> envelope_file \<Rightarrow> envelope_file" where
  "write_one env w ls = fst (append_envelope env (lw_whole w) (lw_now w) (lw_op w) (lw_event w) (lw_payload w) ls)"

lemma writes_keep_intact:
  "ledger_intact env ls \<Longrightarrow> \<forall>w \<in> set ws. lw_whole w \<Longrightarrow> ledger_intact env (fold (write_one env) ws ls)"
  by (induction ws arbitrary: ls) (simp_all add: write_one_def append_keeps_intact)

lemma write_one_extends:
  assumes "read_lines ls = Inr es"
  shows "\<exists>more. write_one env w ls = ls @ more"
  using assms unfolding write_one_def
  by (cases rule: envelope_append_cases [where env = env and whole = "lw_whole w" and now = "lw_now w" and op = "lw_op w" and event = "lw_event w"
        and payload = "lw_payload w"]) auto

text \<open>An entry of an identifier stays the only one: later writes of it change nothing.\<close>

lemma write_again:
  assumes "read_lines ls = Inr es" and "e \<in> set es" and "rv_operation_id e = lw_op w"
  shows "write_one env w ls = ls"
proof -
  have "next_or_none (\<lambda>x. rv_operation_id x = lw_op w) es \<noteq> None" using assms(2,3) by (auto simp: next_or_none_None)
  then show ?thesis
    using assms(1) by (auto simp: write_one_def append_envelope_def append_locked_def split: option.split)
qed

section \<open>Properties\<close>

definition plain_ledger_env :: ledger_env where
  "plain_ledger_env = \<lparr>rl_sha = (\<lambda>e. ''sha256:'' @ rv_prev_digest e @ rv_operation_id e), rl_valid = (\<lambda>p. True), rl_name = ''l''\<rparr>"

text \<open>
  Whatever is written, a ledger whose writes are whole verifies from its first to its last entry, and it holds one
  entry of an identifier at most.
\<close>

theorem runtime_ledger_reconstructs:
  assumes "\<forall>w \<in> set ws. lw_whole w"
  shows "\<exists>es. reconstruct env (fold (write_one env) ws []) = Inr es \<and> distinct (map rv_operation_id es)"
proof -
  have "ledger_intact env []" by (simp add: ledger_intact_def)
  from writes_keep_intact [OF this assms] obtain es where es: "read_lines (fold (write_one env) ws []) = Inr es"
    and chain: "check_chain env '''' [] es = None" and ids: "\<forall>e \<in> set es. rv_operation_id e \<noteq> ''''"
    by (auto simp: ledger_intact_def)
  have "check_chain env prev seen xs = None \<Longrightarrow> \<forall>e \<in> set xs. rv_operation_id e \<noteq> '''' \<Longrightarrow>
      distinct (map rv_operation_id xs)" for prev seen xs
    by (induction xs rule: rev_induct) (auto simp: check_chain_snoc)
  with es chain ids show ?thesis by (auto simp: reconstruct_def)
qed

lemma runtime_ledger_reconstructs_witness:
  "\<exists>es. reconstruct plain_ledger_env (fold (write_one plain_ledger_env)
    [\<lparr>lw_whole = True, lw_now = Aware 0, lw_op = ''a'', lw_event = ''x'', lw_payload = JNull\<rparr>] []) = Inr es \<and> distinct (map rv_operation_id es)"
  by (rule runtime_ledger_reconstructs) simp

text \<open>
  The ledger keeps the first entry of an operation only: once an identifier is written, every later write of it,
  whatever its event and payload, leaves the file as it is and answers with the digest of the first.
\<close>

theorem later_entry_of_operation_dropped:
  assumes "read_lines ls = Inr es" and "next_or_none (\<lambda>x. rv_operation_id x = op) es = Some e" and "op \<noteq> ''''"
  shows "append_envelope env whole now op event payload ls = (ls, Inr (rv_digest e))"
  using assms by (simp add: append_envelope_def append_locked_def)

lemma later_entry_of_operation_dropped_witness:
  "\<exists>d. append_envelope plain_ledger_env True (Aware 1) ''a'' ''completed'' JNull
    [Entry (build_envelope plain_ledger_env (Aware 0) '''' ''a'' ''admitted'' JNull)] =
    ([Entry (build_envelope plain_ledger_env (Aware 0) '''' ''a'' ''admitted'' JNull)], Inr d)"
  using later_entry_of_operation_dropped [of "[Entry (build_envelope plain_ledger_env (Aware 0) '''' ''a'' ''admitted'' JNull)]" _ "''a''"]
  by (simp add: next_or_none_def)

text \<open>After one short write the ledger can neither be read nor appended to, for ever.\<close>

theorem short_write_ends_ledger:
  assumes "read_lines ls = Inr es"
  shows "fst (append_envelope env whole now op event payload (ls @ [BadJson])) = ls @ [BadJson] \<and>
    reconstruct env (fold (write_one env) ws (ls @ [BadJson])) = Inl Corrupt_line"
proof -
  have broken: "read_lines (ls @ [BadJson]) = Inl Corrupt_line" by (rule read_lines_broken [OF assms])
  then have same: "append_envelope env b t p v j (ls @ [BadJson]) =
      (ls @ [BadJson], Inl (if p = '''' then Missing_operation_id else Corrupt_line))" for b t p v j
    by (simp add: append_envelope_def append_locked_def)
  then have "fold (write_one env) ws (ls @ [BadJson]) = ls @ [BadJson]"
    by (induction ws) (simp_all add: write_one_def)
  with same broken show ?thesis by (simp add: reconstruct_def)
qed

lemma short_write_ends_ledger_witness:
  "reconstruct plain_ledger_env (fold (write_one plain_ledger_env) [] ([] @ [BadJson])) = Inl Corrupt_line"
  by (rule short_write_ends_ledger [THEN conjunct2]) simp

end
