(* ===== verification/Prompt_Cache.thy ===== *)
theory Prompt_Cache
  imports Relay_Interfaces "HOL-Library.Product_Lexorder" "HOL-Library.Multiset"
begin

text \<open>
  The cache of prompts, \<^verbatim>\<open>rig_relay/local_inference/runtime/_cache_authority.py\<close>: one stored prompt and its cache per
  model, the entries of tool loops, and the files on disk.  The cache of the inference library, which is asked first, is
  an answer; hashes of models and prompts are keys.  Sizes of files are left out.
\<close>

section \<open>The cache\<close>

text \<open>A segment of a cache is an array of the library; the streaming runtime also puts tokens there.\<close>

datatype cache_segment = KV_segment string | Token_segment int

record prompt_cache =
  pc_ready :: bool
  pc_store :: "(string, cache_segment list) dict"
  pc_prompts :: "(string, int list) dict"
  pc_loops :: "(string, string list) dict"
  pc_hits :: nat
  pc_misses :: nat
  pc_write_backs :: nat
  pc_clears :: nat
  pc_ssd_enabled :: bool
  pc_ssd_dir :: string
  pc_max_ssd :: int
  pc_ssd_count :: int
  pc_files :: "(string, int) dict"

definition cache_init :: "string \<Rightarrow> bool \<Rightarrow> int \<Rightarrow> prompt_cache" where
  "cache_init dir enabled max_entries =
    \<lparr>pc_ready = False, pc_store = [], pc_prompts = [], pc_loops = [], pc_hits = 0, pc_misses = 0, pc_write_backs = 0, pc_clears = 0,
     pc_ssd_enabled = enabled, pc_ssd_dir = dir, pc_max_ssd = max_entries, pc_ssd_count = 0, pc_files = []\<rparr>"

definition ssd_enabled :: "prompt_cache \<Rightarrow> bool" where
  "ssd_enabled c \<longleftrightarrow> pc_ssd_enabled c \<and> pc_ssd_dir c \<noteq> ''''"

text \<open>The library can be absent.\<close>

definition ensure_cache :: "bool \<Rightarrow> prompt_cache \<Rightarrow> prompt_cache" where
  "ensure_cache available c = (if available then c\<lparr>pc_ready := True\<rparr> else c)"

fun match_len :: "int list \<Rightarrow> int list \<Rightarrow> nat" where
  "match_len (t # stored) (u # tokens) = (if t = u then Suc (match_len stored tokens) else 0)"
| "match_len stored tokens = 0"

text \<open>\<open>lru\<close> is what the library finds; \<open>None\<close> is nothing or an exception.\<close>

definition fetch_cache ::
  "bool \<Rightarrow> (cache_segment list \<times> int list) option \<Rightarrow> string \<Rightarrow> int list \<Rightarrow> prompt_cache \<Rightarrow> prompt_cache \<times> cache_segment list option \<times> int list" where
  "fetch_cache available lru model tokens c0 =
    (let c = ensure_cache available c0
     in case (if pc_ready c then lru else None) of
          Some (cache, rest) \<Rightarrow> (c\<lparr>pc_hits := pc_hits c + 1\<rparr>, Some cache, rest)
        | None \<Rightarrow>
            (case (dict_get (pc_prompts c) model, dict_get (pc_store c) model) of
               (Some stored, Some cache) \<Rightarrow>
                 if 0 < match_len stored tokens
                 then (c\<lparr>pc_hits := pc_hits c + 1\<rparr>, Some cache, drop (match_len stored tokens) tokens)
                 else (c\<lparr>pc_misses := pc_misses c + 1\<rparr>, None, tokens)
             | _ \<Rightarrow> (c\<lparr>pc_misses := pc_misses c + 1\<rparr>, None, tokens)))"

text \<open>The oldest files go until the bound is kept, and the count becomes the number of files.\<close>

definition evict_ssd :: "prompt_cache \<Rightarrow> prompt_cache" where
  "evict_ssd c =
    (if pc_ssd_count c \<le> pc_max_ssd c then c
     else
       let files = sort_key (\<lambda>(name, mtime). (mtime, name)) (pc_files c);
           gone = map fst (take (nat (int (length files) - pc_max_ssd c)) files);
           rest = fold dict_pop gone (pc_files c)
       in c\<lparr>pc_files := rest, pc_ssd_count := int (length rest)\<rparr>)"

definition save_to_disk :: "bool \<Rightarrow> int \<Rightarrow> string \<Rightarrow> prompt_cache \<Rightarrow> prompt_cache" where
  "save_to_disk saved now name c =
    (if pc_ssd_dir c = '''' \<or> \<not> saved then c
     else evict_ssd (c\<lparr>pc_files := dict_set name now (pc_files c), pc_ssd_count := pc_ssd_count c + 1\<rparr>))"

text \<open>\<open>cache = None\<close> is no cache; \<open>written\<close> says whether the library took it, \<open>saved\<close> whether the file was written.\<close>

definition insert_cache ::
  "bool \<Rightarrow> bool \<Rightarrow> bool \<Rightarrow> int \<Rightarrow> string \<Rightarrow> string \<Rightarrow> int list \<Rightarrow> cache_segment list option \<Rightarrow> string \<Rightarrow> string \<Rightarrow> prompt_cache \<Rightarrow> prompt_cache" where
  "insert_cache available written saved now name model tokens cache privacy loop c0 =
    (let c = ensure_cache available c0
     in case cache of
          None \<Rightarrow> c
        | Some segments \<Rightarrow>
            if privacy = ''secret_bearing'' then c
            else
              let c1 = (if pc_ready c \<and> written then c\<lparr>pc_write_backs := pc_write_backs c + 1\<rparr> else c);
                  c2 = c1\<lparr>pc_store := dict_set model segments (pc_store c1), pc_prompts := dict_set model tokens (pc_prompts c1)\<rparr>;
                  c3 = (if loop = '''' then c2
                        else c2\<lparr>pc_loops := dict_set loop
                          ((case dict_get (pc_loops c2) loop of None \<Rightarrow> [] | Some ks \<Rightarrow> ks) @ [model]) (pc_loops c2)\<rparr>)
              in if ssd_enabled c3 then save_to_disk saved now name c3 else c3)"

definition clear_cache :: "prompt_cache \<Rightarrow> prompt_cache" where
  "clear_cache c =
    c\<lparr>pc_clears := pc_clears c + 1, pc_ready := False, pc_hits := 0, pc_misses := 0, pc_write_backs := 0, pc_store := [],
      pc_prompts := [], pc_loops := []\<rparr>"

fun drop_entries :: "string list \<Rightarrow> prompt_cache \<times> int \<Rightarrow> prompt_cache \<times> int" where
  "drop_entries [] (c, n) = (c, n)"
| "drop_entries (k # ks) (c, n) =
    drop_entries ks (c\<lparr>pc_store := dict_pop k (pc_store c), pc_prompts := dict_pop k (pc_prompts c)\<rparr>,
      if dict_get (pc_store c) k = None then n else n + 1)"

definition invalidate_loop_cache :: "string \<Rightarrow> prompt_cache \<Rightarrow> prompt_cache \<times> int" where
  "invalidate_loop_cache loop c =
    (if loop = '''' then (c, 0)
     else drop_entries (case dict_get (pc_loops c) loop of None \<Rightarrow> [] | Some ks \<Rightarrow> ks) (c\<lparr>pc_loops := dict_pop loop (pc_loops c)\<rparr>, 0))"

definition mark_corrupt_entry :: "string \<Rightarrow> prompt_cache \<Rightarrow> prompt_cache \<times> bool" where
  "mark_corrupt_entry model c = (c, False)"

section \<open>The matched prefix\<close>

lemma match_len_common_prefix: "match_len stored tokens = length (longest_common_prefix stored tokens)"
  by (induction stored tokens rule: match_len.induct) auto

lemma match_len_take: "take (match_len stored tokens) tokens = longest_common_prefix stored tokens"
  by (metis append_eq_conv_conj longest_common_prefix_prefix2 match_len_common_prefix prefixE)

lemma match_len_complete_iff: "match_len stored tokens = length stored \<longleftrightarrow> prefix stored tokens"
  by (induction stored tokens rule: match_len.induct) auto

section \<open>Any calls\<close>

datatype cache_call =
    CC_fetch bool "(cache_segment list \<times> int list) option" string "int list"
  | CC_insert bool bool bool int string string "int list" "cache_segment list option" string string
  | CC_clear | CC_invalidate string | CC_mark string

fun cache_exec :: "cache_call \<Rightarrow> prompt_cache \<Rightarrow> prompt_cache" where
  "cache_exec (CC_fetch a lru model tokens) c = fst (fetch_cache a lru model tokens c)"
| "cache_exec (CC_insert a w s now name model tokens cache privacy loop) c = insert_cache a w s now name model tokens cache privacy loop c"
| "cache_exec CC_clear c = clear_cache c"
| "cache_exec (CC_invalidate loop) c = fst (invalidate_loop_cache loop c)"
| "cache_exec (CC_mark model) c = fst (mark_corrupt_entry model c)"

text \<open>Every stored prompt comes from an insertion that was not of secret-bearing content.\<close>

definition stored_by :: "cache_call set \<Rightarrow> prompt_cache \<Rightarrow> bool" where
  "stored_by ks c \<longleftrightarrow>
    (\<forall>model tokens. dict_get (pc_prompts c) model = Some tokens \<longrightarrow>
      (\<exists>a w s now name cache privacy loop.
        CC_insert a w s now name model tokens cache privacy loop \<in> ks \<and> privacy \<noteq> ''secret_bearing''))"

lemma prompts_drop_entries: "dict_get (pc_prompts (fst (drop_entries ks (c, n)))) m = Some ts \<Longrightarrow> dict_get (pc_prompts c) m = Some ts"
proof (induction ks arbitrary: c n)
  case (Cons k ks)
  let ?c = "c\<lparr>pc_store := dict_pop k (pc_store c), pc_prompts := dict_pop k (pc_prompts c)\<rparr>"
  let ?n = "if dict_get (pc_store c) k = None then n else n + 1"
  from Cons.prems have "dict_get (pc_prompts (fst (drop_entries ks (?c, ?n)))) m = Some ts" by simp
  from Cons.IH [OF this] show ?case by (simp add: dict_simps split: if_splits)
qed simp

lemma prompts_save [simp]: "pc_prompts (save_to_disk s now name c) = pc_prompts c"
  by (simp add: save_to_disk_def evict_ssd_def Let_def)

lemma fetch_keeps_prompts [simp]: "pc_prompts (fst (fetch_cache a lru m ts c)) = pc_prompts c"
  by (auto simp: fetch_cache_def ensure_cache_def Let_def split: option.splits prod.splits)

lemma exec_stored_by:
  assumes "stored_by ks c"
  shows "stored_by (insert k ks) (cache_exec k c)"
proof (cases k)
  case (CC_fetch a lru m ts)
  then have "pc_prompts (cache_exec k c) = pc_prompts c" by simp
  with assms show ?thesis unfolding stored_by_def by (metis insertI2)
next
  case (CC_insert a w s now name model tokens cache privacy loop)
  show ?thesis
  proof (cases "cache = None \<or> privacy = ''secret_bearing''")
    case True
    then have "pc_prompts (cache_exec k c) = pc_prompts c"
      by (auto simp: CC_insert insert_cache_def ensure_cache_def Let_def split: option.split)
    with assms show ?thesis unfolding stored_by_def by (metis insert_iff)
  next
    case False
    then have eq: "pc_prompts (cache_exec k c) = dict_set model tokens (pc_prompts c)"
      by (auto simp: CC_insert insert_cache_def ensure_cache_def Let_def)
    have priv: "privacy \<noteq> ''secret_bearing''" using False by simp
    show ?thesis
      unfolding stored_by_def eq
    proof (intro allI impI)
      fix m ts assume get: "dict_get (dict_set model tokens (pc_prompts c)) m = Some ts"
      show "\<exists>a w s now name cache privacy loop. CC_insert a w s now name m ts cache privacy loop \<in> insert k ks \<and> privacy \<noteq> ''secret_bearing''"
      proof (cases "m = model")
        case True
        with get have "ts = tokens" by (simp add: dict_simps)
        with True priv CC_insert show ?thesis by (metis insertI1)
      next
        case False
        with get have "dict_get (pc_prompts c) m = Some ts" by (simp add: dict_simps)
        with assms show ?thesis unfolding stored_by_def by (metis insertI2)
      qed
    qed
  qed
next
  case CC_clear
  then show ?thesis by (simp add: stored_by_def clear_cache_def)
next
  case (CC_invalidate loop)
  have "dict_get (pc_prompts (cache_exec k c)) m = Some ts \<Longrightarrow> dict_get (pc_prompts c) m = Some ts" for m ts
    using CC_invalidate prompts_drop_entries [of _ "c\<lparr>pc_loops := dict_pop loop (pc_loops c)\<rparr>" 0 m ts]
    by (auto simp: invalidate_loop_cache_def split: if_splits)
  with assms show ?thesis unfolding stored_by_def by (metis insertI2)
next
  case (CC_mark model)
  then have "pc_prompts (cache_exec k c) = pc_prompts c" by (simp add: mark_corrupt_entry_def)
  with assms show ?thesis unfolding stored_by_def by (metis insertI2)
qed

lemma run_stored_by: "stored_by ks c \<Longrightarrow> stored_by (ks \<union> set cs) (fold cache_exec cs c)"
proof (induction cs arbitrary: ks c)
  case (Cons k cs)
  from Cons.IH [OF exec_stored_by [OF Cons.prems, of k]] show ?case by simp
qed simp

section \<open>Files\<close>

lemma dict_get_fold_pop: "dict_get (fold dict_pop ks d) k = (if k \<in> set ks then None else dict_get d k)"
  by (induction ks arbitrary: d) (auto simp: dict_simps)

lemma length_fold_pop:
  "wf_dict d \<Longrightarrow> distinct ks \<Longrightarrow> \<forall>k \<in> set ks. dict_get d k \<noteq> None \<Longrightarrow> length (fold dict_pop ks d) + length ks = length d"
proof (induction ks arbitrary: d)
  case (Cons k ks)
  then obtain v where "dict_get d k = Some v" by auto
  with Cons.prems length_dict_pop [of d k v] have "Suc (length (dict_pop k d)) = length d" by simp
  moreover have "\<forall>x \<in> set ks. dict_get (dict_pop k d) x \<noteq> None" using Cons.prems by (auto simp: dict_simps)
  ultimately show ?case using Cons.IH [of "dict_pop k d"] Cons.prems by simp
qed simp

lemma evict_ssd_bound:
  assumes "wf_dict (pc_files c)" and "0 \<le> pc_max_ssd c" and "int (length (pc_files c)) \<le> pc_ssd_count c"
  shows "int (length (pc_files (evict_ssd c))) \<le> pc_max_ssd c"
proof (cases "pc_ssd_count c \<le> pc_max_ssd c")
  case False
  define files where "files = sort_key (\<lambda>(name, mtime). (mtime, name :: string)) (pc_files c)"
  define k where "k = nat (int (length files) - pc_max_ssd c)"
  define gone where "gone = map fst (take k files)"
  have mf: "mset files = mset (pc_files c)" by (simp add: files_def)
  then have "distinct (map fst files)" using assms(1) by (metis mset_eq_imp_distinct_iff mset_map wf_dict_def)
  moreover have "gone = take k (map fst files)" by (simp add: gone_def take_map)
  ultimately have d: "distinct gone" by simp
  have "set gone \<subseteq> fst ` set (pc_files c)" using set_take_subset [of k files] by (auto simp: gone_def files_def)
  then have "\<forall>x \<in> set gone. dict_get (pc_files c) x \<noteq> None" by (auto simp: dict_get_def map_of_eq_None_iff)
  from length_fold_pop [OF assms(1) d this] have "length (fold dict_pop gone (pc_files c)) + length gone = length (pc_files c)" .
  moreover have "length gone = min (length (pc_files c)) k" by (simp add: gone_def files_def)
  ultimately have "int (length (fold dict_pop gone (pc_files c))) \<le> pc_max_ssd c"
    using assms(2) by (simp add: k_def files_def min_def split: if_splits)
  then show ?thesis using False by (simp add: evict_ssd_def Let_def gone_def k_def files_def)
qed (use assms(3) in \<open>simp add: evict_ssd_def\<close>)

section \<open>Properties\<close>

text \<open>
  What a fetch from the store returns: when the prompt shares a first token with the stored one, the cache of the
  whole stored prompt and the tokens after the common prefix; these continue the stored prompt to the asked one exactly
  when the stored prompt is a prefix of it, so for a prompt that diverges the cache returned is of other tokens.
\<close>

theorem fetched_cache_fits_iff_prefix:
  assumes "\<not> (available \<or> pc_ready c) \<or> lru = None"
    and "dict_get (pc_prompts c) model = Some stored" and "dict_get (pc_store c) model = Some cache"
    and "longest_common_prefix stored tokens \<noteq> []"
  shows "\<exists>rest. snd (fetch_cache available lru model tokens c) = (Some cache, rest) \<and>
    longest_common_prefix stored tokens @ rest = tokens \<and> (stored @ rest = tokens \<longleftrightarrow> prefix stored tokens)"
proof -
  let ?n = "match_len stored tokens"
  let ?rest = "drop ?n tokens"
  have pos: "0 < ?n" using assms(4) by (simp add: match_len_common_prefix)
  then have "snd (fetch_cache available lru model tokens c) = (Some cache, ?rest)"
    using assms(1-3) by (auto simp: fetch_cache_def ensure_cache_def Let_def)
  moreover have "longest_common_prefix stored tokens @ ?rest = tokens"
    by (metis append_take_drop_id match_len_take)
  moreover have "stored @ ?rest = tokens \<longleftrightarrow> prefix stored tokens"
  proof
    assume "prefix stored tokens"
    then have "?n = length stored" by (simp add: match_len_complete_iff)
    with \<open>prefix stored tokens\<close> show "stored @ ?rest = tokens" by (auto simp: prefix_def)
  qed (auto intro: prefixI dest: sym)
  ultimately show ?thesis by blast
qed

definition one_prompt :: prompt_cache where
  "one_prompt = insert_cache False False False 0 ''f'' ''m'' [1, 2, 3] (Some [KV_segment ''kv'']) ''private_local'' '''' (cache_init '''' False 50)"

lemma fetched_cache_fits_iff_prefix_witness:
  "\<exists>rest. snd (fetch_cache False None ''m'' [1, 9] one_prompt) = (Some [KV_segment ''kv''], rest) \<and> [1, 2, 3] @ rest \<noteq> [1, 9]"
proof -
  have "dict_get (pc_prompts one_prompt) ''m'' = Some [1, 2, 3]" and "dict_get (pc_store one_prompt) ''m'' = Some [KV_segment ''kv'']"
    by (simp_all add: one_prompt_def insert_cache_def cache_init_def ensure_cache_def ssd_enabled_def Let_def dict_simps)
  from fetched_cache_fits_iff_prefix [OF _ this, of False None "[1, 9]"] show ?thesis by auto
qed

text \<open>
  After any calls a prompt is in the cache only when some insertion brought it that was not marked secret-bearing.
\<close>

theorem secret_prompts_never_cached:
  assumes "dict_get (pc_prompts (fold cache_exec ks (cache_init dir enabled n))) model = Some tokens"
  shows "\<exists>a w s now name cache privacy loop.
    CC_insert a w s now name model tokens cache privacy loop \<in> set ks \<and> privacy \<noteq> ''secret_bearing''"
proof -
  have "stored_by {} (cache_init dir enabled n)" by (simp add: stored_by_def cache_init_def)
  from run_stored_by [OF this, of ks] assms show ?thesis by (simp add: stored_by_def)
qed

lemma secret_prompts_never_cached_witness:
  "\<exists>a w s now name cache privacy loop. CC_insert a w s now name ''m'' [1] cache privacy loop \<in>
    set [CC_insert False False False 0 ''f'' ''m'' [2] (Some []) ''secret_bearing'' '''', CC_insert False False False 0 ''f'' ''m'' [1] (Some []) ''public_safe'' ''''] \<and>
    privacy \<noteq> ''secret_bearing''"
  by (rule secret_prompts_never_cached [where dir = "''''" and enabled = False and n = 1])
    (simp add: insert_cache_def cache_init_def ensure_cache_def ssd_enabled_def Let_def dict_simps)

text \<open>A save that is written leaves no more files than the bound, and the count it keeps is never below their number.\<close>

theorem cache_files_bounded:
  assumes "wf_dict (pc_files c)" and "0 \<le> pc_max_ssd c" and "int (length (pc_files c)) \<le> pc_ssd_count c" and "pc_ssd_dir c \<noteq> ''''"
  shows "int (length (pc_files (save_to_disk True now name c))) \<le> pc_max_ssd c \<and>
    int (length (pc_files (save_to_disk True now name c))) \<le> pc_ssd_count (save_to_disk True now name c)"
proof -
  let ?c = "c\<lparr>pc_files := dict_set name now (pc_files c), pc_ssd_count := pc_ssd_count c + 1\<rparr>"
  have le: "int (length (pc_files ?c)) \<le> pc_ssd_count ?c" using assms(3) by (simp add: length_dict_set)
  have eq: "save_to_disk True now name c = evict_ssd ?c" using assms(4) by (simp add: save_to_disk_def)
  have "int (length (pc_files (evict_ssd ?c))) \<le> pc_max_ssd ?c" by (rule evict_ssd_bound) (use assms le in simp_all)
  moreover have "int (length (pc_files (evict_ssd ?c))) \<le> pc_ssd_count (evict_ssd ?c)"
    using le by (simp add: evict_ssd_def Let_def)
  ultimately show ?thesis by (simp add: eq)
qed

lemma cache_files_bounded_witness:
  "length (pc_files (save_to_disk True 2 ''b'' ((cache_init ''/c'' True 1)\<lparr>pc_files := [(''a'', 1)], pc_ssd_count := 1\<rparr>))) \<le> 1"
  using cache_files_bounded [of "(cache_init ''/c'' True 1)\<lparr>pc_files := [(''a'', 1)], pc_ssd_count := 1\<rparr>" 2 "''b''"]
  by (simp add: cache_init_def wf_dict_def)

end
