(* ===== verification/Local_Runtime.thy ===== *)
theory Local_Runtime
  imports Inference_Scheduler Runtime_Ledger Prompt_Cache Governance_Gates
begin

text \<open>
  The governed local runtime, \<^verbatim>\<open>rig_relay/local_inference/runtime/_service.py\<close> and \<^verbatim>\<open>_bridge.py\<close>: admission of a
  task, its execution at once or as a stream, the handling of the tools it proposes, and the evidence of all this.  A
  message is its text.  The model, the tools, the scan for secrets, SHA-256, the clock and fresh identifiers are
  arguments, and so is the fate of each write of evidence.  Identifiers of outcomes and their digests are left out.
\<close>

section \<open>Tasks and answers\<close>

datatype privacy_class = PUBLIC_SAFE | PRIVATE_LOCAL | SECRET_BEARING

datatype task_status = TS_executed | TS_blocked | TS_refused | TS_error | TS_evidence_failed

datatype refusal_reason = RR_not_configured | RR_unsupported | RR_not_admitted | RR_blocked_by_policy

record tool_proposal =
  tp_call_id :: string
  tp_tool_name :: string
  tp_arguments :: string

datatype stream_terminal = ST_provisional | ST_terminalized | ST_evidence_failed

record inference_response =
  ir_content :: string
  ir_finish_reason :: string
  ir_proposals :: "tool_proposal list"
  ir_prompt_tokens :: int
  ir_completion_tokens :: int
  ir_total_tokens :: int
  ir_latency_ms :: int
  ir_model_id_hash :: string
  ir_cache_hit :: bool
  ir_receipt_id :: string
  ir_terminal_state :: "stream_terminal option"

datatype generation = Gen_ok inference_response | Gen_cancelled | Gen_error string

text \<open>The decision and, as \<open>ad_privacy\<close>, the effective class that is returned beside it.\<close>

record admission =
  ad_admitted :: bool
  ad_reason :: "refusal_reason option"
  ad_privacy :: privacy_class
  ad_patterns :: "string list"

record task_refusal =
  tr_reason :: refusal_reason
  tr_detail :: string

text \<open>What the handling of a proposal answers; the last one of a batch is its digest.\<close>

record tool_outcome =
  oc_status :: string
  oc_evidence_emitted :: bool
  oc_meta :: bool

record task_result =
  tk_admission :: admission
  tk_executed :: bool
  tk_status :: task_status
  tk_refusal :: "task_refusal option"
  tk_response :: "inference_response option"
  tk_receipt_id :: string
  tk_outcomes :: "tool_outcome list option"

datatype 'a task_answer = Raised_cancelled | Returned 'a

section \<open>The state\<close>

datatype evidence_ledger = LG_execution | LG_scheduler | LG_proposals | LG_terminal

datatype write_fate = WF_ok | WF_failed | WF_short

text \<open>The points at which evidence is written; the tools of a batch are counted.\<close>

datatype emission = EM_refusal | EM_proposals | EM_tool nat | EM_tool_again nat | EM_receipt | EM_provisional | EM_terminalized | EM_transition

text \<open>A result has its status, its receipts and, when it has one, its error.\<close>

datatype tool_effect = TE_status string "string list" "string option" | TE_raises string | TE_cancelled

record runtime_session =
  rs_session_id :: string
  rs_turn_id :: string
  rs_workspace_root :: string

record runtime_env =
  re_available :: bool
  re_models :: "string list"
  re_scan :: "string list \<Rightarrow> string list"
  re_task_hash :: "string list \<Rightarrow> string"
  re_sha :: "string \<Rightarrow> string"
  re_ledger :: "evidence_ledger \<Rightarrow> ledger_env"
  re_fate :: "emission \<Rightarrow> write_fate"
  re_now :: timestamp
  re_fresh :: string
  re_library :: bool
  re_tool_op :: "nat \<Rightarrow> string"
  re_tool :: "tool_proposal \<Rightarrow> tool_effect"

datatype agent_loop_state =
    LS_idle | LS_generating | LS_streaming_provisional | LS_tool_proposal_detected | LS_tool_proposal_refused | LS_tool_executing
  | LS_tool_observation_received | LS_continuing_generation | LS_completed | LS_cancelled | LS_runtime_failed | LS_tool_failed
  | LS_evidence_degraded | LS_evidence_failed | LS_loop_limit_reached | LS_session_unavailable

record local_runtime =
  lr_scheduler :: fcfs_scheduler
  lr_files :: "evidence_ledger \<Rightarrow> envelope_file"
  lr_streams :: "string list"
  lr_cache :: prompt_cache
  lr_session :: "runtime_session option"
  lr_tool_runtime :: bool
  lr_loop_active :: bool
  lr_loop_state :: agent_loop_state
  lr_loop_turn_count :: nat
  lr_loop_max_turns :: int
  lr_shutdown_state :: string

section \<open>Evidence\<close>

text \<open>A write of evidence; \<open>None\<close> is the exception that the runtime logs and drops.\<close>

definition emit :: "runtime_env \<Rightarrow> evidence_ledger \<Rightarrow> emission \<Rightarrow> string \<Rightarrow> string \<Rightarrow> json \<Rightarrow> local_runtime \<Rightarrow> local_runtime \<times> string option" where
  "emit env g at_point op event payload rt =
    (case re_fate env at_point of
       WF_failed \<Rightarrow> (rt, None)
     | fate \<Rightarrow>
         (case append_envelope (re_ledger env g) (fate = WF_ok) (re_now env) op event payload (lr_files rt g) of
            (ls, r) \<Rightarrow> (rt\<lparr>lr_files := (lr_files rt)(g := ls)\<rparr>, case r of Inl x \<Rightarrow> None | Inr d \<Rightarrow> Some d)))"

fun request_state_name :: "request_state \<Rightarrow> string" where
  "request_state_name RQ_queued = ''queued''"
| "request_state_name RQ_prefilling = ''prefilling''"
| "request_state_name RQ_generating = ''generating''"
| "request_state_name RQ_running = ''running''"
| "request_state_name RQ_completed = ''completed''"
| "request_state_name RQ_refused = ''refused''"
| "request_state_name RQ_cancelled = ''cancelled''"
| "request_state_name RQ_failed = ''failed''"

definition transition_payload :: "scheduler_event \<Rightarrow> json" where
  "transition_payload v = JObj
    [(''schema_version'', JStr ''rig.relay.runtime_scheduler_event.v1''), (''operation_id'', JStr (sv_operation_id v)),
     (''transition'', JStr (sv_transition v)), (''from_state'', JStr (request_state_name (sv_from_state v))),
     (''to_state'', JStr (request_state_name (sv_to_state v))), (''content_light'', JBool True)]"

definition emit_scheduler_event :: "runtime_env \<Rightarrow> scheduler_event \<Rightarrow> local_runtime \<Rightarrow> local_runtime" where
  "emit_scheduler_event env v rt =
    fst (emit env LG_scheduler EM_transition (sv_operation_id v) (''rig.relay.runtime.scheduler.'' @ sv_transition v) (transition_payload v) rt)"

text \<open>A call of the scheduler, with the evidence of its transitions.\<close>

definition with_scheduler :: "runtime_env \<Rightarrow> (fcfs_scheduler \<Rightarrow> fcfs_scheduler) \<Rightarrow> local_runtime \<Rightarrow> local_runtime" where
  "with_scheduler env f rt =
    (let s = lr_scheduler rt; s' = f s
     in fold (emit_scheduler_event env) (drop (length (fs_events s)) (fs_events s')) (rt\<lparr>lr_scheduler := s'\<rparr>))"

definition refusal_payload :: "string \<Rightarrow> string \<Rightarrow> string \<Rightarrow> string \<Rightarrow> json" where
  "refusal_payload op task status model = JObj
    [(''schema_version'', JStr ''rig.relay.runtime_execution_event.v1''), (''receipt_id'', JStr op), (''operation_id'', JStr op),
     (''task_id_hash'', JStr task), (''status'', JStr status), (''prompt_sha256'', JStr ''''), (''output_sha256'', JStr ''''),
     (''model_id_hash'', JStr model), (''content_light'', JBool True)]"

definition emit_refusal :: "runtime_env \<Rightarrow> string \<Rightarrow> string \<Rightarrow> string \<Rightarrow> string \<Rightarrow> local_runtime \<Rightarrow> local_runtime" where
  "emit_refusal env op task status model rt =
    fst (emit env LG_execution EM_refusal op ''rig.relay.runtime.task_refused'' (refusal_payload op task status model) rt)"

fun privacy_name :: "privacy_class \<Rightarrow> string" where
  "privacy_name PUBLIC_SAFE = ''public_safe''"
| "privacy_name PRIVATE_LOCAL = ''private_local''"
| "privacy_name SECRET_BEARING = ''secret_bearing''"

definition execution_receipt_payload :: "runtime_env \<Rightarrow> string \<Rightarrow> inference_response \<Rightarrow> string \<Rightarrow> privacy_class \<Rightarrow> string \<Rightarrow> json" where
  "execution_receipt_payload env task r model privacy op = JObj
    [(''schema_version'', JStr ''rig.relay.runtime_execution_event.v1''), (''receipt_id'', JStr op), (''operation_id'', JStr op),
     (''task_id_hash'', JStr task), (''status'', JStr ''executed''), (''prompt_sha256'', JStr ''''),
     (''output_sha256'', JStr (if ir_content r = '''' then '''' else re_sha env (ir_content r))),
     (''output_length_chars'', JInt (int (length (ir_content r)))), (''model_id_hash'', JStr model), (''latency_ms'', JInt (ir_latency_ms r)),
     (''prompt_tokens'', JInt (ir_prompt_tokens r)), (''completion_tokens'', JInt (ir_completion_tokens r)),
     (''total_tokens'', JInt (ir_total_tokens r)), (''finish_reason'', JStr (ir_finish_reason r)),
     (''tool_call_count'', JInt (int (length (ir_proposals r)))), (''tool_proposals_routed'', JBool (ir_proposals r \<noteq> [])),
     (''context_privacy_class'', JStr (privacy_name privacy)), (''content_light'', JBool True)]"

definition emit_execution_receipt :: "runtime_env \<Rightarrow> string \<Rightarrow> json \<Rightarrow> local_runtime \<Rightarrow> local_runtime \<times> string option" where
  "emit_execution_receipt env op payload rt = emit env LG_execution EM_receipt op ''rig.relay.runtime.execution_completed'' payload rt"

section \<open>Admission\<close>

definition classify_and_admit :: "runtime_env \<Rightarrow> string list \<Rightarrow> privacy_class \<Rightarrow> admission" where
  "classify_and_admit env messages caller =
    (if \<not> re_available env
     then \<lparr>ad_admitted = False, ad_reason = Some RR_not_configured, ad_privacy = caller, ad_patterns = []\<rparr>
     else
       let found = re_scan env messages; effective = (if found \<noteq> [] then SECRET_BEARING else caller)
       in if effective = SECRET_BEARING
          then \<lparr>ad_admitted = False, ad_reason = Some RR_blocked_by_policy, ad_privacy = effective, ad_patterns = found\<rparr>
          else \<lparr>ad_admitted = True, ad_reason = None, ad_privacy = effective, ad_patterns = []\<rparr>)"

fun reason_value :: "refusal_reason \<Rightarrow> string" where
  "reason_value RR_not_configured = ''runtime_not_configured''"
| "reason_value RR_unsupported = ''capability_unsupported''"
| "reason_value RR_not_admitted = ''task_not_admitted''"
| "reason_value RR_blocked_by_policy = ''context_blocked_by_policy''"

text \<open>The details of a refusal name the patterns that were found, as Python writes a list of plain strings.\<close>

definition admission_details :: "admission \<Rightarrow> string" where
  "admission_details ad =
    (if ad_reason ad = Some RR_blocked_by_policy
     then ''Secret-bearing content refused. Patterns: ['' @ str_join '', '' (map (\<lambda>x. [CHR 0x27] @ x @ [CHR 0x27]) (ad_patterns ad)) @ '']''
     else if ad_admitted ad then ''Admitted for governed local MLX execution.'' else '''')"

definition chosen_model :: "runtime_env \<Rightarrow> string \<Rightarrow> string" where
  "chosen_model env model = (if model = '''' \<and> re_models env \<noteq> [] then hd (re_models env) else model)"

section \<open>Tools\<close>

definition TOOL_CAPABILITY_MAP :: "(string \<times> string) list" where
  "TOOL_CAPABILITY_MAP =
    [(''bash'', ''shell_proposal''), (''write_file'', ''file_write_proposal''), (''search_replace'', ''patch_proposal'')]"

text \<open>The status of a proposal before it is executed.\<close>

definition preflight_status :: "runtime_env \<Rightarrow> tool_proposal \<Rightarrow> string" where
  "preflight_status env p =
    (if re_scan env [tp_arguments p] \<noteq> [] then ''refused''
     else case map_of TOOL_CAPABILITY_MAP (tp_tool_name p) of
       None \<Rightarrow> ''pending_review''
     | Some cap \<Rightarrow>
         if gd_decision (evaluate_action_legality
              \<lparr>lq_workspace_id = None, lq_intent_id = tp_call_id p, lq_intent_kind = ''tool_execution'',
               lq_trust_tier = Some TT_EXECUTOR_CANDIDATE, lq_status = None, lq_allow_mutation = True, lq_allow_network = False,
               lq_dirty_policy_satisfied = True\<rparr> [cap]) = GD_ALLOWED
         then ''admitted_pending_execution'' else ''refused_by_governance'')"

definition MAX_ARG_BYTES :: nat where
  "MAX_ARG_BYTES = 102400"

definition preflight_outcome :: "runtime_env \<Rightarrow> tool_proposal \<Rightarrow> tool_outcome" where
  "preflight_outcome env p =
    \<lparr>oc_status = (if tp_arguments p = '''' \<or> MAX_ARG_BYTES < length (tp_arguments p) then ''refused'' else preflight_status env p),
     oc_evidence_emitted = False, oc_meta = False\<rparr>"

definition admitted_outcome :: "tool_outcome \<Rightarrow> bool" where
  "admitted_outcome o1 \<longleftrightarrow> oc_status o1 = ''admitted_pending_execution''"

definition map_runtime_status :: "string \<Rightarrow> string" where
  "map_runtime_status s =
    (case map_of [(''completed'', ''executed''), (''cached'', ''executed''), (''refused'', ''refused''), (''approval_required'', ''refused''),
       (''failed'', ''failed''), (''timed_out'', ''failed''), (''skipped'', ''refused''), (''degraded'', ''executed_degraded'')] s of
       None \<Rightarrow> s | Some t \<Rightarrow> t)"

definition tool_payload :: "runtime_env \<Rightarrow> string \<Rightarrow> string \<Rightarrow> string \<Rightarrow> tool_proposal \<Rightarrow> json" where
  "tool_payload env op task status p = JObj
    [(''schema_version'', JStr ''rig.relay.runtime_execution_event.v1''), (''receipt_id'', JStr op), (''operation_id'', JStr op),
     (''task_id_hash'', JStr task), (''status'', JStr status), (''prompt_sha256'', JStr ''''), (''output_sha256'', JStr ''''),
     (''model_id_hash'', JStr ''''), (''content_light'', JBool True), (''proposal_hash'', JStr (''sha256:'' @ re_sha env (tp_arguments p))),
     (''tool_name'', JStr (tp_tool_name p)), (''call_id'', JStr (tp_call_id p))]"

definition emit_tool_execution_outcome :: "runtime_env \<Rightarrow> emission \<Rightarrow> string \<Rightarrow> json \<Rightarrow> local_runtime \<Rightarrow> local_runtime \<times> string option" where
  "emit_tool_execution_outcome env at_point op payload rt = emit env LG_execution at_point op ''rig.relay.runtime.tool_executed'' payload rt"

text \<open>What the bridge records; the legality gate has allowed the proposal by then.\<close>

definition bridge_payload :: "runtime_env \<Rightarrow> string \<Rightarrow> string \<Rightarrow> string \<Rightarrow> string option \<Rightarrow> tool_proposal \<Rightarrow> json" where
  "bridge_payload env op status output err p = JObj
    ([(''schema_version'', JStr ''rig.relay.runtime_execution_event.v1''), (''receipt_id'', JStr op), (''operation_id'', JStr op),
      (''task_id_hash'', JStr ''''), (''status'', JStr status), (''prompt_sha256'', JStr ''''), (''output_sha256'', JStr output),
      (''model_id_hash'', JStr ''''), (''content_light'', JBool True), (''proposal_hash'', JStr (''sha256:'' @ re_sha env (tp_arguments p))),
      (''tool_name'', JStr (tp_tool_name p)), (''call_id'', JStr (tp_call_id p)), (''governance_preflight'', JStr ''allowed'')] @
     (case err of None \<Rightarrow> [] | Some x \<Rightarrow> if x = '''' then [] else [(''error'', JStr x)]))"

text \<open>The bridge: \<open>None\<close> when the tool is cancelled.\<close>

definition execute_proposal :: "runtime_env \<Rightarrow> nat \<Rightarrow> tool_proposal \<Rightarrow> local_runtime \<Rightarrow> local_runtime \<times> tool_outcome option" where
  "execute_proposal env i p rt =
    (let answer = (\<lambda>st ev. \<lparr>oc_status = st, oc_evidence_emitted = ev, oc_meta = False\<rparr>)
     in if preflight_status env p \<noteq> ''admitted_pending_execution'' then (rt, Some (answer (preflight_status env p) False))
        else case lr_session rt of
          None \<Rightarrow> (rt, Some (answer ''pending_session_context'' False))
        | Some s \<Rightarrow>
            if \<not> lr_tool_runtime rt then (rt, Some (answer ''pending_session_context'' False))
            else if rs_session_id s = '''' then (rt, Some (answer ''refused'' False))
            else
              (case re_tool env p of
                 TE_cancelled \<Rightarrow> (rt, None)
               | TE_raises x \<Rightarrow>
                   (case emit_tool_execution_outcome env (EM_tool i) (re_tool_op env i)
                      (bridge_payload env (re_tool_op env i) ''failed'' '''' (Some (take 500 x)) p) rt of
                      (rt1, d) \<Rightarrow> (rt1, Some (answer ''failed'' (d \<noteq> None))))
               | TE_status st receipts err \<Rightarrow>
                   (case emit_tool_execution_outcome env (EM_tool i) (re_tool_op env i)
                      (bridge_payload env (re_tool_op env i) st (if receipts = [] then '''' else hd receipts) err p) rt of
                      (rt1, d) \<Rightarrow>
                        let mapped = map_runtime_status st
                        in (rt1, Some (answer (if d = None \<and> mapped = ''executed'' then ''executed_evidence_failed'' else mapped) (d \<noteq> None))))))"

text \<open>The tools of a batch in turn, and whether one was cancelled; then the proposals after it keep what they had.\<close>

fun run_tools ::
  "runtime_env \<Rightarrow> string \<Rightarrow> string \<Rightarrow> nat \<Rightarrow> (tool_proposal \<times> tool_outcome) list \<Rightarrow> local_runtime \<Rightarrow> local_runtime \<times> tool_outcome list \<times> bool" where
  "run_tools env op task i [] rt = (rt, [], False)"
| "run_tools env op task i ((p, o1) # rest) rt =
    (if \<not> admitted_outcome o1
     then (case run_tools env op task (Suc i) rest rt of (rt1, os, c) \<Rightarrow> (rt1, o1 # os, c))
     else case execute_proposal env i p rt of
       (rt1, None) \<Rightarrow> (rt1, \<lparr>oc_status = ''cancelled'', oc_evidence_emitted = False, oc_meta = False\<rparr> # map snd rest, True)
     | (rt1, Some o2) \<Rightarrow>
         (case emit_tool_execution_outcome env (EM_tool_again i) op (tool_payload env op task (oc_status o2) p) rt1 of
            (rt2, d) \<Rightarrow>
              let o3 = (if d \<noteq> None then o2
                        else o2\<lparr>oc_status := (if oc_status o2 = ''executed'' then ''executed_evidence_failed'' else oc_status o2),
                               oc_evidence_emitted := False\<rparr>)
              in (case run_tools env op task (Suc i) rest rt2 of (rt3, os, c) \<Rightarrow> (rt3, o3 # os, c))))"

definition proposals_payload :: "runtime_env \<Rightarrow> string \<Rightarrow> tool_proposal list \<Rightarrow> tool_outcome list \<Rightarrow> json" where
  "proposals_payload env task ps os = JObj
    [(''schema_version'', JStr ''rig.relay.runtime_tool_proposal_event.v1''), (''task_id_hash'', JStr task),
     (''proposal_count'', JInt (int (length ps))),
     (''proposal_names_hash'', JStr (''sha256:'' @ re_sha env (str_join '','' (map tp_tool_name ps)))),
     (''proposal_args_hashes'', JList (map (\<lambda>p. JStr (''sha256:'' @ re_sha env (tp_arguments p))) ps)),
     (''routed_to_governance'', JBool True),
     (''rejected_count'', JInt (int (length os) - int (length (filter admitted_outcome os)))),
     (''admitted_count'', JInt (int (length (filter admitted_outcome os)))), (''governance_latency_ms'', JInt 0), (''content_light'', JBool True)]"

definition batch_outcome :: tool_outcome where
  "batch_outcome = \<lparr>oc_status = '''', oc_evidence_emitted = False, oc_meta = True\<rparr>"

definition handle_tool_proposals ::
  "runtime_env \<Rightarrow> tool_proposal list \<Rightarrow> string \<Rightarrow> string \<Rightarrow> local_runtime \<Rightarrow> local_runtime \<times> tool_outcome list" where
  "handle_tool_proposals env ps task op rt =
    (let before = map (preflight_outcome env) ps;
         rt1 = fst (emit env LG_proposals EM_proposals op ''rig.relay.runtime.tool_proposals_detected'' (proposals_payload env task ps before) rt)
     in if lr_session rt1 \<noteq> None \<and> list_ex admitted_outcome before
        then (case run_tools env op task 0 (zip ps before) rt1 of
                (rt2, os, cancelled) \<Rightarrow> (rt2, if cancelled then os else os @ [batch_outcome]))
        else (rt1, before @ [batch_outcome]))"

section \<open>Execution\<close>

definition task_refused :: "admission \<Rightarrow> task_status \<Rightarrow> refusal_reason \<Rightarrow> string \<Rightarrow> task_result" where
  "task_refused ad st why detail =
    \<lparr>tk_admission = ad, tk_executed = False, tk_status = st, tk_refusal = Some \<lparr>tr_reason = why, tr_detail = detail\<rparr>, tk_response = None,
     tk_receipt_id = '''', tk_outcomes = None\<rparr>"

text \<open>A request is queued, and admitted or refused at once.\<close>

definition submit :: "runtime_env \<Rightarrow> scheduled_request \<Rightarrow> local_runtime \<Rightarrow> local_runtime \<times> bool" where
  "submit env r rt = (with_scheduler env (\<lambda>s. fst (fcfs_submit r (re_now env) s)) rt, snd (fcfs_submit r (re_now env) (lr_scheduler rt)))"

text \<open>Once there is an answer: its tools, its receipt, and the end of the request.\<close>

definition finish_execution ::
  "runtime_env \<Rightarrow> string \<Rightarrow> string \<Rightarrow> string \<Rightarrow> admission \<Rightarrow> inference_response \<Rightarrow> local_runtime \<Rightarrow> local_runtime \<times> task_result task_answer" where
  "finish_execution env op task model ad r rt =
    (let (rt1, os) = (if ir_proposals r = [] then (rt, None)
                      else case handle_tool_proposals env (ir_proposals r) task op rt of (rt1, os) \<Rightarrow> (rt1, Some os));
         (rt2, d) = emit_execution_receipt env op (execution_receipt_payload env task r model (ad_privacy ad) op) rt1;
         r' = (case d of None \<Rightarrow> r | Some x \<Rightarrow> r\<lparr>ir_receipt_id := x\<rparr>);
         rt3 = with_scheduler env (if d = None then fcfs_fail op ''evidence_failed'' (re_now env)
                                   else fcfs_complete op (ir_content r') (re_now env)) rt2
     in (rt3, Returned \<lparr>tk_admission = ad, tk_executed = True, tk_status = (if d = None then TS_evidence_failed else TS_executed),
           tk_refusal = None, tk_response = Some r', tk_receipt_id = ir_receipt_id r', tk_outcomes = os\<rparr>))"

definition execute ::
  "runtime_env \<Rightarrow> string \<Rightarrow> string list \<Rightarrow> string \<Rightarrow> string \<Rightarrow> privacy_class \<Rightarrow> int \<Rightarrow> generation \<Rightarrow> local_runtime \<Rightarrow>
    local_runtime \<times> task_result task_answer" where
  "execute env op messages model0 kind caller max_tokens gen rt =
    (let ad = classify_and_admit env messages caller; task = re_task_hash env messages; model = chosen_model env model0
     in if \<not> ad_admitted ad
        then (emit_refusal env (re_fresh env) task ''refused'' '''' rt,
              Returned (task_refused ad TS_refused (case ad_reason ad of None \<Rightarrow> RR_not_configured | Some why \<Rightarrow> why) (admission_details ad)))
        else if model = ''''
        then (emit_refusal env (re_fresh env) task ''blocked'' '''' rt, Returned (task_refused ad TS_blocked RR_unsupported ''No model loaded.''))
        else
          (case submit env (scheduled_request_of op (re_now env) kind messages model max_tokens) rt of
             (rt1, False) \<Rightarrow>
               (emit_refusal env op task ''blocked'' '''' rt1,
                Returned (task_refused ad TS_blocked RR_not_admitted ''Scheduler refused admission (max concurrent limit).''))
           | (rt1, True) \<Rightarrow>
               (case gen of
                  Gen_cancelled \<Rightarrow>
                    (emit_refusal env op task ''cancelled'' model (with_scheduler env (fcfs_fail op ''cancelled'' (re_now env)) rt1), Raised_cancelled)
                | Gen_error x \<Rightarrow>
                    (emit_refusal env op task ''error'' model (with_scheduler env (fcfs_fail op x (re_now env)) rt1),
                     Returned (task_refused ad TS_error RR_not_configured x))
                | Gen_ok r \<Rightarrow> finish_execution env op task model ad r rt1)))"

section \<open>Streams\<close>

text \<open>
  What the consumer of a stream meets, in order: the items of the queue, an interruption of the wait, or that it closes
  the stream at the last text it was given.  At the end of the list the stream is still waiting.
  The texts are those of the model; an error text that a refused stream yields is read to its end.
\<close>

datatype stream_item =
    SI_token string | SI_done inference_response "int list" | SI_cancelled | SI_error string | SI_interrupted | SI_raises string | SI_closed

datatype stream_end =
    SE_waiting | SE_closed | SE_interrupted | SE_raised string | SE_cancelled | SE_error string | SE_done inference_response "int list"

fun stream_items :: "stream_item list \<Rightarrow> string list \<times> stream_end" where
  "stream_items [] = ([], SE_waiting)"
| "stream_items (SI_token t # rest) = (case stream_items rest of (ts, e) \<Rightarrow> (t # ts, e))"
| "stream_items (SI_done r ts # rest) = ([], SE_done r ts)"
| "stream_items (SI_cancelled # rest) = ([], if rest \<noteq> [] \<and> hd rest = SI_closed then SE_closed else SE_cancelled)"
| "stream_items (SI_error x # rest) = ([], if rest \<noteq> [] \<and> hd rest = SI_closed then SE_closed else SE_error x)"
| "stream_items (SI_interrupted # rest) = ([], SE_interrupted)"
| "stream_items (SI_raises x # rest) = ([], SE_raised x)"
| "stream_items (SI_closed # rest) = ([], SE_closed)"

definition terminal_payload :: "string \<Rightarrow> string \<Rightarrow> string \<Rightarrow> json" where
  "terminal_payload op st receipt = JObj
    ([(''schema_version'', JStr ''rig.relay.runtime_stream_terminal_event.v1''), (''operation_id'', JStr op), (''terminal_state'', JStr st)] @
     (if st = ''terminalized'' then [(''evidence_receipt_id'', JStr receipt)] else []) @ [(''content_light'', JBool True)])"

definition emit_stream_terminal_event :: "runtime_env \<Rightarrow> emission \<Rightarrow> string \<Rightarrow> json \<Rightarrow> local_runtime \<Rightarrow> local_runtime" where
  "emit_stream_terminal_event env at_point op payload rt =
    fst (emit env LG_terminal at_point op ''rig.relay.runtime.stream_terminalized'' payload rt)"

definition end_stream :: "string \<Rightarrow> local_runtime \<Rightarrow> local_runtime" where
  "end_stream op rt = rt\<lparr>lr_streams := removeAll op (lr_streams rt)\<rparr>"

text \<open>The tokens of a finished prompt are stored as its cache; \<open>loaded\<close> is the key of a model that is still loaded.\<close>

definition cache_prompt :: "runtime_env \<Rightarrow> string option \<Rightarrow> inference_response \<Rightarrow> int list \<Rightarrow> privacy_class \<Rightarrow> prompt_cache \<Rightarrow> prompt_cache" where
  "cache_prompt env loaded r tokens privacy c =
    (case loaded of
       None \<Rightarrow> c
     | Some key \<Rightarrow>
         if ir_cache_hit r \<or> tokens = [] then c
         else insert_cache (re_library env) (re_library env) False 0 '''' key tokens (Some (map Token_segment tokens)) (privacy_name privacy) '''' c)"

text \<open>After the last token: the tools, the receipt, the terminal event, and the end of the request.\<close>

definition finish_stream ::
  "runtime_env \<Rightarrow> string \<Rightarrow> string \<Rightarrow> string \<Rightarrow> privacy_class \<Rightarrow> inference_response \<Rightarrow> local_runtime \<Rightarrow> local_runtime" where
  "finish_stream env op task model privacy r rt =
    (let rt1 = (if ir_proposals r = [] then rt else fst (handle_tool_proposals env (ir_proposals r) task op rt));
         (rt2, d) = emit_execution_receipt env op (execution_receipt_payload env task r model privacy op) rt1
     in case d of
          Some x \<Rightarrow> with_scheduler env (fcfs_complete op (ir_content r) (re_now env))
            (emit_stream_terminal_event env EM_terminalized op (terminal_payload op ''terminalized'' x) rt2)
        | None \<Rightarrow> with_scheduler env (fcfs_fail op ''evidence_emission_failed'' (re_now env)) rt2)"

datatype stream_outcome = SO_refused string | SO_ended stream_end

definition stream_execute ::
  "runtime_env \<Rightarrow> string \<Rightarrow> string list \<Rightarrow> string \<Rightarrow> string \<Rightarrow> privacy_class \<Rightarrow> int \<Rightarrow> string option \<Rightarrow> stream_item list \<Rightarrow> local_runtime \<Rightarrow>
    local_runtime \<times> string list \<times> stream_outcome" where
  "stream_execute env op messages model0 kind caller max_tokens loaded items rt =
    (let ad = classify_and_admit env messages caller; task = re_task_hash env messages; model = chosen_model env model0
     in if \<not> ad_admitted ad then (emit_refusal env (re_fresh env) task ''refused'' '''' rt, [],
          SO_refused (''[ERROR: '' @ (case ad_reason ad of None \<Rightarrow> ''task not admitted'' | Some why \<Rightarrow> reason_value why) @ '']''))
        else if model = '''' then (emit_refusal env (re_fresh env) task ''blocked'' '''' rt, [], SO_refused ''[ERROR: No model loaded]'')
        else
          (case submit env (scheduled_request_of op (re_now env) kind messages model max_tokens) rt of
             (rt1, False) \<Rightarrow> (emit_refusal env op task ''blocked'' model rt1, [], SO_refused ''[ERROR: Scheduler refused admission]'')
           | (rt1, True) \<Rightarrow>
               let rt2 = emit_stream_terminal_event env EM_provisional op (terminal_payload op ''provisional'' '''')
                           (rt1\<lparr>lr_streams := lr_streams rt1 @ [op]\<rparr>);
                   (ts, e) = stream_items items
               in (case e of
                     SE_waiting \<Rightarrow> rt2
                   | SE_closed \<Rightarrow> end_stream op rt2
                   | SE_interrupted \<Rightarrow>
                       end_stream op (emit_refusal env op task ''cancelled'' model
                         (with_scheduler env (\<lambda>s. fst (fcfs_cancel op (re_now env) s)) rt2))
                   | SE_cancelled \<Rightarrow>
                       end_stream op (emit_refusal env op task ''cancelled'' model
                         (with_scheduler env (\<lambda>s. fst (fcfs_cancel op (re_now env) s)) rt2))
                   | SE_raised x \<Rightarrow>
                       end_stream op (emit_refusal env op task ''error'' model
                         (with_scheduler env (fcfs_fail op (take 200 x) (re_now env)) rt2))
                   | SE_error x \<Rightarrow>
                       end_stream op (emit_refusal env op task ''error'' model (with_scheduler env (fcfs_fail op x (re_now env)) rt2))
                   | SE_done r tokens \<Rightarrow>
                       let rt3 = end_stream op rt2;
                           rt4 = rt3\<lparr>lr_cache := cache_prompt env loaded r tokens (ad_privacy ad) (lr_cache rt3)\<rparr>
                       in finish_stream env op task model (ad_privacy ad)
                            (r\<lparr>ir_content := concat ts, ir_prompt_tokens := 0, ir_total_tokens := 0, ir_latency_ms := 0, ir_model_id_hash := model\<rparr>) rt4,
                   ts, SO_ended e)))"

definition cancel_generation :: "runtime_env \<Rightarrow> string \<Rightarrow> local_runtime \<Rightarrow> local_runtime \<times> bool" where
  "cancel_generation env op rt =
    (with_scheduler env (\<lambda>s. fst (fcfs_cancel op (re_now env) s)) rt, snd (fcfs_cancel op (re_now env) (lr_scheduler rt)))"

text \<open>How the wait for the engine of a stream ends at a drain.\<close>

datatype drain_wait = DW_done | DW_awaited | DW_timed_out | DW_raised

record drain_result =
  dr_drained :: nat
  dr_timed_out :: nat
  dr_cancelled :: nat

fun drain_streams :: "runtime_env \<Rightarrow> (string \<Rightarrow> drain_wait) \<Rightarrow> string list \<Rightarrow> local_runtime \<Rightarrow> drain_result \<Rightarrow> local_runtime \<times> drain_result" where
  "drain_streams env wait [] rt d = (rt, d)"
| "drain_streams env wait (op # ops) rt d =
    drain_streams env wait ops (end_stream op (fst (cancel_generation env op rt)))
      (let d1 = d\<lparr>dr_cancelled := dr_cancelled d + 1\<rparr>
       in if wait op = DW_done \<or> wait op = DW_awaited then d1\<lparr>dr_drained := dr_drained d1 + 1\<rparr>
          else d1\<lparr>dr_timed_out := dr_timed_out d1 + 1\<rparr>)"

definition drain_active_streams :: "runtime_env \<Rightarrow> (string \<Rightarrow> drain_wait) \<Rightarrow> local_runtime \<Rightarrow> local_runtime \<times> drain_result" where
  "drain_active_streams env wait rt =
    drain_streams env wait (lr_streams rt) rt \<lparr>dr_drained = 0, dr_timed_out = 0, dr_cancelled = 0\<rparr>"

text \<open>
  \<open>loop_ended\<close> says whether a running loop ends while it is waited for; the answer is what the pool is told of agents and
  the status of the drain.
\<close>

definition shutdown :: "runtime_env \<Rightarrow> (string \<Rightarrow> drain_wait) \<Rightarrow> bool \<Rightarrow> local_runtime \<Rightarrow> local_runtime \<times> bool \<times> string \<times> drain_result" where
  "shutdown env wait loop_ended rt =
    (let (rt1, d) = drain_active_streams env wait rt;
         agents_active = (lr_loop_active rt1 \<and> \<not> loop_ended);
         rt2 = (if lr_loop_active rt1 \<and> loop_ended then rt1\<lparr>lr_loop_active := False\<rparr>
                else if agents_active then rt1\<lparr>lr_shutdown_state := ''degraded_shutdown_active_generations_remain''\<rparr> else rt1);
         status = (if dr_timed_out d = 0 then ''complete'' else ''degraded_shutdown_active_generations_remain'')
     in (rt2\<lparr>lr_shutdown_state := status\<rparr>, agents_active, status, d))"

section \<open>The health of the streams\<close>

definition obj_field :: "json \<Rightarrow> string \<Rightarrow> string" where
  "obj_field j k = (case j of JObj d \<Rightarrow> (case dict_get d k of Some (JStr s) \<Rightarrow> s | _ \<Rightarrow> '''') | _ \<Rightarrow> '''')"

text \<open>From the last entry back, the first of each operation counts.\<close>

fun latest_states :: "string list \<Rightarrow> envelope list \<Rightarrow> string list" where
  "latest_states seen [] = []"
| "latest_states seen (e # es) =
    (if rv_operation_id e \<noteq> '''' \<and> rv_operation_id e \<in> set seen then latest_states seen es
     else obj_field (rv_payload e) ''terminal_state'' #
       latest_states (if rv_operation_id e = '''' then seen else rv_operation_id e # seen) es)"

text \<open>All six ledgers must verify; \<open>others\<close> says whether the other five do.\<close>

definition stream_terminal_health :: "ledger_env \<Rightarrow> bool \<Rightarrow> envelope_file \<Rightarrow> string" where
  "stream_terminal_health env others ls =
    (case reconstruct env ls of
       Inl x \<Rightarrow> ''unavailable''
     | Inr es \<Rightarrow>
         if \<not> others then ''unavailable''
         else
           let states = filter (\<lambda>s. s \<in> {''terminalized'', ''provisional'', ''evidence_failed''}) (latest_states [] (rev es))
           in if states = [] then ''empty''
              else if ''evidence_failed'' \<in> set states then ''degraded_evidence_failures_present''
              else if ''provisional'' \<in> set states then ''degraded_provisional_streams_exist''
              else ''complete'')"

definition stream_terminal_integrity :: "ledger_env \<Rightarrow> bool \<Rightarrow> envelope_file \<Rightarrow> string" where
  "stream_terminal_integrity env others ls =
    (let base = stream_terminal_health env others ls
     in if base = ''complete'' then ''complete'' else if startswith base ''degraded'' then ''degraded'' else ''unavailable'')"

section \<open>The agent loop\<close>

record loop_request =
  lq_session :: runtime_session
  lq_messages :: "string list"
  lq_model_id_hash :: string
  lq_max_tokens :: int
  lq_max_tool_turns :: int
  lq_privacy :: privacy_class

text \<open>
  An observation has the status of an outcome and its evidence; the outcomes have neither the name of a tool nor the
  identifier of a call, so these stay empty.
\<close>

record tool_observation =
  ob_tool_name :: string
  ob_call_id :: string
  ob_outcome_status :: string
  ob_evidence_emitted :: bool

record loop_result =
  lo_session_id :: string
  lo_terminal_state :: agent_loop_state
  lo_final_content :: string
  lo_observations :: "tool_observation list"
  lo_turn_count :: nat
  lo_evidence_chain :: "string list"
  lo_status :: task_status

definition observation_of :: "tool_outcome \<Rightarrow> tool_observation" where
  "observation_of o1 = \<lparr>ob_tool_name = '''', ob_call_id = '''', ob_outcome_status = oc_status o1, ob_evidence_emitted = oc_evidence_emitted o1\<rparr>"

definition tool_result_message :: "tool_observation list \<Rightarrow> string" where
  "tool_result_message obs =
    str_join [CHR 0x0A] (''[Tool results from execution round]'' # map (\<lambda>b. ''- '' @ ob_tool_name b @ '' (call_id='' @ ob_call_id b @ ''): status='' @
      ob_outcome_status b @ '', evidence_emitted='' @ (if ob_evidence_emitted b then ''True'' else ''False'')) obs)"

definition critical_failure :: "tool_outcome \<Rightarrow> bool" where
  "critical_failure o1 \<longleftrightarrow> \<not> oc_meta o1 \<and> oc_status o1 \<in> {''failed'', ''cancelled'', ''error''}"

text \<open>\<open>ready\<close> says whether a runtime for tools can be made; when not, the one wired before stays.\<close>

definition bind_session :: "bool \<Rightarrow> runtime_session \<Rightarrow> local_runtime \<Rightarrow> local_runtime" where
  "bind_session ready s rt = rt\<lparr>lr_session := Some s, lr_tool_runtime := (ready \<or> lr_tool_runtime rt)\<rparr>"

definition unbind_session :: "local_runtime \<Rightarrow> local_runtime option" where
  "unbind_session rt = (if lr_loop_active rt then None else Some (rt\<lparr>lr_session := None, lr_tool_runtime := False\<rparr>))"

text \<open>What a loop has gathered, and the turns that are left; \<open>think\<close> is what the model answers at a turn to its messages.\<close>

record loop_progress =
  lp_messages :: "string list"
  lp_content :: string
  lp_observations :: "tool_observation list"
  lp_chain :: "string list"

definition loop_answer :: "loop_request \<Rightarrow> nat \<Rightarrow> loop_progress \<Rightarrow> agent_loop_state \<Rightarrow> task_status \<Rightarrow> loop_result" where
  "loop_answer q turn p st status =
    \<lparr>lo_session_id = rs_session_id (lq_session q), lo_terminal_state = st, lo_final_content = lp_content p,
     lo_observations = lp_observations p, lo_turn_count = turn, lo_evidence_chain = lp_chain p, lo_status = status\<rparr>"

fun loop_turns ::
  "(nat \<Rightarrow> runtime_env) \<Rightarrow> (nat \<Rightarrow> string) \<Rightarrow> (nat \<Rightarrow> string list \<Rightarrow> generation) \<Rightarrow> loop_request \<Rightarrow> nat \<Rightarrow> nat \<Rightarrow> loop_progress \<Rightarrow>
    local_runtime \<Rightarrow> local_runtime \<times> loop_result" where
  "loop_turns envs ops think q turn 0 p rt =
    (rt\<lparr>lr_loop_state := LS_loop_limit_reached\<rparr>, loop_answer q turn p LS_loop_limit_reached TS_executed)"
| "loop_turns envs ops think q turn (Suc left) p rt =
    (let now = Suc turn;
         rt0 = rt\<lparr>lr_loop_turn_count := now, lr_loop_state := LS_generating\<rparr>
     in case execute (envs now) (ops now) (lp_messages p) (lq_model_id_hash q) ''tool_proposal'' (lq_privacy q) (lq_max_tokens q)
               (think now (lp_messages p)) rt0 of
          (rt1, Raised_cancelled) \<Rightarrow> (rt1\<lparr>lr_loop_state := LS_cancelled\<rparr>, loop_answer q now p LS_cancelled TS_blocked)
        | (rt1, Returned r) \<Rightarrow>
            if tk_status r = TS_refused \<or> tk_status r = TS_blocked
            then (rt1\<lparr>lr_loop_state := LS_tool_proposal_refused\<rparr>,
                  loop_answer q now (p\<lparr>lp_content := (case tk_refusal r of None \<Rightarrow> ''refused'' | Some f \<Rightarrow> tr_detail f)\<rparr>)
                    LS_tool_proposal_refused TS_refused)
            else
              let content = (case tk_response r of None \<Rightarrow> lp_content p | Some a \<Rightarrow> if ir_content a = '''' then lp_content p else ir_content a);
                  p1 = p\<lparr>lp_content := content, lp_chain := lp_chain p @ (if tk_receipt_id r = '''' then [] else [tk_receipt_id r])\<rparr>;
                  proposals = (case tk_response r of None \<Rightarrow> [] | Some a \<Rightarrow> ir_proposals a);
                  outcomes = (case tk_outcomes r of None \<Rightarrow> [] | Some os \<Rightarrow> os)
              in if proposals = [] then (rt1\<lparr>lr_loop_state := LS_completed\<rparr>, loop_answer q now p1 LS_completed TS_executed)
                 else
                   let seen = filter (\<lambda>o1. \<not> oc_meta o1) outcomes;
                       p2 = p1\<lparr>lp_observations := lp_observations p1 @ map observation_of seen\<rparr>
                   in if list_ex critical_failure outcomes
                      then (rt1\<lparr>lr_loop_state := LS_tool_failed\<rparr>, loop_answer q now p2 LS_tool_failed TS_error)
                      else loop_turns envs ops think q now left
                        (p2\<lparr>lp_messages := lp_messages p2 @ [tool_result_message (lp_observations p2)]\<rparr>)
                        (rt1\<lparr>lr_loop_state := LS_continuing_generation\<rparr>))"

text \<open>\<open>None\<close>: a loop is already active.  Afterwards the session is unbound and the entries of the loop leave the cache.\<close>

definition execute_local_agent_loop ::
  "(nat \<Rightarrow> runtime_env) \<Rightarrow> (nat \<Rightarrow> string) \<Rightarrow> (nat \<Rightarrow> string list \<Rightarrow> generation) \<Rightarrow> bool \<Rightarrow> string \<Rightarrow> loop_request \<Rightarrow> local_runtime \<Rightarrow>
    local_runtime \<times> loop_result option" where
  "execute_local_agent_loop envs ops think ready loop_id q rt =
    (if lr_loop_active rt then (rt, None)
     else
       let rt0 = bind_session ready (lq_session q) (rt\<lparr>lr_loop_active := True, lr_loop_max_turns := lq_max_tool_turns q, lr_loop_turn_count := 0\<rparr>);
           (rt1, r) = loop_turns envs ops think q 0 (nat (lq_max_tool_turns q))
             \<lparr>lp_messages = lq_messages q, lp_content = '''', lp_observations = [], lp_chain = []\<rparr> rt0;
           rt2 = rt1\<lparr>lr_loop_active := False, lr_session := None, lr_tool_runtime := False,
                     lr_cache := fst (invalidate_loop_cache loop_id (lr_cache rt1))\<rparr>
       in (rt2, Some r))"

definition current_loop_state :: "local_runtime \<Rightarrow> agent_loop_state" where
  "current_loop_state rt = (if lr_loop_active rt then lr_loop_state rt else LS_idle)"

end
