(* ===== verification/Runtime_Properties.thy ===== *)
theory Runtime_Properties
  imports Local_Runtime
begin

text \<open>
  What the local runtime promises: its scheduler is free after every task that ends, secrets do not reach the model,
  only admitted tools run, its ledgers verify, its loop is bounded; and where it does not keep what it says: streams that
  their consumer closes, receipts and terminal events that are dropped, failures reported as completion.
\<close>

named_theorems runtime_simps \<open>what an operation of the runtime leaves unchanged\<close>

section \<open>Evidence changes files only\<close>

lemma emit_keeps [runtime_simps]:
  "lr_scheduler (fst (emit env g pt op ev pl rt)) = lr_scheduler rt" "lr_streams (fst (emit env g pt op ev pl rt)) = lr_streams rt"
  "lr_session (fst (emit env g pt op ev pl rt)) = lr_session rt" "lr_tool_runtime (fst (emit env g pt op ev pl rt)) = lr_tool_runtime rt"
  "lr_loop_active (fst (emit env g pt op ev pl rt)) = lr_loop_active rt" "lr_cache (fst (emit env g pt op ev pl rt)) = lr_cache rt"
  by (simp_all add: emit_def Let_def split: write_fate.split prod.split)

lemma emit_scheduler_event_keeps:
  "lr_scheduler (emit_scheduler_event env v rt) = lr_scheduler rt" "lr_streams (emit_scheduler_event env v rt) = lr_streams rt"
  "lr_session (emit_scheduler_event env v rt) = lr_session rt" "lr_tool_runtime (emit_scheduler_event env v rt) = lr_tool_runtime rt"
  "lr_loop_active (emit_scheduler_event env v rt) = lr_loop_active rt" "lr_cache (emit_scheduler_event env v rt) = lr_cache rt"
  by (simp_all add: emit_scheduler_event_def runtime_simps)

lemma fold_scheduler_events_keep:
  "lr_scheduler (fold (emit_scheduler_event env) vs rt) = lr_scheduler rt" "lr_streams (fold (emit_scheduler_event env) vs rt) = lr_streams rt"
  "lr_session (fold (emit_scheduler_event env) vs rt) = lr_session rt" "lr_tool_runtime (fold (emit_scheduler_event env) vs rt) = lr_tool_runtime rt"
  "lr_loop_active (fold (emit_scheduler_event env) vs rt) = lr_loop_active rt" "lr_cache (fold (emit_scheduler_event env) vs rt) = lr_cache rt"
  by (induction vs arbitrary: rt) (simp_all add: emit_scheduler_event_keeps)

lemma with_scheduler_keeps [runtime_simps]:
  "lr_scheduler (with_scheduler env f rt) = f (lr_scheduler rt)" "lr_streams (with_scheduler env f rt) = lr_streams rt"
  "lr_session (with_scheduler env f rt) = lr_session rt" "lr_tool_runtime (with_scheduler env f rt) = lr_tool_runtime rt"
  "lr_loop_active (with_scheduler env f rt) = lr_loop_active rt" "lr_cache (with_scheduler env f rt) = lr_cache rt"
  by (simp_all add: with_scheduler_def Let_def fold_scheduler_events_keep)

lemma emit_refusal_keeps [runtime_simps]:
  "lr_scheduler (emit_refusal env op task st m rt) = lr_scheduler rt" "lr_streams (emit_refusal env op task st m rt) = lr_streams rt"
  "lr_session (emit_refusal env op task st m rt) = lr_session rt" "lr_tool_runtime (emit_refusal env op task st m rt) = lr_tool_runtime rt"
  "lr_loop_active (emit_refusal env op task st m rt) = lr_loop_active rt" "lr_cache (emit_refusal env op task st m rt) = lr_cache rt"
  by (simp_all add: emit_refusal_def runtime_simps)

lemma emit_terminal_keeps [runtime_simps]:
  "lr_scheduler (emit_stream_terminal_event env pt op pl rt) = lr_scheduler rt" "lr_streams (emit_stream_terminal_event env pt op pl rt) = lr_streams rt"
  "lr_loop_active (emit_stream_terminal_event env pt op pl rt) = lr_loop_active rt"
  by (simp_all add: emit_stream_terminal_event_def runtime_simps)

lemma end_stream_keeps [runtime_simps]:
  "lr_scheduler (end_stream op rt) = lr_scheduler rt" "lr_loop_active (end_stream op rt) = lr_loop_active rt"
  "lr_streams (end_stream op rt) = removeAll op (lr_streams rt)" "lr_files (end_stream op rt) = lr_files rt"
  by (simp_all add: end_stream_def)

definition same_but_files :: "local_runtime \<Rightarrow> local_runtime \<Rightarrow> bool" where
  "same_but_files a b \<longleftrightarrow> lr_scheduler b = lr_scheduler a \<and> lr_streams b = lr_streams a \<and> lr_session b = lr_session a \<and>
    lr_tool_runtime b = lr_tool_runtime a \<and> lr_loop_active b = lr_loop_active a \<and> lr_cache b = lr_cache a"

lemma same_refl [simp]: "same_but_files a a"
  by (simp add: same_but_files_def)

lemma same_trans: "same_but_files a b \<Longrightarrow> same_but_files b c \<Longrightarrow> same_but_files a c"
  by (simp add: same_but_files_def)

lemma emit_same: "same_but_files rt (fst (emit env g pt op ev pl rt))"
  by (simp add: same_but_files_def runtime_simps)

lemma execute_proposal_same: "same_but_files rt (fst (execute_proposal env i p rt))"
  using emit_same [of rt]
  by (auto simp: execute_proposal_def Let_def emit_tool_execution_outcome_def case_prod_beta split: option.split tool_effect.split)

lemma run_tools_same: "same_but_files rt (fst (run_tools env op task i pos rt))"
proof (induction pos arbitrary: i rt)
  case (Cons po pos)
  obtain p o1 where po: "po = (p, o1)" by fastforce
  show ?case
  proof (cases "admitted_outcome o1")
    case False
    with Cons.IH [of rt "Suc i"] show ?thesis by (simp add: po case_prod_beta)
  next
    case True
    obtain rt1 oo where ex: "execute_proposal env i p rt = (rt1, oo)" by fastforce
    from execute_proposal_same [of rt env i p] ex have s1: "same_but_files rt rt1" by simp
    show ?thesis
    proof (cases oo)
      case None
      with True ex s1 show ?thesis by (simp add: po)
    next
      case (Some o2)
      let ?e = "emit_tool_execution_outcome env (EM_tool_again i) op (tool_payload env op task (oc_status o2) p) rt1"
      have "same_but_files rt1 (fst ?e)" by (simp add: emit_tool_execution_outcome_def emit_same)
      with s1 Cons.IH [of "fst ?e" "Suc i"] have "same_but_files rt (fst (run_tools env op task (Suc i) pos (fst ?e)))"
        by (meson same_trans)
      with True ex Some show ?thesis by (simp add: po case_prod_beta Let_def)
    qed
  qed
qed simp

lemma handle_tools_same: "same_but_files rt (fst (handle_tool_proposals env ps task op rt))"
proof -
  let ?e = "emit env LG_proposals EM_proposals op ''rig.relay.runtime.tool_proposals_detected''
    (proposals_payload env task ps (map (preflight_outcome env) ps)) rt"
  have "same_but_files rt (fst (run_tools env op task 0 (zip ps (map (preflight_outcome env) ps)) (fst ?e)))"
    by (rule same_trans [OF emit_same run_tools_same])
  moreover have "same_but_files rt (fst ?e)" by (rule emit_same)
  ultimately show ?thesis by (simp add: handle_tool_proposals_def Let_def case_prod_beta)
qed

section \<open>One request at a time\<close>

definition free :: "fcfs_scheduler \<Rightarrow> bool" where
  "free s \<longleftrightarrow> fs_queue s = [] \<and> fs_running s = [] \<and> fs_max_concurrent s = 1"

definition busy_with :: "string \<Rightarrow> fcfs_scheduler \<Rightarrow> bool" where
  "busy_with op s \<longleftrightarrow> fs_queue s = [] \<and> (\<exists>r. fs_running s = [(op, r)]) \<and> fs_max_concurrent s = 1"

lemma submit_when_free:
  "free s \<Longrightarrow> busy_with (sr_operation_id r) (fst (fcfs_submit r now s)) \<and> snd (fcfs_submit r now s)"
  by (simp add: free_def busy_with_def fcfs_submit_def fcfs_enqueue_def fcfs_admit_next_def emit_transition_def Let_def dict_set_def)

lemma submit_when_busy:
  "busy_with op s \<Longrightarrow> busy_with op (fst (fcfs_submit r now s)) \<and> \<not> snd (fcfs_submit r now s)"
  by (auto simp: busy_with_def fcfs_submit_def fcfs_enqueue_def fcfs_admit_next_def fcfs_refuse_def end_queued_def emit_transition_def Let_def)

lemma end_when_busy: "busy_with op s \<Longrightarrow> free (end_running op what st now f n s)"
  by (auto simp: busy_with_def free_def end_running_def emit_transition_def Let_def dict_get_def dict_pop_def)

lemma ends_when_busy:
  "busy_with op s \<Longrightarrow> free (fcfs_complete op resp now s)" "busy_with op s \<Longrightarrow> free (fcfs_fail op err now s)"
  "busy_with op s \<Longrightarrow> free (fst (fcfs_cancel op now s))"
  by (auto simp: fcfs_complete_def fcfs_fail_def fcfs_cancel_def end_when_busy) (auto simp: busy_with_def dict_get_def)

lemma other_cancel_when_busy: "busy_with op s \<Longrightarrow> op' \<noteq> op \<Longrightarrow> fst (fcfs_cancel op' now s) = s"
  by (auto simp: busy_with_def fcfs_cancel_def end_queued_def dict_get_def)

lemma cancel_when_free: "free s \<Longrightarrow> fst (fcfs_cancel op now s) = s"
  by (auto simp: free_def fcfs_cancel_def end_queued_def dict_get_def)

lemma submit_keeps [runtime_simps]:
  "lr_scheduler (fst (submit env r rt)) = fst (fcfs_submit r (re_now env) (lr_scheduler rt))"
  "snd (submit env r rt) = snd (fcfs_submit r (re_now env) (lr_scheduler rt))"
  "lr_streams (fst (submit env r rt)) = lr_streams rt" "lr_loop_active (fst (submit env r rt)) = lr_loop_active rt"
  by (simp_all add: submit_def runtime_simps)

lemma handle_tools_keep [runtime_simps]:
  "lr_scheduler (fst (handle_tool_proposals env ps task op rt)) = lr_scheduler rt"
  "lr_streams (fst (handle_tool_proposals env ps task op rt)) = lr_streams rt"
  "lr_loop_active (fst (handle_tool_proposals env ps task op rt)) = lr_loop_active rt"
  using handle_tools_same [of rt env ps task op] by (simp_all add: same_but_files_def)

lemma receipt_keeps [runtime_simps]:
  "lr_scheduler (fst (emit_execution_receipt env op pl rt)) = lr_scheduler rt"
  "lr_streams (fst (emit_execution_receipt env op pl rt)) = lr_streams rt"
  "lr_loop_active (fst (emit_execution_receipt env op pl rt)) = lr_loop_active rt"
  by (simp_all add: emit_execution_receipt_def runtime_simps)

lemma finish_execution_keeps:
  "lr_streams (fst (finish_execution env op task model ad r rt)) = lr_streams rt"
  "lr_loop_active (fst (finish_execution env op task model ad r rt)) = lr_loop_active rt"
  "busy_with op (lr_scheduler rt) \<Longrightarrow> free (lr_scheduler (fst (finish_execution env op task model ad r rt)))"
  by (simp_all add: finish_execution_def Let_def case_prod_beta runtime_simps ends_when_busy)

lemma finish_stream_keeps:
  "lr_streams (finish_stream env op task model pr r rt) = lr_streams rt"
  "lr_loop_active (finish_stream env op task model pr r rt) = lr_loop_active rt"
  "busy_with op (lr_scheduler rt) \<Longrightarrow> free (lr_scheduler (finish_stream env op task model pr r rt))"
  by (simp_all add: finish_stream_def Let_def case_prod_beta runtime_simps ends_when_busy split: option.split)

lemma request_id [simp]: "sr_operation_id (scheduled_request_of op now k ms m n) = op"
  by (simp add: scheduled_request_of_def)

lemma execute_keeps:
  "lr_streams (fst (execute env op ms m k c n g rt)) = lr_streams rt"
  "lr_loop_active (fst (execute env op ms m k c n g rt)) = lr_loop_active rt"
proof -
  let ?r = "scheduled_request_of op (re_now env) k ms (chosen_model env m) n"
  obtain rt1 b where s: "submit env ?r rt = (rt1, b)" by fastforce
  with submit_keeps(3,4) [of env ?r rt] show
    "lr_streams (fst (execute env op ms m k c n g rt)) = lr_streams rt"
    "lr_loop_active (fst (execute env op ms m k c n g rt)) = lr_loop_active rt"
    by (cases b; cases g; simp add: execute_def Let_def runtime_simps finish_execution_keeps)+
qed

text \<open>Whoever has the only slot: nobody, or the stream of one operation.\<close>

lemma execute_when_free:
  assumes "free (lr_scheduler rt)"
  shows "free (lr_scheduler (fst (execute env op ms m k c n g rt)))"
proof -
  let ?r = "scheduled_request_of op (re_now env) k ms (chosen_model env m) n"
  obtain rt1 b where s: "submit env ?r rt = (rt1, b)" by fastforce
  with submit_when_free [OF assms, of ?r "re_now env"] submit_keeps(1,2) [of env ?r rt]
  have "busy_with op (lr_scheduler rt1)" and b by simp_all
  with assms s show ?thesis
    by (cases g) (simp_all add: execute_def Let_def runtime_simps finish_execution_keeps ends_when_busy)
qed

lemma execute_when_busy:
  assumes "busy_with op0 (lr_scheduler rt)"
  shows "busy_with op0 (lr_scheduler (fst (execute env op ms m k c n g rt)))" (is ?kept)
    and "\<exists>r. snd (execute env op ms m k c n g rt) = Returned r \<and> tk_status r \<in> {TS_refused, TS_blocked}" (is ?refused)
proof -
  let ?r = "scheduled_request_of op (re_now env) k ms (chosen_model env m) n"
  obtain rt1 b where s: "submit env ?r rt = (rt1, b)" by fastforce
  with submit_when_busy [OF assms, of ?r "re_now env"] submit_keeps(1,2) [of env ?r rt]
  have "busy_with op0 (lr_scheduler rt1)" and "\<not> b" by simp_all
  with assms s show ?kept and ?refused by (simp_all add: execute_def Let_def runtime_simps task_refused_def)
qed

lemma stream_when_busy:
  assumes "busy_with op0 (lr_scheduler rt)"
  shows "busy_with op0 (lr_scheduler (fst (stream_execute env op ms m k c n ld its rt))) \<and>
    lr_streams (fst (stream_execute env op ms m k c n ld its rt)) = lr_streams rt \<and>
    (\<exists>why. snd (stream_execute env op ms m k c n ld its rt) = ([], SO_refused why))"
proof -
  let ?r = "scheduled_request_of op (re_now env) k ms (chosen_model env m) n"
  obtain rt1 b where s: "submit env ?r rt = (rt1, b)" by fastforce
  with submit_when_busy [OF assms, of ?r "re_now env"] submit_keeps(1-3) [of env ?r rt]
  have "busy_with op0 (lr_scheduler rt1)" and "\<not> b" and "lr_streams rt1 = lr_streams rt" by simp_all
  with assms s show ?thesis by (simp add: stream_execute_def Let_def runtime_simps)
qed

section \<open>The runtime as one slot\<close>

text \<open>The contract of the runtime: a slot that nobody or one stream holds, and the streams that a drain would reach.\<close>

type_synonym slot = "string option \<times> string list"

definition slot_rel :: "local_runtime \<Rightarrow> slot \<Rightarrow> bool" where
  "slot_rel rt sl \<longleftrightarrow> lr_streams rt = snd sl \<and>
    (case fst sl of None \<Rightarrow> free (lr_scheduler rt) | Some op \<Rightarrow> busy_with op (lr_scheduler rt))"

definition stream_slot :: "string \<Rightarrow> stream_end \<Rightarrow> slot \<Rightarrow> slot" where
  "stream_slot op e sl =
    (case e of
       SE_waiting \<Rightarrow> (Some op, snd sl @ [op])
     | SE_closed \<Rightarrow> (Some op, removeAll op (snd sl))
     | _ \<Rightarrow> (None, removeAll op (snd sl)))"

lemma stream_ended_slot:
  assumes "free (lr_scheduler rt)"
    and "stream_execute env op ms m k c n ld its rt = (rt', ts, SO_ended e)"
  shows "slot_rel rt' (stream_slot op e (None, lr_streams rt))"
proof -
  let ?r = "scheduled_request_of op (re_now env) k ms (chosen_model env m) n"
  obtain rt1 b where s: "submit env ?r rt = (rt1, b)" by fastforce
  with submit_when_free [OF assms(1), of ?r "re_now env"] submit_keeps(1-3) [of env ?r rt]
  have "busy_with op (lr_scheduler rt1)" and b and "lr_streams rt1 = lr_streams rt" by simp_all
  with assms(2) s show ?thesis
    by (auto simp: stream_execute_def Let_def case_prod_beta runtime_simps finish_stream_keeps ends_when_busy slot_rel_def stream_slot_def
        split: if_splits stream_end.splits)
qed

lemma stream_refused_slot:
  assumes "free (lr_scheduler rt)"
    and "stream_execute env op ms m k c n ld its rt = (rt', ts, SO_refused why)"
  shows "slot_rel rt' (None, lr_streams rt)"
proof -
  let ?r = "scheduled_request_of op (re_now env) k ms (chosen_model env m) n"
  obtain rt1 b where s: "submit env ?r rt = (rt1, b)" by fastforce
  with submit_when_free [OF assms(1), of ?r "re_now env"] submit_keeps(2) [of env ?r rt] have b by simp
  with assms s show ?thesis
    by (auto simp: stream_execute_def Let_def case_prod_beta runtime_simps slot_rel_def split: if_splits)
qed

definition stream_step :: "runtime_env \<Rightarrow> string \<Rightarrow> string list \<Rightarrow> string \<Rightarrow> privacy_class \<Rightarrow> stream_item list \<Rightarrow> slot \<Rightarrow> slot" where
  "stream_step env op ms m c its sl =
    (if fst sl = None \<and> ad_admitted (classify_and_admit env ms c) \<and> chosen_model env m \<noteq> ''''
     then stream_slot op (snd (stream_items its)) sl else sl)"

lemma stream_refines:
  assumes "slot_rel rt sl"
  shows "slot_rel (fst (stream_execute env op ms m k c n ld its rt)) (stream_step env op ms m c its sl)"
proof (cases "fst sl")
  case (Some op0)
  with assms stream_when_busy [of op0 rt env op ms m k c n ld its] show ?thesis by (auto simp: slot_rel_def stream_step_def)
next
  case None
  with assms have fr: "free (lr_scheduler rt)" and strs: "snd sl = lr_streams rt" by (simp_all add: slot_rel_def)
  from strs None have sl: "sl = (None, lr_streams rt)" by (metis prod.collapse)
  let ?r = "scheduled_request_of op (re_now env) k ms (chosen_model env m) n"
  from submit_when_free [OF fr, of ?r "re_now env"] submit_keeps(2) [of env ?r rt] have sub: "snd (submit env ?r rt)" by simp
  obtain rt' ts so where ex: "stream_execute env op ms m k c n ld its rt = (rt', ts, so)" by (metis prod.collapse)
  show ?thesis
  proof (cases so)
    case (SO_refused why)
    moreover have "\<not> (ad_admitted (classify_and_admit env ms c) \<and> chosen_model env m \<noteq> '''')"
      using ex sub SO_refused by (auto simp: stream_execute_def Let_def case_prod_beta split: if_splits)
    moreover have "slot_rel rt' (None, lr_streams rt)" by (rule stream_refused_slot [OF fr ex [unfolded SO_refused]])
    ultimately show ?thesis by (auto simp: ex sl stream_step_def)
  next
    case (SO_ended e)
    moreover have "ad_admitted (classify_and_admit env ms c)" and "chosen_model env m \<noteq> ''''" and "e = snd (stream_items its)"
      using ex sub SO_ended by (auto simp: stream_execute_def Let_def case_prod_beta split: if_splits)
    moreover have "slot_rel rt' (stream_slot op e (None, lr_streams rt))" by (rule stream_ended_slot [OF fr ex [unfolded SO_ended]])
    ultimately show ?thesis by (simp add: ex sl stream_step_def)
  qed
qed

lemma execute_refines: "slot_rel rt sl \<Longrightarrow> slot_rel (fst (execute env op ms m k c n g rt)) sl"
  by (auto simp: slot_rel_def execute_keeps execute_when_free execute_when_busy split: option.splits)

definition cancel_step :: "string \<Rightarrow> slot \<Rightarrow> slot" where
  "cancel_step op sl = (if fst sl = Some op then None else fst sl, snd sl)"

lemma cancel_refines: "slot_rel rt sl \<Longrightarrow> slot_rel (fst (cancel_generation env op rt)) (cancel_step op sl)"
  by (auto simp: slot_rel_def cancel_step_def cancel_generation_def runtime_simps ends_when_busy cancel_when_free other_cancel_when_busy
      split: option.splits)

lemma end_stream_refines: "slot_rel rt sl \<Longrightarrow> slot_rel (end_stream op rt) (fst sl, removeAll op (snd sl))"
  by (auto simp: slot_rel_def runtime_simps split: option.splits)

definition drain_step :: "slot \<Rightarrow> slot" where
  "drain_step sl = (case fst sl of None \<Rightarrow> None | Some op \<Rightarrow> if op \<in> set (snd sl) then None else Some op, [])"

lemma drain_streams_refines:
  "slot_rel rt sl \<Longrightarrow> slot_rel (fst (drain_streams env wait ops rt d))
    (case fst sl of None \<Rightarrow> None | Some op \<Rightarrow> if op \<in> set ops then None else Some op, filter (\<lambda>x. x \<notin> set ops) (snd sl))"
proof (induction ops arbitrary: rt sl d)
  case Nil
  then show ?case by (cases sl) (auto split: option.splits)
next
  case (Cons op ops)
  let ?left = "\<lambda>xs. case fst sl of None \<Rightarrow> None | Some x \<Rightarrow> if x \<in> set xs then None else Some x"
  let ?s1 = "(fst (cancel_step op sl), removeAll op (snd (cancel_step op sl)))"
  have "filter (\<lambda>x. x \<notin> set ops) (snd ?s1) = filter (\<lambda>x. x \<notin> set (op # ops)) (snd sl)"
    by (auto simp: cancel_step_def removeAll_filter_not_eq intro: filter_cong)
  moreover have "(case fst ?s1 of None \<Rightarrow> None | Some x \<Rightarrow> if x \<in> set ops then None else Some x) = ?left (op # ops)"
    by (auto simp: cancel_step_def split: option.split)
  moreover note Cons.IH [OF end_stream_refines [OF cancel_refines [OF Cons.prems, of env op], of op]]
  ultimately show ?case by (simp only: drain_streams.simps)
qed

lemma drain_refines:
  assumes "slot_rel rt sl"
  shows "slot_rel (fst (drain_active_streams env wait rt)) (drain_step sl)"
proof -
  from assms have "lr_streams rt = snd sl" by (simp add: slot_rel_def)
  with drain_streams_refines [OF assms, of env wait "snd sl"] show ?thesis by (simp add: drain_active_streams_def drain_step_def)
qed

lemma shutdown_refines:
  assumes "slot_rel rt sl"
  shows "slot_rel (fst (shutdown env wait ended rt)) (drain_step sl)"
  using drain_refines [OF assms, of env wait]
  by (auto simp: shutdown_def Let_def case_prod_beta slot_rel_def split: option.splits)

lemma loop_turns_refines: "slot_rel rt sl \<Longrightarrow> slot_rel (fst (loop_turns envs ops think q turn left p rt)) sl"
proof (induction left arbitrary: turn p rt)
  case 0
  then show ?case by (auto simp: slot_rel_def split: option.splits)
next
  case (Suc left)
  let ?rt0 = "rt\<lparr>lr_loop_turn_count := Suc turn, lr_loop_state := LS_generating\<rparr>"
  obtain rt1 a where ex: "execute (envs (Suc turn)) (ops (Suc turn)) (lp_messages p) (lq_model_id_hash q) ''tool_proposal'' (lq_privacy q)
      (lq_max_tokens q) (think (Suc turn) (lp_messages p)) ?rt0 = (rt1, a)" by fastforce
  have "slot_rel ?rt0 sl" using Suc.prems by (auto simp: slot_rel_def split: option.splits)
  from execute_refines [OF this, of "envs (Suc turn)" "ops (Suc turn)"] ex have "slot_rel rt1 sl" by (metis fst_conv)
  then have s: "slot_rel (rt1\<lparr>lr_loop_state := st\<rparr>) sl" for st by (auto simp: slot_rel_def split: option.splits)
  show ?case
  proof (cases a)
    case Raised_cancelled
    with ex s show ?thesis by (simp add: Let_def)
  next
    case (Returned r)
    with ex s Suc.IH [OF s] show ?thesis by (simp add: Let_def)
  qed
qed

lemma loop_refines:
  assumes "slot_rel rt sl"
  shows "slot_rel (fst (execute_local_agent_loop envs ops think ready loop_id q rt)) sl"
proof (cases "lr_loop_active rt")
  case True
  with assms show ?thesis by (simp add: execute_local_agent_loop_def)
next
  case False
  let ?rt0 = "bind_session ready (lq_session q) (rt\<lparr>lr_loop_active := True, lr_loop_max_turns := lq_max_tool_turns q, lr_loop_turn_count := 0\<rparr>)"
  have "slot_rel ?rt0 sl" using assms by (auto simp: slot_rel_def bind_session_def split: option.splits)
  from loop_turns_refines [OF this] False show ?thesis
    by (auto simp: execute_local_agent_loop_def Let_def case_prod_beta slot_rel_def split: option.splits)
qed

section \<open>Any calls of the runtime\<close>

datatype runtime_call =
    RC_execute runtime_env string "string list" string string privacy_class int generation
  | RC_stream runtime_env string "string list" string string privacy_class int "string option" "stream_item list"
  | RC_cancel runtime_env string
  | RC_drain runtime_env "string \<Rightarrow> drain_wait"
  | RC_shutdown runtime_env "string \<Rightarrow> drain_wait" bool
  | RC_loop "nat \<Rightarrow> runtime_env" "nat \<Rightarrow> string" "nat \<Rightarrow> string list \<Rightarrow> generation" bool string loop_request
  | RC_bind bool runtime_session
  | RC_unbind

fun runtime_do :: "runtime_call \<Rightarrow> local_runtime \<Rightarrow> local_runtime" where
  "runtime_do (RC_execute env op ms m k c n g) rt = fst (execute env op ms m k c n g rt)"
| "runtime_do (RC_stream env op ms m k c n ld its) rt = fst (stream_execute env op ms m k c n ld its rt)"
| "runtime_do (RC_cancel env op) rt = fst (cancel_generation env op rt)"
| "runtime_do (RC_drain env wait) rt = fst (drain_active_streams env wait rt)"
| "runtime_do (RC_shutdown env wait ended) rt = fst (shutdown env wait ended rt)"
| "runtime_do (RC_loop envs ops think ready loop_id q) rt = fst (execute_local_agent_loop envs ops think ready loop_id q rt)"
| "runtime_do (RC_bind ready s) rt = bind_session ready s rt"
| "runtime_do RC_unbind rt = (case unbind_session rt of None \<Rightarrow> rt | Some rt1 \<Rightarrow> rt1)"

text \<open>What a call does to the slot: only streams, cancellations and drains do anything.\<close>

fun slot_step :: "runtime_call \<Rightarrow> slot \<Rightarrow> slot" where
  "slot_step (RC_stream env op ms m k c n ld its) sl = stream_step env op ms m c its sl"
| "slot_step (RC_cancel env op) sl = cancel_step op sl"
| "slot_step (RC_drain env wait) sl = drain_step sl"
| "slot_step (RC_shutdown env wait ended) sl = drain_step sl"
| "slot_step k sl = sl"

definition runtime_init :: "prompt_cache \<Rightarrow> local_runtime" where
  "runtime_init cache =
    \<lparr>lr_scheduler = fcfs_init 1, lr_files = (\<lambda>g. []), lr_streams = [], lr_cache = cache, lr_session = None, lr_tool_runtime = False,
     lr_loop_active = False, lr_loop_state = LS_idle, lr_loop_turn_count = 0, lr_loop_max_turns = 5, lr_shutdown_state = ''not_initiated''\<rparr>"

lemma runtime_init_slot: "slot_rel (runtime_init cache) (None, [])"
  by (simp add: slot_rel_def runtime_init_def free_def fcfs_init_def)

lemma bind_refines: "slot_rel rt sl \<Longrightarrow> slot_rel (bind_session ready s rt) sl"
  by (auto simp: slot_rel_def bind_session_def split: option.splits)

lemma unbind_refines: "slot_rel rt sl \<Longrightarrow> slot_rel (case unbind_session rt of None \<Rightarrow> rt | Some rt1 \<Rightarrow> rt1) sl"
  by (auto simp: unbind_session_def slot_rel_def split: option.splits)

lemma runtime_do_refines: "slot_rel rt sl \<Longrightarrow> slot_rel (runtime_do k rt) (slot_step k sl)"
  by (cases k) (simp_all add: execute_refines stream_refines cancel_refines drain_refines shutdown_refines loop_refines
      bind_refines unbind_refines)

lemma runtime_run_refines: "slot_rel rt sl \<Longrightarrow> slot_rel (fold runtime_do ks rt) (fold slot_step ks sl)"
  by (induction ks arbitrary: rt sl) (simp_all add: runtime_do_refines)

lemma slot_lost: "sl = (Some op, strs) \<Longrightarrow> op \<notin> set strs \<Longrightarrow> \<forall>k \<in> set ks. \<forall>env. k \<noteq> RC_cancel env op \<Longrightarrow>
    \<exists>strs'. fold slot_step ks sl = (Some op, strs') \<and> op \<notin> set strs'"
proof (induction ks arbitrary: sl strs)
  case (Cons k ks)
  have "\<exists>strs'. slot_step k sl = (Some op, strs') \<and> op \<notin> set strs'"
    using Cons.prems by (cases k) (auto simp: stream_step_def cancel_step_def drain_step_def)
  with Cons.IH Cons.prems(3) show ?case by auto
qed simp

section \<open>Properties: the slot\<close>

text \<open>A runtime for the witnesses: one model, no secrets, no ledger that refuses.\<close>

definition plain_runtime_env :: runtime_env where
  "plain_runtime_env =
    \<lparr>re_available = True, re_models = [''m''], re_scan = (\<lambda>ms. if ms = [''key''] then [''aws''] else []), re_task_hash = concat,
     re_sha = id, re_ledger = (\<lambda>g. plain_ledger_env), re_fate = (\<lambda>p. WF_ok), re_now = Aware 0, re_fresh = ''f'', re_library = False,
     re_tool_op = (\<lambda>i. ''t'' @ replicate i CHR ''i''), re_tool = (\<lambda>p. TE_status ''completed'' [] None)\<rparr>"

definition no_ssd_cache :: prompt_cache where
  "no_ssd_cache = cache_init '''' False 1"


text \<open>
  C37: A stream that its consumer closes keeps the only slot: whatever is called afterwards, drains and shutdowns
  included, as long as nobody cancels that operation by its identifier, every later task is blocked or refused.
\<close>

theorem closed_stream_blocks_runtime:
  assumes "free (lr_scheduler rt)"
    and "snd (snd (stream_execute env op ms m k c n ld its rt)) = SO_ended SE_closed"
    and "\<forall>k \<in> set ks. \<forall>env. k \<noteq> RC_cancel env op"
  shows "\<exists>r. snd (execute env' op' ms' m' k' c' n' g (fold runtime_do ks (fst (stream_execute env op ms m k c n ld its rt)))) = Returned r \<and>
    tk_status r \<in> {TS_refused, TS_blocked}"
proof -
  obtain rt' ts where ex: "stream_execute env op ms m k c n ld its rt = (rt', ts, SO_ended SE_closed)"
    using assms(2) by (metis prod.collapse)
  have "slot_rel rt' (Some op, removeAll op (lr_streams rt))"
    using stream_ended_slot [OF assms(1) ex] by (simp add: stream_slot_def)
  from runtime_run_refines [OF this, of ks] slot_lost [OF refl _ assms(3), of "removeAll op (lr_streams rt)"]
  have "busy_with op (lr_scheduler (fold runtime_do ks rt'))" by (auto simp: slot_rel_def)
  then show ?thesis unfolding ex by (simp only: fst_conv execute_when_busy(2))
qed

lemma closed_stream_blocks_runtime_witness:
  "\<exists>r. snd (execute plain_runtime_env ''b'' [''x''] ''m'' ''k'' PUBLIC_SAFE 1 Gen_cancelled
      (fold runtime_do [RC_drain plain_runtime_env (\<lambda>op. DW_done)]
        (fst (stream_execute plain_runtime_env ''a'' [''x''] ''m'' ''k'' PUBLIC_SAFE 1 None [SI_token ''t'', SI_closed] (runtime_init no_ssd_cache))))) =
    Returned r \<and> tk_status r \<in> {TS_refused, TS_blocked}"
  by (rule closed_stream_blocks_runtime)
    (simp_all add: runtime_init_def free_def fcfs_init_def stream_execute_def plain_runtime_env_def classify_and_admit_def chosen_model_def
      Let_def case_prod_beta submit_def fcfs_submit_def fcfs_enqueue_def fcfs_admit_next_def)

definition stream_ends :: "runtime_call \<Rightarrow> bool" where
  "stream_ends k \<longleftrightarrow> (case k of RC_stream env op ms m kd c n ld its \<Rightarrow> snd (stream_items its) \<notin> {SE_waiting, SE_closed} | _ \<Rightarrow> True)"

lemma slots_stay_free: "\<forall>k \<in> set ks. stream_ends k \<Longrightarrow> fold slot_step ks (None, []) = (None, [])"
proof (induction ks)
  case (Cons k ks)
  have "slot_step k (None, []) = (None, [])"
    using Cons.prems by (cases k) (auto simp: stream_ends_def stream_step_def stream_slot_def cancel_step_def drain_step_def split: stream_end.split)
  with Cons show ?case by simp
qed simp

text \<open>
  C15: When every stream ends by itself, the runtime is free again after each call, whatever the model, the tools and the
  writes of evidence did: a task that is admitted then gets the slot and its answer, and leaves the runtime free.
\<close>

theorem runtime_free_again:
  assumes "\<forall>k \<in> set ks. stream_ends k" and "ad_admitted (classify_and_admit env ms c)" and "chosen_model env m \<noteq> ''''"
    and "rt = fold runtime_do ks (runtime_init cache)"
  shows "(\<exists>res. snd (execute env op ms m k c n (Gen_ok r) rt) = Returned res \<and> tk_executed res \<and> tk_status res \<in> {TS_executed, TS_evidence_failed}) \<and>
    free (lr_scheduler (fst (execute env op ms m k c n g rt))) \<and> lr_streams rt = []"
proof -
  have "slot_rel rt (None, [])"
    using runtime_run_refines [OF runtime_init_slot, of ks cache] assms(4) slots_stay_free [OF assms(1)] by simp
  then have fr: "free (lr_scheduler rt)" and strs: "lr_streams rt = []" by (simp_all add: slot_rel_def)
  let ?q = "scheduled_request_of op (re_now env) k ms (chosen_model env m) n"
  obtain rt1 b where s: "submit env ?q rt = (rt1, b)" by fastforce
  with submit_when_free [OF fr, of ?q "re_now env"] submit_keeps(2) [of env ?q rt] have b by simp
  with s assms(2,3) have "\<exists>res. snd (execute env op ms m k c n (Gen_ok r) rt) = Returned res \<and> tk_executed res \<and>
      tk_status res \<in> {TS_executed, TS_evidence_failed}"
    by (simp add: execute_def Let_def finish_execution_def case_prod_beta)
  with execute_when_free [OF fr] strs show ?thesis by simp
qed

lemma runtime_free_again_witness:
  "lr_streams (fold runtime_do [RC_stream plain_runtime_env ''a'' [''x''] ''m'' ''k'' PUBLIC_SAFE 1 None [SI_token ''t'', SI_error ''e'']]
    (runtime_init no_ssd_cache)) = []"
  using runtime_free_again [of "[RC_stream plain_runtime_env ''a'' [''x''] ''m'' ''k'' PUBLIC_SAFE 1 None [SI_token ''t'', SI_error ''e'']]"
    plain_runtime_env "[''x'']" PUBLIC_SAFE "''m''", OF _ _ _ refl]
  by (simp add: stream_ends_def plain_runtime_env_def classify_and_admit_def chosen_model_def Let_def del: fold.simps)

text \<open>
  C11: Messages in which the scan finds a secret, or that the caller declares to bear one, reach neither the model nor the
  scheduler nor the cache: the task is refused whatever the model would answer, and a stream of them ends without a text.
\<close>

theorem secrets_never_reach_model:
  assumes "re_scan env ms \<noteq> [] \<or> c = SECRET_BEARING"
  shows "(\<exists>rt' r. (\<forall>g. execute env op ms m k c n g rt = (rt', Returned r)) \<and> tk_status r = TS_refused \<and> \<not> tk_executed r \<and> tk_response r = None \<and>
      same_but_files rt rt') \<and>
    (\<exists>rt' why. (\<forall>its. stream_execute env op ms m k c n ld its rt = (rt', [], SO_refused why)) \<and> same_but_files rt rt')"
proof -
  have no: "\<not> ad_admitted (classify_and_admit env ms c)" using assms by (auto simp: classify_and_admit_def Let_def)
  have same: "same_but_files rt (emit_refusal env (re_fresh env) (re_task_hash env ms) ''refused'' '''' rt)"
    by (simp add: same_but_files_def runtime_simps)
  from no same show ?thesis by (simp add: execute_def stream_execute_def Let_def task_refused_def)
qed

lemma secrets_never_reach_model_witness:
  "\<exists>rt' r. (\<forall>g. execute plain_runtime_env ''a'' [''key''] ''m'' ''k'' PUBLIC_SAFE 1 g (runtime_init no_ssd_cache) = (rt', Returned r)) \<and>
    tk_status r = TS_refused \<and> \<not> tk_executed r \<and> tk_response r = None \<and> same_but_files (runtime_init no_ssd_cache) rt'"
  by (rule secrets_never_reach_model [THEN conjunct1]) (simp add: plain_runtime_env_def)

section \<open>Properties: tools\<close>

text \<open>What a proposal must be to be executed; the legality gate is asked with constants and never refuses.\<close>

definition may_run :: "runtime_env \<Rightarrow> tool_proposal \<Rightarrow> bool" where
  "may_run env p \<longleftrightarrow>
    re_scan env [tp_arguments p] = [] \<and> tp_tool_name p \<in> {''bash'', ''write_file'', ''search_replace''} \<and>
    tp_arguments p \<noteq> '''' \<and> length (tp_arguments p) \<le> MAX_ARG_BYTES"

lemma preflight_admits:
  "preflight_status env p = ''admitted_pending_execution'' \<longleftrightarrow>
    re_scan env [tp_arguments p] = [] \<and> tp_tool_name p \<in> {''bash'', ''write_file'', ''search_replace''}"
  by (auto simp: preflight_status_def TOOL_CAPABILITY_MAP_def legality_decision is_network_capability_def NETWORK_CAPABILITIES_def)

lemma admitted_iff_may_run: "admitted_outcome (preflight_outcome env p) \<longleftrightarrow> may_run env p"
  by (auto simp: admitted_outcome_def preflight_outcome_def may_run_def preflight_admits not_less)

lemma other_tools_same [simp]:
  "emit (env\<lparr>re_tool := f\<rparr>) g pt op ev pl rt = emit env g pt op ev pl rt"
  "preflight_status (env\<lparr>re_tool := f\<rparr>) p = preflight_status env p"
  "tool_payload (env\<lparr>re_tool := f\<rparr>) op task st p = tool_payload env op task st p"
  "bridge_payload (env\<lparr>re_tool := f\<rparr>) op st out err p = bridge_payload env op st out err p"
  "proposals_payload (env\<lparr>re_tool := f\<rparr>) task ps os = proposals_payload env task ps os"
proof -
  show "emit (env\<lparr>re_tool := f\<rparr>) g pt op ev pl rt = emit env g pt op ev pl rt"
    by (cases "re_fate env pt") (simp_all add: emit_def)
  show "preflight_status (env\<lparr>re_tool := f\<rparr>) p = preflight_status env p"
    by (cases "map_of TOOL_CAPABILITY_MAP (tp_tool_name p)") (simp_all add: preflight_status_def)
  show "tool_payload (env\<lparr>re_tool := f\<rparr>) op task st p = tool_payload env op task st p" by (simp add: tool_payload_def)
  show "bridge_payload (env\<lparr>re_tool := f\<rparr>) op st out err p = bridge_payload env op st out err p" by (simp add: bridge_payload_def)
  show "proposals_payload (env\<lparr>re_tool := f\<rparr>) task ps os = proposals_payload env task ps os" by (simp add: proposals_payload_def)
qed

lemma other_tools_same_outcome [simp]:
  "preflight_outcome (env\<lparr>re_tool := f\<rparr>) = preflight_outcome env"
  "emit_tool_execution_outcome (env\<lparr>re_tool := f\<rparr>) = emit_tool_execution_outcome env"
  by (intro ext; simp add: preflight_outcome_def emit_tool_execution_outcome_def)+

lemma execute_proposal_other_tools: "f p = re_tool env p \<Longrightarrow> execute_proposal (env\<lparr>re_tool := f\<rparr>) i p rt = execute_proposal env i p rt"
  by (cases "lr_session rt"; cases "re_tool env p") (simp_all add: execute_proposal_def Let_def)

lemma run_tools_other_tools:
  "\<forall>(p, o1) \<in> set pos. admitted_outcome o1 \<longrightarrow> f p = re_tool env p \<Longrightarrow>
    run_tools (env\<lparr>re_tool := f\<rparr>) op task i pos rt = run_tools env op task i pos rt"
proof (induction pos arbitrary: i rt)
  case (Cons po pos)
  then have IH: "run_tools (env\<lparr>re_tool := f\<rparr>) op task j pos rt' = run_tools env op task j pos rt'" for j rt' by simp
  obtain p o1 where po: "po = (p, o1)" by fastforce
  with Cons.prems have "admitted_outcome o1 \<Longrightarrow> execute_proposal (env\<lparr>re_tool := f\<rparr>) i p rt = execute_proposal env i p rt"
    by (simp add: execute_proposal_other_tools)
  then show ?case by (cases "admitted_outcome o1") (simp_all only: po run_tools.simps IH other_tools_same other_tools_same_outcome not_True_eq_False not_False_eq_True if_True if_False)
qed simp

text \<open>
  C12: Only proposals that may run reach a tool: the names of three tools, arguments that are present, bounded and without a
  secret.  Whatever the tools would do with any other proposal, the batch, its answers and its evidence are the same.
\<close>

theorem only_admitted_tools_run:
  assumes "\<forall>p \<in> set ps. may_run env p \<longrightarrow> f p = re_tool env p"
  shows "handle_tool_proposals (env\<lparr>re_tool := f\<rparr>) ps task op rt = handle_tool_proposals env ps task op rt"
proof -
  have "run_tools (env\<lparr>re_tool := f\<rparr>) op task 0 (zip ps (map (preflight_outcome env) ps)) rt' =
      run_tools env op task 0 (zip ps (map (preflight_outcome env) ps)) rt'" for rt'
    using assms by (intro run_tools_other_tools) (auto simp: zip_map2 zip_same_conv_map admitted_iff_may_run)
  then show ?thesis by (simp add: handle_tool_proposals_def Let_def)
qed

lemma only_admitted_tools_run_witness:
  "handle_tool_proposals (plain_runtime_env\<lparr>re_tool := (\<lambda>p. TE_raises ''x'')\<rparr>) [\<lparr>tp_call_id = ''c'', tp_tool_name = ''rm'', tp_arguments = ''x''\<rparr>]
      ''t'' ''a'' (runtime_init no_ssd_cache) =
    handle_tool_proposals plain_runtime_env [\<lparr>tp_call_id = ''c'', tp_tool_name = ''rm'', tp_arguments = ''x''\<rparr>] ''t'' ''a'' (runtime_init no_ssd_cache)"
  by (rule only_admitted_tools_run) (simp add: may_run_def)

section \<open>What every write of evidence keeps\<close>

text \<open>The writes a call can make.\<close>

fun call_ok :: "(runtime_env \<Rightarrow> bool) \<Rightarrow> runtime_call \<Rightarrow> bool" where
  "call_ok ok (RC_execute env op ms m k c n g) = ok env"
| "call_ok ok (RC_stream env op ms m k c n ld its) = ok env"
| "call_ok ok (RC_cancel env op) = ok env"
| "call_ok ok (RC_drain env wait) = ok env"
| "call_ok ok (RC_shutdown env wait ended) = ok env"
| "call_ok ok (RC_loop envs ops think ready loop_id q) = (\<forall>i. ok (envs i))"
| "call_ok ok k = True"

text \<open>A property of the files that every single write keeps is kept by every call.\<close>

locale evidence_invariant =
  fixes P :: "(evidence_ledger \<Rightarrow> envelope_file) \<Rightarrow> bool" and ok :: "runtime_env \<Rightarrow> bool"
  assumes emit_keeps_evidence: "ok env \<Longrightarrow> P (lr_files rt) \<Longrightarrow> P (lr_files (fst (emit env g pt op ev pl rt)))"
begin

lemma with_scheduler_holds:
  assumes w: "ok env" and "P (lr_files rt)"
  shows "P (lr_files (with_scheduler env f rt))"
proof -
  have "P (lr_files r) \<Longrightarrow> P (lr_files (fold (emit_scheduler_event env) vs r))" for vs r
    by (induction vs arbitrary: r) (simp_all add: emit_scheduler_event_def emit_keeps_evidence [OF w])
  with assms(2) show ?thesis by (simp add: with_scheduler_def Let_def)
qed

lemma tool_evidence_holds:
  "ok env \<Longrightarrow> P (lr_files rt) \<Longrightarrow> P (lr_files (fst (emit_tool_execution_outcome env pt op pl rt)))"
  by (simp add: emit_tool_execution_outcome_def emit_keeps_evidence)

lemma execute_proposal_holds: "ok env \<Longrightarrow> P (lr_files rt) \<Longrightarrow> P (lr_files (fst (execute_proposal env i p rt)))"
  by (auto simp: execute_proposal_def Let_def case_prod_beta tool_evidence_holds split: option.split tool_effect.split)

lemma run_tools_holds:
  assumes w: "ok env"
  shows "P (lr_files rt) \<Longrightarrow> P (lr_files (fst (run_tools env op task i pos rt)))"
proof (induction pos arbitrary: i rt)
  case (Cons po pos)
  obtain p o1 where po: "po = (p, o1)" by fastforce
  obtain rt1 oo where ex: "execute_proposal env i p rt = (rt1, oo)" by fastforce
  with execute_proposal_holds [OF w Cons.prems, of i p] have i1: "P (lr_files rt1)" by simp
  from Cons.IH [OF Cons.prems] Cons.IH [OF tool_evidence_holds [OF w i1]] i1 show ?case
    by (auto simp: po ex case_prod_beta Let_def split: option.split)
qed simp

lemma tools_hold:
  assumes w: "ok env" and "P (lr_files rt)"
  shows "P (lr_files (fst (handle_tool_proposals env ps task op rt)))"
  using run_tools_holds [OF w emit_keeps_evidence [OF assms]] emit_keeps_evidence [OF assms]
  by (simp add: handle_tool_proposals_def Let_def case_prod_beta)

lemma receipts_hold:
  "ok env \<Longrightarrow> P (lr_files rt) \<Longrightarrow> P (lr_files (fst (emit_execution_receipt env op pl rt)))"
  "ok env \<Longrightarrow> P (lr_files rt) \<Longrightarrow> P (lr_files (emit_refusal env op task st m rt))"
  "ok env \<Longrightarrow> P (lr_files rt) \<Longrightarrow> P (lr_files (emit_stream_terminal_event env pt op pl rt))"
  "ok env \<Longrightarrow> P (lr_files rt) \<Longrightarrow> P (lr_files (fst (submit env r rt)))"
  by (simp_all add: emit_execution_receipt_def emit_refusal_def emit_stream_terminal_event_def submit_def emit_keeps_evidence with_scheduler_holds)

lemma finish_holds:
  assumes "ok env" and "P (lr_files rt)"
  shows "P (lr_files (fst (finish_execution env op task model ad r rt)))"
    and "P (lr_files (finish_stream env op task model pr r rt))"
  using assms by (simp_all add: finish_execution_def finish_stream_def Let_def case_prod_beta with_scheduler_holds receipts_hold tools_hold
      split: option.split)

lemma execute_holds:
  assumes w: "ok env" and i: "P (lr_files rt)"
  shows "P (lr_files (fst (execute env op ms m k c n g rt)))"
proof -
  obtain rt1 b where s: "submit env (scheduled_request_of op (re_now env) k ms (chosen_model env m) n) rt = (rt1, b)" by fastforce
  with receipts_hold(4) [OF w i, of "scheduled_request_of op (re_now env) k ms (chosen_model env m) n"] have "P (lr_files rt1)" by simp
  with s w i show ?thesis
    by (cases b; cases g) (simp_all add: execute_def Let_def with_scheduler_holds receipts_hold finish_holds)
qed

lemma stream_holds:
  assumes w: "ok env" and i: "P (lr_files rt)"
  shows "P (lr_files (fst (stream_execute env op ms m k c n ld its rt)))"
proof -
  obtain rt1 b where s: "submit env (scheduled_request_of op (re_now env) k ms (chosen_model env m) n) rt = (rt1, b)" by fastforce
  with receipts_hold(4) [OF w i, of "scheduled_request_of op (re_now env) k ms (chosen_model env m) n"] have i1: "P (lr_files rt1)" by simp
  from s w i i1 show ?thesis
    by (cases b; cases "snd (stream_items its)")
      (simp_all add: stream_execute_def Let_def case_prod_beta with_scheduler_holds receipts_hold finish_holds runtime_simps)
qed

lemma drain_holds: "ok env \<Longrightarrow> P (lr_files rt) \<Longrightarrow> P (lr_files (fst (drain_streams env wait ops rt d)))"
  by (induction ops arbitrary: rt d) (simp_all add: cancel_generation_def with_scheduler_holds runtime_simps)

lemma loop_turns_hold:
  assumes w: "\<forall>i. ok (envs i)"
  shows "P (lr_files rt) \<Longrightarrow> P (lr_files (fst (loop_turns envs ops think q turn left p rt)))"
proof (induction left arbitrary: turn p rt)
  case (Suc left)
  let ?rt0 = "rt\<lparr>lr_loop_turn_count := Suc turn, lr_loop_state := LS_generating\<rparr>"
  obtain rt1 a where ex: "execute (envs (Suc turn)) (ops (Suc turn)) (lp_messages p) (lq_model_id_hash q) ''tool_proposal'' (lq_privacy q)
      (lq_max_tokens q) (think (Suc turn) (lp_messages p)) ?rt0 = (rt1, a)" by fastforce
  have "P (lr_files ?rt0)" using Suc.prems by simp
  from execute_holds [OF w [rule_format] this, of "Suc turn" "ops (Suc turn)"] ex have "P (lr_files rt1)" by (metis fst_conv)
  then have s: "P (lr_files (rt1\<lparr>lr_loop_state := st\<rparr>))" for st by simp
  from ex s Suc.IH [OF s] show ?case by (cases a) (simp_all add: Let_def)
qed simp

lemma loop_holds:
  assumes "\<forall>i. ok (envs i)" and "P (lr_files rt)"
  shows "P (lr_files (fst (execute_local_agent_loop envs ops think ready loop_id q rt)))"
proof (cases "lr_loop_active rt")
  case False
  let ?rt0 = "bind_session ready (lq_session q) (rt\<lparr>lr_loop_active := True, lr_loop_max_turns := lq_max_tool_turns q, lr_loop_turn_count := 0\<rparr>)"
  have "P (lr_files ?rt0)" using assms(2) by (simp add: bind_session_def)
  from loop_turns_hold [OF assms(1) this] False show ?thesis
    by (simp add: execute_local_agent_loop_def Let_def case_prod_beta)
qed (use assms in \<open>simp add: execute_local_agent_loop_def\<close>)

lemma shutdown_holds:
  assumes "ok env" and "P (lr_files rt)"
  shows "P (lr_files (fst (shutdown env wait ended rt)))"
  using drain_holds [OF assms] by (simp add: shutdown_def drain_active_streams_def Let_def case_prod_beta)

lemma call_holds: "call_ok ok k \<Longrightarrow> P (lr_files rt) \<Longrightarrow> P (lr_files (runtime_do k rt))"
  by (cases k) (simp_all add: execute_holds stream_holds loop_holds shutdown_holds drain_active_streams_def drain_holds
      cancel_generation_def with_scheduler_holds bind_session_def unbind_session_def)

theorem calls_hold: "\<forall>k \<in> set ks. call_ok ok k \<Longrightarrow> P (lr_files rt) \<Longrightarrow> P (lr_files (fold runtime_do ks rt))"
  by (induction ks arbitrary: rt) (simp_all add: call_holds)

end

section \<open>Properties: the ledgers\<close>

definition all_intact :: "(evidence_ledger \<Rightarrow> ledger_env) \<Rightarrow> (evidence_ledger \<Rightarrow> envelope_file) \<Rightarrow> bool" where
  "all_intact L files \<longleftrightarrow> (\<forall>g. ledger_intact (L g) (files g))"

text \<open>The writes of a call reach the disk whole or not at all.\<close>

definition writes_whole :: "(evidence_ledger \<Rightarrow> ledger_env) \<Rightarrow> runtime_env \<Rightarrow> bool" where
  "writes_whole L env \<longleftrightarrow> re_ledger env = L \<and> (\<forall>p. re_fate env p \<noteq> WF_short)"

lemma emit_intact:
  assumes "writes_whole L env" and "all_intact L (lr_files rt)"
  shows "all_intact L (lr_files (fst (emit env g pt op ev pl rt)))"
proof (cases "re_fate env pt")
  case WF_ok
  have "ledger_intact (L g) (fst (append_envelope (L g) True (re_now env) op ev pl (lr_files rt g)))"
    using assms(2) by (intro append_keeps_intact) (simp_all add: all_intact_def)
  with assms WF_ok show ?thesis by (simp add: emit_def writes_whole_def all_intact_def case_prod_beta)
qed (use assms in \<open>simp_all add: emit_def writes_whole_def\<close>)

interpretation intact: evidence_invariant "all_intact L" "writes_whole L" for L
  by unfold_locales (rule emit_intact)

text \<open>
  Whatever is called and whatever fails, as long as no write of evidence is cut short, every ledger of the runtime can
  be read and verifies from its first entry to its last.
\<close>

theorem runtime_ledgers_verify:
  assumes "\<forall>k \<in> set ks. call_ok (writes_whole L) k"
  shows "\<exists>es. reconstruct (L g) (lr_files (fold runtime_do ks (runtime_init cache)) g) = Inr es"
proof -
  have "all_intact L (lr_files (runtime_init cache))" by (simp add: all_intact_def runtime_init_def ledger_intact_def)
  from intact.calls_hold [OF assms this] have "ledger_intact (L g) (lr_files (fold runtime_do ks (runtime_init cache)) g)"
    by (simp add: all_intact_def)
  then show ?thesis by (auto simp: ledger_intact_def reconstruct_def)
qed

lemma runtime_ledgers_verify_witness:
  "\<exists>es. reconstruct plain_ledger_env (lr_files (fold runtime_do
    [RC_execute plain_runtime_env ''a'' [''x''] ''m'' ''k'' PUBLIC_SAFE 1 Gen_cancelled] (runtime_init no_ssd_cache)) LG_execution) = Inr es"
  by (rule runtime_ledgers_verify [where L = "\<lambda>g. plain_ledger_env"]) (simp add: writes_whole_def plain_runtime_env_def)

section \<open>Properties: the agent loop\<close>

lemma loop_turns_bounds:
  "\<exists>r. snd (loop_turns envs ops think q turn left p rt) = r \<and> turn \<le> lo_turn_count r \<and> lo_turn_count r \<le> turn + left \<and>
    (lo_terminal_state r = LS_loop_limit_reached \<longrightarrow> lo_turn_count r = turn + left) \<and>
    length (lo_evidence_chain r) + turn \<le> length (lp_chain p) + lo_turn_count r"
proof (induction left arbitrary: turn p rt)
  case 0
  then show ?case by (simp add: loop_answer_def)
next
  case (Suc left)
  let ?rt0 = "rt\<lparr>lr_loop_turn_count := Suc turn, lr_loop_state := LS_generating\<rparr>"
  obtain rt1 a where ex: "execute (envs (Suc turn)) (ops (Suc turn)) (lp_messages p) (lq_model_id_hash q) ''tool_proposal'' (lq_privacy q)
      (lq_max_tokens q) (think (Suc turn) (lp_messages p)) ?rt0 = (rt1, a)" by fastforce
  show ?case
  proof (cases a)
    case Raised_cancelled
    with ex show ?thesis by (simp add: loop_answer_def Let_def)
  next
    case (Returned r)
    let ?p1 = "p\<lparr>lp_content := (case tk_response r of None \<Rightarrow> lp_content p | Some a \<Rightarrow> if ir_content a = '''' then lp_content p else ir_content a),
      lp_chain := lp_chain p @ (if tk_receipt_id r = '''' then [] else [tk_receipt_id r])\<rparr>"
    let ?seen = "filter (\<lambda>o1. \<not> oc_meta o1) (case tk_outcomes r of None \<Rightarrow> [] | Some os \<Rightarrow> os)"
    let ?p2 = "?p1\<lparr>lp_observations := lp_observations ?p1 @ map observation_of ?seen\<rparr>"
    let ?p3 = "?p2\<lparr>lp_messages := lp_messages ?p2 @ [tool_result_message (lp_observations ?p2)]\<rparr>"
    from Suc.IH [of "Suc turn" ?p3 "rt1\<lparr>lr_loop_state := LS_continuing_generation\<rparr>"] ex Returned show ?thesis
      by (auto simp: loop_answer_def Let_def)
  qed
qed

text \<open>
  C39: An agent loop always ends, whatever the model and its tools answer: after at most the turns it was given, and after
  exactly these when it says that it reached its limit; it names one receipt a turn at most and leaves the runtime without a
  session and without an active loop.
\<close>

theorem agent_loop_bounded:
  assumes "\<not> lr_loop_active rt"
  shows "\<exists>rt' r. execute_local_agent_loop envs ops think ready loop_id q rt = (rt', Some r) \<and>
    lo_turn_count r \<le> nat (lq_max_tool_turns q) \<and>
    (lo_terminal_state r = LS_loop_limit_reached \<longrightarrow> lo_turn_count r = nat (lq_max_tool_turns q)) \<and>
    length (lo_evidence_chain r) \<le> lo_turn_count r \<and>
    \<not> lr_loop_active rt' \<and> lr_session rt' = None \<and> current_loop_state rt' = LS_idle"
proof -
  obtain rt1 r where run: "loop_turns envs ops think q 0 (nat (lq_max_tool_turns q))
      \<lparr>lp_messages = lq_messages q, lp_content = '''', lp_observations = [], lp_chain = []\<rparr>
      (bind_session ready (lq_session q) (rt\<lparr>lr_loop_active := True, lr_loop_max_turns := lq_max_tool_turns q, lr_loop_turn_count := 0\<rparr>)) = (rt1, r)"
    by fastforce
  with loop_turns_bounds [of envs ops think q 0 "nat (lq_max_tool_turns q)"
      "\<lparr>lp_messages = lq_messages q, lp_content = '''', lp_observations = [], lp_chain = []\<rparr>"
      "bind_session ready (lq_session q) (rt\<lparr>lr_loop_active := True, lr_loop_max_turns := lq_max_tool_turns q, lr_loop_turn_count := 0\<rparr>)"] assms
  show ?thesis by (simp add: execute_local_agent_loop_def Let_def current_loop_state_def)
qed

definition plain_loop_request :: loop_request where
  "plain_loop_request =
    \<lparr>lq_session = \<lparr>rs_session_id = ''s'', rs_turn_id = ''u'', rs_workspace_root = ''/w''\<rparr>, lq_messages = [''x''], lq_model_id_hash = ''m'',
     lq_max_tokens = 9, lq_max_tool_turns = 3, lq_privacy = PUBLIC_SAFE\<rparr>"

lemma agent_loop_bounded_witness:
  "\<exists>rt' r. execute_local_agent_loop (\<lambda>i. plain_runtime_env) (\<lambda>i. ''a'') (\<lambda>i ms. Gen_cancelled) True ''l'' plain_loop_request
      (runtime_init no_ssd_cache) = (rt', Some r) \<and> lo_turn_count r \<le> nat (lq_max_tool_turns plain_loop_request) \<and>
    (lo_terminal_state r = LS_loop_limit_reached \<longrightarrow> lo_turn_count r = nat (lq_max_tool_turns plain_loop_request)) \<and>
    length (lo_evidence_chain r) \<le> lo_turn_count r \<and> \<not> lr_loop_active rt' \<and> lr_session rt' = None \<and> current_loop_state rt' = LS_idle"
  by (rule agent_loop_bounded) (simp add: runtime_init_def)

lemma execute_failing_model:
  assumes "free (lr_scheduler rt)" and "ad_admitted (classify_and_admit env ms c)" and "chosen_model env m \<noteq> ''''"
  shows "snd (execute env op ms m k c n (Gen_error x) rt) = Returned (task_refused (classify_and_admit env ms c) TS_error RR_not_configured x)"
proof -
  let ?q = "scheduled_request_of op (re_now env) k ms (chosen_model env m) n"
  obtain rt1 b where s: "submit env ?q rt = (rt1, b)" by fastforce
  with submit_when_free [OF assms(1), of ?q "re_now env"] submit_keeps(2) [of env ?q rt] have b by simp
  with s assms(2,3) show ?thesis by (simp add: execute_def Let_def)
qed

text \<open>
  A model that fails at the first turn is reported as success: the loop ends as completed and executed, with an empty
  answer, no receipt and no sign of the error.
\<close>

theorem failing_model_reported_completed:
  assumes "free (lr_scheduler rt)" and "\<not> lr_loop_active rt" and "0 < lq_max_tool_turns q"
    and "ad_admitted (classify_and_admit (envs 1) (lq_messages q) (lq_privacy q))" and "chosen_model (envs 1) (lq_model_id_hash q) \<noteq> ''''"
    and "think 1 (lq_messages q) = Gen_error x"
  shows "\<exists>rt'. execute_local_agent_loop envs ops think ready loop_id q rt =
    (rt', Some \<lparr>lo_session_id = rs_session_id (lq_session q), lo_terminal_state = LS_completed, lo_final_content = '''', lo_observations = [],
      lo_turn_count = 1, lo_evidence_chain = [], lo_status = TS_executed\<rparr>)"
proof -
  obtain left where left: "nat (lq_max_tool_turns q) = Suc left" using assms(3) by (cases "nat (lq_max_tool_turns q)") auto
  let ?rt0 = "(bind_session ready (lq_session q) (rt\<lparr>lr_loop_active := True, lr_loop_max_turns := lq_max_tool_turns q, lr_loop_turn_count := 0\<rparr>))
      \<lparr>lr_loop_turn_count := Suc 0, lr_loop_state := LS_generating\<rparr>"
  have "free (lr_scheduler ?rt0)" using assms(1) by (simp add: bind_session_def)
  from execute_failing_model [OF this assms(4)] assms(5,6)
  obtain rt1 where "execute (envs (Suc 0)) (ops (Suc 0)) (lq_messages q) (lq_model_id_hash q) ''tool_proposal'' (lq_privacy q)
      (lq_max_tokens q) (think (Suc 0) (lq_messages q)) ?rt0 =
      (rt1, Returned (task_refused (classify_and_admit (envs 1) (lq_messages q) (lq_privacy q)) TS_error RR_not_configured x))"
    by (metis One_nat_def prod.collapse)
  with assms(2) left show ?thesis
    by (simp add: execute_local_agent_loop_def Let_def loop_answer_def task_refused_def)
qed

lemma failing_model_reported_completed_witness:
  "\<exists>rt'. execute_local_agent_loop (\<lambda>i. plain_runtime_env) (\<lambda>i. ''a'') (\<lambda>i ms. Gen_error ''oom'') True ''l'' plain_loop_request
      (runtime_init no_ssd_cache) =
    (rt', Some \<lparr>lo_session_id = rs_session_id (lq_session plain_loop_request), lo_terminal_state = LS_completed, lo_final_content = '''',
      lo_observations = [], lo_turn_count = 1, lo_evidence_chain = [], lo_status = TS_executed\<rparr>)"
  by (rule failing_model_reported_completed [where x = "''oom''"])
    (simp_all add: runtime_init_def free_def fcfs_init_def plain_loop_request_def plain_runtime_env_def classify_and_admit_def chosen_model_def Let_def)

end
