(* ===== verification/Runtime_Evidence.thy ===== *)
theory Runtime_Evidence
  imports Runtime_Properties
begin

text \<open>
  What the evidence of the local runtime is worth: the schemas its payloads are validated against, from
  \<^verbatim>\<open>docs/schemas/\<close> and \<^verbatim>\<open>rig_relay/local_inference/runtime/_evidence.py\<close>.  The outcome of a tool never conforms to its
  schema, so no tool leaves evidence; and a stream that began stays provisional, so the health of the streams is never
  complete again.
\<close>

section \<open>Schemas\<close>

text \<open>The part of JSON schemas that the repository uses: typed properties, required ones, and no others.\<close>

datatype json_type = JT_string | JT_integer | JT_number | JT_boolean | JT_string_or_null | JT_strings | JT_true | JT_enum "string list"

fun json_has_type :: "json_type \<Rightarrow> json \<Rightarrow> bool" where
  "json_has_type JT_string j = (case j of JStr s \<Rightarrow> True | _ \<Rightarrow> False)"
| "json_has_type JT_integer j = (case j of JInt n \<Rightarrow> True | _ \<Rightarrow> False)"
| "json_has_type JT_number j = (case j of JInt n \<Rightarrow> True | _ \<Rightarrow> False)"
| "json_has_type JT_boolean j = (case j of JBool b \<Rightarrow> True | _ \<Rightarrow> False)"
| "json_has_type JT_string_or_null j = (case j of JStr s \<Rightarrow> True | JNull \<Rightarrow> True | _ \<Rightarrow> False)"
| "json_has_type JT_strings j = (case j of JList js \<Rightarrow> list_all (\<lambda>x. case x of JStr s \<Rightarrow> True | _ \<Rightarrow> False) js | _ \<Rightarrow> False)"
| "json_has_type JT_true j = (j = JBool True)"
| "json_has_type (JT_enum vs) j = (case j of JStr s \<Rightarrow> s \<in> set vs | _ \<Rightarrow> False)"

record event_schema =
  es_required :: "string list"
  es_properties :: "(string \<times> json_type) list"

definition conforms :: "event_schema \<Rightarrow> json \<Rightarrow> bool" where
  "conforms sch j =
    (case j of
       JObj d \<Rightarrow>
         list_all (\<lambda>k. dict_get d k \<noteq> None) (es_required sch) \<and>
         list_all (\<lambda>(k, v). case map_of (es_properties sch) k of None \<Rightarrow> False | Some t \<Rightarrow> json_has_type t v) d
     | _ \<Rightarrow> False)"

definition EXECUTION_SCHEMA :: event_schema where
  "EXECUTION_SCHEMA =
    \<lparr>es_required = [''receipt_id'', ''operation_id'', ''task_id_hash'', ''status'', ''prompt_sha256'', ''output_sha256'', ''model_id_hash'',
       ''content_light'', ''schema_version''],
     es_properties = [(''schema_version'', JT_string), (''receipt_id'', JT_string), (''operation_id'', JT_string), (''task_id_hash'', JT_string),
       (''status'', JT_string), (''prompt_sha256'', JT_string), (''output_sha256'', JT_string), (''output_length_chars'', JT_integer),
       (''model_id_hash'', JT_string), (''latency_ms'', JT_number), (''prompt_tokens'', JT_integer), (''completion_tokens'', JT_integer),
       (''total_tokens'', JT_integer), (''finish_reason'', JT_string_or_null), (''tool_call_count'', JT_integer),
       (''tool_proposals_routed'', JT_boolean), (''context_privacy_class'', JT_string), (''content_light'', JT_true)]\<rparr>"

definition SCHEDULER_SCHEMA :: event_schema where
  "SCHEDULER_SCHEMA =
    \<lparr>es_required = [''schema_version'', ''operation_id'', ''transition'', ''from_state'', ''to_state'', ''content_light''],
     es_properties = [(''schema_version'', JT_string), (''operation_id'', JT_string), (''transition'', JT_string), (''from_state'', JT_string),
       (''to_state'', JT_string), (''content_light'', JT_true)]\<rparr>"

definition TOOL_PROPOSAL_SCHEMA :: event_schema where
  "TOOL_PROPOSAL_SCHEMA =
    \<lparr>es_required = [''schema_version'', ''task_id_hash'', ''proposal_count'', ''content_light''],
     es_properties = [(''schema_version'', JT_string), (''task_id_hash'', JT_string), (''proposal_count'', JT_integer),
       (''proposal_names_hash'', JT_string), (''proposal_args_hashes'', JT_strings), (''routed_to_governance'', JT_boolean),
       (''rejected_count'', JT_integer), (''admitted_count'', JT_integer), (''governance_latency_ms'', JT_number), (''content_light'', JT_true)]\<rparr>"

definition STREAM_TERMINAL_SCHEMA :: event_schema where
  "STREAM_TERMINAL_SCHEMA =
    \<lparr>es_required = [''schema_version'', ''operation_id'', ''terminal_state'', ''content_light''],
     es_properties = [(''schema_version'', JT_string), (''operation_id'', JT_string),
       (''terminal_state'', JT_enum [''provisional'', ''terminalized'', ''evidence_failed'']), (''evidence_receipt_id'', JT_string),
       (''content_light'', JT_true)]\<rparr>"

lemmas schema_defs = conforms_def EXECUTION_SCHEMA_def SCHEDULER_SCHEMA_def TOOL_PROPOSAL_SCHEMA_def STREAM_TERMINAL_SCHEMA_def dict_get_def

lemma tool_outcome_conforms_not:
  "\<not> conforms EXECUTION_SCHEMA (tool_payload env op task st p)"
  "\<not> conforms EXECUTION_SCHEMA (bridge_payload env op st out err p)"
  by (simp_all add: schema_defs tool_payload_def bridge_payload_def)


section \<open>Tools leave no evidence\<close>

definition unwritten :: "string \<Rightarrow> envelope_file \<Rightarrow> bool" where
  "unwritten op ls \<longleftrightarrow> (\<forall>es. read_lines ls = Inr es \<longrightarrow> op \<notin> rv_operation_id ` set es)"

lemma invalid_not_emitted:
  assumes "unwritten op (lr_files rt g)" and "\<not> rl_valid (re_ledger env g) pl"
  shows "emit env g pt op ev pl rt = (rt, None)"
proof -
  have "\<exists>x. append_envelope (re_ledger env g) whole now op ev pl (lr_files rt g) = (lr_files rt g, Inl x)" for whole now
  proof (cases "read_lines (lr_files rt g)")
    case (Inr es)
    then have "next_or_none (\<lambda>e. rv_operation_id e = op) es = None" using assms(1) by (auto simp: unwritten_def next_or_none_None)
    with Inr assms(2) show ?thesis by (simp add: append_envelope_eq [OF Inr] Let_def)
  qed (simp add: append_envelope_def append_locked_def)
  then obtain x1 x2 where "append_envelope (re_ledger env g) True (re_now env) op ev pl (lr_files rt g) = (lr_files rt g, Inl x1)"
    and "append_envelope (re_ledger env g) False (re_now env) op ev pl (lr_files rt g) = (lr_files rt g, Inl x2)" by meson
  moreover have "rt\<lparr>lr_files := (lr_files rt)(g := lr_files rt g)\<rparr> = rt" by simp
  ultimately show ?thesis by (cases "re_fate env pt") (simp_all add: emit_def)
qed

lemma tool_not_emitted:
  assumes "unwritten op (lr_files rt LG_execution)" and "rl_valid (re_ledger env LG_execution) = conforms EXECUTION_SCHEMA"
  shows "emit_tool_execution_outcome env pt op (tool_payload env op' task st p) rt = (rt, None)"
    and "emit_tool_execution_outcome env pt op (bridge_payload env op' st out err p) rt = (rt, None)"
  using assms by (simp_all add: emit_tool_execution_outcome_def invalid_not_emitted tool_outcome_conforms_not)

definition no_evidence :: "tool_outcome \<Rightarrow> bool" where
  "no_evidence o1 \<longleftrightarrow> oc_status o1 \<noteq> ''executed'' \<and> \<not> oc_evidence_emitted o1"

lemma preflight_no_evidence: "no_evidence (preflight_outcome env p)"
  by (simp add: no_evidence_def preflight_outcome_def preflight_status_def split: option.split)


lemma execute_proposal_unrecorded:
  assumes "unwritten (re_tool_op env i) (lr_files rt LG_execution)" and "rl_valid (re_ledger env LG_execution) = conforms EXECUTION_SCHEMA"
  shows "fst (execute_proposal env i p rt) = rt"
    and "snd (execute_proposal env i p rt) = Some o2 \<Longrightarrow> no_evidence o2"
proof -
  show "fst (execute_proposal env i p rt) = rt"
    using assms by (auto simp: execute_proposal_def Let_def tool_not_emitted split: option.split tool_effect.split)
  assume "snd (execute_proposal env i p rt) = Some o2"
  then show "no_evidence o2"
    using assms preflight_no_evidence [of env p]
    by (auto simp: execute_proposal_def Let_def tool_not_emitted no_evidence_def preflight_status_def split: option.splits tool_effect.splits if_splits)
qed

lemma run_tools_unrecorded:
  assumes "unwritten op (lr_files rt LG_execution)" and "\<forall>i. unwritten (re_tool_op env i) (lr_files rt LG_execution)"
    and "rl_valid (re_ledger env LG_execution) = conforms EXECUTION_SCHEMA"
  shows "\<forall>o1 \<in> snd ` set pos. no_evidence o1 \<Longrightarrow>
    fst (run_tools env op task i pos rt) = rt \<and> (\<forall>o1 \<in> set (fst (snd (run_tools env op task i pos rt))). no_evidence o1)"
proof (induction pos arbitrary: i)
  case (Cons po pos)
  obtain p o1 where po: "po = (p, o1)" by fastforce
  from Cons.prems have "no_evidence o1" and rest: "\<forall>o1 \<in> snd ` set pos. no_evidence o1" by (auto simp: po)
  note ex = execute_proposal_unrecorded [OF assms(2) [rule_format] assms(3), of i]
  obtain rt1 oo where e: "execute_proposal env i p rt = (rt1, oo)" by fastforce
  from ex(1) [of p] e have "rt1 = rt" by simp
  with ex(2) [of p] e Cons.IH [OF rest, of "Suc i"] \<open>no_evidence o1\<close> rest show ?case
    by (cases oo) (auto simp: po case_prod_beta Let_def tool_not_emitted [OF assms(1,3)] no_evidence_def)
qed simp

text \<open>A runtime for the witnesses whose ledgers validate with the schemas of the repository.\<close>

definition schema_of :: "evidence_ledger \<Rightarrow> event_schema" where
  "schema_of g = (case g of LG_execution \<Rightarrow> EXECUTION_SCHEMA | LG_scheduler \<Rightarrow> SCHEDULER_SCHEMA | LG_proposals \<Rightarrow> TOOL_PROPOSAL_SCHEMA
    | LG_terminal \<Rightarrow> STREAM_TERMINAL_SCHEMA)"

definition schema_runtime_env :: runtime_env where
  "schema_runtime_env = plain_runtime_env\<lparr>re_ledger := (\<lambda>g. plain_ledger_env\<lparr>rl_valid := conforms (schema_of g)\<rparr>)\<rparr>"

text \<open>
  C38: With the schema of the repository the handling of tool proposals records no tool at all: the execution ledger stays
  as it is, whatever ran, and no outcome says that a tool was executed with its evidence.  (New identifiers, as the code makes
  them, are not yet in the ledger.)
\<close>

theorem tools_leave_no_evidence:
  assumes "rl_valid (re_ledger env LG_execution) = conforms EXECUTION_SCHEMA" and "unwritten op (lr_files rt LG_execution)"
    and "\<forall>i. unwritten (re_tool_op env i) (lr_files rt LG_execution)"
  shows "lr_files (fst (handle_tool_proposals env ps task op rt)) LG_execution = lr_files rt LG_execution \<and>
    (\<forall>o1 \<in> set (snd (handle_tool_proposals env ps task op rt)). oc_status o1 \<noteq> ''executed'' \<and> \<not> oc_evidence_emitted o1)"
proof -
  let ?before = "map (preflight_outcome env) ps"
  let ?rt1 = "fst (emit env LG_proposals EM_proposals op ''rig.relay.runtime.tool_proposals_detected'' (proposals_payload env task ps ?before) rt)"
  have files: "lr_files ?rt1 LG_execution = lr_files rt LG_execution"
    by (simp add: emit_def case_prod_beta split: write_fate.split)
  have pre: "\<forall>o1 \<in> snd ` set (zip ps ?before). no_evidence o1"
    by (auto simp: preflight_no_evidence dest!: set_zip_rightD)
  have tools: "fst (run_tools env op task 0 (zip ps ?before) ?rt1) = ?rt1 \<and>
      (\<forall>o1 \<in> set (fst (snd (run_tools env op task 0 (zip ps ?before) ?rt1))). no_evidence o1)"
    by (rule run_tools_unrecorded [OF _ _ assms(1) pre]) (use assms(2,3) files in simp_all)
  have "no_evidence batch_outcome" by (simp add: no_evidence_def batch_outcome_def)
  with tools files preflight_no_evidence show ?thesis
    by (simp add: handle_tool_proposals_def Let_def case_prod_beta no_evidence_def)
qed

lemma tools_leave_no_evidence_witness:
  "lr_files (fst (handle_tool_proposals schema_runtime_env [\<lparr>tp_call_id = ''c'', tp_tool_name = ''bash'', tp_arguments = ''x''\<rparr>] ''t'' ''a''
      (bind_session True (lq_session plain_loop_request) (runtime_init no_ssd_cache)))) LG_execution = []"
  using tools_leave_no_evidence [of schema_runtime_env "''a''" "bind_session True (lq_session plain_loop_request) (runtime_init no_ssd_cache)"]
  by (simp add: schema_runtime_env_def schema_of_def plain_runtime_env_def plain_ledger_env_def unwritten_def bind_session_def runtime_init_def)

section \<open>Streams stay provisional\<close>

definition stays_provisional :: "string \<Rightarrow> (evidence_ledger \<Rightarrow> envelope_file) \<Rightarrow> bool" where
  "stays_provisional op files \<longleftrightarrow>
    (\<forall>es. read_lines (files LG_terminal) = Inr es \<longrightarrow>
      (\<exists>e \<in> set es. rv_operation_id e = op \<and> obj_field (rv_payload e) ''terminal_state'' = ''provisional''))"

lemma append_keeps_provisional:
  assumes "stays_provisional op files"
  shows "stays_provisional op (files(g := fst (append_envelope L whole now op' ev pl (files g))))"
proof (cases "read_lines (files g)")
  case (Inl x)
  then have "fst (append_envelope L whole now op' ev pl (files g)) = files g" by (simp add: append_envelope_def append_locked_def)
  with assms show ?thesis by simp
next
  case (Inr es)
  show ?thesis
    using Inr
  proof (cases rule: envelope_append_cases [where env = L and whole = whole and now = now and op = op' and event = ev and payload = pl])
    case 2
    then show ?thesis using assms read_lines_broken [OF Inr, of "[]"] by (auto simp: stays_provisional_def)
  next
    case (3 e)
    then show ?thesis using assms Inr read_lines_append [OF Inr, of e] by (cases "g = LG_terminal") (auto simp: stays_provisional_def)
  qed (use assms in simp)
qed

lemma emit_keeps_provisional:
  assumes "stays_provisional op (lr_files rt)"
  shows "stays_provisional op (lr_files (fst (emit env g pt op' ev pl rt)))"
  using assms append_keeps_provisional [OF assms] by (simp add: emit_def case_prod_beta split: write_fate.split)

interpretation provisional: evidence_invariant "stays_provisional op" "\<lambda>env. True" for op
  by unfold_locales (rule emit_keeps_provisional)

lemma call_ok_any: "call_ok (\<lambda>env. True) k"
  by (cases k) simp_all

lemma check_chain_seen: "check_chain env prev seen es = None \<Longrightarrow> e \<in> set es \<Longrightarrow> rv_operation_id e \<noteq> '''' \<Longrightarrow> rv_operation_id e \<notin> set seen"
  by (induction env prev seen es rule: check_chain.induct) (auto split: if_splits)

lemma check_chain_unique:
  "check_chain env prev seen es = None \<Longrightarrow> x \<in> set es \<Longrightarrow> e \<in> set es \<Longrightarrow> rv_operation_id x = rv_operation_id e \<Longrightarrow>
    rv_operation_id e \<noteq> '''' \<Longrightarrow> x = e"
proof (induction env prev seen es rule: check_chain.induct)
  case (2 env prev seen a es)
  let ?seen = "if rv_operation_id a = '''' then seen else rv_operation_id a # seen"
  from "2.prems"(1) have step: "check_chain env (envelope_digest env a) ?seen es = None" by (simp split: if_splits)
  have later: "rv_operation_id y \<noteq> rv_operation_id a" if "y \<in> set es" and "rv_operation_id y \<noteq> ''''" for y
    using check_chain_seen [OF step that] that(2) by (auto split: if_splits)
  have IH: "x = e" if "x \<in> set es" and "e \<in> set es"
    using "2.IH" "2.prems" that step by (simp split: if_splits)
  from "2.prems"(2-5) later [of x] later [of e] IH show ?case by fastforce
qed simp

lemma latest_states_unique:
  "e \<in> set es \<Longrightarrow> rv_operation_id e \<notin> set seen \<Longrightarrow> \<forall>x \<in> set es. rv_operation_id x = rv_operation_id e \<longrightarrow> x = e \<Longrightarrow>
    obj_field (rv_payload e) ''terminal_state'' \<in> set (latest_states seen es)"
  by (induction seen es rule: latest_states.induct) auto

lemma provisional_health:
  assumes "stays_provisional op files" and "op \<noteq> ''''"
  shows "stream_terminal_health L others (files LG_terminal) \<notin> {''complete'', ''empty''}"
proof (cases "reconstruct L (files LG_terminal)")
  case (Inr es)
  then have es: "read_lines (files LG_terminal) = Inr es" and chain: "check_chain L '''' [] es = None"
    by (auto simp: reconstruct_def split: sum.splits option.splits)
  with assms(1) obtain e where e: "e \<in> set es" "rv_operation_id e = op" "obj_field (rv_payload e) ''terminal_state'' = ''provisional''"
    by (auto simp: stays_provisional_def)
  with check_chain_unique [OF chain] assms(2) have "\<forall>x \<in> set (rev es). rv_operation_id x = rv_operation_id e \<longrightarrow> x = e" by simp
  from latest_states_unique [OF _ _ this, of "[]"] e have "''provisional'' \<in> set (latest_states [] (rev es))" by simp
  then have "''provisional'' \<in> set (filter (\<lambda>s. s \<in> {''terminalized'', ''provisional'', ''evidence_failed''}) (latest_states [] (rev es)))" by simp
  then show ?thesis unfolding stream_terminal_health_def Let_def Inr sum.case by (auto simp: filter_empty_conv split: if_splits)
qed (simp add: stream_terminal_health_def)

lemma emit_other_file: "g' \<noteq> g \<Longrightarrow> lr_files (fst (emit env g pt op ev pl rt)) g' = lr_files rt g'"
  by (simp add: emit_def case_prod_beta split: write_fate.split)

lemma with_scheduler_terminal: "lr_files (with_scheduler env f rt) LG_terminal = lr_files rt LG_terminal"
proof -
  have "lr_files (fold (emit_scheduler_event env) vs r) LG_terminal = lr_files r LG_terminal" for vs r
    by (induction vs arbitrary: r) (simp_all add: emit_scheduler_event_def emit_other_file)
  then show ?thesis by (simp add: with_scheduler_def Let_def)
qed

text \<open>The event at the beginning of a stream, when it can be written.\<close>

lemma provisional_written:
  assumes "read_lines (lr_files rt LG_terminal) = Inr es" and "op \<noteq> ''''" and "op \<notin> rv_operation_id ` set es"
    and "re_fate env EM_provisional = WF_ok" and "rl_valid (re_ledger env LG_terminal) = conforms STREAM_TERMINAL_SCHEMA"
    and "\<forall>e. rl_sha (re_ledger env LG_terminal) e \<noteq> ''''"
  shows "stays_provisional op (lr_files (emit_stream_terminal_event env EM_provisional op (terminal_payload op ''provisional'' '''') rt))"
proof -
  let ?L = "re_ledger env LG_terminal"
  let ?pl = "terminal_payload op ''provisional'' ''''"
  let ?e = "build_envelope ?L (re_now env) (chain_tip '''' es) op ''rig.relay.runtime.stream_terminalized'' ?pl"
  have "next_or_none (\<lambda>e. rv_operation_id e = op) es = None" using assms(3) by (auto simp: next_or_none_None)
  moreover have "conforms STREAM_TERMINAL_SCHEMA ?pl" by (simp add: schema_defs terminal_payload_def)
  moreover have "rv_digest ?e \<noteq> ''''" by (simp add: built_digest envelope_digest_def assms(6))
  ultimately have "fst (append_envelope ?L True (re_now env) op ''rig.relay.runtime.stream_terminalized'' ?pl (lr_files rt LG_terminal)) =
      lr_files rt LG_terminal @ [Entry ?e]"
    using assms(2,5) by (simp add: append_envelope_eq [OF assms(1)] Let_def)
  then have files: "lr_files (emit_stream_terminal_event env EM_provisional op ?pl rt) LG_terminal = lr_files rt LG_terminal @ [Entry ?e]"
    using assms(4) by (simp add: emit_stream_terminal_event_def emit_def case_prod_beta)
  have "obj_field (rv_payload ?e) ''terminal_state'' = ''provisional''" by (simp add: obj_field_def terminal_payload_def dict_get_def)
  then show ?thesis by (auto simp: stays_provisional_def files read_lines_append [OF assms(1)])
qed

lemma stream_stays_provisional:
  assumes "free (lr_scheduler rt)" and "snd (snd (stream_execute env op ms m k c n ld its rt)) = SO_ended e"
    and "read_lines (lr_files rt LG_terminal) = Inr es" and "op \<noteq> ''''" and "op \<notin> rv_operation_id ` set es"
    and "re_fate env EM_provisional = WF_ok" and "rl_valid (re_ledger env LG_terminal) = conforms STREAM_TERMINAL_SCHEMA"
    and "\<forall>e. rl_sha (re_ledger env LG_terminal) e \<noteq> ''''"
  shows "stays_provisional op (lr_files (fst (stream_execute env op ms m k c n ld its rt)))"
proof -
  let ?r = "scheduled_request_of op (re_now env) k ms (chosen_model env m) n"
  obtain rt1 b where s: "submit env ?r rt = (rt1, b)" by fastforce
  with submit_when_free [OF assms(1), of ?r "re_now env"] submit_keeps(2) [of env ?r rt] have b by simp
  let ?rt2 = "emit_stream_terminal_event env EM_provisional op (terminal_payload op ''provisional'' '''') (rt1\<lparr>lr_streams := lr_streams rt1 @ [op]\<rparr>)"
  have "lr_files rt1 LG_terminal = lr_files rt LG_terminal"
    using s with_scheduler_terminal by (metis fst_conv submit_def)
  with assms(3) have "read_lines (lr_files (rt1\<lparr>lr_streams := lr_streams rt1 @ [op]\<rparr>) LG_terminal) = Inr es" by simp
  from provisional_written [OF this assms(4-8)] have "stays_provisional op (lr_files ?rt2)" .
  with assms(2) s \<open>b\<close> show ?thesis
    by (auto simp: stream_execute_def Let_def case_prod_beta runtime_simps provisional.with_scheduler_holds provisional.receipts_hold
        provisional.finish_holds split: if_splits stream_end.splits)
qed

text \<open>
  C13: Once a stream has begun and its provisional event is written, the terminal event that would complete it is dropped as a
  duplicate, and so are all later ones: whatever is called afterwards, however the stream ended, the health of the streams
  is never complete (nor empty) again.
\<close>

theorem stream_health_never_complete:
  assumes "free (lr_scheduler rt)" and "snd (snd (stream_execute env op ms m k c n ld its rt)) = SO_ended e"
    and "read_lines (lr_files rt LG_terminal) = Inr es" and "op \<noteq> ''''" and "op \<notin> rv_operation_id ` set es"
    and "re_fate env EM_provisional = WF_ok" and "rl_valid (re_ledger env LG_terminal) = conforms STREAM_TERMINAL_SCHEMA"
    and "\<forall>e. rl_sha (re_ledger env LG_terminal) e \<noteq> ''''"
  shows "stream_terminal_health L others (lr_files (fold runtime_do ks (fst (stream_execute env op ms m k c n ld its rt))) LG_terminal)
    \<notin> {''complete'', ''empty''}"
  using provisional.calls_hold [OF _ stream_stays_provisional [OF assms], of ks] assms(4)
  by (intro provisional_health [where op = op]) (simp_all add: call_ok_any)

definition one_answer :: inference_response where
  "one_answer = \<lparr>ir_content = ''hi'', ir_finish_reason = ''stop'', ir_proposals = [], ir_prompt_tokens = 0, ir_completion_tokens = 1,
    ir_total_tokens = 0, ir_latency_ms = 0, ir_model_id_hash = ''m'', ir_cache_hit = False, ir_receipt_id = '''', ir_terminal_state = None\<rparr>"

lemma stream_health_never_complete_witness:
  "stream_terminal_health plain_ledger_env True (lr_files (fold runtime_do []
      (fst (stream_execute schema_runtime_env ''a'' [''x''] ''m'' ''k'' PUBLIC_SAFE 1 None [SI_token ''hi'', SI_done one_answer []]
        (runtime_init no_ssd_cache)))) LG_terminal) \<notin> {''complete'', ''empty''}"
  by (rule stream_health_never_complete [where e = "SE_done one_answer []" and es = "[]"])
    (simp_all add: runtime_init_def free_def fcfs_init_def stream_execute_def schema_runtime_env_def schema_of_def plain_runtime_env_def
      plain_ledger_env_def classify_and_admit_def chosen_model_def Let_def case_prod_beta submit_def fcfs_submit_def fcfs_enqueue_def fcfs_admit_next_def)

end
