(* ===== verification/Spec2Isabelle.thy ===== *)
theory Spec2Isabelle
  imports Supervisor_Loop Lane_Lifecycle Fleet_Properties Path_Leases Execution_Lease Fleet_Queue
    Mission_Authority Revocation_Authority Checkpoint_Transaction Governance_Gates Remote_Authorization
    Policy_Engine Recovery_Intake Recovery_Authority Disclosure_Recovery Capability_Admission Workspace_Properties
    Corridor_Properties Scheduler_Properties Model_Pool Runtime_Evidence
begin

text \<open>
  A model of the coordination, supervision, governance, recovery and workspace core of Rig Relay and
  of its governed local inference, the part of \<^verbatim>\<open>src/rig_relay/\<close> that decides which agent may touch
  which files, when a command may run, how a running command ends, what an authorization allows,
  which worktree may go, and what reaches a local model and its tools.  All
  definitions are executable HOL functions; exceptions are values (\<open>Inl\<close> of the type \<open>py_error\<close>);
  files are association lists from file stems to contents, with constructors for contents that do
  not parse.

  \<^bold>\<open>The program and the theories.\<close>

  \<^item> \<open>Relay_Prelude\<close>: Python dictionaries that keep insertion order, JSON lines, ISO
    timestamps (aware, naive or unparseable) and \<^verbatim>\<open>datetime\<close> arithmetic with its range,
    string helpers and results.  \<open>Json_Values\<close>: JSON values as the governance code reads them,
    their truth, and the canonical form that stands for their text.
  \<^item> \<open>Relay_Interfaces\<close>: five contracts as locales.  \<open>exclusive_registry\<close>: holders that live
    until a time and a symmetric clash relation; exclusion is kept by granting only without a
    clash and by dropping holders.  \<open>projected_log\<close>: a state folded from a log.  \<open>hash_chain\<close>:
    events sealed over the digest of their predecessor.  \<open>absorbing_machine\<close>: a step function
    that is undefined in terminal states.  \<open>metered_calls\<close>: calls that spend a credit.
    \<open>Sealed_Documents\<close>: \<open>sealed_document\<close>, a document that carries the digest of the rest of it.
    The contract of the operations of a workspace, \<open>workspace_invariant\<close>, is in \<open>Workspace_Safety\<close>;
    \<open>evidence_invariant\<close>, what each write of evidence keeps and so every call of the local runtime,
    is in \<open>Runtime_Properties\<close>.
  \<^item> \<open>Supervisor_Machine\<close>: \<^verbatim>\<open>runtime/supervisor_state_machine.py\<close>, the state record, the
    transition table, \<^verbatim>\<open>transition\<close>, \<^verbatim>\<open>next_wait_seconds\<close> and the projection.
    \<open>Supervisor_Loop\<close>: the supervision loop of \<^verbatim>\<open>RuntimeSupervisor.execute\<close> in
    \<^verbatim>\<open>runtime/supervisor.py\<close>, one \<open>tick\<close> of observations per iteration.
  \<^item> \<open>Path_Model\<close>: \<^verbatim>\<open>normalize_path\<close> of \<^verbatim>\<open>coordination/models.py\<close> with the part of
    \<^verbatim>\<open>PurePosixPath\<close> it uses, and the overlap tests of the two claim stores.
  \<^item> \<open>Lane_Lifecycle\<close>: \<^verbatim>\<open>governance/lane_lifecycle.py\<close>, lane states, sealed events, the ledger
    file with its checks, and \<^verbatim>\<open>transition_lane\<close> with every gate in source order.
  \<^item> \<open>Fleet_Ledger\<close>, \<open>Fleet_Claims\<close>: \<^verbatim>\<open>coordination/fleet_claims.py\<close>, the claim ledger and its
    replay, then every operation.  \<open>Fleet_Replay\<close>, \<open>Fleet_Safety\<close> hold the lemmas on the replay
    and the invariants of reachable stores, \<open>Fleet_Properties\<close> the properties.
  \<^item> \<open>Coordination_Models\<close>, \<open>Coordination_Store\<close>: \<^verbatim>\<open>coordination/models.py\<close> and
    \<^verbatim>\<open>coordination/store.py\<close>, sessions, task claims, path reservations, artifacts, conflicts,
    the event ledger and its integrity check.  \<open>Coordination_Properties\<close>: their properties.
  \<^item> \<open>Path_Leases\<close>: \<^verbatim>\<open>coordination/lease_manager.py\<close> and \<^verbatim>\<open>runtime/_lease_gate.py\<close>, which call
    the coordination store before a mutation tool runs.
  \<^item> \<open>Mission_Authority\<close>: \<^verbatim>\<open>governance/mission_authority.py\<close>, the authority derived from a task claim
    of the coordination store and its decision on a tool call.
  \<^item> \<open>Execution_Lease\<close>: \<^verbatim>\<open>coordination/execution_lease.py\<close>, leases on worktrees and workspaces.
  \<^item> \<open>Fleet_Queue\<close>: \<^verbatim>\<open>coordination/fleet_queue.py\<close>, the event-sourced work queue.
  \<^item> \<open>Auth_Receipts\<close>: \<^verbatim>\<open>governance/auth_receipts.py\<close>, the receipts of step-up authorization.
    \<open>Receipt_Store\<close>, \<open>Receipt_Lifecycle\<close>: \<^verbatim>\<open>governance/receipt_store.py\<close>, the files of preparation and
    validation receipts, then the ledger of their lifecycle with revocation and reconciliation,
    and the operations of the checkpoint tools that append to it.  \<open>Revocation_Authority\<close>:
    \<^verbatim>\<open>governance/revocation_authority.py\<close>, which joins the two.
  \<^item> \<open>Checkpoint_Transaction\<close>: \<^verbatim>\<open>governance/checkpoint_transaction.py\<close>, a commit built in a
    temporary index and a branch moved by compare-and-swap.
  \<^item> \<open>Governance_Gates\<close>: \<^verbatim>\<open>governance/decisions.py\<close>, \<^verbatim>\<open>governance_engine.py\<close>,
    \<^verbatim>\<open>local_action_envelope.py\<close> and \<^verbatim>\<open>local_action_gate.py\<close>.
  \<^item> \<open>Remote_Authorization\<close>: \<^verbatim>\<open>governance/remote_action_authorization.py\<close>, receipts for actions on
    remote services, issued, validated and consumed.
  \<^item> \<open>Disclosure_Authorization\<close>: \<^verbatim>\<open>governance/disclosure_authorization.py\<close>, authorizations for the
    disclosure of one piece of evidence.  \<open>Protected_Manifest\<close>:
    \<^verbatim>\<open>review_projection/protected_content.py\<close>, what a review bundle hides.  \<open>Disclosure_Transition\<close>:
    \<^verbatim>\<open>governance/disclosure_transition.py\<close>, the corridor that joins the two in recorded steps;
    \<open>Disclosure_Recovery\<close>: what a crash leaves and what its recovery makes of it.
  \<^item> \<open>Policy_Engine\<close>: \<^verbatim>\<open>enterprise/policy_engine.py\<close>, the twelve release gates.
  \<^item> \<open>Recovery_Intake\<close>: \<^verbatim>\<open>recovery/alias_policy.py\<close>, \<^verbatim>\<open>tool_surface_manifest.py\<close>,
    \<^verbatim>\<open>transducer.py\<close> and \<^verbatim>\<open>admission_policy.py\<close>, from a malformed tool call to its admission.
    \<open>Recovery_Authority\<close>: \<^verbatim>\<open>evidence_ledger.py\<close>, \<^verbatim>\<open>intent_authority.py\<close> and \<^verbatim>\<open>intent_query.py\<close>, where
    recovered calls are kept.  \<open>Recovery_Evaluation\<close>: \<^verbatim>\<open>receipt.py\<close>, \<^verbatim>\<open>evaluation.py\<close>, \<^verbatim>\<open>handoff.py\<close>.
  \<^item> \<open>Constraint_Compiler\<close>, \<open>Constrained_Execution\<close>, \<open>Execution_Reports\<close>, \<open>Capability_Admission\<close>:
    \<^verbatim>\<open>recovery/constraint_compiler.py\<close>, \<^verbatim>\<open>constrained_execution.py\<close> and \<^verbatim>\<open>capability_admission.py\<close>, a model
    asked for a call under a compiled schema, what is reported of it, and the admission of
    runtimes by what they demonstrated.
  \<^item> \<open>Workspace_Lifecycle\<close>: \<^verbatim>\<open>workspace/models.py\<close>, the table of \<^verbatim>\<open>_service.py\<close>, \<^verbatim>\<open>_evidence.py\<close> and
    \<^verbatim>\<open>_digest.py\<close>.  \<open>Workspace_Service\<close>, \<open>Workspace_Removal\<close>, \<open>Workspace_Assignment\<close>:
    \<^verbatim>\<open>workspace/_service.py\<close> and \<^verbatim>\<open>_recovery.py\<close>, from a request to publication, the ends of a
    workspace, its sessions.  \<open>Workspace_Boundaries\<close>: its boundary claims in the fleet claim store and
    \<^verbatim>\<open>_projection.py\<close>.  \<open>Workspace_Safety\<close>: the contract and every operation under it;
    \<open>Workspace_Properties\<close>: the properties.
  \<^item> \<open>Claim_Corridor\<close>: \<^verbatim>\<open>coordination/fleet_claim_corridor.py\<close>, a second ledger, of claims of single
    paths, with the attributes of files that mirror it; \<open>Corridor_Properties\<close>: the lock table it
    refines and what it promises.
  \<^item> \<^verbatim>\<open>local_inference/runtime/\<close>: \<open>Inference_Scheduler\<close>, \<^verbatim>\<open>_scheduler.py\<close>, the serial and the batching
    scheduler, with \<open>Scheduler_Properties\<close>; \<open>Model_Pool\<close>, \<^verbatim>\<open>_pool.py\<close>; \<open>Prompt_Cache\<close>,
    \<^verbatim>\<open>_cache_authority.py\<close>; \<open>Runtime_Ledger\<close>, the ledgers of \<^verbatim>\<open>_evidence.py\<close>; \<open>Local_Runtime\<close>,
    \<^verbatim>\<open>_service.py\<close> and \<^verbatim>\<open>_bridge.py\<close>: admission, execution, streams, tools, drains, the agent loop.
    \<open>Runtime_Properties\<close>: the runtime as one slot, its secrets, tools, ledgers and loop;
    \<open>Runtime_Evidence\<close>: the schemas under \<^verbatim>\<open>docs/schemas/\<close> and what its evidence is worth.

  \<^bold>\<open>State and interaction.\<close>  The lease gate calls the lease manager, which calls the
  coordination store; the public revocation validates an authorization receipt and calls the
  receipt store; the checkpoint tools consume and supersede receipts in its ledger; the disclosure
  corridor consumes authorizations and changes manifests; constrained executions pass through the
  transducer and append to the evidence ledger; the workspace service acquires and releases claims
  of the fleet claim store; the local runtime submits to the serial scheduler, asks the governance
  engine about tools, stores prompts in the cache and writes all evidence to its ledgers.  The fleet claims, the lanes, the execution leases, the queue, the
  receipts, the authorizations and the workspaces each own their files.  The stores hold a lock
  during a call, so a call is one step, except where the code reads before it locks; there the
  steps are separate (\<open>interleaved_transition_leaves_terminal_state\<close>, \<open>revoke_check\<close> and
  \<open>revoke_commit\<close>, \<open>RConsumeLate\<close>).  The execution leases, the queue and the workspaces have no
  lock; their properties are about calls that do not overlap in time.  The workspace service holds
  workspaces in memory and mutates them in place, beside their files; both are in its state.  In
  the disclosure corridor every durable write has a fate: made, failed, or the process dies before
  it; in the workspace service every write succeeds or raises.  Reachable stores are inductive
  predicates over sequences of calls, with a clock that does not go back where the clock matters
  (\<open>fleet_reachable\<close>, \<open>coord_reachable\<close>, \<open>lane_reachable\<close>, \<open>lease_reachable\<close>, \<open>queue_reachable\<close>,
  \<open>lc_reachable\<close>, \<open>ws_reachable\<close>); sequences of authorization calls and of calls of the local
  runtime and its parts are lists.  A stream is one call with all that its consumer meets; calls of
  the runtime that overlap in time are not modelled, except that a stream may be left open.

  \<^bold>\<open>What the lemmas show.\<close>  Exclusion of fleet claims, path reservations and worktree leases in
  every reachable store; that a grant is recorded and a refusal names a conflict; that ended
  claims, workspaces and terminal states stay ended; that ledgers are chained, ordered and bound
  to their last digest; that a lane's state certifies its history; that a mission authority
  admits no write outside its claim; how the supervision loop ends and
  that it ends by its deadline; the scheduling choice of the queue.  That receipts are read back
  as they were written and a change is noticed; who may revoke and consume one, and how often;
  that an interrupted disclosure can be completed; that the checkpoint transaction touches nothing
  but its branch; that the gate for local actions admits signed envelopes only; when the release
  gates say execute; that no recovered call of a writing tool runs by itself and a materialized
  intent does not change; under which schema a constrained call ran.  That a transition of a
  workspace happens with its event or not at all, that a worktree goes only when it is clean or
  force was asked for, and that a boundary is held only with its evidence.  That the ledger of the
  corridor is a lock table and an owned path stays owned until its owner releases it.  That the
  scheduler of local inference accounts for every request and the local runtime is one slot, free
  after every task that ends; that secrets do not reach its model, that only admitted proposals reach
  a tool, that its ledgers verify and its loop ends.  Other properties state
  where the code does not keep a promise: unnormalised paths, the path \<^verbatim>\<open>"."\<close>, renewals that
  turn write leases into read leases, task claims released by another session, an expiry out of
  range, hard stalls after a recovery, receipts consumed after their end or more often than
  issued for, payload aliases that raise, sessions lost at activation, worktrees removed by a
  retirement that is then refused, streams closed by their consumer that block the local runtime,
  evidence of tools that no schema admits, terminal events that are dropped.

  \<^bold>\<open>Parameters.\<close>  SHA-256 over canonical JSON, JSON-schema validation, Ed25519, base64 and salted
  path hashes are function arguments.  Where a property asks something of them, the hypothesis
  names it: no collision on the two values compared (\<open>lane_ledger_tamper_evident\<close>,
  \<open>receipt_tamper_evident\<close>), a signature that verifies for the signed bytes only
  (\<open>signed_envelope_admitted_iff\<close>), digests that hold no confidential marker
  (\<open>multi_use_receipt_overrun\<close>).  \<^verbatim>\<open>Path.resolve\<close> is one too;
  \<open>authority_stays_within_claim\<close> asks that resolving a resolved path gives it back.  git is an
  argument acting on a repository of any type; \<open>git_documented\<close> states what its manual says of the
  commands used, and \<open>demo_git\<close> satisfies it.  For the workspaces git and the file system are the
  answers of one record, \<open>git_world\<close>, during a call.  The local model is a function from requests to
  answers; of the local runtime the tools, the scan for secrets, the library's own cache and the fate
  of each write of evidence are in \<open>runtime_env\<close>.  The files the policy engine reads are an argument.  Clock readings, fresh identifiers,
  locks that are not obtained and the failure of writes are arguments of the operations that read
  or suffer them.  There is no fuel: every loop of the source that is modelled runs over a list,
  and the supervision loop over the ticks it observes; that it has returned by the first tick at
  the deadline is a property.

  \<^bold>\<open>Not modelled.\<close>  Processes, signals and output streams of the supervisor, its policy admission
  and terminal envelope; JSON text; file-system failures other than those named in the theories;
  worktree management of the fleet over git, the queue runner and the fleet projections; mission
  envelopes, the disclosure queries and reports under \<^verbatim>\<open>governance/\<close>; the inline string form of
  recovered calls and the text reports under \<^verbatim>\<open>recovery/\<close>; the rest of \<^verbatim>\<open>enterprise/\<close>; of local
  inference the engine, the inventory, the probe of the hardware and the projections; the agent
  core, integrations, user interfaces and reports.  These are prompts, processes, network clients
  and rendering around the parts above.
\<close>

section \<open>Properties across components\<close>

lemma gate_reachable:
  assumes "coord_reachable st t" and "t \<le> ck_now ck" and "normalize_path p = p"
    and "claim_mutation_lease env ck e p st = (st', out)" and "lo_granted out"
  shows "coord_reachable st' (ck_now ck)"
proof -
  obtain q where "reserve_paths env ck (env_session_id e) (env_task_id e) Mode_write [p]
      (int_or (env_lease_ttl_seconds e) DEFAULT_LEASE_TTL_SECONDS) st = (st', Inr q)"
    using assms(4,5) by (rule gate_granted)
  with coord_reachable.call [OF assms(1,2), of "ReservePaths (env_session_id e) (env_task_id e) Mode_write [p]
      (int_or (env_lease_ttl_seconds e) DEFAULT_LEASE_TTL_SECONDS)" env] assms(3)
  show ?thesis by simp
qed

text \<open>The stores that further calls, with normalised reservations, make of a store.\<close>

inductive coord_continues :: "CoordinationStore \<Rightarrow> int \<Rightarrow> CoordinationStore \<Rightarrow> int \<Rightarrow> bool" where
  stays: "coord_continues st t st t"
| call: "coord_continues st t st1 t1 \<Longrightarrow> t1 \<le> ck_now ck \<Longrightarrow> normal_request cmd \<Longrightarrow>
    coord_continues st t (coord_exec env ck cmd st1) (ck_now ck)"

lemma continues_reachable: "coord_continues st t st1 t1 \<Longrightarrow> coord_reachable st t \<Longrightarrow> coord_reachable st1 t1"
  by (induction rule: coord_continues.induct) (auto intro: coord_reachable.call)

text \<open>From now on, as long as a lease lives, no live lease of another owner overlaps its paths.\<close>

definition sole_holder :: "CoordinationStore \<Rightarrow> int \<Rightarrow> CoordinationPathReservation \<Rightarrow> bool" where
  "sole_holder st now v \<longleftrightarrow>
    (\<forall>t' j r. now \<le> t' \<longrightarrow> lease_live t' v \<longrightarrow> lease_live t' r \<longrightarrow> dict_get (cs_leases st) j = Some (Some r) \<longrightarrow>
       (pr_session_id r, pr_task_id r) \<noteq> (pr_session_id v, pr_task_id v) \<longrightarrow> \<not> overlapping (pr_paths v) (pr_paths r))"

lemma reachable_sole_holder:
  assumes "coord_reachable st now" and "dict_get (cs_leases st) k = Some (Some v)" and "pr_mode v = Mode_write"
  shows "sole_holder st now v"
  unfolding sole_holder_def
proof (intro allI impI)
  fix t' j r
  assume r: "now \<le> t'" "lease_live t' v" "lease_live t' r" "dict_get (cs_leases st) j = Some (Some r)"
    "(pr_session_id r, pr_task_id r) \<noteq> (pr_session_id v, pr_task_id v)"
  have "leases.excl (cs_leases st) t'"
    using reachable_leases_inv [OF assms(1)] leases.excl_later [OF _ r(1)] by (simp add: leases_inv_def)
  from lease_pair_free [OF this assms(2) r(4,2,3)] r(5) assms(3)
  show "\<not> overlapping (pr_paths v) (pr_paths r)" by metis
qed

text \<open>
  C2: what the lease gate guarantees a mutation tool, in a store all of whose reservations so
  far were asked for in normal form.  With coordination enabled, session, task and path given,
  the gate either grants or blocks, and blocks on every error of the store.  When it grants a
  normalised path, the store holds an active write lease of the caller on that path; and after
  any further calls, again with normalised reservations and a clock that does not go back, as
  long as that lease is on file and has not expired, no live lease of another session or task
  overlaps the path.
\<close>

theorem mutation_gate_exclusive:
  assumes "coord_reachable st t" and "t \<le> ck_now ck" and "normalize_path p = p" and "p \<noteq> ''''"
    and "env_coordination_enabled e" and "env_session_id e \<noteq> ''''" and "env_task_id e \<noteq> ''''"
    and "claim_mutation_lease env ck e p st = (st', out)"
  shows "(lo_blocked out \<longleftrightarrow> \<not> lo_granted out) \<and>
    (lo_granted out \<longrightarrow> (\<exists>k v. dict_get (cs_leases st') k = Some (Some v) \<and>
       pr_session_id v = env_session_id e \<and> pr_task_id v = env_task_id e \<and> pr_mode v = Mode_write \<and>
       pr_status v = Rs_active \<and> pr_paths v = [p] \<and> sole_holder st' (ck_now ck) v \<and>
       (\<forall>st2 t2. coord_continues st' (ck_now ck) st2 t2 \<longrightarrow>
          dict_get (cs_leases st2) k = Some (Some v) \<longrightarrow> sole_holder st2 t2 v)))"
proof (intro conjI impI)
  show "lo_blocked out \<longleftrightarrow> \<not> lo_granted out"
    using gate_decides [OF assms(8,5,6,7,4)] .
  assume granted: "lo_granted out"
  obtain q where q: "reserve_paths env ck (env_session_id e) (env_task_id e) Mode_write [p]
      (int_or (env_lease_ttl_seconds e) DEFAULT_LEASE_TTL_SECONDS) st = (st', Inr q)" "rr_allowed q"
    using assms(8) granted by (rule gate_granted)
  then obtain v where v: "dict_get (cs_leases st') (lease_key env (env_session_id e) (env_task_id e) (map normalize_path [p])) = Some (Some v)"
      "pr_mode v = Mode_write" "pr_session_id v = env_session_id e" "pr_task_id v = env_task_id e"
      "pr_paths v = map normalize_path [p]" "pr_status v = Rs_active"
    by (rule reserve_granted)
  note now = gate_reachable [OF assms(1-3,8) granted]
  have "sole_holder st' (ck_now ck) v" using reachable_sole_holder [OF now v(1,2)] .
  moreover have "\<forall>st2 t2. coord_continues st' (ck_now ck) st2 t2 \<longrightarrow>
      dict_get (cs_leases st2) (lease_key env (env_session_id e) (env_task_id e) (map normalize_path [p])) = Some (Some v) \<longrightarrow>
      sole_holder st2 t2 v"
    using continues_reachable [OF _ now] reachable_sole_holder v(2) by blast
  ultimately show "\<exists>k v. dict_get (cs_leases st') k = Some (Some v) \<and>
       pr_session_id v = env_session_id e \<and> pr_task_id v = env_task_id e \<and> pr_mode v = Mode_write \<and>
       pr_status v = Rs_active \<and> pr_paths v = [p] \<and> sole_holder st' (ck_now ck) v \<and>
       (\<forall>st2 t2. coord_continues st' (ck_now ck) st2 t2 \<longrightarrow>
          dict_get (cs_leases st2) k = Some (Some v) \<longrightarrow> sole_holder st2 t2 v)"
    using v assms(3) by (intro exI [of _ "lease_key env (env_session_id e) (env_task_id e) (map normalize_path [p])"]
        exI [of _ v]) simp
qed

definition demo_envelope :: mutation_envelope where
  "demo_envelope = \<lparr>env_coordination_enabled = True, env_session_id = ''s3'', env_task_id = ''t3'', env_lease_ttl_seconds = None,
     env_invocation_id = ''i3'', env_tool_name = ''write_file''\<rparr>"

theorem mutation_gate_exclusive_witness:
  "\<exists>st' out st'' out'. claim_mutation_lease demo_coord_env (demo_clock 2) demo_envelope ''etc'' demo_coord2 = (st', out) \<and>
     lo_granted out \<and> \<not> lo_blocked out \<and>
     claim_mutation_lease demo_coord_env (demo_clock 2) demo_envelope ''src'' demo_coord2 = (st'', out') \<and>
     lo_blocked out' \<and> \<not> lo_granted out'"
proof -
  obtain st' out where a: "claim_mutation_lease demo_coord_env (demo_clock 2) demo_envelope ''etc'' demo_coord2 = (st', out)" by fastforce
  obtain st'' out' where b: "claim_mutation_lease demo_coord_env (demo_clock 2) demo_envelope ''src'' demo_coord2 = (st'', out')" by fastforce
  have norm: "normalize_path ''etc'' = ''etc''" by (simp add: normalize_path_def path_parts_def splitroot_def)
  have eval: "lo_granted (snd (claim_mutation_lease demo_coord_env (demo_clock 2) demo_envelope ''etc'' demo_coord2))"
    "\<not> lo_granted (snd (claim_mutation_lease demo_coord_env (demo_clock 2) demo_envelope ''src'' demo_coord2))"
    by (simp_all add: demo_coord2_def demo_coord1_def coord_evaluation demo_coord_env_def normalize_demo norm lease_key_def
        dict_set_def dict_get_def is_prefix_def startswith_def rstrip_slash_def demo_envelope_def
        claim_mutation_lease_def claim_paths_def DEFAULT_LEASE_TTL_SECONDS_def int_or_def refuse_reservation_def
        conflict_result_def gate_blocked_def)
  have props: "env_coordination_enabled demo_envelope" "env_session_id demo_envelope \<noteq> ''''" "env_task_id demo_envelope \<noteq> ''''"
    "(1 :: int) \<le> ck_now (demo_clock 2)"
    by (simp_all add: demo_envelope_def demo_clock_def)
  show ?thesis
    using mutation_gate_exclusive [OF demo_coord_reachable props(4) norm _ props(1-3) a]
      mutation_gate_exclusive [OF demo_coord_reachable props(4) normalize_demo(1) _ props(1-3) b] eval a b by auto
qed

end
